(* ===== verification/Prelude.thy ===== *)
theory Prelude
  imports Main "HOL-Library.Word"
begin

text \<open>
  Shared vocabulary of the development: the machine integer types of the C sources, big-endian
  (network order) encodings as byte lists, reads from a memory object that may run past its
  initialised bytes, the outcomes of memory allocation and of faulting operations, and the
  generic list lemmas that the components share.
\<close>

section \<open>Machine integers and allocation\<close>

type_synonym byte = "8 word"
type_synonym u8 = "8 word"
type_synonym u16 = "16 word"
type_synonym u32 = "32 word"
type_synonym u64 = "64 word"

text \<open>
  What the code asks of the allocator. An \<open>allocator\<close> says which requests succeed; every
  definition that allocates takes it as an argument, so that each out-of-memory branch of the
  source is a branch of the model.
\<close>

datatype alloc_req =
    Realloc_Bytes nat
  | Malloc_Bytes nat
  | Malloc_Node_Entry
  | Malloc_Send_Buffer
  | Malloc_Timer
  | Malloc_Client
  | Malloc_Cluster
  | Malloc_Partition
  | Malloc_Client_Algo_Data
  | Malloc_Cluster_Algo_Data
  | Malloc_Exec_List_Entry
  | Malloc_Notifier_Item
  | Malloc_Algo_Lms_Data
  | Malloc_Process_Entry
  | Malloc_Unix_Client
  | Malloc_Net_Instance
  | Malloc_Poll_Loop_Entry
  | Malloc_Ipc_User_Data

type_synonym allocator = "alloc_req \<Rightarrow> bool"

text \<open>
  Ways in which an operation of the source leaves the defined behaviour or ends the process:
  a pointer that is used with the wrong type or after it was freed, an access behind an array, a failed \<open>assert\<close>, a
  call of \<open>exit\<close> and a division by zero.
\<close>

datatype fault =
    Type_Confusion
  | Null_Deref
  | Double_Free
  | Uninitialised_Read
  | Assert_Failure
  | Exit_Failure
  | Arithmetic_Fault
  | Out_Of_Bounds
  | Use_After_Free

definition bindE :: "'e + 'a \<Rightarrow> ('a \<Rightarrow> 'e + 'b) \<Rightarrow> 'e + 'b" where
  "bindE m f = (case m of Inl e \<Rightarrow> Inl e | Inr x \<Rightarrow> f x)"

lemma bindE_simps [simp]:
  "bindE (Inl e) f = Inl e"
  "bindE (Inr x) f = f x"
  by (simp_all add: bindE_def)

lemma bindE_Inr_iff: "bindE m f = Inr y \<longleftrightarrow> (\<exists>x. m = Inr x \<and> f x = Inr y)"
  by (cases m) auto

text \<open>What holds of the result of a computation that did not end in a fault.\<close>

definition holdsE :: "('a \<Rightarrow> bool) \<Rightarrow> 'e + 'a \<Rightarrow> bool" where
  "holdsE P m = (case m of Inl e \<Rightarrow> True | Inr x \<Rightarrow> P x)"

lemma holdsE_simps [simp]:
  "holdsE P (Inl e)" "holdsE P (Inr x) \<longleftrightarrow> P x" "holdsE P (bindE m f) \<longleftrightarrow> holdsE (\<lambda>x. holdsE P (f x)) m"
  by (simp_all add: holdsE_def bindE_def split: sum.split)

lemma holdsE_D: "holdsE P m \<Longrightarrow> m = Inr x \<Longrightarrow> P x"
  by simp

lemma holdsE_I: "(\<And>x. m = Inr x \<Longrightarrow> P x) \<Longrightarrow> holdsE P m"
  by (cases m) simp_all

lemma holdsE_mono: "holdsE P m \<Longrightarrow> (\<And>x. P x \<Longrightarrow> Q x) \<Longrightarrow> holdsE Q m"
  by (cases m) simp_all

named_theorems wire_simps \<open>lengths and inverses of wire encodings\<close>
named_theorems enum_simps \<open>numeric codes of the enumerations and their inverses\<close>

lemma unat_bound: "unat (w :: 'a::len word) < 2 ^ LENGTH('a)"
  by (rule unsigned_less)

section \<open>Network byte order\<close>

primrec enc_be :: "nat \<Rightarrow> nat \<Rightarrow> byte list" where
  "enc_be 0 x = []"
| "enc_be (Suc n) x = of_nat (x div 256 ^ n) # enc_be n x"

definition dec_be :: "byte list \<Rightarrow> nat" where
  "dec_be bs = foldl (\<lambda>a b. a * 256 + unat b) 0 bs"

lemma length_enc_be [simp, wire_simps]: "length (enc_be n x) = n"
  by (induction n) auto

lemma foldl_be_shift:
  "foldl (\<lambda>a b. a * 256 + unat b) k bs = k * 256 ^ length bs + dec_be (bs :: byte list)"
proof (induction bs arbitrary: k)
  case Nil
  show ?case by (simp add: dec_be_def)
next
  case (Cons b bs)
  have "foldl (\<lambda>a b. a * 256 + unat b) k (b # bs) =
      (k * 256 + unat b) * 256 ^ length bs + dec_be bs"
    by (simp add: Cons.IH)
  moreover have "dec_be (b # bs) = unat b * 256 ^ length bs + dec_be bs"
    by (simp add: dec_be_def Cons.IH [of "unat b", unfolded dec_be_def])
  ultimately show ?case
    by (simp add: algebra_simps)
qed

lemma dec_be_Nil [simp]: "dec_be [] = 0"
  by (simp add: dec_be_def)

lemma dec_be_Cons: "dec_be (b # bs) = unat b * 256 ^ length bs + dec_be bs"
  using foldl_be_shift [of "unat b" bs] by (simp add: dec_be_def)

lemma dec_be_bound: "dec_be bs < 256 ^ length bs"
proof (induction bs)
  case Nil
  show ?case by simp
next
  case (Cons b bs)
  have "unat b \<le> 255"
    using unat_bound [of b] by simp
  then have "unat b * 256 ^ length bs \<le> 255 * 256 ^ length bs"
    by (rule mult_le_mono1)
  moreover have "256 ^ length (b # bs) = 255 * 256 ^ length bs + (256 ^ length bs :: nat)"
    by simp
  ultimately show ?case
    using Cons.IH unfolding dec_be_Cons by linarith
qed

lemma dec_enc_be [simp, wire_simps]: "dec_be (enc_be n x) = x mod 256 ^ n"
proof (induction n)
  case 0
  show ?case by simp
next
  case (Suc n)
  have "unat (of_nat (x div 256 ^ n) :: byte) = x div 256 ^ n mod 256"
    by (simp add: unat_of_nat)
  then have "dec_be (enc_be (Suc n) x) = x div 256 ^ n mod 256 * 256 ^ n + x mod 256 ^ n"
    by (simp add: dec_be_Cons Suc.IH)
  also have "\<dots> = x mod 256 ^ Suc n"
    using mod_mult2_eq [of x "256 ^ n" 256] by (simp add: mult.commute)
  finally show ?case .
qed

lemma enc_dec_be: "enc_be (length bs) (k * 256 ^ length bs + dec_be bs) = bs"
proof (induction bs arbitrary: k)
  case Nil
  show ?case by simp
next
  case (Cons b bs)
  let ?x = "k * 256 ^ length (b # bs) + dec_be (b # bs)"
  have x: "?x = (k * 256 + unat b) * 256 ^ length bs + dec_be bs"
    by (simp add: dec_be_Cons algebra_simps)
  have d: "?x div 256 ^ length bs = k * 256 + unat b"
    unfolding x using dec_be_bound [of bs] by simp
  have "(of_nat (k * 256 + unat b) :: byte) = of_nat (k * 256) + b"
    by simp
  also have "(of_nat (k * 256) :: byte) = 0"
    by (simp only: word_of_nat_eq_0_iff) simp
  finally have "(of_nat (?x div 256 ^ length bs) :: byte) = b"
    unfolding d by simp
  moreover have "enc_be (length bs) ?x = bs"
    unfolding x by (rule Cons.IH)
  ultimately show ?case by simp
qed

definition be16 :: "u16 \<Rightarrow> byte list" where "be16 w = enc_be 2 (unat w)"
definition be32 :: "u32 \<Rightarrow> byte list" where "be32 w = enc_be 4 (unat w)"
definition be64 :: "u64 \<Rightarrow> byte list" where "be64 w = enc_be 8 (unat w)"

definition rd16 :: "byte list \<Rightarrow> u16" where "rd16 bs = of_nat (dec_be bs)"
definition rd32 :: "byte list \<Rightarrow> u32" where "rd32 bs = of_nat (dec_be bs)"
definition rd64 :: "byte list \<Rightarrow> u64" where "rd64 bs = of_nat (dec_be bs)"

lemma length_be [simp, wire_simps]:
  "length (be16 w) = 2" "length (be32 x) = 4" "length (be64 y) = 8"
  by (simp_all add: be16_def be32_def be64_def)

lemma be_neq_Nil [simp]: "be16 w \<noteq> []" "be32 x \<noteq> []" "be64 y \<noteq> []"
  by (metis length_be(1) list.size(3) zero_neq_numeral)
    (metis length_be(2) list.size(3) zero_neq_numeral,
     metis length_be(3) list.size(3) zero_neq_numeral)

lemma rd_be [simp, wire_simps]: "rd16 (be16 w) = w" "rd32 (be32 x) = x" "rd64 (be64 y) = y"
  using unat_bound [of w] unat_bound [of x] unat_bound [of y]
  by (simp_all add: be16_def be32_def be64_def rd16_def rd32_def rd64_def)

lemma be_rd:
  "length bs = 2 \<Longrightarrow> be16 (rd16 bs) = bs"
  "length bs = 4 \<Longrightarrow> be32 (rd32 bs) = bs"
  "length bs = 8 \<Longrightarrow> be64 (rd64 bs) = bs"
  using dec_be_bound [of bs] enc_dec_be [of bs 0]
  by (auto simp: be16_def be32_def be64_def rd16_def rd32_def rd64_def unat_of_nat)

text \<open>
  The interface between the field encoders and the decoders: a fixed-width codec. Its laws give
  the layout of an array of elements (\<open>tlv_add_u16_array\<close>) and its inverse once for all widths.
\<close>

primrec chunks :: "nat \<Rightarrow> nat \<Rightarrow> 'a list \<Rightarrow> 'a list list" where
  "chunks w 0 xs = []"
| "chunks w (Suc n) xs = take w xs # chunks w n (drop w xs)"

lemma length_chunks [simp]: "length (chunks w n xs) = n"
  by (induction n arbitrary: xs) auto

locale fixed_codec =
  fixes enc :: "'a \<Rightarrow> byte list"
    and dec :: "byte list \<Rightarrow> 'a"
    and width :: nat
  assumes enc_length: "length (enc x) = width"
    and dec_enc: "dec (enc x) = x"
begin

lemma enc_inject: "enc x = enc y \<longleftrightarrow> x = y"
  by (metis dec_enc)

lemma array_length: "length (concat (map enc xs)) = width * length xs"
  by (induction xs) (auto simp: enc_length)

lemma array_roundtrip: "map dec (chunks width (length xs) (concat (map enc xs))) = xs"
  by (induction xs) (auto simp: enc_length dec_enc)

lemma field_read: "dec (take width (enc x @ rest)) = x"
  by (simp add: enc_length dec_enc)

end

interpretation c16: fixed_codec be16 rd16 2
  by unfold_locales simp_all

interpretation c32: fixed_codec be32 rd32 4
  by unfold_locales simp_all

interpretation c64: fixed_codec be64 rd64 8
  by unfold_locales simp_all

section \<open>Reads from memory\<close>

text \<open>
  \<open>bs\<close> are the initialised bytes of an object, from the pointer onwards; \<open>junk\<close> is what memory
  holds behind them. A C read at offset \<open>i\<close> sees the object while \<open>i\<close> is in range and \<open>junk\<close>
  after it: the value is then indeterminate, and \<open>mem_over bs off n\<close> says that a read of \<open>n\<close> bytes
  at \<open>off\<close> does that.
\<close>

type_synonym memtail = "nat \<Rightarrow> byte"

definition mem_byte :: "byte list \<Rightarrow> memtail \<Rightarrow> nat \<Rightarrow> byte" where
  "mem_byte bs junk i = (if i < length bs then bs ! i else junk (i - length bs))"

definition mem_read :: "byte list \<Rightarrow> memtail \<Rightarrow> nat \<Rightarrow> nat \<Rightarrow> byte list" where
  "mem_read bs junk off n = map (mem_byte bs junk) [off..<off + n]"

definition mem_over :: "byte list \<Rightarrow> nat \<Rightarrow> nat \<Rightarrow> bool" where
  "mem_over bs off n \<longleftrightarrow> length bs < off + n"

lemma length_mem_read [simp]: "length (mem_read bs junk off n) = n"
  by (simp add: mem_read_def)

lemma mem_read_inside:
  assumes "\<not> mem_over bs off n"
  shows "mem_read bs junk off n = take n (drop off bs)"
proof (rule nth_equalityI)
  show "length (mem_read bs junk off n) = length (take n (drop off bs))"
    using assms by (simp add: mem_over_def)
next
  fix i
  assume "i < length (mem_read bs junk off n)"
  then show "mem_read bs junk off n ! i = take n (drop off bs) ! i"
    using assms by (simp add: mem_read_def mem_over_def mem_byte_def)
qed

lemma mem_read_append:
  "off = length xs \<Longrightarrow> n = length ys \<Longrightarrow> mem_read (xs @ ys @ zs) junk off n = ys"
  by (simp add: mem_read_inside mem_over_def)

section \<open>Lists\<close>

text \<open>\<open>TAILQ_REMOVE\<close> of the element a search returned: the first element that satisfies it.\<close>

fun remove_first :: "('a \<Rightarrow> bool) \<Rightarrow> 'a list \<Rightarrow> 'a list" where
  "remove_first P [] = []"
| "remove_first P (x # xs) = (if P x then xs else x # remove_first P xs)"

lemma remove_first_split:
  assumes "find P xs = Some x"
  shows "\<exists>ys zs. xs = ys @ x # zs \<and> (\<forall>y\<in>set ys. \<not> P y) \<and> P x \<and> remove_first P xs = ys @ zs"
  using assms
proof (induction xs)
  case (Cons y ys)
  show ?case
  proof (cases "P y")
    case True
    with Cons.prems have "y # ys = [] @ x # ys \<and> P x \<and> remove_first P (y # ys) = [] @ ys"
      by simp
    then show ?thesis by (metis empty_iff empty_set)
  next
    case False
    with Cons obtain as bs where
      "ys = as @ x # bs" "\<forall>a\<in>set as. \<not> P a" "P x" "remove_first P ys = as @ bs"
      by auto
    with False have "y # ys = (y # as) @ x # bs \<and> (\<forall>a\<in>set (y # as). \<not> P a) \<and> P x \<and>
        remove_first P (y # ys) = (y # as) @ bs"
      by simp
    then show ?thesis by blast
  qed
qed simp

lemma set_remove_first: "x \<in> set (remove_first P xs) \<Longrightarrow> x \<in> set xs"
  by (induction xs) (auto split: if_splits)

lemma distinct_map_remove_first:
  "distinct (map f xs) \<Longrightarrow> distinct (map f (remove_first P xs))"
  by (induction xs) (auto dest: set_remove_first)

lemma find_Some_mem: "find P xs = Some x \<Longrightarrow> x \<in> set xs \<and> P x"
  by (induction xs) (auto split: if_splits)

lemma find_None_all: "find P xs = None \<longleftrightarrow> (\<forall>x\<in>set xs. \<not> P x)"
  by (induction xs) auto

lemma find_eq_None_map: "find P xs = None \<Longrightarrow> x \<in> set xs \<Longrightarrow> \<not> P x"
  by (simp add: find_None_all)

section \<open>Addresses\<close>

text \<open>An address that no live structure has: what \<open>malloc\<close> returns.\<close>

definition fresh_ref :: "nat list \<Rightarrow> nat" where
  "fresh_ref refs = Suc (foldr max refs 0)"

lemma fresh_ref_notin: "fresh_ref refs \<notin> set refs"
proof -
  have "r \<in> set refs \<Longrightarrow> r \<le> foldr max refs 0" for r
    by (induction refs) auto
  then show ?thesis by (fastforce simp: fresh_ref_def)
qed

end
