(* ===== verification/Tlv_Types.thy ===== *)
theory Tlv_Types
  imports Prelude
begin

text \<open>
  The data of \<open>tlv.h\<close>: the option types and the enumerations that travel in options, with their
  numeric codes, the ring id, the tie-breaker and the node information. A C enumeration that is
  filled from the wire without a check can hold any value of its width; such an enumeration has
  an extra constructor for the values that have no enumerator.
\<close>

section \<open>Enumerations\<close>

datatype tlv_opt_type =
    TLV_OPT_MSG_SEQ_NUMBER
  | TLV_OPT_CLUSTER_NAME
  | TLV_OPT_TLS_SUPPORTED
  | TLV_OPT_TLS_CLIENT_CERT_REQUIRED
  | TLV_OPT_SUPPORTED_MESSAGES
  | TLV_OPT_SUPPORTED_OPTIONS
  | TLV_OPT_REPLY_ERROR_CODE
  | TLV_OPT_SERVER_MAXIMUM_REQUEST_SIZE
  | TLV_OPT_SERVER_MAXIMUM_REPLY_SIZE
  | TLV_OPT_NODE_ID
  | TLV_OPT_SUPPORTED_DECISION_ALGORITHMS
  | TLV_OPT_DECISION_ALGORITHM
  | TLV_OPT_HEARTBEAT_INTERVAL
  | TLV_OPT_RING_ID
  | TLV_OPT_CONFIG_VERSION
  | TLV_OPT_DATA_CENTER_ID
  | TLV_OPT_NODE_STATE
  | TLV_OPT_NODE_INFO
  | TLV_OPT_NODE_LIST_TYPE
  | TLV_OPT_VOTE
  | TLV_OPT_QUORATE
  | TLV_OPT_TIE_BREAKER
  | TLV_OPT_HEURISTICS
  | TLV_OPT_KEEP_ACTIVE_PARTITION_TIE_BREAKER
  | TLV_OPT_OTHER u16

fun tlv_opt_type_code :: "tlv_opt_type \<Rightarrow> u16" where
  "tlv_opt_type_code TLV_OPT_MSG_SEQ_NUMBER = 0"
| "tlv_opt_type_code TLV_OPT_CLUSTER_NAME = 1"
| "tlv_opt_type_code TLV_OPT_TLS_SUPPORTED = 2"
| "tlv_opt_type_code TLV_OPT_TLS_CLIENT_CERT_REQUIRED = 3"
| "tlv_opt_type_code TLV_OPT_SUPPORTED_MESSAGES = 4"
| "tlv_opt_type_code TLV_OPT_SUPPORTED_OPTIONS = 5"
| "tlv_opt_type_code TLV_OPT_REPLY_ERROR_CODE = 6"
| "tlv_opt_type_code TLV_OPT_SERVER_MAXIMUM_REQUEST_SIZE = 7"
| "tlv_opt_type_code TLV_OPT_SERVER_MAXIMUM_REPLY_SIZE = 8"
| "tlv_opt_type_code TLV_OPT_NODE_ID = 9"
| "tlv_opt_type_code TLV_OPT_SUPPORTED_DECISION_ALGORITHMS = 10"
| "tlv_opt_type_code TLV_OPT_DECISION_ALGORITHM = 11"
| "tlv_opt_type_code TLV_OPT_HEARTBEAT_INTERVAL = 12"
| "tlv_opt_type_code TLV_OPT_RING_ID = 13"
| "tlv_opt_type_code TLV_OPT_CONFIG_VERSION = 14"
| "tlv_opt_type_code TLV_OPT_DATA_CENTER_ID = 15"
| "tlv_opt_type_code TLV_OPT_NODE_STATE = 16"
| "tlv_opt_type_code TLV_OPT_NODE_INFO = 17"
| "tlv_opt_type_code TLV_OPT_NODE_LIST_TYPE = 18"
| "tlv_opt_type_code TLV_OPT_VOTE = 19"
| "tlv_opt_type_code TLV_OPT_QUORATE = 20"
| "tlv_opt_type_code TLV_OPT_TIE_BREAKER = 21"
| "tlv_opt_type_code TLV_OPT_HEURISTICS = 22"
| "tlv_opt_type_code TLV_OPT_KEEP_ACTIVE_PARTITION_TIE_BREAKER = 23"
| "tlv_opt_type_code (TLV_OPT_OTHER w) = w"

definition tlv_opt_type_of :: "u16 \<Rightarrow> tlv_opt_type" where
  "tlv_opt_type_of w =
     (if w = 0 then TLV_OPT_MSG_SEQ_NUMBER
      else if w = 1 then TLV_OPT_CLUSTER_NAME
      else if w = 2 then TLV_OPT_TLS_SUPPORTED
      else if w = 3 then TLV_OPT_TLS_CLIENT_CERT_REQUIRED
      else if w = 4 then TLV_OPT_SUPPORTED_MESSAGES
      else if w = 5 then TLV_OPT_SUPPORTED_OPTIONS
      else if w = 6 then TLV_OPT_REPLY_ERROR_CODE
      else if w = 7 then TLV_OPT_SERVER_MAXIMUM_REQUEST_SIZE
      else if w = 8 then TLV_OPT_SERVER_MAXIMUM_REPLY_SIZE
      else if w = 9 then TLV_OPT_NODE_ID
      else if w = 10 then TLV_OPT_SUPPORTED_DECISION_ALGORITHMS
      else if w = 11 then TLV_OPT_DECISION_ALGORITHM
      else if w = 12 then TLV_OPT_HEARTBEAT_INTERVAL
      else if w = 13 then TLV_OPT_RING_ID
      else if w = 14 then TLV_OPT_CONFIG_VERSION
      else if w = 15 then TLV_OPT_DATA_CENTER_ID
      else if w = 16 then TLV_OPT_NODE_STATE
      else if w = 17 then TLV_OPT_NODE_INFO
      else if w = 18 then TLV_OPT_NODE_LIST_TYPE
      else if w = 19 then TLV_OPT_VOTE
      else if w = 20 then TLV_OPT_QUORATE
      else if w = 21 then TLV_OPT_TIE_BREAKER
      else if w = 22 then TLV_OPT_HEURISTICS
      else if w = 23 then TLV_OPT_KEEP_ACTIVE_PARTITION_TIE_BREAKER
      else TLV_OPT_OTHER w)"

datatype tlv_tls_supported =
    TLV_TLS_UNSUPPORTED
  | TLV_TLS_SUPPORTED
  | TLV_TLS_REQUIRED

fun tlv_tls_supported_code :: "tlv_tls_supported \<Rightarrow> u8" where
  "tlv_tls_supported_code TLV_TLS_UNSUPPORTED = 0"
| "tlv_tls_supported_code TLV_TLS_SUPPORTED = 1"
| "tlv_tls_supported_code TLV_TLS_REQUIRED = 2"

datatype tlv_reply_error_code =
    TLV_REPLY_ERROR_CODE_NO_ERROR
  | TLV_REPLY_ERROR_CODE_UNSUPPORTED_NEEDED_MESSAGE
  | TLV_REPLY_ERROR_CODE_UNSUPPORTED_NEEDED_OPTION
  | TLV_REPLY_ERROR_CODE_TLS_REQUIRED
  | TLV_REPLY_ERROR_CODE_UNSUPPORTED_MESSAGE
  | TLV_REPLY_ERROR_CODE_MESSAGE_TOO_LONG
  | TLV_REPLY_ERROR_CODE_PREINIT_REQUIRED
  | TLV_REPLY_ERROR_CODE_DOESNT_CONTAIN_REQUIRED_OPTION
  | TLV_REPLY_ERROR_CODE_UNEXPECTED_MESSAGE
  | TLV_REPLY_ERROR_CODE_ERROR_DECODING_MSG
  | TLV_REPLY_ERROR_CODE_INTERNAL_ERROR
  | TLV_REPLY_ERROR_CODE_INIT_REQUIRED
  | TLV_REPLY_ERROR_CODE_UNSUPPORTED_DECISION_ALGORITHM
  | TLV_REPLY_ERROR_CODE_INVALID_HEARTBEAT_INTERVAL
  | TLV_REPLY_ERROR_CODE_UNSUPPORTED_DECISION_ALGORITHM_MESSAGE
  | TLV_REPLY_ERROR_CODE_TIE_BREAKER_DIFFERS_FROM_OTHER_NODES
  | TLV_REPLY_ERROR_CODE_ALGORITHM_DIFFERS_FROM_OTHER_NODES
  | TLV_REPLY_ERROR_CODE_DUPLICATE_NODE_ID
  | TLV_REPLY_ERROR_CODE_INVALID_CONFIG_NODE_LIST
  | TLV_REPLY_ERROR_CODE_INVALID_MEMBERSHIP_NODE_LIST
  | TLV_REPLY_ERROR_CODE_OTHER u16

fun tlv_reply_error_code_code :: "tlv_reply_error_code \<Rightarrow> u16" where
  "tlv_reply_error_code_code TLV_REPLY_ERROR_CODE_NO_ERROR = 0"
| "tlv_reply_error_code_code TLV_REPLY_ERROR_CODE_UNSUPPORTED_NEEDED_MESSAGE = 1"
| "tlv_reply_error_code_code TLV_REPLY_ERROR_CODE_UNSUPPORTED_NEEDED_OPTION = 2"
| "tlv_reply_error_code_code TLV_REPLY_ERROR_CODE_TLS_REQUIRED = 3"
| "tlv_reply_error_code_code TLV_REPLY_ERROR_CODE_UNSUPPORTED_MESSAGE = 4"
| "tlv_reply_error_code_code TLV_REPLY_ERROR_CODE_MESSAGE_TOO_LONG = 5"
| "tlv_reply_error_code_code TLV_REPLY_ERROR_CODE_PREINIT_REQUIRED = 6"
| "tlv_reply_error_code_code TLV_REPLY_ERROR_CODE_DOESNT_CONTAIN_REQUIRED_OPTION = 7"
| "tlv_reply_error_code_code TLV_REPLY_ERROR_CODE_UNEXPECTED_MESSAGE = 8"
| "tlv_reply_error_code_code TLV_REPLY_ERROR_CODE_ERROR_DECODING_MSG = 9"
| "tlv_reply_error_code_code TLV_REPLY_ERROR_CODE_INTERNAL_ERROR = 10"
| "tlv_reply_error_code_code TLV_REPLY_ERROR_CODE_INIT_REQUIRED = 11"
| "tlv_reply_error_code_code TLV_REPLY_ERROR_CODE_UNSUPPORTED_DECISION_ALGORITHM = 12"
| "tlv_reply_error_code_code TLV_REPLY_ERROR_CODE_INVALID_HEARTBEAT_INTERVAL = 13"
| "tlv_reply_error_code_code TLV_REPLY_ERROR_CODE_UNSUPPORTED_DECISION_ALGORITHM_MESSAGE = 14"
| "tlv_reply_error_code_code TLV_REPLY_ERROR_CODE_TIE_BREAKER_DIFFERS_FROM_OTHER_NODES = 15"
| "tlv_reply_error_code_code TLV_REPLY_ERROR_CODE_ALGORITHM_DIFFERS_FROM_OTHER_NODES = 16"
| "tlv_reply_error_code_code TLV_REPLY_ERROR_CODE_DUPLICATE_NODE_ID = 17"
| "tlv_reply_error_code_code TLV_REPLY_ERROR_CODE_INVALID_CONFIG_NODE_LIST = 18"
| "tlv_reply_error_code_code TLV_REPLY_ERROR_CODE_INVALID_MEMBERSHIP_NODE_LIST = 19"
| "tlv_reply_error_code_code (TLV_REPLY_ERROR_CODE_OTHER w) = w"

definition tlv_reply_error_code_of :: "u16 \<Rightarrow> tlv_reply_error_code" where
  "tlv_reply_error_code_of w =
     (if w = 0 then TLV_REPLY_ERROR_CODE_NO_ERROR
      else if w = 1 then TLV_REPLY_ERROR_CODE_UNSUPPORTED_NEEDED_MESSAGE
      else if w = 2 then TLV_REPLY_ERROR_CODE_UNSUPPORTED_NEEDED_OPTION
      else if w = 3 then TLV_REPLY_ERROR_CODE_TLS_REQUIRED
      else if w = 4 then TLV_REPLY_ERROR_CODE_UNSUPPORTED_MESSAGE
      else if w = 5 then TLV_REPLY_ERROR_CODE_MESSAGE_TOO_LONG
      else if w = 6 then TLV_REPLY_ERROR_CODE_PREINIT_REQUIRED
      else if w = 7 then TLV_REPLY_ERROR_CODE_DOESNT_CONTAIN_REQUIRED_OPTION
      else if w = 8 then TLV_REPLY_ERROR_CODE_UNEXPECTED_MESSAGE
      else if w = 9 then TLV_REPLY_ERROR_CODE_ERROR_DECODING_MSG
      else if w = 10 then TLV_REPLY_ERROR_CODE_INTERNAL_ERROR
      else if w = 11 then TLV_REPLY_ERROR_CODE_INIT_REQUIRED
      else if w = 12 then TLV_REPLY_ERROR_CODE_UNSUPPORTED_DECISION_ALGORITHM
      else if w = 13 then TLV_REPLY_ERROR_CODE_INVALID_HEARTBEAT_INTERVAL
      else if w = 14 then TLV_REPLY_ERROR_CODE_UNSUPPORTED_DECISION_ALGORITHM_MESSAGE
      else if w = 15 then TLV_REPLY_ERROR_CODE_TIE_BREAKER_DIFFERS_FROM_OTHER_NODES
      else if w = 16 then TLV_REPLY_ERROR_CODE_ALGORITHM_DIFFERS_FROM_OTHER_NODES
      else if w = 17 then TLV_REPLY_ERROR_CODE_DUPLICATE_NODE_ID
      else if w = 18 then TLV_REPLY_ERROR_CODE_INVALID_CONFIG_NODE_LIST
      else if w = 19 then TLV_REPLY_ERROR_CODE_INVALID_MEMBERSHIP_NODE_LIST
      else TLV_REPLY_ERROR_CODE_OTHER w)"

datatype tlv_decision_algorithm_type =
    TLV_DECISION_ALGORITHM_TYPE_TEST
  | TLV_DECISION_ALGORITHM_TYPE_FFSPLIT
  | TLV_DECISION_ALGORITHM_TYPE_2NODELMS
  | TLV_DECISION_ALGORITHM_TYPE_LMS
  | TLV_DECISION_ALGORITHM_TYPE_OTHER u16

fun tlv_decision_algorithm_type_code :: "tlv_decision_algorithm_type \<Rightarrow> u16" where
  "tlv_decision_algorithm_type_code TLV_DECISION_ALGORITHM_TYPE_TEST = 0"
| "tlv_decision_algorithm_type_code TLV_DECISION_ALGORITHM_TYPE_FFSPLIT = 1"
| "tlv_decision_algorithm_type_code TLV_DECISION_ALGORITHM_TYPE_2NODELMS = 2"
| "tlv_decision_algorithm_type_code TLV_DECISION_ALGORITHM_TYPE_LMS = 3"
| "tlv_decision_algorithm_type_code (TLV_DECISION_ALGORITHM_TYPE_OTHER w) = w"

definition tlv_decision_algorithm_type_of :: "u16 \<Rightarrow> tlv_decision_algorithm_type" where
  "tlv_decision_algorithm_type_of w =
     (if w = 0 then TLV_DECISION_ALGORITHM_TYPE_TEST
      else if w = 1 then TLV_DECISION_ALGORITHM_TYPE_FFSPLIT
      else if w = 2 then TLV_DECISION_ALGORITHM_TYPE_2NODELMS
      else if w = 3 then TLV_DECISION_ALGORITHM_TYPE_LMS
      else TLV_DECISION_ALGORITHM_TYPE_OTHER w)"

datatype tlv_node_state =
    TLV_NODE_STATE_NOT_SET
  | TLV_NODE_STATE_MEMBER
  | TLV_NODE_STATE_DEAD
  | TLV_NODE_STATE_LEAVING

fun tlv_node_state_code :: "tlv_node_state \<Rightarrow> u8" where
  "tlv_node_state_code TLV_NODE_STATE_NOT_SET = 0"
| "tlv_node_state_code TLV_NODE_STATE_MEMBER = 1"
| "tlv_node_state_code TLV_NODE_STATE_DEAD = 2"
| "tlv_node_state_code TLV_NODE_STATE_LEAVING = 3"

datatype tlv_node_list_type =
    TLV_NODE_LIST_TYPE_INITIAL_CONFIG
  | TLV_NODE_LIST_TYPE_CHANGED_CONFIG
  | TLV_NODE_LIST_TYPE_MEMBERSHIP
  | TLV_NODE_LIST_TYPE_QUORUM

fun tlv_node_list_type_code :: "tlv_node_list_type \<Rightarrow> u8" where
  "tlv_node_list_type_code TLV_NODE_LIST_TYPE_INITIAL_CONFIG = 0"
| "tlv_node_list_type_code TLV_NODE_LIST_TYPE_CHANGED_CONFIG = 1"
| "tlv_node_list_type_code TLV_NODE_LIST_TYPE_MEMBERSHIP = 2"
| "tlv_node_list_type_code TLV_NODE_LIST_TYPE_QUORUM = 3"

datatype tlv_vote =
    TLV_VOTE_UNDEFINED
  | TLV_VOTE_ACK
  | TLV_VOTE_NACK
  | TLV_VOTE_ASK_LATER
  | TLV_VOTE_WAIT_FOR_REPLY
  | TLV_VOTE_NO_CHANGE

fun tlv_vote_code :: "tlv_vote \<Rightarrow> u8" where
  "tlv_vote_code TLV_VOTE_UNDEFINED = 0"
| "tlv_vote_code TLV_VOTE_ACK = 1"
| "tlv_vote_code TLV_VOTE_NACK = 2"
| "tlv_vote_code TLV_VOTE_ASK_LATER = 3"
| "tlv_vote_code TLV_VOTE_WAIT_FOR_REPLY = 4"
| "tlv_vote_code TLV_VOTE_NO_CHANGE = 5"

datatype tlv_quorate =
    TLV_QUORATE_INQUORATE
  | TLV_QUORATE_QUORATE

fun tlv_quorate_code :: "tlv_quorate \<Rightarrow> u8" where
  "tlv_quorate_code TLV_QUORATE_INQUORATE = 0"
| "tlv_quorate_code TLV_QUORATE_QUORATE = 1"

datatype tlv_tie_breaker_mode =
    TLV_TIE_BREAKER_MODE_LOWEST
  | TLV_TIE_BREAKER_MODE_HIGHEST
  | TLV_TIE_BREAKER_MODE_NODE_ID
  | TLV_TIE_BREAKER_MODE_OTHER u8

fun tlv_tie_breaker_mode_code :: "tlv_tie_breaker_mode \<Rightarrow> u8" where
  "tlv_tie_breaker_mode_code TLV_TIE_BREAKER_MODE_LOWEST = 1"
| "tlv_tie_breaker_mode_code TLV_TIE_BREAKER_MODE_HIGHEST = 2"
| "tlv_tie_breaker_mode_code TLV_TIE_BREAKER_MODE_NODE_ID = 3"
| "tlv_tie_breaker_mode_code (TLV_TIE_BREAKER_MODE_OTHER w) = w"

definition tlv_tie_breaker_mode_of :: "u8 \<Rightarrow> tlv_tie_breaker_mode" where
  "tlv_tie_breaker_mode_of w =
     (if w = 1 then TLV_TIE_BREAKER_MODE_LOWEST
      else if w = 2 then TLV_TIE_BREAKER_MODE_HIGHEST
      else if w = 3 then TLV_TIE_BREAKER_MODE_NODE_ID
      else TLV_TIE_BREAKER_MODE_OTHER w)"

datatype tlv_heuristics =
    TLV_HEURISTICS_UNDEFINED
  | TLV_HEURISTICS_PASS
  | TLV_HEURISTICS_FAIL

fun tlv_heuristics_code :: "tlv_heuristics \<Rightarrow> u8" where
  "tlv_heuristics_code TLV_HEURISTICS_UNDEFINED = 0"
| "tlv_heuristics_code TLV_HEURISTICS_PASS = 1"
| "tlv_heuristics_code TLV_HEURISTICS_FAIL = 2"

datatype tlv_keep_active_partition_tie_breaker =
    TLV_KEEP_ACTIVE_PARTITION_TIE_BREAKER_DISABLED
  | TLV_KEEP_ACTIVE_PARTITION_TIE_BREAKER_ENABLED

fun tlv_keep_active_partition_tie_breaker_code :: "tlv_keep_active_partition_tie_breaker \<Rightarrow> u8" where
  "tlv_keep_active_partition_tie_breaker_code TLV_KEEP_ACTIVE_PARTITION_TIE_BREAKER_DISABLED = 0"
| "tlv_keep_active_partition_tie_breaker_code TLV_KEEP_ACTIVE_PARTITION_TIE_BREAKER_ENABLED = 1"

section \<open>Structures\<close>

record tlv_ring_id =
  rid_node_id :: u32
  rid_seq :: u64

record tlv_tie_breaker =
  tb_mode :: tlv_tie_breaker_mode
  tb_node_id :: u32

record tlv_node_info =
  ni_node_id :: u32
  ni_data_center_id :: u32
  ni_node_state :: tlv_node_state

definition tlv_ring_id_eq :: "tlv_ring_id \<Rightarrow> tlv_ring_id \<Rightarrow> bool" where
  "tlv_ring_id_eq rid1 rid2 \<longleftrightarrow>
     rid_node_id rid1 = rid_node_id rid2 \<and> rid_seq rid1 = rid_seq rid2"

definition tlv_tie_breaker_eq :: "tlv_tie_breaker \<Rightarrow> tlv_tie_breaker \<Rightarrow> bool" where
  "tlv_tie_breaker_eq tb1 tb2 =
     (if tb_mode tb1 = tb_mode tb2 \<and> tb_mode tb1 = TLV_TIE_BREAKER_MODE_NODE_ID
      then tb_node_id tb1 = tb_node_id tb2
      else tb_mode tb1 = tb_mode tb2)"

text \<open>\<open>tlv_heuristics_cmp\<close>: the nested switch, one equation per pair.\<close>

fun tlv_heuristics_cmp :: "tlv_heuristics \<Rightarrow> tlv_heuristics \<Rightarrow> int" where
  "tlv_heuristics_cmp TLV_HEURISTICS_UNDEFINED TLV_HEURISTICS_UNDEFINED = 0"
| "tlv_heuristics_cmp TLV_HEURISTICS_UNDEFINED TLV_HEURISTICS_PASS = -1"
| "tlv_heuristics_cmp TLV_HEURISTICS_UNDEFINED TLV_HEURISTICS_FAIL = 1"
| "tlv_heuristics_cmp TLV_HEURISTICS_PASS TLV_HEURISTICS_UNDEFINED = 1"
| "tlv_heuristics_cmp TLV_HEURISTICS_PASS TLV_HEURISTICS_PASS = 0"
| "tlv_heuristics_cmp TLV_HEURISTICS_PASS TLV_HEURISTICS_FAIL = 1"
| "tlv_heuristics_cmp TLV_HEURISTICS_FAIL TLV_HEURISTICS_UNDEFINED = -1"
| "tlv_heuristics_cmp TLV_HEURISTICS_FAIL TLV_HEURISTICS_PASS = -1"
| "tlv_heuristics_cmp TLV_HEURISTICS_FAIL TLV_HEURISTICS_FAIL = 0"

fun tlv_vote_to_str :: "tlv_vote \<Rightarrow> string" where
  "tlv_vote_to_str TLV_VOTE_UNDEFINED = ''Unknown vote value''"
| "tlv_vote_to_str TLV_VOTE_ACK = ''ACK''"
| "tlv_vote_to_str TLV_VOTE_NACK = ''NACK''"
| "tlv_vote_to_str TLV_VOTE_ASK_LATER = ''Ask later''"
| "tlv_vote_to_str TLV_VOTE_WAIT_FOR_REPLY = ''Wait for reply''"
| "tlv_vote_to_str TLV_VOTE_NO_CHANGE = ''No change''"

fun tlv_node_state_to_str :: "tlv_node_state \<Rightarrow> string" where
  "tlv_node_state_to_str TLV_NODE_STATE_NOT_SET = ''not set''"
| "tlv_node_state_to_str TLV_NODE_STATE_MEMBER = ''member''"
| "tlv_node_state_to_str TLV_NODE_STATE_DEAD = ''dead''"
| "tlv_node_state_to_str TLV_NODE_STATE_LEAVING = ''leaving''"

fun tlv_tls_supported_to_str :: "tlv_tls_supported \<Rightarrow> string" where
  "tlv_tls_supported_to_str TLV_TLS_UNSUPPORTED = ''Unsupported''"
| "tlv_tls_supported_to_str TLV_TLS_SUPPORTED = ''Supported''"
| "tlv_tls_supported_to_str TLV_TLS_REQUIRED = ''Required''"

fun tlv_decision_algorithm_type_to_str :: "tlv_decision_algorithm_type \<Rightarrow> string" where
  "tlv_decision_algorithm_type_to_str TLV_DECISION_ALGORITHM_TYPE_TEST = ''Test''"
| "tlv_decision_algorithm_type_to_str TLV_DECISION_ALGORITHM_TYPE_FFSPLIT = ''Fifty-Fifty split''"
| "tlv_decision_algorithm_type_to_str TLV_DECISION_ALGORITHM_TYPE_2NODELMS = ''2 Node LMS''"
| "tlv_decision_algorithm_type_to_str TLV_DECISION_ALGORITHM_TYPE_LMS = ''LMS''"
| "tlv_decision_algorithm_type_to_str (TLV_DECISION_ALGORITHM_TYPE_OTHER w) = ''Unknown algorithm''"

fun tlv_heuristics_to_str :: "tlv_heuristics \<Rightarrow> string" where
  "tlv_heuristics_to_str TLV_HEURISTICS_UNDEFINED = ''Undefined''"
| "tlv_heuristics_to_str TLV_HEURISTICS_PASS = ''Pass''"
| "tlv_heuristics_to_str TLV_HEURISTICS_FAIL = ''Fail''"

fun tlv_keep_active_partition_tie_breaker_to_str ::
    "tlv_keep_active_partition_tie_breaker \<Rightarrow> string" where
  "tlv_keep_active_partition_tie_breaker_to_str TLV_KEEP_ACTIVE_PARTITION_TIE_BREAKER_DISABLED =
     ''Disabled''"
| "tlv_keep_active_partition_tie_breaker_to_str TLV_KEEP_ACTIVE_PARTITION_TIE_BREAKER_ENABLED =
     ''Enabled''"

definition tlv_static_supported_options :: "tlv_opt_type list" where
  "tlv_static_supported_options =
     [TLV_OPT_MSG_SEQ_NUMBER, TLV_OPT_CLUSTER_NAME, TLV_OPT_TLS_SUPPORTED,
      TLV_OPT_TLS_CLIENT_CERT_REQUIRED, TLV_OPT_SUPPORTED_MESSAGES, TLV_OPT_SUPPORTED_OPTIONS,
      TLV_OPT_REPLY_ERROR_CODE, TLV_OPT_SERVER_MAXIMUM_REQUEST_SIZE,
      TLV_OPT_SERVER_MAXIMUM_REPLY_SIZE, TLV_OPT_NODE_ID, TLV_OPT_SUPPORTED_DECISION_ALGORITHMS,
      TLV_OPT_DECISION_ALGORITHM, TLV_OPT_HEARTBEAT_INTERVAL, TLV_OPT_RING_ID,
      TLV_OPT_CONFIG_VERSION, TLV_OPT_DATA_CENTER_ID, TLV_OPT_NODE_STATE, TLV_OPT_NODE_INFO,
      TLV_OPT_NODE_LIST_TYPE, TLV_OPT_VOTE, TLV_OPT_QUORATE, TLV_OPT_TIE_BREAKER,
      TLV_OPT_HEURISTICS, TLV_OPT_KEEP_ACTIVE_PARTITION_TIE_BREAKER]"

section \<open>Laws of the codes\<close>

text \<open>
  An enumeration that is read from the wire: \<open>of_code\<close> is the cast to the enumeration, \<open>code\<close> the
  cast back. No value is lost by the cast, and a value with an enumerator survives both ways.
\<close>

locale enum_codec =
  fixes code :: "'e \<Rightarrow> 'w"
    and of_code :: "'w \<Rightarrow> 'e"
  assumes code_of_code: "code (of_code w) = w"
begin

lemma of_code_inject: "of_code v = of_code w \<longleftrightarrow> v = w"
  by (metis code_of_code)

lemma of_code_code: "e = of_code w \<Longrightarrow> of_code (code e) = e"
  by (simp add: code_of_code)

lemma map_of_code:
  "list_all (\<lambda>e. of_code (code e) = e) es \<Longrightarrow> map of_code (map code es) = es"
  by (induction es) auto

end

interpretation opt: enum_codec tlv_opt_type_code tlv_opt_type_of
  by unfold_locales (simp add: tlv_opt_type_of_def)

interpretation err: enum_codec tlv_reply_error_code_code tlv_reply_error_code_of
  by unfold_locales (simp add: tlv_reply_error_code_of_def)

interpretation alg: enum_codec tlv_decision_algorithm_type_code tlv_decision_algorithm_type_of
  by unfold_locales (simp add: tlv_decision_algorithm_type_of_def)

lemma tlv_ring_id_eq_iff [simp]: "tlv_ring_id_eq r1 r2 \<longleftrightarrow> r1 = r2"
  by (auto simp: tlv_ring_id_eq_def)

lemma tlv_heuristics_cmp_antisym: "tlv_heuristics_cmp h2 h1 = - tlv_heuristics_cmp h1 h2"
  by (cases h1; cases h2) simp_all

lemma tlv_heuristics_cmp_range: "tlv_heuristics_cmp h1 h2 \<in> {-1, 0, 1}"
  by (cases h1; cases h2) simp_all

lemma tlv_heuristics_cmp_eq_0: "tlv_heuristics_cmp h1 h2 = 0 \<longleftrightarrow> h1 = h2"
  by (cases h1; cases h2) simp_all

lemma tlv_heuristics_cmp_trans:
  "tlv_heuristics_cmp h1 h2 \<le> 0 \<Longrightarrow> tlv_heuristics_cmp h2 h3 \<le> 0 \<Longrightarrow> tlv_heuristics_cmp h1 h3 \<le> 0"
  by (cases h1; cases h2; cases h3) simp_all

end
