(* ===== verification/Dynar.thy ===== *)
theory Dynar
  imports Prelude
begin

text \<open>
  The dynamic array of \<open>dynar.c\<close> and its string operations of \<open>dynar-str.c\<close>: the buffer behind
  every message of the protocol. The record keeps the bytes in use (\<open>data[0..size)\<close>), the size
  of the allocation and the maximum size; an operation returns its C result and the new array.
  The invariant \<open>dynar_inv\<close> says that the bytes in use lie inside the allocation. Sizes are
  \<open>nat\<close>: the sum of two object sizes does not reach the width of \<open>size_t\<close>.
\<close>

section \<open>The array\<close>

record dynar =
  dyn_data :: "byte list"
  dyn_allocated :: nat
  dyn_maximum_size :: nat

definition dynar_init :: "nat \<Rightarrow> dynar" where
  "dynar_init maximum_size = \<lparr>dyn_data = [], dyn_allocated = 0, dyn_maximum_size = maximum_size\<rparr>"

definition dynar_set_max_size :: "dynar \<Rightarrow> nat \<Rightarrow> dynar" where
  "dynar_set_max_size array maximum_size = array\<lparr>dyn_maximum_size := maximum_size\<rparr>"

definition dynar_size :: "dynar \<Rightarrow> nat" where
  "dynar_size array = length (dyn_data array)"

definition dynar_max_size :: "dynar \<Rightarrow> nat" where
  "dynar_max_size array = dyn_maximum_size array"

definition dynar_destroy :: "dynar \<Rightarrow> dynar" where
  "dynar_destroy array = dynar_init (dyn_maximum_size array)"

definition dynar_clean :: "dynar \<Rightarrow> dynar" where
  "dynar_clean array = array\<lparr>dyn_data := []\<rparr>"

definition dynar_realloc :: "allocator \<Rightarrow> dynar \<Rightarrow> nat \<Rightarrow> int \<times> dynar" where
  "dynar_realloc al array new_array_size =
     (if new_array_size > dyn_maximum_size array then (-1, array)
      else if \<not> al (Realloc_Bytes new_array_size) then (-1, array)
      else (0, array\<lparr>dyn_allocated := new_array_size,
                      dyn_data := take new_array_size (dyn_data array)\<rparr>))"

definition dynar_prealloc :: "allocator \<Rightarrow> dynar \<Rightarrow> nat \<Rightarrow> int \<times> dynar" where
  "dynar_prealloc al array req =
     (if dynar_size array + req > dyn_maximum_size array then (-1, array)
      else if dynar_size array + req > dyn_allocated array then
        (let new_size = (dyn_allocated array + req) * 2;
             new_size' = (if new_size > dyn_maximum_size array then dyn_maximum_size array
                          else new_size)
         in case dynar_realloc al array new_size' of
              (r, array') \<Rightarrow> if r = -1 then (-1, array') else (0, array'))
      else (0, array))"

definition dynar_cat :: "allocator \<Rightarrow> dynar \<Rightarrow> byte list \<Rightarrow> int \<times> dynar" where
  "dynar_cat al array src =
     (case dynar_prealloc al array (length src) of
        (r, array') \<Rightarrow>
          if r \<noteq> 0 then (-1, array')
          else (0, array'\<lparr>dyn_data := dyn_data array' @ src\<rparr>))"

definition dynar_prepend :: "allocator \<Rightarrow> dynar \<Rightarrow> byte list \<Rightarrow> int \<times> dynar" where
  "dynar_prepend al array src =
     (case dynar_prealloc al array (length src) of
        (r, array') \<Rightarrow>
          if r \<noteq> 0 then (-1, array')
          else (0, array'\<lparr>dyn_data := src @ dyn_data array'\<rparr>))"

text \<open>
  Growing the array by \<open>dynar_set_size\<close> exposes bytes that nothing wrote: they come from \<open>junk\<close>.
\<close>

definition dynar_set_size :: "allocator \<Rightarrow> memtail \<Rightarrow> dynar \<Rightarrow> nat \<Rightarrow> int \<times> dynar" where
  "dynar_set_size al junk array new_size =
     (let array1 = (if new_size > dynar_max_size array then dynar_set_max_size array new_size else array)
      in case (if new_size > dynar_size array1
               then dynar_prealloc al array1 (new_size - dynar_size array1) else (0, array1)) of
           (r, array2) \<Rightarrow>
             if r = -1 then (-1, array2)
             else (0, array2\<lparr>dyn_data := mem_read (dyn_data array2) junk 0 new_size\<rparr>))"

definition dynar_inv :: "dynar \<Rightarrow> bool" where
  "dynar_inv array \<longleftrightarrow> dynar_size array \<le> dyn_allocated array"

section \<open>Strings\<close>

text \<open>
  C strings are byte lists without the terminating zero; \<open>c_str\<close> is the string at the start of an
  array of characters.
\<close>

definition c_str :: "byte list \<Rightarrow> byte list" where
  "c_str bs = takeWhile (\<lambda>b. b \<noteq> 0) bs"

definition dynar_str_cat :: "allocator \<Rightarrow> dynar \<Rightarrow> byte list \<Rightarrow> int \<times> dynar" where
  "dynar_str_cat al dest str = dynar_cat al dest str"

definition dynar_str_cpy :: "allocator \<Rightarrow> dynar \<Rightarrow> byte list \<Rightarrow> int \<times> dynar" where
  "dynar_str_cpy al dest str =
     (if length str > dynar_max_size dest then (-1, dest)
      else dynar_str_cat al (dynar_clean dest) str)"

definition dynar_str_prepend :: "allocator \<Rightarrow> dynar \<Rightarrow> byte list \<Rightarrow> int \<times> dynar" where
  "dynar_str_prepend al dest str = dynar_prepend al dest str"

text \<open>
  \<open>vsnprintf\<close> is a parameter: \<open>out\<close> is the formatted text, \<open>None\<close> its error result. The buffer
  needs room for the terminating zero although it is not counted in the size.
\<close>

definition dynar_str_vcatf :: "allocator \<Rightarrow> dynar \<Rightarrow> byte list option \<Rightarrow> int \<times> dynar" where
  "dynar_str_vcatf al dest out =
     (case out of
        None \<Rightarrow> (-1, dest)
      | Some text \<Rightarrow>
          if length text < 1 then (0, dest)
          else case dynar_prealloc al dest (length text + 1) of
                 (r, dest') \<Rightarrow>
                   if r \<noteq> 0 then (-1, dest')
                   else (int (length text), dest'\<lparr>dyn_data := dyn_data dest' @ text\<rparr>))"

definition chr_quote :: byte where "chr_quote = 34"
definition chr_backslash :: byte where "chr_backslash = 92"

fun dynar_str_quote_loop :: "allocator \<Rightarrow> dynar \<Rightarrow> byte list \<Rightarrow> int \<times> dynar" where
  "dynar_str_quote_loop al dest [] = (0, dest)"
| "dynar_str_quote_loop al dest (c # str) =
     (case (if c = chr_quote \<or> c = chr_backslash then dynar_str_cat al dest [chr_backslash]
            else (0, dest)) of
        (r1, dest1) \<Rightarrow>
          if r1 \<noteq> 0 then (-1, dest1)
          else case dynar_cat al dest1 [c] of
                 (r2, dest2) \<Rightarrow>
                   if r2 \<noteq> 0 then (-1, dest2) else dynar_str_quote_loop al dest2 str)"

definition dynar_str_quote_cat :: "allocator \<Rightarrow> dynar \<Rightarrow> byte list \<Rightarrow> int \<times> dynar" where
  "dynar_str_quote_cat al dest str =
     (case dynar_str_cat al dest [chr_quote] of
        (r1, dest1) \<Rightarrow>
          if r1 \<noteq> 0 then (-1, dest1)
          else case dynar_str_quote_loop al dest1 str of
                 (r2, dest2) \<Rightarrow>
                   if r2 \<noteq> 0 then (-1, dest2)
                   else case dynar_str_cat al dest2 [chr_quote] of
                          (r3, dest3) \<Rightarrow> if r3 \<noteq> 0 then (-1, dest3) else (0, dest3))"

definition dynar_str_quote_cpy :: "allocator \<Rightarrow> dynar \<Rightarrow> byte list \<Rightarrow> int \<times> dynar" where
  "dynar_str_quote_cpy al dest str = dynar_str_quote_cat al (dynar_clean dest) str"

section \<open>What the operations do\<close>

text \<open>Every request for memory is granted.\<close>

definition alloc_ideal :: "allocator \<Rightarrow> bool" where
  "alloc_ideal al \<longleftrightarrow> (\<forall>r. al r)"

lemmas dynar_defs = dynar_init_def dynar_set_max_size_def dynar_size_def dynar_max_size_def
  dynar_destroy_def dynar_clean_def

lemma dynar_inv_init [simp]: "dynar_inv (dynar_init n)"
  by (simp add: dynar_inv_def dynar_defs)

lemma dynar_inv_clean [simp]: "dynar_inv (dynar_clean d)"
  by (simp add: dynar_inv_def dynar_defs)

lemma dyn_clean_simps [simp]:
  "dyn_data (dynar_clean d) = []"
  "dyn_maximum_size (dynar_clean d) = dyn_maximum_size d"
  by (simp_all add: dynar_clean_def)

lemma dynar_prealloc_fail: "dynar_prealloc al d n = (r, d') \<Longrightarrow> r \<noteq> 0 \<Longrightarrow> r = -1 \<and> d' = d"
  by (auto simp: dynar_prealloc_def dynar_realloc_def Let_def split: if_splits)

lemma dynar_prealloc_ok:
  assumes "dynar_prealloc al d n = (0, d')" and "dynar_inv d"
  shows "dyn_data d' = dyn_data d" and "dyn_maximum_size d' = dyn_maximum_size d"
    and "dynar_size d + n \<le> dyn_allocated d'" and "dynar_size d + n \<le> dyn_maximum_size d"
  using assms
  by (auto simp: dynar_prealloc_def dynar_realloc_def dynar_inv_def dynar_size_def Let_def
      split: if_splits)

lemma dynar_prealloc_total:
  assumes "alloc_ideal al" and "dynar_size d + n \<le> dyn_maximum_size d"
  shows "fst (dynar_prealloc al d n) = 0"
  using assms by (auto simp: dynar_prealloc_def dynar_realloc_def alloc_ideal_def Let_def)

text \<open>
  The growth policy: an allocation that has to grow at least doubles, unless the maximum size
  stops it, and never passes the maximum size.
\<close>

lemma dynar_prealloc_growth:
  assumes "dynar_prealloc al d n = (0, d')" and "dynar_size d + n > dyn_allocated d"
  shows "dyn_allocated d' = min (2 * (dyn_allocated d + n)) (dyn_maximum_size d)"
  using assms
  by (auto simp: dynar_prealloc_def dynar_realloc_def Let_def min_def split: if_splits)

lemma dynar_cat_fail: "dynar_cat al d src = (r, d') \<Longrightarrow> r \<noteq> 0 \<Longrightarrow> r = -1 \<and> d' = d"
  by (auto simp: dynar_cat_def split: prod.splits if_splits dest: dynar_prealloc_fail)

lemma dynar_cat_ok:
  assumes "dynar_cat al d src = (0, d')" and "dynar_inv d"
  shows "dyn_data d' = dyn_data d @ src \<and> dyn_maximum_size d' = dyn_maximum_size d \<and>
    dynar_inv d' \<and> dynar_size d' \<le> dyn_maximum_size d'"
proof -
  from assms obtain d1 where d1: "dynar_prealloc al d (length src) = (0, d1)"
    and d': "d' = d1\<lparr>dyn_data := dyn_data d1 @ src\<rparr>"
    by (auto simp: dynar_cat_def split: prod.splits if_splits)
  from dynar_prealloc_ok [OF d1 assms(2)] show ?thesis
    by (auto simp: d' dynar_inv_def dynar_size_def)
qed

lemma dynar_cat_total:
  assumes "alloc_ideal al" and "dynar_size d + length src \<le> dyn_maximum_size d"
  shows "fst (dynar_cat al d src) = 0"
  using dynar_prealloc_total [OF assms]
  by (auto simp: dynar_cat_def split: prod.splits)

section \<open>Writers\<close>

text \<open>
  Every operation that extends a message has one contract: from a well-formed array it either
  fails with -1, or it appends a fixed byte string and stays within the maximum size; it never
  changes the maximum size, and with memory and room it succeeds. \<open>writes al f bs\<close> is that
  contract; \<open>run_adds\<close> is the code's chain of calls with \<open>goto small_buf_err\<close> at the first -1.
\<close>

type_synonym adder = "dynar \<Rightarrow> int \<times> dynar"

definition writes :: "allocator \<Rightarrow> adder \<Rightarrow> byte list \<Rightarrow> bool" where
  "writes al f bs \<longleftrightarrow>
     (\<forall>d r d'. dynar_inv d \<longrightarrow> f d = (r, d') \<longrightarrow>
        dynar_inv d' \<and> dyn_maximum_size d' = dyn_maximum_size d \<and>
        (r = 0 \<or> r = -1) \<and>
        (r = 0 \<longrightarrow> dyn_data d' = dyn_data d @ bs \<and>
                   (bs = [] \<or> dynar_size d' \<le> dyn_maximum_size d')) \<and>
        (alloc_ideal al \<longrightarrow> dynar_size d + length bs \<le> dyn_maximum_size d \<longrightarrow> r = 0))"

fun run_adds :: "adder list \<Rightarrow> adder" where
  "run_adds [] d = (0, d)"
| "run_adds (f # fs) d = (case f d of (r, d') \<Rightarrow> if r = -1 then (-1, d') else run_adds fs d')"

definition skip_add :: adder where "skip_add d = (0, d)"

definition add_if :: "bool \<Rightarrow> adder \<Rightarrow> adder" where
  "add_if c f = (if c then f else skip_add)"

definition fail_add :: adder where "fail_add d = (-1, d)"

lemma writesD:
  assumes "writes al f bs" and "dynar_inv d" and "f d = (r, d')"
  shows "dynar_inv d'" and "dyn_maximum_size d' = dyn_maximum_size d" and "r = 0 \<or> r = -1"
    and "r = 0 \<Longrightarrow> dyn_data d' = dyn_data d @ bs"
    and "r = 0 \<Longrightarrow> bs = [] \<or> dynar_size d' \<le> dyn_maximum_size d'"
    and "alloc_ideal al \<Longrightarrow> dynar_size d + length bs \<le> dyn_maximum_size d \<Longrightarrow> r = 0"
  using assms unfolding writes_def by blast+

lemma writesI:
  assumes "\<And>d r d'. dynar_inv d \<Longrightarrow> f d = (r, d') \<Longrightarrow>
    dynar_inv d' \<and> dyn_maximum_size d' = dyn_maximum_size d \<and> (r = 0 \<or> r = -1)"
    and "\<And>d d'. dynar_inv d \<Longrightarrow> f d = (0, d') \<Longrightarrow>
      dyn_data d' = dyn_data d @ bs \<and> (bs = [] \<or> dynar_size d' \<le> dyn_maximum_size d')"
    and "\<And>d r d'. dynar_inv d \<Longrightarrow> f d = (r, d') \<Longrightarrow> alloc_ideal al \<Longrightarrow>
      dynar_size d + length bs \<le> dyn_maximum_size d \<Longrightarrow> r = 0"
  shows "writes al f bs"
  using assms unfolding writes_def by blast

lemma writes_cat [intro]: "writes al (\<lambda>d. dynar_cat al d src) src"
proof (rule writesI)
  fix d r d'
  assume inv: "dynar_inv d" and eq: "dynar_cat al d src = (r, d')"
  show "dynar_inv d' \<and> dyn_maximum_size d' = dyn_maximum_size d \<and> (r = 0 \<or> r = -1)"
    using dynar_cat_fail [OF eq] dynar_cat_ok [of al d src d'] inv eq by (cases "r = 0") auto
  show "r = 0" if "alloc_ideal al" "dynar_size d + length src \<le> dyn_maximum_size d"
    using dynar_cat_total [OF that] eq by simp
next
  fix d d'
  assume "dynar_inv d" "dynar_cat al d src = (0, d')"
  then show "dyn_data d' = dyn_data d @ src \<and> (src = [] \<or> dynar_size d' \<le> dyn_maximum_size d')"
    using dynar_cat_ok by blast
qed

lemma writes_skip [intro]: "writes al skip_add []"
  by (auto simp: writes_def skip_add_def)

lemma writes_if [intro]:
  "writes al f bs \<Longrightarrow> writes al (add_if c f) (if c then bs else [])"
  by (auto simp: add_if_def)

lemma run_adds_append:
  "run_adds (fs @ gs) d = (case run_adds fs d of (r, d') \<Rightarrow> if r = -1 then (-1, d') else run_adds gs d')"
  by (induction fs arbitrary: d) (auto split: prod.split)

lemma run_adds_Cons_cases:
  assumes f: "writes al f bs" and inv: "dynar_inv d" and eq: "run_adds (f # fs) d = (r, d')"
  obtains (fail) "r = -1" "f d = (-1, d')"
  | (go) d1 where "f d = (0, d1)" "run_adds fs d1 = (r, d')"
proof -
  obtain r1 d1 where fd: "f d = (r1, d1)" by fastforce
  from writesD(3) [OF f inv fd] show ?thesis
  proof
    assume "r1 = 0"
    with eq fd go show ?thesis by simp
  next
    assume "r1 = -1"
    with eq fd fail show ?thesis by simp
  qed
qed

lemma writes_Cons:
  assumes f: "writes al f bs" and g: "writes al (run_adds fs) cs"
  shows "writes al (run_adds (f # fs)) (bs @ cs)"
proof (rule writesI)
  fix d r d'
  assume inv: "dynar_inv d" and eq: "run_adds (f # fs) d = (r, d')"
  from f inv eq show "dynar_inv d' \<and> dyn_maximum_size d' = dyn_maximum_size d \<and> (r = 0 \<or> r = -1)"
  proof (cases rule: run_adds_Cons_cases)
    case fail
    then show ?thesis using writesD(1,2) [OF f inv] by blast
  next
    case (go d1)
    then show ?thesis
      using writesD(1,2) [OF f inv go(1)] writesD(1,2,3) [OF g _ go(2)] by simp
  qed
  assume ideal: "alloc_ideal al" and room: "dynar_size d + length (bs @ cs) \<le> dyn_maximum_size d"
  from f inv eq show "r = 0"
  proof (cases rule: run_adds_Cons_cases)
    case fail
    then show ?thesis using writesD(6) [OF f inv fail(2) ideal] room by simp
  next
    case (go d1)
    have "dynar_size d1 = dynar_size d + length bs"
      using writesD(4) [OF f inv go(1)] by (simp add: dynar_size_def)
    then show ?thesis
      using writesD(1,2) [OF f inv go(1)] writesD(6) [OF g _ go(2) ideal] room by simp
  qed
next
  fix d d'
  assume inv: "dynar_inv d" and eq: "run_adds (f # fs) d = (0, d')"
  from f inv eq show "dyn_data d' = dyn_data d @ bs @ cs \<and>
    (bs @ cs = [] \<or> dynar_size d' \<le> dyn_maximum_size d')"
  proof (cases rule: run_adds_Cons_cases)
    case (go d1)
    from writesD(1,2,4,5) [OF f inv go(1)] writesD(2,4,5) [OF g _ go(2)] show ?thesis
      by (cases "cs = []") (simp_all add: dynar_size_def)
  qed simp
qed

lemma writes_Nil [intro]: "writes al (run_adds []) []"
  by (auto simp: writes_def)

lemma writes_run_adds:
  "list_all2 (writes al) fs bss \<Longrightarrow> writes al (run_adds fs) (concat bss)"
  by (induction fs bss rule: list_all2_induct) (auto intro: writes_Cons simp del: run_adds.simps)

end
