(* ===== verification/Tlv.thy ===== *)
theory Tlv
  imports Tlv_Types Dynar
begin

text \<open>
  The writing half of \<open>tlv.c\<close>: one adder per option. An option on the wire is a 16-bit type, a
  16-bit length and the value, all in network order. The length parameter of \<open>tlv_add\<close> is a
  \<open>uint16_t\<close>, so a longer string or array is cut to its length modulo 65536. The lemmas give the
  bytes each adder writes, as instances of the writer contract of the dynamic array.
\<close>

section \<open>Adders\<close>

definition tlv_add :: "allocator \<Rightarrow> tlv_opt_type \<Rightarrow> u16 \<Rightarrow> byte list \<Rightarrow> adder" where
  "tlv_add al opt_type opt_len val msg =
     (if dynar_size msg + 2 + 2 + unat opt_len > dynar_max_size msg then (-1, msg)
      else run_adds
        [\<lambda>d. dynar_cat al d (be16 (tlv_opt_type_code opt_type)),
         \<lambda>d. dynar_cat al d (be16 opt_len),
         \<lambda>d. dynar_cat al d (take (unat opt_len) val)] msg)"

definition tlv_add_u32 :: "allocator \<Rightarrow> tlv_opt_type \<Rightarrow> u32 \<Rightarrow> adder" where
  "tlv_add_u32 al opt_type v = tlv_add al opt_type 4 (be32 v)"

definition tlv_add_u8 :: "allocator \<Rightarrow> tlv_opt_type \<Rightarrow> u8 \<Rightarrow> adder" where
  "tlv_add_u8 al opt_type v = tlv_add al opt_type 1 [v]"

definition tlv_add_u16 :: "allocator \<Rightarrow> tlv_opt_type \<Rightarrow> u16 \<Rightarrow> adder" where
  "tlv_add_u16 al opt_type v = tlv_add al opt_type 2 (be16 v)"

definition tlv_add_u64 :: "allocator \<Rightarrow> tlv_opt_type \<Rightarrow> u64 \<Rightarrow> adder" where
  "tlv_add_u64 al opt_type v = tlv_add al opt_type 8 (be64 v)"

definition tlv_add_string :: "allocator \<Rightarrow> tlv_opt_type \<Rightarrow> byte list \<Rightarrow> adder" where
  "tlv_add_string al opt_type str = tlv_add al opt_type (of_nat (length str)) str"

definition tlv_add_msg_seq_number :: "allocator \<Rightarrow> u32 \<Rightarrow> adder" where
  "tlv_add_msg_seq_number al n = tlv_add_u32 al TLV_OPT_MSG_SEQ_NUMBER n"

definition tlv_add_cluster_name :: "allocator \<Rightarrow> byte list \<Rightarrow> adder" where
  "tlv_add_cluster_name al cluster_name = tlv_add_string al TLV_OPT_CLUSTER_NAME cluster_name"

definition tlv_add_tls_supported :: "allocator \<Rightarrow> tlv_tls_supported \<Rightarrow> adder" where
  "tlv_add_tls_supported al t = tlv_add_u8 al TLV_OPT_TLS_SUPPORTED (tlv_tls_supported_code t)"

definition tlv_add_tls_client_cert_required :: "allocator \<Rightarrow> int \<Rightarrow> adder" where
  "tlv_add_tls_client_cert_required al i =
     tlv_add_u8 al TLV_OPT_TLS_CLIENT_CERT_REQUIRED (of_int i)"

definition tlv_add_u16_array :: "allocator \<Rightarrow> tlv_opt_type \<Rightarrow> u16 list \<Rightarrow> adder" where
  "tlv_add_u16_array al opt_type arr msg =
     (if \<not> al (Malloc_Bytes (2 * length arr)) then (-1, msg)
      else tlv_add al opt_type (of_nat (2 * length arr)) (concat (map be16 arr)) msg)"

definition tlv_add_supported_options :: "allocator \<Rightarrow> tlv_opt_type list \<Rightarrow> adder" where
  "tlv_add_supported_options al opts msg =
     (if \<not> al (Malloc_Bytes (2 * length opts)) then (-1, msg)
      else tlv_add_u16_array al TLV_OPT_SUPPORTED_OPTIONS (map tlv_opt_type_code opts) msg)"

definition tlv_add_supported_decision_algorithms ::
    "allocator \<Rightarrow> tlv_decision_algorithm_type list \<Rightarrow> adder" where
  "tlv_add_supported_decision_algorithms al algs msg =
     (if \<not> al (Malloc_Bytes (2 * length algs)) then (-1, msg)
      else tlv_add_u16_array al TLV_OPT_SUPPORTED_DECISION_ALGORITHMS
             (map tlv_decision_algorithm_type_code algs) msg)"

definition tlv_add_reply_error_code :: "allocator \<Rightarrow> tlv_reply_error_code \<Rightarrow> adder" where
  "tlv_add_reply_error_code al e =
     tlv_add_u16 al TLV_OPT_REPLY_ERROR_CODE (tlv_reply_error_code_code e)"

definition tlv_add_server_maximum_request_size :: "allocator \<Rightarrow> nat \<Rightarrow> adder" where
  "tlv_add_server_maximum_request_size al n =
     tlv_add_u32 al TLV_OPT_SERVER_MAXIMUM_REQUEST_SIZE (of_nat n)"

definition tlv_add_server_maximum_reply_size :: "allocator \<Rightarrow> nat \<Rightarrow> adder" where
  "tlv_add_server_maximum_reply_size al n =
     tlv_add_u32 al TLV_OPT_SERVER_MAXIMUM_REPLY_SIZE (of_nat n)"

definition tlv_add_node_id :: "allocator \<Rightarrow> u32 \<Rightarrow> adder" where
  "tlv_add_node_id al n = tlv_add_u32 al TLV_OPT_NODE_ID n"

definition tlv_add_decision_algorithm :: "allocator \<Rightarrow> tlv_decision_algorithm_type \<Rightarrow> adder" where
  "tlv_add_decision_algorithm al a =
     tlv_add_u16 al TLV_OPT_DECISION_ALGORITHM (tlv_decision_algorithm_type_code a)"

definition tlv_add_heartbeat_interval :: "allocator \<Rightarrow> u32 \<Rightarrow> adder" where
  "tlv_add_heartbeat_interval al n = tlv_add_u32 al TLV_OPT_HEARTBEAT_INTERVAL n"

definition tlv_add_ring_id :: "allocator \<Rightarrow> tlv_ring_id \<Rightarrow> adder" where
  "tlv_add_ring_id al ring_id =
     tlv_add al TLV_OPT_RING_ID 12 (be32 (rid_node_id ring_id) @ be64 (rid_seq ring_id))"

definition tlv_add_tie_breaker :: "allocator \<Rightarrow> tlv_tie_breaker \<Rightarrow> adder" where
  "tlv_add_tie_breaker al tie_breaker =
     tlv_add al TLV_OPT_TIE_BREAKER 5
       (tlv_tie_breaker_mode_code (tb_mode tie_breaker) #
        (if tb_mode tie_breaker = TLV_TIE_BREAKER_MODE_NODE_ID
         then be32 (tb_node_id tie_breaker) else be32 0))"

definition tlv_add_config_version :: "allocator \<Rightarrow> u64 \<Rightarrow> adder" where
  "tlv_add_config_version al v = tlv_add_u64 al TLV_OPT_CONFIG_VERSION v"

definition tlv_add_data_center_id :: "allocator \<Rightarrow> u32 \<Rightarrow> adder" where
  "tlv_add_data_center_id al n = tlv_add_u32 al TLV_OPT_DATA_CENTER_ID n"

definition tlv_add_node_state :: "allocator \<Rightarrow> tlv_node_state \<Rightarrow> adder" where
  "tlv_add_node_state al s = tlv_add_u8 al TLV_OPT_NODE_STATE (tlv_node_state_code s)"

definition tlv_add_node_info :: "allocator \<Rightarrow> tlv_node_info \<Rightarrow> adder" where
  "tlv_add_node_info al node_info msg =
     (case run_adds
             [tlv_add_node_id al (ni_node_id node_info),
              add_if (ni_data_center_id node_info \<noteq> 0)
                (tlv_add_data_center_id al (ni_data_center_id node_info)),
              add_if (ni_node_state node_info \<noteq> TLV_NODE_STATE_NOT_SET)
                (tlv_add_node_state al (ni_node_state node_info))]
             (dynar_init 1024) of
        (res, opt_value) \<Rightarrow>
          if res \<noteq> 0 then (res, msg)
          else tlv_add al TLV_OPT_NODE_INFO (of_nat (dynar_size opt_value)) (dyn_data opt_value) msg)"

definition tlv_add_node_list_type :: "allocator \<Rightarrow> tlv_node_list_type \<Rightarrow> adder" where
  "tlv_add_node_list_type al t = tlv_add_u8 al TLV_OPT_NODE_LIST_TYPE (tlv_node_list_type_code t)"

definition tlv_add_vote :: "allocator \<Rightarrow> tlv_vote \<Rightarrow> adder" where
  "tlv_add_vote al v = tlv_add_u8 al TLV_OPT_VOTE (tlv_vote_code v)"

definition tlv_add_quorate :: "allocator \<Rightarrow> tlv_quorate \<Rightarrow> adder" where
  "tlv_add_quorate al q = tlv_add_u8 al TLV_OPT_QUORATE (tlv_quorate_code q)"

definition tlv_add_heuristics :: "allocator \<Rightarrow> tlv_heuristics \<Rightarrow> adder" where
  "tlv_add_heuristics al h =
     (if h = TLV_HEURISTICS_UNDEFINED then fail_add
      else tlv_add_u8 al TLV_OPT_HEURISTICS (tlv_heuristics_code h))"

definition tlv_add_keep_active_partition_tie_breaker ::
    "allocator \<Rightarrow> tlv_keep_active_partition_tie_breaker \<Rightarrow> adder" where
  "tlv_add_keep_active_partition_tie_breaker al k =
     tlv_add_u8 al TLV_OPT_KEEP_ACTIVE_PARTITION_TIE_BREAKER
       (tlv_keep_active_partition_tie_breaker_code k)"

section \<open>The bytes the adders write\<close>

type_synonym tlv = "tlv_opt_type \<times> byte list"

definition tlv_bytes :: "tlv \<Rightarrow> byte list" where
  "tlv_bytes tv = be16 (tlv_opt_type_code (fst tv)) @ be16 (of_nat (length (snd tv))) @ snd tv"

definition tlvs_bytes :: "tlv list \<Rightarrow> byte list" where
  "tlvs_bytes tvs = concat (map tlv_bytes tvs)"

lemma length_tlv_bytes [simp]: "length (tlv_bytes (t, v)) = 4 + length v"
  by (simp add: tlv_bytes_def)

lemma tlvs_bytes_simps [simp]:
  "tlvs_bytes [] = []"
  "tlvs_bytes (tv # tvs) = tlv_bytes tv @ tlvs_bytes tvs"
  "tlvs_bytes (tvs @ tvs') = tlvs_bytes tvs @ tlvs_bytes tvs'"
  by (simp_all add: tlvs_bytes_def)

text \<open>An adder that writes whole options.\<close>

definition writes_tlvs :: "allocator \<Rightarrow> adder \<Rightarrow> tlv list \<Rightarrow> bool" where
  "writes_tlvs al f tvs \<longleftrightarrow> writes al f (tlvs_bytes tvs)"

named_theorems tlv_writers \<open>the options that each adder writes\<close>

lemma writes_tlv_add_raw:
  assumes "unat l \<le> length v"
  shows "writes al (tlv_add al t l v) (be16 (tlv_opt_type_code t) @ be16 l @ take (unat l) v)"
    (is "writes al _ ?bs")
proof -
  let ?fs = "[\<lambda>d. dynar_cat al d (be16 (tlv_opt_type_code t)), \<lambda>d. dynar_cat al d (be16 l),
     \<lambda>d. dynar_cat al d (take (unat l) v)]"
  have w: "writes al (run_adds ?fs)
      (concat [be16 (tlv_opt_type_code t), be16 l, take (unat l) v])"
    by (rule writes_run_adds) auto
  then have w: "writes al (run_adds ?fs) ?bs" by simp
  show ?thesis
  proof (rule writesI)
    fix d r d'
    assume inv: "dynar_inv d" and eq: "tlv_add al t l v d = (r, d')"
    show "dynar_inv d' \<and> dyn_maximum_size d' = dyn_maximum_size d \<and> (r = 0 \<or> r = -1)"
      using eq inv writesD(1,2,3) [OF w inv] unfolding tlv_add_def
      by (simp split: if_splits del: run_adds.simps)
    show "r = 0" if "alloc_ideal al" "dynar_size d + length ?bs \<le> dyn_maximum_size d"
    proof -
      from that(2) eq assms have "run_adds ?fs d = (r, d')"
        unfolding tlv_add_def by (simp add: dynar_max_size_def del: run_adds.simps)
      from writesD(6) [OF w inv this that] show ?thesis .
    qed
  next
    fix d d'
    assume inv: "dynar_inv d" and eq: "tlv_add al t l v d = (0, d')"
    from eq have "run_adds ?fs d = (0, d')"
      unfolding tlv_add_def by (simp split: if_splits del: run_adds.simps)
    from writesD(4,5) [OF w inv this]
    show "dyn_data d' = dyn_data d @ ?bs \<and> (?bs = [] \<or> dynar_size d' \<le> dyn_maximum_size d')"
      by simp
  qed
qed

lemma writes_tlv_add:
  assumes "length v < 65536" and "l = of_nat (length v)"
  shows "writes_tlvs al (tlv_add al t l v) [(t, v)]"
proof -
  have "unat l = length v"
    using assms by (simp add: unat_of_nat)
  with writes_tlv_add_raw [of l v al t] assms(2) show ?thesis
    by (simp add: writes_tlvs_def tlv_bytes_def)
qed

lemma writes_tlvs_u32 [tlv_writers]: "writes_tlvs al (tlv_add_u32 al t v) [(t, be32 v)]"
  and writes_tlvs_u8 [tlv_writers]: "writes_tlvs al (tlv_add_u8 al t b) [(t, [b])]"
  and writes_tlvs_u16 [tlv_writers]: "writes_tlvs al (tlv_add_u16 al t w) [(t, be16 w)]"
  and writes_tlvs_u64 [tlv_writers]: "writes_tlvs al (tlv_add_u64 al t x) [(t, be64 x)]"
  unfolding tlv_add_u32_def tlv_add_u8_def tlv_add_u16_def tlv_add_u64_def
  by (rule writes_tlv_add; simp)+

lemma writes_tlvs_string [tlv_writers]:
  "length str < 65536 \<Longrightarrow> writes_tlvs al (tlv_add_string al t str) [(t, str)]"
  unfolding tlv_add_string_def by (rule writes_tlv_add) simp_all

lemma writes_fail_or:
  assumes "writes al f bs" and "alloc_ideal al \<Longrightarrow> ok"
  shows "writes al (\<lambda>d. if \<not> ok then (-1, d) else f d) bs"
proof (cases ok)
  case True
  with assms(1) show ?thesis by simp
next
  case False
  with assms(2) show ?thesis by (intro writesI) auto
qed

lemma writes_tlvs_u16_array [tlv_writers]:
  assumes "2 * length arr < 65536"
  shows "writes_tlvs al (tlv_add_u16_array al t arr) [(t, concat (map be16 arr))]"
proof -
  have "writes_tlvs al (tlv_add al t (of_nat (2 * length arr)) (concat (map be16 arr)))
      [(t, concat (map be16 arr))]"
    using assms by (intro writes_tlv_add) (simp_all add: c16.array_length)
  then show ?thesis
    unfolding tlv_add_u16_array_def writes_tlvs_def
    by (rule writes_fail_or) (simp add: alloc_ideal_def)
qed

lemma writes_tlvs_supported_options [tlv_writers]:
  assumes "2 * length opts < 65536"
  shows "writes_tlvs al (tlv_add_supported_options al opts)
    [(TLV_OPT_SUPPORTED_OPTIONS, concat (map be16 (map tlv_opt_type_code opts)))]"
  using writes_tlvs_u16_array [of "map tlv_opt_type_code opts" al TLV_OPT_SUPPORTED_OPTIONS] assms
  unfolding tlv_add_supported_options_def writes_tlvs_def
  by (intro writes_fail_or) (simp_all add: alloc_ideal_def)

lemma writes_tlvs_supported_decision_algorithms [tlv_writers]:
  assumes "2 * length algs < 65536"
  shows "writes_tlvs al (tlv_add_supported_decision_algorithms al algs)
    [(TLV_OPT_SUPPORTED_DECISION_ALGORITHMS,
      concat (map be16 (map tlv_decision_algorithm_type_code algs)))]"
  using assms writes_tlvs_u16_array [of "map tlv_decision_algorithm_type_code algs" al
      TLV_OPT_SUPPORTED_DECISION_ALGORITHMS]
  unfolding tlv_add_supported_decision_algorithms_def writes_tlvs_def
  by (intro writes_fail_or) (simp_all add: alloc_ideal_def)

definition ring_id_bytes :: "tlv_ring_id \<Rightarrow> byte list" where
  "ring_id_bytes r = be32 (rid_node_id r) @ be64 (rid_seq r)"

definition tie_breaker_bytes :: "tlv_tie_breaker \<Rightarrow> byte list" where
  "tie_breaker_bytes tb = tlv_tie_breaker_mode_code (tb_mode tb) #
     (if tb_mode tb = TLV_TIE_BREAKER_MODE_NODE_ID then be32 (tb_node_id tb) else be32 0)"

definition node_info_tlvs :: "tlv_node_info \<Rightarrow> tlv list" where
  "node_info_tlvs ni =
     [(TLV_OPT_NODE_ID, be32 (ni_node_id ni))] @
     (if ni_data_center_id ni \<noteq> 0
      then [(TLV_OPT_DATA_CENTER_ID, be32 (ni_data_center_id ni))] else []) @
     (if ni_node_state ni \<noteq> TLV_NODE_STATE_NOT_SET
      then [(TLV_OPT_NODE_STATE, [tlv_node_state_code (ni_node_state ni)])] else [])"

lemma length_ring_id_bytes [simp]: "length (ring_id_bytes r) = 12"
  by (simp add: ring_id_bytes_def)

lemma length_tie_breaker_bytes [simp]: "length (tie_breaker_bytes tb) = 5"
  by (simp add: tie_breaker_bytes_def)

lemma length_node_info_tlvs: "length (tlvs_bytes (node_info_tlvs ni)) \<le> 21"
  by (simp add: node_info_tlvs_def)

lemma writes_tlvs_ring_id [tlv_writers]:
  "writes_tlvs al (tlv_add_ring_id al r) [(TLV_OPT_RING_ID, ring_id_bytes r)]"
  unfolding tlv_add_ring_id_def ring_id_bytes_def by (rule writes_tlv_add) simp_all

lemma writes_tlvs_tie_breaker [tlv_writers]:
  "writes_tlvs al (tlv_add_tie_breaker al tb) [(TLV_OPT_TIE_BREAKER, tie_breaker_bytes tb)]"
  unfolding tlv_add_tie_breaker_def tie_breaker_bytes_def by (rule writes_tlv_add) simp_all

lemma writes_tlvs_if [tlv_writers]:
  "(c \<Longrightarrow> writes_tlvs al f tvs) \<Longrightarrow> writes_tlvs al (add_if c f) (if c then tvs else [])"
  by (auto simp: writes_tlvs_def add_if_def intro: writes_skip)

lemma writes_tlvs_Nil [tlv_writers]: "writes_tlvs al (run_adds []) []"
  by (simp add: writes_tlvs_def writes_Nil)

lemma writes_tlvs_Cons [tlv_writers]:
  "writes_tlvs al f tvs \<Longrightarrow> writes_tlvs al (run_adds fs) tvs' \<Longrightarrow>
   writes_tlvs al (run_adds (f # fs)) (tvs @ tvs')"
  by (simp add: writes_tlvs_def writes_Cons)

lemmas tlv_add_wrappers = tlv_add_msg_seq_number_def tlv_add_cluster_name_def
  tlv_add_tls_supported_def tlv_add_tls_client_cert_required_def tlv_add_reply_error_code_def
  tlv_add_server_maximum_request_size_def tlv_add_server_maximum_reply_size_def
  tlv_add_node_id_def tlv_add_decision_algorithm_def tlv_add_heartbeat_interval_def
  tlv_add_config_version_def tlv_add_data_center_id_def tlv_add_node_state_def
  tlv_add_node_list_type_def tlv_add_vote_def tlv_add_quorate_def
  tlv_add_keep_active_partition_tie_breaker_def

lemma writes_tlvs_heuristics [tlv_writers]:
  "h \<noteq> TLV_HEURISTICS_UNDEFINED \<Longrightarrow>
   writes_tlvs al (tlv_add_heuristics al h) [(TLV_OPT_HEURISTICS, [tlv_heuristics_code h])]"
  by (simp add: tlv_add_heuristics_def writes_tlvs_u8)

lemma writes_tlvs_node_info_body:
  "writes_tlvs al (run_adds
     [tlv_add_node_id al (ni_node_id ni),
      add_if (ni_data_center_id ni \<noteq> 0) (tlv_add_data_center_id al (ni_data_center_id ni)),
      add_if (ni_node_state ni \<noteq> TLV_NODE_STATE_NOT_SET)
        (tlv_add_node_state al (ni_node_state ni))])
   (node_info_tlvs ni)"
proof -
  have "node_info_tlvs ni = [(TLV_OPT_NODE_ID, be32 (ni_node_id ni))] @
     (if ni_data_center_id ni \<noteq> 0
      then [(TLV_OPT_DATA_CENTER_ID, be32 (ni_data_center_id ni))] else []) @
     (if ni_node_state ni \<noteq> TLV_NODE_STATE_NOT_SET
      then [(TLV_OPT_NODE_STATE, [tlv_node_state_code (ni_node_state ni)])] else []) @ []"
    by (simp add: node_info_tlvs_def)
  then show ?thesis
    unfolding tlv_add_wrappers by (simp only:) (intro tlv_writers)
qed

lemma writes_tlvs_node_info [tlv_writers]:
  "writes_tlvs al (tlv_add_node_info al ni) [(TLV_OPT_NODE_INFO, tlvs_bytes (node_info_tlvs ni))]"
proof -
  define v where "v = tlvs_bytes (node_info_tlvs ni)"
  note len = length_node_info_tlvs [of ni, folded v_def]
  obtain res ov where run: "run_adds
     [tlv_add_node_id al (ni_node_id ni),
      add_if (ni_data_center_id ni \<noteq> 0) (tlv_add_data_center_id al (ni_data_center_id ni)),
      add_if (ni_node_state ni \<noteq> TLV_NODE_STATE_NOT_SET)
        (tlv_add_node_state al (ni_node_state ni))] (dynar_init 1024) = (res, ov)"
    by fastforce
  note B = writesD [OF writes_tlvs_node_info_body [of al ni, unfolded writes_tlvs_def, folded v_def]
      dynar_inv_init run]
  have add: "writes al (tlv_add al TLV_OPT_NODE_INFO (of_nat (length v)) v)
      (tlv_bytes (TLV_OPT_NODE_INFO, v))"
    using writes_tlv_add [of v "of_nat (length v)" al TLV_OPT_NODE_INFO] len
    by (simp add: writes_tlvs_def)
  have data: "res = 0 \<Longrightarrow> dyn_data ov = v"
    using B(4) by (simp add: dynar_init_def)
  have ok: "alloc_ideal al \<Longrightarrow> res = 0"
    using B(6) len by (simp add: dynar_defs)
  have eq: "tlv_add_node_info al ni = (\<lambda>msg. if \<not> res = 0 then (-1, msg)
      else tlv_add al TLV_OPT_NODE_INFO (of_nat (length v)) v msg)"
    using B(3) data by (auto simp: tlv_add_node_info_def run dynar_size_def fun_eq_iff
        simp del: run_adds.simps)
  show ?thesis
    unfolding writes_tlvs_def eq v_def [symmetric] tlvs_bytes_simps append_Nil2
    using add ok by (rule writes_fail_or)
qed

end
