(* ===== verification/Tlv_Iter.thy ===== *)
theory Tlv_Iter
  imports Tlv
begin

text \<open>
  The reading half of \<open>tlv.c\<close>: the option iterator and one decoder per option. The iterator
  reads the 16-bit length of an option before it knows that the option header lies inside the
  message; the bytes it may then see behind the message are the field \<open>it_junk\<close>. The main result
  is that a loop over the options of any message equals a fold over \<open>tlv_split\<close>, a reference
  parser on byte lists, whatever those bytes are.
\<close>

section \<open>The iterator\<close>

record tlv_iterator =
  it_msg :: "byte list"
  it_junk :: memtail
  it_msg_len :: nat
  it_current_pos :: nat
  it_msg_header_len :: nat
  it_iter_next_called :: bool

definition tlv_iter_init_str :: "byte list \<Rightarrow> memtail \<Rightarrow> nat \<Rightarrow> nat \<Rightarrow> tlv_iterator" where
  "tlv_iter_init_str msg junk msg_len msg_header_len =
     \<lparr>it_msg = msg, it_junk = junk, it_msg_len = msg_len, it_current_pos = 0,
      it_msg_header_len = msg_header_len, it_iter_next_called = False\<rparr>"

definition tlv_iter_init :: "dynar \<Rightarrow> memtail \<Rightarrow> nat \<Rightarrow> tlv_iterator" where
  "tlv_iter_init msg junk msg_header_len =
     tlv_iter_init_str (dyn_data msg) junk (dynar_size msg) msg_header_len"

definition tlv_iter_get_type :: "tlv_iterator \<Rightarrow> tlv_opt_type" where
  "tlv_iter_get_type it =
     tlv_opt_type_of (rd16 (mem_read (it_msg it) (it_junk it) (it_current_pos it) 2))"

definition tlv_iter_get_len :: "tlv_iterator \<Rightarrow> u16" where
  "tlv_iter_get_len it = rd16 (mem_read (it_msg it) (it_junk it) (it_current_pos it + 2) 2)"

text \<open>\<open>tlv_iter_get_data\<close> is a pointer; the decoders read \<open>n\<close> bytes at an offset from it.\<close>

definition tlv_iter_get_data :: "tlv_iterator \<Rightarrow> nat \<Rightarrow> nat \<Rightarrow> byte list" where
  "tlv_iter_get_data it off n = mem_read (it_msg it) (it_junk it) (it_current_pos it + (2 + 2) + off) n"

definition tlv_iter_check :: "tlv_iterator \<Rightarrow> int \<times> tlv_iterator" where
  "tlv_iter_check it =
     (if it_current_pos it + (2 + 2) + unat (tlv_iter_get_len it) > it_msg_len it then (-1, it)
      else (1, it))"

definition tlv_iter_next :: "tlv_iterator \<Rightarrow> int \<times> tlv_iterator" where
  "tlv_iter_next it =
     (if \<not> it_iter_next_called it
      then tlv_iter_check
        (it\<lparr>it_iter_next_called := True, it_current_pos := it_msg_header_len it\<rparr>)
      else if it_current_pos it + (2 + 2) + unat (tlv_iter_get_len it) \<ge> it_msg_len it then (0, it)
      else tlv_iter_check
        (it\<lparr>it_current_pos := it_current_pos it + (2 + 2 + unat (tlv_iter_get_len it))\<rparr>))"

text \<open>
  The loop \<open>while ((iter_res = tlv_iter_next(&iter)) > 0) switch (...)\<close> with its final check of
  \<open>iter_res\<close>; \<open>h\<close> is the switch, with result 0 to go on and any other value to return it.
\<close>

function tlv_iter_loop ::
    "(tlv_iterator \<Rightarrow> 's \<Rightarrow> int \<times> 's) \<Rightarrow> tlv_iterator \<Rightarrow> 's \<Rightarrow> int \<times> 's" where
  "tlv_iter_loop h it s =
     (case tlv_iter_next it of
        (iter_res, it') \<Rightarrow>
          if iter_res > 0
          then (case h it' s of (res, s') \<Rightarrow>
                  if res \<noteq> 0 then (res, s') else tlv_iter_loop h it' s')
          else (if iter_res \<noteq> 0 then -3 else 0, s))"
  by pat_completeness auto
termination
  by (relation "measures [\<lambda>(h, it, s). if it_iter_next_called it then 0 else 1,
        \<lambda>(h, it, s). it_msg_len it - it_current_pos it]")
     (auto simp: tlv_iter_next_def tlv_iter_check_def split: if_splits)

declare tlv_iter_loop.simps [simp del]

section \<open>Decoders\<close>

definition tlv_iter_decode_u32 :: "tlv_iterator \<Rightarrow> int + u32" where
  "tlv_iter_decode_u32 it =
     (if unat (tlv_iter_get_len it) \<noteq> 4 then Inl (-1) else Inr (rd32 (tlv_iter_get_data it 0 4)))"

definition tlv_iter_decode_u8 :: "tlv_iterator \<Rightarrow> int + u8" where
  "tlv_iter_decode_u8 it =
     (if unat (tlv_iter_get_len it) \<noteq> 1 then Inl (-1) else Inr (hd (tlv_iter_get_data it 0 1)))"

definition tlv_iter_decode_client_cert_required :: "tlv_iterator \<Rightarrow> int + u8" where
  "tlv_iter_decode_client_cert_required it = tlv_iter_decode_u8 it"

definition tlv_iter_decode_str :: "allocator \<Rightarrow> tlv_iterator \<Rightarrow> int + byte list" where
  "tlv_iter_decode_str al it =
     (let opt_len = unat (tlv_iter_get_len it)
      in if \<not> al (Malloc_Bytes (opt_len + 1)) then Inl (-1)
         else Inr (tlv_iter_get_data it 0 opt_len))"

text \<open>
  The count \<open>*no_items\<close> is stored before the allocation: an allocation failure returns -2 with
  the count already written (\<open>Some\<close>), a bad length returns -1 with it untouched.
\<close>

definition tlv_iter_decode_u16_array ::
    "allocator \<Rightarrow> tlv_iterator \<Rightarrow> (int \<times> nat option) + u16 list" where
  "tlv_iter_decode_u16_array al it =
     (let opt_len = unat (tlv_iter_get_len it)
      in if opt_len mod 2 \<noteq> 0 then Inl (-1, None)
         else let no_items = opt_len div 2
              in if \<not> al (Malloc_Bytes (2 * no_items)) then Inl (-2, Some no_items)
                 else Inr (map rd16 (chunks 2 no_items (tlv_iter_get_data it 0 opt_len))))"

definition tlv_iter_decode_supported_options ::
    "allocator \<Rightarrow> tlv_iterator \<Rightarrow> (int \<times> nat option) + tlv_opt_type list" where
  "tlv_iter_decode_supported_options al it =
     (case tlv_iter_decode_u16_array al it of
        Inl e \<Rightarrow> Inl e
      | Inr u16a \<Rightarrow>
          if \<not> al (Malloc_Bytes (4 * length u16a)) then Inl (-2, Some (length u16a))
          else Inr (map tlv_opt_type_of u16a))"

definition tlv_iter_decode_supported_decision_algorithms ::
    "allocator \<Rightarrow> tlv_iterator \<Rightarrow> (int \<times> nat option) + tlv_decision_algorithm_type list" where
  "tlv_iter_decode_supported_decision_algorithms al it =
     (case tlv_iter_decode_u16_array al it of
        Inl e \<Rightarrow> Inl e
      | Inr u16a \<Rightarrow>
          if \<not> al (Malloc_Bytes (4 * length u16a)) then Inl (-2, Some (length u16a))
          else Inr (map tlv_decision_algorithm_type_of u16a))"

definition tlv_iter_decode_u16 :: "tlv_iterator \<Rightarrow> int + u16" where
  "tlv_iter_decode_u16 it =
     (if unat (tlv_iter_get_len it) \<noteq> 2 then Inl (-1) else Inr (rd16 (tlv_iter_get_data it 0 2)))"

definition tlv_iter_decode_u64 :: "tlv_iterator \<Rightarrow> int + u64" where
  "tlv_iter_decode_u64 it =
     (if unat (tlv_iter_get_len it) \<noteq> 8 then Inl (-1) else Inr (rd64 (tlv_iter_get_data it 0 8)))"

definition tlv_iter_decode_reply_error_code :: "tlv_iterator \<Rightarrow> int + tlv_reply_error_code" where
  "tlv_iter_decode_reply_error_code it =
     (case tlv_iter_decode_u16 it of Inl e \<Rightarrow> Inl e | Inr w \<Rightarrow> Inr (tlv_reply_error_code_of w))"

text \<open>The decoders of checked one-byte enumerations share one shape.\<close>

definition decode_enum8 :: "('e \<Rightarrow> u8) \<Rightarrow> 'e list \<Rightarrow> tlv_iterator \<Rightarrow> int + 'e" where
  "decode_enum8 code allowed it =
     (case tlv_iter_decode_u8 it of
        Inl e \<Rightarrow> Inl (-1)
      | Inr b \<Rightarrow> (case find (\<lambda>e. code e = b) allowed of None \<Rightarrow> Inl (-4) | Some e \<Rightarrow> Inr e))"

definition tlv_iter_decode_tls_supported :: "tlv_iterator \<Rightarrow> int + tlv_tls_supported" where
  "tlv_iter_decode_tls_supported =
     decode_enum8 tlv_tls_supported_code
       [TLV_TLS_UNSUPPORTED, TLV_TLS_SUPPORTED, TLV_TLS_REQUIRED]"

definition tlv_iter_decode_decision_algorithm ::
    "tlv_iterator \<Rightarrow> int + tlv_decision_algorithm_type" where
  "tlv_iter_decode_decision_algorithm it =
     (case tlv_iter_decode_u16 it of
        Inl e \<Rightarrow> Inl (-1) | Inr w \<Rightarrow> Inr (tlv_decision_algorithm_type_of w))"

definition tlv_iter_decode_ring_id :: "tlv_iterator \<Rightarrow> int + tlv_ring_id" where
  "tlv_iter_decode_ring_id it =
     (if unat (tlv_iter_get_len it) \<noteq> 12 then Inl (-1)
      else Inr \<lparr>rid_node_id = rd32 (tlv_iter_get_data it 0 4),
                rid_seq = rd64 (tlv_iter_get_data it 4 8)\<rparr>)"

definition tlv_iter_decode_tie_breaker :: "tlv_iterator \<Rightarrow> int + tlv_tie_breaker" where
  "tlv_iter_decode_tie_breaker it =
     (if unat (tlv_iter_get_len it) \<noteq> 5 then Inl (-1)
      else let mode = tlv_tie_breaker_mode_of (hd (tlv_iter_get_data it 0 1))
           in if mode \<noteq> TLV_TIE_BREAKER_MODE_LOWEST \<and> mode \<noteq> TLV_TIE_BREAKER_MODE_HIGHEST \<and>
                 mode \<noteq> TLV_TIE_BREAKER_MODE_NODE_ID then Inl (-4)
              else Inr \<lparr>tb_mode = mode,
                        tb_node_id = (if mode = TLV_TIE_BREAKER_MODE_NODE_ID
                                      then rd32 (tlv_iter_get_data it 1 4) else 0)\<rparr>)"

definition tlv_iter_decode_node_state :: "tlv_iterator \<Rightarrow> int + tlv_node_state" where
  "tlv_iter_decode_node_state =
     decode_enum8 tlv_node_state_code
       [TLV_NODE_STATE_MEMBER, TLV_NODE_STATE_DEAD, TLV_NODE_STATE_LEAVING]"

text \<open>The switch inside \<open>tlv_iter_decode_node_info\<close>, then the function itself.\<close>

definition node_info_option :: "tlv_iterator \<Rightarrow> tlv_node_info \<Rightarrow> int \<times> tlv_node_info" where
  "node_info_option it ni =
     (case tlv_iter_get_type it of
        TLV_OPT_NODE_ID \<Rightarrow>
          (case tlv_iter_decode_u32 it of Inl e \<Rightarrow> (e, ni) | Inr v \<Rightarrow> (0, ni\<lparr>ni_node_id := v\<rparr>))
      | TLV_OPT_DATA_CENTER_ID \<Rightarrow>
          (case tlv_iter_decode_u32 it of
             Inl e \<Rightarrow> (e, ni) | Inr v \<Rightarrow> (0, ni\<lparr>ni_data_center_id := v\<rparr>))
      | TLV_OPT_NODE_STATE \<Rightarrow>
          (case tlv_iter_decode_node_state it of
             Inl e \<Rightarrow> (e, ni) | Inr v \<Rightarrow> (0, ni\<lparr>ni_node_state := v\<rparr>))
      | _ \<Rightarrow> (0, ni))"

definition node_info_zero :: tlv_node_info where
  "node_info_zero =
     \<lparr>ni_node_id = 0, ni_data_center_id = 0, ni_node_state = TLV_NODE_STATE_NOT_SET\<rparr>"

definition tlv_iter_decode_node_info :: "tlv_iterator \<Rightarrow> int + tlv_node_info" where
  "tlv_iter_decode_node_info it =
     (case tlv_iter_loop node_info_option
             (tlv_iter_init_str (drop (it_current_pos it + (2 + 2)) (it_msg it)) (it_junk it)
                (unat (tlv_iter_get_len it)) 0)
             node_info_zero of
        (res, ni) \<Rightarrow>
          if res \<noteq> 0 then Inl res else if ni_node_id ni = 0 then Inl (-4) else Inr ni)"

definition tlv_iter_decode_node_list_type :: "tlv_iterator \<Rightarrow> int + tlv_node_list_type" where
  "tlv_iter_decode_node_list_type =
     decode_enum8 tlv_node_list_type_code
       [TLV_NODE_LIST_TYPE_INITIAL_CONFIG, TLV_NODE_LIST_TYPE_CHANGED_CONFIG,
        TLV_NODE_LIST_TYPE_MEMBERSHIP, TLV_NODE_LIST_TYPE_QUORUM]"

definition tlv_iter_decode_vote :: "tlv_iterator \<Rightarrow> int + tlv_vote" where
  "tlv_iter_decode_vote =
     decode_enum8 tlv_vote_code
       [TLV_VOTE_ACK, TLV_VOTE_NACK, TLV_VOTE_ASK_LATER, TLV_VOTE_WAIT_FOR_REPLY,
        TLV_VOTE_NO_CHANGE]"

definition tlv_iter_decode_quorate :: "tlv_iterator \<Rightarrow> int + tlv_quorate" where
  "tlv_iter_decode_quorate =
     decode_enum8 tlv_quorate_code [TLV_QUORATE_QUORATE, TLV_QUORATE_INQUORATE]"

definition tlv_iter_decode_heuristics :: "tlv_iterator \<Rightarrow> int + tlv_heuristics" where
  "tlv_iter_decode_heuristics =
     decode_enum8 tlv_heuristics_code [TLV_HEURISTICS_PASS, TLV_HEURISTICS_FAIL]"

definition tlv_iter_decode_keep_active_partition_tie_breaker ::
    "tlv_iterator \<Rightarrow> int + tlv_keep_active_partition_tie_breaker" where
  "tlv_iter_decode_keep_active_partition_tie_breaker =
     decode_enum8 tlv_keep_active_partition_tie_breaker_code
       [TLV_KEEP_ACTIVE_PARTITION_TIE_BREAKER_DISABLED,
        TLV_KEEP_ACTIVE_PARTITION_TIE_BREAKER_ENABLED]"

section \<open>The reference parser\<close>

text \<open>
  The options of a byte string, and whether they fill it exactly. The code treats a message
  without any option as inconsistent, so the empty string is not well-formed here either.
\<close>

function tlv_split :: "byte list \<Rightarrow> tlv list \<times> bool" where
  "tlv_split bs =
     (if length bs < 4 then ([], False)
      else let l = unat (rd16 (take 2 (drop 2 bs))); t = tlv_opt_type_of (rd16 (take 2 bs))
           in if length bs < 4 + l then ([], False)
              else let v = take l (drop 4 bs); rest = drop (4 + l) bs
                   in if rest = [] then ([(t, v)], True)
                      else case tlv_split rest of (tvs, ok) \<Rightarrow> ((t, v) # tvs, ok))"
  by pat_completeness auto
termination
  by (relation "measure length") auto

declare tlv_split.simps [simp del]

fun tlv_fold :: "(tlv \<Rightarrow> 's \<Rightarrow> int \<times> 's) \<Rightarrow> tlv list \<times> bool \<Rightarrow> 's \<Rightarrow> int \<times> 's" where
  "tlv_fold g ([], ok) s = (if ok then 0 else -3, s)"
| "tlv_fold g (tv # tvs, ok) s =
     (case g tv s of (res, s') \<Rightarrow> if res \<noteq> 0 then (res, s') else tlv_fold g (tvs, ok) s')"

text \<open>An option that the wire can carry: its length fits 16 bits and its type is a cast.\<close>

definition tlv_ok :: "tlv \<Rightarrow> bool" where
  "tlv_ok tv \<longleftrightarrow>
     length (snd tv) < 65536 \<and> tlv_opt_type_of (tlv_opt_type_code (fst tv)) = fst tv"

lemma tlv_split_Nil [simp]: "tlv_split [] = ([], False)"
  by (simp add: tlv_split.simps)

lemma tlv_split_Cons:
  assumes "tlv_ok (t, v)"
  shows "tlv_split (tlv_bytes (t, v) @ rest) =
    (if rest = [] then ([(t, v)], True)
     else case tlv_split rest of (tvs, ok) \<Rightarrow> ((t, v) # tvs, ok))"
proof -
  have l: "unat (rd16 (take 2 (drop 2 (tlv_bytes (t, v))))) = length v"
    using assms by (simp add: tlv_bytes_def tlv_ok_def unat_of_nat)
  have t: "tlv_opt_type_of (rd16 (take 2 (tlv_bytes (t, v)))) = t"
    using assms by (simp add: tlv_bytes_def tlv_ok_def)
  have v: "take (length v) (drop 4 (tlv_bytes (t, v))) = v"
    by (simp add: tlv_bytes_def)
  show ?thesis
    by (subst tlv_split.simps) (simp add: l t v Let_def)
qed

lemma tlvs_bytes_eq_Nil [simp]: "tlvs_bytes tvs = [] \<longleftrightarrow> tvs = []"
proof (cases tvs)
  case (Cons tv tvs')
  obtain t v where "tv = (t, v)" by fastforce
  with Cons have "4 \<le> length (tlvs_bytes tvs)" by simp
  with Cons show ?thesis by auto
qed simp

theorem tlv_split_bytes:
  "list_all tlv_ok tvs \<Longrightarrow> tvs \<noteq> [] \<Longrightarrow> tlv_split (tlvs_bytes tvs) = (tvs, True)"
proof (induction tvs)
  case (Cons tv tvs)
  obtain t v where tv: "tv = (t, v)" by fastforce
  show ?case
  proof (cases "tvs = []")
    case True
    with Cons.prems show ?thesis
      using tlv_split_Cons [of t v "[]"] by (simp add: tv)
  next
    case False
    with Cons show ?thesis
      by (simp add: tv tlv_split_Cons)
  qed
qed simp

lemma tlv_split_sound: "tlv_split bs = (tvs, True) \<Longrightarrow> bs = tlvs_bytes tvs \<and> list_all tlv_ok tvs"
proof (induction bs arbitrary: tvs rule: tlv_split.induct)
  case (1 bs)
  define l where "l = unat (rd16 (take 2 (drop 2 bs)))"
  define t where "t = tlv_opt_type_of (rd16 (take 2 bs))"
  define v where "v = take l (drop 4 bs)"
  define rest where "rest = drop (4 + l) bs"
  from "1.prems" have long: "\<not> length bs < 4" "\<not> length bs < 4 + l"
    by (auto simp: tlv_split.simps [of bs] l_def Let_def split: if_splits)
  have lv: "length v = l" and l16: "l < 65536"
    using long unat_bound [of "rd16 (take 2 (drop 2 bs))"] by (simp_all add: v_def l_def)
  have "(of_nat l :: u16) = rd16 (take 2 (drop 2 bs))"
    by (simp add: l_def)
  then have tb: "tlv_bytes (t, v) = take 2 bs @ take 2 (drop 2 bs) @ v"
    using long by (simp add: tlv_bytes_def t_def opt.code_of_code lv be_rd)
  have bs: "bs = tlv_bytes (t, v) @ rest"
  proof -
    have "bs = take 2 bs @ take 2 (drop 2 bs) @ take l (drop 4 bs) @ drop l (drop 4 bs)"
      by (metis append_take_drop_id drop_drop numeral_Bit0)
    then show ?thesis
      by (simp only: tb) (simp add: v_def rest_def add.commute)
  qed
  have ok: "tlv_ok (t, v)"
    by (simp add: tlv_ok_def lv l16 t_def opt.code_of_code)
  show ?case
  proof (cases "rest = []")
    case True
    with "1.prems" ok bs show ?thesis
      using tlv_split_Cons [OF ok, of "[]"] by auto
  next
    case False
    have "tlv_split bs = (case tlv_split rest of (tvs, ok) \<Rightarrow> ((t, v) # tvs, ok))"
      using tlv_split_Cons [OF ok, of rest] False bs by simp
    with "1.prems" obtain tvs' where r: "tlv_split rest = (tvs', True)" "tvs = (t, v) # tvs'"
      by (auto split: prod.splits)
    from "1.IH" [OF long(1) l_def t_def long(2) v_def rest_def False r(1)] bs ok r(2)
    show ?thesis by simp
  qed
qed

section \<open>The loop is a fold over the parsed options\<close>

text \<open>
  \<open>iter_at it (t, v)\<close>: the iterator stands at an option with type \<open>t\<close> and value \<open>v\<close> that lies
  inside the message.
\<close>

definition iter_at :: "tlv_iterator \<Rightarrow> tlv \<Rightarrow> bool" where
  "iter_at it tv \<longleftrightarrow>
     tlv_ok tv \<and> it_current_pos it + length (tlv_bytes tv) \<le> length (it_msg it) \<and>
     take (length (tlv_bytes tv)) (drop (it_current_pos it) (it_msg it)) = tlv_bytes tv"

definition iter_rest :: "tlv_iterator \<Rightarrow> byte list" where
  "iter_rest it = drop (it_current_pos it) (take (it_msg_len it) (it_msg it))"

lemma iter_at_read:
  assumes "iter_at it tv" and "off + n \<le> length (tlv_bytes tv)"
  shows "mem_read (it_msg it) (it_junk it) (it_current_pos it + off) n =
    take n (drop off (tlv_bytes tv))"
proof -
  have "mem_read (it_msg it) (it_junk it) (it_current_pos it + off) n =
      take n (drop off (drop (it_current_pos it) (it_msg it)))"
    using assms by (subst mem_read_inside) (auto simp: mem_over_def iter_at_def add.commute)
  also have "\<dots> = take n (drop off (take (length (tlv_bytes tv)) (drop (it_current_pos it) (it_msg it))))"
    using assms(2) by (simp add: drop_take min_def)
  finally show ?thesis
    using assms(1) by (simp add: iter_at_def)
qed

lemma iter_at_len [simp]: "iter_at it (t, v) \<Longrightarrow> unat (tlv_iter_get_len it) = length v"
  using iter_at_read [of it "(t, v)" 2 2]
  by (simp add: tlv_iter_get_len_def tlv_bytes_def iter_at_def tlv_ok_def unat_of_nat)

lemma iter_at_type [simp]: "iter_at it (t, v) \<Longrightarrow> tlv_iter_get_type it = t"
  using iter_at_read [of it "(t, v)" 0 2]
  by (simp add: tlv_iter_get_type_def tlv_bytes_def iter_at_def tlv_ok_def)

lemma iter_at_data [simp]:
  assumes "iter_at it (t, v)" and "off + n \<le> length v"
  shows "tlv_iter_get_data it off n = take n (drop off v)"
proof -
  have "drop (4 + off) (tlv_bytes (t, v)) = drop off v"
    by (simp add: tlv_bytes_def)
  then have "mem_read (it_msg it) (it_junk it) (it_current_pos it + (4 + off)) n = take n (drop off v)"
    using iter_at_read [OF assms(1), of "4 + off" n] assms(2) by simp
  moreover have "tlv_iter_get_data it off n =
      mem_read (it_msg it) (it_junk it) (it_current_pos it + (4 + off)) n"
    by (simp add: tlv_iter_get_data_def add.assoc)
  ultimately show ?thesis by simp
qed

text \<open>The bounds check, at a position inside or behind the message.\<close>

lemma iter_check:
  assumes "it_msg_len it \<le> length (it_msg it)"
  shows "case tlv_split (iter_rest it) of
      ([], ok) \<Rightarrow> ok = False \<and> tlv_iter_check it = (-1, it)
    | (tv # tvs, ok) \<Rightarrow> tlv_iter_check it = (1, it) \<and> iter_at it tv"
proof -
  let ?bs = "iter_rest it"
  have len: "length ?bs = it_msg_len it - it_current_pos it"
    using assms by (simp add: iter_rest_def)
  show ?thesis
  proof (cases "length ?bs < 4")
    case True
    then have "tlv_iter_check it = (-1, it)"
      using len by (simp add: tlv_iter_check_def)
    with True show ?thesis by (simp add: tlv_split.simps [of ?bs])
  next
    case False
    have rd: "mem_read (it_msg it) (it_junk it) (it_current_pos it + off) n = take n (drop off ?bs)"
      if "off + n \<le> length ?bs" for off n
      using that len assms False
      by (subst mem_read_inside)
         (auto simp: mem_over_def iter_rest_def drop_take min_def add.commute)
    define l where "l = unat (rd16 (take 2 (drop 2 ?bs)))"
    define t where "t = tlv_opt_type_of (rd16 (take 2 ?bs))"
    have gl: "unat (tlv_iter_get_len it) = l"
      using rd [of 2 2] False by (simp add: tlv_iter_get_len_def l_def)
    show ?thesis
    proof (cases "length ?bs < 4 + l")
      case True
      with False len gl have "tlv_iter_check it = (-1, it)"
        by (simp add: tlv_iter_check_def)
      with True False show ?thesis
        by (simp add: tlv_split.simps [of ?bs] l_def)
    next
      case long: False
      define v where "v = take l (drop 4 ?bs)"
      have lv: "length v = l" using long by (simp add: v_def)
      have l16: "l < 65536"
        using unat_bound [of "rd16 (take 2 (drop 2 ?bs))"] by (simp add: l_def)
      have "(of_nat l :: u16) = rd16 (take 2 (drop 2 ?bs))"
        by (simp add: l_def)
      then have "tlv_bytes (t, v) = take 2 ?bs @ take 2 (drop 2 ?bs) @ v"
        using False by (simp add: tlv_bytes_def t_def opt.code_of_code lv be_rd)
      also have "\<dots> = take (4 + l) ?bs"
        using take_add [of 2 2 ?bs] by (simp add: v_def take_add [of 4])
      finally have tb: "tlv_bytes (t, v) = take (4 + l) ?bs" .
      have "take (4 + l) ?bs = take (4 + l) (drop (it_current_pos it) (it_msg it))"
        using long len by (simp add: iter_rest_def drop_take min_def)
      with tb lv l16 long len assms have at: "iter_at it (t, v)"
        by (simp add: iter_at_def tlv_ok_def t_def opt.code_of_code)
      moreover have "tlv_iter_check it = (1, it)"
        using long False len gl by (simp add: tlv_iter_check_def)
      moreover obtain tvs ok where "tlv_split (drop (4 + l) ?bs) = (tvs, ok)"
        by fastforce
      then have "\<exists>tvs ok. tlv_split ?bs = ((t, v) # tvs, ok)"
        using long False
        by (auto simp add: tlv_split.simps [of ?bs] Let_def simp flip: l_def t_def v_def)
      ultimately show ?thesis by auto
    qed
  qed
qed

lemma iter_rest_next:
  assumes "it_msg_len it \<le> length (it_msg it)" and "tlv_split (iter_rest it) = ((t, v) # tvs, ok)"
    and "iter_at it (t, v)"
  shows "if it_msg_len it \<le> it_current_pos it + 4 + length v then tvs = [] \<and> ok
    else tlv_split (drop (it_current_pos it + 4 + length v) (take (it_msg_len it) (it_msg it))) = (tvs, ok)"
proof -
  let ?bs = "iter_rest it"
  have len: "length ?bs = it_msg_len it - it_current_pos it"
    using assms(1) by (simp add: iter_rest_def)
  from assms(2) have long: "\<not> length ?bs < 4"
    by (auto simp: tlv_split.simps [of ?bs])
  have "take (4 + length v) ?bs = tlv_bytes (t, v)"
  proof -
    from iter_check [OF assms(1)] assms(2) have "tlv_iter_check it = (1, it)" by simp
    with assms(3) have "it_current_pos it + 4 + length v \<le> it_msg_len it"
      by (simp add: tlv_iter_check_def split: if_splits)
    then have "4 + length v \<le> it_msg_len it - it_current_pos it"
      by simp
    then show ?thesis
      using assms(3) by (simp add: iter_rest_def iter_at_def drop_take min_def)
  qed
  then have bs: "?bs = tlv_bytes (t, v) @ drop (4 + length v) ?bs"
    by (metis append_take_drop_id)
  have ok': "tlv_ok (t, v)"
    using assms(3) by (simp add: iter_at_def)
  have rest: "drop (4 + length v) ?bs =
      drop (it_current_pos it + 4 + length v) (take (it_msg_len it) (it_msg it))"
    by (simp add: iter_rest_def add.commute add.left_commute)
  have "drop (4 + length v) ?bs = [] \<longleftrightarrow> it_msg_len it \<le> it_current_pos it + 4 + length v"
    using len long by auto
  then show ?thesis
    using tlv_split_Cons [OF ok', of "drop (4 + length v) ?bs"] assms(2) bs
    by (auto simp: rest split: prod.splits)
qed

theorem tlv_iter_loop_fold:
  assumes h: "\<And>it tv s. iter_at it tv \<Longrightarrow> h it s = g tv s"
    and len: "it_msg_len it \<le> length (it_msg it)" and fresh: "\<not> it_iter_next_called it"
  shows "tlv_iter_loop h it s =
    tlv_fold g (tlv_split (drop (it_msg_header_len it) (take (it_msg_len it) (it_msg it)))) s"
proof -
  define body where "body = (\<lambda>(iter_res :: int, it') s.
    if iter_res > 0
    then (case h it' s of (res, s') \<Rightarrow> if res \<noteq> 0 then (res, s') else tlv_iter_loop h it' s')
    else (if iter_res \<noteq> 0 then -3 else 0, s))"
  have loop: "tlv_iter_loop h it s = body (tlv_iter_next it) s" for it s
    by (subst tlv_iter_loop.simps) (simp add: body_def split: prod.splits)
  have main: "body (tlv_iter_check it) s = tlv_fold g (tlv_split (iter_rest it)) s"
    if "it_msg_len it \<le> length (it_msg it)" "it_iter_next_called it" for it s
    using that
  proof (induction "it_msg_len it - it_current_pos it" arbitrary: it s rule: less_induct)
    case less
    note chk = iter_check [OF less.prems(1)]
    obtain tvs ok where sp: "tlv_split (iter_rest it) = (tvs, ok)" by fastforce
    show ?case
    proof (cases tvs)
      case Nil
      with chk sp show ?thesis by (simp add: body_def)
    next
      case (Cons tv tvs')
      obtain t v where tv: "tv = (t, v)" by fastforce
      from chk sp Cons tv have c1: "tlv_iter_check it = (1, it)" and at: "iter_at it (t, v)"
        by auto
      obtain res s' where g: "g (t, v) s = (res, s')" by fastforce
      have hs: "h it s = (res, s')" using h [OF at] g by simp
      let ?it' = "it\<lparr>it_current_pos := it_current_pos it + 4 + length v\<rparr>"
      note nx = iter_rest_next [OF less.prems(1) sp [unfolded Cons tv] at]
      show ?thesis
      proof (cases "it_msg_len it \<le> it_current_pos it + 4 + length v")
        case True
        with at less.prems(2) have "tlv_iter_next it = (0, it)"
          by (simp add: tlv_iter_next_def)
        then have "tlv_iter_loop h it s' = (0, s')"
          by (simp add: loop body_def)
        with True nx c1 hs sp Cons tv g show ?thesis
          by (simp add: body_def)
      next
        case False
        with at less.prems(2) have "tlv_iter_next it = tlv_iter_check ?it'"
          by (simp add: tlv_iter_next_def add.assoc)
        moreover have "body (tlv_iter_check ?it') s' = tlv_fold g (tlv_split (iter_rest ?it')) s'"
          using False less.prems by (intro less.hyps) simp_all
        moreover have "tlv_split (iter_rest ?it') = (tvs', ok)"
          using nx False by (simp add: iter_rest_def)
        ultimately have "tlv_iter_loop h it s' = tlv_fold g (tvs', ok) s'"
          by (simp add: loop)
        with c1 hs sp Cons tv g show ?thesis
          by (simp add: body_def)
      qed
    qed
  qed
  have "tlv_iter_next it =
      tlv_iter_check (it\<lparr>it_iter_next_called := True, it_current_pos := it_msg_header_len it\<rparr>)"
    using fresh by (simp add: tlv_iter_next_def)
  then show ?thesis
    using main [of "it\<lparr>it_iter_next_called := True, it_current_pos := it_msg_header_len it\<rparr>" s] len
    by (simp add: loop iter_rest_def)
qed

section \<open>Writing options and iterating over them\<close>

text \<open>The options that a loop over the iterator sees, in order.\<close>

definition collect_option :: "tlv_iterator \<Rightarrow> tlv list \<Rightarrow> int \<times> tlv list" where
  "collect_option it tvs =
     (0, tvs @ [(tlv_iter_get_type it, tlv_iter_get_data it 0 (unat (tlv_iter_get_len it)))])"

lemma tlv_fold_collect:
  "tlv_fold (\<lambda>tv s. (0, s @ [tv])) (tvs, ok) s = (if ok then 0 else -3, s @ tvs)"
  by (induction tvs arbitrary: s) auto

lemma collect_loop:
  assumes "it_msg_len it \<le> length (it_msg it)" and "\<not> it_iter_next_called it"
  shows "tlv_iter_loop collect_option it [] =
    (case tlv_split (drop (it_msg_header_len it) (take (it_msg_len it) (it_msg it))) of
       (tvs, ok) \<Rightarrow> (if ok then 0 else -3, tvs))"
proof -
  have "tlv_iter_loop collect_option it [] =
      tlv_fold (\<lambda>tv s. (0, s @ [tv]))
        (tlv_split (drop (it_msg_header_len it) (take (it_msg_len it) (it_msg it)))) []"
  proof (rule tlv_iter_loop_fold [OF _ assms])
    fix it tv and s :: "tlv list"
    assume at: "iter_at it tv"
    obtain t v where "tv = (t, v)" by fastforce
    with at show "collect_option it s = (0, s @ [tv])"
      by (simp add: collect_option_def)
  qed
  then show ?thesis by (simp add: tlv_fold_collect split: prod.splits)
qed

text \<open>
  C16. Writing and iterating are inverse. A loop over the iterator ends on every buffer, whatever
  lies behind it in memory. When the buffer is a header followed by the options that the adders
  wrote, at least one, the loop visits exactly those options, with their types and values, in
  order, and ends without error. Conversely, whenever the loop ends without error, the buffer behind
  the header is the encoding of the options it visited: no byte is skipped or read twice.
\<close>

theorem tlv_iter_exact:
  assumes "it = tlv_iter_init msg junk h" and "h \<le> dynar_size msg"
  shows "tlv_iter_loop collect_option it [] = (0, tvs) \<longleftrightarrow>
    drop h (dyn_data msg) = tlvs_bytes tvs \<and> list_all tlv_ok tvs \<and> tvs \<noteq> []"
proof -
  have loop: "tlv_iter_loop collect_option it [] =
      (case tlv_split (drop h (dyn_data msg)) of (tvs, ok) \<Rightarrow> (if ok then 0 else -3, tvs))"
    using assms(1) by (simp add: collect_loop tlv_iter_init_def tlv_iter_init_str_def dynar_size_def)
  obtain tvs' ok where sp: "tlv_split (drop h (dyn_data msg)) = (tvs', ok)" by fastforce
  have "ok \<and> tvs' = tvs \<longleftrightarrow>
      drop h (dyn_data msg) = tlvs_bytes tvs \<and> list_all tlv_ok tvs \<and> tvs \<noteq> []" (is "?l \<longleftrightarrow> ?r")
  proof
    assume ?l
    with sp have "tlv_split (drop h (dyn_data msg)) = (tvs, True)" by simp
    from tlv_split_sound [OF this] this show ?r by (cases "tvs = []") simp_all
  next
    assume ?r
    with sp tlv_split_bytes [of tvs] show ?l by simp
  qed
  then show ?thesis by (auto simp: loop sp)
qed

lemma tlv_iter_exact_witness:
  "\<exists>d. tlv_add_u32 (\<lambda>_. True) TLV_OPT_NODE_ID 7 (dynar_init 64) = (0, d) \<and>
     tlv_iter_loop collect_option (tlv_iter_init d (\<lambda>_. 0) 0) [] = (0, [(TLV_OPT_NODE_ID, be32 7)])"
proof -
  obtain r d where a: "tlv_add_u32 (\<lambda>_. True) TLV_OPT_NODE_ID 7 (dynar_init 64) = (r, d)"
    by fastforce
  have w: "writes (\<lambda>_. True) (tlv_add_u32 (\<lambda>_. True) TLV_OPT_NODE_ID 7)
      (tlvs_bytes [(TLV_OPT_NODE_ID, be32 7)])"
    using writes_tlvs_u32 [of "\<lambda>_. True" TLV_OPT_NODE_ID 7] by (simp add: writes_tlvs_def)
  have r: "r = 0"
    using writesD(6) [OF w dynar_inv_init a] by (simp add: alloc_ideal_def dynar_defs)
  have d: "dyn_data d = tlvs_bytes [(TLV_OPT_NODE_ID, be32 7)]"
    using writesD(4) [OF w dynar_inv_init a r] by (simp add: dynar_defs)
  have "tlv_iter_loop collect_option (tlv_iter_init d (\<lambda>_. 0) 0) [] = (0, [(TLV_OPT_NODE_ID, be32 7)])"
    using tlv_iter_exact [OF refl, of 0 d "\<lambda>_. 0" "[(TLV_OPT_NODE_ID, be32 7)]"] d
    by (simp add: tlv_ok_def enum_simps tlv_opt_type_of_def)
  with a r show ?thesis by blast
qed

end
