(* ===== verification/Node_List.thy ===== *)
theory Node_List
  imports Tlv_Types "HOL-Library.Multiset"
begin

text \<open>
  The node lists of \<open>node-list.c\<close>: tail queues of entries, here lists in queue order. A pointer to
  an entry is the entry; the code only deletes the entry that a search by node id returned, which
  is the first entry with that id. The lemmas show that \<open>node_list_eq\<close> compares the lists as
  multisets of entries.
\<close>

record node_list_entry =
  nl_node_id :: u32
  nl_data_center_id :: u32
  nl_node_state :: tlv_node_state

type_synonym node_list = "node_list_entry list"

definition node_list_init :: node_list where
  "node_list_init = []"

definition node_list_add ::
    "allocator \<Rightarrow> node_list \<Rightarrow> u32 \<Rightarrow> u32 \<Rightarrow> tlv_node_state \<Rightarrow> node_list option" where
  "node_list_add al nlist node_id data_center_id node_state =
     (if \<not> al Malloc_Node_Entry then None
      else Some (nlist @ [\<lparr>nl_node_id = node_id, nl_data_center_id = data_center_id,
                           nl_node_state = node_state\<rparr>]))"

definition node_list_add_from_node_info ::
    "allocator \<Rightarrow> node_list \<Rightarrow> tlv_node_info \<Rightarrow> node_list option" where
  "node_list_add_from_node_info al nlist node_info =
     node_list_add al nlist (ni_node_id node_info) (ni_data_center_id node_info)
       (ni_node_state node_info)"

definition node_list_free :: "node_list \<Rightarrow> node_list" where
  "node_list_free nlist = []"

fun node_list_clone_loop :: "allocator \<Rightarrow> node_list \<Rightarrow> node_list \<Rightarrow> int \<times> node_list" where
  "node_list_clone_loop al dst [] = (0, dst)"
| "node_list_clone_loop al dst (e # src) =
     (case node_list_add al dst (nl_node_id e) (nl_data_center_id e) (nl_node_state e) of
        None \<Rightarrow> (-1, node_list_free dst)
      | Some dst' \<Rightarrow> node_list_clone_loop al dst' src)"

definition node_list_clone :: "allocator \<Rightarrow> node_list \<Rightarrow> int \<times> node_list" where
  "node_list_clone al src_list = node_list_clone_loop al node_list_init src_list"

definition node_list_entry_to_tlv_node_info :: "node_list_entry \<Rightarrow> tlv_node_info" where
  "node_list_entry_to_tlv_node_info node =
     \<lparr>ni_node_id = nl_node_id node, ni_data_center_id = nl_data_center_id node,
      ni_node_state = nl_node_state node\<rparr>"

definition node_list_del :: "node_list \<Rightarrow> node_list_entry \<Rightarrow> node_list" where
  "node_list_del nlist node = remove_first (\<lambda>e. e = node) nlist"

definition node_list_is_empty :: "node_list \<Rightarrow> bool" where
  "node_list_is_empty nlist \<longleftrightarrow> nlist = []"

definition node_list_find_node_id :: "node_list \<Rightarrow> u32 \<Rightarrow> node_list_entry option" where
  "node_list_find_node_id nlist node_id = find (\<lambda>e. nl_node_id e = node_id) nlist"

fun node_list_eq_loop :: "node_list \<Rightarrow> node_list \<Rightarrow> int" where
  "node_list_eq_loop [] tmp_list = (if \<not> node_list_is_empty tmp_list then 0 else 1)"
| "node_list_eq_loop (e1 # list1) tmp_list =
     (case node_list_find_node_id tmp_list (nl_node_id e1) of
        None \<Rightarrow> 0
      | Some e2 \<Rightarrow>
          if nl_node_id e1 \<noteq> nl_node_id e2 \<or> nl_data_center_id e1 \<noteq> nl_data_center_id e2 \<or>
             nl_node_state e1 \<noteq> nl_node_state e2 then 0
          else node_list_eq_loop list1 (node_list_del tmp_list e2))"

definition node_list_eq :: "allocator \<Rightarrow> node_list \<Rightarrow> node_list \<Rightarrow> int" where
  "node_list_eq al list1 list2 =
     (case node_list_clone al list2 of
        (r, tmp_list) \<Rightarrow> if r \<noteq> 0 then -1 else node_list_eq_loop list1 tmp_list)"

definition node_list_size :: "node_list \<Rightarrow> nat" where
  "node_list_size nlist = length nlist"

section \<open>Cloning and searching\<close>

definition node_ids :: "node_list \<Rightarrow> u32 set" where
  "node_ids nlist = nl_node_id ` set nlist"

definition node_list_distinct :: "node_list \<Rightarrow> bool" where
  "node_list_distinct nlist \<longleftrightarrow> distinct (map nl_node_id nlist)"

lemma node_list_clone_loop_eq:
  "node_list_clone_loop al dst src =
     (if src = [] \<or> al Malloc_Node_Entry then (0, dst @ src) else (-1, []))"
  by (induction src arbitrary: dst) (auto simp: node_list_add_def node_list_free_def)

lemma node_list_clone_eq:
  "node_list_clone al src =
     (if src = [] \<or> al Malloc_Node_Entry then (0, src) else (-1, []))"
  by (simp add: node_list_clone_def node_list_clone_loop_eq node_list_init_def)

lemma node_list_find_None [simp]:
  "node_list_find_node_id nlist n = None \<longleftrightarrow> n \<notin> node_ids nlist"
  by (auto simp: node_list_find_node_id_def find_None_all node_ids_def)

lemma node_list_find_Some:
  "node_list_find_node_id nlist n = Some e \<Longrightarrow> e \<in> set nlist \<and> nl_node_id e = n"
  by (auto simp: node_list_find_node_id_def dest: find_Some_mem)

lemma node_list_find_distinct:
  assumes "node_list_distinct nlist" and "e \<in> set nlist"
  shows "node_list_find_node_id nlist (nl_node_id e) = Some e"
proof (cases "node_list_find_node_id nlist (nl_node_id e)")
  case None
  with assms(2) show ?thesis by (simp add: node_ids_def)
next
  case (Some e')
  with node_list_find_Some have "e' \<in> set nlist" "nl_node_id e' = nl_node_id e" by auto
  with assms have "e' = e"
    by (auto simp: node_list_distinct_def distinct_map inj_on_def)
  with Some show ?thesis by simp
qed

lemma mset_node_list_del: "e \<in> set nlist \<Longrightarrow> mset (node_list_del nlist e) = mset nlist - {#e#}"
  by (induction nlist) (auto simp: node_list_del_def)

lemma node_list_distinct_del: "node_list_distinct nlist \<Longrightarrow> node_list_distinct (node_list_del nlist e)"
  by (simp add: node_list_distinct_def node_list_del_def distinct_map_remove_first)

section \<open>Equality of node lists\<close>

lemma node_list_eq_loop_sound: "node_list_eq_loop l1 l2 = 1 \<Longrightarrow> mset l1 = mset l2"
proof (induction l1 arbitrary: l2)
  case (Cons e1 l1)
  then obtain e2 where e2: "node_list_find_node_id l2 (nl_node_id e1) = Some e2"
    and eq: "e1 = e2" and rec: "node_list_eq_loop l1 (node_list_del l2 e2) = 1"
    by (auto split: option.splits if_splits)
  from node_list_find_Some [OF e2] eq have mem: "e1 \<in> set l2" by simp
  from Cons.IH [OF rec] mem eq show ?case
    by (simp add: mset_node_list_del)
qed (simp add: node_list_is_empty_def split: if_splits)

lemma node_list_eq_loop_complete:
  "mset l1 = mset l2 \<Longrightarrow> node_list_distinct l2 \<Longrightarrow> node_list_eq_loop l1 l2 = 1"
proof (induction l1 arbitrary: l2)
  case (Cons e1 l1)
  from Cons.prems(1) have mem: "e1 \<in> set l2"
    by (metis list.set_intros(1) set_mset_mset)
  have "node_list_eq_loop l1 (node_list_del l2 e1) = 1"
  proof (rule Cons.IH)
    show "mset l1 = mset (node_list_del l2 e1)"
      using Cons.prems(1) by (simp add: mset_node_list_del [OF mem] flip: Cons.prems(1))
    show "node_list_distinct (node_list_del l2 e1)"
      using Cons.prems(2) by (rule node_list_distinct_del)
  qed
  with node_list_find_distinct [OF Cons.prems(2) mem] show ?case by simp
qed (simp add: node_list_is_empty_def)

lemma node_list_eq_loop_cases: "node_list_eq_loop l1 l2 = 0 \<or> node_list_eq_loop l1 l2 = 1"
  by (induction l1 arbitrary: l2) (auto split: option.splits)

lemma node_list_eq_multiset:
  assumes "node_list_distinct list2" and "al Malloc_Node_Entry"
  shows "node_list_eq al list1 list2 = (if mset list1 = mset list2 then 1 else 0)"
  using assms node_list_eq_loop_sound [of list1 list2] node_list_eq_loop_complete [of list1 list2]
    node_list_eq_loop_cases [of list1 list2]
  by (auto simp: node_list_eq_def node_list_clone_eq)

text \<open>
  \<open>node_list_eq\<close> decides equality of node lists up to order: with memory for the temporary
  clone it returns 1 when the two lists hold the same entries with the same multiplicities and 0
  otherwise, provided that the node ids of the second list are distinct. Without memory it returns
  -1 and never reports a wrong answer (an empty second list needs no memory).
\<close>

theorem node_list_eq_correct:
  assumes "node_list_distinct list2"
  shows "node_list_eq al list1 list2 =
    (if al Malloc_Node_Entry \<or> list2 = [] then (if mset list1 = mset list2 then 1 else 0) else -1)"
proof (cases "al Malloc_Node_Entry")
  case True
  with assms show ?thesis by (simp add: node_list_eq_multiset)
next
  case False
  then show ?thesis
    by (cases list1) (auto simp: node_list_eq_def node_list_clone_eq node_list_is_empty_def
        node_list_find_node_id_def)
qed

lemma node_list_eq_correct_witness:
  "node_list_eq (\<lambda>_. True)
     [\<lparr>nl_node_id = 1, nl_data_center_id = 0, nl_node_state = TLV_NODE_STATE_MEMBER\<rparr>,
      \<lparr>nl_node_id = 2, nl_data_center_id = 0, nl_node_state = TLV_NODE_STATE_DEAD\<rparr>]
     [\<lparr>nl_node_id = 2, nl_data_center_id = 0, nl_node_state = TLV_NODE_STATE_DEAD\<rparr>,
      \<lparr>nl_node_id = 1, nl_data_center_id = 0, nl_node_state = TLV_NODE_STATE_MEMBER\<rparr>] = 1"
  by (subst node_list_eq_correct) (simp_all add: node_list_distinct_def)

end
