(* ===== verification/Msg.thy ===== *)
theory Msg
  imports Tlv_Iter Node_List
begin

text \<open>
  The messages of \<open>msg.c\<close>, writing side: a message is a 16-bit type, a 32-bit length of the rest
  and the options. Each \<open>msg_create_\<close> function cleans the buffer, runs its chain of adders and
  patches the length; it returns the size of the message, or 0 when an adder failed. The lemmas
  reduce every one of them to the list of options that the message carries.
\<close>

section \<open>Message types\<close>

datatype msg_type =
    MSG_TYPE_PREINIT
  | MSG_TYPE_PREINIT_REPLY
  | MSG_TYPE_STARTTLS
  | MSG_TYPE_INIT
  | MSG_TYPE_INIT_REPLY
  | MSG_TYPE_SERVER_ERROR
  | MSG_TYPE_SET_OPTION
  | MSG_TYPE_SET_OPTION_REPLY
  | MSG_TYPE_ECHO_REQUEST
  | MSG_TYPE_ECHO_REPLY
  | MSG_TYPE_NODE_LIST
  | MSG_TYPE_NODE_LIST_REPLY
  | MSG_TYPE_ASK_FOR_VOTE
  | MSG_TYPE_ASK_FOR_VOTE_REPLY
  | MSG_TYPE_VOTE_INFO
  | MSG_TYPE_VOTE_INFO_REPLY
  | MSG_TYPE_HEURISTICS_CHANGE
  | MSG_TYPE_HEURISTICS_CHANGE_REPLY
  | MSG_TYPE_OTHER u16

fun msg_type_code :: "msg_type \<Rightarrow> u16" where
  "msg_type_code MSG_TYPE_PREINIT = 0"
| "msg_type_code MSG_TYPE_PREINIT_REPLY = 1"
| "msg_type_code MSG_TYPE_STARTTLS = 2"
| "msg_type_code MSG_TYPE_INIT = 3"
| "msg_type_code MSG_TYPE_INIT_REPLY = 4"
| "msg_type_code MSG_TYPE_SERVER_ERROR = 5"
| "msg_type_code MSG_TYPE_SET_OPTION = 6"
| "msg_type_code MSG_TYPE_SET_OPTION_REPLY = 7"
| "msg_type_code MSG_TYPE_ECHO_REQUEST = 8"
| "msg_type_code MSG_TYPE_ECHO_REPLY = 9"
| "msg_type_code MSG_TYPE_NODE_LIST = 10"
| "msg_type_code MSG_TYPE_NODE_LIST_REPLY = 11"
| "msg_type_code MSG_TYPE_ASK_FOR_VOTE = 12"
| "msg_type_code MSG_TYPE_ASK_FOR_VOTE_REPLY = 13"
| "msg_type_code MSG_TYPE_VOTE_INFO = 14"
| "msg_type_code MSG_TYPE_VOTE_INFO_REPLY = 15"
| "msg_type_code MSG_TYPE_HEURISTICS_CHANGE = 16"
| "msg_type_code MSG_TYPE_HEURISTICS_CHANGE_REPLY = 17"
| "msg_type_code (MSG_TYPE_OTHER w) = w"

definition msg_type_of :: "u16 \<Rightarrow> msg_type" where
  "msg_type_of w =
     (if w = 0 then MSG_TYPE_PREINIT
      else if w = 1 then MSG_TYPE_PREINIT_REPLY
      else if w = 2 then MSG_TYPE_STARTTLS
      else if w = 3 then MSG_TYPE_INIT
      else if w = 4 then MSG_TYPE_INIT_REPLY
      else if w = 5 then MSG_TYPE_SERVER_ERROR
      else if w = 6 then MSG_TYPE_SET_OPTION
      else if w = 7 then MSG_TYPE_SET_OPTION_REPLY
      else if w = 8 then MSG_TYPE_ECHO_REQUEST
      else if w = 9 then MSG_TYPE_ECHO_REPLY
      else if w = 10 then MSG_TYPE_NODE_LIST
      else if w = 11 then MSG_TYPE_NODE_LIST_REPLY
      else if w = 12 then MSG_TYPE_ASK_FOR_VOTE
      else if w = 13 then MSG_TYPE_ASK_FOR_VOTE_REPLY
      else if w = 14 then MSG_TYPE_VOTE_INFO
      else if w = 15 then MSG_TYPE_VOTE_INFO_REPLY
      else if w = 16 then MSG_TYPE_HEURISTICS_CHANGE
      else if w = 17 then MSG_TYPE_HEURISTICS_CHANGE_REPLY
      else MSG_TYPE_OTHER w)"

definition msg_static_supported_messages :: "msg_type list" where
  "msg_static_supported_messages =
     [MSG_TYPE_PREINIT, MSG_TYPE_PREINIT_REPLY, MSG_TYPE_STARTTLS, MSG_TYPE_INIT,
      MSG_TYPE_INIT_REPLY, MSG_TYPE_SERVER_ERROR, MSG_TYPE_SET_OPTION, MSG_TYPE_SET_OPTION_REPLY,
      MSG_TYPE_ECHO_REQUEST, MSG_TYPE_ECHO_REPLY, MSG_TYPE_NODE_LIST, MSG_TYPE_NODE_LIST_REPLY,
      MSG_TYPE_ASK_FOR_VOTE, MSG_TYPE_ASK_FOR_VOTE_REPLY, MSG_TYPE_VOTE_INFO,
      MSG_TYPE_VOTE_INFO_REPLY, MSG_TYPE_HEURISTICS_CHANGE, MSG_TYPE_HEURISTICS_CHANGE_REPLY]"

interpretation mt: enum_codec msg_type_code msg_type_of
  by unfold_locales (simp add: msg_type_of_def)

section \<open>The header\<close>

definition msg_get_header_length :: nat where
  "msg_get_header_length = 2 + 4"

definition msg_add_type :: "allocator \<Rightarrow> msg_type \<Rightarrow> adder" where
  "msg_add_type al t msg = dynar_cat al msg (be16 (msg_type_code t))"

definition msg_get_type :: "dynar \<Rightarrow> memtail \<Rightarrow> msg_type" where
  "msg_get_type msg junk = msg_type_of (rd16 (mem_read (dyn_data msg) junk 0 2))"

definition msg_add_len :: "allocator \<Rightarrow> adder" where
  "msg_add_len al msg = dynar_cat al msg (be32 0)"

definition msg_patch :: "dynar \<Rightarrow> nat \<Rightarrow> byte list \<Rightarrow> dynar" where
  "msg_patch msg off bs =
     msg\<lparr>dyn_data := take off (dyn_data msg) @ bs @ drop (off + length bs) (dyn_data msg)\<rparr>"

definition msg_set_len :: "dynar \<Rightarrow> u32 \<Rightarrow> dynar" where
  "msg_set_len msg len = msg_patch msg 2 (be32 len)"

definition msg_set_type :: "dynar \<Rightarrow> msg_type \<Rightarrow> dynar" where
  "msg_set_type msg t = msg_patch msg 0 (be16 (msg_type_code t))"

definition msg_get_len :: "dynar \<Rightarrow> memtail \<Rightarrow> u32" where
  "msg_get_len msg junk = rd32 (mem_read (dyn_data msg) junk 2 4)"

definition msg_is_valid_msg_type :: "dynar \<Rightarrow> memtail \<Rightarrow> bool" where
  "msg_is_valid_msg_type msg junk \<longleftrightarrow> msg_get_type msg junk \<in> set msg_static_supported_messages"

section \<open>Creation\<close>

text \<open>
  The common end of the creation functions: \<open>small_buf_err\<close> returns 0, otherwise the length is
  patched and the size returned.
\<close>

definition msg_finish :: "int \<times> dynar \<Rightarrow> nat \<times> dynar" where
  "msg_finish rm =
     (case rm of (r, msg) \<Rightarrow>
        if r = -1 then (0, msg)
        else let msg' = msg_set_len msg (of_nat (dynar_size msg - (2 + 4)))
             in (dynar_size msg', msg'))"

definition msg_build :: "allocator \<Rightarrow> msg_type \<Rightarrow> adder list \<Rightarrow> dynar \<Rightarrow> nat \<times> dynar" where
  "msg_build al t adders msg =
     msg_finish (run_adds (msg_add_type al t # msg_add_len al # adders) (dynar_clean msg))"

definition msg_create_preinit ::
    "allocator \<Rightarrow> dynar \<Rightarrow> byte list \<Rightarrow> bool \<Rightarrow> u32 \<Rightarrow> nat \<times> dynar" where
  "msg_create_preinit al msg cluster_name add_msg_seq_number msg_seq_number =
     msg_build al MSG_TYPE_PREINIT
       [add_if add_msg_seq_number (tlv_add_msg_seq_number al msg_seq_number),
        tlv_add_cluster_name al cluster_name] msg"

definition msg_create_preinit_reply ::
    "allocator \<Rightarrow> dynar \<Rightarrow> bool \<Rightarrow> u32 \<Rightarrow> tlv_tls_supported \<Rightarrow> int \<Rightarrow> nat \<times> dynar" where
  "msg_create_preinit_reply al msg add_msg_seq_number msg_seq_number tls_supported
     tls_client_cert_required =
     msg_build al MSG_TYPE_PREINIT_REPLY
       [add_if add_msg_seq_number (tlv_add_msg_seq_number al msg_seq_number),
        tlv_add_tls_supported al tls_supported,
        tlv_add_tls_client_cert_required al tls_client_cert_required] msg"

definition msg_create_starttls :: "allocator \<Rightarrow> dynar \<Rightarrow> bool \<Rightarrow> u32 \<Rightarrow> nat \<times> dynar" where
  "msg_create_starttls al msg add_msg_seq_number msg_seq_number =
     msg_build al MSG_TYPE_STARTTLS
       [add_if add_msg_seq_number (tlv_add_msg_seq_number al msg_seq_number)] msg"

definition msg_create_server_error ::
    "allocator \<Rightarrow> dynar \<Rightarrow> bool \<Rightarrow> u32 \<Rightarrow> tlv_reply_error_code \<Rightarrow> nat \<times> dynar" where
  "msg_create_server_error al msg add_msg_seq_number msg_seq_number reply_error_code =
     msg_build al MSG_TYPE_SERVER_ERROR
       [add_if add_msg_seq_number (tlv_add_msg_seq_number al msg_seq_number),
        tlv_add_reply_error_code al reply_error_code] msg"

text \<open>
  \<open>msg_convert_msg_type_array_to_u16_array\<close> and the option it feeds; an absent (\<open>NULL\<close>) array is
  the empty list, which the callers skip as the code does.
\<close>

definition msg_convert_msg_type_array_to_u16_array :: "allocator \<Rightarrow> msg_type list \<Rightarrow> u16 list option" where
  "msg_convert_msg_type_array_to_u16_array al ts =
     (if \<not> al (Malloc_Bytes (2 * length ts)) then None else Some (map msg_type_code ts))"

definition msg_add_supported_messages :: "allocator \<Rightarrow> msg_type list \<Rightarrow> adder" where
  "msg_add_supported_messages al supported_msgs msg =
     (case msg_convert_msg_type_array_to_u16_array al supported_msgs of
        None \<Rightarrow> (-1, msg)
      | Some u16a \<Rightarrow> tlv_add_u16_array al TLV_OPT_SUPPORTED_MESSAGES u16a msg)"

definition msg_create_init ::
    "allocator \<Rightarrow> dynar \<Rightarrow> bool \<Rightarrow> u32 \<Rightarrow> tlv_decision_algorithm_type \<Rightarrow> msg_type list \<Rightarrow>
     tlv_opt_type list \<Rightarrow> u32 \<Rightarrow> u32 \<Rightarrow> tlv_tie_breaker \<Rightarrow> tlv_ring_id \<Rightarrow> nat \<times> dynar" where
  "msg_create_init al msg add_msg_seq_number msg_seq_number decision_algorithm supported_msgs
     supported_opts node_id heartbeat_interval tie_breaker ring_id =
     msg_build al MSG_TYPE_INIT
       [add_if add_msg_seq_number (tlv_add_msg_seq_number al msg_seq_number),
        add_if (supported_msgs \<noteq> []) (msg_add_supported_messages al supported_msgs),
        add_if (supported_opts \<noteq> []) (tlv_add_supported_options al supported_opts),
        tlv_add_node_id al node_id,
        tlv_add_decision_algorithm al decision_algorithm,
        tlv_add_heartbeat_interval al heartbeat_interval,
        tlv_add_tie_breaker al tie_breaker,
        tlv_add_ring_id al ring_id] msg"

definition msg_create_init_reply ::
    "allocator \<Rightarrow> dynar \<Rightarrow> bool \<Rightarrow> u32 \<Rightarrow> tlv_reply_error_code \<Rightarrow> msg_type list \<Rightarrow>
     tlv_opt_type list \<Rightarrow> nat \<Rightarrow> nat \<Rightarrow> tlv_decision_algorithm_type list \<Rightarrow> nat \<times> dynar" where
  "msg_create_init_reply al msg add_msg_seq_number msg_seq_number reply_error_code supported_msgs
     supported_opts server_maximum_request_size server_maximum_reply_size
     supported_decision_algorithms =
     msg_build al MSG_TYPE_INIT_REPLY
       [tlv_add_reply_error_code al reply_error_code,
        add_if (supported_msgs \<noteq> []) (msg_add_supported_messages al supported_msgs),
        add_if (supported_opts \<noteq> []) (tlv_add_supported_options al supported_opts),
        add_if add_msg_seq_number (tlv_add_msg_seq_number al msg_seq_number),
        tlv_add_server_maximum_request_size al server_maximum_request_size,
        tlv_add_server_maximum_reply_size al server_maximum_reply_size,
        add_if (supported_decision_algorithms \<noteq> [])
          (tlv_add_supported_decision_algorithms al supported_decision_algorithms)] msg"

definition msg_create_set_option ::
    "allocator \<Rightarrow> dynar \<Rightarrow> bool \<Rightarrow> u32 \<Rightarrow> bool \<Rightarrow> u32 \<Rightarrow> bool \<Rightarrow>
     tlv_keep_active_partition_tie_breaker \<Rightarrow> nat \<times> dynar" where
  "msg_create_set_option al msg add_msg_seq_number msg_seq_number add_heartbeat_interval
     heartbeat_interval add_kap_tb kap_tb =
     msg_build al MSG_TYPE_SET_OPTION
       [add_if add_msg_seq_number (tlv_add_msg_seq_number al msg_seq_number),
        add_if add_heartbeat_interval (tlv_add_heartbeat_interval al heartbeat_interval),
        add_if add_kap_tb (tlv_add_keep_active_partition_tie_breaker al kap_tb)] msg"

definition msg_create_set_option_reply ::
    "allocator \<Rightarrow> dynar \<Rightarrow> bool \<Rightarrow> u32 \<Rightarrow> bool \<Rightarrow> u32 \<Rightarrow> bool \<Rightarrow>
     tlv_keep_active_partition_tie_breaker \<Rightarrow> nat \<times> dynar" where
  "msg_create_set_option_reply al msg add_msg_seq_number msg_seq_number add_heartbeat_interval
     heartbeat_interval add_kap_tb kap_tb =
     msg_build al MSG_TYPE_SET_OPTION_REPLY
       [add_if add_msg_seq_number (tlv_add_msg_seq_number al msg_seq_number),
        add_if add_heartbeat_interval (tlv_add_heartbeat_interval al heartbeat_interval),
        add_if add_kap_tb (tlv_add_keep_active_partition_tie_breaker al kap_tb)] msg"

definition msg_create_echo_request :: "allocator \<Rightarrow> dynar \<Rightarrow> bool \<Rightarrow> u32 \<Rightarrow> nat \<times> dynar" where
  "msg_create_echo_request al msg add_msg_seq_number msg_seq_number =
     msg_build al MSG_TYPE_ECHO_REQUEST
       [add_if add_msg_seq_number (tlv_add_msg_seq_number al msg_seq_number)] msg"

definition msg_create_echo_reply :: "allocator \<Rightarrow> dynar \<Rightarrow> dynar \<Rightarrow> nat \<times> dynar" where
  "msg_create_echo_reply al msg echo_request_msg =
     (case dynar_cat al (dynar_clean msg) (dyn_data echo_request_msg) of
        (r, msg1) \<Rightarrow>
          if r = -1 then (0, msg1)
          else let msg2 = msg_set_type msg1 MSG_TYPE_ECHO_REPLY in (dynar_size msg2, msg2))"

definition msg_create_node_list ::
    "allocator \<Rightarrow> dynar \<Rightarrow> u32 \<Rightarrow> tlv_node_list_type \<Rightarrow> bool \<Rightarrow> tlv_ring_id \<Rightarrow> bool \<Rightarrow> u64 \<Rightarrow>
     bool \<Rightarrow> tlv_quorate \<Rightarrow> bool \<Rightarrow> tlv_heuristics \<Rightarrow> node_list \<Rightarrow> nat \<times> dynar" where
  "msg_create_node_list al msg msg_seq_number node_list_type add_ring_id ring_id
     add_config_version config_version add_quorate quorate add_heuristics heuristics nodes =
     msg_build al MSG_TYPE_NODE_LIST
       ([tlv_add_msg_seq_number al msg_seq_number,
         tlv_add_node_list_type al node_list_type,
         add_if add_ring_id (tlv_add_ring_id al ring_id),
         add_if add_config_version (tlv_add_config_version al config_version),
         add_if add_quorate (tlv_add_quorate al quorate)] @
        map (\<lambda>node_info. tlv_add_node_info al (node_list_entry_to_tlv_node_info node_info)) nodes @
        [add_if (add_heuristics \<and> heuristics \<noteq> TLV_HEURISTICS_UNDEFINED)
           (tlv_add_heuristics al heuristics)]) msg"

definition msg_create_node_list_reply ::
    "allocator \<Rightarrow> dynar \<Rightarrow> u32 \<Rightarrow> tlv_node_list_type \<Rightarrow> tlv_ring_id \<Rightarrow> tlv_vote \<Rightarrow> nat \<times> dynar" where
  "msg_create_node_list_reply al msg msg_seq_number node_list_type ring_id vote =
     msg_build al MSG_TYPE_NODE_LIST_REPLY
       [tlv_add_msg_seq_number al msg_seq_number,
        tlv_add_node_list_type al node_list_type,
        tlv_add_ring_id al ring_id,
        tlv_add_vote al vote] msg"

definition msg_create_ask_for_vote :: "allocator \<Rightarrow> dynar \<Rightarrow> u32 \<Rightarrow> nat \<times> dynar" where
  "msg_create_ask_for_vote al msg msg_seq_number =
     msg_build al MSG_TYPE_ASK_FOR_VOTE [tlv_add_msg_seq_number al msg_seq_number] msg"

definition msg_create_ask_for_vote_reply ::
    "allocator \<Rightarrow> dynar \<Rightarrow> u32 \<Rightarrow> tlv_ring_id \<Rightarrow> tlv_vote \<Rightarrow> nat \<times> dynar" where
  "msg_create_ask_for_vote_reply al msg msg_seq_number ring_id vote =
     msg_build al MSG_TYPE_ASK_FOR_VOTE_REPLY
       [tlv_add_msg_seq_number al msg_seq_number, tlv_add_vote al vote,
        tlv_add_ring_id al ring_id] msg"

definition msg_create_vote_info ::
    "allocator \<Rightarrow> dynar \<Rightarrow> u32 \<Rightarrow> tlv_ring_id \<Rightarrow> tlv_vote \<Rightarrow> nat \<times> dynar" where
  "msg_create_vote_info al msg msg_seq_number ring_id vote =
     msg_build al MSG_TYPE_VOTE_INFO
       [tlv_add_msg_seq_number al msg_seq_number, tlv_add_vote al vote,
        tlv_add_ring_id al ring_id] msg"

definition msg_create_vote_info_reply :: "allocator \<Rightarrow> dynar \<Rightarrow> u32 \<Rightarrow> nat \<times> dynar" where
  "msg_create_vote_info_reply al msg msg_seq_number =
     msg_build al MSG_TYPE_VOTE_INFO_REPLY [tlv_add_msg_seq_number al msg_seq_number] msg"

definition msg_create_heuristics_change ::
    "allocator \<Rightarrow> dynar \<Rightarrow> u32 \<Rightarrow> tlv_heuristics \<Rightarrow> nat \<times> dynar" where
  "msg_create_heuristics_change al msg msg_seq_number heuristics =
     msg_build al MSG_TYPE_HEURISTICS_CHANGE
       [tlv_add_msg_seq_number al msg_seq_number, tlv_add_heuristics al heuristics] msg"

definition msg_create_heuristics_change_reply ::
    "allocator \<Rightarrow> dynar \<Rightarrow> u32 \<Rightarrow> tlv_ring_id \<Rightarrow> tlv_heuristics \<Rightarrow> tlv_vote \<Rightarrow> nat \<times> dynar" where
  "msg_create_heuristics_change_reply al msg msg_seq_number ring_id heuristics vote =
     msg_build al MSG_TYPE_HEURISTICS_CHANGE_REPLY
       [tlv_add_msg_seq_number al msg_seq_number, tlv_add_vote al vote,
        tlv_add_ring_id al ring_id, tlv_add_heuristics al heuristics] msg"

section \<open>The bytes of a created message\<close>

definition msg_bytes :: "msg_type \<Rightarrow> tlv list \<Rightarrow> byte list" where
  "msg_bytes t tvs =
     be16 (msg_type_code t) @ be32 (of_nat (length (tlvs_bytes tvs))) @ tlvs_bytes tvs"

lemma length_msg_bytes [simp]: "length (msg_bytes t tvs) = 6 + length (tlvs_bytes tvs)"
  by (simp add: msg_bytes_def)

text \<open>
  What a creation function promises when its adders write the options \<open>tvs\<close>: either it returns 0,
  or the buffer holds exactly that message; with memory and room it does not return 0.
\<close>

definition creates :: "allocator \<Rightarrow> (dynar \<Rightarrow> nat \<times> dynar) \<Rightarrow> msg_type \<Rightarrow> tlv list \<Rightarrow> bool" where
  "creates al f t tvs \<longleftrightarrow>
     (\<forall>d n d'. f d = (n, d') \<longrightarrow>
        dynar_inv d' \<and> dyn_maximum_size d' = dyn_maximum_size d \<and>
        (n \<noteq> 0 \<longrightarrow> dyn_data d' = msg_bytes t tvs \<and> n = length (msg_bytes t tvs) \<and>
                   n \<le> dyn_maximum_size d') \<and>
        (alloc_ideal al \<longrightarrow> length (msg_bytes t tvs) \<le> dyn_maximum_size d \<longrightarrow> n \<noteq> 0))"

lemma creates_build:
  assumes "writes_tlvs al (run_adds adders) tvs"
  shows "creates al (msg_build al t adders) t tvs"
  unfolding creates_def
proof (intro allI impI)
  fix d n d'
  assume eq: "msg_build al t adders d = (n, d')"
  let ?run = "run_adds (msg_add_type al t # msg_add_len al # adders)"
  let ?bs = "be16 (msg_type_code t) @ be32 0 @ tlvs_bytes tvs"
  have w: "writes al ?run ?bs"
    using assms unfolding msg_add_type_def msg_add_len_def writes_tlvs_def
    by (intro writes_Cons writes_cat)
  obtain r d1 where run: "?run (dynar_clean d) = (r, d1)" by fastforce
  note W = writesD [OF w dynar_inv_clean run]
  show "dynar_inv d' \<and> dyn_maximum_size d' = dyn_maximum_size d \<and>
    (n \<noteq> 0 \<longrightarrow> dyn_data d' = msg_bytes t tvs \<and> n = length (msg_bytes t tvs) \<and>
       n \<le> dyn_maximum_size d') \<and>
    (alloc_ideal al \<longrightarrow> length (msg_bytes t tvs) \<le> dyn_maximum_size d \<longrightarrow> n \<noteq> 0)"
  proof (cases "r = 0")
    case True
    with W have data: "dyn_data d1 = ?bs" by simp
    from eq run True have d': "d' = msg_set_len d1 (of_nat (dynar_size d1 - 6))"
      and n: "n = dynar_size d'"
      by (auto simp: msg_build_def msg_finish_def Let_def simp del: run_adds.simps)
    have db: "dyn_data d' = msg_bytes t tvs"
      by (simp add: d' data msg_set_len_def msg_patch_def dynar_size_def msg_bytes_def)
    have sz: "dynar_size d' = dynar_size d1"
      using db data by (simp add: dynar_size_def)
    have "dyn_maximum_size d' = dyn_maximum_size d1" "dyn_allocated d' = dyn_allocated d1"
      by (simp_all add: d' msg_set_len_def msg_patch_def)
    with W True db sz n show ?thesis
      by (simp add: dynar_inv_def) (simp add: dynar_size_def)
  next
    case False
    with W have r: "r = -1" by simp
    with eq run have "n = 0" "d' = d1"
      by (auto simp: msg_build_def msg_finish_def simp del: run_adds.simps)
    with W r show ?thesis
      by (auto simp: dynar_size_def)
  qed
qed

end
