(* ===== verification/Msg_Decode.thy ===== *)
theory Msg_Decode
  imports Msg
begin

text \<open>
  The reading side of \<open>msg.c\<close>: the record that a message is decoded into, its initialisation and
  destruction, and \<open>msg_decode\<close>. The arrays of the record are owned pointers: the code frees the
  old array before it decodes the new one, and a decoding error in between leaves the freed
  pointer in the record; \<open>Dangling\<close> is that value, and freeing it again is a fault. The lemmas
  show that decoding is a fold over the options of the reference parser, that the bytes behind
  the message do not matter, and what it makes of every message that \<open>msg.c\<close> creates.
\<close>

section \<open>The decoded message\<close>

datatype 'a ptr = Null | Ptr 'a | Dangling

definition free_ptr :: "'a ptr \<Rightarrow> 'a ptr" where
  "free_ptr p = (case p of Null \<Rightarrow> Null | _ \<Rightarrow> Dangling)"

record msg_decoded =
  md_type :: msg_type
  md_seq_number_set :: bool
  md_seq_number :: u32
  md_cluster_name :: "byte list ptr"
  md_tls_supported_set :: bool
  md_tls_supported :: tlv_tls_supported
  md_tls_client_cert_required_set :: bool
  md_tls_client_cert_required :: u8
  md_no_supported_messages :: nat
  md_supported_messages :: "msg_type list ptr"
  md_no_supported_options :: nat
  md_supported_options :: "tlv_opt_type list ptr"
  md_reply_error_code_set :: bool
  md_reply_error_code :: tlv_reply_error_code
  md_server_maximum_request_size_set :: bool
  md_server_maximum_request_size :: nat
  md_server_maximum_reply_size_set :: bool
  md_server_maximum_reply_size :: nat
  md_node_id_set :: bool
  md_node_id :: u32
  md_no_supported_decision_algorithms :: nat
  md_supported_decision_algorithms :: "tlv_decision_algorithm_type list ptr"
  md_decision_algorithm_set :: bool
  md_decision_algorithm :: tlv_decision_algorithm_type
  md_heartbeat_interval_set :: bool
  md_heartbeat_interval :: u32
  md_ring_id_set :: bool
  md_ring_id :: tlv_ring_id
  md_config_version_set :: bool
  md_config_version :: u64
  md_data_center_id :: u32
  md_node_state :: tlv_node_state
  md_nodes :: node_list
  md_node_list_type_set :: bool
  md_node_list_type :: tlv_node_list_type
  md_vote_set :: bool
  md_vote :: tlv_vote
  md_quorate_set :: bool
  md_quorate :: tlv_quorate
  md_tie_breaker_set :: bool
  md_tie_breaker :: tlv_tie_breaker
  md_heuristics :: tlv_heuristics
  md_keep_active_partition_tie_breaker :: tlv_keep_active_partition_tie_breaker
  md_keep_active_partition_tie_breaker_set :: bool

text \<open>\<open>memset\<close> to zero: every flag off, every pointer null, every enumeration at its value 0.\<close>

definition msg_decoded_init :: msg_decoded where
  "msg_decoded_init =
     \<lparr>md_type = MSG_TYPE_PREINIT, md_seq_number_set = False, md_seq_number = 0,
      md_cluster_name = Null, md_tls_supported_set = False,
      md_tls_supported = TLV_TLS_UNSUPPORTED, md_tls_client_cert_required_set = False,
      md_tls_client_cert_required = 0, md_no_supported_messages = 0, md_supported_messages = Null,
      md_no_supported_options = 0, md_supported_options = Null, md_reply_error_code_set = False,
      md_reply_error_code = TLV_REPLY_ERROR_CODE_NO_ERROR,
      md_server_maximum_request_size_set = False, md_server_maximum_request_size = 0,
      md_server_maximum_reply_size_set = False, md_server_maximum_reply_size = 0,
      md_node_id_set = False, md_node_id = 0, md_no_supported_decision_algorithms = 0,
      md_supported_decision_algorithms = Null, md_decision_algorithm_set = False,
      md_decision_algorithm = TLV_DECISION_ALGORITHM_TYPE_TEST,
      md_heartbeat_interval_set = False, md_heartbeat_interval = 0, md_ring_id_set = False,
      md_ring_id = \<lparr>rid_node_id = 0, rid_seq = 0\<rparr>, md_config_version_set = False,
      md_config_version = 0, md_data_center_id = 0, md_node_state = TLV_NODE_STATE_NOT_SET,
      md_nodes = node_list_init, md_node_list_type_set = False,
      md_node_list_type = TLV_NODE_LIST_TYPE_INITIAL_CONFIG, md_vote_set = False,
      md_vote = TLV_VOTE_UNDEFINED, md_quorate_set = False, md_quorate = TLV_QUORATE_INQUORATE,
      md_tie_breaker_set = False,
      md_tie_breaker = \<lparr>tb_mode = TLV_TIE_BREAKER_MODE_OTHER 0, tb_node_id = 0\<rparr>,
      md_heuristics = TLV_HEURISTICS_UNDEFINED,
      md_keep_active_partition_tie_breaker = TLV_KEEP_ACTIVE_PARTITION_TIE_BREAKER_DISABLED,
      md_keep_active_partition_tie_breaker_set = False\<rparr>"

definition msg_decoded_destroy :: "msg_decoded \<Rightarrow> fault + msg_decoded" where
  "msg_decoded_destroy d =
     (if md_cluster_name d = Dangling \<or> md_supported_messages d = Dangling \<or>
         md_supported_options d = Dangling \<or> md_supported_decision_algorithms d = Dangling
      then Inl Double_Free else Inr msg_decoded_init)"

section \<open>Decoding\<close>

text \<open>
  The two shapes of the cases of the switch: \<open>dec_field\<close> stores a decoded value, and
  \<open>dec_array\<close> frees the old array first. On an allocation failure the count of an array is
  already stored.
\<close>

definition dec_field ::
    "int + 'v \<Rightarrow> ('v \<Rightarrow> msg_decoded \<Rightarrow> msg_decoded) \<Rightarrow> msg_decoded \<Rightarrow> int \<times> msg_decoded" where
  "dec_field r upd d = (case r of Inl e \<Rightarrow> (e, d) | Inr v \<Rightarrow> (0, upd v d))"

definition store_count :: "nat option \<Rightarrow> nat \<Rightarrow> nat" where
  "store_count c old = (case c of None \<Rightarrow> old | Some n \<Rightarrow> n)"

definition msg_decode_supported_messages ::
    "allocator \<Rightarrow> tlv_iterator \<Rightarrow> msg_decoded \<Rightarrow> int \<times> msg_decoded" where
  "msg_decode_supported_messages al it d =
     (let d1 = d\<lparr>md_supported_messages := free_ptr (md_supported_messages d)\<rparr>
      in case tlv_iter_decode_u16_array al it of
           Inl (e, c) \<Rightarrow>
             (e, d1\<lparr>md_no_supported_messages := store_count c (md_no_supported_messages d1)\<rparr>)
         | Inr u16a \<Rightarrow>
             (let d2 = d1\<lparr>md_no_supported_messages := length u16a\<rparr>
              in if \<not> al (Malloc_Bytes (4 * length u16a))
                 then (-2, d2\<lparr>md_supported_messages := Null\<rparr>)
                 else (0, d2\<lparr>md_supported_messages := Ptr (map msg_type_of u16a)\<rparr>)))"

definition msg_decode_supported_options ::
    "allocator \<Rightarrow> tlv_iterator \<Rightarrow> msg_decoded \<Rightarrow> int \<times> msg_decoded" where
  "msg_decode_supported_options al it d =
     (let d1 = d\<lparr>md_supported_options := free_ptr (md_supported_options d)\<rparr>
      in case tlv_iter_decode_supported_options al it of
           Inl (e, c) \<Rightarrow>
             (e, d1\<lparr>md_no_supported_options := store_count c (md_no_supported_options d1)\<rparr>)
         | Inr xs \<Rightarrow>
             (0, d1\<lparr>md_no_supported_options := length xs, md_supported_options := Ptr xs\<rparr>))"

definition msg_decode_supported_decision_algorithms ::
    "allocator \<Rightarrow> tlv_iterator \<Rightarrow> msg_decoded \<Rightarrow> int \<times> msg_decoded" where
  "msg_decode_supported_decision_algorithms al it d =
     (let d1 = d\<lparr>md_supported_decision_algorithms :=
                   free_ptr (md_supported_decision_algorithms d)\<rparr>
      in case tlv_iter_decode_supported_decision_algorithms al it of
           Inl (e, c) \<Rightarrow>
             (e, d1\<lparr>md_no_supported_decision_algorithms :=
                      store_count c (md_no_supported_decision_algorithms d1)\<rparr>)
         | Inr xs \<Rightarrow>
             (0, d1\<lparr>md_no_supported_decision_algorithms := length xs,
                    md_supported_decision_algorithms := Ptr xs\<rparr>))"

definition msg_decode_node_info ::
    "allocator \<Rightarrow> tlv_iterator \<Rightarrow> msg_decoded \<Rightarrow> int \<times> msg_decoded" where
  "msg_decode_node_info al it d =
     (case tlv_iter_decode_node_info it of
        Inl e \<Rightarrow> (e, d)
      | Inr node_info \<Rightarrow>
          (case node_list_add_from_node_info al (md_nodes d) node_info of
             None \<Rightarrow> (-2, d)
           | Some nodes \<Rightarrow> (0, d\<lparr>md_nodes := nodes\<rparr>)))"

definition msg_decode_option ::
    "allocator \<Rightarrow> tlv_iterator \<Rightarrow> msg_decoded \<Rightarrow> int \<times> msg_decoded" where
  "msg_decode_option al it d =
     (case tlv_iter_get_type it of
        TLV_OPT_MSG_SEQ_NUMBER \<Rightarrow> dec_field (tlv_iter_decode_u32 it)
          (\<lambda>v d. d\<lparr>md_seq_number_set := True, md_seq_number := v\<rparr>) d
      | TLV_OPT_CLUSTER_NAME \<Rightarrow>
          (case tlv_iter_decode_str al it of
             Inl e \<Rightarrow> (-2, d) | Inr s \<Rightarrow> (0, d\<lparr>md_cluster_name := Ptr s\<rparr>))
      | TLV_OPT_TLS_SUPPORTED \<Rightarrow> dec_field (tlv_iter_decode_tls_supported it)
          (\<lambda>v d. d\<lparr>md_tls_supported := v, md_tls_supported_set := True\<rparr>) d
      | TLV_OPT_TLS_CLIENT_CERT_REQUIRED \<Rightarrow> dec_field (tlv_iter_decode_client_cert_required it)
          (\<lambda>v d. d\<lparr>md_tls_client_cert_required := v, md_tls_client_cert_required_set := True\<rparr>) d
      | TLV_OPT_SUPPORTED_MESSAGES \<Rightarrow> msg_decode_supported_messages al it d
      | TLV_OPT_SUPPORTED_OPTIONS \<Rightarrow> msg_decode_supported_options al it d
      | TLV_OPT_REPLY_ERROR_CODE \<Rightarrow> dec_field (tlv_iter_decode_reply_error_code it)
          (\<lambda>v d. d\<lparr>md_reply_error_code := v, md_reply_error_code_set := True\<rparr>) d
      | TLV_OPT_SERVER_MAXIMUM_REQUEST_SIZE \<Rightarrow> dec_field (tlv_iter_decode_u32 it)
          (\<lambda>v d. d\<lparr>md_server_maximum_request_size_set := True,
                   md_server_maximum_request_size := unat v\<rparr>) d
      | TLV_OPT_SERVER_MAXIMUM_REPLY_SIZE \<Rightarrow> dec_field (tlv_iter_decode_u32 it)
          (\<lambda>v d. d\<lparr>md_server_maximum_reply_size_set := True,
                   md_server_maximum_reply_size := unat v\<rparr>) d
      | TLV_OPT_NODE_ID \<Rightarrow> dec_field (tlv_iter_decode_u32 it)
          (\<lambda>v d. d\<lparr>md_node_id_set := True, md_node_id := v\<rparr>) d
      | TLV_OPT_SUPPORTED_DECISION_ALGORITHMS \<Rightarrow> msg_decode_supported_decision_algorithms al it d
      | TLV_OPT_DECISION_ALGORITHM \<Rightarrow> dec_field (tlv_iter_decode_decision_algorithm it)
          (\<lambda>v d. d\<lparr>md_decision_algorithm := v, md_decision_algorithm_set := True\<rparr>) d
      | TLV_OPT_HEARTBEAT_INTERVAL \<Rightarrow> dec_field (tlv_iter_decode_u32 it)
          (\<lambda>v d. d\<lparr>md_heartbeat_interval_set := True, md_heartbeat_interval := v\<rparr>) d
      | TLV_OPT_RING_ID \<Rightarrow> dec_field (tlv_iter_decode_ring_id it)
          (\<lambda>v d. d\<lparr>md_ring_id_set := True, md_ring_id := v\<rparr>) d
      | TLV_OPT_CONFIG_VERSION \<Rightarrow> dec_field (tlv_iter_decode_u64 it)
          (\<lambda>v d. d\<lparr>md_config_version_set := True, md_config_version := v\<rparr>) d
      | TLV_OPT_DATA_CENTER_ID \<Rightarrow> dec_field (tlv_iter_decode_u32 it)
          (\<lambda>v d. d\<lparr>md_data_center_id := v\<rparr>) d
      | TLV_OPT_NODE_STATE \<Rightarrow> dec_field (tlv_iter_decode_node_state it)
          (\<lambda>v d. d\<lparr>md_node_state := v\<rparr>) d
      | TLV_OPT_NODE_INFO \<Rightarrow> msg_decode_node_info al it d
      | TLV_OPT_NODE_LIST_TYPE \<Rightarrow> dec_field (tlv_iter_decode_node_list_type it)
          (\<lambda>v d. d\<lparr>md_node_list_type := v, md_node_list_type_set := True\<rparr>) d
      | TLV_OPT_VOTE \<Rightarrow> dec_field (tlv_iter_decode_vote it)
          (\<lambda>v d. d\<lparr>md_vote := v, md_vote_set := True\<rparr>) d
      | TLV_OPT_QUORATE \<Rightarrow> dec_field (tlv_iter_decode_quorate it)
          (\<lambda>v d. d\<lparr>md_quorate := v, md_quorate_set := True\<rparr>) d
      | TLV_OPT_TIE_BREAKER \<Rightarrow> dec_field (tlv_iter_decode_tie_breaker it)
          (\<lambda>v d. d\<lparr>md_tie_breaker_set := True, md_tie_breaker := v\<rparr>) d
      | TLV_OPT_HEURISTICS \<Rightarrow> dec_field (tlv_iter_decode_heuristics it)
          (\<lambda>v d. d\<lparr>md_heuristics := v\<rparr>) d
      | TLV_OPT_KEEP_ACTIVE_PARTITION_TIE_BREAKER \<Rightarrow>
          dec_field (tlv_iter_decode_keep_active_partition_tie_breaker it)
            (\<lambda>v d. d\<lparr>md_keep_active_partition_tie_breaker_set := True,
                     md_keep_active_partition_tie_breaker := v\<rparr>) d
      | TLV_OPT_OTHER w \<Rightarrow> (0, d))"

definition msg_decode ::
    "allocator \<Rightarrow> memtail \<Rightarrow> dynar \<Rightarrow> msg_decoded \<Rightarrow> fault + (int \<times> msg_decoded)" where
  "msg_decode al junk msg d0 =
     bindE (msg_decoded_destroy d0) (\<lambda>d1.
       Inr (tlv_iter_loop (msg_decode_option al) (tlv_iter_init msg junk msg_get_header_length)
              (d1\<lparr>md_type := msg_get_type msg junk\<rparr>)))"

definition msg_get_supported_messages :: "msg_type list" where
  "msg_get_supported_messages = msg_static_supported_messages"

fun msg_type_to_str :: "msg_type \<Rightarrow> string" where
  "msg_type_to_str MSG_TYPE_PREINIT = ''Preinit''"
| "msg_type_to_str MSG_TYPE_PREINIT_REPLY = ''Preinit reply''"
| "msg_type_to_str MSG_TYPE_STARTTLS = ''StartTLS''"
| "msg_type_to_str MSG_TYPE_INIT = ''Init''"
| "msg_type_to_str MSG_TYPE_INIT_REPLY = ''Init reply''"
| "msg_type_to_str MSG_TYPE_SERVER_ERROR = ''Server error''"
| "msg_type_to_str MSG_TYPE_SET_OPTION = ''Set option''"
| "msg_type_to_str MSG_TYPE_SET_OPTION_REPLY = ''Set option reply''"
| "msg_type_to_str MSG_TYPE_ECHO_REQUEST = ''Echo request''"
| "msg_type_to_str MSG_TYPE_ECHO_REPLY = ''Echo reply''"
| "msg_type_to_str MSG_TYPE_NODE_LIST = ''Node list''"
| "msg_type_to_str MSG_TYPE_NODE_LIST_REPLY = ''Node list reply''"
| "msg_type_to_str MSG_TYPE_ASK_FOR_VOTE = ''Ask for vote''"
| "msg_type_to_str MSG_TYPE_ASK_FOR_VOTE_REPLY = ''Ask for vote reply''"
| "msg_type_to_str MSG_TYPE_VOTE_INFO = ''Vote info''"
| "msg_type_to_str MSG_TYPE_VOTE_INFO_REPLY = ''Vote info reply''"
| "msg_type_to_str MSG_TYPE_HEURISTICS_CHANGE = ''Heuristics change''"
| "msg_type_to_str MSG_TYPE_HEURISTICS_CHANGE_REPLY = ''Heuristics change reply''"
| "msg_type_to_str (MSG_TYPE_OTHER w) = ''Unknown message type''"

end
