(* ===== verification/Msg_Roundtrip.thy ===== *)
theory Msg_Roundtrip
  imports Msg_Decode
begin

text \<open>
  What \<open>msg_decode\<close> does, in terms of the options of a message: each decoder depends only on the
  option it stands at (\<open>decoders_at\<close>), so decoding is a fold over the reference parser, and a
  created message decodes to the fields it was created from.
\<close>

section \<open>The decoders at an option\<close>

named_theorems decoders_at \<open>the value of a decoder at an option that lies inside the message\<close>

lemma decode_u32_at [decoders_at]:
  "iter_at it (t, v) \<Longrightarrow>
   tlv_iter_decode_u32 it = (if length v \<noteq> 4 then Inl (-1) else Inr (rd32 v))"
  by (simp add: tlv_iter_decode_u32_def)

lemma decode_u16_at [decoders_at]:
  "iter_at it (t, v) \<Longrightarrow>
   tlv_iter_decode_u16 it = (if length v \<noteq> 2 then Inl (-1) else Inr (rd16 v))"
  by (simp add: tlv_iter_decode_u16_def)

lemma decode_u64_at [decoders_at]:
  "iter_at it (t, v) \<Longrightarrow>
   tlv_iter_decode_u64 it = (if length v \<noteq> 8 then Inl (-1) else Inr (rd64 v))"
  by (simp add: tlv_iter_decode_u64_def)

lemma decode_u8_at [decoders_at]:
  "iter_at it (t, v) \<Longrightarrow>
   tlv_iter_decode_u8 it = (if length v \<noteq> 1 then Inl (-1) else Inr (hd v))"
  by (simp add: tlv_iter_decode_u8_def)

lemma decode_str_at [decoders_at]:
  "iter_at it (t, v) \<Longrightarrow>
   tlv_iter_decode_str al it = (if al (Malloc_Bytes (length v + 1)) then Inr v else Inl (-1))"
  by (simp add: tlv_iter_decode_str_def)

lemma decode_u16_array_at [decoders_at]:
  "iter_at it (t, v) \<Longrightarrow>
   tlv_iter_decode_u16_array al it =
     (if length v mod 2 \<noteq> 0 then Inl (-1, None)
      else if \<not> al (Malloc_Bytes (2 * (length v div 2))) then Inl (-2, Some (length v div 2))
      else Inr (map rd16 (chunks 2 (length v div 2) v)))"
  by (simp add: tlv_iter_decode_u16_array_def Let_def)

lemma decode_ring_id_at [decoders_at]:
  "iter_at it (t, v) \<Longrightarrow>
   tlv_iter_decode_ring_id it =
     (if length v \<noteq> 12 then Inl (-1)
      else Inr \<lparr>rid_node_id = rd32 (take 4 v), rid_seq = rd64 (take 8 (drop 4 v))\<rparr>)"
  by (simp add: tlv_iter_decode_ring_id_def)

lemma decode_tie_breaker_at [decoders_at]:
  "iter_at it (t, v) \<Longrightarrow>
   tlv_iter_decode_tie_breaker it =
     (if length v \<noteq> 5 then Inl (-1)
      else let mode = tlv_tie_breaker_mode_of (hd v)
           in if mode \<noteq> TLV_TIE_BREAKER_MODE_LOWEST \<and> mode \<noteq> TLV_TIE_BREAKER_MODE_HIGHEST \<and>
                 mode \<noteq> TLV_TIE_BREAKER_MODE_NODE_ID then Inl (-4)
              else Inr \<lparr>tb_mode = mode,
                        tb_node_id = (if mode = TLV_TIE_BREAKER_MODE_NODE_ID
                                      then rd32 (take 4 (drop 1 v)) else 0)\<rparr>)"
  by (simp add: tlv_iter_decode_tie_breaker_def hd_take Let_def)

definition enum8_value :: "('e \<Rightarrow> u8) \<Rightarrow> 'e list \<Rightarrow> byte list \<Rightarrow> int + 'e" where
  "enum8_value code allowed v =
     (if length v \<noteq> 1 then Inl (-1)
      else case find (\<lambda>e. code e = hd v) allowed of None \<Rightarrow> Inl (-4) | Some e \<Rightarrow> Inr e)"

lemma decode_enum8_at [decoders_at]:
  "iter_at it (t, v) \<Longrightarrow> decode_enum8 code allowed it = enum8_value code allowed v"
  by (simp add: decode_enum8_def enum8_value_def decode_u8_at)

lemmas decoder_defs = tlv_iter_decode_client_cert_required_def
  tlv_iter_decode_supported_options_def tlv_iter_decode_supported_decision_algorithms_def
  tlv_iter_decode_reply_error_code_def tlv_iter_decode_tls_supported_def
  tlv_iter_decode_decision_algorithm_def tlv_iter_decode_node_state_def
  tlv_iter_decode_node_list_type_def tlv_iter_decode_vote_def tlv_iter_decode_quorate_def
  tlv_iter_decode_heuristics_def tlv_iter_decode_keep_active_partition_tie_breaker_def

text \<open>The iterator at a lone option: the canonical representative of all iterators at it.\<close>

definition tlv_iter_of :: "tlv \<Rightarrow> tlv_iterator" where
  "tlv_iter_of tv = tlv_iter_init_str (tlv_bytes tv) (\<lambda>i. 0) (length (tlv_bytes tv)) 0"

lemma iter_at_of: "tlv_ok tv \<Longrightarrow> iter_at (tlv_iter_of tv) tv"
  by (simp add: iter_at_def tlv_iter_of_def tlv_iter_init_str_def)

lemma iter_at_ok: "iter_at it tv \<Longrightarrow> tlv_ok tv"
  by (simp add: iter_at_def)

lemma node_info_option_of:
  assumes "iter_at it tv"
  shows "node_info_option it ni = node_info_option (tlv_iter_of tv) ni"
proof -
  obtain t v where tv: "tv = (t, v)" by fastforce
  note at = assms [unfolded tv] iter_at_of [OF iter_at_ok [OF assms], unfolded tv]
  show ?thesis
    unfolding tv node_info_option_def decoder_defs decoders_at [OF at(1)] decoders_at [OF at(2)]
      iter_at_type [OF at(1)] iter_at_type [OF at(2)] ..
qed

definition node_info_value :: "byte list \<Rightarrow> int + tlv_node_info" where
  "node_info_value v =
     (case tlv_fold (\<lambda>tv. node_info_option (tlv_iter_of tv)) (tlv_split v) node_info_zero of
        (res, ni) \<Rightarrow>
          if res \<noteq> 0 then Inl res else if ni_node_id ni = 0 then Inl (-4) else Inr ni)"

lemma decode_node_info_at [decoders_at]:
  assumes "iter_at it (t, v)"
  shows "tlv_iter_decode_node_info it = node_info_value v"
proof -
  let ?it = "tlv_iter_init_str (drop (it_current_pos it + (2 + 2)) (it_msg it)) (it_junk it)
    (unat (tlv_iter_get_len it)) 0"
  have inside: "it_current_pos it + 4 + length v \<le> length (it_msg it)"
    using assms by (simp add: iter_at_def)
  have "take (length v) (drop (it_current_pos it + 4) (it_msg it)) =
      drop 4 (take (4 + length v) (drop (it_current_pos it) (it_msg it)))"
    by (simp add: drop_take add.commute)
  also have "\<dots> = v"
    using assms by (simp add: iter_at_def) (simp add: tlv_bytes_def)
  finally have data: "take (length v) (drop (it_current_pos it + 4) (it_msg it)) = v" .
  have "tlv_iter_loop node_info_option ?it node_info_zero =
      tlv_fold (\<lambda>tv. node_info_option (tlv_iter_of tv))
        (tlv_split (drop (it_msg_header_len ?it) (take (it_msg_len ?it) (it_msg ?it)))) node_info_zero"
    using inside
    by (intro tlv_iter_loop_fold node_info_option_of)
       (simp_all add: tlv_iter_init_str_def iter_at_len [OF assms])
  also have "drop (it_msg_header_len ?it) (take (it_msg_len ?it) (it_msg ?it)) = v"
    by (simp add: tlv_iter_init_str_def iter_at_len [OF assms] data)
  finally show ?thesis
    by (simp add: tlv_iter_decode_node_info_def node_info_value_def)
qed

section \<open>Decoding is a fold over the options\<close>

lemma msg_decode_option_of:
  assumes "iter_at it tv"
  shows "msg_decode_option al it d = msg_decode_option al (tlv_iter_of tv) d"
proof -
  obtain t v where tv: "tv = (t, v)" by fastforce
  note at = assms [unfolded tv] iter_at_of [OF iter_at_ok [OF assms], unfolded tv]
  note arrays = msg_decode_supported_messages_def msg_decode_supported_options_def
    msg_decode_supported_decision_algorithms_def msg_decode_node_info_def
  show ?thesis
    unfolding tv msg_decode_option_def decoder_defs arrays
      decoders_at [OF at(1)] decoders_at [OF at(2)]
      iter_at_type [OF at(1)] iter_at_type [OF at(2)] ..
qed

definition decode_tlvs :: "allocator \<Rightarrow> tlv list \<times> bool \<Rightarrow> msg_decoded \<Rightarrow> int \<times> msg_decoded" where
  "decode_tlvs al = tlv_fold (\<lambda>tv. msg_decode_option al (tlv_iter_of tv))"

lemma msg_decode_loop:
  "tlv_iter_loop (msg_decode_option al) (tlv_iter_init msg junk msg_get_header_length) d =
     decode_tlvs al (tlv_split (drop 6 (dyn_data msg))) d"
proof -
  let ?it = "tlv_iter_init msg junk msg_get_header_length"
  have "tlv_iter_loop (msg_decode_option al) ?it d =
      tlv_fold (\<lambda>tv. msg_decode_option al (tlv_iter_of tv))
        (tlv_split (drop (it_msg_header_len ?it) (take (it_msg_len ?it) (it_msg ?it)))) d"
    by (intro tlv_iter_loop_fold msg_decode_option_of)
       (simp_all add: tlv_iter_init_def tlv_iter_init_str_def dynar_size_def)
  then show ?thesis
    by (simp add: decode_tlvs_def tlv_iter_init_def tlv_iter_init_str_def dynar_size_def
        msg_get_header_length_def)
qed

lemma msg_decode_fold:
  assumes "msg_decoded_destroy d0 = Inr d1"
  shows "msg_decode al junk msg d0 =
    Inr (decode_tlvs al (tlv_split (drop 6 (dyn_data msg)))
          (d1\<lparr>md_type := msg_get_type msg junk\<rparr>))"
  using assms by (simp add: msg_decode_def msg_decode_loop)

section \<open>Result codes\<close>

text \<open>The five results of the header comment of \<open>msg_decode\<close>.\<close>

definition decode_result :: "int \<Rightarrow> bool" where
  "decode_result r \<longleftrightarrow> r \<in> {0, -1, -2, -3, -4}"

lemma tlv_fold_result:
  assumes "\<And>tv s. tv \<in> set tvs \<Longrightarrow> decode_result (fst (g tv s))"
  shows "decode_result (fst (tlv_fold g (tvs, ok) s))"
  using assms
proof (induction tvs arbitrary: s)
  case (Cons tv tvs)
  obtain res s' where g: "g tv s = (res, s')" by fastforce
  have "decode_result res" using Cons.prems [of tv s] g by simp
  with Cons g show ?case by simp
qed (simp add: decode_result_def)

lemma enum8_value_error: "enum8_value code allowed v = Inl e \<Longrightarrow> decode_result e"
  by (auto simp: enum8_value_def decode_result_def split: if_splits option.splits)

lemma node_info_option_result:
  assumes "tlv_ok (t, v)"
  shows "decode_result (fst (node_info_option (tlv_iter_of (t, v)) ni))"
proof -
  note at = iter_at_of [OF assms]
  show ?thesis
    unfolding node_info_option_def decoder_defs decoders_at [OF at] iter_at_type [OF at]
    by (cases t) (auto simp: decode_result_def split: sum.splits dest!: enum8_value_error)
qed

lemma tlv_split_all_ok: "tlv_split bs = (tvs, ok) \<Longrightarrow> tv \<in> set tvs \<Longrightarrow> tlv_ok tv"
proof (induction bs arbitrary: tvs ok rule: tlv_split.induct)
  case (1 bs)
  define l where "l = unat (rd16 (take 2 (drop 2 bs)))"
  define t where "t = tlv_opt_type_of (rd16 (take 2 bs))"
  define v where "v = take l (drop 4 bs)"
  define rest where "rest = drop (4 + l) bs"
  from "1.prems" have long: "\<not> length bs < 4" "\<not> length bs < 4 + l"
    by (auto simp: tlv_split.simps [of bs] l_def Let_def split: if_splits)
  have ok: "tlv_ok (t, v)"
    using long unat_bound [of "rd16 (take 2 (drop 2 bs))"]
    by (simp add: tlv_ok_def v_def t_def opt.code_of_code l_def)
  have eq: "tlv_split bs = (if rest = [] then ([(t, v)], True)
      else case tlv_split rest of (tvs, ok) \<Rightarrow> ((t, v) # tvs, ok))"
    using long by (simp add: tlv_split.simps [of bs] Let_def flip: l_def t_def v_def rest_def)
  show ?case
  proof (cases "rest = []")
    case True
    with "1.prems" eq ok show ?thesis by auto
  next
    case False
    with "1.prems" eq obtain tvs' where r: "tlv_split rest = (tvs', ok)" "tvs = (t, v) # tvs'"
      by (auto split: prod.splits)
    from "1.IH" [OF long(1) l_def t_def long(2) v_def rest_def False r(1)] "1.prems"(2) ok r(2)
    show ?thesis by auto
  qed
qed

lemma node_info_value_error:
  assumes "node_info_value v = Inl e"
  shows "decode_result e \<and> e \<noteq> 0"
proof -
  obtain tvs ok where sp: "tlv_split v = (tvs, ok)" by fastforce
  have "decode_result (fst (tlv_fold (\<lambda>tv. node_info_option (tlv_iter_of tv)) (tvs, ok) node_info_zero))"
    by (rule tlv_fold_result) (metis node_info_option_result surj_pair tlv_split_all_ok [OF sp])
  with assms sp show ?thesis
    by (auto simp: node_info_value_def decode_result_def split: prod.splits if_splits)
qed

lemma msg_decode_option_result:
  assumes "tlv_ok (t, v)"
  shows "decode_result (fst (msg_decode_option al (tlv_iter_of (t, v)) d))"
proof -
  note at = iter_at_of [OF assms]
  note arrays = msg_decode_supported_messages_def msg_decode_supported_options_def
    msg_decode_supported_decision_algorithms_def msg_decode_node_info_def
  show ?thesis
    unfolding msg_decode_option_def decoder_defs arrays dec_field_def decoders_at [OF at]
      iter_at_type [OF at] Let_def
    by (cases t)
       (auto simp: decode_result_def split: sum.splits option.splits
         dest!: enum8_value_error node_info_value_error)
qed

lemma decode_tlvs_result:
  assumes "tlv_split bs = (tvs, ok)"
  shows "decode_result (fst (decode_tlvs al (tvs, ok) d))"
  unfolding decode_tlvs_def
  by (rule tlv_fold_result) (metis msg_decode_option_result surj_pair tlv_split_all_ok [OF assms])

section \<open>Decoding the options that the adders write\<close>

lemma decode_tlvs_simps:
  "decode_tlvs al ([], ok) d = (if ok then 0 else -3, d)"
  "decode_tlvs al (tv # tvs, ok) d =
     (case msg_decode_option al (tlv_iter_of tv) d of
        (res, d') \<Rightarrow> if res \<noteq> 0 then (res, d') else decode_tlvs al (tvs, ok) d')"
  by (simp_all add: decode_tlvs_def split: prod.splits)

text \<open>
  \<open>decodes al d tvs d'\<close>: the options \<open>tvs\<close> can stand on the wire, and decoding them turns \<open>d\<close>
  into \<open>d'\<close> without an error.
\<close>

definition decodes :: "allocator \<Rightarrow> msg_decoded \<Rightarrow> tlv list \<Rightarrow> msg_decoded \<Rightarrow> bool" where
  "decodes al d tvs d' \<longleftrightarrow> list_all tlv_ok tvs \<and> decode_tlvs al (tvs, True) d = (0, d')"

named_theorems decode_steps \<open>decoding of the options that the adders write\<close>

lemma decodes_Nil: "decodes al d [] d"
  by (simp add: decodes_def decode_tlvs_simps)

lemma decodes_append:
  "decodes al d tvs d' \<Longrightarrow> decodes al d' tvs' d'' \<Longrightarrow> decodes al d (tvs @ tvs') d''"
proof (induction tvs arbitrary: d)
  case (Cons tv tvs)
  obtain res d1 where step: "msg_decode_option al (tlv_iter_of tv) d = (res, d1)" by fastforce
  with Cons.prems(1) have "res = 0" "tlv_ok tv" "decodes al d1 tvs d'"
    by (auto simp: decodes_def decode_tlvs_simps split: if_splits)
  with Cons.IH [of d1] Cons.prems(2) step show ?case
    by (simp add: decodes_def decode_tlvs_simps)
qed (simp add: decodes_def decode_tlvs_simps)

lemma decodes_single:
  assumes "tlv_ok tv" and "msg_decode_option al (tlv_iter_of tv) d = (0, d')"
  shows "decodes al d [tv] d'"
  using assms by (simp add: decodes_def decode_tlvs_simps)

lemma decodes_if:
  "(c \<Longrightarrow> decodes al d tvs d') \<Longrightarrow> decodes al d (if c then tvs else []) (if c then d' else d)"
  by (simp add: decodes_Nil)

lemma tlv_ok_enum: "length v < 65536 \<Longrightarrow> t \<in> set tlv_static_supported_options \<Longrightarrow> tlv_ok (t, v)"
  by (cases t) (simp_all add: tlv_ok_def tlv_opt_type_of_def tlv_static_supported_options_def)

lemma decodes_field:
  assumes "t \<in> set tlv_static_supported_options" and "length v < 65536"
    and "iter_at (tlv_iter_of (t, v)) (t, v) \<Longrightarrow>
      msg_decode_option al (tlv_iter_of (t, v)) d = (0, d')"
  shows "decodes al d [(t, v)] d'"
  using assms by (intro decodes_single) (simp_all add: tlv_ok_enum iter_at_of)

lemmas decode_option_simps = msg_decode_option_def dec_field_def decoder_defs
  tlv_static_supported_options_def

text \<open>Options with a plain number.\<close>

lemma decodes_numbers [decode_steps]:
  "decodes al d [(TLV_OPT_MSG_SEQ_NUMBER, be32 n)] (d\<lparr>md_seq_number_set := True, md_seq_number := n\<rparr>)"
  "decodes al d [(TLV_OPT_SERVER_MAXIMUM_REQUEST_SIZE, be32 n)]
     (d\<lparr>md_server_maximum_request_size_set := True, md_server_maximum_request_size := unat n\<rparr>)"
  "decodes al d [(TLV_OPT_SERVER_MAXIMUM_REPLY_SIZE, be32 n)]
     (d\<lparr>md_server_maximum_reply_size_set := True, md_server_maximum_reply_size := unat n\<rparr>)"
  "decodes al d [(TLV_OPT_NODE_ID, be32 n)] (d\<lparr>md_node_id_set := True, md_node_id := n\<rparr>)"
  "decodes al d [(TLV_OPT_HEARTBEAT_INTERVAL, be32 n)]
     (d\<lparr>md_heartbeat_interval_set := True, md_heartbeat_interval := n\<rparr>)"
  "decodes al d [(TLV_OPT_CONFIG_VERSION, be64 x)]
     (d\<lparr>md_config_version_set := True, md_config_version := x\<rparr>)"
  "decodes al d [(TLV_OPT_TLS_CLIENT_CERT_REQUIRED, [b])]
     (d\<lparr>md_tls_client_cert_required := b, md_tls_client_cert_required_set := True\<rparr>)"
  by (rule decodes_field; simp add: decode_option_simps decoders_at)+

text \<open>Options with a checked enumeration: every enumerator that the decoder allows comes back.\<close>

lemma decodes_enums [decode_steps]:
  "decodes al d [(TLV_OPT_TLS_SUPPORTED, [tlv_tls_supported_code t])]
     (d\<lparr>md_tls_supported := t, md_tls_supported_set := True\<rparr>)"
  "decodes al d [(TLV_OPT_NODE_LIST_TYPE, [tlv_node_list_type_code lt])]
     (d\<lparr>md_node_list_type := lt, md_node_list_type_set := True\<rparr>)"
  "decodes al d [(TLV_OPT_QUORATE, [tlv_quorate_code q])]
     (d\<lparr>md_quorate := q, md_quorate_set := True\<rparr>)"
  "decodes al d [(TLV_OPT_KEEP_ACTIVE_PARTITION_TIE_BREAKER,
        [tlv_keep_active_partition_tie_breaker_code k])]
     (d\<lparr>md_keep_active_partition_tie_breaker_set := True,
        md_keep_active_partition_tie_breaker := k\<rparr>)"
  by (rule decodes_field; simp add: decode_option_simps decoders_at;
      cases t; cases lt; cases q; cases k; simp add: enum8_value_def)+

lemma decodes_vote [decode_steps]:
  "v \<noteq> TLV_VOTE_UNDEFINED \<Longrightarrow>
   decodes al d [(TLV_OPT_VOTE, [tlv_vote_code v])] (d\<lparr>md_vote := v, md_vote_set := True\<rparr>)"
  by (rule decodes_field; simp add: decode_option_simps decoders_at; cases v;
      simp add: enum8_value_def)

lemma decodes_heuristics [decode_steps]:
  "h \<noteq> TLV_HEURISTICS_UNDEFINED \<Longrightarrow>
   decodes al d [(TLV_OPT_HEURISTICS, [tlv_heuristics_code h])] (d\<lparr>md_heuristics := h\<rparr>)"
  by (rule decodes_field; simp add: decode_option_simps decoders_at; cases h;
      simp add: enum8_value_def)

text \<open>Options with an unchecked enumeration: every value that comes from a cast comes back.\<close>

lemma decodes_casts [decode_steps]:
  "tlv_reply_error_code_of (tlv_reply_error_code_code e) = e \<Longrightarrow>
   decodes al d [(TLV_OPT_REPLY_ERROR_CODE, be16 (tlv_reply_error_code_code e))]
     (d\<lparr>md_reply_error_code := e, md_reply_error_code_set := True\<rparr>)"
  "tlv_decision_algorithm_type_of (tlv_decision_algorithm_type_code a) = a \<Longrightarrow>
   decodes al d [(TLV_OPT_DECISION_ALGORITHM, be16 (tlv_decision_algorithm_type_code a))]
     (d\<lparr>md_decision_algorithm := a, md_decision_algorithm_set := True\<rparr>)"
  by (rule decodes_field; simp add: decode_option_simps decoders_at)+

lemma decodes_cluster_name [decode_steps]:
  "alloc_ideal al \<Longrightarrow> length name < 65536 \<Longrightarrow>
   decodes al d [(TLV_OPT_CLUSTER_NAME, name)] (d\<lparr>md_cluster_name := Ptr name\<rparr>)"
  by (rule decodes_field; simp add: decode_option_simps decoders_at alloc_ideal_def)

lemma decodes_ring_id [decode_steps]:
  "decodes al d [(TLV_OPT_RING_ID, ring_id_bytes r)] (d\<lparr>md_ring_id_set := True, md_ring_id := r\<rparr>)"
  by (rule decodes_field; simp add: decode_option_simps decoders_at; simp add: ring_id_bytes_def)

definition tie_breaker_canonical :: "tlv_tie_breaker \<Rightarrow> bool" where
  "tie_breaker_canonical tb \<longleftrightarrow>
     (case tb_mode tb of
        TLV_TIE_BREAKER_MODE_OTHER w \<Rightarrow> False
      | TLV_TIE_BREAKER_MODE_NODE_ID \<Rightarrow> True
      | _ \<Rightarrow> tb_node_id tb = 0)"

lemma decodes_tie_breaker [decode_steps]:
  "tie_breaker_canonical tb \<Longrightarrow>
   decodes al d [(TLV_OPT_TIE_BREAKER, tie_breaker_bytes tb)]
     (d\<lparr>md_tie_breaker_set := True, md_tie_breaker := tb\<rparr>)"
  by (rule decodes_field; simp add: decode_option_simps decoders_at; cases tb; cases "tb_mode tb";
      simp add: tie_breaker_bytes_def tie_breaker_canonical_def tlv_tie_breaker_mode_of_def)

text \<open>Arrays.\<close>

lemma array16_at:
  assumes "2 * length ws < 65536"
  shows "length (concat (map be16 ws)) = 2 * length ws"
    and "map rd16 (chunks 2 (length ws) (concat (map be16 ws))) = ws"
  by (simp_all add: c16.array_length c16.array_roundtrip)

lemma decodes_supported_messages [decode_steps]:
  assumes "alloc_ideal al" and "2 * length ts < 65536"
    and "list_all (\<lambda>t. msg_type_of (msg_type_code t) = t) ts"
  shows "decodes al d [(TLV_OPT_SUPPORTED_MESSAGES, concat (map be16 (map msg_type_code ts)))]
    (d\<lparr>md_supported_messages := Ptr ts, md_no_supported_messages := length ts\<rparr>)"
proof (rule decodes_field)
  assume "iter_at (tlv_iter_of (TLV_OPT_SUPPORTED_MESSAGES, concat (map be16 (map msg_type_code ts))))
    (TLV_OPT_SUPPORTED_MESSAGES, concat (map be16 (map msg_type_code ts)))"
  note at = decoders_at [OF this] iter_at_type [OF this]
  show "msg_decode_option al (tlv_iter_of (TLV_OPT_SUPPORTED_MESSAGES,
      concat (map be16 (map msg_type_code ts)))) d =
    (0, d\<lparr>md_supported_messages := Ptr ts, md_no_supported_messages := length ts\<rparr>)"
    using assms array16_at [of "map msg_type_code ts"] mt.map_of_code [OF assms(3)]
    by (simp add: msg_decode_option_def msg_decode_supported_messages_def at alloc_ideal_def Let_def
        del: map_map)
qed (use assms in \<open>simp_all add: tlv_static_supported_options_def c16.array_length del: map_map\<close>)

lemma decodes_supported_options [decode_steps]:
  assumes "alloc_ideal al" and "2 * length ts < 65536"
    and "list_all (\<lambda>t. tlv_opt_type_of (tlv_opt_type_code t) = t) ts"
  shows "decodes al d [(TLV_OPT_SUPPORTED_OPTIONS, concat (map be16 (map tlv_opt_type_code ts)))]
    (d\<lparr>md_supported_options := Ptr ts, md_no_supported_options := length ts\<rparr>)"
proof (rule decodes_field)
  assume "iter_at (tlv_iter_of (TLV_OPT_SUPPORTED_OPTIONS, concat (map be16 (map tlv_opt_type_code ts))))
    (TLV_OPT_SUPPORTED_OPTIONS, concat (map be16 (map tlv_opt_type_code ts)))"
  note at = decoders_at [OF this] iter_at_type [OF this]
  show "msg_decode_option al (tlv_iter_of (TLV_OPT_SUPPORTED_OPTIONS,
      concat (map be16 (map tlv_opt_type_code ts)))) d =
    (0, d\<lparr>md_supported_options := Ptr ts, md_no_supported_options := length ts\<rparr>)"
    using assms array16_at [of "map tlv_opt_type_code ts"] opt.map_of_code [OF assms(3)]
    by (simp add: msg_decode_option_def msg_decode_supported_options_def
        tlv_iter_decode_supported_options_def at alloc_ideal_def Let_def del: map_map)
qed (use assms in \<open>simp_all add: tlv_static_supported_options_def c16.array_length del: map_map\<close>)

lemma decodes_supported_decision_algorithms [decode_steps]:
  assumes "alloc_ideal al" and "2 * length ts < 65536"
    and "list_all (\<lambda>t. tlv_decision_algorithm_type_of (tlv_decision_algorithm_type_code t) = t) ts"
  shows "decodes al d [(TLV_OPT_SUPPORTED_DECISION_ALGORITHMS,
      concat (map be16 (map tlv_decision_algorithm_type_code ts)))]
    (d\<lparr>md_supported_decision_algorithms := Ptr ts,
       md_no_supported_decision_algorithms := length ts\<rparr>)"
proof (rule decodes_field)
  let ?tv = "(TLV_OPT_SUPPORTED_DECISION_ALGORITHMS,
      concat (map be16 (map tlv_decision_algorithm_type_code ts)))"
  assume "iter_at (tlv_iter_of ?tv) ?tv"
  note at = decoders_at [OF this] iter_at_type [OF this]
  show "msg_decode_option al (tlv_iter_of ?tv) d =
    (0, d\<lparr>md_supported_decision_algorithms := Ptr ts,
          md_no_supported_decision_algorithms := length ts\<rparr>)"
    using assms array16_at [of "map tlv_decision_algorithm_type_code ts"]
      alg.map_of_code [OF assms(3)]
    by (simp add: msg_decode_option_def msg_decode_supported_decision_algorithms_def
        tlv_iter_decode_supported_decision_algorithms_def at alloc_ideal_def Let_def del: map_map)
qed (use assms in \<open>simp_all add: tlv_static_supported_options_def c16.array_length del: map_map\<close>)

text \<open>Node information: the options inside the option, then the list of all nodes.\<close>

lemma node_info_steps:
  "node_info_option (tlv_iter_of (TLV_OPT_NODE_ID, be32 n)) ni = (0, ni\<lparr>ni_node_id := n\<rparr>)"
  "node_info_option (tlv_iter_of (TLV_OPT_DATA_CENTER_ID, be32 n)) ni =
     (0, ni\<lparr>ni_data_center_id := n\<rparr>)"
  "s \<noteq> TLV_NODE_STATE_NOT_SET \<Longrightarrow>
   node_info_option (tlv_iter_of (TLV_OPT_NODE_STATE, [tlv_node_state_code s])) ni =
     (0, ni\<lparr>ni_node_state := s\<rparr>)"
proof -
  have at: "iter_at (tlv_iter_of (t, v)) (t, v)"
    if "t \<in> set tlv_static_supported_options" "length v < 65536" for t v
    using that by (simp add: iter_at_of tlv_ok_enum)
  note opts = tlv_static_supported_options_def
  show "node_info_option (tlv_iter_of (TLV_OPT_NODE_ID, be32 n)) ni = (0, ni\<lparr>ni_node_id := n\<rparr>)"
    using at [of TLV_OPT_NODE_ID "be32 n"]
    by (simp add: opts node_info_option_def decoder_defs decoders_at)
  show "node_info_option (tlv_iter_of (TLV_OPT_DATA_CENTER_ID, be32 n)) ni =
     (0, ni\<lparr>ni_data_center_id := n\<rparr>)"
    using at [of TLV_OPT_DATA_CENTER_ID "be32 n"]
    by (simp add: opts node_info_option_def decoder_defs decoders_at)
  show "node_info_option (tlv_iter_of (TLV_OPT_NODE_STATE, [tlv_node_state_code s])) ni =
     (0, ni\<lparr>ni_node_state := s\<rparr>)" if "s \<noteq> TLV_NODE_STATE_NOT_SET"
    using at [of TLV_OPT_NODE_STATE "[tlv_node_state_code s]"] that
    by (cases s) (simp_all add: opts node_info_option_def decoder_defs decoders_at enum8_value_def)
qed

lemma node_info_value_bytes:
  assumes "ni_node_id ni \<noteq> 0"
  shows "node_info_value (tlvs_bytes (node_info_tlvs ni)) = Inr ni"
proof -
  have "list_all tlv_ok (node_info_tlvs ni)"
    by (simp add: node_info_tlvs_def tlv_ok_enum tlv_static_supported_options_def)
  moreover have "node_info_tlvs ni \<noteq> []"
    by (simp add: node_info_tlvs_def)
  ultimately have "tlv_split (tlvs_bytes (node_info_tlvs ni)) = (node_info_tlvs ni, True)"
    by (rule tlv_split_bytes)
  then show ?thesis
    using assms
    by (cases ni)
       (simp add: node_info_value_def node_info_tlvs_def node_info_steps node_info_zero_def)
qed

definition node_info_option_tlv :: "node_list_entry \<Rightarrow> tlv" where
  "node_info_option_tlv node =
     (TLV_OPT_NODE_INFO, tlvs_bytes (node_info_tlvs (node_list_entry_to_tlv_node_info node)))"

lemma decodes_node:
  assumes "alloc_ideal al" and "nl_node_id node \<noteq> 0"
  shows "decodes al d [node_info_option_tlv node] (d\<lparr>md_nodes := md_nodes d @ [node]\<rparr>)"
  unfolding node_info_option_tlv_def
proof (rule decodes_field)
  let ?v = "tlvs_bytes (node_info_tlvs (node_list_entry_to_tlv_node_info node))"
  show "length ?v < 65536"
    using length_node_info_tlvs [of "node_list_entry_to_tlv_node_info node"] by simp
  assume at: "iter_at (tlv_iter_of (TLV_OPT_NODE_INFO, ?v)) (TLV_OPT_NODE_INFO, ?v)"
  have "node_info_value ?v = Inr (node_list_entry_to_tlv_node_info node)"
    using assms(2) by (intro node_info_value_bytes) (simp add: node_list_entry_to_tlv_node_info_def)
  then show "msg_decode_option al (tlv_iter_of (TLV_OPT_NODE_INFO, ?v)) d =
      (0, d\<lparr>md_nodes := md_nodes d @ [node]\<rparr>)"
    using assms(1) decode_node_info_at [OF at] iter_at_type [OF at]
    by (simp add: msg_decode_option_def msg_decode_node_info_def node_list_add_from_node_info_def
        node_list_add_def alloc_ideal_def node_list_entry_to_tlv_node_info_def)
qed (simp add: tlv_static_supported_options_def)

lemma decodes_nodes [decode_steps]:
  assumes "alloc_ideal al" and "list_all (\<lambda>n. nl_node_id n \<noteq> 0) nodes"
  shows "decodes al d (map node_info_option_tlv nodes) (d\<lparr>md_nodes := md_nodes d @ nodes\<rparr>)"
  using assms(2)
proof (induction nodes arbitrary: d)
  case (Cons n nodes)
  have "decodes al d ([node_info_option_tlv n] @ map node_info_option_tlv nodes)
      (d\<lparr>md_nodes := md_nodes d @ [n]\<rparr>
        \<lparr>md_nodes := md_nodes (d\<lparr>md_nodes := md_nodes d @ [n]\<rparr>) @ nodes\<rparr>)"
    by (rule decodes_append [OF decodes_node [OF assms(1)] Cons.IH]) (use Cons.prems in simp_all)
  then show ?case by simp
qed (simp add: decodes_Nil)

section \<open>Round trips\<close>

lemma msg_get_type_bytes:
  assumes "dyn_data msg = msg_bytes t tvs" and "msg_type_of (msg_type_code t) = t"
  shows "msg_get_type msg junk = t"
  using assms by (simp add: msg_get_type_def mem_read_inside mem_over_def)
    (simp add: msg_bytes_def)

text \<open>
  The frame of every round trip: a message that carries the options \<open>tvs\<close> decodes to what its
  options decode to, starting from an empty record, whatever lies behind it in memory.
\<close>

lemma creates_data:
  "creates al f t tvs \<Longrightarrow> f d = (n, d') \<Longrightarrow> n \<noteq> 0 \<Longrightarrow> dyn_data d' = msg_bytes t tvs"
  unfolding creates_def by blast

lemma destroy_init: "msg_decoded_destroy msg_decoded_init = Inr msg_decoded_init"
  by (simp add: msg_decoded_destroy_def msg_decoded_init_def)

lemma creates_room:
  "creates al f t tvs \<Longrightarrow> alloc_ideal al \<Longrightarrow> 6 + length (tlvs_bytes tvs) \<le> dyn_maximum_size d \<Longrightarrow>
   fst (f d) \<noteq> 0"
  unfolding creates_def by (metis fst_conv length_msg_bytes surj_pair)

lemma msg_roundtrip:
  assumes create: "creates al f t tvs" "f msg = (n, msg')" "n \<noteq> 0"
    and cast: "msg_type_of (msg_type_code t) = t"
    and dec: "decodes al (msg_decoded_init\<lparr>md_type := t\<rparr>) tvs d'" and ne: "tvs \<noteq> []"
    and owned: "msg_decoded_destroy d0 = Inr d1"
  shows "msg_decode al junk msg' d0 = Inr (0, d')"
proof -
  from create have data: "dyn_data msg' = msg_bytes t tvs"
    by (rule creates_data)
  then have "drop 6 (dyn_data msg') = tlvs_bytes tvs"
    by (simp add: msg_bytes_def)
  moreover have "tlv_split (tlvs_bytes tvs) = (tvs, True)"
    using dec ne by (intro tlv_split_bytes) (simp_all add: decodes_def)
  moreover have "d1 = msg_decoded_init"
    using owned by (auto simp: msg_decoded_destroy_def split: if_splits)
  ultimately show ?thesis
    using dec msg_get_type_bytes [OF data cast, of junk]
    by (simp add: msg_decode_fold [OF owned] decodes_def)
qed

text \<open>The options of each message; \<open>opt_if c tv\<close> is an option that is only sent when \<open>c\<close> holds.\<close>

abbreviation opt_if :: "bool \<Rightarrow> tlv \<Rightarrow> tlv list" where
  "opt_if c tv \<equiv> (if c then [tv] else [])"

lemma creates_preinit:
  "length cluster_name < 65536 \<Longrightarrow>
   creates al (\<lambda>msg. msg_create_preinit al msg cluster_name add_seq seq) MSG_TYPE_PREINIT
     (opt_if add_seq (TLV_OPT_MSG_SEQ_NUMBER, be32 seq) @
      [(TLV_OPT_CLUSTER_NAME, cluster_name)] @ [])"
  unfolding msg_create_preinit_def tlv_add_wrappers by (intro creates_build tlv_writers)

lemma creates_preinit_reply:
  "creates al (\<lambda>msg. msg_create_preinit_reply al msg add_seq seq tls cert) MSG_TYPE_PREINIT_REPLY
     (opt_if add_seq (TLV_OPT_MSG_SEQ_NUMBER, be32 seq) @
      [(TLV_OPT_TLS_SUPPORTED, [tlv_tls_supported_code tls])] @
      [(TLV_OPT_TLS_CLIENT_CERT_REQUIRED, [of_int cert])] @ [])"
  unfolding msg_create_preinit_reply_def tlv_add_wrappers by (intro creates_build tlv_writers)

lemma creates_starttls:
  "creates al (\<lambda>msg. msg_create_starttls al msg add_seq seq) MSG_TYPE_STARTTLS
     (opt_if add_seq (TLV_OPT_MSG_SEQ_NUMBER, be32 seq) @ [])"
  unfolding msg_create_starttls_def tlv_add_wrappers by (intro creates_build tlv_writers)

lemma creates_server_error:
  "creates al (\<lambda>msg. msg_create_server_error al msg add_seq seq err) MSG_TYPE_SERVER_ERROR
     (opt_if add_seq (TLV_OPT_MSG_SEQ_NUMBER, be32 seq) @
      [(TLV_OPT_REPLY_ERROR_CODE, be16 (tlv_reply_error_code_code err))] @ [])"
  unfolding msg_create_server_error_def tlv_add_wrappers by (intro creates_build tlv_writers)

lemma writes_tlvs_supported_messages [tlv_writers]:
  assumes "2 * length ts < 65536"
  shows "writes_tlvs al (msg_add_supported_messages al ts)
    [(TLV_OPT_SUPPORTED_MESSAGES, concat (map be16 (map msg_type_code ts)))]"
proof -
  have eq: "msg_add_supported_messages al ts =
      (\<lambda>d. if \<not> al (Malloc_Bytes (2 * length ts)) then (-1, d)
           else tlv_add_u16_array al TLV_OPT_SUPPORTED_MESSAGES (map msg_type_code ts) d)"
    by (auto simp: msg_add_supported_messages_def msg_convert_msg_type_array_to_u16_array_def)
  show ?thesis
    using assms writes_tlvs_u16_array [of "map msg_type_code ts" al TLV_OPT_SUPPORTED_MESSAGES]
    unfolding eq writes_tlvs_def by (intro writes_fail_or) (simp_all add: alloc_ideal_def)
qed

lemma creates_init:
  assumes "2 * length msgs < 65536" and "2 * length opts < 65536"
  shows "creates al (\<lambda>msg. msg_create_init al msg add_seq seq alg msgs opts node_id hb tb ring)
     MSG_TYPE_INIT
     (opt_if add_seq (TLV_OPT_MSG_SEQ_NUMBER, be32 seq) @
      opt_if (msgs \<noteq> []) (TLV_OPT_SUPPORTED_MESSAGES, concat (map be16 (map msg_type_code msgs))) @
      opt_if (opts \<noteq> []) (TLV_OPT_SUPPORTED_OPTIONS,
        concat (map be16 (map tlv_opt_type_code opts))) @
      [(TLV_OPT_NODE_ID, be32 node_id)] @
      [(TLV_OPT_DECISION_ALGORITHM, be16 (tlv_decision_algorithm_type_code alg))] @
      [(TLV_OPT_HEARTBEAT_INTERVAL, be32 hb)] @
      [(TLV_OPT_TIE_BREAKER, tie_breaker_bytes tb)] @
      [(TLV_OPT_RING_ID, ring_id_bytes ring)] @ [])"
  unfolding msg_create_init_def tlv_add_wrappers by (intro creates_build tlv_writers assms)

lemma creates_init_reply:
  assumes "2 * length msgs < 65536" and "2 * length opts < 65536" and "2 * length algs < 65536"
  shows "creates al (\<lambda>msg. msg_create_init_reply al msg add_seq seq err msgs opts req_size rep_size algs)
     MSG_TYPE_INIT_REPLY
     ([(TLV_OPT_REPLY_ERROR_CODE, be16 (tlv_reply_error_code_code err))] @
      opt_if (msgs \<noteq> []) (TLV_OPT_SUPPORTED_MESSAGES, concat (map be16 (map msg_type_code msgs))) @
      opt_if (opts \<noteq> []) (TLV_OPT_SUPPORTED_OPTIONS,
        concat (map be16 (map tlv_opt_type_code opts))) @
      opt_if add_seq (TLV_OPT_MSG_SEQ_NUMBER, be32 seq) @
      [(TLV_OPT_SERVER_MAXIMUM_REQUEST_SIZE, be32 (of_nat req_size))] @
      [(TLV_OPT_SERVER_MAXIMUM_REPLY_SIZE, be32 (of_nat rep_size))] @
      opt_if (algs \<noteq> []) (TLV_OPT_SUPPORTED_DECISION_ALGORITHMS,
        concat (map be16 (map tlv_decision_algorithm_type_code algs))) @ [])"
  unfolding msg_create_init_reply_def tlv_add_wrappers by (intro creates_build tlv_writers assms)

lemma creates_set_option:
  "creates al (\<lambda>msg. msg_create_set_option al msg add_seq seq add_hb hb add_kap kap) MSG_TYPE_SET_OPTION
     (opt_if add_seq (TLV_OPT_MSG_SEQ_NUMBER, be32 seq) @
      opt_if add_hb (TLV_OPT_HEARTBEAT_INTERVAL, be32 hb) @
      opt_if add_kap (TLV_OPT_KEEP_ACTIVE_PARTITION_TIE_BREAKER,
        [tlv_keep_active_partition_tie_breaker_code kap]) @ [])"
  "creates al (\<lambda>msg. msg_create_set_option_reply al msg add_seq seq add_hb hb add_kap kap)
     MSG_TYPE_SET_OPTION_REPLY
     (opt_if add_seq (TLV_OPT_MSG_SEQ_NUMBER, be32 seq) @
      opt_if add_hb (TLV_OPT_HEARTBEAT_INTERVAL, be32 hb) @
      opt_if add_kap (TLV_OPT_KEEP_ACTIVE_PARTITION_TIE_BREAKER,
        [tlv_keep_active_partition_tie_breaker_code kap]) @ [])"
  unfolding msg_create_set_option_def msg_create_set_option_reply_def tlv_add_wrappers
  by (intro creates_build tlv_writers)+

lemma creates_echo_request:
  "creates al (\<lambda>msg. msg_create_echo_request al msg add_seq seq) MSG_TYPE_ECHO_REQUEST
     (opt_if add_seq (TLV_OPT_MSG_SEQ_NUMBER, be32 seq) @ [])"
  unfolding msg_create_echo_request_def tlv_add_wrappers by (intro creates_build tlv_writers)

lemma writes_tlvs_nodes [tlv_writers]:
  assumes "writes_tlvs al (run_adds fs) tvs"
  shows "writes_tlvs al
    (run_adds (map (\<lambda>n. tlv_add_node_info al (node_list_entry_to_tlv_node_info n)) nodes @ fs))
    (map node_info_option_tlv nodes @ tvs)"
proof (induction nodes)
  case (Cons n nodes)
  have "writes_tlvs al (run_adds (tlv_add_node_info al (node_list_entry_to_tlv_node_info n) #
        map (\<lambda>n. tlv_add_node_info al (node_list_entry_to_tlv_node_info n)) nodes @ fs))
      ([node_info_option_tlv n] @ map node_info_option_tlv nodes @ tvs)"
    using Cons.IH unfolding node_info_option_tlv_def by (intro tlv_writers)
  then show ?case by (simp del: run_adds.simps)
qed (simp add: assms)

lemma run_adds_range: "fst (run_adds fs d) = 0 \<or> fst (run_adds fs d) = -1"
  by (induction fs arbitrary: d) (auto split: prod.splits)

lemma writes_tlvs_append:
  assumes "writes_tlvs al (run_adds fs) tvs" and "writes_tlvs al (run_adds gs) tvs'"
  shows "writes_tlvs al (run_adds (fs @ gs)) (tvs @ tvs')"
proof -
  have "run_adds (fs @ gs) = run_adds [run_adds fs, run_adds gs]"
    by (auto simp: run_adds_append fun_eq_iff split: prod.splits) (metis fst_conv run_adds_range)
  moreover have "writes_tlvs al (run_adds [run_adds fs, run_adds gs]) (tvs @ tvs' @ [])"
    using assms by (intro writes_tlvs_Cons writes_tlvs_Nil)
  ultimately show ?thesis by simp
qed

lemma creates_node_list:
  "creates al (\<lambda>msg. msg_create_node_list al msg seq lt add_ring ring add_cfg cfg add_q q add_h h nodes)
     MSG_TYPE_NODE_LIST
     (([(TLV_OPT_MSG_SEQ_NUMBER, be32 seq)] @
       [(TLV_OPT_NODE_LIST_TYPE, [tlv_node_list_type_code lt])] @
       opt_if add_ring (TLV_OPT_RING_ID, ring_id_bytes ring) @
       opt_if add_cfg (TLV_OPT_CONFIG_VERSION, be64 cfg) @
       opt_if add_q (TLV_OPT_QUORATE, [tlv_quorate_code q]) @ []) @
      map node_info_option_tlv nodes @
      opt_if (add_h \<and> h \<noteq> TLV_HEURISTICS_UNDEFINED)
        (TLV_OPT_HEURISTICS, [tlv_heuristics_code h]) @ [])"
  unfolding msg_create_node_list_def tlv_add_wrappers
  by (intro creates_build writes_tlvs_append [OF _ writes_tlvs_nodes] tlv_writers) simp

lemma creates_node_list_reply:
  "creates al (\<lambda>msg. msg_create_node_list_reply al msg seq lt ring v) MSG_TYPE_NODE_LIST_REPLY
     ([(TLV_OPT_MSG_SEQ_NUMBER, be32 seq)] @
      [(TLV_OPT_NODE_LIST_TYPE, [tlv_node_list_type_code lt])] @
      [(TLV_OPT_RING_ID, ring_id_bytes ring)] @ [(TLV_OPT_VOTE, [tlv_vote_code v])] @ [])"
  unfolding msg_create_node_list_reply_def tlv_add_wrappers by (intro creates_build tlv_writers)

lemma creates_ask_for_vote:
  "creates al (\<lambda>msg. msg_create_ask_for_vote al msg seq) MSG_TYPE_ASK_FOR_VOTE
     ([(TLV_OPT_MSG_SEQ_NUMBER, be32 seq)] @ [])"
  "creates al (\<lambda>msg. msg_create_ask_for_vote_reply al msg seq ring v) MSG_TYPE_ASK_FOR_VOTE_REPLY
     ([(TLV_OPT_MSG_SEQ_NUMBER, be32 seq)] @ [(TLV_OPT_VOTE, [tlv_vote_code v])] @
      [(TLV_OPT_RING_ID, ring_id_bytes ring)] @ [])"
  unfolding msg_create_ask_for_vote_def msg_create_ask_for_vote_reply_def tlv_add_wrappers
  by (intro creates_build tlv_writers)+

lemma creates_vote_info:
  "creates al (\<lambda>msg. msg_create_vote_info al msg seq ring v) MSG_TYPE_VOTE_INFO
     ([(TLV_OPT_MSG_SEQ_NUMBER, be32 seq)] @ [(TLV_OPT_VOTE, [tlv_vote_code v])] @
      [(TLV_OPT_RING_ID, ring_id_bytes ring)] @ [])"
  "creates al (\<lambda>msg. msg_create_vote_info_reply al msg seq) MSG_TYPE_VOTE_INFO_REPLY
     ([(TLV_OPT_MSG_SEQ_NUMBER, be32 seq)] @ [])"
  unfolding msg_create_vote_info_def msg_create_vote_info_reply_def tlv_add_wrappers
  by (intro creates_build tlv_writers)+

lemma creates_heuristics_change:
  assumes "h \<noteq> TLV_HEURISTICS_UNDEFINED"
  shows "creates al (\<lambda>msg. msg_create_heuristics_change al msg seq h) MSG_TYPE_HEURISTICS_CHANGE
     ([(TLV_OPT_MSG_SEQ_NUMBER, be32 seq)] @ [(TLV_OPT_HEURISTICS, [tlv_heuristics_code h])] @ [])"
    and "creates al (\<lambda>msg. msg_create_heuristics_change_reply al msg seq ring h v)
     MSG_TYPE_HEURISTICS_CHANGE_REPLY
     ([(TLV_OPT_MSG_SEQ_NUMBER, be32 seq)] @ [(TLV_OPT_VOTE, [tlv_vote_code v])] @
      [(TLV_OPT_RING_ID, ring_id_bytes ring)] @
      [(TLV_OPT_HEURISTICS, [tlv_heuristics_code h])] @ [])"
  using assms
  unfolding msg_create_heuristics_change_def msg_create_heuristics_change_reply_def tlv_add_wrappers
  by (intro creates_build tlv_writers; simp)+

text \<open>
  The decoded records. \<open>fresh t\<close> is the record at the start of the loop.
\<close>

abbreviation fresh :: "msg_type \<Rightarrow> msg_decoded" where
  "fresh t \<equiv> msg_decoded_init\<lparr>md_type := t\<rparr>"

lemmas decode_chain = decodes_append decodes_Nil decodes_if decode_steps

lemma decodes_eqI: "decodes al d tvs x \<Longrightarrow> x = d' \<Longrightarrow> decodes al d tvs d'"
  by simp

lemma cast_msg_types: "t \<in> set msg_static_supported_messages \<Longrightarrow> msg_type_of (msg_type_code t) = t"
  by (cases t) (simp_all add: msg_type_of_def msg_static_supported_messages_def)

section \<open>Properties\<close>

text \<open>
  C13. The result of \<open>msg_decode\<close> depends on the bytes of the message only: for any contents of the
  memory behind the message the result is the same, it is one of the five documented codes, and
  for a message with a complete header it is the fold of the option switch over the options that
  the reference parser finds.
\<close>

theorem msg_decode_reference:
  assumes "msg_decoded_destroy d0 = Inr d1" and "6 \<le> dynar_size msg"
  shows "\<exists>res d. msg_decode al junk msg d0 = Inr (res, d) \<and> res \<in> {0, -1, -2, -3, -4} \<and>
    msg_decode al junk' msg d0 = Inr (res, d) \<and>
    decode_tlvs al (tlv_split (drop 6 (dyn_data msg)))
      (msg_decoded_init\<lparr>md_type := msg_type_of (rd16 (take 2 (dyn_data msg)))\<rparr>) = (res, d)"
proof -
  obtain tvs ok where sp: "tlv_split (drop 6 (dyn_data msg)) = (tvs, ok)" by fastforce
  have type: "msg_get_type msg j = msg_type_of (rd16 (take 2 (dyn_data msg)))" for j
    using assms(2) by (simp add: msg_get_type_def mem_read_inside mem_over_def dynar_size_def)
  have "d1 = msg_decoded_init"
    using assms(1) by (auto simp: msg_decoded_destroy_def split: if_splits)
  then have dec: "msg_decode al j msg d0 = Inr (decode_tlvs al (tvs, ok)
      (msg_decoded_init\<lparr>md_type := msg_type_of (rd16 (take 2 (dyn_data msg)))\<rparr>))" for j
    using msg_decode_fold [OF assms(1), of al j msg] sp type by simp
  obtain res d where rd: "decode_tlvs al (tvs, ok)
      (msg_decoded_init\<lparr>md_type := msg_type_of (rd16 (take 2 (dyn_data msg)))\<rparr>) = (res, d)"
    by fastforce
  have "decode_result res"
    using decode_tlvs_result [OF sp, of al
        "msg_decoded_init\<lparr>md_type := msg_type_of (rd16 (take 2 (dyn_data msg)))\<rparr>"] rd
    by simp
  with dec rd sp show ?thesis by (auto simp: decode_result_def)
qed

theorem msg_decode_reference_witness:
  "\<exists>res d. msg_decode (\<lambda>r. True) (\<lambda>i. 0) \<lparr>dyn_data = [0, 3, 0, 0, 0, 1, 7], dyn_allocated = 8, dyn_maximum_size = 8\<rparr>
       msg_decoded_init = Inr (res, d) \<and> res \<in> {0, -1, -2, -3, -4} \<and>
     msg_decode (\<lambda>r. True) (\<lambda>i. 255) \<lparr>dyn_data = [0, 3, 0, 0, 0, 1, 7], dyn_allocated = 8, dyn_maximum_size = 8\<rparr>
       msg_decoded_init = Inr (res, d)"
  using msg_decode_reference [OF destroy_init, where al = "\<lambda>r. True" and junk = "\<lambda>i. 0" and junk' = "\<lambda>i. 255"
      and msg = "\<lparr>dyn_data = [0, 3, 0, 0, 0, 1, 7], dyn_allocated = 8, dyn_maximum_size = 8\<rparr>"]
  by (auto simp: dynar_size_def)

text \<open>
  An \<open>INIT\<close> message that \<open>msg_create_init\<close> builds (non-zero size) decodes without error to
  exactly the values it was built from: sequence number, supported messages and options, node id,
  algorithm, heartbeat interval, tie-breaker and ring id, and nothing else is set.
\<close>

theorem msg_init_roundtrip:
  assumes "alloc_ideal al" and "2 * length msgs < 65536" and "2 * length opts < 65536"
    and "list_all (\<lambda>t. msg_type_of (msg_type_code t) = t) msgs"
    and "list_all (\<lambda>t. tlv_opt_type_of (tlv_opt_type_code t) = t) opts"
    and "tlv_decision_algorithm_type_of (tlv_decision_algorithm_type_code alg) = alg"
    and "tie_breaker_canonical tb" and "msgs \<noteq> []" and "opts \<noteq> []"
    and "msg_create_init al msg True seq alg msgs opts node_id hb tb ring = (n, msg')" "n \<noteq> 0"
    and "msg_decoded_destroy d0 = Inr d1"
  shows "msg_decode al junk msg' d0 = Inr (0, (fresh MSG_TYPE_INIT)
    \<lparr>md_seq_number_set := True, md_seq_number := seq,
     md_supported_messages := Ptr msgs, md_no_supported_messages := length msgs,
     md_supported_options := Ptr opts, md_no_supported_options := length opts,
     md_node_id_set := True, md_node_id := node_id,
     md_decision_algorithm := alg, md_decision_algorithm_set := True,
     md_heartbeat_interval_set := True, md_heartbeat_interval := hb,
     md_tie_breaker_set := True, md_tie_breaker := tb,
     md_ring_id_set := True, md_ring_id := ring\<rparr>)"
  by (rule msg_roundtrip [OF creates_init [OF assms(2,3)] assms(10,11) _ decodes_eqI _ assms(12)],
      simp add: msg_type_of_def, (rule decode_chain assms)+, simp_all add: assms(8,9))

theorem msg_init_roundtrip_witness:
  "\<exists>n msg' d. msg_create_init (\<lambda>r. True) (dynar_init 1000) True 7 TLV_DECISION_ALGORITHM_TYPE_FFSPLIT
       [MSG_TYPE_INIT] [TLV_OPT_NODE_ID] 3 8000 \<lparr>tb_mode = TLV_TIE_BREAKER_MODE_LOWEST, tb_node_id = 0\<rparr>
       \<lparr>rid_node_id = 1, rid_seq = 9\<rparr> = (n, msg') \<and>
     msg_decode (\<lambda>r. True) (\<lambda>i. 0) msg' msg_decoded_init = Inr (0, d) \<and> md_node_id d = 3"
proof -
  let ?f = "\<lambda>msg. msg_create_init (\<lambda>r. True) msg True 7 TLV_DECISION_ALGORITHM_TYPE_FFSPLIT
       [MSG_TYPE_INIT] [TLV_OPT_NODE_ID] 3 8000 \<lparr>tb_mode = TLV_TIE_BREAKER_MODE_LOWEST, tb_node_id = 0\<rparr>
       \<lparr>rid_node_id = 1, rid_seq = 9\<rparr>"
  obtain n msg' where c: "?f (dynar_init 1000) = (n, msg')" by fastforce
  have "fst (?f (dynar_init 1000)) \<noteq> 0"
    by (rule creates_room [OF creates_init]) (simp_all add: alloc_ideal_def dynar_init_def)
  with c have n: "n \<noteq> 0" by simp
  have "\<exists>d. msg_decode (\<lambda>r. True) (\<lambda>i. 0) msg' msg_decoded_init = Inr (0, d) \<and> md_node_id d = 3"
    using msg_init_roundtrip [OF _ _ _ _ _ _ _ _ _ c n destroy_init]
    by (simp add: alloc_ideal_def tie_breaker_canonical_def msg_type_of_def tlv_opt_type_of_def
        tlv_decision_algorithm_type_of_def)
  with c show ?thesis by blast
qed

text \<open>
  C14. A \<open>NODE_LIST\<close> message decodes to the sequence number, the list type, the optional ring id,
  configuration version, quorate flag and heuristics result, and to the very list of nodes, in
  order, provided that no node id is zero.
\<close>

theorem msg_node_list_roundtrip:
  assumes "alloc_ideal al" and "list_all (\<lambda>n. nl_node_id n \<noteq> 0) nodes"
    and "msg_create_node_list al msg seq lt add_ring ring add_cfg cfg add_q q add_h h nodes =
      (n, msg')" "n \<noteq> 0"
    and "msg_decoded_destroy d0 = Inr d1"
  shows "\<exists>d. msg_decode al junk msg' d0 = Inr (0, d) \<and> md_type d = MSG_TYPE_NODE_LIST \<and>
    md_seq_number_set d \<and> md_seq_number d = seq \<and>
    md_node_list_type_set d \<and> md_node_list_type d = lt \<and>
    md_ring_id_set d = add_ring \<and> (add_ring \<longrightarrow> md_ring_id d = ring) \<and>
    md_config_version_set d = add_cfg \<and> (add_cfg \<longrightarrow> md_config_version d = cfg) \<and>
    md_quorate_set d = add_q \<and> (add_q \<longrightarrow> md_quorate d = q) \<and>
    md_heuristics d = (if add_h then h else TLV_HEURISTICS_UNDEFINED) \<and>
    md_nodes d = nodes"
  by (intro exI conjI, rule msg_roundtrip [OF creates_node_list assms(3,4) _ _ _ assms(5)],
      simp add: msg_type_of_def,
      (rule decode_chain assms | (drule conjunct2, assumption))+,
      auto simp: msg_decoded_init_def node_list_init_def)

theorem msg_node_list_roundtrip_witness:
  "\<exists>n msg' d. msg_create_node_list (\<lambda>r. True) (dynar_init 1000) 7 TLV_NODE_LIST_TYPE_MEMBERSHIP True
       \<lparr>rid_node_id = 1, rid_seq = 9\<rparr> False 0 False TLV_QUORATE_QUORATE True TLV_HEURISTICS_PASS
       [\<lparr>nl_node_id = 5, nl_data_center_id = 0, nl_node_state = TLV_NODE_STATE_MEMBER\<rparr>] = (n, msg') \<and>
     msg_decode (\<lambda>r. True) (\<lambda>i. 0) msg' msg_decoded_init = Inr (0, d) \<and> md_seq_number d = 7"
proof -
  let ?f = "\<lambda>msg. msg_create_node_list (\<lambda>r. True) msg 7 TLV_NODE_LIST_TYPE_MEMBERSHIP True
       \<lparr>rid_node_id = 1, rid_seq = 9\<rparr> False 0 False TLV_QUORATE_QUORATE True TLV_HEURISTICS_PASS
       [\<lparr>nl_node_id = 5, nl_data_center_id = 0, nl_node_state = TLV_NODE_STATE_MEMBER\<rparr>]"
  obtain n msg' where c: "?f (dynar_init 1000) = (n, msg')" by fastforce
  have "fst (?f (dynar_init 1000)) \<noteq> 0"
    by (rule creates_room [OF creates_node_list])
       (simp_all add: alloc_ideal_def dynar_init_def node_info_option_tlv_def node_info_tlvs_def)
  with c have n: "n \<noteq> 0" by simp
  have "\<exists>d. msg_decode (\<lambda>r. True) (\<lambda>i. 0) msg' msg_decoded_init = Inr (0, d) \<and> md_seq_number d = 7"
    using msg_node_list_roundtrip [OF _ _ c n destroy_init] by (auto simp: alloc_ideal_def)
  with c show ?thesis by blast
qed

text \<open>
  C15. Every message that carries a vote from the server (the replies to a node list, to a vote
  request and to a change of heuristics, and the unsolicited vote information) decodes to the
  vote, ring id and sequence number it was created with.
\<close>

theorem msg_vote_roundtrip:
  assumes "v \<noteq> TLV_VOTE_UNDEFINED" and "h \<noteq> TLV_HEURISTICS_UNDEFINED"
    and "(n, msg') \<in> {msg_create_node_list_reply al msg seq lt ring v,
      msg_create_ask_for_vote_reply al msg seq ring v, msg_create_vote_info al msg seq ring v,
      msg_create_heuristics_change_reply al msg seq ring h v}" "n \<noteq> 0"
    and "msg_decoded_destroy d0 = Inr d1"
  shows "\<exists>d. msg_decode al junk msg' d0 = Inr (0, d) \<and> md_seq_number_set d \<and>
    md_seq_number d = seq \<and> md_vote_set d \<and> md_vote d = v \<and> md_ring_id_set d \<and>
    md_ring_id d = ring"
proof -
  note rt = msg_roundtrip [OF _ _ assms(4) cast_msg_types _ _ assms(5)]
  from assms(3) consider
    "msg_create_node_list_reply al msg seq lt ring v = (n, msg')" |
    "msg_create_ask_for_vote_reply al msg seq ring v = (n, msg')" |
    "msg_create_vote_info al msg seq ring v = (n, msg')" |
    "msg_create_heuristics_change_reply al msg seq ring h v = (n, msg')" by auto
  then show ?thesis
  proof cases
    case 1
    show ?thesis
      by (intro exI conjI, rule rt [OF creates_node_list_reply 1],
          simp add: msg_static_supported_messages_def, (rule decode_chain assms)+, simp_all)
  next
    case 2
    show ?thesis
      by (intro exI conjI, rule rt [OF creates_ask_for_vote(2) 2],
          simp add: msg_static_supported_messages_def, (rule decode_chain assms)+, simp_all)
  next
    case 3
    show ?thesis
      by (intro exI conjI, rule rt [OF creates_vote_info(1) 3],
          simp add: msg_static_supported_messages_def, (rule decode_chain assms)+, simp_all)
  next
    case 4
    show ?thesis
      by (intro exI conjI, rule rt [OF creates_heuristics_change(2) [OF assms(2)] 4],
          simp add: msg_static_supported_messages_def, (rule decode_chain assms)+, simp_all)
  qed
qed

theorem msg_vote_roundtrip_witness:
  "\<exists>n msg' d. msg_create_vote_info (\<lambda>r. True) (dynar_init 1000) 7 \<lparr>rid_node_id = 1, rid_seq = 9\<rparr> TLV_VOTE_ACK = (n, msg') \<and>
     msg_decode (\<lambda>r. True) (\<lambda>i. 0) msg' msg_decoded_init = Inr (0, d) \<and> md_vote d = TLV_VOTE_ACK"
proof -
  let ?f = "\<lambda>msg. msg_create_vote_info (\<lambda>r. True) msg 7 \<lparr>rid_node_id = 1, rid_seq = 9\<rparr> TLV_VOTE_ACK"
  obtain n msg' where c: "?f (dynar_init 1000) = (n, msg')" by fastforce
  have "fst (?f (dynar_init 1000)) \<noteq> 0"
    by (rule creates_room [OF creates_vote_info(1)]) (simp_all add: alloc_ideal_def dynar_init_def)
  with c have n: "n \<noteq> 0" by simp
  have "\<exists>d. msg_decode (\<lambda>r. True) (\<lambda>i. 0) msg' msg_decoded_init = Inr (0, d) \<and> md_vote d = TLV_VOTE_ACK"
    using msg_vote_roundtrip [OF _ _ _ n destroy_init, where v = TLV_VOTE_ACK and h = TLV_HEURISTICS_PASS
        and al = "\<lambda>r. True" and msg = "dynar_init 1000" and seq = 7 and ring = "\<lparr>rid_node_id = 1, rid_seq = 9\<rparr>"
        and msg' = msg'] c by auto
  with c show ?thesis by blast
qed

text \<open>
  A message without options cannot be decoded: a \<open>STARTTLS\<close> or \<open>ECHO_REQUEST\<close> that is created
  without a sequence number, or a \<open>SET_OPTION\<close> without any option, is rejected by \<open>msg_decode\<close>
  with -3, whatever follows it in memory.
\<close>

theorem msg_header_only_rejected:
  assumes "(n, msg') \<in> {msg_create_starttls al msg False seq,
      msg_create_echo_request al msg False seq,
      msg_create_set_option al msg False seq False hb False kap}" "n \<noteq> 0"
    and "msg_decoded_destroy d0 = Inr d1"
  shows "\<exists>d. msg_decode al junk msg' d0 = Inr (-3, d)"
proof -
  have "\<exists>t. dyn_data msg' = msg_bytes t []"
    using assms(1) creates_data [OF creates_starttls _ assms(2), of al msg False seq msg']
      creates_data [OF creates_echo_request _ assms(2), of al msg False seq msg']
      creates_data [OF creates_set_option(1) _ assms(2), of al msg False seq False hb False kap msg']
    by auto
  then have "drop 6 (dyn_data msg') = []"
    by (auto simp: msg_bytes_def)
  then show ?thesis
    by (simp add: msg_decode_fold [OF assms(3)] decode_tlvs_simps)
qed

theorem msg_header_only_rejected_witness:
  "\<exists>n msg' d. msg_create_echo_request (\<lambda>r. True) (dynar_init 1000) False 0 = (n, msg') \<and>
     msg_decode (\<lambda>r. True) (\<lambda>i. 0) msg' msg_decoded_init = Inr (-3, d)"
proof -
  let ?f = "\<lambda>msg. msg_create_echo_request (\<lambda>r. True) msg False 0"
  obtain n msg' where c: "?f (dynar_init 1000) = (n, msg')" by fastforce
  have "fst (?f (dynar_init 1000)) \<noteq> 0"
    by (rule creates_room [OF creates_echo_request]) (simp_all add: alloc_ideal_def dynar_init_def)
  with c have n: "n \<noteq> 0" by simp
  have "\<exists>d. msg_decode (\<lambda>r. True) (\<lambda>i. 0) msg' msg_decoded_init = Inr (-3, d)"
    using msg_header_only_rejected [OF _ n destroy_init, where al = "\<lambda>r. True" and msg = "dynar_init 1000"
        and seq = 0 and msg' = msg'] c by auto
  with c show ?thesis by blast
qed

text \<open>
  C38. A message with an option that is repeated with a bad length leaves the decoded record with
  a pointer to freed memory: after a valid list of supported messages, a second such option of
  odd length makes \<open>msg_decode\<close> return -1, and destroying the record then frees the list twice.
\<close>

theorem msg_decode_dangling:
  assumes "alloc_ideal al" and "length bs < 65536" and "odd (length bs)"
    and "2 * length ts < 65536" and "list_all (\<lambda>t. msg_type_of (msg_type_code t) = t) ts"
    and "dyn_data msg = msg_bytes MSG_TYPE_INIT
      [(TLV_OPT_SUPPORTED_MESSAGES, concat (map be16 (map msg_type_code ts))),
       (TLV_OPT_SUPPORTED_MESSAGES, bs)]"
    and "msg_decoded_destroy d0 = Inr d1"
  shows "\<exists>d. msg_decode al junk msg d0 = Inr (-1, d) \<and> md_supported_messages d = Dangling \<and>
    msg_decoded_destroy d = Inl Double_Free"
proof -
  let ?tv1 = "(TLV_OPT_SUPPORTED_MESSAGES, concat (map be16 (map msg_type_code ts)))"
  let ?tv2 = "(TLV_OPT_SUPPORTED_MESSAGES, bs)"
  note first = decodes_supported_messages [OF assms(1,4,5)]
  have ok2: "tlv_ok ?tv2"
    using assms(2) by (intro tlv_ok_enum) (simp_all add: tlv_static_supported_options_def)
  have "list_all tlv_ok [?tv1, ?tv2]"
    using first ok2 by (simp add: decodes_def)
  then have "tlv_split (drop 6 (dyn_data msg)) = ([?tv1, ?tv2], True)"
    using tlv_split_bytes [of "[?tv1, ?tv2]"] assms(6) by (simp add: msg_bytes_def)
  moreover have "msg_decode_option al (tlv_iter_of ?tv1) d =
      (0, d\<lparr>md_supported_messages := Ptr ts, md_no_supported_messages := length ts\<rparr>)" for d
    using first [of d] by (simp add: decodes_def decode_tlvs_simps split: prod.splits if_splits)
  moreover have "msg_decode_option al (tlv_iter_of ?tv2) d =
      (-1, d\<lparr>md_supported_messages := Dangling\<rparr>)" if "md_supported_messages d = Ptr ts" for d
    using decode_u16_array_at [OF iter_at_of [OF ok2]] iter_at_type [OF iter_at_of [OF ok2]]
      assms(3) that
    by (simp add: msg_decode_option_def msg_decode_supported_messages_def free_ptr_def
        store_count_def odd_iff_mod_2_eq_one)
  ultimately show ?thesis
    by (auto simp: msg_decode_fold [OF assms(7)] decode_tlvs_simps msg_decoded_destroy_def
        split: prod.split)
qed

theorem msg_decode_dangling_witness:
  "\<exists>d. msg_decode (\<lambda>r. True) (\<lambda>i. 0) \<lparr>dyn_data = msg_bytes MSG_TYPE_INIT
       [(TLV_OPT_SUPPORTED_MESSAGES, concat (map be16 (map msg_type_code [MSG_TYPE_INIT]))),
        (TLV_OPT_SUPPORTED_MESSAGES, [0])], dyn_allocated = 100, dyn_maximum_size = 100\<rparr> msg_decoded_init = Inr (-1, d) \<and>
     msg_decoded_destroy d = Inl Double_Free"
  using msg_decode_dangling [OF _ _ _ _ _ _ destroy_init, where al = "\<lambda>r. True" and bs = "[0]"
      and ts = "[MSG_TYPE_INIT]" and junk = "\<lambda>i. 0" and msg = "\<lparr>dyn_data = msg_bytes MSG_TYPE_INIT
       [(TLV_OPT_SUPPORTED_MESSAGES, concat (map be16 (map msg_type_code [MSG_TYPE_INIT]))),
        (TLV_OPT_SUPPORTED_MESSAGES, [0])], dyn_allocated = 100, dyn_maximum_size = 100\<rparr>"]
  by (auto simp: alloc_ideal_def msg_type_of_def)

end
