(* ===== verification/Send_Buffer_List.thy ===== *)
theory Send_Buffer_List
  imports Dynar
begin

text \<open>
  The output queue of a connection, \<open>send-buffer-list.c\<close>: messages wait in \<open>sbl_list\<close>, sent
  entries are kept in \<open>sbl_free_list\<close> and reused. An entry that \<open>send_buffer_list_get_new\<close> hands out
  is in neither list until it is put or discarded. Entries are values here: \<open>send_buffer_list_delete\<close> removes the first
  entry of the given value, which for the active entry is the entry itself. \<open>Send_Buffer_Heap\<close> has the linked lists in
  memory and shows that they implement these operations. The lemmas show that the queue is first-in
  first-out and that the number of entries stays within its limit.
\<close>

record send_buffer_list_entry =
  sb_buffer :: dynar
  sb_msg_already_sent_bytes :: nat

record send_buffer_list =
  sbl_max_list_entries :: nat
  sbl_allocated_list_entries :: nat
  sbl_max_buffer_size :: nat
  sbl_list :: "send_buffer_list_entry list"
  sbl_free_list :: "send_buffer_list_entry list"

definition send_buffer_list_init :: "nat \<Rightarrow> nat \<Rightarrow> send_buffer_list" where
  "send_buffer_list_init max_list_entries max_buffer_size =
     \<lparr>sbl_max_list_entries = max_list_entries, sbl_allocated_list_entries = 0,
      sbl_max_buffer_size = max_buffer_size, sbl_list = [], sbl_free_list = []\<rparr>"

definition send_buffer_list_get_new ::
    "allocator \<Rightarrow> send_buffer_list \<Rightarrow> send_buffer_list_entry option \<times> send_buffer_list" where
  "send_buffer_list_get_new al sblist =
     (case sbl_free_list sblist of
        entry # rest \<Rightarrow>
          (Some (entry\<lparr>sb_buffer := dynar_set_max_size (dynar_clean (sb_buffer entry))
                                      (sbl_max_buffer_size sblist),
                       sb_msg_already_sent_bytes := 0\<rparr>),
           sblist\<lparr>sbl_free_list := rest\<rparr>)
      | [] \<Rightarrow>
          if sbl_allocated_list_entries sblist + 1 > sbl_max_list_entries sblist then (None, sblist)
          else let sblist' = sblist\<lparr>sbl_allocated_list_entries := sbl_allocated_list_entries sblist + 1\<rparr>
               in if \<not> al Malloc_Send_Buffer then (None, sblist')
                  else (Some \<lparr>sb_buffer = dynar_init (sbl_max_buffer_size sblist),
                              sb_msg_already_sent_bytes = 0\<rparr>, sblist'))"

definition send_buffer_list_put ::
    "send_buffer_list \<Rightarrow> send_buffer_list_entry \<Rightarrow> send_buffer_list" where
  "send_buffer_list_put sblist entry = sblist\<lparr>sbl_list := sbl_list sblist @ [entry]\<rparr>"

definition send_buffer_list_discard_new ::
    "send_buffer_list \<Rightarrow> send_buffer_list_entry \<Rightarrow> send_buffer_list" where
  "send_buffer_list_discard_new sblist entry =
     sblist\<lparr>sbl_free_list := entry # sbl_free_list sblist\<rparr>"

definition send_buffer_list_get_active :: "send_buffer_list \<Rightarrow> send_buffer_list_entry option" where
  "send_buffer_list_get_active sblist =
     (case sbl_list sblist of [] \<Rightarrow> None | entry # rest \<Rightarrow> Some entry)"

text \<open>\<open>TAILQ_REMOVE\<close> of an entry of the list: its first occurrence.\<close>

definition send_buffer_list_delete ::
    "send_buffer_list \<Rightarrow> send_buffer_list_entry \<Rightarrow> send_buffer_list" where
  "send_buffer_list_delete sblist entry =
     sblist\<lparr>sbl_list := remove_first (\<lambda>e. e = entry) (sbl_list sblist),
            sbl_free_list := entry # sbl_free_list sblist\<rparr>"

definition send_buffer_list_empty :: "send_buffer_list \<Rightarrow> bool" where
  "send_buffer_list_empty sblist \<longleftrightarrow> sbl_list sblist = []"

definition send_buffer_list_free :: "send_buffer_list \<Rightarrow> send_buffer_list" where
  "send_buffer_list_free sblist =
     sblist\<lparr>sbl_allocated_list_entries := 0, sbl_list := [], sbl_free_list := []\<rparr>"

definition send_buffer_list_set_max_buffer_size :: "send_buffer_list \<Rightarrow> nat \<Rightarrow> send_buffer_list" where
  "send_buffer_list_set_max_buffer_size sblist n = sblist\<lparr>sbl_max_buffer_size := n\<rparr>"

definition send_buffer_list_set_max_list_entries :: "send_buffer_list \<Rightarrow> nat \<Rightarrow> send_buffer_list" where
  "send_buffer_list_set_max_list_entries sblist n = sblist\<lparr>sbl_max_list_entries := n\<rparr>"

lemmas sbl_defs = send_buffer_list_init_def send_buffer_list_put_def
  send_buffer_list_discard_new_def send_buffer_list_get_active_def send_buffer_list_delete_def
  send_buffer_list_empty_def send_buffer_list_free_def

section \<open>Messages in, messages out\<close>

text \<open>The bytes of the waiting messages, in the order in which they will be sent.\<close>

definition queued :: "send_buffer_list \<Rightarrow> byte list list" where
  "queued sblist = map (\<lambda>e. dyn_data (sb_buffer e)) (sbl_list sblist)"

text \<open>
  The interface that the senders rely on: a first-in first-out queue. \<open>put\<close> adds at the end,
  \<open>front\<close> shows the oldest element, \<open>drop_front\<close> removes it; \<open>contents\<close> is the abstract list.
\<close>

datatype 'e queue_op = Enqueue 'e | Dequeue

fun enqueued :: "'e queue_op list \<Rightarrow> 'e list" where
  "enqueued [] = []"
| "enqueued (Enqueue e # ops) = e # enqueued ops"
| "enqueued (Dequeue # ops) = enqueued ops"

locale fifo =
  fixes contents :: "'q \<Rightarrow> 'm list"
    and put :: "'q \<Rightarrow> 'e \<Rightarrow> 'q"
    and message :: "'e \<Rightarrow> 'm"
    and front :: "'q \<Rightarrow> 'e option"
    and drop_front :: "'q \<Rightarrow> 'q"
  assumes contents_put: "contents (put q e) = contents q @ [message e]"
    and front_None: "front q = None \<longleftrightarrow> contents q = []"
    and front_Some: "front q = Some e \<Longrightarrow> contents q = message e # contents (drop_front q)"
begin

fun run_ops :: "'e queue_op list \<Rightarrow> 'q \<Rightarrow> 'm list \<times> 'q" where
  "run_ops [] q = ([], q)"
| "run_ops (Enqueue e # ops) q = run_ops ops (put q e)"
| "run_ops (Dequeue # ops) q =
     (case front q of
        None \<Rightarrow> run_ops ops q
      | Some e \<Rightarrow> (case run_ops ops (drop_front q) of (ms, q') \<Rightarrow> (message e # ms, q')))"

text \<open>However the operations are interleaved, what went out and what still waits is what came in.\<close>

lemma run_ops_order:
  "run_ops ops q = (ms, q') \<Longrightarrow> ms @ contents q' = contents q @ map message (enqueued ops)"
proof (induction ops q arbitrary: ms rule: run_ops.induct)
  case (2 e ops q)
  then show ?case by (simp add: contents_put)
next
  case (3 ops q)
  show ?case
  proof (cases "front q")
    case None
    with 3 show ?thesis by simp
  next
    case (Some e)
    with "3.prems" obtain ms1 where "run_ops ops (drop_front q) = (ms1, q')" "ms = message e # ms1"
      by (auto split: prod.splits)
    with "3.IH"(2) [OF Some] show ?thesis by (simp add: front_Some [OF Some])
  qed
qed simp

end

definition send_buffer_list_pop :: "send_buffer_list \<Rightarrow> send_buffer_list" where
  "send_buffer_list_pop sblist =
     (case send_buffer_list_get_active sblist of
        None \<Rightarrow> sblist | Some e \<Rightarrow> send_buffer_list_delete sblist e)"

interpretation sbq: fifo queued send_buffer_list_put "\<lambda>e. dyn_data (sb_buffer e)"
  send_buffer_list_get_active send_buffer_list_pop
  by unfold_locales
     (auto simp: queued_def sbl_defs send_buffer_list_pop_def split: list.splits)

section \<open>Limits\<close>

text \<open>
  \<open>sbl_inv n sblist\<close>: the entries in both lists and the \<open>n\<close> entries in the hands of callers are
  all counted, the count is within the limit, and every buffer is well-formed.
\<close>

definition sbl_inv :: "nat \<Rightarrow> send_buffer_list \<Rightarrow> bool" where
  "sbl_inv n sblist \<longleftrightarrow>
     length (sbl_list sblist) + length (sbl_free_list sblist) + n \<le> sbl_allocated_list_entries sblist \<and>
     sbl_allocated_list_entries sblist \<le> sbl_max_list_entries sblist \<and>
     list_all (\<lambda>e. dynar_inv (sb_buffer e)) (sbl_list sblist @ sbl_free_list sblist)"

lemma sbl_inv_init: "sbl_inv 0 (send_buffer_list_init n m)"
  by (simp add: sbl_inv_def sbl_defs)

lemma queued_get_new [simp]: "send_buffer_list_get_new al s = (r, s') \<Longrightarrow> queued s' = queued s"
  by (auto simp: send_buffer_list_get_new_def queued_def Let_def split: list.splits if_splits)

lemma sbl_inv_get_new:
  assumes "sbl_inv n s" and "send_buffer_list_get_new al s = (r, s')"
  shows "case r of None \<Rightarrow> sbl_inv n s'
    | Some e \<Rightarrow> sbl_inv (Suc n) s' \<and> dyn_data (sb_buffer e) = [] \<and>
        dyn_maximum_size (sb_buffer e) = sbl_max_buffer_size s \<and> sb_msg_already_sent_bytes e = 0 \<and>
        dynar_inv (sb_buffer e)"
  using assms
  by (auto simp: send_buffer_list_get_new_def sbl_inv_def Let_def dynar_inv_def dynar_defs
      split: list.splits if_splits)

lemma sbl_inv_put: "sbl_inv (Suc n) s \<Longrightarrow> dynar_inv (sb_buffer e) \<Longrightarrow> sbl_inv n (send_buffer_list_put s e)"
  by (auto simp: sbl_inv_def sbl_defs)

lemma sbl_inv_discard:
  "sbl_inv (Suc n) s \<Longrightarrow> dynar_inv (sb_buffer e) \<Longrightarrow> sbl_inv n (send_buffer_list_discard_new s e)"
  by (auto simp: sbl_inv_def sbl_defs)

lemma sbl_inv_delete:
  assumes "sbl_inv n s" and "send_buffer_list_get_active s = Some e"
  shows "sbl_inv n (send_buffer_list_delete s e)"
  using assms by (auto simp: sbl_inv_def sbl_defs split: list.splits)

text \<open>
  Where the queue has room: an entry is free, or the limit is not reached. With memory, \<open>get_new\<close>
  then succeeds; without room it returns \<open>NULL\<close> and changes nothing.
\<close>

definition sbl_room :: "send_buffer_list \<Rightarrow> bool" where
  "sbl_room s \<longleftrightarrow>
     sbl_free_list s \<noteq> [] \<or> sbl_allocated_list_entries s < sbl_max_list_entries s"

lemma get_new_room:
  assumes "alloc_ideal al"
  shows "fst (send_buffer_list_get_new al s) = None \<longleftrightarrow> \<not> sbl_room s"
  using assms
  by (auto simp: send_buffer_list_get_new_def sbl_room_def alloc_ideal_def Let_def
      split: list.splits)

lemma get_new_no_room: "\<not> sbl_room s \<Longrightarrow> send_buffer_list_get_new al s = (None, s)"
  by (auto simp: send_buffer_list_get_new_def sbl_room_def split: list.splits)

text \<open>
  Without memory the slot of the failed entry is lost: \<open>allocated_list_entries\<close> is incremented
  before \<open>malloc\<close> and not taken back.
\<close>

lemma get_new_leaks_slot:
  assumes "sbl_free_list s = []" and "sbl_allocated_list_entries s < sbl_max_list_entries s"
    and "\<not> al Malloc_Send_Buffer"
  shows "send_buffer_list_get_new al s =
    (None, s\<lparr>sbl_allocated_list_entries := sbl_allocated_list_entries s + 1\<rparr>)"
  using assms by (simp add: send_buffer_list_get_new_def)

text \<open>
  A failed allocation costs the connection a queue entry for good: \<open>send_buffer_list_get_new\<close>
  increments \<open>allocated_list_entries\<close> before \<open>malloc\<close> and does not take it back. When that happens
  on the last free slot of an empty queue, the queue has no room left, and every later request is
  refused although memory is available again and no entry exists.
\<close>

theorem send_buffer_slot_lost:
  assumes "sbl_list s = []" and "sbl_free_list s = []"
    and "Suc (sbl_allocated_list_entries s) = sbl_max_list_entries s"
    and "\<not> al Malloc_Send_Buffer"
    and "send_buffer_list_get_new al s = (r, s')"
  shows "r = None \<and> send_buffer_list_get_new al' s' = (None, s') \<and> queued s' = []"
  using assms get_new_leaks_slot [of s al] get_new_no_room [of s' al']
  by (auto simp: sbl_room_def queued_def)

lemma send_buffer_slot_lost_witness:
  "\<exists>s'. send_buffer_list_get_new (\<lambda>_. False) (send_buffer_list_init 1 32768) = (None, s') \<and>
     send_buffer_list_get_new (\<lambda>_. True) s' = (None, s')"
proof -
  obtain r s' where g: "send_buffer_list_get_new (\<lambda>_. False) (send_buffer_list_init 1 32768) = (r, s')"
    by fastforce
  from send_buffer_slot_lost [of "send_buffer_list_init 1 32768", OF _ _ _ _ g, of "\<lambda>_. True"] g
  show ?thesis by (simp add: send_buffer_list_init_def)
qed

end
