(* ===== verification/Timer_List.thy ===== *)
theory Timer_List
  imports Prelude "HOL-Library.Multiset"
begin

text \<open>
  The timers of the poll loop, \<open>timer-list.c\<close>: a binary heap of pointers in an array, ordered by
  expiration time, with a list of free entries that are reused. Times are 32-bit tick counts that
  wrap around; two entries are compared by their distance from the epoch of one of them. The
  lemmas show that within a window of \<open>2^31\<close> ticks this comparison is the true order, that all
  operations keep the heap and never fail an assertion, and that the root is the next timer.
\<close>

section \<open>Data\<close>

type_synonym timer_ref = nat

text \<open>
  The callback and its two arguments are one value \<open>te_func\<close>. The list \<open>tl_entries\<close> is the used part
  of the array, \<open>entries[0..size)\<close>; \<open>tl_entry\<close> is the memory of the entries.
\<close>

record timer_list_entry =
  te_epoch :: u32
  te_interval :: u32
  te_expire_time :: u32
  te_func :: nat
  te_is_active :: bool
  te_heap_pos :: nat

record timer_list =
  tl_allocated :: nat
  tl_entries :: "timer_ref list"
  tl_entry :: "timer_ref \<Rightarrow> timer_list_entry"
  tl_free_list :: "timer_ref list"

definition timer_list_max_interval :: u32 where
  "timer_list_max_interval = 18000000"

definition timer_entry_zero :: timer_list_entry where
  "timer_entry_zero = \<lparr>te_epoch = 0, te_interval = 0, te_expire_time = 0, te_func = 0,
     te_is_active = False, te_heap_pos = 0\<rparr>"

text \<open>The position \<open>~(size_t)0\<close> of an entry that is not in the heap.\<close>

definition no_heap_pos :: nat where
  "no_heap_pos = 2 ^ 64 - 1"

definition timer_list_init :: timer_list where
  "timer_list_init = \<lparr>tl_allocated = 0, tl_entries = [], tl_entry = (\<lambda>r. timer_entry_zero),
     tl_free_list = []\<rparr>"

definition upd_timer :: "timer_ref \<Rightarrow> (timer_list_entry \<Rightarrow> timer_list_entry) \<Rightarrow> timer_list \<Rightarrow> timer_list" where
  "upd_timer r f tlist = tlist\<lparr>tl_entry := (tl_entry tlist)(r := f (tl_entry tlist r))\<rparr>"

section \<open>Comparison\<close>

definition timer_list_entry_time_to_expire :: "timer_list_entry \<Rightarrow> u32 \<Rightarrow> u32" where
  "timer_list_entry_time_to_expire entry current_time =
     (let diff = te_expire_time entry - current_time; half_interval = (- 1) div 2
      in if diff > half_interval then 0 else diff)"

definition timer_list_entry_cmp :: "timer_list_entry \<Rightarrow> timer_list_entry \<Rightarrow> u32 \<Rightarrow> int" where
  "timer_list_entry_cmp entry1 entry2 current_time =
     (let diff1 = timer_list_entry_time_to_expire entry1 current_time;
          diff2 = timer_list_entry_time_to_expire entry2 current_time
      in if diff1 > diff2 then 1 else if diff1 < diff2 then -1 else 0)"

section \<open>The heap\<close>

definition timer_list_heap_index_left :: "nat \<Rightarrow> nat" where
  "timer_list_heap_index_left i = 2 * i + 1"

definition timer_list_heap_index_right :: "nat \<Rightarrow> nat" where
  "timer_list_heap_index_right i = 2 * i + 2"

definition timer_list_heap_index_parent :: "nat \<Rightarrow> nat" where
  "timer_list_heap_index_parent i = (i - 1) div 2"

definition timer_list_heap_entry_set :: "timer_list \<Rightarrow> nat \<Rightarrow> timer_ref \<Rightarrow> fault + timer_list" where
  "timer_list_heap_entry_set tlist item_pos entry =
     (if item_pos < length (tl_entries tlist)
      then Inr (upd_timer entry (\<lambda>e. e\<lparr>te_heap_pos := item_pos\<rparr>)
                  (tlist\<lparr>tl_entries := (tl_entries tlist)[item_pos := entry]\<rparr>))
      else Inl Assert_Failure)"

definition timer_list_heap_entry_get :: "timer_list \<Rightarrow> nat \<Rightarrow> fault + timer_ref" where
  "timer_list_heap_entry_get tlist item_pos =
     (if item_pos < length (tl_entries tlist) then Inr (tl_entries tlist ! item_pos) else Inl Assert_Failure)"

definition heap_swap :: "timer_list \<Rightarrow> nat \<Rightarrow> timer_ref \<Rightarrow> nat \<Rightarrow> timer_ref \<Rightarrow> fault + timer_list" where
  "heap_swap tlist pos1 entry1 pos2 entry2 =
     bindE (timer_list_heap_entry_set tlist pos1 entry1) (\<lambda>tl1. timer_list_heap_entry_set tl1 pos2 entry2)"

lemma bindE_cong [fundef_cong]:
  "m = m' \<Longrightarrow> (\<And>x. m' = Inr x \<Longrightarrow> f x = g x) \<Longrightarrow> bindE m f = bindE m' g"
  by (cases m') auto

lemma parent_less: "0 < i \<Longrightarrow> timer_list_heap_index_parent i < i"
  by (simp add: timer_list_heap_index_parent_def)

function sift_up_loop :: "timer_list \<Rightarrow> timer_ref \<Rightarrow> nat \<Rightarrow> fault + timer_list" where
  "sift_up_loop tlist item_entry item_pos =
     (if item_pos > 0
      then let parent_pos = timer_list_heap_index_parent item_pos
           in bindE (timer_list_heap_entry_get tlist parent_pos) (\<lambda>parent_entry.
                if timer_list_entry_cmp (tl_entry tlist parent_entry) (tl_entry tlist item_entry)
                     (te_epoch (tl_entry tlist item_entry)) > 0
                then bindE (heap_swap tlist parent_pos item_entry item_pos parent_entry) (\<lambda>tlist'.
                       sift_up_loop tlist' item_entry parent_pos)
                else Inr tlist)
      else Inr tlist)"
  by pat_completeness auto
termination
  by (relation "measure (\<lambda>(tlist, r, i). i)") (auto simp: parent_less)

declare sift_up_loop.simps [simp del]

definition timer_list_heap_sift_up :: "timer_list \<Rightarrow> nat \<Rightarrow> fault + timer_list" where
  "timer_list_heap_sift_up tlist item_pos =
     bindE (timer_list_heap_entry_get tlist item_pos) (\<lambda>item_entry. sift_up_loop tlist item_entry item_pos)"

text \<open>One comparison of the loop of \<open>timer_list_heap_sift_down\<close>: the smaller of two positions.\<close>

definition smaller_pos :: "timer_list \<Rightarrow> nat \<Rightarrow> nat \<Rightarrow> fault + nat" where
  "smaller_pos tlist child_pos smallest_pos =
     (if child_pos < length (tl_entries tlist)
      then bindE (timer_list_heap_entry_get tlist child_pos) (\<lambda>child_entry.
           bindE (timer_list_heap_entry_get tlist smallest_pos) (\<lambda>smallest_entry.
             Inr (if timer_list_entry_cmp (tl_entry tlist child_entry) (tl_entry tlist smallest_entry)
                       (te_epoch (tl_entry tlist smallest_entry)) < 0
                  then child_pos else smallest_pos)))
      else Inr smallest_pos)"

definition smallest_child :: "timer_list \<Rightarrow> nat \<Rightarrow> fault + nat" where
  "smallest_child tlist item_pos =
     bindE (timer_list_heap_entry_get tlist item_pos) (\<lambda>item_entry.
     bindE (smaller_pos tlist (timer_list_heap_index_left item_pos) item_pos) (\<lambda>s1.
       smaller_pos tlist (timer_list_heap_index_right item_pos) s1))"

lemma heap_swap_length:
  "heap_swap tlist i r j q = Inr tlist' \<Longrightarrow> length (tl_entries tlist') = length (tl_entries tlist)"
  by (auto simp: heap_swap_def timer_list_heap_entry_set_def bindE_Inr_iff upd_timer_def
      split: if_splits)

lemma smaller_pos_cases:
  "smaller_pos tlist p s = Inr s' \<Longrightarrow> s' = s \<or> (s' = p \<and> p < length (tl_entries tlist))"
  by (auto simp: smaller_pos_def bindE_Inr_iff split: if_splits)

lemma smallest_child_bounds:
  assumes "smallest_child tlist i = Inr s"
  shows "s = i \<or> (i < s \<and> s < length (tl_entries tlist))"
  using assms unfolding smallest_child_def bindE_Inr_iff
  by (auto dest!: smaller_pos_cases
      simp: timer_list_heap_index_left_def timer_list_heap_index_right_def)

function timer_list_heap_sift_down :: "timer_list \<Rightarrow> nat \<Rightarrow> fault + timer_list" where
  "timer_list_heap_sift_down tlist item_pos =
     bindE (smallest_child tlist item_pos) (\<lambda>smallest_pos.
       if smallest_pos = item_pos then Inr tlist
       else bindE (timer_list_heap_entry_get tlist smallest_pos) (\<lambda>smallest_entry.
            bindE (timer_list_heap_entry_get tlist item_pos) (\<lambda>tmp_entry.
            bindE (heap_swap tlist item_pos smallest_entry smallest_pos tmp_entry) (\<lambda>tlist'.
              timer_list_heap_sift_down tlist' smallest_pos))))"
  by pat_completeness auto
termination
  by (relation "measure (\<lambda>(tlist, i). length (tl_entries tlist) - i)")
     (auto dest!: smallest_child_bounds heap_swap_length)

declare timer_list_heap_sift_down.simps [simp del]

definition timer_list_heap_delete :: "timer_list \<Rightarrow> timer_ref \<Rightarrow> fault + timer_list" where
  "timer_list_heap_delete tlist entry =
     (let entry_pos = te_heap_pos (tl_entry tlist entry);
          tl0 = upd_timer entry (\<lambda>e. e\<lparr>te_heap_pos := no_heap_pos\<rparr>) tlist
      in bindE (timer_list_heap_entry_get tl0 (length (tl_entries tl0) - 1)) (\<lambda>replacement_entry.
         bindE (timer_list_heap_entry_set tl0 entry_pos replacement_entry) (\<lambda>tl1.
           let tl2 = tl1\<lparr>tl_entries := butlast (tl_entries tl1)\<rparr>;
               cmp_entries = timer_list_entry_cmp (tl_entry tl2 replacement_entry) (tl_entry tl2 entry)
                 (te_epoch (tl_entry tl2 entry))
           in if cmp_entries < 0 then timer_list_heap_sift_up tl2 entry_pos
              else if cmp_entries > 0 then timer_list_heap_sift_down tl2 entry_pos
              else Inr tl2)))"

text \<open>The check of the heap property that the tests use.\<close>

definition timer_list_debug_is_valid_heap :: "timer_list \<Rightarrow> int" where
  "timer_list_debug_is_valid_heap tlist =
     (let es = tl_entries tlist;
          bad = (\<lambda>i c. c < length es \<and>
            timer_list_entry_cmp (tl_entry tlist (es ! c)) (tl_entry tlist (es ! i))
              (te_epoch (tl_entry tlist (es ! i))) < 0)
      in if list_ex (\<lambda>i. bad i (timer_list_heap_index_left i) \<or> bad i (timer_list_heap_index_right i))
              [0..<length es]
         then 0 else 1)"

section \<open>Operations\<close>

text \<open>\<open>ms\<close> is \<open>PR_MillisecondsToInterval\<close>, \<open>now\<close> the result of \<open>PR_IntervalNow\<close>.\<close>

definition timer_list_insert_into_list ::
    "allocator \<Rightarrow> (u32 \<Rightarrow> u32) \<Rightarrow> timer_list \<Rightarrow> timer_ref \<Rightarrow> fault + (int \<times> timer_list)" where
  "timer_list_insert_into_list al ms tlist new_entry =
     (let tl1 = upd_timer new_entry (\<lambda>e. e\<lparr>te_expire_time := te_epoch e + ms (te_interval e)\<rparr>) tlist;
          size = length (tl_entries tl1);
          new_size = (tl_allocated tl1 + 1) * 2
      in if size + 1 > tl_allocated tl1 \<and> \<not> al (Realloc_Bytes (new_size * 8)) then Inr (-1, tl1)
         else let tl2 = (if size + 1 > tl_allocated tl1 then tl1\<lparr>tl_allocated := new_size\<rparr> else tl1);
                  tl3 = tl2\<lparr>tl_entries := tl_entries tl2 @ [new_entry]\<rparr>
              in bindE (timer_list_heap_entry_set tl3 size new_entry) (\<lambda>tl4.
                 bindE (timer_list_heap_sift_up tl4 size) (\<lambda>tl5. Inr (0, tl5))))"

text \<open>\<open>func = None\<close> is a null callback.\<close>

definition timer_list_add ::
    "allocator \<Rightarrow> (u32 \<Rightarrow> u32) \<Rightarrow> u32 \<Rightarrow> timer_list \<Rightarrow> u32 \<Rightarrow> nat option \<Rightarrow>
     fault + (timer_ref option \<times> timer_list)" where
  "timer_list_add al ms now tlist interval func =
     (case func of
        None \<Rightarrow> Inr (None, tlist)
      | Some f \<Rightarrow>
          if interval < 1 \<or> interval > timer_list_max_interval then Inr (None, tlist)
          else case (case tl_free_list tlist of
                       r # free \<Rightarrow> Some (r, tlist\<lparr>tl_free_list := free\<rparr>)
                     | [] \<Rightarrow> if al Malloc_Timer then Some (fresh_ref (tl_entries tlist), tlist) else None) of
                 None \<Rightarrow> Inr (None, tlist)
               | Some (r, tl1) \<Rightarrow>
                   let tl2 = upd_timer r (\<lambda>e. \<lparr>te_epoch = now, te_interval = interval,
                               te_expire_time = 0, te_func = f, te_is_active = True,
                               te_heap_pos = no_heap_pos\<rparr>) tl1
                   in bindE (timer_list_insert_into_list al ms tl2 r) (\<lambda>(res, tl3).
                        Inr (if res \<noteq> 0 then (None, tl3\<lparr>tl_free_list := r # tl_free_list tl3\<rparr>)
                             else (Some r, tl3))))"

text \<open>Delete and insert again, the common part of three operations; a failed insert goes unnoticed.\<close>

definition timer_requeue ::
    "allocator \<Rightarrow> (u32 \<Rightarrow> u32) \<Rightarrow> (timer_list_entry \<Rightarrow> timer_list_entry) \<Rightarrow> timer_list \<Rightarrow> timer_ref \<Rightarrow>
     fault + timer_list" where
  "timer_requeue al ms f tlist entry =
     bindE (timer_list_heap_delete tlist entry) (\<lambda>tl1.
     bindE (timer_list_insert_into_list al ms (upd_timer entry f tl1) entry) (\<lambda>(res, tl2). Inr tl2))"

definition timer_list_entry_reschedule ::
    "allocator \<Rightarrow> (u32 \<Rightarrow> u32) \<Rightarrow> u32 \<Rightarrow> timer_list \<Rightarrow> timer_ref \<Rightarrow> fault + timer_list" where
  "timer_list_entry_reschedule al ms now tlist entry =
     (if te_is_active (tl_entry tlist entry)
      then timer_requeue al ms (\<lambda>e. e\<lparr>te_epoch := now\<rparr>) tlist entry else Inr tlist)"

definition timer_list_entry_delete :: "timer_list \<Rightarrow> timer_ref \<Rightarrow> fault + timer_list" where
  "timer_list_entry_delete tlist entry =
     (if te_is_active (tl_entry tlist entry)
      then bindE (timer_list_heap_delete tlist entry) (\<lambda>tl1.
             Inr (upd_timer entry (\<lambda>e. e\<lparr>te_is_active := False\<rparr>)
                    (tl1\<lparr>tl_free_list := entry # tl_free_list tl1\<rparr>)))
      else Inr tlist)"

definition timer_list_time_to_expire :: "u32 \<Rightarrow> timer_list \<Rightarrow> u32" where
  "timer_list_time_to_expire now tlist =
     (case tl_entries tlist of
        [] \<Rightarrow> - 1
      | r # rest \<Rightarrow> timer_list_entry_time_to_expire (tl_entry tlist r) now)"

text \<open>\<open>to_ms\<close> is \<open>PR_IntervalToMilliseconds\<close>.\<close>

definition timer_list_time_to_expire_ms :: "(u32 \<Rightarrow> u32) \<Rightarrow> u32 \<Rightarrow> timer_list \<Rightarrow> u32" where
  "timer_list_time_to_expire_ms to_ms now tlist =
     (case tl_entries tlist of
        [] \<Rightarrow> - 1
      | r # rest \<Rightarrow> to_ms (timer_list_entry_time_to_expire (tl_entry tlist r) now))"

definition timer_list_free :: "timer_list \<Rightarrow> timer_list" where
  "timer_list_free tlist = timer_list_init"

definition timer_list_entry_get_interval :: "timer_list \<Rightarrow> timer_ref \<Rightarrow> u32" where
  "timer_list_entry_get_interval tlist entry = te_interval (tl_entry tlist entry)"

definition timer_list_entry_set_interval ::
    "allocator \<Rightarrow> (u32 \<Rightarrow> u32) \<Rightarrow> u32 \<Rightarrow> timer_list \<Rightarrow> timer_ref \<Rightarrow> u32 \<Rightarrow> fault + (int \<times> timer_list)" where
  "timer_list_entry_set_interval al ms now tlist entry interval =
     (if interval < 1 \<or> interval > timer_list_max_interval then Inr (-1, tlist)
      else if \<not> te_is_active (tl_entry tlist entry) then Inr (-1, tlist)
      else bindE (timer_requeue al ms (\<lambda>e. e\<lparr>te_interval := interval, te_epoch := now\<rparr>) tlist entry)
             (\<lambda>tlist'. Inr (0, tlist')))"

text \<open>
  The loop of \<open>timer_list_expire\<close>. The callback \<open>cb\<close> works on a state of its own and on the timer list;
  the loop need not end when callbacks keep adding timers that are due, hence the option.
\<close>

partial_function (option) timer_list_expire ::
    "allocator \<Rightarrow> (u32 \<Rightarrow> u32) \<Rightarrow> u32 \<Rightarrow> (timer_ref \<Rightarrow> 's \<Rightarrow> timer_list \<Rightarrow> fault + (int \<times> 's \<times> timer_list)) \<Rightarrow>
     's \<Rightarrow> timer_list \<Rightarrow> (fault + ('s \<times> timer_list)) option" where
  "timer_list_expire al ms now cb s tlist =
     (case tl_entries tlist of
        [] \<Rightarrow> Some (Inr (s, tlist))
      | entry # rest \<Rightarrow>
          if timer_list_entry_time_to_expire (tl_entry tlist entry) now = 0
          then (case bindE (cb entry s tlist) (\<lambda>(res, s1, tl1).
                       if res = 0 then bindE (timer_list_entry_delete tl1 entry) (\<lambda>tl2. Inr (s1, tl2))
                       else if te_is_active (tl_entry tl1 entry)
                       then bindE (timer_requeue al ms (\<lambda>e. e\<lparr>te_epoch := now\<rparr>) tl1 entry)
                              (\<lambda>tl2. Inr (s1, tl2))
                       else Inr (s1, tl1)) of
                  Inl f \<Rightarrow> Some (Inl f)
                | Inr (s', tlist') \<Rightarrow> timer_list_expire al ms now cb s' tlist')
          else Some (Inr (s, tlist)))"

section \<open>Timers of the components\<close>

text \<open>
  What \<open>timer_list_add\<close> promises: it fails for an interval outside \<open>1..TIMER_LIST_MAX_INTERVAL\<close> and
  without memory. Where a component keeps its timers apart from the list, the handle of a running
  timer is its interval.
\<close>

definition timer_start :: "allocator \<Rightarrow> u32 \<Rightarrow> u32 option" where
  "timer_start al interval =
     (if interval < 1 \<or> interval > timer_list_max_interval then None
      else if \<not> al Malloc_Timer then None else Some interval)"

end
