(* ===== verification/C_Strings.thy ===== *)
theory C_Strings
  imports Dynar
begin

text \<open>
  What the program uses of the C library for text: characters, printing and reading of decimal
  numbers, \<open>strtoll\<close> and \<open>strcasecmp\<close>. Strings are byte lists without the terminating zero.
\<close>

section \<open>Characters and printing\<close>

definition chr_nl :: byte where "chr_nl = 10"
definition chr_cr :: byte where "chr_cr = 13"
definition chr_space :: byte where "chr_space = 32"

definition str_bytes :: "string \<Rightarrow> byte list" where
  "str_bytes s = map of_char s"

text \<open>The conversion \<open>%u\<close> of \<open>printf\<close>.\<close>

fun dec_digits :: "nat \<Rightarrow> byte list" where
  "dec_digits n = (if n < 10 then [of_nat (48 + n)] else dec_digits (n div 10) @ [of_nat (48 + n mod 10)])"

declare dec_digits.simps [simp del]

definition is_space :: "byte \<Rightarrow> bool" where
  "is_space b \<longleftrightarrow> b = chr_space \<or> 9 \<le> b \<and> b \<le> 13"

definition is_digit :: "byte \<Rightarrow> bool" where
  "is_digit b \<longleftrightarrow> 48 \<le> b \<and> b \<le> 57"

definition dec_value :: "byte list \<Rightarrow> nat" where
  "dec_value ds = foldl (\<lambda>a d. a * 10 + (unat d - 48)) 0 ds"

lemma is_digit_of_nat: "n < 10 \<Longrightarrow> is_digit (of_nat (48 + n)) \<and> unat (of_nat (48 + n) :: byte) = 48 + n"
proof -
  assume n: "n < 10"
  then have u: "unat (of_nat (48 + n) :: byte) = 48 + n"
    by (simp only: unat_of_nat) simp
  have "48 \<le> (of_nat (48 + n) :: byte)" "(of_nat (48 + n) :: byte) \<le> 57"
    using n u by (simp_all only: word_le_nat_alt) simp_all
  with u show ?thesis by (simp add: is_digit_def)
qed

lemma dec_digits_digits: "list_all is_digit (dec_digits n)"
proof (induction n rule: dec_digits.induct)
  case (1 n)
  show ?case
    using 1 is_digit_of_nat [of n] is_digit_of_nat [of "n mod 10"]
    by (subst dec_digits.simps) (simp del: of_nat_add)
qed

lemma dec_digits_neq [simp]: "dec_digits n \<noteq> []"
  by (subst dec_digits.simps) simp

lemma dec_value_digits [simp]: "dec_value (dec_digits n) = n"
proof (induction n rule: dec_digits.induct)
  case (1 n)
  show ?case
    using 1 is_digit_of_nat [of n] is_digit_of_nat [of "n mod 10"]
    by (subst dec_digits.simps) (simp add: dec_value_def del: of_nat_add)
qed

lemma hd_digit: "is_digit (hd (dec_digits n))"
  using dec_digits_digits [of n] dec_digits_neq [of n] by (cases "dec_digits n") simp_all

section \<open>Comparing names\<close>

text \<open>\<open>strcasecmp(a, b) == 0\<close>, in the C locale.\<close>

definition tolower :: "byte \<Rightarrow> byte" where
  "tolower b = (if 65 \<le> b \<and> b \<le> 90 then b + 32 else b)"

definition strcasecmp_eq :: "byte list \<Rightarrow> string \<Rightarrow> bool" where
  "strcasecmp_eq a b \<longleftrightarrow> map tolower a = map tolower (str_bytes b)"

section \<open>Reading numbers\<close>

definition llong_max :: int where "llong_max = 9223372036854775807"
definition llong_min :: int where "llong_min = - 9223372036854775808"

definition base_digit :: "nat \<Rightarrow> byte \<Rightarrow> bool" where
  "base_digit base b \<longleftrightarrow> 48 \<le> unat b \<and> unat b < 48 + base"

definition base_value :: "nat \<Rightarrow> byte list \<Rightarrow> nat" where
  "base_value base ds = foldl (\<lambda>a d. a * base + (unat d - 48)) 0 ds"

record strtoll_result =
  st_value :: int
  st_ep :: "byte list"
  st_errno :: bool

text \<open>
  \<open>strtoll(str, &ep, base)\<close> for the bases 8 and 10 of the program: white space, an optional sign and
  digits. \<open>st_ep\<close> is the text behind the number, or the whole string when there is no digit; the value
  saturates with \<open>errno\<close> set.
\<close>

definition strtoll :: "byte list \<Rightarrow> nat \<Rightarrow> strtoll_result" where
  "strtoll str base =
     (let s1 = dropWhile is_space str;
          neg = (s1 \<noteq> [] \<and> hd s1 = 45);
          s2 = (if s1 \<noteq> [] \<and> (hd s1 = 43 \<or> hd s1 = 45) then tl s1 else s1);
          digits = takeWhile (base_digit base) s2;
          v = (if neg then - int (base_value base digits) else int (base_value base digits))
      in if digits = [] then \<lparr>st_value = 0, st_ep = str, st_errno = False\<rparr>
         else \<lparr>st_value = max llong_min (min llong_max v), st_ep = dropWhile (base_digit base) s2,
               st_errno = (v < llong_min \<or> llong_max < v)\<rparr>)"

lemma base_digit_10: "base_digit 10 = is_digit"
  by (auto simp: base_digit_def is_digit_def word_le_nat_alt fun_eq_iff)

lemma base_value_10: "base_value 10 = dec_value"
  by (simp add: base_value_def dec_value_def fun_eq_iff)

lemma digit_not_blank: "is_digit b \<Longrightarrow> \<not> is_space b \<and> b \<noteq> 43 \<and> b \<noteq> 45 \<and> b \<noteq> 0"
  by (auto simp: is_digit_def is_space_def chr_space_def word_le_nat_alt)

lemma takeWhile_digits:
  "takeWhile is_digit (dec_digits n) = dec_digits n" "dropWhile is_digit (dec_digits n) = []"
  "dropWhile is_space (dec_digits n) = dec_digits n"
proof -
  have "\<forall>b\<in>set (dec_digits n). is_digit b" using dec_digits_digits [of n] by (simp add: list_all_iff)
  then show "takeWhile is_digit (dec_digits n) = dec_digits n" "dropWhile is_digit (dec_digits n) = []" by simp_all
  show "dropWhile is_space (dec_digits n) = dec_digits n"
    using digit_not_blank [OF hd_digit [of n]] by (cases "dec_digits n") simp_all
qed

text \<open>Printed numbers are read back as long as they fit.\<close>

lemma strtoll_digits:
  "strtoll (dec_digits n) 10 = \<lparr>st_value = min llong_max (int n), st_ep = [], st_errno = llong_max < int n\<rparr>"
  using digit_not_blank [OF hd_digit [of n]]
  by (simp add: strtoll_def takeWhile_digits base_digit_10 base_value_10 Let_def llong_min_def)
     (simp add: llong_max_def)

end
