(* ===== verification/Settings.thy ===== *)
theory Settings
  imports C_Strings Tlv_Types
begin

text \<open>
  The advanced settings of both daemons (\<open>qnetd-advanced-settings.c\<close>, \<open>qdevice-advanced-settings.c\<close>)
  with the parsers of \<open>utils.c\<close> that they use. The build directories, the group database and the
  floating point numbers of the C library are parameters. A string field is \<open>None\<close> where the code has
  a null pointer.
\<close>

section \<open>Parsers\<close>

definition utils_parse_bool_str :: "byte list \<Rightarrow> int" where
  "utils_parse_bool_str str =
     (if strcasecmp_eq str ''yes'' \<or> strcasecmp_eq str ''on'' \<or> strcasecmp_eq str ''1'' then 1
      else if strcasecmp_eq str ''no'' \<or> strcasecmp_eq str ''off'' \<or> strcasecmp_eq str ''0'' then 0
      else -1)"

definition utils_strtonum_base :: "byte list \<Rightarrow> int \<Rightarrow> int \<Rightarrow> nat \<Rightarrow> int option" where
  "utils_strtonum_base str min_val max_val base =
     (if min_val > max_val then None
      else let r = strtoll str base
           in if st_ep r = str \<or> st_ep r \<noteq> [] \<or> st_errno r then None
              else if st_value r < min_val \<or> st_value r > max_val then None
              else Some (st_value r))"

definition utils_strtonum :: "byte list \<Rightarrow> int \<Rightarrow> int \<Rightarrow> int option" where
  "utils_strtonum str min_val max_val = utils_strtonum_base str min_val max_val 10"

text \<open>
  A \<open>double\<close>: its value, \<open>m * 2 ^ e\<close> for \<open>Finite m e\<close>, and what multiplying it by an interval and
  converting the product to \<open>PRUint32\<close> gives. \<open>strtod\<close> returns it with the text behind the number and whether \<open>errno\<close> is set.
\<close>

datatype double_value = Nan | Infinite bool | Finite int int

record double =
  dbl_value :: double_value
  dbl_times :: "u32 \<Rightarrow> u32"

fun double_less :: "int \<Rightarrow> int \<Rightarrow> int \<Rightarrow> bool" where
  "double_less m e k = (if e \<ge> 0 then m * 2 ^ nat e < k else m < k * 2 ^ nat (- e))"

fun double_greater :: "int \<Rightarrow> int \<Rightarrow> int \<Rightarrow> bool" where
  "double_greater m e k = (if e \<ge> 0 then m * 2 ^ nat e > k else m > k * 2 ^ nat (- e))"

type_synonym strtod_fun = "byte list \<Rightarrow> double \<times> byte list \<times> bool"

definition utils_strtod :: "strtod_fun \<Rightarrow> byte list \<Rightarrow> int \<Rightarrow> int \<Rightarrow> double option" where
  "utils_strtod sd str min_val max_val =
     (if min_val > max_val then None
      else case sd str of
             (tmp_d, ep, err) \<Rightarrow>
               if ep = str \<or> ep \<noteq> [] \<or> err then None
               else (case dbl_value tmp_d of
                       Nan \<Rightarrow> None
                     | Infinite neg \<Rightarrow> None
                     | Finite m e \<Rightarrow>
                         if double_less m e min_val \<or> double_greater m e max_val then None else Some tmp_d))"

text \<open>\<open>utils_parse_umask\<close>: no value for an error, and no mask for the empty string.\<close>

definition utils_parse_umask :: "byte list \<Rightarrow> u32 option option" where
  "utils_parse_umask str =
     (if str = [] then Some None
      else case utils_strtonum_base str 0 511 8 of
             None \<Rightarrow> None
           | Some tmpll \<Rightarrow> Some (Some (word_of_int tmpll)))"

text \<open>
  \<open>utils_get_group_gid\<close>. \<open>ge_size_max\<close> is the result of \<open>sysconf\<close>, -1 or a positive number, and
  \<open>ge_getgrnam\<close> that of \<open>getgrnam_r\<close> for a name and the size of the buffer. The size doubles until the
  entry fits or the size exceeds 65536.
\<close>

datatype getgrnam_result = Grp_Erange | Grp_Error | Grp_Not_Found | Grp_Gid u32

record group_env =
  ge_size_max :: int
  ge_getgrnam :: "byte list \<Rightarrow> int \<Rightarrow> getgrnam_result"

definition utils_gid_determine_max_size :: int where
  "utils_gid_determine_max_size = 65536"

function gid_loop :: "allocator \<Rightarrow> group_env \<Rightarrow> byte list \<Rightarrow> int \<Rightarrow> u32 option" where
  "gid_loop al ge grp_name grp_buf_size =
     (if grp_buf_size \<le> 0 then None
      else case ge_getgrnam ge grp_name grp_buf_size of
        Grp_Erange \<Rightarrow>
          if grp_buf_size * 2 > utils_gid_determine_max_size \<or> \<not> al (Realloc_Bytes (nat (grp_buf_size * 2))) then None
          else gid_loop al ge grp_name (grp_buf_size * 2)
      | Grp_Error \<Rightarrow> None
      | Grp_Not_Found \<Rightarrow> None
      | Grp_Gid gid \<Rightarrow> Some gid)"
  by pat_completeness auto
termination
  by (relation "measure (\<lambda>(al, ge, name, n). nat (utils_gid_determine_max_size - n))")
     (auto simp: utils_gid_determine_max_size_def)

declare gid_loop.simps [simp del]

definition uint_max :: int where "uint_max = 4294967295"

definition utils_get_group_gid :: "allocator \<Rightarrow> group_env \<Rightarrow> byte list \<Rightarrow> u32 option" where
  "utils_get_group_gid al ge grp_name =
     (if grp_name = [] then Some (- 1)
      else case utils_strtonum grp_name (- 1) uint_max of
             Some tmpll \<Rightarrow> Some (word_of_int tmpll)
           | None \<Rightarrow>
               let grp_buf_size = (if ge_size_max ge = -1 then 4096 else ge_size_max ge)
               in if \<not> al (Malloc_Bytes (nat grp_buf_size)) then None
                  else gid_loop al ge grp_name grp_buf_size)"

section \<open>Limits and defaults\<close>

text \<open>The macros of \<open>qnet-config.h\<close> and \<open>qdevice-config.h\<close>; \<open>DEBUG\<close> and the directories come from the build.\<close>

definition int_max :: int where "int_max = 2147483647"
definition uint32_max :: int where "uint32_max = 4294967295"

definition qnetd_min_listen_backlog :: int where "qnetd_min_listen_backlog = 1"
definition qnetd_min_client_send_buffers :: int where "qnetd_min_client_send_buffers = 2"
definition qnetd_min_client_receive_send_size :: int where "qnetd_min_client_receive_send_size = 16"
definition qnetd_min_heartbeat_interval :: int where "qnetd_min_heartbeat_interval = 1"
definition qnetd_min_dpd_interval_coefficient :: int where "qnetd_min_dpd_interval_coefficient = 1"
definition qnetd_max_dpd_interval_coefficient :: int where "qnetd_max_dpd_interval_coefficient = 1000"
definition qnetd_min_local_socket_backlog :: int where "qnetd_min_local_socket_backlog = 1"
definition qnetd_min_ipc_max_clients :: int where "qnetd_min_ipc_max_clients = 0"
definition qnetd_min_ipc_receive_send_size :: int where "qnetd_min_ipc_receive_send_size = 1024"

lemmas qnetd_limits = qnetd_min_listen_backlog_def qnetd_min_client_send_buffers_def
  qnetd_min_client_receive_send_size_def qnetd_min_heartbeat_interval_def
  qnetd_min_dpd_interval_coefficient_def qnetd_max_dpd_interval_coefficient_def
  qnetd_min_local_socket_backlog_def qnetd_min_ipc_max_clients_def qnetd_min_ipc_receive_send_size_def

definition qdevice_min_local_socket_backlog :: int where "qdevice_min_local_socket_backlog = 1"
definition qdevice_min_max_cs_try_again :: int where "qdevice_min_max_cs_try_again = 1"
definition qdevice_min_ipc_max_clients :: int where "qdevice_min_ipc_max_clients = 0"
definition qdevice_min_ipc_receive_send_size :: int where "qdevice_min_ipc_receive_send_size = 1024"
definition qdevice_min_heuristics_ipc_max_send_buffers :: int where "qdevice_min_heuristics_ipc_max_send_buffers = 10"
definition qdevice_min_heuristics_ipc_max_send_receive_size :: int where "qdevice_min_heuristics_ipc_max_send_receive_size = 1024"
definition qdevice_min_heuristics_timeout :: int where "qdevice_min_heuristics_timeout = 250"
definition qdevice_min_heuristics_interval :: int where "qdevice_min_heuristics_interval = qdevice_min_heuristics_timeout"
definition qdevice_min_heuristics_max_execs :: int where "qdevice_min_heuristics_max_execs = 1"
definition qdevice_min_heuristics_max_processes :: int where "qdevice_min_heuristics_max_processes = 1"
definition qdevice_min_heuristics_kill_list_interval :: int where "qdevice_min_heuristics_kill_list_interval = qdevice_min_heuristics_timeout"
definition qdevice_net_min_max_send_buffers :: int where "qdevice_net_min_max_send_buffers = 2"
definition qdevice_net_min_msg_receive_send_size :: int where "qdevice_net_min_msg_receive_send_size = 16"
definition qdevice_net_min_heartbeat_interval :: int where "qdevice_net_min_heartbeat_interval = 1"
definition qdevice_net_min_connect_timeout :: int where "qdevice_net_min_connect_timeout = 1"

lemmas qdevice_limits = qdevice_min_local_socket_backlog_def qdevice_min_max_cs_try_again_def
  qdevice_min_ipc_max_clients_def qdevice_min_ipc_receive_send_size_def
  qdevice_min_heuristics_ipc_max_send_buffers_def qdevice_min_heuristics_ipc_max_send_receive_size_def
  qdevice_min_heuristics_timeout_def qdevice_min_heuristics_interval_def qdevice_min_heuristics_max_execs_def
  qdevice_min_heuristics_max_processes_def qdevice_min_heuristics_kill_list_interval_def
  qdevice_net_min_max_send_buffers_def qdevice_net_min_msg_receive_send_size_def
  qdevice_net_min_heartbeat_interval_def qdevice_net_min_connect_timeout_def

record build_config =
  bc_corosysconfdir :: string
  bc_localstatedir :: string
  bc_debug :: bool

definition strdup :: "allocator \<Rightarrow> byte list \<Rightarrow> byte list option" where
  "strdup al str = (if al (Malloc_Bytes (length str + 1)) then Some str else None)"

section \<open>Settings of the server\<close>

record qnetd_advanced_settings =
  as_listen_backlog :: int
  as_max_client_send_buffers :: nat
  as_max_client_send_size :: nat
  as_max_client_receive_size :: nat
  as_nss_db_dir :: "byte list option"
  as_cert_nickname :: "byte list option"
  as_heartbeat_interval_min :: u32
  as_heartbeat_interval_max :: u32
  as_dpd_enabled :: bool
  as_lock_file :: "byte list option"
  as_local_socket_file :: "byte list option"
  as_set_local_socket_umask :: bool
  as_local_socket_umask :: u32
  as_local_socket_gid :: u32
  as_local_socket_backlog :: int
  as_ipc_max_clients :: nat
  as_ipc_max_send_size :: nat
  as_ipc_max_receive_size :: nat
  as_keep_active_partition_tie_breaker :: tlv_keep_active_partition_tie_breaker
  as_dpd_interval_coefficient :: double

text \<open>\<open>(PRUint32)(dpd_interval_coefficient * heartbeat_interval)\<close>\<close>

definition as_dpd_interval :: "qnetd_advanced_settings \<Rightarrow> u32 \<Rightarrow> u32" where
  "as_dpd_interval as heartbeat_interval = dbl_times (as_dpd_interval_coefficient as) heartbeat_interval"

text \<open>The default coefficient 1.5: the product with a 32-bit number is exact as a \<open>double\<close>.\<close>

definition double_1_5 :: double where
  "double_1_5 = \<lparr>dbl_value = Finite 3 (- 1), dbl_times = (\<lambda>n. of_nat (unat n * 3 div 2))\<rparr>"

text \<open>The record after \<open>memset\<close>, with the defaults that cannot fail already stored.\<close>

definition qnetd_default_settings :: qnetd_advanced_settings where
  "qnetd_default_settings =
     \<lparr>as_listen_backlog = 10, as_max_client_send_buffers = 32, as_max_client_send_size = 2 ^ 15,
      as_max_client_receive_size = 2 ^ 15, as_nss_db_dir = None, as_cert_nickname = None,
      as_heartbeat_interval_min = 1000, as_heartbeat_interval_max = 120000, as_dpd_enabled = True,
      as_lock_file = None, as_local_socket_file = None, as_set_local_socket_umask = False,
      as_local_socket_umask = 0, as_local_socket_gid = - 1, as_local_socket_backlog = 10,
      as_ipc_max_clients = 10, as_ipc_max_send_size = 10 * 1024 * 1024, as_ipc_max_receive_size = 4 * 1024,
      as_keep_active_partition_tie_breaker = TLV_KEEP_ACTIVE_PARTITION_TIE_BREAKER_DISABLED,
      as_dpd_interval_coefficient = double_1_5\<rparr>"

text \<open>
  \<open>qnetd_advanced_settings_init\<close>. The caller ends the program when the result is not 0, so that the
  fields stored by then are not observed.
\<close>

definition qnetd_advanced_settings_init ::
    "allocator \<Rightarrow> build_config \<Rightarrow> int \<times> qnetd_advanced_settings" where
  "qnetd_advanced_settings_init al bc =
     (let s = qnetd_default_settings
                \<lparr>as_nss_db_dir := strdup al (str_bytes (bc_corosysconfdir bc @ ''/qnetd/nssdb'')),
                 as_cert_nickname := strdup al (str_bytes ''QNetd Cert''),
                 as_lock_file := strdup al (str_bytes (bc_localstatedir bc @ ''/run/corosync-qnetd/corosync-qnetd.pid'')),
                 as_local_socket_file := strdup al (str_bytes (bc_localstatedir bc @ ''/run/corosync-qnetd/corosync-qnetd.sock''))\<rparr>
      in (if as_nss_db_dir s = None \<or> as_cert_nickname s = None \<or> as_lock_file s = None \<or> as_local_socket_file s = None
          then -1 else 0, s))"

definition qnetd_advanced_settings_destroy :: "qnetd_advanced_settings \<Rightarrow> qnetd_advanced_settings" where
  "qnetd_advanced_settings_destroy settings =
     settings\<lparr>as_nss_db_dir := None, as_cert_nickname := None, as_lock_file := None, as_local_socket_file := None\<rparr>"

text \<open>The three kinds of branches that the setters share.\<close>

definition set_number :: "byte list \<Rightarrow> int \<Rightarrow> int \<Rightarrow> 's \<Rightarrow> (int \<Rightarrow> 's) \<Rightarrow> int \<times> 's" where
  "set_number val lo hi settings upd =
     (case utils_strtonum val lo hi of None \<Rightarrow> (-2, settings) | Some tmpll \<Rightarrow> (0, upd tmpll))"

definition set_bool :: "byte list \<Rightarrow> 's \<Rightarrow> (bool \<Rightarrow> 's) \<Rightarrow> int \<times> 's" where
  "set_bool val settings upd =
     (let tmpll = utils_parse_bool_str val in if tmpll = -1 then (-2, settings) else (0, upd (tmpll = 1)))"

definition set_string :: "allocator \<Rightarrow> byte list \<Rightarrow> (byte list option \<Rightarrow> 's) \<Rightarrow> int \<times> 's" where
  "set_string al val upd = (let v = strdup al val in (if v = None then -1 else 0, upd v))"

definition qnetd_advanced_settings_set ::
    "allocator \<Rightarrow> group_env \<Rightarrow> strtod_fun \<Rightarrow> qnetd_advanced_settings \<Rightarrow> byte list \<Rightarrow> byte list \<Rightarrow>
     int \<times> qnetd_advanced_settings" where
  "qnetd_advanced_settings_set al ge sd settings option val =
     (if strcasecmp_eq option ''listen_backlog'' then
        set_number val qnetd_min_listen_backlog int_max settings (\<lambda>n. settings\<lparr>as_listen_backlog := n\<rparr>)
      else if strcasecmp_eq option ''max_client_send_buffers'' then
        set_number val qnetd_min_client_send_buffers llong_max settings (\<lambda>n. settings\<lparr>as_max_client_send_buffers := nat n\<rparr>)
      else if strcasecmp_eq option ''max_client_send_size'' then
        set_number val qnetd_min_client_receive_send_size llong_max settings (\<lambda>n. settings\<lparr>as_max_client_send_size := nat n\<rparr>)
      else if strcasecmp_eq option ''max_client_receive_size'' then
        set_number val qnetd_min_client_receive_send_size llong_max settings (\<lambda>n. settings\<lparr>as_max_client_receive_size := nat n\<rparr>)
      else if strcasecmp_eq option ''nss_db_dir'' then
        set_string al val (\<lambda>v. settings\<lparr>as_nss_db_dir := v\<rparr>)
      else if strcasecmp_eq option ''cert_nickname'' then
        set_string al val (\<lambda>v. settings\<lparr>as_cert_nickname := v\<rparr>)
      else if strcasecmp_eq option ''heartbeat_interval_min'' then
        set_number val qnetd_min_heartbeat_interval uint32_max settings (\<lambda>n. settings\<lparr>as_heartbeat_interval_min := word_of_int n\<rparr>)
      else if strcasecmp_eq option ''heartbeat_interval_max'' then
        set_number val qnetd_min_heartbeat_interval uint32_max settings (\<lambda>n. settings\<lparr>as_heartbeat_interval_max := word_of_int n\<rparr>)
      else if strcasecmp_eq option ''dpd_enabled'' then
        set_bool val settings (\<lambda>b. settings\<lparr>as_dpd_enabled := b\<rparr>)
      else if strcasecmp_eq option ''dpd_interval'' then
        (-3, settings)
      else if strcasecmp_eq option ''dpd_interval_coefficient'' then
        (case utils_strtod sd val qnetd_min_dpd_interval_coefficient qnetd_max_dpd_interval_coefficient of
          None \<Rightarrow> (-2, settings) | Some d \<Rightarrow> (0, settings\<lparr>as_dpd_interval_coefficient := d\<rparr>))
      else if strcasecmp_eq option ''lock_file'' then
        set_string al val (\<lambda>v. settings\<lparr>as_lock_file := v\<rparr>)
      else if strcasecmp_eq option ''local_socket_file'' then
        set_string al val (\<lambda>v. settings\<lparr>as_local_socket_file := v\<rparr>)
      else if strcasecmp_eq option ''local_socket_umask'' then
        (case utils_parse_umask val of
          None \<Rightarrow> (-2, settings)
        | Some None \<Rightarrow> (0, settings\<lparr>as_set_local_socket_umask := False\<rparr>)
        | Some (Some m) \<Rightarrow> (0, settings\<lparr>as_set_local_socket_umask := True, as_local_socket_umask := m\<rparr>))
      else if strcasecmp_eq option ''local_socket_gid'' then
        (case utils_get_group_gid al ge val of
          None \<Rightarrow> (-2, settings) | Some gid \<Rightarrow> (0, settings\<lparr>as_local_socket_gid := gid\<rparr>))
      else if strcasecmp_eq option ''local_socket_backlog'' then
        set_number val qnetd_min_local_socket_backlog int_max settings (\<lambda>n. settings\<lparr>as_local_socket_backlog := n\<rparr>)
      else if strcasecmp_eq option ''ipc_max_clients'' then
        set_number val qnetd_min_ipc_max_clients llong_max settings (\<lambda>n. settings\<lparr>as_ipc_max_clients := nat n\<rparr>)
      else if strcasecmp_eq option ''ipc_max_receive_size'' then
        set_number val qnetd_min_ipc_receive_send_size llong_max settings (\<lambda>n. settings\<lparr>as_ipc_max_receive_size := nat n\<rparr>)
      else if strcasecmp_eq option ''ipc_max_send_size'' then
        set_number val qnetd_min_ipc_receive_send_size llong_max settings (\<lambda>n. settings\<lparr>as_ipc_max_send_size := nat n\<rparr>)
      else if strcasecmp_eq option ''keep_active_partition_tie_breaker'' then
        set_bool val settings (\<lambda>b. settings\<lparr>as_keep_active_partition_tie_breaker :=
          if b then TLV_KEEP_ACTIVE_PARTITION_TIE_BREAKER_ENABLED else TLV_KEEP_ACTIVE_PARTITION_TIE_BREAKER_DISABLED\<rparr>)
      else (-1, settings))"

section \<open>Settings of the client\<close>

datatype qdevice_advanced_settings_master_wins =
    QDEVICE_ADVANCED_SETTINGS_MASTER_WINS_MODEL
  | QDEVICE_ADVANCED_SETTINGS_MASTER_WINS_FORCE_ON
  | QDEVICE_ADVANCED_SETTINGS_MASTER_WINS_FORCE_OFF

record qdevice_advanced_settings =
  qs_lock_file :: "byte list option"
  qs_local_socket_file :: "byte list option"
  qs_set_local_socket_umask :: bool
  qs_local_socket_umask :: u32
  qs_local_socket_gid :: u32
  qs_local_socket_backlog :: int
  qs_max_cs_try_again :: int
  qs_votequorum_device_name :: "byte list option"
  qs_ipc_max_clients :: nat
  qs_ipc_max_send_size :: nat
  qs_ipc_max_receive_size :: nat
  qs_master_wins :: qdevice_advanced_settings_master_wins
  qs_heuristics_ipc_max_send_buffers :: nat
  qs_heuristics_ipc_max_send_receive_size :: nat
  qs_heuristics_min_timeout :: u32
  qs_heuristics_max_timeout :: u32
  qs_heuristics_min_interval :: u32
  qs_heuristics_max_interval :: u32
  qs_heuristics_max_execs :: nat
  qs_heuristics_use_execvp :: bool
  qs_heuristics_max_processes :: nat
  qs_heuristics_kill_list_interval :: u32
  qs_net_nss_db_dir :: "byte list option"
  qs_net_initial_msg_receive_size :: nat
  qs_net_initial_msg_send_size :: nat
  qs_net_min_msg_send_size :: nat
  qs_net_max_msg_receive_size :: nat
  qs_net_max_send_buffers :: nat
  qs_net_nss_qnetd_cn :: "byte list option"
  qs_net_nss_client_cert_nickname :: "byte list option"
  qs_net_heartbeat_interval_min :: u32
  qs_net_heartbeat_interval_max :: u32
  qs_net_min_connect_timeout :: u32
  qs_net_max_connect_timeout :: u32
  qs_net_test_algorithm_enabled :: bool

definition qdevice_default_settings :: qdevice_advanced_settings where
  "qdevice_default_settings =
     \<lparr>qs_lock_file = None, qs_local_socket_file = None, qs_set_local_socket_umask = False,
      qs_local_socket_umask = 0, qs_local_socket_gid = - 1, qs_local_socket_backlog = 10,
      qs_max_cs_try_again = 10, qs_votequorum_device_name = None, qs_ipc_max_clients = 10,
      qs_ipc_max_send_size = 64 * 1024, qs_ipc_max_receive_size = 4 * 1024,
      qs_master_wins = QDEVICE_ADVANCED_SETTINGS_MASTER_WINS_MODEL,
      qs_heuristics_ipc_max_send_buffers = 128, qs_heuristics_ipc_max_send_receive_size = 4 * 1024,
      qs_heuristics_min_timeout = 1000, qs_heuristics_max_timeout = 120000,
      qs_heuristics_min_interval = 1000, qs_heuristics_max_interval = 3600000,
      qs_heuristics_max_execs = 32, qs_heuristics_use_execvp = False,
      qs_heuristics_max_processes = 32 * 5, qs_heuristics_kill_list_interval = 5000,
      qs_net_nss_db_dir = None, qs_net_initial_msg_receive_size = 2 ^ 15,
      qs_net_initial_msg_send_size = 2 ^ 15, qs_net_min_msg_send_size = 2 ^ 15,
      qs_net_max_msg_receive_size = 2 ^ 24, qs_net_max_send_buffers = 10, qs_net_nss_qnetd_cn = None,
      qs_net_nss_client_cert_nickname = None, qs_net_heartbeat_interval_min = 1000,
      qs_net_heartbeat_interval_max = 120000, qs_net_min_connect_timeout = 1000,
      qs_net_max_connect_timeout = 120000, qs_net_test_algorithm_enabled = False\<rparr>"

definition qdevice_advanced_settings_init ::
    "allocator \<Rightarrow> build_config \<Rightarrow> int \<times> qdevice_advanced_settings" where
  "qdevice_advanced_settings_init al bc =
     (let s = qdevice_default_settings
                \<lparr>qs_lock_file := strdup al (str_bytes (bc_localstatedir bc @ ''/run/corosync-qdevice/corosync-qdevice.pid'')),
                 qs_local_socket_file := strdup al (str_bytes (bc_localstatedir bc @ ''/run/corosync-qdevice/corosync-qdevice.sock'')),
                 qs_votequorum_device_name := strdup al (str_bytes ''Qdevice''),
                 qs_net_nss_db_dir := strdup al (str_bytes (bc_corosysconfdir bc @ ''/qdevice/net/nssdb'')),
                 qs_net_nss_qnetd_cn := strdup al (str_bytes ''Qnetd Server''),
                 qs_net_nss_client_cert_nickname := strdup al (str_bytes ''Cluster Cert''),
                 qs_net_test_algorithm_enabled := bc_debug bc\<rparr>
      in (if qs_lock_file s = None \<or> qs_local_socket_file s = None \<or> qs_votequorum_device_name s = None \<or>
             qs_net_nss_db_dir s = None \<or> qs_net_nss_qnetd_cn s = None \<or> qs_net_nss_client_cert_nickname s = None
          then -1 else 0, s))"

definition qdevice_advanced_settings_destroy :: "qdevice_advanced_settings \<Rightarrow> qdevice_advanced_settings" where
  "qdevice_advanced_settings_destroy settings =
     settings\<lparr>qs_local_socket_file := None, qs_lock_file := None, qs_votequorum_device_name := None,
       qs_net_nss_db_dir := None, qs_net_nss_qnetd_cn := None, qs_net_nss_client_cert_nickname := None\<rparr>"

definition qdevice_advanced_settings_set ::
    "allocator \<Rightarrow> group_env \<Rightarrow> qdevice_advanced_settings \<Rightarrow> byte list \<Rightarrow> byte list \<Rightarrow> int \<times> qdevice_advanced_settings" where
  "qdevice_advanced_settings_set al ge settings option val =
     (if strcasecmp_eq option ''lock_file'' then
        set_string al val (\<lambda>v. settings\<lparr>qs_lock_file := v\<rparr>)
      else if strcasecmp_eq option ''local_socket_file'' then
        set_string al val (\<lambda>v. settings\<lparr>qs_local_socket_file := v\<rparr>)
      else if strcasecmp_eq option ''local_socket_umask'' then
        (case utils_parse_umask val of
          None \<Rightarrow> (-2, settings)
        | Some None \<Rightarrow> (0, settings\<lparr>qs_set_local_socket_umask := False\<rparr>)
        | Some (Some m) \<Rightarrow> (0, settings\<lparr>qs_set_local_socket_umask := True, qs_local_socket_umask := m\<rparr>))
      else if strcasecmp_eq option ''local_socket_gid'' then
        (case utils_get_group_gid al ge val of
          None \<Rightarrow> (-2, settings) | Some gid \<Rightarrow> (0, settings\<lparr>qs_local_socket_gid := gid\<rparr>))
      else if strcasecmp_eq option ''local_socket_backlog'' then
        set_number val qdevice_min_local_socket_backlog int_max settings (\<lambda>n. settings\<lparr>qs_local_socket_backlog := n\<rparr>)
      else if strcasecmp_eq option ''max_cs_try_again'' then
        set_number val qdevice_min_max_cs_try_again int_max settings (\<lambda>n. settings\<lparr>qs_max_cs_try_again := n\<rparr>)
      else if strcasecmp_eq option ''votequorum_device_name'' then
        set_string al val (\<lambda>v. settings\<lparr>qs_votequorum_device_name := v\<rparr>)
      else if strcasecmp_eq option ''ipc_max_clients'' then
        set_number val qdevice_min_ipc_max_clients llong_max settings (\<lambda>n. settings\<lparr>qs_ipc_max_clients := nat n\<rparr>)
      else if strcasecmp_eq option ''ipc_max_receive_size'' then
        set_number val qdevice_min_ipc_receive_send_size llong_max settings (\<lambda>n. settings\<lparr>qs_ipc_max_receive_size := nat n\<rparr>)
      else if strcasecmp_eq option ''ipc_max_send_size'' then
        set_number val qdevice_min_ipc_receive_send_size llong_max settings (\<lambda>n. settings\<lparr>qs_ipc_max_send_size := nat n\<rparr>)
      else if strcasecmp_eq option ''heuristics_ipc_max_send_buffers'' then
        set_number val qdevice_min_heuristics_ipc_max_send_buffers llong_max settings (\<lambda>n. settings\<lparr>qs_heuristics_ipc_max_send_buffers := nat n\<rparr>)
      else if strcasecmp_eq option ''heuristics_ipc_max_send_receive_size'' then
        set_number val qdevice_min_heuristics_ipc_max_send_receive_size llong_max settings (\<lambda>n. settings\<lparr>qs_heuristics_ipc_max_send_receive_size := nat n\<rparr>)
      else if strcasecmp_eq option ''heuristics_min_timeout'' then
        set_number val qdevice_min_heuristics_timeout uint32_max settings (\<lambda>n. settings\<lparr>qs_heuristics_min_timeout := word_of_int n\<rparr>)
      else if strcasecmp_eq option ''heuristics_max_timeout'' then
        set_number val qdevice_min_heuristics_timeout uint32_max settings (\<lambda>n. settings\<lparr>qs_heuristics_max_timeout := word_of_int n\<rparr>)
      else if strcasecmp_eq option ''heuristics_min_interval'' then
        set_number val qdevice_min_heuristics_interval uint32_max settings (\<lambda>n. settings\<lparr>qs_heuristics_min_interval := word_of_int n\<rparr>)
      else if strcasecmp_eq option ''heuristics_max_interval'' then
        set_number val qdevice_min_heuristics_interval uint32_max settings (\<lambda>n. settings\<lparr>qs_heuristics_max_interval := word_of_int n\<rparr>)
      else if strcasecmp_eq option ''heuristics_max_execs'' then
        set_number val qdevice_min_heuristics_max_execs llong_max settings (\<lambda>n. settings\<lparr>qs_heuristics_max_execs := nat n\<rparr>)
      else if strcasecmp_eq option ''heuristics_use_execvp'' then
        set_bool val settings (\<lambda>b. settings\<lparr>qs_heuristics_use_execvp := b\<rparr>)
      else if strcasecmp_eq option ''heuristics_max_processes'' then
        set_number val qdevice_min_heuristics_max_processes llong_max settings (\<lambda>n. settings\<lparr>qs_heuristics_max_processes := nat n\<rparr>)
      else if strcasecmp_eq option ''heuristics_kill_list_interval'' then
        set_number val qdevice_min_heuristics_kill_list_interval uint32_max settings (\<lambda>n. settings\<lparr>qs_heuristics_kill_list_interval := word_of_int n\<rparr>)
      else if strcasecmp_eq option ''net_nss_db_dir'' then
        set_string al val (\<lambda>v. settings\<lparr>qs_net_nss_db_dir := v\<rparr>)
      else if strcasecmp_eq option ''net_initial_msg_receive_size'' then
        set_number val qdevice_net_min_msg_receive_send_size llong_max settings (\<lambda>n. settings\<lparr>qs_net_initial_msg_receive_size := nat n\<rparr>)
      else if strcasecmp_eq option ''net_initial_msg_send_size'' then
        set_number val qdevice_net_min_msg_receive_send_size llong_max settings (\<lambda>n. settings\<lparr>qs_net_initial_msg_send_size := nat n\<rparr>)
      else if strcasecmp_eq option ''net_min_msg_send_size'' then
        set_number val qdevice_net_min_msg_receive_send_size llong_max settings (\<lambda>n. settings\<lparr>qs_net_min_msg_send_size := nat n\<rparr>)
      else if strcasecmp_eq option ''net_max_msg_receive_size'' then
        set_number val qdevice_net_min_msg_receive_send_size llong_max settings (\<lambda>n. settings\<lparr>qs_net_max_msg_receive_size := nat n\<rparr>)
      else if strcasecmp_eq option ''net_max_send_buffers'' then
        set_number val qdevice_net_min_max_send_buffers llong_max settings (\<lambda>n. settings\<lparr>qs_net_max_send_buffers := nat n\<rparr>)
      else if strcasecmp_eq option ''net_nss_qnetd_cn'' then
        set_string al val (\<lambda>v. settings\<lparr>qs_net_nss_qnetd_cn := v\<rparr>)
      else if strcasecmp_eq option ''net_nss_client_cert_nickname'' then
        set_string al val (\<lambda>v. settings\<lparr>qs_net_nss_client_cert_nickname := v\<rparr>)
      else if strcasecmp_eq option ''net_heartbeat_interval_min'' then
        set_number val qdevice_net_min_heartbeat_interval uint32_max settings (\<lambda>n. settings\<lparr>qs_net_heartbeat_interval_min := word_of_int n\<rparr>)
      else if strcasecmp_eq option ''net_heartbeat_interval_max'' then
        set_number val qdevice_net_min_heartbeat_interval uint32_max settings (\<lambda>n. settings\<lparr>qs_net_heartbeat_interval_max := word_of_int n\<rparr>)
      else if strcasecmp_eq option ''net_min_connect_timeout'' then
        set_number val qdevice_net_min_connect_timeout uint32_max settings (\<lambda>n. settings\<lparr>qs_net_min_connect_timeout := word_of_int n\<rparr>)
      else if strcasecmp_eq option ''net_max_connect_timeout'' then
        set_number val qdevice_net_min_connect_timeout uint32_max settings (\<lambda>n. settings\<lparr>qs_net_max_connect_timeout := word_of_int n\<rparr>)
      else if strcasecmp_eq option ''net_test_algorithm_enabled'' then
        set_bool val settings (\<lambda>b. settings\<lparr>qs_net_test_algorithm_enabled := b\<rparr>)
      else if strcasecmp_eq option ''master_wins'' then
        (let tmpll = utils_parse_bool_str val
         in if tmpll = 0 then (0, settings\<lparr>qs_master_wins := QDEVICE_ADVANCED_SETTINGS_MASTER_WINS_FORCE_OFF\<rparr>)
            else if tmpll = 1 then (0, settings\<lparr>qs_master_wins := QDEVICE_ADVANCED_SETTINGS_MASTER_WINS_FORCE_ON\<rparr>)
            else if strcasecmp_eq val ''model'' then (0, settings\<lparr>qs_master_wins := QDEVICE_ADVANCED_SETTINGS_MASTER_WINS_MODEL\<rparr>)
            else (-2, settings))
      else (-1, settings))"

end
