(* ===== verification/Qnetd_State.thy ===== *)
theory Qnetd_State
  imports Msg_Decode Send_Buffer_List Timer_List Settings
begin

text \<open>
  The state of the daemon \<open>corosync-qnetd\<close>: connected clients (\<open>qnetd-client.c\<close>,
  \<open>qnetd-client-list.c\<close>), clusters (\<open>qnetd-cluster.c\<close>, \<open>qnetd-cluster-list.c\<close>) and the instance
  that holds both. Clients and clusters point to each other, so they live in a store: a reference
  stands for the address of the structure, and a list of references for a tail queue. The private
  data of a decision algorithm is a value that carries its type; using it at another type, or
  after it was freed, is a fault.
\<close>

section \<open>Private data of the algorithms\<close>

datatype qnetd_algo_ffsplit_cluster_state =
    FFSPLIT_CLUSTER_WAITING_FOR_CHANGE
  | FFSPLIT_CLUSTER_WAITING_FOR_STABLE_MEMBERSHIP
  | FFSPLIT_CLUSTER_SENDING_NACKS
  | FFSPLIT_CLUSTER_SENDING_ACKS

record qnetd_algo_ffsplit_cluster_data =
  ffc_cluster_state :: qnetd_algo_ffsplit_cluster_state
  ffc_quorate_partition_node_list :: node_list

datatype qnetd_algo_ffsplit_client_state =
    FFSPLIT_CLIENT_WAITING_FOR_CHANGE
  | FFSPLIT_CLIENT_SENDING_NACK
  | FFSPLIT_CLIENT_SENDING_ACK

record qnetd_algo_ffsplit_client_data =
  ff_client_state :: qnetd_algo_ffsplit_client_state
  ff_vote_info_expected_seq_num :: u32

text \<open>\<open>malloc\<close> leaves \<open>num_config_nodes\<close> of the two-node algorithm unset: \<open>None\<close>.\<close>

record qnetd_algo_2nodelms_info =
  l2_num_config_nodes :: "nat option"
  l2_last_result :: tlv_vote

record qnetd_algo_partition =
  part_ring_id :: tlv_ring_id
  part_num_nodes :: int
  part_score :: int

record qnetd_algo_lms_info =
  lms_num_config_nodes :: nat
  lms_last_result :: tlv_vote
  lms_partition_list :: "qnetd_algo_partition list"

datatype client_algo_data =
    No_Client_Data
  | Test_Client_Data int
  | Ffsplit_Client_Data qnetd_algo_ffsplit_client_data
  | Lms2_Client_Data qnetd_algo_2nodelms_info
  | Lms_Client_Data qnetd_algo_lms_info
  | Freed_Client_Data

datatype cluster_algo_data =
    No_Cluster_Data
  | Test_Cluster_Data int
  | Ffsplit_Cluster_Data qnetd_algo_ffsplit_cluster_data
  | Freed_Cluster_Data

section \<open>Clients, clusters, the instance\<close>

type_synonym client_ref = nat
type_synonym cluster_ref = nat

record qnetd_client =
  cl_receive_buffer :: dynar
  cl_send_buffer_list :: send_buffer_list
  cl_msg_already_received_bytes :: nat
  cl_skipping_msg :: bool
  cl_tls_started :: bool
  cl_tls_peer_certificate_verified :: bool
  cl_preinit_received :: bool
  cl_init_received :: bool
  cl_cluster_name :: "byte list option"
  cl_node_id_set :: bool
  cl_node_id :: u32
  cl_decision_algorithm :: tlv_decision_algorithm_type
  cl_tie_breaker :: tlv_tie_breaker
  cl_heartbeat_interval :: u32
  cl_skipping_msg_reason :: tlv_reply_error_code
  cl_algorithm_data :: client_algo_data
  cl_configuration_node_list :: node_list
  cl_config_version_set :: bool
  cl_config_version :: u64
  cl_last_membership_node_list :: node_list
  cl_last_quorum_node_list :: node_list
  cl_last_ring_id :: tlv_ring_id
  cl_cluster :: "cluster_ref option"
  cl_algo_timer :: "u32 option"
  cl_algo_timer_vote_info_msq_seq_number :: u32
  cl_schedule_disconnect :: bool
  cl_dpd_timer :: "u32 option"
  cl_last_sent_vote :: tlv_vote
  cl_last_sent_ack_nack_vote :: tlv_vote
  cl_last_membership_heuristics :: tlv_heuristics
  cl_last_regular_heuristics :: tlv_heuristics
  cl_last_heuristics :: tlv_heuristics
  cl_keep_active_partition_tie_breaker :: tlv_keep_active_partition_tie_breaker

record qnetd_cluster =
  cs_cluster_name :: "byte list"
  cs_algorithm_data :: cluster_algo_data
  cs_client_list :: "client_ref list"

record qnetd_instance =
  qi_client :: "client_ref \<Rightarrow> qnetd_client"
  qi_clients :: "client_ref list"
  qi_cluster :: "cluster_ref \<Rightarrow> qnetd_cluster"
  qi_clusters :: "cluster_ref list"
  qi_max_clients :: nat
  qi_tls_supported :: tlv_tls_supported
  qi_tls_client_cert_required :: bool
  qi_advanced_settings :: qnetd_advanced_settings

definition upd_client :: "client_ref \<Rightarrow> (qnetd_client \<Rightarrow> qnetd_client) \<Rightarrow> qnetd_instance \<Rightarrow> qnetd_instance" where
  "upd_client c f qi = qi\<lparr>qi_client := (qi_client qi)(c := f (qi_client qi c))\<rparr>"

definition upd_cluster :: "cluster_ref \<Rightarrow> (qnetd_cluster \<Rightarrow> qnetd_cluster) \<Rightarrow> qnetd_instance \<Rightarrow> qnetd_instance" where
  "upd_cluster k f qi = qi\<lparr>qi_cluster := (qi_cluster qi)(k := f (qi_cluster qi k))\<rparr>"

text \<open>An operation on one client that returns a C result, applied to the client in the store.\<close>

definition on_client ::
    "client_ref \<Rightarrow> (qnetd_client \<Rightarrow> 'r \<times> qnetd_client) \<Rightarrow> qnetd_instance \<Rightarrow> 'r \<times> qnetd_instance" where
  "on_client c f qi =
     (case f (qi_client qi c) of (r, cl) \<Rightarrow> (r, qi\<lparr>qi_client := (qi_client qi)(c := cl)\<rparr>))"

section \<open>Clients\<close>

definition qnetd_default_heartbeat_interval_max :: u32 where
  "qnetd_default_heartbeat_interval_max = 2 * 60 * 1000"

definition qnetd_client_init :: "nat \<Rightarrow> nat \<Rightarrow> nat \<Rightarrow> qnetd_client" where
  "qnetd_client_init max_receive_size max_send_buffers max_send_size =
     \<lparr>cl_receive_buffer = dynar_init max_receive_size,
      cl_send_buffer_list = send_buffer_list_init max_send_buffers max_send_size,
      cl_msg_already_received_bytes = 0, cl_skipping_msg = False, cl_tls_started = False,
      cl_tls_peer_certificate_verified = False, cl_preinit_received = False,
      cl_init_received = False, cl_cluster_name = None, cl_node_id_set = False, cl_node_id = 0,
      cl_decision_algorithm = TLV_DECISION_ALGORITHM_TYPE_TEST,
      cl_tie_breaker = \<lparr>tb_mode = TLV_TIE_BREAKER_MODE_OTHER 0, tb_node_id = 0\<rparr>,
      cl_heartbeat_interval = qnetd_default_heartbeat_interval_max,
      cl_skipping_msg_reason = TLV_REPLY_ERROR_CODE_NO_ERROR,
      cl_algorithm_data = No_Client_Data, cl_configuration_node_list = node_list_init,
      cl_config_version_set = False, cl_config_version = 0,
      cl_last_membership_node_list = node_list_init, cl_last_quorum_node_list = node_list_init,
      cl_last_ring_id = \<lparr>rid_node_id = 0, rid_seq = 0\<rparr>, cl_cluster = None, cl_algo_timer = None,
      cl_algo_timer_vote_info_msq_seq_number = 0, cl_schedule_disconnect = False,
      cl_dpd_timer = None, cl_last_sent_vote = TLV_VOTE_UNDEFINED,
      cl_last_sent_ack_nack_vote = TLV_VOTE_UNDEFINED,
      cl_last_membership_heuristics = TLV_HEURISTICS_UNDEFINED,
      cl_last_regular_heuristics = TLV_HEURISTICS_UNDEFINED,
      cl_last_heuristics = TLV_HEURISTICS_UNDEFINED,
      cl_keep_active_partition_tie_breaker = TLV_KEEP_ACTIVE_PARTITION_TIE_BREAKER_DISABLED\<rparr>"

definition qnetd_client_destroy :: "qnetd_client \<Rightarrow> qnetd_client" where
  "qnetd_client_destroy client =
     client\<lparr>cl_cluster_name := None,
            cl_last_quorum_node_list := node_list_free (cl_last_quorum_node_list client),
            cl_last_membership_node_list := node_list_free (cl_last_membership_node_list client),
            cl_configuration_node_list := node_list_free (cl_configuration_node_list client),
            cl_send_buffer_list := send_buffer_list_free (cl_send_buffer_list client),
            cl_receive_buffer := dynar_destroy (cl_receive_buffer client)\<rparr>"

definition qnetd_client_list_add ::
    "allocator \<Rightarrow> qnetd_instance \<Rightarrow> nat \<Rightarrow> nat \<Rightarrow> nat \<Rightarrow> client_ref option \<times> qnetd_instance" where
  "qnetd_client_list_add al qi max_receive_size max_send_buffers max_send_size =
     (if \<not> al Malloc_Client then (None, qi)
      else let c = fresh_ref (qi_clients qi)
           in (Some c,
               qi\<lparr>qi_client := (qi_client qi)
                    (c := qnetd_client_init max_receive_size max_send_buffers max_send_size),
                  qi_clients := qi_clients qi @ [c]\<rparr>))"

definition qnetd_client_list_del :: "qnetd_instance \<Rightarrow> client_ref \<Rightarrow> qnetd_instance" where
  "qnetd_client_list_del qi c =
     upd_client c qnetd_client_destroy
       (qi\<lparr>qi_clients := remove_first (\<lambda>x. x = c) (qi_clients qi)\<rparr>)"

definition qnetd_client_list_no_clients :: "qnetd_instance \<Rightarrow> nat" where
  "qnetd_client_list_no_clients qi = length (qi_clients qi)"

section \<open>Clusters\<close>

definition qnetd_cluster_init :: "allocator \<Rightarrow> byte list \<Rightarrow> qnetd_cluster option" where
  "qnetd_cluster_init al cluster_name =
     (if \<not> al (Malloc_Bytes (length cluster_name + 1)) then None
      else Some \<lparr>cs_cluster_name = cluster_name, cs_algorithm_data = No_Cluster_Data,
                 cs_client_list = []\<rparr>)"

definition qnetd_cluster_size :: "qnetd_instance \<Rightarrow> cluster_ref \<Rightarrow> nat" where
  "qnetd_cluster_size qi k = length (cs_client_list (qi_cluster qi k))"

definition qnetd_cluster_find_client_by_node_id ::
    "qnetd_instance \<Rightarrow> cluster_ref \<Rightarrow> u32 \<Rightarrow> client_ref option" where
  "qnetd_cluster_find_client_by_node_id qi k node_id =
     find (\<lambda>c. cl_node_id (qi_client qi c) = node_id) (cs_client_list (qi_cluster qi k))"

definition qnetd_cluster_list_find_by_name :: "qnetd_instance \<Rightarrow> byte list \<Rightarrow> cluster_ref option" where
  "qnetd_cluster_list_find_by_name qi cluster_name =
     find (\<lambda>k. length (cs_cluster_name (qi_cluster qi k)) = length cluster_name \<and>
               cs_cluster_name (qi_cluster qi k) = cluster_name) (qi_clusters qi)"

definition client_node_id_cmp :: "qnetd_client \<Rightarrow> qnetd_client \<Rightarrow> int" where
  "client_node_id_cmp entry1 entry2 =
     (if cl_node_id entry1 > cl_node_id entry2 then 1
      else if cl_node_id entry1 < cl_node_id entry2 then -1 else 0)"

fun client_insert_sorted ::
    "(client_ref \<Rightarrow> qnetd_client) \<Rightarrow> client_ref \<Rightarrow> client_ref list \<Rightarrow> client_ref list" where
  "client_insert_sorted store c [] = [c]"
| "client_insert_sorted store c (e # es) =
     (if client_node_id_cmp (store e) (store c) > 0 then c # e # es
      else e # client_insert_sorted store c es)"

definition cluster_add_member :: "client_ref \<Rightarrow> cluster_ref \<Rightarrow> qnetd_instance \<Rightarrow> qnetd_instance" where
  "cluster_add_member c k qi =
     upd_cluster k (\<lambda>cs. cs\<lparr>cs_client_list :=
       client_insert_sorted (qi_client qi) c (cs_client_list cs)\<rparr>) qi"

text \<open>
  The name is the client's \<open>cluster_name\<close>, which the caller has checked not to be \<open>NULL\<close>.
\<close>

definition qnetd_cluster_list_add_client ::
    "allocator \<Rightarrow> client_ref \<Rightarrow> byte list \<Rightarrow> qnetd_instance \<Rightarrow> cluster_ref option \<times> qnetd_instance" where
  "qnetd_cluster_list_add_client al c cluster_name qi =
     (case qnetd_cluster_list_find_by_name qi cluster_name of
        Some k \<Rightarrow> (Some k, cluster_add_member c k qi)
      | None \<Rightarrow>
          if \<not> al Malloc_Cluster then (None, qi)
          else (case qnetd_cluster_init al cluster_name of
                  None \<Rightarrow> (None, qi)
                | Some cluster \<Rightarrow>
                    let k = fresh_ref (qi_clusters qi)
                    in (Some k, cluster_add_member c k
                          (qi\<lparr>qi_cluster := (qi_cluster qi)(k := cluster),
                              qi_clusters := qi_clusters qi @ [k]\<rparr>))))"

definition qnetd_cluster_list_del_client ::
    "qnetd_instance \<Rightarrow> cluster_ref \<Rightarrow> client_ref \<Rightarrow> qnetd_instance" where
  "qnetd_cluster_list_del_client qi k c =
     (let qi1 = upd_cluster k (\<lambda>cs. cs\<lparr>cs_client_list :=
                  remove_first (\<lambda>x. x = c) (cs_client_list cs)\<rparr>) qi
      in if cs_client_list (qi_cluster qi1 k) = []
         then qi1\<lparr>qi_clusters := remove_first (\<lambda>x. x = k) (qi_clusters qi1)\<rparr>
         else qi1)"

definition qnetd_cluster_list_size :: "qnetd_instance \<Rightarrow> nat" where
  "qnetd_cluster_list_size qi = length (qi_clusters qi)"

section \<open>Sending\<close>

text \<open>
  The three steps that every sender of the daemon takes: get an entry, create the message in its
  buffer, and put it in the queue, or discard it when the message could not be created.
\<close>

definition send_msg ::
    "allocator \<Rightarrow> (dynar \<Rightarrow> nat \<times> dynar) \<Rightarrow> qnetd_client \<Rightarrow> int \<times> qnetd_client" where
  "send_msg al create client =
     (case send_buffer_list_get_new al (cl_send_buffer_list client) of
        (None, sbl) \<Rightarrow> (-1, client\<lparr>cl_send_buffer_list := sbl\<rparr>)
      | (Some entry, sbl) \<Rightarrow>
          (case create (sb_buffer entry) of
             (n, buf) \<Rightarrow>
               let entry' = entry\<lparr>sb_buffer := buf\<rparr>
               in if n = 0
                  then (-1, client\<lparr>cl_send_buffer_list := send_buffer_list_discard_new sbl entry'\<rparr>)
                  else (0, client\<lparr>cl_send_buffer_list := send_buffer_list_put sbl entry'\<rparr>)))"

definition qnetd_client_send_err ::
    "allocator \<Rightarrow> bool \<Rightarrow> u32 \<Rightarrow> tlv_reply_error_code \<Rightarrow> qnetd_client \<Rightarrow> int \<times> qnetd_client" where
  "qnetd_client_send_err al add_msg_seq_number msg_seq_number reply =
     send_msg al (\<lambda>buf. msg_create_server_error al buf add_msg_seq_number msg_seq_number reply)"

text \<open>The code stores the vote in two places before it is sent, here and in the reply handlers.\<close>

definition store_vote :: "tlv_vote \<Rightarrow> qnetd_client \<Rightarrow> qnetd_client" where
  "store_vote vote client =
     (let client' = client\<lparr>cl_last_sent_vote := vote\<rparr>
      in if vote = TLV_VOTE_ACK \<or> vote = TLV_VOTE_NACK
         then client'\<lparr>cl_last_sent_ack_nack_vote := vote\<rparr> else client')"

definition qnetd_client_send_vote_info ::
    "allocator \<Rightarrow> u32 \<Rightarrow> tlv_ring_id \<Rightarrow> tlv_vote \<Rightarrow> qnetd_client \<Rightarrow> int \<times> qnetd_client" where
  "qnetd_client_send_vote_info al msg_seq_number ring_id vote client =
     send_msg al (\<lambda>buf. msg_create_vote_info al buf msg_seq_number ring_id vote)
       (store_vote vote client)"

section \<open>Timers of a client\<close>

definition qnetd_client_algo_timer_is_scheduled :: "qnetd_client \<Rightarrow> bool" where
  "qnetd_client_algo_timer_is_scheduled client \<longleftrightarrow> cl_algo_timer client \<noteq> None"

definition qnetd_client_algo_timer_abort :: "qnetd_client \<Rightarrow> int \<times> qnetd_client" where
  "qnetd_client_algo_timer_abort client =
     (0, if qnetd_client_algo_timer_is_scheduled client
         then client\<lparr>cl_algo_timer := None\<rparr> else client)"

definition qnetd_client_algo_timer_schedule_timeout ::
    "allocator \<Rightarrow> u32 \<Rightarrow> qnetd_client \<Rightarrow> int \<times> qnetd_client" where
  "qnetd_client_algo_timer_schedule_timeout al timeout client =
     (let client1 = snd (qnetd_client_algo_timer_abort client);
          client2 = client1\<lparr>cl_algo_timer := timer_start al timeout\<rparr>
      in (if cl_algo_timer client2 = None then -1 else 0, client2))"

definition qnetd_client_algo_timer_schedule :: "allocator \<Rightarrow> qnetd_client \<Rightarrow> int \<times> qnetd_client" where
  "qnetd_client_algo_timer_schedule al client =
     qnetd_client_algo_timer_schedule_timeout al (cl_heartbeat_interval client div 4) client"

definition qnetd_dpd_timer_cb :: "qnetd_client \<Rightarrow> fault + (int \<times> qnetd_client)" where
  "qnetd_dpd_timer_cb client =
     (if cl_dpd_timer client = None then Inl Assert_Failure
      else Inr (0, client\<lparr>cl_schedule_disconnect := True, cl_dpd_timer := None\<rparr>))"

definition qnetd_client_dpd_timer_init ::
    "allocator \<Rightarrow> qnetd_advanced_settings \<Rightarrow> qnetd_client \<Rightarrow> int \<times> qnetd_client" where
  "qnetd_client_dpd_timer_init al as client =
     (if \<not> as_dpd_enabled as then (0, client)
      else let client' = client\<lparr>cl_dpd_timer :=
                 timer_start al (as_dpd_interval as (cl_heartbeat_interval client))\<rparr>
           in (if cl_dpd_timer client' = None then -1 else 0, client'))"

definition qnetd_client_dpd_timer_destroy :: "qnetd_client \<Rightarrow> qnetd_client" where
  "qnetd_client_dpd_timer_destroy client =
     (if cl_dpd_timer client \<noteq> None then client\<lparr>cl_dpd_timer := None\<rparr> else client)"

definition qnetd_client_dpd_timer_update_interval ::
    "qnetd_advanced_settings \<Rightarrow> qnetd_client \<Rightarrow> int \<times> qnetd_client" where
  "qnetd_client_dpd_timer_update_interval as client =
     (if cl_dpd_timer client = None then (0, client)
      else let interval = as_dpd_interval as (cl_heartbeat_interval client)
           in if interval < 1 \<or> interval > timer_list_max_interval then (-1, client)
              else (0, client\<lparr>cl_dpd_timer := Some interval\<rparr>))"

section \<open>The instance\<close>

text \<open>\<open>qnetd_instance_init\<close>; no client and no cluster exists yet, so any store will do.\<close>

definition qnetd_instance_init ::
    "tlv_tls_supported \<Rightarrow> bool \<Rightarrow> nat \<Rightarrow> qnetd_advanced_settings \<Rightarrow> qnetd_instance" where
  "qnetd_instance_init tls_supported tls_client_cert_required max_clients as =
     \<lparr>qi_client = (\<lambda>c. qnetd_client_init 0 0 0), qi_clients = [],
      qi_cluster = (\<lambda>k. \<lparr>cs_cluster_name = [], cs_algorithm_data = No_Cluster_Data,
                         cs_client_list = []\<rparr>),
      qi_clusters = [], qi_max_clients = max_clients, qi_tls_supported = tls_supported,
      qi_tls_client_cert_required = tls_client_cert_required, qi_advanced_settings = as\<rparr>"

end
