(* ===== verification/Qnetd_Clusters.thy ===== *)
theory Qnetd_Clusters
  imports Qnetd_State
begin

text \<open>
  The invariant of the cluster list: clients and clusters point to each other consistently, names
  of clusters are unique, no cluster is empty, and the clients of a cluster are sorted by node id
  without duplicates. Then the frame of the decision algorithms: which parts of the state they may
  change, as an equivalence relation that every algorithm operation is shown to respect.
\<close>

section \<open>The invariant\<close>

abbreviation members :: "qnetd_instance \<Rightarrow> cluster_ref \<Rightarrow> client_ref list" where
  "members qi k \<equiv> cs_client_list (qi_cluster qi k)"

abbreviation node_of :: "qnetd_instance \<Rightarrow> client_ref \<Rightarrow> u32" where
  "node_of qi c \<equiv> cl_node_id (qi_client qi c)"

definition cluster_list_wf :: "qnetd_instance \<Rightarrow> bool" where
  "cluster_list_wf qi \<longleftrightarrow>
     distinct (qi_clients qi) \<and> distinct (qi_clusters qi) \<and>
     distinct (map (\<lambda>k. cs_cluster_name (qi_cluster qi k)) (qi_clusters qi)) \<and>
     (\<forall>k\<in>set (qi_clusters qi). members qi k \<noteq> [] \<and>
        sorted_wrt (<) (map (node_of qi) (members qi k)) \<and>
        (\<forall>c\<in>set (members qi k). c \<in> set (qi_clients qi) \<and> cl_cluster (qi_client qi c) = Some k)) \<and>
     (\<forall>c\<in>set (qi_clients qi). \<forall>k. cl_cluster (qi_client qi c) = Some k \<longrightarrow>
        k \<in> set (qi_clusters qi) \<and> c \<in> set (members qi k))"

lemma cluster_list_wfD:
  assumes "cluster_list_wf qi"
  shows "distinct (qi_clients qi)" and "distinct (qi_clusters qi)"
    and "inj_on (\<lambda>k. cs_cluster_name (qi_cluster qi k)) (set (qi_clusters qi))"
    and "\<And>k. k \<in> set (qi_clusters qi) \<Longrightarrow> members qi k \<noteq> []"
    and "\<And>k. k \<in> set (qi_clusters qi) \<Longrightarrow> sorted_wrt (<) (map (node_of qi) (members qi k))"
    and "\<And>k c. k \<in> set (qi_clusters qi) \<Longrightarrow> c \<in> set (members qi k) \<Longrightarrow>
      c \<in> set (qi_clients qi) \<and> cl_cluster (qi_client qi c) = Some k"
    and "\<And>k c. c \<in> set (qi_clients qi) \<Longrightarrow> cl_cluster (qi_client qi c) = Some k \<Longrightarrow>
      k \<in> set (qi_clusters qi) \<and> c \<in> set (members qi k)"
  using assms unfolding cluster_list_wf_def distinct_map by blast+

lemma cluster_list_wfI:
  assumes "distinct (qi_clients qi)" and "distinct (qi_clusters qi)"
    and "inj_on (\<lambda>k. cs_cluster_name (qi_cluster qi k)) (set (qi_clusters qi))"
    and "\<And>k. k \<in> set (qi_clusters qi) \<Longrightarrow> members qi k \<noteq> []"
    and "\<And>k. k \<in> set (qi_clusters qi) \<Longrightarrow> sorted_wrt (<) (map (node_of qi) (members qi k))"
    and "\<And>k c. k \<in> set (qi_clusters qi) \<Longrightarrow> c \<in> set (members qi k) \<Longrightarrow>
      c \<in> set (qi_clients qi) \<and> cl_cluster (qi_client qi c) = Some k"
    and "\<And>k c. c \<in> set (qi_clients qi) \<Longrightarrow> cl_cluster (qi_client qi c) = Some k \<Longrightarrow>
      k \<in> set (qi_clusters qi) \<and> c \<in> set (members qi k)"
  shows "cluster_list_wf qi"
  using assms unfolding cluster_list_wf_def distinct_map by blast

lemma sorted_wrt_map_distinct: "sorted_wrt (<) (map f xs) \<Longrightarrow> distinct (xs :: 'a list)"
  for f :: "'a \<Rightarrow> 'b::linorder"
  by (induction xs) auto

lemma client_insert_sorted_set: "set (client_insert_sorted store c cs) = insert c (set cs)"
  by (induction cs) auto

lemma client_insert_sorted_neq_Nil: "client_insert_sorted store c cs \<noteq> []"
  by (cases cs) auto

lemma client_insert_sorted_sorted:
  assumes "sorted_wrt (<) (map (\<lambda>x. cl_node_id (store x)) cs)"
    and "\<forall>x\<in>set cs. cl_node_id (store x) \<noteq> cl_node_id (store c)"
  shows "sorted_wrt (<) (map (\<lambda>x. cl_node_id (store x)) (client_insert_sorted store c cs))"
  using assms
proof (induction cs)
  case (Cons e es)
  show ?case
  proof (cases "cl_node_id (store e) > cl_node_id (store c)")
    case True
    with Cons.prems show ?thesis by (auto simp: client_node_id_cmp_def)
  next
    case False
    with Cons.prems have "cl_node_id (store e) < cl_node_id (store c)"
      by (simp add: neq_iff)
    with Cons False show ?thesis
      by (auto simp: client_node_id_cmp_def client_insert_sorted_set)
  qed
qed simp

lemma find_by_name_Some:
  assumes "qnetd_cluster_list_find_by_name qi name = Some k"
  shows "k \<in> set (qi_clusters qi)" and "cs_cluster_name (qi_cluster qi k) = name"
  using find_Some_mem [OF assms [unfolded qnetd_cluster_list_find_by_name_def]] by auto

lemma find_by_name_None:
  "qnetd_cluster_list_find_by_name qi name = None \<longleftrightarrow>
     (\<forall>k\<in>set (qi_clusters qi). cs_cluster_name (qi_cluster qi k) \<noteq> name)"
  unfolding qnetd_cluster_list_find_by_name_def find_None_all by auto

text \<open>The lookup finds the cluster with the name, and there is only one.\<close>

lemma find_by_name_iff:
  assumes "cluster_list_wf qi"
  shows "qnetd_cluster_list_find_by_name qi name = Some k \<longleftrightarrow>
    k \<in> set (qi_clusters qi) \<and> cs_cluster_name (qi_cluster qi k) = name"
proof
  assume k: "k \<in> set (qi_clusters qi) \<and> cs_cluster_name (qi_cluster qi k) = name"
  then obtain k' where k': "qnetd_cluster_list_find_by_name qi name = Some k'"
    by (cases "qnetd_cluster_list_find_by_name qi name") (auto simp: find_by_name_None)
  with find_by_name_Some have "k' \<in> set (qi_clusters qi)" "cs_cluster_name (qi_cluster qi k') = name"
    by blast+
  with k cluster_list_wfD(3) [OF assms] have "k' = k"
    by (simp add: inj_on_def)
  with k' show "qnetd_cluster_list_find_by_name qi name = Some k" by simp
qed (use find_by_name_Some in blast)

section \<open>Adding and removing clients\<close>

text \<open>
  The result of \<open>qnetd_cluster_list_add_client\<close>, before the caller stores the cluster in the
  client.
\<close>

lemma add_client_result:
  assumes "qnetd_cluster_list_add_client al c name qi = (Some k, qi')"
  shows "qi_client qi' = qi_client qi \<and> qi_clients qi' = qi_clients qi \<and>
    cs_cluster_name (qi_cluster qi' k) = name \<and>
    (\<forall>j. j \<noteq> k \<longrightarrow> qi_cluster qi' j = qi_cluster qi j) \<and>
    (if \<exists>j\<in>set (qi_clusters qi). cs_cluster_name (qi_cluster qi j) = name
     then k \<in> set (qi_clusters qi) \<and> cs_cluster_name (qi_cluster qi k) = name \<and>
       qi_clusters qi' = qi_clusters qi \<and>
       members qi' k = client_insert_sorted (qi_client qi) c (members qi k)
     else k \<notin> set (qi_clusters qi) \<and> qi_clusters qi' = qi_clusters qi @ [k] \<and> members qi' k = [c])"
proof (cases "qnetd_cluster_list_find_by_name qi name")
  case None
  then have new: "\<not> (\<exists>j\<in>set (qi_clusters qi). cs_cluster_name (qi_cluster qi j) = name)"
    by (simp add: find_by_name_None)
  from None assms have k: "k = fresh_ref (qi_clusters qi)"
    and qi': "qi' = cluster_add_member c k
      (qi\<lparr>qi_cluster := (qi_cluster qi)(k := \<lparr>cs_cluster_name = name,
             cs_algorithm_data = No_Cluster_Data, cs_client_list = []\<rparr>),
          qi_clusters := qi_clusters qi @ [k]\<rparr>)"
    by (auto simp: qnetd_cluster_list_add_client_def qnetd_cluster_init_def Let_def
        split: if_splits option.splits)
  show ?thesis
    using new fresh_ref_notin [of "qi_clusters qi"] k
    by (simp add: qi' cluster_add_member_def upd_cluster_def)
next
  case (Some j)
  with assms have "k = j" "qi' = cluster_add_member c k qi"
    by (auto simp: qnetd_cluster_list_add_client_def)
  with find_by_name_Some [OF Some] show ?thesis
    by (auto simp: cluster_add_member_def upd_cluster_def)
qed

definition set_cluster :: "client_ref \<Rightarrow> cluster_ref \<Rightarrow> qnetd_instance \<Rightarrow> qnetd_instance" where
  "set_cluster c k = upd_client c (\<lambda>cl. cl\<lparr>cl_cluster := Some k\<rparr>)"

lemma cluster_list_wf_add:
  assumes wf: "cluster_list_wf qi" and c: "c \<in> set (qi_clients qi)" "cl_cluster (qi_client qi c) = None"
    and add: "qnetd_cluster_list_add_client al c name qi = (Some k, qi')"
    and fresh: "\<And>j x. qnetd_cluster_list_find_by_name qi name = Some j \<Longrightarrow> x \<in> set (members qi j) \<Longrightarrow>
      node_of qi x \<noteq> node_of qi c"
  shows "cluster_list_wf (set_cluster c k qi')"
proof -
  note R = add_client_result [OF add]
  note W = cluster_list_wfD [OF wf]
  have notin: "c \<notin> set (members qi j)" if "j \<in> set (qi_clusters qi)" for j
    using W(6) [OF that] c(2) by force
  let ?q = "set_cluster c k qi'"
  have simps: "qi_clients ?q = qi_clients qi" "qi_clusters ?q = qi_clusters qi'"
    "qi_cluster ?q = qi_cluster qi'" "node_of ?q = node_of qi"
    "cl_cluster (qi_client ?q x) = (if x = c then Some k else cl_cluster (qi_client qi x))" for x
    using R by (auto simp: set_cluster_def upd_client_def)
  have other: "qi_cluster qi' j = qi_cluster qi j" if "j \<noteq> k" for j
    using R that by blast
  have name: "cs_cluster_name (qi_cluster qi' k) = name"
    using R by blast
  define old where "old = (\<exists>j\<in>set (qi_clusters qi). cs_cluster_name (qi_cluster qi j) = name)"
  have oldT: "old \<Longrightarrow> k \<in> set (qi_clusters qi) \<and> cs_cluster_name (qi_cluster qi k) = name \<and>
       qi_clusters qi' = qi_clusters qi \<and>
       members qi' k = client_insert_sorted (qi_client qi) c (members qi k)"
    using R unfolding old_def by argo
  have oldF: "\<not> old \<Longrightarrow> k \<notin> set (qi_clusters qi) \<and> qi_clusters qi' = qi_clusters qi @ [k] \<and>
       members qi' k = [c]"
    using R unfolding old_def by argo
  have clusters: "set (qi_clusters qi') = insert k (set (qi_clusters qi))" "distinct (qi_clusters qi')"
    using oldT oldF W(2) by (cases old; auto)+
  have mem_k: "members qi' k \<noteq> [] \<and> sorted_wrt (<) (map (node_of qi) (members qi' k))"
  proof (cases old)
    case True
    then have "qnetd_cluster_list_find_by_name qi name = Some k"
      using find_by_name_iff [OF wf] oldT by blast
    with True oldT W(5) fresh show ?thesis
      by (simp add: client_insert_sorted_sorted client_insert_sorted_neq_Nil)
  qed (simp add: oldF)
  have set_k: "set (members qi' k) = insert c (if old then set (members qi k) else {})"
    using oldT oldF by (cases old) (simp_all add: client_insert_sorted_set)
  show ?thesis
  proof (rule cluster_list_wfI; unfold simps)
    show "inj_on (\<lambda>j. cs_cluster_name (qi_cluster qi' j)) (set (qi_clusters qi'))"
    proof (cases old)
      case True
      then have "cs_cluster_name (qi_cluster qi' j) = cs_cluster_name (qi_cluster qi j)" for j
        using oldT name other by (cases "j = k") auto
      with True oldT W(3) show ?thesis by simp
    next
      case False
      then have "cs_cluster_name (qi_cluster qi' j) = cs_cluster_name (qi_cluster qi j) \<and>
          cs_cluster_name (qi_cluster qi j) \<noteq> name" if "j \<in> set (qi_clusters qi)" for j
        using that oldF other unfolding old_def by metis
      with False oldF W(3) name show ?thesis
        by (simp add: inj_on_def) metis
    qed
    show "x \<in> set (qi_clients qi) \<and> (if x = c then Some k else cl_cluster (qi_client qi x)) = Some j"
      if j: "j \<in> set (qi_clusters qi')" "x \<in> set (members qi' j)" for j x
    proof (cases "j = k")
      case True
      with j(2) set_k c(1) W(6) [of k x] oldT show ?thesis
        by (auto split: if_splits)
    next
      case False
      with j clusters(1) other notin W(6) [of j x] show ?thesis by auto
    qed
    show "j \<in> set (qi_clusters qi') \<and> x \<in> set (members qi' j)"
      if x: "x \<in> set (qi_clients qi)" "(if x = c then Some k else cl_cluster (qi_client qi x)) = Some j" for j x
    proof (cases "x = c")
      case True
      with x set_k clusters(1) show ?thesis by simp
    next
      case False
      with x W(7) have "j \<in> set (qi_clusters qi)" "x \<in> set (members qi j)" by auto
      with clusters(1) set_k other [of j] oldF show ?thesis
        by (cases "j = k") auto
    qed
    show "members qi' j \<noteq> []" if "j \<in> set (qi_clusters qi')" for j
      using that mem_k other [of j] W(4) [of j] clusters(1) by (cases "j = k") auto
    show "sorted_wrt (<) (map (node_of qi) (members qi' j))" if "j \<in> set (qi_clusters qi')" for j
      using that mem_k other [of j] W(5) [of j] clusters(1) by (cases "j = k") auto
  qed (use W clusters in auto)
qed

lemma remove_first_eq: "remove_first (\<lambda>y. y = x) xs = remove1 x xs"
  by (induction xs) auto

lemma sorted_wrt_map_remove1:
  "sorted_wrt (<) (map f xs) \<Longrightarrow> sorted_wrt (<) (map f (remove1 x xs))"
  by (induction xs) (auto dest: set_remove1_subset [THEN subsetD])

text \<open>
  The end of a client: \<open>qnetd_cluster_list_del_client\<close> and then \<open>qnetd_client_list_del\<close>. The
  cluster goes with its last client.
\<close>

lemma del_client_result:
  "qi_client (qnetd_cluster_list_del_client qi k c) = qi_client qi"
  "qi_clients (qnetd_cluster_list_del_client qi k c) = qi_clients qi"
  "members (qnetd_cluster_list_del_client qi k c) j =
     (if j = k then remove1 c (members qi k) else members qi j)"
  "cs_cluster_name (qi_cluster (qnetd_cluster_list_del_client qi k c) j) =
     cs_cluster_name (qi_cluster qi j)"
  "qi_clusters (qnetd_cluster_list_del_client qi k c) =
     (if remove1 c (members qi k) = [] then remove1 k (qi_clusters qi) else qi_clusters qi)"
  by (simp_all add: qnetd_cluster_list_del_client_def upd_cluster_def Let_def remove_first_eq)

lemma client_list_del_result:
  "qi_clients (qnetd_client_list_del qi c) = remove1 c (qi_clients qi)"
  "qi_clusters (qnetd_client_list_del qi c) = qi_clusters qi"
  "qi_cluster (qnetd_client_list_del qi c) = qi_cluster qi"
  "cl_cluster (qi_client (qnetd_client_list_del qi c) x) = cl_cluster (qi_client qi x)"
  "node_of (qnetd_client_list_del qi c) x = node_of qi x"
  by (simp_all add: qnetd_client_list_del_def upd_client_def remove_first_eq qnetd_client_destroy_def)

lemma cluster_list_wf_del:
  assumes wf: "cluster_list_wf qi" and c: "c \<in> set (qi_clients qi)" "cl_cluster (qi_client qi c) = Some k"
  shows "cluster_list_wf (qnetd_client_list_del (qnetd_cluster_list_del_client qi k c) c)"
proof -
  note W = cluster_list_wfD [OF wf]
  note simps = del_client_result client_list_del_result
  have dist: "distinct (members qi j)" if "j \<in> set (qi_clusters qi)" for j
    using W(5) [OF that] by (rule sorted_wrt_map_distinct)
  have k: "k \<in> set (qi_clusters qi)" "c \<in> set (members qi k)"
    using W(7) [OF c] by auto
  have only: "c \<in> set (members qi j) \<longleftrightarrow> j = k" if "j \<in> set (qi_clusters qi)" for j
    using that W(6) [OF that, of c] c(2) k(2) by auto
  have sub: "j \<in> set (qi_clusters qi)" "j = k \<Longrightarrow> remove1 c (members qi k) \<noteq> []"
    if "j \<in> set (if remove1 c (members qi k) = [] then remove1 k (qi_clusters qi) else qi_clusters qi)" for j
    using that W(2) by (auto split: if_splits)
  show ?thesis
  proof (rule cluster_list_wfI; unfold simps)
    show "inj_on (\<lambda>j. cs_cluster_name (qi_cluster qi j))
        (set (if remove1 c (members qi k) = [] then remove1 k (qi_clusters qi) else qi_clusters qi))"
      using W(2,3) by (auto simp: inj_on_def)
    show "(if j = k then remove1 c (members qi k) else members qi j) \<noteq> []"
      if "j \<in> set (if remove1 c (members qi k) = [] then remove1 k (qi_clusters qi) else qi_clusters qi)" for j
      using sub [OF that] W(4) by auto
    show "sorted_wrt (<) (map (node_of qi)
        (if j = k then remove1 c (members qi k) else members qi j))"
      if "j \<in> set (if remove1 c (members qi k) = [] then remove1 k (qi_clusters qi) else qi_clusters qi)" for j
      using W(5) [OF sub(1) [OF that]] by (auto intro: sorted_wrt_map_remove1)
    show "x \<in> set (remove1 c (qi_clients qi)) \<and> cl_cluster (qi_client qi x) = Some j"
      if j: "j \<in> set (if remove1 c (members qi k) = [] then remove1 k (qi_clusters qi) else qi_clusters qi)"
        and x: "x \<in> set (if j = k then remove1 c (members qi k) else members qi j)" for j x
    proof -
      from sub(1) [OF j] have j': "j \<in> set (qi_clusters qi)" .
      have "x \<in> set (members qi j)" "x \<noteq> c"
        using x dist [OF j'] only [OF j'] by (auto split: if_splits)
      with W(6) [OF j'] W(1) show ?thesis by simp
    qed
    show "j \<in> set (if remove1 c (members qi k) = [] then remove1 k (qi_clusters qi) else qi_clusters qi) \<and>
        x \<in> set (if j = k then remove1 c (members qi k) else members qi j)"
      if "x \<in> set (remove1 c (qi_clients qi))" "cl_cluster (qi_client qi x) = Some j" for j x
    proof -
      from that W(1) have x: "x \<in> set (qi_clients qi)" "x \<noteq> c" by auto
      from W(7) [OF x(1) that(2)] have "j \<in> set (qi_clusters qi)" "x \<in> set (members qi j)" by auto
      moreover from this x(2) have "x \<in> set (remove1 c (members qi j))" by simp
      ultimately show ?thesis using W(2) by auto
    qed
  qed (use W(1,2) in auto)
qed

text \<open>The invariant reads only the lists, the names, the node ids and the back pointers.\<close>

lemma cluster_list_wf_cong:
  assumes "qi_clients qi' = qi_clients qi" and "qi_clusters qi' = qi_clusters qi"
    and M: "\<And>k. members qi' k = members qi k"
    and N: "\<And>k. cs_cluster_name (qi_cluster qi' k) = cs_cluster_name (qi_cluster qi k)"
    and C: "\<And>c. node_of qi' c = node_of qi c"
      "\<And>c. cl_cluster (qi_client qi' c) = cl_cluster (qi_client qi c)"
  shows "cluster_list_wf qi' \<longleftrightarrow> cluster_list_wf qi"
proof -
  have "node_of qi' = node_of qi" using C(1) by (rule ext)
  then show ?thesis unfolding cluster_list_wf_def assms(1,2) M N C by simp
qed

lemma cluster_list_wf_del_lone:
  assumes wf: "cluster_list_wf qi" and c: "cl_cluster (qi_client qi c) = None"
  shows "cluster_list_wf (qnetd_client_list_del qi c)"
proof -
  note W = cluster_list_wfD [OF wf]
  have notin: "x \<noteq> c" if "k \<in> set (qi_clusters qi)" "x \<in> set (members qi k)" for k x
    using W(6) [OF that] c by auto
  show ?thesis
  proof (rule cluster_list_wfI; unfold client_list_del_result)
    show "x \<in> set (remove1 c (qi_clients qi)) \<and> cl_cluster (qi_client qi x) = Some k"
      if "k \<in> set (qi_clusters qi)" "x \<in> set (members qi k)" for k x
      using W(6) [OF that] notin [OF that] by simp
    show "k \<in> set (qi_clusters qi) \<and> x \<in> set (members qi k)"
      if "x \<in> set (remove1 c (qi_clients qi))" "cl_cluster (qi_client qi x) = Some k" for k x
      using W(7) that set_remove1_subset [of c "qi_clients qi"] by blast
  qed (use W(1,2,3,4,5) in simp_all)
qed

section \<open>The frame of the decision algorithms\<close>

text \<open>
  A decision algorithm may change its private data, queue messages (and remember the votes it
  sent), run the algorithm timer and mark a client for disconnection. Everything else of the
  state is \<open>core\<close>, and two states with the same core differ by algorithm activity only.
\<close>

definition client_core :: "qnetd_client \<Rightarrow> qnetd_client" where
  "client_core cl =
     cl\<lparr>cl_algorithm_data := No_Client_Data, cl_send_buffer_list := send_buffer_list_init 0 0,
        cl_last_sent_vote := TLV_VOTE_UNDEFINED, cl_last_sent_ack_nack_vote := TLV_VOTE_UNDEFINED,
        cl_algo_timer := None, cl_schedule_disconnect := False\<rparr>"

definition cluster_core :: "qnetd_cluster \<Rightarrow> qnetd_cluster" where
  "cluster_core cs = cs\<lparr>cs_algorithm_data := No_Cluster_Data\<rparr>"

definition same_core :: "qnetd_instance \<Rightarrow> qnetd_instance \<Rightarrow> bool" where
  "same_core qi qi' \<longleftrightarrow>
     (\<forall>c. client_core (qi_client qi' c) = client_core (qi_client qi c)) \<and>
     (\<forall>k. cluster_core (qi_cluster qi' k) = cluster_core (qi_cluster qi k)) \<and>
     qi_clients qi' = qi_clients qi \<and> qi_clusters qi' = qi_clusters qi \<and>
     qi_max_clients qi' = qi_max_clients qi \<and> qi_tls_supported qi' = qi_tls_supported qi \<and>
     qi_tls_client_cert_required qi' = qi_tls_client_cert_required qi \<and>
     qi_advanced_settings qi' = qi_advanced_settings qi"

lemma same_core_refl [simp, intro]: "same_core qi qi"
  by (simp add: same_core_def)

lemma same_core_trans [trans]: "same_core a b \<Longrightarrow> same_core b c \<Longrightarrow> same_core a c"
  by (simp add: same_core_def)

lemma same_core_sym: "same_core a b \<Longrightarrow> same_core b a"
  by (simp add: same_core_def)

lemma same_core_upd_client:
  assumes "client_core (f (qi_client qi c)) = client_core (qi_client qi c)"
  shows "same_core qi (upd_client c f qi)"
  using assms by (simp add: same_core_def upd_client_def)

lemma same_core_upd_cluster:
  assumes "cluster_core (f (qi_cluster qi k)) = cluster_core (qi_cluster qi k)"
  shows "same_core qi (upd_cluster k f qi)"
  using assms by (simp add: same_core_def upd_cluster_def)

lemma same_core_on_client:
  assumes "on_client c f qi = (r, qi')"
    and "client_core (snd (f (qi_client qi c))) = client_core (qi_client qi c)"
  shows "same_core qi qi'"
  using assms by (auto simp: same_core_def on_client_def split: prod.splits)

lemma cluster_core_fields:
  assumes "cluster_core a = cluster_core b"
  shows "cs_client_list a = cs_client_list b" and "cs_cluster_name a = cs_cluster_name b"
  using assms by (cases a; cases b; simp add: cluster_core_def)+

lemma same_coreD:
  assumes "same_core qi qi'"
  shows "qi_clients qi' = qi_clients qi" and "qi_clusters qi' = qi_clusters qi"
    and "members qi' = members qi" and "client_core (qi_client qi' c) = client_core (qi_client qi c)"
    and "cs_cluster_name (qi_cluster qi' k) = cs_cluster_name (qi_cluster qi k)"
    and "qi_advanced_settings qi' = qi_advanced_settings qi"
    and "qi_tls_supported qi' = qi_tls_supported qi"
    and "qi_tls_client_cert_required qi' = qi_tls_client_cert_required qi"
  using assms cluster_core_fields unfolding same_core_def by (metis (no_types, lifting))+

text \<open>Every field that is not named in \<open>client_core\<close> is the same in two clients of equal core.\<close>

lemma client_core_fields:
  assumes "client_core a = client_core b"
  shows "cl_node_id a = cl_node_id b" "cl_cluster a = cl_cluster b"
    "cl_cluster_name a = cl_cluster_name b" "cl_decision_algorithm a = cl_decision_algorithm b"
    "cl_tie_breaker a = cl_tie_breaker b" "cl_last_ring_id a = cl_last_ring_id b"
    "cl_configuration_node_list a = cl_configuration_node_list b"
    "cl_last_membership_node_list a = cl_last_membership_node_list b"
    "cl_last_heuristics a = cl_last_heuristics b" "cl_init_received a = cl_init_received b"
    "cl_preinit_received a = cl_preinit_received b" "cl_heartbeat_interval a = cl_heartbeat_interval b"
    "cl_keep_active_partition_tie_breaker a = cl_keep_active_partition_tie_breaker b"
    "cl_dpd_timer a = cl_dpd_timer b"
  using assms by (cases a; cases b; simp add: client_core_def)+

lemma cluster_list_wf_core:
  assumes "same_core qi qi'" and "cluster_list_wf qi"
  shows "cluster_list_wf qi'"
proof -
  note S = same_coreD [OF assms(1)]
  have "members qi' k = members qi k" for k
    using S(3) by (rule fun_cong)
  then show ?thesis
    using assms(2) S(1,2,5) client_core_fields(1,2) [OF S(4)]
    by (subst cluster_list_wf_cong) auto
qed

end
