(* ===== verification/Algo_Interface.thy ===== *)
theory Algo_Interface
  imports Qnetd_Clusters
begin

text \<open>
  The interface of the decision algorithms, \<open>struct qnetd_algorithm\<close> of \<open>qnetd-algorithm.h\<close>, with
  the contract that the daemon relies on as a locale, and the helpers that the algorithms share
  (\<open>qnetd-algo-utils.c\<close>). An operation returns a fault, or its reply code, the vote it stored
  through \<open>result_vote\<close> (\<open>None\<close> when it stored none) and the new state. Arguments that none of the
  four algorithms reads (sequence numbers, the configuration version, the quorum list) are left
  out.
\<close>

section \<open>Operations\<close>

type_synonym algo_result = "fault + (tlv_reply_error_code \<times> tlv_vote option \<times> qnetd_instance)"

record qnetd_algorithm =
  alg_init :: "allocator \<Rightarrow> client_ref \<Rightarrow> qnetd_instance \<Rightarrow>
    fault + (tlv_reply_error_code \<times> qnetd_instance)"
  alg_config_node_list_received :: "allocator \<Rightarrow> client_ref \<Rightarrow> node_list \<Rightarrow> bool \<Rightarrow> qnetd_instance \<Rightarrow> algo_result"
  alg_membership_node_list_received ::
    "allocator \<Rightarrow> client_ref \<Rightarrow> tlv_ring_id \<Rightarrow> node_list \<Rightarrow> tlv_heuristics \<Rightarrow> qnetd_instance \<Rightarrow> algo_result"
  alg_quorum_node_list_received :: "allocator \<Rightarrow> client_ref \<Rightarrow> qnetd_instance \<Rightarrow> algo_result"
  alg_client_disconnect :: "allocator \<Rightarrow> client_ref \<Rightarrow> bool \<Rightarrow> qnetd_instance \<Rightarrow> fault + qnetd_instance"
  alg_ask_for_vote_received :: "allocator \<Rightarrow> client_ref \<Rightarrow> qnetd_instance \<Rightarrow> algo_result"
  alg_vote_info_reply_received :: "allocator \<Rightarrow> client_ref \<Rightarrow> u32 \<Rightarrow> qnetd_instance \<Rightarrow>
    fault + (tlv_reply_error_code \<times> qnetd_instance)"
  alg_heuristics_change_received ::
    "allocator \<Rightarrow> client_ref \<Rightarrow> tlv_heuristics \<Rightarrow> qnetd_instance \<Rightarrow> algo_result"
  alg_timer_callback :: "allocator \<Rightarrow> client_ref \<Rightarrow> qnetd_instance \<Rightarrow>
    fault + (tlv_reply_error_code \<times> bool \<times> bool \<times> tlv_vote option \<times> qnetd_instance)"

section \<open>Access to the state\<close>

definition cluster_of :: "qnetd_instance \<Rightarrow> client_ref \<Rightarrow> fault + cluster_ref" where
  "cluster_of qi c = (case cl_cluster (qi_client qi c) of None \<Rightarrow> Inl Null_Deref | Some k \<Rightarrow> Inr k)"

text \<open>The clients of a cluster in list order, with their addresses.\<close>

definition cluster_views :: "qnetd_instance \<Rightarrow> cluster_ref \<Rightarrow> (client_ref \<times> qnetd_client) list" where
  "cluster_views qi k = map (\<lambda>c. (c, qi_client qi c)) (members qi k)"

definition free_client_data :: "client_ref \<Rightarrow> qnetd_instance \<Rightarrow> qnetd_instance" where
  "free_client_data c = upd_client c (\<lambda>cl. cl\<lparr>cl_algorithm_data := Freed_Client_Data\<rparr>)"

definition free_cluster_data :: "cluster_ref \<Rightarrow> qnetd_instance \<Rightarrow> qnetd_instance" where
  "free_cluster_data k = upd_cluster k (\<lambda>cs. cs\<lparr>cs_algorithm_data := Freed_Cluster_Data\<rparr>)"

definition set_client_data :: "client_ref \<Rightarrow> client_algo_data \<Rightarrow> qnetd_instance \<Rightarrow> qnetd_instance" where
  "set_client_data c d = upd_client c (\<lambda>cl. cl\<lparr>cl_algorithm_data := d\<rparr>)"

definition set_cluster_data :: "cluster_ref \<Rightarrow> cluster_algo_data \<Rightarrow> qnetd_instance \<Rightarrow> qnetd_instance" where
  "set_cluster_data k d = upd_cluster k (\<lambda>cs. cs\<lparr>cs_algorithm_data := d\<rparr>)"

lemma same_core_data [simp, intro]:
  "same_core qi (set_client_data c d qi)" "same_core qi (set_cluster_data k e qi)"
  "same_core qi (free_client_data c qi)" "same_core qi (free_cluster_data k qi)"
  by (simp_all add: set_client_data_def set_cluster_data_def free_client_data_def
      free_cluster_data_def same_core_upd_client same_core_upd_cluster client_core_def
      cluster_core_def)

lemma same_core_data_trans:
  "same_core a b \<Longrightarrow> same_core a (set_client_data c d b)"
  "same_core a b \<Longrightarrow> same_core a (set_cluster_data k e b)"
  "same_core a b \<Longrightarrow> same_core a (free_client_data c b)"
  "same_core a b \<Longrightarrow> same_core a (free_cluster_data k b)"
  using same_core_trans same_core_data by blast+

lemma client_core_send_msg: "client_core (snd (send_msg al f cl)) = client_core cl"
  by (auto simp: send_msg_def Let_def client_core_def split: prod.splits option.splits)

lemma client_core_store_vote: "client_core (store_vote v cl) = client_core cl"
  by (simp add: store_vote_def client_core_def Let_def)

lemma client_core_timers:
  "client_core (snd (qnetd_client_algo_timer_abort cl)) = client_core cl"
  "client_core (snd (qnetd_client_algo_timer_schedule al cl)) = client_core cl"
  by (simp_all add: qnetd_client_algo_timer_abort_def qnetd_client_algo_timer_schedule_def
      qnetd_client_algo_timer_schedule_timeout_def Let_def client_core_def)

lemma client_core_send_vote_info:
  "client_core (snd (qnetd_client_send_vote_info al n r v cl)) = client_core cl"
  by (simp add: qnetd_client_send_vote_info_def client_core_send_msg client_core_store_vote)

section \<open>The contract\<close>

text \<open>
  What the daemon relies on: an algorithm changes nothing but its private data, the output queues,
  the remembered votes, the algorithm timer and the disconnect flag (\<open>same_core\<close>), and whenever it
  reports success for a message that needs a vote, it has stored one.
\<close>

definition keeps_core :: "qnetd_instance \<Rightarrow> algo_result \<Rightarrow> bool" where
  "keeps_core qi r \<longleftrightarrow>
     (case r of
        Inl f \<Rightarrow> True
      | Inr (e, v, qi') \<Rightarrow> same_core qi qi' \<and> (e = TLV_REPLY_ERROR_CODE_NO_ERROR \<longrightarrow> v \<noteq> None))"

lemma keeps_core_Inr:
  "same_core qi qi' \<Longrightarrow> (e = TLV_REPLY_ERROR_CODE_NO_ERROR \<Longrightarrow> v \<noteq> None) \<Longrightarrow>
   keeps_core qi (Inr (e, v, qi'))"
  by (simp add: keeps_core_def)

lemma keeps_core_Inl: "keeps_core qi (Inl f)"
  by (simp add: keeps_core_def)

lemma keeps_core_bind: "(\<And>x. m = Inr x \<Longrightarrow> keeps_core qi (f x)) \<Longrightarrow> keeps_core qi (bindE m f)"
  by (cases m) (auto simp: keeps_core_def)

lemma keeps_core_if:
  "(b \<Longrightarrow> keeps_core qi r) \<Longrightarrow> (\<not> b \<Longrightarrow> keeps_core qi s) \<Longrightarrow> keeps_core qi (if b then r else s)"
  by simp

lemma keeps_core_prod:
  "(\<And>x y. p = (x, y) \<Longrightarrow> keeps_core qi (f x y)) \<Longrightarrow> keeps_core qi (case p of (x, y) \<Rightarrow> f x y)"
  by (cases p) simp

lemma keeps_core_option:
  "keeps_core qi r \<Longrightarrow> (\<And>x. keeps_core qi (f x)) \<Longrightarrow>
   keeps_core qi (case p of None \<Rightarrow> r | Some x \<Rightarrow> f x)"
  by (cases p) simp_all

lemmas keeps_core_intros = keeps_core_bind keeps_core_if keeps_core_prod keeps_core_option
  keeps_core_Inl

lemma keeps_coreD: "keeps_core qi r \<Longrightarrow> r = Inr (e, v, qi') \<Longrightarrow>
  same_core qi qi' \<and> (e = TLV_REPLY_ERROR_CODE_NO_ERROR \<longrightarrow> v \<noteq> None)"
  by (simp add: keeps_core_def)

lemma keeps_core_trans: "same_core a b \<Longrightarrow> keeps_core b r \<Longrightarrow> keeps_core a r"
  by (auto simp: keeps_core_def split: sum.splits intro: same_core_trans)

locale decision_algorithm =
  fixes A :: qnetd_algorithm
  assumes init_core: "alg_init A al c qi = Inr (e, qi') \<Longrightarrow> same_core qi qi'"
    and config_core: "alg_config_node_list_received A al c ns i qi = Inr (e, v, qi') \<Longrightarrow>
      same_core qi qi' \<and> (e = TLV_REPLY_ERROR_CODE_NO_ERROR \<longrightarrow> v \<noteq> None)"
    and membership_core: "alg_membership_node_list_received A al c r ns h qi = Inr (e, v, qi') \<Longrightarrow>
      same_core qi qi' \<and> (e = TLV_REPLY_ERROR_CODE_NO_ERROR \<longrightarrow> v \<noteq> None)"
    and quorum_core: "alg_quorum_node_list_received A al c qi = Inr (e, v, qi') \<Longrightarrow>
      same_core qi qi' \<and> (e = TLV_REPLY_ERROR_CODE_NO_ERROR \<longrightarrow> v \<noteq> None)"
    and disconnect_core: "alg_client_disconnect A al c down qi = Inr qi' \<Longrightarrow> same_core qi qi'"
    and ask_core: "alg_ask_for_vote_received A al c qi = Inr (e, v, qi') \<Longrightarrow>
      same_core qi qi' \<and> (e = TLV_REPLY_ERROR_CODE_NO_ERROR \<longrightarrow> v \<noteq> None)"
    and vote_info_core: "alg_vote_info_reply_received A al c n qi = Inr (e, qi') \<Longrightarrow> same_core qi qi'"
    and heuristics_core: "alg_heuristics_change_received A al c h qi = Inr (e, v, qi') \<Longrightarrow>
      same_core qi qi' \<and> (e = TLV_REPLY_ERROR_CODE_NO_ERROR \<longrightarrow> v \<noteq> None)"
    and timer_core: "alg_timer_callback A al c qi = Inr (e, rs, sv, v, qi') \<Longrightarrow>
      same_core qi qi' \<and> (sv \<longrightarrow> v \<noteq> None)"
begin

lemma init_wf:
  "alg_init A al c qi = Inr (e, qi') \<Longrightarrow> cluster_list_wf qi \<Longrightarrow> cluster_list_wf qi'"
  using init_core cluster_list_wf_core by blast

lemma disconnect_wf:
  "alg_client_disconnect A al c down qi = Inr qi' \<Longrightarrow> cluster_list_wf qi \<Longrightarrow> cluster_list_wf qi'"
  using disconnect_core cluster_list_wf_core by blast

text \<open>After the disconnect callback the client can be taken out of the lists.\<close>

lemma disconnect_del_wf:
  assumes "alg_client_disconnect A al c down qi = Inr qi'" and "cluster_list_wf qi"
    and "c \<in> set (qi_clients qi)" and "cl_cluster (qi_client qi c) = Some k"
  shows "cluster_list_wf (qnetd_client_list_del (qnetd_cluster_list_del_client qi' k c) c)"
proof -
  note S = same_coreD [OF disconnect_core [OF assms(1)]]
  show ?thesis
    using disconnect_wf [OF assms(1,2)] assms(3,4) S(1) client_core_fields(2) [OF S(4)]
    by (intro cluster_list_wf_del) simp_all
qed

end

section \<open>Shared helpers\<close>

definition in_our_partition :: "qnetd_client \<Rightarrow> qnetd_client \<Rightarrow> bool" where
  "in_our_partition client other \<longleftrightarrow>
     list_ex (\<lambda>n. nl_node_id n = cl_node_id other) (cl_last_membership_node_list client) \<or>
     list_ex (\<lambda>n. nl_node_id n = cl_node_id client) (cl_last_membership_node_list other)"

definition qnetd_algo_all_ring_ids_match ::
    "(client_ref \<times> qnetd_client) list \<Rightarrow> client_ref \<Rightarrow> qnetd_client \<Rightarrow> tlv_ring_id \<Rightarrow> int" where
  "qnetd_algo_all_ring_ids_match views c client ring_id =
     (if list_ex (\<lambda>(oc, other). oc \<noteq> c \<and> in_our_partition client other \<and>
            \<not> tlv_ring_id_eq ring_id (cl_last_ring_id other)) views
      then -1 else 0)"

definition qnetd_algo_find_partition ::
    "qnetd_algo_partition list \<Rightarrow> tlv_ring_id \<Rightarrow> qnetd_algo_partition option" where
  "qnetd_algo_find_partition ps ring_id =
     find (\<lambda>p. tlv_ring_id_eq (part_ring_id p) ring_id) ps"

text \<open>The update through the pointer that the search returned: the first partition with the id.\<close>

fun update_partition ::
    "tlv_ring_id \<Rightarrow> (qnetd_algo_partition \<Rightarrow> qnetd_algo_partition) \<Rightarrow> qnetd_algo_partition list \<Rightarrow>
     qnetd_algo_partition list" where
  "update_partition ring_id f [] = []"
| "update_partition ring_id f (p # ps) =
     (if tlv_ring_id_eq (part_ring_id p) ring_id then f p # ps
      else p # update_partition ring_id f ps)"

definition count_client :: "tlv_heuristics \<Rightarrow> qnetd_algo_partition \<Rightarrow> qnetd_algo_partition" where
  "count_client h p =
     p\<lparr>part_num_nodes := part_num_nodes p + 1,
       part_score := part_score p + 1 +
         (if h = TLV_HEURISTICS_PASS then 1 else if h = TLV_HEURISTICS_FAIL then -1 else 0)\<rparr>"

fun create_partitions_loop ::
    "allocator \<Rightarrow> qnetd_client list \<Rightarrow> qnetd_algo_partition list \<Rightarrow> int \<Rightarrow>
     int \<times> qnetd_algo_partition list" where
  "create_partitions_loop al [] ps num = (num, ps)"
| "create_partitions_loop al (other # others) ps num =
     (if rid_seq (cl_last_ring_id other) = 0 then create_partitions_loop al others ps num
      else case qnetd_algo_find_partition ps (cl_last_ring_id other) of
             Some p \<Rightarrow>
               create_partitions_loop al others
                 (update_partition (cl_last_ring_id other) (count_client (cl_last_heuristics other)) ps)
                 num
           | None \<Rightarrow>
               if \<not> al Malloc_Partition then (-1, ps)
               else create_partitions_loop al others
                 (ps @ [count_client (cl_last_heuristics other)
                    \<lparr>part_ring_id = cl_last_ring_id other, part_num_nodes = 0, part_score = 0\<rparr>])
                 (num + 1))"

definition qnetd_algo_create_partitions ::
    "allocator \<Rightarrow> (client_ref \<times> qnetd_client) list \<Rightarrow> qnetd_algo_partition list \<Rightarrow>
     int \<times> qnetd_algo_partition list" where
  "qnetd_algo_create_partitions al views ps = create_partitions_loop al (map snd views) ps 0"

definition qnetd_algo_free_partitions :: "qnetd_algo_partition list \<Rightarrow> qnetd_algo_partition list" where
  "qnetd_algo_free_partitions ps = []"

end
