(* ===== verification/Algo_Ffsplit.thy ===== *)
theory Algo_Ffsplit
  imports Algo_Interface
begin

text \<open>
  The fifty-fifty split algorithm of \<open>qnetd-algo-ffsplit.c\<close>. When the membership of a cluster is
  stable, at most one partition is selected; every client outside of it is sent a NACK, and only
  after all of these were acknowledged the clients inside are sent an ACK. The cluster data holds
  the phase and the selected partition, the client data the vote that is on its way and its
  sequence number.
\<close>

section \<open>Private data\<close>

definition ff_client_data :: "client_algo_data \<Rightarrow> fault + qnetd_algo_ffsplit_client_data" where
  "ff_client_data d =
     (case d of
        Ffsplit_Client_Data x \<Rightarrow> Inr x
      | No_Client_Data \<Rightarrow> Inl Null_Deref
      | _ \<Rightarrow> Inl Type_Confusion)"

definition ff_cluster_data :: "cluster_algo_data \<Rightarrow> fault + qnetd_algo_ffsplit_cluster_data" where
  "ff_cluster_data d =
     (case d of
        Ffsplit_Cluster_Data x \<Rightarrow> Inr x
      | No_Cluster_Data \<Rightarrow> Inl Null_Deref
      | _ \<Rightarrow> Inl Type_Confusion)"

definition ff_data_of :: "qnetd_instance \<Rightarrow> client_ref \<Rightarrow> fault + qnetd_algo_ffsplit_client_data" where
  "ff_data_of qi c = ff_client_data (cl_algorithm_data (qi_client qi c))"

definition ff_cluster_of :: "qnetd_instance \<Rightarrow> cluster_ref \<Rightarrow> fault + qnetd_algo_ffsplit_cluster_data" where
  "ff_cluster_of qi k = ff_cluster_data (cs_algorithm_data (qi_cluster qi k))"

definition ff_set_client ::
    "client_ref \<Rightarrow> qnetd_algo_ffsplit_client_data \<Rightarrow> qnetd_instance \<Rightarrow> qnetd_instance" where
  "ff_set_client c d = set_client_data c (Ffsplit_Client_Data d)"

definition ff_set_cluster ::
    "cluster_ref \<Rightarrow> qnetd_algo_ffsplit_cluster_data \<Rightarrow> qnetd_instance \<Rightarrow> qnetd_instance" where
  "ff_set_cluster k d = set_cluster_data k (Ffsplit_Cluster_Data d)"

definition ff_set_state ::
    "cluster_ref \<Rightarrow> qnetd_algo_ffsplit_cluster_data \<Rightarrow> qnetd_algo_ffsplit_cluster_state \<Rightarrow>
     qnetd_instance \<Rightarrow> qnetd_instance" where
  "ff_set_state k d s = ff_set_cluster k (d\<lparr>ffc_cluster_state := s\<rparr>)"

definition qnetd_algo_ffsplit_client_init ::
    "allocator \<Rightarrow> client_ref \<Rightarrow> qnetd_instance \<Rightarrow> fault + (tlv_reply_error_code \<times> qnetd_instance)" where
  "qnetd_algo_ffsplit_client_init al c qi =
     bindE (cluster_of qi c) (\<lambda>k.
       if qnetd_cluster_size qi k = 1 \<and> \<not> al Malloc_Cluster_Algo_Data
       then Inr (TLV_REPLY_ERROR_CODE_INTERNAL_ERROR, qi)
       else let qi1 = (if qnetd_cluster_size qi k = 1
                       then ff_set_cluster k
                              \<lparr>ffc_cluster_state = FFSPLIT_CLUSTER_WAITING_FOR_CHANGE,
                               ffc_quorate_partition_node_list = node_list_init\<rparr> qi
                       else qi)
            in if \<not> al Malloc_Client_Algo_Data then Inr (TLV_REPLY_ERROR_CODE_INTERNAL_ERROR, qi1)
               else Inr (TLV_REPLY_ERROR_CODE_NO_ERROR,
                 ff_set_client c \<lparr>ff_client_state = FFSPLIT_CLIENT_WAITING_FOR_CHANGE,
                                  ff_vote_info_expected_seq_num = 0\<rparr> qi1))"

section \<open>Selection of the partition\<close>

definition ff_preferred_node_id :: "tlv_tie_breaker \<Rightarrow> node_list \<Rightarrow> fault + u32" where
  "ff_preferred_node_id tb config_node_list =
     (case tb_mode tb of
        TLV_TIE_BREAKER_MODE_LOWEST \<Rightarrow>
          (case config_node_list of
             [] \<Rightarrow> Inl Assert_Failure
           | first # rest \<Rightarrow>
               Inr (foldl (\<lambda>p n. if nl_node_id n < p then nl_node_id n else p)
                      (nl_node_id first) config_node_list))
      | TLV_TIE_BREAKER_MODE_HIGHEST \<Rightarrow>
          (case config_node_list of
             [] \<Rightarrow> Inl Assert_Failure
           | first # rest \<Rightarrow>
               Inr (foldl (\<lambda>p n. if nl_node_id n > p then nl_node_id n else p)
                      (nl_node_id first) config_node_list))
      | TLV_TIE_BREAKER_MODE_NODE_ID \<Rightarrow> Inr (tb_node_id tb)
      | TLV_TIE_BREAKER_MODE_OTHER w \<Rightarrow> Inl Exit_Failure)"

definition qnetd_algo_ffsplit_is_preferred_partition ::
    "qnetd_client \<Rightarrow> node_list \<Rightarrow> node_list \<Rightarrow> fault + bool" where
  "qnetd_algo_ffsplit_is_preferred_partition client config_node_list membership_node_list =
     bindE (ff_preferred_node_id (cl_tie_breaker client) config_node_list) (\<lambda>preferred_node_id.
       Inr (node_list_find_node_id membership_node_list preferred_node_id \<noteq> None))"

text \<open>
  The lists that count for a client of the cluster: the stored ones, or, for the client that runs
  the algorithm, the ones of the message at hand. A leaving client does not count (\<open>None\<close>).
\<close>

definition ff_config_of :: "qnetd_client \<Rightarrow> bool \<Rightarrow> node_list \<Rightarrow> qnetd_client \<Rightarrow> node_list option" where
  "ff_config_of client leaving config_node_list iter =
     (if cl_node_id iter = cl_node_id client
      then (if leaving then None else Some config_node_list)
      else Some (cl_configuration_node_list iter))"

definition ff_membership_of ::
    "qnetd_client \<Rightarrow> bool \<Rightarrow> tlv_ring_id \<Rightarrow> node_list \<Rightarrow> qnetd_client \<Rightarrow>
     (tlv_ring_id \<times> node_list) option" where
  "ff_membership_of client leaving ring_id membership_node_list iter =
     (if cl_node_id iter = cl_node_id client
      then (if leaving then None else Some (ring_id, membership_node_list))
      else Some (cl_last_ring_id iter, cl_last_membership_node_list iter))"

definition node_list_subset :: "node_list \<Rightarrow> node_list \<Rightarrow> bool" where
  "node_list_subset l1 l2 \<longleftrightarrow> list_all (\<lambda>n. node_list_find_node_id l2 (nl_node_id n) \<noteq> None) l1"

definition ff_configs_match ::
    "qnetd_instance \<Rightarrow> cluster_ref \<Rightarrow> qnetd_client \<Rightarrow> bool \<Rightarrow> node_list \<Rightarrow> bool" where
  "ff_configs_match qi k client leaving config_node_list \<longleftrightarrow>
     list_all (\<lambda>(c1, iter1). list_all (\<lambda>(c2, iter2).
       c1 = c2 \<or>
       (case ff_config_of client leaving config_node_list iter1 of
          None \<Rightarrow> True
        | Some l1 \<Rightarrow>
            (case ff_config_of client leaving config_node_list iter2 of
               None \<Rightarrow> True
             | Some l2 \<Rightarrow> node_list_subset l1 l2)))
       (cluster_views qi k)) (cluster_views qi k)"

definition ff_memberships_match ::
    "qnetd_instance \<Rightarrow> cluster_ref \<Rightarrow> qnetd_client \<Rightarrow> bool \<Rightarrow> tlv_ring_id \<Rightarrow> node_list \<Rightarrow> bool" where
  "ff_memberships_match qi k client leaving ring_id membership_node_list \<longleftrightarrow>
     list_all (\<lambda>(c1, iter1).
       case ff_membership_of client leaving ring_id membership_node_list iter1 of
         None \<Rightarrow> True
       | Some (ring_id1, membership1) \<Rightarrow>
           list_all (\<lambda>node1.
             case qnetd_cluster_find_client_by_node_id qi k (nl_node_id node1) of
               None \<Rightarrow> True
             | Some c2 \<Rightarrow>
                 (case ff_membership_of client leaving ring_id membership_node_list (qi_client qi c2) of
                    None \<Rightarrow> True
                  | Some (ring_id2, membership2) \<Rightarrow>
                      tlv_ring_id_eq ring_id1 ring_id2 \<and> node_list_subset membership1 membership2))
             membership1) (cluster_views qi k)"

definition qnetd_algo_ffsplit_is_membership_stable ::
    "qnetd_instance \<Rightarrow> cluster_ref \<Rightarrow> qnetd_client \<Rightarrow> bool \<Rightarrow> tlv_ring_id \<Rightarrow> node_list \<Rightarrow> node_list \<Rightarrow> bool" where
  "qnetd_algo_ffsplit_is_membership_stable qi k client leaving ring_id config_node_list
     membership_node_list \<longleftrightarrow>
     ff_configs_match qi k client leaving config_node_list \<and>
     ff_memberships_match qi k client leaving ring_id membership_node_list"

text \<open>Number of connected clients of a list, and of those with a pass and a fail result.\<close>

fun ff_stats_loop ::
    "qnetd_instance \<Rightarrow> cluster_ref \<Rightarrow> client_ref \<Rightarrow> tlv_heuristics \<Rightarrow> node_list \<Rightarrow> nat \<times> nat \<times> nat \<Rightarrow>
     nat \<times> nat \<times> nat" where
  "ff_stats_loop qi k c h [] acc = acc"
| "ff_stats_loop qi k c h (node # nodes) (n, pass, fail) =
     ff_stats_loop qi k c h nodes
       (case qnetd_cluster_find_client_by_node_id qi k (nl_node_id node) of
          None \<Rightarrow> (n, pass, fail)
        | Some i \<Rightarrow>
            let ih = (if i = c then h else cl_last_heuristics (qi_client qi i))
            in (n + 1,
                if ih = TLV_HEURISTICS_PASS then pass + 1 else pass,
                if ih = TLV_HEURISTICS_FAIL then fail + 1 else fail))"

type_synonym ff_candidate = "client_ref \<times> node_list \<times> node_list \<times> tlv_heuristics"

definition qnetd_algo_ffsplit_get_active_clients_in_partition_stats ::
    "qnetd_instance \<Rightarrow> cluster_ref \<Rightarrow> ff_candidate option \<Rightarrow> nat \<times> nat \<times> nat" where
  "qnetd_algo_ffsplit_get_active_clients_in_partition_stats qi k cand =
     (case cand of
        None \<Rightarrow> (0, 0, 0)
      | Some (c, config_node_list, membership_node_list, h) \<Rightarrow>
          ff_stats_loop qi k c h membership_node_list (0, 0, 0))"

text \<open>The score is computed in \<open>size_t\<close>; the difference in parentheses may wrap around.\<close>

definition ff_score :: "nat \<times> nat \<times> nat \<Rightarrow> u64" where
  "ff_score stats = (case stats of (n, pass, fail) \<Rightarrow> of_nat n + (of_nat pass - of_nat fail))"

definition qnetd_algo_ffsplit_partition_cmp ::
    "qnetd_instance \<Rightarrow> cluster_ref \<Rightarrow> ff_candidate \<Rightarrow> ff_candidate option \<Rightarrow> node_list \<Rightarrow> bool \<Rightarrow> fault + int" where
  "qnetd_algo_ffsplit_partition_cmp qi k cand1 cand2 quorate_partition_node_list keep_active =
     (case cand1 of (c1, config1, membership1, h1) \<Rightarrow>
        if node_list_size config1 mod 2 \<noteq> 0
        then Inr (if node_list_size membership1 > node_list_size config1 div 2 then 1 else 0)
        else if node_list_size membership1 > node_list_size config1 div 2 then Inr 1
        else if node_list_size membership1 < node_list_size config1 div 2 then Inr 0
        else
          let stats1 = qnetd_algo_ffsplit_get_active_clients_in_partition_stats qi k (Some cand1);
              stats2 = qnetd_algo_ffsplit_get_active_clients_in_partition_stats qi k cand2
          in if ff_score stats1 > ff_score stats2 then Inr 1
             else if ff_score stats1 < ff_score stats2 then Inr 0
             else if fst stats1 > fst stats2 then Inr 1
             else if fst stats1 < fst stats2 then Inr 0
             else let in1 = node_list_find_node_id quorate_partition_node_list
                              (cl_node_id (qi_client qi c1)) \<noteq> None;
                      in2 = (case cand2 of
                               None \<Rightarrow> False
                             | Some (c2, rest) \<Rightarrow>
                                 node_list_find_node_id quorate_partition_node_list
                                   (cl_node_id (qi_client qi c2)) \<noteq> None);
                      use = keep_active \<and> cand2 \<noteq> None
                  in if use \<and> in1 \<and> \<not> in2 then Inr 1
                     else if use \<and> \<not> in1 \<and> in2 then Inr 0
                     else bindE (qnetd_algo_ffsplit_is_preferred_partition (qi_client qi c1) config1 membership1)
                            (\<lambda>p. Inr (if p then 1 else 0)))"

fun ff_select_loop ::
    "qnetd_instance \<Rightarrow> cluster_ref \<Rightarrow> qnetd_client \<Rightarrow> bool \<Rightarrow> node_list \<Rightarrow> node_list \<Rightarrow> node_list \<Rightarrow>
     tlv_heuristics \<Rightarrow> bool \<Rightarrow> (client_ref \<times> qnetd_client) list \<Rightarrow> ff_candidate option \<Rightarrow>
     fault + ff_candidate option" where
  "ff_select_loop qi k client leaving config membership qpnl h keep_active [] best = Inr best"
| "ff_select_loop qi k client leaving config membership qpnl h keep_active ((i, iter) # views) best =
     (if cl_node_id iter = cl_node_id client \<and> leaving
      then ff_select_loop qi k client leaving config membership qpnl h keep_active views best
      else let cand = (if cl_node_id iter = cl_node_id client then (i, config, membership, h)
                       else (i, cl_configuration_node_list iter, cl_last_membership_node_list iter,
                             cl_last_heuristics iter))
           in bindE (qnetd_algo_ffsplit_partition_cmp qi k cand best qpnl keep_active) (\<lambda>r.
                ff_select_loop qi k client leaving config membership qpnl h keep_active views
                  (if r > 0 then Some cand else best)))"

definition qnetd_algo_ffsplit_select_partition ::
    "qnetd_instance \<Rightarrow> cluster_ref \<Rightarrow> qnetd_client \<Rightarrow> bool \<Rightarrow> node_list \<Rightarrow> node_list \<Rightarrow> node_list \<Rightarrow>
     tlv_heuristics \<Rightarrow> fault + node_list option" where
  "qnetd_algo_ffsplit_select_partition qi k client leaving config membership qpnl h =
     (let keep_active = list_all (\<lambda>(i, iter).
            cl_keep_active_partition_tie_breaker iter \<noteq> TLV_KEEP_ACTIVE_PARTITION_TIE_BREAKER_DISABLED)
            (cluster_views qi k)
      in bindE (ff_select_loop qi k client leaving config membership qpnl h keep_active
                  (cluster_views qi k) None) (\<lambda>best.
           Inr (case best of None \<Rightarrow> None | Some (c, cfg, m, hh) \<Rightarrow> Some m)))"

section \<open>Votes\<close>

fun ff_update_loop ::
    "u32 \<Rightarrow> bool \<Rightarrow> node_list option \<Rightarrow> client_ref list \<Rightarrow> qnetd_instance \<Rightarrow> fault + qnetd_instance" where
  "ff_update_loop node_id leaving qpnl [] qi = Inr qi"
| "ff_update_loop node_id leaving qpnl (i # refs) qi =
     bindE (ff_data_of qi i) (\<lambda>d.
       let iter_id = cl_node_id (qi_client qi i);
           s = (if iter_id = node_id \<and> leaving then FFSPLIT_CLIENT_WAITING_FOR_CHANGE
                else case qpnl of
                       None \<Rightarrow> FFSPLIT_CLIENT_SENDING_NACK
                     | Some l \<Rightarrow>
                         if node_list_find_node_id l iter_id = None then FFSPLIT_CLIENT_SENDING_NACK
                         else FFSPLIT_CLIENT_SENDING_ACK)
       in ff_update_loop node_id leaving qpnl refs (ff_set_client i (d\<lparr>ff_client_state := s\<rparr>) qi))"

definition qnetd_algo_ffsplit_update_nodes_state ::
    "cluster_ref \<Rightarrow> client_ref \<Rightarrow> bool \<Rightarrow> node_list option \<Rightarrow> qnetd_instance \<Rightarrow> fault + qnetd_instance" where
  "qnetd_algo_ffsplit_update_nodes_state k c leaving qpnl qi =
     ff_update_loop (cl_node_id (qi_client qi c)) leaving qpnl (members qi k) qi"

definition ff_vote_to_send :: "bool \<Rightarrow> qnetd_algo_ffsplit_client_state \<Rightarrow> tlv_vote" where
  "ff_vote_to_send send_acks s =
     (if send_acks
      then (if s = FFSPLIT_CLIENT_SENDING_ACK then TLV_VOTE_ACK else TLV_VOTE_UNDEFINED)
      else (if s = FFSPLIT_CLIENT_SENDING_NACK then TLV_VOTE_NACK else TLV_VOTE_UNDEFINED))"

text \<open>When sending fails it is the client that runs the algorithm that is marked for disconnection.\<close>

definition ff_send_one ::
    "allocator \<Rightarrow> client_ref \<Rightarrow> client_ref \<Rightarrow> qnetd_algo_ffsplit_client_data \<Rightarrow> tlv_ring_id \<Rightarrow> tlv_vote \<Rightarrow>
     qnetd_instance \<Rightarrow> qnetd_instance" where
  "ff_send_one al c i d ring_id vote qi =
     (let d' = d\<lparr>ff_vote_info_expected_seq_num := ff_vote_info_expected_seq_num d + 1\<rparr>;
          qi1 = ff_set_client i d' qi
      in case on_client i (qnetd_client_send_vote_info al (ff_vote_info_expected_seq_num d') ring_id vote) qi1 of
           (r, qi2) \<Rightarrow>
             if r = -1 then upd_client c (\<lambda>cl. cl\<lparr>cl_schedule_disconnect := True\<rparr>) qi2 else qi2)"

fun ff_send_loop ::
    "allocator \<Rightarrow> client_ref \<Rightarrow> bool \<Rightarrow> tlv_ring_id \<Rightarrow> bool \<Rightarrow> client_ref list \<Rightarrow> nat \<Rightarrow> qnetd_instance \<Rightarrow>
     fault + (nat \<times> qnetd_instance)" where
  "ff_send_loop al c leaving ring_id send_acks [] sent qi = Inr (sent, qi)"
| "ff_send_loop al c leaving ring_id send_acks (i # refs) sent qi =
     (if cl_node_id (qi_client qi i) = cl_node_id (qi_client qi c) \<and> leaving
      then ff_send_loop al c leaving ring_id send_acks refs sent qi
      else let ring_id_to_send = (if cl_node_id (qi_client qi i) = cl_node_id (qi_client qi c)
                                  then ring_id else cl_last_ring_id (qi_client qi i))
           in bindE (ff_data_of qi i) (\<lambda>d.
                let vote = ff_vote_to_send send_acks (ff_client_state d)
                in if vote \<noteq> TLV_VOTE_UNDEFINED
                   then ff_send_loop al c leaving ring_id send_acks refs (sent + 1)
                          (ff_send_one al c i d ring_id_to_send vote qi)
                   else ff_send_loop al c leaving ring_id send_acks refs sent qi))"

definition qnetd_algo_ffsplit_send_votes ::
    "allocator \<Rightarrow> cluster_ref \<Rightarrow> client_ref \<Rightarrow> bool \<Rightarrow> tlv_ring_id \<Rightarrow> bool \<Rightarrow> qnetd_instance \<Rightarrow>
     fault + (nat \<times> qnetd_instance)" where
  "qnetd_algo_ffsplit_send_votes al k c leaving ring_id send_acks qi =
     ff_send_loop al c leaving ring_id send_acks (members qi k) 0 qi"

fun ff_count_sending :: "qnetd_instance \<Rightarrow> bool \<Rightarrow> client_ref list \<Rightarrow> fault + nat" where
  "ff_count_sending qi sending_acks [] = Inr 0"
| "ff_count_sending qi sending_acks (i # refs) =
     bindE (ff_data_of qi i) (\<lambda>d.
     bindE (ff_count_sending qi sending_acks refs) (\<lambda>n.
       Inr (if ff_client_state d =
               (if sending_acks then FFSPLIT_CLIENT_SENDING_ACK else FFSPLIT_CLIENT_SENDING_NACK)
            then n + 1 else n)))"

definition qnetd_algo_ffsplit_no_clients_in_sending_state ::
    "cluster_ref \<Rightarrow> bool \<Rightarrow> qnetd_instance \<Rightarrow> fault + nat" where
  "qnetd_algo_ffsplit_no_clients_in_sending_state k sending_acks qi =
     ff_count_sending qi sending_acks (members qi k)"

text \<open>The common end of two handlers: send the ACKs, and wait for a change when there are none.\<close>

definition ff_send_acks ::
    "allocator \<Rightarrow> cluster_ref \<Rightarrow> client_ref \<Rightarrow> bool \<Rightarrow> tlv_ring_id \<Rightarrow> qnetd_algo_ffsplit_cluster_data \<Rightarrow>
     qnetd_instance \<Rightarrow> fault + qnetd_instance" where
  "ff_send_acks al k c leaving ring_id d qi =
     (let d' = d\<lparr>ffc_cluster_state := FFSPLIT_CLUSTER_SENDING_ACKS\<rparr>
      in bindE (qnetd_algo_ffsplit_send_votes al k c leaving ring_id True (ff_set_cluster k d' qi))
           (\<lambda>(sent, qi').
             Inr (if sent = 0 then ff_set_state k d' FFSPLIT_CLUSTER_WAITING_FOR_CHANGE qi' else qi')))"

definition qnetd_algo_ffsplit_do ::
    "allocator \<Rightarrow> client_ref \<Rightarrow> bool \<Rightarrow> tlv_ring_id \<Rightarrow> node_list \<Rightarrow> node_list \<Rightarrow> tlv_heuristics \<Rightarrow>
     qnetd_instance \<Rightarrow> algo_result" where
  "qnetd_algo_ffsplit_do al c leaving ring_id config membership h qi0 =
     bindE (cluster_of qi0 c) (\<lambda>k.
     bindE (ff_cluster_of qi0 k) (\<lambda>d0.
       let d1 = d0\<lparr>ffc_cluster_state := FFSPLIT_CLUSTER_WAITING_FOR_STABLE_MEMBERSHIP\<rparr>;
           qi = ff_set_cluster k d1 qi0;
           client = qi_client qi c
       in if \<not> qnetd_algo_ffsplit_is_membership_stable qi k client leaving ring_id config membership
          then Inr (TLV_REPLY_ERROR_CODE_NO_ERROR, Some TLV_VOTE_WAIT_FOR_REPLY, qi)
          else bindE (qnetd_algo_ffsplit_select_partition qi k client leaving config membership
                        (ffc_quorate_partition_node_list d1) h) (\<lambda>selected.
            case (case selected of
                    None \<Rightarrow> (0, node_list_init) | Some l \<Rightarrow> node_list_clone al l) of
              (r, qpnl) \<Rightarrow>
                let d2 = d1\<lparr>ffc_quorate_partition_node_list := qpnl\<rparr>
                in if r \<noteq> 0
                   then Inr (TLV_REPLY_ERROR_CODE_INTERNAL_ERROR, None, ff_set_cluster k d2 qi)
                   else bindE (qnetd_algo_ffsplit_update_nodes_state k c leaving selected
                                 (ff_set_cluster k d2 qi)) (\<lambda>qi1.
                     let d3 = d2\<lparr>ffc_cluster_state := FFSPLIT_CLUSTER_SENDING_NACKS\<rparr>
                     in bindE (qnetd_algo_ffsplit_send_votes al k c leaving ring_id False
                                 (ff_set_cluster k d3 qi1)) (\<lambda>(nacks, qi2).
                          if nacks = 0
                          then bindE (ff_send_acks al k c leaving ring_id d3 qi2) (\<lambda>qi3.
                                 Inr (TLV_REPLY_ERROR_CODE_NO_ERROR, Some TLV_VOTE_NO_CHANGE, qi3))
                          else Inr (TLV_REPLY_ERROR_CODE_NO_ERROR, Some TLV_VOTE_NO_CHANGE, qi2))))))"

section \<open>Operations\<close>

definition qnetd_algo_ffsplit_config_node_list_received ::
    "allocator \<Rightarrow> client_ref \<Rightarrow> node_list \<Rightarrow> bool \<Rightarrow> qnetd_instance \<Rightarrow> algo_result" where
  "qnetd_algo_ffsplit_config_node_list_received al c nodes initial qi =
     (let client = qi_client qi c
      in if node_list_size nodes = 0
         then Inr (TLV_REPLY_ERROR_CODE_INVALID_CONFIG_NODE_LIST, None, qi)
         else if node_list_find_node_id nodes (cl_node_id client) = None
         then Inr (TLV_REPLY_ERROR_CODE_INVALID_CONFIG_NODE_LIST, None, qi)
         else if initial \<or> node_list_size (cl_last_membership_node_list client) = 0
         then Inr (TLV_REPLY_ERROR_CODE_NO_ERROR, Some TLV_VOTE_ASK_LATER, qi)
         else qnetd_algo_ffsplit_do al c False (cl_last_ring_id client) nodes
                (cl_last_membership_node_list client) (cl_last_heuristics client) qi)"

definition qnetd_algo_ffsplit_membership_node_list_received ::
    "allocator \<Rightarrow> client_ref \<Rightarrow> tlv_ring_id \<Rightarrow> node_list \<Rightarrow> tlv_heuristics \<Rightarrow> qnetd_instance \<Rightarrow> algo_result" where
  "qnetd_algo_ffsplit_membership_node_list_received al c ring_id nodes heuristics qi =
     (let client = qi_client qi c
      in if node_list_size nodes = 0
         then Inr (TLV_REPLY_ERROR_CODE_INVALID_MEMBERSHIP_NODE_LIST, None, qi)
         else if node_list_find_node_id nodes (cl_node_id client) = None
         then Inr (TLV_REPLY_ERROR_CODE_INVALID_MEMBERSHIP_NODE_LIST, None, qi)
         else if node_list_size (cl_configuration_node_list client) = 0
         then Inr (TLV_REPLY_ERROR_CODE_NO_ERROR, Some TLV_VOTE_ASK_LATER, qi)
         else qnetd_algo_ffsplit_do al c False ring_id (cl_configuration_node_list client) nodes
                heuristics qi)"

definition qnetd_algo_ffsplit_quorum_node_list_received ::
    "allocator \<Rightarrow> client_ref \<Rightarrow> qnetd_instance \<Rightarrow> algo_result" where
  "qnetd_algo_ffsplit_quorum_node_list_received al c qi =
     Inr (TLV_REPLY_ERROR_CODE_NO_ERROR, Some TLV_VOTE_NO_CHANGE, qi)"

definition qnetd_algo_ffsplit_client_disconnect ::
    "allocator \<Rightarrow> client_ref \<Rightarrow> bool \<Rightarrow> qnetd_instance \<Rightarrow> fault + qnetd_instance" where
  "qnetd_algo_ffsplit_client_disconnect al c server_going_down qi =
     (let client = qi_client qi c
      in bindE (cluster_of qi c) (\<lambda>k.
         bindE (if server_going_down then Inr qi
                else bindE (qnetd_algo_ffsplit_do al c True (cl_last_ring_id client)
                              (cl_configuration_node_list client) (cl_last_membership_node_list client)
                              (cl_last_heuristics client) qi) (\<lambda>(e, v, qi'). Inr qi')) (\<lambda>qi1.
           let qi2 = free_client_data c qi1
           in if qnetd_cluster_size qi2 k = 1
              then bindE (ff_cluster_of qi2 k) (\<lambda>d. Inr (free_cluster_data k qi2))
              else Inr qi2)))"

definition qnetd_algo_ffsplit_ask_for_vote_received ::
    "allocator \<Rightarrow> client_ref \<Rightarrow> qnetd_instance \<Rightarrow> algo_result" where
  "qnetd_algo_ffsplit_ask_for_vote_received al c qi =
     Inr (TLV_REPLY_ERROR_CODE_UNSUPPORTED_DECISION_ALGORITHM_MESSAGE, None, qi)"

definition qnetd_algo_ffsplit_vote_info_reply_received ::
    "allocator \<Rightarrow> client_ref \<Rightarrow> u32 \<Rightarrow> qnetd_instance \<Rightarrow> fault + (tlv_reply_error_code \<times> qnetd_instance)" where
  "qnetd_algo_ffsplit_vote_info_reply_received al c msg_seq_num qi =
     bindE (cluster_of qi c) (\<lambda>k.
     bindE (ff_data_of qi c) (\<lambda>d.
       if ff_vote_info_expected_seq_num d \<noteq> msg_seq_num then Inr (TLV_REPLY_ERROR_CODE_NO_ERROR, qi)
       else let qi1 = ff_set_client c (d\<lparr>ff_client_state := FFSPLIT_CLIENT_WAITING_FOR_CHANGE\<rparr>) qi
            in bindE (ff_cluster_of qi1 k) (\<lambda>cd.
                 if ffc_cluster_state cd = FFSPLIT_CLUSTER_SENDING_NACKS
                 then bindE (qnetd_algo_ffsplit_no_clients_in_sending_state k False qi1) (\<lambda>n.
                        if n = 0
                        then bindE (ff_send_acks al k c False (cl_last_ring_id (qi_client qi1 c)) cd qi1)
                               (\<lambda>qi2. Inr (TLV_REPLY_ERROR_CODE_NO_ERROR, qi2))
                        else Inr (TLV_REPLY_ERROR_CODE_NO_ERROR, qi1))
                 else if ffc_cluster_state cd = FFSPLIT_CLUSTER_SENDING_ACKS
                 then bindE (qnetd_algo_ffsplit_no_clients_in_sending_state k True qi1) (\<lambda>n.
                        Inr (TLV_REPLY_ERROR_CODE_NO_ERROR,
                             if n = 0 then ff_set_state k cd FFSPLIT_CLUSTER_WAITING_FOR_CHANGE qi1
                             else qi1))
                 else Inr (TLV_REPLY_ERROR_CODE_NO_ERROR, qi1))))"

definition qnetd_algo_ffsplit_heuristics_change_received ::
    "allocator \<Rightarrow> client_ref \<Rightarrow> tlv_heuristics \<Rightarrow> qnetd_instance \<Rightarrow> algo_result" where
  "qnetd_algo_ffsplit_heuristics_change_received al c heuristics qi =
     (let client = qi_client qi c
      in if node_list_size (cl_configuration_node_list client) = 0 \<or>
            node_list_size (cl_last_membership_node_list client) = 0
         then Inr (TLV_REPLY_ERROR_CODE_NO_ERROR, Some TLV_VOTE_ASK_LATER, qi)
         else qnetd_algo_ffsplit_do al c False (cl_last_ring_id client)
                (cl_configuration_node_list client) (cl_last_membership_node_list client)
                heuristics qi)"

definition qnetd_algo_ffsplit_timer_callback ::
    "allocator \<Rightarrow> client_ref \<Rightarrow> qnetd_instance \<Rightarrow>
     fault + (tlv_reply_error_code \<times> bool \<times> bool \<times> tlv_vote option \<times> qnetd_instance)" where
  "qnetd_algo_ffsplit_timer_callback al c qi =
     Inr (TLV_REPLY_ERROR_CODE_NO_ERROR, False, False, None, qi)"

definition qnetd_algo_ffsplit :: qnetd_algorithm where
  "qnetd_algo_ffsplit =
     \<lparr>alg_init = qnetd_algo_ffsplit_client_init,
      alg_config_node_list_received = qnetd_algo_ffsplit_config_node_list_received,
      alg_membership_node_list_received = qnetd_algo_ffsplit_membership_node_list_received,
      alg_quorum_node_list_received = qnetd_algo_ffsplit_quorum_node_list_received,
      alg_client_disconnect = qnetd_algo_ffsplit_client_disconnect,
      alg_ask_for_vote_received = qnetd_algo_ffsplit_ask_for_vote_received,
      alg_vote_info_reply_received = qnetd_algo_ffsplit_vote_info_reply_received,
      alg_heuristics_change_received = qnetd_algo_ffsplit_heuristics_change_received,
      alg_timer_callback = qnetd_algo_ffsplit_timer_callback\<rparr>"

section \<open>The contract\<close>

lemma same_core_ff [simp, intro]:
  "same_core qi (ff_set_client c d qi)" "same_core qi (ff_set_cluster k e qi)"
  "same_core qi (ff_set_state k e s qi)"
  by (simp_all add: ff_set_client_def ff_set_cluster_def ff_set_state_def)

lemma same_core_ff_iff [simp]:
  "same_core (ff_set_client c d a) b \<longleftrightarrow> same_core a b"
  "same_core a (ff_set_client c d b) \<longleftrightarrow> same_core a b"
  "same_core (ff_set_cluster k e a) b \<longleftrightarrow> same_core a b"
  "same_core a (ff_set_cluster k e b) \<longleftrightarrow> same_core a b"
  "same_core (ff_set_state k e s a) b \<longleftrightarrow> same_core a b"
  "same_core a (ff_set_state k e s b) \<longleftrightarrow> same_core a b"
  using same_core_ff same_core_trans same_core_sym by blast+

lemma ff_update_loop_core: "ff_update_loop n l q refs qi = Inr qi' \<Longrightarrow> same_core qi qi'"
proof (induction refs arbitrary: qi)
  case (Cons i refs)
  from Cons.prems obtain d where "ff_update_loop n l q refs (ff_set_client i d qi) = Inr qi'"
    by (auto simp: bindE_Inr_iff Let_def)
  from Cons.IH [OF this] show ?case by simp
qed simp

lemma ff_send_one_core: "same_core qi (ff_send_one al c i d r v qi)"
proof -
  let ?d = "d\<lparr>ff_vote_info_expected_seq_num := ff_vote_info_expected_seq_num d + 1\<rparr>"
  let ?q1 = "ff_set_client i ?d qi"
  obtain res q2 where s: "on_client i (qnetd_client_send_vote_info al
      (ff_vote_info_expected_seq_num ?d) r v) ?q1 = (res, q2)" by fastforce
  have "same_core ?q1 q2"
    by (rule same_core_on_client [OF s]) (rule client_core_send_vote_info)
  then have "same_core qi q2"
    using same_core_ff(1) by (rule same_core_trans [rotated])
  moreover have "same_core q2 (upd_client c (\<lambda>cl. cl\<lparr>cl_schedule_disconnect := True\<rparr>) q2)"
    by (rule same_core_upd_client) (simp add: client_core_def)
  ultimately show ?thesis
    using s by (auto simp: ff_send_one_def Let_def intro: same_core_trans)
qed

lemma ff_send_loop_core:
  "ff_send_loop al c l r a refs n qi = Inr (m, qi') \<Longrightarrow> same_core qi qi'"
proof (induction refs arbitrary: n qi)
  case (Cons i refs)
  show ?case
  proof (cases "cl_node_id (qi_client qi i) = cl_node_id (qi_client qi c) \<and> l")
    case True
    with Cons show ?thesis by simp
  next
    case False
    from Cons.prems False obtain d r' v where
      "ff_send_loop al c l r a refs (n + 1) (ff_send_one al c i d r' v qi) = Inr (m, qi') \<or>
       ff_send_loop al c l r a refs n qi = Inr (m, qi')"
      by (auto simp: bindE_Inr_iff Let_def split: if_splits)
    with Cons.IH ff_send_one_core show ?thesis by (blast intro: same_core_trans)
  qed
qed simp

lemma ff_send_acks_core: "ff_send_acks al k c l r d qi = Inr qi' \<Longrightarrow> same_core qi qi'"
  unfolding ff_send_acks_def qnetd_algo_ffsplit_send_votes_def Let_def
  by (auto simp: bindE_Inr_iff split: if_splits dest!: ff_send_loop_core)

lemma ffsplit_do_core: "keeps_core qi (qnetd_algo_ffsplit_do al c l r cfg m h qi)"
  unfolding qnetd_algo_ffsplit_do_def Let_def qnetd_algo_ffsplit_update_nodes_state_def
    qnetd_algo_ffsplit_send_votes_def
  by (intro keeps_core_intros keeps_core_Inr; (simp; fail)?)
     (auto dest!: ff_update_loop_core ff_send_loop_core ff_send_acks_core
        intro: same_core_trans same_core_trans [OF same_core_trans])

lemma ffsplit_vote_info_reply_core:
  assumes "qnetd_algo_ffsplit_vote_info_reply_received al c n qi = Inr (e, qi')"
  shows "same_core qi qi'"
  using assms unfolding qnetd_algo_ffsplit_vote_info_reply_received_def Let_def
  by (auto simp: bindE_Inr_iff split: if_splits dest!: ff_send_acks_core)

lemma ffsplit_disconnect_core:
  assumes "qnetd_algo_ffsplit_client_disconnect al c down qi = Inr qi'"
  shows "same_core qi qi'"
  using assms unfolding qnetd_algo_ffsplit_client_disconnect_def Let_def
  by (auto simp: bindE_Inr_iff split: if_splits dest!: keeps_coreD [OF ffsplit_do_core]
      intro: same_core_data_trans)

lemmas algo_ffsplit_defs = qnetd_algo_ffsplit_def qnetd_algo_ffsplit_client_init_def
  qnetd_algo_ffsplit_config_node_list_received_def
  qnetd_algo_ffsplit_membership_node_list_received_def
  qnetd_algo_ffsplit_quorum_node_list_received_def qnetd_algo_ffsplit_ask_for_vote_received_def
  qnetd_algo_ffsplit_heuristics_change_received_def qnetd_algo_ffsplit_timer_callback_def

interpretation algo_ffsplit: decision_algorithm qnetd_algo_ffsplit
  by unfold_locales
     (auto simp: algo_ffsplit_defs Let_def bindE_Inr_iff split: if_splits
        dest: keeps_coreD [OF ffsplit_do_core] ffsplit_vote_info_reply_core ffsplit_disconnect_core)

end
