(* ===== verification/Example_State.thy ===== *)
theory Example_State
  imports Algo_Interface
begin

text \<open>
  A small state of the daemon on which the properties of the algorithms and of the handlers are
  exercised: one cluster (reference 5) with the clients 10 and 20, whose node ids are 1 and 2. The ring ids, the
  membership lists and the private data of the algorithm are arguments.
\<close>

definition ex_al :: allocator where
  "ex_al r = True"

definition ex_nodes :: "u32 list \<Rightarrow> node_list" where
  "ex_nodes ids = map (\<lambda>n. \<lparr>nl_node_id = n, nl_data_center_id = 0, nl_node_state = TLV_NODE_STATE_NOT_SET\<rparr>) ids"

definition ex_ring :: "u64 \<Rightarrow> tlv_ring_id" where
  "ex_ring s = \<lparr>rid_node_id = 1, rid_seq = s\<rparr>"

definition ex_settings :: qnetd_advanced_settings where
  "ex_settings =
     \<lparr>as_listen_backlog = 10, as_max_client_send_buffers = 10, as_max_client_send_size = 32768,
      as_max_client_receive_size = 32768, as_nss_db_dir = None, as_cert_nickname = None,
      as_heartbeat_interval_min = 1000, as_heartbeat_interval_max = 120000, as_dpd_enabled = True,
      as_lock_file = None, as_local_socket_file = None, as_set_local_socket_umask = False,
      as_local_socket_umask = 0, as_local_socket_gid = 0, as_local_socket_backlog = 10,
      as_ipc_max_clients = 10, as_ipc_max_send_size = 65536, as_ipc_max_receive_size = 4096,
      as_keep_active_partition_tie_breaker = TLV_KEEP_ACTIVE_PARTITION_TIE_BREAKER_DISABLED,
      as_dpd_interval_coefficient = \<lparr>dbl_value = Finite 2 0, dbl_times = (\<lambda>n. 2 * n)\<rparr>\<rparr>"

definition ex_client ::
    "u32 \<Rightarrow> client_algo_data \<Rightarrow> tlv_ring_id \<Rightarrow> u32 list \<Rightarrow> u32 list \<Rightarrow> qnetd_client" where
  "ex_client node_id d ring config membership =
     (qnetd_client_init 32768 10 32768)
       \<lparr>cl_preinit_received := True, cl_init_received := True, cl_cluster_name := Some [65],
        cl_node_id_set := True, cl_node_id := node_id, cl_algorithm_data := d,
        cl_tie_breaker := \<lparr>tb_mode = TLV_TIE_BREAKER_MODE_LOWEST, tb_node_id = 0\<rparr>,
        cl_cluster := Some 5, cl_last_ring_id := ring,
        cl_configuration_node_list := ex_nodes config, cl_last_membership_node_list := ex_nodes membership\<rparr>"

definition ex_instance :: "cluster_algo_data \<Rightarrow> qnetd_client \<Rightarrow> qnetd_client \<Rightarrow> qnetd_instance" where
  "ex_instance kd cl1 cl2 =
     \<lparr>qi_client = (\<lambda>c. if c = 10 then cl1 else cl2), qi_clients = [10, 20],
      qi_cluster = (\<lambda>k. \<lparr>cs_cluster_name = [65], cs_algorithm_data = kd, cs_client_list = [10, 20]\<rparr>),
      qi_clusters = [5], qi_max_clients = 0, qi_tls_supported = TLV_TLS_UNSUPPORTED,
      qi_tls_client_cert_required = False, qi_advanced_settings = ex_settings\<rparr>"

lemmas ex_defs = ex_nodes_def ex_ring_def ex_client_def ex_instance_def qnetd_client_init_def

lemma ex_wf: "cl_node_id cl1 = 1 \<Longrightarrow> cl_node_id cl2 = 2 \<Longrightarrow> cl_cluster cl1 = Some 5 \<Longrightarrow>
  cl_cluster cl2 = Some 5 \<Longrightarrow> cluster_list_wf (ex_instance kd cl1 cl2)"
  by (auto simp: cluster_list_wf_def ex_instance_def)

end
