(* ===== verification/Ffsplit_Props.thy ===== *)
theory Ffsplit_Props
  imports Algo_Ffsplit Example_State Msg_Roundtrip
begin

text \<open>
  Correctness of the fifty-fifty split algorithm: the selected partition holds at least half of
  the configured nodes, all clients that are to be acknowledged share one ring id, the score does
  not suffer from the wrap-around of \<open>size_t\<close>, and acknowledgements are sent only when no negative
  one is outstanding.
\<close>

section \<open>The selected partition\<close>

definition ff_candidate_of ::
    "qnetd_client \<Rightarrow> node_list \<Rightarrow> node_list \<Rightarrow> tlv_heuristics \<Rightarrow> client_ref \<times> qnetd_client \<Rightarrow> ff_candidate" where
  "ff_candidate_of client config membership h ci =
     (if cl_node_id (snd ci) = cl_node_id client then (fst ci, config, membership, h)
      else (fst ci, cl_configuration_node_list (snd ci), cl_last_membership_node_list (snd ci),
            cl_last_heuristics (snd ci)))"

lemma ff_select_loop_sound:
  assumes "ff_select_loop qi k client leaving config membership qpnl h keep views best = Inr best'"
  shows "best' = best \<or>
    (\<exists>ci\<in>set views. \<exists>b r. best' = Some (ff_candidate_of client config membership h ci) \<and>
       \<not> (cl_node_id (snd ci) = cl_node_id client \<and> leaving) \<and>
       qnetd_algo_ffsplit_partition_cmp qi k (ff_candidate_of client config membership h ci) b qpnl keep =
         Inr r \<and> r > 0)"
  using assms
proof (induction views arbitrary: best)
  case (Cons ci views)
  obtain i iter where ci: "ci = (i, iter)" by fastforce
  show ?case
  proof (cases "cl_node_id iter = cl_node_id client \<and> leaving")
    case True
    with Cons.prems Cons.IH [of best] ci show ?thesis by auto
  next
    case False
    define cand where "cand = ff_candidate_of client config membership h ci"
    have cand: "cand = (if cl_node_id iter = cl_node_id client then (i, config, membership, h)
        else (i, cl_configuration_node_list iter, cl_last_membership_node_list iter, cl_last_heuristics iter))"
      by (simp add: cand_def ff_candidate_of_def ci)
    from Cons.prems False obtain r where
      r: "qnetd_algo_ffsplit_partition_cmp qi k cand best qpnl keep = Inr r" and
      rec: "ff_select_loop qi k client leaving config membership qpnl h keep views
          (if r > 0 then Some cand else best) = Inr best'"
      unfolding ci by (auto simp: Let_def bindE_Inr_iff simp flip: cand)
    from Cons.IH [OF rec] r False show ?thesis
      unfolding cand_def by (cases "r > 0") (auto simp: ci)
  qed
qed simp

lemma ff_cmp_half:
  assumes "qnetd_algo_ffsplit_partition_cmp qi k (c, cfg, m, h) b qpnl keep = Inr r" and "r > 0"
  shows "length cfg \<le> 2 * length m"
proof (cases "length m < length cfg div 2")
  case True
  then show ?thesis
    using assms by (auto simp: qnetd_algo_ffsplit_partition_cmp_def node_list_size_def split: if_splits)
next
  case False
  show ?thesis
  proof (cases "even (length cfg)")
    case True
    with False show ?thesis by auto
  next
    case odd: False
    then have "\<not> length cfg mod 2 = 0" by presburger
    with assms have "length m > length cfg div 2"
      by (auto simp: qnetd_algo_ffsplit_partition_cmp_def node_list_size_def split: if_splits)
    then show ?thesis by presburger
  qed
qed

lemma ff_select_sound:
  assumes "qnetd_algo_ffsplit_select_partition qi k client leaving config membership qpnl h = Inr (Some l)"
  obtains i cfg ring where "i \<in> set (members qi k)"
    and "ff_membership_of client leaving ring_id membership (qi_client qi i) = Some (ring, l)"
    and "ff_config_of client leaving config (qi_client qi i) = Some cfg"
    and "length cfg \<le> 2 * length l"
proof -
  from assms obtain keep c cfg h' where
    "ff_select_loop qi k client leaving config membership qpnl h keep (cluster_views qi k) None =
       Inr (Some (c, cfg, l, h'))"
    unfolding qnetd_algo_ffsplit_select_partition_def Let_def
    by (auto simp: bindE_Inr_iff split: option.splits)
  from ff_select_loop_sound [OF this] obtain i b r where
    i: "i \<in> set (members qi k)" and
    c: "(c, cfg, l, h') = ff_candidate_of client config membership h (i, qi_client qi i)" and
    nl: "\<not> (cl_node_id (qi_client qi i) = cl_node_id client \<and> leaving)" and
    cmp: "qnetd_algo_ffsplit_partition_cmp qi k (c, cfg, l, h') b qpnl keep = Inr r" "r > 0"
    by (auto simp: cluster_views_def)
  show thesis
  proof (rule that [OF i _ _ ff_cmp_half [OF cmp]])
    show "ff_membership_of client leaving ring_id membership (qi_client qi i) =
        Some (if cl_node_id (qi_client qi i) = cl_node_id client then ring_id
              else cl_last_ring_id (qi_client qi i), l)"
      using c nl by (auto simp: ff_candidate_of_def ff_membership_of_def split: if_splits)
    show "ff_config_of client leaving config (qi_client qi i) = Some cfg"
      using c nl by (auto simp: ff_candidate_of_def ff_config_of_def split: if_splits)
  qed
qed

text \<open>In a stable membership every connected client whose node is in the list has its ring id.\<close>

lemma ff_stable_ring:
  assumes stable: "ff_memberships_match qi k client leaving ring_id membership"
    and i: "i \<in> set (members qi k)"
      "ff_membership_of client leaving ring_id membership (qi_client qi i) = Some (ring, l)"
    and j: "j \<in> set (members qi k)" "node_list_find_node_id l (node_of qi j) \<noteq> None"
      "ff_membership_of client leaving ring_id membership (qi_client qi j) = Some (ring', l')"
    and uniq: "sorted_wrt (<) (map (node_of qi) (members qi k))"
  shows "ring' = ring"
proof -
  from j(2) obtain n where n: "n \<in> set l" "nl_node_id n = node_of qi j"
    by (auto simp: node_ids_def)
  have inj: "inj_on (node_of qi) (set (members qi k))"
    using uniq strict_sorted_iff [of "map (node_of qi) (members qi k)"] by (auto simp: distinct_map)
  have find: "qnetd_cluster_find_client_by_node_id qi k (nl_node_id n) = Some j"
  proof (cases "qnetd_cluster_find_client_by_node_id qi k (nl_node_id n)")
    case None
    with j(1) n(2) show ?thesis
      unfolding qnetd_cluster_find_client_by_node_id_def by (auto simp: find_None_iff)
  next
    case (Some j')
    then have "j' \<in> set (members qi k)" "node_of qi j' = nl_node_id n"
      unfolding qnetd_cluster_find_client_by_node_id_def by (auto simp: find_Some_iff)
    with inj j(1) n(2) have "j' = j" by (auto dest: inj_onD)
    with Some show ?thesis by simp
  qed
  from stable i(1) have "list_all (\<lambda>node1.
             case qnetd_cluster_find_client_by_node_id qi k (nl_node_id node1) of
               None \<Rightarrow> True
             | Some c2 \<Rightarrow>
                 (case ff_membership_of client leaving ring_id membership (qi_client qi c2) of
                    None \<Rightarrow> True
                  | Some (ring_id2, membership2) \<Rightarrow>
                      tlv_ring_id_eq ring ring_id2 \<and> node_list_subset l membership2)) l"
    unfolding ff_memberships_match_def cluster_views_def list_all_iff [where xs = "map _ _"]
    by (auto simp: i(2))
  with n(1) have "case qnetd_cluster_find_client_by_node_id qi k (nl_node_id n) of
               None \<Rightarrow> True
             | Some c2 \<Rightarrow>
                 (case ff_membership_of client leaving ring_id membership (qi_client qi c2) of
                    None \<Rightarrow> True
                  | Some (ring_id2, membership2) \<Rightarrow>
                      tlv_ring_id_eq ring ring_id2 \<and> node_list_subset l membership2)"
    unfolding list_all_iff by (rule bspec [rotated])
  then show ?thesis by (simp add: find j(3))
qed

section \<open>Scores\<close>

lemma ff_stats_bounds:
  assumes "ff_stats_loop qi k c h nodes (n, p, f) = (n', p', f')" and "p + f \<le> n"
  shows "p' + f' \<le> n' \<and> n' \<le> n + length nodes"
  using assms
proof (induction nodes arbitrary: n p f)
  case (Cons x xs)
  let ?i = "qnetd_cluster_find_client_by_node_id qi k (nl_node_id x)"
  show ?case
  proof (cases ?i)
    case None
    with Cons.prems Cons.IH [of n p f] show ?thesis by simp
  next
    case (Some i)
    define ih where "ih = (if i = c then h else cl_last_heuristics (qi_client qi i))"
    have "ff_stats_loop qi k c h xs (n + 1, if ih = TLV_HEURISTICS_PASS then p + 1 else p,
        if ih = TLV_HEURISTICS_FAIL then f + 1 else f) = (n', p', f')"
      using Cons.prems(1) Some by (simp add: ih_def Let_def)
    from Cons.IH [OF this] Cons.prems(2) show ?thesis by (cases ih) auto
  qed
qed simp

lemma ff_score_nat:
  assumes "p + f \<le> n" and "n < 2 ^ 62"
  shows "unat (ff_score (n, p, f)) = n + p - f"
proof -
  have "ff_score (n, p, f) = of_nat (n + p - f)"
    using assms(1) by (simp add: ff_score_def of_nat_diff)
  moreover have "n + p - f < 2 ^ LENGTH(64)"
    using assms by simp
  ultimately show ?thesis
    by (simp only: unsigned_of_nat take_bit_nat_eq_self of_nat_id)
qed

section \<open>The states of the clients and the votes that are sent\<close>

text \<open>The vote that the algorithm wants a client to get, and what was handed to the client so far.\<close>

definition ff_state :: "qnetd_instance \<Rightarrow> client_ref \<Rightarrow> qnetd_algo_ffsplit_client_state option" where
  "ff_state qi i =
     (case cl_algorithm_data (qi_client qi i) of
        Ffsplit_Client_Data d \<Rightarrow> Some (ff_client_state d)
      | _ \<Rightarrow> None)"

definition sent_to :: "qnetd_instance \<Rightarrow> client_ref \<Rightarrow> send_buffer_list \<times> tlv_vote \<times> tlv_vote" where
  "sent_to qi i =
     (cl_send_buffer_list (qi_client qi i), cl_last_sent_vote (qi_client qi i),
      cl_last_sent_ack_nack_vote (qi_client qi i))"

definition ff_target :: "u32 \<Rightarrow> bool \<Rightarrow> node_list option \<Rightarrow> u32 \<Rightarrow> qnetd_algo_ffsplit_client_state" where
  "ff_target node_id leaving qpnl iter_id =
     (if iter_id = node_id \<and> leaving then FFSPLIT_CLIENT_WAITING_FOR_CHANGE
      else case qpnl of
             None \<Rightarrow> FFSPLIT_CLIENT_SENDING_NACK
           | Some l \<Rightarrow>
               if node_list_find_node_id l iter_id = None then FFSPLIT_CLIENT_SENDING_NACK
               else FFSPLIT_CLIENT_SENDING_ACK)"

lemma ff_data_state: "ff_data_of qi i = Inr d \<Longrightarrow> ff_state qi i = Some (ff_client_state d)"
  by (simp add: ff_data_of_def ff_client_data_def ff_state_def split: client_algo_data.splits)

lemma ff_set_client_result [simp]:
  "ff_state (ff_set_client i d qi) j = (if j = i then Some (ff_client_state d) else ff_state qi j)"
  "sent_to (ff_set_client i d qi) j = sent_to qi j"
  "node_of (ff_set_client i d qi) j = node_of qi j"
  "qi_cluster (ff_set_client i d qi) = qi_cluster qi"
  by (simp_all add: ff_set_client_def set_client_data_def upd_client_def ff_state_def sent_to_def)

lemma ff_set_cluster_result [simp]:
  "ff_state (ff_set_cluster k d qi) = ff_state qi" "sent_to (ff_set_cluster k d qi) = sent_to qi"
  "ff_state (ff_set_state k d s qi) = ff_state qi" "sent_to (ff_set_state k d s qi) = sent_to qi"
  "qi_client (ff_set_cluster k d qi) = qi_client qi" "members (ff_set_cluster k d qi) j = members qi j"
  by (auto simp: ff_set_state_def ff_set_cluster_def set_cluster_data_def upd_cluster_def ff_state_def
      sent_to_def fun_eq_iff)

lemma ff_update_loop_result:
  assumes "ff_update_loop n leaving q refs qi = Inr qi'"
  shows "ff_state qi' i = (if i \<in> set refs then Some (ff_target n leaving q (node_of qi i)) else ff_state qi i)"
    and "sent_to qi' i = sent_to qi i" and "qi_cluster qi' = qi_cluster qi"
  using assms
proof (induction refs arbitrary: qi)
  case (Cons j refs)
  {
    case 1
    then obtain d where d: "ff_update_loop n leaving q refs
        (ff_set_client j (d\<lparr>ff_client_state := ff_target n leaving q (node_of qi j)\<rparr>) qi) = Inr qi'"
      by (auto simp: bindE_Inr_iff Let_def ff_target_def)
    show ?case using Cons.IH(1) [OF d] by simp
  next
    case 2
    then show ?case using Cons.IH(2) by (auto simp: bindE_Inr_iff Let_def)
  next
    case 3
    then show ?case using Cons.IH(3) by (auto simp: bindE_Inr_iff Let_def)
  }
qed simp_all

definition ff_sending :: "bool \<Rightarrow> qnetd_algo_ffsplit_client_state" where
  "ff_sending acks = (if acks then FFSPLIT_CLIENT_SENDING_ACK else FFSPLIT_CLIENT_SENDING_NACK)"

definition ff_vote :: "bool \<Rightarrow> tlv_vote" where
  "ff_vote acks = (if acks then TLV_VOTE_ACK else TLV_VOTE_NACK)"

lemma ff_vote_to_send_alt:
  "ff_vote_to_send acks s = (if s = ff_sending acks then ff_vote acks else TLV_VOTE_UNDEFINED)"
  "ff_vote acks \<noteq> TLV_VOTE_UNDEFINED"
  by (simp_all add: ff_vote_to_send_def ff_sending_def ff_vote_def)

lemma send_msg_keeps:
  "cl_algorithm_data (snd (send_msg al f cl)) = cl_algorithm_data cl"
  "cl_last_sent_vote (snd (send_msg al f cl)) = cl_last_sent_vote cl"
  by (auto simp: send_msg_def Let_def split: prod.splits option.splits)

lemma send_vote_info_result:
  "cl_algorithm_data (snd (qnetd_client_send_vote_info al n r v cl)) = cl_algorithm_data cl"
  "cl_last_sent_vote (snd (qnetd_client_send_vote_info al n r v cl)) = v"
  by (simp_all add: qnetd_client_send_vote_info_def send_msg_keeps store_vote_def Let_def)

lemma ff_send_one_result:
  assumes d: "ff_data_of qi i = Inr d"
  shows "ff_state (ff_send_one al c i d r v qi) j = ff_state qi j"
    and "j \<noteq> i \<Longrightarrow> sent_to (ff_send_one al c i d r v qi) j = sent_to qi j"
    and "qi_cluster (ff_send_one al c i d r v qi) = qi_cluster qi"
    and "cl_last_sent_vote (qi_client (ff_send_one al c i d r v qi) i) = v"
proof -
  let ?d = "d\<lparr>ff_vote_info_expected_seq_num := ff_vote_info_expected_seq_num d + 1\<rparr>"
  let ?n = "ff_vote_info_expected_seq_num d + 1"
  let ?q1 = "ff_set_client i ?d qi"
  define cl' where "cl' = qnetd_client_send_vote_info al ?n r v (qi_client ?q1 i)"
  have cl': "cl_algorithm_data (snd cl') = Ffsplit_Client_Data ?d" "cl_last_sent_vote (snd cl') = v"
    unfolding cl'_def send_vote_info_result
    by (simp_all add: ff_set_client_def set_client_data_def upd_client_def)
  define q2 where "q2 = ?q1\<lparr>qi_client := (qi_client ?q1)(i := snd cl')\<rparr>"
  have eq: "ff_send_one al c i d r v qi =
      (if fst cl' = -1 then upd_client c (\<lambda>cl. cl\<lparr>cl_schedule_disconnect := True\<rparr>) q2 else q2)"
    by (simp add: ff_send_one_def Let_def on_client_def q2_def cl'_def split: prod.split)
  have q2: "ff_state q2 j = ff_state qi j" "j \<noteq> i \<Longrightarrow> sent_to q2 j = sent_to qi j" for j
    using ff_data_state [OF d] cl'(1)
    by (simp_all add: q2_def ff_state_def sent_to_def ff_set_client_def set_client_data_def upd_client_def)
  have q3: "ff_state (upd_client c (\<lambda>cl. cl\<lparr>cl_schedule_disconnect := True\<rparr>) q2) j = ff_state q2 j"
    "sent_to (upd_client c (\<lambda>cl. cl\<lparr>cl_schedule_disconnect := True\<rparr>) q2) j = sent_to q2 j" for j
    by (simp_all add: upd_client_def ff_state_def sent_to_def)
  show "ff_state (ff_send_one al c i d r v qi) j = ff_state qi j"
    using q2(1) q3(1) by (simp add: eq)
  show "sent_to (ff_send_one al c i d r v qi) j = sent_to qi j" if "j \<noteq> i"
    using q2(2) [OF that] q3(2) by (simp add: eq)
  show "qi_cluster (ff_send_one al c i d r v qi) = qi_cluster qi"
    by (simp add: eq q2_def upd_client_def)
  show "cl_last_sent_vote (qi_client (ff_send_one al c i d r v qi) i) = v"
    using cl'(2) by (simp add: eq q2_def upd_client_def)
qed

lemma ff_send_loop_result:
  assumes "ff_send_loop al c leaving r acks refs n qi = Inr (m, qi')"
  shows "ff_state qi' i = ff_state qi i"
    and "qi_cluster qi' = qi_cluster qi"
    and "ff_state qi i \<noteq> Some (ff_sending acks) \<or> i \<notin> set refs \<Longrightarrow> sent_to qi' i = sent_to qi i"
    and "n \<le> m"
    and "m = n \<Longrightarrow> qi' = qi"
    and "m = n \<Longrightarrow> i \<in> set refs \<Longrightarrow> \<not> (node_of qi i = node_of qi c \<and> leaving) \<Longrightarrow>
       ff_state qi i \<noteq> Some (ff_sending acks)"
    and "distinct refs \<Longrightarrow> i \<in> set refs \<Longrightarrow> \<not> (node_of qi i = node_of qi c \<and> leaving) \<Longrightarrow>
       ff_state qi i = Some (ff_sending acks) \<Longrightarrow> cl_last_sent_vote (qi_client qi' i) = ff_vote acks"
proof -
  have "ff_state qi' i = ff_state qi i \<and> qi_cluster qi' = qi_cluster qi \<and>
      (ff_state qi i \<noteq> Some (ff_sending acks) \<or> i \<notin> set refs \<longrightarrow> sent_to qi' i = sent_to qi i) \<and>
      n \<le> m \<and> (m = n \<longrightarrow> qi' = qi) \<and>
      (i \<in> set refs \<and> \<not> (node_of qi i = node_of qi c \<and> leaving) \<longrightarrow>
        (m = n \<longrightarrow> ff_state qi i \<noteq> Some (ff_sending acks)) \<and>
        (distinct refs \<and> ff_state qi i = Some (ff_sending acks) \<longrightarrow>
           cl_last_sent_vote (qi_client qi' i) = ff_vote acks))"
    using assms
  proof (induction refs arbitrary: n qi)
    case (Cons j refs)
    let ?leave = "node_of qi j = node_of qi c \<and> leaving"
    show ?case
    proof (cases ?leave)
      case True
      with Cons.prems have "ff_send_loop al c leaving r acks refs n qi = Inr (m, qi')" by simp
      from Cons.IH [OF this] True show ?thesis by (cases "i = j") auto
    next
      case False
      with Cons.prems obtain d r' where d: "ff_data_of qi j = Inr d" and
        rec: "(if ff_client_state d = ff_sending acks
            then ff_send_loop al c leaving r acks refs (n + 1)
                   (ff_send_one al c j d r' (ff_vote acks) qi)
            else ff_send_loop al c leaving r acks refs n qi) = Inr (m, qi')"
        by (auto simp: bindE_Inr_iff Let_def ff_vote_to_send_alt split: if_splits)
      note st = ff_data_state [OF d]
      show ?thesis
      proof (cases "ff_client_state d = ff_sending acks")
        case True
        define q where "q = ff_send_one al c j d r' (ff_vote acks) qi"
        note one = ff_send_one_result [OF d, where al = al and c = c and r = r' and v = "ff_vote acks",
            folded q_def]
        have node: "node_of q x = node_of qi x" for x
          unfolding q_def using client_core_fields(1) [OF same_coreD(4) [OF ff_send_one_core]] .
        from True rec have "ff_send_loop al c leaving r acks refs (n + 1) q = Inr (m, qi')"
          by (simp add: q_def)
        note IH = Cons.IH [OF this, unfolded node one]
        have vote: "cl_last_sent_vote (qi_client qi' j) = ff_vote acks" if "j \<notin> set refs" "i = j"
          using IH that one(4) unfolding sent_to_def by simp
        from IH one(2) [of i] st True vote show ?thesis by (cases "i = j") auto
      next
        case other: False
        with rec have "ff_send_loop al c leaving r acks refs n qi = Inr (m, qi')" by simp
        from Cons.IH [OF this] st other show ?thesis by (cases "i = j") auto
      qed
    qed
  qed simp
  then show "ff_state qi' i = ff_state qi i" "qi_cluster qi' = qi_cluster qi" "n \<le> m"
    "ff_state qi i \<noteq> Some (ff_sending acks) \<or> i \<notin> set refs \<Longrightarrow> sent_to qi' i = sent_to qi i"
    "m = n \<Longrightarrow> qi' = qi"
    "m = n \<Longrightarrow> i \<in> set refs \<Longrightarrow> \<not> (node_of qi i = node_of qi c \<and> leaving) \<Longrightarrow>
       ff_state qi i \<noteq> Some (ff_sending acks)"
    "distinct refs \<Longrightarrow> i \<in> set refs \<Longrightarrow> \<not> (node_of qi i = node_of qi c \<and> leaving) \<Longrightarrow>
       ff_state qi i = Some (ff_sending acks) \<Longrightarrow> cl_last_sent_vote (qi_client qi' i) = ff_vote acks"
    by blast+
qed

lemma ff_send_loop_sent:
  assumes "ff_send_loop al c leaving r acks refs n qi = Inr (m, qi')" and "m \<noteq> n"
  shows "\<exists>i\<in>set refs. ff_state qi i = Some (ff_sending acks)"
  using assms
proof (induction refs arbitrary: n)
  case (Cons i refs)
  show ?case
  proof (cases "ff_state qi i = Some (ff_sending acks)")
    case False
    with Cons.prems(1) have "ff_send_loop al c leaving r acks refs n qi = Inr (m, qi')"
      by (auto simp: bindE_Inr_iff Let_def ff_vote_to_send_alt dest: ff_data_state split: if_splits)
    from Cons.IH [OF this Cons.prems(2)] show ?thesis by auto
  qed auto
qed simp

lemma ff_set_state_cluster [simp]:
  "ff_cluster_of (ff_set_cluster k d qi) k = Inr d"
  "ff_cluster_of (ff_set_state k d s qi) k = Inr (d\<lparr>ffc_cluster_state := s\<rparr>)"
  by (simp_all add: ff_set_state_def ff_set_cluster_def set_cluster_data_def upd_cluster_def
      ff_cluster_of_def ff_cluster_data_def)

lemma ff_send_acks_result:
  assumes "ff_send_acks al k c leaving r d qi = Inr qi'"
  shows "ff_state qi' i = ff_state qi i"
    and "ff_state qi i \<noteq> Some FFSPLIT_CLIENT_SENDING_ACK \<or> i \<notin> set (members qi k) \<Longrightarrow> sent_to qi' i = sent_to qi i"
    and "distinct (members qi k) \<Longrightarrow> i \<in> set (members qi k) \<Longrightarrow>
       \<not> (node_of qi i = node_of qi c \<and> leaving) \<Longrightarrow>
       ff_state qi i = Some FFSPLIT_CLIENT_SENDING_ACK \<Longrightarrow>
       cl_last_sent_vote (qi_client qi' i) = TLV_VOTE_ACK"
    and "\<exists>d'. ff_cluster_of qi' k = Inr d' \<and>
       ffc_quorate_partition_node_list d' = ffc_quorate_partition_node_list d \<and>
       ffc_cluster_state d' \<in> {FFSPLIT_CLUSTER_SENDING_ACKS, FFSPLIT_CLUSTER_WAITING_FOR_CHANGE}"
proof -
  let ?d = "d\<lparr>ffc_cluster_state := FFSPLIT_CLUSTER_SENDING_ACKS\<rparr>"
  from assms obtain sent q where
    q: "ff_send_loop al c leaving r True (members qi k) 0 (ff_set_cluster k ?d qi) = Inr (sent, q)" and
    qi': "qi' = (if sent = 0 then ff_set_state k ?d FFSPLIT_CLUSTER_WAITING_FOR_CHANGE q else q)"
    unfolding ff_send_acks_def qnetd_algo_ffsplit_send_votes_def Let_def
    by (auto simp: bindE_Inr_iff)
  note R = ff_send_loop_result [OF q, unfolded ff_set_cluster_result]
  have set_state: "qi_client (ff_set_state k ?d s q) = qi_client q" for s
    by (simp add: ff_set_state_def)
  show "ff_state qi' i = ff_state qi i"
    using R(1) by (simp add: qi')
  show "ff_state qi i \<noteq> Some FFSPLIT_CLIENT_SENDING_ACK \<or> i \<notin> set (members qi k) \<Longrightarrow> sent_to qi' i = sent_to qi i"
    using R(3) [of i] by (auto simp: qi' ff_sending_def)
  show "distinct (members qi k) \<Longrightarrow> i \<in> set (members qi k) \<Longrightarrow>
       \<not> (node_of qi i = node_of qi c \<and> leaving) \<Longrightarrow>
       ff_state qi i = Some FFSPLIT_CLIENT_SENDING_ACK \<Longrightarrow>
       cl_last_sent_vote (qi_client qi' i) = TLV_VOTE_ACK"
    using R(7) [of i] by (auto simp: qi' ff_sending_def ff_vote_def set_state)
  have "ff_cluster_of q k = Inr ?d"
    using R(2) ff_set_state_cluster(1) unfolding ff_cluster_of_def by metis
  then show "\<exists>d'. ff_cluster_of qi' k = Inr d' \<and>
       ffc_quorate_partition_node_list d' = ffc_quorate_partition_node_list d \<and>
       ffc_cluster_state d' \<in> {FFSPLIT_CLUSTER_SENDING_ACKS, FFSPLIT_CLUSTER_WAITING_FOR_CHANGE}"
    by (simp add: qi')
qed

text \<open>
  One complete run of the algorithm: the membership was stable, a partition was selected, every
  client got its target, and the ACKs were sent only when there is no client to be sent a NACK.
\<close>

lemma ff_do_voted:
  assumes run: "qnetd_algo_ffsplit_do al c leaving r cfg m h qi = Inr (e, Some TLV_VOTE_NO_CHANGE, qi')"
    and k: "cl_cluster (qi_client qi c) = Some k"
    and dist: "distinct (members qi k)"
  obtains sel d d1 where
    "ff_memberships_match (ff_set_cluster k d1 qi) k (qi_client qi c) leaving r m"
    "qnetd_algo_ffsplit_select_partition (ff_set_cluster k d1 qi) k (qi_client qi c) leaving cfg m
       (ffc_quorate_partition_node_list d1) h = Inr sel"
    "\<And>i. ff_state qi' i = (if i \<in> set (members qi k)
        then Some (ff_target (node_of qi c) leaving sel (node_of qi i)) else ff_state qi i)"
    "ff_cluster_of qi' k = Inr d"
    "\<And>i. i \<in> set (members qi k) \<Longrightarrow> ff_state qi' i = Some FFSPLIT_CLIENT_SENDING_NACK \<Longrightarrow>
       ffc_cluster_state d = FFSPLIT_CLUSTER_SENDING_NACKS \<and>
       cl_last_sent_vote (qi_client qi' i) = TLV_VOTE_NACK \<and>
       (\<forall>j\<in>set (members qi k). ff_state qi' j \<noteq> Some FFSPLIT_CLIENT_SENDING_NACK \<longrightarrow> sent_to qi' j = sent_to qi j)"
    "\<And>i. \<forall>j\<in>set (members qi k). ff_state qi' j \<noteq> Some FFSPLIT_CLIENT_SENDING_NACK \<Longrightarrow>
       i \<in> set (members qi k) \<Longrightarrow> ff_state qi' i = Some FFSPLIT_CLIENT_SENDING_ACK \<Longrightarrow>
       cl_last_sent_vote (qi_client qi' i) = TLV_VOTE_ACK"
proof -
  from run k obtain d0 where d0: "ff_cluster_of qi k = Inr d0"
    unfolding qnetd_algo_ffsplit_do_def cluster_of_def by (auto simp: bindE_Inr_iff)
  define d1 where "d1 = d0\<lparr>ffc_cluster_state := FFSPLIT_CLUSTER_WAITING_FOR_STABLE_MEMBERSHIP\<rparr>"
  let ?q = "ff_set_cluster k d1 qi"
  have stable: "qnetd_algo_ffsplit_is_membership_stable ?q k (qi_client qi c) leaving r cfg m"
    using run k d0 unfolding qnetd_algo_ffsplit_do_def cluster_of_def Let_def
    by (simp add: d1_def split: if_splits)
  with run k d0 obtain sel where
    sel: "qnetd_algo_ffsplit_select_partition ?q k (qi_client qi c) leaving cfg m
       (ffc_quorate_partition_node_list d1) h = Inr sel"
    unfolding qnetd_algo_ffsplit_do_def cluster_of_def Let_def
    by (auto simp: d1_def bindE_Inr_iff)
  obtain qpnl where clone: "(case sel of None \<Rightarrow> (0, node_list_init) | Some l \<Rightarrow> node_list_clone al l) = (0, qpnl)"
    using run k d0 stable sel unfolding qnetd_algo_ffsplit_do_def cluster_of_def Let_def
    by (fastforce simp flip: d1_def split: prod.splits if_splits)
  define d3 where "d3 = d1\<lparr>ffc_quorate_partition_node_list := qpnl, ffc_cluster_state := FFSPLIT_CLUSTER_SENDING_NACKS\<rparr>"
  obtain q1 nacks q2 where
    upd: "qnetd_algo_ffsplit_update_nodes_state k c leaving sel
       (ff_set_cluster k (d1\<lparr>ffc_quorate_partition_node_list := qpnl\<rparr>) ?q) = Inr q1" and
    send: "qnetd_algo_ffsplit_send_votes al k c leaving r False (ff_set_cluster k d3 q1) = Inr (nacks, q2)" and
    acks: "if nacks = 0 then ff_send_acks al k c leaving r d3 q2 = Inr qi' else qi' = q2"
    using run k d0 stable sel clone unfolding qnetd_algo_ffsplit_do_def cluster_of_def Let_def
    by (auto simp: bindE_Inr_iff d3_def simp flip: d1_def split: if_splits)
  note U = ff_update_loop_result [OF upd [unfolded qnetd_algo_ffsplit_update_nodes_state_def],
      unfolded ff_set_cluster_result]
  have mem: "members q1 j = members qi j" for j
    using U(3) by (simp add: ff_set_cluster_def set_cluster_data_def upd_cluster_def)
  note S = ff_send_loop_result [OF send [unfolded qnetd_algo_ffsplit_send_votes_def],
      unfolded ff_set_cluster_result mem]
  have mem2: "members q2 j = members qi j" for j
    using S(2) mem by (simp add: ff_set_cluster_def set_cluster_data_def upd_cluster_def)
  have core1: "same_core qi q1"
    using ff_update_loop_core [OF upd [unfolded qnetd_algo_ffsplit_update_nodes_state_def]] by simp
  moreover have "same_core q1 q2"
    using ff_send_loop_core [OF send [unfolded qnetd_algo_ffsplit_send_votes_def]] by simp
  ultimately have core2: "same_core qi q2" by (rule same_core_trans)
  have node: "node_of q1 i = node_of qi i" "node_of q2 i = node_of qi i" for i
    using client_core_fields(1) [OF same_coreD(4)] core1 core2 by blast+
  have target: "ff_state q2 i = (if i \<in> set (members qi k)
        then Some (ff_target (node_of qi c) leaving sel (node_of qi i)) else ff_state qi i)" for i
    using U(1) S(1) by simp
  have stay: "ff_target (node_of qi c) leaving sel (node_of qi i) = FFSPLIT_CLIENT_WAITING_FOR_CHANGE"
    if "node_of qi i = node_of qi c \<and> leaving" for i
    using that by (simp add: ff_target_def)
  have match: "ff_memberships_match ?q k (qi_client qi c) leaving r m"
    using stable unfolding qnetd_algo_ffsplit_is_membership_stable_def by blast
  show thesis
  proof (cases "nacks = 0")
    case True
    with acks have A: "ff_send_acks al k c leaving r d3 q2 = Inr qi'" by simp
    note A = ff_send_acks_result [OF this, unfolded mem2 node]
    have none: "ff_state qi' i \<noteq> Some FFSPLIT_CLIENT_SENDING_NACK" if "i \<in> set (members qi k)" for i
      using S(6) [OF True that] U(1) [of i] A(1) [of i] target [of i] that stay
      unfolding node ff_sending_def by fastforce
    from A(4) obtain d where d: "ff_cluster_of qi' k = Inr d" by blast
    show thesis
    proof (rule that [OF match sel _ d])
      show "ff_state qi' i = (if i \<in> set (members qi k)
          then Some (ff_target (node_of qi c) leaving sel (node_of qi i)) else ff_state qi i)" for i
        using A(1) target by simp
      show "cl_last_sent_vote (qi_client qi' i) = TLV_VOTE_ACK"
        if "i \<in> set (members qi k)" "ff_state qi' i = Some FFSPLIT_CLIENT_SENDING_ACK" for i
        using A(3) [OF dist that(1)] that(2) A(1) [of i] target [of i] that stay by force
    qed (use none in blast)
  next
    case False
    with acks have qi': "qi' = q2" by simp
    have d: "ff_cluster_of qi' k = Inr d3"
      using S(2) ff_set_state_cluster(1) unfolding qi' ff_cluster_of_def by metis
    have some: "\<exists>j\<in>set (members qi k). ff_state qi' j = Some FFSPLIT_CLIENT_SENDING_NACK"
      using ff_send_loop_sent [OF send [unfolded qnetd_algo_ffsplit_send_votes_def]] False S(1)
      by (auto simp: mem qi' ff_sending_def)
    show thesis
    proof (rule that [OF match sel _ d])
      show "ff_state qi' i = (if i \<in> set (members qi k)
          then Some (ff_target (node_of qi c) leaving sel (node_of qi i)) else ff_state qi i)" for i
        using target by (simp add: qi')
      show "ffc_cluster_state d3 = FFSPLIT_CLUSTER_SENDING_NACKS \<and>
         cl_last_sent_vote (qi_client qi' i) = TLV_VOTE_NACK \<and>
         (\<forall>j\<in>set (members qi k). ff_state qi' j \<noteq> Some FFSPLIT_CLIENT_SENDING_NACK \<longrightarrow> sent_to qi' j = sent_to qi j)"
        if "i \<in> set (members qi k)" "ff_state qi' i = Some FFSPLIT_CLIENT_SENDING_NACK" for i
      proof (intro conjI ballI impI)
        show "ffc_cluster_state d3 = FFSPLIT_CLUSTER_SENDING_NACKS"
          by (simp add: d3_def)
        have "\<not> (node_of qi i = node_of qi c \<and> leaving)"
          using that target [of i] stay by (auto simp: qi')
        with that S(7) [of i] S(1) [of i] dist show "cl_last_sent_vote (qi_client qi' i) = TLV_VOTE_NACK"
          by (simp add: node qi' ff_sending_def ff_vote_def)
        show "sent_to qi' j = sent_to qi j" if "ff_state qi' j \<noteq> Some FFSPLIT_CLIENT_SENDING_NACK" for j
          using S(3) [of j] S(1) [of j] U(2) [of j] that by (simp add: qi' ff_sending_def)
      qed
    qed (use some in blast)
  qed
qed

section \<open>Replies\<close>

lemma ff_count_sending_zero:
  assumes "ff_count_sending qi acks refs = Inr n"
  shows "n = 0 \<longleftrightarrow> (\<forall>i\<in>set refs. ff_state qi i \<noteq> Some (ff_sending acks))"
  using assms
  by (induction refs arbitrary: n)
     (auto simp: bindE_Inr_iff ff_sending_def dest!: ff_data_state split: if_splits)

lemma ff_state_data: "ff_state qi i \<noteq> None \<Longrightarrow> \<exists>d. ff_data_of qi i = Inr d"
  by (auto simp: ff_data_of_def ff_client_data_def ff_state_def split: client_algo_data.splits)

lemma ff_count_sending_total:
  "\<forall>i\<in>set refs. ff_state qi i \<noteq> None \<Longrightarrow> \<exists>n. ff_count_sending qi acks refs = Inr n"
proof (induction refs)
  case (Cons i refs)
  then obtain d n where "ff_data_of qi i = Inr d" "ff_count_sending qi acks refs = Inr n"
    using ff_state_data [of qi i] by auto
  then show ?case by simp
qed simp

lemma ff_send_loop_total:
  "\<forall>i\<in>set refs. ff_state qi i \<noteq> None \<Longrightarrow> \<exists>m qi'. ff_send_loop al c leaving r acks refs n qi = Inr (m, qi')"
proof (induction refs arbitrary: n qi)
  case (Cons i refs)
  then obtain d where d: "ff_data_of qi i = Inr d"
    using ff_state_data by fastforce
  have "\<forall>j\<in>set refs. ff_state (ff_send_one al c i d r' v qi) j \<noteq> None" for r' v
    using Cons.prems ff_send_one_result(1) [OF d] by simp
  note rec = Cons.IH [OF this]
  show ?case
  proof (cases "node_of qi i = node_of qi c \<and> leaving")
    case True
    with Cons.IH [of qi n] Cons.prems show ?thesis by simp
  next
    case False
    with Cons.IH [of qi n] rec [of "n + 1"] Cons.prems d show ?thesis by (auto simp: Let_def)
  qed
qed simp

lemma ff_send_acks_total:
  assumes "\<forall>i\<in>set (members qi k). ff_state qi i \<noteq> None"
  shows "\<exists>qi'. ff_send_acks al k c leaving r d qi = Inr qi'"
proof -
  let ?q = "ff_set_cluster k (d\<lparr>ffc_cluster_state := FFSPLIT_CLUSTER_SENDING_ACKS\<rparr>) qi"
  obtain m q where "ff_send_loop al c leaving r True (members ?q k) 0 ?q = Inr (m, q)"
    using ff_send_loop_total [of "members ?q k" ?q al c leaving r True 0] assms by auto
  then show ?thesis
    unfolding ff_send_acks_def qnetd_algo_ffsplit_send_votes_def Let_def by simp
qed

lemma ff_update_loop_total:
  "\<forall>i\<in>set refs. ff_state qi i \<noteq> None \<Longrightarrow> \<exists>qi'. ff_update_loop n leaving q refs qi = Inr qi'"
proof (induction refs arbitrary: qi)
  case (Cons i refs)
  then obtain d where d: "ff_data_of qi i = Inr d"
    using ff_state_data by fastforce
  have "\<forall>j\<in>set refs. ff_state (ff_set_client i d' qi) j \<noteq> None" for d'
    using Cons.prems by simp
  from Cons.IH [OF this] d show ?case by (simp add: Let_def)
qed simp

text \<open>A run on a stable membership completes: it selects, sends votes and reports no change.\<close>

lemma ff_do_total:
  assumes k: "cl_cluster (qi_client qi c) = Some k" and d0: "ff_cluster_of qi k = Inr d0"
    and data: "\<forall>i\<in>set (members qi k). ff_state qi i \<noteq> None" and al: "alloc_ideal al"
    and d1: "d1 = d0\<lparr>ffc_cluster_state := FFSPLIT_CLUSTER_WAITING_FOR_STABLE_MEMBERSHIP\<rparr>"
    and stable: "qnetd_algo_ffsplit_is_membership_stable (ff_set_cluster k d1 qi) k (qi_client qi c) leaving r cfg m"
    and sel: "qnetd_algo_ffsplit_select_partition (ff_set_cluster k d1 qi) k (qi_client qi c) leaving cfg m
       (ffc_quorate_partition_node_list d1) h = Inr sel"
  shows "\<exists>qi'. qnetd_algo_ffsplit_do al c leaving r cfg m h qi =
    Inr (TLV_REPLY_ERROR_CODE_NO_ERROR, Some TLV_VOTE_NO_CHANGE, qi')"
proof -
  let ?q = "ff_set_cluster k d1 qi"
  have clone: "\<exists>l. (case sel of None \<Rightarrow> (0, node_list_init) | Some l \<Rightarrow> node_list_clone al l) = (0 :: int, l)"
    using al by (cases sel) (simp_all add: node_list_clone_eq alloc_ideal_def)
  then obtain l where l: "(case sel of None \<Rightarrow> (0, node_list_init) | Some l \<Rightarrow> node_list_clone al l) = (0 :: int, l)" ..
  define d2 where "d2 = d1\<lparr>ffc_quorate_partition_node_list := l\<rparr>"
  define d3 where "d3 = d2\<lparr>ffc_cluster_state := FFSPLIT_CLUSTER_SENDING_NACKS\<rparr>"
  let ?q2 = "ff_set_cluster k d2 ?q"
  obtain q1 where upd: "ff_update_loop (node_of ?q2 c) leaving sel (members ?q2 k) ?q2 = Inr q1"
    using ff_update_loop_total [of "members ?q2 k" ?q2 "node_of ?q2 c" leaving sel] data by auto
  note U = ff_update_loop_result [OF upd]
  have mem: "members q1 k = members qi k" using U(3) by simp
  have st: "\<forall>i\<in>set (members qi k). ff_state q1 i \<noteq> None" using U(1) data by simp
  obtain n q2 where nacks: "ff_send_loop al c leaving r False (members qi k) 0 (ff_set_cluster k d3 q1) = Inr (n, q2)"
    using ff_send_loop_total [of "members qi k" "ff_set_cluster k d3 q1" al c leaving r False 0] st by auto
  note S = ff_send_loop_result [OF nacks]
  have mem2: "members q2 k = members qi k" using S(2) mem by simp
  obtain q3 where acks: "ff_send_acks al k c leaving r d3 q2 = Inr q3"
    using ff_send_acks_total [of q2 k al c leaving r d3] S(1) st mem2 by auto
  show ?thesis
    using k d0 stable sel l upd nacks acks mem
    unfolding qnetd_algo_ffsplit_do_def cluster_of_def Let_def qnetd_algo_ffsplit_update_nodes_state_def
      qnetd_algo_ffsplit_send_votes_def d3_def d2_def d1
    by simp
qed

lemma ff_cluster_of_set_client [simp]: "ff_cluster_of (ff_set_client i d qi) k = ff_cluster_of qi k"
  by (simp add: ff_cluster_of_def)

section \<open>What is queued for a client\<close>

definition vote_msg :: "u32 \<Rightarrow> tlv_ring_id \<Rightarrow> tlv_vote \<Rightarrow> byte list" where
  "vote_msg seq ring v = msg_bytes MSG_TYPE_VOTE_INFO
     [(TLV_OPT_MSG_SEQ_NUMBER, be32 seq), (TLV_OPT_VOTE, [tlv_vote_code v]), (TLV_OPT_RING_ID, ring_id_bytes ring)]"

text \<open>Memory and room for one more message of the length of a vote.\<close>

definition can_queue_vote :: "allocator \<Rightarrow> send_buffer_list \<Rightarrow> bool" where
  "can_queue_vote al sbl \<longleftrightarrow>
     alloc_ideal al \<and> sbl_inv 0 sbl \<and> sbl_room sbl \<and> (\<forall>seq ring v. length (vote_msg seq ring v) \<le> sbl_max_buffer_size sbl)"

abbreviation waiting :: "qnetd_client \<Rightarrow> byte list list" where
  "waiting client \<equiv> queued (cl_send_buffer_list client)"

lemma send_msg_queue:
  assumes "creates al create t tvs" and "send_msg al create client = (r, client')"
  shows "(if r = 0 then waiting client' = waiting client @ [msg_bytes t tvs] else r = -1)"
    and "alloc_ideal al \<Longrightarrow> sbl_inv 0 (cl_send_buffer_list client) \<Longrightarrow> sbl_room (cl_send_buffer_list client) \<Longrightarrow>
      length (msg_bytes t tvs) \<le> sbl_max_buffer_size (cl_send_buffer_list client) \<Longrightarrow> r = 0"
proof -
  obtain e sbl where g: "send_buffer_list_get_new al (cl_send_buffer_list client) = (e, sbl)" by fastforce
  show "if r = 0 then waiting client' = waiting client @ [msg_bytes t tvs] else r = -1"
    using assms g queued_get_new [OF g]
    by (auto simp: send_msg_def Let_def sbq.contents_put creates_data [OF assms(1)] split: option.splits prod.splits if_splits)
  show "r = 0" if "alloc_ideal al" "sbl_inv 0 (cl_send_buffer_list client)" "sbl_room (cl_send_buffer_list client)"
    "length (msg_bytes t tvs) \<le> sbl_max_buffer_size (cl_send_buffer_list client)"
  proof -
    from get_new_room [OF that(1), of "cl_send_buffer_list client"] that(3) g obtain entry where e: "e = Some entry" by auto
    have "dyn_maximum_size (sb_buffer entry) = sbl_max_buffer_size (cl_send_buffer_list client)"
      using sbl_inv_get_new [OF that(2) g] e by simp
    then have "fst (create (sb_buffer entry)) \<noteq> 0"
      using creates_room [OF assms(1) that(1), of "sb_buffer entry"] that(4) by simp
    then show "r = 0" using assms(2) g e by (auto simp: send_msg_def Let_def split: prod.splits)
  qed
qed

text \<open>
  The result for the client \<open>i\<close> whose data were \<open>d\<close>: the message with the new expected sequence number is the last
  one in its queue, or sending failed and the client \<open>c\<close> that runs the algorithm is to be disconnected.
\<close>

definition vote_sent ::
    "allocator \<Rightarrow> client_ref \<Rightarrow> client_ref \<Rightarrow> qnetd_algo_ffsplit_client_data \<Rightarrow> tlv_ring_id \<Rightarrow> tlv_vote \<Rightarrow>
     qnetd_client \<Rightarrow> qnetd_instance \<Rightarrow> bool" where
  "vote_sent al c i d ring v before qi' \<longleftrightarrow>
     (let seq = ff_vote_info_expected_seq_num d + 1; done = waiting before @ [vote_msg seq ring v]
      in ff_data_of qi' i = Inr (d\<lparr>ff_vote_info_expected_seq_num := seq\<rparr>) \<and>
         (waiting (qi_client qi' i) = done \<or> cl_schedule_disconnect (qi_client qi' c)) \<and>
         (can_queue_vote al (cl_send_buffer_list before) \<longrightarrow> waiting (qi_client qi' i) = done))"

text \<open>Nothing but the mark for disconnection, which is never taken back.\<close>

definition only_marked :: "qnetd_client \<Rightarrow> qnetd_client \<Rightarrow> bool" where
  "only_marked cl cl' \<longleftrightarrow> cl' = cl \<or> cl' = cl\<lparr>cl_schedule_disconnect := True\<rparr>"

lemma only_marked_fields:
  assumes "only_marked cl cl'"
  shows "cl_send_buffer_list cl' = cl_send_buffer_list cl" "cl_last_ring_id cl' = cl_last_ring_id cl"
    "cl_node_id cl' = cl_node_id cl" "cl_algorithm_data cl' = cl_algorithm_data cl"
    "cl_schedule_disconnect cl \<Longrightarrow> cl_schedule_disconnect cl'"
  using assms by (auto simp: only_marked_def)

lemma only_marked_refl: "only_marked cl cl"
  by (simp only: only_marked_def simp_thms)

lemma only_marked_trans: "only_marked a b \<Longrightarrow> only_marked b d \<Longrightarrow> only_marked a d"
  by (auto simp: only_marked_def)

lemma data_of_same: "cl_algorithm_data (qi_client qi' i) = cl_algorithm_data (qi_client qi i) \<Longrightarrow>
  ff_data_of qi' i = ff_data_of qi i"
  by (simp add: ff_data_of_def ff_client_data_def)

lemma ff_send_one_queue:
  assumes d: "ff_data_of qi i = Inr d"
  shows "vote_sent al c i d ring v (qi_client qi i) (ff_send_one al c i d ring v qi)"
    and "j \<noteq> i \<Longrightarrow> only_marked (qi_client qi j) (qi_client (ff_send_one al c i d ring v qi) j)"
    and "cl_schedule_disconnect (qi_client qi c) \<Longrightarrow> cl_schedule_disconnect (qi_client (ff_send_one al c i d ring v qi) c)"
    and "cl_node_id (qi_client (ff_send_one al c i d ring v qi) j) = cl_node_id (qi_client qi j)"
proof -
  let ?n = "ff_vote_info_expected_seq_num d + 1"
  let ?d = "d\<lparr>ff_vote_info_expected_seq_num := ?n\<rparr>"
  let ?q1 = "ff_set_client i ?d qi"
  let ?create = "\<lambda>buf. msg_create_vote_info al buf ?n ring v"
  define cl0 where "cl0 = store_vote v (qi_client ?q1 i)"
  have cl0: "cl_send_buffer_list cl0 = cl_send_buffer_list (qi_client qi i)" "cl_algorithm_data cl0 = Ffsplit_Client_Data ?d"
    "cl_schedule_disconnect cl0 = cl_schedule_disconnect (qi_client qi i)" "cl_node_id cl0 = cl_node_id (qi_client qi i)"
    by (simp_all add: cl0_def store_vote_def Let_def ff_set_client_def set_client_data_def upd_client_def)
  obtain r cl1 where send: "send_msg al ?create cl0 = (r, cl1)" by fastforce
  have cl1: "cl_algorithm_data cl1 = Ffsplit_Client_Data ?d"
    "cl_schedule_disconnect cl1 = cl_schedule_disconnect (qi_client qi i)" "cl_node_id cl1 = cl_node_id (qi_client qi i)"
    using send cl0 by (auto simp: send_msg_def Let_def split: prod.splits option.splits if_splits)
  have cr: "creates al ?create MSG_TYPE_VOTE_INFO [(TLV_OPT_MSG_SEQ_NUMBER, be32 ?n), (TLV_OPT_VOTE, [tlv_vote_code v]),
      (TLV_OPT_RING_ID, ring_id_bytes ring)]"
    using creates_vote_info(1) [of al ?n ring v] by simp
  note q = send_msg_queue [OF cr send, folded vote_msg_def, unfolded cl0(1)]
  define q2 where "q2 = ?q1\<lparr>qi_client := (qi_client ?q1)(i := cl1)\<rparr>"
  have eq: "ff_send_one al c i d ring v qi =
      (if r = -1 then upd_client c (\<lambda>cl. cl\<lparr>cl_schedule_disconnect := True\<rparr>) q2 else q2)"
    using send by (simp add: ff_send_one_def Let_def on_client_def q2_def qnetd_client_send_vote_info_def cl0_def)
  have others: "j \<noteq> i \<Longrightarrow> qi_client q2 j = qi_client qi j" "qi_client q2 i = cl1" for j
    by (simp_all add: q2_def ff_set_client_def set_client_data_def upd_client_def)
  let ?q3 = "ff_send_one al c i d ring v qi"
  have mark: "only_marked (qi_client q2 j) (qi_client ?q3 j)" for j
    by (auto simp: eq only_marked_def upd_client_def)
  show "only_marked (qi_client qi j) (qi_client ?q3 j)" if "j \<noteq> i"
    using mark [of j] others(1) [OF that] by simp
  show "cl_node_id (qi_client ?q3 j) = cl_node_id (qi_client qi j)"
    using only_marked_fields(3) [OF mark [of j]] others cl1(3) by (cases "j = i") simp_all
  show "cl_schedule_disconnect (qi_client ?q3 c)" if "cl_schedule_disconnect (qi_client qi c)"
    using only_marked_fields(5) [OF mark [of c]] others cl1(2) that by (cases "c = i") simp_all
  have i3: "waiting (qi_client ?q3 i) = waiting cl1" "cl_algorithm_data (qi_client ?q3 i) = Ffsplit_Client_Data ?d"
    using only_marked_fields(1,4) [OF mark [of i]] others(2) cl1(1) by simp_all
  have "ff_data_of ?q3 i = Inr ?d" using i3(2) by (simp add: ff_data_of_def ff_client_data_def)
  moreover have "waiting cl1 = waiting (qi_client qi i) @ [vote_msg ?n ring v] \<or> cl_schedule_disconnect (qi_client ?q3 c)"
  proof (cases "r = 0")
    case False
    then have "r = -1" using q(1) by presburger
    then have "?q3 = upd_client c (\<lambda>cl. cl\<lparr>cl_schedule_disconnect := True\<rparr>) q2" unfolding eq by simp
    then show ?thesis by (simp add: upd_client_def)
  qed (use q(1) in simp)
  moreover have "waiting cl1 = waiting (qi_client qi i) @ [vote_msg ?n ring v]"
    if "can_queue_vote al (cl_send_buffer_list (qi_client qi i))"
  proof -
    from that have "r = 0" using q(2) unfolding can_queue_vote_def by blast
    then show ?thesis using q(1) by simp
  qed
  ultimately show "vote_sent al c i d ring v (qi_client qi i) ?q3"
    unfolding vote_sent_def Let_def i3(1) by blast
qed

lemma ff_send_loop_queue:
  assumes "ff_send_loop al c leaving r acks refs n qi = Inr (m, qi')" and "distinct refs"
  shows "cl_schedule_disconnect (qi_client qi c) \<longrightarrow> cl_schedule_disconnect (qi_client qi' c)"
    and "i \<notin> set refs \<longrightarrow> only_marked (qi_client qi i) (qi_client qi' i)"
    and "i \<in> set refs \<and> \<not> (node_of qi i = node_of qi c \<and> leaving) \<and> ff_data_of qi i = Inr d \<and>
      ff_client_state d = ff_sending acks \<longrightarrow>
      vote_sent al c i d (if node_of qi i = node_of qi c then r else cl_last_ring_id (qi_client qi i)) (ff_vote acks)
        (qi_client qi i) qi'"
proof -
  have "(cl_schedule_disconnect (qi_client qi c) \<longrightarrow> cl_schedule_disconnect (qi_client qi' c)) \<and>
    (i \<notin> set refs \<longrightarrow> only_marked (qi_client qi i) (qi_client qi' i)) \<and>
    (i \<in> set refs \<and> \<not> (node_of qi i = node_of qi c \<and> leaving) \<and> ff_data_of qi i = Inr d \<and>
      ff_client_state d = ff_sending acks \<longrightarrow>
      vote_sent al c i d (if node_of qi i = node_of qi c then r else cl_last_ring_id (qi_client qi i)) (ff_vote acks)
        (qi_client qi i) qi')"
    using assms
  proof (induction refs arbitrary: n qi)
    case Nil
    then have "qi' = qi" by simp
    then show ?case by (simp add: only_marked_refl)
  next
    case (Cons j refs)
    have dist: "j \<notin> set refs" "distinct refs" using Cons.prems(2) by simp_all
    show ?case
    proof (cases "node_of qi j = node_of qi c \<and> leaving")
      case True
      with Cons.prems(1) have "ff_send_loop al c leaving r acks refs n qi = Inr (m, qi')" by simp
      from Cons.IH [OF this dist(2)] True show ?thesis by auto
    next
      case False
      define ring where "ring = (if node_of qi j = node_of qi c then r else cl_last_ring_id (qi_client qi j))"
      from Cons.prems(1) False obtain dj where dj: "ff_data_of qi j = Inr dj" by (auto simp: bindE_Inr_iff Let_def)
      have rec: "(if ff_client_state dj = ff_sending acks
          then ff_send_loop al c leaving r acks refs (n + 1) (ff_send_one al c j dj ring (ff_vote acks) qi)
          else ff_send_loop al c leaving r acks refs n qi) = Inr (m, qi')"
        using Cons.prems(1) False dj unfolding ring_def
        by (cases "ff_client_state dj = ff_sending acks") (simp_all add: Let_def ff_vote_to_send_alt)
      show ?thesis
      proof (cases "ff_client_state dj = ff_sending acks")
        case False
        with rec have "ff_send_loop al c leaving r acks refs n qi = Inr (m, qi')" by simp
        from Cons.IH [OF this dist(2)] False dj show ?thesis by auto
      next
        case True
        define q where "q = ff_send_one al c j dj ring (ff_vote acks) qi"
        note one = ff_send_one_queue [OF dj, where al = al and c = c and ring = ring and v = "ff_vote acks", folded q_def]
        from True rec have "ff_send_loop al c leaving r acks refs (n + 1) q = Inr (m, qi')" by (simp add: q_def)
        note IH = Cons.IH [OF this dist(2)]
        show ?thesis
        proof (cases "i = j")
          case True
          have mk: "only_marked (qi_client q j) (qi_client qi' j)" using IH dist(1) True by simp
          have "vote_sent al c j dj ring (ff_vote acks) (qi_client qi j) qi'"
            using one(1) [unfolded vote_sent_def Let_def] conjunct1 [OF IH]
            unfolding vote_sent_def Let_def only_marked_fields(1) [OF mk] data_of_same [OF only_marked_fields(4) [OF mk]]
            by blast
          then have "ff_data_of qi i = Inr d \<longrightarrow> vote_sent al c i d ring (ff_vote acks) (qi_client qi i) qi'"
            using dj True by auto
          then show ?thesis using conjunct1 [OF IH] one(3) True unfolding ring_def by (simp split: if_split_asm)
        next
          case False
          note mk = one(2) [OF False]
          have same: "vote_sent al c i d' g v (qi_client q i) qi' = vote_sent al c i d' g v (qi_client qi i) qi'" for d' g v
            unfolding vote_sent_def by (simp add: only_marked_fields(1) [OF mk])
          have node: "node_of q x = node_of qi x" for x by (rule one(4))
          note C = conjunct2 [OF conjunct2 [OF IH], unfolded node only_marked_fields(2) [OF mk]
            data_of_same [OF only_marked_fields(4) [OF mk]] same]
          show ?thesis
          proof (intro conjI)
            show "cl_schedule_disconnect (qi_client qi c) \<longrightarrow> cl_schedule_disconnect (qi_client qi' c)"
              using one(3) conjunct1 [OF IH] by blast
            show "i \<notin> set (j # refs) \<longrightarrow> only_marked (qi_client qi i) (qi_client qi' i)"
              using only_marked_trans [OF mk] IH by auto
            show "i \<in> set (j # refs) \<and> \<not> (node_of qi i = node_of qi c \<and> leaving) \<and> ff_data_of qi i = Inr d \<and>
                ff_client_state d = ff_sending acks \<longrightarrow>
                vote_sent al c i d (if node_of qi i = node_of qi c then r else cl_last_ring_id (qi_client qi i))
                  (ff_vote acks) (qi_client qi i) qi'"
              using C False by simp
          qed
        qed
      qed
    qed
  qed
  then show "cl_schedule_disconnect (qi_client qi c) \<longrightarrow> cl_schedule_disconnect (qi_client qi' c)"
    "i \<notin> set refs \<longrightarrow> only_marked (qi_client qi i) (qi_client qi' i)"
    "i \<in> set refs \<and> \<not> (node_of qi i = node_of qi c \<and> leaving) \<and> ff_data_of qi i = Inr d \<and>
      ff_client_state d = ff_sending acks \<longrightarrow>
      vote_sent al c i d (if node_of qi i = node_of qi c then r else cl_last_ring_id (qi_client qi i)) (ff_vote acks)
        (qi_client qi i) qi'" by blast+
qed

lemma ff_send_acks_queue:
  assumes "ff_send_acks al k c False r cd qi = Inr qi'" and "distinct (members qi k)" and "i \<in> set (members qi k)"
    and "ff_data_of qi i = Inr d" and "ff_client_state d = FFSPLIT_CLIENT_SENDING_ACK" and "node_of qi i \<noteq> node_of qi c"
  shows "vote_sent al c i d (cl_last_ring_id (qi_client qi i)) TLV_VOTE_ACK (qi_client qi i) qi'"
proof -
  let ?d = "cd\<lparr>ffc_cluster_state := FFSPLIT_CLUSTER_SENDING_ACKS\<rparr>"
  from assms(1) obtain sent q where
    q: "ff_send_loop al c False r True (members qi k) 0 (ff_set_cluster k ?d qi) = Inr (sent, q)" and
    qi': "qi' = (if sent = 0 then ff_set_state k ?d FFSPLIT_CLUSTER_WAITING_FOR_CHANGE q else q)"
    unfolding ff_send_acks_def qnetd_algo_ffsplit_send_votes_def Let_def
    by (auto simp: bindE_Inr_iff)
  have "vote_sent al c i d (cl_last_ring_id (qi_client qi i)) TLV_VOTE_ACK (qi_client qi i) q"
    using ff_send_loop_queue(3) [OF q assms(2), of i d] assms(3-6)
    by (simp add: ff_sending_def ff_vote_def ff_data_of_def)
  moreover have "qi_client qi' = qi_client q" by (simp add: qi' ff_set_state_def)
  ultimately show ?thesis by (simp add: vote_sent_def ff_data_of_def)
qed

lemma ff_last_nack:
  assumes wf: "cluster_list_wf qi" and c: "c \<in> set (qi_clients qi)" "cl_cluster (qi_client qi c) = Some k"
    and d: "ff_data_of qi c = Inr d"
    and cd: "ff_cluster_of qi k = Inr cd" "ffc_cluster_state cd = FFSPLIT_CLUSTER_SENDING_NACKS"
    and data: "\<forall>i\<in>set (members qi k). ff_state qi i \<noteq> None"
    and last: "\<forall>i\<in>set (members qi k). i \<noteq> c \<longrightarrow> ff_state qi i \<noteq> Some FFSPLIT_CLIENT_SENDING_NACK"
  shows "\<exists>qi'. qnetd_algo_ffsplit_vote_info_reply_received al c (ff_vote_info_expected_seq_num d) qi =
       Inr (TLV_REPLY_ERROR_CODE_NO_ERROR, qi') \<and>
     (\<forall>i di. i \<in> set (members qi k) \<and> i \<noteq> c \<and> ff_data_of qi i = Inr di \<and>
        ff_client_state di = FFSPLIT_CLIENT_SENDING_ACK \<longrightarrow>
        cl_last_sent_vote (qi_client qi' i) = TLV_VOTE_ACK \<and>
        vote_sent al c i di (cl_last_ring_id (qi_client qi i)) TLV_VOTE_ACK (qi_client qi i) qi')"
proof -
  note W = cluster_list_wfD [OF wf]
  have k: "k \<in> set (qi_clusters qi)" "c \<in> set (members qi k)"
    using W(7) c by blast+
  note uniq = W(5) [OF k(1)]
  from sorted_wrt_map_distinct [OF uniq] have dist: "distinct (members qi k)" .
  define q where "q = ff_set_client c (d\<lparr>ff_client_state := FFSPLIT_CLIENT_WAITING_FOR_CHANGE\<rparr>) qi"
  have q: "members q j = members qi j" "ff_cluster_of q j = ff_cluster_of qi j"
    "ff_state q j = (if j = c then Some FFSPLIT_CLIENT_WAITING_FOR_CHANGE else ff_state qi j)" for j
    by (simp_all add: q_def)
  have other: "qi_client q j = qi_client qi j" "ff_data_of q j = ff_data_of qi j" if "j \<noteq> c" for j
    using that by (simp_all add: q_def ff_set_client_def set_client_data_def upd_client_def ff_data_of_def)
  have node: "node_of q j = node_of qi j" for j
    by (simp add: q_def ff_set_client_def set_client_data_def upd_client_def)
  from data have data': "\<forall>i\<in>set (members q k). ff_state q i \<noteq> None"
    by (simp add: q)
  obtain n where n: "ff_count_sending q False (members q k) = Inr n"
    using ff_count_sending_total [OF data'] by blast
  from ff_count_sending_zero [OF n] last have zero: "n = 0"
    by (simp add: q ff_sending_def)
  obtain qi' where acks: "ff_send_acks al k c False (cl_last_ring_id (qi_client q c)) cd q = Inr qi'"
    using ff_send_acks_total [OF data'] by blast
  have "qnetd_algo_ffsplit_vote_info_reply_received al c (ff_vote_info_expected_seq_num d) qi =
       Inr (TLV_REPLY_ERROR_CODE_NO_ERROR, qi')"
    using c d cd n zero acks
    unfolding qnetd_algo_ffsplit_vote_info_reply_received_def cluster_of_def
      qnetd_algo_ffsplit_no_clients_in_sending_state_def by (simp add: Let_def q(2) flip: q_def)
  moreover have "cl_last_sent_vote (qi_client qi' i) = TLV_VOTE_ACK \<and>
      vote_sent al c i di (cl_last_ring_id (qi_client qi i)) TLV_VOTE_ACK (qi_client qi i) qi'"
    if "i \<in> set (members qi k)" "i \<noteq> c" "ff_data_of qi i = Inr di" "ff_client_state di = FFSPLIT_CLIENT_SENDING_ACK" for i di
  proof -
    have "inj_on (node_of qi) (set (members qi k))"
      using uniq by (metis distinct_map strict_sorted_iff)
    then have "node_of q i \<noteq> node_of q c" using that(1,2) k(2) node by (auto dest: inj_onD)
    then show ?thesis
      using ff_send_acks_result(3) [OF acks, of i] ff_send_acks_queue [OF acks, of i di] dist that other [OF that(2)]
        ff_data_state [OF that(3)] by (simp add: q)
  qed
  ultimately show ?thesis by blast
qed

section \<open>An example\<close>

text \<open>Two nodes that do not see each other; the lower node id is the tie-breaker.\<close>

definition ff_ex_data :: "qnetd_algo_ffsplit_client_state \<Rightarrow> client_algo_data" where
  "ff_ex_data s = Ffsplit_Client_Data \<lparr>ff_client_state = s, ff_vote_info_expected_seq_num = 1\<rparr>"

definition ff_ex_cluster :: "qnetd_algo_ffsplit_cluster_state \<Rightarrow> qnetd_algo_ffsplit_cluster_data" where
  "ff_ex_cluster s = \<lparr>ffc_cluster_state = s, ffc_quorate_partition_node_list = []\<rparr>"

definition ff_ex ::
    "qnetd_algo_ffsplit_cluster_state \<Rightarrow> qnetd_algo_ffsplit_client_state \<Rightarrow> qnetd_algo_ffsplit_client_state \<Rightarrow>
     qnetd_instance" where
  "ff_ex s s1 s2 = ex_instance (Ffsplit_Cluster_Data (ff_ex_cluster s))
     (ex_client 1 (ff_ex_data s1) (ex_ring 1) [1, 2] [1]) (ex_client 2 (ff_ex_data s2) (ex_ring 2) [1, 2] [2])"

lemmas ff_ex_defs = ff_ex_def ff_ex_data_def ff_ex_cluster_def ex_defs

lemma ff_ex_wf: "cluster_list_wf (ff_ex s s1 s2)"
  unfolding ff_ex_def by (rule ex_wf) (simp_all add: ex_client_def)

lemma ff_ex_fields [simp]:
  "qi_clients (ff_ex s s1 s2) = [10, 20]" "members (ff_ex s s1 s2) k = [10, 20]"
  "cl_cluster (qi_client (ff_ex s s1 s2) c) = Some 5"
  "ff_state (ff_ex s s1 s2) c = Some (if c = 10 then s1 else s2)"
  "ff_cluster_of (ff_ex s s1 s2) k = Inr (ff_ex_cluster s)"
  "node_of (ff_ex s s1 s2) c = (if c = 10 then 1 else 2)"
  by (simp_all add: ff_ex_def ff_ex_data_def ex_client_def ex_instance_def ff_state_def
      ff_cluster_of_def ff_cluster_data_def)

lemma ff_ex_stable:
  "qnetd_algo_ffsplit_is_membership_stable (ff_set_cluster 5 d (ff_ex s s1 s2)) 5
     (qi_client (ff_ex s s1 s2) 10) False (ex_ring 1) (ex_nodes [1, 2]) (ex_nodes [1])"
  by (simp add: qnetd_algo_ffsplit_is_membership_stable_def ff_configs_match_def ff_memberships_match_def
      cluster_views_def ff_config_of_def ff_membership_of_def node_list_subset_def
      qnetd_cluster_find_client_by_node_id_def ff_ex_defs node_ids_def)

lemma ff_ex_select:
  "qnetd_algo_ffsplit_select_partition (ff_set_cluster 5 d (ff_ex s s1 s2)) 5
     (qi_client (ff_ex s s1 s2) 10) False (ex_nodes [1, 2]) (ex_nodes [1]) l TLV_HEURISTICS_UNDEFINED =
     Inr (Some (ex_nodes [1]))"
  by (simp add: qnetd_algo_ffsplit_select_partition_def cluster_views_def
      qnetd_algo_ffsplit_partition_cmp_def qnetd_algo_ffsplit_is_preferred_partition_def
      qnetd_algo_ffsplit_get_active_clients_in_partition_stats_def ff_preferred_node_id_def ff_score_def
      qnetd_cluster_find_client_by_node_id_def node_list_size_def Let_def ff_ex_defs node_ids_def)

lemma ff_ex_run:
  "\<exists>qi'. qnetd_algo_ffsplit_do ex_al 10 False (ex_ring 1) (ex_nodes [1, 2]) (ex_nodes [1])
     TLV_HEURISTICS_UNDEFINED (ff_ex s s1 s2) =
     Inr (TLV_REPLY_ERROR_CODE_NO_ERROR, Some TLV_VOTE_NO_CHANGE, qi') \<and>
   ff_state qi' 10 = Some FFSPLIT_CLIENT_SENDING_ACK \<and> ff_state qi' 20 = Some FFSPLIT_CLIENT_SENDING_NACK"
proof -
  let ?q = "ff_ex s s1 s2"
  have al: "alloc_ideal ex_al" by (simp add: alloc_ideal_def ex_al_def)
  obtain qi' where run: "qnetd_algo_ffsplit_do ex_al 10 False (ex_ring 1) (ex_nodes [1, 2]) (ex_nodes [1])
      TLV_HEURISTICS_UNDEFINED ?q = Inr (TLV_REPLY_ERROR_CODE_NO_ERROR, Some TLV_VOTE_NO_CHANGE, qi')"
    using ff_do_total [OF _ _ _ al refl ff_ex_stable ff_ex_select, of s s1 s2 "ff_ex_cluster s"] by auto
  have "ff_state qi' i = Some (ff_target 1 False (Some (ex_nodes [1])) (node_of ?q i))" if "i \<in> {10, 20}" for i
    by (rule ff_do_voted [OF run, of 5]) (use that in \<open>auto simp: ff_ex_select\<close>)
  from this [of 10] this [of 20] show ?thesis
    using run by (auto simp: ff_target_def node_ids_def ex_nodes_def)
qed

lemma ff_ex_reply:
  "\<exists>qi'. qnetd_algo_ffsplit_vote_info_reply_received ex_al 20 1
     (ff_ex FFSPLIT_CLUSTER_SENDING_NACKS FFSPLIT_CLIENT_SENDING_ACK FFSPLIT_CLIENT_SENDING_NACK) =
       Inr (TLV_REPLY_ERROR_CODE_NO_ERROR, qi') \<and> cl_last_sent_vote (qi_client qi' 10) = TLV_VOTE_ACK"
proof -
  let ?q = "ff_ex FFSPLIT_CLUSTER_SENDING_NACKS FFSPLIT_CLIENT_SENDING_ACK FFSPLIT_CLIENT_SENDING_NACK"
  let ?d = "\<lparr>ff_client_state = FFSPLIT_CLIENT_SENDING_NACK, ff_vote_info_expected_seq_num = 1\<rparr>"
  have d: "ff_data_of ?q 20 = Inr ?d"
    and d10: "ff_data_of ?q 10 = Inr (?d\<lparr>ff_client_state := FFSPLIT_CLIENT_SENDING_ACK\<rparr>)"
    by (simp_all add: ff_data_of_def ff_client_data_def ff_ex_defs)
  show ?thesis
    using ff_last_nack [OF ff_ex_wf _ _ d, of 5 "ff_ex_cluster FFSPLIT_CLUSTER_SENDING_NACKS" ex_al] d10
    by (fastforce simp: ff_ex_cluster_def)
qed

section \<open>Properties\<close>

text \<open>The ring id that counts for a client while the client \<open>c\<close> runs the algorithm.\<close>

definition ff_ring :: "qnetd_instance \<Rightarrow> client_ref \<Rightarrow> tlv_ring_id \<Rightarrow> client_ref \<Rightarrow> tlv_ring_id" where
  "ff_ring qi c r i =
     (if node_of qi i = node_of qi c then r else cl_last_ring_id (qi_client qi i))"

text \<open>
  C8. In one run of the fifty-fifty split algorithm all the clients that are to get an ACK share
  one ring id, hence belong to one partition: the selected list, which holds all of them and at
  least half of the nodes that its client has configured. Two partitions of a cluster are never
  acknowledged by one decision.
\<close>

theorem ffsplit_one_partition:
  assumes wf: "cluster_list_wf qi" and c: "c \<in> set (qi_clients qi)" "cl_cluster (qi_client qi c) = Some k"
    and run: "qnetd_algo_ffsplit_do al c leaving r cfg m h qi = Inr (e, Some TLV_VOTE_NO_CHANGE, qi')"
    and ack: "{i \<in> set (members qi k). ff_state qi' i = Some FFSPLIT_CLIENT_SENDING_ACK} \<noteq> {}"
  shows "\<exists>ring l config. length config \<le> 2 * length l \<and>
    (\<exists>i\<in>set (members qi k). ff_config_of (qi_client qi c) leaving cfg (qi_client qi i) = Some config \<and>
       ff_membership_of (qi_client qi c) leaving r m (qi_client qi i) = Some (ring, l)) \<and>
    (\<forall>i\<in>set (members qi k). ff_state qi' i = Some FFSPLIT_CLIENT_SENDING_ACK \<longrightarrow>
       ff_ring qi c r i = ring \<and> node_of qi i \<in> node_ids l)"
proof -
  note W = cluster_list_wfD [OF wf]
  have k: "k \<in> set (qi_clusters qi)"
    using W(7) c by blast
  note uniq = W(5) [OF k]
  from sorted_wrt_map_distinct [OF uniq] have dist: "distinct (members qi k)" .
  obtain sel d d1 where
    match: "ff_memberships_match (ff_set_cluster k d1 qi) k (qi_client qi c) leaving r m" and
    sel: "qnetd_algo_ffsplit_select_partition (ff_set_cluster k d1 qi) k (qi_client qi c) leaving cfg m
       (ffc_quorate_partition_node_list d1) h = Inr sel" and
    st: "\<And>i. ff_state qi' i = (if i \<in> set (members qi k)
        then Some (ff_target (node_of qi c) leaving sel (node_of qi i)) else ff_state qi i)"
    by (rule ff_do_voted [OF run c(2) dist]) blast
  have ackD: "\<not> (node_of qi i = node_of qi c \<and> leaving) \<and> (\<exists>l. sel = Some l \<and> node_list_find_node_id l (node_of qi i) \<noteq> None)"
    if "i \<in> set (members qi k)" "ff_state qi' i = Some FFSPLIT_CLIENT_SENDING_ACK" for i
    using that by (auto simp: st ff_target_def split: if_splits option.splits)
  with ack obtain l where l: "sel = Some l" by blast
  obtain i config ring where i: "i \<in> set (members qi k)"
    "ff_membership_of (qi_client qi c) leaving r m (qi_client qi i) = Some (ring, l)"
    "ff_config_of (qi_client qi c) leaving cfg (qi_client qi i) = Some config"
    "length config \<le> 2 * length l"
    by (rule ff_select_sound [OF sel [unfolded l], where ring_id = r]) simp
  have "ff_ring qi c r j = ring \<and> node_of qi j \<in> node_ids l"
    if j: "j \<in> set (members qi k)" "ff_state qi' j = Some FFSPLIT_CLIENT_SENDING_ACK" for j
  proof -
    from ackD [OF j] l have found: "node_list_find_node_id l (node_of qi j) \<noteq> None" and
      stays: "\<not> (node_of qi j = node_of qi c \<and> leaving)" by auto
    from stays have "\<exists>l'. ff_membership_of (qi_client qi c) leaving r m (qi_client qi j) =
        Some (ff_ring qi c r j, l')"
      by (cases "node_of qi j = node_of qi c") (simp_all add: ff_membership_of_def ff_ring_def)
    then obtain l' where
      "ff_membership_of (qi_client qi c) leaving r m (qi_client qi j) = Some (ff_ring qi c r j, l')" ..
    then have "ff_ring qi c r j = ring"
      by (intro ff_stable_ring [OF match, of i ring l j]) (use i found j uniq in simp_all)
    with found show ?thesis by simp
  qed
  with i show ?thesis by blast
qed

theorem ffsplit_one_partition_witness:
  "\<exists>qi'. qnetd_algo_ffsplit_do ex_al 10 False (ex_ring 1) (ex_nodes [1, 2]) (ex_nodes [1])
     TLV_HEURISTICS_UNDEFINED (ff_ex FFSPLIT_CLUSTER_WAITING_FOR_CHANGE
       FFSPLIT_CLIENT_WAITING_FOR_CHANGE FFSPLIT_CLIENT_WAITING_FOR_CHANGE) =
     Inr (TLV_REPLY_ERROR_CODE_NO_ERROR, Some TLV_VOTE_NO_CHANGE, qi') \<and>
   (\<exists>ring l. 1 \<le> length l \<and> ring = ex_ring 1 \<and> 1 \<in> node_ids l)"
proof -
  let ?q = "ff_ex FFSPLIT_CLUSTER_WAITING_FOR_CHANGE FFSPLIT_CLIENT_WAITING_FOR_CHANGE FFSPLIT_CLIENT_WAITING_FOR_CHANGE"
  obtain qi' where run: "qnetd_algo_ffsplit_do ex_al 10 False (ex_ring 1) (ex_nodes [1, 2]) (ex_nodes [1])
      TLV_HEURISTICS_UNDEFINED ?q = Inr (TLV_REPLY_ERROR_CODE_NO_ERROR, Some TLV_VOTE_NO_CHANGE, qi')"
    and st: "ff_state qi' 10 = Some FFSPLIT_CLIENT_SENDING_ACK"
    using ff_ex_run by blast
  obtain ring l where "ff_ring ?q 10 (ex_ring 1) 10 = ring" "node_of ?q 10 \<in> node_ids l"
    using ffsplit_one_partition [OF ff_ex_wf _ _ run, of 5] st by auto
  moreover from this(2) have "1 \<le> length l" by (cases l) (auto simp: node_ids_def)
  ultimately show ?thesis using run by (auto simp: ff_ring_def)
qed

text \<open>
  C9. NACKs go before ACKs. When a run of the algorithm leaves a client that is to be sent a
  NACK, that NACK was sent, the cluster waits in the phase \<open>SENDING_NACKS\<close>, and nothing at all was
  sent to the clients that are to get an ACK; when there is no such client, every client that is
  to get an ACK was sent one.
\<close>

theorem ffsplit_nack_before_ack:
  assumes wf: "cluster_list_wf qi" and c: "c \<in> set (qi_clients qi)" "cl_cluster (qi_client qi c) = Some k"
    and run: "qnetd_algo_ffsplit_do al c leaving r cfg m h qi = Inr (e, Some TLV_VOTE_NO_CHANGE, qi')"
  shows "if \<exists>i\<in>set (members qi k). ff_state qi' i = Some FFSPLIT_CLIENT_SENDING_NACK
     then (\<exists>d. ff_cluster_of qi' k = Inr d \<and> ffc_cluster_state d = FFSPLIT_CLUSTER_SENDING_NACKS) \<and>
          (\<forall>i\<in>set (members qi k).
             if ff_state qi' i = Some FFSPLIT_CLIENT_SENDING_NACK
             then cl_last_sent_vote (qi_client qi' i) = TLV_VOTE_NACK
             else sent_to qi' i = sent_to qi i)
     else \<forall>i\<in>set (members qi k). ff_state qi' i = Some FFSPLIT_CLIENT_SENDING_ACK \<longrightarrow>
            cl_last_sent_vote (qi_client qi' i) = TLV_VOTE_ACK"
proof -
  note W = cluster_list_wfD [OF wf]
  have "k \<in> set (qi_clusters qi)"
    using W(7) c by blast
  from sorted_wrt_map_distinct [OF W(5) [OF this]] have "distinct (members qi k)" .
  then show ?thesis
    by (rule ff_do_voted [OF run c(2)]) (auto split: if_splits)
qed

theorem ffsplit_nack_before_ack_witness:
  "\<exists>qi'. qnetd_algo_ffsplit_do ex_al 10 False (ex_ring 1) (ex_nodes [1, 2]) (ex_nodes [1])
     TLV_HEURISTICS_UNDEFINED (ff_ex FFSPLIT_CLUSTER_WAITING_FOR_CHANGE
       FFSPLIT_CLIENT_WAITING_FOR_CHANGE FFSPLIT_CLIENT_WAITING_FOR_CHANGE) =
     Inr (TLV_REPLY_ERROR_CODE_NO_ERROR, Some TLV_VOTE_NO_CHANGE, qi') \<and>
   cl_last_sent_vote (qi_client qi' 20) = TLV_VOTE_NACK \<and>
   sent_to qi' 10 = sent_to (ff_ex FFSPLIT_CLUSTER_WAITING_FOR_CHANGE
     FFSPLIT_CLIENT_WAITING_FOR_CHANGE FFSPLIT_CLIENT_WAITING_FOR_CHANGE) 10"
proof -
  let ?q = "ff_ex FFSPLIT_CLUSTER_WAITING_FOR_CHANGE FFSPLIT_CLIENT_WAITING_FOR_CHANGE FFSPLIT_CLIENT_WAITING_FOR_CHANGE"
  obtain qi' where run: "qnetd_algo_ffsplit_do ex_al 10 False (ex_ring 1) (ex_nodes [1, 2]) (ex_nodes [1])
      TLV_HEURISTICS_UNDEFINED ?q = Inr (TLV_REPLY_ERROR_CODE_NO_ERROR, Some TLV_VOTE_NO_CHANGE, qi')"
    and st: "ff_state qi' 10 = Some FFSPLIT_CLIENT_SENDING_ACK" "ff_state qi' 20 = Some FFSPLIT_CLIENT_SENDING_NACK"
    using ff_ex_run by blast
  show ?thesis
    using ffsplit_nack_before_ack [OF ff_ex_wf _ _ run, of 5] run st by (auto split: if_splits)
qed

text \<open>
  A client's reply makes the daemon send votes only at the end of the NACK phase: something
  is handed to a client only when the reply carries the expected sequence number, the cluster was
  in the phase \<open>SENDING_NACKS\<close>, no client of the cluster is left that has to confirm a NACK, and the
  client is one that is to get an ACK.
\<close>

theorem ffsplit_reply_sends_ack_last:
  assumes c: "cl_cluster (qi_client qi c) = Some k"
    and run: "qnetd_algo_ffsplit_vote_info_reply_received al c n qi = Inr (e, qi')"
    and sent: "sent_to qi' i \<noteq> sent_to qi i"
  shows "i \<in> set (members qi k) \<and> ff_state qi i = Some FFSPLIT_CLIENT_SENDING_ACK \<and>
    (\<exists>d. ff_data_of qi c = Inr d \<and> ff_vote_info_expected_seq_num d = n) \<and>
    (\<exists>cd. ff_cluster_of qi k = Inr cd \<and> ffc_cluster_state cd = FFSPLIT_CLUSTER_SENDING_NACKS) \<and>
    (\<forall>j\<in>set (members qi k). ff_state qi' j \<noteq> Some FFSPLIT_CLIENT_SENDING_NACK)"
proof -
  from run c obtain d where d: "ff_data_of qi c = Inr d"
    unfolding qnetd_algo_ffsplit_vote_info_reply_received_def cluster_of_def
    by (auto simp: bindE_Inr_iff)
  define q where "q = ff_set_client c (d\<lparr>ff_client_state := FFSPLIT_CLIENT_WAITING_FOR_CHANGE\<rparr>) qi"
  have q: "sent_to q j = sent_to qi j" "members q j = members qi j" "ff_cluster_of q j = ff_cluster_of qi j"
    "ff_state q j = (if j = c then Some FFSPLIT_CLIENT_WAITING_FOR_CHANGE else ff_state qi j)" for j
    by (simp_all add: q_def)
  from run c d obtain cd where n: "ff_vote_info_expected_seq_num d = n" and
    cd: "ff_cluster_of qi k = Inr cd"
    using sent unfolding qnetd_algo_ffsplit_vote_info_reply_received_def cluster_of_def
    by (auto simp: bindE_Inr_iff Let_def split: if_splits)
  from run c d n cd sent have phase: "ffc_cluster_state cd = FFSPLIT_CLUSTER_SENDING_NACKS"
    unfolding qnetd_algo_ffsplit_vote_info_reply_received_def cluster_of_def
    by (auto simp: bindE_Inr_iff Let_def split: if_splits)
  from run c d n cd sent phase obtain r where
    zero: "ff_count_sending q False (members q k) = Inr 0" and
    acks: "ff_send_acks al k c False r cd q = Inr qi'"
    unfolding qnetd_algo_ffsplit_vote_info_reply_received_def cluster_of_def
      qnetd_algo_ffsplit_no_clients_in_sending_state_def
    by (auto simp: bindE_Inr_iff Let_def q_def split: if_splits)
  note A = ff_send_acks_result [OF acks]
  from A(2) [of i] sent q(1) [of i] have "ff_state q i = Some FFSPLIT_CLIENT_SENDING_ACK \<and> i \<in> set (members q k)"
    by auto
  then have "i \<in> set (members qi k)" "ff_state qi i = Some FFSPLIT_CLIENT_SENDING_ACK"
    unfolding q by (auto split: if_splits)
  moreover from ff_count_sending_zero [OF zero] A(1)
  have "\<forall>j\<in>set (members qi k). ff_state qi' j \<noteq> Some FFSPLIT_CLIENT_SENDING_NACK"
    by (simp add: q(2) ff_sending_def)
  ultimately show ?thesis using d n cd phase by blast
qed

theorem ffsplit_reply_sends_ack_last_witness:
  "\<exists>qi'. qnetd_algo_ffsplit_vote_info_reply_received ex_al 20 1
     (ff_ex FFSPLIT_CLUSTER_SENDING_NACKS FFSPLIT_CLIENT_SENDING_ACK FFSPLIT_CLIENT_SENDING_NACK) =
       Inr (TLV_REPLY_ERROR_CODE_NO_ERROR, qi') \<and>
     ff_state qi' 10 \<noteq> Some FFSPLIT_CLIENT_SENDING_NACK \<and> ff_state qi' 20 \<noteq> Some FFSPLIT_CLIENT_SENDING_NACK"
proof -
  let ?q = "ff_ex FFSPLIT_CLUSTER_SENDING_NACKS FFSPLIT_CLIENT_SENDING_ACK FFSPLIT_CLIENT_SENDING_NACK"
  obtain qi' where run: "qnetd_algo_ffsplit_vote_info_reply_received ex_al 20 1 ?q =
      Inr (TLV_REPLY_ERROR_CODE_NO_ERROR, qi')" and vote: "cl_last_sent_vote (qi_client qi' 10) = TLV_VOTE_ACK"
    using ff_ex_reply by blast
  from vote have "sent_to qi' 10 \<noteq> sent_to ?q 10"
    by (simp add: sent_to_def ff_ex_defs)
  from ffsplit_reply_sends_ack_last [OF _ run this] run show ?thesis by auto
qed

text \<open>
  C10. The NACK phase ends: the reply to the last outstanding NACK makes the daemon queue, for every other client
  that is to get an ACK, a \<open>VOTE_INFO\<close> message with the vote ACK, the ring id that this client reported last and the sequence number
  that its reply is expected to carry, behind the messages that wait for it already.
  No fault can happen there. This is what happens when there is memory and the client has room for a message; when
  a message cannot be queued, the client whose reply is handled is marked for disconnection, and the vote
  counts as sent in the fields of the receiver all the same.
\<close>

theorem ffsplit_last_nack_releases_acks:
  assumes wf: "cluster_list_wf qi" and c: "c \<in> set (qi_clients qi)" "cl_cluster (qi_client qi c) = Some k"
    and d: "ff_data_of qi c = Inr d"
    and cd: "ff_cluster_of qi k = Inr cd" "ffc_cluster_state cd = FFSPLIT_CLUSTER_SENDING_NACKS"
    and data: "\<forall>i\<in>set (members qi k). ff_state qi i \<noteq> None"
    and last: "\<forall>i\<in>set (members qi k). i \<noteq> c \<longrightarrow> ff_state qi i \<noteq> Some FFSPLIT_CLIENT_SENDING_NACK"
  shows "\<exists>qi'. qnetd_algo_ffsplit_vote_info_reply_received al c (ff_vote_info_expected_seq_num d) qi =
       Inr (TLV_REPLY_ERROR_CODE_NO_ERROR, qi') \<and>
     (\<forall>i\<in>set (members qi k). i \<noteq> c \<longrightarrow> ff_state qi i = Some FFSPLIT_CLIENT_SENDING_ACK \<longrightarrow>
        cl_last_sent_vote (qi_client qi' i) = TLV_VOTE_ACK \<and>
        (\<exists>di queue. ff_data_of qi' i = Inr di \<and>
           queue = queued (cl_send_buffer_list (qi_client qi i)) @
             [vote_msg (ff_vote_info_expected_seq_num di) (cl_last_ring_id (qi_client qi i)) TLV_VOTE_ACK] \<and>
           (queued (cl_send_buffer_list (qi_client qi' i)) = queue \<or> cl_schedule_disconnect (qi_client qi' c)) \<and>
           (can_queue_vote al (cl_send_buffer_list (qi_client qi i)) \<longrightarrow>
              queued (cl_send_buffer_list (qi_client qi' i)) = queue)))"
proof -
  obtain qi' where run: "qnetd_algo_ffsplit_vote_info_reply_received al c (ff_vote_info_expected_seq_num d) qi =
       Inr (TLV_REPLY_ERROR_CODE_NO_ERROR, qi')"
    and sent: "\<And>i di. i \<in> set (members qi k) \<Longrightarrow> i \<noteq> c \<Longrightarrow> ff_data_of qi i = Inr di \<Longrightarrow>
        ff_client_state di = FFSPLIT_CLIENT_SENDING_ACK \<Longrightarrow>
        cl_last_sent_vote (qi_client qi' i) = TLV_VOTE_ACK \<and>
        vote_sent al c i di (cl_last_ring_id (qi_client qi i)) TLV_VOTE_ACK (qi_client qi i) qi'"
    using ff_last_nack [OF assms, of al] by blast
  show ?thesis
  proof (intro exI [of _ qi'] conjI ballI impI, rule run)
    fix i assume i: "i \<in> set (members qi k)" "i \<noteq> c" "ff_state qi i = Some FFSPLIT_CLIENT_SENDING_ACK"
    then obtain di where di: "ff_data_of qi i = Inr di" using ff_state_data by fastforce
    with i(3) have "ff_client_state di = FFSPLIT_CLIENT_SENDING_ACK" using ff_data_state by fastforce
    note s = sent [OF i(1,2) di this]
    show "cl_last_sent_vote (qi_client qi' i) = TLV_VOTE_ACK" using s by blast
    show "\<exists>di queue. ff_data_of qi' i = Inr di \<and>
        queue = queued (cl_send_buffer_list (qi_client qi i)) @
          [vote_msg (ff_vote_info_expected_seq_num di) (cl_last_ring_id (qi_client qi i)) TLV_VOTE_ACK] \<and>
        (queued (cl_send_buffer_list (qi_client qi' i)) = queue \<or> cl_schedule_disconnect (qi_client qi' c)) \<and>
        (can_queue_vote al (cl_send_buffer_list (qi_client qi i)) \<longrightarrow>
           queued (cl_send_buffer_list (qi_client qi' i)) = queue)"
      using conjunct2 [OF s] unfolding vote_sent_def Let_def
      by (intro exI [of _ "di\<lparr>ff_vote_info_expected_seq_num := ff_vote_info_expected_seq_num di + 1\<rparr>"]) simp
  qed
qed

text \<open>Node 2 confirms its NACK; the ACK for node 1 is queued, with sequence number 2 and the ring id of node 1.\<close>

theorem ffsplit_last_nack_releases_acks_witness:
  "\<exists>qi'. qnetd_algo_ffsplit_vote_info_reply_received ex_al 20 1
     (ff_ex FFSPLIT_CLUSTER_SENDING_NACKS FFSPLIT_CLIENT_SENDING_ACK FFSPLIT_CLIENT_SENDING_NACK) =
       Inr (TLV_REPLY_ERROR_CODE_NO_ERROR, qi') \<and> cl_last_sent_vote (qi_client qi' 10) = TLV_VOTE_ACK \<and>
     (\<exists>seq. queued (cl_send_buffer_list (qi_client qi' 10)) = [vote_msg seq (ex_ring 1) TLV_VOTE_ACK])"
proof -
  let ?q = "ff_ex FFSPLIT_CLUSTER_SENDING_NACKS FFSPLIT_CLIENT_SENDING_ACK FFSPLIT_CLIENT_SENDING_NACK"
  let ?d = "\<lparr>ff_client_state = FFSPLIT_CLIENT_SENDING_NACK, ff_vote_info_expected_seq_num = 1\<rparr>"
  have d: "ff_data_of ?q 20 = Inr ?d"
    by (simp add: ff_data_of_def ff_client_data_def ff_ex_defs)
  have room: "can_queue_vote ex_al (cl_send_buffer_list (qi_client ?q 10))"
    by (simp add: can_queue_vote_def ff_ex_defs alloc_ideal_def ex_al_def sbl_inv_def sbl_room_def send_buffer_list_init_def
        vote_msg_def tlvs_bytes_def tlv_bytes_def ring_id_bytes_def)
  have empty: "queued (cl_send_buffer_list (qi_client ?q 10)) = []" "cl_last_ring_id (qi_client ?q 10) = ex_ring 1"
    by (simp_all add: ff_ex_defs queued_def send_buffer_list_init_def)
  show ?thesis
    using ffsplit_last_nack_releases_acks [OF ff_ex_wf _ _ d, of 5 "ff_ex_cluster FFSPLIT_CLUSTER_SENDING_NACKS" ex_al]
      room empty by (auto simp: ff_ex_cluster_def)
qed

text \<open>
  The score of a partition, \<open>n + (pass - fail)\<close> in \<open>size_t\<close>, is exact although the difference in
  parentheses wraps around when there are more failed than passed heuristics: as long as the list
  has fewer than 2^62 nodes, comparing two scores compares the true numbers.
\<close>

theorem ffsplit_score_exact:
  assumes "qnetd_algo_ffsplit_get_active_clients_in_partition_stats qi k (Some (c1, cfg1, m1, h1)) = (n1, p1, f1)"
    and "qnetd_algo_ffsplit_get_active_clients_in_partition_stats qi k (Some (c2, cfg2, m2, h2)) = (n2, p2, f2)"
    and "length m1 < 2 ^ 62" and "length m2 < 2 ^ 62"
  shows "ff_score (n1, p1, f1) < ff_score (n2, p2, f2) \<longleftrightarrow>
    int n1 + int p1 - int f1 < int n2 + int p2 - int f2"
proof -
  have "p1 + f1 \<le> n1 \<and> n1 \<le> 0 + length m1" "p2 + f2 \<le> n2 \<and> n2 \<le> 0 + length m2"
    using assms(1,2) unfolding qnetd_algo_ffsplit_get_active_clients_in_partition_stats_def
    by (auto dest!: ff_stats_bounds)
  with assms(3,4) have "unat (ff_score (n1, p1, f1)) = n1 + p1 - f1" "unat (ff_score (n2, p2, f2)) = n2 + p2 - f2"
    and le: "p1 + f1 \<le> n1" "p2 + f2 \<le> n2"
    by (auto intro!: ff_score_nat)
  then show ?thesis
    unfolding word_less_nat_alt by simp linarith
qed

theorem ffsplit_score_exact_witness:
  "ff_score (1, 0, 1) < ff_score (1, 0, 0) \<longleftrightarrow> int 1 + int 0 - int 1 < int 1 + int 0 - int 0"
proof (rule ffsplit_score_exact)
  let ?q = "ff_ex FFSPLIT_CLUSTER_SENDING_NACKS FFSPLIT_CLIENT_SENDING_ACK FFSPLIT_CLIENT_SENDING_NACK"
  show "qnetd_algo_ffsplit_get_active_clients_in_partition_stats ?q 5
      (Some (10, [], ex_nodes [1], TLV_HEURISTICS_FAIL)) = (1, 0, 1)"
    "qnetd_algo_ffsplit_get_active_clients_in_partition_stats ?q 5
      (Some (20, [], ex_nodes [2], TLV_HEURISTICS_UNDEFINED)) = (1, 0, 0)"
    by (simp_all add: qnetd_algo_ffsplit_get_active_clients_in_partition_stats_def ex_nodes_def
        qnetd_cluster_find_client_by_node_id_def)
qed (simp_all add: ex_nodes_def)

text \<open>
  C36. A daemon that serves two clients of a cluster with the fifty-fifty split algorithm aborts
  when one of them disconnects while the other has joined but has not sent its node lists yet:
  with the tie-breaker \<open>lowest\<close> or \<open>highest\<close> the empty configuration list of the latter fails the
  assertion in \<open>qnetd_algo_ffsplit_is_preferred_partition\<close>.
\<close>

theorem ffsplit_disconnect_aborts:
  assumes c: "cl_cluster (qi_client qi c) = Some k" and mem: "members qi k = [c, i]"
    and ids: "node_of qi c < node_of qi i"
    and data: "ff_cluster_of qi k = Inr d"
    and fresh: "cl_configuration_node_list (qi_client qi i) = []"
      "cl_last_membership_node_list (qi_client qi i) = []"
    and tb: "tb_mode (cl_tie_breaker (qi_client qi i)) = TLV_TIE_BREAKER_MODE_LOWEST \<or>
      tb_mode (cl_tie_breaker (qi_client qi i)) = TLV_TIE_BREAKER_MODE_HIGHEST"
  shows "qnetd_algo_ffsplit_client_disconnect al c False qi = Inl Assert_Failure"
proof -
  define q where "q = ff_set_cluster k (d\<lparr>ffc_cluster_state := FFSPLIT_CLUSTER_WAITING_FOR_STABLE_MEMBERSHIP\<rparr>) qi"
  let ?cl = "qi_client qi c"
  have q: "qi_client q = qi_client qi" "members q k = [c, i]"
    using mem by (simp_all add: q_def)
  have views: "cluster_views q k = [(c, qi_client qi c), (i, qi_client qi i)]"
    by (simp add: cluster_views_def q)
  have ne: "node_of qi i \<noteq> node_of qi c" using ids by simp
  have stable: "qnetd_algo_ffsplit_is_membership_stable q k ?cl True r cfg m" for r cfg m
    using ne fresh by (simp add: qnetd_algo_ffsplit_is_membership_stable_def ff_configs_match_def
        ff_memberships_match_def views ff_config_of_def ff_membership_of_def node_list_subset_def)
  have pref: "qnetd_algo_ffsplit_is_preferred_partition (qi_client qi i) [] [] = Inl Assert_Failure"
    using tb by (auto simp: qnetd_algo_ffsplit_is_preferred_partition_def ff_preferred_node_id_def)
  have "qnetd_algo_ffsplit_partition_cmp q k (i, [], [], h) None l keep = Inl Assert_Failure" for h l keep
    using pref by (simp add: qnetd_algo_ffsplit_partition_cmp_def node_list_size_def q(1) Let_def
        qnetd_algo_ffsplit_get_active_clients_in_partition_stats_def)
  then have "qnetd_algo_ffsplit_select_partition q k ?cl True cfg m l h = Inl Assert_Failure" for cfg m l h
    using ne fresh by (simp add: qnetd_algo_ffsplit_select_partition_def Let_def views)
  with stable have "qnetd_algo_ffsplit_do al c True r cfg m h qi = Inl Assert_Failure" for r cfg m h
    using c data by (simp add: qnetd_algo_ffsplit_do_def cluster_of_def Let_def q(1) flip: q_def)
  then show ?thesis
    using c by (simp add: qnetd_algo_ffsplit_client_disconnect_def cluster_of_def Let_def)
qed

theorem ffsplit_disconnect_aborts_witness:
  "qnetd_algo_ffsplit_client_disconnect ex_al 10 False
     (ex_instance (Ffsplit_Cluster_Data (ff_ex_cluster FFSPLIT_CLUSTER_WAITING_FOR_CHANGE))
       (ex_client 1 (ff_ex_data FFSPLIT_CLIENT_WAITING_FOR_CHANGE) (ex_ring 1) [1, 2] [1, 2])
       (ex_client 2 (ff_ex_data FFSPLIT_CLIENT_WAITING_FOR_CHANGE) (ex_ring 0) [] [])) = Inl Assert_Failure"
  by (rule ffsplit_disconnect_aborts [where k = 5 and i = 20
        and d = "ff_ex_cluster FFSPLIT_CLUSTER_WAITING_FOR_CHANGE"])
     (simp_all add: ff_ex_defs ff_cluster_of_def ff_cluster_data_def)

end
