(* ===== verification/Algo_2nodelms.thy ===== *)
theory Algo_2nodelms
  imports Algo_Interface
begin

text \<open>
  The two-node last-man-standing algorithm of \<open>qnetd-algo-2nodelms.c\<close>. The decision is taken when
  a membership list arrives; it depends on the size of that list, on the clients of the cluster,
  on the heuristics of both nodes and on the tie-breaker.
\<close>

section \<open>Operations\<close>

definition lms2_info :: "client_algo_data \<Rightarrow> fault + qnetd_algo_2nodelms_info" where
  "lms2_info d =
     (case d of
        Lms2_Client_Data info \<Rightarrow> Inr info
      | No_Client_Data \<Rightarrow> Inl Null_Deref
      | _ \<Rightarrow> Inl Type_Confusion)"

definition qnetd_algo_2nodelms_client_init ::
    "allocator \<Rightarrow> client_ref \<Rightarrow> qnetd_instance \<Rightarrow> fault + (tlv_reply_error_code \<times> qnetd_instance)" where
  "qnetd_algo_2nodelms_client_init al c qi =
     (if \<not> al Malloc_Client_Algo_Data then Inr (TLV_REPLY_ERROR_CODE_INTERNAL_ERROR, qi)
      else Inr (TLV_REPLY_ERROR_CODE_NO_ERROR,
        set_client_data c (Lms2_Client_Data
          \<lparr>l2_num_config_nodes = None, l2_last_result = TLV_VOTE_UNDEFINED\<rparr>) qi))"

definition qnetd_algo_2nodelms_config_node_list_received ::
    "allocator \<Rightarrow> client_ref \<Rightarrow> node_list \<Rightarrow> bool \<Rightarrow> qnetd_instance \<Rightarrow> algo_result" where
  "qnetd_algo_2nodelms_config_node_list_received al c nodes initial qi =
     bindE (lms2_info (cl_algorithm_data (qi_client qi c))) (\<lambda>info.
       let node_count = length nodes;
           qi1 = set_client_data c (Lms2_Client_Data (info\<lparr>l2_num_config_nodes := Some node_count\<rparr>)) qi
       in if node_count \<noteq> 2
          then Inr (TLV_REPLY_ERROR_CODE_UNSUPPORTED_DECISION_ALGORITHM, Some TLV_VOTE_NACK, qi1)
          else Inr (TLV_REPLY_ERROR_CODE_NO_ERROR, Some TLV_VOTE_NO_CHANGE, qi1))"

text \<open>
  The loop for a newcomer: is there a client with another ring id whose last result is a vote?
  The private data of a client is only read when its ring id differs.
\<close>

fun lms2_other_active :: "tlv_ring_id \<Rightarrow> (client_ref \<times> qnetd_client) list \<Rightarrow> fault + bool" where
  "lms2_other_active ring_id [] = Inr False"
| "lms2_other_active ring_id ((oc, other) # views) =
     (if tlv_ring_id_eq ring_id (cl_last_ring_id other) then lms2_other_active ring_id views
      else bindE (lms2_info (cl_algorithm_data other)) (\<lambda>other_info.
        if l2_last_result other_info = TLV_VOTE_ACK then Inr True
        else lms2_other_active ring_id views))"

text \<open>
  The loop over all clients: their number, the lowest and highest node id, and the heuristics of
  the last client that is not the asking one.
\<close>

fun lms2_scan ::
    "client_ref \<Rightarrow> (client_ref \<times> qnetd_client) list \<Rightarrow> nat \<times> u32 \<times> u32 \<times> tlv_heuristics \<Rightarrow>
     nat \<times> u32 \<times> u32 \<times> tlv_heuristics" where
  "lms2_scan c [] acc = acc"
| "lms2_scan c ((oc, other) # views) (node_count, low_node_id, high_node_id, h) =
     lms2_scan c views
       (node_count + 1,
        if cl_node_id other < low_node_id then cl_node_id other else low_node_id,
        if cl_node_id other > high_node_id then cl_node_id other else high_node_id,
        if oc \<noteq> c then cl_last_heuristics other else h)"

definition lms2_tie_break :: "qnetd_client \<Rightarrow> u32 \<Rightarrow> u32 \<Rightarrow> tlv_vote" where
  "lms2_tie_break client low_node_id high_node_id =
     (case tb_mode (cl_tie_breaker client) of
        TLV_TIE_BREAKER_MODE_LOWEST \<Rightarrow>
          if cl_node_id client = low_node_id then TLV_VOTE_ACK else TLV_VOTE_NACK
      | TLV_TIE_BREAKER_MODE_HIGHEST \<Rightarrow>
          if cl_node_id client = high_node_id then TLV_VOTE_ACK else TLV_VOTE_NACK
      | TLV_TIE_BREAKER_MODE_NODE_ID \<Rightarrow>
          if cl_node_id client = tb_node_id (cl_tie_breaker client) then TLV_VOTE_ACK
          else TLV_VOTE_NACK
      | TLV_TIE_BREAKER_MODE_OTHER w \<Rightarrow> TLV_VOTE_NACK)"

text \<open>The vote once the newcomer check has passed; every path stores it as \<open>last_result\<close>.\<close>

definition lms2_vote ::
    "client_ref \<Rightarrow> qnetd_client \<Rightarrow> (client_ref \<times> qnetd_client) list \<Rightarrow> node_list \<Rightarrow> tlv_heuristics \<Rightarrow>
     tlv_vote" where
  "lms2_vote c client views nodes heuristics =
     (if length nodes = 2 then TLV_VOTE_ACK
      else case lms2_scan c views (0, -1, 0, TLV_HEURISTICS_UNDEFINED) of
             (node_count, low_node_id, high_node_id, other_node_heuristics) \<Rightarrow>
               if node_count = 1 then TLV_VOTE_ACK
               else if tlv_heuristics_cmp heuristics other_node_heuristics > 0 then TLV_VOTE_ACK
               else if tlv_heuristics_cmp heuristics other_node_heuristics < 0 then TLV_VOTE_NACK
               else lms2_tie_break client low_node_id high_node_id)"

definition qnetd_algo_2nodelms_membership_node_list_received ::
    "allocator \<Rightarrow> client_ref \<Rightarrow> tlv_ring_id \<Rightarrow> node_list \<Rightarrow> tlv_heuristics \<Rightarrow> qnetd_instance \<Rightarrow> algo_result" where
  "qnetd_algo_2nodelms_membership_node_list_received al c ring_id nodes heuristics qi =
     bindE (lms2_info (cl_algorithm_data (qi_client qi c))) (\<lambda>info.
     bindE (cluster_of qi c) (\<lambda>k.
     bindE (if l2_last_result info = TLV_VOTE_UNDEFINED
            then lms2_other_active ring_id (cluster_views qi k) else Inr False) (\<lambda>newcomer_nack.
       if newcomer_nack then Inr (TLV_REPLY_ERROR_CODE_NO_ERROR, Some TLV_VOTE_NACK, qi)
       else let v = lms2_vote c (qi_client qi c) (cluster_views qi k) nodes heuristics
            in Inr (TLV_REPLY_ERROR_CODE_NO_ERROR, Some v,
                 set_client_data c (Lms2_Client_Data (info\<lparr>l2_last_result := v\<rparr>)) qi))))"

definition qnetd_algo_2nodelms_quorum_node_list_received ::
    "allocator \<Rightarrow> client_ref \<Rightarrow> qnetd_instance \<Rightarrow> algo_result" where
  "qnetd_algo_2nodelms_quorum_node_list_received al c qi =
     Inr (TLV_REPLY_ERROR_CODE_NO_ERROR, Some TLV_VOTE_NO_CHANGE, qi)"

definition qnetd_algo_2nodelms_client_disconnect ::
    "allocator \<Rightarrow> client_ref \<Rightarrow> bool \<Rightarrow> qnetd_instance \<Rightarrow> fault + qnetd_instance" where
  "qnetd_algo_2nodelms_client_disconnect al c server_going_down qi = Inr (free_client_data c qi)"

definition qnetd_algo_2nodelms_ask_for_vote_received ::
    "allocator \<Rightarrow> client_ref \<Rightarrow> qnetd_instance \<Rightarrow> algo_result" where
  "qnetd_algo_2nodelms_ask_for_vote_received al c qi =
     bindE (lms2_info (cl_algorithm_data (qi_client qi c))) (\<lambda>info.
       Inr (TLV_REPLY_ERROR_CODE_NO_ERROR,
            Some (if l2_last_result info = TLV_VOTE_UNDEFINED then TLV_VOTE_ASK_LATER
                  else l2_last_result info), qi))"

definition qnetd_algo_2nodelms_vote_info_reply_received ::
    "allocator \<Rightarrow> client_ref \<Rightarrow> u32 \<Rightarrow> qnetd_instance \<Rightarrow> fault + (tlv_reply_error_code \<times> qnetd_instance)" where
  "qnetd_algo_2nodelms_vote_info_reply_received al c msg_seq_num qi =
     Inr (TLV_REPLY_ERROR_CODE_NO_ERROR, qi)"

definition qnetd_algo_2nodelms_heuristics_change_received ::
    "allocator \<Rightarrow> client_ref \<Rightarrow> tlv_heuristics \<Rightarrow> qnetd_instance \<Rightarrow> algo_result" where
  "qnetd_algo_2nodelms_heuristics_change_received al c heuristics qi =
     Inr (TLV_REPLY_ERROR_CODE_NO_ERROR, Some TLV_VOTE_NO_CHANGE, qi)"

definition qnetd_algo_2nodelms_timer_callback ::
    "allocator \<Rightarrow> client_ref \<Rightarrow> qnetd_instance \<Rightarrow>
     fault + (tlv_reply_error_code \<times> bool \<times> bool \<times> tlv_vote option \<times> qnetd_instance)" where
  "qnetd_algo_2nodelms_timer_callback al c qi =
     Inr (TLV_REPLY_ERROR_CODE_NO_ERROR, False, False, None, qi)"

definition qnetd_algo_2nodelms :: qnetd_algorithm where
  "qnetd_algo_2nodelms =
     \<lparr>alg_init = qnetd_algo_2nodelms_client_init,
      alg_config_node_list_received = qnetd_algo_2nodelms_config_node_list_received,
      alg_membership_node_list_received = qnetd_algo_2nodelms_membership_node_list_received,
      alg_quorum_node_list_received = qnetd_algo_2nodelms_quorum_node_list_received,
      alg_client_disconnect = qnetd_algo_2nodelms_client_disconnect,
      alg_ask_for_vote_received = qnetd_algo_2nodelms_ask_for_vote_received,
      alg_vote_info_reply_received = qnetd_algo_2nodelms_vote_info_reply_received,
      alg_heuristics_change_received = qnetd_algo_2nodelms_heuristics_change_received,
      alg_timer_callback = qnetd_algo_2nodelms_timer_callback\<rparr>"

lemmas algo_2nodelms_defs = qnetd_algo_2nodelms_def qnetd_algo_2nodelms_client_init_def
  qnetd_algo_2nodelms_config_node_list_received_def
  qnetd_algo_2nodelms_membership_node_list_received_def
  qnetd_algo_2nodelms_quorum_node_list_received_def qnetd_algo_2nodelms_client_disconnect_def
  qnetd_algo_2nodelms_ask_for_vote_received_def qnetd_algo_2nodelms_vote_info_reply_received_def
  qnetd_algo_2nodelms_heuristics_change_received_def qnetd_algo_2nodelms_timer_callback_def

interpretation algo_2nodelms: decision_algorithm qnetd_algo_2nodelms
  by unfold_locales
     (auto simp: algo_2nodelms_defs Let_def bindE_Inr_iff same_core_data_trans split: if_splits)

end
