(* ===== verification/Algo_Lms.thy ===== *)
theory Algo_Lms
  imports Algo_Interface
begin

text \<open>
  The last-man-standing algorithm of \<open>qnetd-algo-lms.c\<close> for clusters of any size: clients are
  grouped into partitions by ring id; the partition with the best score wins, then the largest
  one, then the one of the tie-breaker node. The partition list is part of the private data of
  the client that runs the algorithm.
\<close>

section \<open>The decision\<close>

definition lms_info :: "client_algo_data \<Rightarrow> fault + qnetd_algo_lms_info" where
  "lms_info d =
     (case d of
        Lms_Client_Data info \<Rightarrow> Inr info
      | No_Client_Data \<Rightarrow> Inl Null_Deref
      | _ \<Rightarrow> Inl Type_Confusion)"

fun lms_other_active :: "tlv_ring_id \<Rightarrow> (client_ref \<times> qnetd_client) list \<Rightarrow> fault + bool" where
  "lms_other_active ring_id [] = Inr False"
| "lms_other_active ring_id ((oc, other) # views) =
     (if tlv_ring_id_eq ring_id (cl_last_ring_id other) then lms_other_active ring_id views
      else bindE (lms_info (cl_algorithm_data other)) (\<lambda>other_info.
        if lms_last_result other_info = TLV_VOTE_ACK then Inr True
        else lms_other_active ring_id views))"

text \<open>
  The two searches for the best partition, and the test whether another partition is as good.
  A partition pointer is an index of the list.
\<close>

definition lms_leader :: "(qnetd_algo_partition \<Rightarrow> int) \<Rightarrow> qnetd_algo_partition list \<Rightarrow> nat option" where
  "lms_leader key ps =
     foldl (\<lambda>best i. case best of
              None \<Rightarrow> Some i
            | Some b \<Rightarrow> if key (ps ! b) < key (ps ! i) then Some i else best)
       None [0..<length ps]"

definition lms_joint_leader :: "(qnetd_algo_partition \<Rightarrow> int) \<Rightarrow> qnetd_algo_partition list \<Rightarrow> nat \<Rightarrow> bool" where
  "lms_joint_leader key ps b =
     list_ex (\<lambda>i. i \<noteq> b \<and> key (ps ! b) = key (ps ! i)) [0..<length ps]"

definition lms_in_leader :: "qnetd_algo_partition \<Rightarrow> tlv_ring_id \<Rightarrow> tlv_vote" where
  "lms_in_leader p ring_id =
     (if tlv_ring_id_eq (part_ring_id p) ring_id then TLV_VOTE_ACK else TLV_VOTE_NACK)"

text \<open>The start value of \<open>tb_node_id\<close>; \<open>INT_MAX\<close> and \<open>-1\<close> are converted to \<open>uint32_t\<close>.\<close>

definition lms_tb_start :: "tlv_tie_breaker \<Rightarrow> u32" where
  "lms_tb_start tb =
     (case tb_mode tb of
        TLV_TIE_BREAKER_MODE_LOWEST \<Rightarrow> 2147483647
      | TLV_TIE_BREAKER_MODE_HIGHEST \<Rightarrow> 0
      | TLV_TIE_BREAKER_MODE_NODE_ID \<Rightarrow> tb_node_id tb
      | TLV_TIE_BREAKER_MODE_OTHER w \<Rightarrow> -1)"

text \<open>
  The loop that looks for the tie-breaker node. In the mode with a nominated node the code compares
  the nominated id with the id of the asking client, not with that of the client it looks at.
\<close>

fun lms_tb_search ::
    "qnetd_client \<Rightarrow> qnetd_client list \<Rightarrow> u32 \<times> tlv_ring_id \<Rightarrow> u32 \<times> tlv_ring_id" where
  "lms_tb_search client [] acc = acc"
| "lms_tb_search client (other # others) (tb_id, tb_ring) =
     lms_tb_search client others
       (case tb_mode (cl_tie_breaker client) of
          TLV_TIE_BREAKER_MODE_LOWEST \<Rightarrow>
            if cl_node_id other < tb_id then (cl_node_id other, cl_last_ring_id other)
            else (tb_id, tb_ring)
        | TLV_TIE_BREAKER_MODE_HIGHEST \<Rightarrow>
            if cl_node_id other > tb_id then (cl_node_id other, cl_last_ring_id other)
            else (tb_id, tb_ring)
        | TLV_TIE_BREAKER_MODE_NODE_ID \<Rightarrow>
            if tb_node_id (cl_tie_breaker client) = cl_node_id client
            then (tb_id, cl_last_ring_id other) else (tb_id, tb_ring)
        | TLV_TIE_BREAKER_MODE_OTHER w \<Rightarrow> (tb_id, \<lparr>rid_node_id = 0, rid_seq = 0\<rparr>))"

definition lms_tie_break :: "qnetd_client \<Rightarrow> qnetd_client list \<Rightarrow> tlv_ring_id \<Rightarrow> tlv_vote" where
  "lms_tie_break client others ring_id =
     (case lms_tb_search client others
             (lms_tb_start (cl_tie_breaker client), \<lparr>rid_node_id = 0, rid_seq = 0\<rparr>) of
        (tb_id, tb_ring) \<Rightarrow>
          if cl_node_id client = tb_id \<or> tlv_ring_id_eq tb_ring ring_id then TLV_VOTE_ACK
          else TLV_VOTE_NACK)"

text \<open>The vote among at least two partitions, after the newcomer check.\<close>

definition lms_partition_vote ::
    "qnetd_client \<Rightarrow> qnetd_client list \<Rightarrow> qnetd_algo_partition list \<Rightarrow> tlv_ring_id \<Rightarrow> fault + tlv_vote" where
  "lms_partition_vote client others ps ring_id =
     (case lms_leader part_score ps of
        None \<Rightarrow> Inl Null_Deref
      | Some best \<Rightarrow>
          if \<not> lms_joint_leader part_score ps best then Inr (lms_in_leader (ps ! best) ring_id)
          else (case lms_leader part_num_nodes ps of
                  None \<Rightarrow> Inl Null_Deref
                | Some largest \<Rightarrow>
                    if \<not> lms_joint_leader part_num_nodes ps largest
                    then Inr (lms_in_leader (ps ! largest) ring_id)
                    else Inr (lms_tie_break client others ring_id)))"

definition lms_store :: "client_ref \<Rightarrow> qnetd_algo_lms_info \<Rightarrow> qnetd_instance \<Rightarrow> qnetd_instance" where
  "lms_store c info = set_client_data c (Lms_Client_Data info)"

definition lms_wait ::
    "allocator \<Rightarrow> client_ref \<Rightarrow> qnetd_algo_lms_info \<Rightarrow> qnetd_instance \<Rightarrow> algo_result" where
  "lms_wait al c info qi =
     Inr (TLV_REPLY_ERROR_CODE_NO_ERROR, Some TLV_VOTE_WAIT_FOR_REPLY,
          lms_store c (info\<lparr>lms_last_result := TLV_VOTE_WAIT_FOR_REPLY\<rparr>)
            (snd (on_client c (qnetd_client_algo_timer_schedule al) qi)))"

definition do_lms_algorithm ::
    "allocator \<Rightarrow> client_ref \<Rightarrow> tlv_ring_id \<Rightarrow> qnetd_instance \<Rightarrow> algo_result" where
  "do_lms_algorithm al c ring_id qi0 =
     (let qi = snd (on_client c qnetd_client_algo_timer_abort qi0)
      in bindE (cluster_of qi c) (\<lambda>k.
         bindE (lms_info (cl_algorithm_data (qi_client qi c))) (\<lambda>info.
           if qnetd_algo_all_ring_ids_match (cluster_views qi k) c (qi_client qi c) ring_id = -1
           then lms_wait al c info qi
           else case qnetd_algo_create_partitions al (cluster_views qi k) (lms_partition_list info) of
                  (num_partitions, ps) \<Rightarrow>
                    if num_partitions = -1
                    then Inr (TLV_REPLY_ERROR_CODE_INTERNAL_ERROR, None,
                              lms_store c (info\<lparr>lms_partition_list := ps\<rparr>) qi)
                    else if num_partitions = 0
                    then lms_wait al c (info\<lparr>lms_partition_list := ps\<rparr>) qi
                    else if num_partitions = 1
                    then Inr (TLV_REPLY_ERROR_CODE_NO_ERROR, Some TLV_VOTE_ACK,
                              lms_store c (info\<lparr>lms_partition_list := qnetd_algo_free_partitions ps,
                                                lms_last_result := TLV_VOTE_ACK\<rparr>) qi)
                    else bindE (if lms_last_result info = TLV_VOTE_UNDEFINED
                                then lms_other_active ring_id (cluster_views qi k) else Inr False)
                      (\<lambda>newcomer_nack.
                        if newcomer_nack
                        then Inr (TLV_REPLY_ERROR_CODE_NO_ERROR, Some TLV_VOTE_NACK,
                                  lms_store c (info\<lparr>lms_partition_list := qnetd_algo_free_partitions ps\<rparr>) qi)
                        else bindE (lms_partition_vote (qi_client qi c) (map snd (cluster_views qi k)) ps ring_id)
                          (\<lambda>v. Inr (TLV_REPLY_ERROR_CODE_NO_ERROR, Some v,
                             lms_store c (info\<lparr>lms_partition_list := qnetd_algo_free_partitions ps,
                                               lms_last_result := v\<rparr>) qi))))))"

section \<open>Operations\<close>

definition qnetd_algo_lms_client_init ::
    "allocator \<Rightarrow> client_ref \<Rightarrow> qnetd_instance \<Rightarrow> fault + (tlv_reply_error_code \<times> qnetd_instance)" where
  "qnetd_algo_lms_client_init al c qi =
     (if \<not> al Malloc_Client_Algo_Data then Inr (TLV_REPLY_ERROR_CODE_INTERNAL_ERROR, qi)
      else Inr (TLV_REPLY_ERROR_CODE_NO_ERROR,
        lms_store c \<lparr>lms_num_config_nodes = 0, lms_last_result = TLV_VOTE_UNDEFINED,
                     lms_partition_list = []\<rparr> qi))"

definition qnetd_algo_lms_config_node_list_received ::
    "allocator \<Rightarrow> client_ref \<Rightarrow> node_list \<Rightarrow> bool \<Rightarrow> qnetd_instance \<Rightarrow> algo_result" where
  "qnetd_algo_lms_config_node_list_received al c nodes initial qi =
     bindE (lms_info (cl_algorithm_data (qi_client qi c))) (\<lambda>info.
       Inr (TLV_REPLY_ERROR_CODE_NO_ERROR, Some TLV_VOTE_NO_CHANGE,
            lms_store c (info\<lparr>lms_num_config_nodes := length nodes\<rparr>) qi))"

definition qnetd_algo_lms_membership_node_list_received ::
    "allocator \<Rightarrow> client_ref \<Rightarrow> tlv_ring_id \<Rightarrow> node_list \<Rightarrow> tlv_heuristics \<Rightarrow> qnetd_instance \<Rightarrow> algo_result" where
  "qnetd_algo_lms_membership_node_list_received al c ring_id nodes heuristics qi =
     do_lms_algorithm al c ring_id qi"

definition qnetd_algo_lms_quorum_node_list_received ::
    "allocator \<Rightarrow> client_ref \<Rightarrow> qnetd_instance \<Rightarrow> algo_result" where
  "qnetd_algo_lms_quorum_node_list_received al c qi =
     do_lms_algorithm al c (cl_last_ring_id (qi_client qi c)) qi"

definition qnetd_algo_lms_client_disconnect ::
    "allocator \<Rightarrow> client_ref \<Rightarrow> bool \<Rightarrow> qnetd_instance \<Rightarrow> fault + qnetd_instance" where
  "qnetd_algo_lms_client_disconnect al c server_going_down qi = Inr (free_client_data c qi)"

definition qnetd_algo_lms_ask_for_vote_received ::
    "allocator \<Rightarrow> client_ref \<Rightarrow> qnetd_instance \<Rightarrow> algo_result" where
  "qnetd_algo_lms_ask_for_vote_received al c qi =
     do_lms_algorithm al c (cl_last_ring_id (qi_client qi c)) qi"

definition qnetd_algo_lms_vote_info_reply_received ::
    "allocator \<Rightarrow> client_ref \<Rightarrow> u32 \<Rightarrow> qnetd_instance \<Rightarrow> fault + (tlv_reply_error_code \<times> qnetd_instance)" where
  "qnetd_algo_lms_vote_info_reply_received al c msg_seq_num qi = Inr (TLV_REPLY_ERROR_CODE_NO_ERROR, qi)"

definition qnetd_algo_lms_heuristics_change_received ::
    "allocator \<Rightarrow> client_ref \<Rightarrow> tlv_heuristics \<Rightarrow> qnetd_instance \<Rightarrow> algo_result" where
  "qnetd_algo_lms_heuristics_change_received al c heuristics qi =
     Inr (TLV_REPLY_ERROR_CODE_NO_ERROR, Some TLV_VOTE_NO_CHANGE, qi)"

definition qnetd_algo_lms_timer_callback ::
    "allocator \<Rightarrow> client_ref \<Rightarrow> qnetd_instance \<Rightarrow>
     fault + (tlv_reply_error_code \<times> bool \<times> bool \<times> tlv_vote option \<times> qnetd_instance)" where
  "qnetd_algo_lms_timer_callback al c qi =
     bindE (do_lms_algorithm al c (cl_last_ring_id (qi_client qi c)) qi) (\<lambda>(ret, v, qi').
       Inr (ret,
            ret = TLV_REPLY_ERROR_CODE_NO_ERROR \<and> v = Some TLV_VOTE_WAIT_FOR_REPLY,
            ret = TLV_REPLY_ERROR_CODE_NO_ERROR \<and> (v = Some TLV_VOTE_ACK \<or> v = Some TLV_VOTE_NACK),
            v, qi'))"

definition qnetd_algo_lms :: qnetd_algorithm where
  "qnetd_algo_lms =
     \<lparr>alg_init = qnetd_algo_lms_client_init,
      alg_config_node_list_received = qnetd_algo_lms_config_node_list_received,
      alg_membership_node_list_received = qnetd_algo_lms_membership_node_list_received,
      alg_quorum_node_list_received = qnetd_algo_lms_quorum_node_list_received,
      alg_client_disconnect = qnetd_algo_lms_client_disconnect,
      alg_ask_for_vote_received = qnetd_algo_lms_ask_for_vote_received,
      alg_vote_info_reply_received = qnetd_algo_lms_vote_info_reply_received,
      alg_heuristics_change_received = qnetd_algo_lms_heuristics_change_received,
      alg_timer_callback = qnetd_algo_lms_timer_callback\<rparr>"

section \<open>The contract\<close>

lemma same_core_timer:
  "same_core qi (snd (on_client c qnetd_client_algo_timer_abort qi))"
  "same_core qi (snd (on_client c (qnetd_client_algo_timer_schedule al) qi))"
  by (rule same_core_on_client [OF prod.collapse [symmetric]], simp add: client_core_timers)+

lemma lms_wait_core: "keeps_core qi (lms_wait al c info qi)"
  unfolding lms_wait_def lms_store_def
  by (intro keeps_core_Inr same_core_data_trans same_core_timer) simp

lemma do_lms_algorithm_core: "keeps_core qi (do_lms_algorithm al c ring_id qi)"
  unfolding do_lms_algorithm_def Let_def
  by (rule keeps_core_trans [OF same_core_timer(1) [of _ c]])
     (intro keeps_core_intros lms_wait_core keeps_core_Inr, simp_all add: lms_store_def)

lemmas algo_lms_defs = qnetd_algo_lms_def qnetd_algo_lms_client_init_def
  qnetd_algo_lms_config_node_list_received_def qnetd_algo_lms_membership_node_list_received_def
  qnetd_algo_lms_quorum_node_list_received_def qnetd_algo_lms_client_disconnect_def
  qnetd_algo_lms_ask_for_vote_received_def qnetd_algo_lms_vote_info_reply_received_def
  qnetd_algo_lms_heuristics_change_received_def qnetd_algo_lms_timer_callback_def

interpretation algo_lms: decision_algorithm qnetd_algo_lms
  by unfold_locales
     (auto simp: algo_lms_defs bindE_Inr_iff lms_store_def
        split: if_splits dest: keeps_coreD [OF do_lms_algorithm_core])

end
