(* ===== verification/Lms_Props.thy ===== *)
theory Lms_Props
  imports Algo_2nodelms Algo_Lms Example_State
begin

text \<open>
  Correctness of the two last-man-standing algorithms: in a split at most one side gets an ACK,
  the last connected client keeps its vote, and the partitions that the general algorithm counts
  are exactly the groups of clients with one ring id.
\<close>

section \<open>Partitions\<close>

definition ring_clients :: "tlv_ring_id \<Rightarrow> qnetd_client list \<Rightarrow> qnetd_client list" where
  "ring_clients r cls = filter (\<lambda>cl. cl_last_ring_id cl = r) cls"

definition heuristics_score :: "tlv_heuristics \<Rightarrow> int" where
  "heuristics_score h =
     1 + (if h = TLV_HEURISTICS_PASS then 1 else if h = TLV_HEURISTICS_FAIL then -1 else 0)"

text \<open>The specification of the partition list: one entry per ring id in use, with its clients.\<close>

definition partitions_of :: "qnetd_client list \<Rightarrow> qnetd_algo_partition list \<Rightarrow> bool" where
  "partitions_of cls ps \<longleftrightarrow>
     distinct (map part_ring_id ps) \<and>
     part_ring_id ` set ps = {cl_last_ring_id cl |cl. cl \<in> set cls \<and> rid_seq (cl_last_ring_id cl) \<noteq> 0} \<and>
     (\<forall>p\<in>set ps.
        part_num_nodes p = int (length (ring_clients (part_ring_id p) cls)) \<and>
        part_score p = (\<Sum>cl\<leftarrow>ring_clients (part_ring_id p) cls. heuristics_score (cl_last_heuristics cl)))"

lemma find_partition_None:
  "qnetd_algo_find_partition ps r = None \<longleftrightarrow> r \<notin> part_ring_id ` set ps"
  by (auto simp: qnetd_algo_find_partition_def find_None_iff)

lemma update_partition_map:
  "distinct (map part_ring_id ps) \<Longrightarrow>
   update_partition r f ps = map (\<lambda>p. if part_ring_id p = r then f p else p) ps"
proof (induction ps)
  case (Cons p ps)
  then have "map (\<lambda>p. if part_ring_id p = r then f p else p) ps = ps" if "part_ring_id p = r"
    using that by (intro map_idI) (auto simp: image_iff)
  with Cons show ?case by auto
qed simp

lemma count_client_fields [simp]:
  "part_ring_id (count_client h p) = part_ring_id p"
  "part_num_nodes (count_client h p) = part_num_nodes p + 1"
  "part_score (count_client h p) = part_score p + heuristics_score h"
  by (simp_all add: count_client_def heuristics_score_def)

lemma ring_clients_snoc [simp]:
  "ring_clients r (cls @ [cl]) = ring_clients r cls @ (if cl_last_ring_id cl = r then [cl] else [])"
  by (simp add: ring_clients_def)

lemma partitions_of_skip:
  assumes "partitions_of cls ps" and "rid_seq (cl_last_ring_id cl) = 0"
  shows "partitions_of (cls @ [cl]) ps"
proof -
  have "cl_last_ring_id cl \<noteq> part_ring_id p" if "p \<in> set ps" for p
  proof -
    from that assms(1) have "part_ring_id p \<in> {cl_last_ring_id cl |cl. cl \<in> set cls \<and> rid_seq (cl_last_ring_id cl) \<noteq> 0}"
      unfolding partitions_of_def by blast
    with assms(2) show ?thesis by auto
  qed
  with assms show ?thesis unfolding partitions_of_def by auto
qed

lemma partitions_of_count:
  assumes "partitions_of cls ps" and "rid_seq (cl_last_ring_id cl) \<noteq> 0"
    and "cl_last_ring_id cl \<in> part_ring_id ` set ps"
  shows "partitions_of (cls @ [cl])
    (update_partition (cl_last_ring_id cl) (count_client (cl_last_heuristics cl)) ps)"
proof -
  let ?f = "\<lambda>p. if part_ring_id p = cl_last_ring_id cl then count_client (cl_last_heuristics cl) p else p"
  have ring: "part_ring_id (?f p) = part_ring_id p" for p by simp
  have upd: "update_partition (cl_last_ring_id cl) (count_client (cl_last_heuristics cl)) ps = map ?f ps"
    using assms(1) by (intro update_partition_map) (simp add: partitions_of_def)
  have rings: "map part_ring_id (map ?f ps) = map part_ring_id ps" by simp
  then have rings': "part_ring_id ` set (map ?f ps) = part_ring_id ` set ps"
    by (metis list.set_map)
  have "{cl_last_ring_id x |x. x \<in> set (cls @ [cl]) \<and> rid_seq (cl_last_ring_id x) \<noteq> 0} =
        {cl_last_ring_id x |x. x \<in> set cls \<and> rid_seq (cl_last_ring_id x) \<noteq> 0}"
    using assms unfolding partitions_of_def by auto
  then show ?thesis
    using assms(1) unfolding partitions_of_def upd rings rings' by auto
qed

lemma partitions_of_new:
  assumes "partitions_of cls ps" and "rid_seq (cl_last_ring_id cl) \<noteq> 0"
    and "cl_last_ring_id cl \<notin> part_ring_id ` set ps"
  shows "partitions_of (cls @ [cl])
    (ps @ [count_client (cl_last_heuristics cl)
       \<lparr>part_ring_id = cl_last_ring_id cl, part_num_nodes = 0, part_score = 0\<rparr>])"
proof -
  have none: "ring_clients (cl_last_ring_id cl) cls = []"
    using assms unfolding partitions_of_def ring_clients_def by (auto simp: filter_empty_conv)
  have other: "cl_last_ring_id cl \<noteq> part_ring_id p" if "p \<in> set ps" for p
    using that assms(3) by auto
  show ?thesis
    using assms none other unfolding partitions_of_def by auto
qed

lemma create_partitions_loop_spec:
  assumes "create_partitions_loop al cls ps n = (m, qs)" and "m \<noteq> -1"
    and "partitions_of pre ps" and "n = int (length ps)"
  shows "partitions_of (pre @ cls) qs \<and> m = int (length qs)"
  using assms
proof (induction cls arbitrary: ps n pre)
  case (Cons cl cls)
  let ?r = "cl_last_ring_id cl"
  consider (skip) "rid_seq ?r = 0" | (count) "rid_seq ?r \<noteq> 0" "?r \<in> part_ring_id ` set ps"
    | (new) "rid_seq ?r \<noteq> 0" "?r \<notin> part_ring_id ` set ps" by blast
  then show ?case
  proof cases
    case skip
    with Cons.IH [OF _ Cons.prems(2) partitions_of_skip] Cons.prems show ?thesis by simp
  next
    case count
    then have "qnetd_algo_find_partition ps ?r \<noteq> None" by (simp add: find_partition_None)
    moreover have "length (update_partition ?r f ps) = length ps" for f
      by (induction ps) auto
    ultimately show ?thesis
      using count Cons.IH [OF _ Cons.prems(2) partitions_of_count [OF Cons.prems(3) count]] Cons.prems by auto
  next
    case new
    then have "qnetd_algo_find_partition ps ?r = None" by (simp add: find_partition_None)
    with new Cons.IH [OF _ Cons.prems(2) partitions_of_new [OF Cons.prems(3) new]] Cons.prems show ?thesis
      by (auto simp: add.commute split: if_splits)
  qed
qed (simp add: partitions_of_def)

text \<open>The result depends on the ring ids and the heuristics only, and not on the allocator.\<close>

abbreviation lms_key :: "qnetd_client \<Rightarrow> tlv_ring_id \<times> tlv_heuristics" where
  "lms_key cl \<equiv> (cl_last_ring_id cl, cl_last_heuristics cl)"

lemma create_partitions_loop_cong:
  assumes "create_partitions_loop al1 xs ps n = (m1, qs1)" and "m1 \<noteq> -1"
    and "create_partitions_loop al2 ys ps n = (m2, qs2)" and "m2 \<noteq> -1"
    and "map lms_key xs = map lms_key ys"
  shows "m1 = m2 \<and> qs1 = qs2"
  using assms
proof (induction xs arbitrary: ys ps n)
  case (Cons x xs)
  then obtain y ys' where y: "ys = y # ys'" "cl_last_ring_id y = cl_last_ring_id x"
    "cl_last_heuristics y = cl_last_heuristics x" "map lms_key xs = map lms_key ys'"
    by (cases ys) auto
  consider (skip) "rid_seq (cl_last_ring_id x) = 0"
    | (count) p where "rid_seq (cl_last_ring_id x) \<noteq> 0" "qnetd_algo_find_partition ps (cl_last_ring_id x) = Some p"
    | (new) "rid_seq (cl_last_ring_id x) \<noteq> 0" "qnetd_algo_find_partition ps (cl_last_ring_id x) = None"
    by (cases "qnetd_algo_find_partition ps (cl_last_ring_id x)") auto
  then show ?case
  proof cases
    case skip
    with Cons.IH [OF _ Cons.prems(2) _ Cons.prems(4) y(4)] Cons.prems(1,3) y show ?thesis by auto
  next
    case count
    with Cons.IH [OF _ Cons.prems(2) _ Cons.prems(4) y(4)] Cons.prems(1,3) y show ?thesis by auto
  next
    case new
    with Cons.IH [OF _ Cons.prems(2) _ Cons.prems(4) y(4)] Cons.prems y show ?thesis
      by (auto split: if_splits)
  qed
qed simp

lemma create_partitions_spec:
  assumes "qnetd_algo_create_partitions al views [] = (m, ps)" and "m \<noteq> -1"
  shows "partitions_of (map snd views) ps" and "m = int (length ps)"
  using create_partitions_loop_spec [of al "map snd views" "[]" 0 m ps "[]"] assms
  by (simp_all add: qnetd_algo_create_partitions_def partitions_of_def)

section \<open>The tie-breaker of the general algorithm\<close>

lemma lms_tb_lowest:
  assumes "tb_mode (cl_tie_breaker client) = TLV_TIE_BREAKER_MODE_LOWEST"
    and "lms_tb_search client others (t, r) = (t', r')"
  shows "(t' = t \<and> r' = r \<and> (\<forall>x\<in>set others. t \<le> cl_node_id x)) \<or>
    (t' < t \<and> (\<exists>x\<in>set others. t' = cl_node_id x \<and> r' = cl_last_ring_id x))"
  using assms(2)
proof (induction others arbitrary: t r)
  case (Cons x xs)
  show ?case
  proof (cases "cl_node_id x < t")
    case True
    with Cons.IH [of "cl_node_id x" "cl_last_ring_id x"] Cons.prems assms(1) show ?thesis by auto
  next
    case False
    with Cons.IH [of t r] Cons.prems assms(1) show ?thesis by auto
  qed
qed simp

lemma lms_tb_highest:
  assumes "tb_mode (cl_tie_breaker client) = TLV_TIE_BREAKER_MODE_HIGHEST"
    and "lms_tb_search client others (t, r) = (t', r')"
  shows "(t' = t \<and> r' = r \<and> (\<forall>x\<in>set others. cl_node_id x \<le> t)) \<or>
    (t < t' \<and> (\<exists>x\<in>set others. t' = cl_node_id x \<and> r' = cl_last_ring_id x))"
  using assms(2)
proof (induction others arbitrary: t r)
  case (Cons x xs)
  show ?case
  proof (cases "t < cl_node_id x")
    case True
    with Cons.IH [of "cl_node_id x" "cl_last_ring_id x"] Cons.prems assms(1) show ?thesis by auto
  next
    case False
    with Cons.IH [of t r] Cons.prems assms(1) show ?thesis by auto
  qed
qed simp

text \<open>The node ids for which the start values of the search are out of reach.\<close>

definition lms_tb_in_range :: "tlv_tie_breaker_mode \<Rightarrow> u32 \<Rightarrow> bool" where
  "lms_tb_in_range mode node_id =
     (case mode of
        TLV_TIE_BREAKER_MODE_LOWEST \<Rightarrow> node_id < 2147483647
      | TLV_TIE_BREAKER_MODE_HIGHEST \<Rightarrow> node_id > 0
      | _ \<Rightarrow> False)"

definition lms_tb_ring :: "qnetd_client \<Rightarrow> qnetd_client list \<Rightarrow> tlv_ring_id" where
  "lms_tb_ring client others =
     snd (lms_tb_search client others
       (lms_tb_start (cl_tie_breaker client), \<lparr>rid_node_id = 0, rid_seq = 0\<rparr>))"

lemma lms_tie_break_ack:
  assumes "lms_tie_break client others ring = TLV_VOTE_ACK"
    and "lms_tb_in_range (tb_mode (cl_tie_breaker client)) (cl_node_id client)"
    and cl: "client \<in> set others" "cl_last_ring_id client = ring"
    and inj: "inj_on cl_node_id (set others)"
  shows "ring = lms_tb_ring client others"
proof -
  define t where "t = lms_tb_start (cl_tie_breaker client)"
  obtain t' r' where s: "lms_tb_search client others (t, \<lparr>rid_node_id = 0, rid_seq = 0\<rparr>) = (t', r')"
    by fastforce
  have "\<exists>x\<in>set others. t' = cl_node_id x \<and> r' = cl_last_ring_id x"
  proof (cases "tb_mode (cl_tie_breaker client)")
    case TLV_TIE_BREAKER_MODE_LOWEST
    with lms_tb_lowest [OF this s] cl(1) assms(2) show ?thesis
      by (auto simp: lms_tb_in_range_def t_def lms_tb_start_def not_le)
  next
    case TLV_TIE_BREAKER_MODE_HIGHEST
    with lms_tb_highest [OF this s] cl(1) assms(2) show ?thesis
      by (auto simp: lms_tb_in_range_def t_def lms_tb_start_def)
  qed (use assms(2) in \<open>simp_all add: lms_tb_in_range_def\<close>)
  then obtain x where x: "x \<in> set others" "t' = cl_node_id x" "r' = cl_last_ring_id x" by blast
  from assms(1) s have "cl_node_id client = t' \<or> r' = ring"
    by (auto simp: lms_tie_break_def t_def split: if_splits)
  with x cl inj have "r' = ring" by (auto dest: inj_onD)
  with s show ?thesis by (simp add: lms_tb_ring_def t_def)
qed

lemma lms_tb_ring_cong:
  assumes "tb_mode (cl_tie_breaker a) = mode" "tb_mode (cl_tie_breaker b) = mode"
    and "mode = TLV_TIE_BREAKER_MODE_LOWEST \<or> mode = TLV_TIE_BREAKER_MODE_HIGHEST"
    and "map (\<lambda>x. (cl_node_id x, cl_last_ring_id x)) xs = map (\<lambda>x. (cl_node_id x, cl_last_ring_id x)) ys"
  shows "lms_tb_ring a xs = lms_tb_ring b ys"
proof -
  have "lms_tb_search a xs acc = lms_tb_search b ys acc" for acc
    using assms(4)
  proof (induction xs arbitrary: ys acc)
    case (Cons x xs)
    then obtain y ys' where "ys = y # ys'" "cl_node_id y = cl_node_id x"
      "cl_last_ring_id y = cl_last_ring_id x"
      "map (\<lambda>x. (cl_node_id x, cl_last_ring_id x)) xs = map (\<lambda>x. (cl_node_id x, cl_last_ring_id x)) ys'"
      by (cases ys) auto
    with Cons.IH [OF this(4)] assms(1-3) show ?case by (cases acc) auto
  qed simp
  then show ?thesis
    using assms(1-3) by (auto simp: lms_tb_ring_def lms_tb_start_def)
qed

text \<open>The ring id that the algorithm favours, a function of the partitions and the tie-breaker.\<close>

definition lms_winner :: "qnetd_client \<Rightarrow> qnetd_client list \<Rightarrow> qnetd_algo_partition list \<Rightarrow> tlv_ring_id" where
  "lms_winner client others ps =
     (if length ps = 1 then part_ring_id (hd ps)
      else let best = the (lms_leader part_score ps); largest = the (lms_leader part_num_nodes ps)
           in if \<not> lms_joint_leader part_score ps best then part_ring_id (ps ! best)
              else if \<not> lms_joint_leader part_num_nodes ps largest then part_ring_id (ps ! largest)
              else lms_tb_ring client others)"

lemma lms_vote_winner:
  assumes "lms_partition_vote client others ps ring = Inr TLV_VOTE_ACK" and "length ps \<noteq> 1"
    and "lms_tb_in_range (tb_mode (cl_tie_breaker client)) (cl_node_id client)"
    and "client \<in> set others" "cl_last_ring_id client = ring" "inj_on cl_node_id (set others)"
  shows "ring = lms_winner client others ps"
  using assms(1,2) lms_tie_break_ack [OF _ assms(3-6)]
  by (auto simp: lms_partition_vote_def lms_winner_def lms_in_leader_def split: option.splits if_splits)

lemma lms_ack_winner:
  assumes run: "do_lms_algorithm al c ring qi = Inr (e, Some TLV_VOTE_ACK, qi')"
    and wf: "cluster_list_wf qi" and c: "c \<in> set (qi_clients qi)" "cl_cluster (qi_client qi c) = Some k"
    and info: "lms_info (cl_algorithm_data (qi_client qi c)) = Inr info" "lms_partition_list info = []"
    and range: "lms_tb_in_range (tb_mode (cl_tie_breaker (qi_client qi c))) (node_of qi c)"
    and ring: "cl_last_ring_id (qi_client qi c) = ring" "rid_seq ring \<noteq> 0"
  shows "\<exists>q m ps. same_core qi q \<and> m \<noteq> -1 \<and>
    qnetd_algo_create_partitions al (cluster_views q k) [] = (m, ps) \<and>
    ring = lms_winner (qi_client q c) (map snd (cluster_views q k)) ps"
proof -
  define q where "q = snd (on_client c qnetd_client_algo_timer_abort qi)"
  have core: "same_core qi q"
    unfolding q_def by (rule same_core_timer)
  note S = same_coreD [OF core]
  note F = client_core_fields [OF S(4)]
  have data: "cl_algorithm_data (qi_client q c) = cl_algorithm_data (qi_client qi c)"
    by (simp add: q_def on_client_def qnetd_client_algo_timer_abort_def)
  obtain m ps where ps: "qnetd_algo_create_partitions al (cluster_views q k) [] = (m, ps)"
    by fastforce
  from run info c F(2) [of c] data ps have m: "m \<noteq> -1" and
    vote: "m = 1 \<or> lms_partition_vote (qi_client q c) (map snd (cluster_views q k)) ps ring = Inr TLV_VOTE_ACK"
    unfolding do_lms_algorithm_def Let_def cluster_of_def
    by (auto simp: lms_wait_def bindE_Inr_iff simp flip: q_def split: if_splits)
  note P = create_partitions_spec [OF ps m]
  have wf': "cluster_list_wf q" using cluster_list_wf_core [OF core wf] .
  note W = cluster_list_wfD [OF wf']
  have k: "k \<in> set (qi_clusters q)" "c \<in> set (members q k)"
    using W(7) [of c k] c S(1) F(2) [of c] by auto
  have mem: "qi_client q c \<in> set (map snd (cluster_views q k))"
    using k(2) by (auto simp: cluster_views_def)
  have "distinct (map (node_of q) (members q k))"
    using W(5) [OF k(1)] strict_sorted_iff by blast
  then have inj: "inj_on cl_node_id (set (map snd (cluster_views q k)))"
    by (auto simp: cluster_views_def distinct_map inj_on_def)
  have "ring = lms_winner (qi_client q c) (map snd (cluster_views q k)) ps"
  proof (cases "length ps = 1")
    case True
    have "ring \<in> part_ring_id ` set ps"
      using P(1) mem ring F(6) [of c] unfolding partitions_of_def
      by (metis (mono_tags, lifting) mem_Collect_eq)
    with True show ?thesis by (cases ps) (auto simp: lms_winner_def)
  next
    case False
    with vote P(2) have "lms_partition_vote (qi_client q c) (map snd (cluster_views q k)) ps ring = Inr TLV_VOTE_ACK"
      by auto
    from lms_vote_winner [OF this False _ mem _ inj] ring range F(1,5,6) [of c] show ?thesis by simp
  qed
  with core m ps show ?thesis by blast
qed

section \<open>An example\<close>

text \<open>Two nodes that do not see each other and have voted before.\<close>

definition lms_ex :: qnetd_instance where
  "lms_ex = ex_instance No_Cluster_Data
     (ex_client 1 (Lms_Client_Data \<lparr>lms_num_config_nodes = 2, lms_last_result = TLV_VOTE_ACK,
        lms_partition_list = []\<rparr>) (ex_ring 1) [1, 2] [1])
     (ex_client 2 (Lms_Client_Data \<lparr>lms_num_config_nodes = 2, lms_last_result = TLV_VOTE_ACK,
        lms_partition_list = []\<rparr>) (ex_ring 2) [1, 2] [2])"

lemma lms_ex_wf: "cluster_list_wf lms_ex"
  unfolding lms_ex_def by (rule ex_wf) (simp_all add: ex_client_def)

lemmas lms_ex_defs = lms_ex_def ex_defs ex_al_def

lemma lms_ex_run:
  "\<exists>q. do_lms_algorithm ex_al 10 (ex_ring 1) lms_ex = Inr (TLV_REPLY_ERROR_CODE_NO_ERROR, Some TLV_VOTE_ACK, q)"
  "\<exists>q. do_lms_algorithm ex_al 20 (ex_ring 2) lms_ex = Inr (TLV_REPLY_ERROR_CODE_NO_ERROR, Some TLV_VOTE_NACK, q)"
  by (simp_all add: do_lms_algorithm_def on_client_def qnetd_client_algo_timer_abort_def
      qnetd_client_algo_timer_is_scheduled_def cluster_of_def lms_info_def cluster_views_def
      qnetd_algo_all_ring_ids_match_def in_our_partition_def qnetd_algo_create_partitions_def
      qnetd_algo_find_partition_def count_client_def lms_partition_vote_def lms_leader_def
      lms_joint_leader_def lms_tie_break_def lms_tb_start_def upt_rec lms_ex_defs)

section \<open>Properties of the general algorithm\<close>

text \<open>
  The list of partitions is exact: when memory suffices, \<open>qnetd_algo_create_partitions\<close> on
  an empty list returns the number of ring ids in use, the list holds each of them once (a client
  that has not sent a membership list yet, whose ring id has sequence 0, does not count), with the
  number of its clients and the sum of their scores.
\<close>

theorem lms_partitions_exact:
  assumes "qnetd_algo_create_partitions al views [] = (m, ps)" and "m \<noteq> -1"
  shows "partitions_of (map snd views) ps \<and> m = int (length ps)"
  using create_partitions_spec [OF assms] by blast

theorem lms_partitions_exact_witness:
  "partitions_of (map snd (cluster_views lms_ex 5)) (snd (qnetd_algo_create_partitions ex_al (cluster_views lms_ex 5) [])) \<and>
   fst (qnetd_algo_create_partitions ex_al (cluster_views lms_ex 5) []) = 2"
proof -
  let ?p = "qnetd_algo_create_partitions ex_al (cluster_views lms_ex 5) []"
  have two: "fst ?p = 2"
    by (simp add: qnetd_algo_create_partitions_def cluster_views_def qnetd_algo_find_partition_def
        count_client_def lms_ex_defs)
  then have "fst ?p \<noteq> -1" by simp
  then show ?thesis
    using lms_partitions_exact [OF surjective_pairing] two by blast
qed

text \<open>
  C11. Last-man-standing is safe in a split: two clients of a cluster with different ring ids do
  not both get an ACK, although each decision is taken in a separate run. The states of the two
  runs differ by the activity of the algorithm only; the tie-breaker is the lowest or the highest
  node id, the same for both clients; and the node ids are in the range that the start values of
  the search leave (below \<open>INT_MAX\<close> for the lowest, above 0 for the highest).
\<close>

theorem lms_split_safe:
  assumes wf: "cluster_list_wf qi" and core: "same_core qi qi'"
    and a: "a \<in> set (qi_clients qi)" "cl_cluster (qi_client qi a) = Some k"
      "lms_info (cl_algorithm_data (qi_client qi a)) = Inr ia" "lms_partition_list ia = []"
      "tb_mode (cl_tie_breaker (qi_client qi a)) = mode" "lms_tb_in_range mode (node_of qi a)"
      "cl_last_ring_id (qi_client qi a) = ring_a" "rid_seq ring_a \<noteq> 0"
    and b: "b \<in> set (qi_clients qi)" "cl_cluster (qi_client qi b) = Some k"
      "lms_info (cl_algorithm_data (qi_client qi' b)) = Inr ib" "lms_partition_list ib = []"
      "tb_mode (cl_tie_breaker (qi_client qi b)) = mode" "lms_tb_in_range mode (node_of qi b)"
      "cl_last_ring_id (qi_client qi b) = ring_b" "rid_seq ring_b \<noteq> 0"
    and rings: "ring_a \<noteq> ring_b"
    and run_a: "do_lms_algorithm al a ring_a qi = Inr (ea, Some TLV_VOTE_ACK, qa)"
    and run_b: "do_lms_algorithm al' b ring_b qi' = Inr (eb, v, qb)"
  shows "v \<noteq> Some TLV_VOTE_ACK"
proof
  assume "v = Some TLV_VOTE_ACK"
  note S = same_coreD [OF core]
  note F = client_core_fields [OF S(4)]
  from lms_ack_winner [OF run_a wf a(1-4) _ a(7,8)] a(5,6) obtain q1 m1 ps1 where
    A: "same_core qi q1" "m1 \<noteq> -1" "qnetd_algo_create_partitions al (cluster_views q1 k) [] = (m1, ps1)"
      "ring_a = lms_winner (qi_client q1 a) (map snd (cluster_views q1 k)) ps1" by blast
  from lms_ack_winner [OF run_b [unfolded \<open>v = _\<close>] cluster_list_wf_core [OF core wf] _ _ b(3,4) _ _ b(8)]
    b S(1) F(1,2,5,6) [of b] obtain q2 m2 ps2 where
    B: "same_core qi' q2" "m2 \<noteq> -1" "qnetd_algo_create_partitions al' (cluster_views q2 k) [] = (m2, ps2)"
      "ring_b = lms_winner (qi_client q2 b) (map snd (cluster_views q2 k)) ps2" by auto
  have "same_core q1 q2"
    using same_core_trans [OF same_core_sym [OF A(1)] same_core_trans [OF core B(1)]] .
  note T = same_coreD [OF this]
  note G = client_core_fields [OF T(4)]
  have mem: "members q2 k = members q1 k" using T(3) by (rule fun_cong)
  have keys: "map f (map snd (cluster_views q1 k)) = map f (map snd (cluster_views q2 k))"
    if "\<And>i. f (qi_client q2 i) = f (qi_client q1 i)" for f :: "qnetd_client \<Rightarrow> 'z"
    using that mem by (simp add: cluster_views_def)
  have "ps1 = ps2"
    using create_partitions_loop_cong [OF _ A(2) _ B(2) keys [of lms_key]] A(3) B(3) G(6,9)
    by (simp add: qnetd_algo_create_partitions_def)
  moreover have "lms_tb_ring (qi_client q1 a) (map snd (cluster_views q1 k)) =
      lms_tb_ring (qi_client q2 b) (map snd (cluster_views q2 k))"
  proof (rule lms_tb_ring_cong [OF _ _ _ keys])
    show "tb_mode (cl_tie_breaker (qi_client q1 a)) = mode"
      using client_core_fields(5) [OF same_coreD(4) [OF A(1)]] a(5) by simp
    show "tb_mode (cl_tie_breaker (qi_client q2 b)) = mode"
      using client_core_fields(5) [OF same_coreD(4) [OF B(1)]] F(5) [of b] b(5) by simp
    show "mode = TLV_TIE_BREAKER_MODE_LOWEST \<or> mode = TLV_TIE_BREAKER_MODE_HIGHEST"
      using a(6) by (auto simp: lms_tb_in_range_def split: tlv_tie_breaker_mode.splits)
  qed (use G(1,6) in simp)
  ultimately have "ring_a = ring_b"
    using A(4) B(4) by (simp add: lms_winner_def Let_def)
  with rings show False ..
qed

theorem lms_split_safe_witness:
  "\<exists>v q. do_lms_algorithm ex_al 20 (ex_ring 2) lms_ex = Inr (TLV_REPLY_ERROR_CODE_NO_ERROR, v, q) \<and>
    v \<noteq> Some TLV_VOTE_ACK"
proof -
  obtain qa qb where
    a: "do_lms_algorithm ex_al 10 (ex_ring 1) lms_ex = Inr (TLV_REPLY_ERROR_CODE_NO_ERROR, Some TLV_VOTE_ACK, qa)" and
    b: "do_lms_algorithm ex_al 20 (ex_ring 2) lms_ex = Inr (TLV_REPLY_ERROR_CODE_NO_ERROR, Some TLV_VOTE_NACK, qb)"
    using lms_ex_run by blast
  let ?i = "\<lparr>lms_num_config_nodes = 2, lms_last_result = TLV_VOTE_ACK, lms_partition_list = []\<rparr>"
  have "Some TLV_VOTE_NACK \<noteq> Some TLV_VOTE_ACK"
    by (rule lms_split_safe [OF lms_ex_wf same_core_refl _ _ _ _ _ _ _ _ _ _ _ _ _ _ _ _ _ a b,
          where k = 5 and ia = ?i and ib = ?i and mode = TLV_TIE_BREAKER_MODE_LOWEST])
       (simp_all add: lms_info_def lms_tb_in_range_def lms_ex_defs)
  with b show ?thesis by blast
qed

text \<open>
  C37. With a nominated tie-breaker node the general algorithm does not do what its comment says:
  the search compares the nominated id with the id of the asking client, so a client that shares
  the partition of the nominated node, without being that node, is denied the vote in a tie.
\<close>

theorem lms_nominated_partner_denied:
  assumes "tb_mode (cl_tie_breaker client) = TLV_TIE_BREAKER_MODE_NODE_ID"
    and "cl_node_id client \<noteq> tb_node_id (cl_tie_breaker client)"
    and "rid_seq ring \<noteq> 0"
  shows "lms_tie_break client others ring = TLV_VOTE_NACK"
proof -
  have "lms_tb_search client others acc = acc" for acc
    using assms(1,2) by (induction others arbitrary: acc) auto
  with assms show ?thesis
    by (auto simp: lms_tie_break_def lms_tb_start_def)
qed

theorem lms_nominated_partner_denied_witness:
  "lms_tie_break ((ex_client 1 No_Client_Data (ex_ring 1) [] [])
       \<lparr>cl_tie_breaker := \<lparr>tb_mode = TLV_TIE_BREAKER_MODE_NODE_ID, tb_node_id = 2\<rparr>\<rparr>)
     [ex_client 1 No_Client_Data (ex_ring 1) [] [], ex_client 2 No_Client_Data (ex_ring 1) [] []] (ex_ring 1) =
   TLV_VOTE_NACK"
  by (rule lms_nominated_partner_denied) (simp_all add: ex_client_def ex_ring_def)

section \<open>An example for two nodes\<close>

definition lms2_ex :: qnetd_instance where
  "lms2_ex = ex_instance No_Cluster_Data
     (ex_client 1 (Lms2_Client_Data \<lparr>l2_num_config_nodes = Some 2, l2_last_result = TLV_VOTE_ACK\<rparr>)
        (ex_ring 1) [1, 2] [1])
     (ex_client 2 (Lms2_Client_Data \<lparr>l2_num_config_nodes = Some 2, l2_last_result = TLV_VOTE_ACK\<rparr>)
        (ex_ring 2) [1, 2] [2])"

lemmas lms2_ex_defs = lms2_ex_def ex_defs ex_al_def

lemma lms2_ex_run:
  "\<exists>v q. qnetd_algo_2nodelms_membership_node_list_received ex_al 10 (ex_ring 1) (ex_nodes [1])
     TLV_HEURISTICS_UNDEFINED lms2_ex = Inr (TLV_REPLY_ERROR_CODE_NO_ERROR, Some v, q)"
  "\<exists>v q. qnetd_algo_2nodelms_membership_node_list_received ex_al 20 (ex_ring 2) (ex_nodes [2])
     TLV_HEURISTICS_UNDEFINED lms2_ex = Inr (TLV_REPLY_ERROR_CODE_NO_ERROR, Some v, q)"
  by (simp_all add: qnetd_algo_2nodelms_membership_node_list_received_def cluster_of_def lms2_info_def Let_def
      lms2_ex_defs)

section \<open>Properties of the two-node algorithm\<close>

lemma lms2_run:
  assumes "qnetd_algo_2nodelms_membership_node_list_received al c ring nodes h qi = Inr (e, Some v, qi')"
    and "cl_cluster (qi_client qi c) = Some k"
  obtains info where "lms2_info (cl_algorithm_data (qi_client qi c)) = Inr info"
    and "e = TLV_REPLY_ERROR_CODE_NO_ERROR"
    and "v = TLV_VOTE_NACK \<and> l2_last_result info = TLV_VOTE_UNDEFINED \<or>
         v = lms2_vote c (qi_client qi c) (cluster_views qi k) nodes h"
  using assms unfolding qnetd_algo_2nodelms_membership_node_list_received_def cluster_of_def Let_def
  by (auto simp: bindE_Inr_iff split: if_splits)

lemma lms2_vote_pair:
  assumes "members qi k = [i, j]" and "c = i \<or> c = j" and "i \<noteq> j" and "length nodes \<noteq> 2"
  shows "lms2_vote c (qi_client qi c) (cluster_views qi k) nodes h =
    (let other = (if c = i then j else i);
         cmp = tlv_heuristics_cmp h (cl_last_heuristics (qi_client qi other))
     in if cmp > 0 then TLV_VOTE_ACK else if cmp < 0 then TLV_VOTE_NACK
        else lms2_tie_break (qi_client qi c) (min (node_of qi i) (node_of qi j)) (max (node_of qi i) (node_of qi j)))"
proof -
  have start: "min (-1 :: u32) x = x" "max (0 :: u32) x = x" for x
    using word_order.extremum_uniqueI [of x] by (auto simp: min_def max_def)
  have two: "(if y < x then y else x) = min x y" "(if x < y then y else x) = max x y" for x y :: u32
    by (auto simp: min_def max_def)
  have scan: "lms2_scan c [(i, x), (j, y)] (0, -1, 0, TLV_HEURISTICS_UNDEFINED) =
      (2, min (cl_node_id x) (cl_node_id y), max (cl_node_id x) (cl_node_id y),
       if c = i then cl_last_heuristics y else cl_last_heuristics x)" for x y
    using assms(2,3) by (simp only: lms2_scan.simps start two) auto
  have views: "cluster_views qi k = [(i, qi_client qi i), (j, qi_client qi j)]"
    using assms(1) by (simp add: cluster_views_def)
  show ?thesis
    unfolding lms2_vote_def views scan using assms(2-4) by (auto simp: Let_def)
qed

text \<open>
  C12. The two-node algorithm is safe in a split: when both nodes are connected, neither sees the
  other, and the heuristics result that each decision assumes of the other node is the one that
  the other node reported, the two nodes do not both get an ACK; and if both have voted before and
  the tie-breaker is the lowest or the highest node id, one of them does.
\<close>

theorem lms2_split_safe:
  assumes a: "cl_cluster (qi_client qi a) = Some k" "members qi k = [a, b]"
    and b: "cl_cluster (qi_client qi' b) = Some k" "members qi' k = [a, b]"
    and ids: "node_of qi a \<noteq> node_of qi b" "node_of qi' a = node_of qi a" "node_of qi' b = node_of qi b"
    and tb: "cl_tie_breaker (qi_client qi' b) = cl_tie_breaker (qi_client qi a)"
    and heur: "cl_last_heuristics (qi_client qi b) = hb" "cl_last_heuristics (qi_client qi' a) = ha"
    and split: "length na \<noteq> 2" "length nb \<noteq> 2"
    and run_a: "qnetd_algo_2nodelms_membership_node_list_received al a ra na ha qi = Inr (ea, Some va, qa)"
    and run_b: "qnetd_algo_2nodelms_membership_node_list_received al' b rb nb hb qi' = Inr (eb, Some vb, qb)"
  shows "\<not> (va = TLV_VOTE_ACK \<and> vb = TLV_VOTE_ACK) \<and>
    (tb_mode (cl_tie_breaker (qi_client qi a)) \<in> {TLV_TIE_BREAKER_MODE_LOWEST, TLV_TIE_BREAKER_MODE_HIGHEST} \<and>
     (\<forall>ia ib. lms2_info (cl_algorithm_data (qi_client qi a)) = Inr ia \<longrightarrow>
        lms2_info (cl_algorithm_data (qi_client qi' b)) = Inr ib \<longrightarrow>
        l2_last_result ia \<noteq> TLV_VOTE_UNDEFINED \<and> l2_last_result ib \<noteq> TLV_VOTE_UNDEFINED) \<longrightarrow>
     va = TLV_VOTE_ACK \<or> vb = TLV_VOTE_ACK)"
proof -
  have ne: "a \<noteq> b" using ids(1) by auto
  define tba where "tba = lms2_tie_break (qi_client qi a) (min (node_of qi a) (node_of qi b)) (max (node_of qi a) (node_of qi b))"
  define tbb where "tbb = lms2_tie_break (qi_client qi' b) (min (node_of qi a) (node_of qi b)) (max (node_of qi a) (node_of qi b))"
  have va: "lms2_vote a (qi_client qi a) (cluster_views qi k) na ha =
      (let cmp = tlv_heuristics_cmp ha hb
       in if cmp > 0 then TLV_VOTE_ACK else if cmp < 0 then TLV_VOTE_NACK else tba)"
    using lms2_vote_pair [OF a(2) _ ne split(1), of a ha] heur(1) by (simp add: Let_def tba_def)
  have vb: "lms2_vote b (qi_client qi' b) (cluster_views qi' k) nb hb =
      (let cmp = tlv_heuristics_cmp ha hb
       in if cmp < 0 then TLV_VOTE_ACK else if cmp > 0 then TLV_VOTE_NACK else tbb)"
    using lms2_vote_pair [OF b(2) _ ne split(2), of b hb] heur(2) ne ids(2,3)
      tlv_heuristics_cmp_antisym [of hb ha] by (simp add: Let_def tbb_def)
  have tie: "\<not> (tba = TLV_VOTE_ACK \<and> tbb = TLV_VOTE_ACK)"
    "tb_mode (cl_tie_breaker (qi_client qi a)) \<in> {TLV_TIE_BREAKER_MODE_LOWEST, TLV_TIE_BREAKER_MODE_HIGHEST} \<Longrightarrow>
     tba = TLV_VOTE_ACK \<or> tbb = TLV_VOTE_ACK"
    using tb ids by (auto simp: tba_def tbb_def lms2_tie_break_def min_def max_def
        split: tlv_tie_breaker_mode.splits if_splits)
  obtain ia where ia: "lms2_info (cl_algorithm_data (qi_client qi a)) = Inr ia"
    "va = TLV_VOTE_NACK \<and> l2_last_result ia = TLV_VOTE_UNDEFINED \<or>
     va = lms2_vote a (qi_client qi a) (cluster_views qi k) na ha"
    by (rule lms2_run [OF run_a a(1)])
  obtain ib where ib: "lms2_info (cl_algorithm_data (qi_client qi' b)) = Inr ib"
    "vb = TLV_VOTE_NACK \<and> l2_last_result ib = TLV_VOTE_UNDEFINED \<or>
     vb = lms2_vote b (qi_client qi' b) (cluster_views qi' k) nb hb"
    by (rule lms2_run [OF run_b b(1)])
  show ?thesis
    using ia ib va vb tie by (auto simp: Let_def split: if_splits)
qed

theorem lms2_split_safe_witness:
  "\<exists>va vb qa qb.
     qnetd_algo_2nodelms_membership_node_list_received ex_al 10 (ex_ring 1) (ex_nodes [1])
       TLV_HEURISTICS_UNDEFINED lms2_ex = Inr (TLV_REPLY_ERROR_CODE_NO_ERROR, Some va, qa) \<and>
     qnetd_algo_2nodelms_membership_node_list_received ex_al 20 (ex_ring 2) (ex_nodes [2])
       TLV_HEURISTICS_UNDEFINED lms2_ex = Inr (TLV_REPLY_ERROR_CODE_NO_ERROR, Some vb, qb) \<and>
     \<not> (va = TLV_VOTE_ACK \<and> vb = TLV_VOTE_ACK)"
proof -
  obtain va vb qa qb where
    a: "qnetd_algo_2nodelms_membership_node_list_received ex_al 10 (ex_ring 1) (ex_nodes [1])
       TLV_HEURISTICS_UNDEFINED lms2_ex = Inr (TLV_REPLY_ERROR_CODE_NO_ERROR, Some va, qa)" and
    b: "qnetd_algo_2nodelms_membership_node_list_received ex_al 20 (ex_ring 2) (ex_nodes [2])
       TLV_HEURISTICS_UNDEFINED lms2_ex = Inr (TLV_REPLY_ERROR_CODE_NO_ERROR, Some vb, qb)"
    using lms2_ex_run by blast
  have "\<not> (va = TLV_VOTE_ACK \<and> vb = TLV_VOTE_ACK)"
    using lms2_split_safe [OF _ _ _ _ _ _ _ _ _ _ _ _ a b, where k = 5] by (simp add: lms2_ex_defs)
  with a b show ?thesis by blast
qed

text \<open>
  The last man stands: the only client of its cluster gets an ACK for whatever membership list
  it sends, and the algorithm remembers it.
\<close>

theorem lms2_last_man:
  assumes "cl_cluster (qi_client qi c) = Some k" and "members qi k = [c]"
    and "cl_algorithm_data (qi_client qi c) = Lms2_Client_Data info"
  shows "qnetd_algo_2nodelms_membership_node_list_received al c ring nodes h qi =
    Inr (TLV_REPLY_ERROR_CODE_NO_ERROR, Some TLV_VOTE_ACK,
      set_client_data c (Lms2_Client_Data (info\<lparr>l2_last_result := TLV_VOTE_ACK\<rparr>)) qi)"
proof -
  have "lms2_info (cl_algorithm_data (qi_client qi c)) = Inr info"
    using assms(3) by (simp add: lms2_info_def)
  then show ?thesis
    using assms(1,2)
    by (simp add: qnetd_algo_2nodelms_membership_node_list_received_def cluster_of_def cluster_views_def
        lms2_vote_def Let_def)
qed

theorem lms2_last_man_witness:
  "\<exists>q. qnetd_algo_2nodelms_membership_node_list_received ex_al 10 (ex_ring 1) (ex_nodes [1])
     TLV_HEURISTICS_FAIL (lms2_ex\<lparr>qi_clients := [10], qi_cluster := \<lambda>k. \<lparr>cs_cluster_name = [65],
       cs_algorithm_data = No_Cluster_Data, cs_client_list = [10]\<rparr>\<rparr>) =
     Inr (TLV_REPLY_ERROR_CODE_NO_ERROR, Some TLV_VOTE_ACK, q)"
  using lms2_last_man [of "lms2_ex\<lparr>qi_clients := [10], qi_cluster := \<lambda>k. \<lparr>cs_cluster_name = [65],
       cs_algorithm_data = No_Cluster_Data, cs_client_list = [10]\<rparr>\<rparr>" 10 5
       "\<lparr>l2_num_config_nodes = Some 2, l2_last_result = TLV_VOTE_ACK\<rparr>"]
  by (simp add: lms2_ex_defs)

text \<open>
  A newcomer does not take the quorum away: a client that has not voted yet gets a NACK while
  another client of the cluster, on another ring, holds an ACK, and nothing is remembered of it.
\<close>

theorem lms2_newcomer_denied:
  assumes "cl_cluster (qi_client qi c) = Some k"
    and "cl_algorithm_data (qi_client qi c) = Lms2_Client_Data info"
    and "l2_last_result info = TLV_VOTE_UNDEFINED"
    and mem: "\<forall>i\<in>set (members qi k). \<exists>d. cl_algorithm_data (qi_client qi i) = Lms2_Client_Data d"
    and other: "i \<in> set (members qi k)" "cl_algorithm_data (qi_client qi i) = Lms2_Client_Data d"
      "l2_last_result d = TLV_VOTE_ACK" "cl_last_ring_id (qi_client qi i) \<noteq> ring"
  shows "qnetd_algo_2nodelms_membership_node_list_received al c ring nodes h qi =
    Inr (TLV_REPLY_ERROR_CODE_NO_ERROR, Some TLV_VOTE_NACK, qi)"
proof -
  have "lms2_other_active ring (map (\<lambda>c. (c, qi_client qi c)) ms) = Inr True"
    if "i \<in> set ms" "set ms \<subseteq> set (members qi k)" for ms
    using that
  proof (induction ms)
    case (Cons x xs)
    then obtain dx where dx: "cl_algorithm_data (qi_client qi x) = Lms2_Client_Data dx"
      using mem by auto
    with Cons other(2-4) show ?case
      by (cases "i \<in> set xs") (auto simp: lms2_info_def)
  qed simp
  with other(1) have "lms2_other_active ring (cluster_views qi k) = Inr True"
    by (simp add: cluster_views_def)
  with assms(1-3) show ?thesis
    by (simp add: qnetd_algo_2nodelms_membership_node_list_received_def cluster_of_def lms2_info_def)
qed

theorem lms2_newcomer_denied_witness:
  "qnetd_algo_2nodelms_membership_node_list_received ex_al 10 (ex_ring 1) (ex_nodes [1]) TLV_HEURISTICS_PASS
     (upd_client 10 (\<lambda>cl. cl\<lparr>cl_algorithm_data := Lms2_Client_Data
        \<lparr>l2_num_config_nodes = Some 2, l2_last_result = TLV_VOTE_UNDEFINED\<rparr>\<rparr>) lms2_ex) =
   Inr (TLV_REPLY_ERROR_CODE_NO_ERROR, Some TLV_VOTE_NACK,
     upd_client 10 (\<lambda>cl. cl\<lparr>cl_algorithm_data := Lms2_Client_Data
        \<lparr>l2_num_config_nodes = Some 2, l2_last_result = TLV_VOTE_UNDEFINED\<rparr>\<rparr>) lms2_ex)"
  by (rule lms2_newcomer_denied [where k = 5 and i = 20
        and info = "\<lparr>l2_num_config_nodes = Some 2, l2_last_result = TLV_VOTE_UNDEFINED\<rparr>"
        and d = "\<lparr>l2_num_config_nodes = Some 2, l2_last_result = TLV_VOTE_ACK\<rparr>"])
     (simp_all add: upd_client_def lms2_ex_defs)

end
