(* ===== verification/Algo_Test.thy ===== *)
theory Algo_Test
  imports Algo_Interface
begin

text \<open>
  The test algorithm of \<open>qnetd-algo-test.c\<close>: it votes for every membership and every request, and
  keeps one integer per client and per cluster as its private data.
\<close>

definition qnetd_algo_test_client_init ::
    "allocator \<Rightarrow> client_ref \<Rightarrow> qnetd_instance \<Rightarrow> fault + (tlv_reply_error_code \<times> qnetd_instance)" where
  "qnetd_algo_test_client_init al c qi =
     (if \<not> al Malloc_Client_Algo_Data
      then Inr (TLV_REPLY_ERROR_CODE_INTERNAL_ERROR, set_client_data c No_Client_Data qi)
      else let qi1 = set_client_data c (Test_Client_Data 42) qi
           in bindE (cluster_of qi1 c) (\<lambda>k.
                if qnetd_cluster_size qi1 k = 1 then
                  (if \<not> al Malloc_Cluster_Algo_Data
                   then Inr (TLV_REPLY_ERROR_CODE_INTERNAL_ERROR, set_cluster_data k No_Cluster_Data qi1)
                   else Inr (TLV_REPLY_ERROR_CODE_NO_ERROR, set_cluster_data k (Test_Cluster_Data 42) qi1))
                else Inr (TLV_REPLY_ERROR_CODE_NO_ERROR, qi1)))"

definition qnetd_algo_test_config_node_list_received ::
    "allocator \<Rightarrow> client_ref \<Rightarrow> node_list \<Rightarrow> bool \<Rightarrow> qnetd_instance \<Rightarrow> algo_result" where
  "qnetd_algo_test_config_node_list_received al c nodes initial qi =
     Inr (TLV_REPLY_ERROR_CODE_NO_ERROR, Some TLV_VOTE_NO_CHANGE, qi)"

definition qnetd_algo_test_membership_node_list_received ::
    "allocator \<Rightarrow> client_ref \<Rightarrow> tlv_ring_id \<Rightarrow> node_list \<Rightarrow> tlv_heuristics \<Rightarrow> qnetd_instance \<Rightarrow> algo_result" where
  "qnetd_algo_test_membership_node_list_received al c ring_id nodes heuristics qi =
     Inr (TLV_REPLY_ERROR_CODE_NO_ERROR, Some TLV_VOTE_ACK, qi)"

definition qnetd_algo_test_quorum_node_list_received ::
    "allocator \<Rightarrow> client_ref \<Rightarrow> qnetd_instance \<Rightarrow> algo_result" where
  "qnetd_algo_test_quorum_node_list_received al c qi =
     Inr (TLV_REPLY_ERROR_CODE_NO_ERROR, Some TLV_VOTE_NO_CHANGE, qi)"

definition qnetd_algo_test_client_disconnect ::
    "allocator \<Rightarrow> client_ref \<Rightarrow> bool \<Rightarrow> qnetd_instance \<Rightarrow> fault + qnetd_instance" where
  "qnetd_algo_test_client_disconnect al c server_going_down qi =
     (let qi1 = free_client_data c qi
      in bindE (cluster_of qi1 c) (\<lambda>k.
           if qnetd_cluster_size qi1 k = 1 then Inr (free_cluster_data k qi1) else Inr qi1))"

definition qnetd_algo_test_ask_for_vote_received ::
    "allocator \<Rightarrow> client_ref \<Rightarrow> qnetd_instance \<Rightarrow> algo_result" where
  "qnetd_algo_test_ask_for_vote_received al c qi =
     Inr (TLV_REPLY_ERROR_CODE_NO_ERROR, Some TLV_VOTE_ACK, qi)"

definition qnetd_algo_test_vote_info_reply_received ::
    "allocator \<Rightarrow> client_ref \<Rightarrow> u32 \<Rightarrow> qnetd_instance \<Rightarrow> fault + (tlv_reply_error_code \<times> qnetd_instance)" where
  "qnetd_algo_test_vote_info_reply_received al c msg_seq_num qi = Inr (TLV_REPLY_ERROR_CODE_NO_ERROR, qi)"

definition qnetd_algo_test_heuristics_change_received ::
    "allocator \<Rightarrow> client_ref \<Rightarrow> tlv_heuristics \<Rightarrow> qnetd_instance \<Rightarrow> algo_result" where
  "qnetd_algo_test_heuristics_change_received al c heuristics qi =
     Inr (TLV_REPLY_ERROR_CODE_NO_ERROR, Some TLV_VOTE_NO_CHANGE, qi)"

definition qnetd_algo_test_timer_callback ::
    "allocator \<Rightarrow> client_ref \<Rightarrow> qnetd_instance \<Rightarrow>
     fault + (tlv_reply_error_code \<times> bool \<times> bool \<times> tlv_vote option \<times> qnetd_instance)" where
  "qnetd_algo_test_timer_callback al c qi = Inr (TLV_REPLY_ERROR_CODE_NO_ERROR, False, False, None, qi)"

definition qnetd_algo_test :: qnetd_algorithm where
  "qnetd_algo_test =
     \<lparr>alg_init = qnetd_algo_test_client_init,
      alg_config_node_list_received = qnetd_algo_test_config_node_list_received,
      alg_membership_node_list_received = qnetd_algo_test_membership_node_list_received,
      alg_quorum_node_list_received = qnetd_algo_test_quorum_node_list_received,
      alg_client_disconnect = qnetd_algo_test_client_disconnect,
      alg_ask_for_vote_received = qnetd_algo_test_ask_for_vote_received,
      alg_vote_info_reply_received = qnetd_algo_test_vote_info_reply_received,
      alg_heuristics_change_received = qnetd_algo_test_heuristics_change_received,
      alg_timer_callback = qnetd_algo_test_timer_callback\<rparr>"

lemmas algo_test_defs = qnetd_algo_test_def qnetd_algo_test_client_init_def
  qnetd_algo_test_config_node_list_received_def qnetd_algo_test_membership_node_list_received_def
  qnetd_algo_test_quorum_node_list_received_def qnetd_algo_test_client_disconnect_def
  qnetd_algo_test_ask_for_vote_received_def qnetd_algo_test_vote_info_reply_received_def
  qnetd_algo_test_heuristics_change_received_def qnetd_algo_test_timer_callback_def

interpretation algo_test: decision_algorithm qnetd_algo_test
  by unfold_locales
     (auto simp: algo_test_defs Let_def bindE_Inr_iff same_core_data_trans split: if_splits)

end
