(* ===== verification/Qnetd_Algorithm.thy ===== *)
theory Qnetd_Algorithm
  imports Algo_Test Algo_2nodelms Algo_Lms Algo_Ffsplit
begin

text \<open>
  The dispatch of \<open>qnetd-algorithm.c\<close> from a client to its decision algorithm through the array of
  registered algorithms, the algorithm timer (\<open>qnetd-client-algo-timer.c\<close>) and the end of a client
  (\<open>qnetd-instance.c\<close>). Every fact about the dispatch follows from the contract of the registered
  algorithms.
\<close>

section \<open>Registration\<close>

type_synonym algorithm_array = "nat \<Rightarrow> qnetd_algorithm option"

definition qnetd_static_supported_decision_algorithms :: "tlv_decision_algorithm_type list" where
  "qnetd_static_supported_decision_algorithms =
     [TLV_DECISION_ALGORITHM_TYPE_TEST, TLV_DECISION_ALGORITHM_TYPE_FFSPLIT,
      TLV_DECISION_ALGORITHM_TYPE_2NODELMS, TLV_DECISION_ALGORITHM_TYPE_LMS]"

definition qnetd_static_supported_decision_algorithms_size :: nat where
  "qnetd_static_supported_decision_algorithms_size = 4"

definition qnetd_algorithm_register ::
    "tlv_decision_algorithm_type \<Rightarrow> qnetd_algorithm \<Rightarrow> algorithm_array \<Rightarrow> int \<times> algorithm_array" where
  "qnetd_algorithm_register algorithm_number algorithm aa =
     (let n = unat (tlv_decision_algorithm_type_code algorithm_number)
      in if n \<ge> qnetd_static_supported_decision_algorithms_size then (-1, aa)
         else if aa n \<noteq> None then (-1, aa)
         else (0, aa(n := Some algorithm)))"

definition qnetd_algorithm_register_all :: "algorithm_array \<Rightarrow> int \<times> algorithm_array" where
  "qnetd_algorithm_register_all aa0 =
     (case qnetd_algorithm_register TLV_DECISION_ALGORITHM_TYPE_TEST qnetd_algo_test aa0 of
        (r1, aa1) \<Rightarrow> if r1 \<noteq> 0 then (-1, aa1) else
      (case qnetd_algorithm_register TLV_DECISION_ALGORITHM_TYPE_FFSPLIT qnetd_algo_ffsplit aa1 of
        (r2, aa2) \<Rightarrow> if r2 \<noteq> 0 then (-1, aa2) else
      (case qnetd_algorithm_register TLV_DECISION_ALGORITHM_TYPE_2NODELMS qnetd_algo_2nodelms aa2 of
        (r3, aa3) \<Rightarrow> if r3 \<noteq> 0 then (-1, aa3) else
      (case qnetd_algorithm_register TLV_DECISION_ALGORITHM_TYPE_LMS qnetd_algo_lms aa3 of
        (r4, aa4) \<Rightarrow> if r4 \<noteq> 0 then (-1, aa4) else (0, aa4)))))"

section \<open>Dispatch\<close>

text \<open>
  The guard of every dispatch function: \<open>None\<close> stands for an index out of range or an empty slot,
  and the dispatch function then returns an internal error.
\<close>

definition algorithm_of :: "algorithm_array \<Rightarrow> qnetd_client \<Rightarrow> qnetd_algorithm option" where
  "algorithm_of aa client =
     (let n = unat (tlv_decision_algorithm_type_code (cl_decision_algorithm client))
      in if n \<ge> qnetd_static_supported_decision_algorithms_size then None else aa n)"

definition qnetd_algorithm_client_init ::
    "allocator \<Rightarrow> algorithm_array \<Rightarrow> client_ref \<Rightarrow> qnetd_instance \<Rightarrow>
     fault + (tlv_reply_error_code \<times> qnetd_instance)" where
  "qnetd_algorithm_client_init al aa c qi =
     (case algorithm_of aa (qi_client qi c) of
        None \<Rightarrow> Inr (TLV_REPLY_ERROR_CODE_INTERNAL_ERROR, qi)
      | Some A \<Rightarrow> alg_init A al c qi)"

definition qnetd_algorithm_config_node_list_received ::
    "allocator \<Rightarrow> algorithm_array \<Rightarrow> client_ref \<Rightarrow> node_list \<Rightarrow> bool \<Rightarrow> qnetd_instance \<Rightarrow> algo_result" where
  "qnetd_algorithm_config_node_list_received al aa c nodes initial qi =
     (case algorithm_of aa (qi_client qi c) of
        None \<Rightarrow> Inr (TLV_REPLY_ERROR_CODE_INTERNAL_ERROR, None, qi)
      | Some A \<Rightarrow> alg_config_node_list_received A al c nodes initial qi)"

definition qnetd_algorithm_membership_node_list_received ::
    "allocator \<Rightarrow> algorithm_array \<Rightarrow> client_ref \<Rightarrow> tlv_ring_id \<Rightarrow> node_list \<Rightarrow> tlv_heuristics \<Rightarrow>
     qnetd_instance \<Rightarrow> algo_result" where
  "qnetd_algorithm_membership_node_list_received al aa c ring_id nodes heuristics qi =
     (case algorithm_of aa (qi_client qi c) of
        None \<Rightarrow> Inr (TLV_REPLY_ERROR_CODE_INTERNAL_ERROR, None, qi)
      | Some A \<Rightarrow> alg_membership_node_list_received A al c ring_id nodes heuristics qi)"

definition qnetd_algorithm_quorum_node_list_received ::
    "allocator \<Rightarrow> algorithm_array \<Rightarrow> client_ref \<Rightarrow> qnetd_instance \<Rightarrow> algo_result" where
  "qnetd_algorithm_quorum_node_list_received al aa c qi =
     (case algorithm_of aa (qi_client qi c) of
        None \<Rightarrow> Inr (TLV_REPLY_ERROR_CODE_INTERNAL_ERROR, None, qi)
      | Some A \<Rightarrow> alg_quorum_node_list_received A al c qi)"

definition qnetd_algorithm_client_disconnect ::
    "allocator \<Rightarrow> algorithm_array \<Rightarrow> client_ref \<Rightarrow> bool \<Rightarrow> qnetd_instance \<Rightarrow> fault + qnetd_instance" where
  "qnetd_algorithm_client_disconnect al aa c server_going_down qi =
     (case algorithm_of aa (qi_client qi c) of
        None \<Rightarrow> Inr qi
      | Some A \<Rightarrow> alg_client_disconnect A al c server_going_down qi)"

definition qnetd_algorithm_ask_for_vote_received ::
    "allocator \<Rightarrow> algorithm_array \<Rightarrow> client_ref \<Rightarrow> qnetd_instance \<Rightarrow> algo_result" where
  "qnetd_algorithm_ask_for_vote_received al aa c qi =
     (case algorithm_of aa (qi_client qi c) of
        None \<Rightarrow> Inr (TLV_REPLY_ERROR_CODE_INTERNAL_ERROR, None, qi)
      | Some A \<Rightarrow> alg_ask_for_vote_received A al c qi)"

definition qnetd_algorithm_vote_info_reply_received ::
    "allocator \<Rightarrow> algorithm_array \<Rightarrow> client_ref \<Rightarrow> u32 \<Rightarrow> qnetd_instance \<Rightarrow>
     fault + (tlv_reply_error_code \<times> qnetd_instance)" where
  "qnetd_algorithm_vote_info_reply_received al aa c msg_seq_num qi =
     (case algorithm_of aa (qi_client qi c) of
        None \<Rightarrow> Inr (TLV_REPLY_ERROR_CODE_INTERNAL_ERROR, qi)
      | Some A \<Rightarrow> alg_vote_info_reply_received A al c msg_seq_num qi)"

definition qnetd_algorithm_heuristics_change_received ::
    "allocator \<Rightarrow> algorithm_array \<Rightarrow> client_ref \<Rightarrow> tlv_heuristics \<Rightarrow> qnetd_instance \<Rightarrow> algo_result" where
  "qnetd_algorithm_heuristics_change_received al aa c heuristics qi =
     (case algorithm_of aa (qi_client qi c) of
        None \<Rightarrow> Inr (TLV_REPLY_ERROR_CODE_INTERNAL_ERROR, None, qi)
      | Some A \<Rightarrow> alg_heuristics_change_received A al c heuristics qi)"

definition qnetd_algorithm_timer_callback ::
    "allocator \<Rightarrow> algorithm_array \<Rightarrow> client_ref \<Rightarrow> qnetd_instance \<Rightarrow>
     fault + (tlv_reply_error_code \<times> bool \<times> bool \<times> tlv_vote option \<times> qnetd_instance)" where
  "qnetd_algorithm_timer_callback al aa c qi =
     (case algorithm_of aa (qi_client qi c) of
        None \<Rightarrow> Inr (TLV_REPLY_ERROR_CODE_INTERNAL_ERROR, False, False, None, qi)
      | Some A \<Rightarrow> alg_timer_callback A al c qi)"

section \<open>The algorithm timer\<close>

text \<open>
  The callback of the timer list; result 0 ends the timer, -1 schedules it again. An expired timer
  that is not scheduled again leaves its handle in the client when an error or a failed send made
  the callback return early.
\<close>

definition qnetd_client_algo_timer_callback ::
    "allocator \<Rightarrow> algorithm_array \<Rightarrow> client_ref \<Rightarrow> qnetd_instance \<Rightarrow> fault + (int \<times> qnetd_instance)" where
  "qnetd_client_algo_timer_callback al aa c qi =
     bindE (qnetd_algorithm_timer_callback al aa c qi) (\<lambda>(err, reschedule, send_vote, v, qi1).
       let disconnect = upd_client c (\<lambda>cl. cl\<lparr>cl_schedule_disconnect := True\<rparr>);
           result_vote = (case v of None \<Rightarrow> TLV_VOTE_WAIT_FOR_REPLY | Some x \<Rightarrow> x)
       in if err \<noteq> TLV_REPLY_ERROR_CODE_NO_ERROR
          then (case on_client c (qnetd_client_send_err al False 0 err) qi1 of
                  (r, qi2) \<Rightarrow> Inr (0, if r \<noteq> 0 then disconnect qi2 else qi2))
          else let seq = cl_algo_timer_vote_info_msq_seq_number (qi_client qi1 c) + 1;
                   qi2 = upd_client c (\<lambda>cl. cl\<lparr>cl_algo_timer_vote_info_msq_seq_number := seq\<rparr>) qi1;
                   sent = (if send_vote
                           then on_client c (qnetd_client_send_vote_info al seq
                                  (cl_last_ring_id (qi_client qi2 c)) result_vote) qi2
                           else (0, qi1))
               in if fst sent \<noteq> 0 then Inr (0, disconnect (snd sent))
                  else if reschedule then Inr (-1, snd sent)
                  else Inr (0, upd_client c (\<lambda>cl. cl\<lparr>cl_algo_timer := None\<rparr>) (snd sent)))"

section \<open>The end of a client\<close>

definition qnetd_instance_client_disconnect ::
    "allocator \<Rightarrow> algorithm_array \<Rightarrow> client_ref \<Rightarrow> bool \<Rightarrow> qnetd_instance \<Rightarrow> fault + qnetd_instance" where
  "qnetd_instance_client_disconnect al aa c server_going_down qi =
     bindE (if cl_init_received (qi_client qi c)
            then qnetd_algorithm_client_disconnect al aa c server_going_down qi else Inr qi) (\<lambda>qi1.
       let qi2 = upd_client c qnetd_client_dpd_timer_destroy qi1;
           qi3 = (case cl_cluster (qi_client qi2 c) of
                    None \<Rightarrow> qi2 | Some k \<Rightarrow> qnetd_cluster_list_del_client qi2 k c);
           qi4 = snd (on_client c qnetd_client_algo_timer_abort qi3)
       in Inr (qnetd_client_list_del qi4 c))"

text \<open>
  The loop before each poll: disconnect every client that is marked for it. \<open>del_prfd\<close> says whether
  the poll loop could remove the client's socket; the first failure ends the loop with -1.
\<close>

fun pre_poll_loop ::
    "allocator \<Rightarrow> algorithm_array \<Rightarrow> (client_ref \<Rightarrow> bool) \<Rightarrow> client_ref list \<Rightarrow> qnetd_instance \<Rightarrow>
     fault + (int \<times> qnetd_instance)" where
  "pre_poll_loop al aa del_prfd [] qi = Inr (0, qi)"
| "pre_poll_loop al aa del_prfd (c # cs) qi =
     (if cl_schedule_disconnect (qi_client qi c) \<and> \<not> del_prfd c then Inr (-1, qi)
      else bindE (if cl_schedule_disconnect (qi_client qi c)
                  then qnetd_instance_client_disconnect al aa c False qi else Inr qi)
             (pre_poll_loop al aa del_prfd cs))"

definition qnetd_instance_poll_loop_pre_poll_cb ::
    "allocator \<Rightarrow> algorithm_array \<Rightarrow> (client_ref \<Rightarrow> bool) \<Rightarrow> qnetd_instance \<Rightarrow>
     fault + (int \<times> qnetd_instance)" where
  "qnetd_instance_poll_loop_pre_poll_cb al aa del_prfd qi =
     pre_poll_loop al aa del_prfd (qi_clients qi) qi"

fun destroy_loop ::
    "allocator \<Rightarrow> algorithm_array \<Rightarrow> client_ref list \<Rightarrow> qnetd_instance \<Rightarrow> fault + qnetd_instance" where
  "destroy_loop al aa [] qi = Inr qi"
| "destroy_loop al aa (c # cs) qi =
     bindE (qnetd_instance_client_disconnect al aa c True qi) (destroy_loop al aa cs)"

definition qnetd_instance_destroy ::
    "allocator \<Rightarrow> algorithm_array \<Rightarrow> qnetd_instance \<Rightarrow> fault + qnetd_instance" where
  "qnetd_instance_destroy al aa qi =
     bindE (destroy_loop al aa (qi_clients qi) qi) (\<lambda>qi1.
       Inr (qi1\<lparr>qi_clusters := [], qi_clients := []\<rparr>))"

section \<open>Facts from the contract\<close>

text \<open>Every slot of the array holds an algorithm that keeps the contract.\<close>

definition registered :: "algorithm_array \<Rightarrow> bool" where
  "registered aa \<longleftrightarrow> (\<forall>n A. aa n = Some A \<longrightarrow> decision_algorithm A)"

lemma algorithm_of_registered:
  "registered aa \<Longrightarrow> algorithm_of aa cl = Some A \<Longrightarrow> decision_algorithm A"
  by (auto simp: registered_def algorithm_of_def Let_def split: if_splits)

lemma register_all_result:
  "qnetd_algorithm_register_all (\<lambda>n. None) =
     (0, (\<lambda>n. None)(0 := Some qnetd_algo_test, 1 := Some qnetd_algo_ffsplit,
        2 := Some qnetd_algo_2nodelms, 3 := Some qnetd_algo_lms))"
  by (simp add: qnetd_algorithm_register_all_def qnetd_algorithm_register_def
      qnetd_static_supported_decision_algorithms_size_def Let_def)

lemma registered_all: "registered (snd (qnetd_algorithm_register_all (\<lambda>n. None)))"
  unfolding register_all_result registered_def
  using algo_test.decision_algorithm_axioms algo_ffsplit.decision_algorithm_axioms
    algo_2nodelms.decision_algorithm_axioms algo_lms.decision_algorithm_axioms
  by (auto split: if_splits)

lemma dispatch_core:
  assumes "registered aa"
  shows "qnetd_algorithm_client_init al aa c qi = Inr (e, qi') \<Longrightarrow> same_core qi qi'"
    and "qnetd_algorithm_config_node_list_received al aa c ns i qi = Inr (e, v, qi') \<Longrightarrow>
      same_core qi qi' \<and> (e = TLV_REPLY_ERROR_CODE_NO_ERROR \<longrightarrow> v \<noteq> None)"
    and "qnetd_algorithm_membership_node_list_received al aa c r ns h qi = Inr (e, v, qi') \<Longrightarrow>
      same_core qi qi' \<and> (e = TLV_REPLY_ERROR_CODE_NO_ERROR \<longrightarrow> v \<noteq> None)"
    and "qnetd_algorithm_quorum_node_list_received al aa c qi = Inr (e, v, qi') \<Longrightarrow>
      same_core qi qi' \<and> (e = TLV_REPLY_ERROR_CODE_NO_ERROR \<longrightarrow> v \<noteq> None)"
    and "qnetd_algorithm_client_disconnect al aa c down qi = Inr qi' \<Longrightarrow> same_core qi qi'"
    and "qnetd_algorithm_ask_for_vote_received al aa c qi = Inr (e, v, qi') \<Longrightarrow>
      same_core qi qi' \<and> (e = TLV_REPLY_ERROR_CODE_NO_ERROR \<longrightarrow> v \<noteq> None)"
    and "qnetd_algorithm_vote_info_reply_received al aa c n qi = Inr (e, qi') \<Longrightarrow> same_core qi qi'"
    and "qnetd_algorithm_heuristics_change_received al aa c h qi = Inr (e, v, qi') \<Longrightarrow>
      same_core qi qi' \<and> (e = TLV_REPLY_ERROR_CODE_NO_ERROR \<longrightarrow> v \<noteq> None)"
    and "qnetd_algorithm_timer_callback al aa c qi = Inr (e, rs, sv, v, qi') \<Longrightarrow>
      same_core qi qi' \<and> (sv \<longrightarrow> v \<noteq> None)"
proof -
  note D = algorithm_of_registered [OF assms]
  show "qnetd_algorithm_client_init al aa c qi = Inr (e, qi') \<Longrightarrow> same_core qi qi'"
    using decision_algorithm.init_core [OF D]
    by (auto simp: qnetd_algorithm_client_init_def split: option.splits)
  show "qnetd_algorithm_config_node_list_received al aa c ns i qi = Inr (e, v, qi') \<Longrightarrow>
      same_core qi qi' \<and> (e = TLV_REPLY_ERROR_CODE_NO_ERROR \<longrightarrow> v \<noteq> None)"
    using decision_algorithm.config_core [OF D]
    by (auto simp: qnetd_algorithm_config_node_list_received_def split: option.splits)
  show "qnetd_algorithm_membership_node_list_received al aa c r ns h qi = Inr (e, v, qi') \<Longrightarrow>
      same_core qi qi' \<and> (e = TLV_REPLY_ERROR_CODE_NO_ERROR \<longrightarrow> v \<noteq> None)"
    using decision_algorithm.membership_core [OF D]
    by (auto simp: qnetd_algorithm_membership_node_list_received_def split: option.splits)
  show "qnetd_algorithm_quorum_node_list_received al aa c qi = Inr (e, v, qi') \<Longrightarrow>
      same_core qi qi' \<and> (e = TLV_REPLY_ERROR_CODE_NO_ERROR \<longrightarrow> v \<noteq> None)"
    using decision_algorithm.quorum_core [OF D]
    by (auto simp: qnetd_algorithm_quorum_node_list_received_def split: option.splits)
  show "qnetd_algorithm_client_disconnect al aa c down qi = Inr qi' \<Longrightarrow> same_core qi qi'"
    using decision_algorithm.disconnect_core [OF D]
    by (auto simp: qnetd_algorithm_client_disconnect_def split: option.splits)
  show "qnetd_algorithm_ask_for_vote_received al aa c qi = Inr (e, v, qi') \<Longrightarrow>
      same_core qi qi' \<and> (e = TLV_REPLY_ERROR_CODE_NO_ERROR \<longrightarrow> v \<noteq> None)"
    using decision_algorithm.ask_core [OF D]
    by (auto simp: qnetd_algorithm_ask_for_vote_received_def split: option.splits)
  show "qnetd_algorithm_vote_info_reply_received al aa c n qi = Inr (e, qi') \<Longrightarrow> same_core qi qi'"
    using decision_algorithm.vote_info_core [OF D]
    by (auto simp: qnetd_algorithm_vote_info_reply_received_def split: option.splits)
  show "qnetd_algorithm_heuristics_change_received al aa c h qi = Inr (e, v, qi') \<Longrightarrow>
      same_core qi qi' \<and> (e = TLV_REPLY_ERROR_CODE_NO_ERROR \<longrightarrow> v \<noteq> None)"
    using decision_algorithm.heuristics_core [OF D]
    by (auto simp: qnetd_algorithm_heuristics_change_received_def split: option.splits)
  show "qnetd_algorithm_timer_callback al aa c qi = Inr (e, rs, sv, v, qi') \<Longrightarrow>
      same_core qi qi' \<and> (sv \<longrightarrow> v \<noteq> None)"
    using decision_algorithm.timer_core [OF D]
    by (auto simp: qnetd_algorithm_timer_callback_def split: option.splits)
qed

text \<open>
  The end of a client keeps the cluster list consistent, whatever its algorithm did on the way.
\<close>

lemma client_disconnect_wf:
  assumes reg: "registered aa" and wf: "cluster_list_wf qi" and c: "c \<in> set (qi_clients qi)"
    and d: "qnetd_instance_client_disconnect al aa c down qi = Inr qi'"
  shows "cluster_list_wf qi' \<and> c \<notin> set (qi_clients qi')"
proof -
  from d obtain qi1 where q1: "(if cl_init_received (qi_client qi c)
        then qnetd_algorithm_client_disconnect al aa c down qi else Inr qi) = Inr qi1"
    and qi': "qi' = (let qi2 = upd_client c qnetd_client_dpd_timer_destroy qi1;
           qi3 = (case cl_cluster (qi_client qi2 c) of
                    None \<Rightarrow> qi2 | Some k \<Rightarrow> qnetd_cluster_list_del_client qi2 k c);
           qi4 = snd (on_client c qnetd_client_algo_timer_abort qi3)
       in qnetd_client_list_del qi4 c)"
    unfolding qnetd_instance_client_disconnect_def bindE_Inr_iff by (auto simp: Let_def)
  have core1: "same_core qi qi1"
    using q1 dispatch_core(5) [OF reg] by (auto split: if_splits)
  note S = same_coreD [OF core1]
  have same: "cl_cluster (qi_client qi1 c) = cl_cluster (qi_client qi c)"
    using client_core_fields(2) [OF S(4)] .
  note steps = upd_client_def on_client_def qnetd_client_dpd_timer_destroy_def
    qnetd_client_algo_timer_abort_def del_client_result client_list_del_result
  note wf1 = cluster_list_wf_core [OF core1 wf]
  show ?thesis
  proof (cases "cl_cluster (qi_client qi c)")
    case None
    then have "cluster_list_wf qi' \<longleftrightarrow> cluster_list_wf (qnetd_client_list_del qi1 c)"
      using same by (intro cluster_list_wf_cong) (auto simp: qi' Let_def steps)
    moreover have "c \<notin> set (qi_clients qi')"
      using None same cluster_list_wfD(1) [OF wf1] by (simp add: qi' Let_def steps)
    ultimately show ?thesis
      using cluster_list_wf_del_lone [OF wf1] None same by simp
  next
    case (Some k)
    then have "cluster_list_wf qi' \<longleftrightarrow>
        cluster_list_wf (qnetd_client_list_del (qnetd_cluster_list_del_client qi1 k c) c)"
      using same by (intro cluster_list_wf_cong) (auto simp: qi' Let_def steps)
    moreover have "c \<notin> set (qi_clients qi')"
      using Some same cluster_list_wfD(1) [OF wf1] by (simp add: qi' Let_def steps)
    ultimately show ?thesis
      using cluster_list_wf_del [OF wf1] c S(1) Some same by simp
  qed
qed

end
