(* ===== verification/Client_Msg_Received.thy ===== *)
theory Client_Msg_Received
  imports Qnetd_Algorithm
begin

text \<open>
  The message handlers of the daemon, \<open>qnetd-client-msg-received.c\<close>: one definition per handler
  and \<open>qnetd_client_msg_received\<close>, which decodes the receive buffer and dispatches. A handler
  returns -1 when the client has to be disconnected. The TLS library is a parameter.
\<close>

section \<open>Common steps\<close>

record nss_env =
  nss_peer_certificate :: "client_ref \<Rightarrow> bool"
  nss_verify_cert_name :: "client_ref \<Rightarrow> byte list option \<Rightarrow> bool"
  nss_start_ssl_as_server :: "client_ref \<Rightarrow> bool"

type_synonym handler_result = "fault + (int \<times> qnetd_instance)"

text \<open>Send an error: 0, or -1 when even that fails.\<close>

definition reply_err ::
    "allocator \<Rightarrow> client_ref \<Rightarrow> msg_decoded \<Rightarrow> tlv_reply_error_code \<Rightarrow> qnetd_instance \<Rightarrow> int \<times> qnetd_instance" where
  "reply_err al c msg err qi =
     (case on_client c (qnetd_client_send_err al (md_seq_number_set msg) (md_seq_number msg) err) qi of
        (r, qi') \<Rightarrow> (if r \<noteq> 0 then -1 else 0, qi'))"

definition reply_msg ::
    "allocator \<Rightarrow> client_ref \<Rightarrow> (dynar \<Rightarrow> nat \<times> dynar) \<Rightarrow> qnetd_instance \<Rightarrow> int \<times> qnetd_instance" where
  "reply_msg al c create qi = on_client c (send_msg al create) qi"

definition qnetd_client_msg_received_check_tls ::
    "allocator \<Rightarrow> nss_env \<Rightarrow> client_ref \<Rightarrow> msg_decoded \<Rightarrow> qnetd_instance \<Rightarrow> int \<times> qnetd_instance" where
  "qnetd_client_msg_received_check_tls al nss c msg qi =
     (let client = qi_client qi c;
          tls_required = (qi_tls_supported qi = TLV_TLS_REQUIRED);
          check_certificate =
            (case qi_tls_supported qi of
               TLV_TLS_UNSUPPORTED \<Rightarrow> False
             | TLV_TLS_SUPPORTED \<Rightarrow>
                 cl_tls_started client \<and> qi_tls_client_cert_required qi \<and>
                 \<not> cl_tls_peer_certificate_verified client
             | TLV_TLS_REQUIRED \<Rightarrow>
                 qi_tls_client_cert_required qi \<and> \<not> cl_tls_peer_certificate_verified client)
      in if tls_required \<and> \<not> cl_tls_started client
         then (case reply_err al c msg TLV_REPLY_ERROR_CODE_TLS_REQUIRED qi of
                 (r, qi') \<Rightarrow> (if r \<noteq> 0 then -1 else -2, qi'))
         else if check_certificate
         then (if \<not> nss_peer_certificate nss c then (-1, qi)
               else if \<not> nss_verify_cert_name nss c (cl_cluster_name client) then (-1, qi)
               else (0, upd_client c (\<lambda>cl. cl\<lparr>cl_tls_peer_certificate_verified := True\<rparr>) qi))
         else (0, qi))"

definition with_tls ::
    "allocator \<Rightarrow> nss_env \<Rightarrow> client_ref \<Rightarrow> msg_decoded \<Rightarrow> (qnetd_instance \<Rightarrow> handler_result) \<Rightarrow>
     qnetd_instance \<Rightarrow> handler_result" where
  "with_tls al nss c msg f qi =
     (case qnetd_client_msg_received_check_tls al nss c msg qi of
        (res, qi1) \<Rightarrow> if res \<noteq> 0 then Inr (if res = -1 then -1 else 0, qi1) else f qi1)"

definition with_init ::
    "allocator \<Rightarrow> client_ref \<Rightarrow> msg_decoded \<Rightarrow> (qnetd_instance \<Rightarrow> handler_result) \<Rightarrow>
     qnetd_instance \<Rightarrow> handler_result" where
  "with_init al c msg f qi =
     (if \<not> cl_init_received (qi_client qi c)
      then Inr (reply_err al c msg TLV_REPLY_ERROR_CODE_INIT_REQUIRED qi) else f qi)"

section \<open>Before the initialisation\<close>

definition qnetd_client_msg_received_preinit ::
    "allocator \<Rightarrow> client_ref \<Rightarrow> msg_decoded \<Rightarrow> qnetd_instance \<Rightarrow> handler_result" where
  "qnetd_client_msg_received_preinit al c msg qi =
     (case md_cluster_name msg of
        Ptr name \<Rightarrow>
          if \<not> al (Malloc_Bytes (length name + 1))
          then Inr (reply_err al c msg TLV_REPLY_ERROR_CODE_INTERNAL_ERROR
                     (upd_client c (\<lambda>cl. cl\<lparr>cl_cluster_name := None\<rparr>) qi))
          else Inr (reply_msg al c
                 (\<lambda>buf. msg_create_preinit_reply al buf (md_seq_number_set msg) (md_seq_number msg)
                    (qi_tls_supported qi) (if qi_tls_client_cert_required qi then 1 else 0))
                 (upd_client c (\<lambda>cl. cl\<lparr>cl_cluster_name := Some name, cl_preinit_received := True\<rparr>) qi))
      | _ \<Rightarrow> Inr (reply_err al c msg TLV_REPLY_ERROR_CODE_DOESNT_CONTAIN_REQUIRED_OPTION qi))"

definition qnetd_client_msg_received_unexpected_msg ::
    "allocator \<Rightarrow> client_ref \<Rightarrow> msg_decoded \<Rightarrow> qnetd_instance \<Rightarrow> handler_result" where
  "qnetd_client_msg_received_unexpected_msg al c msg qi =
     Inr (reply_err al c msg TLV_REPLY_ERROR_CODE_UNEXPECTED_MESSAGE qi)"

text \<open>The TLS socket replaces the plain one in the client (\<open>client->socket\<close>); the state has no socket object, so this is
  seen only in \<open>cl_tls_started\<close>.\<close>

definition qnetd_client_msg_received_starttls ::
    "allocator \<Rightarrow> nss_env \<Rightarrow> client_ref \<Rightarrow> msg_decoded \<Rightarrow> qnetd_instance \<Rightarrow> handler_result" where
  "qnetd_client_msg_received_starttls al nss c msg qi =
     (if \<not> cl_preinit_received (qi_client qi c)
      then Inr (reply_err al c msg TLV_REPLY_ERROR_CODE_PREINIT_REQUIRED qi)
      else if \<not> nss_start_ssl_as_server nss c then Inr (-1, qi)
      else Inr (0, upd_client c (\<lambda>cl. cl\<lparr>cl_tls_started := True,
                     cl_tls_peer_certificate_verified := False\<rparr>) qi))"

section \<open>Initialisation\<close>

fun init_check_loop :: "qnetd_client \<Rightarrow> qnetd_client list \<Rightarrow> tlv_reply_error_code" where
  "init_check_loop new_client [] = TLV_REPLY_ERROR_CODE_NO_ERROR"
| "init_check_loop new_client (client # clients) =
     (if \<not> tlv_tie_breaker_eq (cl_tie_breaker new_client) (cl_tie_breaker client)
      then TLV_REPLY_ERROR_CODE_TIE_BREAKER_DIFFERS_FROM_OTHER_NODES
      else if cl_decision_algorithm new_client \<noteq> cl_decision_algorithm client
      then TLV_REPLY_ERROR_CODE_ALGORITHM_DIFFERS_FROM_OTHER_NODES
      else if cl_node_id new_client = cl_node_id client
      then TLV_REPLY_ERROR_CODE_DUPLICATE_NODE_ID
      else init_check_loop new_client clients)"

definition qnetd_client_msg_received_init_check_new_client ::
    "client_ref \<Rightarrow> byte list \<Rightarrow> qnetd_instance \<Rightarrow> tlv_reply_error_code" where
  "qnetd_client_msg_received_init_check_new_client c cluster_name qi =
     (case qnetd_cluster_list_find_by_name qi cluster_name of
        None \<Rightarrow> TLV_REPLY_ERROR_CODE_NO_ERROR
      | Some k \<Rightarrow> init_check_loop (qi_client qi c) (map snd (cluster_views qi k)))"

text \<open>
  The checks of the options of the message, in order. Each step maps the error code so far and
  the client; a value is stored whenever the check of its own option did not fail just now, so
  also when an earlier check failed.
\<close>

type_synonym init_step = "tlv_reply_error_code \<times> qnetd_client \<Rightarrow> tlv_reply_error_code \<times> qnetd_client"

definition init_required :: "bool \<Rightarrow> init_step \<Rightarrow> init_step" where
  "init_required is_set store ec =
     (if fst ec = TLV_REPLY_ERROR_CODE_NO_ERROR \<and> \<not> is_set
      then (TLV_REPLY_ERROR_CODE_DOESNT_CONTAIN_REQUIRED_OPTION, snd ec) else store ec)"

definition init_preinit :: init_step where
  "init_preinit ec =
     (if \<not> cl_preinit_received (snd ec) then (TLV_REPLY_ERROR_CODE_PREINIT_REQUIRED, snd ec) else ec)"

definition init_node_id :: "msg_decoded \<Rightarrow> init_step" where
  "init_node_id msg = init_required (md_node_id_set msg)
     (\<lambda>(e, cl). (e, cl\<lparr>cl_node_id_set := True, cl_node_id := md_node_id msg\<rparr>))"

definition init_ring_id :: "msg_decoded \<Rightarrow> init_step" where
  "init_ring_id msg = init_required (md_ring_id_set msg)
     (\<lambda>(e, cl). (e, cl\<lparr>cl_last_ring_id := md_ring_id msg\<rparr>))"

definition init_heartbeat :: "qnetd_advanced_settings \<Rightarrow> msg_decoded \<Rightarrow> init_step" where
  "init_heartbeat as msg = init_required (md_heartbeat_interval_set msg)
     (\<lambda>(e, cl).
        if md_heartbeat_interval msg < as_heartbeat_interval_min as \<or>
           md_heartbeat_interval msg > as_heartbeat_interval_max as
        then (TLV_REPLY_ERROR_CODE_INVALID_HEARTBEAT_INTERVAL, cl)
        else case qnetd_client_dpd_timer_update_interval as
                    (cl\<lparr>cl_heartbeat_interval := md_heartbeat_interval msg\<rparr>) of
               (r, cl') \<Rightarrow>
                 (if r \<noteq> 0 then TLV_REPLY_ERROR_CODE_INVALID_HEARTBEAT_INTERVAL else e, cl'))"

definition init_tie_breaker :: "msg_decoded \<Rightarrow> init_step" where
  "init_tie_breaker msg = init_required (md_tie_breaker_set msg)
     (\<lambda>(e, cl). (e, cl\<lparr>cl_tie_breaker := md_tie_breaker msg\<rparr>))"

definition init_algorithm :: "msg_decoded \<Rightarrow> init_step" where
  "init_algorithm msg = init_required (md_decision_algorithm_set msg)
     (\<lambda>(e, cl).
        (if md_decision_algorithm msg \<notin> set qnetd_static_supported_decision_algorithms
         then TLV_REPLY_ERROR_CODE_UNSUPPORTED_DECISION_ALGORITHM else e,
         cl\<lparr>cl_decision_algorithm := md_decision_algorithm msg\<rparr>))"

definition init_keep_active :: "qnetd_advanced_settings \<Rightarrow> init_step" where
  "init_keep_active as ec =
     (if fst ec = TLV_REPLY_ERROR_CODE_NO_ERROR
      then (fst ec, (snd ec)\<lparr>cl_keep_active_partition_tie_breaker :=
              as_keep_active_partition_tie_breaker as\<rparr>)
      else ec)"

definition init_options :: "qnetd_advanced_settings \<Rightarrow> msg_decoded \<Rightarrow> qnetd_client \<Rightarrow>
    tlv_reply_error_code \<times> qnetd_client" where
  "init_options as msg client =
     init_keep_active as (init_algorithm msg (init_tie_breaker msg (init_heartbeat as msg
       (init_ring_id msg (init_node_id msg (init_preinit
         (TLV_REPLY_ERROR_CODE_NO_ERROR, client)))))))"

text \<open>The second half: the check against the cluster, the cluster list, the algorithm.\<close>

definition init_join ::
    "allocator \<Rightarrow> algorithm_array \<Rightarrow> client_ref \<Rightarrow> qnetd_instance \<Rightarrow>
     fault + (tlv_reply_error_code \<times> qnetd_instance)" where
  "init_join al aa c qi =
     (case cl_cluster_name (qi_client qi c) of
        None \<Rightarrow> Inl Null_Deref
      | Some name \<Rightarrow>
          let err = qnetd_client_msg_received_init_check_new_client c name qi
          in if err \<noteq> TLV_REPLY_ERROR_CODE_NO_ERROR then Inr (err, qi)
             else case qnetd_cluster_list_add_client al c name qi of
                    (None, qi1) \<Rightarrow> Inr (TLV_REPLY_ERROR_CODE_INTERNAL_ERROR, qi1)
                  | (Some k, qi1) \<Rightarrow>
                      bindE (qnetd_algorithm_client_init al aa c (set_cluster c k qi1)) (\<lambda>(err', qi2).
                        Inr (err',
                             if err' = TLV_REPLY_ERROR_CODE_NO_ERROR
                             then upd_client c (\<lambda>cl. cl\<lparr>cl_init_received := True\<rparr>) qi2 else qi2)))"

definition qnetd_client_msg_received_init ::
    "allocator \<Rightarrow> nss_env \<Rightarrow> algorithm_array \<Rightarrow> client_ref \<Rightarrow> msg_decoded \<Rightarrow> qnetd_instance \<Rightarrow> handler_result" where
  "qnetd_client_msg_received_init al nss aa c msg =
     with_tls al nss c msg (\<lambda>qi.
       let as = qi_advanced_settings qi
       in case init_options as msg (qi_client qi c) of
            (err, client) \<Rightarrow>
              let qi1 = upd_client c (\<lambda>cl. client) qi
              in bindE (if err \<noteq> TLV_REPLY_ERROR_CODE_NO_ERROR then Inr (err, qi1)
                        else init_join al aa c qi1) (\<lambda>(err', qi2).
                   Inr (reply_msg al c
                     (\<lambda>buf. msg_create_init_reply al buf (md_seq_number_set msg) (md_seq_number msg) err'
                        (if md_supported_messages msg \<noteq> Null then msg_get_supported_messages else [])
                        (if md_supported_options msg \<noteq> Null then tlv_static_supported_options else [])
                        (as_max_client_receive_size as) (as_max_client_send_size as)
                        qnetd_static_supported_decision_algorithms) qi2)))"

section \<open>After the initialisation\<close>

definition qnetd_client_msg_received_set_option ::
    "allocator \<Rightarrow> nss_env \<Rightarrow> client_ref \<Rightarrow> msg_decoded \<Rightarrow> qnetd_instance \<Rightarrow> handler_result" where
  "qnetd_client_msg_received_set_option al nss c msg =
     with_tls al nss c msg (with_init al c msg (\<lambda>qi.
       let as = qi_advanced_settings qi;
           finish = (\<lambda>qi1.
             let qi2 = (if md_keep_active_partition_tie_breaker_set msg
                        then upd_client c (\<lambda>cl. cl\<lparr>cl_keep_active_partition_tie_breaker :=
                               md_keep_active_partition_tie_breaker msg\<rparr>) qi1
                        else qi1)
             in Inr (reply_msg al c
                  (\<lambda>buf. msg_create_set_option_reply al buf (md_seq_number_set msg) (md_seq_number msg)
                     (md_heartbeat_interval_set msg) (cl_heartbeat_interval (qi_client qi2 c))
                     (md_keep_active_partition_tie_breaker_set msg)
                     (cl_keep_active_partition_tie_breaker (qi_client qi2 c))) qi2))
       in if md_heartbeat_interval_set msg
          then (if md_heartbeat_interval msg < as_heartbeat_interval_min as \<or>
                   md_heartbeat_interval msg > as_heartbeat_interval_max as
                then Inr (reply_err al c msg TLV_REPLY_ERROR_CODE_INVALID_HEARTBEAT_INTERVAL qi)
                else case on_client c (\<lambda>cl. qnetd_client_dpd_timer_update_interval as
                            (cl\<lparr>cl_heartbeat_interval := md_heartbeat_interval msg\<rparr>)) qi of
                       (r, qi1) \<Rightarrow>
                         if r \<noteq> 0
                         then Inr (reply_err al c msg TLV_REPLY_ERROR_CODE_INVALID_HEARTBEAT_INTERVAL qi1)
                         else finish qi1)
          else finish qi))"

definition qnetd_client_msg_received_echo_request ::
    "allocator \<Rightarrow> nss_env \<Rightarrow> client_ref \<Rightarrow> msg_decoded \<Rightarrow> dynar \<Rightarrow> qnetd_instance \<Rightarrow> handler_result" where
  "qnetd_client_msg_received_echo_request al nss c msg msg_orig =
     with_tls al nss c msg (with_init al c msg (\<lambda>qi.
       Inr (reply_msg al c (\<lambda>buf. msg_create_echo_reply al buf msg_orig) qi)))"

text \<open>The call of the algorithm for a node list; \<open>Inl\<close> of the inner sum is an early error reply.\<close>

definition node_list_algorithm ::
    "allocator \<Rightarrow> algorithm_array \<Rightarrow> client_ref \<Rightarrow> msg_decoded \<Rightarrow> qnetd_instance \<Rightarrow>
     tlv_reply_error_code + algo_result" where
  "node_list_algorithm al aa c msg qi =
     (case md_node_list_type msg of
        TLV_NODE_LIST_TYPE_INITIAL_CONFIG \<Rightarrow>
          Inr (qnetd_algorithm_config_node_list_received al aa c (md_nodes msg) True qi)
      | TLV_NODE_LIST_TYPE_CHANGED_CONFIG \<Rightarrow>
          Inr (qnetd_algorithm_config_node_list_received al aa c (md_nodes msg) False qi)
      | TLV_NODE_LIST_TYPE_MEMBERSHIP \<Rightarrow>
          if \<not> md_ring_id_set msg then Inl TLV_REPLY_ERROR_CODE_DOESNT_CONTAIN_REQUIRED_OPTION
          else Inr (qnetd_algorithm_membership_node_list_received al aa c (md_ring_id msg)
                      (md_nodes msg) (md_heuristics msg) qi)
      | TLV_NODE_LIST_TYPE_QUORUM \<Rightarrow>
          if \<not> md_quorate_set msg then Inl TLV_REPLY_ERROR_CODE_DOESNT_CONTAIN_REQUIRED_OPTION
          else Inr (qnetd_algorithm_quorum_node_list_received al aa c qi))"

text \<open>Storing the list: the old list is freed first, so a failed copy leaves an empty list.\<close>

definition node_list_store :: "allocator \<Rightarrow> msg_decoded \<Rightarrow> qnetd_client \<Rightarrow> int \<times> qnetd_client" where
  "node_list_store al msg client =
     (case node_list_clone al (md_nodes msg) of
        (r, l) \<Rightarrow>
          (case md_node_list_type msg of
             TLV_NODE_LIST_TYPE_MEMBERSHIP \<Rightarrow>
               if r = -1 then (-1, client\<lparr>cl_last_membership_node_list := l\<rparr>)
               else (0, client\<lparr>cl_last_membership_node_list := l, cl_last_ring_id := md_ring_id msg,
                       cl_last_membership_heuristics := md_heuristics msg,
                       cl_last_heuristics := md_heuristics msg\<rparr>)
           | TLV_NODE_LIST_TYPE_QUORUM \<Rightarrow>
               if r = -1 then (-1, client\<lparr>cl_last_quorum_node_list := l\<rparr>)
               else (0, client\<lparr>cl_last_quorum_node_list := l\<rparr>)
           | _ \<Rightarrow>
               if r = -1 then (-1, client\<lparr>cl_configuration_node_list := l\<rparr>)
               else (0, client\<lparr>cl_configuration_node_list := l,
                       cl_config_version_set := md_config_version_set msg,
                       cl_config_version := md_config_version msg\<rparr>)))"

definition qnetd_client_msg_received_node_list ::
    "allocator \<Rightarrow> nss_env \<Rightarrow> algorithm_array \<Rightarrow> client_ref \<Rightarrow> msg_decoded \<Rightarrow> qnetd_instance \<Rightarrow> handler_result" where
  "qnetd_client_msg_received_node_list al nss aa c msg =
     with_tls al nss c msg (with_init al c msg (\<lambda>qi.
       if \<not> md_node_list_type_set msg
       then Inr (reply_err al c msg TLV_REPLY_ERROR_CODE_DOESNT_CONTAIN_REQUIRED_OPTION qi)
       else if \<not> md_seq_number_set msg
       then Inr (reply_err al c msg TLV_REPLY_ERROR_CODE_DOESNT_CONTAIN_REQUIRED_OPTION qi)
       else case node_list_algorithm al aa c msg qi of
              Inl err \<Rightarrow> Inr (reply_err al c msg err qi)
            | Inr res \<Rightarrow> bindE res (\<lambda>(err, v, qi1).
                let result_vote = (case v of None \<Rightarrow> TLV_VOTE_NO_CHANGE | Some x \<Rightarrow> x)
                in if err \<noteq> TLV_REPLY_ERROR_CODE_NO_ERROR then Inr (reply_err al c msg err qi1)
                   else case on_client c (node_list_store al msg) qi1 of
                          (r, qi2) \<Rightarrow>
                            if r = -1 then Inr (-1, qi2)
                            else let qi3 = upd_client c (store_vote result_vote) qi2
                                 in Inr (reply_msg al c
                                      (\<lambda>buf. msg_create_node_list_reply al buf (md_seq_number msg)
                                         (md_node_list_type msg) (cl_last_ring_id (qi_client qi3 c))
                                         result_vote) qi3))))"

text \<open>
  The vote of \<open>ask_for_vote\<close> and \<open>heuristics_change\<close> is an uninitialised variable unless the
  algorithm stores one: reading it then would be a fault.
\<close>

definition qnetd_client_msg_received_ask_for_vote ::
    "allocator \<Rightarrow> nss_env \<Rightarrow> algorithm_array \<Rightarrow> client_ref \<Rightarrow> msg_decoded \<Rightarrow> qnetd_instance \<Rightarrow> handler_result" where
  "qnetd_client_msg_received_ask_for_vote al nss aa c msg =
     with_tls al nss c msg (with_init al c msg (\<lambda>qi.
       if \<not> md_seq_number_set msg
       then Inr (reply_err al c msg TLV_REPLY_ERROR_CODE_DOESNT_CONTAIN_REQUIRED_OPTION qi)
       else bindE (qnetd_algorithm_ask_for_vote_received al aa c qi) (\<lambda>(err, v, qi1).
         if err \<noteq> TLV_REPLY_ERROR_CODE_NO_ERROR then Inr (reply_err al c msg err qi1)
         else case v of
                None \<Rightarrow> Inl Uninitialised_Read
              | Some result_vote \<Rightarrow>
                  let qi2 = upd_client c (store_vote result_vote) qi1
                  in Inr (reply_msg al c
                       (\<lambda>buf. msg_create_ask_for_vote_reply al buf (md_seq_number msg)
                          (cl_last_ring_id (qi_client qi2 c)) result_vote) qi2))))"

definition qnetd_client_msg_received_vote_info_reply ::
    "allocator \<Rightarrow> nss_env \<Rightarrow> algorithm_array \<Rightarrow> client_ref \<Rightarrow> msg_decoded \<Rightarrow> qnetd_instance \<Rightarrow> handler_result" where
  "qnetd_client_msg_received_vote_info_reply al nss aa c msg =
     with_tls al nss c msg (with_init al c msg (\<lambda>qi.
       if \<not> md_seq_number_set msg
       then Inr (reply_err al c msg TLV_REPLY_ERROR_CODE_DOESNT_CONTAIN_REQUIRED_OPTION qi)
       else bindE (qnetd_algorithm_vote_info_reply_received al aa c (md_seq_number msg) qi) (\<lambda>(err, qi1).
         if err \<noteq> TLV_REPLY_ERROR_CODE_NO_ERROR then Inr (reply_err al c msg err qi1)
         else Inr (0, qi1))))"

definition qnetd_client_msg_received_heuristics_change ::
    "allocator \<Rightarrow> nss_env \<Rightarrow> algorithm_array \<Rightarrow> client_ref \<Rightarrow> msg_decoded \<Rightarrow> qnetd_instance \<Rightarrow> handler_result" where
  "qnetd_client_msg_received_heuristics_change al nss aa c msg =
     with_tls al nss c msg (with_init al c msg (\<lambda>qi.
       if \<not> md_seq_number_set msg \<or> md_heuristics msg = TLV_HEURISTICS_UNDEFINED
       then Inr (reply_err al c msg TLV_REPLY_ERROR_CODE_DOESNT_CONTAIN_REQUIRED_OPTION qi)
       else bindE (qnetd_algorithm_heuristics_change_received al aa c (md_heuristics msg) qi) (\<lambda>(err, v, qi1).
         if err \<noteq> TLV_REPLY_ERROR_CODE_NO_ERROR then Inr (reply_err al c msg err qi1)
         else case v of
                None \<Rightarrow> Inl Uninitialised_Read
              | Some result_vote \<Rightarrow>
                  let qi2 = upd_client c (\<lambda>cl. (store_vote result_vote cl)
                              \<lparr>cl_last_regular_heuristics := md_heuristics msg,
                               cl_last_heuristics := md_heuristics msg\<rparr>) qi1
                  in Inr (reply_msg al c
                       (\<lambda>buf. msg_create_heuristics_change_reply al buf (md_seq_number msg)
                          (cl_last_ring_id (qi_client qi2 c)) (md_heuristics msg) result_vote) qi2))))"

section \<open>Dispatch\<close>

definition msg_received_dispatch ::
    "allocator \<Rightarrow> nss_env \<Rightarrow> algorithm_array \<Rightarrow> client_ref \<Rightarrow> msg_decoded \<Rightarrow> dynar \<Rightarrow> qnetd_instance \<Rightarrow>
     handler_result" where
  "msg_received_dispatch al nss aa c msg buf qi =
     (case md_type msg of
        MSG_TYPE_PREINIT \<Rightarrow> qnetd_client_msg_received_preinit al c msg qi
      | MSG_TYPE_PREINIT_REPLY \<Rightarrow> qnetd_client_msg_received_unexpected_msg al c msg qi
      | MSG_TYPE_STARTTLS \<Rightarrow> qnetd_client_msg_received_starttls al nss c msg qi
      | MSG_TYPE_INIT \<Rightarrow> qnetd_client_msg_received_init al nss aa c msg qi
      | MSG_TYPE_INIT_REPLY \<Rightarrow> qnetd_client_msg_received_unexpected_msg al c msg qi
      | MSG_TYPE_SERVER_ERROR \<Rightarrow> qnetd_client_msg_received_unexpected_msg al c msg qi
      | MSG_TYPE_SET_OPTION \<Rightarrow> qnetd_client_msg_received_set_option al nss c msg qi
      | MSG_TYPE_SET_OPTION_REPLY \<Rightarrow> qnetd_client_msg_received_unexpected_msg al c msg qi
      | MSG_TYPE_ECHO_REQUEST \<Rightarrow> qnetd_client_msg_received_echo_request al nss c msg buf qi
      | MSG_TYPE_ECHO_REPLY \<Rightarrow> qnetd_client_msg_received_unexpected_msg al c msg qi
      | MSG_TYPE_NODE_LIST \<Rightarrow> qnetd_client_msg_received_node_list al nss aa c msg qi
      | MSG_TYPE_NODE_LIST_REPLY \<Rightarrow> qnetd_client_msg_received_unexpected_msg al c msg qi
      | MSG_TYPE_ASK_FOR_VOTE \<Rightarrow> qnetd_client_msg_received_ask_for_vote al nss aa c msg qi
      | MSG_TYPE_ASK_FOR_VOTE_REPLY \<Rightarrow> qnetd_client_msg_received_unexpected_msg al c msg qi
      | MSG_TYPE_VOTE_INFO \<Rightarrow> qnetd_client_msg_received_unexpected_msg al c msg qi
      | MSG_TYPE_VOTE_INFO_REPLY \<Rightarrow> qnetd_client_msg_received_vote_info_reply al nss aa c msg qi
      | MSG_TYPE_HEURISTICS_CHANGE \<Rightarrow> qnetd_client_msg_received_heuristics_change al nss aa c msg qi
      | MSG_TYPE_HEURISTICS_CHANGE_REPLY \<Rightarrow> qnetd_client_msg_received_unexpected_msg al c msg qi
      | MSG_TYPE_OTHER w \<Rightarrow> Inr (reply_err al c msg TLV_REPLY_ERROR_CODE_UNSUPPORTED_MESSAGE qi))"

definition qnetd_client_msg_received ::
    "allocator \<Rightarrow> memtail \<Rightarrow> nss_env \<Rightarrow> algorithm_array \<Rightarrow> client_ref \<Rightarrow> qnetd_instance \<Rightarrow> handler_result" where
  "qnetd_client_msg_received al junk nss aa c qi =
     (let buf = cl_receive_buffer (qi_client qi c)
      in bindE (msg_decode al junk buf msg_decoded_init) (\<lambda>(res, msg).
           if res \<noteq> 0
           then Inr (reply_err al c msg TLV_REPLY_ERROR_CODE_ERROR_DECODING_MSG qi)
           else bindE (msg_received_dispatch al nss aa c msg buf qi) (\<lambda>(ret_val, qi1).
                  bindE (msg_decoded_destroy msg) (\<lambda>msg'. Inr (ret_val, qi1)))))"

end
