(* ===== verification/Handler_Props.thy ===== *)
theory Handler_Props
  imports Client_Msg_Received Example_State
begin

text \<open>
  Properties of the message handlers: the guards for TLS and for the initialisation, the
  consistency of the cluster list under every message, and the agreement of the clients of a
  cluster on algorithm and tie-breaker.
\<close>

section \<open>The frame of the handlers\<close>

text \<open>What no handler but the one for the initialisation changes: lists, names, node ids, links.\<close>

definition same_links :: "qnetd_instance \<Rightarrow> qnetd_instance \<Rightarrow> bool" where
  "same_links qi qi' \<longleftrightarrow>
     qi_clients qi' = qi_clients qi \<and> qi_clusters qi' = qi_clusters qi \<and>
     qi_max_clients qi' = qi_max_clients qi \<and>
     (\<forall>k. members qi' k = members qi k \<and>
        cs_cluster_name (qi_cluster qi' k) = cs_cluster_name (qi_cluster qi k)) \<and>
     (\<forall>c. node_of qi' c = node_of qi c \<and> cl_cluster (qi_client qi' c) = cl_cluster (qi_client qi c) \<and>
        cl_tie_breaker (qi_client qi' c) = cl_tie_breaker (qi_client qi c) \<and>
        cl_decision_algorithm (qi_client qi' c) = cl_decision_algorithm (qi_client qi c))"

lemma same_links_refl [simp, intro]: "same_links qi qi"
  by (simp add: same_links_def)

lemma same_links_trans: "same_links a b \<Longrightarrow> same_links b c \<Longrightarrow> same_links a c"
  by (simp add: same_links_def)

lemma same_links_core: "same_core qi qi' \<Longrightarrow> same_links qi qi'"
proof -
  assume core: "same_core qi qi'"
  note S = same_coreD [OF core]
  have "members qi' k = members qi k" for k
    using S(3) by (rule fun_cong)
  moreover have "qi_max_clients qi' = qi_max_clients qi"
    using core by (simp add: same_core_def)
  ultimately show "same_links qi qi'"
    using S(1,2,5) client_core_fields [OF S(4)] unfolding same_links_def by blast
qed

text \<open>Two clients that agree on what \<open>same_links\<close> reads.\<close>

definition same_id :: "qnetd_client \<Rightarrow> qnetd_client \<Rightarrow> bool" where
  "same_id a b \<longleftrightarrow> cl_node_id a = cl_node_id b \<and> cl_cluster a = cl_cluster b \<and>
     cl_tie_breaker a = cl_tie_breaker b \<and> cl_decision_algorithm a = cl_decision_algorithm b"

lemma same_links_upd_client:
  "same_id (f (qi_client qi c)) (qi_client qi c) \<Longrightarrow> same_links qi (upd_client c f qi)"
  by (simp add: same_links_def upd_client_def same_id_def)

lemma same_links_on_client:
  "same_id (snd (f (qi_client qi c))) (qi_client qi c) \<Longrightarrow> on_client c f qi = (r, qi') \<Longrightarrow> same_links qi qi'"
  by (auto simp: same_links_def on_client_def same_id_def split: prod.splits)

lemma same_id_send_msg: "same_id (snd (send_msg al f cl)) cl"
  using client_core_fields [OF client_core_send_msg [of al f cl]] by (simp add: same_id_def)

definition links_ok :: "qnetd_instance \<Rightarrow> handler_result \<Rightarrow> bool" where
  "links_ok qi res \<longleftrightarrow> (case res of Inl f \<Rightarrow> True | Inr (r, qi') \<Rightarrow> same_links qi qi')"

lemma links_ok_Inr: "same_links qi (snd p) \<Longrightarrow> links_ok qi (Inr p)"
  by (cases p) (simp add: links_ok_def)

lemma links_ok_Inl: "links_ok qi (Inl f)"
  by (simp add: links_ok_def)

lemma links_ok_bind: "(\<And>x. m = Inr x \<Longrightarrow> links_ok qi (f x)) \<Longrightarrow> links_ok qi (bindE m f)"
  by (cases m) (auto simp: links_ok_def)

lemma links_ok_if: "(b \<Longrightarrow> links_ok qi r) \<Longrightarrow> (\<not> b \<Longrightarrow> links_ok qi s) \<Longrightarrow> links_ok qi (if b then r else s)"
  by simp

lemma links_ok_prod: "(\<And>x y. p = (x, y) \<Longrightarrow> links_ok qi (f x y)) \<Longrightarrow> links_ok qi (case p of (x, y) \<Rightarrow> f x y)"
  by (cases p) simp

lemma links_ok_option:
  "(p = None \<Longrightarrow> links_ok qi r) \<Longrightarrow> (\<And>x. p = Some x \<Longrightarrow> links_ok qi (f x)) \<Longrightarrow>
   links_ok qi (case p of None \<Rightarrow> r | Some x \<Rightarrow> f x)"
  by (cases p) simp_all

lemma links_ok_trans: "same_links a b \<Longrightarrow> links_ok b r \<Longrightarrow> links_ok a r"
  by (auto simp: links_ok_def split: sum.splits intro: same_links_trans)

lemmas links_ok_intros = links_ok_bind links_ok_if links_ok_prod links_ok_option links_ok_Inl

lemma on_client_send_links: "same_links qi (snd (on_client c (send_msg al f) qi))"
  by (rule same_links_on_client [where f = "send_msg al f" and c = c, OF same_id_send_msg surjective_pairing])

lemma reply_links:
  assumes "same_links a b"
  shows "same_links a (snd (reply_err al c msg e b))" and "same_links a (snd (reply_msg al c f b))"
  using same_links_trans [OF assms on_client_send_links]
  unfolding reply_err_def reply_msg_def qnetd_client_send_err_def
  by (auto simp: case_prod_beta)

lemma check_tls_links: "same_links qi (snd (qnetd_client_msg_received_check_tls al nss c msg qi))"
  unfolding qnetd_client_msg_received_check_tls_def Let_def
  using reply_links(1) [OF same_links_refl, of qi al c msg TLV_REPLY_ERROR_CODE_TLS_REQUIRED]
  by (auto split: prod.splits intro: same_links_upd_client simp: same_id_def)

lemma with_tls_links:
  assumes "\<And>q. links_ok q (f q)"
  shows "links_ok qi (with_tls al nss c msg f qi)"
proof -
  obtain r q where q: "qnetd_client_msg_received_check_tls al nss c msg qi = (r, q)" by fastforce
  then have "same_links qi q"
    using check_tls_links [of qi al nss c msg] by simp
  with q show ?thesis
    unfolding with_tls_def by (auto intro: links_ok_Inr links_ok_trans assms)
qed

lemma with_init_links:
  assumes "\<And>q. links_ok q (f q)"
  shows "links_ok qi (with_init al c msg f qi)"
  unfolding with_init_def by (auto intro!: links_ok_Inr reply_links assms)

section \<open>Every handler but the one for the initialisation\<close>

lemma same_id_simps [simp]:
  "same_id cl cl" "same_id (store_vote v cl) cl'\<longleftrightarrow> same_id cl cl'"
  "same_id (cl\<lparr>cl_cluster_name := n\<rparr>) cl' \<longleftrightarrow> same_id cl cl'"
  "same_id (cl\<lparr>cl_preinit_received := b\<rparr>) cl' \<longleftrightarrow> same_id cl cl'"
  "same_id (cl\<lparr>cl_tls_started := b\<rparr>) cl' \<longleftrightarrow> same_id cl cl'"
  "same_id (cl\<lparr>cl_tls_peer_certificate_verified := b\<rparr>) cl' \<longleftrightarrow> same_id cl cl'"
  "same_id (cl\<lparr>cl_keep_active_partition_tie_breaker := t\<rparr>) cl' \<longleftrightarrow> same_id cl cl'"
  "same_id (cl\<lparr>cl_heartbeat_interval := i\<rparr>) cl' \<longleftrightarrow> same_id cl cl'"
  "same_id (cl\<lparr>cl_last_regular_heuristics := h\<rparr>) cl' \<longleftrightarrow> same_id cl cl'"
  "same_id (cl\<lparr>cl_last_heuristics := h\<rparr>) cl' \<longleftrightarrow> same_id cl cl'"
  "same_id (snd (qnetd_client_dpd_timer_update_interval as cl)) cl' \<longleftrightarrow> same_id cl cl'"
  "same_id (snd (node_list_store al msg cl)) cl' \<longleftrightarrow> same_id cl cl'"
  by (auto simp: same_id_def store_vote_def Let_def qnetd_client_dpd_timer_update_interval_def
      node_list_store_def split: prod.splits tlv_node_list_type.splits)

lemma same_links_upd: "same_links a b \<Longrightarrow> same_id (f (qi_client b c)) (qi_client b c) \<Longrightarrow>
  same_links a (upd_client c f b)"
  using same_links_trans same_links_upd_client by blast

lemma preinit_links: "links_ok qi (qnetd_client_msg_received_preinit al c msg qi)"
  unfolding qnetd_client_msg_received_preinit_def
  by (auto intro!: links_ok_Inr reply_links same_links_upd split: ptr.split)

lemma starttls_links: "links_ok qi (qnetd_client_msg_received_starttls al nss c msg qi)"
  unfolding qnetd_client_msg_received_starttls_def
  by (auto intro!: links_ok_Inr reply_links same_links_upd)

lemma echo_links: "links_ok qi (qnetd_client_msg_received_echo_request al nss c msg buf qi)"
  unfolding qnetd_client_msg_received_echo_request_def
  by (intro with_tls_links with_init_links links_ok_Inr reply_links same_links_refl)

lemma unexpected_links: "links_ok qi (qnetd_client_msg_received_unexpected_msg al c msg qi)"
  unfolding qnetd_client_msg_received_unexpected_msg_def
  by (intro links_ok_Inr reply_links same_links_refl)

lemma on_client_links:
  "same_links a b \<Longrightarrow> on_client c f b = (r, q) \<Longrightarrow> same_id (snd (f (qi_client b c))) (qi_client b c) \<Longrightarrow>
   same_links a q"
  by (rule same_links_trans [OF _ same_links_on_client])

lemma same_links_if: "(b \<Longrightarrow> same_links q x) \<Longrightarrow> (\<not> b \<Longrightarrow> same_links q y) \<Longrightarrow> same_links q (if b then x else y)"
  by simp

lemma set_option_links: "links_ok qi (qnetd_client_msg_received_set_option al nss c msg qi)"
proof -
  have upd: "same_links q q1" if "on_client c (\<lambda>cl. qnetd_client_dpd_timer_update_interval (qi_advanced_settings q)
      (cl\<lparr>cl_heartbeat_interval := i\<rparr>)) q = (r, q1)" for q q1 i r
    by (rule on_client_links [OF same_links_refl that]) simp
  show ?thesis
    unfolding qnetd_client_msg_received_set_option_def Let_def
    by (intro with_tls_links with_init_links links_ok_intros links_ok_Inr reply_links same_links_if
        same_links_upd; (rule same_links_refl | erule upd | simp))
qed

lemma node_list_algorithm_links:
  assumes "registered aa" and "node_list_algorithm al aa c msg qi = Inr (Inr (e, v, qi'))"
  shows "same_links qi qi'"
  using assms(2) unfolding node_list_algorithm_def
  by (auto split: tlv_node_list_type.splits if_splits
      dest!: dispatch_core(2,3,4) [OF assms(1)] intro: same_links_core)

lemma node_list_links:
  assumes "registered aa"
  shows "links_ok qi (qnetd_client_msg_received_node_list al nss aa c msg qi)"
proof -
  have store: "links_ok q (case on_client c (node_list_store al msg) q1 of
      (r, q2) \<Rightarrow> if r = -1 then Inr (-1, q2)
        else let q3 = upd_client c (store_vote v) q2
             in Inr (reply_msg al c (\<lambda>buf. msg_create_node_list_reply al buf (md_seq_number msg)
                  (md_node_list_type msg) (cl_last_ring_id (qi_client q3 c)) v) q3))"
    if "same_links q q1" for q q1 v
    unfolding Let_def
    by (intro links_ok_intros links_ok_Inr reply_links same_links_upd)
       (use that in \<open>auto elim!: on_client_links [rotated]\<close>)
  have "links_ok q (case node_list_algorithm al aa c msg q of
        Inl err \<Rightarrow> Inr (reply_err al c msg err q)
      | Inr res \<Rightarrow> bindE res (\<lambda>(err, v, qi1).
          let result_vote = (case v of None \<Rightarrow> TLV_VOTE_NO_CHANGE | Some x \<Rightarrow> x)
          in if err \<noteq> TLV_REPLY_ERROR_CODE_NO_ERROR then Inr (reply_err al c msg err qi1)
             else case on_client c (node_list_store al msg) qi1 of
                    (r, qi2) \<Rightarrow>
                      if r = -1 then Inr (-1, qi2)
                      else let qi3 = upd_client c (store_vote result_vote) qi2
                           in Inr (reply_msg al c
                                (\<lambda>buf. msg_create_node_list_reply al buf (md_seq_number msg)
                                   (md_node_list_type msg) (cl_last_ring_id (qi_client qi3 c))
                                   result_vote) qi3)))" for q
  proof (cases "node_list_algorithm al aa c msg q")
    case (Inl err)
    then show ?thesis by (auto intro!: links_ok_Inr reply_links)
  next
    case (Inr res)
    show ?thesis
    proof (cases res)
      case (Inr p)
      obtain e v q1 where p: "p = (e, v, q1)" by (cases p)
      with Inr \<open>node_list_algorithm al aa c msg q = Inr res\<close> have "same_links q q1"
        using node_list_algorithm_links [OF assms] by blast
      with Inr \<open>node_list_algorithm al aa c msg q = Inr res\<close> p store show ?thesis
        by (auto intro!: links_ok_Inr reply_links simp: Let_def)
    qed (use Inr in \<open>simp add: links_ok_Inl\<close>)
  qed
  then show ?thesis
    unfolding qnetd_client_msg_received_node_list_def
    by (intro with_tls_links with_init_links links_ok_if links_ok_Inr reply_links same_links_refl) assumption
qed

lemma ask_for_vote_links:
  assumes "registered aa"
  shows "links_ok qi (qnetd_client_msg_received_ask_for_vote al nss aa c msg qi)"
  unfolding qnetd_client_msg_received_ask_for_vote_def Let_def
  by (intro with_tls_links with_init_links links_ok_intros links_ok_Inr reply_links same_links_upd;
      (auto dest!: dispatch_core(6) [OF assms] intro: same_links_core; fail))

lemma vote_info_reply_links:
  assumes "registered aa"
  shows "links_ok qi (qnetd_client_msg_received_vote_info_reply al nss aa c msg qi)"
  unfolding qnetd_client_msg_received_vote_info_reply_def Let_def
  by (intro with_tls_links with_init_links links_ok_intros links_ok_Inr reply_links same_links_upd;
      (auto dest!: dispatch_core(7) [OF assms] intro: same_links_core; fail))

lemma heuristics_change_links:
  assumes "registered aa"
  shows "links_ok qi (qnetd_client_msg_received_heuristics_change al nss aa c msg qi)"
  unfolding qnetd_client_msg_received_heuristics_change_def Let_def
  by (intro with_tls_links with_init_links links_ok_intros links_ok_Inr reply_links same_links_upd;
      (auto dest!: dispatch_core(8) [OF assms] intro: same_links_core; fail))

section \<open>The invariant of the daemon\<close>

definition cluster_uniform :: "qnetd_instance \<Rightarrow> bool" where
  "cluster_uniform qi \<longleftrightarrow>
     (\<forall>k\<in>set (qi_clusters qi). \<forall>a\<in>set (members qi k). \<forall>b\<in>set (members qi k).
        tlv_tie_breaker_eq (cl_tie_breaker (qi_client qi a)) (cl_tie_breaker (qi_client qi b)) \<and>
        cl_decision_algorithm (qi_client qi a) = cl_decision_algorithm (qi_client qi b))"

definition qnetd_inv :: "qnetd_instance \<Rightarrow> bool" where
  "qnetd_inv qi \<longleftrightarrow> cluster_list_wf qi \<and> cluster_uniform qi \<and>
     (qi_max_clients qi = 0 \<or> length (qi_clients qi) \<le> qi_max_clients qi)"

lemma qnetd_inv_links:
  assumes "same_links qi qi'" and "qnetd_inv qi"
  shows "qnetd_inv qi'"
proof -
  have "cluster_list_wf qi' \<longleftrightarrow> cluster_list_wf qi"
    using assms(1) unfolding same_links_def by (intro cluster_list_wf_cong) blast+
  moreover have "cluster_uniform qi' \<longleftrightarrow> cluster_uniform qi"
    using assms(1) unfolding same_links_def cluster_uniform_def by simp
  ultimately show ?thesis
    using assms by (simp add: qnetd_inv_def same_links_def)
qed

lemma qnetd_inv_lone:
  assumes inv: "qnetd_inv qi" and c: "cl_cluster (qi_client qi c) = None" "cl_cluster (f (qi_client qi c)) = None"
  shows "qnetd_inv (upd_client c f qi)"
proof -
  have wf: "cluster_list_wf qi" and uni: "cluster_uniform qi"
    using inv by (simp_all add: qnetd_inv_def)
  note W = cluster_list_wfD [OF wf]
  let ?q = "upd_client c f qi"
  have simps: "qi_clients ?q = qi_clients qi" "qi_clusters ?q = qi_clusters qi" "qi_cluster ?q = qi_cluster qi"
    "\<And>x. x \<noteq> c \<Longrightarrow> qi_client ?q x = qi_client qi x" "cl_cluster (qi_client ?q c) = None"
    by (simp_all add: upd_client_def c)
  have notin: "x \<noteq> c" if "k \<in> set (qi_clusters qi)" "x \<in> set (members qi k)" for k x
    using W(6) [OF that] c by auto
  have ids: "map (node_of ?q) (members qi k) = map (node_of qi) (members qi k)" if "k \<in> set (qi_clusters qi)" for k
    using notin [OF that] simps(4) by (intro map_cong) auto
  have "cluster_list_wf ?q"
  proof (rule cluster_list_wfI; unfold simps(1-3))
    show "sorted_wrt (<) (map (node_of ?q) (members qi k))" if "k \<in> set (qi_clusters qi)" for k
      unfolding ids [OF that] using W(5) [OF that] .
    show "x \<in> set (qi_clients qi) \<and> cl_cluster (qi_client ?q x) = Some k"
      if "k \<in> set (qi_clusters qi)" "x \<in> set (members qi k)" for k x
      using W(6) [OF that] simps(4) [OF notin [OF that]] by simp
    show "k \<in> set (qi_clusters qi) \<and> x \<in> set (members qi k)"
      if "x \<in> set (qi_clients qi)" "cl_cluster (qi_client ?q x) = Some k" for k x
    proof (rule W(7) [OF that(1)])
      show "cl_cluster (qi_client qi x) = Some k"
        using that(2) simps(4) [of x] simps(5) by (cases "x = c") auto
    qed
  qed (use W(1-4) in simp_all)
  moreover have "cluster_uniform ?q"
    using uni notin simps(4) unfolding cluster_uniform_def simps(1-3) by metis
  moreover have "qi_max_clients ?q = qi_max_clients qi"
    by (simp add: upd_client_def)
  ultimately show ?thesis
    using inv by (simp add: qnetd_inv_def simps(1))
qed

section \<open>Initialisation\<close>

lemma init_options_cluster:
  assumes "init_options as msg cl = (e, cl')"
  shows "cl_cluster cl' = cl_cluster cl"
proof -
  have steps: "cl_cluster (snd (init_preinit ec)) = cl_cluster (snd ec)"
    "cl_cluster (snd (init_node_id msg ec)) = cl_cluster (snd ec)"
    "cl_cluster (snd (init_ring_id msg ec)) = cl_cluster (snd ec)"
    "cl_cluster (snd (init_heartbeat as msg ec)) = cl_cluster (snd ec)"
    "cl_cluster (snd (init_tie_breaker msg ec)) = cl_cluster (snd ec)"
    "cl_cluster (snd (init_algorithm msg ec)) = cl_cluster (snd ec)"
    "cl_cluster (snd (init_keep_active as ec)) = cl_cluster (snd ec)" for ec
    by (simp_all add: init_preinit_def init_required_def init_node_id_def init_ring_id_def init_heartbeat_def
        init_tie_breaker_def init_algorithm_def init_keep_active_def
        qnetd_client_dpd_timer_update_interval_def Let_def split: prod.split)
  have "cl_cluster (snd (init_options as msg cl)) = cl_cluster cl"
    by (simp add: init_options_def steps)
  with assms show ?thesis by simp
qed

lemma init_check_loop_ok:
  assumes "init_check_loop cl others = TLV_REPLY_ERROR_CODE_NO_ERROR" and "x \<in> set others"
  shows "tlv_tie_breaker_eq (cl_tie_breaker cl) (cl_tie_breaker x) \<and>
    cl_decision_algorithm cl = cl_decision_algorithm x \<and> cl_node_id cl \<noteq> cl_node_id x"
  using assms by (induction others) (auto split: if_splits)

lemma tie_breaker_eq_sym: "tlv_tie_breaker_eq a b \<Longrightarrow> tlv_tie_breaker_eq b a"
  by (auto simp: tlv_tie_breaker_eq_def split: if_splits)

lemma tie_breaker_eq_refl: "tlv_tie_breaker_eq a a"
  by (simp add: tlv_tie_breaker_eq_def)

lemma cluster_uniform_add:
  assumes wf: "cluster_list_wf qi" and uni: "cluster_uniform qi"
    and add: "qnetd_cluster_list_add_client al c name qi = (Some k, q1)"
    and ok: "\<And>j x. qnetd_cluster_list_find_by_name qi name = Some j \<Longrightarrow> x \<in> set (members qi j) \<Longrightarrow>
      tlv_tie_breaker_eq (cl_tie_breaker (qi_client qi c)) (cl_tie_breaker (qi_client qi x)) \<and>
      cl_decision_algorithm (qi_client qi c) = cl_decision_algorithm (qi_client qi x)"
  shows "cluster_uniform (set_cluster c k q1)"
proof -
  let ?q = "set_cluster c k q1"
  let ?agree = "\<lambda>x y. tlv_tie_breaker_eq (cl_tie_breaker (qi_client qi x)) (cl_tie_breaker (qi_client qi y)) \<and>
      cl_decision_algorithm (qi_client qi x) = cl_decision_algorithm (qi_client qi y)"
  note R = add_client_result [OF add]
  define old where "old = (\<exists>j\<in>set (qi_clusters qi). cs_cluster_name (qi_cluster qi j) = name)"
  have oldT: "old \<Longrightarrow> k \<in> set (qi_clusters qi) \<and> cs_cluster_name (qi_cluster qi k) = name \<and>
       qi_clusters q1 = qi_clusters qi \<and> set (members q1 k) = insert c (set (members qi k))"
    using R client_insert_sorted_set unfolding old_def by metis
  have oldF: "\<not> old \<Longrightarrow> qi_clusters q1 = qi_clusters qi @ [k] \<and> members q1 k = [c]"
    using R unfolding old_def by argo
  have fields: "cl_tie_breaker (qi_client ?q x) = cl_tie_breaker (qi_client qi x)"
    "cl_decision_algorithm (qi_client ?q x) = cl_decision_algorithm (qi_client qi x)"
    "qi_cluster ?q = qi_cluster q1" "qi_clusters ?q = qi_clusters q1" for x
    using R by (simp_all add: set_cluster_def upd_client_def)
  have "?agree a b" if j: "j \<in> set (qi_clusters q1)" "a \<in> set (members q1 j)" "b \<in> set (members q1 j)" for j a b
  proof (cases "j = k")
    case False
    then have "qi_cluster q1 j = qi_cluster qi j" using R by blast
    moreover have "j \<in> set (qi_clusters qi)"
      using False j(1) oldT oldF by (cases old) auto
    ultimately show ?thesis
      using uni j(2,3) unfolding cluster_uniform_def by metis
  next
    case True
    show ?thesis
    proof (cases old)
      case False
      with oldF j True show ?thesis by (simp add: tie_breaker_eq_refl)
    next
      case old: True
      then have "qnetd_cluster_list_find_by_name qi name = Some k"
        using find_by_name_iff [OF wf] oldT by blast
      with ok have new: "?agree c x" "?agree x c" if "x \<in> set (members qi k)" for x
        using that tie_breaker_eq_sym by metis+
      from j True oldT [OF old] consider "a = c" "b = c" | "a = c" "b \<in> set (members qi k)"
        | "a \<in> set (members qi k)" "b = c" | "a \<in> set (members qi k)" "b \<in> set (members qi k)" by auto
      moreover have "?agree x y" if "x \<in> set (members qi k)" "y \<in> set (members qi k)" for x y
        using that uni oldT [OF old] unfolding cluster_uniform_def by blast
      moreover have "?agree c c" by (simp add: tie_breaker_eq_refl)
      ultimately show ?thesis using new by cases blast+
    qed
  qed
  then show ?thesis
    unfolding cluster_uniform_def fields by blast
qed

lemma init_join_inv:
  assumes inv: "qnetd_inv qi" and c: "c \<in> set (qi_clients qi)" "cl_cluster (qi_client qi c) = None"
    and reg: "registered aa" and run: "init_join al aa c qi = Inr (e, qi')"
  shows "qnetd_inv qi'"
proof -
  have wf: "cluster_list_wf qi" and uni: "cluster_uniform qi"
    using inv by (simp_all add: qnetd_inv_def)
  from run obtain name where name: "cl_cluster_name (qi_client qi c) = Some name"
    unfolding init_join_def by (auto split: option.splits)
  obtain r q1 where add: "qnetd_cluster_list_add_client al c name qi = (r, q1)" by fastforce
  show ?thesis
  proof (cases "qnetd_client_msg_received_init_check_new_client c name qi = TLV_REPLY_ERROR_CODE_NO_ERROR")
    case False
    with run name inv show ?thesis unfolding init_join_def by simp
  next
    case True
    show ?thesis
    proof (cases r)
      case None
      then have "q1 = qi"
        using add unfolding qnetd_cluster_list_add_client_def
        by (auto simp: Let_def split: option.splits if_splits)
      with None run name True add inv show ?thesis unfolding init_join_def by simp
    next
      case (Some k)
      have ok: "tlv_tie_breaker_eq (cl_tie_breaker (qi_client qi c)) (cl_tie_breaker (qi_client qi x)) \<and>
          cl_decision_algorithm (qi_client qi c) = cl_decision_algorithm (qi_client qi x) \<and>
          node_of qi x \<noteq> node_of qi c"
        if "qnetd_cluster_list_find_by_name qi name = Some j" "x \<in> set (members qi j)" for j x
        using True that init_check_loop_ok [of "qi_client qi c" _ "qi_client qi x"]
        unfolding qnetd_client_msg_received_init_check_new_client_def cluster_views_def by force
      let ?q = "set_cluster c k q1"
      note R = add_client_result [OF add [unfolded Some]]
      have wf': "cluster_list_wf ?q"
        using cluster_list_wf_add [OF wf c add [unfolded Some]] ok by blast
      have "cluster_uniform ?q"
        using cluster_uniform_add [OF wf uni add [unfolded Some]] ok by blast
      moreover have "qi_max_clients ?q = qi_max_clients qi"
        using add unfolding qnetd_cluster_list_add_client_def
        by (auto simp: Let_def set_cluster_def upd_client_def cluster_add_member_def upd_cluster_def
            split: option.splits if_splits)
      moreover have "qi_clients ?q = qi_clients qi"
        using R by (simp add: set_cluster_def upd_client_def)
      ultimately have inv': "qnetd_inv ?q"
        using wf' inv by (simp add: qnetd_inv_def)
      from run name True add Some obtain q2 where
        "qnetd_algorithm_client_init al aa c ?q = Inr (e, q2)" and
        qi': "qi' = (if e = TLV_REPLY_ERROR_CODE_NO_ERROR
          then upd_client c (\<lambda>cl. cl\<lparr>cl_init_received := True\<rparr>) q2 else q2)"
        unfolding init_join_def by (auto simp: bindE_Inr_iff)
      from dispatch_core(1) [OF reg this(1)] have "same_links ?q q2" by (rule same_links_core)
      then have "same_links ?q qi'"
        unfolding qi' by (auto intro: same_links_upd simp: same_id_def)
      then show ?thesis using inv' by (rule qnetd_inv_links)
    qed
  qed
qed

lemma init_inv:
  assumes inv: "qnetd_inv qi" and c: "c \<in> set (qi_clients qi)" "cl_cluster (qi_client qi c) = None"
    and reg: "registered aa" and run: "qnetd_client_msg_received_init al nss aa c msg qi = Inr (r, qi')"
  shows "qnetd_inv qi'"
proof -
  obtain res q where tls: "qnetd_client_msg_received_check_tls al nss c msg qi = (res, q)" by fastforce
  then have L: "same_links qi q"
    using check_tls_links [of qi al nss c msg] by simp
  note inv' = qnetd_inv_links [OF L inv]
  have c': "c \<in> set (qi_clients q)" "cl_cluster (qi_client q c) = None"
    using L c by (simp_all add: same_links_def)
  show ?thesis
  proof (cases "res = 0")
    case False
    with run tls inv' show ?thesis
      unfolding qnetd_client_msg_received_init_def with_tls_def by simp
  next
    case True
    obtain e cl where opt: "init_options (qi_advanced_settings q) msg (qi_client q c) = (e, cl)" by fastforce
    define q1 where "q1 = upd_client c (\<lambda>_. cl) q"
    have inv1: "qnetd_inv q1"
      unfolding q1_def using c'(2) init_options_cluster [OF opt] by (intro qnetd_inv_lone [OF inv']) simp_all
    have c1: "c \<in> set (qi_clients q1)" "cl_cluster (qi_client q1 c) = None"
      using c' init_options_cluster [OF opt] by (simp_all add: q1_def upd_client_def)
    from run tls True opt have "bindE (if e \<noteq> TLV_REPLY_ERROR_CODE_NO_ERROR then Inr (e, q1)
        else init_join al aa c q1) (\<lambda>(err', qi2). Inr (reply_msg al c
          (\<lambda>buf. msg_create_init_reply al buf (md_seq_number_set msg) (md_seq_number msg) err'
             (if md_supported_messages msg \<noteq> Null then msg_get_supported_messages else [])
             (if md_supported_options msg \<noteq> Null then tlv_static_supported_options else [])
             (as_max_client_receive_size (qi_advanced_settings q))
             (as_max_client_send_size (qi_advanced_settings q))
             qnetd_static_supported_decision_algorithms) qi2)) = Inr (r, qi')"
      unfolding qnetd_client_msg_received_init_def with_tls_def q1_def
      by (simp add: Let_def split del: if_split)
    then obtain e' q2 f where
      join: "(if e \<noteq> TLV_REPLY_ERROR_CODE_NO_ERROR then Inr (e, q1) else init_join al aa c q1) = Inr (e', q2)" and
      reply: "reply_msg al c f q2 = (r, qi')"
      unfolding bindE_Inr_iff split_paired_Ex prod.case sum.inject by blast
    have "qnetd_inv q2"
      using join inv1 init_join_inv [OF inv1 c1 reg] by (auto split: if_splits)
    moreover have "same_links q2 qi'"
      using reply_links(2) [OF same_links_refl, of q2 al c f] reply by simp
    ultimately show ?thesis using qnetd_inv_links by blast
  qed
qed

section \<open>Dispatch\<close>

lemma dispatch_links:
  assumes "registered aa" and "md_type msg \<noteq> MSG_TYPE_INIT"
  shows "links_ok qi (msg_received_dispatch al nss aa c msg buf qi)"
  using assms(2) unfolding msg_received_dispatch_def
  by (auto split: msg_type.split
      intro: preinit_links starttls_links echo_links unexpected_links set_option_links
        node_list_links [OF assms(1)] ask_for_vote_links [OF assms(1)]
        vote_info_reply_links [OF assms(1)] heuristics_change_links [OF assms(1)]
        links_ok_Inr reply_links)

lemma dispatch_inv:
  assumes inv: "qnetd_inv qi" and c: "c \<in> set (qi_clients qi)" and reg: "registered aa"
    and first: "md_type msg = MSG_TYPE_INIT \<Longrightarrow> cl_cluster (qi_client qi c) = None"
    and run: "msg_received_dispatch al nss aa c msg buf qi = Inr (r, qi')"
  shows "qnetd_inv qi'"
proof (cases "md_type msg = MSG_TYPE_INIT")
  case True
  with run have "qnetd_client_msg_received_init al nss aa c msg qi = Inr (r, qi')"
    by (simp add: msg_received_dispatch_def)
  with init_inv [OF inv c first [OF True] reg] show ?thesis by blast
next
  case False
  from dispatch_links [OF reg False, of qi al nss c buf] run have "same_links qi qi'"
    by (simp add: links_ok_def)
  then show ?thesis using inv by (rule qnetd_inv_links)
qed

text \<open>A client that is already in a cluster and sends the initialisation once more.\<close>

definition second_init :: "allocator \<Rightarrow> memtail \<Rightarrow> client_ref \<Rightarrow> qnetd_instance \<Rightarrow> bool" where
  "second_init al junk c qi \<longleftrightarrow>
     cl_cluster (qi_client qi c) \<noteq> None \<and>
     (case msg_decode al junk (cl_receive_buffer (qi_client qi c)) msg_decoded_init of
        Inl f \<Rightarrow> False
      | Inr (res, msg) \<Rightarrow> res = 0 \<and> md_type msg = MSG_TYPE_INIT)"

lemma msg_received_inv:
  assumes inv: "qnetd_inv qi" and c: "c \<in> set (qi_clients qi)" and reg: "registered aa"
    and first: "\<not> second_init al junk c qi"
    and run: "qnetd_client_msg_received al junk nss aa c qi = Inr (r, qi')"
  shows "qnetd_inv qi'"
proof -
  from run obtain res msg where
    dec: "msg_decode al junk (cl_receive_buffer (qi_client qi c)) msg_decoded_init = Inr (res, msg)"
    unfolding qnetd_client_msg_received_def by (auto simp: bindE_Inr_iff Let_def)
  show ?thesis
  proof (cases "res = 0")
    case False
    with run dec have "reply_err al c msg TLV_REPLY_ERROR_CODE_ERROR_DECODING_MSG qi = (r, qi')"
      unfolding qnetd_client_msg_received_def by (simp add: Let_def)
    with reply_links(1) [OF same_links_refl, of qi al c msg TLV_REPLY_ERROR_CODE_ERROR_DECODING_MSG]
    show ?thesis using inv qnetd_inv_links by simp
  next
    case True
    with run dec have "msg_received_dispatch al nss aa c msg (cl_receive_buffer (qi_client qi c)) qi = Inr (r, qi')"
      unfolding qnetd_client_msg_received_def by (auto simp: Let_def bindE_Inr_iff)
    moreover have "md_type msg = MSG_TYPE_INIT \<Longrightarrow> cl_cluster (qi_client qi c) = None"
      using first dec True by (auto simp: second_init_def)
    ultimately show ?thesis
      using dispatch_inv [OF inv c reg] by blast
  qed
qed

section \<open>Guards\<close>

lemma on_client_send_shape:
  "\<exists>sbl. snd (on_client c (send_msg al f) qi) = upd_client c (\<lambda>cl. cl\<lparr>cl_send_buffer_list := sbl\<rparr>) qi"
proof -
  have "\<exists>sbl. snd (send_msg al f cl) = cl\<lparr>cl_send_buffer_list := sbl\<rparr>" for cl
    by (auto simp: send_msg_def Let_def split: prod.split option.split)
  then obtain sbl where "snd (send_msg al f (qi_client qi c)) = (qi_client qi c)\<lparr>cl_send_buffer_list := sbl\<rparr>" ..
  then show ?thesis
    by (auto simp: on_client_def upd_client_def split: prod.splits)
qed

lemma reply_err_shape:
  assumes "reply_err al c msg e qi = (r, qi')"
  shows "r \<in> {0, -1} \<and> (\<exists>sbl. qi' = upd_client c (\<lambda>cl. cl\<lparr>cl_send_buffer_list := sbl\<rparr>) qi)"
  using assms on_client_send_shape unfolding reply_err_def qnetd_client_send_err_def
  by (auto split: prod.splits if_splits) (metis snd_conv)+

text \<open>The messages that a client may send only after its initialisation.\<close>

definition needs_init :: "msg_type \<Rightarrow> bool" where
  "needs_init t \<longleftrightarrow>
     t \<in> {MSG_TYPE_SET_OPTION, MSG_TYPE_ECHO_REQUEST, MSG_TYPE_NODE_LIST, MSG_TYPE_ASK_FOR_VOTE,
          MSG_TYPE_VOTE_INFO_REPLY, MSG_TYPE_HEURISTICS_CHANGE}"

text \<open>Nothing changes but the output queue of the client and its certificate flag.\<close>

definition only_replies :: "client_ref \<Rightarrow> qnetd_instance \<Rightarrow> qnetd_instance \<Rightarrow> bool" where
  "only_replies c qi qi' \<longleftrightarrow>
     (\<exists>v sbl. qi' = upd_client c (\<lambda>cl. cl\<lparr>cl_tls_peer_certificate_verified := v, cl_send_buffer_list := sbl\<rparr>) qi)"

lemma only_replies_verified:
  "only_replies c qi (upd_client c (\<lambda>cl. cl\<lparr>cl_tls_peer_certificate_verified := v\<rparr>) qi)"
  unfolding only_replies_def
  by (intro exI [of _ v] exI [of _ "cl_send_buffer_list (qi_client qi c)"]) (simp add: upd_client_def)

lemma only_replies_refl [simp]: "only_replies c qi qi"
  using only_replies_verified [of c qi "cl_tls_peer_certificate_verified (qi_client qi c)"]
  by (simp add: upd_client_def)

lemma only_replies_err:
  assumes "only_replies c qi q" and "reply_err al c msg e q = (r, qi')"
  shows "only_replies c qi qi'"
proof -
  from assms(1) obtain v sbl where
    "q = upd_client c (\<lambda>cl. cl\<lparr>cl_tls_peer_certificate_verified := v, cl_send_buffer_list := sbl\<rparr>) qi"
    unfolding only_replies_def by blast
  moreover from reply_err_shape [OF assms(2)] obtain sbl' where
    "qi' = upd_client c (\<lambda>cl. cl\<lparr>cl_send_buffer_list := sbl'\<rparr>) q" by blast
  ultimately have "qi' = upd_client c (\<lambda>cl. cl\<lparr>cl_tls_peer_certificate_verified := v, cl_send_buffer_list := sbl'\<rparr>) qi"
    by (simp add: upd_client_def)
  then show ?thesis unfolding only_replies_def by blast
qed

lemma check_tls_shape:
  assumes "qnetd_client_msg_received_check_tls al nss c msg qi = (r, qi')"
  shows "r \<in> {0, -1, -2} \<and> only_replies c qi qi'"
  using assms only_replies_err [OF only_replies_refl]
  unfolding qnetd_client_msg_received_check_tls_def Let_def
  by (auto split: prod.splits if_splits intro: only_replies_verified)

lemma with_tls_init_guard:
  assumes "\<not> cl_init_received (qi_client qi c)" and "with_tls al nss c msg (with_init al c msg f) qi = Inr (r, qi')"
  shows "r \<in> {0, -1} \<and> only_replies c qi qi'"
proof -
  obtain res q where tls: "qnetd_client_msg_received_check_tls al nss c msg qi = (res, q)" by fastforce
  then have q: "only_replies c qi q" by (blast dest: check_tls_shape)
  show ?thesis
  proof (cases "res = 0")
    case False
    with assms(2) tls q show ?thesis unfolding with_tls_def by auto
  next
    case True
    have "\<not> cl_init_received (qi_client q c)"
      using assms(1) q by (auto simp: only_replies_def upd_client_def)
    with True assms(2) tls have "reply_err al c msg TLV_REPLY_ERROR_CODE_INIT_REQUIRED q = (r, qi')"
      unfolding with_tls_def with_init_def by simp
    then show ?thesis
      using only_replies_err [OF q] reply_err_shape by blast
  qed
qed

lemma init_options_node:
  assumes "init_options as msg cl = (e, cl')" and "md_node_id_set msg"
  shows "cl_node_id cl' = md_node_id msg" and "cl_cluster_name cl' = cl_cluster_name cl"
proof -
  have id: "cl_node_id (snd (init_ring_id msg ec)) = cl_node_id (snd ec)"
    "cl_node_id (snd (init_heartbeat as msg ec)) = cl_node_id (snd ec)"
    "cl_node_id (snd (init_tie_breaker msg ec)) = cl_node_id (snd ec)"
    "cl_node_id (snd (init_algorithm msg ec)) = cl_node_id (snd ec)"
    "cl_node_id (snd (init_keep_active as ec)) = cl_node_id (snd ec)"
    "cl_node_id (snd (init_node_id msg ec)) = md_node_id msg" for ec
    using assms(2)
    by (simp_all add: init_preinit_def init_required_def init_node_id_def init_ring_id_def init_heartbeat_def
        init_tie_breaker_def init_algorithm_def init_keep_active_def
        qnetd_client_dpd_timer_update_interval_def Let_def split: prod.split)
  have name: "cl_cluster_name (snd (init_preinit ec)) = cl_cluster_name (snd ec)"
    "cl_cluster_name (snd (init_ring_id msg ec)) = cl_cluster_name (snd ec)"
    "cl_cluster_name (snd (init_heartbeat as msg ec)) = cl_cluster_name (snd ec)"
    "cl_cluster_name (snd (init_tie_breaker msg ec)) = cl_cluster_name (snd ec)"
    "cl_cluster_name (snd (init_algorithm msg ec)) = cl_cluster_name (snd ec)"
    "cl_cluster_name (snd (init_keep_active as ec)) = cl_cluster_name (snd ec)"
    "cl_cluster_name (snd (init_node_id msg ec)) = cl_cluster_name (snd ec)" for ec
    by (simp_all add: init_preinit_def init_required_def init_node_id_def init_ring_id_def init_heartbeat_def
        init_tie_breaker_def init_algorithm_def init_keep_active_def
        qnetd_client_dpd_timer_update_interval_def Let_def split: prod.split)
  have "cl_node_id (snd (init_options as msg cl)) = md_node_id msg"
    "cl_cluster_name (snd (init_options as msg cl)) = cl_cluster_name cl"
    by (simp_all add: init_options_def id name)
  with assms(1) show "cl_node_id cl' = md_node_id msg" "cl_cluster_name cl' = cl_cluster_name cl" by simp_all
qed

lemma init_check_loop_self:
  "x \<in> set others \<Longrightarrow> cl_node_id x = cl_node_id cl \<Longrightarrow>
   init_check_loop cl others \<noteq> TLV_REPLY_ERROR_CODE_NO_ERROR"
  using init_check_loop_ok by metis

section \<open>An example\<close>

definition handler_ex :: qnetd_instance where
  "handler_ex = ex_instance No_Cluster_Data
     (ex_client 1 No_Client_Data (ex_ring 1) [1, 2] [1, 2]) (ex_client 2 No_Client_Data (ex_ring 1) [1, 2] [1, 2])"

definition ex_nss :: nss_env where
  "ex_nss = \<lparr>nss_peer_certificate = (\<lambda>c. True), nss_verify_cert_name = (\<lambda>c n. True),
             nss_start_ssl_as_server = (\<lambda>c. True)\<rparr>"

lemma handler_ex_wf: "cluster_list_wf handler_ex"
  unfolding handler_ex_def by (rule ex_wf) (simp_all add: ex_client_def)

lemmas handler_ex_defs = handler_ex_def ex_defs

section \<open>Properties\<close>

text \<open>
  C20. Before its initialisation is complete, a client cannot use the messages that need it, which are all but
  \<open>PREINIT\<close>, \<open>STARTTLS\<close> and \<open>INIT\<close> (and those that a server never accepts): for \<open>SET_OPTION\<close>, \<open>ECHO_REQUEST\<close>, \<open>NODE_LIST\<close>,
  \<open>ASK_FOR_VOTE\<close>, \<open>VOTE_INFO_REPLY\<close> and \<open>HEURISTICS_CHANGE\<close> the daemon changes nothing but the output queue of this
  client (the error reply) and its flag for a verified certificate.
\<close>

theorem init_required_guard:
  assumes "\<not> cl_init_received (qi_client qi c)" and "needs_init (md_type msg)"
    and "msg_received_dispatch al nss aa c msg buf qi = Inr (r, qi')"
  shows "r \<in> {0, -1} \<and> only_replies c qi qi'"
  using assms(2,3) with_tls_init_guard [OF assms(1), of al nss msg _ r qi']
  by (auto simp: needs_init_def msg_received_dispatch_def qnetd_client_msg_received_set_option_def
      qnetd_client_msg_received_echo_request_def qnetd_client_msg_received_node_list_def
      qnetd_client_msg_received_ask_for_vote_def qnetd_client_msg_received_vote_info_reply_def
      qnetd_client_msg_received_heuristics_change_def)

theorem init_required_guard_witness:
  "\<exists>r qi'. msg_received_dispatch ex_al ex_nss (\<lambda>n. None) 10
     (msg_decoded_init\<lparr>md_type := MSG_TYPE_ASK_FOR_VOTE\<rparr>) (dynar_init 0)
     (upd_client 10 (\<lambda>cl. cl\<lparr>cl_init_received := False\<rparr>) handler_ex) = Inr (r, qi') \<and>
   only_replies 10 (upd_client 10 (\<lambda>cl. cl\<lparr>cl_init_received := False\<rparr>) handler_ex) qi'"
proof -
  let ?q = "upd_client 10 (\<lambda>cl. cl\<lparr>cl_init_received := False\<rparr>) handler_ex"
  let ?m = "msg_decoded_init\<lparr>md_type := MSG_TYPE_ASK_FOR_VOTE\<rparr>"
  obtain r qi' where e: "reply_err ex_al 10 ?m TLV_REPLY_ERROR_CODE_INIT_REQUIRED ?q = (r, qi')" by fastforce
  have "msg_received_dispatch ex_al ex_nss (\<lambda>n. None) 10 ?m (dynar_init 0) ?q =
      Inr (reply_err ex_al 10 ?m TLV_REPLY_ERROR_CODE_INIT_REQUIRED ?q)"
    by (simp add: msg_received_dispatch_def qnetd_client_msg_received_ask_for_vote_def with_tls_def with_init_def
        qnetd_client_msg_received_check_tls_def upd_client_def handler_ex_defs)
  with e have run: "msg_received_dispatch ex_al ex_nss (\<lambda>n. None) 10 ?m (dynar_init 0) ?q = Inr (r, qi')"
    by simp
  have "only_replies 10 ?q qi'"
    using init_required_guard [OF _ _ run] by (simp add: needs_init_def upd_client_def)
  with run show ?thesis by blast
qed

text \<open>
  When the daemon requires TLS and the client has not started it, neither the initialisation
  nor any later message is accepted: the only effect is the error reply in the output queue of the
  client.
\<close>

theorem tls_required_guard:
  assumes "qi_tls_supported qi = TLV_TLS_REQUIRED" and "\<not> cl_tls_started (qi_client qi c)"
    and "md_type msg = MSG_TYPE_INIT \<or> needs_init (md_type msg)"
  shows "\<exists>r sbl. r \<in> {0, -1} \<and> msg_received_dispatch al nss aa c msg buf qi =
    Inr (r, upd_client c (\<lambda>cl. cl\<lparr>cl_send_buffer_list := sbl\<rparr>) qi)"
proof -
  obtain r q where e: "reply_err al c msg TLV_REPLY_ERROR_CODE_TLS_REQUIRED qi = (r, q)" by fastforce
  have "with_tls al nss c msg f qi = Inr (if r \<noteq> 0 then -1 else 0, q)" for f
    using assms(1,2) e
    by (simp add: with_tls_def qnetd_client_msg_received_check_tls_def Let_def)
  then have "msg_received_dispatch al nss aa c msg buf qi = Inr (if r \<noteq> 0 then -1 else 0, q)"
    using assms(3)
    by (auto simp: needs_init_def msg_received_dispatch_def qnetd_client_msg_received_set_option_def
      qnetd_client_msg_received_echo_request_def qnetd_client_msg_received_node_list_def
      qnetd_client_msg_received_ask_for_vote_def qnetd_client_msg_received_vote_info_reply_def
      qnetd_client_msg_received_heuristics_change_def qnetd_client_msg_received_init_def)
  moreover from reply_err_shape [OF e] obtain sbl where
    "q = upd_client c (\<lambda>cl. cl\<lparr>cl_send_buffer_list := sbl\<rparr>) qi" by blast
  ultimately show ?thesis by force
qed

theorem tls_required_guard_witness:
  "\<exists>r sbl. r \<in> {0, -1} \<and> msg_received_dispatch ex_al ex_nss (\<lambda>n. None) 10
     (msg_decoded_init\<lparr>md_type := MSG_TYPE_INIT\<rparr>) (dynar_init 0) (handler_ex\<lparr>qi_tls_supported := TLV_TLS_REQUIRED\<rparr>) =
     Inr (r, upd_client 10 (\<lambda>cl. cl\<lparr>cl_send_buffer_list := sbl\<rparr>) (handler_ex\<lparr>qi_tls_supported := TLV_TLS_REQUIRED\<rparr>))"
  by (rule tls_required_guard) (simp_all add: handler_ex_defs)

text \<open>
  C35. The initialisation is not guarded against a second one. When a client that is in a cluster
  sends it again with the node id of another client of the cluster, the daemon stores the id before
  it checks it: the error reply comes too late, and the cluster is left with two clients of one
  node id.
\<close>

theorem second_init_duplicates_node_id:
  assumes wf: "cluster_list_wf qi" and k: "k \<in> set (qi_clusters qi)"
    and ab: "a \<in> set (members qi k)" "b \<in> set (members qi k)" "a \<noteq> b"
    and tls: "qi_tls_supported qi = TLV_TLS_UNSUPPORTED"
    and name: "cl_cluster_name (qi_client qi a) = Some (cs_cluster_name (qi_cluster qi k))"
    and msg: "md_type msg = MSG_TYPE_INIT" "md_node_id_set msg" "md_node_id msg = node_of qi b"
  shows "\<exists>r qi'. msg_received_dispatch al nss aa a msg buf qi = Inr (r, qi') \<and>
    node_of qi' a = node_of qi' b \<and> \<not> cluster_list_wf qi'"
proof -
  obtain e cl where opt: "init_options (qi_advanced_settings qi) msg (qi_client qi a) = (e, cl)" by fastforce
  note O = init_options_node [OF opt msg(2)]
  define q where "q = upd_client a (\<lambda>_. cl) qi"
  have q: "qi_cluster q = qi_cluster qi" "qi_clusters q = qi_clusters qi" "qi_client q a = cl"
    "node_of q a = node_of q b"
    using O msg(3) ab(3) by (simp_all add: q_def upd_client_def)
  have find: "qnetd_cluster_list_find_by_name q (cs_cluster_name (qi_cluster qi k)) = Some k"
    using find_by_name_iff [OF wf] k q by (simp add: qnetd_cluster_list_find_by_name_def)
  have "qnetd_client_msg_received_init_check_new_client a (cs_cluster_name (qi_cluster qi k)) q \<noteq>
      TLV_REPLY_ERROR_CODE_NO_ERROR"
    using find ab(1) q(1,3) init_check_loop_self [of cl _ cl]
    unfolding qnetd_client_msg_received_init_check_new_client_def cluster_views_def by force
  then have join: "\<exists>e'. init_join al aa a q = Inr (e', q)"
    using O(2) name q(3) unfolding init_join_def by simp
  have "\<exists>e'. (if e \<noteq> TLV_REPLY_ERROR_CODE_NO_ERROR then Inr (e, q) else init_join al aa a q) = Inr (e', q)"
    using join by simp
  then have "\<exists>f. msg_received_dispatch al nss aa a msg buf qi = Inr (reply_msg al a f q)"
    using msg(1) tls opt
    unfolding msg_received_dispatch_def qnetd_client_msg_received_init_def with_tls_def q_def
    by (auto simp: qnetd_client_msg_received_check_tls_def Let_def split del: if_split)
  then obtain f where run: "msg_received_dispatch al nss aa a msg buf qi = Inr (reply_msg al a f q)" ..
  obtain r qi' where reply: "reply_msg al a f q = (r, qi')" by fastforce
  have L: "same_links q qi'"
    using reply_links(2) [OF same_links_refl, of q al a f] reply by simp
  have dup: "node_of qi' a = node_of qi' b" "members qi' k = members qi k" "k \<in> set (qi_clusters qi')"
    using L q k by (simp_all add: same_links_def)
  have "\<not> distinct (map (node_of qi') (members qi' k))"
    using dup(1,2) ab by (auto simp: distinct_map inj_on_def)
  then have "\<not> cluster_list_wf qi'"
    using cluster_list_wfD(5) [of qi' k] dup(3) strict_sorted_iff by blast
  with run reply dup(1) show ?thesis by auto
qed

theorem second_init_duplicates_node_id_witness:
  "\<exists>r qi'. msg_received_dispatch ex_al ex_nss (\<lambda>n. None) 10
     (msg_decoded_init\<lparr>md_type := MSG_TYPE_INIT, md_node_id_set := True, md_node_id := 2\<rparr>) (dynar_init 0) handler_ex =
     Inr (r, qi') \<and> node_of qi' 10 = node_of qi' 20 \<and> \<not> cluster_list_wf qi'"
  by (rule second_init_duplicates_node_id [OF handler_ex_wf, where k = 5])
     (simp_all add: handler_ex_defs)

end
