(* ===== verification/Msgio.thy ===== *)
theory Msgio
  imports Msg
begin

text \<open>
  Reading and writing of messages on a non-blocking socket, \<open>msgio.c\<close>. The socket is a parameter:
  what \<open>PR_Recv\<close> returns for the requested number of bytes and how many of the offered bytes
  \<open>PR_Send\<close> takes. The section on framing shows that a message is taken from the byte stream
  without touching the next one, however the network splits it.
\<close>

section \<open>Operations\<close>

datatype recv_result = Recv_Data "byte list" | Recv_Closed | Recv_Would_Block | Recv_Error

datatype send_result = Send_Count nat | Send_Would_Block | Send_Error

definition msgio_local_buf_size :: nat where
  "msgio_local_buf_size = 1024"

definition msgio_write :: "(byte list \<Rightarrow> send_result) \<Rightarrow> dynar \<Rightarrow> nat \<Rightarrow> int \<times> nat" where
  "msgio_write send msg already_sent_bytes =
     (let to_send = dynar_size msg - already_sent_bytes;
          to_send_i32 = (if to_send > msgio_local_buf_size then msgio_local_buf_size else to_send)
      in case send (take to_send_i32 (drop already_sent_bytes (dyn_data msg))) of
           Send_Count sent \<Rightarrow>
             if sent = 0 then (-1, already_sent_bytes)
             else if already_sent_bytes + sent = dynar_size msg then (1, already_sent_bytes + sent)
             else (0, already_sent_bytes + sent)
         | Send_Would_Block \<Rightarrow> (0, already_sent_bytes)
         | Send_Error \<Rightarrow> (-2, already_sent_bytes))"

definition msgio_to_read :: "memtail \<Rightarrow> dynar \<Rightarrow> nat \<Rightarrow> nat" where
  "msgio_to_read junk msg already_received_bytes =
     (let to_read = (if already_received_bytes < msg_get_header_length
                     then msg_get_header_length - already_received_bytes
                     else (msg_get_header_length + unat (msg_get_len msg junk)) - already_received_bytes)
      in if to_read > msgio_local_buf_size then msgio_local_buf_size else to_read)"

text \<open>What is done with the bytes that were read; the result 1 replaces an error of the same call.\<close>

definition msgio_store ::
    "allocator \<Rightarrow> memtail \<Rightarrow> byte list \<Rightarrow> dynar \<Rightarrow> nat \<Rightarrow> bool \<Rightarrow> int \<times> dynar \<times> nat \<times> bool" where
  "msgio_store al junk bs msg already skipping_msg =
     (let already' = already + length bs
      in case (if skipping_msg then (0, msg, True)
               else case dynar_cat al msg bs of
                      (r, msg') \<Rightarrow> if r = -1 then (-4, msg', True) else (0, msg', False)) of
           (ret1, msg1, skip1) \<Rightarrow>
             if skip1 \<and> already' < msg_get_header_length then (-3, msg1, already', skip1)
             else case (if \<not> skip1 \<and> already' = msg_get_header_length
                        then (if \<not> msg_is_valid_msg_type msg1 junk then (-5, True)
                              else if msg_get_header_length + unat (msg_get_len msg1 junk) > dynar_max_size msg1
                              then (-6, True) else (ret1, skip1))
                        else (ret1, skip1)) of
                    (ret2, skip2) \<Rightarrow>
                      (if already' \<ge> msg_get_header_length \<and>
                          already' = msg_get_header_length + unat (msg_get_len msg1 junk)
                       then 1 else ret2, msg1, already', skip2))"

definition msgio_read ::
    "allocator \<Rightarrow> memtail \<Rightarrow> (nat \<Rightarrow> recv_result) \<Rightarrow> dynar \<Rightarrow> nat \<Rightarrow> bool \<Rightarrow> int \<times> dynar \<times> nat \<times> bool" where
  "msgio_read al junk recv msg already_received_bytes skipping_msg =
     (case recv (msgio_to_read junk msg already_received_bytes) of
        Recv_Data bs \<Rightarrow> msgio_store al junk bs msg already_received_bytes skipping_msg
      | Recv_Closed \<Rightarrow> (-1, msg, already_received_bytes, skipping_msg)
      | Recv_Would_Block \<Rightarrow> (0, msg, already_received_bytes, skipping_msg)
      | Recv_Error \<Rightarrow> (-2, msg, already_received_bytes, skipping_msg))"

section \<open>Framing\<close>

text \<open>
  A socket with a stream of bytes that arrived: a read returns at least one byte and at most the
  requested number, \<open>k\<close> chooses how many. Reading goes on while the result is 0 (partial read).
\<close>

definition stream_recv :: "nat \<Rightarrow> byte list \<Rightarrow> nat \<Rightarrow> recv_result" where
  "stream_recv k s n =
     (if s = [] \<or> n = 0 then Recv_Would_Block else Recv_Data (take (min n (Suc k)) s))"

fun read_loop ::
    "allocator \<Rightarrow> memtail \<Rightarrow> nat list \<Rightarrow> byte list \<Rightarrow> dynar \<Rightarrow> nat \<Rightarrow> bool \<Rightarrow>
     int \<times> byte list \<times> dynar \<times> nat \<times> bool" where
  "read_loop al junk [] s msg already skipping = (0, s, msg, already, skipping)"
| "read_loop al junk (k # ks) s msg already skipping =
     (case msgio_read al junk (stream_recv k s) msg already skipping of
        (ret, msg', already', skipping') \<Rightarrow>
          if ret = 0 then read_loop al junk ks (drop (already' - already) s) msg' already' skipping'
          else (ret, drop (already' - already) s, msg', already', skipping'))"

text \<open>A message as it travels: a valid type, the length of the rest, the rest.\<close>

definition wire_message :: "byte list \<Rightarrow> bool" where
  "wire_message m \<longleftrightarrow>
     (\<exists>t body. t \<in> set msg_static_supported_messages \<and> length body < 2 ^ 32 \<and>
        m = be16 (msg_type_code t) @ be32 (of_nat (length body)) @ body)"

lemma be_lengths: "length (be16 w) = 2" "length (be32 v) = 4"
  by simp_all

lemma static_msg_type_code:
  "t \<in> set msg_static_supported_messages \<Longrightarrow> msg_type_of (msg_type_code t) = t"
  by (auto simp: msg_static_supported_messages_def msg_type_of_def)

lemma wire_message_header:
  assumes "wire_message m" and "dyn_data d = take a m" and "msg_get_header_length \<le> a"
  shows "msg_get_header_length + unat (msg_get_len d junk) = length m"
    and "msg_is_valid_msg_type d junk"
proof -
  from assms(1) obtain t body where t: "t \<in> set msg_static_supported_messages" and
    b: "length body < 2 ^ 32" and m: "m = be16 (msg_type_code t) @ be32 (of_nat (length body)) @ body"
    unfolding wire_message_def by blast
  have d: "dyn_data d = be16 (msg_type_code t) @ be32 (of_nat (length body)) @ take (a - 6) body"
    using assms(2,3) by (simp add: m msg_get_header_length_def)
  show "msg_get_header_length + unat (msg_get_len d junk) = length m"
    using b by (simp add: msg_get_len_def d m msg_get_header_length_def mem_read_append unat_of_nat)
  have "msg_get_type d junk = t"
    using static_msg_type_code [OF t] mem_read_append [of 0 "[]" 2 "be16 (msg_type_code t)"]
    by (simp add: msg_get_type_def d)
  with t show "msg_is_valid_msg_type d junk"
    by (simp add: msg_is_valid_msg_type_def)
qed

lemma header_le: "wire_message m \<Longrightarrow> msg_get_header_length \<le> length m"
  by (auto simp: wire_message_def msg_get_header_length_def)

lemma to_read_bounds:
  assumes "wire_message m" and "dyn_data msg = take a m" and "a < length m"
  shows "0 < msgio_to_read junk msg a" and "a + msgio_to_read junk msg a \<le> length m"
    and "a < msg_get_header_length \<Longrightarrow> a + msgio_to_read junk msg a \<le> msg_get_header_length"
proof -
  have "msg_get_header_length + unat (msg_get_len msg junk) = length m" if "\<not> a < msg_get_header_length"
    using wire_message_header(1) [OF assms(1,2)] that by simp
  with assms(3) header_le [OF assms(1)]
  show "0 < msgio_to_read junk msg a" "a + msgio_to_read junk msg a \<le> length m"
    "a < msg_get_header_length \<Longrightarrow> a + msgio_to_read junk msg a \<le> msg_get_header_length"
    by (auto simp: msgio_to_read_def Let_def msgio_local_buf_size_def)
qed

lemma msgio_read_step:
  assumes al: "alloc_ideal al" and m: "wire_message m" "length m \<le> dyn_maximum_size msg"
    and d: "dyn_data msg = take a m" "dynar_inv msg" and a: "a < length m"
  shows "\<exists>j msg'. msgio_read al junk (stream_recv k (drop a m @ rest)) msg a False =
      (if a + j = length m then 1 else 0, msg', a + j, False) \<and>
    0 < j \<and> a + j \<le> length m \<and> dyn_data msg' = take (a + j) m \<and> dynar_inv msg' \<and>
    dyn_maximum_size msg' = dyn_maximum_size msg"
proof -
  define n where "n = msgio_to_read junk msg a"
  note B = to_read_bounds [OF m(1) d(1) a, of junk, folded n_def]
  define j where "j = min n (Suc k)"
  have j: "0 < j" "a + j \<le> length m" "a < msg_get_header_length \<Longrightarrow> a + j \<le> msg_get_header_length"
    using B by (auto simp: j_def)
  define bs where "bs = take j (drop a m)"
  have bs: "length bs = j" "take a m @ bs = take (a + j) m"
    using j(2) a by (auto simp: bs_def take_add)
  have recv: "stream_recv k (drop a m @ rest) n = Recv_Data bs"
    using a B(1,2) by (simp add: stream_recv_def bs_def j_def)
  have size: "dynar_size msg + length bs \<le> dyn_maximum_size msg"
    using d(1) a bs(1) j(2) m(2) by (simp add: dynar_size_def)
  obtain msg' where cat: "dynar_cat al msg bs = (0, msg')"
    using dynar_cat_total [OF al size] by (cases "dynar_cat al msg bs") auto
  have msg': "dyn_data msg' = take (a + j) m" "dynar_inv msg'" "dyn_maximum_size msg' = dyn_maximum_size msg"
    using dynar_cat_ok [OF cat d(2)] bs(2) d(1) by simp_all
  have "msgio_store al junk bs msg a False = (if a + j = length m then 1 else 0, msg', a + j, False)"
  proof (cases "msg_get_header_length \<le> a + j")
    case True
    note H = wire_message_header [OF m(1) msg'(1) True, of junk]
    from H(1) m(2) msg'(3) have "\<not> msg_get_header_length + unat (msg_get_len msg' junk) > dynar_max_size msg'"
      by (simp add: dynar_max_size_def)
    with True cat H bs(1) show ?thesis
      by (simp add: msgio_store_def Let_def)
  next
    case False
    with cat bs(1) header_le [OF m(1)] show ?thesis
      by (auto simp: msgio_store_def Let_def)
  qed
  with recv j msg' show ?thesis
    unfolding msgio_read_def n_def by auto
qed

lemma read_loop_message:
  assumes "alloc_ideal al" and "wire_message m" "length m \<le> dyn_maximum_size msg"
    and "dyn_data msg = take a m" "dynar_inv msg" and "a < length m" and "length m - a \<le> length ks"
  shows "\<exists>msg'. read_loop al junk ks (drop a m @ rest) msg a False = (1, rest, msg', length m, False) \<and>
    dyn_data msg' = m \<and> dynar_inv msg' \<and> dyn_maximum_size msg' = dyn_maximum_size msg"
  using assms
proof (induction ks arbitrary: msg a)
  case (Cons k ks)
  from msgio_read_step [OF Cons.prems(1-6), of junk k rest] obtain j msg1 where
    step: "msgio_read al junk (stream_recv k (drop a m @ rest)) msg a False =
      (if a + j = length m then 1 else 0, msg1, a + j, False)" and
    j: "0 < j" "a + j \<le> length m" and
    msg1: "dyn_data msg1 = take (a + j) m" "dynar_inv msg1" "dyn_maximum_size msg1 = dyn_maximum_size msg"
    by blast
  show ?case
  proof (cases "a + j = length m")
    case True
    with step msg1 j Cons.prems(6) show ?thesis by auto
  next
    case False
    with j have "a + j < length m" by simp
    have "drop j (drop a m @ rest) = drop (a + j) m @ rest"
      using j by (simp add: add.commute)
    with False step Cons.IH [OF Cons.prems(1,2) _ msg1(1,2) \<open>a + j < length m\<close>] Cons.prems(3,7) msg1(3) j
    show ?thesis by auto
  qed
qed simp

text \<open>
  The other direction: a socket that takes at least one of the offered bytes, \<open>k\<close> chooses how
  many. The loop collects the bytes that went out.
\<close>

definition stream_send :: "nat \<Rightarrow> byte list \<Rightarrow> send_result" where
  "stream_send k bs = (if bs = [] then Send_Would_Block else Send_Count (min (length bs) (Suc k)))"

fun write_loop :: "nat list \<Rightarrow> dynar \<Rightarrow> nat \<Rightarrow> byte list \<Rightarrow> int \<times> nat \<times> byte list" where
  "write_loop [] msg already out = (0, already, out)"
| "write_loop (k # ks) msg already out =
     (case msgio_write (stream_send k) msg already of
        (ret, already') \<Rightarrow>
          let out' = out @ take (already' - already) (drop already (dyn_data msg))
          in if ret = 0 then write_loop ks msg already' out' else (ret, already', out'))"

lemma msgio_write_step:
  assumes "a < dynar_size msg"
  shows "\<exists>j. msgio_write (stream_send k) msg a = (if a + j = dynar_size msg then 1 else 0, a + j) \<and>
    0 < j \<and> a + j \<le> dynar_size msg"
proof -
  define n where "n = min (dynar_size msg - a) msgio_local_buf_size"
  define j where "j = min n (Suc k)"
  have n: "0 < n" "a + n \<le> dynar_size msg"
    using assms by (auto simp: n_def msgio_local_buf_size_def)
  have "stream_send k (take n (drop a (dyn_data msg))) = Send_Count j"
    using n by (auto simp: stream_send_def j_def dynar_size_def)
  moreover have "(if dynar_size msg - a > msgio_local_buf_size then msgio_local_buf_size
      else dynar_size msg - a) = n"
    by (simp add: n_def)
  moreover have "0 < j" "a + j \<le> dynar_size msg"
    using n by (auto simp: j_def)
  ultimately show ?thesis
    unfolding msgio_write_def Let_def by (intro exI [of _ j]) simp
qed

lemma write_loop_all:
  assumes "a < dynar_size msg" and "dynar_size msg - a \<le> length ks"
  shows "write_loop ks msg a out = (1, dynar_size msg, out @ drop a (dyn_data msg))"
  using assms
proof (induction ks arbitrary: a out)
  case (Cons k ks)
  from msgio_write_step [OF Cons.prems(1), of k] obtain j where
    step: "msgio_write (stream_send k) msg a = (if a + j = dynar_size msg then 1 else 0, a + j)" and
    j: "0 < j" "a + j \<le> dynar_size msg" by blast
  show ?case
  proof (cases "a + j = dynar_size msg")
    case True
    with step show ?thesis by (auto simp: dynar_size_def)
  next
    case False
    have "take j (drop a (dyn_data msg)) @ drop (a + j) (dyn_data msg) = drop a (dyn_data msg)"
      by (metis append_take_drop_id drop_drop add.commute)
    with False step Cons.IH [of "a + j"] Cons.prems(2) j show ?thesis by (simp add: Let_def)
  qed
qed simp

section \<open>Properties\<close>

text \<open>
  C17. Framing: from a stream that starts with a message of a valid type and of a size that the
  receive buffer allows, \<open>msgio_read\<close> takes exactly this message. However the network splits the
  stream into chunks, the reads before the last return 0, the last one returns 1 with the message
  in the buffer, and the bytes that follow stay in the socket. As many reads as the message has
  bytes are enough.
\<close>

theorem msgio_read_framing:
  assumes "alloc_ideal al" and "wire_message m" and "length m \<le> max_size" and "length m \<le> length ks"
  shows "\<exists>msg. read_loop al junk ks (m @ rest) (dynar_init max_size) 0 False = (1, rest, msg, length m, False) \<and>
    dyn_data msg = m"
proof -
  have "0 < length m"
    using header_le [OF assms(2)] by (cases m) (simp_all add: msg_get_header_length_def)
  then show ?thesis
    using read_loop_message [OF assms(1,2), of "dynar_init max_size" 0 ks junk rest] assms(3,4)
    by (auto simp: dynar_init_def dynar_inv_def dynar_size_def)
qed

theorem msgio_read_framing_witness:
  "\<exists>msg. read_loop (\<lambda>r. True) (\<lambda>i. 0) [0, 0, 0, 0, 0, 0, 0, 0, 0, 0]
     ((be16 (msg_type_code MSG_TYPE_STARTTLS) @ be32 (of_nat (length [1, 2, 3 :: byte])) @ [1, 2, 3]) @ [9]) (dynar_init 100) 0 False =
     (1, [9], msg, 9, False) \<and> dyn_data msg = be16 (msg_type_code MSG_TYPE_STARTTLS) @ be32 3 @ [1, 2, 3]"
proof -
  let ?m = "be16 (msg_type_code MSG_TYPE_STARTTLS) @ be32 (of_nat (length [1, 2, 3 :: byte])) @ [1, 2, 3]"
  have "wire_message ?m"
    unfolding wire_message_def
    by (rule exI [of _ MSG_TYPE_STARTTLS], rule exI [of _ "[1, 2, 3]"])
       (simp add: msg_static_supported_messages_def)
  from msgio_read_framing [OF _ this, of "\<lambda>r. True" 100 "[0, 0, 0, 0, 0, 0, 0, 0, 0, 0]" "\<lambda>i. 0" "[9]"]
  show ?thesis by (simp add: alloc_ideal_def)
qed

text \<open>
  A non-empty message goes out completely and in order, however little the socket takes at a
  time: the writes before the last return 0, the last one returns 1, and the bytes on the wire are
  the bytes of the message. As many writes as the message has bytes are enough.
\<close>

theorem msgio_write_complete:
  assumes "dyn_data msg \<noteq> []" and "dynar_size msg \<le> length ks"
  shows "write_loop ks msg 0 [] = (1, dynar_size msg, dyn_data msg)"
  using write_loop_all [of 0 msg ks "[]"] assms by (simp add: dynar_size_def)

theorem msgio_write_complete_witness:
  "write_loop [0, 1, 0] \<lparr>dyn_data = [7, 8, 9], dyn_allocated = 4, dyn_maximum_size = 8\<rparr> 0 [] = (1, 3, [7, 8, 9])"
  using msgio_write_complete [of "\<lparr>dyn_data = [7, 8, 9], dyn_allocated = 4, dyn_maximum_size = 8\<rparr>" "[0, 1, 0]"]
  by (simp add: dynar_size_def)

text \<open>
  An error of the read that completes a message is lost: for a message that is a header alone
  with an unsupported type the result is 1 (message complete), not -5, so that the caller does not
  learn the reason of the skipping.
\<close>

theorem msgio_read_masks_error:
  assumes "msg_type_of w \<notin> set msg_static_supported_messages" and "alloc_ideal al" and "6 \<le> max_size"
    and "recv 6 = Recv_Data (be16 w @ be32 0)"
  shows "\<exists>msg. msgio_read al junk recv (dynar_init max_size) 0 False = (1, msg, 6, True)"
proof -
  let ?bs = "be16 w @ be32 0"
  have size: "dynar_size (dynar_init max_size) + length ?bs \<le> dyn_maximum_size (dynar_init max_size)"
    using assms(3) by (simp add: dynar_init_def dynar_size_def)
  obtain msg where cat: "dynar_cat al (dynar_init max_size) ?bs = (0, msg)"
    using dynar_cat_total [OF assms(2) size] by (cases "dynar_cat al (dynar_init max_size) ?bs") auto
  then have d: "dyn_data msg = be16 w @ be32 0 @ []"
    using dynar_cat_ok [OF cat] by (simp add: dynar_init_def dynar_inv_def dynar_size_def)
  have type: "msg_get_type msg junk = msg_type_of w"
    using mem_read_append [of 0 "[]" 2 "be16 w"] by (simp add: msg_get_type_def d)
  have len: "msg_get_len msg junk = 0"
    using mem_read_append [of 2 "be16 w" 4 "be32 0" "[]"] by (simp add: msg_get_len_def d del: append_Nil2)
  have "msgio_to_read junk (dynar_init max_size) 0 = 6"
    by (simp add: msgio_to_read_def msg_get_header_length_def msgio_local_buf_size_def)
  moreover have "msgio_store al junk ?bs (dynar_init max_size) 0 False = (1, msg, 6, True)"
    using cat type len assms(1)
    by (simp add: msgio_store_def Let_def msg_get_header_length_def msg_is_valid_msg_type_def)
  ultimately show ?thesis
    using assms(4) by (simp add: msgio_read_def)
qed

theorem msgio_read_masks_error_witness:
  "\<exists>msg. msgio_read (\<lambda>r. True) (\<lambda>i. 0) (\<lambda>n. Recv_Data (be16 99 @ be32 0)) (dynar_init 100) 0 False = (1, msg, 6, True)"
  by (rule msgio_read_masks_error [of 99])
     (simp_all add: msg_type_of_def msg_static_supported_messages_def alloc_ideal_def)

end
