(* ===== verification/Qnetd_Client_Net.thy ===== *)
theory Qnetd_Client_Net
  imports Handler_Props Msgio
begin

text \<open>
  The connections of the daemon, \<open>qnetd-client-net.c\<close>: accepting a client, reading from it and
  writing to it, and the callbacks that the poll loop calls. Sockets and the poll loop are
  parameters. The second half composes the operations to runs of the daemon: \<open>qnetd_step\<close> is one
  event, and the invariant holds in every state that a run reaches.
\<close>

section \<open>Operations\<close>

text \<open>What \<open>qnetd_client_net_accept\<close> learns from outside: did each of the calls succeed?\<close>

record accept_env =
  ae_accept :: bool
  ae_set_non_blocking :: bool
  ae_addr_to_string :: bool
  ae_port_fits :: bool
  ae_add_prfd :: bool

definition client_addr_str_len :: nat where
  "client_addr_str_len = 46 + (1 + 5 + 1)"

definition qnetd_client_net_accept ::
    "allocator \<Rightarrow> accept_env \<Rightarrow> qnetd_instance \<Rightarrow> int \<times> qnetd_instance" where
  "qnetd_client_net_accept al env qi =
     (let as = qi_advanced_settings qi
      in if \<not> ae_accept env then (-1, qi)
         else if \<not> ae_set_non_blocking env then (-1, qi)
         else if qi_max_clients qi \<noteq> 0 \<and> qnetd_client_list_no_clients qi \<ge> qi_max_clients qi then (-1, qi)
         else if \<not> al (Malloc_Bytes client_addr_str_len) then (-1, qi)
         else if \<not> ae_addr_to_string env then (-1, qi)
         else if \<not> ae_port_fits env then (-1, qi)
         else case qnetd_client_list_add al qi (as_max_client_receive_size as)
                     (as_max_client_send_buffers as) (as_max_client_send_size as) of
                (None, qi1) \<Rightarrow> (-2, qi1)
              | (Some c, qi1) \<Rightarrow>
                  if \<not> ae_add_prfd env then (-2, qnetd_client_list_del qi1 c)
                  else case on_client c (qnetd_client_dpd_timer_init al as) qi1 of
                         (r, qi2) \<Rightarrow>
                           if r = -1 then (-2, qnetd_client_list_del qi2 c) else (0, qi2))"

definition qnetd_client_net_write_finished :: "qnetd_client \<Rightarrow> int" where
  "qnetd_client_net_write_finished client = 0"

text \<open>The active entry is the head of the list; the number of sent bytes is updated in place.\<close>

definition qnetd_client_net_write ::
    "(byte list \<Rightarrow> send_result) \<Rightarrow> qnetd_client \<Rightarrow> int \<times> qnetd_client" where
  "qnetd_client_net_write send client =
     (case send_buffer_list_get_active (cl_send_buffer_list client) of
        None \<Rightarrow> (-1, client)
      | Some send_buffer \<Rightarrow>
          (case msgio_write send (sb_buffer send_buffer) (sb_msg_already_sent_bytes send_buffer) of
             (res, sent) \<Rightarrow>
               let send_buffer' = send_buffer\<lparr>sb_msg_already_sent_bytes := sent\<rparr>;
                   sbl = (cl_send_buffer_list client)
                     \<lparr>sbl_list := send_buffer' # tl (sbl_list (cl_send_buffer_list client))\<rparr>
               in if res = 1
                  then (qnetd_client_net_write_finished client,
                        client\<lparr>cl_send_buffer_list := send_buffer_list_delete sbl send_buffer'\<rparr>)
                  else if res = -1 \<or> res = -2 then (-1, client\<lparr>cl_send_buffer_list := sbl\<rparr>)
                  else (0, client\<lparr>cl_send_buffer_list := sbl\<rparr>)))"

definition net_read_reset :: "qnetd_client \<Rightarrow> qnetd_client" where
  "net_read_reset client =
     client\<lparr>cl_skipping_msg := False, cl_skipping_msg_reason := TLV_REPLY_ERROR_CODE_NO_ERROR,
            cl_msg_already_received_bytes := 0,
            cl_receive_buffer := dynar_clean (cl_receive_buffer client)\<rparr>"

definition qnetd_client_net_read ::
    "allocator \<Rightarrow> memtail \<Rightarrow> nss_env \<Rightarrow> algorithm_array \<Rightarrow> (nat \<Rightarrow> recv_result) \<Rightarrow> client_ref \<Rightarrow>
     qnetd_instance \<Rightarrow> handler_result" where
  "qnetd_client_net_read al junk nss aa recv c qi =
     (let client = qi_client qi c
      in case msgio_read al junk recv (cl_receive_buffer client) (cl_msg_already_received_bytes client)
                (cl_skipping_msg client) of
           (res, buf, already, skipping) \<Rightarrow>
             let reason = (\<lambda>e cl. cl\<lparr>cl_skipping_msg_reason := e\<rparr>);
                 qi1 = upd_client c (\<lambda>cl. cl\<lparr>cl_receive_buffer := buf,
                         cl_msg_already_received_bytes := already, cl_skipping_msg := skipping\<rparr>) qi
             in if res = 0 then Inr (0, qi1)
                else if res = -1 \<or> res = -2 \<or> res = -3 then Inr (-1, qi1)
                else if res = -4
                then Inr (0, upd_client c (reason TLV_REPLY_ERROR_CODE_ERROR_DECODING_MSG) qi1)
                else if res = -5
                then Inr (0, upd_client c (reason TLV_REPLY_ERROR_CODE_UNSUPPORTED_MESSAGE) qi1)
                else if res = -6
                then Inr (0, upd_client c (reason TLV_REPLY_ERROR_CODE_MESSAGE_TOO_LONG) qi1)
                else if res = 1
                then bindE (if \<not> skipping then qnetd_client_msg_received al junk nss aa c qi1
                            else Inr (on_client c (qnetd_client_send_err al False 0
                                   (cl_skipping_msg_reason (qi_client qi1 c))) qi1)) (\<lambda>(r, qi2).
                       Inr (if (if \<not> skipping then r = -1 else r \<noteq> 0) then -1 else 0,
                            upd_client c net_read_reset qi2))
                else Inl Exit_Failure)"

definition mark_disconnect :: "client_ref \<Rightarrow> int \<Rightarrow> qnetd_instance \<Rightarrow> qnetd_instance" where
  "mark_disconnect c r qi =
     (if r = -1 then upd_client c (\<lambda>cl. cl\<lparr>cl_schedule_disconnect := True\<rparr>) qi else qi)"

definition qnetd_client_net_socket_poll_loop_set_events_cb :: "qnetd_client \<Rightarrow> int \<times> bool" where
  "qnetd_client_net_socket_poll_loop_set_events_cb client =
     (if cl_schedule_disconnect client then (-1, False)
      else (0, \<not> send_buffer_list_empty (cl_send_buffer_list client)))"

definition qnetd_client_net_socket_poll_loop_read_cb ::
    "allocator \<Rightarrow> memtail \<Rightarrow> nss_env \<Rightarrow> algorithm_array \<Rightarrow> (nat \<Rightarrow> recv_result) \<Rightarrow> client_ref \<Rightarrow>
     qnetd_instance \<Rightarrow> fault + qnetd_instance" where
  "qnetd_client_net_socket_poll_loop_read_cb al junk nss aa recv c qi =
     (if \<not> cl_schedule_disconnect (qi_client qi c)
      then bindE (qnetd_client_net_read al junk nss aa recv c qi) (\<lambda>(r, qi1).
             Inr (mark_disconnect c r qi1))
      else Inr qi)"

definition qnetd_client_net_socket_poll_loop_write_cb ::
    "(byte list \<Rightarrow> send_result) \<Rightarrow> client_ref \<Rightarrow> qnetd_instance \<Rightarrow> qnetd_instance" where
  "qnetd_client_net_socket_poll_loop_write_cb send c qi =
     (if \<not> cl_schedule_disconnect (qi_client qi c)
      then (case on_client c (qnetd_client_net_write send) qi of (r, qi1) \<Rightarrow> mark_disconnect c r qi1)
      else qi)"

definition qnetd_client_net_socket_poll_loop_err_cb :: "client_ref \<Rightarrow> qnetd_instance \<Rightarrow> qnetd_instance" where
  "qnetd_client_net_socket_poll_loop_err_cb c qi =
     (if \<not> cl_schedule_disconnect (qi_client qi c) then mark_disconnect c (-1) qi else qi)"

section \<open>The links under the network operations\<close>

lemma same_id_net [simp]:
  "same_id (cl\<lparr>cl_receive_buffer := b\<rparr>) cl' \<longleftrightarrow> same_id cl cl'"
  "same_id (cl\<lparr>cl_msg_already_received_bytes := n\<rparr>) cl' \<longleftrightarrow> same_id cl cl'"
  "same_id (cl\<lparr>cl_skipping_msg := s\<rparr>) cl' \<longleftrightarrow> same_id cl cl'"
  "same_id (cl\<lparr>cl_skipping_msg_reason := e\<rparr>) cl' \<longleftrightarrow> same_id cl cl'"
  "same_id (cl\<lparr>cl_schedule_disconnect := d\<rparr>) cl' \<longleftrightarrow> same_id cl cl'"
  "same_id (cl\<lparr>cl_algo_timer := t\<rparr>) cl' \<longleftrightarrow> same_id cl cl'"
  "same_id (cl\<lparr>cl_dpd_timer := t\<rparr>) cl' \<longleftrightarrow> same_id cl cl'"
  "same_id (cl\<lparr>cl_algo_timer_vote_info_msq_seq_number := q\<rparr>) cl' \<longleftrightarrow> same_id cl cl'"
  "same_id (cl\<lparr>cl_send_buffer_list := l\<rparr>) cl' \<longleftrightarrow> same_id cl cl'"
  "same_id (net_read_reset cl) cl' \<longleftrightarrow> same_id cl cl'"
  by (simp_all add: same_id_def net_read_reset_def)

lemma mark_disconnect_links: "same_links a b \<Longrightarrow> same_links a (mark_disconnect c r b)"
  by (simp add: mark_disconnect_def same_links_upd)

lemma write_cb_links: "same_links qi (qnetd_client_net_socket_poll_loop_write_cb send c qi)"
proof -
  have "same_id (snd (qnetd_client_net_write send cl)) cl" for cl
    by (simp add: qnetd_client_net_write_def Let_def split: option.split prod.split)
  then have "same_links qi q" if "on_client c (qnetd_client_net_write send) qi = (r, q)" for r q
    using on_client_links [OF same_links_refl that] by blast
  then show ?thesis
    unfolding qnetd_client_net_socket_poll_loop_write_cb_def
    by (auto split: prod.split intro: mark_disconnect_links)
qed

lemma err_cb_links: "same_links qi (qnetd_client_net_socket_poll_loop_err_cb c qi)"
  by (simp add: qnetd_client_net_socket_poll_loop_err_cb_def mark_disconnect_links)

section \<open>The invariant under the network operations\<close>

lemma client_list_add_inv:
  assumes inv: "qnetd_inv qi" and room: "qi_max_clients qi = 0 \<or> length (qi_clients qi) < qi_max_clients qi"
    and add: "qnetd_client_list_add al qi a b d = (Some c, qi')"
  shows "qnetd_inv qi' \<and> c \<in> set (qi_clients qi') \<and> cl_cluster (qi_client qi' c) = None"
proof -
  have wf: "cluster_list_wf qi" and uni: "cluster_uniform qi"
    using inv by (simp_all add: qnetd_inv_def)
  note W = cluster_list_wfD [OF wf]
  have c: "c = fresh_ref (qi_clients qi)" and
    qi': "qi' = qi\<lparr>qi_client := (qi_client qi)(c := qnetd_client_init a b d), qi_clients := qi_clients qi @ [c]\<rparr>"
    using add by (auto simp: qnetd_client_list_add_def Let_def split: if_splits)
  have new: "c \<notin> set (qi_clients qi)" using fresh_ref_notin c by simp
  have notin: "x \<noteq> c" if "k \<in> set (qi_clusters qi)" "x \<in> set (members qi k)" for k x
    using W(6) [OF that] new by auto
  have simps: "qi_clusters qi' = qi_clusters qi" "qi_cluster qi' = qi_cluster qi"
    "qi_clients qi' = qi_clients qi @ [c]" "\<And>x. x \<noteq> c \<Longrightarrow> qi_client qi' x = qi_client qi x"
    "cl_cluster (qi_client qi' c) = None" "qi_max_clients qi' = qi_max_clients qi"
    by (simp_all add: qi' qnetd_client_init_def)
  have ids: "map (node_of qi') (members qi k) = map (node_of qi) (members qi k)" if "k \<in> set (qi_clusters qi)" for k
    using notin [OF that] simps(4) by (intro map_cong) auto
  have "cluster_list_wf qi'"
  proof (rule cluster_list_wfI; unfold simps(1-3))
    show "sorted_wrt (<) (map (node_of qi') (members qi k))" if "k \<in> set (qi_clusters qi)" for k
      unfolding ids [OF that] using W(5) [OF that] .
    show "x \<in> set (qi_clients qi @ [c]) \<and> cl_cluster (qi_client qi' x) = Some k"
      if "k \<in> set (qi_clusters qi)" "x \<in> set (members qi k)" for k x
      using W(6) [OF that] simps(4) [OF notin [OF that]] by simp
    show "k \<in> set (qi_clusters qi) \<and> x \<in> set (members qi k)"
      if "x \<in> set (qi_clients qi @ [c])" "cl_cluster (qi_client qi' x) = Some k" for k x
      using that simps(4) [of x] simps(5) W(7) [of x k] by (cases "x = c") auto
  qed (use W(1-4) new in simp_all)
  moreover have "cluster_uniform qi'"
    using uni notin simps(4) unfolding cluster_uniform_def simps(1,2) by metis
  ultimately show ?thesis
    using room simps(3,5,6) by (auto simp: qnetd_inv_def)
qed

text \<open>Clients and clusters only disappear, and what stays keeps its settings.\<close>

definition shrinks :: "qnetd_instance \<Rightarrow> qnetd_instance \<Rightarrow> bool" where
  "shrinks qi qi' \<longleftrightarrow>
     set (qi_clusters qi') \<subseteq> set (qi_clusters qi) \<and> (\<forall>k. set (members qi' k) \<subseteq> set (members qi k)) \<and>
     length (qi_clients qi') \<le> length (qi_clients qi) \<and> qi_max_clients qi' = qi_max_clients qi \<and>
     (\<forall>c. cl_tie_breaker (qi_client qi' c) = cl_tie_breaker (qi_client qi c) \<and>
        cl_decision_algorithm (qi_client qi' c) = cl_decision_algorithm (qi_client qi c))"

lemma shrinks_trans: "shrinks a b \<Longrightarrow> shrinks b c \<Longrightarrow> shrinks a c"
  by (fastforce simp: shrinks_def)

lemma shrinks_links: "same_links a b \<Longrightarrow> shrinks a b"
  by (simp add: shrinks_def same_links_def)

lemma shrinks_inv: "shrinks qi qi' \<Longrightarrow> cluster_list_wf qi' \<Longrightarrow> qnetd_inv qi \<Longrightarrow> qnetd_inv qi'"
proof -
  assume sh: "shrinks qi qi'" and wf: "cluster_list_wf qi'" and inv: "qnetd_inv qi"
  have sub: "k \<in> set (qi_clusters qi') \<Longrightarrow> k \<in> set (qi_clusters qi)"
    "x \<in> set (members qi' k) \<Longrightarrow> x \<in> set (members qi k)" for k x
    using sh unfolding shrinks_def by blast+
  have fields: "cl_tie_breaker (qi_client qi' x) = cl_tie_breaker (qi_client qi x)"
    "cl_decision_algorithm (qi_client qi' x) = cl_decision_algorithm (qi_client qi x)" for x
    using sh unfolding shrinks_def by blast+
  have "cluster_uniform qi'"
    using inv sub unfolding qnetd_inv_def cluster_uniform_def fields by blast
  with sh wf inv show "qnetd_inv qi'"
    by (auto simp: shrinks_def qnetd_inv_def)
qed

lemma length_remove1_le: "length (remove1 x xs) \<le> length xs"
  by (simp add: length_remove1)

lemma shrinks_del: "shrinks qi (qnetd_client_list_del qi c)"
  by (simp add: shrinks_def client_list_del_result length_remove1_le)
     (simp add: qnetd_client_list_del_def upd_client_def qnetd_client_destroy_def)

lemma shrinks_del_client: "shrinks qi (qnetd_cluster_list_del_client qi k c)"
proof -
  have "set (if remove1 c (members qi k) = [] then remove1 k (qi_clusters qi) else qi_clusters qi)
      \<subseteq> set (qi_clusters qi)"
    using set_remove1_subset [of k "qi_clusters qi"] by simp
  moreover have "qi_max_clients (qnetd_cluster_list_del_client qi k c) = qi_max_clients qi"
    by (simp add: qnetd_cluster_list_del_client_def Let_def upd_cluster_def)
  ultimately show ?thesis
    using set_remove1_subset [of c "members qi k"]
    by (simp add: shrinks_def del_client_result)
qed

lemma disconnect_inv:
  assumes reg: "registered aa" and inv: "qnetd_inv qi" and c: "c \<in> set (qi_clients qi)"
    and d: "qnetd_instance_client_disconnect al aa c down qi = Inr qi'"
  shows "qnetd_inv qi'"
proof -
  from d obtain q1 where q1: "(if cl_init_received (qi_client qi c)
        then qnetd_algorithm_client_disconnect al aa c down qi else Inr qi) = Inr q1"
    and qi': "qi' = (let qi2 = upd_client c qnetd_client_dpd_timer_destroy q1;
           qi3 = (case cl_cluster (qi_client qi2 c) of
                    None \<Rightarrow> qi2 | Some k \<Rightarrow> qnetd_cluster_list_del_client qi2 k c);
           qi4 = snd (on_client c qnetd_client_algo_timer_abort qi3)
       in qnetd_client_list_del qi4 c)"
    unfolding qnetd_instance_client_disconnect_def bindE_Inr_iff by (auto simp: Let_def)
  have "same_core qi q1"
    using q1 dispatch_core(5) [OF reg] by (auto split: if_splits)
  then have s1: "shrinks qi q1"
    by (intro shrinks_links same_links_core)
  have s2: "shrinks q1 (upd_client c qnetd_client_dpd_timer_destroy q1)"
    by (intro shrinks_links same_links_upd_client) (simp add: qnetd_client_dpd_timer_destroy_def same_id_def)
  have s3: "shrinks q (case r of None \<Rightarrow> q | Some k \<Rightarrow> qnetd_cluster_list_del_client q k c)" for q r
    by (auto simp: shrinks_del_client shrinks_links split: option.split)
  have s4: "shrinks q (snd (on_client c qnetd_client_algo_timer_abort q))" for q
    by (intro shrinks_links same_links_core same_core_timer)
  have "shrinks qi qi'"
    unfolding qi' Let_def
    using shrinks_trans [OF s1 shrinks_trans [OF s2 shrinks_trans [OF s3 shrinks_trans [OF s4 shrinks_del]]]] .
  moreover have "cluster_list_wf qi'"
    using client_disconnect_wf [OF reg _ c d] inv by (simp add: qnetd_inv_def)
  ultimately show ?thesis
    using inv by (rule shrinks_inv)
qed

lemma disconnect_clients:
  assumes reg: "registered aa" and d: "qnetd_instance_client_disconnect al aa c down qi = Inr qi'"
  shows "qi_clients qi' = remove1 c (qi_clients qi)"
proof -
  from d obtain q1 where q1: "(if cl_init_received (qi_client qi c)
        then qnetd_algorithm_client_disconnect al aa c down qi else Inr qi) = Inr q1"
    and q: "qi' = (let qi2 = upd_client c qnetd_client_dpd_timer_destroy q1;
           qi3 = (case cl_cluster (qi_client qi2 c) of
                    None \<Rightarrow> qi2 | Some k \<Rightarrow> qnetd_cluster_list_del_client qi2 k c);
           qi4 = snd (on_client c qnetd_client_algo_timer_abort qi3)
       in qnetd_client_list_del qi4 c)"
    unfolding qnetd_instance_client_disconnect_def bindE_Inr_iff by (auto simp: Let_def)
  have qi': "qi_clients qi' = remove1 c (qi_clients q1)"
    unfolding q by (simp add: Let_def client_list_del_result on_client_def case_prod_beta upd_client_def
        del_client_result split: option.split)
  have "same_core qi q1"
    using q1 dispatch_core(5) [OF reg] by (auto split: if_splits)
  then show ?thesis
    using qi' same_coreD(1) by metis
qed

lemma pre_poll_inv:
  assumes "registered aa" and "pre_poll_loop al aa del cs qi = Inr (r, qi')"
    and "qnetd_inv qi" and "distinct cs" and "set cs \<subseteq> set (qi_clients qi)"
  shows "qnetd_inv qi'"
  using assms(2-)
proof (induction cs arbitrary: qi)
  case (Cons c cs)
  show ?case
  proof (cases "cl_schedule_disconnect (qi_client qi c) \<and> \<not> del c")
    case True
    with Cons.prems show ?thesis by simp
  next
    case False
    from Cons.prems(1) False obtain q where
      q: "(if cl_schedule_disconnect (qi_client qi c)
           then qnetd_instance_client_disconnect al aa c False qi else Inr qi) = Inr q" and
      rest: "pre_poll_loop al aa del cs q = Inr (r, qi')"
      by (auto simp: bindE_Inr_iff split: if_splits)
    have c: "c \<in> set (qi_clients qi)" "c \<notin> set cs" "set cs \<subseteq> set (qi_clients qi)"
      using Cons.prems by auto
    have "qnetd_inv q \<and> set cs \<subseteq> set (qi_clients q)"
    proof (cases "cl_schedule_disconnect (qi_client qi c)")
      case True
      with q have "qnetd_instance_client_disconnect al aa c False qi = Inr q" by simp
      from disconnect_inv [OF assms(1) Cons.prems(2) c(1) this] disconnect_clients [OF assms(1) this] c(2,3)
      show ?thesis by (metis in_set_remove1 subset_code(1))
    qed (use q Cons.prems c in auto)
    with Cons.IH [OF rest] Cons.prems(3) show ?thesis by simp
  qed
qed simp

lemma accept_inv:
  assumes "qnetd_inv qi" and "qnetd_client_net_accept al env qi = (r, qi')"
  shows "qnetd_inv qi'"
proof -
  let ?as = "qi_advanced_settings qi"
  obtain o1 q1 where add: "qnetd_client_list_add al qi (as_max_client_receive_size ?as)
      (as_max_client_send_buffers ?as) (as_max_client_send_size ?as) = (o1, q1)" by fastforce
  show ?thesis
  proof (cases "qi' = qi")
    case False
    then have room: "qi_max_clients qi = 0 \<or> length (qi_clients qi) < qi_max_clients qi"
      using assms(2) by (auto simp: qnetd_client_net_accept_def Let_def qnetd_client_list_no_clients_def
          split: if_splits)
    obtain c where c: "o1 = Some c"
      using False assms(2) add
      by (cases o1) (auto simp: qnetd_client_net_accept_def qnetd_client_list_add_def Let_def split: if_splits)
    have inv1: "qnetd_inv q1" and lone: "cl_cluster (qi_client q1 c) = None"
      using client_list_add_inv [OF assms(1) room add [unfolded c]] by blast+
    obtain t q2 where t: "on_client c (qnetd_client_dpd_timer_init al ?as) q1 = (t, q2)" by fastforce
    have "same_links q1 q2"
      by (rule on_client_links [OF same_links_refl t])
         (simp add: qnetd_client_dpd_timer_init_def Let_def)
    then have inv2: "qnetd_inv q2" and lone2: "cl_cluster (qi_client q2 c) = None"
      using inv1 lone by (auto simp: same_links_def intro: qnetd_inv_links)
    have del: "qnetd_inv (qnetd_client_list_del q c)" if "qnetd_inv q" "cl_cluster (qi_client q c) = None" for q
      using that cluster_list_wf_del_lone [of q c]
      by (intro shrinks_inv [OF shrinks_del]) (simp_all add: qnetd_inv_def)
    from False assms(2) add c t have "qi' = qnetd_client_list_del q1 c \<or> qi' = qnetd_client_list_del q2 c \<or> qi' = q2"
      by (auto simp: qnetd_client_net_accept_def Let_def split: if_splits)
    with inv2 del [OF inv1 lone] del [OF inv2 lone2] show ?thesis by auto
  qed (use assms(1) in simp)
qed

section \<open>Runs\<close>

text \<open>The state in which the message that was just read is handled.\<close>

definition after_read ::
    "allocator \<Rightarrow> memtail \<Rightarrow> (nat \<Rightarrow> recv_result) \<Rightarrow> client_ref \<Rightarrow> qnetd_instance \<Rightarrow> qnetd_instance" where
  "after_read al junk recv c qi =
     (let client = qi_client qi c
      in case msgio_read al junk recv (cl_receive_buffer client) (cl_msg_already_received_bytes client)
                (cl_skipping_msg client) of
           (res, buf, already, skipping) \<Rightarrow>
             upd_client c (\<lambda>cl. cl\<lparr>cl_receive_buffer := buf, cl_msg_already_received_bytes := already,
               cl_skipping_msg := skipping\<rparr>) qi)"

lemma net_read_inv:
  assumes inv: "qnetd_inv qi" and c: "c \<in> set (qi_clients qi)" and reg: "registered aa"
    and first: "\<not> second_init al junk c (after_read al junk recv c qi)"
    and run: "qnetd_client_net_read al junk nss aa recv c qi = Inr (r, qi')"
  shows "qnetd_inv qi'"
proof -
  define q where "q = after_read al junk recv c qi"
  obtain res buf already skip where
    io: "msgio_read al junk recv (cl_receive_buffer (qi_client qi c))
      (cl_msg_already_received_bytes (qi_client qi c)) (cl_skipping_msg (qi_client qi c)) =
      (res, buf, already, skip)" by (metis prod_cases4)
  have q: "q = upd_client c (\<lambda>cl. cl\<lparr>cl_receive_buffer := buf, cl_msg_already_received_bytes := already,
      cl_skipping_msg := skip\<rparr>) qi"
    by (simp add: q_def after_read_def io)
  have L: "same_links qi q"
    unfolding q by (rule same_links_upd_client) simp
  have invq: "qnetd_inv q" using qnetd_inv_links [OF L inv] .
  have cq: "c \<in> set (qi_clients q)" using L c by (simp add: same_links_def)
  have reason: "qnetd_inv (upd_client c (\<lambda>cl. cl\<lparr>cl_skipping_msg_reason := e\<rparr>) q)" for e
    by (rule qnetd_inv_links [OF same_links_upd_client invq]) simp
  have reset: "qnetd_inv (upd_client c net_read_reset q')" if "qnetd_inv q'" for q'
    by (rule qnetd_inv_links [OF same_links_upd_client that]) simp
  have err: "qnetd_inv q'" if "on_client c (qnetd_client_send_err al False 0 e) q = (t, q')" for e t q'
    using that on_client_send_links [of q c al] qnetd_inv_links [OF _ invq]
    unfolding qnetd_client_send_err_def by (metis snd_conv)
  note facts = run io invq reason reset err msg_received_inv [OF invq cq reg first [folded q_def]]
  show ?thesis
  proof (cases skip)
    case True
    then have fold: "upd_client c (\<lambda>cl. cl\<lparr>cl_receive_buffer := buf, cl_msg_already_received_bytes := already,
      cl_skipping_msg := True\<rparr>) qi = q" by (simp add: q)
    show ?thesis
      using facts True unfolding qnetd_client_net_read_def Let_def
      by (auto simp: bindE_Inr_iff fold split: if_splits prod.splits)
  next
    case False
    then have fold: "upd_client c (\<lambda>cl. cl\<lparr>cl_receive_buffer := buf, cl_msg_already_received_bytes := already,
      cl_skipping_msg := False\<rparr>) qi = q" by (simp add: q)
    show ?thesis
      using facts False unfolding qnetd_client_net_read_def Let_def
      by (auto simp: bindE_Inr_iff fold split: if_splits)
  qed
qed

lemma algo_timer_links:
  assumes "registered aa" and "qnetd_client_algo_timer_callback al aa c qi = Inr (r, qi')"
  shows "same_links qi qi'"
proof -
  from assms(2) obtain e rs sv v q where
    "qnetd_algorithm_timer_callback al aa c qi = Inr (e, rs, sv, v, q)"
    unfolding qnetd_client_algo_timer_callback_def by (auto simp: bindE_Inr_iff)
  note cb = this
  have q: "same_links qi q"
    using dispatch_core(9) [OF assms(1) cb] same_links_core by blast
  have vote: "same_links a (snd (on_client c (qnetd_client_send_vote_info al n rid w) b))"
    if "same_links a b" for a b n rid w
  proof (rule on_client_links [OF that surjective_pairing])
    show "same_id (snd (qnetd_client_send_vote_info al n rid w (qi_client b c))) (qi_client b c)"
      unfolding qnetd_client_send_vote_info_def
      using same_id_send_msg [of al _ "store_vote w (qi_client b c)"] by (simp add: same_id_def store_vote_def Let_def)
  qed
  have err: "same_links a (snd (on_client c (qnetd_client_send_err al False 0 e) b))" if "same_links a b" for a b
    unfolding qnetd_client_send_err_def using same_links_trans [OF that on_client_send_links] .
  show ?thesis
    using assms(2) cb q
    unfolding qnetd_client_algo_timer_callback_def Let_def
    by (auto simp: case_prod_beta split: if_splits intro!: same_links_upd vote err)
qed

text \<open>
  One event of the daemon, with everything that is outside of it left open: memory, sockets, the
  TLS library. The event for a received message excludes a client that is in a cluster and sends
  the initialisation again, which the code does not guard against and which breaks the invariant.
\<close>

inductive qnetd_step :: "algorithm_array \<Rightarrow> qnetd_instance \<Rightarrow> qnetd_instance \<Rightarrow> bool" for aa where
  step_accept: "qnetd_client_net_accept al env qi = (r, qi') \<Longrightarrow> qnetd_step aa qi qi'"
| step_read: "c \<in> set (qi_clients qi) \<Longrightarrow> \<not> second_init al junk c (after_read al junk recv c qi) \<Longrightarrow>
    qnetd_client_net_socket_poll_loop_read_cb al junk nss aa recv c qi = Inr qi' \<Longrightarrow> qnetd_step aa qi qi'"
| step_write: "c \<in> set (qi_clients qi) \<Longrightarrow>
    qnetd_step aa qi (qnetd_client_net_socket_poll_loop_write_cb send c qi)"
| step_err: "c \<in> set (qi_clients qi) \<Longrightarrow> qnetd_step aa qi (qnetd_client_net_socket_poll_loop_err_cb c qi)"
| step_algo_timer: "c \<in> set (qi_clients qi) \<Longrightarrow> cl_algo_timer (qi_client qi c) \<noteq> None \<Longrightarrow>
    qnetd_client_algo_timer_callback al aa c qi = Inr (r, qi') \<Longrightarrow> qnetd_step aa qi qi'"
| step_dpd_timer: "c \<in> set (qi_clients qi) \<Longrightarrow> qnetd_dpd_timer_cb (qi_client qi c) = Inr (r, client) \<Longrightarrow>
    qnetd_step aa qi (upd_client c (\<lambda>cl. client) qi)"
| step_pre_poll: "qnetd_instance_poll_loop_pre_poll_cb al aa del qi = Inr (r, qi') \<Longrightarrow> qnetd_step aa qi qi'"

inductive qnetd_reachable :: "algorithm_array \<Rightarrow> qnetd_instance \<Rightarrow> bool" for aa where
  reach_init: "qnetd_reachable aa (qnetd_instance_init tls cert max_clients as)"
| reach_step: "qnetd_reachable aa qi \<Longrightarrow> qnetd_step aa qi qi' \<Longrightarrow> qnetd_reachable aa qi'"

lemma qnetd_step_inv:
  assumes "registered aa" and "qnetd_step aa qi qi'" and "qnetd_inv qi"
  shows "qnetd_inv qi'"
  using assms(2,3)
proof (induction rule: qnetd_step.induct)
  case (step_read c qi al junk recv nss qi')
  show ?case
  proof (cases "cl_schedule_disconnect (qi_client qi c)")
    case True
    with step_read show ?thesis by (simp add: qnetd_client_net_socket_poll_loop_read_cb_def)
  next
    case False
    with step_read obtain r q where "qnetd_client_net_read al junk nss aa recv c qi = Inr (r, q)"
      "qi' = mark_disconnect c r q"
      by (auto simp: qnetd_client_net_socket_poll_loop_read_cb_def bindE_Inr_iff)
    with net_read_inv [OF step_read.prems step_read.hyps(1) assms(1) step_read.hyps(2)] show ?thesis
      using qnetd_inv_links [OF mark_disconnect_links [OF same_links_refl]] by blast
  qed
next
  case (step_dpd_timer c qi r client)
  then have "same_id client (qi_client qi c)"
    by (auto simp: qnetd_dpd_timer_cb_def split: if_splits)
  with step_dpd_timer.prems show ?case
    by (auto intro: qnetd_inv_links same_links_upd_client)
next
  case (step_pre_poll al del qi r qi')
  have "distinct (qi_clients qi)"
    using step_pre_poll.prems cluster_list_wfD(1) by (auto simp: qnetd_inv_def)
  with pre_poll_inv [OF assms(1)] step_pre_poll show ?case
    unfolding qnetd_instance_poll_loop_pre_poll_cb_def by blast
next
  case (step_algo_timer c qi al r qi')
  with algo_timer_links [OF assms(1)] qnetd_inv_links show ?case by blast
qed (use accept_inv qnetd_inv_links [OF write_cb_links] qnetd_inv_links [OF err_cb_links] in blast)+

lemma qnetd_inv_instance_init: "qnetd_inv (qnetd_instance_init tls cert max_clients as)"
  by (simp add: qnetd_inv_def qnetd_instance_init_def cluster_list_wf_def cluster_uniform_def)

section \<open>Properties\<close>

text \<open>
  C1. In every state that the daemon reaches, with the four algorithms registered as the program
  does it and as long as no client that is in a cluster sends a second initialisation, the cluster list is consistent: clients and clusters point to each other, cluster names
  are unique, no cluster is empty, the clients of a cluster are sorted by node id without
  duplicates and agree on the decision algorithm and the tie-breaker, and the limit on the number
  of clients is kept.
\<close>

theorem qnetd_reachable_invariant:
  assumes "qnetd_reachable (snd (qnetd_algorithm_register_all (\<lambda>n. None))) qi"
  shows "cluster_list_wf qi \<and> cluster_uniform qi \<and>
    (qi_max_clients qi = 0 \<or> length (qi_clients qi) \<le> qi_max_clients qi)"
proof -
  have "qnetd_inv qi"
    using assms
    by (induction rule: qnetd_reachable.induct)
       (auto intro: qnetd_inv_instance_init qnetd_step_inv [OF registered_all])
  then show ?thesis by (simp add: qnetd_inv_def)
qed

theorem qnetd_reachable_invariant_witness:
  "let qi = snd (qnetd_client_net_accept ex_al \<lparr>ae_accept = True, ae_set_non_blocking = True,
       ae_addr_to_string = True, ae_port_fits = True, ae_add_prfd = True\<rparr>
       (qnetd_instance_init TLV_TLS_UNSUPPORTED False 1 ex_settings))
   in length (qi_clients qi) = 1 \<and> cluster_list_wf qi \<and> cluster_uniform qi \<and> length (qi_clients qi) \<le> qi_max_clients qi"
proof -
  let ?e = "\<lparr>ae_accept = True, ae_set_non_blocking = True, ae_addr_to_string = True, ae_port_fits = True,
     ae_add_prfd = True\<rparr>"
  let ?i = "qnetd_instance_init TLV_TLS_UNSUPPORTED False 1 ex_settings"
  obtain r qi where acc: "qnetd_client_net_accept ex_al ?e ?i = (r, qi)" by fastforce
  then have "qi_clients qi = [1]" "qi_max_clients qi = 1"
    by (auto simp: qnetd_client_net_accept_def qnetd_instance_init_def qnetd_client_list_add_def fresh_ref_def
        qnetd_client_list_no_clients_def on_client_def qnetd_client_dpd_timer_init_def timer_start_def
        timer_list_max_interval_def qnetd_client_init_def qnetd_default_heartbeat_interval_max_def
        ex_al_def ex_settings_def as_dpd_interval_def Let_def split: if_splits)
  moreover have "qnetd_reachable (snd (qnetd_algorithm_register_all (\<lambda>n. None))) qi"
    using reach_step [OF reach_init step_accept [OF acc]] .
  ultimately show ?thesis
    using qnetd_reachable_invariant [of qi] acc by simp
qed

end
