(* ===== verification/Timer_Heap.thy ===== *)
theory Timer_Heap
  imports Timer_List
begin

text \<open>
  Correctness of the timer list: the heap property on arrays of keys, the comparison of wrapping
  times, the invariant of the timer list and its preservation by every operation, and what the
  loop of \<open>timer_list_expire\<close> does.
\<close>

section \<open>Heaps in arrays\<close>

abbreviation par :: "nat \<Rightarrow> nat" where
  "par \<equiv> timer_list_heap_index_parent"

definition heap :: "nat list \<Rightarrow> bool" where
  "heap ks \<longleftrightarrow> (\<forall>j<length ks. 0 < j \<longrightarrow> ks ! par j \<le> ks ! j)"

text \<open>A heap except for the element at \<open>i\<close>, whose children still respect its parent.\<close>

definition heap_but :: "nat \<Rightarrow> nat list \<Rightarrow> bool" where
  "heap_but i ks \<longleftrightarrow>
     (\<forall>j<length ks. 0 < j \<and> j \<noteq> i \<and> par j \<noteq> i \<longrightarrow> ks ! par j \<le> ks ! j) \<and>
     (\<forall>j<length ks. 0 < j \<and> par j = i \<and> 0 < i \<longrightarrow> ks ! par i \<le> ks ! j)"

definition below_ok :: "nat \<Rightarrow> nat list \<Rightarrow> bool" where
  "below_ok i ks \<longleftrightarrow> (\<forall>j<length ks. 0 < j \<and> par j = i \<longrightarrow> ks ! i \<le> ks ! j)"

definition above_ok :: "nat \<Rightarrow> nat list \<Rightarrow> bool" where
  "above_ok i ks \<longleftrightarrow> (0 < i \<longrightarrow> ks ! par i \<le> ks ! i)"

lemma par_less [simp]: "0 < i \<Longrightarrow> par i < i"
  by (rule parent_less)

lemma par_bound: "0 < j \<Longrightarrow> j < n \<Longrightarrow> par j < n"
  using par_less [of j] by (meson order_less_trans)

lemma par_neq [simp]: "0 < i \<Longrightarrow> par i \<noteq> i"
  by (metis less_irrefl par_less)

lemma heap_iff: "i < length ks \<Longrightarrow> heap ks \<longleftrightarrow> heap_but i ks \<and> below_ok i ks \<and> above_ok i ks"
proof
  assume i: "i < length ks" and h: "heap ks"
  then have "ks ! par i \<le> ks ! j" if "j < length ks" "0 < j" "par j = i" "0 < i" for j
    using that unfolding heap_def by (metis order_trans)
  with i h show "heap_but i ks \<and> below_ok i ks \<and> above_ok i ks"
    by (auto simp: heap_but_def below_ok_def above_ok_def heap_def)
next
  assume "i < length ks" "heap_but i ks \<and> below_ok i ks \<and> above_ok i ks"
  then show "heap ks"
    unfolding heap_def heap_but_def below_ok_def above_ok_def by metis
qed

lemma heap_but_outside: "length ks \<le> i \<Longrightarrow> heap_but i ks \<Longrightarrow> heap ks"
  unfolding heap_def heap_but_def by (metis linorder_not_less order_less_trans par_less)

lemma up_step:
  assumes but: "heap_but i ks" and below: "below_ok i ks" and i: "0 < i" "i < length ks"
    and less: "ks ! i < ks ! par i"
  shows "heap_but (par i) (ks[par i := ks ! i, i := ks ! par i])"
    and "below_ok (par i) (ks[par i := ks ! i, i := ks ! par i])"
proof -
  let ?p = "par i" and ?ks = "ks[par i := ks ! i, i := ks ! par i]"
  have p: "?p < i" "?p < length ks" using i par_less [of i] by linarith+
  have nth: "?ks ! j = (if j = i then ks ! ?p else if j = ?p then ks ! i else ks ! j)" if "j < length ks" for j
    using that i p by (simp add: nth_list_update)
  have sib: "ks ! ?p \<le> ks ! j" if "j < length ks" "0 < j" "par j = ?p" "j \<noteq> i" for j
    using but that p unfolding heap_but_def by (metis less_irrefl)
  have gp: "ks ! par ?p \<le> ks ! ?p" if "0 < ?p"
    using but that p par_less [OF that] unfolding heap_but_def by (metis less_irrefl order_less_trans)
  show "heap_but ?p ?ks"
    unfolding heap_but_def
  proof (intro conjI allI impI)
    fix j assume j: "j < length ?ks" "0 < j \<and> j \<noteq> ?p \<and> par j \<noteq> ?p"
    then have ne: "j \<noteq> i" by auto
    have pj: "par j < length ks" using j par_bound [of j] by simp
    show "?ks ! par j \<le> ?ks ! j"
    proof (cases "par j = i")
      case True
      then show ?thesis using but j i ne p nth unfolding heap_but_def by auto
    next
      case False
      then show ?thesis using but j ne pj nth unfolding heap_but_def by auto
    qed
  next
    fix j assume j: "j < length ?ks" "0 < j \<and> par j = ?p \<and> 0 < ?p"
    have pp: "par ?p < ?p" using j by simp
    then have "?ks ! par ?p = ks ! par ?p" using p nth by simp
    moreover have "j \<noteq> ?p" using j by (metis par_neq)
    then have "ks ! par ?p \<le> ?ks ! j"
      using sib [of j] gp j nth by (cases "j = i") (auto intro: order_trans)
    ultimately show "?ks ! par ?p \<le> ?ks ! j" by simp
  qed
  show "below_ok ?p ?ks"
    unfolding below_ok_def using sib less nth p i by (auto intro: order_trans less_imp_le)
qed

lemma down_step:
  assumes but: "heap_but i ks" and above: "above_ok i ks" and i: "i < length ks"
    and s: "s < length ks" "0 < s" "par s = i" and less: "ks ! s < ks ! i"
    and least: "\<And>j. j < length ks \<Longrightarrow> 0 < j \<Longrightarrow> par j = i \<Longrightarrow> ks ! s \<le> ks ! j"
  shows "heap_but s (ks[i := ks ! s, s := ks ! i])" and "above_ok s (ks[i := ks ! s, s := ks ! i])"
proof -
  let ?ks = "ks[i := ks ! s, s := ks ! i]"
  have is_less: "i < s" using s par_less [of s] by auto
  have nth: "?ks ! j = (if j = s then ks ! i else if j = i then ks ! s else ks ! j)" if "j < length ks" for j
    using that i s by (simp add: nth_list_update)
  show "above_ok s ?ks"
    using s less is_less i nth by (auto simp: above_ok_def)
  show "heap_but s ?ks"
    unfolding heap_but_def
  proof (intro conjI allI impI)
    fix j assume j: "j < length ?ks" "0 < j \<and> j \<noteq> s \<and> par j \<noteq> s"
    have pj: "par j < length ks" "par j < j" using j par_bound [of j] by simp_all
    consider "j = i" | "par j = i" | "j \<noteq> i" "par j \<noteq> i" by blast
    then show "?ks ! par j \<le> ?ks ! j"
    proof cases
      case 1
      then have "ks ! par i \<le> ks ! s"
        using but s j unfolding heap_but_def by auto
      then show ?thesis using 1 j pj nth by auto
    next
      case 2
      then show ?thesis using least [of j] j pj nth by auto
    next
      case 3
      then show ?thesis using but j pj nth unfolding heap_but_def by auto
    qed
  next
    fix j assume j: "j < length ?ks" "0 < j \<and> par j = s \<and> 0 < s"
    have "s < j" using j par_less [of j] by auto
    have "ks ! s \<le> ks ! j"
      using but j s is_less \<open>s < j\<close> unfolding heap_but_def
      by (metis length_list_update less_irrefl order_less_trans)
    then show "?ks ! par s \<le> ?ks ! j" using s j i is_less \<open>s < j\<close> nth by auto
  qed
qed

lemma heap_append:
  assumes "heap ks"
  shows "heap_but (length ks) (ks @ [k])" and "below_ok (length ks) (ks @ [k])"
proof -
  have no_child: "par j \<noteq> length ks" if "j < length (ks @ [k])" "0 < j" for j
    using par_bound [of j "length ks"] that by (auto simp: less_Suc_eq)
  then show "below_ok (length ks) (ks @ [k])"
    by (auto simp: below_ok_def)
  have "(ks @ [k]) ! par j \<le> (ks @ [k]) ! j" if "j < length (ks @ [k])" "0 < j" "j \<noteq> length ks" for j
    using assms that par_bound [of j "length ks"] by (simp add: nth_append heap_def)
  with no_child show "heap_but (length ks) (ks @ [k])"
    by (auto simp: heap_but_def)
qed

lemma heap_replace:
  assumes h: "heap ks" and i: "i < length ks"
  shows "heap_but i (butlast (ks[i := last ks]))"
    and "last ks \<le> ks ! i \<Longrightarrow> below_ok i (butlast (ks[i := last ks]))"
    and "ks ! i \<le> last ks \<Longrightarrow> i < length ks - 1 \<Longrightarrow> above_ok i (butlast (ks[i := last ks]))"
proof -
  let ?ks = "butlast (ks[i := last ks])"
  have nth: "?ks ! j = (if j = i then last ks else ks ! j)" if "j < length ks - 1" for j
    using that by (simp add: nth_butlast nth_list_update)
  have edge: "ks ! par j \<le> ks ! j" if "j < length ks" "0 < j" for j
    using h that by (simp add: heap_def)
  have gp: "ks ! par i \<le> ks ! j" if "j < length ks" "0 < j" "par j = i" "0 < i" for j
    using edge [of j] edge [of i] that i by (auto intro: order_trans)
  have pl: "par j < length ks - 1" if "j < length ks - 1" "0 < j" for j
    using par_less [of j] that by linarith
  show "heap_but i ?ks"
    unfolding heap_but_def using edge gp pl nth i par_neq by (auto simp: less_diff_conv)
  show "below_ok i ?ks" if "last ks \<le> ks ! i"
    unfolding below_ok_def using edge that pl nth i
    by (auto simp: less_diff_conv intro: order_trans)
  show "above_ok i ?ks" if "ks ! i \<le> last ks" "i < length ks - 1"
    unfolding above_ok_def using edge [of i] that pl nth i by (auto intro: order_trans)
qed

lemma heap_root_least: "heap ks \<Longrightarrow> i < length ks \<Longrightarrow> ks ! 0 \<le> ks ! i"
proof (induction i rule: less_induct)
  case (less i)
  show ?case
  proof (cases "i = 0")
    case False
    then have "ks ! 0 \<le> ks ! par i"
      using less par_less [of i] by (meson order_less_trans neq0_conv)
    with False less.prems show ?thesis
      unfolding heap_def by (metis neq0_conv order_trans)
  qed simp
qed

section \<open>Times that wrap around\<close>

text \<open>
  All times are seen from a base \<open>b\<close>. An entry is in the window of \<open>b\<close> when it was planned after \<open>b\<close>,
  expires later than it was planned, and expires before half of the range of tick counts is over.
\<close>

definition expire_key :: "u32 \<Rightarrow> timer_list_entry \<Rightarrow> nat" where
  "expire_key b e = unat (te_expire_time e - b)"

definition in_window :: "u32 \<Rightarrow> timer_list_entry \<Rightarrow> bool" where
  "in_window b e \<longleftrightarrow> unat (te_epoch e - b) < expire_key b e \<and> expire_key b e < 2 ^ 31"

lemma unat_sub_32: "unat (x - y :: u32) = (if unat y \<le> unat x then unat x - unat y else unat x + 2 ^ 32 - unat y)"
  by (simp add: unat_sub_if_size word_size)

lemma time_to_expire_key:
  assumes "expire_key b e < 2 ^ 31" and "unat (t - b) < 2 ^ 31"
  shows "unat (timer_list_entry_time_to_expire e t) = expire_key b e - unat (t - b)"
proof -
  let ?d = "te_expire_time e - t"
  have "?d = (te_expire_time e - b) - (t - b)" by simp
  then have d: "unat ?d = (if unat (t - b) \<le> expire_key b e then expire_key b e - unat (t - b)
      else expire_key b e + 2 ^ 32 - unat (t - b))"
    unfolding expire_key_def by (metis unat_sub_32)
  have "unat ((- 1) div 2 :: u32) = 2147483647"
    by (simp add: unat_div)
  then have "?d > (- 1) div 2 \<longleftrightarrow> \<not> unat (t - b) \<le> expire_key b e"
    using d assms by (auto simp: word_less_nat_alt)
  with d assms show ?thesis
    by (auto simp: timer_list_entry_time_to_expire_def Let_def)
qed

lemma cmp_key:
  assumes "in_window b e2" and "expire_key b e1 < 2 ^ 31"
  shows "timer_list_entry_cmp e1 e2 (te_epoch e2) =
    (if expire_key b e1 > expire_key b e2 then 1
     else if expire_key b e1 < expire_key b e2 then -1 else 0)"
proof -
  have w: "unat (te_epoch e2 - b) < expire_key b e2" "unat (te_epoch e2 - b) < 2 ^ 31" "expire_key b e2 < 2 ^ 31"
    using assms(1) by (auto simp: in_window_def)
  note k1 = time_to_expire_key [OF assms(2) w(2)] and k2 = time_to_expire_key [OF w(3) w(2)]
  show ?thesis
    using w(1) by (auto simp: timer_list_entry_cmp_def Let_def word_less_nat_alt k1 k2)
qed

section \<open>The invariant\<close>

definition pos_ok :: "timer_list \<Rightarrow> bool" where
  "pos_ok tlist \<longleftrightarrow> distinct (tl_entries tlist) \<and>
     (\<forall>i<length (tl_entries tlist). te_heap_pos (tl_entry tlist (tl_entries tlist ! i)) = i)"

definition expire_keys :: "u32 \<Rightarrow> timer_list \<Rightarrow> nat list" where
  "expire_keys b tlist = map (\<lambda>r. expire_key b (tl_entry tlist r)) (tl_entries tlist)"

definition windows_ok :: "u32 \<Rightarrow> timer_list \<Rightarrow> bool" where
  "windows_ok b tlist \<longleftrightarrow> (\<forall>r\<in>set (tl_entries tlist). in_window b (tl_entry tlist r))"

text \<open>Everything but the order of the array and the positions is unchanged.\<close>

definition same_timers :: "timer_list \<Rightarrow> timer_list \<Rightarrow> bool" where
  "same_timers a b \<longleftrightarrow>
     mset (tl_entries a) = mset (tl_entries b) \<and> tl_allocated a = tl_allocated b \<and>
     tl_free_list a = tl_free_list b \<and>
     (\<forall>r. (tl_entry a r)\<lparr>te_heap_pos := 0\<rparr> = (tl_entry b r)\<lparr>te_heap_pos := 0\<rparr>)"

lemma same_timers_refl [simp]: "same_timers a a"
  by (simp add: same_timers_def)

lemma same_timers_trans: "same_timers a b \<Longrightarrow> same_timers b c \<Longrightarrow> same_timers a c"
  by (simp add: same_timers_def)

lemma eq_but_posD:
  assumes "(e :: timer_list_entry)\<lparr>te_heap_pos := 0\<rparr> = e'\<lparr>te_heap_pos := 0\<rparr>"
  shows "te_epoch e = te_epoch e'" "te_interval e = te_interval e'" "te_expire_time e = te_expire_time e'"
    "te_func e = te_func e'" "te_is_active e = te_is_active e'"
  using assms by (cases e; cases e'; simp)+

lemma same_timersD:
  assumes "same_timers a b"
  shows "mset (tl_entries a) = mset (tl_entries b)" "set (tl_entries a) = set (tl_entries b)"
    "length (tl_entries a) = length (tl_entries b)" "tl_allocated a = tl_allocated b"
    "tl_free_list a = tl_free_list b"
    "te_epoch (tl_entry a r) = te_epoch (tl_entry b r)"
    "te_interval (tl_entry a r) = te_interval (tl_entry b r)"
    "te_expire_time (tl_entry a r) = te_expire_time (tl_entry b r)"
    "te_func (tl_entry a r) = te_func (tl_entry b r)"
    "te_is_active (tl_entry a r) = te_is_active (tl_entry b r)"
  using assms eq_but_posD [of "tl_entry a r" "tl_entry b r"]
  by (auto simp: same_timers_def dest: mset_eq_setD mset_eq_length)

lemma same_timers_window:
  assumes "same_timers a b"
  shows "expire_key w (tl_entry a r) = expire_key w (tl_entry b r)"
    and "in_window w (tl_entry a r) = in_window w (tl_entry b r)"
    and "windows_ok w a = windows_ok w b"
  using same_timersD [OF assms] by (auto simp: expire_key_def in_window_def windows_ok_def)

lemma heap_get_in [simp]:
  "i < length (tl_entries tlist) \<Longrightarrow> timer_list_heap_entry_get tlist i = Inr (tl_entries tlist ! i)"
  by (simp add: timer_list_heap_entry_get_def)

lemma length_expire_keys [simp]: "length (expire_keys b tlist) = length (tl_entries tlist)"
  by (simp add: expire_keys_def)

lemma nth_expire_keys [simp]:
  "i < length (tl_entries tlist) \<Longrightarrow>
   expire_keys b tlist ! i = expire_key b (tl_entry tlist (tl_entries tlist ! i))"
  by (simp add: expire_keys_def)

lemma heap_swap_ok:
  assumes "pos_ok tlist" and "i < length (tl_entries tlist)" "j < length (tl_entries tlist)" "i \<noteq> j"
  obtains t where "heap_swap tlist i (tl_entries tlist ! j) j (tl_entries tlist ! i) = Inr t"
    and "same_timers t tlist" and "pos_ok t"
    and "tl_entries t = (tl_entries tlist)[i := tl_entries tlist ! j, j := tl_entries tlist ! i]"
    and "expire_keys b t = (expire_keys b tlist)[i := expire_keys b tlist ! j, j := expire_keys b tlist ! i]"
proof -
  let ?es = "tl_entries tlist"
  let ?es' = "?es[i := ?es ! j, j := ?es ! i]"
  define t where "t = upd_timer (?es ! i) (\<lambda>e. e\<lparr>te_heap_pos := j\<rparr>)
    (upd_timer (?es ! j) (\<lambda>e. e\<lparr>te_heap_pos := i\<rparr>) (tlist\<lparr>tl_entries := ?es'\<rparr>))"
  have dist: "distinct ?es" and ne: "?es ! i \<noteq> ?es ! j"
    using assms by (auto simp: pos_ok_def nth_eq_iff_index_eq)
  have run: "heap_swap tlist i (?es ! j) j (?es ! i) = Inr t"
    using assms(2,3) by (simp add: heap_swap_def timer_list_heap_entry_set_def t_def upd_timer_def)
  have es: "tl_entries t = ?es'" by (simp add: t_def upd_timer_def)
  have ms: "mset ?es' = mset ?es"
    using assms(2,3) by (simp add: mset_swap)
  have "(tl_entry t r)\<lparr>te_heap_pos := 0\<rparr> = (tl_entry tlist r)\<lparr>te_heap_pos := 0\<rparr>" for r
    by (simp add: t_def upd_timer_def)
  then have same: "same_timers t tlist"
    using ms es by (simp add: same_timers_def t_def upd_timer_def)
  have pos: "te_heap_pos (tl_entry t (?es' ! m)) = m" if "m < length ?es" for m
    using that assms ne dist by (auto simp: t_def upd_timer_def nth_list_update pos_ok_def nth_eq_iff_index_eq)
  have "distinct ?es'"
    using dist ms by (metis mset_eq_imp_distinct_iff)
  with pos es have ok: "pos_ok t" by (simp add: pos_ok_def)
  have "expire_keys b t = (expire_keys b tlist)[i := expire_keys b tlist ! j, j := expire_keys b tlist ! i]"
    using assms(2,3) same_timers_window(1) [OF same]
    by (simp add: expire_keys_def es map_update)
  with run same ok es that show ?thesis by blast
qed

lemma sift_up_loop_ok:
  assumes "pos_ok tlist" and "windows_ok b tlist" and "i < length (tl_entries tlist)"
    and "heap_but i (expire_keys b tlist)" and "below_ok i (expire_keys b tlist)"
  shows "\<exists>t. sift_up_loop tlist (tl_entries tlist ! i) i = Inr t \<and> same_timers t tlist \<and> pos_ok t \<and>
    heap (expire_keys b t)"
  using assms
proof (induction i arbitrary: tlist rule: less_induct)
  case (less i)
  let ?es = "tl_entries tlist" and ?ks = "expire_keys b tlist"
  have hp: "heap ?ks" if "above_ok i ?ks"
    using heap_iff [of i ?ks] less.prems that by simp
  show ?case
  proof (cases "i = 0")
    case True
    then show ?thesis
      using hp less.prems by (simp add: sift_up_loop.simps [of tlist] above_ok_def)
  next
    case False
    then have p: "par i < i" "par i < length ?es" using less.prems(3) par_bound by simp_all
    have cmp: "timer_list_entry_cmp (tl_entry tlist (?es ! par i)) (tl_entry tlist (?es ! i))
        (te_epoch (tl_entry tlist (?es ! i))) > 0 \<longleftrightarrow> ?ks ! i < ?ks ! par i"
      using less.prems(2,3) p(2)
      by (subst cmp_key [of b]) (auto simp: windows_ok_def in_window_def)
    show ?thesis
    proof (cases "?ks ! i < ?ks ! par i")
      case False
      then show ?thesis
        using hp less.prems p cmp \<open>i \<noteq> 0\<close>
        by (simp add: sift_up_loop.simps [of tlist] above_ok_def Let_def)
    next
      case True
      obtain t where t: "heap_swap tlist (par i) (?es ! i) i (?es ! par i) = Inr t"
        "same_timers t tlist" "pos_ok t"
        "tl_entries t = ?es[par i := ?es ! i, i := ?es ! par i]"
        "expire_keys b t = ?ks[par i := ?ks ! i, i := ?ks ! par i]"
        using heap_swap_ok [OF less.prems(1) p(2) less.prems(3)] p(1) by (metis less_irrefl)
      note up = up_step [OF less.prems(4,5) _ _ True]
      have nth: "tl_entries t ! par i = ?es ! i"
        using t(4) p less.prems(3) by (simp add: nth_list_update)
      have "\<exists>u. sift_up_loop t (?es ! i) (par i) = Inr u \<and> same_timers u t \<and> pos_ok u \<and>
          heap (expire_keys b u)"
        using less.IH [OF p(1) t(3)] up t p less.prems(2,3) False same_timers_window(3) [OF t(2)] nth
        by simp
      then show ?thesis
        using t(1,2) cmp True p False same_timers_trans
        by (simp add: sift_up_loop.simps [of tlist] Let_def) blast
    qed
  qed
qed

lemma sift_up_ok:
  assumes "pos_ok tlist" and "windows_ok b tlist" and "i < length (tl_entries tlist)"
    and "heap_but i (expire_keys b tlist)" and "below_ok i (expire_keys b tlist)"
  shows "\<exists>t. timer_list_heap_sift_up tlist i = Inr t \<and> same_timers t tlist \<and> pos_ok t \<and>
    heap (expire_keys b t)"
  using sift_up_loop_ok [OF assms] assms(3) by (simp add: timer_list_heap_sift_up_def)

lemma child_iff:
  "0 < j \<and> par j = i \<longleftrightarrow> j = timer_list_heap_index_left i \<or> j = timer_list_heap_index_right i"
  by (auto simp: timer_list_heap_index_parent_def timer_list_heap_index_left_def
      timer_list_heap_index_right_def)

lemma smaller_pos_ok:
  assumes "windows_ok b tlist" and "s < length (tl_entries tlist)"
  shows "smaller_pos tlist c s =
    Inr (if c < length (tl_entries tlist) \<and> expire_keys b tlist ! c < expire_keys b tlist ! s then c else s)"
proof (cases "c < length (tl_entries tlist)")
  case True
  let ?e = "\<lambda>i. tl_entry tlist (tl_entries tlist ! i)"
  have "in_window b (?e s)" "expire_key b (?e c) < 2 ^ 31"
    using assms True by (auto simp: windows_ok_def in_window_def)
  from cmp_key [OF this] True assms(2) show ?thesis
    by (auto simp: smaller_pos_def)
qed (simp add: smaller_pos_def)

lemma smallest_child_ok:
  assumes "windows_ok b tlist" and "i < length (tl_entries tlist)"
  obtains (stop) "smallest_child tlist i = Inr i" "below_ok i (expire_keys b tlist)"
  | (child) s where "smallest_child tlist i = Inr s" "s < length (tl_entries tlist)" "0 < s" "par s = i"
      "expire_keys b tlist ! s < expire_keys b tlist ! i"
      "\<And>j. j < length (expire_keys b tlist) \<Longrightarrow> 0 < j \<Longrightarrow> par j = i \<Longrightarrow>
        expire_keys b tlist ! s \<le> expire_keys b tlist ! j"
proof -
  let ?ks = "expire_keys b tlist" and ?n = "length (tl_entries tlist)"
  let ?l = "timer_list_heap_index_left i" and ?r = "timer_list_heap_index_right i"
  define s1 where "s1 = (if ?l < ?n \<and> ?ks ! ?l < ?ks ! i then ?l else i)"
  define s where "s = (if ?r < ?n \<and> ?ks ! ?r < ?ks ! s1 then ?r else s1)"
  have "s1 < ?n" using assms(2) by (simp add: s1_def)
  then have sp: "smaller_pos tlist ?l i = Inr s1" "smaller_pos tlist ?r s1 = Inr s"
    unfolding s_def s1_def using assms by (simp_all only: smaller_pos_ok)
  have run: "smallest_child tlist i = Inr s"
    using assms(2) by (simp add: smallest_child_def sp)
  have ne: "?l \<noteq> i" "?r \<noteq> i" "?l \<noteq> ?r"
    by (simp_all add: timer_list_heap_index_left_def timer_list_heap_index_right_def)
  have kids: "j = ?l \<or> j = ?r" if "0 < j" "par j = i" for j
    using child_iff [of j i] that by blast
  have least: "?ks ! s \<le> ?ks ! j" if "j < ?n" "0 < j" "par j = i" for j
    using kids [OF that(2,3)] that(1) by (auto simp: s_def s1_def)
  show ?thesis
  proof (cases "s = i")
    case True
    with run least show ?thesis by (intro stop) (auto simp: below_ok_def simp del: nth_expire_keys)
  next
    case False
    then have "s = ?l \<or> s = ?r" "s < ?n" "?ks ! s < ?ks ! i"
      using assms(2) by (auto simp: s_def s1_def simp del: nth_expire_keys split: if_splits)
    with run least child_iff [of s i] show ?thesis
      by (intro child) (auto simp del: nth_expire_keys)
  qed
qed

lemma sift_down_ok:
  assumes "pos_ok tlist" and "windows_ok b tlist" and "i < length (tl_entries tlist)"
    and "heap_but i (expire_keys b tlist)" and "above_ok i (expire_keys b tlist)"
  shows "\<exists>t. timer_list_heap_sift_down tlist i = Inr t \<and> same_timers t tlist \<and> pos_ok t \<and>
    heap (expire_keys b t)"
  using assms
proof (induction "length (tl_entries tlist) - i" arbitrary: i tlist rule: less_induct)
  case less
  let ?es = "tl_entries tlist" and ?ks = "expire_keys b tlist"
  from less.prems(2,3) show ?case
  proof (cases rule: smallest_child_ok)
    case stop
    then show ?thesis
      using less.prems heap_iff [of i ?ks] by (simp add: timer_list_heap_sift_down.simps [of tlist])
  next
    case (child s)
    then have lt: "i < s" by (metis par_less)
    obtain t where t: "heap_swap tlist i (?es ! s) s (?es ! i) = Inr t" "same_timers t tlist" "pos_ok t"
      "expire_keys b t = ?ks[i := ?ks ! s, s := ?ks ! i]"
      using heap_swap_ok [OF less.prems(1,3) child(2)] lt by (metis less_irrefl)
    have len: "length (tl_entries t) = length ?es" using same_timersD(3) [OF t(2)] .
    have down: "heap_but s (?ks[i := ?ks ! s, s := ?ks ! i])" "above_ok s (?ks[i := ?ks ! s, s := ?ks ! i])"
      using down_step [OF less.prems(4,5) _ _ child(3,4,5,6)] child(2) less.prems(3)
      by (metis length_expire_keys)+
    have "\<exists>u. timer_list_heap_sift_down t s = Inr u \<and> same_timers u t \<and> pos_ok u \<and> heap (expire_keys b u)"
    proof (rule less.hyps)
      show "length (tl_entries t) - s < length ?es - i" using len lt child(2) by simp
      show "windows_ok b t" using less.prems(2) same_timers_window(3) [OF t(2)] by simp
      show "pos_ok t" by (rule t(3))
      show "s < length (tl_entries t)" using len child(2) by simp
      show "heap_but s (expire_keys b t)" "above_ok s (expire_keys b t)"
        unfolding t(4) by (rule down)+
    qed
    then obtain u where "timer_list_heap_sift_down t s = Inr u" "same_timers u t" "pos_ok u"
      "heap (expire_keys b u)" by blast
    moreover have "timer_list_heap_sift_down tlist i = timer_list_heap_sift_down t s"
      using child(1,2) lt t(1) less.prems(3) by (subst timer_list_heap_sift_down.simps) simp
    ultimately show ?thesis using t(2) same_timers_trans by auto
  qed
qed

section \<open>Deleting and inserting\<close>

definition heap_inv :: "u32 \<Rightarrow> timer_list \<Rightarrow> bool" where
  "heap_inv b tlist \<longleftrightarrow> pos_ok tlist \<and> windows_ok b tlist \<and> heap (expire_keys b tlist)"

text \<open>The entries that the code keeps, up to their positions, and the rest of the list.\<close>

definition same_data :: "timer_list \<Rightarrow> timer_list \<Rightarrow> bool" where
  "same_data a b \<longleftrightarrow> tl_allocated a = tl_allocated b \<and> tl_free_list a = tl_free_list b \<and>
     (\<forall>r. (tl_entry a r)\<lparr>te_heap_pos := 0\<rparr> = (tl_entry b r)\<lparr>te_heap_pos := 0\<rparr>)"

lemma same_timers_data: "same_timers a b \<longleftrightarrow> same_data a b \<and> mset (tl_entries a) = mset (tl_entries b)"
  by (auto simp: same_timers_def same_data_def)

lemma same_dataD:
  assumes "same_data a b"
  shows "tl_allocated a = tl_allocated b" "tl_free_list a = tl_free_list b"
    "te_epoch (tl_entry a r) = te_epoch (tl_entry b r)"
    "te_interval (tl_entry a r) = te_interval (tl_entry b r)"
    "te_expire_time (tl_entry a r) = te_expire_time (tl_entry b r)"
    "te_is_active (tl_entry a r) = te_is_active (tl_entry b r)"
  using assms eq_but_posD [of "tl_entry a r" "tl_entry b r"] by (auto simp: same_data_def)

lemma same_data_window:
  assumes "same_data a b"
  shows "expire_key w (tl_entry a r) = expire_key w (tl_entry b r)"
    and "in_window w (tl_entry a r) = in_window w (tl_entry b r)"
  using same_dataD [OF assms] by (simp_all add: expire_key_def in_window_def)

lemma same_data_trans: "same_data a b \<Longrightarrow> same_data b c \<Longrightarrow> same_data a c"
  by (simp add: same_data_def)

lemma heap_pos_nth:
  assumes "pos_ok tlist" and "r \<in> set (tl_entries tlist)"
  shows "te_heap_pos (tl_entry tlist r) < length (tl_entries tlist)"
    and "tl_entries tlist ! te_heap_pos (tl_entry tlist r) = r"
  using assms by (auto simp: pos_ok_def in_set_conv_nth)

lemma mset_replace_last:
  assumes "i < length es"
  shows "mset (butlast (es[i := last es])) = mset es - {#es ! i#}"
proof -
  have "es \<noteq> []" using assms by auto
  then have es: "es = butlast es @ [last es]" by simp
  show ?thesis
  proof (cases "i = length es - 1")
    case True
    then have "es[i := last es] = es" using \<open>es \<noteq> []\<close> by (simp add: last_conv_nth)
    then have "mset es = mset (butlast es) + {#es ! i#}" using es True \<open>es \<noteq> []\<close>
      by (metis last_conv_nth mset.simps(1) mset.simps(2) mset_append add_mset_add_single empty_neutral(1))
    then show ?thesis using \<open>es[i := last es] = es\<close> by simp
  next
    case False
    with assms have i: "i < length (butlast es)" by simp
    have "es[i := last es] = (butlast es)[i := last es] @ [last es]"
      by (subst es) (simp only: list_update_append1 [OF i])
    then have "mset (butlast (es[i := last es])) = add_mset (last es) (mset (butlast es) - {#butlast es ! i#})"
      using i by (simp add: mset_update)
    moreover have "mset es = add_mset (last es) (mset (butlast es))"
      by (subst es) simp
    moreover have "es ! i = butlast es ! i" using i by (simp add: nth_butlast)
    ultimately show ?thesis
      using i by (metis add_mset_diff_bothsides add_mset_remove_trivial diff_union_swap insert_DiffM nth_mem_mset)
  qed
qed

text \<open>The state of \<open>timer_list_heap_delete\<close> before it restores the heap.\<close>

lemma heap_delete_middle:
  assumes inv: "heap_inv b tlist" and r: "r \<in> set (tl_entries tlist)"
  defines "i \<equiv> te_heap_pos (tl_entry tlist r)" and "es \<equiv> tl_entries tlist"
  obtains t where
    "timer_list_heap_delete tlist r =
       (let c = timer_list_entry_cmp (tl_entry t (last es)) (tl_entry t r) (te_epoch (tl_entry t r))
        in if c < 0 then timer_list_heap_sift_up t i
           else if c > 0 then timer_list_heap_sift_down t i else Inr t)"
    "same_data t tlist" "mset (tl_entries t) = mset es - {#r#}" "length (tl_entries t) = length es - 1"
    "pos_ok t" "windows_ok b t"
    "expire_keys b t = butlast ((expire_keys b tlist)[i := last (expire_keys b tlist)])"
proof -
  have pos: "pos_ok tlist" and win: "windows_ok b tlist" using inv by (simp_all add: heap_inv_def)
  have i: "i < length es" "es ! i = r" using heap_pos_nth [OF pos r] by (simp_all add: i_def es_def)
  have ne: "es \<noteq> []" using i(1) by auto
  define t where "t = (upd_timer (last es) (\<lambda>e. e\<lparr>te_heap_pos := i\<rparr>)
    (upd_timer r (\<lambda>e. e\<lparr>te_heap_pos := no_heap_pos\<rparr>) tlist))\<lparr>tl_entries := butlast (es[i := last es])\<rparr>"
  have run: "timer_list_heap_delete tlist r =
       (let c = timer_list_entry_cmp (tl_entry t (last es)) (tl_entry t r) (te_epoch (tl_entry t r))
        in if c < 0 then timer_list_heap_sift_up t i
           else if c > 0 then timer_list_heap_sift_down t i else Inr t)"
    using i ne
    by (simp add: timer_list_heap_delete_def timer_list_heap_entry_set_def timer_list_heap_entry_get_def
        Let_def upd_timer_def t_def es_def last_conv_nth flip: i_def)
  have data: "same_data t tlist"
    by (simp add: same_data_def t_def upd_timer_def)
  have ms: "mset (tl_entries t) = mset es - {#r#}"
    using mset_replace_last [OF i(1)] i(2) by (simp add: t_def)
  have dist: "distinct es" using pos by (simp add: pos_ok_def es_def)
  have nth: "tl_entries t ! m = (if m = i then last es else es ! m)" if "m < length es - 1" for m
    using that by (simp add: t_def nth_butlast nth_list_update)
  have dt: "distinct (tl_entries t)"
    using dist ms by (metis distinct_count_atmost_1 mset_remove1 distinct_remove1 set_mset_mset mset_eq_imp_distinct_iff)
  have "te_heap_pos (tl_entry t (tl_entries t ! m)) = m" if "m < length es - 1" for m
  proof (cases "m = i")
    case True
    then show ?thesis using nth [OF that] by (simp add: t_def upd_timer_def)
  next
    case False
    have "es ! m \<noteq> last es" "es ! m \<noteq> r"
      using that False i ne dist by (auto simp: last_conv_nth nth_eq_iff_index_eq)
    then show ?thesis
      using nth [OF that] False that pos by (auto simp: t_def upd_timer_def pos_ok_def es_def)
  qed
  then have pt: "pos_ok t" using dt by (simp add: pos_ok_def t_def)
  have "set (tl_entries t) \<subseteq> set es"
    using ms by (metis diff_subset_eq_self set_mset_mono set_mset_mset)
  then have wt: "windows_ok b t"
    using win same_data_window(2) [OF data] by (auto simp: windows_ok_def es_def)
  have "expire_keys b t = butlast ((expire_keys b tlist)[i := last (expire_keys b tlist)])"
    using ne same_data_window(1) [OF data]
    by (simp add: expire_keys_def t_def map_butlast map_update last_map flip: es_def)
  moreover have "length (tl_entries t) = length es - 1" by (simp add: t_def)
  ultimately show thesis by (intro that [OF run data ms _ pt wt])
qed

lemma heap_delete_ok:
  assumes inv: "heap_inv b tlist" and r: "r \<in> set (tl_entries tlist)"
  obtains t where "timer_list_heap_delete tlist r = Inr t" "heap_inv b t" "same_data t tlist"
    "mset (tl_entries t) = mset (tl_entries tlist) - {#r#}"
proof -
  let ?i = "te_heap_pos (tl_entry tlist r)" and ?es = "tl_entries tlist" and ?ks = "expire_keys b tlist"
  have pos: "pos_ok tlist" and win: "windows_ok b tlist" and hp: "heap ?ks"
    using inv by (simp_all add: heap_inv_def)
  have i: "?i < length ?es" "?es ! ?i = r" using heap_pos_nth [OF pos r] .
  have ne: "?es \<noteq> []" using i(1) by auto
  have ik: "?i < length ?ks" using i(1) by simp
  from inv r obtain t where t:
    "timer_list_heap_delete tlist r =
       (let c = timer_list_entry_cmp (tl_entry t (last ?es)) (tl_entry t r) (te_epoch (tl_entry t r))
        in if c < 0 then timer_list_heap_sift_up t ?i
           else if c > 0 then timer_list_heap_sift_down t ?i else Inr t)"
    "same_data t tlist" "mset (tl_entries t) = mset ?es - {#r#}" "length (tl_entries t) = length ?es - 1"
    "pos_ok t" "windows_ok b t" "expire_keys b t = butlast (?ks[?i := last ?ks])"
    by (rule heap_delete_middle)
  have last: "last ?ks = expire_key b (tl_entry tlist (last ?es))"
    using ne by (simp add: expire_keys_def last_map)
  have "in_window b (tl_entry t r)"
    using win r same_data_window(2) [OF t(2)] by (simp add: windows_ok_def)
  moreover have "expire_key b (tl_entry t (last ?es)) < 2 ^ 31"
    using win ne same_data_window(1) [OF t(2)] by (simp add: windows_ok_def in_window_def)
  ultimately have "timer_list_entry_cmp (tl_entry t (last ?es)) (tl_entry t r) (te_epoch (tl_entry t r)) =
      (if expire_key b (tl_entry t (last ?es)) > expire_key b (tl_entry t r) then 1
       else if expire_key b (tl_entry t (last ?es)) < expire_key b (tl_entry t r) then -1 else 0)"
    by (rule cmp_key)
  then have run: "timer_list_heap_delete tlist r =
      (if last ?ks < ?ks ! ?i then timer_list_heap_sift_up t ?i
       else if last ?ks > ?ks ! ?i then timer_list_heap_sift_down t ?i else Inr t)"
    unfolding t(1) using i last same_data_window(1) [OF t(2)] by (simp add: Let_def)
  note but = heap_replace(1) [OF hp ik, folded t(7)]
    and below = heap_replace(2) [OF hp ik, folded t(7)] and above = heap_replace(3) [OF hp ik, folded t(7)]
  have in_t: "?i < length (tl_entries t)" if "last ?ks \<noteq> ?ks ! ?i"
  proof -
    have "?i \<noteq> length ?ks - 1" using that ne by (metis last_conv_nth length_0_conv length_expire_keys)
    with i(1) t(4) show ?thesis by simp
  qed
  have "\<exists>u. timer_list_heap_delete tlist r = Inr u \<and> same_timers u t \<and> pos_ok u \<and> heap (expire_keys b u)"
  proof (cases "last ?ks < ?ks ! ?i")
    case True
    then show ?thesis
      using sift_up_ok [OF t(5,6) in_t but below] run by simp
  next
    case nl: False
    show ?thesis
    proof (cases "last ?ks > ?ks ! ?i")
      case True
      then show ?thesis
        using sift_down_ok [OF t(5,6) in_t but above] run nl in_t t(4) by simp
    next
      case False
      then have eq: "last ?ks = ?ks ! ?i" using nl by simp
      have "heap (expire_keys b t)"
      proof (cases "?i < length (tl_entries t)")
        case True
        then show ?thesis using heap_iff [of ?i "expire_keys b t"] but below above eq t(4) by simp
      next
        case False
        then show ?thesis using heap_but_outside [OF _ but] by simp
      qed
      then show ?thesis using run eq t(5) by auto
    qed
  qed
  then obtain u where u: "timer_list_heap_delete tlist r = Inr u" "same_timers u t" "pos_ok u"
    "heap (expire_keys b u)" by blast
  then show thesis
    using that [OF u(1)] t(2,3,6) same_timers_window(3) [OF u(2)] same_data_trans [of u t tlist]
    by (simp add: heap_inv_def same_timers_data)
qed

text \<open>The new time of an entry, and the condition under which it stays in the window.\<close>

definition set_expire :: "(u32 \<Rightarrow> u32) \<Rightarrow> timer_list_entry \<Rightarrow> timer_list_entry" where
  "set_expire ms e = e\<lparr>te_expire_time := te_epoch e + ms (te_interval e)\<rparr>"

definition fits :: "(u32 \<Rightarrow> u32) \<Rightarrow> u32 \<Rightarrow> u32 \<Rightarrow> u32 \<Rightarrow> bool" where
  "fits ms b now interval \<longleftrightarrow> 0 < ms interval \<and> unat (now - b) + unat (ms interval) < 2 ^ 31"

lemma fits_key:
  assumes "fits ms b now interval" and "te_epoch e = now" and "te_interval e = interval"
  shows "expire_key b (set_expire ms e) = unat (now - b) + unat (ms interval)"
    and "in_window b (set_expire ms e)"
proof -
  have "te_expire_time (set_expire ms e) - b = (now - b) + ms interval"
    using assms(2,3) by (simp add: set_expire_def)
  then have "expire_key b (set_expire ms e) = unat ((now - b) + ms interval)"
    by (simp only: expire_key_def)
  moreover have "unat ((now - b) + ms interval) = unat (now - b) + unat (ms interval)"
    using assms(1) by (intro unat_add_lem [THEN iffD1]) (simp add: fits_def)
  ultimately show k: "expire_key b (set_expire ms e) = unat (now - b) + unat (ms interval)"
    by simp
  have "0 < unat (ms interval)"
    using assms(1) by (simp add: fits_def word_greater_zero_iff unat_gt_0)
  then show "in_window b (set_expire ms e)"
    using k assms by (auto simp: in_window_def fits_def set_expire_def)
qed

lemma insert_ok:
  assumes inv: "heap_inv b tlist" and r: "r \<notin> set (tl_entries tlist)"
    and win: "in_window b (set_expire ms (tl_entry tlist r))"
    and room: "length (tl_entries tlist) \<le> tl_allocated tlist"
  obtains (full) "length (tl_entries tlist) + 1 > tl_allocated tlist"
      "timer_list_insert_into_list al ms tlist r = Inr (-1, upd_timer r (set_expire ms) tlist)"
  | (inserted) t where "timer_list_insert_into_list al ms tlist r = Inr (0, t)" "heap_inv b t"
      "mset (tl_entries t) = add_mset r (mset (tl_entries tlist))"
      "tl_free_list t = tl_free_list tlist" "length (tl_entries t) \<le> tl_allocated t"
      "\<forall>q. (tl_entry t q)\<lparr>te_heap_pos := 0\<rparr> = (tl_entry (upd_timer r (set_expire ms) tlist) q)\<lparr>te_heap_pos := 0\<rparr>"
proof -
  let ?es = "tl_entries tlist" and ?n = "length (tl_entries tlist)" and ?A = "tl_allocated tlist"
  have pos: "pos_ok tlist" and wins: "windows_ok b tlist" and hp: "heap (expire_keys b tlist)"
    using inv by (simp_all add: heap_inv_def)
  define t where "t = upd_timer r (\<lambda>e. (set_expire ms e)\<lparr>te_heap_pos := ?n\<rparr>)
    ((if ?n + 1 > ?A then tlist\<lparr>tl_allocated := (?A + 1) * 2\<rparr> else tlist)\<lparr>tl_entries := ?es @ [r]\<rparr>)"
  show thesis
  proof (cases "?n + 1 > ?A \<and> \<not> al (Realloc_Bytes ((?A + 1) * 2 * 8))")
    case True
    then show thesis
      by (intro full) (simp_all add: timer_list_insert_into_list_def Let_def upd_timer_def set_expire_def)
  next
    case False
    then have run: "timer_list_insert_into_list al ms tlist r =
        bindE (timer_list_heap_sift_up t ?n) (\<lambda>t5. Inr (0, t5))"
      by (auto simp: timer_list_insert_into_list_def timer_list_heap_entry_set_def Let_def upd_timer_def
          set_expire_def t_def)
    have old: "tl_entry t q = tl_entry tlist q" if "q \<noteq> r" for q
      using that by (simp add: t_def upd_timer_def)
    have new: "tl_entry t r = (set_expire ms (tl_entry tlist r))\<lparr>te_heap_pos := ?n\<rparr>"
      and ent: "tl_entries t = ?es @ [r]"
      by (simp_all add: t_def upd_timer_def)
    have ws: "in_window b (tl_entry t r)" using win new by (simp add: in_window_def expire_key_def)
    have old': "tl_entry t q = tl_entry tlist q" if "q \<in> set ?es" for q
      using old [of q] that r by metis
    have pt: "pos_ok t"
      unfolding pos_ok_def
    proof (intro conjI allI impI)
      show "distinct (tl_entries t)" using pos r by (simp add: pos_ok_def ent)
      fix i assume "i < length (tl_entries t)"
      then show "te_heap_pos (tl_entry t (tl_entries t ! i)) = i"
        using pos old' new by (auto simp: ent nth_append pos_ok_def less_Suc_eq)
    qed
    have wt: "windows_ok b t" using wins ws old' by (auto simp: windows_ok_def ent)
    have ks: "expire_keys b t = expire_keys b tlist @ [expire_key b (tl_entry t r)]"
      using old' by (simp add: expire_keys_def ent)
    note app = heap_append [OF hp, of "expire_key b (tl_entry t r)", folded ks]
    have "\<exists>u. timer_list_heap_sift_up t ?n = Inr u \<and> same_timers u t \<and> pos_ok u \<and> heap (expire_keys b u)"
      using sift_up_ok [OF pt wt] app by (simp add: ent)
    then obtain u where u: "timer_list_heap_sift_up t ?n = Inr u" "same_timers u t" "pos_ok u"
      "heap (expire_keys b u)" by blast
    show thesis
    proof (rule inserted [of u])
      show "timer_list_insert_into_list al ms tlist r = Inr (0, u)" using run u(1) by simp
      show "heap_inv b u" using u same_timers_window(3) [OF u(2)] wt by (simp add: heap_inv_def)
      show "mset (tl_entries u) = add_mset r (mset ?es)" using same_timersD(1) [OF u(2)] ent by simp
      show "tl_free_list u = tl_free_list tlist"
        using same_timersD(5) [OF u(2)] by (simp add: t_def upd_timer_def)
      show "length (tl_entries u) \<le> tl_allocated u"
        using same_timersD(3,4) [OF u(2)] room by (simp add: t_def upd_timer_def)
      show "\<forall>q. (tl_entry u q)\<lparr>te_heap_pos := 0\<rparr> =
          (tl_entry (upd_timer r (set_expire ms) tlist) q)\<lparr>te_heap_pos := 0\<rparr>"
        using u(2) by (simp add: same_timers_def t_def upd_timer_def)
    qed
  qed
qed

section \<open>The operations keep the invariant\<close>

definition timer_inv :: "u32 \<Rightarrow> timer_list \<Rightarrow> bool" where
  "timer_inv b tlist \<longleftrightarrow>
     heap_inv b tlist \<and> distinct (tl_entries tlist @ tl_free_list tlist) \<and>
     (\<forall>r\<in>set (tl_entries tlist). te_is_active (tl_entry tlist r)) \<and>
     length (tl_entries tlist) \<le> tl_allocated tlist"

text \<open>What a caller may hand in: a timer that is planned, or one that is not active.\<close>

definition valid_handle :: "timer_list \<Rightarrow> timer_ref \<Rightarrow> bool" where
  "valid_handle tlist r \<longleftrightarrow> (te_is_active (tl_entry tlist r) \<longrightarrow> r \<in> set (tl_entries tlist))"

lemma timer_inv_init: "timer_inv b timer_list_init"
  by (simp add: timer_inv_def heap_inv_def timer_list_init_def pos_ok_def windows_ok_def heap_def
      expire_keys_def)

lemma entry_delete_ok:
  assumes inv: "timer_inv b tlist" and r: "r \<in> set (tl_entries tlist)"
  obtains t where "timer_list_entry_delete tlist r = Inr t" "timer_inv b t"
    "mset (tl_entries t) = mset (tl_entries tlist) - {#r#}"
    "tl_free_list t = r # tl_free_list tlist" "\<not> te_is_active (tl_entry t r)"
    "\<forall>q. expire_key b (tl_entry t q) = expire_key b (tl_entry tlist q) \<and>
       te_interval (tl_entry t q) = te_interval (tl_entry tlist q)"
proof -
  have h: "heap_inv b tlist" and act: "te_is_active (tl_entry tlist r)"
    and dist: "distinct (tl_entries tlist @ tl_free_list tlist)"
    using inv r by (auto simp: timer_inv_def)
  from h r obtain u where u: "timer_list_heap_delete tlist r = Inr u" "heap_inv b u" "same_data u tlist"
    "mset (tl_entries u) = mset (tl_entries tlist) - {#r#}" by (rule heap_delete_ok)
  define t where "t = upd_timer r (\<lambda>e. e\<lparr>te_is_active := False\<rparr>) (u\<lparr>tl_free_list := r # tl_free_list u\<rparr>)"
  have mem: "set (tl_entries u) = set (tl_entries tlist) - {r}"
    using dist u(4) by (metis distinct_append mset_remove1 set_mset_mset set_remove1_eq)
  have len: "length (tl_entries u) \<le> length (tl_entries tlist)"
    using u(4) by (metis diff_subset_eq_self size_mset size_mset_mono)
  have run: "timer_list_entry_delete tlist r = Inr t"
    using act u(1) by (simp add: timer_list_entry_delete_def t_def)
  have ent: "tl_entries t = tl_entries u" by (simp add: t_def upd_timer_def)
  have e: "tl_entry t q = (if q = r then (tl_entry u r)\<lparr>te_is_active := False\<rparr> else tl_entry u q)" for q
    by (simp add: t_def upd_timer_def)
  have "pos_ok t" "windows_ok b t" "expire_keys b t = expire_keys b u"
    using u(2) by (auto simp: heap_inv_def pos_ok_def windows_ok_def expire_keys_def ent e in_window_def expire_key_def)
  then have "heap_inv b t" using u(2) by (simp add: heap_inv_def)
  moreover have "distinct (tl_entries t @ tl_free_list t)"
    using dist mem u(2) same_dataD(2) [OF u(3)] r
    by (auto simp: ent t_def upd_timer_def heap_inv_def pos_ok_def)
  moreover have "\<forall>q\<in>set (tl_entries t). te_is_active (tl_entry t q)"
    using inv mem same_dataD(6) [OF u(3)] by (auto simp: ent e timer_inv_def)
  moreover have "length (tl_entries t) \<le> tl_allocated t"
    using inv len same_dataD(1) [OF u(3)] by (simp add: ent t_def upd_timer_def timer_inv_def)
  ultimately have "timer_inv b t" by (simp add: timer_inv_def)
  then show thesis
    using same_dataD [OF u(3)] u(4)
    by (intro that [OF run]) (simp_all add: ent e t_def upd_timer_def expire_key_def)
qed

lemma heap_inv_upd_outside:
  assumes "r \<notin> set (tl_entries tlist)"
  shows "heap_inv b (upd_timer r f tlist) = heap_inv b tlist"
proof -
  have "tl_entry (upd_timer r f tlist) q = tl_entry tlist q" if "q \<in> set (tl_entries tlist)" for q
    using that assms by (auto simp: upd_timer_def)
  then have "expire_keys b (upd_timer r f tlist) = expire_keys b tlist"
    "windows_ok b (upd_timer r f tlist) = windows_ok b tlist" "pos_ok (upd_timer r f tlist) = pos_ok tlist"
    by (auto simp: expire_keys_def windows_ok_def pos_ok_def upd_timer_def)
  then show ?thesis by (simp add: heap_inv_def)
qed

lemma requeue_ok:
  assumes inv: "timer_inv b tlist" and r: "r \<in> set (tl_entries tlist)"
    and f: "\<And>e. te_epoch (f e) = now" "\<And>e. te_interval (f e) = g (te_interval e)"
      "\<And>e. te_is_active (f e) = te_is_active e"
    and fits: "fits ms b now (g (te_interval (tl_entry tlist r)))"
  obtains t where "timer_requeue al ms f tlist r = Inr t" "timer_inv b t"
    "mset (tl_entries t) = mset (tl_entries tlist)" "tl_free_list t = tl_free_list tlist"
    "expire_key b (tl_entry t r) = unat (now - b) + unat (ms (g (te_interval (tl_entry tlist r))))"
    "te_interval (tl_entry t r) = g (te_interval (tl_entry tlist r))"
    "\<forall>q. q \<noteq> r \<longrightarrow> expire_key b (tl_entry t q) = expire_key b (tl_entry tlist q) \<and>
       te_interval (tl_entry t q) = te_interval (tl_entry tlist q)"
proof -
  have h: "heap_inv b tlist" and act: "\<forall>q\<in>set (tl_entries tlist). te_is_active (tl_entry tlist q)"
    and dist: "distinct (tl_entries tlist @ tl_free_list tlist)"
    and room: "length (tl_entries tlist) \<le> tl_allocated tlist"
    using inv by (auto simp: timer_inv_def)
  from h r obtain u where u: "timer_list_heap_delete tlist r = Inr u" "heap_inv b u" "same_data u tlist"
    "mset (tl_entries u) = mset (tl_entries tlist) - {#r#}" by (rule heap_delete_ok)
  note D = same_dataD [OF u(3)]
  have out: "r \<notin> set (tl_entries u)"
    using dist u(4) by (metis distinct_append mset_remove1 set_mset_mset set_remove1_eq Diff_iff insertI1)
  have ms: "add_mset r (mset (tl_entries u)) = mset (tl_entries tlist)"
    using u(4) r by simp
  then have len: "Suc (length (tl_entries u)) = length (tl_entries tlist)"
    by (metis size_add_mset size_mset)
  let ?v = "upd_timer r f u"
  have v: "heap_inv b ?v" using heap_inv_upd_outside [OF out] u(2) by simp
  have ve: "tl_entries ?v = tl_entries u" "tl_allocated ?v = tl_allocated tlist"
    "tl_free_list ?v = tl_free_list tlist" "tl_entry ?v r = f (tl_entry u r)"
    "q \<noteq> r \<Longrightarrow> tl_entry ?v q = tl_entry u q" for q
    using D(1,2) by (simp_all add: upd_timer_def)
  have key: "expire_key b (set_expire ms (tl_entry ?v r)) = unat (now - b) + unat (ms (g (te_interval (tl_entry tlist r))))"
    "in_window b (set_expire ms (tl_entry ?v r))"
    using fits_key [OF fits] f D(4) by (simp_all add: ve)
  have rv: "length (tl_entries ?v) \<le> tl_allocated ?v" using len room by (simp add: ve)
  have out': "r \<notin> set (tl_entries ?v)" using out by (simp add: ve)
  from v out' key(2) rv show thesis
  proof (cases rule: insert_ok [where al = al])
    case full
    then show ?thesis using len room by (simp add: ve)
  next
    case (inserted t)
    have e: "(tl_entry t q)\<lparr>te_heap_pos := 0\<rparr> =
        (if q = r then (set_expire ms (f (tl_entry u r)))\<lparr>te_heap_pos := 0\<rparr> else (tl_entry u q)\<lparr>te_heap_pos := 0\<rparr>)" for q
      using inserted(6) by (simp add: upd_timer_def)
    have er: "te_expire_time (tl_entry t r) = te_expire_time (set_expire ms (tl_entry ?v r))"
      "te_interval (tl_entry t r) = g (te_interval (tl_entry tlist r))"
      "te_is_active (tl_entry t r) = te_is_active (tl_entry tlist r)"
      using eq_but_posD [OF e [of r, simplified]] f D(4,6) by (simp_all add: ve set_expire_def)
    have eq: "te_expire_time (tl_entry t q) = te_expire_time (tl_entry tlist q)"
      "te_interval (tl_entry t q) = te_interval (tl_entry tlist q)"
      "te_is_active (tl_entry t q) = te_is_active (tl_entry tlist q)" if "q \<noteq> r" for q
      using eq_but_posD [of "tl_entry t q" "tl_entry u q"] e [of q] that D(4,5,6) by simp_all
    have mt: "mset (tl_entries t) = mset (tl_entries tlist)"
      using inserted(3) ms by (simp add: ve)
    then have st: "set (tl_entries t) = set (tl_entries tlist)" by (rule mset_eq_setD)
    have "distinct (tl_entries t @ tl_free_list t)"
      using dist mt st inserted(4) by (auto simp: ve dest: mset_eq_imp_distinct_iff)
    moreover have "\<forall>q\<in>set (tl_entries t). te_is_active (tl_entry t q)"
      using act st eq(3) er(3) by metis
    ultimately have "timer_inv b t"
      using inserted(2,5) by (simp add: timer_inv_def)
    moreover have "timer_requeue al ms f tlist r = Inr t"
      using u(1) inserted(1) by (simp add: timer_requeue_def)
    moreover have "\<forall>q. q \<noteq> r \<longrightarrow> expire_key b (tl_entry t q) = expire_key b (tl_entry tlist q) \<and>
        te_interval (tl_entry t q) = te_interval (tl_entry tlist q)"
      using eq(1,2) by (simp add: expire_key_def)
    ultimately show ?thesis
      using mt inserted(4) key(1) er(1,2) by (intro that) (simp_all add: ve expire_key_def)
  qed
qed

text \<open>The entry that \<open>timer_list_add\<close> takes: the head of the free list, or a new one.\<close>

lemma add_entry:
  assumes "timer_inv b tlist"
    and "(case tl_free_list tlist of
            r # free \<Rightarrow> Some (r, tlist\<lparr>tl_free_list := free\<rparr>)
          | [] \<Rightarrow> if al Malloc_Timer then Some (fresh_ref (tl_entries tlist), tlist) else None) = Some (r, t)"
  shows "r \<notin> set (tl_entries tlist)" "r \<notin> set (tl_free_list t)" "tl_entries t = tl_entries tlist"
    "tl_entry t = tl_entry tlist" "tl_allocated t = tl_allocated tlist"
    "distinct (tl_entries t @ tl_free_list t)"
    "tl_free_list tlist = [] \<or> tl_free_list tlist = r # tl_free_list t"
  using assms fresh_ref_notin [of "tl_entries tlist"]
  by (auto simp: timer_inv_def split: list.splits if_splits)

lemma add_ok:
  assumes inv: "timer_inv b tlist"
    and fits: "1 \<le> interval \<Longrightarrow> interval \<le> timer_list_max_interval \<Longrightarrow> fits ms b now interval"
  obtains (none) t where "timer_list_add al ms now tlist interval func = Inr (None, t)" "timer_inv b t"
      "tl_entries t = tl_entries tlist"
      "\<forall>q\<in>set (tl_entries tlist). tl_entry t q = tl_entry tlist q"
  | (some) r t where "timer_list_add al ms now tlist interval func = Inr (Some r, t)" "timer_inv b t"
      "r \<notin> set (tl_entries tlist)" "mset (tl_entries t) = add_mset r (mset (tl_entries tlist))"
      "expire_key b (tl_entry t r) = unat (now - b) + unat (ms interval)"
      "\<forall>q. q \<noteq> r \<longrightarrow> (tl_entry t q)\<lparr>te_heap_pos := 0\<rparr> = (tl_entry tlist q)\<lparr>te_heap_pos := 0\<rparr>"
      "tl_free_list tlist = [] \<or> tl_free_list tlist = r # tl_free_list t"
proof -
  let ?pick = "case tl_free_list tlist of
      r # free \<Rightarrow> Some (r, tlist\<lparr>tl_free_list := free\<rparr>)
    | [] \<Rightarrow> if al Malloc_Timer then Some (fresh_ref (tl_entries tlist), tlist) else None"
  show thesis
  proof (cases "func = None \<or> interval < 1 \<or> interval > timer_list_max_interval \<or> ?pick = None")
    case True
    have "timer_list_add al ms now tlist interval func = Inr (None, tlist)"
    proof (cases func)
      case (Some f)
      show ?thesis
      proof (cases "interval < 1 \<or> interval > timer_list_max_interval")
        case in_range: False
        with True Some have pick: "?pick = None" by blast
        show ?thesis unfolding timer_list_add_def Some pick by simp
      qed (simp add: timer_list_add_def Some)
    qed (simp add: timer_list_add_def)
    with inv show thesis by (intro none [of tlist]) simp_all
  next
    case False
    then obtain f r t1 where f: "func = Some f" and pick: "?pick = Some (r, t1)" by force
    have ok: "1 \<le> interval" "interval \<le> timer_list_max_interval"
      using False linorder_not_less by blast+
    note A = add_entry [where al = al and r = r and t = t1, OF inv pick]
    let ?e = "\<lparr>te_epoch = now, te_interval = interval, te_expire_time = 0, te_func = f,
      te_is_active = True, te_heap_pos = no_heap_pos\<rparr>"
    let ?t2 = "upd_timer r (\<lambda>e. ?e) t1"
    have run: "timer_list_add al ms now tlist interval func =
        bindE (timer_list_insert_into_list al ms ?t2 r) (\<lambda>(res, tl3).
          Inr (if res \<noteq> 0 then (None, tl3\<lparr>tl_free_list := r # tl_free_list tl3\<rparr>) else (Some r, tl3)))"
      unfolding timer_list_add_def f pick using False by (simp add: Let_def)
    have t2: "tl_entries ?t2 = tl_entries tlist" "tl_free_list ?t2 = tl_free_list t1"
      "tl_allocated ?t2 = tl_allocated tlist" "tl_entry ?t2 q = (if q = r then ?e else tl_entry tlist q)" for q
      using A by (simp_all add: upd_timer_def)
    have "heap_inv b t1 = heap_inv b tlist"
      using A(3,4) by (simp add: heap_inv_def pos_ok_def windows_ok_def expire_keys_def)
    then have h: "heap_inv b ?t2"
      using inv A heap_inv_upd_outside [of r t1 b "\<lambda>e. ?e"] by (simp add: timer_inv_def)
    have k: "expire_key b (set_expire ms (tl_entry ?t2 r)) = unat (now - b) + unat (ms interval)"
      "in_window b (set_expire ms (tl_entry ?t2 r))"
      using fits_key [OF fits [OF ok], of ?e] by (simp_all add: t2)
    have room: "length (tl_entries ?t2) \<le> tl_allocated ?t2" using inv by (simp add: t2 timer_inv_def)
    have out: "r \<notin> set (tl_entries ?t2)" using A(1) by (simp add: t2)
    from h out k(2) room show thesis
    proof (cases rule: insert_ok [where al = al])
      case full
      let ?t3 = "upd_timer r (set_expire ms) ?t2"
      let ?t = "?t3\<lparr>tl_free_list := r # tl_free_list ?t3\<rparr>"
      have e: "tl_entry ?t q = tl_entry tlist q" if "q \<in> set (tl_entries tlist)" for q
        using that A(1,4) by (auto simp: upd_timer_def)
      have "heap_inv b ?t3" using heap_inv_upd_outside [OF out] h by simp
      then have "heap_inv b ?t" by (simp add: heap_inv_def pos_ok_def windows_ok_def expire_keys_def)
      moreover have "distinct (tl_entries ?t @ tl_free_list ?t)"
        using A(1,2,6,3) by (simp add: upd_timer_def)
      moreover have "\<forall>q\<in>set (tl_entries ?t). te_is_active (tl_entry ?t q)"
        using inv e A(3) by (simp add: timer_inv_def upd_timer_def)
      moreover have "length (tl_entries ?t) \<le> tl_allocated ?t"
        using inv A(3,5) by (simp add: timer_inv_def upd_timer_def)
      ultimately have "timer_inv b ?t" by (simp only: timer_inv_def)
      then show ?thesis using full(2) run e A(3) by (intro none [of ?t]) (simp_all add: upd_timer_def)
    next
      case (inserted t)
      have e: "(tl_entry t q)\<lparr>te_heap_pos := 0\<rparr> =
          (if q = r then (set_expire ms ?e)\<lparr>te_heap_pos := 0\<rparr> else (tl_entry tlist q)\<lparr>te_heap_pos := 0\<rparr>)" for q
        using inserted(6) A(4) by (simp add: upd_timer_def)
      have st: "set (tl_entries t) = insert r (set (tl_entries tlist))"
        using inserted(3) by (metis set_mset_add_mset_insert set_mset_mset t2(1))
      have "te_is_active (tl_entry t q) = (q = r \<or> te_is_active (tl_entry tlist q))" for q
        using arg_cong [OF e [of q], of te_is_active] by (simp add: set_expire_def split: if_splits)
      then have "\<forall>q\<in>set (tl_entries t). te_is_active (tl_entry t q)"
        using st inv by (auto simp: timer_inv_def)
      moreover have "distinct (tl_entries t @ tl_free_list t)"
        using inserted(2,4) st A(2,6,3) by (auto simp: heap_inv_def pos_ok_def t2)
      ultimately have "timer_inv b t" using inserted(2,5) by (simp add: timer_inv_def)
      moreover have "expire_key b (tl_entry t r) = unat (now - b) + unat (ms interval)"
        using k(1) arg_cong [OF e [of r], of te_expire_time]
        by (simp add: t2 expire_key_def set_expire_def)
      ultimately show ?thesis
        using run inserted(1,3,4) A e by (intro some [of r t]) (simp_all add: t2)
    qed
  qed
qed

end
