(* ===== verification/Timer_Props.thy ===== *)
theory Timer_Props
  imports Timer_Heap
begin

text \<open>
  What the users of the timer list rely on: the poll loop asks for the next timer (locale
  \<open>min_queue\<close>) and runs those that are due; the owners of timers plan, delete and replan them by
  their handles.
\<close>

section \<open>The interface of the poll loop\<close>

locale min_queue =
  fixes inv :: "'q \<Rightarrow> bool"
    and elems :: "'q \<Rightarrow> 'r set"
    and key :: "'q \<Rightarrow> 'r \<Rightarrow> nat"
    and front :: "'q \<Rightarrow> 'r option"
  assumes front_None: "inv q \<Longrightarrow> front q = None \<longleftrightarrow> elems q = {}"
    and front_Some: "inv q \<Longrightarrow> front q = Some r \<Longrightarrow> r \<in> elems q \<and> (\<forall>x\<in>elems q. key q r \<le> key q x)"
begin

lemma none_due:
  assumes "inv q" and "\<And>r. front q = Some r \<Longrightarrow> k < key q r" and "x \<in> elems q"
  shows "k < key q x"
proof (cases "front q")
  case None
  with front_None [OF assms(1)] assms(3) show ?thesis by simp
next
  case (Some r)
  with front_Some [OF assms(1) Some] assms(2) [OF Some] assms(3) show ?thesis
    by (meson order_less_le_trans)
qed

lemma front_due:
  assumes "inv q" and "x \<in> elems q" and "key q x \<le> k"
  shows "\<exists>r. front q = Some r \<and> r \<in> elems q \<and> key q r \<le> k"
proof (cases "front q")
  case None
  with front_None [OF assms(1)] assms(2) show ?thesis by simp
next
  case (Some r)
  with front_Some [OF assms(1) Some] assms(2,3) show ?thesis by (auto intro: order_trans)
qed

end

definition timer_front :: "timer_list \<Rightarrow> timer_ref option" where
  "timer_front tlist = (case tl_entries tlist of [] \<Rightarrow> None | r # rest \<Rightarrow> Some r)"

interpretation tq: min_queue "timer_inv b" "\<lambda>t. set (tl_entries t)"
  "\<lambda>t r. expire_key b (tl_entry t r)" timer_front
  for b
proof unfold_locales
  fix t r
  assume inv: "timer_inv b t" and "timer_front t = Some r"
  then obtain rest where es: "tl_entries t = r # rest"
    by (auto simp: timer_front_def split: list.splits)
  have "expire_key b (tl_entry t r) \<le> expire_key b (tl_entry t x)" if "x \<in> set (tl_entries t)" for x
  proof -
    from that obtain i where i: "i < length (tl_entries t)" "tl_entries t ! i = x"
      by (auto simp: in_set_conv_nth)
    from inv have "heap (expire_keys b t)" by (simp add: timer_inv_def heap_inv_def)
    moreover have "0 < length (tl_entries t)" using i(1) by linarith
    ultimately have "expire_key b (tl_entry t (tl_entries t ! 0)) \<le> expire_key b (tl_entry t x)"
      using heap_root_least [of "expire_keys b t" i] i by simp
    then show ?thesis using es by simp
  qed
  with es show "r \<in> set (tl_entries t) \<and>
      (\<forall>x\<in>set (tl_entries t). expire_key b (tl_entry t r) \<le> expire_key b (tl_entry t x))"
    by simp
qed (auto simp: timer_front_def split: list.splits)

section \<open>Reachable timer lists\<close>

text \<open>
  The timer lists that the operations build, within one window of the clock that starts at \<open>b\<close>:
  every timer that is planned must expire before half of the clock's range is over.
\<close>

inductive timer_reachable :: "(u32 \<Rightarrow> u32) \<Rightarrow> u32 \<Rightarrow> timer_list \<Rightarrow> bool" for ms b where
  tr_init: "timer_reachable ms b timer_list_init"
| tr_add: "timer_reachable ms b t \<Longrightarrow> fits ms b now interval \<Longrightarrow>
    timer_list_add al ms now t interval func = Inr (r, t') \<Longrightarrow> timer_reachable ms b t'"
| tr_delete: "timer_reachable ms b t \<Longrightarrow> valid_handle t r \<Longrightarrow>
    timer_list_entry_delete t r = Inr t' \<Longrightarrow> timer_reachable ms b t'"
| tr_reschedule: "timer_reachable ms b t \<Longrightarrow> valid_handle t r \<Longrightarrow>
    fits ms b now (te_interval (tl_entry t r)) \<Longrightarrow>
    timer_list_entry_reschedule al ms now t r = Inr t' \<Longrightarrow> timer_reachable ms b t'"
| tr_set_interval: "timer_reachable ms b t \<Longrightarrow> valid_handle t r \<Longrightarrow> fits ms b now interval \<Longrightarrow>
    timer_list_entry_set_interval al ms now t r interval = Inr (res, t') \<Longrightarrow> timer_reachable ms b t'"

lemma reschedule_ok:
  assumes "timer_inv b t" and "valid_handle t r" and "fits ms b now (te_interval (tl_entry t r))"
  shows "\<exists>t'. timer_list_entry_reschedule al ms now t r = Inr t' \<and> timer_inv b t'"
proof (cases "te_is_active (tl_entry t r)")
  case True
  with assms(2) have "r \<in> set (tl_entries t)" by (simp add: valid_handle_def)
  then obtain t' where "timer_requeue al ms (\<lambda>e. e\<lparr>te_epoch := now\<rparr>) t r = Inr t'" "timer_inv b t'"
    using requeue_ok [OF assms(1), of r "\<lambda>e. e\<lparr>te_epoch := now\<rparr>" now "\<lambda>i. i" ms al] assms(3) by auto
  with True show ?thesis by (simp add: timer_list_entry_reschedule_def)
qed (simp add: timer_list_entry_reschedule_def assms)

lemma set_interval_ok:
  assumes "timer_inv b t" and "valid_handle t r" and "fits ms b now interval"
  shows "\<exists>res t'. timer_list_entry_set_interval al ms now t r interval = Inr (res, t') \<and> timer_inv b t'"
proof (cases "interval < 1 \<or> interval > timer_list_max_interval \<or> \<not> te_is_active (tl_entry t r)")
  case True
  then show ?thesis using assms(1) by (auto simp: timer_list_entry_set_interval_def)
next
  case False
  let ?f = "\<lambda>e. e\<lparr>te_interval := interval, te_epoch := now\<rparr>"
  from False assms(2) have "r \<in> set (tl_entries t)" by (simp add: valid_handle_def)
  then obtain t' where "timer_requeue al ms ?f t r = Inr t'" "timer_inv b t'"
    using requeue_ok [OF assms(1), of r ?f now "\<lambda>i. interval" ms al] assms(3) by auto
  with False show ?thesis by (simp add: timer_list_entry_set_interval_def)
qed

lemma delete_ok:
  assumes "timer_inv b t" and "valid_handle t r"
  shows "\<exists>t'. timer_list_entry_delete t r = Inr t' \<and> timer_inv b t' \<and> r \<notin> set (tl_entries t')"
proof (cases "te_is_active (tl_entry t r)")
  case True
  with assms(2) have "r \<in> set (tl_entries t)" by (simp add: valid_handle_def)
  with assms(1) obtain t' where "timer_list_entry_delete t r = Inr t'" "timer_inv b t'"
    "tl_free_list t' = r # tl_free_list t" by (rule entry_delete_ok)
  then show ?thesis by (auto simp: timer_inv_def)
next
  case False
  with assms(1) have "r \<notin> set (tl_entries t)" by (auto simp: timer_inv_def)
  with False assms(1) show ?thesis by (simp add: timer_list_entry_delete_def)
qed

lemma add_total:
  assumes "timer_inv b t" and "fits ms b now interval"
  shows "\<exists>r t'. timer_list_add al ms now t interval func = Inr (r, t') \<and> timer_inv b t'"
  by (rule add_ok [OF assms(1), of interval ms now al func]) (use assms(2) in auto)

lemma timer_reachable_inv: "timer_reachable ms b t \<Longrightarrow> timer_inv b t"
proof (induction rule: timer_reachable.induct)
  case tr_init
  show ?case by (rule timer_inv_init)
next
  case (tr_add t now interval al func r t')
  with add_total [OF tr_add.IH tr_add.hyps(2), of al func] show ?case by auto
next
  case (tr_delete t r t')
  with delete_ok [OF tr_delete.IH tr_delete.hyps(2)] show ?case by auto
next
  case (tr_reschedule t r now al t')
  with reschedule_ok [OF tr_reschedule.IH tr_reschedule.hyps(2,3), of al] show ?case by auto
next
  case (tr_set_interval t r now interval al res t')
  with set_interval_ok [OF tr_set_interval.IH tr_set_interval.hyps(2,3), of al] show ?case by auto
qed

lemma debug_valid:
  assumes "timer_inv b t"
  shows "timer_list_debug_is_valid_heap t = 1"
proof -
  let ?es = "tl_entries t"
  let ?e = "\<lambda>i. tl_entry t (?es ! i)"
  have hp: "heap (expire_keys b t)" and win: "windows_ok b t"
    using assms by (simp_all add: timer_inv_def heap_inv_def)
  have "\<not> timer_list_entry_cmp (?e c) (?e i) (te_epoch (?e i)) < 0"
    if "i < length ?es" "c < length ?es" "0 < c" "par c = i" for i c
  proof -
    have "in_window b (?e i)" "expire_key b (?e c) < 2 ^ 31"
      using win that by (auto simp: windows_ok_def in_window_def)
    from cmp_key [OF this] show ?thesis
      using hp that by (auto simp: heap_def)
  qed
  then have "\<not> list_ex (\<lambda>i. (timer_list_heap_index_left i < length ?es \<and>
        timer_list_entry_cmp (?e (timer_list_heap_index_left i)) (?e i) (te_epoch (?e i)) < 0) \<or>
      (timer_list_heap_index_right i < length ?es \<and>
        timer_list_entry_cmp (?e (timer_list_heap_index_right i)) (?e i) (te_epoch (?e i)) < 0))
      [0..<length ?es]"
    using child_iff [of "timer_list_heap_index_left i" i for i] child_iff [of "timer_list_heap_index_right i" i for i]
    by (auto simp: list_ex_iff)
  then show ?thesis by (simp add: timer_list_debug_is_valid_heap_def Let_def)
qed

text \<open>The time until the first timer expires is that of the front of the queue.\<close>

lemma next_exact:
  assumes "timer_inv b t" and "unat (now - b) < 2 ^ 31" and "tl_entries t \<noteq> []"
  shows "unat (timer_list_time_to_expire now t) =
    Min ((\<lambda>r. expire_key b (tl_entry t r) - unat (now - b)) ` set (tl_entries t))"
    and "r \<in> set (tl_entries t) \<Longrightarrow>
      timer_list_time_to_expire now t \<le> timer_list_entry_time_to_expire (tl_entry t r) now"
proof -
  from assms(3) obtain q where q: "timer_front t = Some q"
    by (cases "tl_entries t") (auto simp: timer_front_def)
  from tq.front_Some [OF assms(1) q]
  have least: "\<And>r. r \<in> set (tl_entries t) \<Longrightarrow> expire_key b (tl_entry t q) \<le> expire_key b (tl_entry t r)"
    and mem: "q \<in> set (tl_entries t)" by auto
  have "expire_key b (tl_entry t x) < 2 ^ 31" if "x \<in> set (tl_entries t)" for x
    using assms(1) that by (auto simp: timer_inv_def heap_inv_def windows_ok_def in_window_def)
  note k = time_to_expire_key [OF this assms(2)]
  have eq: "timer_list_time_to_expire now t = timer_list_entry_time_to_expire (tl_entry t q) now"
    using q by (auto simp: timer_list_time_to_expire_def timer_front_def split: list.splits)
  show "unat (timer_list_time_to_expire now t) =
      Min ((\<lambda>r. expire_key b (tl_entry t r) - unat (now - b)) ` set (tl_entries t))"
    unfolding eq k [OF mem] using mem least by (intro Min_eqI [symmetric]) (auto intro: diff_le_mono)
  show "timer_list_time_to_expire now t \<le> timer_list_entry_time_to_expire (tl_entry t r) now"
    if "r \<in> set (tl_entries t)"
    using least [OF that] k [OF mem] k [OF that] eq by (simp add: word_le_nat_alt)
qed

section \<open>Running the timers that are due\<close>

text \<open>A callback that notes which timers ran and returns \<open>ret r\<close> for the timer \<open>r\<close>.\<close>

definition record_cb ::
    "(timer_ref \<Rightarrow> int) \<Rightarrow> timer_ref \<Rightarrow> timer_ref list \<Rightarrow> timer_list \<Rightarrow>
     fault + (int \<times> timer_ref list \<times> timer_list)" where
  "record_cb ret r fired t = Inr (ret r, fired @ [r], t)"

definition due :: "u32 \<Rightarrow> u32 \<Rightarrow> timer_list \<Rightarrow> timer_ref set" where
  "due b now t = {r \<in> set (tl_entries t). expire_key b (tl_entry t r) \<le> unat (now - b)}"

lemma due_iff:
  assumes "timer_inv b t" and "unat (now - b) < 2 ^ 31" and "r \<in> set (tl_entries t)"
  shows "timer_list_entry_time_to_expire (tl_entry t r) now = 0 \<longleftrightarrow> r \<in> due b now t"
proof -
  have "expire_key b (tl_entry t r) < 2 ^ 31"
    using assms(1,3) by (auto simp: timer_inv_def heap_inv_def windows_ok_def in_window_def)
  from time_to_expire_key [OF this assms(2)] show ?thesis
    using assms(3) by (simp add: due_def unat_eq_zero flip: unat_eq_zero)
qed

text \<open>One round of the loop: the root runs and leaves the timers that are due.\<close>

lemma expire_round:
  assumes inv: "timer_inv b t" and now: "unat (now - b) < 2 ^ 31" and es: "tl_entries t = r # rest"
    and r: "r \<in> due b now t" and fits: "ret r \<noteq> 0 \<Longrightarrow> fits ms b now (te_interval (tl_entry t r))"
  obtains t' where "timer_list_expire al ms now (record_cb ret) fired t =
      timer_list_expire al ms now (record_cb ret) (fired @ [r]) t'"
    "timer_inv b t'" "due b now t' = due b now t - {r}"
    "set (tl_entries t') = (if ret r = 0 then set (tl_entries t) - {r} else set (tl_entries t))"
    "\<forall>q. q \<noteq> r \<longrightarrow> expire_key b (tl_entry t' q) = expire_key b (tl_entry t q) \<and>
       te_interval (tl_entry t' q) = te_interval (tl_entry t q)"
proof -
  have mem: "r \<in> set (tl_entries t)" using es by simp
  have act: "te_is_active (tl_entry t r)" using inv mem by (simp add: timer_inv_def)
  have zero: "timer_list_entry_time_to_expire (tl_entry t r) now = 0"
    using due_iff [OF inv now mem] r by simp
  have dist: "distinct (tl_entries t)" using inv by (simp add: timer_inv_def)
  show thesis
  proof (cases "ret r = 0")
    case True
    from inv mem obtain t' where t': "timer_list_entry_delete t r = Inr t'" "timer_inv b t'"
      "mset (tl_entries t') = mset (tl_entries t) - {#r#}"
      "\<forall>q. expire_key b (tl_entry t' q) = expire_key b (tl_entry t q) \<and>
         te_interval (tl_entry t' q) = te_interval (tl_entry t q)"
      by (rule entry_delete_ok)
    have st: "set (tl_entries t') = set (tl_entries t) - {r}"
      using dist t'(3) by (metis mset_remove1 set_mset_mset set_remove1_eq)
    show thesis
    proof (rule that)
      show "timer_list_expire al ms now (record_cb ret) fired t =
          timer_list_expire al ms now (record_cb ret) (fired @ [r]) t'"
        by (subst timer_list_expire.simps) (simp add: es zero record_cb_def True t'(1))
      show "due b now t' = due b now t - {r}" using st t'(4) by (auto simp: due_def)
    qed (use t' st True in simp_all)
  next
    case False
    let ?f = "\<lambda>e. e\<lparr>te_epoch := now\<rparr>"
    obtain t' where t': "timer_requeue al ms ?f t r = Inr t'" "timer_inv b t'"
      "mset (tl_entries t') = mset (tl_entries t)"
      "expire_key b (tl_entry t' r) = unat (now - b) + unat (ms (te_interval (tl_entry t r)))"
      "\<forall>q. q \<noteq> r \<longrightarrow> expire_key b (tl_entry t' q) = expire_key b (tl_entry t q) \<and>
         te_interval (tl_entry t' q) = te_interval (tl_entry t q)"
      using requeue_ok [OF inv mem, of ?f now "\<lambda>i. i" ms al] fits [OF False] by auto
    have st: "set (tl_entries t') = set (tl_entries t)" using t'(3) by (rule mset_eq_setD)
    have "0 < unat (ms (te_interval (tl_entry t r)))"
      using fits [OF False] by (simp add: fits_def unat_gt_0 word_greater_zero_iff)
    then have later: "r \<notin> due b now t'" using t'(4) by (simp add: due_def)
    show thesis
    proof (rule that)
      show "timer_list_expire al ms now (record_cb ret) fired t =
          timer_list_expire al ms now (record_cb ret) (fired @ [r]) t'"
        by (subst timer_list_expire.simps) (simp add: es zero record_cb_def False act t'(1))
      show "due b now t' = due b now t - {r}"
        using later st t'(5) by (auto simp: due_def)
    qed (use t' st False in simp_all)
  qed
qed

lemma finite_due [simp]: "finite (due b now t)"
  by (simp add: due_def)

lemma expire_runs:
  assumes "timer_inv b t" and "unat (now - b) < 2 ^ 31"
    and "\<forall>r\<in>due b now t. ret r \<noteq> 0 \<longrightarrow> fits ms b now (te_interval (tl_entry t r))"
  shows "\<exists>fs t'. timer_list_expire al ms now (record_cb ret) fired t = Some (Inr (fired @ fs, t')) \<and>
    distinct fs \<and> set fs = due b now t \<and> sorted (map (\<lambda>r. expire_key b (tl_entry t r)) fs) \<and>
    set (tl_entries t') = set (tl_entries t) - {r \<in> due b now t. ret r = 0} \<and>
    timer_inv b t' \<and> due b now t' = {}"
  using assms
proof (induction "card (due b now t)" arbitrary: t fired rule: less_induct)
  case less
  show ?case
  proof (cases "due b now t = {}")
    case True
    have "timer_list_expire al ms now (record_cb ret) fired t = Some (Inr (fired, t))"
    proof (cases "tl_entries t")
      case (Cons r rest)
      then have "timer_list_entry_time_to_expire (tl_entry t r) now \<noteq> 0"
        using due_iff [OF less.prems(1,2), of r] True by simp
      then show ?thesis using Cons by (simp add: timer_list_expire.simps [of _ _ _ _ _ t])
    qed (simp add: timer_list_expire.simps [of _ _ _ _ _ t])
    then show ?thesis using True less.prems(1) by (intro exI [of _ "[]"] exI [of _ t]) simp
  next
    case False
    then obtain x where "x \<in> set (tl_entries t)" "expire_key b (tl_entry t x) \<le> unat (now - b)"
      by (auto simp: due_def)
    from tq.front_due [OF less.prems(1) this] obtain r where
      fr: "timer_front t = Some r" and r: "r \<in> due b now t"
      by (auto simp: due_def)
    then obtain rest where es: "tl_entries t = r # rest"
      by (auto simp: timer_front_def split: list.splits)
    have least: "expire_key b (tl_entry t r) \<le> expire_key b (tl_entry t q)" if "q \<in> due b now t" for q
      using tq.front_Some [OF less.prems(1) fr] that by (auto simp: due_def)
    obtain u where u: "timer_list_expire al ms now (record_cb ret) fired t =
        timer_list_expire al ms now (record_cb ret) (fired @ [r]) u"
      "timer_inv b u" "due b now u = due b now t - {r}"
      "set (tl_entries u) = (if ret r = 0 then set (tl_entries t) - {r} else set (tl_entries t))"
      "\<forall>q. q \<noteq> r \<longrightarrow> expire_key b (tl_entry u q) = expire_key b (tl_entry t q) \<and>
         te_interval (tl_entry u q) = te_interval (tl_entry t q)"
      using expire_round [OF less.prems(1,2) es r, where ret = ret and ms = ms and al = al and fired = fired]
        less.prems(3) r by auto
    have card: "card (due b now u) < card (due b now t)"
      unfolding u(3) using r by (intro card_Diff1_less) simp_all
    have fit: "\<forall>q\<in>due b now u. ret q \<noteq> 0 \<longrightarrow> fits ms b now (te_interval (tl_entry u q))"
      using less.prems(3) u(3,5) by auto
    from less.hyps [OF card u(2) less.prems(2) fit, of "fired @ [r]"] obtain fs t' where
      f: "timer_list_expire al ms now (record_cb ret) (fired @ [r]) u = Some (Inr ((fired @ [r]) @ fs, t'))"
      "distinct fs" "set fs = due b now u" "sorted (map (\<lambda>r. expire_key b (tl_entry u r)) fs)"
      "set (tl_entries t') = set (tl_entries u) - {r \<in> due b now u. ret r = 0}"
      "timer_inv b t'" "due b now t' = {}" by blast
    have keys: "map (\<lambda>r. expire_key b (tl_entry u r)) fs = map (\<lambda>r. expire_key b (tl_entry t r)) fs"
      using u(3,5) f(3) by (intro map_cong) auto
    have "sorted (map (\<lambda>r. expire_key b (tl_entry t r)) (r # fs))"
      using f(4) keys least u(3) f(3) by auto
    moreover have "set (tl_entries t') = set (tl_entries t) - {r \<in> due b now t. ret r = 0}"
      using f(5) u(3,4) r by auto
    ultimately show ?thesis
      using u(1,3) f r by (intro exI [of _ "r # fs"] exI [of _ t']) auto
  qed
qed

section \<open>Properties\<close>

lemma time_to_expire_int:
  assumes "te_expire_time e = word_of_int x" and "\<bar>x - t\<bar> < 2 ^ 31"
  shows "uint (timer_list_entry_time_to_expire e (word_of_int t)) = max 0 (x - t)"
proof -
  let ?d = "word_of_int (x - t) :: u32"
  have d: "te_expire_time e - word_of_int t = ?d" using assms(1) by simp
  have "uint ?d = (x - t) mod 2 ^ 32" by (subst uint_word_of_int) simp
  moreover have "(x - t) mod 2 ^ 32 = (if 0 \<le> x - t then x - t else x - t + 2 ^ 32)"
  proof (cases "0 \<le> x - t")
    case True
    then show ?thesis using assms(2) by (simp add: mod_pos_pos_trivial)
  next
    case False
    have "(x - t) mod 2 ^ 32 = (x - t + 2 ^ 32) mod 2 ^ 32" by simp
    also have "\<dots> = x - t + 2 ^ 32" using False assms(2) by (intro mod_pos_pos_trivial) simp_all
    finally show ?thesis using False by simp
  qed
  ultimately have u: "uint ?d = (if 0 \<le> x - t then x - t else x - t + 2 ^ 32)" by simp
  have "uint ((- 1) div 2 :: u32) = 2147483647"
    by (simp add: uint_div)
  then have "?d > (- 1) div 2 \<longleftrightarrow> x - t < 0"
    using u assms(2) by (auto simp: word_less_def)
  then show ?thesis
    using u by (auto simp: timer_list_entry_time_to_expire_def Let_def d)
qed

text \<open>
  The comparison of two timers is exact although the 32-bit clock wraps around: let the timers
  expire at the true times \<open>x1\<close> and \<open>x2\<close>, of which the entries hold the lowest 32 bits, and let the
  second one have been planned at the true time \<open>t2\<close> before it expires. As long as both expire
  within \<open>2^31\<close> ticks of \<open>t2\<close>, before or after, \<open>timer_list_entry_cmp\<close> relative to the epoch of the second
  returns the sign of \<open>x1 - x2\<close>.
\<close>

theorem timer_cmp_exact:
  assumes "te_expire_time e1 = word_of_int x1" and "te_expire_time e2 = word_of_int x2"
    and "te_epoch e2 = word_of_int t2" and "t2 < x2" and "x2 - t2 < 2 ^ 31" and "\<bar>x1 - t2\<bar> < 2 ^ 31"
  shows "timer_list_entry_cmp e1 e2 (te_epoch e2) = sgn (x1 - x2)"
proof -
  have "\<bar>x2 - t2\<bar> < 2 ^ 31" using assms(4,5) by simp
  note k = time_to_expire_int [OF assms(1,6)] time_to_expire_int [OF assms(2) this]
  show ?thesis
    unfolding assms(3) timer_list_entry_cmp_def Let_def word_less_def k
    using assms(4) by (auto simp: sgn_if)
qed

lemma timer_cmp_exact_witness:
  "timer_list_entry_cmp (timer_entry_zero\<lparr>te_expire_time := 5\<rparr>)
     (timer_entry_zero\<lparr>te_epoch := 4294967290, te_expire_time := 4294967295\<rparr>) 4294967290 = 1"
  using timer_cmp_exact [of "timer_entry_zero\<lparr>te_expire_time := 5\<rparr>" "2 ^ 32 + 5"
      "timer_entry_zero\<lparr>te_epoch := 4294967290, te_expire_time := 4294967295\<rparr>" 4294967295 4294967290]
  by simp

text \<open>
  C22. In every timer list that the operations build within one window of the clock (all timers expire
  and \<open>now\<close> is within \<open>2^31\<close> ticks of its start \<open>b\<close>), the array is a
  heap (the code's own check succeeds) and no timer occurs twice in it.
  \<open>timer_list_time_to_expire\<close> is exactly the time that is left until the first of the planned timers
  expires, 0 when one is due, and no timeout when none is planned: the poll loop never sleeps past a timer
  and does not wake up before the first one. The variant in milliseconds converts this time.
\<close>

theorem timer_list_next_exact:
  assumes "timer_reachable ms b t" and "unat (now - b) < 2 ^ 31"
  shows "timer_list_debug_is_valid_heap t = 1 \<and> distinct (tl_entries t @ tl_free_list t) \<and>
    (if tl_entries t = []
     then timer_list_time_to_expire now t = - 1 \<and> timer_list_time_to_expire_ms to_ms now t = - 1
     else unat (timer_list_time_to_expire now t) =
            Min ((\<lambda>r. unat (te_expire_time (tl_entry t r) - b) - unat (now - b)) ` set (tl_entries t)) \<and>
          timer_list_time_to_expire_ms to_ms now t = to_ms (timer_list_time_to_expire now t)) \<and>
    (\<forall>r\<in>set (tl_entries t).
       timer_list_time_to_expire now t \<le> timer_list_entry_time_to_expire (tl_entry t r) now)"
proof -
  have inv: "timer_inv b t" using assms(1) by (rule timer_reachable_inv)
  have ms: "timer_list_time_to_expire_ms to_ms now t = to_ms (timer_list_time_to_expire now t)"
    if "tl_entries t \<noteq> []"
    using that by (auto simp: timer_list_time_to_expire_ms_def timer_list_time_to_expire_def split: list.splits)
  have none: "timer_list_time_to_expire now t = - 1 \<and> timer_list_time_to_expire_ms to_ms now t = - 1"
    if "tl_entries t = []"
    using that by (simp add: timer_list_time_to_expire_ms_def timer_list_time_to_expire_def)
  have least: "\<forall>r\<in>set (tl_entries t).
      timer_list_time_to_expire now t \<le> timer_list_entry_time_to_expire (tl_entry t r) now"
    using next_exact(2) [OF inv assms(2)] by fastforce
  have "timer_list_debug_is_valid_heap t = 1" "distinct (tl_entries t @ tl_free_list t)"
    using debug_valid [OF inv] inv by (auto simp: timer_inv_def)
  then show ?thesis
    using next_exact(1) [OF inv assms(2)] ms none least by (simp add: expire_key_def)
qed

text \<open>One timer of 10 ticks, planned at time 0; at time 4 the poll loop waits for 6 ticks.\<close>

lemma timer_list_next_exact_witness:
  "\<exists>r t. timer_list_add (\<lambda>_. True) (\<lambda>i. i) 0 timer_list_init 10 (Some 3) = Inr (r, t) \<and>
     timer_list_debug_is_valid_heap t = 1 \<and> timer_list_time_to_expire 4 t = 6"
proof -
  have fit: "fits (\<lambda>i. i) 0 0 10" by (simp add: fits_def)
  obtain r t where add: "timer_list_add (\<lambda>_. True) (\<lambda>i. i) 0 timer_list_init 10 (Some 3) = Inr (r, t)"
    using add_total [OF timer_inv_init fit] by blast
  then have "tl_entries t = [1]" "te_expire_time (tl_entry t 1) = 10"
    by (auto simp: timer_list_add_def timer_list_init_def timer_list_max_interval_def fresh_ref_def Let_def
        timer_list_insert_into_list_def upd_timer_def timer_list_heap_entry_set_def
        timer_list_heap_sift_up_def sift_up_loop.simps)
  moreover have "timer_reachable (\<lambda>i. i) 0 t"
    using tr_add [OF tr_init fit add] .
  ultimately have "timer_list_debug_is_valid_heap t = 1 \<and> unat (timer_list_time_to_expire 4 t) = 6"
    using timer_list_next_exact [of "\<lambda>i. i" 0 t 4] by simp
  then have "timer_list_debug_is_valid_heap t = 1" "timer_list_time_to_expire 4 t = 6"
    by (simp_all add: word_unat_eq_iff)
  with add show ?thesis by blast
qed

text \<open>
  No assertion of the timer list fails: in a timer list that the operations built within one
  window of the clock, planning a timer, deleting, replanning one and changing its interval all
  return, for any outcome of memory allocation, as long as the handle is that of a planned timer or
  of one that is not active any more.
\<close>

theorem timer_list_no_assert:
  assumes "timer_reachable ms b t" and "valid_handle t r" and "fits ms b now interval"
    and "fits ms b now (te_interval (tl_entry t r))"
  shows "(\<exists>x. timer_list_add al ms now t interval func = Inr x) \<and>
    (\<exists>x. timer_list_entry_delete t r = Inr x) \<and>
    (\<exists>x. timer_list_entry_reschedule al ms now t r = Inr x) \<and>
    (\<exists>x. timer_list_entry_set_interval al ms now t r interval = Inr x)"
proof -
  have inv: "timer_inv b t" using assms(1) by (rule timer_reachable_inv)
  show ?thesis
    using add_total [OF inv assms(3)] delete_ok [OF inv assms(2)] reschedule_ok [OF inv assms(2,4)]
      set_interval_ok [OF inv assms(2,3)] by blast
qed

lemma timer_list_no_assert_witness:
  "\<exists>r t. timer_list_add (\<lambda>_. True) (\<lambda>i. i) 0 timer_list_init 10 (Some 3) = Inr (Some r, t) \<and>
     (\<exists>x. timer_list_entry_reschedule (\<lambda>_. True) (\<lambda>i. i) 4 t r = Inr x)"
proof -
  let ?add = "timer_list_add (\<lambda>_. True) (\<lambda>i. i) 0 timer_list_init 10 (Some 3)"
  have fit: "fits (\<lambda>i. i) 0 0 10" "fits (\<lambda>i. i) 0 4 10" by (simp_all add: fits_def)
  obtain o1 t where add: "?add = Inr (o1, t)" using add_total [OF timer_inv_init fit(1)] by blast
  have o1: "o1 = Some 1" and iv: "te_interval (tl_entry t 1) = 10" and mem: "1 \<in> set (tl_entries t)"
    using add
    by (auto simp: timer_list_add_def timer_list_init_def timer_list_max_interval_def fresh_ref_def Let_def
        timer_list_insert_into_list_def upd_timer_def timer_list_heap_entry_set_def
        timer_list_heap_sift_up_def sift_up_loop.simps)
  have "timer_reachable (\<lambda>i. i) 0 t" using tr_add [OF tr_init fit(1) add] .
  moreover have "valid_handle t 1" using mem by (simp add: valid_handle_def)
  ultimately have "\<exists>x. timer_list_entry_reschedule (\<lambda>_. True) (\<lambda>i. i) 4 t 1 = Inr x"
    using timer_list_no_assert [of "\<lambda>i. i" 0 t 1 4 10 "\<lambda>_. True" "Some 3"] fit(2) iv by simp
  with add o1 show ?thesis by blast
qed

text \<open>
  C21. Running the timers that are due ends and is exact: with callbacks that leave the timer list
  alone, the loop of \<open>timer_list_expire\<close> returns, every timer that is due has run exactly once and no
  other, in the order of their expiration times; those whose callback returned 0 are gone, the
  others are planned again, and no timer is due any more.
\<close>

theorem timer_list_expire_exact:
  assumes "timer_reachable ms b t" and "unat (now - b) < 2 ^ 31"
    and "\<forall>r\<in>due b now t. ret r \<noteq> 0 \<longrightarrow> fits ms b now (te_interval (tl_entry t r))"
  shows "\<exists>fired t'. timer_list_expire al ms now (record_cb ret) [] t = Some (Inr (fired, t')) \<and>
    distinct fired \<and>
    set fired = {r \<in> set (tl_entries t). timer_list_entry_time_to_expire (tl_entry t r) now = 0} \<and>
    sorted (map (\<lambda>r. expire_key b (tl_entry t r)) fired) \<and>
    set (tl_entries t') = set (tl_entries t) - {r \<in> set fired. ret r = 0} \<and>
    (\<forall>r\<in>set (tl_entries t'). 0 < timer_list_entry_time_to_expire (tl_entry t' r) now)"
proof -
  have inv: "timer_inv b t" using assms(1) by (rule timer_reachable_inv)
  from expire_runs [OF inv assms(2,3), of al "[]"] obtain fs t' where
    f: "timer_list_expire al ms now (record_cb ret) [] t = Some (Inr (fs, t'))"
    "distinct fs" "set fs = due b now t" "sorted (map (\<lambda>r. expire_key b (tl_entry t r)) fs)"
    "set (tl_entries t') = set (tl_entries t) - {r \<in> due b now t. ret r = 0}"
    "timer_inv b t'" "due b now t' = {}" by auto
  have "due b now t = {r \<in> set (tl_entries t). timer_list_entry_time_to_expire (tl_entry t r) now = 0}"
    using due_iff [OF inv assms(2)] by (auto simp: due_def)
  moreover have "0 < timer_list_entry_time_to_expire (tl_entry t' r) now" if "r \<in> set (tl_entries t')" for r
    using due_iff [OF f(6) assms(2) that] f(7) by (simp add: word_greater_zero_iff)
  ultimately show ?thesis using f by auto
qed

lemma timer_list_expire_exact_witness:
  "\<exists>r t fired t'. timer_list_add (\<lambda>_. True) (\<lambda>i. i) 0 timer_list_init 10 (Some 3) = Inr (r, t) \<and>
     timer_list_expire (\<lambda>_. True) (\<lambda>i. i) 10 (record_cb (\<lambda>r. 1)) [] t = Some (Inr (fired, t')) \<and> distinct fired"
proof -
  have fit: "fits (\<lambda>i. i) 0 0 10" by (simp add: fits_def)
  obtain r t where add: "timer_list_add (\<lambda>_. True) (\<lambda>i. i) 0 timer_list_init 10 (Some 3) = Inr (r, t)"
    using add_total [OF timer_inv_init fit] by blast
  then have "\<forall>q\<in>set (tl_entries t). te_interval (tl_entry t q) = 10"
    by (auto simp: timer_list_add_def timer_list_init_def timer_list_max_interval_def fresh_ref_def Let_def
        timer_list_insert_into_list_def upd_timer_def timer_list_heap_entry_set_def
        timer_list_heap_sift_up_def sift_up_loop.simps)
  then have "\<forall>q\<in>due 0 10 t. 1 \<noteq> (0 :: int) \<longrightarrow> fits (\<lambda>i. i) 0 10 (te_interval (tl_entry t q))"
    by (simp add: due_def fits_def)
  moreover have "timer_reachable (\<lambda>i. i) 0 t" using tr_add [OF tr_init fit add] .
  ultimately show ?thesis
    using timer_list_expire_exact [of "\<lambda>i. i" 0 t 10 "\<lambda>r. 1" "\<lambda>_. True"] add by auto
qed

text \<open>
  Handles are reused at once: the timer that is planned after a timer was deleted gets its
  entry. A caller that replans a timer inside its callback relies on it; but an owner that keeps the
  handle of a timer that is gone, and deletes it again, deletes the timer of the next owner.
\<close>

theorem timer_handle_reused:
  assumes "timer_reachable ms b t" and "r \<in> set (tl_entries t)" and "fits ms b now interval"
    and "timer_list_entry_delete t r = Inr t1"
    and "timer_list_add al ms now t1 interval func = Inr (Some q, t2)"
  shows "q = r \<and> (\<exists>t3. timer_list_entry_delete t2 r = Inr t3 \<and> r \<notin> set (tl_entries t3))"
proof -
  have inv: "timer_inv b t" using assms(1) by (rule timer_reachable_inv)
  from inv assms(2) obtain u where u: "timer_list_entry_delete t r = Inr u" "timer_inv b u"
    "tl_free_list u = r # tl_free_list t" by (rule entry_delete_ok)
  then have u1: "u = t1" using assms(4) by simp
  have "q = r \<and> timer_inv b t2 \<and> r \<in> set (tl_entries t2)"
  proof (rule add_ok [OF u(2), of interval ms now al func])
    fix p t' assume p: "timer_list_add al ms now u interval func = Inr (Some p, t')" "timer_inv b t'"
      "mset (tl_entries t') = add_mset p (mset (tl_entries u))"
      "tl_free_list u = [] \<or> tl_free_list u = p # tl_free_list t'"
    have "p \<in> set (tl_entries t')" using p(3) by (metis set_mset_mset union_single_eq_member)
    then show ?thesis using p u(3) assms(5) u1 by auto
  qed (use assms(3,5) u1 in auto)
  then show ?thesis
    using delete_ok [of b t2 r] by (auto simp: valid_handle_def)
qed

lemma timer_handle_reused_witness:
  "\<exists>t t1. timer_list_add (\<lambda>_. True) (\<lambda>i. i) 0 timer_list_init 10 (Some 3) = Inr (Some 1, t) \<and>
     timer_list_entry_delete t 1 = Inr t1 \<and>
     (\<forall>q t2. timer_list_add (\<lambda>_. True) (\<lambda>i. i) 0 t1 10 (Some 4) = Inr (Some q, t2) \<longrightarrow> q = 1)"
proof -
  let ?add = "timer_list_add (\<lambda>_. True) (\<lambda>i. i) 0 timer_list_init 10 (Some 3)"
  have fit: "fits (\<lambda>i. i) 0 0 10" by (simp add: fits_def)
  obtain o1 t where add: "?add = Inr (o1, t)" using add_total [OF timer_inv_init fit] by blast
  have o1: "o1 = Some 1" and mem: "1 \<in> set (tl_entries t)"
    using add
    by (auto simp: timer_list_add_def timer_list_init_def timer_list_max_interval_def fresh_ref_def Let_def
        timer_list_insert_into_list_def upd_timer_def timer_list_heap_entry_set_def
        timer_list_heap_sift_up_def sift_up_loop.simps)
  have re: "timer_reachable (\<lambda>i. i) 0 t" using tr_add [OF tr_init fit add] .
  obtain t1 where d: "timer_list_entry_delete t 1 = Inr t1"
    using delete_ok [OF timer_reachable_inv [OF re], of 1] mem by (auto simp: valid_handle_def)
  from timer_handle_reused [OF re mem fit d, of "\<lambda>_. True" "Some 4"] add o1 d show ?thesis by blast
qed

end
