(* ===== verification/Heuristics_Props.thy ===== *)
theory Heuristics_Props
  imports Heuristics
begin

text \<open>
  The heuristics worker reads what the main process wrote, and the other way round: numbers
  survive printing and scanning, a command is one line of the pipe, and a list of commands that
  is sent arrives as it was configured.
\<close>

section \<open>Numbers\<close>

lemma digit_not_special: "is_digit b \<Longrightarrow> \<not> is_space b \<and> b \<noteq> 43 \<and> b \<noteq> 45 \<and> b \<noteq> 0 \<and> line_char b"
  by (auto simp: is_digit_def is_space_def chr_space_def line_char_def chr_cr_def chr_nl_def
      word_le_nat_alt word_less_nat_alt unat_arith_simps)

lemma scan_u32_digits:
  assumes "rest = [] \<or> \<not> is_digit (hd rest)"
  shows "scan_u32 (dec_digits n @ rest) = Some (of_nat n, rest)"
proof -
  let ?s = "dec_digits n @ rest"
  have h: "\<not> is_space (hd ?s)" "hd ?s \<noteq> 43" "hd ?s \<noteq> 45"
    using digit_not_special [OF hd_digit [of n]] by simp_all
  have 1: "dropWhile is_space ?s = ?s"
    using h(1) by (cases ?s) auto
  have all: "\<forall>b\<in>set (dec_digits n). is_digit b"
    using dec_digits_digits [of n] by (simp add: list_all_iff)
  have 2: "takeWhile is_digit ?s = dec_digits n"
    using assms all by (cases rest) (simp_all add: takeWhile_append)
  have 3: "dropWhile is_digit ?s = rest"
    using assms all by (cases rest) (simp_all add: dropWhile_append)
  show ?thesis
    using h(2,3) unfolding scan_u32_def Let_def 1 by (simp add: 2 3)
qed

lemma space_facts [simp]: "is_space chr_space" "\<not> is_digit chr_space" "line_char chr_space" "chr_space \<noteq> 0"
  by (simp_all add: is_space_def is_digit_def line_char_def chr_space_def chr_cr_def chr_nl_def
      word_le_nat_alt)

lemma scan_u32_space: "scan_u32 (chr_space # s) = scan_u32 s"
  by (simp add: scan_u32_def)

lemma scan_command_print:
  "scan_command prefix (prefix @ [chr_space] @ dec_digits n @ [chr_space] @ dec_digits m) =
     Some (of_nat n, of_nat m)"
proof -
  have "scan_u32 (chr_space # dec_digits n @ chr_space # dec_digits m) =
      Some (of_nat n, chr_space # dec_digits m)"
    unfolding scan_u32_space by (rule scan_u32_digits) simp
  moreover have "dropWhile is_space (chr_space # dec_digits m) = dec_digits m"
    using digit_not_special [OF hd_digit [of m]] by (cases "dec_digits m") auto
  moreover have "scan_u32 (dec_digits m) = Some (of_nat m, [])"
    using scan_u32_digits [of "[]" m] by simp
  ultimately show ?thesis by (simp add: scan_command_def)
qed

section \<open>Lines\<close>

definition one_line :: "byte list \<Rightarrow> bool" where
  "one_line s \<longleftrightarrow> (\<forall>b\<in>set s. line_char b \<and> b \<noteq> 0)"

lemma one_line_append [simp]: "one_line (s @ t) \<longleftrightarrow> one_line s \<and> one_line t"
  by (auto simp: one_line_def)

lemma one_line_Cons [simp]: "one_line (b # t) \<longleftrightarrow> line_char b \<and> b \<noteq> 0 \<and> one_line t"
  by (auto simp: one_line_def)

lemma one_line_Nil [simp]: "one_line []"
  by (simp add: one_line_def)

lemma one_line_digits [simp]: "one_line (dec_digits n)"
  using dec_digits_digits [of n] digit_not_special by (auto simp: one_line_def list_all_iff)

lemma one_line_commands [simp]:
  "one_line cmd_str_exec" "one_line cmd_str_exec_result" "one_line cmd_str_exec_list_add"
  "one_line cmd_str_exec_list_clear"
  by (simp_all add: cmd_str_exec_def cmd_str_exec_result_def cmd_str_exec_list_add_def
      cmd_str_exec_list_clear_def str_bytes_def line_char_def chr_cr_def chr_nl_def)

lemma not_line_nl [simp]: "\<not> line_char chr_nl"
  by (simp add: line_char_def)

lemma takeWhile_line: "one_line s \<Longrightarrow> takeWhile line_char (s @ chr_nl # rest) = s"
  by (simp add: one_line_def takeWhile_append)

lemma cmd_line_nl [simp]: "one_line s \<Longrightarrow> cmd_line (s @ [chr_nl]) = Some s"
  by (simp add: cmd_line_def takeWhile_line c_str_def one_line_def)

lemma cmd_rest_nl [simp]: "one_line s \<Longrightarrow> cmd_rest (s @ [chr_nl]) = []"
  by (simp add: cmd_rest_def takeWhile_line)

section \<open>What is queued\<close>

lemma run_adds_Cons0:
  "run_adds (f # fs) d = (r, d') \<Longrightarrow> r \<noteq> -1 \<Longrightarrow> \<exists>r1 d1. f d = (r1, d1) \<and> r1 \<noteq> -1 \<and> run_adds fs d1 = (r, d')"
  by (auto split: prod.splits if_splits)

lemma str_cat_data:
  "dynar_str_cat al d s = (r, d') \<Longrightarrow> r \<noteq> -1 \<Longrightarrow> dynar_inv d \<Longrightarrow> dyn_data d' = dyn_data d @ s \<and> dynar_inv d'"
  using dynar_cat_fail [of al d s r d'] dynar_cat_ok [of al d s d'] by (cases "r = 0") (auto simp: dynar_str_cat_def)

lemma str_cpy_data:
  "dynar_str_cpy al d s = (r, d') \<Longrightarrow> r \<noteq> -1 \<Longrightarrow> dyn_data d' = s \<and> dynar_inv d'"
  using str_cat_data [of al "dynar_clean d" s r d'] by (auto simp: dynar_str_cpy_def split: if_splits)

lemma vcatf_data:
  assumes "dynar_str_vcatf al d (Some text) = (r, d')" and "r \<noteq> -1" and "dynar_inv d"
  shows "dyn_data d' = dyn_data d @ text \<and> dynar_inv d'"
proof (cases "text = []")
  case True
  with assms show ?thesis by (simp add: dynar_str_vcatf_def)
next
  case False
  with assms obtain d1 where d1: "dynar_prealloc al d (length text + 1) = (0, d1)"
    and d': "d' = d1\<lparr>dyn_data := dyn_data d1 @ text\<rparr>"
    by (auto simp: dynar_str_vcatf_def split: prod.splits if_splits)
  from dynar_prealloc_ok [OF d1 assms(3)] show ?thesis
    by (simp add: d' dynar_inv_def dynar_size_def)
qed

lemma newlines_data:
  "qdevice_heuristics_cmd_remove_newlines d = (r, d') \<Longrightarrow> dynar_inv d \<Longrightarrow>
     dyn_data d' = map (\<lambda>b. if b = chr_nl \<or> b = chr_cr then chr_space else b) (dyn_data d) \<and> dynar_inv d'"
  by (auto simp: qdevice_heuristics_cmd_remove_newlines_def dynar_inv_def dynar_size_def)

lemma cmd_queue_text:
  assumes q: "cmd_queue al adds h = (0, h')" and inv: "sbl_inv 0 (qh_cmd_out_buffer_list h)"
    and txt_ok: "\<And>d d' r. dynar_inv d \<Longrightarrow> run_adds adds d = (r, d') \<Longrightarrow> r \<noteq> -1 \<Longrightarrow> dyn_data d' = s \<and> dynar_inv d'"
  shows "queued (qh_cmd_out_buffer_list h') = queued (qh_cmd_out_buffer_list h) @ [s] \<and>
    sbl_inv 0 (qh_cmd_out_buffer_list h')"
proof -
  from q obtain e sbl r buf where g: "send_buffer_list_get_new al (qh_cmd_out_buffer_list h) = (Some e, sbl)"
    and r: "run_adds adds (sb_buffer e) = (r, buf)" "r \<noteq> -1"
    and h': "qh_cmd_out_buffer_list h' = send_buffer_list_put sbl (e\<lparr>sb_buffer := buf\<rparr>)"
    by (fastforce simp: cmd_queue_def Let_def split: option.splits prod.splits if_splits)
  have e: "sbl_inv 1 sbl" "dynar_inv (sb_buffer e)"
    using sbl_inv_get_new [OF inv g] by simp_all
  have "dyn_data buf = s" "dynar_inv buf"
    using txt_ok [OF e(2) r] by simp_all
  then show ?thesis
    using queued_get_new [OF g] sbl_inv_put [of 0 sbl "e\<lparr>sb_buffer := buf\<rparr>"] e(1)
    by (simp add: h' sbq.contents_put)
qed

lemma write_exec_queue:
  assumes "qdevice_heuristics_cmd_write_exec al timeout seq h = (0, h')"
    and "sbl_inv 0 (qh_cmd_out_buffer_list h)"
  shows "queued (qh_cmd_out_buffer_list h') = queued (qh_cmd_out_buffer_list h) @
      [(cmd_str_exec @ [chr_space] @ dec_digits (unat timeout) @ [chr_space] @ dec_digits (unat seq)) @ [chr_nl]] \<and>
    sbl_inv 0 (qh_cmd_out_buffer_list h')"
  using assms(1) unfolding qdevice_heuristics_cmd_write_exec_def
proof (rule cmd_queue_text [OF _ assms(2)], goal_cases)
  case (1 d d' r)
  from run_adds_Cons0 [OF 1(2,3)] obtain r1 d1 where
    d1: "dynar_str_cpy al d (cmd_str_exec @ [chr_space]) = (r1, d1)" "r1 \<noteq> -1" and
    d2: "run_adds [\<lambda>d. dynar_str_vcatf al d (Some (dec_digits (unat timeout) @ [chr_space] @
           dec_digits (unat seq) @ [chr_nl]))] d1 = (r, d')"
    by blast
  from run_adds_Cons0 [OF d2 1(3)] obtain r2 where
    "dynar_str_vcatf al d1 (Some (dec_digits (unat timeout) @ [chr_space] @
       dec_digits (unat seq) @ [chr_nl])) = (r2, d')" "r2 \<noteq> -1"
    by auto
  from vcatf_data [OF this] str_cpy_data [OF d1] show ?case by simp
qed

lemma write_exec_result_text:
  assumes "qdevice_heuristics_worker_cmd_write_exec_result al buf seq res = (0, buf', out)"
  shows "out = (cmd_str_exec_result @ [chr_space] @ dec_digits (unat seq) @ [chr_space] @
    dec_digits (unat (qdevice_heuristics_exec_result_code res))) @ [chr_nl]"
proof -
  let ?t = "dec_digits (unat seq) @ [chr_space] @
    dec_digits (unat (qdevice_heuristics_exec_result_code res)) @ [chr_nl]"
  from assms obtain r where r: "run_adds [\<lambda>d. dynar_str_cpy al d (cmd_str_exec_result @ [chr_space]),
      \<lambda>d. dynar_str_vcatf al d (Some ?t)] buf = (r, buf')" "r \<noteq> -1" and out: "out = dyn_data buf'"
    by (auto simp: qdevice_heuristics_worker_cmd_write_exec_result_def split: prod.splits if_splits)
  from run_adds_Cons0 [OF r] obtain r1 d1 where
    d1: "dynar_str_cpy al buf (cmd_str_exec_result @ [chr_space]) = (r1, d1)" "r1 \<noteq> -1" and
    d2: "run_adds [\<lambda>d. dynar_str_vcatf al d (Some ?t)] d1 = (r, buf')"
    by blast
  from run_adds_Cons0 [OF d2 r(2)] obtain r2 where
    "dynar_str_vcatf al d1 (Some ?t) = (r2, buf')" "r2 \<noteq> -1"
    by auto
  from vcatf_data [OF this] str_cpy_data [OF d1] show ?thesis by (simp add: out)
qed

section \<open>The list of commands\<close>

text \<open>What a configured command looks like on the other side: line ends became spaces.\<close>

definition flat_command :: "byte list \<Rightarrow> byte list" where
  "flat_command s = map (\<lambda>b. if b = chr_nl \<or> b = chr_cr then chr_space else b) s"

definition exec_entry_ok :: "qdevice_heuristics_exec_list_entry \<Rightarrow> bool" where
  "exec_entry_ok e \<longleftrightarrow>
     hx_name e \<noteq> [] \<and> one_line (hx_name e) \<and> chr_space \<notin> set (hx_name e) \<and>
     hx_command e \<noteq> [] \<and> 0 \<notin> set (hx_command e) \<and> line_char (hd (hx_command e)) \<and>
     hd (hx_command e) \<noteq> chr_space"

definition add_line :: "qdevice_heuristics_exec_list_entry \<Rightarrow> byte list" where
  "add_line e = cmd_str_exec_list_add @ [chr_space] @ hx_name e @ [chr_space] @ flat_command (hx_command e)"

lemma flat_command_line: "0 \<notin> set s \<Longrightarrow> one_line (flat_command s)"
  by (auto simp: flat_command_def one_line_def line_char_def chr_space_def chr_nl_def chr_cr_def)

lemma flat_line_id: "one_line s \<Longrightarrow> flat_command s = s"
  by (auto simp: flat_command_def one_line_def line_char_def intro!: map_idI)

lemma flat_space: "flat_command (chr_space # s) = chr_space # flat_command s"
  by (simp add: flat_command_def)

lemma flat_append: "flat_command (s @ t) = flat_command s @ flat_command t"
  by (simp add: flat_command_def)

lemma add_line_one: "exec_entry_ok e \<Longrightarrow> one_line (add_line e)"
  by (simp add: add_line_def exec_entry_ok_def flat_command_line)

lemma queue_add_line:
  assumes "exec_entry_ok e" and "dynar_inv d" and "r \<noteq> -1"
    and "run_adds [\<lambda>d. dynar_str_cpy al d (cmd_str_exec_list_add @ [chr_space]),
              \<lambda>d. dynar_str_cat al d (hx_name e),
              \<lambda>d. dynar_str_cat al d [chr_space],
              \<lambda>d. dynar_str_cat al d (hx_command e),
              qdevice_heuristics_cmd_remove_newlines,
              \<lambda>d. dynar_str_cat al d [chr_nl]] d = (r, d')"
  shows "dyn_data d' = add_line e @ [chr_nl] \<and> dynar_inv d'"
proof -
  from run_adds_Cons0 [OF assms(4,3)] obtain r1 d1 where
    1: "dynar_str_cpy al d (cmd_str_exec_list_add @ [chr_space]) = (r1, d1)" "r1 \<noteq> -1" and
    a: "run_adds [\<lambda>d. dynar_str_cat al d (hx_name e), \<lambda>d. dynar_str_cat al d [chr_space],
          \<lambda>d. dynar_str_cat al d (hx_command e), qdevice_heuristics_cmd_remove_newlines,
          \<lambda>d. dynar_str_cat al d [chr_nl]] d1 = (r, d')" by blast
  from run_adds_Cons0 [OF a assms(3)] obtain r2 d2 where
    2: "dynar_str_cat al d1 (hx_name e) = (r2, d2)" "r2 \<noteq> -1" and
    b: "run_adds [\<lambda>d. dynar_str_cat al d [chr_space], \<lambda>d. dynar_str_cat al d (hx_command e),
          qdevice_heuristics_cmd_remove_newlines, \<lambda>d. dynar_str_cat al d [chr_nl]] d2 = (r, d')" by blast
  from run_adds_Cons0 [OF b assms(3)] obtain r3 d3 where
    3: "dynar_str_cat al d2 [chr_space] = (r3, d3)" "r3 \<noteq> -1" and
    c: "run_adds [\<lambda>d. dynar_str_cat al d (hx_command e), qdevice_heuristics_cmd_remove_newlines,
          \<lambda>d. dynar_str_cat al d [chr_nl]] d3 = (r, d')" by blast
  from run_adds_Cons0 [OF c assms(3)] obtain r4 d4 where
    4: "dynar_str_cat al d3 (hx_command e) = (r4, d4)" "r4 \<noteq> -1" and
    e: "run_adds [qdevice_heuristics_cmd_remove_newlines, \<lambda>d. dynar_str_cat al d [chr_nl]] d4 = (r, d')" by blast
  from run_adds_Cons0 [OF e assms(3)] obtain r5 d5 where
    5: "qdevice_heuristics_cmd_remove_newlines d4 = (r5, d5)" and
    f: "run_adds [\<lambda>d. dynar_str_cat al d [chr_nl]] d5 = (r, d')" by blast
  from run_adds_Cons0 [OF f assms(3)] obtain r6 where
    6: "dynar_str_cat al d5 [chr_nl] = (r6, d')" "r6 \<noteq> -1" by auto
  note D1 = str_cpy_data [OF 1] and D2 = str_cat_data [OF 2] and D3 = str_cat_data [OF 3]
    and D4 = str_cat_data [OF 4] and D5 = newlines_data [OF 5] and D6 = str_cat_data [OF 6]
  have "dyn_data d4 = cmd_str_exec_list_add @ [chr_space] @ hx_name e @ [chr_space] @ hx_command e" "dynar_inv d4"
    using D1 D2 D3 D4 by simp_all
  moreover from this have "dyn_data d5 = add_line e" "dynar_inv d5"
    using D5 assms(1) flat_line_id [of "hx_name e"] flat_line_id [of cmd_str_exec_list_add]
    by (simp_all add: add_line_def exec_entry_ok_def flat_command_def [symmetric] flat_append flat_space)
  ultimately show ?thesis using D6 by simp
qed

lemma scan_add_line:
  assumes "exec_entry_ok e"
  shows "exec_list_add_scan (add_line e) = Some (hx_name e, flat_command (hx_command e))"
proof -
  have pre: "\<forall>b\<in>set cmd_str_exec_list_add. b \<noteq> chr_space"
    by (simp add: cmd_str_exec_list_add_def str_bytes_def chr_space_def)
  have nm: "\<forall>b\<in>set (hx_name e). b \<noteq> chr_space" "hx_name e \<noteq> []"
    using assms by (auto simp: exec_entry_ok_def)
  obtain c cs where c: "hx_command e = c # cs" "line_char c" "c \<noteq> chr_space"
    using assms by (cases "hx_command e") (auto simp: exec_entry_ok_def)
  then have fc: "flat_command (hx_command e) = c # flat_command cs"
    by (simp add: flat_command_def line_char_def)
  obtain n ns where n: "hx_name e = n # ns" "n \<noteq> chr_space"
    using nm by (cases "hx_name e") auto
  have 1: "dropWhile (\<lambda>b. b \<noteq> chr_space) (add_line e) = chr_space # hx_name e @ chr_space # c # flat_command cs"
    using pre by (simp add: add_line_def fc dropWhile_append)
  have 2: "dropWhile (\<lambda>b. b = chr_space) (chr_space # hx_name e @ chr_space # c # flat_command cs) =
      hx_name e @ chr_space # c # flat_command cs"
    using n by simp
  have 3: "dropWhile (\<lambda>b. b \<noteq> chr_space) (hx_name e @ chr_space # c # flat_command cs) =
      chr_space # c # flat_command cs"
    using nm by (simp add: dropWhile_append)
  have 4: "takeWhile (\<lambda>b. b \<noteq> chr_space) (hx_name e @ chr_space # c # flat_command cs) = hx_name e"
    using nm by (simp add: takeWhile_append)
  show ?thesis
    unfolding exec_list_add_scan_def Let_def 1 2 3 4 using c(3) n by (simp add: fc)
qed

lemma exec_list_loop_queue:
  assumes "cmd_write_exec_list_loop al elist h = (0, h')" and "sbl_inv 0 (qh_cmd_out_buffer_list h)"
    and "list_all exec_entry_ok elist"
  shows "queued (qh_cmd_out_buffer_list h') =
    queued (qh_cmd_out_buffer_list h) @ map (\<lambda>e. add_line e @ [chr_nl]) elist"
  using assms
proof (induction al elist h rule: cmd_write_exec_list_loop.induct)
  case (2 al e elist h)
  from "2.prems" obtain h1 where
    q: "cmd_queue al
             [\<lambda>d. dynar_str_cpy al d (cmd_str_exec_list_add @ [chr_space]),
              \<lambda>d. dynar_str_cat al d (hx_name e),
              \<lambda>d. dynar_str_cat al d [chr_space],
              \<lambda>d. dynar_str_cat al d (hx_command e),
              qdevice_heuristics_cmd_remove_newlines,
              \<lambda>d. dynar_str_cat al d [chr_nl]] h = (0, h1)"
    and rest: "cmd_write_exec_list_loop al elist h1 = (0, h')"
    by (auto simp: cmd_queue_def Let_def split: prod.splits option.splits if_splits)
  have "exec_entry_ok e" "list_all exec_entry_ok elist" using "2.prems"(3) by simp_all
  moreover from this(1) have "queued (qh_cmd_out_buffer_list h1) =
      queued (qh_cmd_out_buffer_list h) @ [add_line e @ [chr_nl]] \<and> sbl_inv 0 (qh_cmd_out_buffer_list h1)"
    by (intro cmd_queue_text [OF q "2.prems"(2)] queue_add_line)
  ultimately show ?case
    using "2.IH" [OF q [symmetric] _ rest] by simp
qed simp

section \<open>Properties\<close>

text \<open>
  The part of \<open>qdevice_heuristics_worker_cmd_process_one_line\<close> that keeps the list of commands. That the
  whole function does this for every line but a request is \<open>one_line_exec_list\<close> in \<open>Worker_Props\<close>.
\<close>

definition worker_cmd_exec_list :: "allocator \<Rightarrow> byte list \<Rightarrow> exec_list \<Rightarrow> int \<times> exec_list" where
  "worker_cmd_exec_list al str elist =
     (if str = cmd_str_exec_list_clear then (0, qdevice_heuristics_exec_list_free elist)
      else if take (length cmd_str_exec_list_add) str = cmd_str_exec_list_add
      then qdevice_heuristics_worker_cmd_process_exec_list_add al str elist
      else (-1, elist))"

fun worker_cmd_exec_lists :: "allocator \<Rightarrow> byte list option list \<Rightarrow> exec_list \<Rightarrow> int \<times> exec_list" where
  "worker_cmd_exec_lists al [] elist = (0, elist)"
| "worker_cmd_exec_lists al (None # ls) elist = (-1, elist)"
| "worker_cmd_exec_lists al (Some l # ls) elist =
     (case worker_cmd_exec_list al l elist of
        (r, elist') \<Rightarrow> if r \<noteq> 0 then (-1, elist') else worker_cmd_exec_lists al ls elist')"

lemma worker_adds:
  assumes "alloc_ideal al" and "list_all exec_entry_ok elist"
  shows "worker_cmd_exec_lists al (map (\<lambda>e. Some (add_line e)) elist) old =
    (0, old @ map (\<lambda>e. e\<lparr>hx_command := flat_command (hx_command e)\<rparr>) elist)"
  using assms(2)
proof (induction elist arbitrary: old)
  case (Cons e elist)
  have e: "exec_entry_ok e" using Cons.prems by simp
  have ne: "add_line e \<noteq> cmd_str_exec_list_clear"
  proof
    assume "add_line e = cmd_str_exec_list_clear"
    then have "take 11 (add_line e) = take 11 cmd_str_exec_list_clear" by simp
    then show False
      by (simp add: add_line_def cmd_str_exec_list_clear_def cmd_str_exec_list_add_def str_bytes_def)
  qed
  have "take (length cmd_str_exec_list_add) (add_line e) = cmd_str_exec_list_add"
    by (simp add: add_line_def)
  then have "worker_cmd_exec_list al (add_line e) old =
      (0, old @ [e\<lparr>hx_command := flat_command (hx_command e)\<rparr>])"
    using ne assms(1) unfolding worker_cmd_exec_list_def qdevice_heuristics_worker_cmd_process_exec_list_add_def
    by (simp add: scan_add_line [OF e] qdevice_heuristics_exec_list_add_def alloc_ideal_def Let_def)
  then show ?case
    using Cons by simp
qed simp

text \<open>
  C18. The list of heuristics commands that the main process sends is the list that the worker
  has afterwards. The commands are queued after everything that was queued before, each as one
  line; from whatever list the worker had, the lines make it the sent list, where line ends
  inside a command have become spaces. This holds for entries with a name without spaces and a
  command that starts with a printing character.
\<close>

theorem heuristics_exec_list_roundtrip:
  assumes "qdevice_heuristics_cmd_write_exec_list al (Some elist) h = (0, h')"
    and "sbl_inv 0 (qh_cmd_out_buffer_list h)" and "list_all exec_entry_ok elist"
    and "alloc_ideal al'"
  shows "\<exists>lines. queued (qh_cmd_out_buffer_list h') = queued (qh_cmd_out_buffer_list h) @ lines \<and>
    list_all (\<lambda>l. cmd_rest l = []) lines \<and>
    worker_cmd_exec_lists al' (map cmd_line lines) old =
      (0, map (\<lambda>e. e\<lparr>hx_command := flat_command (hx_command e)\<rparr>) elist)"
proof -
  from assms(1) obtain h1 where
    q: "cmd_queue al [\<lambda>d. dynar_str_cpy al d cmd_str_exec_list_clear, \<lambda>d. dynar_str_cat al d [chr_nl]] h = (0, h1)"
    and l: "cmd_write_exec_list_loop al elist h1 = (0, h')"
    unfolding qdevice_heuristics_cmd_write_exec_list_def
    by (auto simp: cmd_queue_def Let_def split: prod.splits option.splits if_splits)
  have q1: "queued (qh_cmd_out_buffer_list h1) = queued (qh_cmd_out_buffer_list h) @
      [cmd_str_exec_list_clear @ [chr_nl]] \<and> sbl_inv 0 (qh_cmd_out_buffer_list h1)"
  proof (rule cmd_queue_text [OF q assms(2)])
    fix d d' r
    assume "run_adds [\<lambda>d. dynar_str_cpy al d cmd_str_exec_list_clear, \<lambda>d. dynar_str_cat al d [chr_nl]] d = (r, d')"
      and r: "r \<noteq> -1"
    from run_adds_Cons0 [OF this] obtain r1 d1 where
      1: "dynar_str_cpy al d cmd_str_exec_list_clear = (r1, d1)" "r1 \<noteq> -1" and
      2: "run_adds [\<lambda>d. dynar_str_cat al d [chr_nl]] d1 = (r, d')" by blast
    from run_adds_Cons0 [OF 2 r] obtain r2 where "dynar_str_cat al d1 [chr_nl] = (r2, d')" "r2 \<noteq> -1"
      by auto
    from str_cat_data [OF this] str_cpy_data [OF 1]
    show "dyn_data d' = cmd_str_exec_list_clear @ [chr_nl] \<and> dynar_inv d'" by simp
  qed
  let ?lines = "(cmd_str_exec_list_clear @ [chr_nl]) # map (\<lambda>e. add_line e @ [chr_nl]) elist"
  have qd: "queued (qh_cmd_out_buffer_list h') = queued (qh_cmd_out_buffer_list h) @ ?lines"
    using q1 exec_list_loop_queue [OF l _ assms(3)] by simp
  have one: "list_all (\<lambda>l. cmd_rest l = []) ?lines"
    using assms(3) by (auto simp: list_all_iff add_line_one)
  have ls: "map cmd_line ?lines = Some cmd_str_exec_list_clear # map (\<lambda>e. Some (add_line e)) elist"
    using assms(3) by (auto simp: list_all_iff add_line_one)
  have "worker_cmd_exec_lists al' (map cmd_line ?lines) old =
      (0, map (\<lambda>e. e\<lparr>hx_command := flat_command (hx_command e)\<rparr>) elist)"
    unfolding ls using worker_adds [OF assms(4,3), of "[]"]
    by (simp add: worker_cmd_exec_list_def qdevice_heuristics_exec_list_free_def)
  with qd one show ?thesis by blast
qed

definition ex_heuristics :: qdevice_heuristics_instance where
  "ex_heuristics = (qdevice_heuristics_instance_init 10 4096)\<lparr>qh_timeout := 5000, qh_sync_timeout := 15000\<rparr>"

definition ex_exec_list :: exec_list where
  "ex_exec_list = [\<lparr>hx_name = str_bytes ''ping'', hx_command = str_bytes ''/bin/ping -q'' @ [chr_nl] @ str_bytes ''-c 1''\<rparr>]"

lemma ex_heuristics_inv: "sbl_inv 0 (qh_cmd_out_buffer_list ex_heuristics)"
  by (simp add: ex_heuristics_def qdevice_heuristics_instance_init_def sbl_inv_init)

lemma ex_exec_list_ok: "list_all exec_entry_ok ex_exec_list"
  by (simp add: ex_exec_list_def exec_entry_ok_def str_bytes_def line_char_def chr_nl_def chr_cr_def chr_space_def)

lemma ex_write_exec_list:
  "fst (qdevice_heuristics_cmd_write_exec_list (\<lambda>r. True) (Some ex_exec_list) ex_heuristics) = 0"
  by (simp add: qdevice_heuristics_cmd_write_exec_list_def ex_heuristics_def ex_exec_list_def
      qdevice_heuristics_instance_init_def cmd_queue_def send_buffer_list_get_new_def sbl_defs
      dynar_str_cpy_def dynar_str_cat_def dynar_cat_def dynar_prealloc_def dynar_realloc_def dynar_defs
      qdevice_heuristics_cmd_remove_newlines_def str_bytes_def cmd_str_exec_list_clear_def
      cmd_str_exec_list_add_def Let_def)

lemma heuristics_exec_list_roundtrip_witness:
  "\<exists>lines (h' :: qdevice_heuristics_instance). queued (qh_cmd_out_buffer_list h') = queued (qh_cmd_out_buffer_list ex_heuristics) @ lines \<and>
    list_all (\<lambda>l. cmd_rest l = []) lines \<and>
    worker_cmd_exec_lists (\<lambda>r. True) (map cmd_line lines) [] =
      (0, map (\<lambda>e. e\<lparr>hx_command := flat_command (hx_command e)\<rparr>) ex_exec_list)"
proof -
  obtain h' where "qdevice_heuristics_cmd_write_exec_list (\<lambda>r. True) (Some ex_exec_list) ex_heuristics = (0, h')"
    using ex_write_exec_list by (metis prod.collapse)
  moreover have "alloc_ideal (\<lambda>r. True)"
    by (simp add: alloc_ideal_def)
  ultimately show ?thesis
    using heuristics_exec_list_roundtrip [OF _ ex_heuristics_inv ex_exec_list_ok] by blast
qed

text \<open>
  C19. A request to run the heuristics arrives with its numbers, and so does the answer. An
  execution increments the expected sequence number, marks the result as awaited and queues one
  line; the worker reads from it the timeout that belongs to the phase of the membership and that
  sequence number. When the worker answers with that number and any result, the line it writes
  gives the main process the number it expects and the result.
\<close>

theorem heuristics_exec_roundtrip:
  assumes "qdevice_heuristics_exec al sync h = (0, h')" and "sbl_inv 0 (qh_cmd_out_buffer_list h)"
    and "qdevice_heuristics_worker_cmd_write_exec_result al' buf seq res = (0, buf', answer)"
    and "seq = qh_expected_reply_seq_number h'"
  shows "\<exists>l str answer_str. queued (qh_cmd_out_buffer_list h') = queued (qh_cmd_out_buffer_list h) @ [l] \<and>
    cmd_line l = Some str \<and> cmd_rest l = [] \<and>
    worker_exec_scan str = Some (if sync then qh_sync_timeout h else qh_timeout h, seq) \<and>
    qh_waiting_for_result h' \<and>
    cmd_line answer = Some answer_str \<and> cmd_rest answer = [] \<and>
    exec_result_scan answer_str =
      Some (seq, qdevice_heuristics_exec_result_of (qdevice_heuristics_exec_result_code res))"
proof -
  define h1 where "h1 = h\<lparr>qh_expected_reply_seq_number := qh_expected_reply_seq_number h + 1,
    qh_waiting_for_result := True\<rparr>"
  define t where "t = (if sync then qh_sync_timeout h else qh_timeout h)"
  have w: "qdevice_heuristics_cmd_write_exec al t (qh_expected_reply_seq_number h1) h1 = (0, h')"
    using assms(1) by (cases sync) (simp_all add: qdevice_heuristics_exec_def Let_def h1_def t_def)
  have same: "qh_expected_reply_seq_number h' = qh_expected_reply_seq_number h1" "qh_waiting_for_result h'"
    using w by (auto simp: qdevice_heuristics_cmd_write_exec_def cmd_queue_def Let_def h1_def
        split: option.splits prod.splits if_splits)
  let ?str = "cmd_str_exec @ [chr_space] @ dec_digits (unat t) @ [chr_space] @ dec_digits (unat seq)"
  have q: "queued (qh_cmd_out_buffer_list h') = queued (qh_cmd_out_buffer_list h) @ [?str @ [chr_nl]]"
    using write_exec_queue [OF w] assms(2,4) same(1) by (simp add: h1_def)
  let ?ans = "cmd_str_exec_result @ [chr_space] @ dec_digits (unat seq) @ [chr_space] @
    dec_digits (unat (qdevice_heuristics_exec_result_code res))"
  have a: "answer = ?ans @ [chr_nl]"
    using write_exec_result_text [OF assms(3)] .
  have one: "one_line ?str" "one_line ?ans" by simp_all
  have "worker_exec_scan ?str = Some (t, seq)"
    unfolding worker_exec_scan_def scan_command_print by simp
  moreover have "exec_result_scan ?ans = Some (seq, qdevice_heuristics_exec_result_of (qdevice_heuristics_exec_result_code res))"
    unfolding exec_result_scan_def scan_command_print by simp
  ultimately show ?thesis
    using q same(2) cmd_line_nl [OF one(1)] cmd_rest_nl [OF one(1)] cmd_line_nl [OF one(2)] cmd_rest_nl [OF one(2)]
    unfolding a t_def by blast
qed

lemma heuristics_exec_roundtrip_witness:
  "\<exists>h' buf' answer. qdevice_heuristics_exec (\<lambda>r. True) True ex_heuristics = (0, h') \<and>
     qdevice_heuristics_worker_cmd_write_exec_result (\<lambda>r. True) (dynar_init 4096) 1
       QDEVICE_HEURISTICS_EXEC_RESULT_PASS = (0, buf', answer) \<and>
     (\<exists>str. cmd_line answer = Some str \<and>
        exec_result_scan str = Some (1, QDEVICE_HEURISTICS_EXEC_RESULT_PASS))"
proof -
  have d: "dec_digits (Suc 0) = [49]" "dec_digits 15000 = [49, 53, 48, 48, 48]"
    by (simp_all add: dec_digits.simps)
  have 1: "fst (qdevice_heuristics_exec (\<lambda>r. True) True ex_heuristics) = 0"
    "qh_expected_reply_seq_number (snd (qdevice_heuristics_exec (\<lambda>r. True) True ex_heuristics)) = 1"
    by (simp_all add: qdevice_heuristics_exec_def ex_heuristics_def qdevice_heuristics_instance_init_def
        qdevice_heuristics_cmd_write_exec_def cmd_queue_def send_buffer_list_get_new_def sbl_defs
        dynar_str_cpy_def dynar_str_cat_def dynar_cat_def dynar_prealloc_def dynar_realloc_def dynar_defs
        dynar_str_vcatf_def str_bytes_def cmd_str_exec_def Let_def d)
  have 2: "fst (qdevice_heuristics_worker_cmd_write_exec_result (\<lambda>r. True) (dynar_init 4096) 1
      QDEVICE_HEURISTICS_EXEC_RESULT_PASS) = 0"
    by (simp add: qdevice_heuristics_worker_cmd_write_exec_result_def
        dynar_str_cpy_def dynar_str_cat_def dynar_cat_def dynar_prealloc_def dynar_realloc_def dynar_defs
        dynar_str_vcatf_def str_bytes_def cmd_str_exec_result_def Let_def d)
  obtain h' where h': "qdevice_heuristics_exec (\<lambda>r. True) True ex_heuristics = (0, h')"
    "1 = qh_expected_reply_seq_number h'"
    using 1 by (metis prod.collapse snd_conv)
  obtain buf' answer where a: "qdevice_heuristics_worker_cmd_write_exec_result (\<lambda>r. True) (dynar_init 4096) 1
      QDEVICE_HEURISTICS_EXEC_RESULT_PASS = (0, buf', answer)"
    using 2 by (metis prod.collapse)
  have "qdevice_heuristics_exec_result_of (qdevice_heuristics_exec_result_code
      QDEVICE_HEURISTICS_EXEC_RESULT_PASS) = QDEVICE_HEURISTICS_EXEC_RESULT_PASS"
    by (simp add: qdevice_heuristics_exec_result_of_def)
  with heuristics_exec_roundtrip [OF h'(1) ex_heuristics_inv a h'(2)] h'(1) a show ?thesis
    by metis
qed

end
