(* ===== verification/Qdevice_State.thy ===== *)
theory Qdevice_State
  imports Qnetd_State Heuristics
begin

text \<open>
  The state of the client \<open>corosync-qdevice\<close>: \<open>qdevice_instance\<close> and the instance of the model
  \<open>net\<close> that it points to (\<open>model_data\<close>) and that points back to it, as one record inside the
  other. The libraries of corosync (votequorum, cmap), the clock, the TLS library and the file
  descriptors of the poll loop are parameters, collected in \<open>qdev_env\<close>. What the client tells
  corosync, the calls of \<open>votequorum_qdevice_poll\<close>, is recorded in \<open>qd_polls\<close>.
\<close>

section \<open>Enumerations\<close>

datatype qdevice_net_instance_state =
    QDEVICE_NET_INSTANCE_STATE_WAITING_CONNECT
  | QDEVICE_NET_INSTANCE_STATE_SENDING_PREINIT_REPLY
  | QDEVICE_NET_INSTANCE_STATE_WAITING_PREINIT_REPLY
  | QDEVICE_NET_INSTANCE_STATE_WAITING_STARTTLS_BEING_SENT
  | QDEVICE_NET_INSTANCE_STATE_WAITING_INIT_REPLY
  | QDEVICE_NET_INSTANCE_STATE_WAITING_VOTEQUORUM_CMAP_EVENTS

datatype qdevice_net_disconnect_reason =
    QDEVICE_NET_DISCONNECT_REASON_UNDEFINED
  | QDEVICE_NET_DISCONNECT_REASON_UNEXPECTED_MSG
  | QDEVICE_NET_DISCONNECT_REASON_UNSUPPORTED_MSG
  | QDEVICE_NET_DISCONNECT_REASON_INCOMPATIBLE_TLS
  | QDEVICE_NET_DISCONNECT_REASON_INCOMPATIBLE_MSG_SIZE
  | QDEVICE_NET_DISCONNECT_REASON_REQUIRED_OPTION_MISSING
  | QDEVICE_NET_DISCONNECT_REASON_CANT_ALLOCATE_MSG_BUFFER
  | QDEVICE_NET_DISCONNECT_REASON_CANT_SCHEDULE_HB_TIMER
  | QDEVICE_NET_DISCONNECT_REASON_CANT_SCHEDULE_VOTING_TIMER
  | QDEVICE_NET_DISCONNECT_REASON_CANT_SCHEDULE_HEURISTICS_TIMER
  | QDEVICE_NET_DISCONNECT_REASON_CANT_START_HEURISTICS
  | QDEVICE_NET_DISCONNECT_REASON_CANT_ACTIVATE_HEURISTICS_RESULT_NOTIFIER
  | QDEVICE_NET_DISCONNECT_REASON_CANT_REGISTER_VOTEQUORUM_CALLBACK
  | QDEVICE_NET_DISCONNECT_REASON_CANT_REGISTER_CMAP_CALLBACK
  | QDEVICE_NET_DISCONNECT_REASON_CANT_START_TLS
  | QDEVICE_NET_DISCONNECT_REASON_SERVER_SENT_ERROR
  | QDEVICE_NET_DISCONNECT_REASON_SERVER_SENT_DUPLICATE_NODE_ID_ERROR
  | QDEVICE_NET_DISCONNECT_REASON_SERVER_SENT_TIE_BREAKER_DIFFERS_FROM_OTHER_NODES_ERROR
  | QDEVICE_NET_DISCONNECT_REASON_SERVER_SENT_ALGORITHM_DIFFERS_FROM_OTHER_NODES_ERROR
  | QDEVICE_NET_DISCONNECT_REASON_SERVER_DOESNT_SUPPORT_REQUIRED_ALGORITHM
  | QDEVICE_NET_DISCONNECT_REASON_SERVER_DOESNT_SUPPORT_REQUIRED_OPT
  | QDEVICE_NET_DISCONNECT_REASON_MSG_DECODE_ERROR
  | QDEVICE_NET_DISCONNECT_REASON_SERVER_CLOSED_CONNECTION
  | QDEVICE_NET_DISCONNECT_REASON_CANT_READ_MESSAGE
  | QDEVICE_NET_DISCONNECT_REASON_CANT_SEND_MESSAGE
  | QDEVICE_NET_DISCONNECT_REASON_COROSYNC_CONNECTION_CLOSED
  | QDEVICE_NET_DISCONNECT_REASON_LOCAL_SOCKET_CLOSED
  | QDEVICE_NET_DISCONNECT_REASON_CANT_CONNECT_TO_THE_SERVER
  | QDEVICE_NET_DISCONNECT_REASON_ALGO_CONNECTED_ERR
  | QDEVICE_NET_DISCONNECT_REASON_ALGO_CONFIG_NODE_LIST_CHANGED_ERR
  | QDEVICE_NET_DISCONNECT_REASON_ALGO_VOTEQUORUM_QUORUM_NOTIFY_ERR
  | QDEVICE_NET_DISCONNECT_REASON_ALGO_VOTEQUORUM_NODE_LIST_NOTIFY_ERR
  | QDEVICE_NET_DISCONNECT_REASON_ALGO_VOTEQUORUM_NODE_LIST_HEURISTICS_NOTIFY_ERR
  | QDEVICE_NET_DISCONNECT_REASON_ALGO_VOTEQUORUM_EXPECTED_VOTES_NOTIFY_ERR
  | QDEVICE_NET_DISCONNECT_REASON_ALGO_NODE_LIST_REPLY_ERR
  | QDEVICE_NET_DISCONNECT_REASON_ALGO_ASK_FOR_VOTE_REPLY_ERR
  | QDEVICE_NET_DISCONNECT_REASON_ALGO_VOTE_INFO_ERR
  | QDEVICE_NET_DISCONNECT_REASON_ALGO_ECHO_REPLY_RECEIVED_ERR
  | QDEVICE_NET_DISCONNECT_REASON_ALGO_ECHO_REPLY_NOT_RECEIVED_ERR
  | QDEVICE_NET_DISCONNECT_REASON_ALGO_HEURISTICS_CHANGE_ERR
  | QDEVICE_NET_DISCONNECT_REASON_ALGO_HEURISTICS_CHANGE_REPLY_ERR
  | QDEVICE_NET_DISCONNECT_REASON_HEURISTICS_WORKER_CLOSED

definition qdevice_net_disconnect_reason_try_reconnect :: "qdevice_net_disconnect_reason \<Rightarrow> bool" where
  "qdevice_net_disconnect_reason_try_reconnect reason \<longleftrightarrow>
     reason = QDEVICE_NET_DISCONNECT_REASON_MSG_DECODE_ERROR \<or>
     reason = QDEVICE_NET_DISCONNECT_REASON_SERVER_CLOSED_CONNECTION \<or>
     reason = QDEVICE_NET_DISCONNECT_REASON_CANT_READ_MESSAGE \<or>
     reason = QDEVICE_NET_DISCONNECT_REASON_CANT_SEND_MESSAGE \<or>
     reason = QDEVICE_NET_DISCONNECT_REASON_CANT_CONNECT_TO_THE_SERVER \<or>
     reason = QDEVICE_NET_DISCONNECT_REASON_ALGO_ECHO_REPLY_NOT_RECEIVED_ERR \<or>
     reason = QDEVICE_NET_DISCONNECT_REASON_SERVER_SENT_DUPLICATE_NODE_ID_ERROR \<or>
     reason = QDEVICE_NET_DISCONNECT_REASON_SERVER_SENT_TIE_BREAKER_DIFFERS_FROM_OTHER_NODES_ERROR \<or>
     reason = QDEVICE_NET_DISCONNECT_REASON_SERVER_SENT_ALGORITHM_DIFFERS_FROM_OTHER_NODES_ERROR"

definition qdevice_net_disconnect_reason_force_disconnect :: "qdevice_net_disconnect_reason \<Rightarrow> bool" where
  "qdevice_net_disconnect_reason_force_disconnect reason \<longleftrightarrow>
     reason = QDEVICE_NET_DISCONNECT_REASON_COROSYNC_CONNECTION_CLOSED \<or>
     reason = QDEVICE_NET_DISCONNECT_REASON_LOCAL_SOCKET_CLOSED \<or>
     reason = QDEVICE_NET_DISCONNECT_REASON_CANT_SCHEDULE_VOTING_TIMER \<or>
     reason = QDEVICE_NET_DISCONNECT_REASON_CANT_REGISTER_VOTEQUORUM_CALLBACK \<or>
     reason = QDEVICE_NET_DISCONNECT_REASON_CANT_REGISTER_CMAP_CALLBACK \<or>
     reason = QDEVICE_NET_DISCONNECT_REASON_HEURISTICS_WORKER_CLOSED"

datatype qdevice_model_post_poll_loop_exit_reason =
    QDEVICE_MODEL_POST_POLL_LOOP_EXIT_REASON_MODEL
  | QDEVICE_MODEL_POST_POLL_LOOP_EXIT_REASON_VOTEQUORUM_CLOSED
  | QDEVICE_MODEL_POST_POLL_LOOP_EXIT_REASON_CMAP_CLOSED
  | QDEVICE_MODEL_POST_POLL_LOOP_EXIT_REASON_HEURISTICS_CLOSED
  | QDEVICE_MODEL_POST_POLL_LOOP_EXIT_REASON_IPC_SOCKET_CLOSED

section \<open>Interface to corosync\<close>

datatype cs_error = CS_OK | CS_ERR_TRY_AGAIN | CS_ERR_MESSAGE_ERROR | CS_ERR_NOT_EXIST | CS_ERR_OTHER nat

record votequorum_ring_id =
  vrid_nodeid :: u32
  vrid_seq :: u64

datatype votequorum_nodestate =
    VOTEQUORUM_NODESTATE_MEMBER
  | VOTEQUORUM_NODESTATE_DEAD
  | VOTEQUORUM_NODESTATE_LEAVING
  | VOTEQUORUM_NODESTATE_OTHER u32

record votequorum_node =
  vn_nodeid :: u32
  vn_state :: votequorum_nodestate

record votequorum_info =
  vqi_node_votes :: u32
  vqi_qdevice_votes :: u32

record qdev_env =
  ev_al :: allocator
  ev_junk :: memtail
  ev_time :: int
  ev_vq_poll :: "bool \<Rightarrow> votequorum_ring_id \<Rightarrow> cs_error"
  ev_vq_getinfo :: "u32 \<Rightarrow> cs_error \<times> votequorum_info"
  ev_cmap_uint32 :: "string \<Rightarrow> u32 option"
  ev_cmap_uint8 :: "string \<Rightarrow> u8 option"
  ev_start_tls :: bool
  ev_add_prfd :: bool
  ev_del_prfd :: bool
  ev_add_pre_poll_cb :: bool
  ev_del_pre_poll_cb :: bool
  ev_cmap_nodelist :: "node_list option"
  ev_cmap_config_version :: "u64 option"
  ev_nss_init :: bool
  ev_client_init :: bool
  ev_try_next :: bool

section \<open>Instances\<close>

record algo_lms_instance_data =
  lmsd_quorate :: u32
  lmsd_have_wfa :: u8
  lmsd_vote :: tlv_vote

datatype qdevice_algo_data =
    No_Algo_Data
  | Lms_Algo_Data algo_lms_instance_data
  | Freed_Algo_Data

type_synonym timer_id = nat

record qdevice_net_instance =
  qn_socket :: bool
  qn_receive_buffer :: dynar
  qn_send_buffer_list :: send_buffer_list
  qn_skipping_msg :: bool
  qn_msg_already_received_bytes :: nat
  qn_state :: qdevice_net_instance_state
  qn_last_msg_seq_num :: u32
  qn_echo_request_expected_msg_seq_num :: u32
  qn_echo_reply_received_msg_seq_num :: u32
  qn_tls_supported :: tlv_tls_supported
  qn_using_tls :: bool
  qn_tls_client_cert_sent :: bool
  qn_heartbeat_interval :: u32
  qn_sync_heartbeat_interval :: u32
  qn_cast_vote_timer_interval :: u32
  qn_connect_timeout :: u32
  qn_cast_vote_timer :: "timer_id option"
  qn_cast_vote_timer_vote :: tlv_vote
  qn_cast_vote_timer_paused :: bool
  qn_cluster_name :: "byte list"
  qn_decision_algorithm :: tlv_decision_algorithm_type
  qn_echo_request_timer :: "timer_id option"
  qn_schedule_disconnect :: bool
  qn_last_sent_ring_id :: tlv_ring_id
  qn_tie_breaker :: tlv_tie_breaker
  qn_algorithm_data :: qdevice_algo_data
  qn_disconnect_reason :: qdevice_net_disconnect_reason
  qn_non_blocking_client_destroyed :: bool
  qn_connect_timer :: "timer_id option"
  qn_last_echo_reply_received_time :: int
  qn_connected_since_time :: int
  qn_regular_heuristics_timer :: "timer_id option"
  qn_server_supports_heuristics :: bool
  qn_server_supports_kap_tb :: bool
  qn_kap_tb :: tlv_keep_active_partition_tie_breaker
  qn_latest_regular_heuristics_result :: tlv_heuristics
  qn_latest_connect_heuristics_result :: tlv_heuristics
  qn_latest_vq_heuristics_result :: tlv_heuristics
  qn_latest_heuristics_result :: tlv_heuristics

text \<open>
  The timers of the main poll loop: identity, function and interval of each running one. This is
  what \<open>timer_list\<close> promises its callers; which timer is due when is left open.
\<close>

datatype qdev_timer = Cast_Vote_Timer | Echo_Request_Timer | Connect_Timer | Regular_Heuristics_Timer

type_synonym running_timer = "timer_id \<times> qdev_timer \<times> u32"

record qdevice_instance =
  qd_node_id :: u32
  qd_config_node_list :: node_list
  qd_config_node_list_version_set :: bool
  qd_config_node_list_version :: u64
  qd_vq_quorum_quorate :: u32
  qd_vq_quorum_node_list :: "votequorum_node list"
  qd_vq_node_list_initial_ring_id_set :: bool
  qd_vq_node_list_ring_id :: votequorum_ring_id
  qd_vq_node_list :: "u32 list"
  qd_vq_node_list_initial_heuristics_finished :: bool
  qd_vq_node_list_heuristics_result :: qdevice_heuristics_exec_result
  qd_vq_poll_ring_id :: votequorum_ring_id
  qd_vq_expected_votes :: u32
  qd_vq_last_poll :: int
  qd_vq_last_poll_cast_vote :: bool
  qd_sync_in_progress :: bool
  qd_cmap_reload_in_progress :: bool
  qd_votequorum_closed :: bool
  qd_cmap_closed :: bool
  qd_heuristics_closed :: bool
  qd_heuristics_instance :: qdevice_heuristics_instance
  qd_advanced_settings :: qdevice_advanced_settings
  qd_timers :: "running_timer list"
  qd_polls :: "(bool \<times> votequorum_ring_id) list"
  qd_net :: qdevice_net_instance

type_synonym qdev_result = "fault + (int \<times> qdevice_instance)"

definition upd_net :: "(qdevice_net_instance \<Rightarrow> qdevice_net_instance) \<Rightarrow> qdevice_instance \<Rightarrow> qdevice_instance" where
  "upd_net f qd = qd\<lparr>qd_net := f (qd_net qd)\<rparr>"

definition upd_heuristics ::
    "(qdevice_heuristics_instance \<Rightarrow> qdevice_heuristics_instance) \<Rightarrow> qdevice_instance \<Rightarrow> qdevice_instance" where
  "upd_heuristics f qd = qd\<lparr>qd_heuristics_instance := f (qd_heuristics_instance qd)\<rparr>"

definition on_heuristics ::
    "(qdevice_heuristics_instance \<Rightarrow> int \<times> qdevice_heuristics_instance) \<Rightarrow> qdevice_instance \<Rightarrow> int \<times> qdevice_instance" where
  "on_heuristics f qd =
     (case f (qd_heuristics_instance qd) of (r, h) \<Rightarrow> (r, qd\<lparr>qd_heuristics_instance := h\<rparr>))"

definition set_reason :: "qdevice_net_disconnect_reason \<Rightarrow> qdevice_instance \<Rightarrow> qdevice_instance" where
  "set_reason reason = upd_net (\<lambda>n. n\<lparr>qn_disconnect_reason := reason\<rparr>)"

definition set_schedule_disconnect :: "qdevice_instance \<Rightarrow> qdevice_instance" where
  "set_schedule_disconnect = upd_net (\<lambda>n. n\<lparr>qn_schedule_disconnect := True\<rparr>)"

definition qd_timer_add ::
    "allocator \<Rightarrow> u32 \<Rightarrow> qdev_timer \<Rightarrow> qdevice_instance \<Rightarrow> timer_id option \<times> qdevice_instance" where
  "qd_timer_add al interval timer qd =
     (case timer_start al interval of
        None \<Rightarrow> (None, qd)
      | Some i \<Rightarrow> let t = fresh_ref (map fst (qd_timers qd))
                   in (Some t, qd\<lparr>qd_timers := qd_timers qd @ [(t, timer, i)]\<rparr>))"

definition qd_timer_delete :: "timer_id \<Rightarrow> qdevice_instance \<Rightarrow> qdevice_instance" where
  "qd_timer_delete t qd = qd\<lparr>qd_timers := filter (\<lambda>x. fst x \<noteq> t) (qd_timers qd)\<rparr>"

section \<open>Life cycle of the net instance\<close>

text \<open>
  \<open>qdevice_net_instance_init\<close>. The instance is zeroed first: the vote of the cast vote timer is 0
  (\<open>TLV_VOTE_UNDEFINED\<close>) and the client for the connection counts as not destroyed.
\<close>

definition qdevice_net_instance_init ::
    "tlv_tls_supported \<Rightarrow> tlv_decision_algorithm_type \<Rightarrow> u32 \<Rightarrow> u32 \<Rightarrow> u32 \<Rightarrow> byte list \<Rightarrow>
     tlv_tie_breaker \<Rightarrow> u32 \<Rightarrow> tlv_keep_active_partition_tie_breaker \<Rightarrow> qdevice_advanced_settings \<Rightarrow>
     qdevice_net_instance" where
  "qdevice_net_instance_init tls_supported decision_algorithm heartbeat_interval
     sync_heartbeat_interval cast_vote_timer_interval cluster_name tie_breaker connect_timeout
     kap_tb advanced_settings =
     \<lparr>qn_socket = False,
      qn_receive_buffer = dynar_init (qs_net_initial_msg_receive_size advanced_settings),
      qn_send_buffer_list = send_buffer_list_init (qs_net_max_send_buffers advanced_settings)
        (qs_net_initial_msg_send_size advanced_settings),
      qn_skipping_msg = False, qn_msg_already_received_bytes = 0,
      qn_state = QDEVICE_NET_INSTANCE_STATE_WAITING_CONNECT, qn_last_msg_seq_num = 1,
      qn_echo_request_expected_msg_seq_num = 1, qn_echo_reply_received_msg_seq_num = 1,
      qn_tls_supported = tls_supported, qn_using_tls = False, qn_tls_client_cert_sent = False,
      qn_heartbeat_interval = heartbeat_interval,
      qn_sync_heartbeat_interval = sync_heartbeat_interval,
      qn_cast_vote_timer_interval = cast_vote_timer_interval, qn_connect_timeout = connect_timeout,
      qn_cast_vote_timer = None, qn_cast_vote_timer_vote = TLV_VOTE_UNDEFINED,
      qn_cast_vote_timer_paused = False, qn_cluster_name = cluster_name,
      qn_decision_algorithm = decision_algorithm, qn_echo_request_timer = None,
      qn_schedule_disconnect = False, qn_last_sent_ring_id = \<lparr>rid_node_id = 0, rid_seq = 0\<rparr>,
      qn_tie_breaker = tie_breaker, qn_algorithm_data = No_Algo_Data,
      qn_disconnect_reason = QDEVICE_NET_DISCONNECT_REASON_UNDEFINED,
      qn_non_blocking_client_destroyed = False, qn_connect_timer = None,
      qn_last_echo_reply_received_time = -1, qn_connected_since_time = -1,
      qn_regular_heuristics_timer = None, qn_server_supports_heuristics = False,
      qn_server_supports_kap_tb = False, qn_kap_tb = kap_tb,
      qn_latest_regular_heuristics_result = TLV_HEURISTICS_UNDEFINED,
      qn_latest_connect_heuristics_result = TLV_HEURISTICS_UNDEFINED,
      qn_latest_vq_heuristics_result = TLV_HEURISTICS_UNDEFINED,
      qn_latest_heuristics_result = TLV_HEURISTICS_UNDEFINED\<rparr>"

definition qdevice_net_instance_clean :: "qdevice_net_instance \<Rightarrow> qdevice_net_instance" where
  "qdevice_net_instance_clean n =
     n\<lparr>qn_receive_buffer := dynar_clean (qn_receive_buffer n),
       qn_send_buffer_list := send_buffer_list_free (qn_send_buffer_list n),
       qn_skipping_msg := False, qn_msg_already_received_bytes := 0,
       qn_echo_request_expected_msg_seq_num := qn_echo_reply_received_msg_seq_num n,
       qn_using_tls := False, qn_tls_client_cert_sent := False,
       qn_state := QDEVICE_NET_INSTANCE_STATE_WAITING_CONNECT,
       qn_schedule_disconnect := False,
       qn_disconnect_reason := QDEVICE_NET_DISCONNECT_REASON_UNDEFINED,
       qn_last_echo_reply_received_time := -1, qn_connected_since_time := -1\<rparr>"

text \<open>The name of the cluster and the address of the host are freed; neither is used afterwards.\<close>

definition qdevice_net_instance_destroy :: "qdevice_net_instance \<Rightarrow> qdevice_net_instance" where
  "qdevice_net_instance_destroy n =
     n\<lparr>qn_receive_buffer := dynar_destroy (qn_receive_buffer n),
       qn_send_buffer_list := send_buffer_list_free (qn_send_buffer_list n)\<rparr>"

section \<open>Votequorum\<close>

definition qdevice_votequorum_poll :: "qdev_env \<Rightarrow> bool \<Rightarrow> qdevice_instance \<Rightarrow> int \<times> qdevice_instance" where
  "qdevice_votequorum_poll ev cast_vote qd =
     (let qd1 = qd\<lparr>qd_vq_last_poll := ev_time ev, qd_vq_last_poll_cast_vote := cast_vote,
                   qd_polls := qd_polls qd @ [(cast_vote, qd_vq_poll_ring_id qd)]\<rparr>;
          res = ev_vq_poll ev cast_vote (qd_vq_poll_ring_id qd)
      in (if res \<noteq> CS_OK \<and> res \<noteq> CS_ERR_TRY_AGAIN \<and> res \<noteq> CS_ERR_MESSAGE_ERROR then -1 else 0, qd1))"

definition qdevice_net_votequorum_node_state_to_tlv :: "votequorum_nodestate \<Rightarrow> fault + tlv_node_state" where
  "qdevice_net_votequorum_node_state_to_tlv s =
     (case s of
        VOTEQUORUM_NODESTATE_MEMBER \<Rightarrow> Inr TLV_NODE_STATE_MEMBER
      | VOTEQUORUM_NODESTATE_DEAD \<Rightarrow> Inr TLV_NODE_STATE_DEAD
      | VOTEQUORUM_NODESTATE_LEAVING \<Rightarrow> Inr TLV_NODE_STATE_LEAVING
      | VOTEQUORUM_NODESTATE_OTHER w \<Rightarrow> Inl Exit_Failure)"

definition qdevice_net_votequorum_ring_id_to_tlv :: "votequorum_ring_id \<Rightarrow> tlv_ring_id" where
  "qdevice_net_votequorum_ring_id_to_tlv rid = \<lparr>rid_node_id = vrid_nodeid rid, rid_seq = vrid_seq rid\<rparr>"

end
