(* ===== verification/Qdevice_Send.thy ===== *)
theory Qdevice_Send
  imports Qdevice_State
begin

text \<open>
  The messages that the client sends (\<open>qdevice-net-send.c\<close>) and the timer that tells corosync the
  current vote (\<open>qdevice-net-cast-vote-timer.c\<close>).
\<close>

section \<open>Sending\<close>

text \<open>
  The steps that the senders share: get an entry, change the instance (\<open>bump\<close>: the sequence
  number), create the message in the buffer, and put the entry in the queue or discard it.
\<close>

definition net_send ::
    "allocator \<Rightarrow> (qdevice_net_instance \<Rightarrow> qdevice_net_instance) \<Rightarrow>
     (qdevice_net_instance \<Rightarrow> dynar \<Rightarrow> nat \<times> dynar) \<Rightarrow> qdevice_instance \<Rightarrow> int \<times> qdevice_instance" where
  "net_send al bump create qd =
     (case send_buffer_list_get_new al (qn_send_buffer_list (qd_net qd)) of
        (None, sbl) \<Rightarrow> (-1, upd_net (\<lambda>n. n\<lparr>qn_send_buffer_list := sbl\<rparr>) qd)
      | (Some send_buffer, sbl) \<Rightarrow>
          let qd1 = upd_net bump qd
          in case create (qd_net qd1) (sb_buffer send_buffer) of
               (len, buf) \<Rightarrow>
                 let send_buffer' = send_buffer\<lparr>sb_buffer := buf\<rparr>
                 in if len = 0
                    then (-1, upd_net (\<lambda>n. n\<lparr>qn_send_buffer_list :=
                                 send_buffer_list_discard_new sbl send_buffer'\<rparr>) qd1)
                    else (0, upd_net (\<lambda>n. n\<lparr>qn_send_buffer_list :=
                                send_buffer_list_put sbl send_buffer'\<rparr>) qd1))"

definition next_seq :: "qdevice_net_instance \<Rightarrow> qdevice_net_instance" where
  "next_seq n = n\<lparr>qn_last_msg_seq_num := qn_last_msg_seq_num n + 1\<rparr>"

definition qdevice_net_send_echo_request :: "allocator \<Rightarrow> qdevice_instance \<Rightarrow> int \<times> qdevice_instance" where
  "qdevice_net_send_echo_request al =
     net_send al
       (\<lambda>n. n\<lparr>qn_echo_request_expected_msg_seq_num := qn_echo_request_expected_msg_seq_num n + 1\<rparr>)
       (\<lambda>n buf. msg_create_echo_request al buf True (qn_echo_request_expected_msg_seq_num n))"

definition qdevice_net_send_preinit :: "allocator \<Rightarrow> qdevice_instance \<Rightarrow> int \<times> qdevice_instance" where
  "qdevice_net_send_preinit al qd =
     (case net_send al (\<lambda>n. n)
             (\<lambda>n buf. msg_create_preinit al buf (qn_cluster_name n) True (qn_last_msg_seq_num n)) qd of
        (r, qd1) \<Rightarrow>
          if r \<noteq> 0 then (-1, qd1)
          else (0, upd_net (\<lambda>n. n\<lparr>qn_state := QDEVICE_NET_INSTANCE_STATE_WAITING_PREINIT_REPLY\<rparr>) qd1))"

text \<open>\<open>qdevice_net_send_init\<close> takes the next sequence number before it asks for a buffer.\<close>

definition qdevice_net_send_init :: "allocator \<Rightarrow> qdevice_instance \<Rightarrow> int \<times> qdevice_instance" where
  "qdevice_net_send_init al qd0 =
     (let qd = upd_net next_seq qd0;
          tlv_rid = qdevice_net_votequorum_ring_id_to_tlv (qd_vq_node_list_ring_id qd)
      in case net_send al (\<lambda>n. n)
                (\<lambda>n buf. msg_create_init al buf True (qn_last_msg_seq_num n) (qn_decision_algorithm n)
                   msg_get_supported_messages tlv_static_supported_options (qd_node_id qd)
                   (qn_heartbeat_interval n) (qn_tie_breaker n) tlv_rid) qd of
           (r, qd1) \<Rightarrow>
             if r \<noteq> 0 then (-1, qd1)
             else (0, upd_net (\<lambda>n. n\<lparr>qn_last_sent_ring_id := tlv_rid,
                                     qn_state := QDEVICE_NET_INSTANCE_STATE_WAITING_INIT_REPLY\<rparr>) qd1))"

definition qdevice_net_send_ask_for_vote :: "allocator \<Rightarrow> qdevice_instance \<Rightarrow> int \<times> qdevice_instance" where
  "qdevice_net_send_ask_for_vote al =
     net_send al next_seq (\<lambda>n buf. msg_create_ask_for_vote al buf (qn_last_msg_seq_num n))"

definition qdevice_net_send_config_node_list ::
    "allocator \<Rightarrow> node_list \<Rightarrow> bool \<Rightarrow> u64 \<Rightarrow> bool \<Rightarrow> qdevice_instance \<Rightarrow> int \<times> qdevice_instance" where
  "qdevice_net_send_config_node_list al nlist config_version_set config_version initial =
     net_send al next_seq
       (\<lambda>n buf. msg_create_node_list al buf (qn_last_msg_seq_num n)
          (if initial then TLV_NODE_LIST_TYPE_INITIAL_CONFIG else TLV_NODE_LIST_TYPE_CHANGED_CONFIG)
          False \<lparr>rid_node_id = 0, rid_seq = 0\<rparr> config_version_set config_version
          False TLV_QUORATE_INQUORATE False TLV_HEURISTICS_UNDEFINED nlist)"

definition qdevice_net_send_heuristics_change ::
    "allocator \<Rightarrow> tlv_heuristics \<Rightarrow> qdevice_instance \<Rightarrow> int \<times> qdevice_instance" where
  "qdevice_net_send_heuristics_change al heuristics =
     net_send al next_seq
       (\<lambda>n buf. msg_create_heuristics_change al buf (qn_last_msg_seq_num n) heuristics)"

fun membership_nodes :: "allocator \<Rightarrow> u32 list \<Rightarrow> node_list \<Rightarrow> node_list option" where
  "membership_nodes al [] nlist = Some nlist"
| "membership_nodes al (i # is) nlist =
     (case node_list_add al nlist i 0 TLV_NODE_STATE_NOT_SET of
        None \<Rightarrow> None | Some nlist' \<Rightarrow> membership_nodes al is nlist')"

definition qdevice_net_send_membership_node_list ::
    "allocator \<Rightarrow> tlv_ring_id \<Rightarrow> u32 list \<Rightarrow> tlv_heuristics \<Rightarrow> qdevice_instance \<Rightarrow> int \<times> qdevice_instance" where
  "qdevice_net_send_membership_node_list al ring_id node_list heuristics qd =
     (case membership_nodes al node_list node_list_init of
        None \<Rightarrow> (-1, qd)
      | Some nlist \<Rightarrow>
          (case net_send al next_seq
                  (\<lambda>n buf. msg_create_node_list al buf (qn_last_msg_seq_num n)
                     TLV_NODE_LIST_TYPE_MEMBERSHIP True ring_id False 0 False TLV_QUORATE_INQUORATE
                     True heuristics nlist) qd of
             (r, qd1) \<Rightarrow>
               if r \<noteq> 0 then (-1, qd1)
               else (0, upd_net (\<lambda>n. n\<lparr>qn_last_sent_ring_id := ring_id\<rparr>) qd1)))"

fun quorum_nodes :: "allocator \<Rightarrow> votequorum_node list \<Rightarrow> node_list \<Rightarrow> fault + node_list option" where
  "quorum_nodes al [] nlist = Inr (Some nlist)"
| "quorum_nodes al (v # vs) nlist =
     (if vn_nodeid v = 0 then quorum_nodes al vs nlist
      else bindE (qdevice_net_votequorum_node_state_to_tlv (vn_state v)) (\<lambda>st.
             case node_list_add al nlist (vn_nodeid v) 0 st of
               None \<Rightarrow> Inr None | Some nlist' \<Rightarrow> quorum_nodes al vs nlist'))"

definition qdevice_net_send_quorum_node_list ::
    "allocator \<Rightarrow> tlv_quorate \<Rightarrow> votequorum_node list \<Rightarrow> qdevice_instance \<Rightarrow> qdev_result" where
  "qdevice_net_send_quorum_node_list al quorate node_list qd =
     bindE (quorum_nodes al node_list node_list_init) (\<lambda>nl.
       case nl of
         None \<Rightarrow> Inr (-1, qd)
       | Some nlist \<Rightarrow>
           Inr (net_send al next_seq
             (\<lambda>n buf. msg_create_node_list al buf (qn_last_msg_seq_num n) TLV_NODE_LIST_TYPE_QUORUM
                False \<lparr>rid_node_id = 0, rid_seq = 0\<rparr> False 0 True quorate
                False TLV_HEURISTICS_UNDEFINED nlist) qd))"

definition qdevice_net_send_set_option ::
    "allocator \<Rightarrow> bool \<Rightarrow> u32 \<Rightarrow> bool \<Rightarrow> tlv_keep_active_partition_tie_breaker \<Rightarrow> qdevice_instance \<Rightarrow>
     int \<times> qdevice_instance" where
  "qdevice_net_send_set_option al add_heartbeat_interval heartbeat_interval add_kap_tb kap_tb =
     net_send al next_seq
       (\<lambda>n buf. msg_create_set_option al buf True (qn_last_msg_seq_num n)
          add_heartbeat_interval heartbeat_interval add_kap_tb kap_tb)"

section \<open>The cast vote timer\<close>

text \<open>The callback; result 0 ends the timer, -1 schedules it again.\<close>

definition qdevice_net_cast_vote_timer_callback :: "qdev_env \<Rightarrow> qdevice_instance \<Rightarrow> qdev_result" where
  "qdevice_net_cast_vote_timer_callback ev qd =
     (if qn_cast_vote_timer_paused (qd_net qd) then Inr (-1, qd)
      else let vote = qn_cast_vote_timer_vote (qd_net qd)
           in if vote = TLV_VOTE_ACK \<or> vote = TLV_VOTE_NACK
              then (case qdevice_votequorum_poll ev (vote = TLV_VOTE_ACK) qd of
                      (r, qd1) \<Rightarrow>
                        if r \<noteq> 0
                        then Inr (0, upd_net (\<lambda>n. n\<lparr>qn_disconnect_reason :=
                               QDEVICE_NET_DISCONNECT_REASON_CANT_SCHEDULE_VOTING_TIMER,
                               qn_schedule_disconnect := True, qn_cast_vote_timer := None\<rparr>) qd1)
                        else Inr (-1, qd1))
              else Inl Exit_Failure)"

definition cast_vote_timer_start :: "qdev_env \<Rightarrow> qdevice_instance \<Rightarrow> int \<times> qdevice_instance" where
  "cast_vote_timer_start ev qd =
     (if qn_cast_vote_timer (qd_net qd) = None
      then (case qd_timer_add (ev_al ev) (qn_cast_vote_timer_interval (qd_net qd)) Cast_Vote_Timer qd of
              (t, qd1) \<Rightarrow> (if t = None then -1 else 0, upd_net (\<lambda>n. n\<lparr>qn_cast_vote_timer := t\<rparr>) qd1))
      else (0, qd))"

definition cast_vote_timer_stop :: "qdevice_instance \<Rightarrow> qdevice_instance" where
  "cast_vote_timer_stop qd =
     (case qn_cast_vote_timer (qd_net qd) of
        None \<Rightarrow> qd
      | Some t \<Rightarrow> upd_net (\<lambda>n. n\<lparr>qn_cast_vote_timer := None\<rparr>) (qd_timer_delete t qd))"

definition qdevice_net_cast_vote_timer_update ::
    "qdev_env \<Rightarrow> tlv_vote \<Rightarrow> qdevice_instance \<Rightarrow> qdev_result" where
  "qdevice_net_cast_vote_timer_update ev vote qd =
     (if vote = TLV_VOTE_NO_CHANGE then Inr (0, qd)
      else if vote = TLV_VOTE_UNDEFINED then Inl Exit_Failure
      else let qd1 = upd_net (\<lambda>n. n\<lparr>qn_cast_vote_timer_vote := vote\<rparr>) qd
           in if vote = TLV_VOTE_ACK \<or> vote = TLV_VOTE_NACK
              then (case cast_vote_timer_start ev qd1 of
                      (r, qd2) \<Rightarrow>
                        if r = -1 then Inr (-1, qd2)
                        else bindE (qdevice_net_cast_vote_timer_callback ev qd2) (\<lambda>(r3, qd3).
                               Inr (if r3 \<noteq> -1 then -1 else 0, qd3)))
              else Inr (0, cast_vote_timer_stop qd1))"

definition qdevice_net_cast_vote_timer_set_paused :: "bool \<Rightarrow> qdevice_instance \<Rightarrow> qdevice_instance" where
  "qdevice_net_cast_vote_timer_set_paused paused qd =
     (if paused \<noteq> qn_cast_vote_timer_paused (qd_net qd)
      then upd_net (\<lambda>n. n\<lparr>qn_cast_vote_timer_paused := paused\<rparr>) qd else qd)"

end
