(* ===== verification/Qdevice_Algo.thy ===== *)
theory Qdevice_Algo
  imports Qdevice_Send
begin

text \<open>
  The decision algorithms on the side of the client: \<open>struct qdevice_net_algorithm\<close> of
  \<open>qdevice-net-algorithm.h\<close>, the four algorithms (\<open>qdevice-net-algo-test.c\<close>, \<open>-ffsplit.c\<close>,
  \<open>-2nodelms.c\<close>, \<open>-lms.c\<close>), their registration and the dispatch of \<open>qdevice-net-algorithm.c\<close>. An
  in-out argument of the code is an argument and a component of the result. The contract of the
  algorithms is the locale \<open>net_algorithm\<close>: an algorithm may answer with the vote it was given,
  with no change or with NACK, never with another vote, it touches nothing but its private data,
  and it takes no vote from a reply to an old ring.
\<close>

section \<open>The interface\<close>

type_synonym vote_result = "fault + (int \<times> tlv_vote \<times> qdevice_instance)"
type_synonym 'x vote_ext_result = "fault + (int \<times> 'x \<times> tlv_vote \<times> qdevice_instance)"

text \<open>
  Arguments that no algorithm reads (node lists, configuration versions, the reason of a
  disconnect) are left out; so are the sequence numbers and ring ids of replies, of which an
  algorithm sees whether they are the expected ones.
\<close>

record qdevice_net_algorithm =
  qa_init :: "qdev_env \<Rightarrow> qdevice_instance \<Rightarrow> qdev_result"
  qa_connected :: "tlv_heuristics \<times> bool \<times> bool \<times> bool \<Rightarrow> tlv_vote \<Rightarrow> qdevice_instance \<Rightarrow>
    (tlv_heuristics \<times> bool \<times> bool \<times> bool) vote_ext_result"
  qa_config_node_list_changed :: "qdev_env \<Rightarrow> bool \<Rightarrow> tlv_vote \<Rightarrow> qdevice_instance \<Rightarrow> bool vote_ext_result"
  qa_votequorum_node_list_notify :: "bool \<Rightarrow> tlv_vote \<Rightarrow> qdevice_instance \<Rightarrow> bool vote_ext_result"
  qa_votequorum_node_list_heuristics_notify ::
    "bool \<times> tlv_heuristics \<Rightarrow> tlv_vote \<Rightarrow> qdevice_instance \<Rightarrow> (bool \<times> tlv_heuristics) vote_ext_result"
  qa_votequorum_quorum_notify :: "u32 \<Rightarrow> bool \<Rightarrow> tlv_vote \<Rightarrow> qdevice_instance \<Rightarrow> bool vote_ext_result"
  qa_votequorum_expected_votes_notify :: "qdev_env \<Rightarrow> tlv_vote \<Rightarrow> qdevice_instance \<Rightarrow> vote_result"
  qa_config_node_list_reply_received :: "bool \<Rightarrow> tlv_vote \<Rightarrow> qdevice_instance \<Rightarrow> vote_result"
  qa_membership_node_list_reply_received :: "bool \<Rightarrow> tlv_vote \<Rightarrow> qdevice_instance \<Rightarrow> vote_result"
  qa_quorum_node_list_reply_received :: "bool \<Rightarrow> tlv_vote \<Rightarrow> qdevice_instance \<Rightarrow> vote_result"
  qa_ask_for_vote_reply_received :: "bool \<Rightarrow> tlv_vote \<Rightarrow> qdevice_instance \<Rightarrow> vote_result"
  qa_vote_info_received :: "bool \<Rightarrow> tlv_vote \<Rightarrow> qdevice_instance \<Rightarrow> vote_result"
  qa_echo_reply_received :: "bool \<Rightarrow> qdevice_instance \<Rightarrow> qdev_result"
  qa_echo_reply_not_received :: "qdevice_instance \<Rightarrow> qdev_result"
  qa_heuristics_change ::
    "tlv_heuristics \<times> bool \<Rightarrow> tlv_vote \<Rightarrow> qdevice_instance \<Rightarrow> (tlv_heuristics \<times> bool) vote_ext_result"
  qa_heuristics_change_reply_received :: "bool \<Rightarrow> tlv_vote \<Rightarrow> qdevice_instance \<Rightarrow> vote_result"
  qa_disconnected :: "bool \<Rightarrow> tlv_vote \<Rightarrow> qdevice_instance \<Rightarrow> bool vote_ext_result"
  qa_destroy :: "qdevice_instance \<Rightarrow> fault + qdevice_instance"

text \<open>The private data of the instance; a null or freed pointer is a fault.\<close>

definition lms_data :: "qdevice_instance \<Rightarrow> fault + algo_lms_instance_data" where
  "lms_data qd =
     (case qn_algorithm_data (qd_net qd) of
        No_Algo_Data \<Rightarrow> Inl Null_Deref | Lms_Algo_Data d \<Rightarrow> Inr d | Freed_Algo_Data \<Rightarrow> Inl Type_Confusion)"

definition set_algo_data :: "qdevice_algo_data \<Rightarrow> qdevice_instance \<Rightarrow> qdevice_instance" where
  "set_algo_data d = upd_net (\<lambda>n. n\<lparr>qn_algorithm_data := d\<rparr>)"

section \<open>The test algorithm\<close>

definition qdevice_net_algo_test_init :: "qdev_env \<Rightarrow> qdevice_instance \<Rightarrow> qdev_result" where
  "qdevice_net_algo_test_init ev qd =
     Inr (0, set_algo_data No_Algo_Data qd)"

definition qdevice_net_algo_test_connected :: "tlv_heuristics \<times> bool \<times> bool \<times> bool \<Rightarrow> tlv_vote \<Rightarrow> qdevice_instance \<Rightarrow>
    (tlv_heuristics \<times> bool \<times> bool \<times> bool) vote_ext_result" where
  "qdevice_net_algo_test_connected x vote qd =
     Inr (0, x, vote, qd)"

definition qdevice_net_algo_test_config_node_list_changed :: "qdev_env \<Rightarrow> bool \<Rightarrow> tlv_vote \<Rightarrow> qdevice_instance \<Rightarrow> bool vote_ext_result" where
  "qdevice_net_algo_test_config_node_list_changed ev send_node_list vote qd =
     Inr (0, send_node_list, vote, qd)"

definition qdevice_net_algo_test_votequorum_node_list_notify :: "bool \<Rightarrow> tlv_vote \<Rightarrow> qdevice_instance \<Rightarrow> bool vote_ext_result" where
  "qdevice_net_algo_test_votequorum_node_list_notify pause_cast_vote_timer vote qd =
     Inr (0, pause_cast_vote_timer, vote, qd)"

definition qdevice_net_algo_test_votequorum_node_list_heuristics_notify :: "bool \<times> tlv_heuristics \<Rightarrow> tlv_vote \<Rightarrow> qdevice_instance \<Rightarrow>
    (bool \<times> tlv_heuristics) vote_ext_result" where
  "qdevice_net_algo_test_votequorum_node_list_heuristics_notify x vote qd =
     Inr (0, x, vote, qd)"

definition qdevice_net_algo_test_votequorum_quorum_notify :: "u32 \<Rightarrow> bool \<Rightarrow> tlv_vote \<Rightarrow> qdevice_instance \<Rightarrow> bool vote_ext_result" where
  "qdevice_net_algo_test_votequorum_quorum_notify quorate send_node_list vote qd =
     Inr (0, send_node_list, vote, qd)"

definition qdevice_net_algo_test_votequorum_expected_votes_notify :: "qdev_env \<Rightarrow> tlv_vote \<Rightarrow> qdevice_instance \<Rightarrow> vote_result" where
  "qdevice_net_algo_test_votequorum_expected_votes_notify ev vote qd =
     Inr (0, vote, qd)"

definition qdevice_net_algo_test_config_node_list_reply_received :: "bool \<Rightarrow> tlv_vote \<Rightarrow> qdevice_instance \<Rightarrow> vote_result" where
  "qdevice_net_algo_test_config_node_list_reply_received ring_id_is_valid vote qd =
     Inr (0, if \<not> ring_id_is_valid then TLV_VOTE_NO_CHANGE else vote, qd)"

definition qdevice_net_algo_test_membership_node_list_reply_received :: "bool \<Rightarrow> tlv_vote \<Rightarrow> qdevice_instance \<Rightarrow> vote_result" where
  "qdevice_net_algo_test_membership_node_list_reply_received ring_id_is_valid vote qd =
     Inr (0, if \<not> ring_id_is_valid then TLV_VOTE_NO_CHANGE else vote, qd)"

definition qdevice_net_algo_test_quorum_node_list_reply_received :: "bool \<Rightarrow> tlv_vote \<Rightarrow> qdevice_instance \<Rightarrow> vote_result" where
  "qdevice_net_algo_test_quorum_node_list_reply_received ring_id_is_valid vote qd =
     Inr (0, if \<not> ring_id_is_valid then TLV_VOTE_NO_CHANGE else vote, qd)"

definition qdevice_net_algo_test_ask_for_vote_reply_received :: "bool \<Rightarrow> tlv_vote \<Rightarrow> qdevice_instance \<Rightarrow> vote_result" where
  "qdevice_net_algo_test_ask_for_vote_reply_received ring_id_is_valid vote qd =
     Inr (0, if \<not> ring_id_is_valid then TLV_VOTE_NO_CHANGE else vote, qd)"

definition qdevice_net_algo_test_vote_info_received :: "bool \<Rightarrow> tlv_vote \<Rightarrow> qdevice_instance \<Rightarrow> vote_result" where
  "qdevice_net_algo_test_vote_info_received ring_id_is_valid vote qd =
     Inr (0, if \<not> ring_id_is_valid then TLV_VOTE_NO_CHANGE else vote, qd)"

definition qdevice_net_algo_test_echo_reply_received :: "bool \<Rightarrow> qdevice_instance \<Rightarrow> qdev_result" where
  "qdevice_net_algo_test_echo_reply_received is_expected_seq_number qd =
     Inr (if is_expected_seq_number then 0 else -1, qd)"

definition qdevice_net_algo_test_echo_reply_not_received :: "qdevice_instance \<Rightarrow> qdev_result" where
  "qdevice_net_algo_test_echo_reply_not_received qd =
     Inr (-1, qd)"

definition qdevice_net_algo_test_heuristics_change :: "tlv_heuristics \<times> bool \<Rightarrow> tlv_vote \<Rightarrow> qdevice_instance \<Rightarrow> (tlv_heuristics \<times> bool) vote_ext_result" where
  "qdevice_net_algo_test_heuristics_change x vote qd =
     Inr (0, x, vote, qd)"

definition qdevice_net_algo_test_heuristics_change_reply_received :: "bool \<Rightarrow> tlv_vote \<Rightarrow> qdevice_instance \<Rightarrow> vote_result" where
  "qdevice_net_algo_test_heuristics_change_reply_received ring_id_is_valid vote qd =
     Inr (0, if \<not> ring_id_is_valid then TLV_VOTE_NO_CHANGE else vote, qd)"

definition qdevice_net_algo_test_disconnected :: "bool \<Rightarrow> tlv_vote \<Rightarrow> qdevice_instance \<Rightarrow> bool vote_ext_result" where
  "qdevice_net_algo_test_disconnected try_reconnect vote qd =
     Inr (0, try_reconnect, vote, qd)"

definition qdevice_net_algo_test_destroy :: "qdevice_instance \<Rightarrow> fault + qdevice_instance" where
  "qdevice_net_algo_test_destroy qd =
     Inr qd"

definition qdevice_net_algo_test :: qdevice_net_algorithm where
  "qdevice_net_algo_test =
     \<lparr>qa_init = qdevice_net_algo_test_init,
      qa_connected = qdevice_net_algo_test_connected,
      qa_config_node_list_changed = qdevice_net_algo_test_config_node_list_changed,
      qa_votequorum_node_list_notify = qdevice_net_algo_test_votequorum_node_list_notify,
      qa_votequorum_node_list_heuristics_notify = qdevice_net_algo_test_votequorum_node_list_heuristics_notify,
      qa_votequorum_quorum_notify = qdevice_net_algo_test_votequorum_quorum_notify,
      qa_votequorum_expected_votes_notify = qdevice_net_algo_test_votequorum_expected_votes_notify,
      qa_config_node_list_reply_received = qdevice_net_algo_test_config_node_list_reply_received,
      qa_membership_node_list_reply_received = qdevice_net_algo_test_membership_node_list_reply_received,
      qa_quorum_node_list_reply_received = qdevice_net_algo_test_quorum_node_list_reply_received,
      qa_ask_for_vote_reply_received = qdevice_net_algo_test_ask_for_vote_reply_received,
      qa_vote_info_received = qdevice_net_algo_test_vote_info_received,
      qa_echo_reply_received = qdevice_net_algo_test_echo_reply_received,
      qa_echo_reply_not_received = qdevice_net_algo_test_echo_reply_not_received,
      qa_heuristics_change = qdevice_net_algo_test_heuristics_change,
      qa_heuristics_change_reply_received = qdevice_net_algo_test_heuristics_change_reply_received,
      qa_disconnected = qdevice_net_algo_test_disconnected,
      qa_destroy = qdevice_net_algo_test_destroy\<rparr>"

lemmas net_test_defs = qdevice_net_algo_test_def
  qdevice_net_algo_test_init_def
  qdevice_net_algo_test_connected_def
  qdevice_net_algo_test_config_node_list_changed_def
  qdevice_net_algo_test_votequorum_node_list_notify_def
  qdevice_net_algo_test_votequorum_node_list_heuristics_notify_def
  qdevice_net_algo_test_votequorum_quorum_notify_def
  qdevice_net_algo_test_votequorum_expected_votes_notify_def
  qdevice_net_algo_test_config_node_list_reply_received_def
  qdevice_net_algo_test_membership_node_list_reply_received_def
  qdevice_net_algo_test_quorum_node_list_reply_received_def
  qdevice_net_algo_test_ask_for_vote_reply_received_def
  qdevice_net_algo_test_vote_info_received_def
  qdevice_net_algo_test_echo_reply_received_def
  qdevice_net_algo_test_echo_reply_not_received_def
  qdevice_net_algo_test_heuristics_change_def
  qdevice_net_algo_test_heuristics_change_reply_received_def
  qdevice_net_algo_test_disconnected_def
  qdevice_net_algo_test_destroy_def

section \<open>Fifty-fifty split\<close>

fun vqinfo_loop :: "qdev_env \<Rightarrow> node_list \<Rightarrow> int" where
  "vqinfo_loop ev [] = 0"
| "vqinfo_loop ev (node # nodes) =
     (case ev_vq_getinfo ev (nl_node_id node) of
        (cs_res, vq_info) \<Rightarrow>
          if cs_res = CS_ERR_NOT_EXIST then vqinfo_loop ev nodes
          else if cs_res \<noteq> CS_OK then -1
          else if vqi_node_votes vq_info \<noteq> 1 then -1
          else if vqi_qdevice_votes vq_info \<noteq> 1 then -1
          else vqinfo_loop ev nodes)"

definition check_vqinfo_validity :: "qdev_env \<Rightarrow> qdevice_instance \<Rightarrow> int" where
  "check_vqinfo_validity ev qd = vqinfo_loop ev (qd_config_node_list qd)"

definition check_cmap_validity :: "qdev_env \<Rightarrow> int" where
  "check_cmap_validity ev = (if ev_cmap_uint32 ev ''quorum.device.votes'' \<noteq> Some 1 then -1 else 0)"

definition qdevice_net_algo_ffsplit_init :: "qdev_env \<Rightarrow> qdevice_instance \<Rightarrow> qdev_result" where
  "qdevice_net_algo_ffsplit_init ev qd =
     Inr (if check_cmap_validity ev \<noteq> 0 \<or> check_vqinfo_validity ev qd \<noteq> 0 then -1 else 0, qd)"

definition qdevice_net_algo_ffsplit_connected :: "tlv_heuristics \<times> bool \<times> bool \<times> bool \<Rightarrow> tlv_vote \<Rightarrow> qdevice_instance \<Rightarrow>
    (tlv_heuristics \<times> bool \<times> bool \<times> bool) vote_ext_result" where
  "qdevice_net_algo_ffsplit_connected x vote qd =
     Inr (0, x, vote, qd)"

definition qdevice_net_algo_ffsplit_config_node_list_changed :: "qdev_env \<Rightarrow> bool \<Rightarrow> tlv_vote \<Rightarrow> qdevice_instance \<Rightarrow> bool vote_ext_result" where
  "qdevice_net_algo_ffsplit_config_node_list_changed ev send_node_list vote qd =
     Inr (if check_vqinfo_validity ev qd \<noteq> 0 then -1 else 0, send_node_list, vote, qd)"

definition qdevice_net_algo_ffsplit_votequorum_node_list_notify :: "bool \<Rightarrow> tlv_vote \<Rightarrow> qdevice_instance \<Rightarrow> bool vote_ext_result" where
  "qdevice_net_algo_ffsplit_votequorum_node_list_notify pause_cast_vote_timer vote qd =
     Inr (0, pause_cast_vote_timer, vote, qd)"

definition qdevice_net_algo_ffsplit_votequorum_node_list_heuristics_notify :: "bool \<times> tlv_heuristics \<Rightarrow> tlv_vote \<Rightarrow> qdevice_instance \<Rightarrow>
    (bool \<times> tlv_heuristics) vote_ext_result" where
  "qdevice_net_algo_ffsplit_votequorum_node_list_heuristics_notify x vote qd =
     Inr (0, x, vote, qd)"

definition qdevice_net_algo_ffsplit_votequorum_quorum_notify :: "u32 \<Rightarrow> bool \<Rightarrow> tlv_vote \<Rightarrow> qdevice_instance \<Rightarrow> bool vote_ext_result" where
  "qdevice_net_algo_ffsplit_votequorum_quorum_notify quorate send_node_list vote qd =
     Inr (0, send_node_list, vote, qd)"

definition qdevice_net_algo_ffsplit_votequorum_expected_votes_notify :: "qdev_env \<Rightarrow> tlv_vote \<Rightarrow> qdevice_instance \<Rightarrow> vote_result" where
  "qdevice_net_algo_ffsplit_votequorum_expected_votes_notify ev vote qd =
     Inr (if check_vqinfo_validity ev qd \<noteq> 0 then -1 else 0, vote, qd)"

definition qdevice_net_algo_ffsplit_config_node_list_reply_received :: "bool \<Rightarrow> tlv_vote \<Rightarrow> qdevice_instance \<Rightarrow> vote_result" where
  "qdevice_net_algo_ffsplit_config_node_list_reply_received ring_id_is_valid vote qd =
     Inr (0, if \<not> ring_id_is_valid then TLV_VOTE_NO_CHANGE else vote, qd)"

definition qdevice_net_algo_ffsplit_membership_node_list_reply_received :: "bool \<Rightarrow> tlv_vote \<Rightarrow> qdevice_instance \<Rightarrow> vote_result" where
  "qdevice_net_algo_ffsplit_membership_node_list_reply_received ring_id_is_valid vote qd =
     Inr (0, if \<not> ring_id_is_valid then TLV_VOTE_NO_CHANGE else vote, qd)"

definition qdevice_net_algo_ffsplit_quorum_node_list_reply_received :: "bool \<Rightarrow> tlv_vote \<Rightarrow> qdevice_instance \<Rightarrow> vote_result" where
  "qdevice_net_algo_ffsplit_quorum_node_list_reply_received ring_id_is_valid vote qd =
     Inr (0, if \<not> ring_id_is_valid then TLV_VOTE_NO_CHANGE else vote, qd)"

definition qdevice_net_algo_ffsplit_ask_for_vote_reply_received :: "bool \<Rightarrow> tlv_vote \<Rightarrow> qdevice_instance \<Rightarrow> vote_result" where
  "qdevice_net_algo_ffsplit_ask_for_vote_reply_received ring_id_is_valid vote qd =
     Inr (0, if \<not> ring_id_is_valid then TLV_VOTE_NO_CHANGE else vote, qd)"

definition qdevice_net_algo_ffsplit_vote_info_received :: "bool \<Rightarrow> tlv_vote \<Rightarrow> qdevice_instance \<Rightarrow> vote_result" where
  "qdevice_net_algo_ffsplit_vote_info_received ring_id_is_valid vote qd =
     Inr (0, if \<not> ring_id_is_valid then TLV_VOTE_NO_CHANGE else vote, qd)"

definition qdevice_net_algo_ffsplit_echo_reply_received :: "bool \<Rightarrow> qdevice_instance \<Rightarrow> qdev_result" where
  "qdevice_net_algo_ffsplit_echo_reply_received is_expected_seq_number qd =
     Inr (if is_expected_seq_number then 0 else -1, qd)"

definition qdevice_net_algo_ffsplit_echo_reply_not_received :: "qdevice_instance \<Rightarrow> qdev_result" where
  "qdevice_net_algo_ffsplit_echo_reply_not_received qd =
     Inr (-1, qd)"

definition qdevice_net_algo_ffsplit_heuristics_change :: "tlv_heuristics \<times> bool \<Rightarrow> tlv_vote \<Rightarrow> qdevice_instance \<Rightarrow> (tlv_heuristics \<times> bool) vote_ext_result" where
  "qdevice_net_algo_ffsplit_heuristics_change x vote qd =
     Inr (0, x, vote, qd)"

definition qdevice_net_algo_ffsplit_heuristics_change_reply_received :: "bool \<Rightarrow> tlv_vote \<Rightarrow> qdevice_instance \<Rightarrow> vote_result" where
  "qdevice_net_algo_ffsplit_heuristics_change_reply_received ring_id_is_valid vote qd =
     Inr (0, if \<not> ring_id_is_valid then TLV_VOTE_NO_CHANGE else vote, qd)"

definition qdevice_net_algo_ffsplit_disconnected :: "bool \<Rightarrow> tlv_vote \<Rightarrow> qdevice_instance \<Rightarrow> bool vote_ext_result" where
  "qdevice_net_algo_ffsplit_disconnected try_reconnect vote qd =
     Inr (0, try_reconnect, TLV_VOTE_NACK, qd)"

definition qdevice_net_algo_ffsplit_destroy :: "qdevice_instance \<Rightarrow> fault + qdevice_instance" where
  "qdevice_net_algo_ffsplit_destroy qd =
     Inr qd"

definition qdevice_net_algo_ffsplit :: qdevice_net_algorithm where
  "qdevice_net_algo_ffsplit =
     \<lparr>qa_init = qdevice_net_algo_ffsplit_init,
      qa_connected = qdevice_net_algo_ffsplit_connected,
      qa_config_node_list_changed = qdevice_net_algo_ffsplit_config_node_list_changed,
      qa_votequorum_node_list_notify = qdevice_net_algo_ffsplit_votequorum_node_list_notify,
      qa_votequorum_node_list_heuristics_notify = qdevice_net_algo_ffsplit_votequorum_node_list_heuristics_notify,
      qa_votequorum_quorum_notify = qdevice_net_algo_ffsplit_votequorum_quorum_notify,
      qa_votequorum_expected_votes_notify = qdevice_net_algo_ffsplit_votequorum_expected_votes_notify,
      qa_config_node_list_reply_received = qdevice_net_algo_ffsplit_config_node_list_reply_received,
      qa_membership_node_list_reply_received = qdevice_net_algo_ffsplit_membership_node_list_reply_received,
      qa_quorum_node_list_reply_received = qdevice_net_algo_ffsplit_quorum_node_list_reply_received,
      qa_ask_for_vote_reply_received = qdevice_net_algo_ffsplit_ask_for_vote_reply_received,
      qa_vote_info_received = qdevice_net_algo_ffsplit_vote_info_received,
      qa_echo_reply_received = qdevice_net_algo_ffsplit_echo_reply_received,
      qa_echo_reply_not_received = qdevice_net_algo_ffsplit_echo_reply_not_received,
      qa_heuristics_change = qdevice_net_algo_ffsplit_heuristics_change,
      qa_heuristics_change_reply_received = qdevice_net_algo_ffsplit_heuristics_change_reply_received,
      qa_disconnected = qdevice_net_algo_ffsplit_disconnected,
      qa_destroy = qdevice_net_algo_ffsplit_destroy\<rparr>"

lemmas net_ffsplit_defs = qdevice_net_algo_ffsplit_def
  qdevice_net_algo_ffsplit_init_def
  qdevice_net_algo_ffsplit_connected_def
  qdevice_net_algo_ffsplit_config_node_list_changed_def
  qdevice_net_algo_ffsplit_votequorum_node_list_notify_def
  qdevice_net_algo_ffsplit_votequorum_node_list_heuristics_notify_def
  qdevice_net_algo_ffsplit_votequorum_quorum_notify_def
  qdevice_net_algo_ffsplit_votequorum_expected_votes_notify_def
  qdevice_net_algo_ffsplit_config_node_list_reply_received_def
  qdevice_net_algo_ffsplit_membership_node_list_reply_received_def
  qdevice_net_algo_ffsplit_quorum_node_list_reply_received_def
  qdevice_net_algo_ffsplit_ask_for_vote_reply_received_def
  qdevice_net_algo_ffsplit_vote_info_received_def
  qdevice_net_algo_ffsplit_echo_reply_received_def
  qdevice_net_algo_ffsplit_echo_reply_not_received_def
  qdevice_net_algo_ffsplit_heuristics_change_def
  qdevice_net_algo_ffsplit_heuristics_change_reply_received_def
  qdevice_net_algo_ffsplit_disconnected_def
  qdevice_net_algo_ffsplit_destroy_def

section \<open>Two-node last man standing\<close>

definition qdevice_net_algo_2nodelms_init :: "qdev_env \<Rightarrow> qdevice_instance \<Rightarrow> qdev_result" where
  "qdevice_net_algo_2nodelms_init ev qd =
     Inr (0, qd)"

definition qdevice_net_algo_2nodelms_connected :: "tlv_heuristics \<times> bool \<times> bool \<times> bool \<Rightarrow> tlv_vote \<Rightarrow> qdevice_instance \<Rightarrow>
    (tlv_heuristics \<times> bool \<times> bool \<times> bool) vote_ext_result" where
  "qdevice_net_algo_2nodelms_connected x vote qd =
     Inr (0, x, vote, qd)"

definition qdevice_net_algo_2nodelms_config_node_list_changed :: "qdev_env \<Rightarrow> bool \<Rightarrow> tlv_vote \<Rightarrow> qdevice_instance \<Rightarrow> bool vote_ext_result" where
  "qdevice_net_algo_2nodelms_config_node_list_changed ev send_node_list vote qd =
     Inr (0, send_node_list, vote, qd)"

definition qdevice_net_algo_2nodelms_votequorum_node_list_notify :: "bool \<Rightarrow> tlv_vote \<Rightarrow> qdevice_instance \<Rightarrow> bool vote_ext_result" where
  "qdevice_net_algo_2nodelms_votequorum_node_list_notify pause_cast_vote_timer vote qd =
     Inr (0, pause_cast_vote_timer, vote, qd)"

definition qdevice_net_algo_2nodelms_votequorum_node_list_heuristics_notify :: "bool \<times> tlv_heuristics \<Rightarrow> tlv_vote \<Rightarrow> qdevice_instance \<Rightarrow>
    (bool \<times> tlv_heuristics) vote_ext_result" where
  "qdevice_net_algo_2nodelms_votequorum_node_list_heuristics_notify x vote qd =
     Inr (0, x, vote, qd)"

definition qdevice_net_algo_2nodelms_votequorum_quorum_notify :: "u32 \<Rightarrow> bool \<Rightarrow> tlv_vote \<Rightarrow> qdevice_instance \<Rightarrow> bool vote_ext_result" where
  "qdevice_net_algo_2nodelms_votequorum_quorum_notify quorate send_node_list vote qd =
     Inr (0, send_node_list, vote, qd)"

definition qdevice_net_algo_2nodelms_votequorum_expected_votes_notify :: "qdev_env \<Rightarrow> tlv_vote \<Rightarrow> qdevice_instance \<Rightarrow> vote_result" where
  "qdevice_net_algo_2nodelms_votequorum_expected_votes_notify ev vote qd =
     Inr (0, vote, qd)"

definition qdevice_net_algo_2nodelms_config_node_list_reply_received :: "bool \<Rightarrow> tlv_vote \<Rightarrow> qdevice_instance \<Rightarrow> vote_result" where
  "qdevice_net_algo_2nodelms_config_node_list_reply_received ring_id_is_valid vote qd =
     Inr (0, if \<not> ring_id_is_valid then TLV_VOTE_NO_CHANGE else vote, qd)"

definition qdevice_net_algo_2nodelms_membership_node_list_reply_received :: "bool \<Rightarrow> tlv_vote \<Rightarrow> qdevice_instance \<Rightarrow> vote_result" where
  "qdevice_net_algo_2nodelms_membership_node_list_reply_received ring_id_is_valid vote qd =
     Inr (0, if \<not> ring_id_is_valid then TLV_VOTE_NO_CHANGE else vote, qd)"

definition qdevice_net_algo_2nodelms_quorum_node_list_reply_received :: "bool \<Rightarrow> tlv_vote \<Rightarrow> qdevice_instance \<Rightarrow> vote_result" where
  "qdevice_net_algo_2nodelms_quorum_node_list_reply_received ring_id_is_valid vote qd =
     Inr (0, if \<not> ring_id_is_valid then TLV_VOTE_NO_CHANGE else vote, qd)"

definition qdevice_net_algo_2nodelms_ask_for_vote_reply_received :: "bool \<Rightarrow> tlv_vote \<Rightarrow> qdevice_instance \<Rightarrow> vote_result" where
  "qdevice_net_algo_2nodelms_ask_for_vote_reply_received ring_id_is_valid vote qd =
     Inr (0, if \<not> ring_id_is_valid then TLV_VOTE_NO_CHANGE else vote, qd)"

definition qdevice_net_algo_2nodelms_vote_info_received :: "bool \<Rightarrow> tlv_vote \<Rightarrow> qdevice_instance \<Rightarrow> vote_result" where
  "qdevice_net_algo_2nodelms_vote_info_received ring_id_is_valid vote qd =
     Inr (0, if \<not> ring_id_is_valid then TLV_VOTE_NO_CHANGE else vote, qd)"

definition qdevice_net_algo_2nodelms_echo_reply_received :: "bool \<Rightarrow> qdevice_instance \<Rightarrow> qdev_result" where
  "qdevice_net_algo_2nodelms_echo_reply_received is_expected_seq_number qd =
     Inr (if is_expected_seq_number then 0 else -1, qd)"

definition qdevice_net_algo_2nodelms_echo_reply_not_received :: "qdevice_instance \<Rightarrow> qdev_result" where
  "qdevice_net_algo_2nodelms_echo_reply_not_received qd =
     Inr (-1, qd)"

definition qdevice_net_algo_2nodelms_heuristics_change :: "tlv_heuristics \<times> bool \<Rightarrow> tlv_vote \<Rightarrow> qdevice_instance \<Rightarrow> (tlv_heuristics \<times> bool) vote_ext_result" where
  "qdevice_net_algo_2nodelms_heuristics_change x vote qd =
     Inr (0, x, vote, qd)"

definition qdevice_net_algo_2nodelms_heuristics_change_reply_received :: "bool \<Rightarrow> tlv_vote \<Rightarrow> qdevice_instance \<Rightarrow> vote_result" where
  "qdevice_net_algo_2nodelms_heuristics_change_reply_received ring_id_is_valid vote qd =
     Inr (0, if \<not> ring_id_is_valid then TLV_VOTE_NO_CHANGE else vote, qd)"

definition qdevice_net_algo_2nodelms_disconnected :: "bool \<Rightarrow> tlv_vote \<Rightarrow> qdevice_instance \<Rightarrow> bool vote_ext_result" where
  "qdevice_net_algo_2nodelms_disconnected try_reconnect vote qd =
     Inr (0, try_reconnect, vote, qd)"

definition qdevice_net_algo_2nodelms_destroy :: "qdevice_instance \<Rightarrow> fault + qdevice_instance" where
  "qdevice_net_algo_2nodelms_destroy qd =
     Inr qd"

definition qdevice_net_algo_2nodelms :: qdevice_net_algorithm where
  "qdevice_net_algo_2nodelms =
     \<lparr>qa_init = qdevice_net_algo_2nodelms_init,
      qa_connected = qdevice_net_algo_2nodelms_connected,
      qa_config_node_list_changed = qdevice_net_algo_2nodelms_config_node_list_changed,
      qa_votequorum_node_list_notify = qdevice_net_algo_2nodelms_votequorum_node_list_notify,
      qa_votequorum_node_list_heuristics_notify = qdevice_net_algo_2nodelms_votequorum_node_list_heuristics_notify,
      qa_votequorum_quorum_notify = qdevice_net_algo_2nodelms_votequorum_quorum_notify,
      qa_votequorum_expected_votes_notify = qdevice_net_algo_2nodelms_votequorum_expected_votes_notify,
      qa_config_node_list_reply_received = qdevice_net_algo_2nodelms_config_node_list_reply_received,
      qa_membership_node_list_reply_received = qdevice_net_algo_2nodelms_membership_node_list_reply_received,
      qa_quorum_node_list_reply_received = qdevice_net_algo_2nodelms_quorum_node_list_reply_received,
      qa_ask_for_vote_reply_received = qdevice_net_algo_2nodelms_ask_for_vote_reply_received,
      qa_vote_info_received = qdevice_net_algo_2nodelms_vote_info_received,
      qa_echo_reply_received = qdevice_net_algo_2nodelms_echo_reply_received,
      qa_echo_reply_not_received = qdevice_net_algo_2nodelms_echo_reply_not_received,
      qa_heuristics_change = qdevice_net_algo_2nodelms_heuristics_change,
      qa_heuristics_change_reply_received = qdevice_net_algo_2nodelms_heuristics_change_reply_received,
      qa_disconnected = qdevice_net_algo_2nodelms_disconnected,
      qa_destroy = qdevice_net_algo_2nodelms_destroy\<rparr>"

lemmas net_2nodelms_defs = qdevice_net_algo_2nodelms_def
  qdevice_net_algo_2nodelms_init_def
  qdevice_net_algo_2nodelms_connected_def
  qdevice_net_algo_2nodelms_config_node_list_changed_def
  qdevice_net_algo_2nodelms_votequorum_node_list_notify_def
  qdevice_net_algo_2nodelms_votequorum_node_list_heuristics_notify_def
  qdevice_net_algo_2nodelms_votequorum_quorum_notify_def
  qdevice_net_algo_2nodelms_votequorum_expected_votes_notify_def
  qdevice_net_algo_2nodelms_config_node_list_reply_received_def
  qdevice_net_algo_2nodelms_membership_node_list_reply_received_def
  qdevice_net_algo_2nodelms_quorum_node_list_reply_received_def
  qdevice_net_algo_2nodelms_ask_for_vote_reply_received_def
  qdevice_net_algo_2nodelms_vote_info_received_def
  qdevice_net_algo_2nodelms_echo_reply_received_def
  qdevice_net_algo_2nodelms_echo_reply_not_received_def
  qdevice_net_algo_2nodelms_heuristics_change_def
  qdevice_net_algo_2nodelms_heuristics_change_reply_received_def
  qdevice_net_algo_2nodelms_disconnected_def
  qdevice_net_algo_2nodelms_destroy_def

section \<open>Last man standing\<close>

definition qdevice_net_algo_lms_init :: "qdev_env \<Rightarrow> qdevice_instance \<Rightarrow> qdev_result" where
  "qdevice_net_algo_lms_init ev qd =
     (if \<not> ev_al ev Malloc_Algo_Lms_Data then Inr (-1, qd)
      else Inr (0, set_algo_data (Lms_Algo_Data \<lparr>lmsd_quorate = 0,
             lmsd_have_wfa = (case ev_cmap_uint8 ev ''quorum.wait_for_all'' of None \<Rightarrow> 0 | Some w \<Rightarrow> w),
             lmsd_vote = TLV_VOTE_ASK_LATER\<rparr>) qd))"

definition qdevice_net_algo_lms_connected :: "tlv_heuristics \<times> bool \<times> bool \<times> bool \<Rightarrow> tlv_vote \<Rightarrow> qdevice_instance \<Rightarrow>
    (tlv_heuristics \<times> bool \<times> bool \<times> bool) vote_ext_result" where
  "qdevice_net_algo_lms_connected x vote qd =
     Inr (0, x, vote, qd)"

definition qdevice_net_algo_lms_config_node_list_changed :: "qdev_env \<Rightarrow> bool \<Rightarrow> tlv_vote \<Rightarrow> qdevice_instance \<Rightarrow> bool vote_ext_result" where
  "qdevice_net_algo_lms_config_node_list_changed ev send_node_list vote qd =
     Inr (0, send_node_list, vote, qd)"

definition qdevice_net_algo_lms_votequorum_node_list_notify :: "bool \<Rightarrow> tlv_vote \<Rightarrow> qdevice_instance \<Rightarrow> bool vote_ext_result" where
  "qdevice_net_algo_lms_votequorum_node_list_notify pause_cast_vote_timer vote qd =
     Inr (0, pause_cast_vote_timer, vote, qd)"

definition qdevice_net_algo_lms_votequorum_node_list_heuristics_notify :: "bool \<times> tlv_heuristics \<Rightarrow> tlv_vote \<Rightarrow> qdevice_instance \<Rightarrow>
    (bool \<times> tlv_heuristics) vote_ext_result" where
  "qdevice_net_algo_lms_votequorum_node_list_heuristics_notify x vote qd =
     Inr (0, x, vote, qd)"

definition qdevice_net_algo_lms_votequorum_quorum_notify :: "u32 \<Rightarrow> bool \<Rightarrow> tlv_vote \<Rightarrow> qdevice_instance \<Rightarrow> bool vote_ext_result" where
  "qdevice_net_algo_lms_votequorum_quorum_notify quorate send_node_list vote qd =
     bindE (lms_data qd) (\<lambda>data.
       Inr (0, send_node_list, vote, set_algo_data (Lms_Algo_Data (data\<lparr>lmsd_quorate := quorate\<rparr>)) qd))"

definition qdevice_net_algo_lms_votequorum_expected_votes_notify :: "qdev_env \<Rightarrow> tlv_vote \<Rightarrow> qdevice_instance \<Rightarrow> vote_result" where
  "qdevice_net_algo_lms_votequorum_expected_votes_notify ev vote qd =
     Inr (0, vote, qd)"

definition qdevice_net_algo_lms_config_node_list_reply_received :: "bool \<Rightarrow> tlv_vote \<Rightarrow> qdevice_instance \<Rightarrow> vote_result" where
  "qdevice_net_algo_lms_config_node_list_reply_received ring_id_is_valid vote qd =
     Inr (0, if \<not> ring_id_is_valid then TLV_VOTE_NO_CHANGE else vote, qd)"

definition qdevice_net_algo_lms_membership_node_list_reply_received :: "bool \<Rightarrow> tlv_vote \<Rightarrow> qdevice_instance \<Rightarrow> vote_result" where
  "qdevice_net_algo_lms_membership_node_list_reply_received ring_id_is_valid vote qd =
     Inr (0, if \<not> ring_id_is_valid then TLV_VOTE_NO_CHANGE else vote, qd)"

definition qdevice_net_algo_lms_quorum_node_list_reply_received :: "bool \<Rightarrow> tlv_vote \<Rightarrow> qdevice_instance \<Rightarrow> vote_result" where
  "qdevice_net_algo_lms_quorum_node_list_reply_received ring_id_is_valid vote qd =
     Inr (0, if \<not> ring_id_is_valid then TLV_VOTE_NO_CHANGE else vote, qd)"

definition qdevice_net_algo_lms_ask_for_vote_reply_received :: "bool \<Rightarrow> tlv_vote \<Rightarrow> qdevice_instance \<Rightarrow> vote_result" where
  "qdevice_net_algo_lms_ask_for_vote_reply_received ring_id_is_valid vote qd =
     Inr (0, if \<not> ring_id_is_valid then TLV_VOTE_NO_CHANGE else vote, qd)"

definition qdevice_net_algo_lms_vote_info_received :: "bool \<Rightarrow> tlv_vote \<Rightarrow> qdevice_instance \<Rightarrow> vote_result" where
  "qdevice_net_algo_lms_vote_info_received ring_id_is_valid vote qd =
     Inr (0, if \<not> ring_id_is_valid then TLV_VOTE_NO_CHANGE else vote, qd)"

definition qdevice_net_algo_lms_echo_reply_received :: "bool \<Rightarrow> qdevice_instance \<Rightarrow> qdev_result" where
  "qdevice_net_algo_lms_echo_reply_received is_expected_seq_number qd =
     Inr (if is_expected_seq_number then 0 else -1, qd)"

definition qdevice_net_algo_lms_echo_reply_not_received :: "qdevice_instance \<Rightarrow> qdev_result" where
  "qdevice_net_algo_lms_echo_reply_not_received qd =
     bindE (lms_data qd) (\<lambda>data.
       Inr (if lmsd_quorate data \<noteq> 0 \<and> lmsd_have_wfa data \<noteq> 0 then 0 else -1, qd))"

definition qdevice_net_algo_lms_heuristics_change :: "tlv_heuristics \<times> bool \<Rightarrow> tlv_vote \<Rightarrow> qdevice_instance \<Rightarrow> (tlv_heuristics \<times> bool) vote_ext_result" where
  "qdevice_net_algo_lms_heuristics_change x vote qd =
     Inr (0, x, vote, qd)"

definition qdevice_net_algo_lms_heuristics_change_reply_received :: "bool \<Rightarrow> tlv_vote \<Rightarrow> qdevice_instance \<Rightarrow> vote_result" where
  "qdevice_net_algo_lms_heuristics_change_reply_received ring_id_is_valid vote qd =
     Inr (0, if \<not> ring_id_is_valid then TLV_VOTE_NO_CHANGE else vote, qd)"

definition qdevice_net_algo_lms_disconnected :: "bool \<Rightarrow> tlv_vote \<Rightarrow> qdevice_instance \<Rightarrow> bool vote_ext_result" where
  "qdevice_net_algo_lms_disconnected try_reconnect vote qd =
     bindE (lms_data qd) (\<lambda>data.
       Inr (0, True, if lmsd_quorate data = 0 \<or> lmsd_have_wfa data = 0 then TLV_VOTE_NACK else vote, qd))"

definition qdevice_net_algo_lms_destroy :: "qdevice_instance \<Rightarrow> fault + qdevice_instance" where
  "qdevice_net_algo_lms_destroy qd =
     (case qn_algorithm_data (qd_net qd) of
        Freed_Algo_Data \<Rightarrow> Inl Double_Free
      | No_Algo_Data \<Rightarrow> Inr qd
      | Lms_Algo_Data d \<Rightarrow> Inr (set_algo_data Freed_Algo_Data qd))"

definition qdevice_net_algo_lms :: qdevice_net_algorithm where
  "qdevice_net_algo_lms =
     \<lparr>qa_init = qdevice_net_algo_lms_init,
      qa_connected = qdevice_net_algo_lms_connected,
      qa_config_node_list_changed = qdevice_net_algo_lms_config_node_list_changed,
      qa_votequorum_node_list_notify = qdevice_net_algo_lms_votequorum_node_list_notify,
      qa_votequorum_node_list_heuristics_notify = qdevice_net_algo_lms_votequorum_node_list_heuristics_notify,
      qa_votequorum_quorum_notify = qdevice_net_algo_lms_votequorum_quorum_notify,
      qa_votequorum_expected_votes_notify = qdevice_net_algo_lms_votequorum_expected_votes_notify,
      qa_config_node_list_reply_received = qdevice_net_algo_lms_config_node_list_reply_received,
      qa_membership_node_list_reply_received = qdevice_net_algo_lms_membership_node_list_reply_received,
      qa_quorum_node_list_reply_received = qdevice_net_algo_lms_quorum_node_list_reply_received,
      qa_ask_for_vote_reply_received = qdevice_net_algo_lms_ask_for_vote_reply_received,
      qa_vote_info_received = qdevice_net_algo_lms_vote_info_received,
      qa_echo_reply_received = qdevice_net_algo_lms_echo_reply_received,
      qa_echo_reply_not_received = qdevice_net_algo_lms_echo_reply_not_received,
      qa_heuristics_change = qdevice_net_algo_lms_heuristics_change,
      qa_heuristics_change_reply_received = qdevice_net_algo_lms_heuristics_change_reply_received,
      qa_disconnected = qdevice_net_algo_lms_disconnected,
      qa_destroy = qdevice_net_algo_lms_destroy\<rparr>"

lemmas net_lms_defs = qdevice_net_algo_lms_def
  qdevice_net_algo_lms_init_def
  qdevice_net_algo_lms_connected_def
  qdevice_net_algo_lms_config_node_list_changed_def
  qdevice_net_algo_lms_votequorum_node_list_notify_def
  qdevice_net_algo_lms_votequorum_node_list_heuristics_notify_def
  qdevice_net_algo_lms_votequorum_quorum_notify_def
  qdevice_net_algo_lms_votequorum_expected_votes_notify_def
  qdevice_net_algo_lms_config_node_list_reply_received_def
  qdevice_net_algo_lms_membership_node_list_reply_received_def
  qdevice_net_algo_lms_quorum_node_list_reply_received_def
  qdevice_net_algo_lms_ask_for_vote_reply_received_def
  qdevice_net_algo_lms_vote_info_received_def
  qdevice_net_algo_lms_echo_reply_received_def
  qdevice_net_algo_lms_echo_reply_not_received_def
  qdevice_net_algo_lms_heuristics_change_def
  qdevice_net_algo_lms_heuristics_change_reply_received_def
  qdevice_net_algo_lms_disconnected_def
  qdevice_net_algo_lms_destroy_def

section \<open>Registration and dispatch\<close>

type_synonym net_algorithm_array = "nat \<Rightarrow> qdevice_net_algorithm option"

definition qdevice_net_static_supported_decision_algorithms_size :: nat where
  "qdevice_net_static_supported_decision_algorithms_size = 4"

definition qdevice_net_algorithm_register ::
    "tlv_decision_algorithm_type \<Rightarrow> qdevice_net_algorithm \<Rightarrow> net_algorithm_array \<Rightarrow> int \<times> net_algorithm_array" where
  "qdevice_net_algorithm_register algorithm_number algorithm aa =
     (let n = unat (tlv_decision_algorithm_type_code algorithm_number)
      in if n \<ge> qdevice_net_static_supported_decision_algorithms_size then (-1, aa)
         else if aa n \<noteq> None then (-1, aa)
         else (0, aa(n := Some algorithm)))"

definition qdevice_net_algorithm_register_all :: "net_algorithm_array \<Rightarrow> int \<times> net_algorithm_array" where
  "qdevice_net_algorithm_register_all aa0 =
     (case qdevice_net_algorithm_register TLV_DECISION_ALGORITHM_TYPE_TEST qdevice_net_algo_test aa0 of
        (r1, aa1) \<Rightarrow> if r1 \<noteq> 0 then (-1, aa1) else
      (case qdevice_net_algorithm_register TLV_DECISION_ALGORITHM_TYPE_FFSPLIT qdevice_net_algo_ffsplit aa1 of
        (r2, aa2) \<Rightarrow> if r2 \<noteq> 0 then (-1, aa2) else
      (case qdevice_net_algorithm_register TLV_DECISION_ALGORITHM_TYPE_2NODELMS qdevice_net_algo_2nodelms aa2 of
        (r3, aa3) \<Rightarrow> if r3 \<noteq> 0 then (-1, aa3) else
      (case qdevice_net_algorithm_register TLV_DECISION_ALGORITHM_TYPE_LMS qdevice_net_algo_lms aa3 of
        (r4, aa4) \<Rightarrow> if r4 \<noteq> 0 then (-1, aa4) else (0, aa4)))))"

text \<open>The guard of every dispatch function; an unknown algorithm ends the process.\<close>

definition with_algorithm ::
    "net_algorithm_array \<Rightarrow> qdevice_instance \<Rightarrow> (qdevice_net_algorithm \<Rightarrow> fault + 'r) \<Rightarrow> fault + 'r" where
  "with_algorithm aa qd f =
     (let n = unat (tlv_decision_algorithm_type_code (qn_decision_algorithm (qd_net qd)))
      in if n \<ge> qdevice_net_static_supported_decision_algorithms_size then Inl Exit_Failure
         else case aa n of None \<Rightarrow> Inl Exit_Failure | Some A \<Rightarrow> f A)"

definition qdevice_net_algorithm_init ::
    "net_algorithm_array \<Rightarrow> qdev_env \<Rightarrow> qdevice_instance \<Rightarrow> qdev_result" where
  "qdevice_net_algorithm_init aa ev qd =
     with_algorithm aa qd (\<lambda>A. qa_init A ev qd)"

definition qdevice_net_algorithm_connected ::
    "net_algorithm_array \<Rightarrow> tlv_heuristics \<times> bool \<times> bool \<times> bool \<Rightarrow> tlv_vote \<Rightarrow> qdevice_instance \<Rightarrow> (tlv_heuristics \<times> bool \<times> bool \<times> bool) vote_ext_result" where
  "qdevice_net_algorithm_connected aa x vote qd =
     with_algorithm aa qd (\<lambda>A. qa_connected A x vote qd)"

definition qdevice_net_algorithm_config_node_list_changed ::
    "net_algorithm_array \<Rightarrow> qdev_env \<Rightarrow> bool \<Rightarrow> tlv_vote \<Rightarrow> qdevice_instance \<Rightarrow> bool vote_ext_result" where
  "qdevice_net_algorithm_config_node_list_changed aa ev send_node_list vote qd =
     with_algorithm aa qd (\<lambda>A. qa_config_node_list_changed A ev send_node_list vote qd)"

definition qdevice_net_algorithm_votequorum_node_list_notify ::
    "net_algorithm_array \<Rightarrow> bool \<Rightarrow> tlv_vote \<Rightarrow> qdevice_instance \<Rightarrow> bool vote_ext_result" where
  "qdevice_net_algorithm_votequorum_node_list_notify aa pause_cast_vote_timer vote qd =
     with_algorithm aa qd (\<lambda>A. qa_votequorum_node_list_notify A pause_cast_vote_timer vote qd)"

definition qdevice_net_algorithm_votequorum_node_list_heuristics_notify ::
    "net_algorithm_array \<Rightarrow> bool \<times> tlv_heuristics \<Rightarrow> tlv_vote \<Rightarrow> qdevice_instance \<Rightarrow> (bool \<times> tlv_heuristics) vote_ext_result" where
  "qdevice_net_algorithm_votequorum_node_list_heuristics_notify aa x vote qd =
     with_algorithm aa qd (\<lambda>A. qa_votequorum_node_list_heuristics_notify A x vote qd)"

definition qdevice_net_algorithm_votequorum_quorum_notify ::
    "net_algorithm_array \<Rightarrow> u32 \<Rightarrow> bool \<Rightarrow> tlv_vote \<Rightarrow> qdevice_instance \<Rightarrow> bool vote_ext_result" where
  "qdevice_net_algorithm_votequorum_quorum_notify aa quorate send_node_list vote qd =
     with_algorithm aa qd (\<lambda>A. qa_votequorum_quorum_notify A quorate send_node_list vote qd)"

definition qdevice_net_algorithm_votequorum_expected_votes_notify ::
    "net_algorithm_array \<Rightarrow> qdev_env \<Rightarrow> tlv_vote \<Rightarrow> qdevice_instance \<Rightarrow> vote_result" where
  "qdevice_net_algorithm_votequorum_expected_votes_notify aa ev vote qd =
     with_algorithm aa qd (\<lambda>A. qa_votequorum_expected_votes_notify A ev vote qd)"

definition qdevice_net_algorithm_config_node_list_reply_received ::
    "net_algorithm_array \<Rightarrow> bool \<Rightarrow> tlv_vote \<Rightarrow> qdevice_instance \<Rightarrow> vote_result" where
  "qdevice_net_algorithm_config_node_list_reply_received aa ring_id_is_valid vote qd =
     with_algorithm aa qd (\<lambda>A. qa_config_node_list_reply_received A ring_id_is_valid vote qd)"

definition qdevice_net_algorithm_membership_node_list_reply_received ::
    "net_algorithm_array \<Rightarrow> bool \<Rightarrow> tlv_vote \<Rightarrow> qdevice_instance \<Rightarrow> vote_result" where
  "qdevice_net_algorithm_membership_node_list_reply_received aa ring_id_is_valid vote qd =
     with_algorithm aa qd (\<lambda>A. qa_membership_node_list_reply_received A ring_id_is_valid vote qd)"

definition qdevice_net_algorithm_quorum_node_list_reply_received ::
    "net_algorithm_array \<Rightarrow> bool \<Rightarrow> tlv_vote \<Rightarrow> qdevice_instance \<Rightarrow> vote_result" where
  "qdevice_net_algorithm_quorum_node_list_reply_received aa ring_id_is_valid vote qd =
     with_algorithm aa qd (\<lambda>A. qa_quorum_node_list_reply_received A ring_id_is_valid vote qd)"

definition qdevice_net_algorithm_ask_for_vote_reply_received ::
    "net_algorithm_array \<Rightarrow> bool \<Rightarrow> tlv_vote \<Rightarrow> qdevice_instance \<Rightarrow> vote_result" where
  "qdevice_net_algorithm_ask_for_vote_reply_received aa ring_id_is_valid vote qd =
     with_algorithm aa qd (\<lambda>A. qa_ask_for_vote_reply_received A ring_id_is_valid vote qd)"

definition qdevice_net_algorithm_vote_info_received ::
    "net_algorithm_array \<Rightarrow> bool \<Rightarrow> tlv_vote \<Rightarrow> qdevice_instance \<Rightarrow> vote_result" where
  "qdevice_net_algorithm_vote_info_received aa ring_id_is_valid vote qd =
     with_algorithm aa qd (\<lambda>A. qa_vote_info_received A ring_id_is_valid vote qd)"

definition qdevice_net_algorithm_echo_reply_received ::
    "net_algorithm_array \<Rightarrow> bool \<Rightarrow> qdevice_instance \<Rightarrow> qdev_result" where
  "qdevice_net_algorithm_echo_reply_received aa is_expected_seq_number qd =
     with_algorithm aa qd (\<lambda>A. qa_echo_reply_received A is_expected_seq_number qd)"

definition qdevice_net_algorithm_echo_reply_not_received ::
    "net_algorithm_array \<Rightarrow> qdevice_instance \<Rightarrow> qdev_result" where
  "qdevice_net_algorithm_echo_reply_not_received aa qd =
     with_algorithm aa qd (\<lambda>A. qa_echo_reply_not_received A qd)"

definition qdevice_net_algorithm_heuristics_change ::
    "net_algorithm_array \<Rightarrow> tlv_heuristics \<times> bool \<Rightarrow> tlv_vote \<Rightarrow> qdevice_instance \<Rightarrow> (tlv_heuristics \<times> bool) vote_ext_result" where
  "qdevice_net_algorithm_heuristics_change aa x vote qd =
     with_algorithm aa qd (\<lambda>A. qa_heuristics_change A x vote qd)"

definition qdevice_net_algorithm_heuristics_change_reply_received ::
    "net_algorithm_array \<Rightarrow> bool \<Rightarrow> tlv_vote \<Rightarrow> qdevice_instance \<Rightarrow> vote_result" where
  "qdevice_net_algorithm_heuristics_change_reply_received aa ring_id_is_valid vote qd =
     with_algorithm aa qd (\<lambda>A. qa_heuristics_change_reply_received A ring_id_is_valid vote qd)"

definition qdevice_net_algorithm_disconnected ::
    "net_algorithm_array \<Rightarrow> bool \<Rightarrow> tlv_vote \<Rightarrow> qdevice_instance \<Rightarrow> bool vote_ext_result" where
  "qdevice_net_algorithm_disconnected aa try_reconnect vote qd =
     with_algorithm aa qd (\<lambda>A. qa_disconnected A try_reconnect vote qd)"

definition qdevice_net_algorithm_destroy ::
    "net_algorithm_array \<Rightarrow> qdevice_instance \<Rightarrow> fault + qdevice_instance" where
  "qdevice_net_algorithm_destroy aa qd =
     with_algorithm aa qd (\<lambda>A. qa_destroy A qd)"

lemmas net_dispatch_defs =
  qdevice_net_algorithm_init_def
  qdevice_net_algorithm_connected_def
  qdevice_net_algorithm_config_node_list_changed_def
  qdevice_net_algorithm_votequorum_node_list_notify_def
  qdevice_net_algorithm_votequorum_node_list_heuristics_notify_def
  qdevice_net_algorithm_votequorum_quorum_notify_def
  qdevice_net_algorithm_votequorum_expected_votes_notify_def
  qdevice_net_algorithm_config_node_list_reply_received_def
  qdevice_net_algorithm_membership_node_list_reply_received_def
  qdevice_net_algorithm_quorum_node_list_reply_received_def
  qdevice_net_algorithm_ask_for_vote_reply_received_def
  qdevice_net_algorithm_vote_info_received_def
  qdevice_net_algorithm_echo_reply_received_def
  qdevice_net_algorithm_echo_reply_not_received_def
  qdevice_net_algorithm_heuristics_change_def
  qdevice_net_algorithm_heuristics_change_reply_received_def
  qdevice_net_algorithm_disconnected_def
  qdevice_net_algorithm_destroy_def

section \<open>The contract\<close>

text \<open>Nothing but the private data of the algorithm has changed.\<close>

definition algo_frame :: "qdevice_instance \<Rightarrow> qdevice_instance \<Rightarrow> bool" where
  "algo_frame qd qd' \<longleftrightarrow> (\<exists>d. qd' = set_algo_data d qd)"

lemma algo_frame_refl [simp, intro]: "algo_frame qd qd"
  by (rule exI [of _ "qn_algorithm_data (qd_net qd)", THEN algo_frame_def [THEN iffD2]])
     (simp add: set_algo_data_def upd_net_def)

lemma algo_frame_set [simp, intro]: "algo_frame qd (set_algo_data d qd)"
  by (auto simp: algo_frame_def)

text \<open>An algorithm keeps the vote it was given or withdraws it.\<close>

definition vote_from :: "tlv_vote \<Rightarrow> tlv_vote \<Rightarrow> bool" where
  "vote_from v v' \<longleftrightarrow> v' = v \<or> v' = TLV_VOTE_NO_CHANGE \<or> v' = TLV_VOTE_NACK"

lemma vote_from_simps [simp]:
  "vote_from v v" "vote_from v TLV_VOTE_NO_CHANGE" "vote_from v TLV_VOTE_NACK"
  by (simp_all add: vote_from_def)

definition res_ok :: "qdevice_instance \<Rightarrow> qdev_result \<Rightarrow> bool" where
  "res_ok qd res \<longleftrightarrow> (\<forall>r qd'. res = Inr (r, qd') \<longrightarrow> algo_frame qd qd')"

definition vote_ok :: "tlv_vote \<Rightarrow> qdevice_instance \<Rightarrow> vote_result \<Rightarrow> bool" where
  "vote_ok v qd res \<longleftrightarrow> (\<forall>r v' qd'. res = Inr (r, v', qd') \<longrightarrow> algo_frame qd qd' \<and> vote_from v v')"

definition vote_ext_ok :: "tlv_vote \<Rightarrow> qdevice_instance \<Rightarrow> 'x vote_ext_result \<Rightarrow> bool" where
  "vote_ext_ok v qd res \<longleftrightarrow> (\<forall>r x v' qd'. res = Inr (r, x, v', qd') \<longrightarrow> algo_frame qd qd' \<and> vote_from v v')"

text \<open>A reply: the vote of the server, and no change when the ring id is an old one.\<close>

definition reply_ok :: "bool \<Rightarrow> tlv_vote \<Rightarrow> qdevice_instance \<Rightarrow> vote_result \<Rightarrow> bool" where
  "reply_ok valid v qd res \<longleftrightarrow>
     (\<forall>r v' qd'. res = Inr (r, v', qd') \<longrightarrow>
        algo_frame qd qd' \<and> v' = (if valid then v else TLV_VOTE_NO_CHANGE))"

lemma contract_intros:
  "algo_frame qd qd' \<Longrightarrow> res_ok qd (Inr (r, qd'))" "res_ok qd (Inl f)"
  "algo_frame qd qd' \<Longrightarrow> vote_from v v' \<Longrightarrow> vote_ok v qd (Inr (r, v', qd'))" "vote_ok v qd (Inl f)"
  "algo_frame qd qd' \<Longrightarrow> vote_from v v' \<Longrightarrow> vote_ext_ok v qd (Inr (r, x, v', qd'))"
  "vote_ext_ok v qd (Inl f)"
  "algo_frame qd qd' \<Longrightarrow> v' = (if valid then v else TLV_VOTE_NO_CHANGE) \<Longrightarrow> reply_ok valid v qd (Inr (r, v', qd'))"
  "reply_ok valid v qd (Inl f)"
  by (simp_all add: res_ok_def vote_ok_def vote_ext_ok_def reply_ok_def)

lemma contract_bind:
  "(\<And>y. m = Inr y \<Longrightarrow> res_ok qd (f1 y)) \<Longrightarrow> res_ok qd (bindE m f1)"
  "(\<And>y. m = Inr y \<Longrightarrow> vote_ext_ok v qd (f2 y)) \<Longrightarrow> vote_ext_ok v qd (bindE m f2)"
  by (cases m; simp add: contract_intros)+

locale net_algorithm =
  fixes A :: qdevice_net_algorithm
  assumes init: "res_ok qd (qa_init A ev qd)"
    and connected: "vote_ext_ok v qd (qa_connected A y v qd)"
    and config_changed: "vote_ext_ok v qd (qa_config_node_list_changed A ev b v qd)"
    and node_list_notify: "vote_ext_ok v qd (qa_votequorum_node_list_notify A b v qd)"
    and node_list_heuristics_notify: "vote_ext_ok v qd (qa_votequorum_node_list_heuristics_notify A z v qd)"
    and quorum_notify: "vote_ext_ok v qd (qa_votequorum_quorum_notify A w b v qd)"
    and expected_votes_notify: "vote_ok v qd (qa_votequorum_expected_votes_notify A ev v qd)"
    and config_reply: "reply_ok valid v qd (qa_config_node_list_reply_received A valid v qd)"
    and membership_reply: "reply_ok valid v qd (qa_membership_node_list_reply_received A valid v qd)"
    and quorum_reply: "reply_ok valid v qd (qa_quorum_node_list_reply_received A valid v qd)"
    and ask_for_vote_reply: "reply_ok valid v qd (qa_ask_for_vote_reply_received A valid v qd)"
    and vote_info: "reply_ok valid v qd (qa_vote_info_received A valid v qd)"
    and echo_reply: "res_ok qd (qa_echo_reply_received A b qd)"
    and echo_reply_not: "res_ok qd (qa_echo_reply_not_received A qd)"
    and heuristics_change: "vote_ext_ok v qd (qa_heuristics_change A u v qd)"
    and heuristics_change_reply: "reply_ok valid v qd (qa_heuristics_change_reply_received A valid v qd)"
    and disconnected: "vote_ext_ok v qd (qa_disconnected A b v qd)"
begin

lemmas contract = init connected config_changed node_list_notify node_list_heuristics_notify
  quorum_notify expected_votes_notify config_reply membership_reply quorum_reply ask_for_vote_reply
  vote_info echo_reply echo_reply_not heuristics_change heuristics_change_reply disconnected

text \<open>A reply to an old ring changes no vote, whatever it says.\<close>

lemma old_ring_no_change:
  "qa_membership_node_list_reply_received A False v qd = Inr (r, v', qd') \<Longrightarrow> v' = TLV_VOTE_NO_CHANGE"
  "qa_vote_info_received A False v qd = Inr (r, v', qd') \<Longrightarrow> v' = TLV_VOTE_NO_CHANGE"
  "qa_ask_for_vote_reply_received A False v qd = Inr (r, v', qd') \<Longrightarrow> v' = TLV_VOTE_NO_CHANGE"
  using membership_reply [of False] vote_info [of False] ask_for_vote_reply [of False]
  by (auto simp: reply_ok_def)

end

interpretation net_test: net_algorithm qdevice_net_algo_test
  by unfold_locales (auto simp: net_test_defs intro!: contract_intros)

interpretation net_ffsplit: net_algorithm qdevice_net_algo_ffsplit
  by unfold_locales (auto simp: net_ffsplit_defs intro!: contract_intros)

interpretation net_2nodelms: net_algorithm qdevice_net_algo_2nodelms
  by unfold_locales (auto simp: net_2nodelms_defs intro!: contract_intros)

interpretation net_lms: net_algorithm qdevice_net_algo_lms
  by unfold_locales (auto simp: net_lms_defs intro!: contract_intros contract_bind)

text \<open>The array that \<open>qdevice_net_algorithm_register_all\<close> fills.\<close>

definition net_algorithms :: net_algorithm_array where
  "net_algorithms = snd (qdevice_net_algorithm_register_all (\<lambda>n. None))"

lemma net_algorithms_cases:
  "fst (qdevice_net_algorithm_register_all (\<lambda>n. None)) = 0"
  "net_algorithms 0 = Some qdevice_net_algo_test" "net_algorithms 1 = Some qdevice_net_algo_ffsplit"
  "net_algorithms 2 = Some qdevice_net_algo_2nodelms" "net_algorithms 3 = Some qdevice_net_algo_lms"
  by (simp_all add: net_algorithms_def qdevice_net_algorithm_register_all_def
      qdevice_net_algorithm_register_def qdevice_net_static_supported_decision_algorithms_size_def Let_def)

lemma with_algorithm_contract:
  assumes "with_algorithm net_algorithms qd f = Inr y"
  obtains A where "net_algorithm A" and "f A = Inr y"
proof -
  let ?n = "unat (tlv_decision_algorithm_type_code (qn_decision_algorithm (qd_net qd)))"
  from assms obtain A where n: "?n < 4" and A: "net_algorithms ?n = Some A" "f A = Inr y"
    by (auto simp: with_algorithm_def qdevice_net_static_supported_decision_algorithms_size_def Let_def
        split: if_splits option.splits)
  from n consider "?n = 0" | "?n = 1" | "?n = 2" | "?n = 3" by linarith
  then have "net_algorithm A"
    using A(1) net_algorithms_cases net_test.net_algorithm_axioms net_ffsplit.net_algorithm_axioms
      net_2nodelms.net_algorithm_axioms net_lms.net_algorithm_axioms
    by cases auto
  with A(2) that show ?thesis by blast
qed

lemma with_algorithm_ok:
  "(\<And>A. net_algorithm A \<Longrightarrow> res_ok qd (f1 A)) \<Longrightarrow> res_ok qd (with_algorithm net_algorithms qd f1)"
  "(\<And>A. net_algorithm A \<Longrightarrow> vote_ok v qd (f2 A)) \<Longrightarrow> vote_ok v qd (with_algorithm net_algorithms qd f2)"
  "(\<And>A. net_algorithm A \<Longrightarrow> vote_ext_ok v qd (f3 A)) \<Longrightarrow> vote_ext_ok v qd (with_algorithm net_algorithms qd f3)"
  "(\<And>A. net_algorithm A \<Longrightarrow> reply_ok valid v qd (f4 A)) \<Longrightarrow> reply_ok valid v qd (with_algorithm net_algorithms qd f4)"
  unfolding res_ok_def vote_ok_def vote_ext_ok_def reply_ok_def
  by (blast elim: with_algorithm_contract)+

text \<open>The contract holds for the dispatch functions.\<close>

lemma net_dispatch_contract:
  "res_ok qd (qdevice_net_algorithm_init net_algorithms ev qd)"
  "vote_ext_ok v qd (qdevice_net_algorithm_connected net_algorithms y v qd)"
  "vote_ext_ok v qd (qdevice_net_algorithm_config_node_list_changed net_algorithms ev b v qd)"
  "vote_ext_ok v qd (qdevice_net_algorithm_votequorum_node_list_notify net_algorithms b v qd)"
  "vote_ext_ok v qd (qdevice_net_algorithm_votequorum_node_list_heuristics_notify net_algorithms z v qd)"
  "vote_ext_ok v qd (qdevice_net_algorithm_votequorum_quorum_notify net_algorithms w b v qd)"
  "vote_ok v qd (qdevice_net_algorithm_votequorum_expected_votes_notify net_algorithms ev v qd)"
  "reply_ok valid v qd (qdevice_net_algorithm_config_node_list_reply_received net_algorithms valid v qd)"
  "reply_ok valid v qd (qdevice_net_algorithm_membership_node_list_reply_received net_algorithms valid v qd)"
  "reply_ok valid v qd (qdevice_net_algorithm_quorum_node_list_reply_received net_algorithms valid v qd)"
  "reply_ok valid v qd (qdevice_net_algorithm_ask_for_vote_reply_received net_algorithms valid v qd)"
  "reply_ok valid v qd (qdevice_net_algorithm_vote_info_received net_algorithms valid v qd)"
  "res_ok qd (qdevice_net_algorithm_echo_reply_received net_algorithms b qd)"
  "res_ok qd (qdevice_net_algorithm_echo_reply_not_received net_algorithms qd)"
  "vote_ext_ok v qd (qdevice_net_algorithm_heuristics_change net_algorithms u v qd)"
  "reply_ok valid v qd (qdevice_net_algorithm_heuristics_change_reply_received net_algorithms valid v qd)"
  "vote_ext_ok v qd (qdevice_net_algorithm_disconnected net_algorithms b v qd)"
  unfolding net_dispatch_defs by (intro with_algorithm_ok, erule net_algorithm.contract)+

end
