(* ===== verification/Qdevice_Heuristics.thy ===== *)
theory Qdevice_Heuristics
  imports Qdevice_Algo
begin

text \<open>
  The heartbeat of the client (\<open>qdevice-net-echo-request-timer.c\<close>) and its use of the heuristics
  (\<open>qdevice-net-heuristics.c\<close>): the regular timer, the functions that are notified of a result, and
  the start of the heuristics after a connection was made. The array of registered algorithms is
  an argument.
\<close>

section \<open>Echo requests\<close>

definition qdevice_net_echo_request_timer_callback ::
    "qdev_env \<Rightarrow> net_algorithm_array \<Rightarrow> qdevice_instance \<Rightarrow> qdev_result" where
  "qdevice_net_echo_request_timer_callback ev aa qd =
     (if qn_echo_reply_received_msg_seq_num (qd_net qd) \<noteq> qn_echo_request_expected_msg_seq_num (qd_net qd)
      then bindE (qdevice_net_algorithm_echo_reply_not_received aa qd) (\<lambda>(r, qd1).
             if r \<noteq> 0
             then Inr (0, upd_net (\<lambda>n. n\<lparr>qn_schedule_disconnect := True,
                    qn_disconnect_reason := QDEVICE_NET_DISCONNECT_REASON_ALGO_ECHO_REPLY_NOT_RECEIVED_ERR,
                    qn_echo_request_timer := None\<rparr>) qd1)
             else Inr (-1, qd1))
      else case qdevice_net_send_echo_request (ev_al ev) qd of
             (r, qd1) \<Rightarrow>
               if r = -1
               then Inr (0, upd_net (\<lambda>n. n\<lparr>qn_disconnect_reason :=
                      QDEVICE_NET_DISCONNECT_REASON_CANT_ALLOCATE_MSG_BUFFER,
                      qn_schedule_disconnect := True, qn_echo_request_timer := None\<rparr>) qd1)
               else Inr (-1, qd1))"

definition qdevice_net_echo_request_timer_schedule :: "allocator \<Rightarrow> qdevice_instance \<Rightarrow> int \<times> qdevice_instance" where
  "qdevice_net_echo_request_timer_schedule al qd =
     (let qd1 = upd_net (\<lambda>n. n\<lparr>qn_echo_request_expected_msg_seq_num := 0,
                               qn_echo_reply_received_msg_seq_num := 0\<rparr>) qd;
          qd2 = (case qn_echo_request_timer (qd_net qd1) of
                   None \<Rightarrow> qd1
                 | Some t \<Rightarrow> upd_net (\<lambda>n. n\<lparr>qn_echo_request_timer := None\<rparr>) (qd_timer_delete t qd1))
      in case qd_timer_add al (qn_heartbeat_interval (qd_net qd2)) Echo_Request_Timer qd2 of
           (t, qd3) \<Rightarrow>
             let qd4 = upd_net (\<lambda>n. n\<lparr>qn_echo_request_timer := t\<rparr>) qd3
             in if t = None
                then (-1, set_reason QDEVICE_NET_DISCONNECT_REASON_CANT_SCHEDULE_HB_TIMER qd4)
                else (0, qd4))"

section \<open>The regular heuristics timer\<close>

definition notifier_set_active :: "result_callback \<Rightarrow> bool \<Rightarrow> qdevice_instance \<Rightarrow> int \<times> qdevice_instance" where
  "notifier_set_active callback active =
     on_heuristics (\<lambda>h. case qdevice_heuristics_result_notifier_list_set_active
                               (qh_exec_result_notifier_list h) callback active of
                          (r, nl) \<Rightarrow> (r, h\<lparr>qh_exec_result_notifier_list := nl\<rparr>))"

definition disconnect_because :: "qdevice_net_disconnect_reason \<Rightarrow> qdevice_instance \<Rightarrow> qdevice_instance" where
  "disconnect_because reason qd = set_schedule_disconnect (set_reason reason qd)"

definition qdevice_net_heuristics_exec_result_to_tlv ::
    "qdevice_heuristics_exec_result \<Rightarrow> fault + tlv_heuristics" where
  "qdevice_net_heuristics_exec_result_to_tlv exec_result =
     (case exec_result of
        QDEVICE_HEURISTICS_EXEC_RESULT_DISABLED \<Rightarrow> Inr TLV_HEURISTICS_UNDEFINED
      | QDEVICE_HEURISTICS_EXEC_RESULT_PASS \<Rightarrow> Inr TLV_HEURISTICS_PASS
      | QDEVICE_HEURISTICS_EXEC_RESULT_FAIL \<Rightarrow> Inr TLV_HEURISTICS_FAIL
      | QDEVICE_HEURISTICS_EXEC_RESULT_OTHER w \<Rightarrow> Inl Exit_Failure)"

definition qdevice_net_heuristics_stop_timer :: "qdevice_instance \<Rightarrow> int \<times> qdevice_instance" where
  "qdevice_net_heuristics_stop_timer qd =
     (case qn_regular_heuristics_timer (qd_net qd) of
        None \<Rightarrow> (0, qd)
      | Some t \<Rightarrow>
          (case notifier_set_active qdevice_net_regular_heuristics_exec_result_callback_id False
                  (upd_net (\<lambda>n. n\<lparr>qn_regular_heuristics_timer := None\<rparr>) (qd_timer_delete t qd)) of
             (r, qd1) \<Rightarrow>
               if r \<noteq> 0
               then (-1, disconnect_because
                       QDEVICE_NET_DISCONNECT_REASON_CANT_ACTIVATE_HEURISTICS_RESULT_NOTIFIER qd1)
               else (0, qd1)))"

definition qdevice_net_heuristics_schedule_timer :: "allocator \<Rightarrow> qdevice_instance \<Rightarrow> int \<times> qdevice_instance" where
  "qdevice_net_heuristics_schedule_timer al qd =
     (if qh_mode (qd_heuristics_instance qd) \<noteq> QDEVICE_HEURISTICS_MODE_ENABLED
      then (case qdevice_net_heuristics_stop_timer qd of (r, qd1) \<Rightarrow> (if r \<noteq> 0 then -1 else 0, qd1))
      else if qn_regular_heuristics_timer (qd_net qd) \<noteq> None then (0, qd)
      else case qd_timer_add al (qh_interval (qd_heuristics_instance qd)) Regular_Heuristics_Timer qd of
             (t, qd1) \<Rightarrow>
               let qd2 = upd_net (\<lambda>n. n\<lparr>qn_regular_heuristics_timer := t\<rparr>) qd1
               in if t = None
                  then (-1, disconnect_because
                          QDEVICE_NET_DISCONNECT_REASON_CANT_SCHEDULE_HEURISTICS_TIMER qd2)
                  else (0, qd2))"

text \<open>The callback; any result but 0 keeps the timer.\<close>

definition qdevice_net_heuristics_timer_callback :: "allocator \<Rightarrow> qdevice_instance \<Rightarrow> int \<times> qdevice_instance" where
  "qdevice_net_heuristics_timer_callback al qd =
     (if qdevice_heuristics_waiting_for_result (qd_heuristics_instance qd) then (1, qd)
      else case notifier_set_active qdevice_net_regular_heuristics_exec_result_callback_id True
                  (upd_net (\<lambda>n. n\<lparr>qn_regular_heuristics_timer := None\<rparr>) qd) of
             (r, qd1) \<Rightarrow>
               if r \<noteq> 0
               then (0, disconnect_because
                       QDEVICE_NET_DISCONNECT_REASON_CANT_ACTIVATE_HEURISTICS_RESULT_NOTIFIER qd1)
               else (case on_heuristics (qdevice_heuristics_exec al (qd_sync_in_progress qd1)) qd1 of
                       (r2, qd2) \<Rightarrow>
                         (0, if r2 \<noteq> 0
                             then disconnect_because QDEVICE_NET_DISCONNECT_REASON_CANT_START_HEURISTICS qd2
                             else qd2)))"

definition qdevice_net_heuristics_init :: "allocator \<Rightarrow> qdevice_instance \<Rightarrow> int \<times> qdevice_instance" where
  "qdevice_net_heuristics_init al =
     on_heuristics (\<lambda>h.
       case qdevice_heuristics_result_notifier_list_add al (qh_exec_result_notifier_list h)
              qdevice_net_regular_heuristics_exec_result_callback_id of
         (None, nl) \<Rightarrow> (-1, h\<lparr>qh_exec_result_notifier_list := nl\<rparr>)
       | (Some i, nl) \<Rightarrow>
           (case qdevice_heuristics_result_notifier_list_add al nl
                   qdevice_net_connect_heuristics_exec_result_callback_id of
              (None, nl') \<Rightarrow> (-1, h\<lparr>qh_exec_result_notifier_list := nl'\<rparr>)
            | (Some i', nl') \<Rightarrow> (0, h\<lparr>qh_exec_result_notifier_list := nl'\<rparr>)))"

definition qdevice_net_heuristics_exec_after_connect :: "allocator \<Rightarrow> qdevice_instance \<Rightarrow> int \<times> qdevice_instance" where
  "qdevice_net_heuristics_exec_after_connect al qd =
     (case notifier_set_active qdevice_net_connect_heuristics_exec_result_callback_id True qd of
        (r, qd1) \<Rightarrow>
          if r \<noteq> 0
          then (-1, disconnect_because
                  QDEVICE_NET_DISCONNECT_REASON_CANT_ACTIVATE_HEURISTICS_RESULT_NOTIFIER qd1)
          else (case on_heuristics (qdevice_heuristics_exec al (qd_sync_in_progress qd1)) qd1 of
                  (r2, qd2) \<Rightarrow>
                    if r2 \<noteq> 0
                    then (-1, disconnect_because QDEVICE_NET_DISCONNECT_REASON_CANT_START_HEURISTICS qd2)
                    else (0, qd2)))"

section \<open>Results\<close>

text \<open>Every early return of the code is \<open>return (0)\<close>.\<close>

definition send_heuristics_change ::
    "allocator \<Rightarrow> tlv_heuristics \<Rightarrow> bool \<Rightarrow> qdevice_instance \<Rightarrow> bool \<times> qdevice_instance" where
  "send_heuristics_change al heuristics send_it qd =
     (if \<not> send_it then (True, qd)
      else if heuristics = TLV_HEURISTICS_UNDEFINED
      then (False, disconnect_because QDEVICE_NET_DISCONNECT_REASON_ALGO_HEURISTICS_CHANGE_ERR qd)
      else if \<not> qn_server_supports_heuristics (qd_net qd)
      then (False, disconnect_because QDEVICE_NET_DISCONNECT_REASON_SERVER_DOESNT_SUPPORT_REQUIRED_OPT qd)
      else case qdevice_net_send_heuristics_change al heuristics qd of
             (r, qd1) \<Rightarrow>
               if r \<noteq> 0
               then (False, disconnect_because QDEVICE_NET_DISCONNECT_REASON_CANT_ALLOCATE_MSG_BUFFER qd1)
               else (True, qd1))"

definition regular_result_store ::
    "allocator \<Rightarrow> tlv_heuristics \<Rightarrow> qdevice_instance \<Rightarrow> qdevice_instance" where
  "regular_result_store al heuristics qd =
     snd (qdevice_net_heuristics_schedule_timer al
            (upd_net (\<lambda>n. n\<lparr>qn_latest_regular_heuristics_result := heuristics,
                            qn_latest_heuristics_result := heuristics\<rparr>) qd))"

definition regular_result_changed ::
    "qdev_env \<Rightarrow> net_algorithm_array \<Rightarrow> tlv_heuristics \<Rightarrow> qdevice_instance \<Rightarrow> qdev_result" where
  "regular_result_changed ev aa heuristics qd =
     (let send0 = (qn_state (qd_net qd) = QDEVICE_NET_INSTANCE_STATE_WAITING_VOTEQUORUM_CMAP_EVENTS)
      in bindE (qdevice_net_algorithm_heuristics_change aa (heuristics, send0) TLV_VOTE_NO_CHANGE qd)
           (\<lambda>(r, (heuristics', send_it), vote, qd1).
              if r = -1
              then Inr (0, disconnect_because QDEVICE_NET_DISCONNECT_REASON_ALGO_HEURISTICS_CHANGE_ERR qd1)
              else case send_heuristics_change (ev_al ev) heuristics' send_it qd1 of
                     (sent, qd2) \<Rightarrow>
                       if \<not> sent then Inr (0, qd2)
                       else bindE (qdevice_net_cast_vote_timer_update ev vote qd2) (\<lambda>(r3, qd3).
                              if r3 \<noteq> 0
                              then Inr (0, disconnect_because
                                     QDEVICE_NET_DISCONNECT_REASON_CANT_SCHEDULE_VOTING_TIMER qd3)
                              else Inr (0, regular_result_store (ev_al ev) heuristics' qd3))))"

definition qdevice_net_regular_heuristics_exec_result_callback ::
    "qdev_env \<Rightarrow> net_algorithm_array \<Rightarrow> qdevice_heuristics_exec_result \<Rightarrow> qdevice_instance \<Rightarrow> qdev_result" where
  "qdevice_net_regular_heuristics_exec_result_callback ev aa exec_result qd =
     (case notifier_set_active qdevice_net_regular_heuristics_exec_result_callback_id False qd of
        (r, qd1) \<Rightarrow>
          if r \<noteq> 0
          then Inr (0, disconnect_because
                 QDEVICE_NET_DISCONNECT_REASON_CANT_ACTIVATE_HEURISTICS_RESULT_NOTIFIER qd1)
          else bindE (qdevice_net_heuristics_exec_result_to_tlv exec_result) (\<lambda>heuristics.
                 if exec_result = QDEVICE_HEURISTICS_EXEC_RESULT_DISABLED then Inr (0, qd1)
                 else if qn_latest_heuristics_result (qd_net qd1) \<noteq> heuristics
                 then regular_result_changed ev aa heuristics qd1
                 else Inr (0, regular_result_store (ev_al ev) heuristics qd1)))"

text \<open>
  The messages that follow a successful connection. The result says whether all of them could be
  queued; on a failure the code sets the reason of a disconnect and returns.
\<close>

definition connect_send_lists ::
    "allocator \<Rightarrow> bool \<times> bool \<times> bool \<Rightarrow> tlv_heuristics \<Rightarrow> qdevice_instance \<Rightarrow> fault + (bool \<times> qdevice_instance)" where
  "connect_send_lists al send heuristics qd =
     (case send of (send_config_node_list, send_membership_node_list, send_quorum_node_list) \<Rightarrow>
      let step = (\<lambda>do_it f q. if \<not> do_it then Inr (0, q) else f q);
          failed = (\<lambda>q. Inr (False, set_reason QDEVICE_NET_DISCONNECT_REASON_CANT_ALLOCATE_MSG_BUFFER q))
      in bindE (step (qn_server_supports_kap_tb (qd_net qd))
           (\<lambda>q. Inr (qdevice_net_send_set_option al False 0 (qn_server_supports_kap_tb (qd_net q))
                       (qn_kap_tb (qd_net q)) q)) qd) (\<lambda>(r1, qd1).
         if r1 \<noteq> 0 then failed qd1
         else bindE (step send_config_node_list
           (\<lambda>q. Inr (qdevice_net_send_config_node_list al (qd_config_node_list q)
                       (qd_config_node_list_version_set q) (qd_config_node_list_version q) True q)) qd1) (\<lambda>(r2, qd2).
         if r2 \<noteq> 0 then failed qd2
         else bindE (step send_membership_node_list
           (\<lambda>q. Inr (qdevice_net_send_membership_node_list al
                       (qdevice_net_votequorum_ring_id_to_tlv (qd_vq_node_list_ring_id q))
                       (qd_vq_node_list q) heuristics q)) qd2) (\<lambda>(r3, qd3).
         if r3 \<noteq> 0 then failed qd3
         else bindE (step send_quorum_node_list
           (\<lambda>q. qdevice_net_send_quorum_node_list al
                  (if qd_vq_quorum_quorate q \<noteq> 0 then TLV_QUORATE_QUORATE else TLV_QUORATE_INQUORATE)
                  (qd_vq_quorum_node_list q) q) qd3) (\<lambda>(r4, qd4).
         if r4 \<noteq> 0 then failed qd4 else Inr (True, qd4))))))"

definition connect_result ::
    "qdev_env \<Rightarrow> net_algorithm_array \<Rightarrow> tlv_heuristics \<Rightarrow> qdevice_instance \<Rightarrow> qdev_result" where
  "connect_result ev aa heuristics qd =
     bindE (qdevice_net_algorithm_connected aa (heuristics, True, True, True) TLV_VOTE_WAIT_FOR_REPLY qd)
       (\<lambda>(r, (heuristics', send), vote, qd1).
          if r \<noteq> 0 then Inr (0, set_reason QDEVICE_NET_DISCONNECT_REASON_ALGO_CONNECTED_ERR qd1)
          else bindE (connect_send_lists (ev_al ev) send heuristics' qd1) (\<lambda>(sent, qd2).
            if \<not> sent then Inr (0, qd2)
            else bindE (qdevice_net_cast_vote_timer_update ev vote qd2) (\<lambda>(r3, qd3).
              let qd4 = (if r3 \<noteq> 0
                         then set_reason QDEVICE_NET_DISCONNECT_REASON_CANT_SCHEDULE_VOTING_TIMER qd3
                         else qd3)
              in Inr (0, upd_net (\<lambda>n. n\<lparr>
                   qn_state := QDEVICE_NET_INSTANCE_STATE_WAITING_VOTEQUORUM_CMAP_EVENTS,
                   qn_connected_since_time := ev_time ev,
                   qn_latest_connect_heuristics_result := heuristics',
                   qn_latest_heuristics_result := heuristics'\<rparr>) qd4))))"

definition qdevice_net_connect_heuristics_exec_result_callback ::
    "qdev_env \<Rightarrow> net_algorithm_array \<Rightarrow> qdevice_heuristics_exec_result \<Rightarrow> qdevice_instance \<Rightarrow> qdev_result" where
  "qdevice_net_connect_heuristics_exec_result_callback ev aa exec_result qd =
     (case notifier_set_active qdevice_net_connect_heuristics_exec_result_callback_id False qd of
        (r, qd1) \<Rightarrow>
          if r \<noteq> 0
          then Inr (0, disconnect_because
                 QDEVICE_NET_DISCONNECT_REASON_CANT_ACTIVATE_HEURISTICS_RESULT_NOTIFIER qd1)
          else if qn_state (qd_net qd1) \<noteq> QDEVICE_NET_INSTANCE_STATE_WAITING_INIT_REPLY then Inr (0, qd1)
          else bindE (qdevice_net_heuristics_exec_result_to_tlv exec_result) (\<lambda>heuristics.
                 connect_result ev aa heuristics qd1))"

end
