(* ===== verification/Qdevice_Msg_Received.thy ===== *)
theory Qdevice_Msg_Received
  imports Qdevice_Heuristics
begin

text \<open>
  The messages that the client receives, \<open>qdevice-net-msg-received.c\<close>: one handler per type of
  message and the dispatch. A handler returns -1 after it has set the reason of the disconnect.
\<close>

section \<open>Checks\<close>

definition qdevice_net_msg_received_check_tls_compatibility ::
    "tlv_tls_supported \<Rightarrow> tlv_tls_supported \<Rightarrow> int" where
  "qdevice_net_msg_received_check_tls_compatibility server_tls client_tls =
     (case server_tls of
        TLV_TLS_UNSUPPORTED \<Rightarrow>
          (case client_tls of TLV_TLS_UNSUPPORTED \<Rightarrow> 0 | TLV_TLS_SUPPORTED \<Rightarrow> 0 | TLV_TLS_REQUIRED \<Rightarrow> -1)
      | TLV_TLS_SUPPORTED \<Rightarrow>
          (case client_tls of TLV_TLS_UNSUPPORTED \<Rightarrow> 0 | TLV_TLS_SUPPORTED \<Rightarrow> 1 | TLV_TLS_REQUIRED \<Rightarrow> 1)
      | TLV_TLS_REQUIRED \<Rightarrow>
          (case client_tls of TLV_TLS_UNSUPPORTED \<Rightarrow> -1 | TLV_TLS_SUPPORTED \<Rightarrow> 1 | TLV_TLS_REQUIRED \<Rightarrow> 1))"

definition fail_with :: "qdevice_net_disconnect_reason \<Rightarrow> qdevice_instance \<Rightarrow> qdev_result" where
  "fail_with reason qd = Inr (-1, set_reason reason qd)"

definition qdevice_net_msg_received_unexpected_msg :: "qdevice_instance \<Rightarrow> qdev_result" where
  "qdevice_net_msg_received_unexpected_msg = fail_with QDEVICE_NET_DISCONNECT_REASON_UNEXPECTED_MSG"

definition qdevice_net_msg_received_init :: "qdevice_instance \<Rightarrow> qdev_result" where
  "qdevice_net_msg_received_init qd = qdevice_net_msg_received_unexpected_msg qd"

definition qdevice_net_msg_received_preinit :: "qdevice_instance \<Rightarrow> qdev_result" where
  "qdevice_net_msg_received_preinit qd = qdevice_net_msg_received_unexpected_msg qd"

definition qdevice_net_msg_check_seq_number :: "msg_decoded \<Rightarrow> qdevice_instance \<Rightarrow> int" where
  "qdevice_net_msg_check_seq_number msg qd =
     (if \<not> md_seq_number_set msg \<or> md_seq_number msg \<noteq> qn_last_msg_seq_num (qd_net qd) then -1 else 0)"

section \<open>Connecting\<close>

definition qdevice_net_msg_received_preinit_reply ::
    "allocator \<Rightarrow> msg_decoded \<Rightarrow> qdevice_instance \<Rightarrow> qdev_result" where
  "qdevice_net_msg_received_preinit_reply al msg qd =
     (if qn_state (qd_net qd) \<noteq> QDEVICE_NET_INSTANCE_STATE_WAITING_PREINIT_REPLY
      then fail_with QDEVICE_NET_DISCONNECT_REASON_UNEXPECTED_MSG qd
      else if qdevice_net_msg_check_seq_number msg qd \<noteq> 0
      then fail_with QDEVICE_NET_DISCONNECT_REASON_REQUIRED_OPTION_MISSING qd
      else if \<not> md_tls_supported_set msg \<or> \<not> md_tls_client_cert_required_set msg
      then fail_with QDEVICE_NET_DISCONNECT_REASON_REQUIRED_OPTION_MISSING qd
      else let res = qdevice_net_msg_received_check_tls_compatibility (md_tls_supported msg)
                       (qn_tls_supported (qd_net qd))
           in if res = -1 then fail_with QDEVICE_NET_DISCONNECT_REASON_INCOMPATIBLE_TLS qd
              else if res = 1
              then (case net_send al next_seq
                           (\<lambda>n buf. msg_create_starttls al buf True (qn_last_msg_seq_num n)) qd of
                      (r, qd1) \<Rightarrow>
                        if r \<noteq> 0
                        then fail_with QDEVICE_NET_DISCONNECT_REASON_CANT_ALLOCATE_MSG_BUFFER qd1
                        else Inr (0, upd_net (\<lambda>n. n\<lparr>qn_state :=
                               QDEVICE_NET_INSTANCE_STATE_WAITING_STARTTLS_BEING_SENT\<rparr>) qd1))
              else (case qdevice_net_send_init al qd of
                      (r, qd1) \<Rightarrow>
                        if r \<noteq> 0
                        then fail_with QDEVICE_NET_DISCONNECT_REASON_CANT_ALLOCATE_MSG_BUFFER qd1
                        else Inr (0, qd1)))"

definition init_reply_error_reason :: "tlv_reply_error_code \<Rightarrow> qdevice_net_disconnect_reason" where
  "init_reply_error_reason code =
     (if code = TLV_REPLY_ERROR_CODE_DUPLICATE_NODE_ID
      then QDEVICE_NET_DISCONNECT_REASON_SERVER_SENT_DUPLICATE_NODE_ID_ERROR
      else if code = TLV_REPLY_ERROR_CODE_TIE_BREAKER_DIFFERS_FROM_OTHER_NODES
      then QDEVICE_NET_DISCONNECT_REASON_SERVER_SENT_TIE_BREAKER_DIFFERS_FROM_OTHER_NODES_ERROR
      else if code = TLV_REPLY_ERROR_CODE_ALGORITHM_DIFFERS_FROM_OTHER_NODES
      then QDEVICE_NET_DISCONNECT_REASON_SERVER_SENT_ALGORITHM_DIFFERS_FROM_OTHER_NODES_ERROR
      else QDEVICE_NET_DISCONNECT_REASON_SERVER_SENT_ERROR)"

text \<open>The elements of an array of the message; the pointer was compared with \<open>NULL\<close> before.\<close>

definition ptr_list :: "'a list ptr \<Rightarrow> nat \<Rightarrow> 'a list" where
  "ptr_list p n = (case p of Ptr l \<Rightarrow> take n l | _ \<Rightarrow> [])"

text \<open>The checks of the reply that come before anything is changed: the reason to disconnect.\<close>

definition init_reply_refused :: "msg_decoded \<Rightarrow> qdevice_instance \<Rightarrow> qdevice_net_disconnect_reason option" where
  "init_reply_refused msg qd =
     (if qn_state (qd_net qd) \<noteq> QDEVICE_NET_INSTANCE_STATE_WAITING_INIT_REPLY
      then Some QDEVICE_NET_DISCONNECT_REASON_UNEXPECTED_MSG
      else if qdevice_net_msg_check_seq_number msg qd \<noteq> 0
      then Some QDEVICE_NET_DISCONNECT_REASON_REQUIRED_OPTION_MISSING
      else if \<not> md_reply_error_code_set msg
      then Some QDEVICE_NET_DISCONNECT_REASON_REQUIRED_OPTION_MISSING
      else if md_reply_error_code msg \<noteq> TLV_REPLY_ERROR_CODE_NO_ERROR
      then Some (init_reply_error_reason (md_reply_error_code msg))
      else if \<not> md_server_maximum_request_size_set msg \<or> \<not> md_server_maximum_reply_size_set msg
      then Some QDEVICE_NET_DISCONNECT_REASON_REQUIRED_OPTION_MISSING
      else if md_supported_messages msg = Null \<or> md_supported_options msg = Null
      then Some QDEVICE_NET_DISCONNECT_REASON_REQUIRED_OPTION_MISSING
      else if md_supported_decision_algorithms msg = Null
      then Some QDEVICE_NET_DISCONNECT_REASON_REQUIRED_OPTION_MISSING
      else if md_server_maximum_request_size msg < qs_net_min_msg_send_size (qd_advanced_settings qd)
      then Some QDEVICE_NET_DISCONNECT_REASON_INCOMPATIBLE_MSG_SIZE
      else if md_server_maximum_reply_size msg > qs_net_max_msg_receive_size (qd_advanced_settings qd)
      then Some QDEVICE_NET_DISCONNECT_REASON_INCOMPATIBLE_MSG_SIZE
      else None)"

definition init_reply_sizes :: "msg_decoded \<Rightarrow> qdevice_net_instance \<Rightarrow> qdevice_net_instance" where
  "init_reply_sizes msg n =
     n\<lparr>qn_receive_buffer := dynar_set_max_size (qn_receive_buffer n) (md_server_maximum_reply_size msg),
       qn_send_buffer_list := send_buffer_list_set_max_buffer_size (qn_send_buffer_list n)
         (md_server_maximum_request_size msg)\<rparr>"

definition init_reply_options :: "msg_decoded \<Rightarrow> qdevice_net_instance \<Rightarrow> qdevice_net_instance" where
  "init_reply_options msg n =
     (let opts = ptr_list (md_supported_options msg) (md_no_supported_options msg)
      in n\<lparr>qn_server_supports_heuristics := (TLV_OPT_HEURISTICS \<in> set opts),
           qn_server_supports_kap_tb := (TLV_OPT_KEEP_ACTIVE_PARTITION_TIE_BREAKER \<in> set opts)\<rparr>)"

definition connect_timer_stop :: "qdevice_instance \<Rightarrow> qdevice_instance" where
  "connect_timer_stop qd =
     (case qn_connect_timer (qd_net qd) of
        None \<Rightarrow> qd
      | Some t \<Rightarrow> upd_net (\<lambda>n. n\<lparr>qn_connect_timer := None\<rparr>) (qd_timer_delete t qd))"

definition qdevice_net_msg_received_init_reply ::
    "allocator \<Rightarrow> msg_decoded \<Rightarrow> qdevice_instance \<Rightarrow> qdev_result" where
  "qdevice_net_msg_received_init_reply al msg qd =
     (case init_reply_refused msg qd of
        Some reason \<Rightarrow> fail_with reason qd
      | None \<Rightarrow>
          let qd1 = upd_net (init_reply_sizes msg) qd
          in if qn_decision_algorithm (qd_net qd1) \<notin>
                  set (ptr_list (md_supported_decision_algorithms msg) (md_no_supported_decision_algorithms msg))
             then fail_with QDEVICE_NET_DISCONNECT_REASON_SERVER_DOESNT_SUPPORT_REQUIRED_ALGORITHM qd1
             else let qd2 = upd_net (init_reply_options msg) qd1;
                      mode = qh_mode (qd_heuristics_instance qd2)
                  in if \<not> qn_server_supports_heuristics (qd_net qd2) \<and>
                        (mode = QDEVICE_HEURISTICS_MODE_ENABLED \<or> mode = QDEVICE_HEURISTICS_MODE_SYNC)
                     then fail_with QDEVICE_NET_DISCONNECT_REASON_SERVER_DOESNT_SUPPORT_REQUIRED_OPT qd2
                     else (case qdevice_net_echo_request_timer_schedule al (connect_timer_stop qd2) of
                             (r3, qd3) \<Rightarrow>
                               if r3 \<noteq> 0 then Inr (-1, qd3)
                               else (case qdevice_net_heuristics_exec_after_connect al qd3 of
                                       (r4, qd4) \<Rightarrow> Inr (if r4 \<noteq> 0 then -1 else 0, qd4))))"

definition qdevice_net_msg_received_starttls :: "qdevice_instance \<Rightarrow> qdev_result" where
  "qdevice_net_msg_received_starttls qd = qdevice_net_msg_received_unexpected_msg qd"

definition qdevice_net_msg_received_server_error :: "msg_decoded \<Rightarrow> qdevice_instance \<Rightarrow> qdev_result" where
  "qdevice_net_msg_received_server_error msg qd =
     (if \<not> md_reply_error_code_set msg
      then fail_with QDEVICE_NET_DISCONNECT_REASON_REQUIRED_OPTION_MISSING qd
      else fail_with QDEVICE_NET_DISCONNECT_REASON_SERVER_SENT_ERROR qd)"

definition qdevice_net_msg_received_set_option :: "qdevice_instance \<Rightarrow> qdev_result" where
  "qdevice_net_msg_received_set_option qd = qdevice_net_msg_received_unexpected_msg qd"

section \<open>Connected\<close>

definition not_ready :: "qdevice_instance \<Rightarrow> bool" where
  "not_ready qd \<longleftrightarrow> qn_state (qd_net qd) \<noteq> QDEVICE_NET_INSTANCE_STATE_WAITING_VOTEQUORUM_CMAP_EVENTS"

definition qdevice_net_msg_received_set_option_reply ::
    "allocator \<Rightarrow> msg_decoded \<Rightarrow> qdevice_instance \<Rightarrow> qdev_result" where
  "qdevice_net_msg_received_set_option_reply al msg qd =
     (if not_ready qd then fail_with QDEVICE_NET_DISCONNECT_REASON_UNEXPECTED_MSG qd
      else if md_heartbeat_interval_set msg
      then (case qdevice_net_echo_request_timer_schedule al qd of
              (r, qd1) \<Rightarrow> Inr (if r \<noteq> 0 then -1 else 0, qd1))
      else Inr (0, qd))"

definition qdevice_net_msg_received_echo_request :: "qdevice_instance \<Rightarrow> qdev_result" where
  "qdevice_net_msg_received_echo_request qd = qdevice_net_msg_received_unexpected_msg qd"

definition qdevice_net_msg_received_echo_reply ::
    "qdev_env \<Rightarrow> net_algorithm_array \<Rightarrow> msg_decoded \<Rightarrow> qdevice_instance \<Rightarrow> qdev_result" where
  "qdevice_net_msg_received_echo_reply ev aa msg qd =
     (if \<not> md_seq_number_set msg
      then fail_with QDEVICE_NET_DISCONNECT_REASON_REQUIRED_OPTION_MISSING qd
      else bindE (qdevice_net_algorithm_echo_reply_received aa
             (md_seq_number msg = qn_echo_request_expected_msg_seq_num (qd_net qd)) qd) (\<lambda>(r, qd1).
               if r \<noteq> 0
               then fail_with QDEVICE_NET_DISCONNECT_REASON_ALGO_ECHO_REPLY_RECEIVED_ERR qd1
               else Inr (0, upd_net (\<lambda>n. n\<lparr>qn_echo_reply_received_msg_seq_num := md_seq_number msg,
                                         qn_last_echo_reply_received_time := ev_time ev\<rparr>) qd1)))"

definition qdevice_net_msg_received_node_list :: "qdevice_instance \<Rightarrow> qdev_result" where
  "qdevice_net_msg_received_node_list qd = qdevice_net_msg_received_unexpected_msg qd"

text \<open>The end of the handlers that take a vote: the algorithm has answered, the timer is updated.\<close>

definition reply_vote ::
    "qdev_env \<Rightarrow> qdevice_net_disconnect_reason \<Rightarrow> vote_result \<Rightarrow> qdev_result" where
  "reply_vote ev algo_reason answer =
     bindE answer (\<lambda>(r, result_vote, qd1).
       if r \<noteq> 0 then fail_with algo_reason qd1
       else bindE (qdevice_net_cast_vote_timer_update ev result_vote qd1) (\<lambda>(r2, qd2).
              if r2 \<noteq> 0
              then fail_with QDEVICE_NET_DISCONNECT_REASON_CANT_SCHEDULE_VOTING_TIMER qd2
              else Inr (0, qd2)))"

definition reply_ring_valid :: "msg_decoded \<Rightarrow> qdevice_instance \<Rightarrow> bool" where
  "reply_ring_valid msg qd \<longleftrightarrow> tlv_ring_id_eq (md_ring_id msg) (qn_last_sent_ring_id (qd_net qd))"

definition qdevice_net_msg_received_node_list_reply ::
    "qdev_env \<Rightarrow> net_algorithm_array \<Rightarrow> msg_decoded \<Rightarrow> qdevice_instance \<Rightarrow> qdev_result" where
  "qdevice_net_msg_received_node_list_reply ev aa msg qd =
     (if not_ready qd then fail_with QDEVICE_NET_DISCONNECT_REASON_UNEXPECTED_MSG qd
      else if \<not> md_vote_set msg \<or> \<not> md_seq_number_set msg \<or> \<not> md_node_list_type_set msg
      then fail_with QDEVICE_NET_DISCONNECT_REASON_REQUIRED_OPTION_MISSING qd
      else if \<not> md_ring_id_set msg
      then fail_with QDEVICE_NET_DISCONNECT_REASON_REQUIRED_OPTION_MISSING qd
      else let ring_id_is_valid = reply_ring_valid msg qd
           in reply_vote ev QDEVICE_NET_DISCONNECT_REASON_ALGO_NODE_LIST_REPLY_ERR
                (case md_node_list_type msg of
                   TLV_NODE_LIST_TYPE_INITIAL_CONFIG \<Rightarrow>
                     qdevice_net_algorithm_config_node_list_reply_received aa ring_id_is_valid (md_vote msg) qd
                 | TLV_NODE_LIST_TYPE_CHANGED_CONFIG \<Rightarrow>
                     qdevice_net_algorithm_config_node_list_reply_received aa ring_id_is_valid (md_vote msg) qd
                 | TLV_NODE_LIST_TYPE_MEMBERSHIP \<Rightarrow>
                     qdevice_net_algorithm_membership_node_list_reply_received aa ring_id_is_valid (md_vote msg) qd
                 | TLV_NODE_LIST_TYPE_QUORUM \<Rightarrow>
                     qdevice_net_algorithm_quorum_node_list_reply_received aa ring_id_is_valid (md_vote msg) qd))"

definition qdevice_net_msg_received_ask_for_vote :: "qdevice_instance \<Rightarrow> qdev_result" where
  "qdevice_net_msg_received_ask_for_vote qd = qdevice_net_msg_received_unexpected_msg qd"

definition qdevice_net_msg_received_ask_for_vote_reply ::
    "qdev_env \<Rightarrow> net_algorithm_array \<Rightarrow> msg_decoded \<Rightarrow> qdevice_instance \<Rightarrow> qdev_result" where
  "qdevice_net_msg_received_ask_for_vote_reply ev aa msg qd =
     (if not_ready qd then fail_with QDEVICE_NET_DISCONNECT_REASON_UNEXPECTED_MSG qd
      else if \<not> md_vote_set msg \<or> \<not> md_seq_number_set msg \<or> \<not> md_ring_id_set msg
      then fail_with QDEVICE_NET_DISCONNECT_REASON_REQUIRED_OPTION_MISSING qd
      else reply_vote ev QDEVICE_NET_DISCONNECT_REASON_ALGO_ASK_FOR_VOTE_REPLY_ERR
             (qdevice_net_algorithm_ask_for_vote_reply_received aa (reply_ring_valid msg qd) (md_vote msg) qd))"

definition qdevice_net_msg_received_vote_info ::
    "qdev_env \<Rightarrow> net_algorithm_array \<Rightarrow> msg_decoded \<Rightarrow> qdevice_instance \<Rightarrow> qdev_result" where
  "qdevice_net_msg_received_vote_info ev aa msg qd =
     (if not_ready qd then fail_with QDEVICE_NET_DISCONNECT_REASON_UNEXPECTED_MSG qd
      else if \<not> md_vote_set msg \<or> \<not> md_seq_number_set msg \<or> \<not> md_ring_id_set msg
      then fail_with QDEVICE_NET_DISCONNECT_REASON_REQUIRED_OPTION_MISSING qd
      else bindE (reply_vote ev QDEVICE_NET_DISCONNECT_REASON_ALGO_VOTE_INFO_ERR
             (qdevice_net_algorithm_vote_info_received aa (reply_ring_valid msg qd) (md_vote msg) qd)) (\<lambda>(r, qd1).
               if r \<noteq> 0 then Inr (-1, qd1)
               else case net_send (ev_al ev) (\<lambda>n. n)
                           (\<lambda>n buf. msg_create_vote_info_reply (ev_al ev) buf (md_seq_number msg)) qd1 of
                      (r2, qd2) \<Rightarrow>
                        if r2 \<noteq> 0
                        then fail_with QDEVICE_NET_DISCONNECT_REASON_CANT_ALLOCATE_MSG_BUFFER qd2
                        else Inr (0, qd2)))"

definition qdevice_net_msg_received_vote_info_reply :: "qdevice_instance \<Rightarrow> qdev_result" where
  "qdevice_net_msg_received_vote_info_reply qd = qdevice_net_msg_received_unexpected_msg qd"

definition qdevice_net_msg_received_heuristics_change :: "qdevice_instance \<Rightarrow> qdev_result" where
  "qdevice_net_msg_received_heuristics_change qd = qdevice_net_msg_received_unexpected_msg qd"

definition qdevice_net_msg_received_heuristics_change_reply ::
    "qdev_env \<Rightarrow> net_algorithm_array \<Rightarrow> msg_decoded \<Rightarrow> qdevice_instance \<Rightarrow> qdev_result" where
  "qdevice_net_msg_received_heuristics_change_reply ev aa msg qd =
     (if not_ready qd then fail_with QDEVICE_NET_DISCONNECT_REASON_UNEXPECTED_MSG qd
      else if \<not> md_vote_set msg \<or> \<not> md_seq_number_set msg \<or> \<not> md_ring_id_set msg \<or>
              md_heuristics msg = TLV_HEURISTICS_UNDEFINED
      then fail_with QDEVICE_NET_DISCONNECT_REASON_REQUIRED_OPTION_MISSING qd
      else reply_vote ev QDEVICE_NET_DISCONNECT_REASON_ALGO_HEURISTICS_CHANGE_REPLY_ERR
             (qdevice_net_algorithm_heuristics_change_reply_received aa (reply_ring_valid msg qd)
                (md_vote msg) qd))"

section \<open>Dispatch\<close>

definition net_msg_dispatch ::
    "qdev_env \<Rightarrow> net_algorithm_array \<Rightarrow> msg_decoded \<Rightarrow> qdevice_instance \<Rightarrow> qdev_result" where
  "net_msg_dispatch ev aa msg qd =
     (case md_type msg of
        MSG_TYPE_INIT \<Rightarrow> qdevice_net_msg_received_init qd
      | MSG_TYPE_PREINIT \<Rightarrow> qdevice_net_msg_received_preinit qd
      | MSG_TYPE_PREINIT_REPLY \<Rightarrow> qdevice_net_msg_received_preinit_reply (ev_al ev) msg qd
      | MSG_TYPE_STARTTLS \<Rightarrow> qdevice_net_msg_received_starttls qd
      | MSG_TYPE_SERVER_ERROR \<Rightarrow> qdevice_net_msg_received_server_error msg qd
      | MSG_TYPE_INIT_REPLY \<Rightarrow> qdevice_net_msg_received_init_reply (ev_al ev) msg qd
      | MSG_TYPE_SET_OPTION \<Rightarrow> qdevice_net_msg_received_set_option qd
      | MSG_TYPE_SET_OPTION_REPLY \<Rightarrow> qdevice_net_msg_received_set_option_reply (ev_al ev) msg qd
      | MSG_TYPE_ECHO_REQUEST \<Rightarrow> qdevice_net_msg_received_echo_request qd
      | MSG_TYPE_ECHO_REPLY \<Rightarrow> qdevice_net_msg_received_echo_reply ev aa msg qd
      | MSG_TYPE_NODE_LIST \<Rightarrow> qdevice_net_msg_received_node_list qd
      | MSG_TYPE_NODE_LIST_REPLY \<Rightarrow> qdevice_net_msg_received_node_list_reply ev aa msg qd
      | MSG_TYPE_ASK_FOR_VOTE \<Rightarrow> qdevice_net_msg_received_ask_for_vote qd
      | MSG_TYPE_ASK_FOR_VOTE_REPLY \<Rightarrow> qdevice_net_msg_received_ask_for_vote_reply ev aa msg qd
      | MSG_TYPE_VOTE_INFO \<Rightarrow> qdevice_net_msg_received_vote_info ev aa msg qd
      | MSG_TYPE_VOTE_INFO_REPLY \<Rightarrow> qdevice_net_msg_received_vote_info_reply qd
      | MSG_TYPE_HEURISTICS_CHANGE \<Rightarrow> qdevice_net_msg_received_heuristics_change qd
      | MSG_TYPE_HEURISTICS_CHANGE_REPLY \<Rightarrow> qdevice_net_msg_received_heuristics_change_reply ev aa msg qd
      | MSG_TYPE_OTHER w \<Rightarrow> fail_with QDEVICE_NET_DISCONNECT_REASON_UNEXPECTED_MSG qd)"

definition qdevice_net_msg_received ::
    "qdev_env \<Rightarrow> net_algorithm_array \<Rightarrow> qdevice_instance \<Rightarrow> qdev_result" where
  "qdevice_net_msg_received ev aa qd =
     bindE (msg_decode (ev_al ev) (ev_junk ev) (qn_receive_buffer (qd_net qd)) msg_decoded_init) (\<lambda>(res, msg).
       if res \<noteq> 0 then fail_with QDEVICE_NET_DISCONNECT_REASON_MSG_DECODE_ERROR qd
       else bindE (net_msg_dispatch ev aa msg qd) (\<lambda>(ret_val, qd1).
              bindE (msg_decoded_destroy msg) (\<lambda>msg'. Inr (ret_val, qd1))))"

end
