(* ===== verification/Qdevice_Net_Socket.thy ===== *)
theory Qdevice_Net_Socket
  imports Qdevice_Msg_Received
begin

text \<open>
  The socket of the client, \<open>qdevice-net-socket.c\<close>: reading and writing, the callbacks that the
  poll loop calls, and the connection that is being made (\<open>nss_sock_non_blocking_client\<close> of
  \<open>nss-sock.c\<close>, of which the flag \<open>destroyed\<close> is modelled; addresses and descriptors belong to NSPR).
\<close>

section \<open>Reading and writing\<close>

definition socket_read_reset :: "qdevice_net_instance \<Rightarrow> qdevice_net_instance" where
  "socket_read_reset n =
     n\<lparr>qn_skipping_msg := False, qn_msg_already_received_bytes := 0,
       qn_receive_buffer := dynar_clean (qn_receive_buffer n)\<rparr>"

definition qdevice_net_socket_read ::
    "qdev_env \<Rightarrow> net_algorithm_array \<Rightarrow> (nat \<Rightarrow> recv_result) \<Rightarrow> qdevice_instance \<Rightarrow> qdev_result" where
  "qdevice_net_socket_read ev aa recv qd =
     (case msgio_read (ev_al ev) (ev_junk ev) recv (qn_receive_buffer (qd_net qd))
             (qn_msg_already_received_bytes (qd_net qd)) (qn_skipping_msg (qd_net qd)) of
        (res, buf, already, skipping) \<Rightarrow>
          let qd1 = upd_net (\<lambda>n. n\<lparr>qn_receive_buffer := buf, qn_msg_already_received_bytes := already,
                                   qn_skipping_msg := skipping\<rparr>) qd
          in if res = 0 then Inr (0, qd1)
             else if res = -1 then fail_with QDEVICE_NET_DISCONNECT_REASON_SERVER_CLOSED_CONNECTION qd1
             else if res = -2 \<or> res = -3 \<or> res = -4 \<or> res = -6
             then fail_with QDEVICE_NET_DISCONNECT_REASON_CANT_READ_MESSAGE qd1
             else if res = -5 then fail_with QDEVICE_NET_DISCONNECT_REASON_UNSUPPORTED_MSG qd1
             else if res = 1
             then (if skipping then Inl Exit_Failure
                   else bindE (qdevice_net_msg_received ev aa qd1) (\<lambda>(r, qd2).
                          Inr (if r = -1 then -1 else 0, upd_net socket_read_reset qd2)))
             else Inl Exit_Failure)"

definition qdevice_net_socket_write_finished :: "qdev_env \<Rightarrow> qdevice_instance \<Rightarrow> int \<times> qdevice_instance" where
  "qdevice_net_socket_write_finished ev qd =
     (if qn_state (qd_net qd) = QDEVICE_NET_INSTANCE_STATE_WAITING_STARTTLS_BEING_SENT
      then if \<not> ev_start_tls ev
           then (-1, set_reason QDEVICE_NET_DISCONNECT_REASON_CANT_START_TLS qd)
           else case qdevice_net_send_init (ev_al ev) qd of
                  (r, qd1) \<Rightarrow>
                    if r \<noteq> 0
                    then (-1, set_reason QDEVICE_NET_DISCONNECT_REASON_CANT_ALLOCATE_MSG_BUFFER qd1)
                    else (0, upd_net (\<lambda>n. n\<lparr>qn_socket := True, qn_using_tls := True\<rparr>) qd1)
      else (0, qd))"

text \<open>The active entry is the head of the list; the number of sent bytes is updated in place.\<close>

definition qdevice_net_socket_write ::
    "qdev_env \<Rightarrow> (byte list \<Rightarrow> send_result) \<Rightarrow> qdevice_instance \<Rightarrow> int \<times> qdevice_instance" where
  "qdevice_net_socket_write ev send qd =
     (case send_buffer_list_get_active (qn_send_buffer_list (qd_net qd)) of
        None \<Rightarrow> (-1, set_reason QDEVICE_NET_DISCONNECT_REASON_CANT_SEND_MESSAGE qd)
      | Some send_buffer \<Rightarrow>
          (case msgio_write send (sb_buffer send_buffer) (sb_msg_already_sent_bytes send_buffer) of
             (res, sent) \<Rightarrow>
               let send_buffer' = send_buffer\<lparr>sb_msg_already_sent_bytes := sent\<rparr>;
                   sbl = (qn_send_buffer_list (qd_net qd))
                     \<lparr>sbl_list := send_buffer' # tl (sbl_list (qn_send_buffer_list (qd_net qd)))\<rparr>;
                   store = (\<lambda>l. upd_net (\<lambda>n. n\<lparr>qn_send_buffer_list := l\<rparr>) qd)
               in if res = 1
                  then let qd1 = store (send_buffer_list_delete sbl send_buffer')
                       in if msg_get_type (sb_buffer send_buffer) (ev_junk ev) \<noteq> MSG_TYPE_ECHO_REQUEST
                          then (case qdevice_net_socket_write_finished ev qd1 of
                                  (r, qd2) \<Rightarrow> (if r = -1 then -1 else 0, qd2))
                          else (0, qd1)
                  else if res = -1
                  then (-1, set_reason QDEVICE_NET_DISCONNECT_REASON_SERVER_CLOSED_CONNECTION (store sbl))
                  else if res = -2
                  then (-1, set_reason QDEVICE_NET_DISCONNECT_REASON_CANT_SEND_MESSAGE (store sbl))
                  else (0, store sbl)))"

section \<open>The poll loop\<close>

definition qdevice_net_socket_add_to_main_poll_loop :: "qdev_env \<Rightarrow> qdevice_instance \<Rightarrow> int" where
  "qdevice_net_socket_add_to_main_poll_loop ev qd =
     (if qn_state (qd_net qd) \<noteq> QDEVICE_NET_INSTANCE_STATE_WAITING_CONNECT \<or>
         \<not> qn_non_blocking_client_destroyed (qd_net qd)
      then if ev_add_prfd ev then 0 else -1
      else 0)"

definition qdevice_net_socket_del_from_main_poll_loop :: "qdev_env \<Rightarrow> qdevice_instance \<Rightarrow> int" where
  "qdevice_net_socket_del_from_main_poll_loop ev qd =
     (if (\<not> qn_non_blocking_client_destroyed (qd_net qd) \<or> qn_socket (qd_net qd)) \<and> \<not> ev_del_prfd ev
      then -1 else 0)"

definition socket_set_events_cb :: "qdevice_instance \<Rightarrow> int \<times> bool" where
  "socket_set_events_cb qd = (0, \<not> send_buffer_list_empty (qn_send_buffer_list (qd_net qd)))"

definition socket_read_cb ::
    "qdev_env \<Rightarrow> net_algorithm_array \<Rightarrow> (nat \<Rightarrow> recv_result) \<Rightarrow> qdevice_instance \<Rightarrow> qdev_result" where
  "socket_read_cb ev aa recv qd =
     bindE (qdevice_net_socket_read ev aa recv qd) (\<lambda>(r, qd1).
       if r = -1 then Inr (-1, set_schedule_disconnect qd1) else Inr (0, qd1))"

definition socket_write_cb ::
    "qdev_env \<Rightarrow> (byte list \<Rightarrow> send_result) \<Rightarrow> qdevice_instance \<Rightarrow> int \<times> qdevice_instance" where
  "socket_write_cb ev send qd =
     (case qdevice_net_socket_write ev send qd of
        (r, qd1) \<Rightarrow> if r = -1 then (-1, set_schedule_disconnect qd1) else (0, qd1))"

definition socket_err_cb :: "qdevice_instance \<Rightarrow> int \<times> qdevice_instance" where
  "socket_err_cb qd =
     (-1, set_reason QDEVICE_NET_DISCONNECT_REASON_SERVER_CLOSED_CONNECTION (set_schedule_disconnect qd))"

section \<open>Connecting\<close>

definition nss_sock_non_blocking_client_init :: "qdev_env \<Rightarrow> qdevice_instance \<Rightarrow> int \<times> qdevice_instance" where
  "nss_sock_non_blocking_client_init ev qd =
     (if ev_client_init ev then 0 else -1,
      upd_net (\<lambda>n. n\<lparr>qn_non_blocking_client_destroyed := \<not> ev_client_init ev\<rparr>) qd)"

definition nss_sock_non_blocking_client_try_next :: "qdev_env \<Rightarrow> qdevice_instance \<Rightarrow> int" where
  "nss_sock_non_blocking_client_try_next ev qd =
     (if qn_non_blocking_client_destroyed (qd_net qd) \<or> \<not> ev_try_next ev then -1 else 0)"

definition nss_sock_non_blocking_client_destroy :: "qdevice_instance \<Rightarrow> qdevice_instance" where
  "nss_sock_non_blocking_client_destroy = upd_net (\<lambda>n. n\<lparr>qn_non_blocking_client_destroyed := True\<rparr>)"

text \<open>\<open>succeeded\<close> is the result of \<open>nss_sock_non_blocking_client_succeeded\<close>: -1, 0 or 1.\<close>

definition non_blocking_client_socket_write_cb :: "qdev_env \<Rightarrow> int \<Rightarrow> qdevice_instance \<Rightarrow> qdev_result" where
  "non_blocking_client_socket_write_cb ev succeeded qd =
     (if succeeded = -1
      then if qdevice_net_socket_del_from_main_poll_loop ev qd = -1 then Inr (-1, qd)
           else let qd1 = (if nss_sock_non_blocking_client_try_next ev qd = -1
                           then nss_sock_non_blocking_client_destroy qd else qd)
                in Inr (if qdevice_net_socket_add_to_main_poll_loop ev qd1 = -1 then -1 else 0, qd1)
      else if succeeded = 0 then Inr (0, qd)
      else if succeeded = 1
      then if qdevice_net_socket_del_from_main_poll_loop ev qd = -1 then Inr (-1, qd)
           else let qd1 = upd_net (\<lambda>n. n\<lparr>qn_socket := True, qn_non_blocking_client_destroyed := True,
                            qn_state := QDEVICE_NET_INSTANCE_STATE_SENDING_PREINIT_REPLY\<rparr>) qd
                in if qdevice_net_socket_add_to_main_poll_loop ev qd1 = -1 then Inr (-1, qd1)
                   else (case qdevice_net_send_preinit (ev_al ev) qd1 of
                           (r, qd2) \<Rightarrow>
                             if r \<noteq> 0
                             then fail_with QDEVICE_NET_DISCONNECT_REASON_CANT_ALLOCATE_MSG_BUFFER qd2
                             else Inr (0, qd2))
      else Inl Exit_Failure)"

definition non_blocking_client_socket_err_cb :: "qdev_env \<Rightarrow> int \<Rightarrow> qdevice_instance \<Rightarrow> qdev_result" where
  "non_blocking_client_socket_err_cb ev succeeded qd =
     (if \<not> qn_non_blocking_client_destroyed (qd_net qd)
      then non_blocking_client_socket_write_cb ev succeeded qd else Inr (0, qd))"

end
