(* ===== verification/Qdevice_Model_Net.thy ===== *)
theory Qdevice_Model_Net
  imports Qdevice_Net_Socket
begin

text \<open>
  The model \<open>net\<close> of the client, \<open>qdevice-model-net.c\<close>: what happens before and after each run of
  the poll loop, and the reactions to changes of the configuration and of the membership. The array
  of registered algorithms is an argument.
\<close>

section \<open>Callbacks\<close>

definition check_schedule_disconnect_cb :: "qdevice_instance \<Rightarrow> int" where
  "check_schedule_disconnect_cb qd = (if qn_schedule_disconnect (qd_net qd) then -1 else 0)"

definition qdevice_model_net_timer_connect_timeout :: "qdevice_instance \<Rightarrow> int \<times> qdevice_instance" where
  "qdevice_model_net_timer_connect_timeout qd =
     (0, upd_net (\<lambda>n. n\<lparr>qn_schedule_disconnect := True, qn_connect_timer := None,
           qn_disconnect_reason := QDEVICE_NET_DISCONNECT_REASON_CANT_CONNECT_TO_THE_SERVER\<rparr>) qd)"

section \<open>Life cycle\<close>

text \<open>
  \<open>inst\<close> is the result of \<open>qdevice_net_instance_init_from_cmap\<close>; the array of algorithms was
  filled by \<open>qdevice_net_algorithm_register_all\<close>, with the given result.
\<close>

definition qdevice_model_net_init ::
    "qdev_env \<Rightarrow> int \<times> net_algorithm_array \<Rightarrow> qdevice_net_instance option \<Rightarrow> qdevice_instance \<Rightarrow> qdev_result" where
  "qdevice_model_net_init ev registered inst qd =
     (case inst of
        None \<Rightarrow> Inr (-1, qd)
      | Some n \<Rightarrow>
          let qd1 = qd\<lparr>qd_net := n\<rparr>
          in if fst registered \<noteq> 0 \<or> \<not> ev_nss_init ev then Inr (-1, qd1)
             else bindE (qdevice_net_cast_vote_timer_update ev TLV_VOTE_ASK_LATER qd1) (\<lambda>(r2, qd2).
               if r2 \<noteq> 0 then Inr (-1, qd2)
               else bindE (qdevice_net_algorithm_init (snd registered) ev qd2) (\<lambda>(r3, qd3).
                 if r3 \<noteq> 0 then Inr (-1, qd3)
                 else case qdevice_net_heuristics_init (ev_al ev) qd3 of
                        (r4, qd4) \<Rightarrow> Inr (if r4 \<noteq> 0 then -1 else 0, qd4))))"

definition qdevice_model_net_destroy :: "net_algorithm_array \<Rightarrow> qdevice_instance \<Rightarrow> qdev_result" where
  "qdevice_model_net_destroy aa qd =
     bindE (qdevice_net_algorithm_destroy aa qd) (\<lambda>qd1. Inr (0, upd_net qdevice_net_instance_destroy qd1))"

definition qdevice_model_net_pre_poll_loop :: "qdev_env \<Rightarrow> qdevice_instance \<Rightarrow> int \<times> qdevice_instance" where
  "qdevice_model_net_pre_poll_loop ev qd0 =
     (let qd = upd_net (\<lambda>n. n\<lparr>qn_state := QDEVICE_NET_INSTANCE_STATE_WAITING_CONNECT,
                              qn_socket := False\<rparr>) qd0
      in case qd_timer_add (ev_al ev) (qn_connect_timeout (qd_net qd)) Connect_Timer qd of
           (t, qd1) \<Rightarrow>
             let qd2 = upd_net (\<lambda>n. n\<lparr>qn_connect_timer := t\<rparr>) qd1
             in if t = None then (-1, qd2)
                else let qd3 = snd (nss_sock_non_blocking_client_init ev qd2);
                         qd4 = (if nss_sock_non_blocking_client_try_next ev qd3 = -1
                                then nss_sock_non_blocking_client_destroy qd3 else qd3)
                     in if qdevice_net_socket_add_to_main_poll_loop ev qd4 = -1 \<or> \<not> ev_add_pre_poll_cb ev
                        then (-1, nss_sock_non_blocking_client_destroy qd4)
                        else (0, qd4))"

definition exit_disconnect_reason ::
    "qdevice_model_post_poll_loop_exit_reason \<Rightarrow> qdevice_net_disconnect_reason \<Rightarrow> qdevice_net_disconnect_reason" where
  "exit_disconnect_reason exit_reason reason =
     (case exit_reason of
        QDEVICE_MODEL_POST_POLL_LOOP_EXIT_REASON_MODEL \<Rightarrow> reason
      | QDEVICE_MODEL_POST_POLL_LOOP_EXIT_REASON_VOTEQUORUM_CLOSED \<Rightarrow>
          QDEVICE_NET_DISCONNECT_REASON_COROSYNC_CONNECTION_CLOSED
      | QDEVICE_MODEL_POST_POLL_LOOP_EXIT_REASON_CMAP_CLOSED \<Rightarrow>
          QDEVICE_NET_DISCONNECT_REASON_COROSYNC_CONNECTION_CLOSED
      | QDEVICE_MODEL_POST_POLL_LOOP_EXIT_REASON_HEURISTICS_CLOSED \<Rightarrow>
          QDEVICE_NET_DISCONNECT_REASON_HEURISTICS_WORKER_CLOSED
      | QDEVICE_MODEL_POST_POLL_LOOP_EXIT_REASON_IPC_SOCKET_CLOSED \<Rightarrow>
          QDEVICE_NET_DISCONNECT_REASON_LOCAL_SOCKET_CLOSED)"

definition echo_request_timer_stop :: "qdevice_instance \<Rightarrow> qdevice_instance" where
  "echo_request_timer_stop qd =
     (case qn_echo_request_timer (qd_net qd) of
        None \<Rightarrow> qd
      | Some t \<Rightarrow> upd_net (\<lambda>n. n\<lparr>qn_echo_request_timer := None\<rparr>) (qd_timer_delete t qd))"

text \<open>
  The delay before a reconnect is \<open>random() % (int)(interval * 0.9)\<close>: the divisor must be an
  \<open>int\<close> other than 0.
\<close>

definition reconnect_delay_ok :: "u32 \<Rightarrow> bool" where
  "reconnect_delay_ok interval \<longleftrightarrow> 0 < unat interval * 9 div 10 \<and> unat interval * 9 div 10 < 2 ^ 31"

text \<open>The end of the function: the descriptors leave the poll loop and the instance is cleaned.\<close>

definition post_poll_loop_finish ::
    "qdev_env \<Rightarrow> bool \<Rightarrow> qdevice_instance \<Rightarrow> qdev_result" where
  "post_poll_loop_finish ev restart_loop0 qd =
     (let reason = qn_disconnect_reason (qd_net qd);
          removed = (ev_del_pre_poll_cb ev \<and> qdevice_net_socket_del_from_main_poll_loop ev qd \<noteq> -1);
          restart_loop = (restart_loop0 \<and> \<not> qdevice_net_disconnect_reason_force_disconnect reason \<and> removed);
          ret_val = (if reason = QDEVICE_NET_DISCONNECT_REASON_LOCAL_SOCKET_CLOSED \<and> removed then 0 else -1);
          qd1 = nss_sock_non_blocking_client_destroy (upd_net (\<lambda>n. n\<lparr>qn_socket := False\<rparr>) qd)
      in if restart_loop \<and> qn_state (qd_net qd1) \<noteq> QDEVICE_NET_INSTANCE_STATE_WAITING_CONNECT \<and>
            \<not> reconnect_delay_ok (qn_cast_vote_timer_interval (qd_net qd1))
         then Inl Arithmetic_Fault
         else Inr (if restart_loop then 1 else ret_val, upd_net qdevice_net_instance_clean qd1))"

definition qdevice_model_net_post_poll_loop ::
    "qdev_env \<Rightarrow> net_algorithm_array \<Rightarrow> qdevice_model_post_poll_loop_exit_reason \<Rightarrow> qdevice_instance \<Rightarrow> qdev_result" where
  "qdevice_model_net_post_poll_loop ev aa exit_reason qd =
     (let qd1 = echo_request_timer_stop (connect_timer_stop qd);
          qd2 = set_reason (exit_disconnect_reason exit_reason (qn_disconnect_reason (qd_net qd1))) qd1;
          restart_loop = qdevice_net_disconnect_reason_try_reconnect (qn_disconnect_reason (qd_net qd2));
          qd3 = qdevice_net_cast_vote_timer_set_paused False qd2
      in bindE (qdevice_net_algorithm_disconnected aa restart_loop TLV_VOTE_NO_CHANGE qd3)
           (\<lambda>(r, restart_loop', vote, qd4).
              if r \<noteq> 0 then Inr (-1, qd4)
              else bindE (qdevice_net_cast_vote_timer_update ev vote qd4) (\<lambda>(r5, qd5).
                     post_poll_loop_finish ev restart_loop' qd5)))"

section \<open>Changes\<close>

text \<open>
  How the code starts to handle a change: while it is connected it wants to send the list, and
  otherwise an ACK that is being cast becomes a NACK.
\<close>

definition change_start :: "tlv_vote \<Rightarrow> qdevice_instance \<Rightarrow> bool \<times> tlv_vote" where
  "change_start connected_vote qd =
     (if not_ready qd
      then (False, if qn_cast_vote_timer_vote (qd_net qd) = TLV_VOTE_ACK then TLV_VOTE_NACK
                   else TLV_VOTE_NO_CHANGE)
      else (True, connected_vote))"

text \<open>Updating the timer, with a disconnect on failure; every early return is \<open>return (0)\<close>.\<close>

definition change_vote ::
    "qdev_env \<Rightarrow> tlv_vote \<Rightarrow> (qdevice_instance \<Rightarrow> qdev_result) \<Rightarrow> qdevice_instance \<Rightarrow> qdev_result" where
  "change_vote ev vote rest qd =
     bindE (qdevice_net_cast_vote_timer_update ev vote qd) (\<lambda>(r, qd1).
       if r \<noteq> 0
       then Inr (0, disconnect_because QDEVICE_NET_DISCONNECT_REASON_CANT_SCHEDULE_VOTING_TIMER qd1)
       else rest qd1)"

definition qdevice_model_net_config_node_list_changed ::
    "qdev_env \<Rightarrow> net_algorithm_array \<Rightarrow> node_list \<Rightarrow> bool \<Rightarrow> u64 \<Rightarrow> qdevice_instance \<Rightarrow> qdev_result" where
  "qdevice_model_net_config_node_list_changed ev aa nlist config_version_set config_version qd =
     (case change_start TLV_VOTE_NO_CHANGE qd of (send0, vote0) \<Rightarrow>
        bindE (qdevice_net_algorithm_config_node_list_changed aa ev send0 vote0 qd)
          (\<lambda>(r, send_node_list, vote, qd1).
             if r \<noteq> 0
             then Inr (0, disconnect_because
                    QDEVICE_NET_DISCONNECT_REASON_ALGO_CONFIG_NODE_LIST_CHANGED_ERR qd1)
             else change_vote ev vote (\<lambda>qd2.
                    if \<not> send_node_list then Inr (0, qd2)
                    else case qdevice_net_send_config_node_list (ev_al ev) nlist config_version_set
                                config_version False qd2 of
                           (r3, qd3) \<Rightarrow>
                             Inr (0, if r3 \<noteq> 0
                                     then disconnect_because
                                            QDEVICE_NET_DISCONNECT_REASON_CANT_ALLOCATE_MSG_BUFFER qd3
                                     else qd3)) qd1))"

definition qdevice_model_net_get_config_node_list_failed :: "qdevice_instance \<Rightarrow> int \<times> qdevice_instance" where
  "qdevice_model_net_get_config_node_list_failed qd =
     (0, disconnect_because QDEVICE_NET_DISCONNECT_REASON_CANT_ALLOCATE_MSG_BUFFER qd)"

definition qdevice_model_net_votequorum_quorum_notify ::
    "qdev_env \<Rightarrow> net_algorithm_array \<Rightarrow> u32 \<Rightarrow> votequorum_node list \<Rightarrow> qdevice_instance \<Rightarrow> qdev_result" where
  "qdevice_model_net_votequorum_quorum_notify ev aa quorate node_list qd =
     (case change_start TLV_VOTE_NO_CHANGE qd of (send0, vote0) \<Rightarrow>
        bindE (qdevice_net_algorithm_votequorum_quorum_notify aa quorate send0 vote0 qd)
          (\<lambda>(r, send_node_list, vote, qd1).
             if r \<noteq> 0
             then Inr (0, disconnect_because
                    QDEVICE_NET_DISCONNECT_REASON_ALGO_VOTEQUORUM_QUORUM_NOTIFY_ERR qd1)
             else change_vote ev vote (\<lambda>qd2.
                    if \<not> send_node_list then Inr (0, qd2)
                    else bindE (qdevice_net_send_quorum_node_list (ev_al ev)
                                  (if quorate \<noteq> 0 then TLV_QUORATE_QUORATE else TLV_QUORATE_INQUORATE)
                                  node_list qd2) (\<lambda>(r3, qd3).
                             Inr (0, if r3 \<noteq> 0
                                     then disconnect_because
                                            QDEVICE_NET_DISCONNECT_REASON_CANT_ALLOCATE_MSG_BUFFER qd3
                                     else qd3))) qd1))"

definition heuristics_notify_finish ::
    "qdev_env \<Rightarrow> tlv_vote \<Rightarrow> tlv_heuristics \<Rightarrow> qdevice_instance \<Rightarrow> qdev_result" where
  "heuristics_notify_finish ev vote heuristics qd =
     change_vote ev vote (\<lambda>qd1.
         Inr (0, snd (qdevice_net_heuristics_schedule_timer (ev_al ev)
                        (upd_net (\<lambda>n. n\<lparr>qn_latest_vq_heuristics_result := heuristics,
                                        qn_latest_heuristics_result := heuristics\<rparr>) qd1))))
       (qdevice_net_cast_vote_timer_set_paused False qd)"

definition qdevice_model_net_votequorum_node_list_heuristics_notify ::
    "qdev_env \<Rightarrow> net_algorithm_array \<Rightarrow> votequorum_ring_id \<Rightarrow> u32 list \<Rightarrow>
     qdevice_heuristics_exec_result \<Rightarrow> qdevice_instance \<Rightarrow> qdev_result" where
  "qdevice_model_net_votequorum_node_list_heuristics_notify ev aa votequorum_ring_id node_list exec_result qd =
     (let tlv_rid = qdevice_net_votequorum_ring_id_to_tlv votequorum_ring_id
      in bindE (qdevice_net_heuristics_exec_result_to_tlv exec_result) (\<lambda>heuristics0.
           case change_start TLV_VOTE_WAIT_FOR_REPLY qd of (send0, vote0) \<Rightarrow>
             bindE (qdevice_net_algorithm_votequorum_node_list_heuristics_notify aa (send0, heuristics0) vote0 qd)
               (\<lambda>(r, (send_node_list, heuristics), vote, qd1).
                  if r \<noteq> 0
                  then Inr (0, disconnect_because
                         QDEVICE_NET_DISCONNECT_REASON_ALGO_VOTEQUORUM_NODE_LIST_HEURISTICS_NOTIFY_ERR qd1)
                  else if send_node_list
                  then (case qdevice_net_send_membership_node_list (ev_al ev) tlv_rid node_list heuristics qd1 of
                          (r2, qd2) \<Rightarrow>
                            if r2 \<noteq> 0
                            then Inr (0, disconnect_because
                                   QDEVICE_NET_DISCONNECT_REASON_CANT_ALLOCATE_MSG_BUFFER qd2)
                            else heuristics_notify_finish ev vote heuristics qd2)
                  else heuristics_notify_finish ev vote heuristics qd1)))"

definition qdevice_model_net_votequorum_node_list_notify ::
    "qdev_env \<Rightarrow> net_algorithm_array \<Rightarrow> votequorum_ring_id \<Rightarrow> u32 list \<Rightarrow> qdevice_instance \<Rightarrow> qdev_result" where
  "qdevice_model_net_votequorum_node_list_notify ev aa votequorum_ring_id node_list qd0 =
     (case qdevice_net_heuristics_stop_timer qd0 of (r0, qd) \<Rightarrow>
        if r0 \<noteq> 0 then Inr (0, qd)
        else let vote0 = (if not_ready qd \<and> qn_cast_vote_timer_vote (qd_net qd) = TLV_VOTE_ACK
                          then TLV_VOTE_NACK else TLV_VOTE_NO_CHANGE)
             in bindE (qdevice_net_algorithm_votequorum_node_list_notify aa True vote0 qd)
                  (\<lambda>(r, pause_cast_vote_timer, vote, qd1).
                     if r \<noteq> 0
                     then Inr (0, disconnect_because
                            QDEVICE_NET_DISCONNECT_REASON_ALGO_VOTEQUORUM_NODE_LIST_NOTIFY_ERR qd1)
                     else change_vote ev vote (\<lambda>qd2.
                            Inr (0, qdevice_net_cast_vote_timer_set_paused pause_cast_vote_timer qd2)) qd1))"

definition qdevice_model_net_votequorum_expected_votes_notify ::
    "qdev_env \<Rightarrow> net_algorithm_array \<Rightarrow> u32 \<Rightarrow> qdevice_instance \<Rightarrow> qdev_result" where
  "qdevice_model_net_votequorum_expected_votes_notify ev aa expected_votes qd =
     bindE (qdevice_net_algorithm_votequorum_expected_votes_notify aa ev TLV_VOTE_NO_CHANGE qd)
       (\<lambda>(r, vote, qd1).
          if r \<noteq> 0
          then Inr (0, disconnect_because
                 QDEVICE_NET_DISCONNECT_REASON_ALGO_VOTEQUORUM_EXPECTED_VOTES_NOTIFY_ERR qd1)
          else change_vote ev vote (\<lambda>qd2. Inr (0, qd2)) qd1)"

text \<open>The part of \<open>qdevice_cmap_change_events\<close> that the model reads is the flag of the heuristics.\<close>

definition qdevice_model_net_cmap_changed :: "allocator \<Rightarrow> bool \<Rightarrow> qdevice_instance \<Rightarrow> int \<times> qdevice_instance" where
  "qdevice_model_net_cmap_changed al heuristics_changed qd =
     (if heuristics_changed
      then let mode = qh_mode (qd_heuristics_instance qd)
           in if \<not> not_ready qd \<and> \<not> qn_server_supports_heuristics (qd_net qd) \<and>
                 (mode = QDEVICE_HEURISTICS_MODE_ENABLED \<or> mode = QDEVICE_HEURISTICS_MODE_SYNC)
              then (0, disconnect_because
                      QDEVICE_NET_DISCONNECT_REASON_SERVER_DOESNT_SUPPORT_REQUIRED_OPT qd)
              else (0, snd (qdevice_net_heuristics_schedule_timer al qd))
      else (0, qd))"

end
