(* ===== verification/Qdevice_Callbacks.thy ===== *)
theory Qdevice_Callbacks
  imports Qdevice_Model_Net
begin

text \<open>
  What the poll loop of \<open>corosync-qdevice\<close> calls: the notifications of votequorum
  (\<open>qdevice-votequorum.c\<close>), the results of the heuristics worker (\<open>qdevice-heuristics-cmd.c\<close>), the
  changes of the configuration (\<open>qdevice-cmap.c\<close>), the callbacks of \<open>qdevice-pr-poll-loop-cb.c\<close>, the
  timers, and the choice that \<open>qdevice_run_main_loop\<close> makes when the loop has ended. The functions
  of \<open>qdevice-model.c\<close> pass a call to the one registered model; they are left out.
\<close>

section \<open>Notifications of votequorum\<close>

text \<open>A result other than 0 of the model ends the process.\<close>

definition or_exit :: "(qdevice_instance \<Rightarrow> fault + qdevice_instance) \<Rightarrow> qdev_result \<Rightarrow> fault + qdevice_instance" where
  "or_exit rest res = bindE res (\<lambda>(r, qd). if r \<noteq> 0 then Inl Exit_Failure else rest qd)"

definition qdevice_votequorum_quorum_notify_callback ::
    "qdev_env \<Rightarrow> net_algorithm_array \<Rightarrow> u32 \<Rightarrow> votequorum_node list \<Rightarrow> qdevice_instance \<Rightarrow> fault + qdevice_instance" where
  "qdevice_votequorum_quorum_notify_callback ev aa quorate node_list qd =
     or_exit (\<lambda>qd1.
         if \<not> ev_al ev (Malloc_Bytes (8 * length node_list)) then Inl Exit_Failure
         else Inr (qd1\<lparr>qd_vq_quorum_quorate := quorate, qd_vq_quorum_node_list := node_list\<rparr>))
       (qdevice_model_net_votequorum_quorum_notify ev aa quorate node_list (qd\<lparr>qd_sync_in_progress := False\<rparr>))"

definition qdevice_votequorum_heuristics_exec_result_callback ::
    "qdev_env \<Rightarrow> net_algorithm_array \<Rightarrow> qdevice_heuristics_exec_result \<Rightarrow> qdevice_instance \<Rightarrow> qdev_result" where
  "qdevice_votequorum_heuristics_exec_result_callback ev aa exec_result qd =
     (case notifier_set_active qdevice_votequorum_heuristics_exec_result_callback_id False qd of
        (r, qd1) \<Rightarrow>
          if r \<noteq> 0 then Inl Exit_Failure
          else bindE (or_exit Inr (qdevice_model_net_votequorum_node_list_heuristics_notify ev aa
                  (qd_vq_node_list_ring_id qd1) (qd_vq_node_list qd1) exec_result qd1)) (\<lambda>qd2.
                 Inr (0, qd2\<lparr>qd_vq_node_list_initial_heuristics_finished := True,
                             qd_vq_node_list_heuristics_result := exec_result\<rparr>)))"

definition qdevice_votequorum_node_list_notify_callback ::
    "qdev_env \<Rightarrow> net_algorithm_array \<Rightarrow> votequorum_ring_id \<Rightarrow> u32 list \<Rightarrow> qdevice_instance \<Rightarrow> fault + qdevice_instance" where
  "qdevice_votequorum_node_list_notify_callback ev aa votequorum_ring_id node_list qd =
     or_exit (\<lambda>qd1.
         case notifier_set_active qdevice_votequorum_heuristics_exec_result_callback_id True qd1 of
           (r2, qd2) \<Rightarrow>
             if r2 \<noteq> 0 then Inl Exit_Failure
             else (case on_heuristics (qdevice_heuristics_exec (ev_al ev) (qd_sync_in_progress qd2)) qd2 of
                     (r3, qd3) \<Rightarrow>
                       if r3 \<noteq> 0 then Inl Exit_Failure
                       else if \<not> ev_al ev (Malloc_Bytes (4 * length node_list)) then Inl Exit_Failure
                       else Inr (qd3\<lparr>qd_vq_node_list_initial_ring_id_set := True,
                                     qd_vq_node_list_ring_id := votequorum_ring_id,
                                     qd_vq_node_list := node_list\<rparr>)))
       (qdevice_model_net_votequorum_node_list_notify ev aa votequorum_ring_id node_list
          (qd\<lparr>qd_sync_in_progress := True, qd_vq_poll_ring_id := votequorum_ring_id\<rparr>))"

definition qdevice_votequorum_expected_votes_notify_callback ::
    "qdev_env \<Rightarrow> net_algorithm_array \<Rightarrow> u32 \<Rightarrow> qdevice_instance \<Rightarrow> fault + qdevice_instance" where
  "qdevice_votequorum_expected_votes_notify_callback ev aa expected_votes qd =
     or_exit (\<lambda>qd1. Inr (qd1\<lparr>qd_vq_expected_votes := expected_votes\<rparr>))
       (qdevice_model_net_votequorum_expected_votes_notify ev aa expected_votes qd)"

section \<open>Results of the heuristics\<close>

definition call_result_callback ::
    "qdev_env \<Rightarrow> net_algorithm_array \<Rightarrow> qdevice_heuristics_exec_result \<Rightarrow> result_callback \<Rightarrow>
     qdevice_instance \<Rightarrow> qdev_result" where
  "call_result_callback ev aa exec_result cb =
     (case cb of
        qdevice_votequorum_heuristics_exec_result_callback_id \<Rightarrow>
          qdevice_votequorum_heuristics_exec_result_callback ev aa exec_result
      | qdevice_net_regular_heuristics_exec_result_callback_id \<Rightarrow>
          qdevice_net_regular_heuristics_exec_result_callback ev aa exec_result
      | qdevice_net_connect_heuristics_exec_result_callback_id \<Rightarrow>
          qdevice_net_connect_heuristics_exec_result_callback ev aa exec_result)"

definition result_notifiers :: "qdevice_instance \<Rightarrow> notifier_list" where
  "result_notifiers qd = qh_exec_result_notifier_list (qd_heuristics_instance qd)"

definition qdevice_heuristics_cmd_process_exec_result ::
    "qdev_env \<Rightarrow> net_algorithm_array \<Rightarrow> byte list \<Rightarrow> qdevice_instance \<Rightarrow> qdev_result" where
  "qdevice_heuristics_cmd_process_exec_result ev aa str qd =
     (case exec_result_scan str of
        None \<Rightarrow> Inr (-1, qd)
      | Some (seq_number, exec_result) \<Rightarrow>
          if \<not> qh_waiting_for_result (qd_heuristics_instance qd) then Inr (0, qd)
          else if seq_number \<noteq> qh_expected_reply_seq_number (qd_heuristics_instance qd) then Inr (0, qd)
          else bindE (qdevice_heuristics_result_notifier_notify result_notifiers
                        (call_result_callback ev aa exec_result) (map ni_callback (result_notifiers qd))
                        (upd_heuristics (\<lambda>h. h\<lparr>qh_waiting_for_result := False\<rparr>) qd)) (\<lambda>(r, qd1).
                 Inr (if r \<noteq> 0 then -1 else 0, qd1)))"

text \<open>
  The buffer of the pipe is an argument and a component of the result; the called functions do not
  touch it. The line is ended in place by a 0 byte.
\<close>

definition qdevice_heuristics_cmd_process_one_line ::
    "qdev_env \<Rightarrow> net_algorithm_array \<Rightarrow> byte list \<Rightarrow> qdevice_instance \<Rightarrow>
     fault + (int \<times> byte list \<times> qdevice_instance)" where
  "qdevice_heuristics_cmd_process_one_line ev aa data qd =
     (case cmd_line data of
        None \<Rightarrow> Inr (0, data, qd)
      | Some line \<Rightarrow>
          let ended = data[length (takeWhile line_char data) := 0];
              prefix = cmd_str_exec_result @ [chr_space]
          in if take (length prefix) line \<noteq> prefix then Inr (-1, ended, qd)
             else bindE (qdevice_heuristics_cmd_process_exec_result ev aa line qd) (\<lambda>(r, qd1).
                    if r \<noteq> 0 then Inr (-1, ended, qd1) else Inr (1, cmd_rest data, qd1)))"

lemma cmd_process_shrinks:
  assumes "qdevice_heuristics_cmd_process_one_line ev aa data qd = Inr (1, data', qd')"
  shows "length data' < length data"
proof -
  let ?n = "length (takeWhile line_char data)"
  from assms have n: "?n < length data" and d: "data' = cmd_rest data"
    by (auto simp: qdevice_heuristics_cmd_process_one_line_def cmd_line_def Let_def bindE_Inr_iff
        split: if_splits)
  have "length data' \<le> length (drop (Suc ?n) data)"
    unfolding d cmd_rest_def by (rule length_dropWhile_le)
  with n show ?thesis by simp
qed

function cmd_process_loop ::
    "qdev_env \<Rightarrow> net_algorithm_array \<Rightarrow> byte list \<Rightarrow> qdevice_instance \<Rightarrow>
     fault + (int \<times> byte list \<times> qdevice_instance)" where
  "cmd_process_loop ev aa data qd =
     (case qdevice_heuristics_cmd_process_one_line ev aa data qd of
        Inl f \<Rightarrow> Inl f
      | Inr (res, data', qd') \<Rightarrow>
          if res = 1 then cmd_process_loop ev aa data' qd' else Inr (res, data', qd'))"
  by pat_completeness auto
termination
  by (relation "measure (\<lambda>(ev, aa, data, qd). length data)") (auto intro: cmd_process_shrinks)

declare cmd_process_loop.simps [simp del]

definition qdevice_heuristics_cmd_process :: "qdev_env \<Rightarrow> net_algorithm_array \<Rightarrow> qdevice_instance \<Rightarrow> qdev_result" where
  "qdevice_heuristics_cmd_process ev aa qd =
     bindE (cmd_process_loop ev aa (dyn_data (qh_cmd_in_buffer (qd_heuristics_instance qd))) qd)
       (\<lambda>(res, data, qd1).
          Inr (res, upd_heuristics (\<lambda>h. h\<lparr>qh_cmd_in_buffer := (qh_cmd_in_buffer h)\<lparr>dyn_data := data\<rparr>\<rparr>) qd1))"

definition qdevice_heuristics_cmd_read_from_pipe ::
    "qdev_env \<Rightarrow> net_algorithm_array \<Rightarrow> recv_result \<Rightarrow> qdevice_instance \<Rightarrow> qdev_result" where
  "qdevice_heuristics_cmd_read_from_pipe ev aa readed qd =
     (case qdevice_heuristics_io_read (ev_al ev) readed (qh_cmd_in_buffer (qd_heuristics_instance qd)) of
        (res, buf) \<Rightarrow>
          let qd1 = upd_heuristics (\<lambda>h. h\<lparr>qh_cmd_in_buffer := buf\<rparr>) qd
          in if res = 0 then Inr (0, qd1)
             else if res = 1 then qdevice_heuristics_cmd_process ev aa qd1
             else Inr (-1, qd1))"

section \<open>Changes of the configuration\<close>

text \<open>
  The node list of cmap (\<open>qdevice_cmap_get_nodelist\<close>) is a parameter. A comparison that cannot
  allocate memory gives -1 and counts as equal.
\<close>

definition qdevice_cmap_node_list_event ::
    "qdev_env \<Rightarrow> net_algorithm_array \<Rightarrow> qdevice_instance \<Rightarrow> fault + qdevice_instance" where
  "qdevice_cmap_node_list_event ev aa qd =
     (case ev_cmap_nodelist ev of
        None \<Rightarrow> or_exit Inr (Inr (qdevice_model_net_get_config_node_list_failed qd))
      | Some nlist \<Rightarrow>
          let config_version_set = (ev_cmap_config_version ev \<noteq> None);
              config_version = (case ev_cmap_config_version ev of None \<Rightarrow> 0 | Some v \<Rightarrow> v)
          in if node_list_eq (ev_al ev) (qd_config_node_list qd) nlist \<noteq> 0 then Inr qd
             else or_exit (\<lambda>qd1.
                 case node_list_clone (ev_al ev) nlist of
                   (r, copy) \<Rightarrow>
                     let qd2 = qd1\<lparr>qd_config_node_list := copy\<rparr>
                     in if r \<noteq> 0 then or_exit Inr (Inr (qdevice_model_net_get_config_node_list_failed qd2))
                        else Inr (qd2\<lparr>qd_config_node_list_version_set := config_version_set,
                               qd_config_node_list_version := (if config_version_set then config_version
                                 else qd_config_node_list_version qd2)\<rparr>))
               (qdevice_model_net_config_node_list_changed ev aa nlist config_version_set config_version qd))"

text \<open>
  \<open>qdevice_cmap_reload_cb\<close> for a change of the key \<open>key\<close>; \<open>reload\<close> is the new value of the key
  \<open>config.totemconfig_reload_in_progress\<close> when that is the key. \<open>configure\<close> stands for
  \<open>qdevice_instance_configure_from_cmap_heuristics\<close>, which gets the heuristics instance.
\<close>

definition qdevice_cmap_reload_cb ::
    "qdev_env \<Rightarrow> net_algorithm_array \<Rightarrow>
     (qdevice_heuristics_instance \<Rightarrow> int \<times> qdevice_heuristics_instance) \<Rightarrow>
     string \<Rightarrow> u8 option \<Rightarrow> qdevice_instance \<Rightarrow> fault + qdevice_instance" where
  "qdevice_cmap_reload_cb ev aa configure key reload qd =
     (let is_reload = (key = ''config.totemconfig_reload_in_progress'' \<and> reload \<noteq> None);
          starts = (\<lambda>p. take (length p) key = p)
      in if is_reload \<and> reload = Some 1 then Inr (qd\<lparr>qd_cmap_reload_in_progress := True\<rparr>)
         else let qd1 = (if is_reload then qd\<lparr>qd_cmap_reload_in_progress := False\<rparr> else qd)
              in if qd_cmap_reload_in_progress qd1 then Inr qd1
                 else if ev_cmap_uint8 ev ''config.totemconfig_reload_in_progress'' = Some 1 then Inr qd1
                 else let node_list_event = (is_reload \<or> starts ''nodelist.'');
                          heuristics_event = (is_reload \<or> starts ''quorum.device.heuristics.'')
                      in bindE (if node_list_event then qdevice_cmap_node_list_event ev aa qd1 else Inr qd1) (\<lambda>qd2.
                         bindE (if heuristics_event then or_exit Inr (Inr (on_heuristics configure qd2))
                                else Inr qd2) (\<lambda>qd3.
                         or_exit Inr (Inr (qdevice_model_net_cmap_changed (ev_al ev) heuristics_event qd3)))))"

section \<open>Callbacks of the poll loop\<close>

definition heuristics_pipe_cmd_recv_read_cb ::
    "qdev_env \<Rightarrow> net_algorithm_array \<Rightarrow> recv_result \<Rightarrow> qdevice_instance \<Rightarrow> qdev_result" where
  "heuristics_pipe_cmd_recv_read_cb ev aa readed qd =
     bindE (qdevice_heuristics_cmd_read_from_pipe ev aa readed qd) (\<lambda>(res, qd1).
       if res = -1 then Inr (-1, qd1\<lparr>qd_heuristics_closed := True\<rparr>) else Inr (0, qd1))"

definition heuristics_pipe_cmd_send_set_events_cb :: "qdevice_instance \<Rightarrow> int \<times> bool" where
  "heuristics_pipe_cmd_send_set_events_cb qd =
     (if \<not> send_buffer_list_empty (qh_cmd_out_buffer_list (qd_heuristics_instance qd)) then (0, True)
      else (-1, False))"

definition heuristics_pipe_cmd_send_write_cb ::
    "(byte list \<Rightarrow> send_result) \<Rightarrow> qdevice_instance \<Rightarrow> int \<times> qdevice_instance" where
  "heuristics_pipe_cmd_send_write_cb write qd =
     (case on_heuristics (qdevice_heuristics_cmd_write write) qd of
        (res, qd1) \<Rightarrow> if res = -1 then (-1, qd1\<lparr>qd_heuristics_closed := True\<rparr>) else (0, qd1))"

text \<open>The messages that the worker logs are printed and change nothing.\<close>

definition heuristics_pipe_err_cb :: "qdevice_instance \<Rightarrow> int \<times> qdevice_instance" where
  "heuristics_pipe_err_cb qd = (-1, qd\<lparr>qd_heuristics_closed := True\<rparr>)"

definition votequorum_err_cb :: "qdevice_instance \<Rightarrow> int \<times> qdevice_instance" where
  "votequorum_err_cb qd = (-1, qd\<lparr>qd_votequorum_closed := True\<rparr>)"

definition cmap_set_events_cb :: "qdevice_instance \<Rightarrow> int" where
  "cmap_set_events_cb qd = (if qd_sync_in_progress qd then -1 else 0)"

definition cmap_err_cb :: "qdevice_instance \<Rightarrow> int \<times> qdevice_instance" where
  "cmap_err_cb qd = (-1, qd\<lparr>qd_cmap_closed := True\<rparr>)"

section \<open>Timers\<close>

definition qdev_timer_callback ::
    "qdev_env \<Rightarrow> net_algorithm_array \<Rightarrow> qdev_timer \<Rightarrow> qdevice_instance \<Rightarrow> qdev_result" where
  "qdev_timer_callback ev aa timer qd =
     (case timer of
        Cast_Vote_Timer \<Rightarrow> qdevice_net_cast_vote_timer_callback ev qd
      | Echo_Request_Timer \<Rightarrow> qdevice_net_echo_request_timer_callback ev aa qd
      | Connect_Timer \<Rightarrow> Inr (qdevice_model_net_timer_connect_timeout qd)
      | Regular_Heuristics_Timer \<Rightarrow> Inr (qdevice_net_heuristics_timer_callback (ev_al ev) qd))"

text \<open>\<open>timer_list_expire\<close>: a callback that returns 0 has its timer deleted, otherwise it runs again.\<close>

definition qdev_timer_fire ::
    "qdev_env \<Rightarrow> net_algorithm_array \<Rightarrow> timer_id \<Rightarrow> qdevice_instance \<Rightarrow> fault + qdevice_instance" where
  "qdev_timer_fire ev aa t qd =
     (case map_of (qd_timers qd) t of
        None \<Rightarrow> Inr qd
      | Some (timer, interval) \<Rightarrow>
          bindE (qdev_timer_callback ev aa timer qd) (\<lambda>(r, qd1).
            Inr (if r = 0 then qd_timer_delete t qd1 else qd1)))"

section \<open>The main loop\<close>

text \<open>\<open>ipc_closed\<close> is the result of \<open>qdevice_ipc_is_closed\<close>.\<close>

definition main_loop_exit_reason :: "bool \<Rightarrow> qdevice_instance \<Rightarrow> qdevice_model_post_poll_loop_exit_reason" where
  "main_loop_exit_reason ipc_closed qd =
     (if qd_votequorum_closed qd then QDEVICE_MODEL_POST_POLL_LOOP_EXIT_REASON_VOTEQUORUM_CLOSED
      else if qd_cmap_closed qd then QDEVICE_MODEL_POST_POLL_LOOP_EXIT_REASON_CMAP_CLOSED
      else if qd_heuristics_closed qd then QDEVICE_MODEL_POST_POLL_LOOP_EXIT_REASON_HEURISTICS_CLOSED
      else if ipc_closed then QDEVICE_MODEL_POST_POLL_LOOP_EXIT_REASON_IPC_SOCKET_CLOSED
      else QDEVICE_MODEL_POST_POLL_LOOP_EXIT_REASON_MODEL)"

text \<open>
  The part of \<open>qdevice_run_main_loop\<close> between two runs of the poll loop: the end of the one, and
  the start of the next when the model asks for it. The flag says whether the loop goes on.
\<close>

definition main_loop_restart ::
    "qdev_env \<Rightarrow> net_algorithm_array \<Rightarrow> bool \<Rightarrow> qdevice_instance \<Rightarrow> fault + (bool \<times> int \<times> qdevice_instance)" where
  "main_loop_restart ev aa ipc_closed qd =
     bindE (qdevice_model_net_post_poll_loop ev aa (main_loop_exit_reason ipc_closed qd) qd) (\<lambda>(res, qd1).
       if res = 0 \<or> res = -1 then Inr (False, res, qd1)
       else case qdevice_model_net_pre_poll_loop ev qd1 of
              (res2, qd2) \<Rightarrow> if res2 = -1 then Inr (False, -1, qd2) else Inr (True, 0, qd2))"

end
