(* ===== verification/Qdevice_Votes.thy ===== *)
theory Qdevice_Votes
  imports Qdevice_Callbacks
begin

text \<open>
  How the operations of the client treat its vote. The locale \<open>vote_relation\<close> collects what a
  relation between the state before and after an operation must satisfy for the few operations
  that work on the vote and on the timers; that every callback of the poll loop satisfies it is
  proved once. It is interpreted twice: for the relation that no ACK comes up, and for the
  invariant of the timers.
\<close>

section \<open>The part of the state that votes\<close>

definition vote_core ::
    "qdevice_instance \<Rightarrow> tlv_vote \<times> (bool \<times> votequorum_ring_id) list \<times> running_timer list \<times>
     timer_id option \<times> timer_id option \<times> timer_id option \<times> timer_id option" where
  "vote_core s =
     (qn_cast_vote_timer_vote (qd_net s), qd_polls s, qd_timers s, qn_cast_vote_timer (qd_net s),
      qn_echo_request_timer (qd_net s), qn_connect_timer (qd_net s), qn_regular_heuristics_timer (qd_net s))"

named_theorems core_simps \<open>operations that leave the vote and the timers alone\<close>

lemma core_upd_net [core_simps]:
  assumes "\<And>n. (qn_cast_vote_timer_vote (f n), qn_cast_vote_timer (f n), qn_echo_request_timer (f n),
      qn_connect_timer (f n), qn_regular_heuristics_timer (f n)) =
     (qn_cast_vote_timer_vote n, qn_cast_vote_timer n, qn_echo_request_timer n, qn_connect_timer n,
      qn_regular_heuristics_timer n)"
  shows "vote_core (upd_net f s) = vote_core s"
  using assms [of "qd_net s"] by (simp add: vote_core_def upd_net_def)

lemma core_basic [core_simps]:
  "vote_core (set_reason reason s) = vote_core s"
  "vote_core (set_schedule_disconnect s) = vote_core s"
  "vote_core (disconnect_because reason s) = vote_core s"
  "vote_core (set_algo_data d s) = vote_core s"
  "vote_core (upd_heuristics g s) = vote_core s"
  "vote_core (qdevice_net_cast_vote_timer_set_paused b s) = vote_core s"
  "vote_core (nss_sock_non_blocking_client_destroy s) = vote_core s"
  "vote_core (snd (nss_sock_non_blocking_client_init ev s)) = vote_core s"
  by (simp_all add: vote_core_def upd_net_def set_reason_def set_schedule_disconnect_def
      disconnect_because_def set_algo_data_def upd_heuristics_def
      qdevice_net_cast_vote_timer_set_paused_def nss_sock_non_blocking_client_destroy_def
      nss_sock_non_blocking_client_init_def)

lemma core_fields [core_simps]:
  "vote_core (s\<lparr>qd_sync_in_progress := b\<rparr>) = vote_core s"
  "vote_core (s\<lparr>qd_vq_poll_ring_id := rid\<rparr>) = vote_core s"
  "vote_core (s\<lparr>qd_vq_quorum_quorate := w\<rparr>) = vote_core s"
  "vote_core (s\<lparr>qd_vq_quorum_node_list := vl\<rparr>) = vote_core s"
  "vote_core (s\<lparr>qd_vq_node_list_initial_ring_id_set := b\<rparr>) = vote_core s"
  "vote_core (s\<lparr>qd_vq_node_list_ring_id := rid\<rparr>) = vote_core s"
  "vote_core (s\<lparr>qd_vq_node_list := nl\<rparr>) = vote_core s"
  "vote_core (s\<lparr>qd_vq_node_list_initial_heuristics_finished := b\<rparr>) = vote_core s"
  "vote_core (s\<lparr>qd_vq_node_list_heuristics_result := er\<rparr>) = vote_core s"
  "vote_core (s\<lparr>qd_vq_expected_votes := w\<rparr>) = vote_core s"
  "vote_core (s\<lparr>qd_config_node_list := cl\<rparr>) = vote_core s"
  "vote_core (s\<lparr>qd_config_node_list_version_set := b\<rparr>) = vote_core s"
  "vote_core (s\<lparr>qd_config_node_list_version := w64\<rparr>) = vote_core s"
  "vote_core (s\<lparr>qd_cmap_reload_in_progress := b\<rparr>) = vote_core s"
  "vote_core (s\<lparr>qd_votequorum_closed := b\<rparr>) = vote_core s"
  "vote_core (s\<lparr>qd_cmap_closed := b\<rparr>) = vote_core s"
  "vote_core (s\<lparr>qd_heuristics_closed := b\<rparr>) = vote_core s"
  by (simp_all add: vote_core_def)

lemma core_on_heuristics [core_simps]: "vote_core (snd (on_heuristics g s)) = vote_core s"
  by (simp add: vote_core_def on_heuristics_def split: prod.split)

lemma core_notifier [core_simps]: "vote_core (snd (notifier_set_active cb b s)) = vote_core s"
  unfolding notifier_set_active_def by (rule core_on_heuristics)

lemma core_algo_frame: "algo_frame s s' \<Longrightarrow> vote_core s' = vote_core s"
  by (auto simp: algo_frame_def core_simps)

lemma core_net_send [core_simps]:
  assumes "\<And>n. (qn_cast_vote_timer_vote (bump n), qn_cast_vote_timer (bump n), qn_echo_request_timer (bump n),
      qn_connect_timer (bump n), qn_regular_heuristics_timer (bump n)) =
     (qn_cast_vote_timer_vote n, qn_cast_vote_timer n, qn_echo_request_timer n, qn_connect_timer n,
      qn_regular_heuristics_timer n)"
  shows "vote_core (snd (net_send al bump create s)) = vote_core s"
  using assms by (simp add: net_send_def Let_def core_simps split: prod.split option.split)

lemma core_send [core_simps]:
  "vote_core (snd (qdevice_net_send_echo_request al s)) = vote_core s"
  "vote_core (snd (qdevice_net_send_config_node_list al nl b w b' s)) = vote_core s"
  "vote_core (snd (qdevice_net_send_heuristics_change al h s)) = vote_core s"
  "vote_core (snd (qdevice_net_send_set_option al b i b' k s)) = vote_core s"
  by (simp_all add: qdevice_net_send_echo_request_def qdevice_net_send_config_node_list_def
      qdevice_net_send_heuristics_change_def qdevice_net_send_set_option_def core_simps next_seq_def)

lemma core_case:
  assumes "vote_core (snd m) = vote_core s" and "\<And>r q. vote_core q = vote_core s \<Longrightarrow> vote_core (snd (f r q)) = vote_core s"
  shows "vote_core (snd (case m of (r, q) \<Rightarrow> f r q)) = vote_core s"
  using assms by (cases m) simp

lemma core_send_init [core_simps]:
  "vote_core (snd (qdevice_net_send_preinit al s)) = vote_core s"
  "vote_core (snd (qdevice_net_send_init al s)) = vote_core s"
  "vote_core (snd (qdevice_net_send_membership_node_list al rid nl h s)) = vote_core s"
  unfolding qdevice_net_send_preinit_def qdevice_net_send_init_def
    qdevice_net_send_membership_node_list_def Let_def
  by (auto intro!: core_case simp: core_simps next_seq_def split: option.split)

lemma core_send_quorum:
  "holdsE (\<lambda>(r, q). vote_core q = vote_core s) (qdevice_net_send_quorum_node_list al quorate nl s)"
proof -
  have "vote_core (snd (net_send al next_seq c s)) = vote_core s" for c
    by (simp add: core_simps next_seq_def)
  then show ?thesis
    unfolding qdevice_net_send_quorum_node_list_def
    by (auto intro!: holdsE_I split: option.split prod.split simp: bindE_Inr_iff) (metis snd_conv)+
qed

lemma core_bind:
  assumes "holdsE (\<lambda>(r, q). vote_core q = vote_core s) m" and "\<And>r q. vote_core q = vote_core s \<Longrightarrow> holdsE Q (f r q)"
  shows "holdsE Q (bindE m (\<lambda>(r, q). f r q))"
  using assms by (auto elim!: holdsE_mono)

lemma core_pair: "vote_core (snd p) = vote_core s \<Longrightarrow> holdsE (\<lambda>(r, q). vote_core q = vote_core s) (Inr p)"
  by (cases p) simp

lemma core_send_quorum_from:
  "vote_core s1 = vote_core s \<Longrightarrow>
   holdsE (\<lambda>(r, q). vote_core q = vote_core s) (qdevice_net_send_quorum_node_list al quorate nl s1)"
  using core_send_quorum [of s1 al quorate nl] by simp

lemma core_if: "(b \<Longrightarrow> holdsE P m1) \<Longrightarrow> (\<not> b \<Longrightarrow> holdsE P m2) \<Longrightarrow> holdsE P (if b then m1 else m2)"
  by simp

lemma core_connect_send_lists:
  "holdsE (\<lambda>(sent, q). vote_core q = vote_core s) (connect_send_lists al send h s)"
proof -
  obtain c m q where send: "send = (c, m, q)" by (cases send)
  show ?thesis
    unfolding connect_send_lists_def Let_def send prod.case
    by (intro core_bind core_if core_pair core_send_quorum_from) (simp_all add: core_simps)
qed

lemma core_connect_send_lists_from:
  "vote_core s1 = vote_core s \<Longrightarrow>
   holdsE (\<lambda>(sent, q). vote_core q = vote_core s) (connect_send_lists al send h s1)"
  using core_connect_send_lists [of s1 al send h] by simp

lemma core_post_poll_finish: "holdsE (\<lambda>(r, q). vote_core q = vote_core s) (post_poll_loop_finish ev b s)"
  unfolding post_poll_loop_finish_def Let_def
  by (auto simp: core_simps qdevice_net_instance_clean_def)

text \<open>The end of a run of the poll loop stops the connect timer.\<close>

lemma update_connect_timer:
  "holdsE (\<lambda>(r, q). qn_connect_timer (qd_net q) = qn_connect_timer (qd_net s))
     (qdevice_net_cast_vote_timer_update ev v s)"
  by (auto simp: qdevice_net_cast_vote_timer_update_def cast_vote_timer_start_def cast_vote_timer_stop_def
      qdevice_net_cast_vote_timer_callback_def qdevice_votequorum_poll_def qd_timer_add_def qd_timer_delete_def
      upd_net_def Let_def split: option.split)

lemma core_connect_timer: "vote_core a = vote_core b \<Longrightarrow> qn_connect_timer (qd_net a) = qn_connect_timer (qd_net b)"
  by (simp add: vote_core_def)

lemma post_poll_connect_timer:
  assumes "qdevice_model_net_post_poll_loop ev net_algorithms er s = Inr (r, s')"
  shows "qn_connect_timer (qd_net s') = None"
proof -
  define q where "q = qdevice_net_cast_vote_timer_set_paused False (set_reason
    (exit_disconnect_reason er (qn_disconnect_reason (qd_net (echo_request_timer_stop (connect_timer_stop s)))))
    (echo_request_timer_stop (connect_timer_stop s)))"
  have q: "qn_connect_timer (qd_net q) = None"
    by (simp add: q_def qdevice_net_cast_vote_timer_set_paused_def set_reason_def echo_request_timer_stop_def
        connect_timer_stop_def upd_net_def qd_timer_delete_def split: option.split)
  from assms obtain b r4 b4 v q4 where
    dis: "qdevice_net_algorithm_disconnected net_algorithms b TLV_VOTE_NO_CHANGE q = Inr (r4, b4, v, q4)"
    and rest: "if r4 \<noteq> 0 then s' = q4 else \<exists>r5 q5. qdevice_net_cast_vote_timer_update ev v q4 = Inr (r5, q5) \<and>
      post_poll_loop_finish ev b4 q5 = Inr (r, s')"
    unfolding qdevice_model_net_post_poll_loop_def Let_def q_def [symmetric]
    by (auto simp: bindE_Inr_iff split: if_splits)
  have q4: "qn_connect_timer (qd_net q4) = None"
    using net_dispatch_contract(17) [of TLV_VOTE_NO_CHANGE q b] dis q
    by (auto simp: vote_ext_ok_def dest!: core_algo_frame core_connect_timer)
  have fin: "qn_connect_timer (qd_net s') = qn_connect_timer (qd_net q5)"
    if "post_poll_loop_finish ev b4 q5 = Inr (r, s')" for q5
    using core_post_poll_finish [of q5 ev b4] that by (intro core_connect_timer) simp
  show ?thesis
  proof (cases "r4 = 0")
    case True
    with rest obtain r5 q5 where "qdevice_net_cast_vote_timer_update ev v q4 = Inr (r5, q5)"
      and "post_poll_loop_finish ev b4 q5 = Inr (r, s')" by auto
    with update_connect_timer [of q4 ev v] fin q4 show ?thesis by simp
  qed (use rest q4 in simp)
qed

section \<open>Timers by kind\<close>

definition handles :: "qdevice_instance \<Rightarrow> qdev_timer \<Rightarrow> timer_id option" where
  "handles s k =
     (case k of
        Cast_Vote_Timer \<Rightarrow> qn_cast_vote_timer (qd_net s)
      | Echo_Request_Timer \<Rightarrow> qn_echo_request_timer (qd_net s)
      | Connect_Timer \<Rightarrow> qn_connect_timer (qd_net s)
      | Regular_Heuristics_Timer \<Rightarrow> qn_regular_heuristics_timer (qd_net s))"

definition set_handle :: "qdev_timer \<Rightarrow> timer_id option \<Rightarrow> qdevice_instance \<Rightarrow> qdevice_instance" where
  "set_handle k t =
     (case k of
        Cast_Vote_Timer \<Rightarrow> upd_net (\<lambda>n. n\<lparr>qn_cast_vote_timer := t\<rparr>)
      | Echo_Request_Timer \<Rightarrow> upd_net (\<lambda>n. n\<lparr>qn_echo_request_timer := t\<rparr>)
      | Connect_Timer \<Rightarrow> upd_net (\<lambda>n. n\<lparr>qn_connect_timer := t\<rparr>)
      | Regular_Heuristics_Timer \<Rightarrow> upd_net (\<lambda>n. n\<lparr>qn_regular_heuristics_timer := t\<rparr>))"

definition drop_timer :: "qdev_timer \<Rightarrow> qdevice_instance \<Rightarrow> qdevice_instance" where
  "drop_timer k s =
     (case handles s k of None \<Rightarrow> s | Some t \<Rightarrow> set_handle k None (qd_timer_delete t s))"

definition arm_timer :: "allocator \<Rightarrow> u32 \<Rightarrow> qdev_timer \<Rightarrow> qdevice_instance \<Rightarrow> qdevice_instance" where
  "arm_timer al interval k s = (case qd_timer_add al interval k s of (t, q) \<Rightarrow> set_handle k t q)"

lemma handles_set_handle [simp]: "handles (set_handle k t s) = (handles s)(k := t)"
  by (rule ext) (simp add: handles_def set_handle_def upd_net_def split: qdev_timer.split)

lemma handles_core: "vote_core a = vote_core b \<Longrightarrow> handles a = handles b"
  by (rule ext) (simp add: handles_def vote_core_def split: qdev_timer.split)

lemma handles_other [simp]:
  "handles (qd_timer_delete t s) = handles s" "handles (snd (qd_timer_add al i k s)) = handles s"
  by (auto simp: handles_def qd_timer_delete_def qd_timer_add_def Let_def split: qdev_timer.split option.split)

lemma handles_drop: "handles (drop_timer k s) = (handles s)(k := None)"
  by (auto simp: drop_timer_def split: option.split)

lemma core_set_handle: "vote_core a = vote_core b \<Longrightarrow> vote_core (set_handle k t a) = vote_core (set_handle k t b)"
  by (cases k) (simp_all add: vote_core_def set_handle_def upd_net_def)

lemma core_timer_delete: "vote_core a = vote_core b \<Longrightarrow> vote_core (qd_timer_delete t a) = vote_core (qd_timer_delete t b)"
  by (simp add: vote_core_def qd_timer_delete_def)

lemma core_arm_timer: "vote_core a = vote_core b \<Longrightarrow> vote_core (arm_timer al i k a) = vote_core (arm_timer al i k b)"
  by (cases k) (auto simp: vote_core_def arm_timer_def qd_timer_add_def set_handle_def upd_net_def Let_def
      split: option.split)

lemma timer_stops:
  "echo_request_timer_stop s = drop_timer Echo_Request_Timer s"
  "connect_timer_stop s = drop_timer Connect_Timer s"
  by (simp_all add: echo_request_timer_stop_def connect_timer_stop_def drop_timer_def handles_def set_handle_def
      split: option.split)

lemma core_heuristics_stop:
  "vote_core (snd (qdevice_net_heuristics_stop_timer s)) = vote_core (drop_timer Regular_Heuristics_Timer s)"
proof (cases "qn_regular_heuristics_timer (qd_net s)")
  case (Some t)
  then show ?thesis
    unfolding qdevice_net_heuristics_stop_timer_def drop_timer_def
    by (simp only: option.case handles_def set_handle_def qdev_timer.case)
       (intro core_case, simp_all add: core_notifier core_basic)
qed (simp add: qdevice_net_heuristics_stop_timer_def drop_timer_def handles_def)

lemma core_echo_schedule:
  "vote_core (snd (qdevice_net_echo_request_timer_schedule al s)) =
   vote_core (arm_timer al (qn_heartbeat_interval (qd_net s)) Echo_Request_Timer (drop_timer Echo_Request_Timer s))"
  by (auto simp: qdevice_net_echo_request_timer_schedule_def Let_def arm_timer_def drop_timer_def handles_def
      set_handle_def qd_timer_add_def qd_timer_delete_def upd_net_def vote_core_def set_reason_def
      split: option.split)

lemma core_heuristics_schedule:
  "\<exists>q. vote_core (snd (qdevice_net_heuristics_schedule_timer al s)) = vote_core q \<and>
     (q = drop_timer Regular_Heuristics_Timer s \<or> q = s \<or>
      handles s Regular_Heuristics_Timer = None \<and>
      q = arm_timer al (qh_interval (qd_heuristics_instance s)) Regular_Heuristics_Timer s)"
proof (cases "qh_mode (qd_heuristics_instance s) \<noteq> QDEVICE_HEURISTICS_MODE_ENABLED")
  case True
  then have "vote_core (snd (qdevice_net_heuristics_schedule_timer al s)) =
      vote_core (snd (qdevice_net_heuristics_stop_timer s))"
    by (simp add: qdevice_net_heuristics_schedule_timer_def split: prod.split)
  then show ?thesis by (auto simp: core_heuristics_stop)
next
  case False
  then show ?thesis
    by (auto simp: qdevice_net_heuristics_schedule_timer_def arm_timer_def handles_def set_handle_def Let_def
        core_basic split: prod.split)
qed

lemma core_pre_poll:
  "vote_core (snd (qdevice_model_net_pre_poll_loop ev s)) =
   vote_core (arm_timer (ev_al ev) (qn_connect_timeout (qd_net s)) Connect_Timer s)"
  by (auto simp: qdevice_model_net_pre_poll_loop_def Let_def arm_timer_def set_handle_def qd_timer_add_def
      upd_net_def vote_core_def nss_sock_non_blocking_client_init_def nss_sock_non_blocking_client_destroy_def
      split: option.split)

lemma echo_callback_core:
  "holdsE (\<lambda>(r, s'). r = 0 \<and> vote_core s' = vote_core (set_handle Echo_Request_Timer None s) \<or>
      r \<noteq> 0 \<and> vote_core s' = vote_core s) (qdevice_net_echo_request_timer_callback ev net_algorithms s)"
proof -
  have send: "vote_core q = vote_core s" if "qdevice_net_send_echo_request al s = (r, q)" for al r q
    using that core_send(1) [of al s] by simp
  have alg: "vote_core q = vote_core s"
    if "qdevice_net_algorithm_echo_reply_not_received net_algorithms s = Inr (r, q)" for r q
    using that net_dispatch_contract(14) [of s] by (auto simp: res_ok_def intro: core_algo_frame)
  have none: "vote_core (upd_net (\<lambda>n. n\<lparr>qn_schedule_disconnect := True, qn_disconnect_reason := x,
      qn_echo_request_timer := None\<rparr>) q) = vote_core (set_handle Echo_Request_Timer None s)"
    and none': "vote_core (upd_net (\<lambda>n. n\<lparr>qn_disconnect_reason := x, qn_schedule_disconnect := True,
      qn_echo_request_timer := None\<rparr>) q) = vote_core (set_handle Echo_Request_Timer None s)"
    if "vote_core q = vote_core s" for x q
    using that by (simp_all add: vote_core_def upd_net_def set_handle_def)
  obtain r q where se: "qdevice_net_send_echo_request (ev_al ev) s = (r, q)" by fastforce
  show ?thesis
  proof (cases "qdevice_net_algorithm_echo_reply_not_received net_algorithms s")
    case (Inl f)
    then show ?thesis
      using none' [OF send [OF se]] send [OF se]
      by (simp add: qdevice_net_echo_request_timer_callback_def se)
  next
    case (Inr y)
    obtain r' q' where y: "y = (r', q')" by fastforce
    with Inr show ?thesis
      using none' [OF send [OF se]] send [OF se] none [OF alg [of r' q']] alg [of r' q']
      by (simp add: qdevice_net_echo_request_timer_callback_def se)
  qed
qed

lemma heuristics_callback_core:
  assumes "qdevice_net_heuristics_timer_callback al s = (r, s')"
  shows "r = 0 \<and> vote_core s' = vote_core (set_handle Regular_Heuristics_Timer None s) \<or>
    r \<noteq> 0 \<and> vote_core s' = vote_core s"
proof (cases "qdevice_heuristics_waiting_for_result (qd_heuristics_instance s)")
  case False
  let ?s = "upd_net (\<lambda>n. n\<lparr>qn_regular_heuristics_timer := None\<rparr>) s"
  obtain r1 q1 where n: "notifier_set_active qdevice_net_regular_heuristics_exec_result_callback_id True ?s = (r1, q1)"
    by fastforce
  obtain r2 q2 where e: "on_heuristics (qdevice_heuristics_exec al (qd_sync_in_progress q1)) q1 = (r2, q2)"
    by fastforce
  have "vote_core q1 = vote_core ?s" "vote_core q2 = vote_core q1"
    using core_notifier [of _ True ?s] core_on_heuristics [of _ q1] n e by (metis snd_conv)+
  with False assms show ?thesis
    by (auto simp: qdevice_net_heuristics_timer_callback_def n e core_simps set_handle_def split: if_splits)
qed (use assms in \<open>simp add: qdevice_net_heuristics_timer_callback_def\<close>)

section \<open>Votes of the server\<close>

text \<open>
  The vote that a read from the socket delivers: the message is complete, can be decoded, is of one
  of the types that carry a vote, comes while the client is connected, and is about the ring that
  the client told the server last.
\<close>

definition carries_vote :: "msg_decoded \<Rightarrow> bool" where
  "carries_vote msg \<longleftrightarrow>
     md_type msg = MSG_TYPE_NODE_LIST_REPLY \<or> md_type msg = MSG_TYPE_ASK_FOR_VOTE_REPLY \<or>
     md_type msg = MSG_TYPE_VOTE_INFO \<or> md_type msg = MSG_TYPE_HEURISTICS_CHANGE_REPLY"

definition message_vote :: "msg_decoded \<Rightarrow> qdevice_instance \<Rightarrow> tlv_vote option" where
  "message_vote msg s =
     (if carries_vote msg \<and> \<not> not_ready s \<and> reply_ring_valid msg s then Some (md_vote msg) else None)"

definition server_vote :: "qdev_env \<Rightarrow> (nat \<Rightarrow> recv_result) \<Rightarrow> qdevice_instance \<Rightarrow> tlv_vote option" where
  "server_vote ev recv s =
     (case msgio_read (ev_al ev) (ev_junk ev) recv (qn_receive_buffer (qd_net s))
             (qn_msg_already_received_bytes (qd_net s)) (qn_skipping_msg (qd_net s)) of
        (res, buf, already, skipping) \<Rightarrow>
          if res \<noteq> 1 then None
          else case msg_decode (ev_al ev) (ev_junk ev) buf msg_decoded_init of
                 Inl f \<Rightarrow> None
               | Inr (r, msg) \<Rightarrow> if r \<noteq> 0 then None else message_vote msg s)"

section \<open>Relations that every operation respects\<close>

locale vote_relation =
  fixes R :: "qdevice_instance \<Rightarrow> qdevice_instance \<Rightarrow> bool"
    and good :: "qdev_env \<Rightarrow> bool"
    and allowed :: "tlv_vote \<Rightarrow> qdevice_instance \<Rightarrow> bool"
  assumes frame: "vote_core s' = vote_core s \<Longrightarrow> R s s'"
    and trans: "R a b \<Longrightarrow> R b c \<Longrightarrow> R a c"
    and allowed: "v = TLV_VOTE_NO_CHANGE \<or> v = TLV_VOTE_NACK \<or> v = TLV_VOTE_WAIT_FOR_REPLY \<Longrightarrow> allowed v s"
    and allowed_core: "vote_core s' = vote_core s \<Longrightarrow> allowed v s \<Longrightarrow> allowed v s'"
    and update: "good ev \<Longrightarrow> allowed v s \<Longrightarrow>
      holdsE (\<lambda>(r, s'). R s s') (qdevice_net_cast_vote_timer_update ev v s)"
    and drop: "R s (drop_timer k s)"
    and arm: "handles s k = None \<Longrightarrow> k \<noteq> Cast_Vote_Timer \<Longrightarrow> R s (arm_timer al i k s)"
    and expire: "map_of (qd_timers s) t = Some (k, i) \<Longrightarrow> k \<noteq> Cast_Vote_Timer \<Longrightarrow>
      R s (qd_timer_delete t (set_handle k None s))"
    and cast: "good ev \<Longrightarrow> map_of (qd_timers s) t = Some (Cast_Vote_Timer, i) \<Longrightarrow>
      holdsE (\<lambda>(r, s'). R s (if r = 0 then qd_timer_delete t s' else s'))
        (qdevice_net_cast_vote_timer_callback ev s)"
begin

lemma R_core: "R a b \<Longrightarrow> vote_core c = vote_core b \<Longrightarrow> R a c"
  by (rule trans) (auto intro: frame)

lemma echo_stop: "R s (echo_request_timer_stop s)" and connect_stop: "R s (connect_timer_stop s)"
  by (simp_all add: timer_stops drop)

lemma heuristics_stop: "R s (snd (qdevice_net_heuristics_stop_timer s))"
  using drop core_heuristics_stop by (rule R_core)

lemma echo_schedule: "R s (snd (qdevice_net_echo_request_timer_schedule al s))"
  by (rule R_core [OF trans [OF drop arm] core_echo_schedule]) (simp_all add: handles_drop)

lemma heuristics_schedule: "R s (snd (qdevice_net_heuristics_schedule_timer al s))"
  using core_heuristics_schedule [of al s] by (auto intro: R_core drop arm frame)

lemma pre_poll: "qn_connect_timer (qd_net s) = None \<Longrightarrow> R s (snd (qdevice_model_net_pre_poll_loop ev s))"
  by (rule R_core [OF arm core_pre_poll]) (simp_all add: handles_def)

lemma fire_other:
  assumes "map_of (qd_timers s) t = Some (k, i)" and "k \<noteq> Cast_Vote_Timer"
    and "r = 0 \<and> vote_core s' = vote_core (set_handle k None s) \<or> r \<noteq> 0 \<and> vote_core s' = vote_core s"
  shows "R s (if r = 0 then qd_timer_delete t s' else s')"
  using assms(3) R_core [OF expire [OF assms(1,2)]] by (auto intro: frame core_timer_delete)

lemma fire:
  assumes "good ev"
  shows "holdsE (R s) (qdev_timer_fire ev net_algorithms t s)"
proof (cases "map_of (qd_timers s) t")
  case (Some p)
  then obtain k i where t: "map_of (qd_timers s) t = Some (k, i)" by (cases p) auto
  have "holdsE (\<lambda>(r, s'). R s (if r = 0 then qd_timer_delete t s' else s'))
      (qdev_timer_callback ev net_algorithms k s)"
  proof (cases k)
    case Cast_Vote_Timer
    with cast [OF assms] t show ?thesis by (simp add: qdev_timer_callback_def)
  next
    case Echo_Request_Timer
    with fire_other [OF t] have "R s (if r = 0 then qd_timer_delete t s' else s')"
      if "r = 0 \<and> vote_core s' = vote_core (set_handle Echo_Request_Timer None s) \<or>
        r \<noteq> 0 \<and> vote_core s' = vote_core s" for r s' using that by blast
    then show ?thesis
      unfolding qdev_timer_callback_def Echo_Request_Timer qdev_timer.case
      by (intro holdsE_mono [OF echo_callback_core]) (simp only: split_paired_all prod.case)
  next
    case Connect_Timer
    have "vote_core (snd (qdevice_model_net_timer_connect_timeout s)) = vote_core (set_handle Connect_Timer None s)"
      by (simp add: qdevice_model_net_timer_connect_timeout_def set_handle_def vote_core_def upd_net_def)
    with Connect_Timer fire_other [OF t, of 0 "snd (qdevice_model_net_timer_connect_timeout s)"] show ?thesis
      by (simp add: qdev_timer_callback_def qdevice_model_net_timer_connect_timeout_def)
  next
    case Regular_Heuristics_Timer
    obtain r s' where cb: "qdevice_net_heuristics_timer_callback (ev_al ev) s = (r, s')" by fastforce
    with Regular_Heuristics_Timer fire_other [OF t, of r s'] heuristics_callback_core [OF cb] show ?thesis
      by (simp add: qdev_timer_callback_def)
  qed
  then show ?thesis
    unfolding qdev_timer_fire_def t option.case prod.case by (auto elim!: holdsE_mono)
qed (simp add: qdev_timer_fire_def frame)

definition keeps :: "qdevice_instance \<Rightarrow> qdev_result \<Rightarrow> bool" where
  "keeps s m = holdsE (\<lambda>(r, s'). R s s') m"

lemma keeps_Inr: "R s s' \<Longrightarrow> keeps s (Inr (r, s'))" and keeps_Inl: "keeps s (Inl f)"
  by (simp_all add: keeps_def)

lemma keeps_frame: "vote_core s' = vote_core s \<Longrightarrow> keeps s (Inr (r, s'))"
  by (simp add: keeps_Inr frame)

lemma keeps_from: "R s s1 \<Longrightarrow> keeps s1 m \<Longrightarrow> keeps s m"
  unfolding keeps_def by (auto elim!: holdsE_mono intro: trans)

lemma keeps_core: "vote_core s1 = vote_core s \<Longrightarrow> keeps s1 m \<Longrightarrow> keeps s m"
  by (rule keeps_from) (rule frame)

lemma keeps_bind:
  assumes "keeps s m" and "\<And>r s1. R s s1 \<Longrightarrow> keeps s (f r s1)"
  shows "keeps s (bindE m (\<lambda>(r, s1). f r s1))"
  using assms unfolding keeps_def by (auto elim!: holdsE_mono)

lemma keeps_bind_core:
  assumes "holdsE (\<lambda>(r, q). vote_core q = vote_core s) m"
    and "\<And>r s1. vote_core s1 = vote_core s \<Longrightarrow> keeps s (f r s1)"
  shows "keeps s (bindE m (\<lambda>(r, s1). f r s1))"
  using assms unfolding keeps_def by (auto elim!: holdsE_mono)

lemma keeps_any: "(\<And>y. keeps s (f y)) \<Longrightarrow> keeps s (bindE m f)"
  by (cases m) (simp_all add: keeps_Inl)

lemma keeps_case:
  "vote_core (snd m) = vote_core s \<Longrightarrow> (\<And>r s1. vote_core s1 = vote_core s \<Longrightarrow> keeps s (f r s1)) \<Longrightarrow>
   keeps s (case m of (r, s1) \<Rightarrow> f r s1)"
  by (cases m) simp

lemma keeps_case_R:
  "R s (snd m) \<Longrightarrow> (\<And>r s1. R s s1 \<Longrightarrow> keeps s (f r s1)) \<Longrightarrow> keeps s (case m of (r, s1) \<Rightarrow> f r s1)"
  by (cases m) simp

lemma keeps_if: "(b \<Longrightarrow> keeps s m1) \<Longrightarrow> (\<not> b \<Longrightarrow> keeps s m2) \<Longrightarrow> keeps s (if b then m1 else m2)"
  by simp

lemma allowed_from: "vote_from v v' \<Longrightarrow> allowed v s \<Longrightarrow> allowed v' s"
  by (auto simp: vote_from_def intro: allowed)

lemma keeps_vote_ext:
  assumes "vote_ext_ok v s m" and "allowed v s"
    and "\<And>r x v' s1. vote_core s1 = vote_core s \<Longrightarrow> allowed v' s1 \<Longrightarrow> keeps s (f (r, x, v', s1))"
  shows "keeps s (bindE m f)"
proof (cases m)
  case (Inr y)
  obtain r x v' s1 where y: "y = (r, x, v', s1)" by (cases y)
  with Inr assms(1) have "algo_frame s s1" "vote_from v v'" by (simp_all add: vote_ext_ok_def)
  with assms(2) have "vote_core s1 = vote_core s" "allowed v' s1"
    by (auto intro: core_algo_frame allowed_core allowed_from)
  with assms(3) Inr y show ?thesis by simp
qed (simp add: keeps_Inl)

lemma keeps_vote:
  assumes "vote_ok v s m" and "allowed v s"
    and "\<And>r v' s1. vote_core s1 = vote_core s \<Longrightarrow> allowed v' s1 \<Longrightarrow> keeps s (f r v' s1)"
  shows "keeps s (bindE m (\<lambda>(r, v', s1). f r v' s1))"
proof (cases m)
  case (Inr y)
  obtain r v' s1 where y: "y = (r, v', s1)" by (cases y)
  with Inr assms(1) have "algo_frame s s1" "vote_from v v'" by (simp_all add: vote_ok_def)
  with assms(2) have "vote_core s1 = vote_core s" "allowed v' s1"
    by (auto intro: core_algo_frame allowed_core allowed_from)
  with assms(3) Inr y show ?thesis by simp
qed (simp add: keeps_Inl)

lemma keeps_res:
  assumes "res_ok s m" and "\<And>r s1. vote_core s1 = vote_core s \<Longrightarrow> keeps s (f r s1)"
  shows "keeps s (bindE m (\<lambda>(r, s1). f r s1))"
proof (cases m)
  case (Inr y)
  with assms show ?thesis by (cases y) (auto simp: res_ok_def intro: core_algo_frame)
qed (simp add: keeps_Inl)

lemma keeps_update:
  assumes "good ev" and "vote_core s1 = vote_core s" and "allowed v s1" and "\<And>r s2. R s s2 \<Longrightarrow> keeps s (f r s2)"
  shows "keeps s (bindE (qdevice_net_cast_vote_timer_update ev v s1) (\<lambda>(r, s2). f r s2))"
proof (rule keeps_bind)
  show "keeps s (qdevice_net_cast_vote_timer_update ev v s1)"
    using update [OF assms(1,3)] by (intro keeps_core [OF assms(2)]) (simp add: keeps_def)
qed (rule assms(4))

lemma allowed_R: "allowed v s1 \<Longrightarrow> vote_core s2 = vote_core s1 \<Longrightarrow> allowed v s2"
  by (rule allowed_core)

section \<open>Changes of the membership and the configuration\<close>

lemma keeps_change_vote:
  assumes "good ev" and "vote_core s1 = vote_core s" and "allowed v s1" and "\<And>s2. R s s2 \<Longrightarrow> keeps s (f s2)"
  shows "keeps s (change_vote ev v f s1)"
  unfolding change_vote_def
  by (intro keeps_update [OF assms(1-3)] keeps_if keeps_Inr assms(4))
     (auto elim: R_core simp: core_simps)

lemma allowed_change_start: "change_start v s = (b, v') \<Longrightarrow> allowed v s \<Longrightarrow> allowed v' s"
  by (auto simp: change_start_def allowed split: if_splits)

lemma keeps_config_changed:
  assumes "good ev"
  shows "keeps s (qdevice_model_net_config_node_list_changed ev net_algorithms nl b w s)"
proof (cases "change_start TLV_VOTE_NO_CHANGE s")
  case (Pair b v)
  then have v: "allowed v s" by (rule allowed_change_start) (simp add: allowed)
  show ?thesis
    unfolding qdevice_model_net_config_node_list_changed_def Pair prod.case
    by (intro keeps_vote_ext [OF net_dispatch_contract(3) v], unfold prod.case,
        intro keeps_if keeps_change_vote assms keeps_case_R keeps_Inr)
       (auto elim: R_core intro: frame simp: core_simps)
qed

lemma keeps_quorum_notify:
  assumes "good ev"
  shows "keeps s (qdevice_model_net_votequorum_quorum_notify ev net_algorithms q nl s)"
proof (cases "change_start TLV_VOTE_NO_CHANGE s")
  case (Pair b v)
  then have v: "allowed v s" by (rule allowed_change_start) (simp add: allowed)
  have sent: "keeps s (qdevice_net_send_quorum_node_list al qu nl s2)" if "R s s2" for al qu s2
    using core_send_quorum [of s2 al qu nl] that unfolding keeps_def
    by (auto elim!: holdsE_mono R_core)
  show ?thesis
    unfolding qdevice_model_net_votequorum_quorum_notify_def Pair prod.case
    by (intro keeps_vote_ext [OF net_dispatch_contract(6) v], unfold prod.case,
        intro keeps_if keeps_change_vote assms keeps_bind sent)
       (auto elim: R_core intro!: keeps_Inr intro: frame simp: core_simps)
qed

lemma keeps_heuristics_notify_finish:
  assumes "good ev" and "vote_core s1 = vote_core s" and "allowed v s1"
  shows "keeps s (heuristics_notify_finish ev v h s1)"
  unfolding heuristics_notify_finish_def
  by (intro keeps_change_vote keeps_Inr assms trans [OF _ heuristics_schedule] allowed_core [OF _ assms(3)])
     (auto elim: R_core simp: core_simps assms)

lemma keeps_node_list_heuristics_notify:
  assumes "good ev"
  shows "keeps s (qdevice_model_net_votequorum_node_list_heuristics_notify ev net_algorithms rid nl er s)"
proof (cases "change_start TLV_VOTE_WAIT_FOR_REPLY s")
  case (Pair b v)
  then have v: "allowed v s" by (rule allowed_change_start) (simp add: allowed)
  show ?thesis
    unfolding qdevice_model_net_votequorum_node_list_heuristics_notify_def Let_def Pair prod.case
    by (rule keeps_any, rule keeps_vote_ext [OF net_dispatch_contract(5) v], unfold split_paired_all prod.case,
        intro keeps_if keeps_case keeps_frame keeps_heuristics_notify_finish assms)
       (auto elim: allowed_R simp: core_simps)
qed

lemma keeps_node_list_notify:
  assumes "good ev"
  shows "keeps s (qdevice_model_net_votequorum_node_list_notify ev net_algorithms rid nl s)"
  unfolding qdevice_model_net_votequorum_node_list_notify_def Let_def
  by (intro keeps_case_R heuristics_stop keeps_if keeps_Inr, assumption, erule keeps_from,
      intro keeps_vote_ext [OF net_dispatch_contract(4)], simp add: allowed, unfold prod.case,
      intro keeps_if keeps_change_vote assms keeps_Inr)
     (auto elim: R_core intro: frame simp: core_simps)

lemma keeps_expected_votes_notify:
  assumes "good ev"
  shows "keeps s (qdevice_model_net_votequorum_expected_votes_notify ev net_algorithms w s)"
  unfolding qdevice_model_net_votequorum_expected_votes_notify_def
  by (intro keeps_vote [OF net_dispatch_contract(7)], simp add: allowed, intro keeps_if keeps_change_vote assms keeps_Inr)
     (auto elim: R_core intro: frame simp: core_simps)

lemma R_cmap_changed: "R s (snd (qdevice_model_net_cmap_changed al b s))"
  by (auto simp: qdevice_model_net_cmap_changed_def Let_def core_simps intro: frame heuristics_schedule)

section \<open>Results of the heuristics\<close>

lemma core_send_heuristics_change: "vote_core (snd (send_heuristics_change al h b s)) = vote_core s"
  unfolding send_heuristics_change_def
  by (auto intro!: core_case simp: core_simps)

lemma R_regular_result_store: "R s s1 \<Longrightarrow> R s (regular_result_store al h s1)"
  unfolding regular_result_store_def
  by (rule trans [OF _ heuristics_schedule], erule R_core) (simp add: core_simps)

lemma keeps_regular_result_changed:
  assumes "good ev"
  shows "keeps s (regular_result_changed ev net_algorithms h s)"
  unfolding regular_result_changed_def Let_def
  by (rule keeps_vote_ext [OF net_dispatch_contract(15)], simp add: allowed, unfold split_paired_all prod.case,
      intro keeps_if keeps_case keeps_update assms keeps_Inr R_regular_result_store)
     (auto elim: R_core allowed_R intro: frame simp: core_simps core_send_heuristics_change)

lemma keeps_regular_callback:
  assumes "good ev"
  shows "keeps s (qdevice_net_regular_heuristics_exec_result_callback ev net_algorithms er s)"
  unfolding qdevice_net_regular_heuristics_exec_result_callback_def
  by (intro keeps_case keeps_if keeps_any keeps_Inr R_regular_result_store)
     (auto intro: frame keeps_core keeps_regular_result_changed assms simp: core_simps)

lemma keeps_connect_result:
  assumes "good ev"
  shows "keeps s (connect_result ev net_algorithms h s)"
  unfolding connect_result_def Let_def
  by (rule keeps_vote_ext [OF net_dispatch_contract(2)], simp add: allowed, unfold split_paired_all prod.case,
      intro keeps_if keeps_Inr keeps_bind_core [OF core_connect_send_lists_from] keeps_update assms)
     (auto elim: R_core allowed_R intro: frame simp: core_simps)

lemma keeps_connect_callback:
  assumes "good ev"
  shows "keeps s (qdevice_net_connect_heuristics_exec_result_callback ev net_algorithms er s)"
  unfolding qdevice_net_connect_heuristics_exec_result_callback_def
  by (intro keeps_case keeps_if keeps_any keeps_Inr)
     (auto intro: frame keeps_core keeps_connect_result assms simp: core_simps)

lemma keeps_or_exit:
  assumes "keeps s m"
  shows "holdsE (R s) (or_exit Inr m)"
  using assms unfolding keeps_def or_exit_def by (auto elim!: holdsE_mono)

lemma keeps_votequorum_callback:
  assumes "good ev"
  shows "keeps s (qdevice_votequorum_heuristics_exec_result_callback ev net_algorithms er s)"
proof -
  have "keeps s (bindE (or_exit Inr (qdevice_model_net_votequorum_node_list_heuristics_notify ev net_algorithms
            rid nl er s1)) (\<lambda>qd2. Inr (0, f qd2)))"
    if "vote_core s1 = vote_core s" and "\<And>q. vote_core (f q) = vote_core q" for s1 rid nl f
    using keeps_node_list_heuristics_notify [OF assms, of s1 rid nl er, THEN keeps_or_exit] that
    by (intro keeps_core [OF that(1)]) (auto simp: keeps_def elim!: holdsE_mono intro: R_core)
  then show ?thesis
    unfolding qdevice_votequorum_heuristics_exec_result_callback_def
    by (intro keeps_case keeps_if keeps_Inl) (simp_all add: core_simps)
qed

lemma keeps_result_callback:
  assumes "good ev"
  shows "keeps s (call_result_callback ev net_algorithms er cb s)"
  by (cases cb) (simp_all add: call_result_callback_def keeps_votequorum_callback keeps_regular_callback
      keeps_connect_callback assms)

lemma keeps_notify:
  assumes "good ev"
  shows "keeps s (qdevice_heuristics_result_notifier_notify items (call_result_callback ev net_algorithms er) cbs s)"
proof (induction cbs arbitrary: s)
  case (Cons cb cbs)
  show ?case
    by (simp, intro impI conjI Cons.IH keeps_bind keeps_result_callback assms keeps_if keeps_Inr)
       (auto intro: keeps_from Cons.IH)
qed (simp add: keeps_frame)

lemma keeps_process_exec_result:
  assumes "good ev"
  shows "keeps s (qdevice_heuristics_cmd_process_exec_result ev net_algorithms str s)"
proof (cases "exec_result_scan str")
  case (Some p)
  obtain sn er where "p = (sn, er)" by (cases p)
  with Some show ?thesis
    unfolding qdevice_heuristics_cmd_process_exec_result_def
    by (simp only: option.case prod.case)
       (intro keeps_if keeps_Inr keeps_bind keeps_core [OF _ keeps_notify [OF assms]],
        auto intro: frame simp: core_simps)
qed (simp add: qdevice_heuristics_cmd_process_exec_result_def keeps_frame)

lemma R_process_one_line:
  assumes "good ev" and "qdevice_heuristics_cmd_process_one_line ev net_algorithms data s = Inr (r, data', s')"
  shows "R s s'"
  using assms(2) keeps_process_exec_result [OF assms(1), of s "the (cmd_line data)"]
  by (auto simp: qdevice_heuristics_cmd_process_one_line_def Let_def bindE_Inr_iff keeps_def intro: frame
      split: option.splits if_splits)

lemma R_process_loop:
  assumes "good ev"
  shows "cmd_process_loop ev net_algorithms data s = Inr (r, data', s') \<Longrightarrow> R s s'"
proof (induction "length data" arbitrary: data s rule: less_induct)
  case less
  from less.prems obtain r1 d1 s1
    where line: "qdevice_heuristics_cmd_process_one_line ev net_algorithms data s = Inr (r1, d1, s1)"
      and more: "if r1 = 1 then cmd_process_loop ev net_algorithms d1 s1 = Inr (r, data', s') else s' = s1"
    by (subst (asm) cmd_process_loop.simps) (auto split: sum.splits if_splits)
  note one = R_process_one_line [OF assms line]
  show ?case
  proof (cases "r1 = 1")
    case True
    with line have "length d1 < length data" by (simp add: cmd_process_shrinks)
    from less.hyps [OF this] more True one show ?thesis by (auto intro: trans)
  qed (use more one in simp)
qed

lemma keeps_process:
  assumes "good ev"
  shows "keeps s (qdevice_heuristics_cmd_process ev net_algorithms s)"
  unfolding keeps_def
proof (rule holdsE_I)
  fix x assume "qdevice_heuristics_cmd_process ev net_algorithms s = Inr x"
  then obtain r d q where
    loop: "cmd_process_loop ev net_algorithms (dyn_data (qh_cmd_in_buffer (qd_heuristics_instance s))) s = Inr (r, d, q)"
    and x: "x = (r, upd_heuristics (\<lambda>h. h\<lparr>qh_cmd_in_buffer := (qh_cmd_in_buffer h)\<lparr>dyn_data := d\<rparr>\<rparr>) q)"
    by (auto simp: qdevice_heuristics_cmd_process_def bindE_Inr_iff)
  from R_core [OF R_process_loop [OF assms loop]] show "case x of (r, s') \<Rightarrow> R s s'"
    by (simp add: x core_simps)
qed

lemma keeps_heuristics_read:
  assumes "good ev"
  shows "keeps s (heuristics_pipe_cmd_recv_read_cb ev net_algorithms readed s)"
  unfolding heuristics_pipe_cmd_recv_read_cb_def qdevice_heuristics_cmd_read_from_pipe_def Let_def
  by (cases "qdevice_heuristics_io_read (ev_al ev) readed (qh_cmd_in_buffer (qd_heuristics_instance s))",
      simp only: prod.case, intro keeps_bind keeps_if keeps_Inr keeps_core [OF _ keeps_process [OF assms]])
     (auto intro: frame elim: R_core simp: core_simps)

section \<open>Messages of the server\<close>

text \<open>The votes of the server are allowed.\<close>

lemma keeps_reply_vote:
  assumes "good ev" and "reply_ok valid v s m" and "valid \<Longrightarrow> allowed v s"
  shows "keeps s (reply_vote ev reason m)"
proof (cases m)
  case (Inr y)
  obtain r v' s1 where y: "y = (r, v', s1)" by (cases y)
  with Inr assms(2) have f: "algo_frame s s1" and v': "v' = (if valid then v else TLV_VOTE_NO_CHANGE)"
    by (simp_all add: reply_ok_def)
  from f have core: "vote_core s1 = vote_core s" by (rule core_algo_frame)
  with v' assms(3) have al: "allowed v' s1" by (auto intro: allowed elim: allowed_R)
  show ?thesis
    unfolding reply_vote_def Inr y bindE_simps prod.case fail_with_def
    by (intro keeps_if keeps_Inr keeps_update assms(1) core al)
       (auto elim: R_core intro: frame simp: core_simps core)
qed (simp add: reply_vote_def keeps_Inl)

lemma keeps_fail: "vote_core s1 = vote_core s \<Longrightarrow> keeps s (fail_with reason s1)"
  by (simp add: fail_with_def keeps_frame core_simps)

lemma keeps_preinit_reply: "keeps s (qdevice_net_msg_received_preinit_reply al msg s)"
  unfolding qdevice_net_msg_received_preinit_reply_def Let_def
  by (intro keeps_if keeps_case keeps_fail keeps_frame) (simp_all add: core_simps next_seq_def)

lemma R_exec_after_connect: "R s (snd (qdevice_net_heuristics_exec_after_connect al s))"
  unfolding qdevice_net_heuristics_exec_after_connect_def
  by (rule frame, intro core_case) (auto intro!: core_case simp: core_simps)

lemma keeps_init_reply: "keeps s (qdevice_net_msg_received_init_reply al msg s)"
proof -
  have stop: "R s (snd (qdevice_net_echo_request_timer_schedule al (connect_timer_stop s1)))"
    if "vote_core s1 = vote_core s" for s1
    using that by (intro trans [OF frame trans [OF connect_stop echo_schedule]])
  show ?thesis
    unfolding qdevice_net_msg_received_init_reply_def Let_def
    by (intro keeps_if keeps_case_R stop keeps_fail keeps_Inr trans [OF _ R_exec_after_connect]
          option.split [where P = "keeps s", THEN iffD2] conjI allI impI)
       (auto simp: core_simps init_reply_sizes_def init_reply_options_def Let_def)
qed

lemma keeps_set_option_reply: "keeps s (qdevice_net_msg_received_set_option_reply al msg s)"
  unfolding qdevice_net_msg_received_set_option_reply_def
  by (intro keeps_if keeps_case_R echo_schedule keeps_fail keeps_Inr) (auto intro: frame)

lemma keeps_echo_reply: "keeps s (qdevice_net_msg_received_echo_reply ev net_algorithms msg s)"
  unfolding qdevice_net_msg_received_echo_reply_def
  by (intro keeps_if keeps_fail keeps_res [OF net_dispatch_contract(13)] keeps_frame) (auto simp: core_simps)

lemma keeps_node_list_reply:
  assumes "good ev" and "\<not> not_ready s \<Longrightarrow> reply_ring_valid msg s \<Longrightarrow> allowed (md_vote msg) s"
  shows "keeps s (qdevice_net_msg_received_node_list_reply ev net_algorithms msg s)"
  unfolding qdevice_net_msg_received_node_list_reply_def Let_def
  by (cases "md_node_list_type msg")
     (auto intro!: keeps_fail assms keeps_reply_vote [OF _ net_dispatch_contract(8)]
        keeps_reply_vote [OF _ net_dispatch_contract(9)] keeps_reply_vote [OF _ net_dispatch_contract(10)])

lemma keeps_ask_for_vote_reply:
  assumes "good ev" and "\<not> not_ready s \<Longrightarrow> reply_ring_valid msg s \<Longrightarrow> allowed (md_vote msg) s"
  shows "keeps s (qdevice_net_msg_received_ask_for_vote_reply ev net_algorithms msg s)"
  unfolding qdevice_net_msg_received_ask_for_vote_reply_def
  by (intro keeps_if keeps_fail keeps_reply_vote [OF _ net_dispatch_contract(11)] assms refl)

lemma keeps_heuristics_change_reply:
  assumes "good ev" and "\<not> not_ready s \<Longrightarrow> reply_ring_valid msg s \<Longrightarrow> allowed (md_vote msg) s"
  shows "keeps s (qdevice_net_msg_received_heuristics_change_reply ev net_algorithms msg s)"
  unfolding qdevice_net_msg_received_heuristics_change_reply_def
  by (intro keeps_if keeps_fail keeps_reply_vote [OF _ net_dispatch_contract(16)] assms refl)

lemma keeps_vote_info:
  assumes "good ev" and "\<not> not_ready s \<Longrightarrow> reply_ring_valid msg s \<Longrightarrow> allowed (md_vote msg) s"
  shows "keeps s (qdevice_net_msg_received_vote_info ev net_algorithms msg s)"
  unfolding qdevice_net_msg_received_vote_info_def fail_with_def
  by (intro keeps_if keeps_Inr keeps_bind keeps_case_R keeps_reply_vote [OF _ net_dispatch_contract(12)] assms)
     (auto elim: R_core intro: frame simp: core_simps)

lemma keeps_msg_dispatch:
  assumes "good ev" and "\<And>v. message_vote msg s = Some v \<Longrightarrow> allowed v s"
  shows "keeps s (net_msg_dispatch ev net_algorithms msg s)"
proof -
  have al: "carries_vote msg \<Longrightarrow> \<not> not_ready s \<Longrightarrow> reply_ring_valid msg s \<Longrightarrow> allowed (md_vote msg) s"
    using assms(2) by (simp add: message_vote_def)
  note un = qdevice_net_msg_received_init_def qdevice_net_msg_received_preinit_def
    qdevice_net_msg_received_starttls_def qdevice_net_msg_received_set_option_def
    qdevice_net_msg_received_echo_request_def qdevice_net_msg_received_node_list_def
    qdevice_net_msg_received_ask_for_vote_def qdevice_net_msg_received_vote_info_reply_def
    qdevice_net_msg_received_heuristics_change_def qdevice_net_msg_received_unexpected_msg_def
    qdevice_net_msg_received_server_error_def
  show ?thesis
    unfolding net_msg_dispatch_def un
    by (cases "md_type msg")
       (simp_all add: keeps_fail keeps_preinit_reply keeps_init_reply keeps_set_option_reply keeps_echo_reply
          keeps_node_list_reply keeps_ask_for_vote_reply keeps_vote_info keeps_heuristics_change_reply
          al assms(1) carries_vote_def)
qed

lemma keeps_msg_received:
  assumes "good ev"
    and "\<And>msg v. msg_decode (ev_al ev) (ev_junk ev) (qn_receive_buffer (qd_net s)) msg_decoded_init = Inr (0, msg) \<Longrightarrow>
      message_vote msg s = Some v \<Longrightarrow> allowed v s"
  shows "keeps s (qdevice_net_msg_received ev net_algorithms s)"
proof (cases "msg_decode (ev_al ev) (ev_junk ev) (qn_receive_buffer (qd_net s)) msg_decoded_init")
  case (Inr y)
  obtain r msg where y: "y = (r, msg)" by (cases y)
  have "keeps s (net_msg_dispatch ev net_algorithms msg s)" if "r = 0"
    using that assms Inr y by (intro keeps_msg_dispatch) auto
  then show ?thesis
    unfolding qdevice_net_msg_received_def Inr y bindE_simps prod.case
    by (intro keeps_if keeps_fail keeps_bind keeps_any keeps_Inr) simp_all
qed (simp add: qdevice_net_msg_received_def keeps_Inl)

lemma keeps_socket_read:
  assumes "good ev" and "\<And>v. server_vote ev recv s = Some v \<Longrightarrow> allowed v s"
  shows "keeps s (socket_read_cb ev net_algorithms recv s)"
proof -
  obtain res buf already skipping where read: "msgio_read (ev_al ev) (ev_junk ev) recv
      (qn_receive_buffer (qd_net s)) (qn_msg_already_received_bytes (qd_net s)) (qn_skipping_msg (qd_net s)) =
      (res, buf, already, skipping)"
    by (cases "msgio_read (ev_al ev) (ev_junk ev) recv (qn_receive_buffer (qd_net s))
      (qn_msg_already_received_bytes (qd_net s)) (qn_skipping_msg (qd_net s))")
  define s1 where "s1 = upd_net (\<lambda>n. n\<lparr>qn_receive_buffer := buf, qn_msg_already_received_bytes := already,
      qn_skipping_msg := skipping\<rparr>) s"
  have core: "vote_core s1 = vote_core s" by (simp add: s1_def core_simps)
  have "message_vote msg s1 = message_vote msg s" for msg
    by (simp add: message_vote_def s1_def upd_net_def not_ready_def reply_ring_valid_def)
  then have "keeps s1 (qdevice_net_msg_received ev net_algorithms s1)" if "res = 1"
    using that assms(2) by (intro keeps_msg_received assms(1) allowed_core [OF core])
      (auto simp: server_vote_def read s1_def upd_net_def)
  then have "keeps s (qdevice_net_msg_received ev net_algorithms s1)" if "res = 1"
    using that core by (auto intro: keeps_core)
  then show ?thesis
    unfolding socket_read_cb_def qdevice_net_socket_read_def read prod.case Let_def s1_def [symmetric]
    by (intro keeps_bind keeps_if keeps_fail core keeps_Inl keeps_Inr)
       (auto elim: R_core intro: frame simp: core_simps core socket_read_reset_def)
qed

section \<open>Sockets and pipes\<close>

lemma R_socket_write: "R s (snd (socket_write_cb ev send s))"
proof -
  have fin: "vote_core (snd (qdevice_net_socket_write_finished ev q)) = vote_core q" for q
    unfolding qdevice_net_socket_write_finished_def by (auto intro!: core_case simp: core_simps)
  have "vote_core (snd (qdevice_net_socket_write ev send s)) = vote_core s"
  proof (cases "send_buffer_list_get_active (qn_send_buffer_list (qd_net s))")
    case (Some sb)
    obtain res sent where "msgio_write send (sb_buffer sb) (sb_msg_already_sent_bytes sb) = (res, sent)"
      by fastforce
    with Some show ?thesis
      unfolding qdevice_net_socket_write_def Let_def
      by (simp only: option.case prod.case) (auto intro!: core_case simp: core_simps fin)
  qed (simp add: qdevice_net_socket_write_def core_simps)
  then show ?thesis
    unfolding socket_write_cb_def by (intro frame core_case) (auto simp: core_simps)
qed

lemma R_socket_err: "R s (snd (socket_err_cb s))"
  by (simp add: socket_err_cb_def frame core_simps)

lemma keeps_connect_write: "keeps s (non_blocking_client_socket_write_cb ev r s)"
  unfolding non_blocking_client_socket_write_cb_def Let_def
  by (intro keeps_if keeps_Inl keeps_case keeps_fail keeps_frame) (auto simp: core_simps)

lemma keeps_connect_err: "keeps s (non_blocking_client_socket_err_cb ev r s)"
  unfolding non_blocking_client_socket_err_cb_def
  by (intro keeps_if keeps_connect_write keeps_frame refl)

lemma R_heuristics_write: "R s (snd (heuristics_pipe_cmd_send_write_cb write s))"
  unfolding heuristics_pipe_cmd_send_write_cb_def by (intro frame core_case) (auto simp: core_simps)

section \<open>Notifications of corosync\<close>

lemma holds_or_exit:
  assumes "keeps s m" and "\<And>s1. R s s1 \<Longrightarrow> holdsE (R s) (f s1)"
  shows "holdsE (R s) (or_exit f m)"
  using assms unfolding keeps_def or_exit_def by (auto elim!: holdsE_mono)

lemma R_quorum_notify:
  assumes "good ev"
  shows "holdsE (R s) (qdevice_votequorum_quorum_notify_callback ev net_algorithms q nl s)"
  unfolding qdevice_votequorum_quorum_notify_callback_def
  by (intro holds_or_exit keeps_core [OF _ keeps_quorum_notify [OF assms]])
     (auto elim: R_core simp: core_simps)

lemma R_node_list_notify:
  assumes "good ev"
  shows "holdsE (R s) (qdevice_votequorum_node_list_notify_callback ev net_algorithms rid nl s)"
proof -
  have "holdsE (R s) (case notifier_set_active cb True s1 of (r2, qd2) \<Rightarrow>
       if r2 \<noteq> 0 then Inl Exit_Failure else case on_heuristics (g qd2) qd2 of (r3, qd3) \<Rightarrow>
         if r3 \<noteq> 0 then Inl Exit_Failure else if b then Inl Exit_Failure else Inr (f qd3))"
    if "R s s1" and "\<And>q. vote_core (f q) = vote_core q" for s1 cb g b f
    using that core_notifier [of cb True s1] core_on_heuristics
    by (auto split: prod.split intro: R_core) (metis R_core snd_conv)
  then show ?thesis
    unfolding qdevice_votequorum_node_list_notify_callback_def
    by (intro holds_or_exit keeps_core [OF _ keeps_node_list_notify [OF assms]])
       (auto simp: core_simps)
qed

lemma R_expected_votes_notify:
  assumes "good ev"
  shows "holdsE (R s) (qdevice_votequorum_expected_votes_notify_callback ev net_algorithms w s)"
  unfolding qdevice_votequorum_expected_votes_notify_callback_def
  by (intro holds_or_exit keeps_expected_votes_notify [OF assms]) (auto elim: R_core simp: core_simps)

lemma keeps_list_failed: "vote_core s1 = vote_core s \<Longrightarrow> keeps s (Inr (qdevice_model_net_get_config_node_list_failed s1))"
  by (simp add: qdevice_model_net_get_config_node_list_failed_def keeps_frame core_simps)

lemma R_cmap_node_list_event:
  assumes "good ev"
  shows "holdsE (R s) (qdevice_cmap_node_list_event ev net_algorithms s)"
proof (cases "ev_cmap_nodelist ev")
  case (Some nl)
  have failed: "holdsE (R s) (or_exit Inr (Inr (qdevice_model_net_get_config_node_list_failed q)))"
    if "R s q" for q
    using that by (auto simp: or_exit_def qdevice_model_net_get_config_node_list_failed_def core_simps elim: R_core)
  from Some show ?thesis
    unfolding qdevice_cmap_node_list_event_def Let_def
    by (simp only: option.case)
       (intro core_if holds_or_exit keeps_config_changed [OF assms],
        auto split: prod.split intro!: failed elim: R_core intro: frame simp: core_simps)
qed (auto simp: qdevice_cmap_node_list_event_def intro!: holds_or_exit keeps_list_failed)

lemma R_cmap_reload:
  assumes "good ev"
  shows "holdsE (R s) (qdevice_cmap_reload_cb ev net_algorithms configure key reload s)"
proof -
  have ev: "holdsE (R s) (if b then qdevice_cmap_node_list_event ev net_algorithms q else Inr q)"
    if "vote_core q = vote_core s" for b q
    using R_cmap_node_list_event [OF assms, of q] that by (auto elim!: holdsE_mono intro: trans frame)
  have cfg: "holdsE (R s) (if b then or_exit Inr (Inr (on_heuristics configure q)) else Inr q)" if "R s q" for b q
    using that core_on_heuristics [of configure q]
    by (auto simp: or_exit_def split: prod.split intro: R_core)
  have chg: "holdsE (R s) (or_exit Inr (Inr (qdevice_model_net_cmap_changed al b q)))" if "R s q" for al b q
    using that R_cmap_changed [of q al b] by (auto simp: or_exit_def split: prod.split intro: trans)
  have bind: "holdsE (R s) m \<Longrightarrow> (\<And>q. R s q \<Longrightarrow> holdsE (R s) (f q)) \<Longrightarrow> holdsE (R s) (bindE m f)" for m f
    by (auto elim!: holdsE_mono)
  show ?thesis
    unfolding qdevice_cmap_reload_cb_def Let_def
    by (intro core_if bind ev cfg chg) (auto intro: frame simp: core_simps)
qed

section \<open>The main loop\<close>

lemma keeps_post_poll:
  assumes "good ev"
  shows "keeps s (qdevice_model_net_post_poll_loop ev net_algorithms er s)"
proof -
  have fin: "keeps b (post_poll_loop_finish ev restart q)" if "R b q" for b restart q
    using core_post_poll_finish [of q ev restart] that unfolding keeps_def by (auto elim!: holdsE_mono R_core)
  have "R s (echo_request_timer_stop (connect_timer_stop s))" by (rule trans [OF connect_stop echo_stop])
  then show ?thesis
    unfolding qdevice_model_net_post_poll_loop_def Let_def
    by (rule keeps_from, intro keeps_core [rotated, OF keeps_vote_ext [OF net_dispatch_contract(17)]],
        simp add: allowed, unfold prod.case, intro keeps_if keeps_Inr keeps_update assms fin)
       (auto intro: frame simp: core_simps)
qed

lemma R_restart:
  assumes "good ev"
  shows "holdsE (\<lambda>(go_on, r, s'). R s s') (main_loop_restart ev net_algorithms closed s)"
proof (rule holdsE_I)
  fix x assume "main_loop_restart ev net_algorithms closed s = Inr x"
  then obtain r s1 where
    post: "qdevice_model_net_post_poll_loop ev net_algorithms (main_loop_exit_reason closed s) s = Inr (r, s1)"
    and x: "snd (snd x) = s1 \<or> snd (snd x) = snd (qdevice_model_net_pre_poll_loop ev s1)"
    by (auto simp: main_loop_restart_def bindE_Inr_iff split: if_splits prod.splits)
  from keeps_post_poll [OF assms] post have R1: "R s s1" by (auto simp: keeps_def dest!: holdsE_D)
  have "qn_connect_timer (qd_net s1) = None" by (rule post_poll_connect_timer [OF post])
  from trans [OF R1 pre_poll [OF this]] R1 x show "case x of (go_on, r, s') \<Rightarrow> R s s'"
    by (auto split: prod.split)
qed

end

section \<open>Steps of the client\<close>

text \<open>
  What can happen to the running client: a callback of the poll loop, a timer, or the end of a run
  of the loop followed by the next. The environment of each step is arbitrary. The first argument
  is the vote of the server that the step delivers, if it delivers one.
\<close>

inductive qdevice_step :: "qdev_env \<Rightarrow> tlv_vote option \<Rightarrow> qdevice_instance \<Rightarrow> qdevice_instance \<Rightarrow> bool" where
  socket_read: "socket_read_cb ev net_algorithms recv s = Inr (r, s') \<Longrightarrow> qdevice_step ev (server_vote ev recv s) s s'"
| socket_write: "socket_write_cb ev send s = (r, s') \<Longrightarrow> qdevice_step ev None s s'"
| socket_err: "socket_err_cb s = (r, s') \<Longrightarrow> qdevice_step ev None s s'"
| connect_write: "non_blocking_client_socket_write_cb ev succeeded s = Inr (r, s') \<Longrightarrow> qdevice_step ev None s s'"
| connect_err: "non_blocking_client_socket_err_cb ev succeeded s = Inr (r, s') \<Longrightarrow> qdevice_step ev None s s'"
| timer: "qdev_timer_fire ev net_algorithms t s = Inr s' \<Longrightarrow> qdevice_step ev None s s'"
| quorum: "qdevice_votequorum_quorum_notify_callback ev net_algorithms quorate vnodes s = Inr s' \<Longrightarrow>
    qdevice_step ev None s s'"
| node_list: "qdevice_votequorum_node_list_notify_callback ev net_algorithms rid nodes s = Inr s' \<Longrightarrow>
    qdevice_step ev None s s'"
| expected_votes: "qdevice_votequorum_expected_votes_notify_callback ev net_algorithms votes s = Inr s' \<Longrightarrow>
    qdevice_step ev None s s'"
| heuristics_read: "heuristics_pipe_cmd_recv_read_cb ev net_algorithms readed s = Inr (r, s') \<Longrightarrow>
    qdevice_step ev None s s'"
| heuristics_write: "heuristics_pipe_cmd_send_write_cb write s = (r, s') \<Longrightarrow> qdevice_step ev None s s'"
| heuristics_err: "heuristics_pipe_err_cb s = (r, s') \<Longrightarrow> qdevice_step ev None s s'"
| votequorum_err: "votequorum_err_cb s = (r, s') \<Longrightarrow> qdevice_step ev None s s'"
| cmap_err: "cmap_err_cb s = (r, s') \<Longrightarrow> qdevice_step ev None s s'"
| cmap: "qdevice_cmap_reload_cb ev net_algorithms configure key reload s = Inr s' \<Longrightarrow> qdevice_step ev None s s'"
| restart: "main_loop_restart ev net_algorithms closed s = Inr (go_on, r, s') \<Longrightarrow> qdevice_step ev None s s'"

text \<open>A run: the environments satisfy \<open>env_ok\<close> and the votes of the server \<open>granted\<close>.\<close>

inductive qdevice_run ::
    "(qdev_env \<Rightarrow> bool) \<Rightarrow> (tlv_vote \<Rightarrow> bool) \<Rightarrow> qdevice_instance \<Rightarrow> qdevice_instance \<Rightarrow> bool"
  for env_ok granted s0 where
  start: "qdevice_run env_ok granted s0 s0"
| step: "qdevice_run env_ok granted s0 s \<Longrightarrow> qdevice_step ev vote s s' \<Longrightarrow> env_ok ev \<Longrightarrow>
    (\<forall>v. vote = Some v \<longrightarrow> granted v) \<Longrightarrow> qdevice_run env_ok granted s0 s'"

context vote_relation
begin

lemma keepsD: "keeps s m \<Longrightarrow> m = Inr (r, s') \<Longrightarrow> R s s'"
  by (simp add: keeps_def)

lemma step_respects:
  assumes "qdevice_step ev vote s s'" and "good ev" and "\<And>v. vote = Some v \<Longrightarrow> allowed v s"
  shows "R s s'"
  using assms(1)
proof (cases rule: qdevice_step.cases)
  case (socket_read recv r)
  then show ?thesis using keepsD [OF keeps_socket_read [OF assms(2)]] assms(3) by blast
next
  case (socket_write send r)
  then show ?thesis using R_socket_write [of s ev send] by simp
next
  case (socket_err r)
  then show ?thesis using R_socket_err [of s] by simp
next
  case (connect_write succeeded r)
  then show ?thesis using keepsD [OF keeps_connect_write] by blast
next
  case (connect_err succeeded r)
  then show ?thesis using keepsD [OF keeps_connect_err] by blast
next
  case (timer t)
  then show ?thesis using holdsE_D [OF fire [OF assms(2)]] by blast
next
  case (quorum quorate vnodes)
  then show ?thesis using holdsE_D [OF R_quorum_notify [OF assms(2)]] by blast
next
  case (node_list rid nodes)
  then show ?thesis using holdsE_D [OF R_node_list_notify [OF assms(2)]] by blast
next
  case (expected_votes votes)
  then show ?thesis using holdsE_D [OF R_expected_votes_notify [OF assms(2)]] by blast
next
  case (heuristics_read readed r)
  then show ?thesis using keepsD [OF keeps_heuristics_read [OF assms(2)]] by blast
next
  case (heuristics_write w r)
  then show ?thesis using R_heuristics_write [of s w] by simp
next
  case (cmap configure key reload)
  then show ?thesis using holdsE_D [OF R_cmap_reload [OF assms(2)]] by blast
next
  case (restart closed go_on r)
  then show ?thesis using holdsE_D [OF R_restart [OF assms(2)] restart(2)] by simp
qed (auto simp: heuristics_pipe_err_cb_def votequorum_err_cb_def cmap_err_cb_def core_simps intro!: frame)

lemma run_respects:
  assumes "qdevice_run good granted s0 s" and "\<And>v q. granted v \<Longrightarrow> allowed v q"
  shows "R s0 s"
  using assms(1)
proof (induction rule: qdevice_run.induct)
  case (step s ev vote s')
  then show ?case using assms(2) by (blast intro: trans step_respects)
qed (rule frame, rule refl)

end

end
