(* ===== verification/Qdevice_Props.thy ===== *)
theory Qdevice_Props
  imports Qdevice_Votes
begin

text \<open>
  The client as a whole: it casts an ACK only after the server has granted one for the ring that the
  client reported last, its timers stay consistent with the handles that the instance keeps, and
  so the timer that casts the vote never ends the process. Two interpretations of
  \<open>vote_relation\<close> carry the proofs.
\<close>

section \<open>No ACK without the server\<close>

text \<open>The vote of the client is not ACK unless it was, and an ACK is cast only when it was.\<close>

definition no_new_ack :: "qdevice_instance \<Rightarrow> qdevice_instance \<Rightarrow> bool" where
  "no_new_ack s s' \<longleftrightarrow>
     (qn_cast_vote_timer_vote (qd_net s') = TLV_VOTE_ACK \<longrightarrow> qn_cast_vote_timer_vote (qd_net s) = TLV_VOTE_ACK) \<and>
     (\<exists>new. qd_polls s' = qd_polls s @ new \<and>
        (\<forall>p \<in> set new. fst p \<longrightarrow> qn_cast_vote_timer_vote (qd_net s) = TLV_VOTE_ACK))"

lemma no_new_ackI:
  "qn_cast_vote_timer_vote (qd_net s') = qn_cast_vote_timer_vote (qd_net s) \<Longrightarrow> qd_polls s' = qd_polls s \<Longrightarrow>
   no_new_ack s s'"
  by (simp add: no_new_ack_def)

lemma no_new_ack_trans: "no_new_ack a b \<Longrightarrow> no_new_ack b c \<Longrightarrow> no_new_ack a c"
  by (auto simp: no_new_ack_def)

lemma no_new_ack_core: "vote_core s' = vote_core s \<Longrightarrow> no_new_ack s s'"
  by (simp add: no_new_ackI vote_core_def)

lemma no_new_ack_callback:
  "holdsE (\<lambda>(r, s'). no_new_ack s s') (qdevice_net_cast_vote_timer_callback ev s)"
  by (auto simp: qdevice_net_cast_vote_timer_callback_def qdevice_votequorum_poll_def no_new_ack_def upd_net_def
      Let_def)

lemma no_new_ack_update:
  assumes "v = TLV_VOTE_ACK \<longrightarrow> qn_cast_vote_timer_vote (qd_net s) = TLV_VOTE_ACK"
  shows "holdsE (\<lambda>(r, s'). no_new_ack s s') (qdevice_net_cast_vote_timer_update ev v s)"
proof -
  have start: "no_new_ack q (snd (cast_vote_timer_start ev q))" for q
    by (auto intro: no_new_ackI simp: cast_vote_timer_start_def qd_timer_add_def upd_net_def Let_def split: option.split)
  have stop: "no_new_ack q (cast_vote_timer_stop q)" for q
    by (auto intro: no_new_ackI simp: cast_vote_timer_stop_def qd_timer_delete_def upd_net_def split: option.split)
  have set: "no_new_ack s (upd_net (\<lambda>n. n\<lparr>qn_cast_vote_timer_vote := v\<rparr>) s)"
    using assms by (simp add: no_new_ack_def upd_net_def)
  have call: "holdsE (\<lambda>(r3, qd3). no_new_ack s qd3) (qdevice_net_cast_vote_timer_callback ev q)"
    if "no_new_ack s q" for q
    using no_new_ack_callback [of q ev] that by (auto elim!: holdsE_mono intro: no_new_ack_trans)
  obtain r q where st: "cast_vote_timer_start ev (upd_net (\<lambda>n. n\<lparr>qn_cast_vote_timer_vote := v\<rparr>) s) = (r, q)"
    by fastforce
  with no_new_ack_trans [OF set start] have q: "no_new_ack s q" by simp
  show ?thesis
    unfolding qdevice_net_cast_vote_timer_update_def Let_def st prod.case
    by (intro core_if) (use call [OF q] q no_new_ack_trans [OF set stop] in
      \<open>auto intro: no_new_ackI elim!: holdsE_mono\<close>)
qed

lemma no_new_ack_timers:
  "no_new_ack s (drop_timer k s)" "no_new_ack s (arm_timer al i k s)"
  "no_new_ack s (qd_timer_delete t (set_handle k h s))"
  by (cases k; auto intro!: no_new_ackI simp: drop_timer_def arm_timer_def set_handle_def qd_timer_add_def
      qd_timer_delete_def upd_net_def Let_def split: option.split)+

lemma no_new_ack_cast:
  "holdsE (\<lambda>(r, s'). no_new_ack s (if r = 0 then qd_timer_delete t s' else s'))
     (qdevice_net_cast_vote_timer_callback ev s)"
proof -
  have "no_new_ack q (qd_timer_delete t q)" for q by (simp add: no_new_ackI qd_timer_delete_def)
  then show ?thesis
    by (intro holdsE_mono [OF no_new_ack_callback]) (auto intro: no_new_ack_trans)
qed

interpretation no_ack: vote_relation no_new_ack "\<lambda>ev. True"
    "\<lambda>v s. v = TLV_VOTE_ACK \<longrightarrow> qn_cast_vote_timer_vote (qd_net s) = TLV_VOTE_ACK"
proof
  show "no_new_ack a c" if "no_new_ack a b" "no_new_ack b c" for a b c
    using that by (rule no_new_ack_trans)
  show "holdsE (\<lambda>(r, s'). no_new_ack s (if r = 0 then qd_timer_delete t s' else s'))
      (qdevice_net_cast_vote_timer_callback ev s)" for s t ev
    by (rule no_new_ack_cast)
qed (auto intro: no_new_ack_core no_new_ack_update no_new_ack_timers simp: vote_core_def)

section \<open>Timers and their handles\<close>

text \<open>
  Every running timer is known by the handle of its kind, every handle belongs to a running timer,
  and while the timer that casts the vote runs the vote is one that can be cast.
\<close>

definition timers_known_by :: "tlv_vote \<Rightarrow> running_timer list \<Rightarrow> (qdev_timer \<Rightarrow> timer_id option) \<Rightarrow> bool" where
  "timers_known_by v ts h \<longleftrightarrow>
     distinct (map fst ts) \<and> (\<forall>(t, k, i) \<in> set ts. h k = Some t) \<and>
     (\<forall>k t. h k = Some t \<longrightarrow> (\<exists>i. (t, k, i) \<in> set ts)) \<and>
     (h Cast_Vote_Timer \<noteq> None \<longrightarrow> v = TLV_VOTE_ACK \<or> v = TLV_VOTE_NACK)"

definition timers_known :: "qdevice_instance \<Rightarrow> bool" where
  "timers_known s = timers_known_by (qn_cast_vote_timer_vote (qd_net s)) (qd_timers s) (handles s)"

lemma timers_known_add:
  assumes "timers_known_by v ts h" and "h k = None" and "t \<notin> fst ` set ts"
    and "k = Cast_Vote_Timer \<longrightarrow> v = TLV_VOTE_ACK \<or> v = TLV_VOTE_NACK"
  shows "timers_known_by v (ts @ [(t, k, i)]) (h(k := Some t))"
  using assms by (fastforce simp: timers_known_by_def)

lemma timers_known_delete:
  assumes "timers_known_by v ts h" and "h k = Some t"
  shows "timers_known_by v (filter (\<lambda>x. fst x \<noteq> t) ts) (h(k := None))"
proof -
  from assms obtain i where t: "(t, k, i) \<in> set ts" unfolding timers_known_by_def by blast
  have "k' = k" if "(t, k', i') \<in> set ts" for k' i'
    using that t assms(1) by (auto simp: timers_known_by_def dest: eq_key_imp_eq_value)
  with assms show ?thesis by (fastforce simp: timers_known_by_def distinct_map_filter)
qed

lemma timers_known_vote:
  "timers_known_by v ts h \<Longrightarrow> h Cast_Vote_Timer = None \<or> v' = TLV_VOTE_ACK \<or> v' = TLV_VOTE_NACK \<Longrightarrow>
   timers_known_by v' ts h"
  by (auto simp: timers_known_by_def)

lemma timers_known_core: "vote_core s' = vote_core s \<Longrightarrow> timers_known s' = timers_known s"
  using handles_core [of s' s] by (simp add: timers_known_def vote_core_def)

lemma vote_timers [simp]:
  "qd_timers (qd_timer_delete t s) = filter (\<lambda>x. fst x \<noteq> t) (qd_timers s)"
  "qn_cast_vote_timer_vote (qd_net (qd_timer_delete t s)) = qn_cast_vote_timer_vote (qd_net s)"
  "qd_timers (set_handle k h s) = qd_timers s"
  "qn_cast_vote_timer_vote (qd_net (set_handle k h s)) = qn_cast_vote_timer_vote (qd_net s)"
  by (cases k; simp add: set_handle_def upd_net_def qd_timer_delete_def)+

lemma timers_known_drop: "timers_known s \<Longrightarrow> timers_known (drop_timer k s)"
  by (auto simp: drop_timer_def timers_known_def timers_known_delete split: option.split)

lemma timers_known_arm:
  assumes "timers_known s" and "handles s k = None"
    and "k = Cast_Vote_Timer \<longrightarrow> qn_cast_vote_timer_vote (qd_net s) = TLV_VOTE_ACK \<or>
      qn_cast_vote_timer_vote (qd_net s) = TLV_VOTE_NACK"
  shows "timers_known (arm_timer al i k s)"
proof -
  have "fresh_ref (map fst (qd_timers s)) \<notin> fst ` set (qd_timers s)"
    using fresh_ref_notin [of "map fst (qd_timers s)"] by simp
  moreover have "handles (s\<lparr>qd_timers := ts\<rparr>) = handles s" for ts
    by (rule ext) (simp add: handles_def split: qdev_timer.split)
  ultimately show ?thesis using assms
    by (auto simp: arm_timer_def qd_timer_add_def timers_known_def timers_known_add Let_def fun_upd_idem
        split: option.split)
qed

text \<open>The calls of \<open>votequorum_qdevice_poll\<close> succeed or may be repeated.\<close>

definition polls_succeed :: "qdev_env \<Rightarrow> bool" where
  "polls_succeed ev \<longleftrightarrow>
     (\<forall>v rid. ev_vq_poll ev v rid = CS_OK \<or> ev_vq_poll ev v rid = CS_ERR_TRY_AGAIN \<or>
        ev_vq_poll ev v rid = CS_ERR_MESSAGE_ERROR)"

lemma poll_result:
  assumes "polls_succeed ev"
  shows "qdevice_votequorum_poll ev v s =
    (0, s\<lparr>qd_vq_last_poll := ev_time ev, qd_vq_last_poll_cast_vote := v,
         qd_polls := qd_polls s @ [(v, qd_vq_poll_ring_id s)]\<rparr>)"
  using assms by (auto simp: qdevice_votequorum_poll_def polls_succeed_def Let_def)

lemma timers_known_poll [simp]:
  "timers_known (s\<lparr>qd_vq_last_poll := a, qd_vq_last_poll_cast_vote := b, qd_polls := c\<rparr>) = timers_known s"
  by (simp add: timers_known_def handles_def [abs_def])

lemma cast_callback_known:
  assumes "polls_succeed ev"
  shows "holdsE (\<lambda>(r, s'). r = -1 \<and> timers_known s' = timers_known s)
    (qdevice_net_cast_vote_timer_callback ev s)"
  by (auto simp: qdevice_net_cast_vote_timer_callback_def poll_result [OF assms] Let_def)

lemma timers_known_start:
  assumes "timers_known s" and "v = TLV_VOTE_ACK \<or> v = TLV_VOTE_NACK"
  shows "timers_known (snd (cast_vote_timer_start ev (upd_net (\<lambda>n. n\<lparr>qn_cast_vote_timer_vote := v\<rparr>) s)))"
proof -
  let ?s = "upd_net (\<lambda>n. n\<lparr>qn_cast_vote_timer_vote := v\<rparr>) s"
  have h: "handles ?s = handles s"
    by (rule ext) (simp add: handles_def upd_net_def split: qdev_timer.split)
  have k: "timers_known ?s"
    using assms timers_known_vote by (auto simp: timers_known_def h) (auto simp: upd_net_def)
  show ?thesis
  proof (cases "qn_cast_vote_timer (qd_net ?s) = None")
    case True
    then have "snd (cast_vote_timer_start ev ?s) =
        arm_timer (ev_al ev) (qn_cast_vote_timer_interval (qd_net ?s)) Cast_Vote_Timer ?s"
      by (simp add: cast_vote_timer_start_def arm_timer_def set_handle_def split: prod.split)
    moreover have "handles ?s Cast_Vote_Timer = None" using True by (simp add: handles_def)
    ultimately show ?thesis
      using timers_known_arm [OF k] assms(2) by (simp add: upd_net_def)
  next
    case False
    then show ?thesis by (auto simp: cast_vote_timer_start_def k)
  qed
qed

lemma timers_known_stop:
  assumes "timers_known s"
  shows "timers_known (cast_vote_timer_stop (upd_net (\<lambda>n. n\<lparr>qn_cast_vote_timer_vote := v\<rparr>) s))"
proof -
  let ?s = "cast_vote_timer_stop (upd_net (\<lambda>n. n\<lparr>qn_cast_vote_timer_vote := v\<rparr>) s)"
  have "handles ?s = handles (drop_timer Cast_Vote_Timer s)" and "qd_timers ?s = qd_timers (drop_timer Cast_Vote_Timer s)"
    by (auto simp: cast_vote_timer_stop_def drop_timer_def set_handle_def handles_def upd_net_def fun_eq_iff
        qd_timer_delete_def split: option.split qdev_timer.split)
  moreover have "handles ?s Cast_Vote_Timer = None"
    by (simp add: cast_vote_timer_stop_def handles_def upd_net_def split: option.split)
  ultimately show ?thesis
    using timers_known_drop [OF assms, of Cast_Vote_Timer] timers_known_vote by (simp add: timers_known_def)
qed

lemma timers_known_update:
  assumes "polls_succeed ev" and "timers_known s"
  shows "holdsE (\<lambda>(r, s'). timers_known s') (qdevice_net_cast_vote_timer_update ev v s)"
proof -
  obtain r q where st: "cast_vote_timer_start ev (upd_net (\<lambda>n. n\<lparr>qn_cast_vote_timer_vote := v\<rparr>) s) = (r, q)"
    by fastforce
  have q: "timers_known q" if "v = TLV_VOTE_ACK \<or> v = TLV_VOTE_NACK"
    using timers_known_start [OF assms(2) that, of ev] st by simp
  show ?thesis
    unfolding qdevice_net_cast_vote_timer_update_def Let_def st prod.case
    by (intro core_if) (use q assms(2) timers_known_stop cast_callback_known [OF assms(1), of q] in
      \<open>auto elim!: holdsE_mono\<close>)
qed

interpretation known: vote_relation "\<lambda>s s'. timers_known s \<longrightarrow> timers_known s'" polls_succeed "\<lambda>v s. True"
proof
  show "timers_known s \<longrightarrow> timers_known (qd_timer_delete t (set_handle k None s))"
    if "map_of (qd_timers s) t = Some (k, i)" for s t k i
  proof
    assume "timers_known s"
    with map_of_SomeD [OF that] have "handles s k = Some t"
      by (auto simp: timers_known_def timers_known_by_def)
    with \<open>timers_known s\<close> show "timers_known (qd_timer_delete t (set_handle k None s))"
      by (auto simp: timers_known_def intro: timers_known_delete)
  qed
  show "holdsE (\<lambda>(r, s'). timers_known s \<longrightarrow> timers_known (if r = 0 then qd_timer_delete t s' else s'))
      (qdevice_net_cast_vote_timer_callback ev s)" if "polls_succeed ev" for ev s t
    by (intro holdsE_mono [OF cast_callback_known [OF that]]) auto
  show "holdsE (\<lambda>(r, s'). timers_known s \<longrightarrow> timers_known s') (qdevice_net_cast_vote_timer_update ev v s)"
    if "polls_succeed ev" for ev v s
    using timers_known_update [OF that, of s v] by (cases "timers_known s") (auto elim: holdsE_mono intro: holdsE_I)
  show "timers_known s \<longrightarrow> timers_known s'" if "vote_core s' = vote_core s" for s s'
    using timers_known_core [OF that] by simp
qed (auto intro: timers_known_drop timers_known_arm)

section \<open>An example\<close>

text \<open>A client with two nodes in its configuration, in an environment in which everything succeeds.\<close>

definition ex_env :: qdev_env where
  "ex_env =
     \<lparr>ev_al = (\<lambda>r. True), ev_junk = (\<lambda>i. 0), ev_time = 0, ev_vq_poll = (\<lambda>v rid. CS_OK),
      ev_vq_getinfo = (\<lambda>i. (CS_OK, \<lparr>vqi_node_votes = 1, vqi_qdevice_votes = 1\<rparr>)),
      ev_cmap_uint32 = (\<lambda>k. Some 1), ev_cmap_uint8 = (\<lambda>k. None), ev_start_tls = True, ev_add_prfd = True,
      ev_del_prfd = True, ev_add_pre_poll_cb = True, ev_del_pre_poll_cb = True, ev_cmap_nodelist = None,
      ev_cmap_config_version = None, ev_nss_init = True, ev_client_init = True, ev_try_next = True\<rparr>"

definition ex_net :: "tlv_decision_algorithm_type \<Rightarrow> qdevice_net_instance" where
  "ex_net algorithm =
     qdevice_net_instance_init TLV_TLS_UNSUPPORTED algorithm 8000 24000 4000 [65]
       \<lparr>tb_mode = TLV_TIE_BREAKER_MODE_LOWEST, tb_node_id = 0\<rparr> 8000
       TLV_KEEP_ACTIVE_PARTITION_TIE_BREAKER_DISABLED
       qdevice_default_settings"

definition ex_qdev :: "qdevice_net_instance \<Rightarrow> qdevice_instance" where
  "ex_qdev n =
     \<lparr>qd_node_id = 1, qd_config_node_list = [], qd_config_node_list_version_set = False,
      qd_config_node_list_version = 0, qd_vq_quorum_quorate = 1, qd_vq_quorum_node_list = [],
      qd_vq_node_list_initial_ring_id_set = True,
      qd_vq_node_list_ring_id = \<lparr>vrid_nodeid = 1, vrid_seq = 8\<rparr>, qd_vq_node_list = [1, 2],
      qd_vq_node_list_initial_heuristics_finished = True,
      qd_vq_node_list_heuristics_result = QDEVICE_HEURISTICS_EXEC_RESULT_DISABLED,
      qd_vq_poll_ring_id = \<lparr>vrid_nodeid = 1, vrid_seq = 8\<rparr>, qd_vq_expected_votes = 3,
      qd_vq_last_poll = 0, qd_vq_last_poll_cast_vote = False, qd_sync_in_progress = False,
      qd_cmap_reload_in_progress = False, qd_votequorum_closed = False, qd_cmap_closed = False,
      qd_heuristics_closed = False,
      qd_heuristics_instance = (qdevice_heuristics_instance_init 10 4096)
        \<lparr>qh_exec_result_notifier_list := [\<lparr>ni_callback = qdevice_votequorum_heuristics_exec_result_callback_id,
           ni_active = False\<rparr>]\<rparr>,
      qd_advanced_settings = qdevice_default_settings,
      qd_timers = [], qd_polls = [], qd_net = n\<rparr>"

lemma ex_env_polls: "polls_succeed ex_env"
  by (simp add: ex_env_def polls_succeed_def)

lemma ex_init:
  "\<exists>s0. qdevice_model_net_init ex_env (0, net_algorithms) (Some (ex_net TLV_DECISION_ALGORITHM_TYPE_TEST))
     (ex_qdev n) = Inr (0, s0) \<and> fst (qdevice_model_net_pre_poll_loop ex_env s0) = 0"
  by (simp add: qdevice_model_net_init_def qdevice_net_cast_vote_timer_update_def cast_vote_timer_stop_def
      qdevice_net_algorithm_init_def with_algorithm_def net_algorithms_cases net_test_defs ex_env_def ex_net_def
      qdevice_net_instance_init_def upd_net_def qdevice_net_static_supported_decision_algorithms_size_def
      qdevice_net_heuristics_init_def on_heuristics_def qdevice_heuristics_result_notifier_list_add_def
      qdevice_heuristics_result_notifier_list_get_def ex_qdev_def qdevice_heuristics_instance_init_def
      set_algo_data_def qdevice_model_net_pre_poll_loop_def qd_timer_add_def timer_start_def
      timer_list_max_interval_def nss_sock_non_blocking_client_init_def nss_sock_non_blocking_client_try_next_def
      qdevice_net_socket_add_to_main_poll_loop_def Let_def)

section \<open>The running client\<close>

text \<open>
  The state after \<open>qdevice_model_net_init\<close>: the vote is ASK_LATER, nothing was cast, and no timer
  but those that ran before is running.
\<close>

lemma model_net_init_core:
  assumes "qdevice_model_net_init ev (r, net_algorithms) (Some n) s = Inr (0, s')"
  shows "vote_core s' = vote_core (cast_vote_timer_stop (upd_net (\<lambda>n. n\<lparr>qn_cast_vote_timer_vote := TLV_VOTE_ASK_LATER\<rparr>)
    (s\<lparr>qd_net := n\<rparr>)))"
proof -
  let ?q = "cast_vote_timer_stop (upd_net (\<lambda>n. n\<lparr>qn_cast_vote_timer_vote := TLV_VOTE_ASK_LATER\<rparr>) (s\<lparr>qd_net := n\<rparr>))"
  have "qdevice_net_cast_vote_timer_update ev TLV_VOTE_ASK_LATER (s\<lparr>qd_net := n\<rparr>) = Inr (0, ?q)"
    by (simp add: qdevice_net_cast_vote_timer_update_def Let_def)
  with assms obtain r3 q3 where a: "qdevice_net_algorithm_init net_algorithms ev ?q = Inr (r3, q3)"
    and s': "s' = snd (qdevice_net_heuristics_init (ev_al ev) q3)"
    by (auto simp: qdevice_model_net_init_def Let_def bindE_Inr_iff split: if_splits prod.splits)
  have "vote_core q3 = vote_core ?q"
    using net_dispatch_contract(1) [of ?q ev] a by (auto simp: res_ok_def intro: core_algo_frame)
  then show ?thesis
    by (simp add: s' qdevice_net_heuristics_init_def core_on_heuristics)
qed

lemma register_all_eq: "qdevice_net_algorithm_register_all (\<lambda>i. None) = (0, net_algorithms)"
  using net_algorithms_cases(1) by (simp add: net_algorithms_def prod_eq_iff)

text \<open>
  C2. A client that was just started and ran for any time, under any sequence of messages, timers,
  notifications and reconnects, has cast no ACK and does not vote ACK, as long as the server has not
  sent it an ACK: no read from the socket has delivered a complete message that carries the vote
  ACK, while the client was connected, for the ring that the client reported last.
\<close>

theorem qdevice_ack_needs_server:
  assumes "qdevice_model_net_init ev (qdevice_net_algorithm_register_all (\<lambda>i. None)) (Some n) qd = Inr (0, s0)"
    and "qdevice_model_net_pre_poll_loop ev s0 = (0, s1)"
    and "qdevice_run (\<lambda>ev. True) (\<lambda>v. v \<noteq> TLV_VOTE_ACK) s1 s"
  shows "filter fst (qd_polls s) = filter fst (qd_polls qd) \<and> qn_cast_vote_timer_vote (qd_net s) \<noteq> TLV_VOTE_ACK"
proof -
  have s0: "qn_cast_vote_timer_vote (qd_net s0) = TLV_VOTE_ASK_LATER" "qd_polls s0 = qd_polls qd"
    using model_net_init_core [OF assms(1) [unfolded register_all_eq]]
    by (auto simp: vote_core_def cast_vote_timer_stop_def upd_net_def qd_timer_delete_def split: option.splits)
  have "no_new_ack s0 s1"
    using no_new_ack_trans [OF no_new_ack_timers(2) no_new_ack_core [OF core_pre_poll]] assms(2)
    by (metis snd_conv)
  moreover have "no_new_ack s1 s"
    by (rule no_ack.run_respects [OF assms(3)]) simp
  ultimately have "no_new_ack s0 s" by (rule no_new_ack_trans)
  with s0 show ?thesis
    by (auto simp: no_new_ack_def filter_empty_conv)
qed

theorem qdevice_ack_needs_server_witness:
  "\<exists>s0 s1 s. qdevice_model_net_init ex_env (qdevice_net_algorithm_register_all (\<lambda>i. None))
       (Some (ex_net TLV_DECISION_ALGORITHM_TYPE_TEST)) (ex_qdev (ex_net TLV_DECISION_ALGORITHM_TYPE_TEST)) = Inr (0, s0) \<and>
     qdevice_model_net_pre_poll_loop ex_env s0 = (0, s1) \<and> snd (socket_err_cb s1) = s \<and>
     filter fst (qd_polls s) = [] \<and> qn_cast_vote_timer_vote (qd_net s) \<noteq> TLV_VOTE_ACK"
proof -
  obtain s0 s1 where init: "qdevice_model_net_init ex_env (qdevice_net_algorithm_register_all (\<lambda>i. None))
       (Some (ex_net TLV_DECISION_ALGORITHM_TYPE_TEST)) (ex_qdev (ex_net TLV_DECISION_ALGORITHM_TYPE_TEST)) = Inr (0, s0)"
    and pre: "qdevice_model_net_pre_poll_loop ex_env s0 = (0, s1)"
    using ex_init unfolding register_all_eq by (metis prod.collapse)
  obtain s where err: "socket_err_cb s1 = (-1, s)" by (simp add: socket_err_cb_def)
  have "qdevice_run (\<lambda>ev. True) (\<lambda>v. v \<noteq> TLV_VOTE_ACK) s1 s"
    by (rule qdevice_run.step [OF qdevice_run.start qdevice_step.socket_err [OF err, of ex_env]]) simp_all
  from qdevice_ack_needs_server [OF init pre this] init pre err show ?thesis
    by (auto simp: ex_qdev_def)
qed

text \<open>
  C4. In every state that the client reaches while the calls of \<open>votequorum_qdevice_poll\<close> succeed, each
  running timer is known by exactly the handle of its kind and each handle belongs to a running
  timer. The timer that casts the vote runs only while the vote is ACK or NACK, so that its
  callback never ends the process.
\<close>

theorem qdevice_timers_consistent:
  assumes "qdevice_model_net_init ev (qdevice_net_algorithm_register_all (\<lambda>i. None))
      (Some (qdevice_net_instance_init tls alg hb shb cvt name tb ct kap st)) qd = Inr (0, s0)"
    and "qd_timers qd = []"
    and "qdevice_model_net_pre_poll_loop ev s0 = (0, s1)"
    and "qdevice_run polls_succeed (\<lambda>v. True) s1 s"
  shows "timers_known s \<and> (\<forall>ev t i f. map_of (qd_timers s) t = Some (Cast_Vote_Timer, i) \<longrightarrow>
    qdev_timer_fire ev net_algorithms t s \<noteq> Inl f)"
proof -
  note core0 = model_net_init_core [OF assms(1) [unfolded register_all_eq]]
  have "timers_known s0" and none: "qn_connect_timer (qd_net s0) = None"
    using core0 assms(2) unfolding timers_known_core [OF core0]
    by (auto simp: cast_vote_timer_stop_def upd_net_def qdevice_net_instance_init_def timers_known_def
        timers_known_by_def handles_def vote_core_def split: option.splits qdev_timer.splits)
  then have "timers_known s1"
    using known.pre_poll [OF none, of ev] assms(3) by simp
  then have known: "timers_known s"
    using known.run_respects [OF assms(4)] by simp
  moreover have "qdev_timer_fire ev net_algorithms t s \<noteq> Inl f"
    if "map_of (qd_timers s) t = Some (Cast_Vote_Timer, i)" for ev t i f
  proof -
    from map_of_SomeD [OF that] known
    have "qn_cast_vote_timer_vote (qd_net s) = TLV_VOTE_ACK \<or> qn_cast_vote_timer_vote (qd_net s) = TLV_VOTE_NACK"
      by (auto simp: timers_known_def timers_known_by_def)
    then show ?thesis
      by (auto simp: qdev_timer_fire_def that qdev_timer_callback_def qdevice_net_cast_vote_timer_callback_def Let_def
          split: prod.split)
  qed
  ultimately show ?thesis by blast
qed

theorem qdevice_timers_consistent_witness:
  "\<exists>s0 s1 s. qdevice_model_net_init ex_env (qdevice_net_algorithm_register_all (\<lambda>i. None))
       (Some (ex_net TLV_DECISION_ALGORITHM_TYPE_TEST)) (ex_qdev (ex_net TLV_DECISION_ALGORITHM_TYPE_TEST)) = Inr (0, s0) \<and>
     qdevice_model_net_pre_poll_loop ex_env s0 = (0, s1) \<and> snd (socket_err_cb s1) = s \<and> timers_known s"
proof -
  obtain s0 s1 where init: "qdevice_model_net_init ex_env (qdevice_net_algorithm_register_all (\<lambda>i. None))
       (Some (ex_net TLV_DECISION_ALGORITHM_TYPE_TEST)) (ex_qdev (ex_net TLV_DECISION_ALGORITHM_TYPE_TEST)) = Inr (0, s0)"
    and pre: "qdevice_model_net_pre_poll_loop ex_env s0 = (0, s1)"
    using ex_init unfolding register_all_eq by (metis prod.collapse)
  obtain s where err: "socket_err_cb s1 = (-1, s)" by (simp add: socket_err_cb_def)
  have run: "qdevice_run polls_succeed (\<lambda>v. True) s1 s"
    by (rule qdevice_run.step [OF qdevice_run.start qdevice_step.socket_err [OF err, of ex_env]])
       (simp_all add: ex_env_polls)
  have "qd_timers (ex_qdev (ex_net TLV_DECISION_ALGORITHM_TYPE_TEST)) = []" by (simp add: ex_qdev_def)
  from qdevice_timers_consistent [OF init [unfolded ex_net_def] this [unfolded ex_net_def] pre run] init pre err
  show ?thesis by auto
qed

end
