(* ===== verification/Vote_Delivery.thy ===== *)
theory Vote_Delivery
  imports Qdevice_Props Msg_Roundtrip
begin

text \<open>
  From the daemon to votequorum: the message that the daemon creates for a vote is decoded by the
  client, the vote is cast at once for the ring that corosync has told the client, and the
  confirmation that the algorithms of the daemon wait for is queued. The last section has the case
  in which a vote outlives the ring that it was given for.
\<close>

section \<open>Casting a vote\<close>

text \<open>The decoded message depends on the bytes that were received only.\<close>

lemma decode_bytes:
  assumes "dyn_data b = msg_bytes t tvs" and "msg_type_of (msg_type_code t) = t"
    and "decodes al (msg_decoded_init\<lparr>md_type := t\<rparr>) tvs d" and "tvs \<noteq> []"
  shows "msg_decode al junk b msg_decoded_init = Inr (0, d)"
proof -
  have "drop 6 (dyn_data b) = tlvs_bytes tvs" using assms(1) by (simp add: msg_bytes_def)
  moreover have "tlv_split (tlvs_bytes tvs) = (tvs, True)"
    using assms(3,4) by (intro tlv_split_bytes) (simp_all add: decodes_def)
  ultimately show ?thesis
    using assms(3) msg_get_type_bytes [OF assms(1,2), of junk]
    by (simp add: msg_decode_fold [OF destroy_init] decodes_def)
qed

lemma decode_vote_info:
  assumes "msg_create_vote_info al' m seq ring v = (n, m')" and "n \<noteq> 0" and "v \<noteq> TLV_VOTE_UNDEFINED"
    and "dyn_data b = dyn_data m'"
  shows "\<exists>d. msg_decode al junk b msg_decoded_init = Inr (0, d) \<and> md_type d = MSG_TYPE_VOTE_INFO \<and>
    md_seq_number_set d \<and> md_seq_number d = seq \<and> md_vote_set d \<and> md_vote d = v \<and> md_ring_id_set d \<and>
    md_ring_id d = ring \<and> msg_decoded_destroy d = Inr msg_decoded_init"
proof -
  have b: "dyn_data b = msg_bytes MSG_TYPE_VOTE_INFO
      ([(TLV_OPT_MSG_SEQ_NUMBER, be32 seq)] @ [(TLV_OPT_VOTE, [tlv_vote_code v])] @
       [(TLV_OPT_RING_ID, ring_id_bytes ring)] @ [])"
    using creates_data [OF creates_vote_info(1) assms(1,2)] assms(4) by simp
  show ?thesis
    by (intro exI conjI, rule decode_bytes [OF b], simp add: msg_type_of_def,
        (rule decode_chain assms)+, simp_all add: msg_decoded_destroy_def msg_decoded_init_def)
qed

lemma update_casts:
  assumes "polls_succeed ev" and "v = TLV_VOTE_ACK \<or> v = TLV_VOTE_NACK" and "\<not> qn_cast_vote_timer_paused (qd_net s)"
    and "qn_cast_vote_timer (qd_net s) \<noteq> None \<or> timer_start (ev_al ev) (qn_cast_vote_timer_interval (qd_net s)) \<noteq> None"
  shows "\<exists>s'. qdevice_net_cast_vote_timer_update ev v s = Inr (0, s') \<and> qn_cast_vote_timer_vote (qd_net s') = v \<and>
    qd_polls s' = qd_polls s @ [(v = TLV_VOTE_ACK, qd_vq_poll_ring_id s)] \<and>
    qn_send_buffer_list (qd_net s') = qn_send_buffer_list (qd_net s)"
  using assms(2-4)
  by (auto simp: qdevice_net_cast_vote_timer_update_def cast_vote_timer_start_def qd_timer_add_def
      qdevice_net_cast_vote_timer_callback_def poll_result [OF assms(1)] upd_net_def Let_def split: option.splits)

lemma algorithm_takes_vote_info:
  assumes "unat (tlv_decision_algorithm_type_code (qn_decision_algorithm (qd_net s))) < 4"
  shows "qdevice_net_algorithm_vote_info_received net_algorithms True v s = Inr (0, v, s)"
proof -
  let ?n = "unat (tlv_decision_algorithm_type_code (qn_decision_algorithm (qd_net s)))"
  from assms consider "?n = 0" | "?n = 1" | "?n = 2" | "?n = 3" by linarith
  then show ?thesis
    by cases (simp_all add: qdevice_net_algorithm_vote_info_received_def with_algorithm_def net_algorithms_cases
      qdevice_net_static_supported_decision_algorithms_size_def Let_def net_test_defs net_ffsplit_defs
      net_2nodelms_defs net_lms_defs del: One_nat_def)
qed

lemma net_send_queues:
  assumes "creates al (create n) t tvs" and "alloc_ideal al" and "sbl_inv 0 (qn_send_buffer_list (qd_net s))"
    and "sbl_room (qn_send_buffer_list (qd_net s))"
    and "6 + length (tlvs_bytes tvs) \<le> sbl_max_buffer_size (qn_send_buffer_list (qd_net s))" and "n = qd_net s"
  shows "\<exists>s'. net_send al (\<lambda>n. n) create s = (0, s') \<and>
    queued (qn_send_buffer_list (qd_net s')) = queued (qn_send_buffer_list (qd_net s)) @ [msg_bytes t tvs]"
proof -
  obtain e sbl where g: "send_buffer_list_get_new al (qn_send_buffer_list (qd_net s)) = (Some e, sbl)"
    using get_new_room [OF assms(2), of "qn_send_buffer_list (qd_net s)"] assms(4)
    by (cases "send_buffer_list_get_new al (qn_send_buffer_list (qd_net s))") auto
  have size: "dyn_maximum_size (sb_buffer e) = sbl_max_buffer_size (qn_send_buffer_list (qd_net s))"
    using sbl_inv_get_new [OF assms(3) g] by simp
  obtain len buf where c: "create n (sb_buffer e) = (len, buf)" by fastforce
  have len: "len \<noteq> 0"
    using creates_room [OF assms(1,2)] size assms(5) c by (metis fst_conv)
  have data: "dyn_data buf = msg_bytes t tvs" by (rule creates_data [OF assms(1) c len])
  show ?thesis
    using len data queued_get_new [OF g] c assms(6)
    by (simp add: net_send_def g upd_net_def Let_def sbq.contents_put)
qed

text \<open>
  C3. The vote that the daemon sends reaches votequorum: when the client is connected and the ring
  of the message is the one that it reported last, a \<open>VOTE_INFO\<close> message with ACK or NACK, as created
  by the daemon, makes the client cast exactly this vote, for the ring that corosync reported last,
  keep it as the vote of its timer, and queue the reply with the sequence number of the message.
  This holds for all four algorithms. It needs memory, a timer, and that the timer is not paused.
\<close>

theorem vote_info_is_cast:
  assumes created: "msg_create_vote_info al' m seq ring v = (n, m')" "n \<noteq> 0"
    and received: "dyn_data (qn_receive_buffer (qd_net s)) = dyn_data m'"
    and vote: "v = TLV_VOTE_ACK \<or> v = TLV_VOTE_NACK"
    and ready: "qn_state (qd_net s) = QDEVICE_NET_INSTANCE_STATE_WAITING_VOTEQUORUM_CMAP_EVENTS"
      "ring = qn_last_sent_ring_id (qd_net s)" "\<not> qn_cast_vote_timer_paused (qd_net s)"
      "unat (tlv_decision_algorithm_type_code (qn_decision_algorithm (qd_net s))) < 4"
    and env: "polls_succeed ev" "alloc_ideal (ev_al ev)"
      "qn_cast_vote_timer (qd_net s) \<noteq> None \<or> timer_start (ev_al ev) (qn_cast_vote_timer_interval (qd_net s)) \<noteq> None"
    and room: "sbl_inv 0 (qn_send_buffer_list (qd_net s))" "sbl_room (qn_send_buffer_list (qd_net s))"
      "14 \<le> sbl_max_buffer_size (qn_send_buffer_list (qd_net s))"
  shows "\<exists>s'. qdevice_net_msg_received ev net_algorithms s = Inr (0, s') \<and>
    qn_cast_vote_timer_vote (qd_net s') = v \<and>
    qd_polls s' = qd_polls s @ [(v = TLV_VOTE_ACK, qd_vq_poll_ring_id s)] \<and>
    queued (qn_send_buffer_list (qd_net s')) = queued (qn_send_buffer_list (qd_net s)) @
      [msg_bytes MSG_TYPE_VOTE_INFO_REPLY [(TLV_OPT_MSG_SEQ_NUMBER, be32 seq)]]"
proof -
  from vote have "v \<noteq> TLV_VOTE_UNDEFINED" by auto
  from decode_vote_info [OF created this received, of "ev_al ev" "ev_junk ev"] obtain d where
    dec: "msg_decode (ev_al ev) (ev_junk ev) (qn_receive_buffer (qd_net s)) msg_decoded_init = Inr (0, d)"
    and d: "md_type d = MSG_TYPE_VOTE_INFO" "md_seq_number_set d" "md_seq_number d = seq" "md_vote_set d"
      "md_vote d = v" "md_ring_id_set d" "md_ring_id d = ring" "msg_decoded_destroy d = Inr msg_decoded_init"
    by blast
  from update_casts [OF env(1) vote ready(3) env(3)] obtain s1 where
    upd: "qdevice_net_cast_vote_timer_update ev v s = Inr (0, s1)"
    and s1: "qn_cast_vote_timer_vote (qd_net s1) = v"
      "qd_polls s1 = qd_polls s @ [(v = TLV_VOTE_ACK, qd_vq_poll_ring_id s)]"
      "qn_send_buffer_list (qd_net s1) = qn_send_buffer_list (qd_net s)"
    by blast
  let ?create = "\<lambda>n buf. msg_create_vote_info_reply (ev_al ev) buf (md_seq_number d)"
  have "creates (ev_al ev) (?create (qd_net s1)) MSG_TYPE_VOTE_INFO_REPLY [(TLV_OPT_MSG_SEQ_NUMBER, be32 seq)]"
    using creates_vote_info(2) [of "ev_al ev" seq] by (simp add: d)
  from net_send_queues [OF this env(2), of s1] room s1(3) obtain s2 where
    send: "net_send (ev_al ev) (\<lambda>n. n) ?create s1 = (0, s2)"
    and q: "queued (qn_send_buffer_list (qd_net s2)) = queued (qn_send_buffer_list (qd_net s)) @
      [msg_bytes MSG_TYPE_VOTE_INFO_REPLY [(TLV_OPT_MSG_SEQ_NUMBER, be32 seq)]]"
    by (auto simp: tlvs_bytes_def tlv_bytes_def)
  have core: "vote_core s2 = vote_core s1"
    using core_net_send [of "\<lambda>n. n" "ev_al ev" ?create s1] send by simp
  have "net_msg_dispatch ev net_algorithms d s = Inr (0, s2)"
    using ready(1,2) algorithm_takes_vote_info [OF ready(4)] d upd send
    by (simp add: net_msg_dispatch_def qdevice_net_msg_received_vote_info_def not_ready_def reply_vote_def
        reply_ring_valid_def tlv_ring_id_eq_def)
  then have "qdevice_net_msg_received ev net_algorithms s = Inr (0, s2)"
    by (simp add: qdevice_net_msg_received_def dec d(8))
  with q core s1 show ?thesis by (auto simp: vote_core_def)
qed

definition ex_connected :: "tlv_decision_algorithm_type \<Rightarrow> dynar \<Rightarrow> qdevice_instance" where
  "ex_connected algorithm buf =
     ex_qdev ((ex_net algorithm)\<lparr>qn_state := QDEVICE_NET_INSTANCE_STATE_WAITING_VOTEQUORUM_CMAP_EVENTS,
       qn_socket := True, qn_receive_buffer := buf, qn_last_sent_ring_id := \<lparr>rid_node_id = 1, rid_seq = 8\<rparr>\<rparr>)"

theorem vote_info_is_cast_witness:
  "\<exists>n m' s'. msg_create_vote_info (\<lambda>r. True) (dynar_init 1000) 7 \<lparr>rid_node_id = 1, rid_seq = 8\<rparr> TLV_VOTE_ACK = (n, m') \<and>
     qdevice_net_msg_received ex_env net_algorithms (ex_connected TLV_DECISION_ALGORITHM_TYPE_FFSPLIT m') = Inr (0, s') \<and>
     qd_polls (s' :: qdevice_instance) = [(True, \<lparr>vrid_nodeid = 1, vrid_seq = 8\<rparr>)]"
proof -
  let ?f = "\<lambda>msg. msg_create_vote_info (\<lambda>r. True) msg 7 \<lparr>rid_node_id = 1, rid_seq = 8\<rparr> TLV_VOTE_ACK"
  let ?s = "ex_connected TLV_DECISION_ALGORITHM_TYPE_FFSPLIT"
  obtain n m' where c: "?f (dynar_init 1000) = (n, m')" by fastforce
  have "fst (?f (dynar_init 1000)) \<noteq> 0"
    by (rule creates_room [OF creates_vote_info(1)]) (simp_all add: alloc_ideal_def dynar_init_def)
  with c have n: "n \<noteq> 0" by simp
  have sbl: "qn_send_buffer_list (qd_net (?s m')) = send_buffer_list_init 10 32768"
    by (simp add: ex_connected_def ex_qdev_def ex_net_def qdevice_default_settings_def qdevice_net_instance_init_def)
  have "\<exists>s'. qdevice_net_msg_received ex_env net_algorithms (?s m') = Inr (0, s') \<and>
      qn_cast_vote_timer_vote (qd_net s') = TLV_VOTE_ACK \<and>
      qd_polls s' = qd_polls (?s m') @ [(TLV_VOTE_ACK = TLV_VOTE_ACK, qd_vq_poll_ring_id (?s m'))] \<and>
      queued (qn_send_buffer_list (qd_net s')) = queued (qn_send_buffer_list (qd_net (?s m'))) @
        [msg_bytes MSG_TYPE_VOTE_INFO_REPLY [(TLV_OPT_MSG_SEQ_NUMBER, be32 7)]]"
    by (rule vote_info_is_cast [OF c n _ _ _ _ _ _ ex_env_polls])
       (simp_all add: sbl sbl_inv_def sbl_room_def send_buffer_list_init_def ex_connected_def ex_qdev_def ex_net_def qdevice_default_settings_def
         qdevice_net_instance_init_def ex_env_def alloc_ideal_def timer_start_def timer_list_max_interval_def)
  with c show ?thesis by (auto simp: ex_connected_def ex_qdev_def)
qed

section \<open>A vote that outlives its ring\<close>

lemma keep_algorithms:
  assumes "qn_decision_algorithm (qd_net s) = TLV_DECISION_ALGORITHM_TYPE_TEST \<or>
      qn_decision_algorithm (qd_net s) = TLV_DECISION_ALGORITHM_TYPE_2NODELMS"
  shows "qdevice_net_algorithm_votequorum_node_list_notify net_algorithms b v s = Inr (0, b, v, s)"
    and "qdevice_net_algorithm_disconnected net_algorithms b v s = Inr (0, b, v, s)"
  using assms
  by (auto simp: qdevice_net_algorithm_votequorum_node_list_notify_def qdevice_net_algorithm_disconnected_def
      with_algorithm_def net_algorithms_cases qdevice_net_static_supported_decision_algorithms_size_def Let_def
      net_test_defs net_2nodelms_defs)

text \<open>What casts the vote: the vote, the handle of the timer and the ring.\<close>

definition casting :: "qdevice_instance \<Rightarrow> tlv_vote \<times> timer_id option \<times> votequorum_ring_id \<times> tlv_ring_id \<times>
    (bool \<times> votequorum_ring_id) list" where
  "casting s = (qn_cast_vote_timer_vote (qd_net s), qn_cast_vote_timer (qd_net s), qd_vq_poll_ring_id s,
     qn_last_sent_ring_id (qd_net s), qd_polls s)"

text \<open>
  With these algorithms the end of a run of the poll loop only stops timers, names the reason and
  lets the vote timer run again before it cleans up.
\<close>

definition loop_left :: "qdevice_model_post_poll_loop_exit_reason \<Rightarrow> qdevice_instance \<Rightarrow> qdevice_instance" where
  "loop_left er s = qdevice_net_cast_vote_timer_set_paused False (set_reason
     (exit_disconnect_reason er (qn_disconnect_reason (qd_net (echo_request_timer_stop (connect_timer_stop s)))))
     (echo_request_timer_stop (connect_timer_stop s)))"

lemma loop_left_keeps:
  "casting (loop_left er s) = casting s" "\<not> qn_cast_vote_timer_paused (qd_net (loop_left er s))"
  "qn_decision_algorithm (qd_net (loop_left er s)) = qn_decision_algorithm (qd_net s)"
  "qn_cast_vote_timer_interval (qd_net (loop_left er s)) = qn_cast_vote_timer_interval (qd_net s)"
  by (auto simp: loop_left_def casting_def qdevice_net_cast_vote_timer_set_paused_def set_reason_def
      echo_request_timer_stop_def connect_timer_stop_def upd_net_def qd_timer_delete_def split: option.split)

lemma post_poll_loop_left:
  assumes "qn_decision_algorithm (qd_net s) = TLV_DECISION_ALGORITHM_TYPE_TEST \<or>
      qn_decision_algorithm (qd_net s) = TLV_DECISION_ALGORITHM_TYPE_2NODELMS"
  obtains b where "qdevice_model_net_post_poll_loop ev net_algorithms er s = post_poll_loop_finish ev b (loop_left er s)"
  using assms keep_algorithms(2) [of "loop_left er s"]
  by (auto simp: qdevice_model_net_post_poll_loop_def Let_def loop_left_def [symmetric] loop_left_keeps
      qdevice_net_cast_vote_timer_update_def)

lemma post_poll_loop_finish_keeps:
  "post_poll_loop_finish ev b s = Inr (r, s') \<Longrightarrow>
     casting s' = casting s \<and> qn_cast_vote_timer_paused (qd_net s') = qn_cast_vote_timer_paused (qd_net s)"
  "reconnect_delay_ok (qn_cast_vote_timer_interval (qd_net s)) \<Longrightarrow> \<exists>r s'. post_poll_loop_finish ev b s = Inr (r, s')"
  by (auto simp: post_poll_loop_finish_def Let_def casting_def qdevice_net_instance_clean_def upd_net_def
      nss_sock_non_blocking_client_destroy_def split: if_splits)

lemma pre_poll_loop_keeps:
  "casting (snd (qdevice_model_net_pre_poll_loop ev s)) = casting s"
  "qn_cast_vote_timer_paused (qd_net (snd (qdevice_model_net_pre_poll_loop ev s))) = qn_cast_vote_timer_paused (qd_net s)"
  by (auto simp: qdevice_model_net_pre_poll_loop_def Let_def qd_timer_add_def casting_def upd_net_def
      nss_sock_non_blocking_client_init_def nss_sock_non_blocking_client_destroy_def split: option.split)

lemma restart_keeps_vote:
  assumes "qn_decision_algorithm (qd_net s) = TLV_DECISION_ALGORITHM_TYPE_TEST \<or>
      qn_decision_algorithm (qd_net s) = TLV_DECISION_ALGORITHM_TYPE_2NODELMS"
    and "main_loop_restart ev net_algorithms closed s = Inr (go_on, r, s')"
  shows "casting s' = casting s \<and> \<not> qn_cast_vote_timer_paused (qd_net s')"
proof -
  from assms(2) obtain r1 s1 where
    run: "qdevice_model_net_post_poll_loop ev net_algorithms (main_loop_exit_reason closed s) s = Inr (r1, s1)"
    and s': "s' = s1 \<or> s' = snd (qdevice_model_net_pre_poll_loop ev s1)"
    by (auto simp: main_loop_restart_def bindE_Inr_iff split: if_splits prod.splits)
  from run have "casting s1 = casting s \<and> \<not> qn_cast_vote_timer_paused (qd_net s1)"
    using post_poll_loop_left [OF assms(1)] post_poll_loop_finish_keeps(1) loop_left_keeps(1,2) by metis
  with s' show ?thesis using pre_poll_loop_keeps by auto
qed

lemma restart_runs:
  assumes "qn_decision_algorithm (qd_net s) = TLV_DECISION_ALGORITHM_TYPE_TEST \<or>
      qn_decision_algorithm (qd_net s) = TLV_DECISION_ALGORITHM_TYPE_2NODELMS"
    and "reconnect_delay_ok (qn_cast_vote_timer_interval (qd_net s))"
  obtains go_on r s' where "main_loop_restart ev net_algorithms closed s = Inr (go_on, r, s')"
proof -
  from assms obtain r1 s1 where
    "qdevice_model_net_post_poll_loop ev net_algorithms (main_loop_exit_reason closed s) s = Inr (r1, s1)"
    using post_poll_loop_left [OF assms(1)] post_poll_loop_finish_keeps(2) loop_left_keeps(4) by metis
  then have "\<exists>go_on r s'. main_loop_restart ev net_algorithms closed s = Inr (go_on, r, s')"
    by (auto simp: main_loop_restart_def split: prod.split)
  then show ?thesis using that by blast
qed

lemma node_list_pauses:
  assumes "qn_decision_algorithm (qd_net s) = TLV_DECISION_ALGORITHM_TYPE_TEST \<or>
      qn_decision_algorithm (qd_net s) = TLV_DECISION_ALGORITHM_TYPE_2NODELMS"
    and "qn_state (qd_net s) = QDEVICE_NET_INSTANCE_STATE_WAITING_VOTEQUORUM_CMAP_EVENTS"
    and "qn_regular_heuristics_timer (qd_net s) = None"
  shows "qdevice_model_net_votequorum_node_list_notify ev net_algorithms rid nodes s =
      Inr (0, qdevice_net_cast_vote_timer_set_paused True s)"
  using assms(2,3) keep_algorithms(1) [OF assms(1)]
  by (simp add: qdevice_model_net_votequorum_node_list_notify_def qdevice_net_heuristics_stop_timer_def
      change_vote_def qdevice_net_cast_vote_timer_update_def not_ready_def)

text \<open>
  C39. A vote can be cast for a ring that the server has not been asked about. With the algorithms
  \<open>test\<close> and \<open>2nodelms\<close>, a connected client that votes ACK pauses its timer when corosync reports a
  new ring, and does not change the vote. When the connection is lost before the result of the
  heuristics is there, the end of the poll loop lets the timer run again with the old vote, and its
  next call casts ACK for the new ring, while the ring that the server knows is still the old one.
\<close>

theorem qdevice_ack_outlives_ring:
  assumes "qn_decision_algorithm (qd_net s) = TLV_DECISION_ALGORITHM_TYPE_TEST \<or>
      qn_decision_algorithm (qd_net s) = TLV_DECISION_ALGORITHM_TYPE_2NODELMS"
    and "qn_state (qd_net s) = QDEVICE_NET_INSTANCE_STATE_WAITING_VOTEQUORUM_CMAP_EVENTS"
    and "qn_cast_vote_timer_vote (qd_net s) = TLV_VOTE_ACK" and "qn_cast_vote_timer (qd_net s) = Some t"
    and "qn_regular_heuristics_timer (qd_net s) = None" and "timers_known s" and "polls_succeed ev"
    and notify: "qdevice_votequorum_node_list_notify_callback ev net_algorithms rid nodes s = Inr s1"
    and lost: "socket_err_cb s1 = (r, s2)"
    and restart: "main_loop_restart ev net_algorithms closed s2 = Inr (go_on, r', s3)"
  shows "\<exists>s4. qdev_timer_fire ev net_algorithms t s3 = Inr s4 \<and>
    qd_polls s4 = qd_polls s @ [(True, rid)] \<and> qn_last_sent_ring_id (qd_net s4) = qn_last_sent_ring_id (qd_net s)"
proof -
  define s0 where "s0 = s\<lparr>qd_sync_in_progress := True, qd_vq_poll_ring_id := rid\<rparr>"
  have "qdevice_model_net_votequorum_node_list_notify ev net_algorithms rid nodes s0 =
      Inr (0, qdevice_net_cast_vote_timer_set_paused True s0)"
    by (rule node_list_pauses) (use assms(1,2,5) in \<open>simp_all add: s0_def\<close>)
  with notify have net1: "qd_net s1 = qd_net (qdevice_net_cast_vote_timer_set_paused True s0)"
    and poll1: "qd_vq_poll_ring_id s1 = rid" "qd_polls s1 = qd_polls s"
    by (auto simp: qdevice_votequorum_node_list_notify_callback_def or_exit_def s0_def [symmetric]
        notifier_set_active_def on_heuristics_def split: prod.splits if_splits)
       (auto simp: s0_def qdevice_net_cast_vote_timer_set_paused_def upd_net_def)
  from net1 poll1 assms(3,4) lost
  have s2: "casting s2 = (TLV_VOTE_ACK, Some t, rid, qn_last_sent_ring_id (qd_net s), qd_polls s)"
    and alg: "qn_decision_algorithm (qd_net s2) = qn_decision_algorithm (qd_net s)"
    by (auto simp: casting_def socket_err_cb_def set_reason_def set_schedule_disconnect_def upd_net_def s0_def
        qdevice_net_cast_vote_timer_set_paused_def)
  have s3: "casting s3 = casting s2" "\<not> qn_cast_vote_timer_paused (qd_net s3)"
    using restart_keeps_vote [OF _ restart] assms(1) alg by simp_all
  have "qdevice_run polls_succeed (\<lambda>v. True) s s3"
    by (rule qdevice_run.step [OF qdevice_run.step [OF qdevice_run.step [OF qdevice_run.start
          qdevice_step.node_list [OF notify]] qdevice_step.socket_err [OF lost, of ev]]
          qdevice_step.restart [OF restart]]) (simp_all add: assms(7))
  with assms(6) have "timers_known s3" using known.run_respects by blast
  moreover have "handles s3 Cast_Vote_Timer = Some t" using s2 s3 by (simp add: casting_def handles_def)
  ultimately obtain i where "distinct (map fst (qd_timers s3))" "(t, Cast_Vote_Timer, i) \<in> set (qd_timers s3)"
    unfolding timers_known_def timers_known_by_def by blast
  then have "map_of (qd_timers s3) t = Some (Cast_Vote_Timer, i)" by (rule map_of_is_SomeI)
  with s2 s3 show ?thesis
    by (simp add: qdev_timer_fire_def qdev_timer_callback_def qdevice_net_cast_vote_timer_callback_def
        poll_result [OF assms(7)] casting_def Let_def)
qed

definition ex_voting :: qdevice_instance where
  "ex_voting = snd (cast_vote_timer_start ex_env (upd_net (\<lambda>n. n\<lparr>qn_cast_vote_timer_vote := TLV_VOTE_ACK\<rparr>)
     (ex_connected TLV_DECISION_ALGORITHM_TYPE_2NODELMS (dynar_init 32768))))"

lemmas ex_voting_defs = ex_voting_def ex_connected_def ex_qdev_def ex_net_def qdevice_default_settings_def qdevice_net_instance_init_def
  cast_vote_timer_start_def qd_timer_add_def upd_net_def ex_env_def timer_start_def timer_list_max_interval_def
  fresh_ref_def

lemma ex_voting_known: "timers_known ex_voting"
  unfolding ex_voting_def
  by (rule timers_known_start)
     (auto simp: timers_known_def timers_known_by_def handles_def ex_connected_def ex_qdev_def ex_net_def qdevice_default_settings_def
       qdevice_net_instance_init_def split: qdev_timer.split)

lemma ex_voting_notify:
  "\<exists>s1. qdevice_votequorum_node_list_notify_callback ex_env net_algorithms
       \<lparr>vrid_nodeid = 1, vrid_seq = 12\<rparr> [1] ex_voting = Inr s1 \<and>
     qn_decision_algorithm (qd_net s1) = TLV_DECISION_ALGORITHM_TYPE_2NODELMS \<and>
     qn_cast_vote_timer_interval (qd_net s1) = 4000"
proof -
  have "dec_digits 0 = [48]" "dec_digits (Suc 0) = [49]"
    by (simp_all add: dec_digits.simps)
  then have "fst (qdevice_heuristics_exec (\<lambda>r. True) True
      ((qdevice_heuristics_instance_init 10 4096)\<lparr>qh_exec_result_notifier_list := nl\<rparr>)) = 0" for nl
    by (simp add: qdevice_heuristics_exec_def qdevice_heuristics_instance_init_def
        qdevice_heuristics_cmd_write_exec_def cmd_queue_def send_buffer_list_get_new_def sbl_defs
        dynar_str_cpy_def dynar_str_cat_def dynar_cat_def dynar_prealloc_def dynar_realloc_def dynar_defs
        dynar_str_vcatf_def str_bytes_def cmd_str_exec_def Let_def)
  then show ?thesis
    by (simp add: node_list_pauses qdevice_votequorum_node_list_notify_callback_def or_exit_def
        ex_voting_defs qdevice_net_cast_vote_timer_set_paused_def notifier_set_active_def on_heuristics_def
        qdevice_heuristics_result_notifier_list_set_active_def qdevice_heuristics_result_notifier_list_get_def
        split_beta)
qed

theorem qdevice_ack_outlives_ring_witness:
  "\<exists>s1 s2 s3 s4 r go_on r'. qdevice_votequorum_node_list_notify_callback ex_env net_algorithms
       \<lparr>vrid_nodeid = 1, vrid_seq = 12\<rparr> [1] ex_voting = Inr s1 \<and> socket_err_cb s1 = (r, s2) \<and>
     main_loop_restart ex_env net_algorithms False s2 = Inr (go_on, r', s3) \<and>
     qdev_timer_fire ex_env net_algorithms (the (qn_cast_vote_timer (qd_net ex_voting))) s3 = Inr s4 \<and>
     qd_polls s4 = [(True, \<lparr>vrid_nodeid = 1, vrid_seq = 12\<rparr>)] \<and>
     qn_last_sent_ring_id (qd_net (s4 :: qdevice_instance)) = \<lparr>rid_node_id = 1, rid_seq = 8\<rparr>"
proof -
  obtain s1 where s1: "qdevice_votequorum_node_list_notify_callback ex_env net_algorithms
       \<lparr>vrid_nodeid = 1, vrid_seq = 12\<rparr> [1] ex_voting = Inr s1"
    and n: "qn_decision_algorithm (qd_net s1) = TLV_DECISION_ALGORITHM_TYPE_2NODELMS"
      "qn_cast_vote_timer_interval (qd_net s1) = 4000"
    using ex_voting_notify by blast
  obtain r s2 where s2: "socket_err_cb s1 = (r, s2)" by fastforce
  with n have "qn_decision_algorithm (qd_net s2) = TLV_DECISION_ALGORITHM_TYPE_2NODELMS"
      "reconnect_delay_ok (qn_cast_vote_timer_interval (qd_net s2))"
    by (auto simp: socket_err_cb_def set_reason_def set_schedule_disconnect_def upd_net_def reconnect_delay_ok_def)
  then obtain go_on r' s3 where s3: "main_loop_restart ex_env net_algorithms False s2 = Inr (go_on, r', s3)"
    using restart_runs by blast
  have t: "qn_cast_vote_timer (qd_net ex_voting) = Some (the (qn_cast_vote_timer (qd_net ex_voting)))"
    by (simp add: ex_voting_defs)
  have "\<exists>s4. qdev_timer_fire ex_env net_algorithms (the (qn_cast_vote_timer (qd_net ex_voting))) s3 = Inr s4 \<and>
      qd_polls s4 = qd_polls ex_voting @ [(True, \<lparr>vrid_nodeid = 1, vrid_seq = 12\<rparr>)] \<and>
      qn_last_sent_ring_id (qd_net s4) = qn_last_sent_ring_id (qd_net ex_voting)"
    by (rule qdevice_ack_outlives_ring [OF _ _ _ t _ ex_voting_known ex_env_polls s1 s2 s3]) (simp_all add: ex_voting_defs)
  with s1 s2 s3 show ?thesis by (auto simp: ex_voting_defs)
qed

end
