(* ===== verification/Lexers.thy ===== *)
theory Lexers
  imports Dynar
begin

text \<open>
  The two lexers of the program. \<open>dynar-simple-lex.c\<close> splits lines of the local control protocol and
  command lines of heuristics into words, with backslashes and quotes; \<open>dynar-getopt-lex.c\<close> splits
  the settings of the command line (\<open>name=value,name=value\<close>). Both are state machines over positions
  of the input. They are compared with reference scanners on lists, and the simple lexer reads back
  what \<open>dynar_str_quote_cat\<close> wrote.
\<close>

section \<open>The simple lexer\<close>

datatype dynar_simple_lex_type =
    DYNAR_SIMPLE_LEX_TYPE_PLAIN
  | DYNAR_SIMPLE_LEX_TYPE_BACKSLASH
  | DYNAR_SIMPLE_LEX_TYPE_QUOTE

record dynar_simple_lex =
  sl_token :: dynar
  sl_input :: dynar
  sl_lex_type :: dynar_simple_lex_type
  sl_pos :: nat

definition dynar_simple_lex_is_space :: "byte \<Rightarrow> bool" where
  "dynar_simple_lex_is_space ch \<longleftrightarrow> ch = 32 \<or> ch = 12 \<or> ch = 10 \<or> ch = 13 \<or> ch = 9 \<or> ch = 11"

definition dynar_simple_lex_init :: "dynar \<Rightarrow> dynar_simple_lex_type \<Rightarrow> dynar_simple_lex" where
  "dynar_simple_lex_init input lex_type =
     \<lparr>sl_token = dynar_init (dynar_max_size input), sl_input = input, sl_lex_type = lex_type, sl_pos = 0\<rparr>"

text \<open>The states 0 to 5 of the machine.\<close>

datatype lex_state =
    Lex_End
  | Lex_Spaces
  | Lex_Word
  | Lex_Backslash
  | Lex_Quote
  | Lex_Quote_Backslash

definition line_end :: "byte \<Rightarrow> bool" where
  "line_end ch \<longleftrightarrow> ch = 10 \<or> ch = 13"

text \<open>One turn of the loop: the next state and position, and the characters that are added.\<close>

definition lex_step ::
    "dynar_simple_lex_type \<Rightarrow> byte list \<Rightarrow> lex_state \<Rightarrow> nat \<Rightarrow> lex_state \<times> nat \<times> byte list" where
  "lex_step lex_type str state pos =
     (let at_end = (pos \<ge> length str); ch = (if at_end then 0 else str ! pos)
      in case state of
           Lex_End \<Rightarrow> (Lex_End, pos, [])
         | Lex_Spaces \<Rightarrow>
             if at_end \<or> line_end ch then (Lex_End, pos, [])
             else if dynar_simple_lex_is_space ch then (Lex_Spaces, pos + 1, [])
             else (Lex_Word, pos, [])
         | Lex_Word \<Rightarrow>
             if at_end then (Lex_End, pos, [])
             else if (lex_type = DYNAR_SIMPLE_LEX_TYPE_BACKSLASH \<or> lex_type = DYNAR_SIMPLE_LEX_TYPE_QUOTE) \<and>
                     ch = chr_backslash then (Lex_Backslash, pos + 1, [])
             else if lex_type = DYNAR_SIMPLE_LEX_TYPE_QUOTE \<and> ch = chr_quote then (Lex_Quote, pos + 1, [])
             else if dynar_simple_lex_is_space ch then (Lex_End, pos, [])
             else (Lex_Word, pos + 1, [ch])
         | Lex_Backslash \<Rightarrow>
             if at_end \<or> line_end ch then (Lex_End, pos, []) else (Lex_Word, pos + 1, [ch])
         | Lex_Quote \<Rightarrow>
             if at_end then (Lex_End, pos, [])
             else if ch = chr_backslash then (Lex_Quote_Backslash, pos + 1, [])
             else if ch = chr_quote then (Lex_Word, pos + 1, [])
             else if line_end ch then (Lex_End, pos, [])
             else (Lex_Quote, pos + 1, [ch])
         | Lex_Quote_Backslash \<Rightarrow>
             if at_end \<or> line_end ch then (Lex_End, pos, [])
             else if ch = chr_backslash \<or> ch = chr_quote then (Lex_Quote, pos + 1, [ch])
             else (Lex_Quote, pos + 1, [chr_backslash, ch]))"

text \<open>Characters are added one at a time, up to the first failure.\<close>

definition lex_add :: "allocator \<Rightarrow> byte list \<Rightarrow> dynar \<Rightarrow> int \<times> dynar" where
  "lex_add al chars = run_adds (map (\<lambda>c d. dynar_cat al d [c]) chars)"

fun lex_rank :: "lex_state \<Rightarrow> nat" where
  "lex_rank Lex_End = 0"
| "lex_rank Lex_Spaces = 2"
| "lex_rank _ = 1"

lemma lex_step_decreases:
  assumes "lex_step lex_type str state pos = (state', pos', add)" and "state \<noteq> Lex_End"
  shows "3 * (length str - pos') + lex_rank state' < 3 * (length str - pos) + lex_rank state"
  using assms
  by (auto simp: lex_step_def Let_def split: lex_state.splits if_splits)

text \<open>The loop; the flag is false when a character could not be added (\<open>return (NULL)\<close>).\<close>

function simple_lex_loop ::
    "allocator \<Rightarrow> dynar_simple_lex_type \<Rightarrow> byte list \<Rightarrow> lex_state \<Rightarrow> nat \<Rightarrow> dynar \<Rightarrow> bool \<times> nat \<times> dynar" where
  "simple_lex_loop al lex_type str state pos token =
     (if state = Lex_End then (True, pos, token)
      else case lex_step lex_type str state pos of
             (state', pos', add) \<Rightarrow>
               (case lex_add al add token of
                  (r, token') \<Rightarrow>
                    if r \<noteq> 0 then (False, pos', token')
                    else simple_lex_loop al lex_type str state' pos' token'))"
  by pat_completeness auto
termination
  by (relation "measure (\<lambda>(al, lex_type, str, state, pos, token). 3 * (length str - pos) + lex_rank state)")
     (auto intro: lex_step_decreases [OF sym])

declare simple_lex_loop.simps [simp del]

text \<open>A destroyed lexer is all zero; the null input reads as an empty one.\<close>

definition dynar_simple_lex_destroy :: "dynar_simple_lex \<Rightarrow> dynar_simple_lex" where
  "dynar_simple_lex_destroy lx =
     \<lparr>sl_token = dynar_init 0, sl_input = dynar_init 0, sl_lex_type = DYNAR_SIMPLE_LEX_TYPE_PLAIN, sl_pos = 0\<rparr>"

definition dynar_simple_lex_token_next :: "allocator \<Rightarrow> dynar_simple_lex \<Rightarrow> bool \<times> dynar_simple_lex" where
  "dynar_simple_lex_token_next al lx =
     (case simple_lex_loop al (sl_lex_type lx) (dyn_data (sl_input lx)) Lex_Spaces (sl_pos lx)
             (dynar_clean (sl_token lx)) of
        (ok, pos, token) \<Rightarrow>
          if \<not> ok then (False, lx\<lparr>sl_token := token\<rparr>)
          else case dynar_cat al token [0] of
                 (r, token') \<Rightarrow>
                   if r \<noteq> 0 then (False, lx\<lparr>sl_token := token'\<rparr>)
                   else (True, lx\<lparr>sl_token := token', sl_pos := pos\<rparr>))"

section \<open>The reference scanner\<close>

text \<open>A word and the rest of the input; quoted parts switch between the two functions.\<close>

fun lex_word :: "dynar_simple_lex_type \<Rightarrow> byte list \<Rightarrow> byte list \<times> byte list"
  and lex_quoted :: "dynar_simple_lex_type \<Rightarrow> byte list \<Rightarrow> byte list \<times> byte list" where
  "lex_word ty [] = ([], [])"
| "lex_word ty (c # cs) =
     (if ty \<noteq> DYNAR_SIMPLE_LEX_TYPE_PLAIN \<and> c = chr_backslash
      then (case cs of
              [] \<Rightarrow> ([], [])
            | d # ds \<Rightarrow> if line_end d then ([], cs) else apfst (Cons d) (lex_word ty ds))
      else if ty = DYNAR_SIMPLE_LEX_TYPE_QUOTE \<and> c = chr_quote then lex_quoted ty cs
      else if dynar_simple_lex_is_space c then ([], c # cs)
      else apfst (Cons c) (lex_word ty cs))"
| "lex_quoted ty [] = ([], [])"
| "lex_quoted ty (c # cs) =
     (if c = chr_backslash
      then (case cs of
              [] \<Rightarrow> ([], [])
            | d # ds \<Rightarrow>
                if line_end d then ([], cs)
                else apfst (\<lambda>w. (if d = chr_backslash \<or> d = chr_quote then [d] else [chr_backslash, d]) @ w)
                       (lex_quoted ty ds))
      else if c = chr_quote then lex_word ty cs
      else if line_end c then ([], c # cs)
      else apfst (Cons c) (lex_quoted ty cs))"

definition lex_token :: "dynar_simple_lex_type \<Rightarrow> byte list \<Rightarrow> byte list \<times> byte list" where
  "lex_token ty s =
     (let s' = dropWhile (\<lambda>c. dynar_simple_lex_is_space c \<and> \<not> line_end c) s
      in if s' = [] \<or> line_end (hd s') then ([], s') else lex_word ty s')"

text \<open>What the machine has still to do from a state.\<close>

fun lex_from :: "dynar_simple_lex_type \<Rightarrow> lex_state \<Rightarrow> byte list \<Rightarrow> byte list \<times> byte list" where
  "lex_from ty Lex_End s = ([], s)"
| "lex_from ty Lex_Spaces s = lex_token ty s"
| "lex_from ty Lex_Word s = lex_word ty s"
| "lex_from ty Lex_Quote s = lex_quoted ty s"
| "lex_from ty Lex_Backslash s =
     (if s = [] \<or> line_end (hd s) then ([], s) else apfst (Cons (hd s)) (lex_word ty (tl s)))"
| "lex_from ty Lex_Quote_Backslash s =
     (if s = [] \<or> line_end (hd s) then ([], s)
      else apfst (\<lambda>w. (if hd s = chr_backslash \<or> hd s = chr_quote then [hd s] else [chr_backslash, hd s]) @ w)
             (lex_quoted ty (tl s)))"

lemma lex_token_Nil [simp]: "lex_token ty [] = ([], [])"
  by (simp add: lex_token_def)

lemma lex_token_Cons:
  "lex_token ty (c # s) =
     (if line_end c then ([], c # s)
      else if dynar_simple_lex_is_space c then lex_token ty s else lex_word ty (c # s))"
  by (simp add: lex_token_def)

lemma apfst_Nil [simp]: "apfst (\<lambda>w. w) p = p" "apfst (\<lambda>w. [] @ w) p = p"
  by (simp_all add: apfst_def map_prod_def split_beta)

lemma type_cases:
  "ty = DYNAR_SIMPLE_LEX_TYPE_BACKSLASH \<or> ty = DYNAR_SIMPLE_LEX_TYPE_QUOTE \<longleftrightarrow> ty \<noteq> DYNAR_SIMPLE_LEX_TYPE_PLAIN"
  by (cases ty) auto

lemma lex_step_from:
  assumes "lex_step ty str state pos = (state', pos', add)" and "state \<noteq> Lex_End" and "pos \<le> length str"
  shows "lex_from ty state (drop pos str) = apfst (\<lambda>w. add @ w) (lex_from ty state' (drop pos' str))"
    and "pos' \<le> length str"
proof -
  show "pos' \<le> length str"
    using assms by (auto simp: lex_step_def Let_def split: lex_state.splits if_splits)
  show "lex_from ty state (drop pos str) = apfst (\<lambda>w. add @ w) (lex_from ty state' (drop pos' str))"
  proof (cases "pos < length str")
    case False
    with assms show ?thesis
      by (cases state) (auto simp: lex_step_def)
  next
    case True
    define c s where "c = str ! pos" and "s = drop (pos + 1) str"
    have d: "str ! pos = c" "drop (Suc pos) str = s" "drop pos str = c # s"
      using True Cons_nth_drop_Suc by (fastforce simp: c_def s_def)+
    have step: "lex_step ty str state pos = (state', pos', add)" by fact
    show ?thesis
    proof (cases state)
      case Lex_Spaces
      then show ?thesis using step True d
        by (auto simp: lex_step_def lex_token_Cons split: if_splits simp del: lex_word.simps)
    next
      case Lex_Word
      then show ?thesis using step True d
        by (cases s) (auto simp: lex_step_def type_cases split: if_splits)
    next
      case Lex_Backslash
      then show ?thesis using step True d
        by (auto simp: lex_step_def split: if_splits)
    next
      case Lex_Quote
      then show ?thesis using step True d
        by (auto simp: lex_step_def split: if_splits list.split)
    next
      case Lex_Quote_Backslash
      then show ?thesis using step True d
        by (auto simp: lex_step_def split: if_splits)
    qed (use assms in simp)
  qed
qed

lemma writes_lex_add: "writes al (lex_add al cs) cs"
proof (induction cs)
  case Nil
  show ?case by (simp add: lex_add_def writes_def)
next
  case (Cons c cs)
  show ?case
    using writes_Cons [OF writes_cat [of al "[c]"] Cons [unfolded lex_add_def]]
    by (simp add: lex_add_def del: run_adds.simps)
qed

lemma simple_lex_loop_from:
  assumes "simple_lex_loop al ty str state pos token = (ok, pos', token')"
    and "dynar_inv token" and "pos \<le> length str"
  shows "dynar_inv token' \<and> dyn_maximum_size token' = dyn_maximum_size token \<and>
    (ok \<longrightarrow> dyn_data token' = dyn_data token @ fst (lex_from ty state (drop pos str)) \<and>
      drop pos' str = snd (lex_from ty state (drop pos str)) \<and> pos' \<le> length str) \<and>
    (alloc_ideal al \<longrightarrow> dynar_size token + length (fst (lex_from ty state (drop pos str))) \<le> dyn_maximum_size token \<longrightarrow> ok)"
  using assms
proof (induction al ty str state pos token rule: simple_lex_loop.induct)
  case (1 al ty str state pos token)
  show ?case
  proof (cases "state = Lex_End")
    case True
    with 1(2,3,4) show ?thesis by (simp add: simple_lex_loop.simps)
  next
    case False
    obtain st1 pos1 add where step: "lex_step ty str state pos = (st1, pos1, add)" by (metis prod_cases3)
    obtain r tok1 where add: "lex_add al add token = (r, tok1)" by fastforce
    note from_step = lex_step_from [OF step False 1(4)]
    note w = writesD [OF writes_lex_add 1(3) add]
    have len: "length (fst (lex_from ty state (drop pos str))) = length add + length (fst (lex_from ty st1 (drop pos1 str)))"
      using from_step(1) by simp
    show ?thesis
    proof (cases "r = 0")
      case True
      then have "simple_lex_loop al ty str st1 pos1 tok1 = (ok, pos', token')"
        using 1(2) False step add by (simp add: simple_lex_loop.simps [of al ty str state pos token])
      note ih = 1(1) [OF False step [symmetric] refl add [symmetric] _ this w(1) from_step(2)]
      have "dynar_size tok1 = dynar_size token + length add"
        using w(4) True by (simp add: dynar_size_def)
      with ih True w(2,4) from_step(1) len show ?thesis by simp
    next
      case r: False
      then have "\<not> ok" "token' = tok1"
        using 1(2) False step add by (simp_all add: simple_lex_loop.simps [of al ty str state pos token])
      with w(1,2,6) r len show ?thesis by auto
    qed
  qed
qed

lemma lex_length:
  "length (fst (lex_word ty s)) + length (snd (lex_word ty s)) \<le> length s"
  "length (fst (lex_quoted ty s)) + length (snd (lex_quoted ty s)) \<le> length s"
proof (induction ty s and ty s rule: lex_word_lex_quoted.induct)
  case (2 ty c cs)
  then show ?case
    by (subst (1 2) lex_word.simps) (auto split: list.split simp del: lex_word.simps lex_quoted.simps)
next
  case (4 ty c cs)
  then show ?case
    by (subst (1 2) lex_quoted.simps) (auto split: list.split simp del: lex_word.simps lex_quoted.simps)
qed simp_all

lemma lex_token_length: "length (fst (lex_token ty s)) + length (snd (lex_token ty s)) \<le> length s"
proof (induction s)
  case (Cons c s)
  then show ?case using lex_length(1) [of ty "c # s"] by (auto simp: lex_token_Cons simp del: lex_word.simps)
qed simp

text \<open>One call, by its two effects: the loop and the terminating zero.\<close>

lemma simple_lex_token_next:
  assumes "dynar_simple_lex_token_next al lx = (ok, lx')" and "sl_pos lx \<le> dynar_size (sl_input lx)"
  shows "(ok \<longrightarrow> dyn_data (sl_token lx') = fst (lex_token (sl_lex_type lx) (drop (sl_pos lx) (dyn_data (sl_input lx)))) @ [0] \<and>
      drop (sl_pos lx') (dyn_data (sl_input lx)) = snd (lex_token (sl_lex_type lx) (drop (sl_pos lx) (dyn_data (sl_input lx)))) \<and>
      sl_pos lx' \<le> dynar_size (sl_input lx)) \<and>
    sl_input lx' = sl_input lx \<and> sl_lex_type lx' = sl_lex_type lx \<and>
    dyn_maximum_size (sl_token lx') = dyn_maximum_size (sl_token lx) \<and>
    (alloc_ideal al \<longrightarrow> dynar_size (sl_input lx) - sl_pos lx < dyn_maximum_size (sl_token lx) \<longrightarrow> ok)"
proof -
  let ?data = "dyn_data (sl_input lx)"
  let ?w = "lex_token (sl_lex_type lx) (drop (sl_pos lx) ?data)"
  obtain ok1 pos1 tok1 where l: "simple_lex_loop al (sl_lex_type lx) ?data Lex_Spaces (sl_pos lx)
      (dynar_clean (sl_token lx)) = (ok1, pos1, tok1)" by (metis prod_cases3)
  have l1: "dynar_inv tok1" "dyn_maximum_size tok1 = dyn_maximum_size (sl_token lx)"
    "ok1 \<Longrightarrow> dyn_data tok1 = fst ?w \<and> drop pos1 ?data = snd ?w \<and> pos1 \<le> length ?data"
    "alloc_ideal al \<Longrightarrow> length (fst ?w) \<le> dyn_maximum_size (sl_token lx) \<Longrightarrow> ok1"
    using simple_lex_loop_from [OF l] assms(2) by (auto simp: dynar_size_def)
  obtain r tok2 where c: "dynar_cat al tok1 [0] = (r, tok2)" by fastforce
  note w = writesD [OF writes_cat l1(1) c]
  have "length (fst ?w) \<le> dynar_size (sl_input lx) - sl_pos lx"
    using lex_token_length [of "sl_lex_type lx" "drop (sl_pos lx) ?data"] by (simp add: dynar_size_def)
  moreover have "ok = (ok1 \<and> r = 0)" "lx' = (if ok1 then if r = 0 then lx\<lparr>sl_token := tok2, sl_pos := pos1\<rparr>
      else lx\<lparr>sl_token := tok2\<rparr> else lx\<lparr>sl_token := tok1\<rparr>)"
    using assms(1) l c by (auto simp: dynar_simple_lex_token_next_def split: if_splits)
  ultimately show ?thesis
    using l1 w(2,4,6) by (auto simp: dynar_size_def)
qed

text \<open>
  The lexer is the reference scanner: a call of \<open>dynar_simple_lex_token_next\<close> that does not fail
  returns the word that the scanner finds at the current position, with a terminating zero, and moves
  to the rest that the scanner leaves. Its loop always ends, and it fails only when memory runs out
  or when the word and its zero do not fit the maximum size of the token, which can only happen
  when nothing but the word is left of an input of maximum size.
\<close>

theorem simple_lex_exact:
  assumes "dynar_simple_lex_token_next al lx = (ok, lx')" and "sl_pos lx \<le> dynar_size (sl_input lx)"
  shows "(ok \<longrightarrow> dyn_data (sl_token lx') = fst (lex_token (sl_lex_type lx) (drop (sl_pos lx) (dyn_data (sl_input lx)))) @ [0] \<and>
      drop (sl_pos lx') (dyn_data (sl_input lx)) = snd (lex_token (sl_lex_type lx) (drop (sl_pos lx) (dyn_data (sl_input lx)))) \<and>
      sl_pos lx' \<le> dynar_size (sl_input lx)) \<and>
    sl_input lx' = sl_input lx \<and> sl_lex_type lx' = sl_lex_type lx \<and>
    dyn_maximum_size (sl_token lx') = dyn_maximum_size (sl_token lx) \<and>
    (alloc_ideal al \<longrightarrow> dynar_size (sl_input lx) - sl_pos lx < dyn_maximum_size (sl_token lx) \<longrightarrow> ok)"
  by (rule simple_lex_token_next [OF assms])

definition ex_lex :: dynar_simple_lex where
  "ex_lex = dynar_simple_lex_init (dynar_init 20\<lparr>dyn_data := [32, 97, 34, 98, 32, 92, 34, 34, 32, 99]\<rparr>)
     DYNAR_SIMPLE_LEX_TYPE_QUOTE"

lemma simple_lex_exact_witness:
  "fst (dynar_simple_lex_token_next (\<lambda>r. True) ex_lex) \<and>
   dyn_data (sl_token (snd (dynar_simple_lex_token_next (\<lambda>r. True) ex_lex))) = [97, 98, 32, 34, 0]"
proof -
  obtain ok lx' where n: "dynar_simple_lex_token_next (\<lambda>r. True) ex_lex = (ok, lx')" by fastforce
  have "lex_token DYNAR_SIMPLE_LEX_TYPE_QUOTE [32, 97, 34, 98, 32, 92, 34, 34, 32, 99] = ([97, 98, 32, 34], [32, 99])"
    by (simp add: lex_token_Cons line_end_def dynar_simple_lex_is_space_def chr_quote_def chr_backslash_def)
  moreover have "sl_pos ex_lex \<le> dynar_size (sl_input ex_lex)"
    by (simp add: ex_lex_def dynar_simple_lex_init_def)
  ultimately show ?thesis
    using simple_lex_exact [OF n] n by (simp add: ex_lex_def dynar_simple_lex_init_def dynar_defs alloc_ideal_def)
qed

section \<open>Reading back what was quoted\<close>

definition quote_chars :: "byte list \<Rightarrow> byte list" where
  "quote_chars s = concat (map (\<lambda>c. if c = chr_quote \<or> c = chr_backslash then [chr_backslash, c] else [c]) s)"

lemma lex_add_append:
  "lex_add al (cs @ ds) d = (case lex_add al cs d of (r, d') \<Rightarrow> if r = -1 then (-1, d') else lex_add al ds d')"
  by (simp add: lex_add_def run_adds_append split: prod.split)

lemma dynar_cat_results: "dynar_cat al d src = (r, d') \<Longrightarrow> r = 0 \<or> r = -1"
  using dynar_cat_fail by blast

lemma lex_add_single: "lex_add al [c] d = dynar_cat al d [c]"
  using dynar_cat_results [of al d "[c]"]
  by (cases "dynar_cat al d [c]") (auto simp: lex_add_def)

lemma lex_add_results: "lex_add al cs d = (r, d') \<Longrightarrow> r = 0 \<or> r = -1"
  by (induction cs arbitrary: d) (auto simp: lex_add_def split: prod.splits if_splits)

lemma lex_add_Cons:
  "lex_add al (c # cs) d = (case dynar_cat al d [c] of (r, d') \<Rightarrow> if r \<noteq> 0 then (-1, d') else lex_add al cs d')"
  using dynar_cat_results [of al d "[c]"] by (cases "dynar_cat al d [c]") (auto simp: lex_add_def)

lemma quote_loop_adds: "dynar_str_quote_loop al d s = lex_add al (quote_chars s) d"
proof (induction s arbitrary: d)
  case Nil
  show ?case by (simp add: quote_chars_def lex_add_def)
next
  case (Cons c s)
  then show ?case
    by (auto simp: quote_chars_def dynar_str_cat_def lex_add_Cons split: prod.split)
qed

lemma quote_cat_adds: "dynar_str_quote_cat al d s = lex_add al (chr_quote # quote_chars s @ [chr_quote]) d"
  by (auto simp: dynar_str_quote_cat_def dynar_str_cat_def quote_loop_adds lex_add_Cons lex_add_append
      split: prod.split dest: lex_add_results dynar_cat_results) (auto simp: lex_add_def dest: lex_add_results)

lemma lex_quoted_chars:
  assumes "list_all (\<lambda>c. \<not> line_end c) s"
  shows "lex_quoted ty (quote_chars s @ chr_quote # post) = apfst (\<lambda>w. s @ w) (lex_word ty post)"
  using assms
  by (induction s) (auto simp: quote_chars_def chr_quote_def chr_backslash_def line_end_def apfst_def map_prod_def
      split_beta)

text \<open>
  What \<open>dynar_str_quote_cat\<close> writes is one word for the lexer, whatever the string holds except
  line ends: when a string was quoted behind other text and white space or the end of the input
  follows it, the next token at that place is the string, and the lexer stops right behind the
  closing quote.
\<close>

theorem quote_lex_roundtrip:
  assumes "dynar_str_quote_cat al d s = (0, d')" and "dynar_inv d" and "list_all (\<lambda>c. \<not> line_end c) s"
    and "post = [] \<or> dynar_simple_lex_is_space (hd post)"
    and "dyn_data (sl_input lx) = dyn_data d' @ post" and "sl_pos lx = dynar_size d"
    and "sl_lex_type lx = DYNAR_SIMPLE_LEX_TYPE_QUOTE"
    and "dynar_simple_lex_token_next al' lx = (ok, lx')" and "alloc_ideal al'"
    and "dynar_size (sl_input lx) - dynar_size d < dyn_maximum_size (sl_token lx)"
  shows "ok \<and> dyn_data (sl_token lx') = s @ [0] \<and> drop (sl_pos lx') (dyn_data (sl_input lx)) = post"
proof -
  have d': "dyn_data d' = dyn_data d @ chr_quote # quote_chars s @ [chr_quote]"
    using writesD(4) [OF writes_lex_add assms(2) assms(1) [unfolded quote_cat_adds]] by simp
  have "lex_word DYNAR_SIMPLE_LEX_TYPE_QUOTE post = ([], post)"
    using assms(4) by (cases post) (auto simp: dynar_simple_lex_is_space_def chr_quote_def chr_backslash_def)
  then have "lex_token DYNAR_SIMPLE_LEX_TYPE_QUOTE (chr_quote # quote_chars s @ chr_quote # post) = (s, post)"
    by (simp add: lex_token_Cons lex_quoted_chars [OF assms(3)])
       (simp add: chr_quote_def chr_backslash_def line_end_def dynar_simple_lex_is_space_def)
  moreover have "drop (sl_pos lx) (dyn_data (sl_input lx)) = chr_quote # quote_chars s @ chr_quote # post"
    by (simp add: assms(5,6) d' dynar_size_def)
  moreover have "sl_pos lx \<le> dynar_size (sl_input lx)"
    by (simp add: assms(5,6) d' dynar_size_def)
  ultimately show ?thesis
    using simple_lex_token_next [OF assms(8)] assms(6,7,9,10) by simp
qed

lemma quote_lex_roundtrip_witness:
  "\<exists>d' ok (lx' :: dynar_simple_lex). dynar_str_quote_cat (\<lambda>r. True) (dynar_init 20) [97, 32, 34, 92] = (0, d') \<and>
     dynar_simple_lex_token_next (\<lambda>r. True) (dynar_simple_lex_init d' DYNAR_SIMPLE_LEX_TYPE_QUOTE) = (ok, lx') \<and>
     ok \<and> dyn_data (sl_token lx') = [97, 32, 34, 92, 0] \<and> drop (sl_pos lx') (dyn_data d') = []"
proof -
  let ?s = "[97, 32, 34, 92] :: byte list"
  obtain r d' where q: "dynar_str_quote_cat (\<lambda>r. True) (dynar_init 20) ?s = (r, d')" by fastforce
  have qc: "chr_quote # quote_chars ?s @ [chr_quote] = [34, 97, 32, 92, 34, 92, 92, 34]"
    by (simp add: quote_chars_def chr_quote_def chr_backslash_def)
  note w = writesD [OF writes_lex_add dynar_inv_init q [unfolded quote_cat_adds qc]]
  have r: "r = 0" using w(6) by (simp add: alloc_ideal_def dynar_defs)
  obtain ok lx' where
    n: "dynar_simple_lex_token_next (\<lambda>r. True) (dynar_simple_lex_init d' DYNAR_SIMPLE_LEX_TYPE_QUOTE) = (ok, lx')"
    by fastforce
  have "ok \<and> dyn_data (sl_token lx') = ?s @ [0] \<and>
      drop (sl_pos lx') (dyn_data (sl_input (dynar_simple_lex_init d' DYNAR_SIMPLE_LEX_TYPE_QUOTE))) = []"
    by (rule quote_lex_roundtrip [OF q [unfolded r] dynar_inv_init _ _ _ _ _ n])
       (use w(2,4) r in \<open>simp_all add: line_end_def dynar_simple_lex_init_def dynar_defs alloc_ideal_def\<close>)
  then show ?thesis using q r n by (auto simp: dynar_simple_lex_init_def)
qed

section \<open>The option lexer\<close>

record dynar_getopt_lex =
  gl_option :: dynar
  gl_value :: dynar
  gl_input :: dynar
  gl_pos :: nat

definition dynar_getopt_lex_init :: "dynar \<Rightarrow> dynar_getopt_lex" where
  "dynar_getopt_lex_init input =
     \<lparr>gl_option = dynar_init (dynar_max_size input), gl_value = dynar_init (dynar_max_size input),
      gl_input = input, gl_pos = 0\<rparr>"

definition dynar_getopt_lex_destroy :: "dynar_getopt_lex \<Rightarrow> dynar_getopt_lex" where
  "dynar_getopt_lex_destroy lx =
     \<lparr>gl_option = dynar_init 0, gl_value = dynar_init 0, gl_input = dynar_init 0, gl_pos = 0\<rparr>"

definition chr_equals :: byte where "chr_equals = 61"
definition chr_comma :: byte where "chr_comma = 44"

text \<open>The states 0, 1 and 2 of the machine; every turn of the loop consumes a character.\<close>

datatype getopt_state = Getopt_End | Getopt_Option | Getopt_Value

fun getopt_step :: "getopt_state \<Rightarrow> byte \<Rightarrow> getopt_state \<times> byte list \<times> byte list" where
  "getopt_step Getopt_End ch = (Getopt_End, [], [])"
| "getopt_step Getopt_Option ch =
     (if ch = chr_equals then (Getopt_Value, [], [])
      else if ch = chr_comma then (Getopt_End, [], [])
      else (Getopt_Option, [ch], []))"
| "getopt_step Getopt_Value ch =
     (if ch = chr_comma then (Getopt_End, [], []) else (Getopt_Value, [], [ch]))"

function getopt_loop ::
    "allocator \<Rightarrow> byte list \<Rightarrow> getopt_state \<Rightarrow> nat \<Rightarrow> dynar \<Rightarrow> dynar \<Rightarrow> int \<times> nat \<times> dynar \<times> dynar" where
  "getopt_loop al str state pos opt val =
     (if state = Getopt_End \<or> pos \<ge> length str then (0, pos, opt, val)
      else case getopt_step state (str ! pos) of
             (state', add_opt, add_val) \<Rightarrow>
               (case lex_add al add_opt opt of
                  (r, opt') \<Rightarrow>
                    if r \<noteq> 0 then (-1, pos + 1, opt', val)
                    else case lex_add al add_val val of
                           (r', val') \<Rightarrow>
                             if r' \<noteq> 0 then (-1, pos + 1, opt', val')
                             else getopt_loop al str state' (pos + 1) opt' val'))"
  by pat_completeness auto
termination
  by (relation "measure (\<lambda>(al, str, state, pos, opt, val). length str - pos)") auto

declare getopt_loop.simps [simp del]

definition dynar_getopt_lex_token_next :: "allocator \<Rightarrow> dynar_getopt_lex \<Rightarrow> int \<times> dynar_getopt_lex" where
  "dynar_getopt_lex_token_next al lx =
     (case getopt_loop al (dyn_data (gl_input lx)) Getopt_Option (gl_pos lx)
             (dynar_clean (gl_option lx)) (dynar_clean (gl_value lx)) of
        (r, pos, option, value) \<Rightarrow>
          if r \<noteq> 0 then (-1, lx\<lparr>gl_option := option, gl_value := value\<rparr>)
          else case dynar_cat al option [0] of
                 (r1, option') \<Rightarrow>
                   if r1 \<noteq> 0 then (-1, lx\<lparr>gl_option := option', gl_value := value\<rparr>)
                   else case dynar_cat al value [0] of
                          (r2, value') \<Rightarrow>
                            if r2 \<noteq> 0 then (-1, lx\<lparr>gl_option := option', gl_value := value'\<rparr>)
                            else (0, lx\<lparr>gl_option := option', gl_value := value', gl_pos := pos\<rparr>))"

text \<open>The reference: an option and its value from the front of a list.\<close>

definition getopt_value :: "byte list \<Rightarrow> byte list \<times> byte list" where
  "getopt_value s = (takeWhile (\<lambda>c. c \<noteq> chr_comma) s, drop 1 (dropWhile (\<lambda>c. c \<noteq> chr_comma) s))"

definition getopt_item :: "byte list \<Rightarrow> byte list \<times> byte list \<times> byte list" where
  "getopt_item s =
     (let opt = takeWhile (\<lambda>c. c \<noteq> chr_equals \<and> c \<noteq> chr_comma) s;
          rest = dropWhile (\<lambda>c. c \<noteq> chr_equals \<and> c \<noteq> chr_comma) s
      in if rest \<noteq> [] \<and> hd rest = chr_equals then (opt, getopt_value (drop 1 rest)) else (opt, [], drop 1 rest))"

lemma getopt_value_Cons:
  "getopt_value [] = ([], [])"
  "getopt_value (c # s) = (if c = chr_comma then ([], s) else apfst (Cons c) (getopt_value s))"
  by (simp_all add: getopt_value_def)

lemma getopt_item_Cons:
  "getopt_item [] = ([], [], [])"
  "getopt_item (c # s) =
     (if c = chr_equals then ([], getopt_value s) else if c = chr_comma then ([], [], s)
      else apfst (Cons c) (getopt_item s))"
  by (simp_all add: getopt_item_def Let_def chr_equals_def chr_comma_def)

fun getopt_from :: "getopt_state \<Rightarrow> byte list \<Rightarrow> byte list \<times> byte list \<times> byte list" where
  "getopt_from Getopt_End s = ([], [], s)"
| "getopt_from Getopt_Option s = getopt_item s"
| "getopt_from Getopt_Value s = ([], getopt_value s)"

lemma getopt_step_from:
  assumes "getopt_step state c = (state', add_opt, add_val)" and "state \<noteq> Getopt_End"
    and "getopt_from state' s = (opt, val, rest)"
  shows "getopt_from state (c # s) = (add_opt @ opt, add_val @ val, rest)"
  using assms by (cases state) (auto simp: getopt_item_Cons getopt_value_Cons split: if_splits)

lemma getopt_loop_from:
  assumes "getopt_loop al str state pos option value = (r, pos', option', value')"
    and "dynar_inv option" and "dynar_inv value" and "pos \<le> length str"
    and "getopt_from state (drop pos str) = (opt, val, rest)"
  shows "dynar_inv option' \<and> dynar_inv value' \<and> dyn_maximum_size option' = dyn_maximum_size option \<and>
    dyn_maximum_size value' = dyn_maximum_size value \<and>
    (r = 0 \<longrightarrow> dyn_data option' = dyn_data option @ opt \<and> dyn_data value' = dyn_data value @ val \<and>
      drop pos' str = rest \<and> pos' \<le> length str) \<and>
    (alloc_ideal al \<longrightarrow> dynar_size option + length opt \<le> dyn_maximum_size option \<longrightarrow>
      dynar_size value + length val \<le> dyn_maximum_size value \<longrightarrow> r = 0)"
  using assms
proof (induction al str state pos option "value" arbitrary: opt val rest rule: getopt_loop.induct)
  case (1 al str state pos option "value")
  note prems = 1(2-6)
  show ?case
  proof (cases "state = Getopt_End \<or> pos \<ge> length str")
    case True
    then have "getopt_loop al str state pos option value = (0, pos, option, value)"
      by (auto simp: getopt_loop.simps [of al str state])
    moreover have "getopt_from state (drop pos str) = ([], [], drop pos str)"
      using True by (cases state) (auto simp: getopt_item_Cons getopt_value_Cons)
    ultimately show ?thesis using prems by simp
  next
    case False
    then have d: "drop pos str = str ! pos # drop (pos + 1) str"
      using Cons_nth_drop_Suc [of pos str] by simp
    obtain st1 ao av where step: "getopt_step state (str ! pos) = (st1, ao, av)" by (metis prod_cases3)
    obtain opt1 val1 rest1 where from1: "getopt_from st1 (drop (pos + 1) str) = (opt1, val1, rest1)" by (metis prod_cases3)
    have eqs: "opt = ao @ opt1" "val = av @ val1" "rest = rest1"
      using getopt_step_from [OF step _ from1] False prems(5) by (simp_all add: d)
    obtain r1 o1 where ao: "lex_add al ao option = (r1, o1)" by fastforce
    obtain r2 v1 where av: "lex_add al av value = (r2, v1)" by fastforce
    note wo = writesD [OF writes_lex_add prems(2) ao] and wv = writesD [OF writes_lex_add prems(3) av]
    have loop: "(if r1 \<noteq> 0 then (-1, pos + 1, o1, value) else if r2 \<noteq> 0 then (-1, pos + 1, o1, v1)
        else getopt_loop al str st1 (pos + 1) o1 v1) = (r, pos', option', value')"
      using prems(1) False step ao av by (auto simp: getopt_loop.simps [of al str state] split: if_splits)
    show ?thesis
    proof (cases "r1 = 0 \<and> r2 = 0")
      case True
      with loop have "getopt_loop al str st1 (pos + 1) o1 v1 = (r, pos', option', value')" by simp
      note ih = 1(1) [OF False step [symmetric] refl ao [symmetric] _ av [symmetric] _ this wo(1) wv(1) _ from1]
      have "dynar_size o1 = dynar_size option + length ao" "dynar_size v1 = dynar_size value + length av"
        using wo(4) wv(4) True by (simp_all add: dynar_size_def)
      with ih True False wo(2,4) wv(2,4) show ?thesis by (simp add: eqs)
    next
      case r: False
      then have "r = -1" "option' = o1" "value' = value \<or> value' = v1"
        using loop by (auto split: if_splits)
      with r wo(1,2,6) wv(1,2,6) prems(3) show ?thesis by (auto simp: eqs)
    qed
  qed
qed

lemma getopt_length:
  "getopt_from state s = (opt, val, rest) \<Longrightarrow> length opt + length val + length rest \<le> length s"
proof (induction s arbitrary: state opt val rest)
  case Nil
  then show ?case by (cases state) (auto simp: getopt_item_Cons getopt_value_Cons)
next
  case (Cons c s)
  show ?case
  proof (cases "state = Getopt_End")
    case False
    obtain st1 ao av where step: "getopt_step state c = (st1, ao, av)" by (metis prod_cases3)
    obtain opt1 val1 rest1 where from1: "getopt_from st1 s = (opt1, val1, rest1)" by (metis prod_cases3)
    have "length ao + length av \<le> 1" using step by (cases state) (auto split: if_splits)
    then show ?thesis
      using getopt_step_from [OF step False from1] Cons.IH [OF from1] Cons.prems by simp
  qed (use Cons.prems in simp)
qed

text \<open>A call reads the next item, and the position moves behind it.\<close>

lemma getopt_lex_exact:
  assumes "dynar_getopt_lex_token_next al lx = (r, lx')" and "gl_pos lx \<le> dynar_size (gl_input lx)"
    and "getopt_item (drop (gl_pos lx) (dyn_data (gl_input lx))) = (opt, val, rest)"
  shows "(r = 0 \<longrightarrow> dyn_data (gl_option lx') = opt @ [0] \<and> dyn_data (gl_value lx') = val @ [0] \<and>
      drop (gl_pos lx') (dyn_data (gl_input lx)) = rest \<and> gl_pos lx' \<le> dynar_size (gl_input lx)) \<and>
    gl_input lx' = gl_input lx \<and> dyn_maximum_size (gl_option lx') = dyn_maximum_size (gl_option lx) \<and>
    dyn_maximum_size (gl_value lx') = dyn_maximum_size (gl_value lx) \<and>
    (alloc_ideal al \<longrightarrow> dynar_size (gl_input lx) - gl_pos lx < dyn_maximum_size (gl_option lx) \<longrightarrow>
      dynar_size (gl_input lx) - gl_pos lx < dyn_maximum_size (gl_value lx) \<longrightarrow> r = 0)"
proof -
  obtain r1 pos o1 v1 where l: "getopt_loop al (dyn_data (gl_input lx)) Getopt_Option (gl_pos lx)
      (dynar_clean (gl_option lx)) (dynar_clean (gl_value lx)) = (r1, pos, o1, v1)" by (metis prod_cases4)
  have l1: "dynar_inv o1" "dynar_inv v1" "dyn_maximum_size o1 = dyn_maximum_size (gl_option lx)"
    "dyn_maximum_size v1 = dyn_maximum_size (gl_value lx)"
    "r1 = 0 \<Longrightarrow> dyn_data o1 = opt \<and> dyn_data v1 = val \<and> drop pos (dyn_data (gl_input lx)) = rest \<and> pos \<le> length (dyn_data (gl_input lx))"
    "alloc_ideal al \<Longrightarrow> length opt \<le> dyn_maximum_size (gl_option lx) \<Longrightarrow> length val \<le> dyn_maximum_size (gl_value lx) \<Longrightarrow> r1 = 0"
    using getopt_loop_from [OF l, of opt val rest] assms(2,3) by (auto simp: dynar_size_def)
  obtain r2 o2 where c2: "dynar_cat al o1 [0] = (r2, o2)" by fastforce
  obtain r3 v2 where c3: "dynar_cat al v1 [0] = (r3, v2)" by fastforce
  note w2 = writesD [OF writes_cat l1(1) c2] and w3 = writesD [OF writes_cat l1(2) c3]
  have "length opt + length val \<le> dynar_size (gl_input lx) - gl_pos lx"
    using getopt_length [of Getopt_Option, simplified, OF assms(3)] by (simp add: dynar_size_def)
  moreover have "r = (if r1 = 0 \<and> r2 = 0 \<and> r3 = 0 then 0 else -1)"
    "lx' = (if r1 \<noteq> 0 then lx\<lparr>gl_option := o1, gl_value := v1\<rparr> else if r2 \<noteq> 0 then lx\<lparr>gl_option := o2, gl_value := v1\<rparr>
      else if r3 \<noteq> 0 then lx\<lparr>gl_option := o2, gl_value := v2\<rparr> else lx\<lparr>gl_option := o2, gl_value := v2, gl_pos := pos\<rparr>)"
    using assms(1) l c2 c3 by (auto simp: dynar_getopt_lex_token_next_def split: if_splits)
  ultimately show ?thesis
    using l1 w2(2,4,6) w3(2,4,6) by (auto simp: dynar_size_def)
qed

end
