(* ===== verification/Process_List.thy ===== *)
theory Process_List
  imports Lexers
begin

text \<open>
  The list of processes that run heuristics commands (\<open>process-list.c\<close>). A command line becomes an
  argument vector by the lexer; an entry is started, waited for, and killed with SIGTERM first and
  SIGKILL later when it has to end early. The operating system is an argument: what \<open>fork\<close>, \<open>waitpid\<close>
  and \<open>kill\<close> answer. Calls that have an effect outside are kept in a trace, which the properties
  compare with the life of a process.
\<close>

section \<open>Data\<close>

datatype process_list_entry_state =
    PROCESS_LIST_ENTRY_STATE_INITIALIZED
  | PROCESS_LIST_ENTRY_STATE_RUNNING
  | PROCESS_LIST_ENTRY_STATE_FINISHED
  | PROCESS_LIST_ENTRY_STATE_SIGTERM_SENT
  | PROCESS_LIST_ENTRY_STATE_SIGKILL_SENT

datatype process_list_notify_reason =
    PROCESS_LIST_NOTIFY_REASON_EXECUTED
  | PROCESS_LIST_NOTIFY_REASON_FINISHED

record process_list_entry =
  pe_name :: "byte list"
  pe_state :: process_list_entry_state
  pe_exec_argv :: "byte list list"
  pe_pid :: nat
  pe_exit_status :: int

datatype kill_signal = SIGTERM | SIGKILL

text \<open>What happened outside: forks, processes that were waited for, signals, notifications.\<close>

datatype process_event =
    Forked nat "byte list list"
  | Reaped nat int
  | Signalled nat kill_signal
  | Notified process_list_notify_reason "byte list"

record process_list =
  pl_use_execvp :: bool
  pl_max_list_entries :: nat
  pl_allocated_list_entries :: nat
  pl_notify_fn :: bool
  pl_active_list :: "process_list_entry list"
  pl_to_kill_list :: "process_list_entry list"
  pl_trace :: "process_event list"

text \<open>
  The answers of the operating system during a step: the process id that a \<open>fork\<close> gives (the number
  grows with the trace, so that no two calls have the same), what \<open>waitpid\<close> says of a process, and
  whether \<open>kill\<close> fails with \<open>EPERM\<close> or \<open>EINVAL\<close>.
\<close>

datatype wait_result = Wait_Error | Wait_No_Change | Wait_Status int

record os_env =
  os_fork :: "nat \<Rightarrow> nat option"
  os_waitpid :: "nat \<Rightarrow> wait_result"
  os_kill_fails :: "nat \<Rightarrow> kill_signal \<Rightarrow> bool"

definition wifexited :: "int \<Rightarrow> bool" where
  "wifexited status \<longleftrightarrow> status mod 128 = 0"

definition wexitstatus :: "int \<Rightarrow> int" where
  "wexitstatus status = status div 256 mod 256"

definition exec_failed :: "process_list_entry \<Rightarrow> bool" where
  "exec_failed entry \<longleftrightarrow> \<not> wifexited (pe_exit_status entry) \<or> wexitstatus (pe_exit_status entry) \<noteq> 0"

definition process_list_init :: "nat \<Rightarrow> bool \<Rightarrow> bool \<Rightarrow> process_list" where
  "process_list_init max_list_entries use_execvp notify_fn =
     \<lparr>pl_use_execvp = use_execvp, pl_max_list_entries = max_list_entries, pl_allocated_list_entries = 0,
      pl_notify_fn = notify_fn, pl_active_list = [], pl_to_kill_list = [], pl_trace = []\<rparr>"

section \<open>Command lines\<close>

text \<open>A word that is not empty moves the lexer on.\<close>

lemma token_next_progress:
  assumes "dynar_simple_lex_token_next al lx = (True, lx')" and "c_str (dyn_data (sl_token lx')) \<noteq> []"
  shows "sl_input lx' = sl_input lx"
    and "dynar_size (sl_input lx') - sl_pos lx' < dynar_size (sl_input lx) - sl_pos lx"
proof -
  let ?s = "drop (sl_pos lx) (dyn_data (sl_input lx))"
  show input: "sl_input lx' = sl_input lx"
    using assms(1) by (auto simp: dynar_simple_lex_token_next_def split: prod.splits if_splits)
  have "sl_pos lx \<le> dynar_size (sl_input lx)"
  proof (rule ccontr)
    assume "\<not> sl_pos lx \<le> dynar_size (sl_input lx)"
    then have "simple_lex_loop al (sl_lex_type lx) (dyn_data (sl_input lx)) Lex_Spaces (sl_pos lx)
        (dynar_clean (sl_token lx)) = (True, sl_pos lx, dynar_clean (sl_token lx))"
      by (subst simple_lex_loop.simps, subst simple_lex_loop.simps)
         (simp add: lex_step_def dynar_size_def lex_add_def)
    with assms(1) have "dyn_data (sl_token lx') = [0]"
      using dynar_cat_ok [OF _ dynar_inv_clean, of al "sl_token lx" "[0]"]
      by (auto simp: dynar_simple_lex_token_next_def split: prod.splits if_splits)
    with assms(2) show False by (simp add: c_str_def)
  qed
  note exact = simple_lex_token_next [OF assms(1) this]
  then have "length (fst (lex_token (sl_lex_type lx) ?s)) > 0"
    using assms(2) by (auto simp: c_str_def)
  moreover have "length (fst (lex_token (sl_lex_type lx) ?s)) + length (drop (sl_pos lx') (dyn_data (sl_input lx))) \<le> length ?s"
    using lex_token_length [of "sl_lex_type lx" ?s] exact by simp
  ultimately show "dynar_size (sl_input lx') - sl_pos lx' < dynar_size (sl_input lx) - sl_pos lx"
    unfolding dynar_size_def input length_drop by linarith
qed

text \<open>
  The two loops of \<open>process_list_parse_command\<close>: the first counts the words up to the first empty
  one, the second copies them. The flag is false on \<open>goto exit_res\<close>.
\<close>

function count_params :: "allocator \<Rightarrow> dynar_simple_lex \<Rightarrow> nat \<Rightarrow> bool \<times> nat" where
  "count_params al lx n =
     (case dynar_simple_lex_token_next al lx of
        (ok, lx') \<Rightarrow>
          if \<not> ok then (False, n)
          else if c_str (dyn_data (sl_token lx')) = [] then (True, n)
          else count_params al lx' (n + 1))"
  by pat_completeness auto
termination
  by (relation "measure (\<lambda>(al, lx, n). dynar_size (sl_input lx) - sl_pos lx)")
     (auto dest: token_next_progress(2) [OF sym])

function copy_params :: "allocator \<Rightarrow> dynar_simple_lex \<Rightarrow> byte list list \<Rightarrow> bool \<times> byte list list" where
  "copy_params al lx argv =
     (case dynar_simple_lex_token_next al lx of
        (ok, lx') \<Rightarrow>
          if \<not> ok then (False, argv)
          else let str = c_str (dyn_data (sl_token lx'))
               in if str = [] then (True, argv)
                  else if \<not> al (Malloc_Bytes (length str + 1)) then (False, argv)
                  else copy_params al lx' (argv @ [str]))"
  by pat_completeness auto
termination
  by (relation "measure (\<lambda>(al, lx, argv). dynar_size (sl_input lx) - sl_pos lx)")
     (auto dest: token_next_progress(2) [OF sym])

declare count_params.simps [simp del] copy_params.simps [simp del]

text \<open>The argument vector (\<open>None\<close> for \<open>NULL\<close>) and the value left in \<open>no_params\<close>, which was zero before.\<close>

definition process_list_parse_command :: "allocator \<Rightarrow> byte list \<Rightarrow> byte list list option \<times> nat" where
  "process_list_parse_command al command =
     (case dynar_str_cpy al (dynar_init (length command + 1)) command of
        (r, command_dstr) \<Rightarrow>
          if r \<noteq> 0 then (None, 0)
          else let lx = dynar_simple_lex_init command_dstr DYNAR_SIMPLE_LEX_TYPE_QUOTE
               in case count_params al lx 0 of
                    (ok, no_params) \<Rightarrow>
                      if \<not> ok \<or> no_params < 1 then (None, no_params)
                      else if \<not> al (Malloc_Bytes (8 * (no_params + 1))) then (None, no_params)
                      else case copy_params al lx [] of
                             (ok', argv) \<Rightarrow>
                               if \<not> ok' \<or> length argv \<noteq> no_params then (None, no_params)
                               else (Some argv, no_params))"

section \<open>Operations\<close>

text \<open>\<open>process_list_free_argv\<close> reads \<open>no_params\<close> pointers of the vector, also when the vector is null.\<close>

definition process_list_free_argv :: "nat \<Rightarrow> byte list list option \<Rightarrow> fault + unit" where
  "process_list_free_argv no_params argv =
     (if no_params > 0 \<and> argv = None then Inl Null_Deref else Inr ())"

definition process_list_entry_free :: "nat \<Rightarrow> byte list list option \<Rightarrow> fault + unit" where
  "process_list_entry_free exec_argc exec_argv = process_list_free_argv exec_argc exec_argv"

definition process_list_add ::
    "allocator \<Rightarrow> process_list \<Rightarrow> byte list \<Rightarrow> byte list \<Rightarrow> fault + (bool \<times> process_list)" where
  "process_list_add al plist name command =
     (if pl_allocated_list_entries plist + 1 > pl_max_list_entries plist then Inr (False, plist)
      else if \<not> al Malloc_Process_Entry then Inr (False, plist)
      else if \<not> al (Malloc_Bytes (length name + 1))
      then bindE (process_list_entry_free 0 None) (\<lambda>u. Inr (False, plist))
      else case process_list_parse_command al command of
             (None, exec_argc) \<Rightarrow> bindE (process_list_entry_free exec_argc None) (\<lambda>u. Inr (False, plist))
           | (Some argv, exec_argc) \<Rightarrow>
               Inr (True, plist\<lparr>pl_allocated_list_entries := pl_allocated_list_entries plist + 1,
                 pl_active_list := pl_active_list plist @
                   [\<lparr>pe_name = name, pe_state = PROCESS_LIST_ENTRY_STATE_INITIALIZED, pe_exec_argv = argv,
                     pe_pid = 0, pe_exit_status = 0\<rparr>]\<rparr>))"

definition process_list_free :: "process_list \<Rightarrow> process_list" where
  "process_list_free plist =
     plist\<lparr>pl_allocated_list_entries := 0, pl_active_list := [], pl_to_kill_list := []\<rparr>"

text \<open>The parent's side of \<open>fork\<close>; the child executes the command or exits.\<close>

definition process_list_entry_exec ::
    "nat option \<Rightarrow> bool \<Rightarrow> process_list_entry \<Rightarrow> int \<times> process_list_entry \<times> process_event list" where
  "process_list_entry_exec fork notify_fn entry =
     (if pe_state entry \<noteq> PROCESS_LIST_ENTRY_STATE_INITIALIZED then (-1, entry, [])
      else case fork of
             None \<Rightarrow> (-1, entry, [])
           | Some pid \<Rightarrow>
               (0, entry\<lparr>pe_pid := pid, pe_state := PROCESS_LIST_ENTRY_STATE_RUNNING\<rparr>,
                Forked pid (pe_exec_argv entry) #
                  (if notify_fn then [Notified PROCESS_LIST_NOTIFY_REASON_EXECUTED (pe_name entry)] else [])))"

fun exec_initialized_loop ::
    "(nat \<Rightarrow> nat option) \<Rightarrow> bool \<Rightarrow> nat \<Rightarrow> process_list_entry list \<Rightarrow>
     int \<times> process_list_entry list \<times> process_event list" where
  "exec_initialized_loop fork notify_fn i [] = (0, [], [])"
| "exec_initialized_loop fork notify_fn i (entry # es) =
     (if pe_state entry = PROCESS_LIST_ENTRY_STATE_INITIALIZED
      then case process_list_entry_exec (fork i) notify_fn entry of
             (r, entry', ev) \<Rightarrow>
               if r \<noteq> 0 then (-1, entry' # es, ev)
               else (case exec_initialized_loop fork notify_fn (i + 1) es of
                       (r', es', ev') \<Rightarrow> (r', entry' # es', ev @ ev'))
      else (case exec_initialized_loop fork notify_fn i es of
              (r', es', ev') \<Rightarrow> (r', entry # es', ev')))"

definition process_list_exec_initialized :: "os_env \<Rightarrow> process_list \<Rightarrow> int \<times> process_list" where
  "process_list_exec_initialized os plist =
     (case exec_initialized_loop (os_fork os) (pl_notify_fn plist) (length (pl_trace plist)) (pl_active_list plist) of
        (r, es, ev) \<Rightarrow> (r, plist\<lparr>pl_active_list := es, pl_trace := pl_trace plist @ ev\<rparr>))"

definition process_list_entry_waitpid ::
    "os_env \<Rightarrow> bool \<Rightarrow> process_list_entry \<Rightarrow> int \<times> process_list_entry \<times> process_event list" where
  "process_list_entry_waitpid os notify_fn entry =
     (if pe_state entry = PROCESS_LIST_ENTRY_STATE_INITIALIZED \<or>
         pe_state entry = PROCESS_LIST_ENTRY_STATE_FINISHED then (0, entry, [])
      else case os_waitpid os (pe_pid entry) of
             Wait_Error \<Rightarrow> (-1, entry, [])
           | Wait_No_Change \<Rightarrow> (0, entry, [])
           | Wait_Status status \<Rightarrow>
               (0, entry\<lparr>pe_exit_status := status, pe_state := PROCESS_LIST_ENTRY_STATE_FINISHED\<rparr>,
                Reaped (pe_pid entry) status #
                  (if pe_state entry = PROCESS_LIST_ENTRY_STATE_RUNNING \<and> notify_fn
                   then [Notified PROCESS_LIST_NOTIFY_REASON_FINISHED (pe_name entry)] else [])))"

fun waitpid_loop ::
    "os_env \<Rightarrow> bool \<Rightarrow> process_list_entry list \<Rightarrow> int \<times> process_list_entry list \<times> process_event list" where
  "waitpid_loop os notify_fn [] = (0, [], [])"
| "waitpid_loop os notify_fn (entry # es) =
     (case process_list_entry_waitpid os notify_fn entry of
        (r, entry', ev) \<Rightarrow>
          if r \<noteq> 0 then (-1, entry' # es, ev)
          else case waitpid_loop os notify_fn es of
                 (r', es', ev') \<Rightarrow> (r', entry' # es', ev @ ev'))"

text \<open>The loop over the kill list, which drops finished entries; the last number counts them.\<close>

fun waitpid_kill_loop ::
    "os_env \<Rightarrow> bool \<Rightarrow> process_list_entry list \<Rightarrow> int \<times> process_list_entry list \<times> process_event list \<times> nat" where
  "waitpid_kill_loop os notify_fn [] = (0, [], [], 0)"
| "waitpid_kill_loop os notify_fn (entry # es) =
     (case process_list_entry_waitpid os notify_fn entry of
        (r, entry', ev) \<Rightarrow>
          if r \<noteq> 0 then (-1, entry' # es, ev, 0)
          else case waitpid_kill_loop os notify_fn es of
                 (r', es', ev', freed) \<Rightarrow>
                   if pe_state entry' = PROCESS_LIST_ENTRY_STATE_FINISHED then (r', es', ev @ ev', freed + 1)
                   else (r', entry' # es', ev @ ev', freed))"

definition process_list_waitpid :: "os_env \<Rightarrow> process_list \<Rightarrow> int \<times> process_list" where
  "process_list_waitpid os plist =
     (case waitpid_loop os (pl_notify_fn plist) (pl_active_list plist) of
        (r, es, ev) \<Rightarrow>
          let plist1 = plist\<lparr>pl_active_list := es, pl_trace := pl_trace plist @ ev\<rparr>
          in if r \<noteq> 0 then (-1, plist1)
             else case waitpid_kill_loop os (pl_notify_fn plist) (pl_to_kill_list plist) of
                    (r', ks, ev', freed) \<Rightarrow>
                      (r', plist1\<lparr>pl_to_kill_list := ks, pl_trace := pl_trace plist1 @ ev',
                             pl_allocated_list_entries := pl_allocated_list_entries plist1 - freed\<rparr>))"

definition process_list_get_no_running :: "process_list \<Rightarrow> nat" where
  "process_list_get_no_running plist =
     length (filter (\<lambda>e. pe_state e = PROCESS_LIST_ENTRY_STATE_RUNNING) (pl_active_list plist))"

fun summary_loop :: "int \<Rightarrow> process_list_entry list \<Rightarrow> int" where
  "summary_loop res [] = res"
| "summary_loop res (entry # es) =
     (if pe_state entry \<noteq> PROCESS_LIST_ENTRY_STATE_FINISHED then -1
      else summary_loop (if exec_failed entry then 1 else res) es)"

definition process_list_get_summary_result :: "process_list \<Rightarrow> int" where
  "process_list_get_summary_result plist = summary_loop 0 (pl_active_list plist)"

fun summary_short_loop :: "int \<Rightarrow> process_list_entry list \<Rightarrow> int" where
  "summary_short_loop res [] = res"
| "summary_short_loop res (entry # es) =
     (if pe_state entry = PROCESS_LIST_ENTRY_STATE_FINISHED
      then if exec_failed entry then 1 else summary_short_loop res es
      else summary_short_loop (-1) es)"

definition process_list_get_summary_result_short :: "process_list \<Rightarrow> int" where
  "process_list_get_summary_result_short plist = summary_short_loop 0 (pl_active_list plist)"

definition process_list_move_entry_to_kill_list :: "process_list_entry \<Rightarrow> process_list \<Rightarrow> process_list" where
  "process_list_move_entry_to_kill_list entry plist =
     plist\<lparr>pl_active_list := remove1 entry (pl_active_list plist),
           pl_to_kill_list := pl_to_kill_list plist @ [entry]\<rparr>"

fun move_active_loop :: "process_list_entry list \<Rightarrow> process_list \<Rightarrow> process_list" where
  "move_active_loop [] plist = plist"
| "move_active_loop (entry # es) plist =
     move_active_loop es
       (if pe_state entry = PROCESS_LIST_ENTRY_STATE_INITIALIZED \<or>
           pe_state entry = PROCESS_LIST_ENTRY_STATE_FINISHED
        then plist\<lparr>pl_active_list := remove1 entry (pl_active_list plist),
                   pl_allocated_list_entries := pl_allocated_list_entries plist - 1\<rparr>
        else process_list_move_entry_to_kill_list entry plist)"

definition process_list_move_active_entries_to_kill_list :: "process_list \<Rightarrow> process_list" where
  "process_list_move_active_entries_to_kill_list plist = move_active_loop (pl_active_list plist) plist"

definition process_list_process_kill_list_entry ::
    "os_env \<Rightarrow> process_list_entry \<Rightarrow> fault + (int \<times> process_list_entry \<times> process_event list)" where
  "process_list_process_kill_list_entry os entry =
     (let send = (\<lambda>sig_to_send new_state.
            Inr (if os_kill_fails os (pe_pid entry) sig_to_send then -1 else 0, entry\<lparr>pe_state := new_state\<rparr>,
                 [Signalled (pe_pid entry) sig_to_send]))
      in case pe_state entry of
           PROCESS_LIST_ENTRY_STATE_INITIALIZED \<Rightarrow> Inl Assert_Failure
         | PROCESS_LIST_ENTRY_STATE_FINISHED \<Rightarrow> Inl Assert_Failure
         | PROCESS_LIST_ENTRY_STATE_RUNNING \<Rightarrow> send SIGTERM PROCESS_LIST_ENTRY_STATE_SIGTERM_SENT
         | PROCESS_LIST_ENTRY_STATE_SIGTERM_SENT \<Rightarrow> send SIGKILL PROCESS_LIST_ENTRY_STATE_SIGKILL_SENT
         | PROCESS_LIST_ENTRY_STATE_SIGKILL_SENT \<Rightarrow> send SIGKILL PROCESS_LIST_ENTRY_STATE_SIGKILL_SENT)"

fun kill_loop ::
    "os_env \<Rightarrow> process_list_entry list \<Rightarrow> fault + (int \<times> process_list_entry list \<times> process_event list)" where
  "kill_loop os [] = Inr (0, [], [])"
| "kill_loop os (entry # es) =
     bindE (process_list_process_kill_list_entry os entry) (\<lambda>(r, entry', ev).
       if r \<noteq> 0 then Inr (-1, entry' # es, ev)
       else bindE (kill_loop os es) (\<lambda>(r', es', ev'). Inr (r', entry' # es', ev @ ev')))"

definition process_list_process_kill_list :: "os_env \<Rightarrow> process_list \<Rightarrow> fault + (int \<times> process_list)" where
  "process_list_process_kill_list os plist =
     (case process_list_waitpid os plist of
        (r, plist1) \<Rightarrow>
          if r \<noteq> 0 then Inr (-1, plist1)
          else bindE (kill_loop os (pl_to_kill_list plist1)) (\<lambda>(r', ks, ev).
                 Inr (r', plist1\<lparr>pl_to_kill_list := ks, pl_trace := pl_trace plist1 @ ev\<rparr>)))"

definition process_list_get_kill_list_items :: "process_list \<Rightarrow> nat" where
  "process_list_get_kill_list_items plist = length (pl_to_kill_list plist)"

text \<open>
  The rounds of \<open>process_list_killall\<close>, each with the answers of the system at that time: ten quick
  ones, then up to ten with a pause, which ends when the list is empty.
\<close>

fun killall_quick :: "os_env list \<Rightarrow> process_list \<Rightarrow> fault + (int \<times> process_list)" where
  "killall_quick [] plist = Inr (0, plist)"
| "killall_quick (os # oss) plist =
     bindE (process_list_process_kill_list os plist) (\<lambda>(r, plist1).
       if r \<noteq> 0 then Inr (-1, plist1) else killall_quick oss plist1)"

fun killall_slow :: "os_env list \<Rightarrow> process_list \<Rightarrow> fault + (int \<times> process_list)" where
  "killall_slow [] plist = Inr (0, plist)"
| "killall_slow (os # oss) plist =
     (if process_list_get_kill_list_items plist = 0 then Inr (0, plist)
      else bindE (process_list_process_kill_list os plist) (\<lambda>(r, plist1).
             if r \<noteq> 0 then Inr (-1, plist1) else killall_slow oss plist1))"

definition process_list_killall :: "(nat \<Rightarrow> os_env) \<Rightarrow> process_list \<Rightarrow> fault + (int \<times> process_list)" where
  "process_list_killall oss plist =
     bindE (killall_quick (map oss [0..<10]) (process_list_move_active_entries_to_kill_list plist)) (\<lambda>(r, plist1).
       if r \<noteq> 0 then Inr (-1, plist1)
       else bindE (killall_slow (map oss [10..<20]) plist1) (\<lambda>(r', plist2).
              if r' \<noteq> 0 then Inr (-1, plist2)
              else Inr (if process_list_get_kill_list_items plist2 > 0 then -1 else 0, plist2)))"

end
