(* ===== verification/Process_Props.thy ===== *)
theory Process_Props
  imports Process_List "HOL-Library.Multiset"
begin

text \<open>
  Properties of the process list: its bookkeeping is consistent in every reachable state, so that
  the assertions on the kill list cannot fail, and what it does to processes follows the life of a
  process: a signal goes only to a process that was started and not waited for yet, and SIGKILL
  only after SIGTERM.
\<close>

section \<open>The life of a process\<close>

text \<open>The abstract specification: the phase of every process id, changed by the events outside.\<close>

datatype phase = Not_Running | Started | Terminating

fun phase_step :: "(nat \<Rightarrow> phase) \<Rightarrow> process_event \<Rightarrow> (nat \<Rightarrow> phase) option" where
  "phase_step ph (Forked p argv) = (if ph p = Not_Running then Some (ph(p := Started)) else None)"
| "phase_step ph (Reaped p status) = (if ph p \<noteq> Not_Running then Some (ph(p := Not_Running)) else None)"
| "phase_step ph (Signalled p SIGTERM) = (if ph p = Started then Some (ph(p := Terminating)) else None)"
| "phase_step ph (Signalled p SIGKILL) = (if ph p = Terminating then Some ph else None)"
| "phase_step ph (Notified reason name) = Some ph"

fun phase_run :: "(nat \<Rightarrow> phase) \<Rightarrow> process_event list \<Rightarrow> (nat \<Rightarrow> phase) option" where
  "phase_run ph [] = Some ph"
| "phase_run ph (e # es) = (case phase_step ph e of None \<Rightarrow> None | Some ph' \<Rightarrow> phase_run ph' es)"

lemma phase_run_append:
  "phase_run ph (xs @ ys) = (case phase_run ph xs of None \<Rightarrow> None | Some ph' \<Rightarrow> phase_run ph' ys)"
  by (induction xs arbitrary: ph) (auto split: option.split)

text \<open>The phases that the entries of the list stand for.\<close>

fun entry_phase :: "process_list_entry_state \<Rightarrow> phase" where
  "entry_phase PROCESS_LIST_ENTRY_STATE_RUNNING = Started"
| "entry_phase PROCESS_LIST_ENTRY_STATE_SIGTERM_SENT = Terminating"
| "entry_phase PROCESS_LIST_ENTRY_STATE_SIGKILL_SENT = Terminating"
| "entry_phase _ = Not_Running"

definition live :: "process_list_entry \<Rightarrow> bool" where
  "live e \<longleftrightarrow> entry_phase (pe_state e) \<noteq> Not_Running"

definition live_pids :: "process_list_entry list \<Rightarrow> nat list" where
  "live_pids es = map pe_pid (filter live es)"

definition phases :: "process_list_entry list \<Rightarrow> nat \<Rightarrow> phase" where
  "phases es p =
     (case map_of (map (\<lambda>e. (pe_pid e, entry_phase (pe_state e))) (filter live es)) p of
        None \<Rightarrow> Not_Running | Some ph \<Rightarrow> ph)"

lemma live_pids_simps [simp]:
  "live_pids [] = []" "live_pids (e # es) = (if live e then pe_pid e # live_pids es else live_pids es)"
  "live_pids (xs @ ys) = live_pids xs @ live_pids ys"
  by (simp_all add: live_pids_def)

lemma phases_none: "p \<notin> set (live_pids es) \<Longrightarrow> phases es p = Not_Running"
  by (induction es) (auto simp: phases_def split: if_splits)

lemma phases_cong:
  assumes "distinct (live_pids xs)" and "distinct (live_pids ys)" and "set (filter live xs) = set (filter live ys)"
  shows "phases xs = phases ys"
proof -
  let ?f = "\<lambda>e. (pe_pid e, entry_phase (pe_state e))"
  have "map_of (map ?f (filter live xs)) = map_of (map ?f (filter live ys))"
    using assms by (intro map_of_inject_set [THEN iffD2]) (simp_all add: live_pids_def comp_def)
  then show ?thesis by (simp add: phases_def fun_eq_iff)
qed

lemma phases_Cons:
  "phases (e # es) = (if live e then (phases es)(pe_pid e := entry_phase (pe_state e)) else phases es)"
  by (auto simp: phases_def fun_eq_iff)

lemma phases_insert:
  assumes "distinct (live_pids (pre @ e # post))"
  shows "phases (pre @ e # post) =
    (if live e then (phases (pre @ post))(pe_pid e := entry_phase (pe_state e)) else phases (pre @ post))"
proof -
  have "phases (pre @ e # post) = phases (e # pre @ post)"
    using assms by (intro phases_cong) auto
  then show ?thesis by (simp add: phases_Cons)
qed

section \<open>Steps of entries\<close>

text \<open>A part of the list changes with events that the specification allows, whatever the other entries are.\<close>

definition moves :: "process_list_entry list \<Rightarrow> process_event list \<Rightarrow> process_list_entry list \<Rightarrow> bool" where
  "moves es ev es' \<longleftrightarrow>
     (\<forall>pre post. distinct (live_pids (pre @ es @ post)) \<longrightarrow>
        distinct (live_pids (pre @ es' @ post)) \<and>
        phase_run (phases (pre @ es @ post)) ev = Some (phases (pre @ es' @ post)))"

lemma moves_refl [intro, simp]: "moves es [] es"
  by (simp add: moves_def)

lemma moves_Cons:
  assumes "moves [e] ev fs" and "moves es ev' es'"
  shows "moves (e # es) (ev @ ev') (fs @ es')"
  unfolding moves_def
proof (intro allI impI)
  fix pre post
  assume "distinct (live_pids (pre @ (e # es) @ post))"
  with assms(1) have 1: "distinct (live_pids (pre @ fs @ es @ post))"
    "phase_run (phases (pre @ e # es @ post)) ev = Some (phases (pre @ fs @ es @ post))"
    unfolding moves_def by (metis append_Cons append_Nil)+
  with assms(2) have "distinct (live_pids ((pre @ fs) @ es' @ post)) \<and>
      phase_run (phases ((pre @ fs) @ es @ post)) ev' = Some (phases ((pre @ fs) @ es' @ post))"
    unfolding moves_def by (metis append.assoc)
  with 1(2) show "distinct (live_pids (pre @ (fs @ es') @ post)) \<and>
      phase_run (phases (pre @ (e # es) @ post)) (ev @ ev') = Some (phases (pre @ (fs @ es') @ post))"
    by (simp add: phase_run_append)
qed

lemma moves_entry:
  assumes "live e" and "pe_pid e' = pe_pid e"
    and "\<And>ph. ph (pe_pid e) = entry_phase (pe_state e) \<Longrightarrow>
      phase_run ph ev = Some (ph(pe_pid e := entry_phase (pe_state e')))"
  shows "moves [e] ev [e']"
  unfolding moves_def
proof (intro allI impI)
  fix pre post
  assume d: "distinct (live_pids (pre @ [e] @ post))"
  then have d': "distinct (live_pids (pre @ [e'] @ post))" and n: "phases (pre @ post) (pe_pid e) = Not_Running"
    using assms(1,2) by (auto intro!: phases_none)
  let ?ph = "(phases (pre @ post))(pe_pid e := entry_phase (pe_state e))"
  have "phase_run ?ph ev = Some (?ph(pe_pid e := entry_phase (pe_state e')))" by (rule assms(3)) simp
  moreover have "phases (pre @ [e'] @ post) = (phases (pre @ post))(pe_pid e := entry_phase (pe_state e'))"
    using phases_insert [of pre e' post] d' n assms(2) by (auto simp: live_def fun_eq_iff)
  ultimately show "distinct (live_pids (pre @ [e'] @ post)) \<and>
      phase_run (phases (pre @ [e] @ post)) ev = Some (phases (pre @ [e'] @ post))"
    using phases_insert [of pre e post] d d' assms(1) by simp
qed

lemma moves_drop:
  assumes "moves [e] ev [e']" and "\<not> live e'"
  shows "moves [e] ev []"
  unfolding moves_def
proof (intro allI impI)
  fix pre post
  assume "distinct (live_pids (pre @ [e] @ post))"
  with assms(1) have "distinct (live_pids (pre @ [e'] @ post))"
    "phase_run (phases (pre @ [e] @ post)) ev = Some (phases (pre @ [e'] @ post))"
    unfolding moves_def by blast+
  then show "distinct (live_pids (pre @ [] @ post)) \<and>
      phase_run (phases (pre @ [e] @ post)) ev = Some (phases (pre @ [] @ post))"
    using assms(2) phases_insert [of pre e' post] by simp
qed

lemma moves_waitpid:
  assumes "process_list_entry_waitpid os n e = (r, e', ev)"
  shows "moves [e] ev [e']"
proof (cases "live e")
  case True
  then show ?thesis
    using assms by (auto intro!: moves_entry simp: process_list_entry_waitpid_def live_def
        split: if_splits wait_result.splits)
next
  case False
  then show ?thesis
    using assms by (cases "pe_state e") (auto simp: process_list_entry_waitpid_def live_def)
qed

lemma moves_waitpid_loop: "waitpid_loop os n es = (r, es', ev) \<Longrightarrow> moves es ev es'"
proof (induction es arbitrary: r es' ev)
  case (Cons e es)
  obtain r1 e1 ev1 where w: "process_list_entry_waitpid os n e = (r1, e1, ev1)" by (metis prod_cases3)
  obtain r2 es2 ev2 where l: "waitpid_loop os n es = (r2, es2, ev2)" by (metis prod_cases3)
  show ?case
    using Cons.prems w l moves_Cons [OF moves_waitpid [OF w] Cons.IH [OF l]]
      moves_Cons [OF moves_waitpid [OF w] moves_refl, of es] by (auto split: if_splits)
qed simp

lemma moves_waitpid_kill_loop: "waitpid_kill_loop os n es = (r, es', ev, k) \<Longrightarrow> moves es ev es'"
proof (induction es arbitrary: r es' ev k)
  case (Cons e es)
  obtain r1 e1 ev1 where w: "process_list_entry_waitpid os n e = (r1, e1, ev1)" by (metis prod_cases3)
  obtain r2 es2 ev2 k2 where l: "waitpid_kill_loop os n es = (r2, es2, ev2, k2)" by (metis prod_cases4)
  have "pe_state e1 = PROCESS_LIST_ENTRY_STATE_FINISHED \<Longrightarrow> moves [e] ev1 []"
    using moves_drop [OF moves_waitpid [OF w]] by (simp add: live_def)
  then show ?case
    using Cons.prems w l moves_Cons [OF moves_waitpid [OF w] Cons.IH [OF l]]
      moves_Cons [OF _ Cons.IH [OF l], of e ev1 "[]"] moves_Cons [OF moves_waitpid [OF w] moves_refl, of es]
    by (auto split: if_splits)
qed simp

lemma moves_kill_entry:
  "process_list_process_kill_list_entry os e = Inr (r, e', ev) \<Longrightarrow> moves [e] ev [e']"
  by (intro moves_entry)
     (auto simp: process_list_process_kill_list_entry_def live_def Let_def fun_eq_iff
       split: process_list_entry_state.splits)

lemma moves_kill_loop: "kill_loop os es = Inr (r, es', ev) \<Longrightarrow> moves es ev es'"
proof (induction es arbitrary: r es' ev)
  case (Cons e es)
  from Cons.prems obtain r1 e1 ev1 where k: "process_list_process_kill_list_entry os e = Inr (r1, e1, ev1)"
    by (auto simp: bindE_Inr_iff)
  show ?case
    using Cons.prems k moves_Cons [OF moves_kill_entry [OF k] Cons.IH]
      moves_Cons [OF moves_kill_entry [OF k] moves_refl, of es] by (auto simp: bindE_Inr_iff split: if_splits)
qed simp

text \<open>What the operating system promises of \<open>fork\<close>: a new id that no live process has.\<close>

definition forks_fresh :: "(nat \<Rightarrow> nat option) \<Rightarrow> nat \<Rightarrow> nat list \<Rightarrow> bool" where
  "forks_fresh fork i used \<longleftrightarrow>
     (\<forall>j p. i \<le> j \<longrightarrow> fork j = Some p \<longrightarrow> p \<notin> set used) \<and>
     (\<forall>j k p. fork j = Some p \<longrightarrow> fork k = Some p \<longrightarrow> j = k)"

lemma exec_loop_moves:
  assumes "exec_initialized_loop fork n i es = (r, es', ev)" and "distinct (live_pids (pre @ es @ post))"
    and "forks_fresh fork i (live_pids (pre @ es @ post))"
  shows "distinct (live_pids (pre @ es' @ post)) \<and>
    phase_run (phases (pre @ es @ post)) ev = Some (phases (pre @ es' @ post))"
  using assms
proof (induction es arbitrary: pre i r es' ev)
  case (Cons e es)
  show ?case
  proof (cases "pe_state e = PROCESS_LIST_ENTRY_STATE_INITIALIZED")
    case False
    obtain r1 es1 ev1 where l: "exec_initialized_loop fork n i es = (r1, es1, ev1)" by (metis prod_cases3)
    show ?thesis
      using Cons.IH [OF l, of "pre @ [e]"] Cons.prems False l by (auto split: if_splits)
  next
    case init: True
    then have nl: "\<not> live e" by (simp add: live_def)
    show ?thesis
    proof (cases "fork i")
      case None
      then show ?thesis using Cons.prems init by (auto simp: process_list_entry_exec_def)
    next
      case (Some p)
      define e1 where "e1 = e\<lparr>pe_pid := p, pe_state := PROCESS_LIST_ENTRY_STATE_RUNNING\<rparr>"
      obtain r1 es1 ev1 where l: "exec_initialized_loop fork n (i + 1) es = (r1, es1, ev1)" by (metis prod_cases3)
      have p: "p \<notin> set (live_pids (pre @ es @ post))"
        using Cons.prems(3) Some nl unfolding forks_fresh_def by auto
      have d1: "distinct (live_pids ((pre @ [e1]) @ es @ post))"
        using Cons.prems(2) p nl by (auto simp: e1_def live_def)
      moreover have "forks_fresh fork (i + 1) (live_pids ((pre @ [e1]) @ es @ post))"
        using Cons.prems(3) Some nl unfolding forks_fresh_def by (auto simp: e1_def live_def) (metis Suc_n_not_le_n Suc_leD)+
      ultimately have ih: "distinct (live_pids ((pre @ [e1]) @ es1 @ post))"
        "phase_run (phases ((pre @ [e1]) @ es @ post)) ev1 = Some (phases ((pre @ [e1]) @ es1 @ post))"
        using Cons.IH [OF l] by blast+
      have "phases ((pre @ [e1]) @ es @ post) = (phases (pre @ e # es @ post))(p := Started)"
        using phases_insert [of pre e1 "es @ post"] phases_insert [of pre e "es @ post"] d1 Cons.prems(2) nl
        by (simp add: e1_def live_def)
      moreover have "phases (pre @ e # es @ post) p = Not_Running"
        using p nl by (intro phases_none) simp
      ultimately show ?thesis
        using ih Cons.prems(1) init Some l
        by (auto simp: process_list_entry_exec_def e1_def [symmetric] phase_run_append split: if_splits)
    qed
  qed
qed simp

section \<open>The invariant\<close>

text \<open>The trace is one that the specification allows, and it leads to the phases of the entries.\<close>

definition tracked :: "process_list_entry list \<Rightarrow> process_event list \<Rightarrow> bool" where
  "tracked es trace \<longleftrightarrow>
     distinct (live_pids es) \<and> phase_run (\<lambda>p. Not_Running) trace = Some (phases es)"

lemma tracked_step:
  "tracked es trace \<Longrightarrow> distinct (live_pids es') \<Longrightarrow> phase_run (phases es) ev = Some (phases es') \<Longrightarrow>
   tracked es' (trace @ ev)"
  by (simp add: tracked_def phase_run_append)

lemma tracked_moves: "tracked (pre @ es @ post) trace \<Longrightarrow> moves es ev es' \<Longrightarrow> tracked (pre @ es' @ post) (trace @ ev)"
  by (rule tracked_step) (auto simp: tracked_def moves_def simp del: live_pids_simps)

lemmas tracked_moves_front = tracked_moves [of "[]", simplified]
lemmas tracked_moves_back = tracked_moves [of _ _ "[]", simplified]

definition plist_wf :: "process_list \<Rightarrow> bool" where
  "plist_wf pl \<longleftrightarrow>
     pl_allocated_list_entries pl = length (pl_active_list pl) + length (pl_to_kill_list pl) \<and>
     pl_allocated_list_entries pl \<le> pl_max_list_entries pl \<and>
     (\<forall>e \<in> set (pl_active_list pl). pe_exec_argv e \<noteq> [] \<and> pe_state e \<in>
        {PROCESS_LIST_ENTRY_STATE_INITIALIZED, PROCESS_LIST_ENTRY_STATE_RUNNING, PROCESS_LIST_ENTRY_STATE_FINISHED}) \<and>
     (\<forall>e \<in> set (pl_to_kill_list pl). live e)"

definition plist_tracked :: "process_list \<Rightarrow> bool" where
  "plist_tracked pl = tracked (pl_active_list pl @ pl_to_kill_list pl) (pl_trace pl)"

lemma plist_init: "plist_wf (process_list_init m x n)" "plist_tracked (process_list_init m x n)"
  by (simp_all add: plist_wf_def plist_tracked_def tracked_def process_list_init_def phases_def fun_eq_iff)

lemma parse_command_argv: "process_list_parse_command al command = (Some argv, n) \<Longrightarrow> argv \<noteq> [] \<and> n = length argv"
  by (auto simp: process_list_parse_command_def Let_def split: prod.splits if_splits)

lemma plist_add:
  assumes "process_list_add al pl name command = Inr (b, pl')"
  shows "plist_wf pl \<Longrightarrow> plist_wf pl'" and "plist_tracked pl \<Longrightarrow> plist_tracked pl'"
proof -
  have p: "phases (xs @ e # ys) = phases (xs @ ys)"
    if "\<not> live e" "distinct (live_pids (xs @ ys))" for xs e ys
    using phases_insert [of xs e ys] that by simp
  show "plist_wf pl \<Longrightarrow> plist_wf pl'" "plist_tracked pl \<Longrightarrow> plist_tracked pl'"
    using assms by (auto simp: process_list_add_def plist_wf_def plist_tracked_def tracked_def
        process_list_entry_free_def live_def p process_list_free_argv_def dest!: parse_command_argv
        split: if_splits prod.splits option.splits)
qed

lemma exec_loop_states:
  assumes "exec_initialized_loop fork n i es = (r, es', ev)"
  shows "list_all2 (\<lambda>e e'. pe_name e' = pe_name e \<and> pe_exec_argv e' = pe_exec_argv e \<and>
    (pe_state e' = pe_state e \<or> pe_state e' = PROCESS_LIST_ENTRY_STATE_RUNNING)) es es'"
  using assms
proof (induction es arbitrary: i r es' ev)
  case (Cons e es)
  then show ?case
    by (fastforce simp: process_list_entry_exec_def list_all2_refl split: if_splits option.splits prod.splits)
qed simp

lemma waitpid_entry_states:
  "process_list_entry_waitpid os n e = (r, e', ev) \<Longrightarrow>
     pe_name e' = pe_name e \<and> pe_exec_argv e' = pe_exec_argv e \<and>
     (pe_state e' = pe_state e \<or> pe_state e' = PROCESS_LIST_ENTRY_STATE_FINISHED) \<and> (r = 0 \<or> r = -1)"
  by (auto simp: process_list_entry_waitpid_def split: if_splits wait_result.splits)

lemma waitpid_loop_states:
  assumes "waitpid_loop os n es = (r, es', ev)"
  shows "list_all2 (\<lambda>e e'. pe_name e' = pe_name e \<and> pe_exec_argv e' = pe_exec_argv e \<and>
    (pe_state e' = pe_state e \<or> pe_state e' = PROCESS_LIST_ENTRY_STATE_FINISHED)) es es'"
  using assms
proof (induction es arbitrary: r es' ev)
  case (Cons e es)
  obtain r1 e1 ev1 where w: "process_list_entry_waitpid os n e = (r1, e1, ev1)" by (metis prod_cases3)
  show ?case
    using Cons waitpid_entry_states [OF w] w by (auto simp: list_all2_refl split: if_splits prod.splits)
qed simp

lemma waitpid_kill_loop_states:
  assumes "waitpid_kill_loop os n es = (r, es', ev, k)" and "\<forall>e \<in> set es. live e"
  shows "length es' + k = length es \<and> (\<forall>e \<in> set es'. live e)"
  using assms
proof (induction es arbitrary: r es' ev k)
  case (Cons e es)
  obtain r1 e1 ev1 where w: "process_list_entry_waitpid os n e = (r1, e1, ev1)" by (metis prod_cases3)
  have "r1 = 0 \<or> e1 = e" using w by (auto simp: process_list_entry_waitpid_def split: if_splits wait_result.splits)
  then show ?case
    using Cons waitpid_entry_states [OF w] w by (fastforce simp: live_def split: if_splits prod.splits)
qed simp

lemma list_all2_set:
  "list_all2 P xs ys \<Longrightarrow> y \<in> set ys \<Longrightarrow> \<exists>x \<in> set xs. P x y"
  by (metis in_set_conv_nth list_all2_conv_all_nth)

lemma plist_exec:
  assumes "process_list_exec_initialized os pl = (r, pl')"
  shows "plist_wf pl \<Longrightarrow> plist_wf pl'"
    and "plist_tracked pl \<Longrightarrow>
      forks_fresh (os_fork os) (length (pl_trace pl)) (live_pids (pl_active_list pl @ pl_to_kill_list pl)) \<Longrightarrow>
      plist_tracked pl'"
proof -
  obtain es ev where
    l: "exec_initialized_loop (os_fork os) (pl_notify_fn pl) (length (pl_trace pl)) (pl_active_list pl) = (r, es, ev)"
    and pl': "pl' = pl\<lparr>pl_active_list := es, pl_trace := pl_trace pl @ ev\<rparr>"
    using assms by (auto simp: process_list_exec_initialized_def split: prod.splits)
  show "plist_wf pl \<Longrightarrow> plist_wf pl'"
    using list_all2_lengthD [OF exec_loop_states [OF l]] list_all2_set [OF exec_loop_states [OF l]]
    by (fastforce simp: plist_wf_def pl')
  show "plist_tracked pl'" if "plist_tracked pl"
    "forks_fresh (os_fork os) (length (pl_trace pl)) (live_pids (pl_active_list pl @ pl_to_kill_list pl))"
    using exec_loop_moves [OF l, of "[]" "pl_to_kill_list pl"] that unfolding plist_tracked_def pl'
    by (auto simp: tracked_def phase_run_append)
qed

lemma plist_waitpid:
  assumes "process_list_waitpid os pl = (r, pl')"
  shows "plist_wf pl \<Longrightarrow> plist_wf pl'" and "plist_tracked pl \<Longrightarrow> plist_tracked pl'"
proof -
  obtain r1 es ev where l: "waitpid_loop os (pl_notify_fn pl) (pl_active_list pl) = (r1, es, ev)" by (metis prod_cases3)
  obtain r2 ks ev2 k where l2: "waitpid_kill_loop os (pl_notify_fn pl) (pl_to_kill_list pl) = (r2, ks, ev2, k)"
    by (metis prod_cases4)
  define pl1 where "pl1 = pl\<lparr>pl_active_list := es, pl_trace := pl_trace pl @ ev\<rparr>"
  have pl': "pl' = pl1 \<or> pl' = pl1\<lparr>pl_to_kill_list := ks, pl_trace := pl_trace pl1 @ ev2,
      pl_allocated_list_entries := pl_allocated_list_entries pl1 - k\<rparr>"
    using assms l l2 by (auto simp: process_list_waitpid_def pl1_def Let_def split: if_splits)
  have wf1: "plist_wf pl1" if "plist_wf pl"
    using that list_all2_lengthD [OF waitpid_loop_states [OF l]] list_all2_set [OF waitpid_loop_states [OF l]]
    by (fastforce simp: plist_wf_def pl1_def)
  show "plist_wf pl'" if "plist_wf pl"
    using pl' wf1 [OF that] waitpid_kill_loop_states [OF l2]
    by (elim disjE) (simp_all add: plist_wf_def pl1_def, linarith)
  have "plist_tracked pl1" if "plist_tracked pl"
    using that tracked_moves_front [OF _ moves_waitpid_loop [OF l]] by (simp add: plist_tracked_def pl1_def)
  moreover have "tracked (es @ ks) (pl_trace pl1 @ ev2)" if "plist_tracked pl1"
    by (rule tracked_moves_back [OF _ moves_waitpid_kill_loop [OF l2]]) (use that in \<open>simp add: plist_tracked_def pl1_def\<close>)
  ultimately show "plist_tracked pl'" if "plist_tracked pl"
    using pl' that by (auto simp: plist_tracked_def pl1_def)
qed

lemma move_active_loop:
  assumes "pl_active_list pl = es"
  shows "move_active_loop es pl = pl\<lparr>pl_active_list := [], pl_to_kill_list := pl_to_kill_list pl @ filter (\<lambda>e.
      pe_state e \<noteq> PROCESS_LIST_ENTRY_STATE_INITIALIZED \<and> pe_state e \<noteq> PROCESS_LIST_ENTRY_STATE_FINISHED) es,
    pl_allocated_list_entries := pl_allocated_list_entries pl - length (filter (\<lambda>e.
      pe_state e = PROCESS_LIST_ENTRY_STATE_INITIALIZED \<or> pe_state e = PROCESS_LIST_ENTRY_STATE_FINISHED) es)\<rparr>"
  using assms
  by (induction es arbitrary: pl) (auto simp: process_list_move_entry_to_kill_list_def)

lemmas move_active_entries = move_active_loop [OF refl, folded process_list_move_active_entries_to_kill_list_def]

lemma not_idle_live:
  "pe_state e \<noteq> PROCESS_LIST_ENTRY_STATE_INITIALIZED \<and> pe_state e \<noteq> PROCESS_LIST_ENTRY_STATE_FINISHED \<longleftrightarrow> live e"
  by (cases "pe_state e") (auto simp: live_def)

lemma move_active_live:
  "process_list_move_active_entries_to_kill_list pl = pl\<lparr>pl_active_list := [],
     pl_to_kill_list := pl_to_kill_list pl @ filter live (pl_active_list pl),
     pl_allocated_list_entries := pl_allocated_list_entries pl - length (filter (\<lambda>e. \<not> live e) (pl_active_list pl))\<rparr>"
proof -
  have "(\<lambda>e. pe_state e = PROCESS_LIST_ENTRY_STATE_INITIALIZED \<or> pe_state e = PROCESS_LIST_ENTRY_STATE_FINISHED) =
      (\<lambda>e. \<not> live e)"
    using not_idle_live by (auto simp: fun_eq_iff)
  then show ?thesis using move_active_entries [of pl] by (simp only: not_idle_live)
qed

lemma plist_move:
  shows "plist_wf pl \<Longrightarrow> plist_wf (process_list_move_active_entries_to_kill_list pl)"
    and "plist_tracked pl \<Longrightarrow> plist_tracked (process_list_move_active_entries_to_kill_list pl)"
proof -
  let ?as = "pl_active_list pl" and ?ks = "pl_to_kill_list pl"
  have "length (filter live ?as) + length (filter (\<lambda>e. \<not> live e) ?as) = length ?as"
    by (rule sum_length_filter_compl)
  then show "plist_wf pl \<Longrightarrow> plist_wf (process_list_move_active_entries_to_kill_list pl)"
    by (auto simp: plist_wf_def move_active_live)
  show "plist_tracked (process_list_move_active_entries_to_kill_list pl)" if t: "plist_tracked pl"
  proof -
    have d: "distinct (live_pids (?ks @ filter live ?as))"
      using t by (auto simp: plist_tracked_def tracked_def live_pids_def)
    then have "phases (?as @ ?ks) = phases (?ks @ filter live ?as)"
      using t by (intro phases_cong) (auto simp: plist_tracked_def tracked_def)
    with t d show ?thesis by (simp add: plist_tracked_def tracked_def move_active_live)
  qed
qed

lemma kill_loop_live:
  assumes "\<forall>e \<in> set es. live e"
  shows "\<exists>r es' ev. kill_loop os es = Inr (r, es', ev) \<and> length es' = length es \<and> (\<forall>e \<in> set es'. live e)"
  using assms
proof (induction es)
  case (Cons e es)
  obtain r e' ev where "process_list_process_kill_list_entry os e = Inr (r, e', ev)" "live e'"
    using Cons.prems by (cases "pe_state e") (auto simp: process_list_process_kill_list_entry_def live_def)
  with Cons show ?case by fastforce
qed simp

lemma plist_kill:
  assumes "plist_wf pl"
  obtains r pl' where "process_list_process_kill_list os pl = Inr (r, pl')" and "plist_wf pl'"
    and "plist_tracked pl \<Longrightarrow> plist_tracked pl'" and "pl_active_list pl = [] \<Longrightarrow> pl_active_list pl' = []"
proof -
  obtain r pl1 where w: "process_list_waitpid os pl = (r, pl1)" by fastforce
  note wf = plist_waitpid(1) [OF w assms] and tr = plist_waitpid(2) [OF w]
  have act: "pl_active_list pl = [] \<Longrightarrow> pl_active_list pl1 = []"
    using w by (auto simp: process_list_waitpid_def Let_def split: prod.splits if_splits)
  obtain r2 ks ev where k: "kill_loop os (pl_to_kill_list pl1) = Inr (r2, ks, ev)"
    "length ks = length (pl_to_kill_list pl1)" "\<forall>e \<in> set ks. live e"
    using kill_loop_live [of "pl_to_kill_list pl1" os] wf by (auto simp: plist_wf_def)
  let ?pl2 = "pl1\<lparr>pl_to_kill_list := ks, pl_trace := pl_trace pl1 @ ev\<rparr>"
  have "plist_wf ?pl2" using wf k(2,3) by (simp add: plist_wf_def)
  moreover have "plist_tracked ?pl2" if "plist_tracked pl"
    using tracked_moves_back [OF _ moves_kill_loop [OF k(1)]] tr [OF that] by (simp add: plist_tracked_def)
  moreover have "process_list_process_kill_list os pl = Inr (if r \<noteq> 0 then (-1, pl1) else (r2, ?pl2))"
    using w k(1) by (simp add: process_list_process_kill_list_def)
  ultimately show ?thesis using that act wf tr by (cases "r \<noteq> 0") auto
qed

section \<open>Reachable states\<close>

inductive plist_reachable :: "process_list \<Rightarrow> bool" where
  init: "plist_reachable (process_list_init m x n)"
| add: "plist_reachable pl \<Longrightarrow> process_list_add al pl name command = Inr (b, pl') \<Longrightarrow> plist_reachable pl'"
| exec: "plist_reachable pl \<Longrightarrow>
    forks_fresh (os_fork os) (length (pl_trace pl)) (live_pids (pl_active_list pl @ pl_to_kill_list pl)) \<Longrightarrow>
    process_list_exec_initialized os pl = (r, pl') \<Longrightarrow> plist_reachable pl'"
| wait: "plist_reachable pl \<Longrightarrow> process_list_waitpid os pl = (r, pl') \<Longrightarrow> plist_reachable pl'"
| move: "plist_reachable pl \<Longrightarrow> plist_reachable (process_list_move_active_entries_to_kill_list pl)"
| kill: "plist_reachable pl \<Longrightarrow> process_list_process_kill_list os pl = Inr (r, pl') \<Longrightarrow> plist_reachable pl'"

lemma plist_reachable_inv: "plist_reachable pl \<Longrightarrow> plist_wf pl \<and> plist_tracked pl"
proof (induction rule: plist_reachable.induct)
  case (kill pl os r pl')
  then show ?case using plist_kill [of pl os] by (metis Inr_inject Pair_inject)
qed (simp_all add: plist_init plist_add plist_exec plist_waitpid plist_move del: live_pids_simps)

text \<open>
  C25. The process list follows the life of a process. In every state that it reaches, when \<open>fork\<close>
  gives ids that no live process has, its calls of \<open>fork\<close>, \<open>waitpid\<close> and \<open>kill\<close> so far are a run of
  the specification: signals went only to processes that were started and not waited for, SIGKILL
  only after SIGTERM. The run leads to exactly the phases that the entries record, the counter is
  the number of entries and at most the configured maximum, and processing the kill list cannot
  fail an assertion.
\<close>

theorem process_list_life:
  assumes "plist_reachable pl"
  shows "phase_run (\<lambda>p. Not_Running) (pl_trace pl) = Some (phases (pl_active_list pl @ pl_to_kill_list pl)) \<and>
    pl_allocated_list_entries pl = length (pl_active_list pl) + length (pl_to_kill_list pl) \<and>
    pl_allocated_list_entries pl \<le> pl_max_list_entries pl \<and>
    process_list_process_kill_list os pl \<noteq> Inl f"
  using plist_reachable_inv [OF assms] plist_kill [of pl os]
  by (auto simp: plist_wf_def plist_tracked_def tracked_def)

section \<open>Command lines\<close>

text \<open>The lexer asks for memory by \<open>realloc\<close> only.\<close>

definition reallocs :: "allocator \<Rightarrow> bool" where
  "reallocs al \<longleftrightarrow> (\<forall>n. al (Realloc_Bytes n))"

lemma cat_reallocs:
  assumes "reallocs al"
  shows "dynar_cat al = dynar_cat (\<lambda>r. True)"
proof -
  have "dynar_realloc al = dynar_realloc (\<lambda>r. True)"
    using assms by (auto simp: dynar_realloc_def reallocs_def fun_eq_iff)
  then have "dynar_prealloc al = dynar_prealloc (\<lambda>r. True)"
    by (intro ext) (simp only: dynar_prealloc_def)
  then show ?thesis by (intro ext) (simp only: dynar_cat_def)
qed

lemma lex_loop_reallocs:
  assumes "reallocs al"
  shows "simple_lex_loop al ty str state pos tok = simple_lex_loop (\<lambda>r. True) ty str state pos tok"
proof (induction al' \<equiv> "\<lambda>r :: alloc_req. True" ty str state pos tok rule: simple_lex_loop.induct)
  case (1 ty str state pos tok)
  have a: "lex_add al = lex_add (\<lambda>r. True)" by (simp add: lex_add_def cat_reallocs [OF assms] fun_eq_iff)
  show ?case
    by (subst (1 2) simple_lex_loop.simps) (auto simp: a 1 split: prod.split)
qed

lemma token_next_reallocs:
  assumes "reallocs al"
  shows "dynar_simple_lex_token_next al lx = dynar_simple_lex_token_next (\<lambda>r. True) lx"
  unfolding dynar_simple_lex_token_next_def lex_loop_reallocs [OF assms] cat_reallocs [OF assms] by (rule refl)

text \<open>The reference: the words up to the end of the line or the first empty word.\<close>

function command_words :: "byte list \<Rightarrow> byte list list" where
  "command_words s =
     (case lex_token DYNAR_SIMPLE_LEX_TYPE_QUOTE s of
        (w, rest) \<Rightarrow> if c_str w = [] then [] else c_str w # command_words rest)"
  by pat_completeness auto
termination
proof (relation "measure length", goal_cases)
  case (2 s w rest)
  then have "w \<noteq> []" "length w + length rest \<le> length s"
    using lex_token_length [of DYNAR_SIMPLE_LEX_TYPE_QUOTE s] by (auto simp: c_str_def) (metis fst_conv snd_conv)
  then have "length w > 0" "length w + length rest \<le> length s" by auto
  then show ?case unfolding in_measure by linarith
qed simp

declare command_words.simps [simp del]

lemma c_str_zero: "c_str (w @ [0]) = c_str w"
  by (induction w) (simp_all add: c_str_def)

lemma token_next_word:
  assumes "reallocs al" and "sl_pos lx \<le> dynar_size (sl_input lx)"
    and "sl_lex_type lx = DYNAR_SIMPLE_LEX_TYPE_QUOTE"
    and "dynar_size (sl_input lx) < dyn_maximum_size (sl_token lx)"
    and "drop (sl_pos lx) (dyn_data (sl_input lx)) = s"
    and "dynar_simple_lex_token_next al lx = (ok, lx')"
  shows "ok \<and> c_str (dyn_data (sl_token lx')) = c_str (fst (lex_token DYNAR_SIMPLE_LEX_TYPE_QUOTE s)) \<and>
    drop (sl_pos lx') (dyn_data (sl_input lx')) = snd (lex_token DYNAR_SIMPLE_LEX_TYPE_QUOTE s) \<and>
    sl_pos lx' \<le> dynar_size (sl_input lx') \<and> sl_lex_type lx' = DYNAR_SIMPLE_LEX_TYPE_QUOTE \<and>
    dynar_size (sl_input lx') < dyn_maximum_size (sl_token lx')"
proof -
  have "dynar_simple_lex_token_next (\<lambda>r. True) lx = (ok, lx')"
    using assms(6) token_next_reallocs [OF assms(1)] by simp
  from simple_lex_token_next [OF this assms(2)] assms(3-5) show ?thesis
    by (auto simp: alloc_ideal_def c_str_zero)
qed

lemma count_params_words:
  assumes "reallocs al" and "sl_pos lx \<le> dynar_size (sl_input lx)"
    and "sl_lex_type lx = DYNAR_SIMPLE_LEX_TYPE_QUOTE"
    and "dynar_size (sl_input lx) < dyn_maximum_size (sl_token lx)"
  shows "count_params al lx n = (True, n + length (command_words (drop (sl_pos lx) (dyn_data (sl_input lx)))))"
  using assms
proof (induction al lx n rule: count_params.induct)
  case (1 al lx n)
  obtain ok lx' where t: "dynar_simple_lex_token_next al lx = (ok, lx')" by fastforce
  note w = token_next_word [OF 1(2-5) refl t]
  show ?case
  proof (cases "c_str (dyn_data (sl_token lx')) = []")
    case True
    with w t show ?thesis by (subst count_params.simps, subst command_words.simps) (auto split: prod.split)
  next
    case False
    have "count_params al lx' (n + 1) =
        (True, n + 1 + length (command_words (drop (sl_pos lx') (dyn_data (sl_input lx')))))"
      using 1(1) [OF t [symmetric]] w False 1(2) by simp
    with w t False show ?thesis by (subst count_params.simps, subst command_words.simps) (auto split: prod.split)
  qed
qed

lemma copy_params_words:
  assumes "alloc_ideal al" and "sl_pos lx \<le> dynar_size (sl_input lx)"
    and "sl_lex_type lx = DYNAR_SIMPLE_LEX_TYPE_QUOTE"
    and "dynar_size (sl_input lx) < dyn_maximum_size (sl_token lx)"
  shows "copy_params al lx argv = (True, argv @ command_words (drop (sl_pos lx) (dyn_data (sl_input lx))))"
  using assms
proof (induction al lx argv rule: copy_params.induct)
  case (1 al lx argv)
  obtain ok lx' where t: "dynar_simple_lex_token_next al lx = (ok, lx')" by fastforce
  have "reallocs al" using 1(2) by (simp add: alloc_ideal_def reallocs_def)
  note w = token_next_word [OF this 1(3-5) refl t]
  show ?case
  proof (cases "c_str (dyn_data (sl_token lx')) = []")
    case True
    with w t show ?thesis
      by (subst copy_params.simps, subst command_words.simps) (auto simp: Let_def split: prod.split)
  next
    case False
    have "copy_params al lx' (argv @ [c_str (dyn_data (sl_token lx'))]) =
        (True, argv @ [c_str (dyn_data (sl_token lx'))] @ command_words (drop (sl_pos lx') (dyn_data (sl_input lx'))))"
      using 1(1) [OF t [symmetric] _ refl False] w 1(2) unfolding alloc_ideal_def append_assoc by blast
    with w t False show ?thesis
      using 1(2) by (subst copy_params.simps, subst command_words.simps)
        (auto simp: Let_def alloc_ideal_def split: prod.split)
  qed
qed

lemma command_buffer:
  assumes "reallocs al"
  obtains d where "dynar_str_cpy al (dynar_init (length command + 1)) command = (0, d)"
    and "dyn_data d = command" and "dyn_maximum_size d = length command + 1"
proof -
  let ?d = "dynar_init (length command + 1)"
  have al: "alloc_ideal (\<lambda>r. True)" by (simp add: alloc_ideal_def)
  obtain r d where c: "dynar_cat (\<lambda>r. True) (dynar_clean ?d) command = (r, d)" by fastforce
  note w = writesD [OF writes_cat dynar_inv_clean c]
  have "r = 0" using w(6) [OF al] by (simp add: dynar_defs)
  then have "dynar_str_cpy al ?d command = (0, d)"
    using c by (simp add: dynar_str_cpy_def dynar_str_cat_def [abs_def] cat_reallocs [OF assms] dynar_max_size_def
        dynar_init_def)
  then show ?thesis using that w(2,4) \<open>r = 0\<close> by (simp add: dynar_defs)
qed

lemma parse_command_words:
  assumes "reallocs al"
  shows "command_words command = [] \<Longrightarrow> process_list_parse_command al command = (None, 0)"
    and "command_words command \<noteq> [] \<Longrightarrow> \<not> al (Malloc_Bytes (8 * (length (command_words command) + 1))) \<Longrightarrow>
      process_list_parse_command al command = (None, length (command_words command))"
    and "command_words command \<noteq> [] \<Longrightarrow> alloc_ideal al \<Longrightarrow>
      process_list_parse_command al command = (Some (command_words command), length (command_words command))"
proof -
  obtain d where d: "dynar_str_cpy al (dynar_init (length command + 1)) command = (0, d)"
    "dyn_data d = command" "dyn_maximum_size d = length command + 1"
    by (rule command_buffer [OF assms])
  let ?lx = "dynar_simple_lex_init d DYNAR_SIMPLE_LEX_TYPE_QUOTE"
  have lx: "sl_pos ?lx \<le> dynar_size (sl_input ?lx)" "sl_lex_type ?lx = DYNAR_SIMPLE_LEX_TYPE_QUOTE"
    "dynar_size (sl_input ?lx) < dyn_maximum_size (sl_token ?lx)" "sl_pos ?lx = 0" "dyn_data (sl_input ?lx) = command"
    using d(2,3) by (simp_all add: dynar_simple_lex_init_def dynar_defs)
  have "count_params al ?lx 0 = (True, length (command_words command))"
    using count_params_words [OF assms lx(1-3)] by (simp add: lx)
  moreover have "alloc_ideal al \<Longrightarrow> copy_params al ?lx [] = (True, command_words command)"
    using copy_params_words [OF _ lx(1-3), of al "[]"] by (simp add: lx)
  ultimately show "command_words command = [] \<Longrightarrow> process_list_parse_command al command = (None, 0)"
    "command_words command \<noteq> [] \<Longrightarrow> \<not> al (Malloc_Bytes (8 * (length (command_words command) + 1))) \<Longrightarrow>
      process_list_parse_command al command = (None, length (command_words command))"
    "command_words command \<noteq> [] \<Longrightarrow> alloc_ideal al \<Longrightarrow>
      process_list_parse_command al command = (Some (command_words command), length (command_words command))"
    using d(1) by (simp_all add: process_list_parse_command_def Let_def alloc_ideal_def)
qed

text \<open>
  Refused memory ends the worker: when the argument vector of a command with at least one word
  cannot be allocated, \<open>process_list_parse_command\<close> leaves the number of words in the entry, and freeing
  the entry reads that many pointers from a null vector. Every other request may succeed.
\<close>

theorem process_list_add_null:
  assumes "pl_allocated_list_entries pl < pl_max_list_entries pl" and "reallocs al" and "al Malloc_Process_Entry"
    and "al (Malloc_Bytes (length name + 1))" and "command_words command \<noteq> []"
    and "\<not> al (Malloc_Bytes (8 * (length (command_words command) + 1)))"
  shows "process_list_add al pl name command = Inl Null_Deref"
  using assms parse_command_words(2) [OF assms(2,5,6)]
  by (simp add: process_list_add_def process_list_entry_free_def process_list_free_argv_def)

definition ex_command :: "byte list" where
  "ex_command = [47, 98, 32, 34, 97, 32, 34]"

lemma ex_command_words: "command_words ex_command = [[47, 98], [97, 32]]"
  by (simp add: ex_command_def command_words.simps lex_token_Cons line_end_def dynar_simple_lex_is_space_def
      chr_quote_def chr_backslash_def c_str_def)

theorem process_list_add_null_witness:
  "process_list_add (\<lambda>r. r \<noteq> Malloc_Bytes 24) (process_list_init 1 False False) [97] ex_command = Inl Null_Deref"
  by (rule process_list_add_null) (simp_all add: process_list_init_def reallocs_def ex_command_words)

section \<open>An example\<close>

definition ex_os :: os_env where
  "ex_os = \<lparr>os_fork = (\<lambda>i. if i = 0 then Some 100 else None), os_waitpid = (\<lambda>p. Wait_No_Change),
     os_kill_fails = (\<lambda>p sig. False)\<rparr>"

text \<open>One process is started, does not end and is killed.\<close>

lemma ex_life:
  "\<exists>pl. plist_reachable pl \<and> pl_trace pl = [Forked 100 [[47, 98], [97, 32]], Signalled 100 SIGTERM, Signalled 100 SIGKILL]"
proof -
  have al: "alloc_ideal (\<lambda>r. True)" "reallocs (\<lambda>r. True)" by (simp_all add: alloc_ideal_def reallocs_def)
  define e0 where "e0 = \<lparr>pe_name = [97], pe_state = PROCESS_LIST_ENTRY_STATE_INITIALIZED,
    pe_exec_argv = [[47, 98], [97, 32]], pe_pid = 0, pe_exit_status = 0\<rparr>"
  define p0 where "p0 = process_list_init 1 False False"
  define p1 where "p1 = p0\<lparr>pl_allocated_list_entries := 1, pl_active_list := [e0]\<rparr>"
  define p2 where "p2 = snd (process_list_exec_initialized ex_os p1)"
  define p3 where "p3 = process_list_move_active_entries_to_kill_list p2"
  note defs = p3_def p2_def p1_def p0_def e0_def process_list_init_def ex_os_def
  have "process_list_add (\<lambda>r. True) p0 [97] ex_command = Inr (True, p1)"
    using parse_command_words(3) [OF al(2) _ al(1), of ex_command]
    by (simp add: process_list_add_def ex_command_words defs)
  then have r1: "plist_reachable p1"
    using plist_reachable.add plist_reachable.init unfolding p0_def by blast
  have "live_pids (pl_active_list p1 @ pl_to_kill_list p1) = []"
    by (simp add: p1_def p0_def e0_def process_list_init_def live_def)
  then have "forks_fresh (os_fork ex_os) (length (pl_trace p1)) (live_pids (pl_active_list p1 @ pl_to_kill_list p1))"
    by (auto simp: forks_fresh_def ex_os_def split: if_splits)
  then have r2: "plist_reachable p2"
    using plist_reachable.exec [OF r1] unfolding p2_def by (metis prod.collapse)
  then have r3: "plist_reachable p3" unfolding p3_def by (rule plist_reachable.move)
  note ops = process_list_process_kill_list_def process_list_waitpid_def process_list_entry_waitpid_def
    process_list_process_kill_list_entry_def process_list_exec_initialized_def process_list_entry_exec_def
    process_list_move_active_entries_to_kill_list_def process_list_move_entry_to_kill_list_def
  obtain p4 where k4: "process_list_process_kill_list ex_os p3 = Inr (0, p4)"
    and p4: "pl_trace p4 = [Forked 100 [[47, 98], [97, 32]], Signalled 100 SIGTERM]"
      "pl_active_list p4 = []" "pl_to_kill_list p4 = [e0\<lparr>pe_pid := 100, pe_state := PROCESS_LIST_ENTRY_STATE_SIGTERM_SENT\<rparr>]"
    by (simp add: defs ops)
  then have r4: "plist_reachable p4" using r3 plist_reachable.kill by blast
  obtain p5 where "process_list_process_kill_list ex_os p4 = Inr (0, p5)"
    and p5: "pl_trace p5 = [Forked 100 [[47, 98], [97, 32]], Signalled 100 SIGTERM, Signalled 100 SIGKILL]"
    using p4 by (simp add: ops ex_os_def Let_def)
  then have "plist_reachable p5" using r4 plist_reachable.kill by blast
  with p5 show ?thesis by blast
qed

theorem process_list_life_witness:
  "\<exists>pl. pl_trace pl = [Forked 100 [[47, 98], [97, 32]], Signalled 100 SIGTERM, Signalled 100 SIGKILL] \<and>
     phase_run (\<lambda>p. Not_Running) (pl_trace pl) = Some (phases (pl_active_list pl @ pl_to_kill_list pl)) \<and>
     process_list_process_kill_list ex_os pl \<noteq> Inl Assert_Failure"
  using ex_life process_list_life by blast

end
