(* ===== verification/Heuristics_Worker.thy ===== *)
theory Heuristics_Worker
  imports Process_Props Heuristics_Props Timer_List
begin

text \<open>
  The heuristics worker (\<open>qdevice-heuristics-worker.c\<close>, \<open>qdevice-heuristics-worker-cmd.c\<close>): a separate
  process that reads command lines from a pipe, runs the configured commands and writes one line
  with the result. The pipe, the operating system and the timers that are due are arguments of a turn
  of its loop. Log messages are left out. The record has three fields without a counterpart in the
  C struct, which the properties speak of: the answers that were written, and for the processes of
  the active list the commands they were started for and the length of the trace at that time.
\<close>

section \<open>State\<close>

record worker_instance =
  hw_cmd_in_buffer :: dynar
  hw_cmd_out_buffer :: dynar
  hw_exec_list :: exec_list
  hw_main_process_list :: process_list
  hw_exec_timeout_timer :: "u32 option"
  hw_last_exec_seq_number :: u32
  hw_schedule_exit :: bool
  hw_answers :: "(u32 \<times> qdevice_heuristics_exec_result \<times> byte list) list"
  hw_started :: exec_list
  hw_started_at :: nat

datatype worker_timer = Kill_List_Timer | Exec_Timeout_Timer

text \<open>
  A turn of the loop: what \<open>poll\<close> reports for the command pipe (data to read with the result of the
  read, \<open>POLLOUT\<close>, an error or hang-up), the operating system during the turn and during the timers,
  and the timers that are due, in their order.
\<close>

record worker_env =
  we_al :: allocator
  we_pollin :: "recv_result option"
  we_pollout :: bool
  we_pollerr :: bool
  we_os :: os_env
  we_os_timers :: os_env
  we_due :: "worker_timer list"

section \<open>Commands\<close>

text \<open>The result line; that the write to the pipe may fail is ignored by the code.\<close>

definition worker_answer ::
    "allocator \<Rightarrow> qdevice_heuristics_exec_result \<Rightarrow> worker_instance \<Rightarrow> int \<times> worker_instance" where
  "worker_answer al exec_result w =
     (case qdevice_heuristics_worker_cmd_write_exec_result al (hw_cmd_out_buffer w)
             (hw_last_exec_seq_number w) exec_result of
        (r, buf, line) \<Rightarrow>
          (r, w\<lparr>hw_cmd_out_buffer := buf,
                hw_answers := (if r = 0 then hw_answers w @ [(hw_last_exec_seq_number w, exec_result, line)]
                               else hw_answers w)\<rparr>))"

definition move_to_kill_list :: "worker_instance \<Rightarrow> worker_instance" where
  "move_to_kill_list w =
     w\<lparr>hw_main_process_list := process_list_move_active_entries_to_kill_list (hw_main_process_list w)\<rparr>"

text \<open>A request that cannot be carried out is answered with a failure.\<close>

definition exec_give_up :: "allocator \<Rightarrow> worker_instance \<Rightarrow> int \<times> worker_instance" where
  "exec_give_up al w =
     (case worker_answer al QDEVICE_HEURISTICS_EXEC_RESULT_FAIL (move_to_kill_list w) of
        (r, w') \<Rightarrow> (if r \<noteq> 0 then -1 else 0, w'))"

text \<open>The loop that fills the process list; the flag is false when an entry could not be added.\<close>

fun add_execs :: "allocator \<Rightarrow> exec_list \<Rightarrow> process_list \<Rightarrow> fault + (bool \<times> process_list)" where
  "add_execs al [] plist = Inr (True, plist)"
| "add_execs al (x # xs) plist =
     bindE (process_list_add al plist (hx_name x) (hx_command x)) (\<lambda>(ok, plist').
       if \<not> ok then Inr (False, plist') else add_execs al xs plist')"

definition qdevice_heuristics_worker_cmd_process_exec ::
    "worker_env \<Rightarrow> byte list \<Rightarrow> worker_instance \<Rightarrow> fault + (int \<times> worker_instance)" where
  "qdevice_heuristics_worker_cmd_process_exec we str w0 =
     (case worker_exec_scan str of
        None \<Rightarrow> Inr (-1, w0)
      | Some (timeout, seq_number) \<Rightarrow>
          let w1 = (if hw_exec_timeout_timer w0 \<noteq> None
                    then (move_to_kill_list w0)\<lparr>hw_exec_timeout_timer := None\<rparr> else w0);
              w = w1\<lparr>hw_last_exec_seq_number := seq_number\<rparr>
          in if qdevice_heuristics_exec_list_is_empty (hw_exec_list w)
             then (case worker_answer (we_al we) QDEVICE_HEURISTICS_EXEC_RESULT_DISABLED w of
                     (r, w') \<Rightarrow> Inr (if r \<noteq> 0 then -1 else 0, w'))
             else bindE (add_execs (we_al we) (hw_exec_list w) (hw_main_process_list w)) (\<lambda>(ok, plist).
                    let w2 = w\<lparr>hw_main_process_list := plist\<rparr>
                    in if \<not> ok then Inr (exec_give_up (we_al we) w2)
                       else case process_list_exec_initialized (we_os we) plist of
                              (r, plist') \<Rightarrow>
                                let w3 = w2\<lparr>hw_main_process_list := plist', hw_started := hw_exec_list w,
                                            hw_started_at := length (pl_trace plist)\<rparr>
                                in if r \<noteq> 0 then Inr (exec_give_up (we_al we) w3)
                                   else let t = timer_start (we_al we) timeout;
                                            w4 = w3\<lparr>hw_exec_timeout_timer := t\<rparr>
                                        in if t = None then Inr (exec_give_up (we_al we) w4)
                                           else Inr (0, w4)))"

definition qdevice_heuristics_worker_cmd_process_one_line ::
    "worker_env \<Rightarrow> byte list \<Rightarrow> worker_instance \<Rightarrow> fault + (int \<times> byte list \<times> worker_instance)" where
  "qdevice_heuristics_worker_cmd_process_one_line we data w =
     (case cmd_line data of
        None \<Rightarrow> Inr (0, data, w)
      | Some line \<Rightarrow>
          let ended = data[length (takeWhile line_char data) := 0];
              exec_prefix = cmd_str_exec @ [chr_space];
              finish = (\<lambda>(r :: int, w'). Inr (if r \<noteq> 0 then (-1, ended, w') else (1, cmd_rest data, w')))
          in if line = cmd_str_exec_list_clear
             then finish (0, w\<lparr>hw_exec_list := qdevice_heuristics_exec_list_free (hw_exec_list w)\<rparr>)
             else if take (length cmd_str_exec_list_add) line = cmd_str_exec_list_add
             then (case qdevice_heuristics_worker_cmd_process_exec_list_add (we_al we) line (hw_exec_list w) of
                     (r, elist) \<Rightarrow> finish (r, w\<lparr>hw_exec_list := elist\<rparr>))
             else if take (length exec_prefix) line = exec_prefix
             then bindE (qdevice_heuristics_worker_cmd_process_exec we line w) finish
             else Inr (-1, ended, w))"

lemma worker_line_shrinks:
  assumes "qdevice_heuristics_worker_cmd_process_one_line we data w = Inr (1, data', w')"
  shows "length data' < length data"
proof -
  let ?n = "length (takeWhile line_char data)"
  from assms have n: "?n < length data" and d: "data' = cmd_rest data"
    by (auto simp: qdevice_heuristics_worker_cmd_process_one_line_def cmd_line_def Let_def bindE_Inr_iff
        split: if_splits prod.splits)
  have "length data' \<le> length (drop (Suc ?n) data)"
    unfolding d cmd_rest_def by (rule length_dropWhile_le)
  with n show ?thesis by simp
qed

function worker_cmd_loop ::
    "worker_env \<Rightarrow> byte list \<Rightarrow> worker_instance \<Rightarrow> fault + (int \<times> byte list \<times> worker_instance)" where
  "worker_cmd_loop we data w =
     (case qdevice_heuristics_worker_cmd_process_one_line we data w of
        Inl f \<Rightarrow> Inl f
      | Inr (res, data', w') \<Rightarrow>
          if res = 1 then worker_cmd_loop we data' w' else Inr (res, data', w'))"
  by pat_completeness auto
termination
  by (relation "measure (\<lambda>(we, data, w). length data)") (auto intro: worker_line_shrinks)

declare worker_cmd_loop.simps [simp del]

definition qdevice_heuristics_worker_cmd_process ::
    "worker_env \<Rightarrow> worker_instance \<Rightarrow> fault + (int \<times> worker_instance)" where
  "qdevice_heuristics_worker_cmd_process we w =
     bindE (worker_cmd_loop we (dyn_data (hw_cmd_in_buffer w)) w) (\<lambda>(res, data, w').
       Inr (res, w'\<lparr>hw_cmd_in_buffer := (hw_cmd_in_buffer w')\<lparr>dyn_data := data\<rparr>\<rparr>))"

definition qdevice_heuristics_worker_cmd_read_from_pipe ::
    "worker_env \<Rightarrow> recv_result \<Rightarrow> worker_instance \<Rightarrow> fault + (int \<times> worker_instance)" where
  "qdevice_heuristics_worker_cmd_read_from_pipe we readed w =
     (case qdevice_heuristics_io_read (we_al we) readed (hw_cmd_in_buffer w) of
        (res, buf) \<Rightarrow>
          let w1 = w\<lparr>hw_cmd_in_buffer := buf\<rparr>
          in if res = 0 then Inr (0, w1)
             else if res = 1 then qdevice_heuristics_worker_cmd_process we w1
             else Inr (-1, w1))"

section \<open>The loop\<close>

definition qdevice_heuristics_worker_kill_list_timer_callback ::
    "os_env \<Rightarrow> worker_instance \<Rightarrow> fault + (int \<times> worker_instance)" where
  "qdevice_heuristics_worker_kill_list_timer_callback os w =
     bindE (process_list_process_kill_list os (hw_main_process_list w)) (\<lambda>(r, plist).
       let w' = w\<lparr>hw_main_process_list := plist\<rparr>
       in if r \<noteq> 0 then Inr (0, w'\<lparr>hw_schedule_exit := True\<rparr>) else Inr (-1, w'))"

definition qdevice_heuristics_worker_exec_timeout_timer_callback ::
    "allocator \<Rightarrow> worker_instance \<Rightarrow> int \<times> worker_instance" where
  "qdevice_heuristics_worker_exec_timeout_timer_callback al w =
     (case worker_answer al QDEVICE_HEURISTICS_EXEC_RESULT_FAIL
             ((move_to_kill_list w)\<lparr>hw_exec_timeout_timer := None\<rparr>) of
        (r, w') \<Rightarrow> (0, if r \<noteq> 0 then w'\<lparr>hw_schedule_exit := True\<rparr> else w'))"

text \<open>\<open>timer_list_expire\<close> on the timers of the worker: those that are due and still run.\<close>

fun worker_expire :: "worker_env \<Rightarrow> worker_timer list \<Rightarrow> worker_instance \<Rightarrow> fault + worker_instance" where
  "worker_expire we [] w = Inr w"
| "worker_expire we (Kill_List_Timer # ts) w =
     bindE (qdevice_heuristics_worker_kill_list_timer_callback (we_os_timers we) w) (\<lambda>(r, w').
       worker_expire we ts w')"
| "worker_expire we (Exec_Timeout_Timer # ts) w =
     (if hw_exec_timeout_timer w = None then worker_expire we ts w
      else worker_expire we ts (snd (qdevice_heuristics_worker_exec_timeout_timer_callback (we_al we) w)))"

definition worker_input :: "worker_env \<Rightarrow> worker_instance \<Rightarrow> fault + (int \<times> worker_instance)" where
  "worker_input we w =
     bindE (case we_pollin we of
              None \<Rightarrow> Inr (0, w)
            | Some readed \<Rightarrow> qdevice_heuristics_worker_cmd_read_from_pipe we readed w) (\<lambda>(r, w1).
       if r \<noteq> 0 \<or> we_pollout we \<or> we_pollerr we \<and> we_pollin we = None then Inr (-1, w1) else Inr (0, w1))"

text \<open>The check for a result, while a request is being processed.\<close>

definition worker_result :: "allocator \<Rightarrow> worker_instance \<Rightarrow> int \<times> worker_instance" where
  "worker_result al w =
     (if hw_exec_timeout_timer w = None then (0, w)
      else let plist_summary = process_list_get_summary_result_short (hw_main_process_list w)
           in if plist_summary = -1 then (0, w)
              else case worker_answer al (if plist_summary = 0 then QDEVICE_HEURISTICS_EXEC_RESULT_PASS
                                          else QDEVICE_HEURISTICS_EXEC_RESULT_FAIL) w of
                     (r, w1) \<Rightarrow>
                       if r \<noteq> 0 then (-1, w1)
                       else (0, (move_to_kill_list w1)\<lparr>hw_exec_timeout_timer := None\<rparr>))"

definition qdevice_heuristics_worker_poll ::
    "worker_env \<Rightarrow> worker_instance \<Rightarrow> fault + (int \<times> worker_instance)" where
  "qdevice_heuristics_worker_poll we w =
     bindE (worker_input we w) (\<lambda>(r1, w1).
       if r1 \<noteq> 0 then Inr (-1, w1)
       else case process_list_waitpid (we_os we) (hw_main_process_list w1) of
              (r2, plist) \<Rightarrow>
                let w2 = w1\<lparr>hw_main_process_list := plist\<rparr>
                in if r2 \<noteq> 0 then Inr (-1, w2)
                   else case worker_result (we_al we) w2 of
                          (r3, w3) \<Rightarrow>
                            if r3 \<noteq> 0 then Inr (-1, w3)
                            else bindE (worker_expire we (we_due we) w3) (\<lambda>w4.
                                   Inr (if hw_schedule_exit w4 then -1 else 0, w4)))"

definition worker_init :: "nat \<Rightarrow> bool \<Rightarrow> nat \<Rightarrow> worker_instance" where
  "worker_init ipc_max_send_receive_size use_execvp max_processes =
     \<lparr>hw_cmd_in_buffer = dynar_init ipc_max_send_receive_size,
      hw_cmd_out_buffer = dynar_init ipc_max_send_receive_size,
      hw_exec_list = qdevice_heuristics_exec_list_init,
      hw_main_process_list = process_list_init max_processes use_execvp True,
      hw_exec_timeout_timer = None, hw_last_exec_seq_number = 0, hw_schedule_exit = False,
      hw_answers = [], hw_started = [], hw_started_at = 0\<rparr>"

text \<open>
  \<open>qdevice_heuristics_worker_start\<close>: the loop over the turns \<open>wes\<close> until one of them ends it, and then
  the end of all processes, in the rounds \<open>oss\<close>.
\<close>

fun worker_loop :: "worker_env list \<Rightarrow> worker_instance \<Rightarrow> fault + worker_instance" where
  "worker_loop [] w = Inr w"
| "worker_loop (we # wes) w =
     bindE (qdevice_heuristics_worker_poll we w) (\<lambda>(r, w'). if r \<noteq> 0 then Inr w' else worker_loop wes w')"

definition qdevice_heuristics_worker_start ::
    "allocator \<Rightarrow> worker_env list \<Rightarrow> (nat \<Rightarrow> os_env) \<Rightarrow> nat \<Rightarrow> bool \<Rightarrow> nat \<Rightarrow> u32 \<Rightarrow> fault + worker_instance" where
  "qdevice_heuristics_worker_start al wes oss ipc_max_send_receive_size use_execvp max_processes kill_list_interval =
     (let w = worker_init ipc_max_send_receive_size use_execvp max_processes
      in if timer_start al kill_list_interval = None then Inr w
         else bindE (worker_loop wes w) (\<lambda>w1.
                bindE (process_list_killall oss (hw_main_process_list w1)) (\<lambda>(r, plist).
                  Inr (w1\<lparr>hw_exec_list := qdevice_heuristics_exec_list_free (hw_exec_list w1),
                          hw_main_process_list := process_list_free plist\<rparr>))))"

end
