(* ===== verification/Worker_Props.thy ===== *)
theory Worker_Props
  imports Heuristics_Worker
begin

text \<open>
  What a result of the heuristics worker means: PASS is reported only when every command that was
  configured when the request arrived has been run for this request and exited with status 0; and
  a request is answered at the latest when its timer is due.
\<close>

section \<open>Lines that keep the list of commands\<close>

text \<open>
  A complete line that does not start a request goes to \<open>worker_cmd_exec_list\<close>, the dispatch that the round trip of the
  list in \<open>Heuristics_Props\<close> is stated with.
\<close>

lemma one_line_exec_list:
  assumes "cmd_line data = Some line"
    and "take (length (cmd_str_exec @ [chr_space])) line \<noteq> cmd_str_exec @ [chr_space]"
  shows "qdevice_heuristics_worker_cmd_process_one_line we data w =
    (case worker_cmd_exec_list (we_al we) line (hw_exec_list w) of
       (r, elist) \<Rightarrow> Inr (if r \<noteq> 0 then (-1, data[length (takeWhile line_char data) := 0], w\<lparr>hw_exec_list := elist\<rparr>)
                        else (1, cmd_rest data, w\<lparr>hw_exec_list := elist\<rparr>)))"
  using assms
  by (simp add: qdevice_heuristics_worker_cmd_process_one_line_def worker_cmd_exec_list_def Let_def split: prod.split)

section \<open>Processes of a request\<close>

text \<open>Whatever memory does, a command that was parsed was parsed into its words.\<close>

lemma copy_params_exact:
  assumes "copy_params al lx argv = (True, argv')" and "sl_pos lx \<le> dynar_size (sl_input lx)"
    and "sl_lex_type lx = DYNAR_SIMPLE_LEX_TYPE_QUOTE"
  shows "argv' = argv @ command_words (drop (sl_pos lx) (dyn_data (sl_input lx)))"
  using assms
proof (induction al lx argv rule: copy_params.induct)
  case (1 al lx argv)
  obtain ok lx' where t: "dynar_simple_lex_token_next al lx = (ok, lx')" by fastforce
  note prems = 1(2) [unfolded copy_params.simps [of al lx argv] t] 1(3,4)
  have ok: ok using prems(1) by (simp split: if_splits)
  note w = simple_lex_token_next [OF t prems(2), unfolded prems(3)]
  let ?lt = "lex_token DYNAR_SIMPLE_LEX_TYPE_QUOTE (drop (sl_pos lx) (dyn_data (sl_input lx)))"
  have c: "c_str (dyn_data (sl_token lx')) = c_str (fst ?lt)" using w ok by (simp add: c_str_zero)
  show ?case
  proof (cases "c_str (fst ?lt) = []")
    case True
    then show ?thesis using prems(1) ok c by (subst command_words.simps) (auto simp: Let_def split: prod.split)
  next
    case False
    then have "copy_params al lx' (argv @ [c_str (fst ?lt)]) = (True, argv')"
      using prems(1) ok c by (auto simp: Let_def split: if_splits)
    then have "argv' = (argv @ [c_str (fst ?lt)]) @ command_words (snd ?lt)"
      using 1(1) [OF t [symmetric] _ refl] False ok w c prems(1) by (simp add: Let_def split: if_splits)
    then show ?thesis using False by (subst command_words.simps) (auto split: prod.split)
  qed
qed

lemma parse_command_exact:
  assumes "process_list_parse_command al command = (Some argv, n)"
  shows "argv = command_words command"
proof -
  obtain r d where d: "dynar_str_cpy al (dynar_init (length command + 1)) command = (r, d)" by fastforce
  have "r = 0" using assms d by (auto simp: process_list_parse_command_def split: if_splits)
  then have data: "dyn_data d = command"
    using d dynar_cat_ok [OF _ dynar_inv_clean, of al "dynar_init (length command + 1)" command d]
    by (auto simp: dynar_str_cpy_def dynar_str_cat_def split: if_splits)
  have "copy_params al (dynar_simple_lex_init d DYNAR_SIMPLE_LEX_TYPE_QUOTE) [] = (True, argv)"
    using assms d \<open>r = 0\<close> by (auto simp: process_list_parse_command_def Let_def split: if_splits prod.splits)
  from copy_params_exact [OF this] data show ?thesis by (simp add: dynar_simple_lex_init_def)
qed

text \<open>The entries of a list of commands, before they are started.\<close>

definition exec_entry :: "qdevice_heuristics_exec_list_entry \<Rightarrow> process_list_entry" where
  "exec_entry x = \<lparr>pe_name = hx_name x, pe_state = PROCESS_LIST_ENTRY_STATE_INITIALIZED,
     pe_exec_argv = command_words (hx_command x), pe_pid = 0, pe_exit_status = 0\<rparr>"

lemma exec_entry_simps [simp]:
  "pe_state (exec_entry x) = PROCESS_LIST_ENTRY_STATE_INITIALIZED" "pe_name (exec_entry x) = hx_name x"
  "pe_exec_argv (exec_entry x) = command_words (hx_command x)"
  by (simp_all add: exec_entry_def)

lemma process_list_add_entry:
  assumes "process_list_add al pl (hx_name x) (hx_command x) = Inr (ok, pl')"
  shows "pl_trace pl' = pl_trace pl \<and> (ok \<longrightarrow> pl_active_list pl' = pl_active_list pl @ [exec_entry x])"
  using assms
  by (auto simp: process_list_add_def exec_entry_def process_list_entry_free_def process_list_free_argv_def
      dest: parse_command_exact split: if_splits prod.splits option.splits)

lemma add_execs_entries:
  assumes "add_execs al xs pl = Inr (ok, pl')"
  shows "pl_trace pl' = pl_trace pl \<and> (plist_wf pl \<longrightarrow> plist_wf pl') \<and>
    (ok \<longrightarrow> pl_active_list pl' = pl_active_list pl @ map exec_entry xs)"
  using assms
proof (induction xs arbitrary: pl)
  case (Cons x xs)
  then obtain ok1 pl1 where a: "process_list_add al pl (hx_name x) (hx_command x) = Inr (ok1, pl1)"
    by (auto simp: bindE_Inr_iff)
  show ?case
    using Cons process_list_add_entry [OF a] plist_add(1) [OF a] a by (cases ok1) auto
qed simp

text \<open>What the trace says of an entry that was started.\<close>

definition logged :: "process_event list \<Rightarrow> process_list_entry \<Rightarrow> bool" where
  "logged trace e \<longleftrightarrow>
     (pe_state e = PROCESS_LIST_ENTRY_STATE_RUNNING \<or> pe_state e = PROCESS_LIST_ENTRY_STATE_FINISHED) \<and>
     Forked (pe_pid e) (pe_exec_argv e) \<in> set trace \<and>
     (pe_state e = PROCESS_LIST_ENTRY_STATE_FINISHED \<longrightarrow> Reaped (pe_pid e) (pe_exit_status e) \<in> set trace)"

lemma logged_mono: "logged trace e \<Longrightarrow> set trace \<subseteq> set trace' \<Longrightarrow> logged trace' e"
  by (auto simp: logged_def)

lemma exec_loop_logged:
  assumes "exec_initialized_loop fork n i (map exec_entry xs) = (0, es, ev)" and "set ev \<subseteq> set trace"
  shows "list_all2 (\<lambda>x e. pe_exec_argv e = command_words (hx_command x) \<and> logged trace e) xs es"
  using assms
proof (induction xs arbitrary: i es ev)
  case (Cons x xs)
  obtain r1 es1 ev1 where l: "exec_initialized_loop fork n (i + 1) (map exec_entry xs) = (r1, es1, ev1)"
    by (metis prod_cases3)
  obtain p where p: "fork i = Some p"
    using Cons.prems(1) by (cases "fork i") (auto simp: process_list_entry_exec_def)
  have r: "r1 = 0" and es: "es = (exec_entry x)\<lparr>pe_pid := p, pe_state := PROCESS_LIST_ENTRY_STATE_RUNNING\<rparr> # es1"
    and ev: "set ev1 \<subseteq> set trace" "Forked p (command_words (hx_command x)) \<in> set trace"
    using Cons.prems l p by (auto simp: process_list_entry_exec_def split: if_splits)
  show ?case
    using Cons.IH [OF l [unfolded r] ev(1)] ev(2) by (simp add: es logged_def)
qed simp

lemma waitpid_entry_logged:
  assumes "process_list_entry_waitpid os n e = (r, e', ev)" and "logged trace e" and "set trace \<union> set ev \<subseteq> set trace'"
  shows "pe_exec_argv e' = pe_exec_argv e \<and> logged trace' e'"
  using assms by (auto simp: process_list_entry_waitpid_def logged_def split: if_splits wait_result.splits)

lemma waitpid_loop_logged:
  assumes "waitpid_loop os n es = (r, es', ev)" and "set trace \<union> set ev \<subseteq> set trace'"
    and "list_all2 (\<lambda>x e. pe_exec_argv e = command_words (hx_command x) \<and> logged trace e) xs es"
  shows "list_all2 (\<lambda>x e. pe_exec_argv e = command_words (hx_command x) \<and> logged trace' e) xs es'"
  using assms
proof (induction es arbitrary: xs r es' ev)
  case (Cons e es)
  obtain x ys where xs: "xs = x # ys" using Cons.prems(3) by (cases xs) auto
  obtain r1 e1 ev1 where w: "process_list_entry_waitpid os n e = (r1, e1, ev1)" by (metis prod_cases3)
  obtain r2 es2 ev2 where l: "waitpid_loop os n es = (r2, es2, ev2)" by (metis prod_cases3)
  have keep: "list_all2 (\<lambda>x e. pe_exec_argv e = command_words (hx_command x) \<and> logged trace' e) ys es"
    using Cons.prems(2,3) by (auto simp: xs elim!: list_all2_mono intro: logged_mono)
  show ?case
    using Cons.prems waitpid_entry_logged [OF w, of trace trace'] Cons.IH [OF l, of ys] keep w l
    by (auto simp: xs split: if_splits)
qed simp

section \<open>The invariant\<close>

text \<open>
  Without a running request the active list is empty; with one, its entries are the commands of the
  request, in their order, started and logged since the request.
\<close>

definition request_runs :: "worker_instance \<Rightarrow> bool" where
  "request_runs w \<longleftrightarrow>
     hw_started w \<noteq> [] \<and> hw_started_at w \<le> length (pl_trace (hw_main_process_list w)) \<and>
     list_all2 (\<lambda>x e. pe_exec_argv e = command_words (hx_command x) \<and>
         logged (drop (hw_started_at w) (pl_trace (hw_main_process_list w))) e)
       (hw_started w) (pl_active_list (hw_main_process_list w))"

definition worker_inv :: "worker_instance \<Rightarrow> bool" where
  "worker_inv w \<longleftrightarrow>
     plist_wf (hw_main_process_list w) \<and>
     (if hw_exec_timeout_timer w = None then pl_active_list (hw_main_process_list w) = [] else request_runs w)"

lemma worker_inv_init: "worker_inv (worker_init s x m)"
  by (simp add: worker_inv_def worker_init_def plist_init) (simp add: process_list_init_def)

lemma worker_answer_keeps:
  "worker_answer al res w = (r, w') \<Longrightarrow>
     hw_main_process_list w' = hw_main_process_list w \<and> hw_exec_timeout_timer w' = hw_exec_timeout_timer w \<and>
     hw_started w' = hw_started w \<and> hw_started_at w' = hw_started_at w \<and>
     hw_last_exec_seq_number w' = hw_last_exec_seq_number w \<and>
     (\<exists>line. hw_answers w' = hw_answers w \<or> hw_answers w' = hw_answers w @ [(hw_last_exec_seq_number w, res, line)])"
  by (auto simp: worker_answer_def split: prod.splits)

lemma move_to_kill_list_simps [simp]:
  "pl_active_list (hw_main_process_list (move_to_kill_list w)) = []"
  "pl_trace (hw_main_process_list (move_to_kill_list w)) = pl_trace (hw_main_process_list w)"
  "plist_wf (hw_main_process_list w) \<Longrightarrow> plist_wf (hw_main_process_list (move_to_kill_list w))"
  "hw_exec_timeout_timer (move_to_kill_list w) = hw_exec_timeout_timer w"
  "hw_answers (move_to_kill_list w) = hw_answers w"
  "hw_started (move_to_kill_list w) = hw_started w" "hw_started_at (move_to_kill_list w) = hw_started_at w"
  "hw_last_exec_seq_number (move_to_kill_list w) = hw_last_exec_seq_number w"
  by (simp_all add: move_to_kill_list_def plist_move) (simp_all add: move_active_entries)

text \<open>New answers, none of which is PASS.\<close>

definition no_pass :: "worker_instance \<Rightarrow> worker_instance \<Rightarrow> bool" where
  "no_pass w w' \<longleftrightarrow>
     (\<exists>new. hw_answers w' = hw_answers w @ new \<and> QDEVICE_HEURISTICS_EXEC_RESULT_PASS \<notin> (fst \<circ> snd) ` set new)"

lemma no_pass_refl: "hw_answers w' = hw_answers w \<Longrightarrow> no_pass w w'"
  by (simp add: no_pass_def)

lemma no_pass_trans: "no_pass w w' \<Longrightarrow> no_pass w' w'' \<Longrightarrow> no_pass w w''"
  by (auto simp: no_pass_def)

lemma no_pass_answer:
  "worker_answer al res w = (r, w') \<Longrightarrow> res \<noteq> QDEVICE_HEURISTICS_EXEC_RESULT_PASS \<Longrightarrow>
   hw_answers w = hw_answers w0 \<Longrightarrow> no_pass w0 w'"
  by (auto simp: no_pass_def worker_answer_def split: prod.splits if_splits)

lemma exec_give_up_inv:
  assumes "exec_give_up al w = (r, w')" and "plist_wf (hw_main_process_list w)" and "hw_exec_timeout_timer w = None"
    and "hw_answers w = hw_answers w0"
  shows "worker_inv w' \<and> no_pass w0 w'"
proof -
  obtain r1 where a: "worker_answer al QDEVICE_HEURISTICS_EXEC_RESULT_FAIL (move_to_kill_list w) = (r1, w')"
    using assms(1) by (auto simp: exec_give_up_def split: prod.splits)
  show ?thesis
    using worker_answer_keeps [OF a] no_pass_answer [OF a, of w0] assms(2-4) by (simp add: worker_inv_def)
qed

lemma process_exec_inv:
  assumes "worker_inv w0" and "qdevice_heuristics_worker_cmd_process_exec we str w0 = Inr (r, w')"
  shows "worker_inv w' \<and> no_pass w0 w'"
proof (cases "worker_exec_scan str")
  case None
  with assms show ?thesis by (simp add: qdevice_heuristics_worker_cmd_process_exec_def no_pass_refl)
next
  case (Some p)
  obtain timeout seq where p: "p = (timeout, seq)" by fastforce
  define w where "w = (if hw_exec_timeout_timer w0 \<noteq> None then (move_to_kill_list w0)\<lparr>hw_exec_timeout_timer := None\<rparr>
    else w0)\<lparr>hw_last_exec_seq_number := seq\<rparr>"
  have w: "plist_wf (hw_main_process_list w)" "pl_active_list (hw_main_process_list w) = []"
    "hw_exec_timeout_timer w = None" "hw_answers w = hw_answers w0"
    using assms(1) by (auto simp: w_def worker_inv_def split: if_splits)
  note run = assms(2) [unfolded qdevice_heuristics_worker_cmd_process_exec_def Some p option.case prod.case Let_def,
      folded w_def]
  show ?thesis
  proof (cases "qdevice_heuristics_exec_list_is_empty (hw_exec_list w)")
    case True
    then obtain r1 where a: "worker_answer (we_al we) QDEVICE_HEURISTICS_EXEC_RESULT_DISABLED w = (r1, w')"
      using run by (auto split: prod.splits)
    show ?thesis using worker_answer_keeps [OF a] no_pass_answer [OF a, of w0] w by (simp add: worker_inv_def)
  next
    case False
    then obtain ok pl where a: "add_execs (we_al we) (hw_exec_list w) (hw_main_process_list w) = Inr (ok, pl)"
      using run by (auto simp: bindE_Inr_iff)
    note added = add_execs_entries [OF a]
    obtain r2 pl2 where e: "process_list_exec_initialized (we_os we) pl = (r2, pl2)" by fastforce
    note wf2 = plist_exec(1) [OF e]
    define w3 where "w3 = w\<lparr>hw_main_process_list := pl2, hw_started := hw_exec_list w,
      hw_started_at := length (pl_trace pl)\<rparr>"
    consider "exec_give_up (we_al we) (w\<lparr>hw_main_process_list := pl\<rparr>) = (r, w')"
      | "exec_give_up (we_al we) w3 = (r, w')"
      | "exec_give_up (we_al we) (w3\<lparr>hw_exec_timeout_timer := None\<rparr>) = (r, w')"
      | t where "ok" "r2 = 0" "w' = w3\<lparr>hw_exec_timeout_timer := Some t\<rparr>"
      using run False a e by (auto simp: w3_def split: if_splits)
    then show ?thesis
    proof cases
      case (4 t)
      obtain es ev where l: "exec_initialized_loop (os_fork (we_os we)) (pl_notify_fn pl) (length (pl_trace pl))
          (map exec_entry (hw_exec_list w)) = (0, es, ev)"
        and pl2: "pl2 = pl\<lparr>pl_active_list := es, pl_trace := pl_trace pl @ ev\<rparr>"
        using e 4 added w(2) by (auto simp: process_list_exec_initialized_def split: prod.splits)
      have "request_runs w'"
        using exec_loop_logged [OF l, of ev] False
        by (simp add: request_runs_def 4(3) w3_def pl2 qdevice_heuristics_exec_list_is_empty_def)
      then show ?thesis
        using added wf2 w 4(3) by (simp add: worker_inv_def w3_def no_pass_refl)
    qed (use exec_give_up_inv [of "we_al we" _ r w' w0] added wf2 w in \<open>auto simp: w3_def\<close>)
  qed
qed

lemma worker_inv_input [simp]:
  "worker_inv (w\<lparr>hw_cmd_in_buffer := b\<rparr>) = worker_inv w" "worker_inv (w\<lparr>hw_exec_list := l\<rparr>) = worker_inv w"
  "worker_inv (w\<lparr>hw_schedule_exit := x\<rparr>) = worker_inv w"
  "no_pass w0 (w\<lparr>hw_cmd_in_buffer := b\<rparr>) = no_pass w0 w" "no_pass w0 (w\<lparr>hw_exec_list := l\<rparr>) = no_pass w0 w"
  "no_pass w0 (w\<lparr>hw_schedule_exit := x\<rparr>) = no_pass w0 w" "no_pass (w\<lparr>hw_cmd_in_buffer := b\<rparr>) w' = no_pass w w'"
  by (simp_all add: worker_inv_def request_runs_def no_pass_def)

lemma one_line_inv:
  assumes "worker_inv w" and "qdevice_heuristics_worker_cmd_process_one_line we data w = Inr (r, data', w')"
  shows "worker_inv w' \<and> no_pass w w'"
  using assms process_exec_inv [OF assms(1), of we]
  by (auto simp: qdevice_heuristics_worker_cmd_process_one_line_def Let_def bindE_Inr_iff no_pass_refl
      split: option.splits if_splits prod.splits)

lemma worker_cmd_loop_inv:
  "worker_inv w \<Longrightarrow> worker_cmd_loop we data w = Inr (r, data', w') \<Longrightarrow> worker_inv w' \<and> no_pass w w'"
proof (induction we data w rule: worker_cmd_loop.induct)
  case (1 we data w)
  note run = 1(3) [unfolded worker_cmd_loop.simps [of we data w]]
  then obtain r1 d1 w1 where l: "qdevice_heuristics_worker_cmd_process_one_line we data w = Inr (r1, d1, w1)"
    by (auto split: sum.splits)
  note inv = one_line_inv [OF 1(2) l]
  show ?case
  proof (cases "r1 = 1")
    case True
    then have "worker_cmd_loop we d1 w1 = Inr (r, data', w')" using run l by simp
    with 1(1) [OF l refl refl True] inv show ?thesis using no_pass_trans by blast
  next
    case False
    then show ?thesis using run l inv by simp
  qed
qed

lemma worker_input_inv:
  assumes "worker_inv w" and "worker_input we w = Inr (r, w')"
  shows "worker_inv w' \<and> no_pass w w'"
proof -
  have "worker_inv w2 \<and> no_pass w w2" if "qdevice_heuristics_worker_cmd_read_from_pipe we rd w = Inr (r2, w2)" for rd r2 w2
  proof -
    obtain res buf where io: "qdevice_heuristics_io_read (we_al we) rd (hw_cmd_in_buffer w) = (res, buf)" by fastforce
    let ?w1 = "w\<lparr>hw_cmd_in_buffer := buf\<rparr>"
    have "worker_inv w3 \<and> no_pass ?w1 w3" if "worker_cmd_loop we buf' ?w1 = Inr (x, d, w3)" for buf' x d w3
      using worker_cmd_loop_inv [OF _ that] assms(1) by simp
    with that io assms(1) show ?thesis
      by (auto simp: qdevice_heuristics_worker_cmd_read_from_pipe_def qdevice_heuristics_worker_cmd_process_def
          Let_def bindE_Inr_iff no_pass_refl split: if_splits)
  qed
  with assms show ?thesis
    by (auto simp: worker_input_def bindE_Inr_iff no_pass_refl split: option.splits if_splits)
qed

lemma worker_waitpid_inv:
  assumes "worker_inv w" and "process_list_waitpid os (hw_main_process_list w) = (r, pl)"
  shows "worker_inv (w\<lparr>hw_main_process_list := pl\<rparr>)"
proof -
  let ?pl = "hw_main_process_list w"
  obtain r1 es ev where l: "waitpid_loop os (pl_notify_fn ?pl) (pl_active_list ?pl) = (r1, es, ev)" by (metis prod_cases3)
  obtain ev2 where act: "pl_active_list pl = es" and tr: "pl_trace pl = pl_trace ?pl @ ev @ ev2"
    using assms(2) l by (auto simp: process_list_waitpid_def Let_def split: prod.splits if_splits)
  have "request_runs (w\<lparr>hw_main_process_list := pl\<rparr>)" if "request_runs w"
    using that waitpid_loop_logged [OF l, of "drop (hw_started_at w) (pl_trace ?pl)" "drop (hw_started_at w) (pl_trace pl)"]
    by (auto simp: request_runs_def tr act)
  moreover have "es = []" if "pl_active_list ?pl = []" using l that by simp
  ultimately show ?thesis
    using assms(1) plist_waitpid(1) [OF assms(2)] by (auto simp: worker_inv_def act)
qed

text \<open>The processes of a request have all exited with status 0.\<close>

definition request_passed :: "worker_instance \<Rightarrow> bool" where
  "request_passed w \<longleftrightarrow>
     hw_started w \<noteq> [] \<and>
     (\<forall>x \<in> set (hw_started w). \<exists>pid status.
        Forked pid (command_words (hx_command x)) \<in> set (drop (hw_started_at w) (pl_trace (hw_main_process_list w))) \<and>
        Reaped pid status \<in> set (drop (hw_started_at w) (pl_trace (hw_main_process_list w))) \<and>
        wifexited status \<and> wexitstatus status = 0)"

lemma summary_short_zero:
  "summary_short_loop res es = 0 \<Longrightarrow> res = 0 \<and>
     (\<forall>e \<in> set es. pe_state e = PROCESS_LIST_ENTRY_STATE_FINISHED \<and> \<not> exec_failed e)"
  by (induction es arbitrary: res) (force split: if_splits)+

lemma list_all2_set1: "list_all2 P xs ys \<Longrightarrow> x \<in> set xs \<Longrightarrow> \<exists>y \<in> set ys. P x y"
  by (metis in_set_conv_nth list_all2_conv_all_nth)

lemma request_passedI:
  assumes "request_runs w" and "process_list_get_summary_result_short (hw_main_process_list w) = 0"
  shows "request_passed w"
proof -
  let ?es = "pl_active_list (hw_main_process_list w)"
  have fin: "\<forall>e \<in> set ?es. pe_state e = PROCESS_LIST_ENTRY_STATE_FINISHED \<and> \<not> exec_failed e"
    using summary_short_zero assms(2) by (auto simp: process_list_get_summary_result_short_def)
  have "\<exists>e \<in> set ?es. pe_exec_argv e = command_words (hx_command x) \<and>
      logged (drop (hw_started_at w) (pl_trace (hw_main_process_list w))) e" if "x \<in> set (hw_started w)" for x
    using assms(1) list_all2_set1 [OF _ that] by (auto simp: request_runs_def)
  with fin assms(1) show ?thesis
    unfolding request_passed_def logged_def exec_failed_def by (metis request_runs_def)
qed

lemma worker_result_inv:
  assumes "worker_inv w" and "worker_result al w = (r, w')"
  shows "(r = 0 \<longrightarrow> worker_inv w') \<and> (no_pass w w' \<or> request_passed w \<and>
    (\<exists>line. hw_answers w' = hw_answers w @ [(hw_last_exec_seq_number w, QDEVICE_HEURISTICS_EXEC_RESULT_PASS, line)])) \<and>
    hw_started w' = hw_started w \<and> hw_started_at w' = hw_started_at w \<and>
    hw_last_exec_seq_number w' = hw_last_exec_seq_number w \<and>
    pl_trace (hw_main_process_list w') = pl_trace (hw_main_process_list w)"
proof (cases "hw_exec_timeout_timer w = None \<or> process_list_get_summary_result_short (hw_main_process_list w) = -1")
  case True
  then show ?thesis using assms by (auto simp: worker_result_def no_pass_refl Let_def split: if_splits)
next
  case False
  let ?s = "process_list_get_summary_result_short (hw_main_process_list w)"
  let ?res = "if ?s = 0 then QDEVICE_HEURISTICS_EXEC_RESULT_PASS else QDEVICE_HEURISTICS_EXEC_RESULT_FAIL"
  obtain r1 w1 where a: "worker_answer al ?res w = (r1, w1)" by fastforce
  have w': "w' = w1 \<or> w' = (move_to_kill_list w1)\<lparr>hw_exec_timeout_timer := None\<rparr>" "r = 0 \<Longrightarrow> w' \<noteq> w1 \<or> r1 = 0"
    "r = 0 \<Longrightarrow> w' = (move_to_kill_list w1)\<lparr>hw_exec_timeout_timer := None\<rparr>"
    using assms(2) a False by (auto simp: worker_result_def Let_def split: if_splits)
  note k = worker_answer_keeps [OF a]
  have passed: "?s = 0 \<Longrightarrow> request_passed w"
    using request_passedI assms(1) False by (auto simp: worker_inv_def split: if_splits)
  have "r = 0 \<Longrightarrow> worker_inv w'"
    using w'(3) k assms(1) by (simp add: worker_inv_def)
  moreover have "hw_answers w' = hw_answers w1" "hw_started w' = hw_started w1" "hw_started_at w' = hw_started_at w1"
    "hw_last_exec_seq_number w' = hw_last_exec_seq_number w1"
    "pl_trace (hw_main_process_list w') = pl_trace (hw_main_process_list w1)"
    using w'(1) by auto
  moreover have "?s \<noteq> 0 \<Longrightarrow> no_pass w w1" using no_pass_answer [OF a] by simp
  ultimately show ?thesis
    using k passed by (cases "?s = 0") (auto simp: no_pass_def)
qed

lemma request_passed_mono:
  "request_passed w \<Longrightarrow> hw_started w' = hw_started w \<Longrightarrow> hw_started_at w' = hw_started_at w \<Longrightarrow>
   pl_trace (hw_main_process_list w') = pl_trace (hw_main_process_list w) @ ev \<Longrightarrow> request_passed w'"
  by (fastforce simp: request_passed_def)

lemma kill_list_trace:
  "process_list_process_kill_list os pl = Inr (r, pl') \<Longrightarrow> \<exists>ev. pl_trace pl' = pl_trace pl @ ev"
  by (auto simp: process_list_process_kill_list_def process_list_waitpid_def Let_def bindE_Inr_iff
      split: prod.splits if_splits)

text \<open>What a timer keeps: the request and its log, and it adds no PASS.\<close>

definition timer_keeps :: "worker_instance \<Rightarrow> worker_instance \<Rightarrow> bool" where
  "timer_keeps w w' \<longleftrightarrow>
     no_pass w w' \<and> hw_started w' = hw_started w \<and> hw_started_at w' = hw_started_at w \<and>
     hw_last_exec_seq_number w' = hw_last_exec_seq_number w \<and>
     (\<exists>ev. pl_trace (hw_main_process_list w') = pl_trace (hw_main_process_list w) @ ev)"

lemma timer_keeps_refl: "timer_keeps w w"
  by (simp add: timer_keeps_def no_pass_refl)

lemma timer_keeps_trans: "timer_keeps w w' \<Longrightarrow> timer_keeps w' w'' \<Longrightarrow> timer_keeps w w''"
  by (auto simp: timer_keeps_def intro: no_pass_trans)

lemma exec_timeout_inv:
  assumes "worker_inv w" and "qdevice_heuristics_worker_exec_timeout_timer_callback al w = (r, w')"
  shows "worker_inv w' \<and> timer_keeps w w'"
proof -
  let ?w0 = "(move_to_kill_list w)\<lparr>hw_exec_timeout_timer := None\<rparr>"
  obtain r1 w1 where a: "worker_answer al QDEVICE_HEURISTICS_EXEC_RESULT_FAIL ?w0 = (r1, w1)" by fastforce
  have w': "w' = w1 \<or> w' = w1\<lparr>hw_schedule_exit := True\<rparr>"
    using assms(2) a by (auto simp: qdevice_heuristics_worker_exec_timeout_timer_callback_def split: if_splits)
  have "worker_inv w1 \<and> timer_keeps w w1"
    using worker_answer_keeps [OF a] no_pass_answer [OF a, of w] assms(1) by (simp add: worker_inv_def timer_keeps_def)
  with w' show ?thesis by (auto simp: timer_keeps_def)
qed

lemma kill_callback_inv:
  assumes "worker_inv w" and "qdevice_heuristics_worker_kill_list_timer_callback os w = Inr (r, w')"
  shows "worker_inv w' \<and> timer_keeps w w'"
proof -
  let ?pl = "hw_main_process_list w"
  from assms(2) obtain r1 pl where k: "process_list_process_kill_list os ?pl = Inr (r1, pl)"
    and w': "w' = w\<lparr>hw_main_process_list := pl\<rparr> \<or> w' = w\<lparr>hw_main_process_list := pl, hw_schedule_exit := True\<rparr>"
    by (auto simp: qdevice_heuristics_worker_kill_list_timer_callback_def bindE_Inr_iff Let_def split: if_splits)
  obtain r2 pl2 where w2: "process_list_waitpid os ?pl = (r2, pl2)" by fastforce
  have act: "pl_active_list pl = pl_active_list pl2" "\<exists>ev. pl_trace pl = pl_trace pl2 @ ev"
    using k w2 by (auto simp: process_list_process_kill_list_def bindE_Inr_iff split: if_splits)
  have wf: "plist_wf pl"
    using assms(1) k plist_kill [of ?pl os] unfolding worker_inv_def by (metis Inr_inject Pair_inject)
  note inv2 = worker_waitpid_inv [OF assms(1) w2]
  have "request_runs (w\<lparr>hw_main_process_list := pl\<rparr>)" if "request_runs (w\<lparr>hw_main_process_list := pl2\<rparr>)"
    using that act by (auto simp: request_runs_def elim!: list_all2_mono intro: logged_mono)
  with inv2 wf act(1) have "worker_inv (w\<lparr>hw_main_process_list := pl\<rparr>)"
    by (auto simp: worker_inv_def split: if_splits)
  moreover have "timer_keeps w (w\<lparr>hw_main_process_list := pl\<rparr>)"
    using kill_list_trace [OF k] by (simp add: timer_keeps_def no_pass_refl)
  ultimately show ?thesis using w' by (auto simp: timer_keeps_def)
qed

lemma worker_expire_inv:
  "worker_inv w \<Longrightarrow> worker_expire we ts w = Inr w' \<Longrightarrow> worker_inv w' \<and> timer_keeps w w'"
proof (induction we ts w rule: worker_expire.induct)
  case (2 we ts w)
  from 2(3) obtain r1 w1 where
    c: "qdevice_heuristics_worker_kill_list_timer_callback (we_os_timers we) w = Inr (r1, w1)"
    and e: "worker_expire we ts w1 = Inr w'" by (auto simp: bindE_Inr_iff)
  show ?case using kill_callback_inv [OF 2(2) c] 2(1) [OF c refl _ e] timer_keeps_trans by blast
next
  case (3 we ts w)
  obtain r1 w1 where c: "qdevice_heuristics_worker_exec_timeout_timer_callback (we_al we) w = (r1, w1)" by fastforce
  show ?case
    using exec_timeout_inv [OF 3(3) c] 3 c timer_keeps_trans by (auto split: if_splits)
qed (simp_all add: timer_keeps_refl)

lemma worker_poll_inv:
  assumes "worker_inv w" and "qdevice_heuristics_worker_poll we w = Inr (r, w')"
  shows "(r = 0 \<longrightarrow> worker_inv w') \<and> (no_pass w w' \<or> request_passed w' \<and>
    (\<forall>seq line. (seq, QDEVICE_HEURISTICS_EXEC_RESULT_PASS, line) \<in> set (drop (length (hw_answers w)) (hw_answers w')) \<longrightarrow>
      seq = hw_last_exec_seq_number w'))"
proof -
  from assms(2) obtain r1 w1 where i: "worker_input we w = Inr (r1, w1)"
    by (auto simp: qdevice_heuristics_worker_poll_def bindE_Inr_iff)
  note inv1 = worker_input_inv [OF assms(1) i]
  obtain r2 pl where wp: "process_list_waitpid (we_os we) (hw_main_process_list w1) = (r2, pl)" by fastforce
  define w2 where "w2 = w1\<lparr>hw_main_process_list := pl\<rparr>"
  have inv2: "worker_inv w2" using worker_waitpid_inv [OF _ wp] inv1 by (simp add: w2_def)
  have np2: "no_pass w w2" using inv1 by (simp add: no_pass_def w2_def)
  obtain r3 w3 where res: "worker_result (we_al we) w2 = (r3, w3)" by fastforce
  note inv3 = worker_result_inv [OF inv2 res]
  have run: "(r1 \<noteq> 0 \<and> r \<noteq> 0 \<and> w' = w1) \<or> (r2 \<noteq> 0 \<and> r \<noteq> 0 \<and> w' = w2) \<or> (r3 \<noteq> 0 \<and> r \<noteq> 0 \<and> w' = w3) \<or>
      (r3 = 0 \<and> worker_expire we (we_due we) w3 = Inr w')"
    using assms(2) i wp res
    by (auto simp: qdevice_heuristics_worker_poll_def bindE_Inr_iff Let_def w2_def split: if_splits)
  have k4: "worker_inv w' \<and> timer_keeps w3 w'" if "r3 = 0" "worker_expire we (we_due we) w3 = Inr w'"
    using worker_expire_inv [OF _ that(2)] inv3 that(1) by blast
  have pass: "no_pass w w'' \<or> request_passed w'' \<and>
      (\<forall>seq line. (seq, QDEVICE_HEURISTICS_EXEC_RESULT_PASS, line) \<in> set (drop (length (hw_answers w)) (hw_answers w'')) \<longrightarrow>
        seq = hw_last_exec_seq_number w'')" if k: "timer_keeps w3 w''" for w''
  proof (cases "no_pass w2 w3")
    case True
    then show ?thesis using np2 k no_pass_trans unfolding timer_keeps_def by blast
  next
    case False
    then obtain line where p: "request_passed w2"
      and a: "hw_answers w3 = hw_answers w2 @ [(hw_last_exec_seq_number w2, QDEVICE_HEURISTICS_EXEC_RESULT_PASS, line)]"
      using inv3 by auto
    obtain ev where "pl_trace (hw_main_process_list w'') = pl_trace (hw_main_process_list w2) @ ev"
      using k inv3 by (auto simp: timer_keeps_def)
    then have "request_passed w''"
      using request_passed_mono [OF p, of w''] k inv3 by (simp add: timer_keeps_def)
    moreover have "hw_last_exec_seq_number w'' = hw_last_exec_seq_number w2"
      using k inv3 by (simp add: timer_keeps_def)
    moreover obtain n1 n2 where "hw_answers w2 = hw_answers w @ n1" "hw_answers w'' = hw_answers w3 @ n2"
      "QDEVICE_HEURISTICS_EXEC_RESULT_PASS \<notin> (fst \<circ> snd) ` set n1" "QDEVICE_HEURISTICS_EXEC_RESULT_PASS \<notin> (fst \<circ> snd) ` set n2"
      using np2 k unfolding no_pass_def timer_keeps_def by blast
    ultimately show ?thesis using a by (auto simp: image_iff)
  qed
  show ?thesis
    using run inv1 np2 k4 pass [of w'] pass [OF timer_keeps_refl] by auto
qed

section \<open>Results\<close>

inductive worker_reachable :: "worker_instance \<Rightarrow> bool" where
  init: "worker_reachable (worker_init s x m)"
| poll: "worker_reachable w \<Longrightarrow> qdevice_heuristics_worker_poll we w = Inr (0, w') \<Longrightarrow> worker_reachable w'"

lemma worker_reachable_inv: "worker_reachable w \<Longrightarrow> worker_inv w"
  by (induction rule: worker_reachable.induct) (use worker_inv_init worker_poll_inv in blast)+

text \<open>
  C23. A PASS of the worker is earned. When a turn of the loop of a worker, after any number of
  turns, writes the result PASS, its sequence number is that of the last request, the list of
  commands was not empty when that request arrived, and for each of these commands a process with
  the words of the command was started since the request, was waited for, and exited with status 0.
\<close>

theorem heuristics_pass_sound:
  assumes "worker_reachable w" and "qdevice_heuristics_worker_poll we w = Inr (r, w')"
    and "(seq, QDEVICE_HEURISTICS_EXEC_RESULT_PASS, line) \<in> set (drop (length (hw_answers w)) (hw_answers w'))"
  shows "seq = hw_last_exec_seq_number w' \<and> hw_started w' \<noteq> [] \<and>
    (\<forall>x \<in> set (hw_started w'). \<exists>pid status.
       Forked pid (command_words (hx_command x)) \<in> set (drop (hw_started_at w') (pl_trace (hw_main_process_list w'))) \<and>
       Reaped pid status \<in> set (drop (hw_started_at w') (pl_trace (hw_main_process_list w'))) \<and>
       wifexited status \<and> wexitstatus status = 0)"
proof -
  have "\<not> no_pass w w'"
    using assms(3) by (force simp: no_pass_def image_iff)
  with worker_poll_inv [OF worker_reachable_inv [OF assms(1)] assms(2)] assms(3) show ?thesis
    unfolding request_passed_def by blast
qed

subsection \<open>An example\<close>

text \<open>A turn that reads a list of one command and a request, and in which the process has already ended.\<close>

definition ex_lines :: "byte list" where
  "ex_lines = str_bytes ''exec-list-add a /b'' @ [chr_nl] @ str_bytes ''exec 9 7'' @ [chr_nl]"

definition ex_turn :: "wait_result \<Rightarrow> worker_env" where
  "ex_turn wait = \<lparr>we_al = (\<lambda>r. True), we_pollin = Some (Recv_Data ex_lines), we_pollout = False, we_pollerr = False,
     we_os = \<lparr>os_fork = (\<lambda>i. Some 100), os_waitpid = (\<lambda>p. wait), os_kill_fails = (\<lambda>p sig. False)\<rparr>,
     we_os_timers = \<lparr>os_fork = (\<lambda>i. None), os_waitpid = (\<lambda>p. Wait_No_Change), os_kill_fails = (\<lambda>p sig. False)\<rparr>,
     we_due = []\<rparr>"

definition ex_exec :: qdevice_heuristics_exec_list_entry where
  "ex_exec = \<lparr>hx_name = str_bytes ''a'', hx_command = str_bytes ''/b''\<rparr>"

lemma ex_words: "command_words (str_bytes ''/b'') = [str_bytes ''/b'']"
  by (simp add: command_words.simps lex_token_Cons line_end_def dynar_simple_lex_is_space_def
      chr_quote_def chr_backslash_def c_str_def str_bytes_def)

lemma ex_line1:
  "cmd_line ex_lines = Some (str_bytes ''exec-list-add a /b'')"
  "cmd_rest ex_lines = str_bytes ''exec 9 7'' @ [chr_nl]"
  by (simp_all add: cmd_line_def cmd_rest_def ex_lines_def str_bytes_def line_char_def chr_nl_def chr_cr_def c_str_def)

lemma ex_line2:
  "cmd_line (str_bytes ''exec 9 7'' @ [chr_nl]) = Some (str_bytes ''exec 9 7'')"
  "cmd_rest (str_bytes ''exec 9 7'' @ [chr_nl]) = []"
  by (simp_all add: cmd_line_def cmd_rest_def str_bytes_def line_char_def chr_nl_def chr_cr_def c_str_def)

lemma ex_add: "qdevice_heuristics_worker_cmd_process_exec_list_add (\<lambda>r. True) (str_bytes ''exec-list-add a /b'') [] = (0, [ex_exec])"
  by (simp add: qdevice_heuristics_worker_cmd_process_exec_list_add_def exec_list_add_scan_def str_bytes_def chr_space_def
     qdevice_heuristics_exec_list_add_def ex_exec_def Let_def)

lemma ex_scan: "worker_exec_scan (str_bytes ''exec 9 7'') = Some (9, 7)"
  by (simp add: worker_exec_scan_def scan_command_def cmd_str_exec_def str_bytes_def scan_u32_def is_space_def chr_space_def
   is_digit_def dec_value_def Let_def)

definition ex_started :: "worker_instance \<Rightarrow> worker_instance" where
  "ex_started w = w\<lparr>hw_exec_list := [ex_exec], hw_last_exec_seq_number := 7, hw_started := [ex_exec], hw_started_at := 0,
     hw_exec_timeout_timer := Some 9, hw_main_process_list := (hw_main_process_list w)\<lparr>pl_allocated_list_entries := 1,
       pl_active_list := [(exec_entry ex_exec)\<lparr>pe_pid := 100, pe_state := PROCESS_LIST_ENTRY_STATE_RUNNING\<rparr>],
       pl_trace := [Forked 100 [str_bytes ''/b''], Notified PROCESS_LIST_NOTIFY_REASON_EXECUTED (str_bytes ''a'')]\<rparr>\<rparr>"

lemma ex_exec_simps: "hx_name ex_exec = str_bytes ''a''" "hx_command ex_exec = str_bytes ''/b''"
  by (simp_all add: ex_exec_def)

lemma ex_process_add:
  assumes "pl_allocated_list_entries pl < pl_max_list_entries pl"
  shows "process_list_add (\<lambda>r. True) pl (str_bytes ''a'') (str_bytes ''/b'') =
    Inr (True, pl\<lparr>pl_allocated_list_entries := pl_allocated_list_entries pl + 1,
      pl_active_list := pl_active_list pl @ [exec_entry ex_exec]\<rparr>)"
  using parse_command_words(3) [of "\<lambda>r. True" "str_bytes ''/b''"] assms
  by (simp add: process_list_add_def ex_words exec_entry_def reallocs_def alloc_ideal_def ex_exec_def)

lemma ex_exec_line:
  assumes "hw_exec_timeout_timer w = None" "hw_exec_list w = [ex_exec]"
    and "hw_main_process_list w = process_list_init 1 x True"
  shows "qdevice_heuristics_worker_cmd_process_exec (ex_turn wait) (str_bytes ''exec 9 7'') w = Inr (0, ex_started w)"
  using assms ex_words
  by (simp add: qdevice_heuristics_worker_cmd_process_exec_def ex_scan Let_def ex_process_add ex_turn_def
      qdevice_heuristics_exec_list_is_empty_def process_list_init_def process_list_exec_initialized_def
      process_list_entry_exec_def timer_start_def timer_list_max_interval_def ex_started_def ex_exec_simps)

lemma ex_loop:
  assumes "hw_exec_timeout_timer w = None" "hw_exec_list w = []"
    and "hw_main_process_list w = process_list_init 1 x True"
  shows "worker_cmd_loop (ex_turn wait) ex_lines w = Inr (0, [], ex_started w)"
proof -
  let ?w1 = "w\<lparr>hw_exec_list := [ex_exec]\<rparr>"
  have 1: "qdevice_heuristics_worker_cmd_process_one_line (ex_turn wait) ex_lines w =
      Inr (1, str_bytes ''exec 9 7'' @ [chr_nl], ?w1)"
    using ex_add assms(2)
    by (simp add: qdevice_heuristics_worker_cmd_process_one_line_def ex_line1 Let_def ex_turn_def)
       (simp add: str_bytes_def cmd_str_exec_list_clear_def cmd_str_exec_list_add_def)
  have e: "ex_started ?w1 = ex_started w" by (simp add: ex_started_def)
  have "qdevice_heuristics_worker_cmd_process_exec (ex_turn wait) (str_bytes ''exec 9 7'') ?w1 = Inr (0, ex_started w)"
    using ex_exec_line [of ?w1 x] assms e by simp
  then have 2: "qdevice_heuristics_worker_cmd_process_one_line (ex_turn wait) (str_bytes ''exec 9 7'' @ [chr_nl]) ?w1 =
      Inr (1, [], ex_started w)"
    by (simp add: qdevice_heuristics_worker_cmd_process_one_line_def ex_line2 Let_def)
       (simp add: str_bytes_def cmd_str_exec_list_clear_def cmd_str_exec_list_add_def cmd_str_exec_def chr_space_def)
  have 3: "qdevice_heuristics_worker_cmd_process_one_line (ex_turn wait) [] (ex_started w) = Inr (0, [], ex_started w)"
    by (simp add: qdevice_heuristics_worker_cmd_process_one_line_def cmd_line_def)
  show ?thesis using 1 2 3 by (simp add: worker_cmd_loop.simps)
qed

definition ex_worker :: worker_instance where
  "ex_worker = worker_init 4096 False 1"

lemma ex_poll:
  "\<exists>w' line. qdevice_heuristics_worker_poll (ex_turn (Wait_Status 0)) ex_worker = Inr (0, w') \<and> hw_started w' = [ex_exec] \<and>
     hw_answers w' = [(7, QDEVICE_HEURISTICS_EXEC_RESULT_PASS, line)]"
  "\<exists>w'. qdevice_heuristics_worker_poll (ex_turn Wait_No_Change) ex_worker = Inr (0, w') \<and> hw_exec_timeout_timer w' = Some 9 \<and>
     hw_last_exec_seq_number w' = 7 \<and> hw_answers w' = [] \<and> dyn_maximum_size (hw_cmd_out_buffer w') = 4096 \<and>
     hw_main_process_list w' = hw_main_process_list (ex_started ex_worker)"
proof -
  let ?b = "dynar_init 4096"
  obtain r b where c: "dynar_cat (\<lambda>r. True) ?b ex_lines = (r, b)" by fastforce
  note w = writesD [OF writes_cat dynar_inv_init c]
  have r: "r = 0" using w(6) by (simp add: alloc_ideal_def dynar_defs ex_lines_def str_bytes_def)
  have nl: "chr_nl \<in> set ex_lines" by (simp add: ex_lines_def)
  have ne: "ex_lines \<noteq> []" by (simp add: ex_lines_def)
  have io: "qdevice_heuristics_io_read (\<lambda>r. True) (Recv_Data ex_lines) ?b = (1, b)"
    using c r nl ne by (simp add: qdevice_heuristics_io_read_def)
  have data: "dyn_data b = ex_lines" using w(4) [OF r] by (simp add: dynar_init_def)
  let ?w1 = "ex_worker\<lparr>hw_cmd_in_buffer := b\<rparr>"
  let ?w2 = "(ex_started ?w1)\<lparr>hw_cmd_in_buffer := b\<lparr>dyn_data := []\<rparr>\<rparr>"
  have l: "worker_cmd_loop (ex_turn wait) ex_lines ?w1 = Inr (0, [], ex_started ?w1)" for wait
    by (rule ex_loop [of _ False]) (simp_all add: ex_worker_def worker_init_def qdevice_heuristics_exec_list_init_def)
  have "qdevice_heuristics_worker_cmd_read_from_pipe (ex_turn wait) (Recv_Data ex_lines) ex_worker = Inr (0, ?w2)" for wait
    using io l data
    by (simp add: qdevice_heuristics_worker_cmd_read_from_pipe_def qdevice_heuristics_worker_cmd_process_def ex_turn_def
        ex_worker_def worker_init_def Let_def ex_started_def)
  then have inp: "worker_input (ex_turn wait) ex_worker = Inr (0, ?w2)" for wait
    by (simp add: worker_input_def) (simp add: ex_turn_def)
  have dig: "dec_digits 7 = [55]" "dec_digits 0 = [48]" "dec_digits (Suc 0) = [49]" by (simp_all add: dec_digits.simps)
  note defs = ex_turn_def ex_started_def ex_worker_def worker_init_def process_list_init_def process_list_waitpid_def
    process_list_entry_waitpid_def worker_result_def Let_def process_list_get_summary_result_short_def
  show "\<exists>w' line. qdevice_heuristics_worker_poll (ex_turn (Wait_Status 0)) ex_worker = Inr (0, w') \<and>
      hw_started w' = [ex_exec] \<and> hw_answers w' = [(7, QDEVICE_HEURISTICS_EXEC_RESULT_PASS, line)]"
    by (simp add: qdevice_heuristics_worker_poll_def inp)
       (simp add: defs exec_failed_def wifexited_def wexitstatus_def worker_answer_def exec_entry_def
         qdevice_heuristics_worker_cmd_write_exec_result_def dig dynar_str_cpy_def dynar_str_cat_def dynar_cat_def
         dynar_prealloc_def dynar_realloc_def dynar_defs dynar_str_vcatf_def str_bytes_def cmd_str_exec_result_def
         move_to_kill_list_def process_list_move_active_entries_to_kill_list_def)
  show "\<exists>w'. qdevice_heuristics_worker_poll (ex_turn Wait_No_Change) ex_worker = Inr (0, w') \<and>
      hw_exec_timeout_timer w' = Some 9 \<and> hw_last_exec_seq_number w' = 7 \<and> hw_answers w' = [] \<and>
      dyn_maximum_size (hw_cmd_out_buffer w') = 4096 \<and>
      hw_main_process_list w' = hw_main_process_list (ex_started ex_worker)"
    by (simp add: qdevice_heuristics_worker_poll_def inp) (simp add: defs dynar_init_def)
qed

theorem heuristics_pass_sound_witness:
  "\<exists>w' line. qdevice_heuristics_worker_poll (ex_turn (Wait_Status 0)) ex_worker = Inr (0, w') \<and>
     (7, QDEVICE_HEURISTICS_EXEC_RESULT_PASS, line) \<in> set (hw_answers w') \<and> hw_started w' = [ex_exec] \<and>
     (\<exists>pid status. Forked pid [str_bytes ''/b''] \<in> set (pl_trace (hw_main_process_list w')) \<and>
       Reaped pid status \<in> set (pl_trace (hw_main_process_list w')) \<and> wexitstatus status = 0)"
proof -
  obtain w' line where p: "qdevice_heuristics_worker_poll (ex_turn (Wait_Status 0)) ex_worker = Inr (0, w')"
    and s: "hw_started w' = [ex_exec]" and a: "hw_answers w' = [(7, QDEVICE_HEURISTICS_EXEC_RESULT_PASS, line)]"
    using ex_poll(1) by blast
  have "worker_reachable ex_worker" unfolding ex_worker_def by (rule worker_reachable.init)
  moreover have "(7, QDEVICE_HEURISTICS_EXEC_RESULT_PASS, line) \<in>
      set (drop (length (hw_answers ex_worker)) (hw_answers w'))"
    by (simp add: a ex_worker_def worker_init_def)
  ultimately have "\<exists>pid status.
       Forked pid (command_words (hx_command ex_exec)) \<in> set (drop (hw_started_at w') (pl_trace (hw_main_process_list w'))) \<and>
       Reaped pid status \<in> set (drop (hw_started_at w') (pl_trace (hw_main_process_list w'))) \<and>
       wifexited status \<and> wexitstatus status = 0"
    using heuristics_pass_sound [OF _ p, of 7 line] s by simp
  with p s a show ?thesis by (auto simp: ex_words ex_exec_simps dest!: in_set_dropD)
qed

section \<open>Every request is answered\<close>

lemma length_dec_digits: "n < 10 ^ Suc k \<Longrightarrow> length (dec_digits n) \<le> Suc k"
proof (induction k arbitrary: n)
  case (Suc k)
  have "length (dec_digits (n div 10)) \<le> Suc k" by (rule Suc.IH) (use Suc.prems in simp)
  then show ?case by (subst dec_digits.simps) simp
qed (simp add: dec_digits.simps)

lemma dec_digits_u32: "length (dec_digits (unat (v :: u32))) \<le> 10"
proof -
  have "unat v < 10 ^ Suc 9" using unat_bound [of v] by simp
  from length_dec_digits [OF this] show ?thesis by simp
qed

lemma worker_answer_total:
  assumes "alloc_ideal al" and "64 \<le> dyn_maximum_size (hw_cmd_out_buffer w)" and "worker_answer al res w = (r, w')"
  shows "r = 0 \<and> (\<exists>line. hw_answers w' = hw_answers w @ [(hw_last_exec_seq_number w, res, line)])"
proof -
  let ?d = "hw_cmd_out_buffer w"
  let ?t = "dec_digits (unat (hw_last_exec_seq_number w)) @ [chr_space] @
    dec_digits (unat (qdevice_heuristics_exec_result_code res)) @ [chr_nl]"
  have pre: "length (cmd_str_exec_result @ [chr_space]) = 12" by (simp add: cmd_str_exec_result_def str_bytes_def)
  obtain r1 d1 where c: "dynar_cat al (dynar_clean ?d) (cmd_str_exec_result @ [chr_space]) = (r1, d1)" by fastforce
  note w = writesD [OF writes_cat dynar_inv_clean c]
  have r1: "r1 = 0" using w(6) assms(1,2) pre by (simp add: dynar_size_def)
  have "dynar_size d1 = 12" using w(4) [OF r1] pre by (simp add: dynar_size_def)
  then have "fst (dynar_prealloc al d1 (length ?t + 1)) = 0"
    using dynar_prealloc_total [OF assms(1), of d1 "length ?t + 1"] w(2) assms(2)
      dec_digits_u32 [of "hw_last_exec_seq_number w"] dec_digits_u32 [of "qdevice_heuristics_exec_result_code res"]
    by simp
  then obtain d2 where p: "dynar_prealloc al d1 (length ?t + 1) = (0, d2)" by (metis prod.collapse)
  have cpy: "dynar_str_cpy al ?d (cmd_str_exec_result @ [chr_space]) = (0, d1)"
    using c r1 pre assms(2) by (simp add: dynar_str_cpy_def dynar_str_cat_def dynar_max_size_def)
  have "dynar_str_vcatf al d1 (Some ?t) = (int (length ?t), d2\<lparr>dyn_data := dyn_data d2 @ ?t\<rparr>)"
    using p by (simp add: dynar_str_vcatf_def)
  then have "\<exists>buf. qdevice_heuristics_worker_cmd_write_exec_result al ?d (hw_last_exec_seq_number w) res =
      (0, buf, dyn_data buf)"
    using cpy by (simp add: qdevice_heuristics_worker_cmd_write_exec_result_def)
  then show ?thesis using assms(3) by (auto simp: worker_answer_def)
qed

lemma kill_callback_total:
  assumes "worker_inv w"
  obtains r w' where "qdevice_heuristics_worker_kill_list_timer_callback os w = Inr (r, w')"
    and "hw_answers w' = hw_answers w" and "hw_exec_timeout_timer w' = hw_exec_timeout_timer w"
    and "hw_last_exec_seq_number w' = hw_last_exec_seq_number w" and "hw_cmd_out_buffer w' = hw_cmd_out_buffer w"
proof -
  have "plist_wf (hw_main_process_list w)" using assms by (simp add: worker_inv_def)
  then obtain r pl where "process_list_process_kill_list os (hw_main_process_list w) = Inr (r, pl)"
    by (rule plist_kill)
  then show ?thesis
    using that by (cases "r = 0") (simp_all add: qdevice_heuristics_worker_kill_list_timer_callback_def Let_def)
qed

lemma worker_expire_answers:
  assumes "worker_inv w"
  shows "\<exists>w'. worker_expire we ts w = Inr w' \<and>
    (hw_exec_timeout_timer w = None \<longrightarrow> hw_answers w' = hw_answers w \<and> hw_exec_timeout_timer w' = None) \<and>
    (alloc_ideal (we_al we) \<longrightarrow> 64 \<le> dyn_maximum_size (hw_cmd_out_buffer w) \<longrightarrow>
     hw_exec_timeout_timer w \<noteq> None \<longrightarrow> Exec_Timeout_Timer \<in> set ts \<longrightarrow>
       hw_exec_timeout_timer w' = None \<and>
       (\<exists>line. hw_answers w' = hw_answers w @ [(hw_last_exec_seq_number w, QDEVICE_HEURISTICS_EXEC_RESULT_FAIL, line)]))"
  using assms
proof (induction we ts w rule: worker_expire.induct)
  case (2 we ts w)
  obtain r1 w1 where c: "qdevice_heuristics_worker_kill_list_timer_callback (we_os_timers we) w = Inr (r1, w1)"
    and keep: "hw_answers w1 = hw_answers w" "hw_exec_timeout_timer w1 = hw_exec_timeout_timer w"
      "hw_last_exec_seq_number w1 = hw_last_exec_seq_number w" "hw_cmd_out_buffer w1 = hw_cmd_out_buffer w"
    by (rule kill_callback_total [OF 2(2)])
  show ?case using 2(1) [OF c refl] kill_callback_inv [OF 2(2) c] c keep by simp
next
  case (3 we ts w)
  show ?case
  proof (cases "hw_exec_timeout_timer w = None")
    case True
    then show ?thesis using 3(1) [OF True 3(3)] by simp
  next
    case False
    obtain r1 w1 where c: "qdevice_heuristics_worker_exec_timeout_timer_callback (we_al we) w = (r1, w1)" by fastforce
    let ?w0 = "(move_to_kill_list w)\<lparr>hw_exec_timeout_timer := None\<rparr>"
    obtain r2 w2 where a: "worker_answer (we_al we) QDEVICE_HEURISTICS_EXEC_RESULT_FAIL ?w0 = (r2, w2)" by fastforce
    have w1: "hw_exec_timeout_timer w1 = None" "hw_answers w1 = hw_answers w2"
      using c a worker_answer_keeps [OF a]
      by (auto simp: qdevice_heuristics_worker_exec_timeout_timer_callback_def split: if_splits)
    have inv1: "worker_inv w1" using exec_timeout_inv [OF 3(3) c] by blast
    obtain w' where e: "worker_expire we ts w1 = Inr w'" "hw_answers w' = hw_answers w1" "hw_exec_timeout_timer w' = None"
      using 3(2) [OF False] inv1 w1(1) c by auto
    have "64 \<le> dyn_maximum_size (hw_cmd_out_buffer w) \<Longrightarrow> alloc_ideal (we_al we) \<Longrightarrow>
        \<exists>line. hw_answers w2 = hw_answers w @ [(hw_last_exec_seq_number w, QDEVICE_HEURISTICS_EXEC_RESULT_FAIL, line)]"
      using worker_answer_total [OF _ _ a] by (simp add: move_to_kill_list_def)
    with e w1 c False show ?thesis by auto
  qed
qed simp

text \<open>
  C24. A request is answered exactly once, at the latest when its timer is due. In a worker with a
  running request, a turn without input whose \<open>waitpid\<close> calls succeed and in which the timer of the
  request is due ends without a fault, writes one result with the sequence number of the request, and
  leaves no request running: the result of the processes when they have all ended or one has
  failed, and a failure otherwise.
\<close>

theorem heuristics_request_answered:
  assumes "worker_reachable w" and "hw_exec_timeout_timer w \<noteq> None"
    and "we_pollin we = None" and "\<not> we_pollout we" and "\<not> we_pollerr we"
    and "process_list_waitpid (we_os we) (hw_main_process_list w) = (0, pl)"
    and "alloc_ideal (we_al we)" and "64 \<le> dyn_maximum_size (hw_cmd_out_buffer w)"
    and "Exec_Timeout_Timer \<in> set (we_due we)"
  shows "\<exists>r w' line. qdevice_heuristics_worker_poll we w = Inr (r, w') \<and> hw_exec_timeout_timer w' = None \<and>
    hw_answers w' = hw_answers w @ [(hw_last_exec_seq_number w,
      if process_list_get_summary_result_short pl = 0 then QDEVICE_HEURISTICS_EXEC_RESULT_PASS
      else QDEVICE_HEURISTICS_EXEC_RESULT_FAIL, line)]"
proof -
  define w2 where "w2 = w\<lparr>hw_main_process_list := pl\<rparr>"
  have inv2: "worker_inv w2"
    using worker_waitpid_inv [OF worker_reachable_inv [OF assms(1)] assms(6)] by (simp add: w2_def)
  have input: "worker_input we w = Inr (0, w)" using assms(3-5) by (simp add: worker_input_def)
  let ?s = "process_list_get_summary_result_short pl"
  show ?thesis
  proof (cases "?s = -1")
    case True
    then have "worker_result (we_al we) w2 = (0, w2)" by (simp add: worker_result_def w2_def)
    moreover obtain w' line where "worker_expire we (we_due we) w2 = Inr w'" "hw_exec_timeout_timer w' = None"
      "hw_answers w' = hw_answers w @ [(hw_last_exec_seq_number w, QDEVICE_HEURISTICS_EXEC_RESULT_FAIL, line)]"
      using worker_expire_answers [OF inv2, of we "we_due we"] assms(2,7,8,9) by (auto simp: w2_def)
    ultimately show ?thesis
      using input assms(6) True by (simp add: qdevice_heuristics_worker_poll_def Let_def w2_def)
  next
    case False
    let ?res = "if ?s = 0 then QDEVICE_HEURISTICS_EXEC_RESULT_PASS else QDEVICE_HEURISTICS_EXEC_RESULT_FAIL"
    obtain r1 w1 where a: "worker_answer (we_al we) ?res w2 = (r1, w1)" by fastforce
    obtain line where r1: "r1 = 0" and ans: "hw_answers w1 = hw_answers w @ [(hw_last_exec_seq_number w, ?res, line)]"
      using worker_answer_total [OF assms(7) _ a] assms(8) by (auto simp: w2_def)
    define w3 where "w3 = (move_to_kill_list w1)\<lparr>hw_exec_timeout_timer := None\<rparr>"
    have res: "worker_result (we_al we) w2 = (0, w3)"
      using a r1 False assms(2) by (auto simp: worker_result_def w2_def w3_def Let_def)
    have "worker_inv w3" using worker_result_inv [OF inv2 res] by simp
    then obtain w' where "worker_expire we (we_due we) w3 = Inr w'" "hw_answers w' = hw_answers w3" "hw_exec_timeout_timer w' = None"
      using worker_expire_answers [of w3 we "we_due we"] by (auto simp: w3_def)
    with input assms(6) res ans show ?thesis
      by (simp add: qdevice_heuristics_worker_poll_def Let_def w2_def w3_def)
  qed
qed

definition ex_due :: worker_env where
  "ex_due = (ex_turn Wait_No_Change)\<lparr>we_pollin := None, we_due := [Kill_List_Timer, Exec_Timeout_Timer]\<rparr>"

theorem heuristics_request_answered_witness:
  "\<exists>w r w' line. qdevice_heuristics_worker_poll (ex_turn Wait_No_Change) ex_worker = Inr (0, w) \<and>
     qdevice_heuristics_worker_poll ex_due w = Inr (r, w') \<and> hw_exec_timeout_timer w' = None \<and>
     hw_answers w' = [(7, QDEVICE_HEURISTICS_EXEC_RESULT_FAIL, line)]"
proof -
  obtain w where p: "qdevice_heuristics_worker_poll (ex_turn Wait_No_Change) ex_worker = Inr (0, w)"
    and w: "hw_exec_timeout_timer w = Some 9" "hw_last_exec_seq_number w = 7" "hw_answers w = []"
      "dyn_maximum_size (hw_cmd_out_buffer w) = 4096" "hw_main_process_list w = hw_main_process_list (ex_started ex_worker)"
    using ex_poll(2) by blast
  have reach: "worker_reachable w"
    using worker_reachable.poll [OF _ p] worker_reachable.init unfolding ex_worker_def by blast
  obtain pl where wp: "process_list_waitpid (we_os ex_due) (hw_main_process_list w) = (0, pl)"
    and s: "process_list_get_summary_result_short pl = -1"
    unfolding w(5) by (simp add: process_list_waitpid_def ex_due_def ex_turn_def ex_started_def Let_def
        process_list_entry_waitpid_def process_list_get_summary_result_short_def ex_worker_def worker_init_def
        process_list_init_def)
  have "\<exists>r w' line. qdevice_heuristics_worker_poll ex_due w = Inr (r, w') \<and> hw_exec_timeout_timer w' = None \<and>
      hw_answers w' = hw_answers w @ [(hw_last_exec_seq_number w,
        if process_list_get_summary_result_short pl = 0 then QDEVICE_HEURISTICS_EXEC_RESULT_PASS
        else QDEVICE_HEURISTICS_EXEC_RESULT_FAIL, line)]"
    by (rule heuristics_request_answered [OF reach _ _ _ _ wp]) (simp_all add: w ex_due_def ex_turn_def alloc_ideal_def)
  with p w s show ?thesis by auto
qed

end
