(* ===== verification/Config.thy ===== *)
theory Config
  imports Qdevice_Callbacks
begin

text \<open>
  How the client reads its configuration from corosync: the node list (\<open>qdevice-cmap.c\<close>), the general
  part and the heuristics (\<open>qdevice-instance.c\<close>) and the parameters of the net model
  (\<open>qdevice_net_instance_init_from_cmap\<close>). The cmap service and the resolver are parameters: the values
  of keys, and the keys with a given prefix in the order of the iterator.
\<close>

section \<open>The configuration map\<close>

datatype cmap_uint32 = Cmap_Uint32 u32 | Cmap_Not_Exist | Cmap_Failure

record cmap_env =
  cm_string :: "byte list \<Rightarrow> byte list option"
  cm_uint32 :: "byte list \<Rightarrow> cmap_uint32"
  cm_config_version :: "u64 option"
  cm_keys :: "byte list \<Rightarrow> (byte list \<times> bool) list option"
  cm_resolve :: "byte list \<Rightarrow> byte list option"
  cm_default_timeout :: u32
  cm_default_sync_timeout :: u32

text \<open>Reading a key that is an option: a value that is refused, or the default for a missing key.\<close>

definition cmap_option :: "cmap_env \<Rightarrow> string \<Rightarrow> 'a \<Rightarrow> (byte list \<Rightarrow> 'a option) \<Rightarrow> 'a option" where
  "cmap_option cm key dflt parse =
     (case cm_string cm (str_bytes key) of None \<Rightarrow> Some dflt | Some str \<Rightarrow> parse str)"

section \<open>The node list\<close>

text \<open>
  \<open>cm_resolve\<close> gives the four bytes of the first IPv4 address of a name, in network order; \<open>htonl\<close> of
  the number they are in memory is the number that they are in network order.
\<close>

definition qdevice_cmap_autogenerate_node_id :: "cmap_env \<Rightarrow> byte list \<Rightarrow> bool \<Rightarrow> u32" where
  "qdevice_cmap_autogenerate_node_id cm addr clear_node_high_bit =
     (case cm_resolve cm addr of
        None \<Rightarrow> 0
      | Some bs \<Rightarrow> if clear_node_high_bit then and (rd32 bs) 0x7FFFFFFF else rd32 bs)"

definition chr_dot :: byte where "chr_dot = 46"

definition node_key :: "u32 \<Rightarrow> string \<Rightarrow> byte list" where
  "node_key node_pos field = str_bytes ''nodelist.node.'' @ dec_digits (unat node_pos) @ [chr_dot] @ str_bytes field"

text \<open>\<open>sscanf(key_name, "nodelist.node.%u.%s", &node_pos, tmp_key) == 2\<close>\<close>

definition scan_node_key :: "byte list \<Rightarrow> (u32 \<times> byte list) option" where
  "scan_node_key key =
     (let prefix = str_bytes ''nodelist.node.''
      in if take (length prefix) key \<noteq> prefix then None
         else case scan_u32 (drop (length prefix) key) of
                None \<Rightarrow> None
              | Some (pos, rest) \<Rightarrow>
                  if rest = [] \<or> hd rest \<noteq> chr_dot then None
                  else let word = takeWhile (\<lambda>c. \<not> is_space c) (dropWhile is_space (tl rest))
                       in if word = [] then None else Some (pos, word))"

definition clear_node_high_bit :: "cmap_env \<Rightarrow> bool" where
  "clear_node_high_bit cm = (cm_string cm (str_bytes ''totem.clear_node_high_bit'') = Some (str_bytes ''yes''))"

text \<open>The id of a node: its key, or its address. \<open>Inl\<close> is the code's \<open>-1\<close>.\<close>

definition cmap_node_id :: "cmap_env \<Rightarrow> u32 \<Rightarrow> unit + u32" where
  "cmap_node_id cm node_pos =
     (case cm_uint32 cm (node_key node_pos ''nodeid'') of
        Cmap_Uint32 node_id \<Rightarrow> Inr node_id
      | Cmap_Not_Exist \<Rightarrow>
          (case cm_string cm (node_key node_pos ''ring0_addr'') of
             None \<Rightarrow> Inl ()
           | Some addr0_str \<Rightarrow> Inr (qdevice_cmap_autogenerate_node_id cm addr0_str (clear_node_high_bit cm)))
      | Cmap_Failure \<Rightarrow> Inl ())"

definition cmap_data_center_id :: "cmap_env \<Rightarrow> u32 \<Rightarrow> u32" where
  "cmap_data_center_id cm node_pos =
     (case cm_uint32 cm (node_key node_pos ''datacenterid'') of Cmap_Uint32 d \<Rightarrow> d | _ \<Rightarrow> 0)"

fun nodelist_loop :: "allocator \<Rightarrow> cmap_env \<Rightarrow> byte list list \<Rightarrow> node_list \<Rightarrow> node_list option" where
  "nodelist_loop al cm [] nlist = Some nlist"
| "nodelist_loop al cm (key_name # keys) nlist =
     (case scan_node_key key_name of
        None \<Rightarrow> nodelist_loop al cm keys nlist
      | Some (node_pos, tmp_key) \<Rightarrow>
          if tmp_key \<noteq> str_bytes ''ring0_addr'' \<and> tmp_key \<noteq> str_bytes ''name''
          then nodelist_loop al cm keys nlist
          else case cmap_node_id cm node_pos of
                 Inl _ \<Rightarrow> None
               | Inr node_id \<Rightarrow>
                   if node_list_find_node_id nlist node_id \<noteq> None then nodelist_loop al cm keys nlist
                   else (case node_list_add al nlist node_id (cmap_data_center_id cm node_pos) TLV_NODE_STATE_NOT_SET of
                           None \<Rightarrow> None
                         | Some nlist' \<Rightarrow> nodelist_loop al cm keys nlist'))"

definition qdevice_cmap_get_nodelist :: "allocator \<Rightarrow> cmap_env \<Rightarrow> node_list option" where
  "qdevice_cmap_get_nodelist al cm =
     (case cm_keys cm (str_bytes ''nodelist.node.'') of
        None \<Rightarrow> None
      | Some keys \<Rightarrow>
          (case nodelist_loop al cm (map fst keys) node_list_init of
             None \<Rightarrow> None
           | Some nlist \<Rightarrow> if node_list_is_empty nlist then None else Some nlist))"

definition qdevice_cmap_get_config_version :: "cmap_env \<Rightarrow> int \<times> u64" where
  "qdevice_cmap_get_config_version cm = (case cm_config_version cm of Some v \<Rightarrow> (0, v) | None \<Rightarrow> (-1, 0))"

definition qdevice_cmap_store_config_node_list ::
    "allocator \<Rightarrow> cmap_env \<Rightarrow> qdevice_instance \<Rightarrow> int \<times> qdevice_instance" where
  "qdevice_cmap_store_config_node_list al cm qd =
     (case qdevice_cmap_get_nodelist al cm of
        None \<Rightarrow> (-1, qd\<lparr>qd_config_node_list := []\<rparr>)
      | Some nlist \<Rightarrow>
          (case qdevice_cmap_get_config_version cm of
             (res, version) \<Rightarrow>
               (0, qd\<lparr>qd_config_node_list := nlist, qd_config_node_list_version := version,
                      qd_config_node_list_version_set := (res = 0)\<rparr>)))"

section \<open>The heuristics\<close>

text \<open>
  \<open>sscanf(key_name, "quorum.device.heuristics.exec_%[^.]%s", exec_name, tmp_key) == 1\<close>: a name, and
  nothing behind it.
\<close>

definition exec_prefix :: "byte list" where
  "exec_prefix = str_bytes ''quorum.device.heuristics.exec_''"

definition scan_exec_key :: "byte list \<Rightarrow> byte list option" where
  "scan_exec_key key =
     (if take (length exec_prefix) key \<noteq> exec_prefix then None
      else let name = drop (length exec_prefix) key
           in if name = [] \<or> chr_dot \<in> set name then None else Some name)"

fun exec_keys_loop :: "allocator \<Rightarrow> cmap_env \<Rightarrow> (byte list \<times> bool) list \<Rightarrow> exec_list \<Rightarrow> exec_list" where
  "exec_keys_loop al cm [] tmp_exec_list = tmp_exec_list"
| "exec_keys_loop al cm ((key_name, is_string) # keys) tmp_exec_list =
     (if \<not> is_string then exec_keys_loop al cm keys tmp_exec_list
      else case scan_exec_key key_name of
             None \<Rightarrow> exec_keys_loop al cm keys tmp_exec_list
           | Some exec_name \<Rightarrow>
               (case cm_string cm key_name of
                  None \<Rightarrow> exec_keys_loop al cm keys tmp_exec_list
                | Some command \<Rightarrow>
                    exec_keys_loop al cm keys (snd (qdevice_heuristics_exec_list_add al tmp_exec_list exec_name command))))"

definition heuristics_mode_of :: "byte list \<Rightarrow> qdevice_heuristics_mode option" where
  "heuristics_mode_of str =
     (let i = utils_parse_bool_str str
      in if i = -1 then (if strcasecmp_eq str ''sync'' then Some QDEVICE_HEURISTICS_MODE_SYNC else None)
         else if i = 1 then Some QDEVICE_HEURISTICS_MODE_ENABLED else Some QDEVICE_HEURISTICS_MODE_DISABLED)"

definition cmap_interval :: "cmap_env \<Rightarrow> string \<Rightarrow> u32 \<Rightarrow> u32 \<Rightarrow> u32 \<Rightarrow> u32 option" where
  "cmap_interval cm key dflt lo hi =
     cmap_option cm key dflt (\<lambda>str. map_option word_of_int (utils_strtonum str (uint lo) (uint hi)))"

text \<open>
  The list to send: \<open>None\<close> when the worker has it already. The mode is switched off when there is no
  command or when there are too many.
\<close>

definition heuristics_execs ::
    "allocator \<Rightarrow> cmap_env \<Rightarrow> nat \<Rightarrow> qdevice_heuristics_instance \<Rightarrow>
     (exec_list option option \<times> qdevice_heuristics_instance) option" where
  "heuristics_execs al cm max_execs h =
     (if qh_mode h = QDEVICE_HEURISTICS_MODE_DISABLED then Some (Some None, h)
      else case cm_keys cm exec_prefix of
             None \<Rightarrow> None
           | Some keys \<Rightarrow>
               let tmp_exec_list = exec_keys_loop al cm keys qdevice_heuristics_exec_list_init;
                   no_execs = qdevice_heuristics_exec_list_size tmp_exec_list
               in if no_execs = 0 \<or> no_execs > max_execs
                  then Some (Some None, h\<lparr>qh_mode := QDEVICE_HEURISTICS_MODE_DISABLED\<rparr>)
                  else if qdevice_heuristics_exec_list_eq al tmp_exec_list (qh_exec_list h) = 1 then Some (None, h)
                  else Some (Some (Some tmp_exec_list), h))"

definition qdevice_instance_configure_from_cmap_heuristics ::
    "allocator \<Rightarrow> cmap_env \<Rightarrow> qdevice_advanced_settings \<Rightarrow> u32 \<Rightarrow> u32 \<Rightarrow> bool \<Rightarrow>
     qdevice_heuristics_instance \<Rightarrow> int \<times> qdevice_heuristics_instance" where
  "qdevice_instance_configure_from_cmap_heuristics al cm as heartbeat_interval sync_heartbeat_interval
     sync_in_progress h =
     (let h1 = h\<lparr>qh_timeout := heartbeat_interval div 2\<rparr>
      in case cmap_interval cm ''quorum.device.heuristics.timeout'' (heartbeat_interval div 2)
                (qs_heuristics_min_timeout as) (qs_heuristics_max_timeout as) of
           None \<Rightarrow> (-1, h1)
         | Some timeout \<Rightarrow>
      let h2 = h1\<lparr>qh_timeout := timeout, qh_sync_timeout := sync_heartbeat_interval div 2\<rparr>
      in case cmap_interval cm ''quorum.device.heuristics.sync_timeout'' (sync_heartbeat_interval div 2)
                (qs_heuristics_min_timeout as) (qs_heuristics_max_timeout as) of
           None \<Rightarrow> (-1, h2)
         | Some sync_timeout \<Rightarrow>
      let h3 = h2\<lparr>qh_sync_timeout := sync_timeout, qh_interval := heartbeat_interval * 3\<rparr>
      in case cmap_interval cm ''quorum.device.heuristics.interval'' (heartbeat_interval * 3)
                (qs_heuristics_min_interval as) (qs_heuristics_max_interval as) of
           None \<Rightarrow> (-1, h3)
         | Some interval \<Rightarrow>
      let h4 = h3\<lparr>qh_interval := interval, qh_mode := QDEVICE_HEURISTICS_MODE_DISABLED\<rparr>
      in case cmap_option cm ''quorum.device.heuristics.mode'' QDEVICE_HEURISTICS_MODE_DISABLED heuristics_mode_of of
           None \<Rightarrow> (-1, h4)
         | Some mode \<Rightarrow>
      (case heuristics_execs al cm (qs_heuristics_max_execs as) (h4\<lparr>qh_mode := mode\<rparr>) of
         None \<Rightarrow> (-1, h4\<lparr>qh_mode := mode\<rparr>)
       | Some (None, h5) \<Rightarrow> (0, h5)
       | Some (Some exec_list, h5) \<Rightarrow>
           (case qdevice_heuristics_change_exec_list al exec_list sync_in_progress h5 of
              (r, h6) \<Rightarrow> (if r \<noteq> 0 then -1 else 0, h6))))"

section \<open>The general part\<close>

datatype qdevice_model_type = QDEVICE_MODEL_TYPE_NET

text \<open>The registered models with their names; the program registers the net model.\<close>

definition qdevice_model_array :: "(qdevice_model_type \<times> byte list) list" where
  "qdevice_model_array = [(QDEVICE_MODEL_TYPE_NET, str_bytes ''net'')]"

definition qdevice_model_str_to_type :: "byte list \<Rightarrow> qdevice_model_type option" where
  "qdevice_model_str_to_type str = map_option fst (find (\<lambda>m. snd m = str) qdevice_model_array)"

record qdevice_config =
  qc_model_type :: qdevice_model_type
  qc_heartbeat_interval :: u32
  qc_sync_heartbeat_interval :: u32

definition qdevice_instance_configure_from_cmap ::
    "allocator \<Rightarrow> cmap_env \<Rightarrow> qdevice_instance \<Rightarrow> (qdevice_config \<times> qdevice_instance) option" where
  "qdevice_instance_configure_from_cmap al cm qd =
     (case cm_string cm (str_bytes ''quorum.device.model'') of
        None \<Rightarrow> None
      | Some str \<Rightarrow>
          (case (qdevice_model_str_to_type str, cm_uint32 cm (str_bytes ''runtime.votequorum.this_node_id'')) of
             (Some model_type, Cmap_Uint32 node_id) \<Rightarrow>
               let heartbeat = (case cm_uint32 cm (str_bytes ''quorum.device.timeout'') of
                                  Cmap_Uint32 n \<Rightarrow> n | _ \<Rightarrow> cm_default_timeout cm);
                   sync_heartbeat = (case cm_uint32 cm (str_bytes ''quorum.device.sync_timeout'') of
                                       Cmap_Uint32 n \<Rightarrow> n | _ \<Rightarrow> cm_default_sync_timeout cm)
               in case qdevice_instance_configure_from_cmap_heuristics al cm (qd_advanced_settings qd) heartbeat
                         sync_heartbeat (qd_sync_in_progress qd) (qd_heuristics_instance qd) of
                    (r, h) \<Rightarrow>
                      if r \<noteq> 0 then None
                      else Some (\<lparr>qc_model_type = model_type, qc_heartbeat_interval = heartbeat,
                                  qc_sync_heartbeat_interval = sync_heartbeat\<rparr>,
                                 qd\<lparr>qd_node_id := node_id, qd_heuristics_instance := h\<rparr>)
           | _ \<Rightarrow> None))"

section \<open>The net model\<close>

text \<open>
  Products with 0.5 and 0.8 in \<open>double\<close> arithmetic, converted to \<open>uint32_t\<close>: the first is exact; the
  second is within rounding of a multiple of 1/5, never below an integral product, so that cutting off
  the fraction gives the same number as the division of integers.
\<close>

definition times_0_5 :: "u32 \<Rightarrow> u32" where "times_0_5 n = of_nat (unat n div 2)"
definition times_0_8 :: "u32 \<Rightarrow> u32" where "times_0_8 n = of_nat (unat n * 4 div 5)"

definition net_tls_of :: "byte list \<Rightarrow> tlv_tls_supported option" where
  "net_tls_of str =
     (let i = utils_parse_bool_str str
      in if i = -1 then (if strcasecmp_eq str ''required'' then Some TLV_TLS_REQUIRED else None)
         else if i = 1 then Some TLV_TLS_SUPPORTED else Some TLV_TLS_UNSUPPORTED)"

definition net_algorithm_of :: "byte list \<Rightarrow> tlv_decision_algorithm_type option" where
  "net_algorithm_of str =
     (if str = str_bytes ''test'' then Some TLV_DECISION_ALGORITHM_TYPE_TEST
      else if str = str_bytes ''ffsplit'' then Some TLV_DECISION_ALGORITHM_TYPE_FFSPLIT
      else if str = str_bytes ''2nodelms'' then Some TLV_DECISION_ALGORITHM_TYPE_2NODELMS
      else if str = str_bytes ''lms'' then Some TLV_DECISION_ALGORITHM_TYPE_LMS
      else None)"

definition net_tie_breaker_of :: "byte list \<Rightarrow> tlv_tie_breaker option" where
  "net_tie_breaker_of str =
     (if str = str_bytes ''lowest'' then Some \<lparr>tb_mode = TLV_TIE_BREAKER_MODE_LOWEST, tb_node_id = 0\<rparr>
      else if str = str_bytes ''highest'' then Some \<lparr>tb_mode = TLV_TIE_BREAKER_MODE_HIGHEST, tb_node_id = 0\<rparr>
      else map_option (\<lambda>lli. \<lparr>tb_mode = TLV_TIE_BREAKER_MODE_NODE_ID, tb_node_id = word_of_int lli\<rparr>)
             (utils_strtonum str 1 uint32_max))"

definition net_ip_version_of :: "byte list \<Rightarrow> int option" where
  "net_ip_version_of str =
     (case utils_strtonum str 0 6 of
        None \<Rightarrow> None
      | Some lli \<Rightarrow> if lli \<noteq> 0 \<and> lli \<noteq> 4 \<and> lli \<noteq> 6 then None else Some lli)"

definition net_kap_tb_of :: "byte list \<Rightarrow> tlv_keep_active_partition_tie_breaker option" where
  "net_kap_tb_of str =
     (let i = utils_parse_bool_str str
      in if i = -1 then None
         else if i = 1 then Some TLV_KEEP_ACTIVE_PARTITION_TIE_BREAKER_ENABLED
         else Some TLV_KEEP_ACTIVE_PARTITION_TIE_BREAKER_DISABLED)"

definition net_heartbeat :: "qdevice_advanced_settings \<Rightarrow> u32 \<Rightarrow> u32" where
  "net_heartbeat as heartbeat_interval =
     (let h1 = times_0_8 heartbeat_interval;
          h2 = (if h1 < qs_net_heartbeat_interval_min as then qs_net_heartbeat_interval_min as else h1)
      in if h2 > qs_net_heartbeat_interval_max as then qs_net_heartbeat_interval_max as else h2)"

text \<open>The target of the connection, which the instance keeps for its non-blocking client.\<close>

record net_host =
  nh_host_addr :: "byte list"
  nh_host_port :: int
  nh_force_ip_version :: int

definition qdevice_net_instance_init_from_cmap ::
    "allocator \<Rightarrow> cmap_env \<Rightarrow> qdevice_config \<Rightarrow> qdevice_advanced_settings \<Rightarrow> (net_host \<times> qdevice_net_instance) option" where
  "qdevice_net_instance_init_from_cmap al cm qc as =
     (if \<not> al Malloc_Net_Instance then None
      else
        Option.bind (cmap_option cm ''quorum.device.net.tls'' TLV_TLS_SUPPORTED net_tls_of) (\<lambda>tls_supported.
        Option.bind (cm_string cm (str_bytes ''quorum.device.net.host'')) (\<lambda>host_addr.
        Option.bind (cmap_option cm ''quorum.device.net.port'' 5403 (\<lambda>str. utils_strtonum str 1 65535)) (\<lambda>host_port.
        Option.bind (cm_string cm (str_bytes ''totem.cluster_name'')) (\<lambda>cluster_name.
        let cast_vote_timer_interval = times_0_5 (qc_heartbeat_interval qc);
            heartbeat_interval = net_heartbeat as (qc_heartbeat_interval qc);
            sync_heartbeat_interval = times_0_8 (qc_sync_heartbeat_interval qc)
        in
        Option.bind (cmap_option cm ''quorum.device.net.algorithm'' TLV_DECISION_ALGORITHM_TYPE_FFSPLIT net_algorithm_of)
          (\<lambda>decision_algorithm.
        if decision_algorithm = TLV_DECISION_ALGORITHM_TYPE_TEST \<and> \<not> qs_net_test_algorithm_enabled as then None
        else
        Option.bind (cmap_option cm ''quorum.device.net.tie_breaker''
            \<lparr>tb_mode = TLV_TIE_BREAKER_MODE_LOWEST, tb_node_id = 0\<rparr> net_tie_breaker_of) (\<lambda>tie_breaker.
        Option.bind (cmap_interval cm ''quorum.device.net.connect_timeout'' heartbeat_interval
            (qs_net_min_connect_timeout as) (qs_net_max_connect_timeout as)) (\<lambda>connect_timeout.
        Option.bind (cmap_option cm ''quorum.device.net.force_ip_version'' 0 net_ip_version_of) (\<lambda>force_ip_version.
        Option.bind (cmap_option cm ''quorum.device.net.keep_active_partition_tie_breaker''
            TLV_KEEP_ACTIVE_PARTITION_TIE_BREAKER_ENABLED net_kap_tb_of) (\<lambda>keep_active_partition_tb.
        Some (\<lparr>nh_host_addr = host_addr, nh_host_port = host_port, nh_force_ip_version = force_ip_version\<rparr>,
              qdevice_net_instance_init tls_supported decision_algorithm heartbeat_interval sync_heartbeat_interval
                cast_vote_timer_interval cluster_name tie_breaker connect_timeout keep_active_partition_tb as)))))))))))"

end
