(* ===== verification/Cli.thy ===== *)
theory Cli
  imports Settings Lexers
begin

text \<open>
  The command lines of \<open>corosync-qnetd\<close> and \<open>corosync-qdevice\<close>. \<open>getopt\<close> is a parameter: the list of
  option characters with their arguments that it returns. Both programs read the settings of \<open>-S\<close>
  with the same loop over the option lexer; the locale \<open>settings_contract\<close> states what this loop
  needs of a setter, and both setters are interpretations of it.
\<close>

section \<open>The loop over the settings\<close>

datatype cli_exit =
    Cli_No_Memory
  | Cli_Unknown_Option "byte list"
  | Cli_Invalid_Value "byte list" "byte list"
  | Cli_Bad_Argument char "byte list"
  | Cli_Version
  | Cli_Usage

lemma getopt_progress:
  assumes "dynar_getopt_lex_token_next al lx = (0, lx')" and "c_str (dyn_data (gl_option lx')) \<noteq> []"
  shows "gl_input lx' = gl_input lx"
    and "dynar_size (gl_input lx') - gl_pos lx' < dynar_size (gl_input lx) - gl_pos lx"
proof -
  obtain opt val rest where item: "getopt_item (drop (gl_pos lx) (dyn_data (gl_input lx))) = (opt, val, rest)"
    by (metis prod_cases3)
  have pos: "gl_pos lx \<le> dynar_size (gl_input lx)"
  proof (rule ccontr)
    assume "\<not> ?thesis"
    then have "getopt_loop al (dyn_data (gl_input lx)) Getopt_Option (gl_pos lx)
        (dynar_clean (gl_option lx)) (dynar_clean (gl_value lx)) =
      (0, gl_pos lx, dynar_clean (gl_option lx), dynar_clean (gl_value lx))"
      by (subst getopt_loop.simps) (simp add: dynar_size_def)
    with assms(1) have "dyn_data (gl_option lx') = [0]"
      using dynar_cat_ok [OF _ dynar_inv_clean, of al "gl_option lx" "[0]"]
      by (auto simp: dynar_getopt_lex_token_next_def split: prod.splits if_splits)
    with assms(2) show False by (simp add: c_str_def)
  qed
  note exact = getopt_lex_exact [OF assms(1) pos item]
  then show input: "gl_input lx' = gl_input lx" by simp
  have "opt \<noteq> []" using exact assms(2) by (auto simp: c_str_def)
  then have "0 < length opt" by simp
  moreover have "length opt + length val + length (drop (gl_pos lx') (dyn_data (gl_input lx))) \<le>
      length (drop (gl_pos lx) (dyn_data (gl_input lx)))"
    using getopt_length [of Getopt_Option, simplified, OF item] exact by simp
  ultimately show "dynar_size (gl_input lx') - gl_pos lx' < dynar_size (gl_input lx) - gl_pos lx"
    unfolding dynar_size_def input length_drop by linarith
qed

text \<open>
  The loop of \<open>cli_parse_long_opt\<close>, for the setter of either program. It ends at the first error of the
  lexer and at the first empty name; a deprecated option (-3) only causes a warning.
\<close>

function long_opt_loop ::
    "allocator \<Rightarrow> ('s \<Rightarrow> byte list \<Rightarrow> byte list \<Rightarrow> int \<times> 's) \<Rightarrow> dynar_getopt_lex \<Rightarrow> 's \<Rightarrow> cli_exit + 's" where
  "long_opt_loop al setter lx s =
     (case dynar_getopt_lex_token_next al lx of
        (r, lx') \<Rightarrow>
          let opt = c_str (dyn_data (gl_option lx')); val = c_str (dyn_data (gl_value lx'))
          in if r \<noteq> 0 \<or> opt = [] then Inr s
             else case setter s opt val of
                    (res, s') \<Rightarrow>
                      if res = -1 then Inl (Cli_Unknown_Option opt)
                      else if res = -2 then Inl (Cli_Invalid_Value opt val)
                      else long_opt_loop al setter lx' s')"
  by pat_completeness auto
termination
  by (relation "measure (\<lambda>(al, f, lx, s). dynar_size (gl_input lx) - gl_pos lx)")
     (auto dest: getopt_progress(2) [OF sym])

declare long_opt_loop.simps [simp del]

definition parse_long_opt ::
    "allocator \<Rightarrow> ('s \<Rightarrow> byte list \<Rightarrow> byte list \<Rightarrow> int \<times> 's) \<Rightarrow> 's \<Rightarrow> byte list \<Rightarrow> cli_exit + 's" where
  "parse_long_opt al setter s long_opt =
     (case dynar_str_cpy al (dynar_init (length long_opt + 1)) long_opt of
        (r, dynar_long_opt) \<Rightarrow>
          if r \<noteq> 0 then Inl Cli_No_Memory
          else long_opt_loop al setter (dynar_getopt_lex_init dynar_long_opt) s)"

section \<open>The command line of the server\<close>

definition qnetd_cli_parse_long_opt ::
    "allocator \<Rightarrow> group_env \<Rightarrow> strtod_fun \<Rightarrow> qnetd_advanced_settings \<Rightarrow> byte list \<Rightarrow> cli_exit + qnetd_advanced_settings" where
  "qnetd_cli_parse_long_opt al ge sd = parse_long_opt al (qnetd_advanced_settings_set al ge sd)"

datatype address_family = PR_AF_UNSPEC | PR_AF_INET | PR_AF_INET6

record qnetd_options =
  qo_host_addr :: "byte list option"
  qo_host_port :: u16
  qo_foreground :: bool
  qo_debug_log :: bool
  qo_bump_log_priority :: bool
  qo_tls_supported :: tlv_tls_supported
  qo_client_cert_required :: int
  qo_max_clients :: nat
  qo_address_family :: address_family

definition qnetd_default_options :: qnetd_options where
  "qnetd_default_options =
     \<lparr>qo_host_addr = None, qo_host_port = 5403, qo_foreground = False, qo_debug_log = False,
      qo_bump_log_priority = False, qo_tls_supported = TLV_TLS_SUPPORTED, qo_client_cert_required = 1,
      qo_max_clients = 0, qo_address_family = PR_AF_UNSPEC\<rparr>"

definition qnetd_cli_option ::
    "allocator \<Rightarrow> group_env \<Rightarrow> strtod_fun \<Rightarrow> char \<times> byte list \<Rightarrow> qnetd_options \<times> qnetd_advanced_settings \<Rightarrow>
     cli_exit + (qnetd_options \<times> qnetd_advanced_settings)" where
  "qnetd_cli_option al ge sd arg st =
     (case (arg, st) of
        ((ch, optarg), (qo, settings)) \<Rightarrow>
          if ch = CHR ''4'' then Inr (qo\<lparr>qo_address_family := PR_AF_INET\<rparr>, settings)
          else if ch = CHR ''6'' then Inr (qo\<lparr>qo_address_family := PR_AF_INET6\<rparr>, settings)
          else if ch = CHR ''f'' then Inr (qo\<lparr>qo_foreground := True\<rparr>, settings)
          else if ch = CHR ''d'' then
            Inr (qo\<lparr>qo_bump_log_priority := qo_debug_log qo \<or> qo_bump_log_priority qo, qo_debug_log := True\<rparr>, settings)
          else if ch = CHR ''c'' then
            (if utils_parse_bool_str optarg = -1 then Inl (Cli_Bad_Argument ch optarg)
             else Inr (qo\<lparr>qo_client_cert_required := utils_parse_bool_str optarg\<rparr>, settings))
          else if ch = CHR ''l'' then Inr (qo\<lparr>qo_host_addr := Some optarg\<rparr>, settings)
          else if ch = CHR ''m'' then
            (case utils_strtonum optarg 0 llong_max of
               None \<Rightarrow> Inl (Cli_Bad_Argument ch optarg)
             | Some tmpll \<Rightarrow> Inr (qo\<lparr>qo_max_clients := nat tmpll\<rparr>, settings))
          else if ch = CHR ''p'' then
            (case utils_strtonum optarg 1 65535 of
               None \<Rightarrow> Inl (Cli_Bad_Argument ch optarg)
             | Some tmpll \<Rightarrow> Inr (qo\<lparr>qo_host_port := word_of_int tmpll\<rparr>, settings))
          else if ch = CHR ''S'' then
            bindE (qnetd_cli_parse_long_opt al ge sd settings optarg) (\<lambda>settings'. Inr (qo, settings'))
          else if ch = CHR ''s'' then
            (if strcasecmp_eq optarg ''on'' then Inr (qo\<lparr>qo_tls_supported := TLV_TLS_SUPPORTED\<rparr>, settings)
             else if strcasecmp_eq optarg ''off'' then Inr (qo\<lparr>qo_tls_supported := TLV_TLS_UNSUPPORTED\<rparr>, settings)
             else if strcasecmp_eq optarg ''req'' then Inr (qo\<lparr>qo_tls_supported := TLV_TLS_REQUIRED\<rparr>, settings)
             else Inl (Cli_Bad_Argument ch optarg))
          else if ch = CHR ''v'' then Inl Cli_Version
          else if ch = CHR ''h'' \<or> ch = CHR ''?'' then Inl Cli_Usage
          else Inr (qo, settings))"

fun cli_loop :: "('a \<Rightarrow> 's \<Rightarrow> cli_exit + 's) \<Rightarrow> 'a list \<Rightarrow> 's \<Rightarrow> cli_exit + 's" where
  "cli_loop f [] st = Inr st"
| "cli_loop f (arg # args) st = bindE (f arg st) (cli_loop f args)"

definition qnetd_cli_parse ::
    "allocator \<Rightarrow> group_env \<Rightarrow> strtod_fun \<Rightarrow> (char \<times> byte list) list \<Rightarrow> qnetd_advanced_settings \<Rightarrow>
     cli_exit + (qnetd_options \<times> qnetd_advanced_settings)" where
  "qnetd_cli_parse al ge sd args settings = cli_loop (qnetd_cli_option al ge sd) args (qnetd_default_options, settings)"

section \<open>The command line of the client\<close>

definition qdevice_cli_parse_long_opt ::
    "allocator \<Rightarrow> group_env \<Rightarrow> qdevice_advanced_settings \<Rightarrow> byte list \<Rightarrow> cli_exit + qdevice_advanced_settings" where
  "qdevice_cli_parse_long_opt al ge = parse_long_opt al (qdevice_advanced_settings_set al ge)"

record qdevice_options =
  do_foreground :: bool
  do_force_debug :: bool
  do_bump_log_priority :: bool

definition qdevice_cli_option ::
    "allocator \<Rightarrow> group_env \<Rightarrow> char \<times> byte list \<Rightarrow> qdevice_options \<times> qdevice_advanced_settings \<Rightarrow>
     cli_exit + (qdevice_options \<times> qdevice_advanced_settings)" where
  "qdevice_cli_option al ge arg st =
     (case (arg, st) of
        ((ch, optarg), (qo, settings)) \<Rightarrow>
          if ch = CHR ''d'' then
            Inr (qo\<lparr>do_bump_log_priority := do_force_debug qo \<or> do_bump_log_priority qo, do_force_debug := True\<rparr>, settings)
          else if ch = CHR ''f'' then Inr (qo\<lparr>do_foreground := True\<rparr>, settings)
          else if ch = CHR ''S'' then
            bindE (qdevice_cli_parse_long_opt al ge settings optarg) (\<lambda>settings'. Inr (qo, settings'))
          else if ch = CHR ''h'' \<or> ch = CHR ''?'' then Inl Cli_Usage
          else Inr (qo, settings))"

definition qdevice_cli_parse ::
    "allocator \<Rightarrow> group_env \<Rightarrow> (char \<times> byte list) list \<Rightarrow> qdevice_advanced_settings \<Rightarrow>
     cli_exit + (qdevice_options \<times> qdevice_advanced_settings)" where
  "qdevice_cli_parse al ge args settings =
     cli_loop (qdevice_cli_option al ge) args
       (\<lparr>do_foreground = False, do_force_debug = False, do_bump_log_priority = False\<rparr>, settings)"

end
