(* ===== verification/Cli_Props.thy ===== *)
theory Cli_Props
  imports Cli
begin

text \<open>
  Every setting that the two daemons run with lies within its documented limits, whatever the command
  line says, and a list of settings is read as it was written.
\<close>

section \<open>Numbers\<close>

lemma strtonum_range: "utils_strtonum_base str lo hi base = Some n \<Longrightarrow> lo \<le> n \<and> n \<le> hi"
  by (auto simp: utils_strtonum_base_def Let_def split: if_splits)

lemma strtonum_digits:
  assumes "lo \<le> hi" and "hi \<le> llong_max"
  shows "utils_strtonum (dec_digits n) lo hi = (if lo \<le> int n \<and> int n \<le> hi then Some (int n) else None)"
  using assms by (auto simp: utils_strtonum_def utils_strtonum_base_def strtoll_digits Let_def dec_digits_neq [symmetric])

lemma uint_word_of_int_32 [simp]:
  "0 \<le> n \<Longrightarrow> n \<le> 4294967295 \<Longrightarrow> uint (word_of_int n :: u32) = n"
  by (simp add: uint_word_of_int take_bit_int_eq_self_iff)

lemma uint_word_of_int_16 [simp]:
  "0 \<le> n \<Longrightarrow> n \<le> 65535 \<Longrightarrow> uint (word_of_int n :: u16) = n"
  by (simp add: uint_word_of_int take_bit_int_eq_self_iff)

section \<open>Setters\<close>

text \<open>A branch of a setter: an accepted value gives settings that satisfy \<open>ok\<close>.\<close>

definition accepts :: "('s \<Rightarrow> bool) \<Rightarrow> int \<times> 's \<Rightarrow> bool" where
  "accepts ok res \<longleftrightarrow> (fst res \<noteq> -1 \<longrightarrow> ok (snd res))"

lemma accepts_if:
  "(b \<Longrightarrow> accepts ok x) \<Longrightarrow> (\<not> b \<Longrightarrow> accepts ok y) \<Longrightarrow> accepts ok (if b then x else y)"
  by simp

lemma accepts_refuse: "r = -1 \<or> ok s \<Longrightarrow> accepts ok (r, s)"
  by (auto simp: accepts_def)

lemma accepts_number:
  "ok s \<Longrightarrow> (\<And>n. lo \<le> n \<Longrightarrow> n \<le> hi \<Longrightarrow> ok (upd n)) \<Longrightarrow> accepts ok (set_number val lo hi s upd)"
  by (auto simp: accepts_def set_number_def utils_strtonum_def split: option.split dest: strtonum_range)

lemma accepts_bool: "ok s \<Longrightarrow> (\<And>b. ok (upd b)) \<Longrightarrow> accepts ok (set_bool val s upd)"
  by (simp add: accepts_def set_bool_def Let_def)

lemma accepts_string: "(\<And>v. ok (upd (Some v))) \<Longrightarrow> accepts ok (set_string al val upd)"
  by (auto simp: accepts_def set_string_def Let_def)

lemma accepts_umask:
  "ok s \<Longrightarrow> ok off \<Longrightarrow> (\<And>m. uint m \<le> 511 \<Longrightarrow> ok (upd m)) \<Longrightarrow>
   accepts ok (case utils_parse_umask val of None \<Rightarrow> (-2, s) | Some None \<Rightarrow> (0, off) | Some (Some m) \<Rightarrow> (0, upd m))"
  by (auto simp: accepts_def utils_parse_umask_def split: option.splits if_splits dest: strtonum_range)

lemma accepts_option:
  "ok s \<Longrightarrow> (\<And>x. m = Some x \<Longrightarrow> ok (upd x)) \<Longrightarrow>
   accepts ok (case m of None \<Rightarrow> (-2, s) | Some x \<Rightarrow> (0, upd x))"
  by (auto simp: accepts_def split: option.split)

lemmas accepts_intros = accepts_if accepts_number accepts_bool accepts_string accepts_umask accepts_option accepts_refuse

text \<open>
  What the loop over the settings relies on: the setter keeps the settings well formed unless it
  answers -1, which ends the program.
\<close>

locale settings_contract =
  fixes ok :: "'s \<Rightarrow> bool" and setter :: "'s \<Rightarrow> byte list \<Rightarrow> byte list \<Rightarrow> int \<times> 's"
  assumes setter_ok: "ok s \<Longrightarrow> setter s opt val = (r, s') \<Longrightarrow> r \<noteq> -1 \<Longrightarrow> ok s'"
begin

lemma long_opt_loop_ok: "long_opt_loop al setter lx s = Inr s' \<Longrightarrow> ok s \<Longrightarrow> ok s'"
proof (induction "dynar_size (gl_input lx) - gl_pos lx" arbitrary: lx s rule: less_induct)
  case less
  obtain r lx' where t: "dynar_getopt_lex_token_next al lx = (r, lx')" by fastforce
  define opt val where "opt = c_str (dyn_data (gl_option lx'))" and "val = c_str (dyn_data (gl_value lx'))"
  obtain res s1 where st: "setter s opt val = (res, s1)" by fastforce
  show ?case
  proof (cases "r \<noteq> 0 \<or> opt = []")
    case True
    with less.prems t show ?thesis by (subst (asm) long_opt_loop.simps) (auto simp: Let_def opt_def)
  next
    case False
    with less.prems(1) t st have "long_opt_loop al setter lx' s1 = Inr s'" "res \<noteq> -1"
      by (subst (asm) long_opt_loop.simps; simp add: Let_def opt_def val_def split: if_splits)+
    moreover have "dynar_size (gl_input lx') - gl_pos lx' < dynar_size (gl_input lx) - gl_pos lx"
      using getopt_progress(2) t False unfolding opt_def by blast
    ultimately show ?thesis using less.hyps less.prems(2) setter_ok [OF _ st] by blast
  qed
qed

lemma parse_long_opt_ok: "parse_long_opt al setter s str = Inr s' \<Longrightarrow> ok s \<Longrightarrow> ok s'"
  using long_opt_loop_ok by (auto simp: parse_long_opt_def split: prod.splits if_splits)

end

text \<open>Options are processed one after the other.\<close>

lemma cli_loop_inv:
  "cli_loop f args st = Inr st' \<Longrightarrow> P st \<Longrightarrow> (\<And>arg st st'. f arg st = Inr st' \<Longrightarrow> P st \<Longrightarrow> P st') \<Longrightarrow> P st'"
  by (induction args arbitrary: st) (auto simp: bindE_Inr_iff)

section \<open>The server\<close>

definition double_within :: "double \<Rightarrow> int \<Rightarrow> int \<Rightarrow> bool" where
  "double_within d lo hi =
     (case dbl_value d of Finite m e \<Rightarrow> \<not> double_less m e lo \<and> \<not> double_greater m e hi | _ \<Rightarrow> False)"

lemma strtod_within: "utils_strtod sd str lo hi = Some d \<Longrightarrow> double_within d lo hi"
  by (auto simp: utils_strtod_def double_within_def split: if_splits prod.splits double_value.splits)

definition size_within :: "nat \<Rightarrow> int \<Rightarrow> bool" where
  "size_within n lo \<longleftrightarrow> lo \<le> int n \<and> int n \<le> llong_max"

definition qnetd_settings_ok :: "qnetd_advanced_settings \<Rightarrow> bool" where
  "qnetd_settings_ok as \<longleftrightarrow>
     qnetd_min_listen_backlog \<le> as_listen_backlog as \<and> as_listen_backlog as \<le> int_max \<and>
     size_within (as_max_client_send_buffers as) qnetd_min_client_send_buffers \<and>
     size_within (as_max_client_send_size as) qnetd_min_client_receive_send_size \<and>
     size_within (as_max_client_receive_size as) qnetd_min_client_receive_send_size \<and>
     as_nss_db_dir as \<noteq> None \<and> as_cert_nickname as \<noteq> None \<and> as_lock_file as \<noteq> None \<and>
     as_local_socket_file as \<noteq> None \<and>
     qnetd_min_heartbeat_interval \<le> uint (as_heartbeat_interval_min as) \<and>
     qnetd_min_heartbeat_interval \<le> uint (as_heartbeat_interval_max as) \<and>
     uint (as_local_socket_umask as) \<le> 511 \<and>
     qnetd_min_local_socket_backlog \<le> as_local_socket_backlog as \<and> as_local_socket_backlog as \<le> int_max \<and>
     size_within (as_ipc_max_clients as) qnetd_min_ipc_max_clients \<and>
     size_within (as_ipc_max_send_size as) qnetd_min_ipc_receive_send_size \<and>
     size_within (as_ipc_max_receive_size as) qnetd_min_ipc_receive_send_size \<and>
     double_within (as_dpd_interval_coefficient as) qnetd_min_dpd_interval_coefficient qnetd_max_dpd_interval_coefficient"

lemma qnetd_set_accepts:
  "qnetd_settings_ok s \<Longrightarrow> accepts qnetd_settings_ok (qnetd_advanced_settings_set al ge sd s opt val)"
  unfolding qnetd_advanced_settings_set_def
  by (intro accepts_intros)
     (simp_all add: qnetd_settings_ok_def qnetd_limits size_within_def int_max_def llong_max_def uint32_max_def
       strtod_within)

interpretation qnetd_settings: settings_contract qnetd_settings_ok "qnetd_advanced_settings_set al ge sd" for al ge sd
  using qnetd_set_accepts by unfold_locales (metis accepts_def fst_conv snd_conv)

lemma qnetd_settings_ok_init: "qnetd_advanced_settings_init al bc = (0, as) \<Longrightarrow> qnetd_settings_ok as"
  by (auto simp: qnetd_advanced_settings_init_def qnetd_settings_ok_def qnetd_default_settings_def qnetd_limits
      size_within_def int_max_def llong_max_def double_within_def double_1_5_def Let_def split: if_splits)

lemma qnetd_cli_option_ok:
  assumes "qnetd_cli_option al ge sd arg (qo, s) = Inr (qo', s')"
    and "qnetd_settings_ok s" and "0 < uint (qo_host_port qo)" and "qo_client_cert_required qo \<in> {0, 1}"
    and "int (qo_max_clients qo) \<le> llong_max"
  shows "qnetd_settings_ok s' \<and> 0 < uint (qo_host_port qo') \<and> qo_client_cert_required qo' \<in> {0, 1} \<and>
    int (qo_max_clients qo') \<le> llong_max"
  using assms
  by (cases arg)
     (auto simp: qnetd_cli_option_def utils_parse_bool_str_def utils_strtonum_def bindE_Inr_iff qnetd_cli_parse_long_opt_def
       split: if_splits option.splits dest: strtonum_range qnetd_settings.parse_long_opt_ok)

text \<open>
  C29. The server runs only with settings within their limits. When the settings were initialised and the
  command line was accepted, whatever options and lists of settings it holds, every number lies between
  its minimum and the maximum of its C type (nothing was cut off when it was stored), the mask has
  permission bits only, the coefficient is a number between 1 and 1000, no string is a null
  pointer, the port is not 0 and the flag for client certificates is 0 or 1.
\<close>

theorem qnetd_settings_typed:
  assumes "qnetd_advanced_settings_init al bc = (0, as0)"
    and "qnetd_cli_parse al ge sd args as0 = Inr (qo, as)"
  shows "qnetd_settings_ok as \<and> 0 < uint (qo_host_port qo) \<and> qo_client_cert_required qo \<in> {0, 1} \<and>
    int (qo_max_clients qo) \<le> llong_max"
  using cli_loop_inv [OF assms(2) [unfolded qnetd_cli_parse_def], where P = "\<lambda>(qo, s). qnetd_settings_ok s \<and>
      0 < uint (qo_host_port qo) \<and> qo_client_cert_required qo \<in> {0, 1} \<and> int (qo_max_clients qo) \<le> llong_max"]
    qnetd_settings_ok_init [OF assms(1)] qnetd_cli_option_ok
  by (auto simp: qnetd_default_options_def llong_max_def)

section \<open>The client\<close>

definition qdevice_settings_ok :: "qdevice_advanced_settings \<Rightarrow> bool" where
  "qdevice_settings_ok qs \<longleftrightarrow>
     qs_lock_file qs \<noteq> None \<and> qs_local_socket_file qs \<noteq> None \<and> qs_votequorum_device_name qs \<noteq> None \<and>
     qs_net_nss_db_dir qs \<noteq> None \<and> qs_net_nss_qnetd_cn qs \<noteq> None \<and> qs_net_nss_client_cert_nickname qs \<noteq> None \<and>
     uint (qs_local_socket_umask qs) \<le> 511 \<and>
     qdevice_min_local_socket_backlog \<le> qs_local_socket_backlog qs \<and> qs_local_socket_backlog qs \<le> int_max \<and>
     qdevice_min_max_cs_try_again \<le> qs_max_cs_try_again qs \<and> qs_max_cs_try_again qs \<le> int_max \<and>
     size_within (qs_ipc_max_clients qs) qdevice_min_ipc_max_clients \<and>
     size_within (qs_ipc_max_send_size qs) qdevice_min_ipc_receive_send_size \<and>
     size_within (qs_ipc_max_receive_size qs) qdevice_min_ipc_receive_send_size \<and>
     size_within (qs_heuristics_ipc_max_send_buffers qs) qdevice_min_heuristics_ipc_max_send_buffers \<and>
     size_within (qs_heuristics_ipc_max_send_receive_size qs) qdevice_min_heuristics_ipc_max_send_receive_size \<and>
     qdevice_min_heuristics_timeout \<le> uint (qs_heuristics_min_timeout qs) \<and>
     qdevice_min_heuristics_timeout \<le> uint (qs_heuristics_max_timeout qs) \<and>
     qdevice_min_heuristics_interval \<le> uint (qs_heuristics_min_interval qs) \<and>
     qdevice_min_heuristics_interval \<le> uint (qs_heuristics_max_interval qs) \<and>
     size_within (qs_heuristics_max_execs qs) qdevice_min_heuristics_max_execs \<and>
     size_within (qs_heuristics_max_processes qs) qdevice_min_heuristics_max_processes \<and>
     qdevice_min_heuristics_kill_list_interval \<le> uint (qs_heuristics_kill_list_interval qs) \<and>
     size_within (qs_net_initial_msg_receive_size qs) qdevice_net_min_msg_receive_send_size \<and>
     size_within (qs_net_initial_msg_send_size qs) qdevice_net_min_msg_receive_send_size \<and>
     size_within (qs_net_min_msg_send_size qs) qdevice_net_min_msg_receive_send_size \<and>
     size_within (qs_net_max_msg_receive_size qs) qdevice_net_min_msg_receive_send_size \<and>
     size_within (qs_net_max_send_buffers qs) qdevice_net_min_max_send_buffers \<and>
     qdevice_net_min_heartbeat_interval \<le> uint (qs_net_heartbeat_interval_min qs) \<and>
     qdevice_net_min_heartbeat_interval \<le> uint (qs_net_heartbeat_interval_max qs) \<and>
     qdevice_net_min_connect_timeout \<le> uint (qs_net_min_connect_timeout qs) \<and>
     qdevice_net_min_connect_timeout \<le> uint (qs_net_max_connect_timeout qs)"

lemma accepts_master_wins:
  "(\<And>w. ok (upd w)) \<Longrightarrow> ok s \<Longrightarrow>
   accepts ok (let tmpll = f in if tmpll = 0 then (0, upd w0) else if tmpll = 1 then (0, upd w1)
     else if b then (0, upd w2) else (-2, s))"
  by (simp add: accepts_def Let_def)

lemma qdevice_set_accepts:
  "qdevice_settings_ok s \<Longrightarrow> accepts qdevice_settings_ok (qdevice_advanced_settings_set al ge s opt val)"
  unfolding qdevice_advanced_settings_set_def
  by (intro accepts_intros accepts_master_wins [where upd = "\<lambda>w. s\<lparr>qs_master_wins := w\<rparr>"])
     (simp_all add: qdevice_settings_ok_def qdevice_limits size_within_def int_max_def llong_max_def uint32_max_def)

interpretation qdevice_settings: settings_contract qdevice_settings_ok "qdevice_advanced_settings_set al ge" for al ge
  using qdevice_set_accepts by unfold_locales (metis accepts_def fst_conv snd_conv)

lemma qdevice_settings_ok_init: "qdevice_advanced_settings_init al bc = (0, qs) \<Longrightarrow> qdevice_settings_ok qs"
  by (auto simp: qdevice_advanced_settings_init_def qdevice_settings_ok_def qdevice_default_settings_def qdevice_limits
      size_within_def int_max_def llong_max_def Let_def split: if_splits)

lemma qdevice_cli_option_ok:
  "qdevice_cli_option al ge arg (qo, s) = Inr (qo', s') \<Longrightarrow> qdevice_settings_ok s \<Longrightarrow> qdevice_settings_ok s'"
  by (cases arg) (auto simp: qdevice_cli_option_def bindE_Inr_iff qdevice_cli_parse_long_opt_def split: if_splits
      dest: qdevice_settings.parse_long_opt_ok)

text \<open>
  The client runs only with settings within their limits: after a successful initialisation and
  any accepted command line, no string is a null pointer and every number lies between its minimum and
  the maximum of its C type.
\<close>

theorem qdevice_settings_typed:
  assumes "qdevice_advanced_settings_init al bc = (0, qs0)"
    and "qdevice_cli_parse al ge args qs0 = Inr (qo, qs)"
  shows "qdevice_settings_ok qs"
  using cli_loop_inv [OF assms(2) [unfolded qdevice_cli_parse_def], where P = "\<lambda>(qo, s). qdevice_settings_ok s"]
    qdevice_settings_ok_init [OF assms(1)] qdevice_cli_option_ok by auto

section \<open>Lists of settings\<close>

lemma getopt_item_progress: "getopt_item s = (opt, val, rest) \<Longrightarrow> opt \<noteq> [] \<Longrightarrow> length rest < length s"
  using getopt_length [of Getopt_Option s opt val rest] by (cases opt) auto

text \<open>The reference: the items of a list up to the first one without a name, and their effect in order.\<close>

function option_items :: "byte list \<Rightarrow> (byte list \<times> byte list) list" where
  "option_items s = (case getopt_item s of (opt, val, rest) \<Rightarrow> if opt = [] then [] else (opt, val) # option_items rest)"
  by pat_completeness auto
termination
  by (relation "measure length") (auto dest: getopt_item_progress [OF sym])

declare option_items.simps [simp del]

fun apply_items :: "('s \<Rightarrow> byte list \<Rightarrow> byte list \<Rightarrow> int \<times> 's) \<Rightarrow> 's \<Rightarrow> (byte list \<times> byte list) list \<Rightarrow> cli_exit + 's" where
  "apply_items setter s [] = Inr s"
| "apply_items setter s ((opt, val) # items) =
     (case setter s opt val of
        (res, s') \<Rightarrow>
          if res = -1 then Inl (Cli_Unknown_Option opt)
          else if res = -2 then Inl (Cli_Invalid_Value opt val)
          else apply_items setter s' items)"

lemma getopt_item_set:
  "getopt_item s = (opt, val, rest) \<Longrightarrow> set opt \<subseteq> set s \<and> set val \<subseteq> set s \<and> set rest \<subseteq> set s"
  by (auto simp: getopt_item_def getopt_value_def Let_def dest!: set_takeWhileD in_set_dropD set_dropWhileD split: if_splits)

lemma c_str_terminated: "0 \<notin> set s \<Longrightarrow> c_str (s @ [0]) = s"
  by (induction s) (auto simp: c_str_def)

lemma long_opt_loop_items:
  assumes "alloc_ideal al" and "gl_pos lx \<le> dynar_size (gl_input lx)" and "0 \<notin> set (dyn_data (gl_input lx))"
    and "dynar_size (gl_input lx) < dyn_maximum_size (gl_option lx)"
    and "dynar_size (gl_input lx) < dyn_maximum_size (gl_value lx)"
  shows "long_opt_loop al setter lx s = apply_items setter s (option_items (drop (gl_pos lx) (dyn_data (gl_input lx))))"
  using assms(2-)
proof (induction "dynar_size (gl_input lx) - gl_pos lx" arbitrary: lx s rule: less_induct)
  case less
  let ?s = "drop (gl_pos lx) (dyn_data (gl_input lx))"
  obtain r lx' where t: "dynar_getopt_lex_token_next al lx = (r, lx')" by fastforce
  obtain opt val rest where item: "getopt_item ?s = (opt, val, rest)" by (metis prod_cases3)
  note exact = getopt_lex_exact [OF t less.prems(1) item]
  have r: "r = 0" using exact assms(1) less.prems by auto
  have "0 \<notin> set opt" "0 \<notin> set val"
    using getopt_item_set [OF item] less.prems(2) by (auto dest!: in_set_dropD)
  then have c: "c_str (dyn_data (gl_option lx')) = opt" "c_str (dyn_data (gl_value lx')) = val"
    using exact r c_str_terminated by simp_all
  show ?case
  proof (cases "opt = []")
    case True
    with t c r item show ?thesis by (subst long_opt_loop.simps, subst option_items.simps) (simp add: Let_def)
  next
    case False
    have "dynar_size (gl_input lx') - gl_pos lx' < dynar_size (gl_input lx) - gl_pos lx"
      using getopt_progress(2) t r False c(1) by blast
    from less.hyps [OF this] exact r less.prems
    have "long_opt_loop al setter lx' s' = apply_items setter s' (option_items rest)" for s' by auto
    with t c r item False show ?thesis
      by (subst long_opt_loop.simps, subst option_items.simps) (simp add: Let_def split: prod.split)
  qed
qed

lemma parse_long_opt_items:
  assumes "alloc_ideal al" and "0 \<notin> set str"
  shows "parse_long_opt al setter s str = apply_items setter s (option_items str)"
proof -
  let ?d = "dynar_init (length str + 1)"
  obtain r d where c: "dynar_cat al (dynar_clean ?d) str = (r, d)" by fastforce
  note w = writesD [OF writes_cat dynar_inv_clean c]
  have r: "r = 0" using w(6) [OF assms(1)] by (simp add: dynar_defs)
  then have "dynar_str_cpy al ?d str = (0, d)"
    using c by (simp add: dynar_str_cpy_def dynar_str_cat_def dynar_max_size_def dynar_init_def)
  moreover have "dyn_data d = str" "dyn_maximum_size d = length str + 1"
    using w(2,4) r by (simp_all add: dynar_defs)
  ultimately show ?thesis
    using long_opt_loop_items [OF assms(1), of "dynar_getopt_lex_init d" setter s] assms(2)
    by (simp add: parse_long_opt_def dynar_getopt_lex_init_def dynar_defs)
qed

text \<open>How a list of settings is written.\<close>

fun settings_text :: "(byte list \<times> byte list) list \<Rightarrow> byte list" where
  "settings_text [] = []"
| "settings_text ((opt, val) # items) =
     opt @ [chr_equals] @ val @ (if items = [] then [] else [chr_comma] @ settings_text items)"

definition setting_item :: "byte list \<times> byte list \<Rightarrow> bool" where
  "setting_item item \<longleftrightarrow>
     (case item of (opt, val) \<Rightarrow> opt \<noteq> [] \<and> 0 \<notin> set opt \<and> 0 \<notin> set val \<and>
        chr_equals \<notin> set opt \<and> chr_comma \<notin> set opt \<and> chr_comma \<notin> set val)"

lemma getopt_item_text:
  assumes "setting_item (opt, val)" and "tail = [] \<or> hd tail = chr_comma"
  shows "getopt_item (opt @ [chr_equals] @ val @ tail) = (opt, val, drop 1 tail)"
proof -
  have v: "getopt_value (val @ tail) = (val, drop 1 tail)"
  proof -
    have "chr_comma \<notin> set val" using assms(1) by (simp add: setting_item_def)
    then show ?thesis using assms(2) by (induction val) (cases tail, auto simp: getopt_value_Cons)
  qed
  have "chr_equals \<notin> set opt" "chr_comma \<notin> set opt" using assms(1) by (auto simp: setting_item_def)
  then show ?thesis
    by (induction opt) (use v in \<open>auto simp: getopt_item_Cons\<close>)
qed

lemma option_items_text:
  assumes "list_all setting_item items" and "tail = [] \<or> items \<noteq> [] \<and> hd tail = chr_comma"
  shows "option_items (settings_text items @ tail) = items @ option_items (drop 1 tail)"
  using assms
proof (induction items)
  case Nil
  then show ?case by simp
next
  case (Cons item items)
  obtain opt val where i: "item = (opt, val)" by fastforce
  let ?t = "if items = [] then tail else [chr_comma] @ settings_text items @ tail"
  have "getopt_item (settings_text (item # items) @ tail) = (opt, val, drop 1 ?t)"
    using getopt_item_text [of opt val ?t] Cons.prems i by auto
  moreover have "opt \<noteq> []" using Cons.prems(1) i by (simp add: setting_item_def)
  ultimately have "option_items (settings_text (item # items) @ tail) = item # option_items (drop 1 ?t)"
    by (subst option_items.simps) (simp add: i)
  with Cons show ?case by auto
qed

text \<open>
  C30. A list of settings is applied as it is written. When items with names free of \<open>=\<close> and \<open>,\<close> and values
  free of \<open>,\<close> are written as \<open>name=value,name=value\<close>, the option \<open>-S\<close> of the server sets them one after
  the other and stops at the first one that is refused. An empty item ends the list: whatever follows a
  doubled comma is ignored without an error.
\<close>

theorem settings_list_applied:
  assumes "alloc_ideal al" and "list_all setting_item items" and "0 \<notin> set rest"
  shows "qnetd_cli_parse_long_opt al ge sd s (settings_text items) =
      apply_items (qnetd_advanced_settings_set al ge sd) s items \<and>
    (items \<noteq> [] \<longrightarrow> qnetd_cli_parse_long_opt al ge sd s (settings_text items @ [chr_comma, chr_comma] @ rest) =
      apply_items (qnetd_advanced_settings_set al ge sd) s items)"
proof -
  have z: "0 \<notin> set (settings_text items)" using assms(2)
    by (induction items rule: settings_text.induct) (auto simp: setting_item_def chr_equals_def chr_comma_def)
  have e: "option_items [] = []" "option_items (chr_comma # rest) = []"
    by (subst option_items.simps, simp add: getopt_item_Cons chr_comma_def chr_equals_def)+
  have "qnetd_cli_parse_long_opt al ge sd s (settings_text items) =
      apply_items (qnetd_advanced_settings_set al ge sd) s items"
    using parse_long_opt_items [OF assms(1) z] option_items_text [OF assms(2), of "[]"]
    by (simp add: qnetd_cli_parse_long_opt_def e)
  moreover have "qnetd_cli_parse_long_opt al ge sd s (settings_text items @ [chr_comma, chr_comma] @ rest) =
      apply_items (qnetd_advanced_settings_set al ge sd) s items" if "items \<noteq> []"
    using parse_long_opt_items [OF assms(1), of "settings_text items @ [chr_comma, chr_comma] @ rest"] z that
      option_items_text [OF assms(2), of "[chr_comma, chr_comma] @ rest"] assms(3)
    by (simp add: qnetd_cli_parse_long_opt_def e) (simp add: chr_comma_def)
  ultimately show ?thesis by simp
qed

section \<open>Examples\<close>

definition ex_build :: build_config where
  "ex_build = \<lparr>bc_corosysconfdir = ''/etc'', bc_localstatedir = ''/var'', bc_debug = False\<rparr>"

definition ex_group :: group_env where
  "ex_group = \<lparr>ge_size_max = -1, ge_getgrnam = (\<lambda>name n. Grp_Not_Found)\<rparr>"

definition ex_strtod :: strtod_fun where
  "ex_strtod = (\<lambda>str. (double_1_5, str, False))"

definition ex_item :: "byte list \<times> byte list" where
  "ex_item = (str_bytes ''Listen_backlog'', dec_digits 7)"

lemma ex_item_ok: "setting_item ex_item"
  by (simp add: setting_item_def ex_item_def str_bytes_def chr_equals_def chr_comma_def dec_digits.simps)

lemma ex_item_applied:
  "apply_items (qnetd_advanced_settings_set al ge sd) s [ex_item] = Inr (s\<lparr>as_listen_backlog := 7\<rparr>)"
proof -
  have "strcasecmp_eq (str_bytes ''Listen_backlog'') ''listen_backlog''"
    by (simp add: strcasecmp_eq_def str_bytes_def tolower_def)
  then have "qnetd_advanced_settings_set al ge sd s (str_bytes ''Listen_backlog'') (dec_digits 7) =
      (0, s\<lparr>as_listen_backlog := 7\<rparr>)"
    unfolding qnetd_advanced_settings_set_def
    by (subst if_P) (simp_all add: set_number_def strtonum_digits qnetd_limits int_max_def llong_max_def)
  then show ?thesis by (simp add: ex_item_def)
qed

lemma ex_item_parsed:
  "qnetd_cli_parse_long_opt (\<lambda>r. True) ge sd s (settings_text [ex_item]) = Inr (s\<lparr>as_listen_backlog := 7\<rparr>)"
proof -
  have "0 \<notin> set (settings_text [ex_item])"
    using ex_item_ok by (simp add: ex_item_def setting_item_def chr_equals_def)
  moreover have "option_items (settings_text [ex_item]) = [ex_item]"
    using option_items_text [of "[ex_item]" "[]"] ex_item_ok by (simp add: option_items.simps [of "[]"] getopt_item_Cons)
  ultimately show ?thesis
    using parse_long_opt_items [of "\<lambda>r. True" "settings_text [ex_item]"
        "qnetd_advanced_settings_set (\<lambda>r. True) ge sd" s]
    by (simp add: qnetd_cli_parse_long_opt_def alloc_ideal_def ex_item_applied del: settings_text.simps apply_items.simps)
qed

theorem settings_list_applied_witness:
  "qnetd_cli_parse_long_opt (\<lambda>r. True) ex_group ex_strtod qnetd_default_settings (settings_text [ex_item]) =
     Inr (qnetd_default_settings\<lparr>as_listen_backlog := 7\<rparr>) \<and>
   qnetd_cli_parse_long_opt (\<lambda>r. True) ex_group ex_strtod qnetd_default_settings
       (settings_text [ex_item] @ [chr_comma, chr_comma] @ [120]) =
     Inr (qnetd_default_settings\<lparr>as_listen_backlog := 7\<rparr>)"
  using settings_list_applied [of "\<lambda>r. True" "[ex_item]" "[120]" ex_group ex_strtod qnetd_default_settings] ex_item_ok
  by (simp add: alloc_ideal_def ex_item_applied del: settings_text.simps apply_items.simps)

theorem qnetd_settings_typed_witness:
  "\<exists>as0 qo as. qnetd_advanced_settings_init (\<lambda>r. True) ex_build = (0, as0) \<and>
     qnetd_cli_parse (\<lambda>r. True) ex_group ex_strtod
       [(CHR ''p'', dec_digits 80), (CHR ''S'', settings_text [ex_item])] as0 = Inr (qo, as) \<and>
     as_listen_backlog as = 7 \<and> qo_host_port qo = 80 \<and> qnetd_settings_ok as"
proof -
  obtain r as0 where i: "qnetd_advanced_settings_init (\<lambda>r. True) ex_build = (r, as0)" by fastforce
  then have r: "r = 0" by (auto simp: qnetd_advanced_settings_init_def strdup_def Let_def)
  have p: "qnetd_cli_parse (\<lambda>r. True) ex_group ex_strtod
       [(CHR ''p'', dec_digits 80), (CHR ''S'', settings_text [ex_item])] as0 =
      Inr (qnetd_default_options\<lparr>qo_host_port := 80\<rparr>, as0\<lparr>as_listen_backlog := 7\<rparr>)"
    by (simp add: qnetd_cli_parse_def qnetd_cli_option_def strtonum_digits llong_max_def ex_item_parsed
        del: settings_text.simps)
  from qnetd_settings_typed [OF i [unfolded r] p] i r p show ?thesis by auto
qed

theorem qdevice_settings_typed_witness:
  "\<exists>qs0 qo qs. qdevice_advanced_settings_init (\<lambda>r. True) ex_build = (0, qs0) \<and>
     qdevice_cli_parse (\<lambda>r. True) ex_group [(CHR ''f'', []), (CHR ''S'', [])] qs0 = Inr (qo, qs) \<and>
     do_foreground qo \<and> qdevice_settings_ok qs"
proof -
  obtain r qs0 where i: "qdevice_advanced_settings_init (\<lambda>r. True) ex_build = (r, qs0)" by fastforce
  then have r: "r = 0" by (auto simp: qdevice_advanced_settings_init_def strdup_def Let_def)
  have "parse_long_opt (\<lambda>r. True) (qdevice_advanced_settings_set (\<lambda>r. True) ex_group) qs0 [] = Inr qs0"
    using parse_long_opt_items [of "\<lambda>r. True" "[]"]
    by (simp add: alloc_ideal_def option_items.simps [of "[]"] getopt_item_Cons)
  then have p: "qdevice_cli_parse (\<lambda>r. True) ex_group [(CHR ''f'', []), (CHR ''S'', [])] qs0 =
      Inr (\<lparr>do_foreground = True, do_force_debug = False, do_bump_log_priority = False\<rparr>, qs0)"
    by (simp add: qdevice_cli_parse_def qdevice_cli_option_def qdevice_cli_parse_long_opt_def)
  from qdevice_settings_typed [OF i [unfolded r] p] i r p show ?thesis by auto
qed

end
