(* ===== verification/Config_Props.thy ===== *)
theory Config_Props
  imports Config Cli_Props Heuristics_Props
begin

text \<open>
  What the client has after it has read its configuration: the node list is the configured set of nodes,
  the heuristics are the configured commands or switched off, and the parameters of the net model lie
  within the limits of the settings.
\<close>

section \<open>The node list\<close>

text \<open>The positions of nodes in the configuration: those with a key \<open>ring0_addr\<close> or \<open>name\<close>.\<close>

definition node_positions :: "byte list list \<Rightarrow> u32 list" where
  "node_positions keys =
     map fst (filter (\<lambda>(pos, word). word = str_bytes ''ring0_addr'' \<or> word = str_bytes ''name'')
       (List.map_filter scan_node_key keys))"

lemma node_positions_simps [simp]:
  "node_positions [] = []"
  "node_positions (key # keys) =
     (case scan_node_key key of
        None \<Rightarrow> node_positions keys
      | Some (pos, word) \<Rightarrow>
          if word = str_bytes ''ring0_addr'' \<or> word = str_bytes ''name'' then pos # node_positions keys
          else node_positions keys)"
  by (auto simp: node_positions_def map_filter_simps split: option.split)

text \<open>Keys as the configuration writes them are found.\<close>

lemma scan_node_key_print: "scan_node_key (node_key pos ''ring0_addr'') = Some (pos, str_bytes ''ring0_addr'')"
proof -
  have "scan_u32 (dec_digits (unat pos) @ chr_dot # str_bytes ''ring0_addr'') = Some (pos, chr_dot # str_bytes ''ring0_addr'')"
    using scan_u32_digits [of "chr_dot # str_bytes ''ring0_addr''" "unat pos"]
    by (simp add: chr_dot_def is_digit_def word_le_nat_alt)
  then show ?thesis
    by (simp add: scan_node_key_def node_key_def)
       (simp add: str_bytes_def is_space_def chr_space_def)
qed

definition node_entry :: "cmap_env \<Rightarrow> u32 \<Rightarrow> node_list_entry \<Rightarrow> bool" where
  "node_entry cm pos e \<longleftrightarrow>
     cmap_node_id cm pos = Inr (nl_node_id e) \<and> nl_data_center_id e = cmap_data_center_id cm pos \<and>
     nl_node_state e = TLV_NODE_STATE_NOT_SET"

lemma nodelist_loop_exact:
  assumes "nodelist_loop al cm keys nlist = Some nlist'" and "node_list_distinct nlist"
  shows "node_list_distinct nlist' \<and>
    node_ids nlist' = node_ids nlist \<union> {n. \<exists>pos\<in>set (node_positions keys). cmap_node_id cm pos = Inr n} \<and>
    (\<forall>pos\<in>set (node_positions keys). cmap_node_id cm pos \<noteq> Inl ()) \<and>
    (\<forall>e\<in>set nlist'. e \<in> set nlist \<or> (\<exists>pos\<in>set (node_positions keys). node_entry cm pos e))"
  using assms
proof (induction keys arbitrary: nlist)
  case Nil
  then show ?case by simp
next
  case (Cons key keys)
  show ?case
  proof (cases "node_positions [key] = []")
    case True
    then have "nodelist_loop al cm keys nlist = Some nlist'" "node_positions (key # keys) = node_positions keys"
      using Cons.prems(1) by (auto split: option.splits if_splits)
    with Cons show ?thesis by presburger
  next
    case False
    then obtain pos word where k: "scan_node_key key = Some (pos, word)"
      "word = str_bytes ''ring0_addr'' \<or> word = str_bytes ''name''" by (auto split: option.splits if_splits)
    then obtain n where n: "cmap_node_id cm pos = Inr n"
      using Cons.prems(1) by (auto split: sum.splits)
    have pos: "node_positions (key # keys) = pos # node_positions keys" using k by auto
    show ?thesis
    proof (cases "n \<in> node_ids nlist")
      case True
      then have "nodelist_loop al cm keys nlist = Some nlist'"
        using Cons.prems(1) k n by (auto simp: node_list_find_None [symmetric])
      from Cons.IH [OF this Cons.prems(2)] n True show ?thesis
        unfolding pos by (auto simp: node_ids_def)
    next
      case False
      define e where "e = \<lparr>nl_node_id = n, nl_data_center_id = cmap_data_center_id cm pos,
        nl_node_state = TLV_NODE_STATE_NOT_SET\<rparr>"
      have "nodelist_loop al cm keys (nlist @ [e]) = Some nlist'"
        using Cons.prems(1) k n False node_list_find_None [of nlist n]
        by (auto simp: e_def node_list_add_def split: option.splits if_splits)
      moreover have "node_list_distinct (nlist @ [e])"
        using Cons.prems(2) False by (auto simp: node_list_distinct_def node_ids_def e_def)
      moreover have "node_ids (nlist @ [e]) = insert n (node_ids nlist)" "node_entry cm pos e"
        using n by (auto simp: node_ids_def e_def node_entry_def)
      ultimately show ?thesis using Cons.IH [of "nlist @ [e]"] n unfolding pos by auto
    qed
  qed
qed

lemma nodelist_loop_total:
  assumes "alloc_ideal al" and "\<forall>pos\<in>set (node_positions keys). cmap_node_id cm pos \<noteq> Inl ()"
  shows "\<exists>nlist'. nodelist_loop al cm keys nlist = Some nlist'"
  using assms(2)
proof (induction keys arbitrary: nlist)
  case (Cons key keys)
  have ih: "\<exists>nlist'. nodelist_loop al cm keys nlist = Some nlist'" for nlist
    using Cons by (auto split: option.splits if_splits)
  have al: "al Malloc_Node_Entry" using assms(1) by (simp add: alloc_ideal_def)
  show ?case
  proof (cases "node_positions [key]")
    case Nil
    then show ?thesis using ih by (auto split: option.splits if_splits)
  next
    case k: (Cons pos ps)
    have "pos \<in> set (node_positions (key # keys))" using k by (auto split: option.splits if_splits)
    then have "cmap_node_id cm pos \<noteq> Inl ()" using Cons.prems by blast
    then obtain n where "cmap_node_id cm pos = Inr n" by (cases "cmap_node_id cm pos") auto
    with k show ?thesis using ih al by (auto simp: node_list_add_def split: option.splits if_splits)
  qed
qed simp

text \<open>
  C26. The node list of the client is the configured set of nodes. Unless memory runs out, reading the
  list succeeds exactly when some node is configured and every configured node has an id, by its key or
  by its address. The list then has every node id once, each with the data center and no state, and its
  ids are exactly those of the configured nodes.
\<close>

theorem cmap_nodelist_exact:
  assumes "cm_keys cm (str_bytes ''nodelist.node.'') = Some keys" and "alloc_ideal al"
  shows "case qdevice_cmap_get_nodelist al cm of
      None \<Rightarrow> node_positions (map fst keys) = [] \<or> Inl () \<in> cmap_node_id cm ` set (node_positions (map fst keys))
    | Some nlist \<Rightarrow>
        node_list_distinct nlist \<and> nlist \<noteq> [] \<and>
        Inr ` node_ids nlist = cmap_node_id cm ` set (node_positions (map fst keys)) \<and>
        list_all (\<lambda>e. \<exists>pos\<in>set (node_positions (map fst keys)). node_entry cm pos e) nlist"
proof -
  let ?ps = "set (node_positions (map fst keys))"
  have get: "qdevice_cmap_get_nodelist al cm =
      (case nodelist_loop al cm (map fst keys) [] of
         None \<Rightarrow> None | Some nlist \<Rightarrow> if nlist = [] then None else Some nlist)"
    using assms(1) by (simp add: qdevice_cmap_get_nodelist_def node_list_init_def node_list_is_empty_def split: option.split)
  show ?thesis
  proof (cases "nodelist_loop al cm (map fst keys) []")
    case None
    then obtain pos where "pos \<in> ?ps" "cmap_node_id cm pos = Inl ()"
      using nodelist_loop_total [OF assms(2), of "map fst keys" cm "[]"] by auto
    then have "Inl () \<in> cmap_node_id cm ` ?ps" by (metis image_eqI)
    with None show ?thesis by (simp add: get)
  next
    case (Some nlist)
    have "node_list_distinct ([] :: node_list)" by (simp add: node_list_distinct_def)
    note e = nodelist_loop_exact [OF Some this]
    have ids: "Inr ` node_ids nlist = cmap_node_id cm ` ?ps"
    proof (rule set_eqI, rule iffI)
      fix x assume "x \<in> cmap_node_id cm ` ?ps"
      then obtain pos where pos: "pos \<in> ?ps" "x = cmap_node_id cm pos" by blast
      then obtain n where "cmap_node_id cm pos = Inr n" using e by (cases "cmap_node_id cm pos") auto
      with pos e show "x \<in> Inr ` node_ids nlist" by auto
    next
      fix x :: "unit + u32" assume "x \<in> Inr ` node_ids nlist"
      with e show "x \<in> cmap_node_id cm ` ?ps" by (auto simp: node_ids_def image_iff) metis
    qed
    show ?thesis
    proof (cases "nlist = []")
      case True
      then have "?ps = {}" using ids by (simp add: node_ids_def)
      then show ?thesis using Some True by (simp add: get)
    next
      case False
      then show ?thesis using Some e ids by (simp add: get list_all_iff)
    qed
  qed
qed

section \<open>The heuristics\<close>

text \<open>The configured commands, in the order of the keys.\<close>

definition configured_execs :: "cmap_env \<Rightarrow> (byte list \<times> bool) list \<Rightarrow> exec_list" where
  "configured_execs cm keys =
     List.map_filter (\<lambda>(key, is_string).
       case (scan_exec_key key, cm_string cm key) of
         (Some name, Some command) \<Rightarrow> if is_string then Some \<lparr>hx_name = name, hx_command = command\<rparr> else None
       | _ \<Rightarrow> None) keys"

lemma exec_keys_loop_exact:
  "alloc_ideal al \<Longrightarrow> exec_keys_loop al cm keys l = l @ configured_execs cm keys"
proof (induction keys arbitrary: l)
  case (Cons k keys)
  then show ?case
    by (cases k) (auto simp: configured_execs_def map_filter_simps qdevice_heuristics_exec_list_add_def alloc_ideal_def
        Let_def split: option.split)
qed (simp add: configured_execs_def map_filter_simps)

lemma exec_entry_eta [simp]:
  "\<lparr>hx_name = hx_name e, hx_command = hx_command e\<rparr> = (e :: qdevice_heuristics_exec_list_entry)"
  by (cases e) simp

lemma exec_list_clone_exact:
  "exec_list_clone_loop al dst src = (0, l) \<Longrightarrow> l = dst @ src"
  by (induction src arbitrary: dst)
     (fastforce simp: qdevice_heuristics_exec_list_add_def Let_def split: if_splits)+

lemma exec_list_eq_loop_mset: "exec_list_eq_loop l tmp = 1 \<Longrightarrow> mset l = mset tmp"
proof (induction l arbitrary: tmp)
  case Nil
  then show ?case by (auto simp: qdevice_heuristics_exec_list_is_empty_def split: if_splits)
next
  case (Cons e l)
  then obtain e2 where f: "qdevice_heuristics_exec_list_find_name tmp (hx_name e) = Some e2"
    and c: "hx_command e = hx_command e2"
    and r: "exec_list_eq_loop l (qdevice_heuristics_exec_list_del tmp e2) = 1"
    by (auto split: option.splits if_splits)
  have e2: "e2 \<in> set tmp" "hx_name e2 = hx_name e"
    using f find_Some_mem [of "\<lambda>x. hx_name x = hx_name e" tmp e2]
    by (auto simp: qdevice_heuristics_exec_list_find_name_def)
  with c have "e2 = e" by (cases e, cases e2) simp
  moreover have "mset (qdevice_heuristics_exec_list_del tmp e2) = mset tmp - {#e2#}"
    using e2(1) by (induction tmp) (auto simp: qdevice_heuristics_exec_list_del_def)
  ultimately show ?case using Cons.IH [OF r] e2(1) by simp
qed

lemma exec_list_eq_mset: "qdevice_heuristics_exec_list_eq al l1 l2 = 1 \<Longrightarrow> mset l1 = mset l2 \<and> length l1 = length l2"
  by (auto simp: qdevice_heuristics_exec_list_eq_def qdevice_heuristics_exec_list_clone_def
      qdevice_heuristics_exec_list_init_def split: prod.splits if_splits
      dest!: exec_list_clone_exact exec_list_eq_loop_mset intro: mset_eq_length)

text \<open>Writing to the worker leaves the list, the mode and the times alone.\<close>

definition heuristics_core :: "qdevice_heuristics_instance \<Rightarrow> u32 \<times> u32 \<times> u32 \<times> qdevice_heuristics_mode \<times> exec_list" where
  "heuristics_core h = (qh_timeout h, qh_sync_timeout h, qh_interval h, qh_mode h, qh_exec_list h)"

lemma cmd_queue_core: "cmd_queue al adds h = (r, h') \<Longrightarrow> heuristics_core h' = heuristics_core h"
  by (auto simp: cmd_queue_def heuristics_core_def Let_def split: prod.splits option.splits if_splits)

lemma cmd_write_exec_list_loop_core:
  "cmd_write_exec_list_loop al l h = (r, h') \<Longrightarrow> heuristics_core h' = heuristics_core h"
  by (induction l arbitrary: h) (auto split: prod.splits if_splits dest!: cmd_queue_core)

lemma change_exec_list_core:
  assumes "qdevice_heuristics_change_exec_list al l sync h = (0, h')"
  shows "heuristics_core h' = heuristics_core (h\<lparr>qh_exec_list := (case l of None \<Rightarrow> [] | Some elist \<Rightarrow> elist)\<rparr>)"
proof -
  obtain r1 h1 where w: "qdevice_heuristics_cmd_write_exec_list al l h = (r1, h1)" by fastforce
  have c1: "heuristics_core h1 = heuristics_core h"
    using w by (auto simp: qdevice_heuristics_cmd_write_exec_list_def split: prod.splits option.splits if_splits
        dest!: cmd_queue_core cmd_write_exec_list_loop_core)
  define elist where "elist = (case l of None \<Rightarrow> [] | Some elist \<Rightarrow> elist)"
  have "qdevice_heuristics_exec al sync (h1\<lparr>qh_exec_list := elist\<rparr>) = (0, h') \<or> h' = h1\<lparr>qh_exec_list := elist\<rparr>"
    using assms w exec_list_clone_exact
    by (fastforce simp: qdevice_heuristics_change_exec_list_def elist_def qdevice_heuristics_exec_list_clone_def
        qdevice_heuristics_exec_list_init_def qdevice_heuristics_exec_list_free_def Let_def
        split: prod.splits option.splits if_splits)
  then have "heuristics_core h' = heuristics_core (h1\<lparr>qh_exec_list := elist\<rparr>)"
    by (auto simp: qdevice_heuristics_exec_def qdevice_heuristics_cmd_write_exec_def Let_def dest!: cmd_queue_core)
       (simp_all add: heuristics_core_def)
  with c1 show ?thesis by (simp add: heuristics_core_def elist_def)
qed

lemma heuristics_execs_exact:
  assumes "heuristics_execs al cm max_execs h = Some (send, h')" and "alloc_ideal al"
  shows "(case send of
       None \<Rightarrow> h' = h \<and> (\<exists>keys. cm_keys cm exec_prefix = Some keys \<and> mset (qh_exec_list h) = mset (configured_execs cm keys) \<and>
         0 < length (qh_exec_list h) \<and> length (qh_exec_list h) \<le> max_execs) \<and>
         qh_mode h \<noteq> QDEVICE_HEURISTICS_MODE_DISABLED
     | Some None \<Rightarrow> h' = h\<lparr>qh_mode := QDEVICE_HEURISTICS_MODE_DISABLED\<rparr>
     | Some (Some l) \<Rightarrow> h' = h \<and> (\<exists>keys. cm_keys cm exec_prefix = Some keys \<and> l = configured_execs cm keys \<and>
         l \<noteq> [] \<and> length l \<le> max_execs) \<and> qh_mode h \<noteq> QDEVICE_HEURISTICS_MODE_DISABLED)"
  using assms
  by (auto simp: heuristics_execs_def exec_keys_loop_exact qdevice_heuristics_exec_list_init_def
      qdevice_heuristics_exec_list_size_def Let_def split: if_splits option.splits dest!: exec_list_eq_mset)

text \<open>A time that was read from the configuration.\<close>

definition interval_ok :: "cmap_env \<Rightarrow> string \<Rightarrow> u32 \<Rightarrow> u32 \<Rightarrow> u32 \<Rightarrow> u32 \<Rightarrow> bool" where
  "interval_ok cm key dflt lo hi v \<longleftrightarrow>
     (if cm_string cm (str_bytes key) = None then v = dflt else lo \<le> v \<and> v \<le> hi)"

lemma cmap_interval_ok: "cmap_interval cm key dflt lo hi = Some v \<Longrightarrow> interval_ok cm key dflt lo hi v"
proof -
  assume a: "cmap_interval cm key dflt lo hi = Some v"
  have "lo \<le> word_of_int n \<and> word_of_int n \<le> hi" if "uint lo \<le> n" "n \<le> uint hi" for n
  proof -
    have "0 \<le> n" using that(1) by (rule order_trans [OF uint_ge_0])
    moreover have "n \<le> 4294967295" using that(2) uint_bounded [of hi] by simp
    ultimately have "uint (word_of_int n :: u32) = n" by simp
    with that show ?thesis by (simp add: word_le_def)
  qed
  with a show ?thesis
    by (auto simp: cmap_interval_def cmap_option_def interval_ok_def utils_strtonum_def split: option.splits
        dest!: strtonum_range)
qed

text \<open>
  C27. The configuration of the heuristics takes effect as a whole. After a successful call, also of one
  that changes a running configuration, either the heuristics are off and the list of commands is empty, or
  they are on and the list holds exactly the configured commands, at least one and at most the allowed
  number. Each of the three times is the default derived from the heartbeat interval where its key is
  missing, and lies within the limits of the settings where it is configured.
\<close>

theorem heuristics_configured:
  assumes "qdevice_instance_configure_from_cmap_heuristics al cm as hb sync_hb sync_in_progress h = (0, h')"
    and "alloc_ideal al"
  shows "(if qh_mode h' = QDEVICE_HEURISTICS_MODE_DISABLED then qh_exec_list h' = []
      else \<exists>keys. cm_keys cm exec_prefix = Some keys \<and> mset (qh_exec_list h') = mset (configured_execs cm keys) \<and>
        0 < length (qh_exec_list h') \<and> length (qh_exec_list h') \<le> qs_heuristics_max_execs as) \<and>
    interval_ok cm ''quorum.device.heuristics.timeout'' (hb div 2)
      (qs_heuristics_min_timeout as) (qs_heuristics_max_timeout as) (qh_timeout h') \<and>
    interval_ok cm ''quorum.device.heuristics.sync_timeout'' (sync_hb div 2)
      (qs_heuristics_min_timeout as) (qs_heuristics_max_timeout as) (qh_sync_timeout h') \<and>
    interval_ok cm ''quorum.device.heuristics.interval'' (hb * 3)
      (qs_heuristics_min_interval as) (qs_heuristics_max_interval as) (qh_interval h')"
proof -
  obtain t st i mode send h5 where
    t: "cmap_interval cm ''quorum.device.heuristics.timeout'' (hb div 2) (qs_heuristics_min_timeout as)
      (qs_heuristics_max_timeout as) = Some t"
    and st: "cmap_interval cm ''quorum.device.heuristics.sync_timeout'' (sync_hb div 2) (qs_heuristics_min_timeout as)
      (qs_heuristics_max_timeout as) = Some st"
    and i: "cmap_interval cm ''quorum.device.heuristics.interval'' (hb * 3) (qs_heuristics_min_interval as)
      (qs_heuristics_max_interval as) = Some i"
    and x: "heuristics_execs al cm (qs_heuristics_max_execs as)
      (h\<lparr>qh_timeout := t, qh_sync_timeout := st, qh_interval := i, qh_mode := mode\<rparr>) = Some (send, h5)"
    and h': "send = None \<and> h' = h5 \<or>
      (\<exists>l. send = Some l \<and> qdevice_heuristics_change_exec_list al l sync_in_progress h5 = (0, h'))"
    using assms(1)
    by (fastforce simp: qdevice_instance_configure_from_cmap_heuristics_def Let_def split: option.splits prod.splits if_splits)
  have core: "heuristics_core h' = heuristics_core (case send of None \<Rightarrow> h5
      | Some l \<Rightarrow> h5\<lparr>qh_exec_list := (case l of None \<Rightarrow> [] | Some e \<Rightarrow> e)\<rparr>)"
    using h' change_exec_list_core by (auto split: option.splits prod.splits if_splits)
  show ?thesis
    using heuristics_execs_exact [OF x assms(2)] core cmap_interval_ok [OF t] cmap_interval_ok [OF st] cmap_interval_ok [OF i]
    by (cases send; cases "the send") (auto simp: heuristics_core_def dest: mset_eq_length)
qed

section \<open>The net model\<close>

lemma net_heartbeat_range:
  "qs_net_heartbeat_interval_min as \<le> qs_net_heartbeat_interval_max as \<Longrightarrow>
   qs_net_heartbeat_interval_min as \<le> net_heartbeat as n \<and> net_heartbeat as n \<le> qs_net_heartbeat_interval_max as"
  by (auto simp: net_heartbeat_def Let_def not_less)

lemma cmap_option_cases:
  "cmap_option cm key dflt parse = Some v \<Longrightarrow> v = dflt \<or> (\<exists>str. parse str = Some v)"
  by (auto simp: cmap_option_def split: option.splits)

lemma net_tie_breaker_id:
  "net_tie_breaker_of str = Some tb \<Longrightarrow> tb_mode tb = TLV_TIE_BREAKER_MODE_NODE_ID \<Longrightarrow> tb_node_id tb \<noteq> 0"
proof -
  assume a: "net_tie_breaker_of str = Some tb" "tb_mode tb = TLV_TIE_BREAKER_MODE_NODE_ID"
  then obtain n where "utils_strtonum str 1 uint32_max = Some n" "tb_node_id tb = word_of_int n"
    by (auto simp: net_tie_breaker_of_def split: if_splits)
  then have n: "1 \<le> n" "n \<le> 4294967295" "tb_node_id tb = word_of_int n"
    by (auto simp: utils_strtonum_def uint32_max_def dest: strtonum_range)
  then have "uint (tb_node_id tb) = n" by simp
  with n(1) show ?thesis by auto
qed

lemma net_ip_version_values: "net_ip_version_of str = Some v \<Longrightarrow> v = 0 \<or> v = 4 \<or> v = 6"
  by (auto simp: net_ip_version_of_def split: option.splits if_splits)

lemma unat_times_0_5: "unat (times_0_5 n) = unat n div 2"
proof -
  have "unat n div 2 < 2 ^ 32" using unat_bound [of n] by simp
  then show ?thesis by (simp add: times_0_5_def unat_of_nat)
qed

text \<open>The values that a successful configuration was made from.\<close>

lemma net_config_steps:
  assumes "qdevice_net_instance_init_from_cmap al cm qc as = Some (host, n)"
  shows "\<exists>tls port name alg tb ct ip kap.
    cmap_option cm ''quorum.device.net.port'' 5403 (\<lambda>str. utils_strtonum str 1 65535) = Some port \<and>
    \<not> (alg = TLV_DECISION_ALGORITHM_TYPE_TEST \<and> \<not> qs_net_test_algorithm_enabled as) \<and>
    cmap_option cm ''quorum.device.net.tie_breaker'' \<lparr>tb_mode = TLV_TIE_BREAKER_MODE_LOWEST, tb_node_id = 0\<rparr>
      net_tie_breaker_of = Some tb \<and>
    cmap_interval cm ''quorum.device.net.connect_timeout'' (net_heartbeat as (qc_heartbeat_interval qc))
      (qs_net_min_connect_timeout as) (qs_net_max_connect_timeout as) = Some ct \<and>
    cmap_option cm ''quorum.device.net.force_ip_version'' 0 net_ip_version_of = Some ip \<and>
    nh_host_port host = port \<and> nh_force_ip_version host = ip \<and>
    n = qdevice_net_instance_init tls alg (net_heartbeat as (qc_heartbeat_interval qc))
      (times_0_8 (qc_sync_heartbeat_interval qc)) (times_0_5 (qc_heartbeat_interval qc)) name tb ct kap as"
  using assms
  by (auto simp: qdevice_net_instance_init_from_cmap_def Let_def bind_eq_Some_conv split: if_splits) blast+

text \<open>
  C28. The parameters of the net model lie within their limits. When the client could be configured, the
  port and the IP version are possible ones, the heartbeat interval lies between the two settings, the time
  to connect is the heartbeat interval or a configured number within its limits, votes are repeated
  twice per timeout of corosync (rounded down), the algorithm \<open>test\<close> is used only when the settings
  enable it, a tie-breaker node has an id other than 0, and the new instance has no vote, no
  connection and no running timer.
\<close>

theorem net_config_limits:
  assumes "qdevice_net_instance_init_from_cmap al cm qc as = Some (host, n)"
    and "qs_net_heartbeat_interval_min as \<le> qs_net_heartbeat_interval_max as"
  shows "1 \<le> nh_host_port host \<and> nh_host_port host \<le> 65535 \<and> nh_force_ip_version host \<in> {0, 4, 6} \<and>
    qs_net_heartbeat_interval_min as \<le> qn_heartbeat_interval n \<and>
    qn_heartbeat_interval n \<le> qs_net_heartbeat_interval_max as \<and>
    interval_ok cm ''quorum.device.net.connect_timeout'' (qn_heartbeat_interval n)
      (qs_net_min_connect_timeout as) (qs_net_max_connect_timeout as) (qn_connect_timeout n) \<and>
    unat (qn_cast_vote_timer_interval n) = unat (qc_heartbeat_interval qc) div 2 \<and>
    (qn_decision_algorithm n = TLV_DECISION_ALGORITHM_TYPE_TEST \<longrightarrow> qs_net_test_algorithm_enabled as) \<and>
    (tb_mode (qn_tie_breaker n) = TLV_TIE_BREAKER_MODE_NODE_ID \<longrightarrow> tb_node_id (qn_tie_breaker n) \<noteq> 0) \<and>
    qn_cast_vote_timer_vote n = TLV_VOTE_UNDEFINED \<and> \<not> qn_socket n \<and> qn_cast_vote_timer n = None \<and>
    qn_connect_timer n = None \<and> qn_echo_request_timer n = None"
proof -
  obtain tls port name alg tb ct ip kap where
    p: "cmap_option cm ''quorum.device.net.port'' 5403 (\<lambda>str. utils_strtonum str 1 65535) = Some port"
    and alg: "\<not> (alg = TLV_DECISION_ALGORITHM_TYPE_TEST \<and> \<not> qs_net_test_algorithm_enabled as)"
    and tb: "cmap_option cm ''quorum.device.net.tie_breaker'' \<lparr>tb_mode = TLV_TIE_BREAKER_MODE_LOWEST, tb_node_id = 0\<rparr>
      net_tie_breaker_of = Some tb"
    and ct: "cmap_interval cm ''quorum.device.net.connect_timeout'' (net_heartbeat as (qc_heartbeat_interval qc))
      (qs_net_min_connect_timeout as) (qs_net_max_connect_timeout as) = Some ct"
    and ip: "cmap_option cm ''quorum.device.net.force_ip_version'' 0 net_ip_version_of = Some ip"
    and host: "nh_host_port host = port" "nh_force_ip_version host = ip"
    and n: "n = qdevice_net_instance_init tls alg (net_heartbeat as (qc_heartbeat_interval qc))
      (times_0_8 (qc_sync_heartbeat_interval qc)) (times_0_5 (qc_heartbeat_interval qc)) name tb ct kap as"
    using net_config_steps [OF assms(1)] by blast
  have "1 \<le> port \<and> port \<le> 65535"
    using cmap_option_cases [OF p] by (auto simp: utils_strtonum_def dest: strtonum_range)
  moreover have "ip \<in> {0, 4, 6}" using cmap_option_cases [OF ip] net_ip_version_values by auto
  moreover have "tb_mode tb = TLV_TIE_BREAKER_MODE_NODE_ID \<longrightarrow> tb_node_id tb \<noteq> 0"
    using cmap_option_cases [OF tb] net_tie_breaker_id by auto
  ultimately show ?thesis
    using alg host net_heartbeat_range [OF assms(2)] cmap_interval_ok [OF ct] unat_times_0_5
    by (auto simp: n qdevice_net_instance_init_def)
qed

section \<open>An example\<close>

definition ex_cmap :: cmap_env where
  "ex_cmap =
     \<lparr>cm_string = (\<lambda>k. if k = str_bytes ''quorum.device.net.host'' then Some [104]
        else if k = str_bytes ''totem.cluster_name'' then Some [99] else None),
      cm_uint32 = (\<lambda>k. if k = node_key 3 ''nodeid'' then Cmap_Uint32 7 else Cmap_Not_Exist),
      cm_config_version = None, cm_keys = (\<lambda>p. Some [(node_key 3 ''ring0_addr'', True)]),
      cm_resolve = (\<lambda>a. None), cm_default_timeout = 10000, cm_default_sync_timeout = 30000\<rparr>"

theorem cmap_nodelist_exact_witness:
  "\<exists>nlist. qdevice_cmap_get_nodelist (\<lambda>r. True) ex_cmap = Some nlist \<and> node_ids nlist = {7} \<and> node_list_distinct nlist"
proof -
  have k: "cm_keys ex_cmap (str_bytes ''nodelist.node.'') = Some [(node_key 3 ''ring0_addr'', True)]"
    by (simp add: ex_cmap_def)
  have id: "cmap_node_id ex_cmap 3 = Inr 7" by (simp add: cmap_node_id_def ex_cmap_def)
  note e = cmap_nodelist_exact [OF k, of "\<lambda>r. True"]
  show ?thesis
  proof (cases "qdevice_cmap_get_nodelist (\<lambda>r. True) ex_cmap")
    case None
    with e show ?thesis by (simp add: alloc_ideal_def scan_node_key_print id)
  next
    case (Some nlist)
    with e have "Inr ` node_ids nlist = {Inr 7 :: unit + u32}" "node_list_distinct nlist"
      by (simp_all add: alloc_ideal_def scan_node_key_print id)
    moreover from this(1) have "node_ids nlist = {7}" by (simp add: set_eq_iff image_iff) (metis Inr_inject)
    ultimately show ?thesis using Some by simp
  qed
qed

lemma ex_cmap_strings:
  "cm_string ex_cmap (str_bytes ''quorum.device.net.host'') = Some [104]"
  "cm_string ex_cmap (str_bytes ''totem.cluster_name'') = Some [99]"
  "cm_string ex_cmap (str_bytes ''quorum.device.net.tls'') = None"
  "cm_string ex_cmap (str_bytes ''quorum.device.net.port'') = None"
  "cm_string ex_cmap (str_bytes ''quorum.device.net.algorithm'') = None"
  "cm_string ex_cmap (str_bytes ''quorum.device.net.tie_breaker'') = None"
  "cm_string ex_cmap (str_bytes ''quorum.device.net.connect_timeout'') = None"
  "cm_string ex_cmap (str_bytes ''quorum.device.net.force_ip_version'') = None"
  "cm_string ex_cmap (str_bytes ''quorum.device.net.keep_active_partition_tie_breaker'') = None"
  "cm_string ex_cmap (str_bytes ''quorum.device.heuristics.timeout'') = None"
  "cm_string ex_cmap (str_bytes ''quorum.device.heuristics.sync_timeout'') = None"
  "cm_string ex_cmap (str_bytes ''quorum.device.heuristics.interval'') = None"
  "cm_string ex_cmap (str_bytes ''quorum.device.heuristics.mode'') = None"
  by (simp_all add: ex_cmap_def str_bytes_def)

theorem heuristics_configured_witness:
  "\<exists>h'. qdevice_instance_configure_from_cmap_heuristics (\<lambda>r. True) ex_cmap qdevice_default_settings 10000 30000 False
      (qdevice_heuristics_instance_init 10 4096) = (0, h') \<and> qh_exec_list h' = [] \<and> qh_timeout h' = 5000"
proof -
  let ?h = "(qdevice_heuristics_instance_init 10 4096)\<lparr>qh_timeout := 5000, qh_sync_timeout := 15000, qh_interval := 30000,
    qh_mode := QDEVICE_HEURISTICS_MODE_DISABLED\<rparr>"
  obtain h' where ch: "qdevice_heuristics_change_exec_list (\<lambda>r. True) None False ?h = (0, h')"
    by (simp add: qdevice_heuristics_change_exec_list_def qdevice_heuristics_cmd_write_exec_list_def
        cmd_queue_def send_buffer_list_get_new_def qdevice_heuristics_instance_init_def send_buffer_list_init_def
        dynar_str_cpy_def dynar_str_cat_def dynar_cat_def dynar_prealloc_def dynar_realloc_def dynar_defs
        cmd_str_exec_list_clear_def str_bytes_def qdevice_heuristics_waiting_for_result_def Let_def)
  then have c: "qdevice_instance_configure_from_cmap_heuristics (\<lambda>r. True) ex_cmap qdevice_default_settings
      10000 30000 False (qdevice_heuristics_instance_init 10 4096) = (0, h')"
    by (simp add: qdevice_instance_configure_from_cmap_heuristics_def cmap_interval_def cmap_option_def ex_cmap_strings
        heuristics_execs_def Let_def)
  have m: "qh_mode h' = QDEVICE_HEURISTICS_MODE_DISABLED"
    using change_exec_list_core [OF ch] by (simp add: heuristics_core_def)
  from heuristics_configured [OF c] c m show ?thesis
    by (simp add: alloc_ideal_def interval_ok_def ex_cmap_strings)
qed

theorem net_config_limits_witness:
  "\<exists>host n. qdevice_net_instance_init_from_cmap (\<lambda>r. True) ex_cmap
      \<lparr>qc_model_type = QDEVICE_MODEL_TYPE_NET, qc_heartbeat_interval = 10000, qc_sync_heartbeat_interval = 30000\<rparr>
      qdevice_default_settings = Some (host, n) \<and> unat (qn_cast_vote_timer_interval n) = 5000 \<and>
      1000 \<le> qn_heartbeat_interval n \<and> nh_host_port host = 5403"
proof -
  let ?qc = "\<lparr>qc_model_type = QDEVICE_MODEL_TYPE_NET, qc_heartbeat_interval = 10000, qc_sync_heartbeat_interval = 30000\<rparr>"
  obtain host n where i: "qdevice_net_instance_init_from_cmap (\<lambda>r. True) ex_cmap ?qc qdevice_default_settings = Some (host, n)"
      "nh_host_port host = 5403"
    by (simp add: qdevice_net_instance_init_from_cmap_def cmap_interval_def cmap_option_def ex_cmap_strings Let_def)
  from net_config_limits [OF i(1)] i show ?thesis by (auto simp: qdevice_default_settings_def)
qed

end
