(* ===== verification/Unix_Ipc.thy ===== *)
theory Unix_Ipc
  imports Msgio C_Strings
begin

text \<open>
  Local sockets and their clients: \<open>unix-socket.c\<close>, \<open>unix-socket-client.c\<close>, \<open>unix-socket-client-list.c\<close> and
  \<open>unix-socket-ipc.c\<close>. A client sends one line and gets one answer, both collected in buffers of limited
  size. System calls are arguments: their results, or functions for the data that they transfer. The umask that
  \<open>unix_socket_server_create\<close> sets before \<open>bind\<close> and restores after it is left out: it has no effect on results.
\<close>

section \<open>Sockets\<close>

text \<open>What \<open>socket\<close>, \<open>bind\<close> and the other calls on the listening socket return.\<close>

record unix_sys =
  us_socket :: int
  us_bind :: bool
  us_chown :: bool
  us_set_non_blocking :: bool
  us_listen :: bool
  us_close :: bool
  us_unlink :: bool
  us_accept :: int

definition sun_path_size :: nat where
  "sun_path_size = 108"

definition unix_socket_server_create :: "unix_sys \<Rightarrow> byte list \<Rightarrow> u32 \<Rightarrow> bool \<Rightarrow> int" where
  "unix_socket_server_create sys path socket_gid non_blocking =
     (if length path \<ge> sun_path_size \<or> length path = 0 then -1
      else if us_socket sys < 0 then -1
      else if socket_gid \<noteq> -1 \<and> \<not> us_chown sys then -1
      else if \<not> us_bind sys then -1
      else if non_blocking \<and> \<not> us_set_non_blocking sys then -1
      else if \<not> us_listen sys then -1
      else us_socket sys)"

definition unix_socket_server_destroy :: "unix_sys \<Rightarrow> int" where
  "unix_socket_server_destroy sys =
     (let res = (if \<not> us_close sys then -1 else 0)
      in if \<not> us_unlink sys then -1 else res)"

definition unix_socket_server_accept :: "unix_sys \<Rightarrow> bool \<Rightarrow> int" where
  "unix_socket_server_accept sys non_blocking =
     (if us_accept sys < 0 then -1
      else if non_blocking \<and> \<not> us_set_non_blocking sys then -1
      else us_accept sys)"

section \<open>Clients\<close>

text \<open>
  The user data of a client is a block with one flag, \<open>shutdown_requested\<close>; \<open>None\<close> is the null pointer.
\<close>

record unix_socket_client =
  uc_socket :: int
  uc_receive_buffer :: dynar
  uc_send_buffer :: dynar
  uc_msg_already_received_bytes :: nat
  uc_msg_already_sent_bytes :: nat
  uc_reading_line :: bool
  uc_writing_buffer :: bool
  uc_schedule_disconnect :: bool
  uc_user_data :: "bool option"

definition unix_socket_client_buffer :: nat where
  "unix_socket_client_buffer = 256"

definition unix_socket_client_init :: "int \<Rightarrow> nat \<Rightarrow> nat \<Rightarrow> bool option \<Rightarrow> unix_socket_client" where
  "unix_socket_client_init sock max_receive_size max_send_size user_data =
     \<lparr>uc_socket = sock, uc_receive_buffer = dynar_init max_receive_size, uc_send_buffer = dynar_init max_send_size,
      uc_msg_already_received_bytes = 0, uc_msg_already_sent_bytes = 0, uc_reading_line = False,
      uc_writing_buffer = False, uc_schedule_disconnect = False, uc_user_data = user_data\<rparr>"

definition unix_socket_client_read_line :: "bool \<Rightarrow> unix_socket_client \<Rightarrow> unix_socket_client" where
  "unix_socket_client_read_line enabled client = client\<lparr>uc_reading_line := enabled\<rparr>"

definition unix_socket_client_write_buffer :: "bool \<Rightarrow> unix_socket_client \<Rightarrow> unix_socket_client" where
  "unix_socket_client_write_buffer enabled client = client\<lparr>uc_writing_buffer := enabled\<rparr>"

definition unix_socket_client_io_read ::
    "allocator \<Rightarrow> (nat \<Rightarrow> recv_result) \<Rightarrow> unix_socket_client \<Rightarrow> int \<times> unix_socket_client" where
  "unix_socket_client_io_read al recv client =
     (case recv unix_socket_client_buffer of
        Recv_Data buf \<Rightarrow>
          if buf = [] then (-1, client)
          else let client1 = client\<lparr>uc_msg_already_received_bytes :=
                     uc_msg_already_received_bytes client + length buf\<rparr>
               in (case dynar_cat al (uc_receive_buffer client1) buf of
                     (r, rb) \<Rightarrow>
                       let client2 = client1\<lparr>uc_receive_buffer := rb\<rparr>
                       in if r = -1 then (-2, client2)
                          else if chr_nl \<in> set buf then (1, client2) else (0, client2))
      | Recv_Closed \<Rightarrow> (-1, client)
      | Recv_Would_Block \<Rightarrow> (0, client)
      | Recv_Error \<Rightarrow> (-3, client))"

definition unix_socket_client_io_write ::
    "(byte list \<Rightarrow> send_result) \<Rightarrow> unix_socket_client \<Rightarrow> int \<times> unix_socket_client" where
  "unix_socket_client_io_write send client =
     (let left = dynar_size (uc_send_buffer client) - uc_msg_already_sent_bytes client;
          to_send = (if left > unix_socket_client_buffer then unix_socket_client_buffer else left)
      in case send (take to_send (drop (uc_msg_already_sent_bytes client) (dyn_data (uc_send_buffer client)))) of
           Send_Count sent \<Rightarrow>
             if sent > 0
             then let client' = client\<lparr>uc_msg_already_sent_bytes := uc_msg_already_sent_bytes client + sent\<rparr>
                  in (if uc_msg_already_sent_bytes client' = dynar_size (uc_send_buffer client') then 1 else 0,
                      client')
             else (-1, client)
         | Send_Would_Block \<Rightarrow> (0, client)
         | Send_Error \<Rightarrow> (-2, client))"

section \<open>The listening socket and its clients\<close>

text \<open>Clients are heap objects with a reference that is not used again.\<close>

type_synonym ipc_client_ref = nat

record unix_socket_ipc =
  ui_socket :: int
  ui_backlog :: int
  ui_socket_file_name :: "byte list option"
  ui_clients :: "(ipc_client_ref \<times> unix_socket_client) list"
  ui_max_clients :: nat
  ui_max_receive_size :: nat
  ui_max_send_size :: nat
  ui_next_ref :: ipc_client_ref

definition unix_socket_client_list_add ::
    "allocator \<Rightarrow> unix_socket_ipc \<Rightarrow> int \<Rightarrow> nat \<Rightarrow> nat \<Rightarrow> bool option \<Rightarrow> ipc_client_ref option \<times> unix_socket_ipc" where
  "unix_socket_client_list_add al ipc sock max_receive_size max_send_size user_data =
     (if \<not> al Malloc_Unix_Client then (None, ipc)
      else (Some (ui_next_ref ipc),
            ipc\<lparr>ui_clients := ui_clients ipc @
                  [(ui_next_ref ipc, unix_socket_client_init sock max_receive_size max_send_size user_data)],
                ui_next_ref := ui_next_ref ipc + 1\<rparr>))"

definition unix_socket_client_list_del :: "unix_socket_ipc \<Rightarrow> ipc_client_ref \<Rightarrow> unix_socket_ipc" where
  "unix_socket_client_list_del ipc u = ipc\<lparr>ui_clients := filter (\<lambda>x. fst x \<noteq> u) (ui_clients ipc)\<rparr>"

definition unix_socket_client_list_free :: "unix_socket_ipc \<Rightarrow> unix_socket_ipc" where
  "unix_socket_client_list_free ipc = ipc\<lparr>ui_clients := []\<rparr>"

definition unix_socket_client_list_no_clients :: "unix_socket_ipc \<Rightarrow> nat" where
  "unix_socket_client_list_no_clients ipc = length (ui_clients ipc)"

definition unix_socket_ipc_init ::
    "allocator \<Rightarrow> unix_sys \<Rightarrow> byte list \<Rightarrow> u32 \<Rightarrow> int \<Rightarrow> nat \<Rightarrow> nat \<Rightarrow> nat \<Rightarrow> (int \<times> unix_socket_ipc)" where
  "unix_socket_ipc_init al sys socket_file_name socket_gid backlog max_clients max_receive_size max_send_size =
     (let ipc = \<lparr>ui_socket = 0, ui_backlog = 0, ui_socket_file_name = None, ui_clients = [], ui_max_clients = 0,
                 ui_max_receive_size = 0, ui_max_send_size = 0, ui_next_ref = 0\<rparr>
      in if \<not> al (Malloc_Bytes (length socket_file_name + 1)) then (-1, ipc)
         else let ipc1 = ipc\<lparr>ui_socket_file_name := Some socket_file_name, ui_backlog := backlog,
                    ui_socket := unix_socket_server_create sys socket_file_name socket_gid True\<rparr>
              in if ui_socket ipc1 < 0 then (-1, ipc1)
                 else (0, ipc1\<lparr>ui_max_clients := max_clients, ui_max_receive_size := max_receive_size,
                               ui_max_send_size := max_send_size\<rparr>))"

definition unix_socket_ipc_close :: "unix_sys \<Rightarrow> unix_socket_ipc \<Rightarrow> int \<times> unix_socket_ipc" where
  "unix_socket_ipc_close sys ipc =
     (if ui_socket ipc < 0 then (0, ipc)
      else (if unix_socket_server_destroy sys \<noteq> 0 then -1 else 0,
            ipc\<lparr>ui_socket_file_name := None, ui_socket := -1\<rparr>))"

definition unix_socket_ipc_is_closed :: "unix_socket_ipc \<Rightarrow> bool" where
  "unix_socket_ipc_is_closed ipc \<longleftrightarrow> ui_socket ipc < 0"

definition unix_socket_ipc_destroy :: "unix_sys \<Rightarrow> unix_socket_ipc \<Rightarrow> int \<times> unix_socket_ipc" where
  "unix_socket_ipc_destroy sys ipc =
     (case unix_socket_ipc_close sys ipc of
        (r, ipc1) \<Rightarrow> if r \<noteq> 0 then (-1, ipc1) else (0, unix_socket_client_list_free ipc1))"

definition unix_socket_ipc_accept ::
    "allocator \<Rightarrow> unix_sys \<Rightarrow> unix_socket_ipc \<Rightarrow> int \<times> ipc_client_ref option \<times> unix_socket_ipc" where
  "unix_socket_ipc_accept al sys ipc =
     (let client_sock = unix_socket_server_accept sys True
      in if client_sock < 0 then (-1, None, ipc)
         else if ui_max_clients ipc \<noteq> 0 \<and> unix_socket_client_list_no_clients ipc \<ge> ui_max_clients ipc
         then (-2, None, ipc)
         else (case unix_socket_client_list_add al ipc client_sock (ui_max_receive_size ipc)
                      (ui_max_send_size ipc) None of
                 (None, ipc1) \<Rightarrow> (-3, None, ipc1)
               | (Some u, ipc1) \<Rightarrow> (0, Some u, ipc1)))"

definition unix_socket_ipc_client_disconnect :: "unix_socket_ipc \<Rightarrow> ipc_client_ref \<Rightarrow> unix_socket_ipc" where
  "unix_socket_ipc_client_disconnect ipc u = unix_socket_client_list_del ipc u"

text \<open>The client behind a reference, and a change of it.\<close>

definition ipc_client :: "unix_socket_ipc \<Rightarrow> ipc_client_ref \<Rightarrow> unix_socket_client option" where
  "ipc_client ipc u = map_of (ui_clients ipc) u"

definition upd_ipc_client ::
    "ipc_client_ref \<Rightarrow> (unix_socket_client \<Rightarrow> unix_socket_client) \<Rightarrow> unix_socket_ipc \<Rightarrow> unix_socket_ipc" where
  "upd_ipc_client u f ipc =
     ipc\<lparr>ui_clients := map (\<lambda>(k, c). (k, if k = u then f c else c)) (ui_clients ipc)\<rparr>"

section \<open>Answers\<close>

text \<open>
  \<open>qnetd_ipc_send_error\<close> and \<open>qnetd_ipc_send_buffer\<close>; \<open>qdevice-ipc.c\<close> has the same two functions under
  its own names. The error text is already formatted.
\<close>

definition ipc_send_error :: "allocator \<Rightarrow> byte list \<Rightarrow> unix_socket_client \<Rightarrow> int \<times> unix_socket_client" where
  "ipc_send_error al error_text client =
     (case dynar_str_cpy al (uc_send_buffer client) (str_bytes ''Error'' @ [chr_nl]) of
        (r1, b1) \<Rightarrow>
          if r1 \<noteq> 0 then (-1, client\<lparr>uc_send_buffer := b1\<rparr>)
          else (case dynar_str_vcatf al b1 (Some error_text) of
                  (r2, b2) \<Rightarrow>
                    if \<not> r2 > 0 then (-1, client\<lparr>uc_send_buffer := b2\<rparr>)
                    else (case dynar_str_cat al b2 [chr_nl] of
                            (r3, b3) \<Rightarrow>
                              if r3 \<noteq> 0 then (-1, client\<lparr>uc_send_buffer := b3\<rparr>)
                              else (0, unix_socket_client_write_buffer True (client\<lparr>uc_send_buffer := b3\<rparr>)))))"

definition ipc_send_buffer :: "allocator \<Rightarrow> unix_socket_client \<Rightarrow> int \<times> unix_socket_client" where
  "ipc_send_buffer al client =
     (case dynar_str_prepend al (uc_send_buffer client) (str_bytes ''OK'' @ [chr_nl]) of
        (r, b) \<Rightarrow>
          let client1 = client\<lparr>uc_send_buffer := b\<rparr>
          in if r \<noteq> 0
             then (case ipc_send_error al (str_bytes ''Internal IPC buffer too small'') client1 of
                     (r2, client2) \<Rightarrow> if r2 \<noteq> 0 then (-1, client2) else (0, client2))
             else (0, unix_socket_client_write_buffer True client1))"

text \<open>A client whose answer does not fit is disconnected.\<close>

definition or_disconnect :: "int \<times> unix_socket_client \<Rightarrow> unix_socket_client" where
  "or_disconnect rc = (case rc of (r, client) \<Rightarrow> if r \<noteq> 0 then client\<lparr>uc_schedule_disconnect := True\<rparr> else client)"

end
