(* ===== verification/Qnetd_Ipc_Cmd.thy ===== *)
theory Qnetd_Ipc_Cmd
  imports Qnetd_State Unix_Ipc
begin

text \<open>
  The texts that the daemon prints for its local clients, \<open>qnetd-ipc-cmd.c\<close>. Every piece of text is appended
  to a buffer of limited size, and the first piece that does not fit ends the command with -1. The host
  address of the daemon and the addresses of the clients are arguments.
\<close>

section \<open>Formatted text\<close>

definition catf :: "allocator \<Rightarrow> byte list \<Rightarrow> adder" where
  "catf al out outbuf = (case dynar_str_vcatf al outbuf (Some out) of (r, outbuf') \<Rightarrow> (if r = -1 then -1 else 0, outbuf'))"

definition tabs :: "nat \<Rightarrow> byte list" where
  "tabs n = replicate n 9"

abbreviation nl :: "byte list" where
  "nl \<equiv> [chr_nl]"

fun hex_digits :: "nat \<Rightarrow> byte list" where
  "hex_digits n = (if n < 16 then [] else hex_digits (n div 16)) @
     [of_nat (if n mod 16 < 10 then 48 + n mod 16 else 87 + n mod 16)]"

definition fmt_u :: "'a::len word \<Rightarrow> byte list" where
  "fmt_u w = dec_digits (unat w)"

definition fmt_ring_id :: "tlv_ring_id \<Rightarrow> byte list" where
  "fmt_ring_id ring = hex_digits (unat (rid_node_id ring)) @ str_bytes ''.'' @ hex_digits (unat (rid_seq ring))"

declare hex_digits.simps [simp del]

section \<open>Commands\<close>

definition qnetd_ipc_cmd_status ::
    "allocator \<Rightarrow> byte list option \<Rightarrow> u16 \<Rightarrow> qnetd_instance \<Rightarrow> bool \<Rightarrow> adder" where
  "qnetd_ipc_cmd_status al host_addr host_port qi verbose =
     run_adds
       ([catf al (str_bytes ''QNetd address:'' @ tabs 3 @ (case host_addr of Some a \<Rightarrow> a | None \<Rightarrow> str_bytes ''*'') @
           str_bytes '':'' @ fmt_u host_port @ nl),
         catf al (str_bytes ''TLS:'' @ tabs 4 @ str_bytes (tlv_tls_supported_to_str (qi_tls_supported qi)) @
           (if qi_tls_supported qi \<noteq> TLV_TLS_UNSUPPORTED \<and> qi_tls_client_cert_required qi
            then str_bytes '' (client certificate required)'' else []) @ nl),
         catf al (str_bytes ''Connected clients:'' @ tabs 2 @ dec_digits (qnetd_client_list_no_clients qi) @ nl),
         catf al (str_bytes ''Connected clusters:'' @ tabs 2 @ dec_digits (qnetd_cluster_list_size qi) @ nl)] @
        (if \<not> verbose then []
         else [add_if (qi_max_clients qi \<noteq> 0)
                 (catf al (str_bytes ''Maximum allowed clients:'' @ tabs 1 @ dec_digits (qi_max_clients qi) @ nl)),
               catf al (str_bytes ''Maximum send/receive size:'' @ tabs 1 @
                 dec_digits (as_max_client_send_size (qi_advanced_settings qi)) @ str_bytes ''/'' @
                 dec_digits (as_max_client_receive_size (qi_advanced_settings qi)) @ str_bytes '' bytes'' @ nl)]))"

text \<open>\<open>qnetd_ipc_cmd_add_tie_breaker\<close> returns 0 for an error and 1 for success; here they are -1 and 0.\<close>

definition qnetd_ipc_cmd_add_tie_breaker :: "allocator \<Rightarrow> qnetd_client \<Rightarrow> adder" where
  "qnetd_ipc_cmd_add_tie_breaker al client =
     run_adds
       [catf al (str_bytes ''    Tie-breaker:'' @ tabs 1),
        (case tb_mode (cl_tie_breaker client) of
           TLV_TIE_BREAKER_MODE_LOWEST \<Rightarrow> catf al (str_bytes ''Node with lowest node ID'')
         | TLV_TIE_BREAKER_MODE_HIGHEST \<Rightarrow> catf al (str_bytes ''Node with highest node ID'')
         | TLV_TIE_BREAKER_MODE_NODE_ID \<Rightarrow>
             catf al (str_bytes ''Node with node ID '' @ fmt_u (tb_node_id (cl_tie_breaker client)))
         | TLV_TIE_BREAKER_MODE_OTHER w \<Rightarrow> skip_add),
        catf al nl]"

fun add_node_list_loop :: "allocator \<Rightarrow> nat \<Rightarrow> node_list \<Rightarrow> adder list" where
  "add_node_list_loop al i [] = []"
| "add_node_list_loop al i (node_info # nlist) =
     [add_if (i \<noteq> 0) (catf al (str_bytes '', '')),
      catf al (fmt_u (nl_node_id node_info)),
      add_if (nl_data_center_id node_info \<noteq> 0)
        (catf al (str_bytes '' ('' @ fmt_u (nl_data_center_id node_info) @ str_bytes '')''))] @
     add_node_list_loop al (i + 1) nlist"

definition qnetd_ipc_cmd_list_add_node_list :: "allocator \<Rightarrow> node_list \<Rightarrow> adder" where
  "qnetd_ipc_cmd_list_add_node_list al nlist = run_adds (add_node_list_loop al 0 nlist)"

definition add_labelled_node_list :: "allocator \<Rightarrow> string \<Rightarrow> node_list \<Rightarrow> adder" where
  "add_labelled_node_list al label nlist =
     add_if (nlist \<noteq> [])
       (run_adds [catf al (str_bytes label @ tabs 1), qnetd_ipc_cmd_list_add_node_list al nlist, catf al nl])"

definition qnetd_ipc_cmd_list_add_client_info ::
    "allocator \<Rightarrow> byte list \<Rightarrow> qnetd_client \<Rightarrow> bool \<Rightarrow> adder" where
  "qnetd_ipc_cmd_list_add_client_info al addr_str client verbose =
     run_adds
       [catf al (str_bytes ''    Node ID '' @ fmt_u (cl_node_id client) @ str_bytes '':'' @ nl),
        catf al (str_bytes ''        Client address:'' @ tabs 2 @ addr_str @ nl),
        add_if verbose
          (catf al (str_bytes ''        HB interval:'' @ tabs 2 @ fmt_u (cl_heartbeat_interval client) @
             str_bytes ''ms'' @ nl)),
        add_if (cl_config_version_set client)
          (catf al (str_bytes ''        Configuration version:'' @ tabs 1 @ fmt_u (cl_config_version client) @ nl)),
        add_labelled_node_list al ''        Configured node list:'' (cl_configuration_node_list client),
        add_if verbose
          (catf al (str_bytes ''        Ring ID:'' @ tabs 2 @ fmt_ring_id (cl_last_ring_id client) @ nl)),
        add_labelled_node_list al ''        Membership node list:'' (cl_last_membership_node_list client),
        add_if (cl_last_heuristics client \<noteq> TLV_HEURISTICS_UNDEFINED \<or> verbose)
          (run_adds
             [catf al (str_bytes ''        Heuristics:'' @ tabs 2 @
                str_bytes (tlv_heuristics_to_str (cl_last_heuristics client))),
              add_if verbose
                (catf al (str_bytes '' (membership: '' @
                   str_bytes (tlv_heuristics_to_str (cl_last_membership_heuristics client)) @
                   str_bytes '', regular: '' @
                   str_bytes (tlv_heuristics_to_str (cl_last_regular_heuristics client)) @ str_bytes '')'')),
              catf al nl]),
        add_if verbose
          (run_adds
             [catf al (str_bytes ''        TLS active:'' @ tabs 2 @
                str_bytes (if cl_tls_started client then ''Yes'' else ''No'')),
              add_if (cl_tls_started client \<and> cl_tls_peer_certificate_verified client)
                (catf al (str_bytes '' (client certificate verified)'')),
              catf al nl]),
        add_if (cl_last_sent_vote client \<noteq> TLV_VOTE_UNDEFINED)
          (run_adds
             [catf al (str_bytes ''        Vote:'' @ tabs 3 @ str_bytes (tlv_vote_to_str (cl_last_sent_vote client))),
              add_if (cl_last_sent_ack_nack_vote client \<noteq> TLV_VOTE_UNDEFINED)
                (catf al (str_bytes '' ('' @ str_bytes (tlv_vote_to_str (cl_last_sent_ack_nack_vote client)) @
                   str_bytes '')'')),
              catf al nl])]"

definition qnetd_ipc_cmd_keep_active_partition_tie_breaker_active ::
    "qnetd_instance \<Rightarrow> cluster_ref \<Rightarrow> bool" where
  "qnetd_ipc_cmd_keep_active_partition_tie_breaker_active qi k \<longleftrightarrow>
     (\<forall>c \<in> set (cs_client_list (qi_cluster qi k)).
        cl_decision_algorithm (qi_client qi c) = TLV_DECISION_ALGORITHM_TYPE_FFSPLIT \<and>
        cl_keep_active_partition_tie_breaker (qi_client qi c) = TLV_KEEP_ACTIVE_PARTITION_TIE_BREAKER_ENABLED)"

definition list_client_head :: "allocator \<Rightarrow> qnetd_instance \<Rightarrow> cluster_ref \<Rightarrow> qnetd_client \<Rightarrow> adder list" where
  "list_client_head al qi k client =
     [catf al (str_bytes ''    Algorithm:'' @ tabs 2 @
        str_bytes (tlv_decision_algorithm_type_to_str (cl_decision_algorithm client)) @
        (if qnetd_ipc_cmd_keep_active_partition_tie_breaker_active qi k
         then str_bytes '' (KAP Tie-breaker)'' else []) @ nl),
      qnetd_ipc_cmd_add_tie_breaker al client]"

fun list_clients_loop ::
    "allocator \<Rightarrow> (client_ref \<Rightarrow> byte list) \<Rightarrow> qnetd_instance \<Rightarrow> bool \<Rightarrow> cluster_ref \<Rightarrow> nat \<Rightarrow> client_ref list \<Rightarrow>
     adder list" where
  "list_clients_loop al addr_str qi verbose k client_no [] = []"
| "list_clients_loop al addr_str qi verbose k client_no (c # cs) =
     (if client_no = 0 then list_client_head al qi k (qi_client qi c) else []) @
     [qnetd_ipc_cmd_list_add_client_info al (addr_str c) (qi_client qi c) verbose] @
     list_clients_loop al addr_str qi verbose k (client_no + 1) cs"

fun list_clusters_loop ::
    "allocator \<Rightarrow> (client_ref \<Rightarrow> byte list) \<Rightarrow> qnetd_instance \<Rightarrow> bool \<Rightarrow> byte list option \<Rightarrow> cluster_ref list \<Rightarrow>
     adder list" where
  "list_clusters_loop al addr_str qi verbose cluster_name [] = []"
| "list_clusters_loop al addr_str qi verbose cluster_name (k # ks) =
     (let name = cs_cluster_name (qi_cluster qi k);
          skip = (case cluster_name of None \<Rightarrow> False | Some n \<Rightarrow> n \<noteq> [] \<and> n \<noteq> c_str name)
      in (if skip then []
          else [catf al (str_bytes ''Cluster '' @ [chr_quote] @ c_str name @ [chr_quote] @ str_bytes '':'' @ nl)] @
               list_clients_loop al addr_str qi verbose k 0 (cs_client_list (qi_cluster qi k)))) @
     list_clusters_loop al addr_str qi verbose cluster_name ks"

definition qnetd_ipc_cmd_list ::
    "allocator \<Rightarrow> (client_ref \<Rightarrow> byte list) \<Rightarrow> qnetd_instance \<Rightarrow> bool \<Rightarrow> byte list option \<Rightarrow> adder" where
  "qnetd_ipc_cmd_list al addr_str qi verbose cluster_name =
     run_adds (list_clusters_loop al addr_str qi verbose cluster_name (qi_clusters qi))"

end
