(* ===== verification/Poll_Array.thy ===== *)
theory Poll_Array
  imports Prelude
begin

text \<open>
  The growing array of poll descriptors (\<open>pr-poll-array.c\<close>): descriptors and, beside them, one
  pointer of user data each. The two blocks are reallocated one after the other; \<open>pa_allocated\<close> is the
  number that the code keeps, which is also the size of the first block, and \<open>pa_user_allocated\<close> the size
  of the second one, which the code does not keep.
\<close>

type_synonym poll_flags = u16

text \<open>
  A \<open>PRFileDesc\<close> is a socket of the NSPR library, or an object that \<open>PR_CreateSocketPollFd\<close> creates for a plain
  descriptor; the latter is named by the descriptor.
\<close>

datatype prfd =
    Socket_Prfd nat
  | Poll_Prfd int

record poll_desc =
  pd_fd :: "prfd option"
  pd_in_flags :: poll_flags

record 'e pr_poll_array =
  pa_array :: "poll_desc list"
  pa_user_data :: "'e option list"
  pa_allocated :: nat
  pa_user_allocated :: nat

definition pr_poll_array_init :: "'e pr_poll_array" where
  "pr_poll_array_init = \<lparr>pa_array = [], pa_user_data = [], pa_allocated = 0, pa_user_allocated = 0\<rparr>"

definition pr_poll_array_destroy :: "'e pr_poll_array \<Rightarrow> 'e pr_poll_array" where
  "pr_poll_array_destroy pa = pr_poll_array_init"

definition pr_poll_array_clean :: "'e pr_poll_array \<Rightarrow> 'e pr_poll_array" where
  "pr_poll_array_clean pa = pa\<lparr>pa_array := [], pa_user_data := []\<rparr>"

definition pr_poll_array_size :: "'e pr_poll_array \<Rightarrow> nat" where
  "pr_poll_array_size pa = length (pa_array pa)"

text \<open>A descriptor has 16 bytes and a pointer 8.\<close>

definition pr_poll_array_realloc :: "allocator \<Rightarrow> nat \<Rightarrow> 'e pr_poll_array \<Rightarrow> int \<times> 'e pr_poll_array" where
  "pr_poll_array_realloc al new_array_size pa =
     (if \<not> al (Realloc_Bytes (16 * new_array_size)) then (-1, pa)
      else let pa1 = pa\<lparr>pa_allocated := new_array_size\<rparr>
           in if \<not> al (Realloc_Bytes (8 * new_array_size)) then (-1, pa1)
              else (0, pa1\<lparr>pa_user_allocated := new_array_size\<rparr>))"

text \<open>\<open>pr_poll_array_add\<close> zeroes the next pair; the caller fills it in through the two pointers.\<close>

definition pr_poll_array_add :: "allocator \<Rightarrow> 'e pr_poll_array \<Rightarrow> fault + (int \<times> 'e pr_poll_array)" where
  "pr_poll_array_add al pa =
     (case (if pr_poll_array_size pa \<ge> pa_allocated pa
            then pr_poll_array_realloc al (pa_allocated pa * 2 + 1) pa else (0, pa)) of
        (r, pa1) \<Rightarrow>
          if r \<noteq> 0 then Inr (-1, pa1)
          else if pr_poll_array_size pa1 \<ge> pa_user_allocated pa1 then Inl Out_Of_Bounds
          else Inr (int (pr_poll_array_size pa1),
                    pa1\<lparr>pa_array := pa_array pa1 @ [\<lparr>pd_fd = None, pd_in_flags = 0\<rparr>],
                        pa_user_data := pa_user_data pa1 @ [None]\<rparr>))"

definition pr_poll_array_gc :: "allocator \<Rightarrow> 'e pr_poll_array \<Rightarrow> 'e pr_poll_array" where
  "pr_poll_array_gc al pa =
     (if pa_allocated pa > pr_poll_array_size pa * 3 + 1
      then snd (pr_poll_array_realloc al (pr_poll_array_size pa * 2 + 1) pa) else pa)"

definition pr_poll_array_get :: "'e pr_poll_array \<Rightarrow> nat \<Rightarrow> poll_desc option" where
  "pr_poll_array_get pa pos = (if pos \<ge> pr_poll_array_size pa then None else Some (pa_array pa ! pos))"

definition pr_poll_array_get_user_data :: "'e pr_poll_array \<Rightarrow> nat \<Rightarrow> 'e option option" where
  "pr_poll_array_get_user_data pa pos =
     (if pos \<ge> pr_poll_array_size pa then None else Some (pa_user_data pa ! pos))"

text \<open>What the caller stores through the pointers that \<open>pr_poll_array_add\<close> returned.\<close>

definition poll_array_set :: "poll_desc \<Rightarrow> 'e \<Rightarrow> 'e pr_poll_array \<Rightarrow> 'e pr_poll_array" where
  "poll_array_set d e pa =
     pa\<lparr>pa_array := butlast (pa_array pa) @ [d], pa_user_data := butlast (pa_user_data pa) @ [Some e]\<rparr>"

section \<open>Invariant\<close>

definition poll_array_inv :: "'e pr_poll_array \<Rightarrow> bool" where
  "poll_array_inv pa \<longleftrightarrow>
     length (pa_user_data pa) = length (pa_array pa) \<and> length (pa_array pa) \<le> pa_allocated pa \<and>
     pa_allocated pa \<le> pa_user_allocated pa"

lemma poll_array_inv_init [simp]: "poll_array_inv pr_poll_array_init"
  by (simp add: poll_array_inv_def pr_poll_array_init_def)

lemma poll_array_inv_clean: "poll_array_inv pa \<Longrightarrow> poll_array_inv (pr_poll_array_clean pa)"
  by (simp add: poll_array_inv_def pr_poll_array_clean_def)

lemma poll_array_inv_set: "poll_array_inv pa \<Longrightarrow> pa_array pa \<noteq> [] \<Longrightarrow> poll_array_inv (poll_array_set d e pa)"
  by (cases "pa_user_data pa") (auto simp: poll_array_inv_def poll_array_set_def)

text \<open>Shrinking is harmless even when one of the two requests is refused.\<close>

lemma poll_array_inv_gc: "poll_array_inv pa \<Longrightarrow> poll_array_inv (pr_poll_array_gc al pa)"
  by (auto simp: poll_array_inv_def pr_poll_array_gc_def pr_poll_array_realloc_def pr_poll_array_size_def Let_def)

text \<open>Adding is safe; it keeps the array usable unless it fails.\<close>

lemma poll_array_add_safe:
  assumes "poll_array_inv pa"
  shows "\<exists>r pa'. pr_poll_array_add al pa = Inr (r, pa') \<and>
    (r = -1 \<and> pa_array pa' = pa_array pa \<and> pa_user_data pa' = pa_user_data pa \<or>
     r = int (length (pa_array pa)) \<and> poll_array_inv pa' \<and>
     pa_array pa' = pa_array pa @ [\<lparr>pd_fd = None, pd_in_flags = 0\<rparr>] \<and> pa_user_data pa' = pa_user_data pa @ [None])"
  using assms
  by (auto simp: pr_poll_array_add_def pr_poll_array_realloc_def pr_poll_array_size_def poll_array_inv_def Let_def)

lemma poll_array_add_granted:
  assumes "poll_array_inv pa" and "\<And>n. al (Realloc_Bytes n)"
  shows "\<exists>pa'. pr_poll_array_add al pa = Inr (int (length (pa_array pa)), pa') \<and> poll_array_inv pa' \<and>
     pa_array pa' = pa_array pa @ [\<lparr>pd_fd = None, pd_in_flags = 0\<rparr>] \<and> pa_user_data pa' = pa_user_data pa @ [None]"
  using assms
  by (auto simp: pr_poll_array_add_def pr_poll_array_realloc_def pr_poll_array_size_def poll_array_inv_def Let_def)

text \<open>
  C40. A growth that fails half way corrupts memory later. When the array is full and the second of the two
  requests is refused, \<open>pr_poll_array_add\<close> returns -1 but keeps the larger size. The next call for the
  same array, even when all memory is granted again, writes behind the block of user data.
\<close>

theorem poll_array_overflow:
  assumes "poll_array_inv pa" and "pr_poll_array_size pa = pa_allocated pa" and "pa_user_allocated pa = pa_allocated pa"
    and "al (Realloc_Bytes (16 * (pa_allocated pa * 2 + 1)))" and "\<not> al (Realloc_Bytes (8 * (pa_allocated pa * 2 + 1)))"
  shows "\<exists>pa'. pr_poll_array_add al pa = Inr (-1, pa') \<and> pa_array pa' = pa_array pa \<and>
    pr_poll_array_add al' pa' = Inl Out_Of_Bounds"
  using assms
  by (simp add: pr_poll_array_add_def pr_poll_array_realloc_def pr_poll_array_size_def poll_array_inv_def)

theorem poll_array_overflow_witness:
  "\<exists>pa'. pr_poll_array_add (\<lambda>r. r \<noteq> Realloc_Bytes 8) (pr_poll_array_init :: nat pr_poll_array) = Inr (-1, pa') \<and>
    pr_poll_array_add (\<lambda>r. True) pa' = Inl Out_Of_Bounds"
  using poll_array_overflow [of "pr_poll_array_init :: nat pr_poll_array" "\<lambda>r. r \<noteq> Realloc_Bytes 8" "\<lambda>r. True"]
  by (auto simp: pr_poll_array_init_def pr_poll_array_size_def poll_array_inv_def)

end
