(* ===== verification/Poll_Loop.thy ===== *)
theory Poll_Loop
  imports Poll_Array Timer_List
begin

text \<open>
  The event loop of both daemons (\<open>pr-poll-loop.c\<close>). The loop keeps a list of descriptors with their
  callbacks and a list of callbacks that run before each poll. One turn runs the latter, asks every
  descriptor for the events that it waits for, polls, calls the callbacks of the descriptors that are ready
  and lets the timers expire.

  Callbacks may register and delete descriptors while the loop walks over its lists. List entries are heap
  objects, so an entry has a reference that is never used again, and an access to an entry that is no
  longer in the list is an access to freed memory (\<open>Use_After_Free\<close>). The walks need not end when a
  callback keeps adding entries; they are partial functions. The locale \<open>poll_contract\<close> says what callbacks
  have to respect for the loop to be safe, and its lemmas show that a turn then ends and uses no freed entry.
\<close>

unbundle bit_operations_syntax

section \<open>Events\<close>

definition pollin :: poll_flags where "pollin = 0x1"
definition pollpri :: poll_flags where "pollpri = 0x2"
definition pollout :: poll_flags where "pollout = 0x4"
definition pollerr :: poll_flags where "pollerr = 0x8"
definition pollhup :: poll_flags where "pollhup = 0x10"
definition pollnval :: poll_flags where "pollnval = 0x20"

definition pr_poll_read :: poll_flags where "pr_poll_read = 0x1"
definition pr_poll_write :: poll_flags where "pr_poll_write = 0x2"
definition pr_poll_except :: poll_flags where "pr_poll_except = 0x4"
definition pr_poll_err :: poll_flags where "pr_poll_err = 0x8"
definition pr_poll_nval :: poll_flags where "pr_poll_nval = 0x10"
definition pr_poll_hup :: poll_flags where "pr_poll_hup = 0x20"

lemmas poll_flag_defs = pollin_def pollpri_def pollout_def pollerr_def pollhup_def pollnval_def
  pr_poll_read_def pr_poll_write_def pr_poll_except_def pr_poll_err_def pr_poll_nval_def pr_poll_hup_def

definition has_flag :: "poll_flags \<Rightarrow> poll_flags \<Rightarrow> bool" where
  "has_flag events f \<longleftrightarrow> events AND f \<noteq> 0"

definition flag_if :: "bool \<Rightarrow> poll_flags \<Rightarrow> poll_flags" where
  "flag_if b f = (if b then f else 0)"

definition poll_events_to_pr_events :: "poll_flags \<Rightarrow> poll_flags" where
  "poll_events_to_pr_events events =
     flag_if (has_flag events pollin) pr_poll_read OR flag_if (has_flag events pollout) pr_poll_write OR
     flag_if (has_flag events pollpri) pr_poll_except"

definition pr_events_to_poll_events :: "poll_flags \<Rightarrow> poll_flags" where
  "pr_events_to_poll_events events =
     flag_if (has_flag events pr_poll_read) pollin OR flag_if (has_flag events pr_poll_write) pollout OR
     flag_if (has_flag events pr_poll_err) pollerr OR flag_if (has_flag events pr_poll_nval) pollnval OR
     flag_if (has_flag events pr_poll_hup) pollhup OR flag_if (has_flag events pr_poll_except) pollpri"

definition bad_events :: "poll_flags \<Rightarrow> bool" where
  "bad_events events \<longleftrightarrow> events AND NOT (pollin OR pollout OR pollpri) \<noteq> 0"

section \<open>The state of the loop\<close>

type_synonym entry_ref = nat

text \<open>
  Callbacks are named by values of type \<open>'c\<close>, and \<open>'u\<close> is the type of the two user data pointers of an
  entry. Descriptors are numbers, NSPR descriptors are pointers.
\<close>

record ('c, 'u) poll_loop_fd_entry =
  fe_fd :: int
  fe_prfd :: prfd
  fe_events :: poll_flags
  fe_fd_set_events_cb :: "'c option"
  fe_prfd_set_events_cb :: "'c option"
  fe_fd_read_cb :: "'c option"
  fe_prfd_read_cb :: "'c option"
  fe_fd_write_cb :: "'c option"
  fe_prfd_write_cb :: "'c option"
  fe_fd_err_cb :: "'c option"
  fe_prfd_err_cb :: "'c option"
  fe_user_data :: 'u

record ('c, 'u) poll_loop_pre_poll_cb_entry =
  pe_pre_poll_cb :: "'c option"
  pe_user_data :: 'u

record ('c, 'u) pr_poll_loop =
  pl_fd_list :: "(entry_ref \<times> ('c, 'u) poll_loop_fd_entry) list"
  pl_pre_poll_cb_list :: "(entry_ref \<times> ('c, 'u) poll_loop_pre_poll_cb_entry) list"
  pl_poll_array :: "entry_ref pr_poll_array"
  pl_tlist :: timer_list
  pl_next_ref :: entry_ref

definition pr_poll_loop_init :: "('c, 'u) pr_poll_loop" where
  "pr_poll_loop_init =
     \<lparr>pl_fd_list = [], pl_pre_poll_cb_list = [], pl_poll_array = pr_poll_array_init,
      pl_tlist = timer_list_init, pl_next_ref = 0\<rparr>"

definition pr_poll_loop_get_timer_list :: "('c, 'u) pr_poll_loop \<Rightarrow> timer_list" where
  "pr_poll_loop_get_timer_list pl = pl_tlist pl"

definition one_handle :: "int \<Rightarrow> prfd option \<Rightarrow> bool" where
  "one_handle fd prfd \<longleftrightarrow> prfd \<noteq> None \<and> fd = -1 \<or> fd \<noteq> -1 \<and> prfd = None"

definition entry_is :: "int \<Rightarrow> prfd option \<Rightarrow> ('c, 'u) poll_loop_fd_entry \<Rightarrow> bool" where
  "entry_is fd prfd e \<longleftrightarrow> (if fd \<noteq> -1 then fe_fd e = fd else Some (fe_prfd e) = prfd)"

definition pr_poll_loop_find_by_fd ::
    "('c, 'u) pr_poll_loop \<Rightarrow> int \<Rightarrow> prfd option \<Rightarrow> fault + (entry_ref \<times> ('c, 'u) poll_loop_fd_entry) option" where
  "pr_poll_loop_find_by_fd pl fd prfd =
     (if \<not> one_handle fd prfd then Inl Assert_Failure
      else Inr (find (\<lambda>(r, e). entry_is fd prfd e) (pl_fd_list pl)))"

definition pr_poll_loop_find_pre_poll_cb ::
    "('c, 'u) pr_poll_loop \<Rightarrow> 'c option \<Rightarrow> (entry_ref \<times> ('c, 'u) poll_loop_pre_poll_cb_entry) option" where
  "pr_poll_loop_find_pre_poll_cb pl cb = find (\<lambda>(r, e). pe_pre_poll_cb e = cb) (pl_pre_poll_cb_list pl)"

text \<open>
  The four callbacks of \<open>pr_poll_loop_add_fd_int\<close> come in pairs, one for plain and one for NSPR descriptors.
  \<open>mkfd\<close> says whether
  \<open>PR_CreateSocketPollFd\<close> succeeds.
\<close>

record 'c fd_callbacks =
  fc_set_events :: "'c option"
  fc_read :: "'c option"
  fc_write :: "'c option"
  fc_err :: "'c option"

definition no_callbacks :: "'c fd_callbacks" where
  "no_callbacks = \<lparr>fc_set_events = None, fc_read = None, fc_write = None, fc_err = None\<rparr>"

definition new_fd_entry ::
    "int \<Rightarrow> prfd \<Rightarrow> poll_flags \<Rightarrow> 'c fd_callbacks \<Rightarrow> 'c fd_callbacks \<Rightarrow> 'u \<Rightarrow> ('c, 'u) poll_loop_fd_entry" where
  "new_fd_entry fd prfd events fcb pcb ud =
     \<lparr>fe_fd = fd, fe_prfd = prfd, fe_events = events,
      fe_fd_set_events_cb = fc_set_events fcb, fe_prfd_set_events_cb = fc_set_events pcb,
      fe_fd_read_cb = fc_read fcb, fe_prfd_read_cb = fc_read pcb,
      fe_fd_write_cb = fc_write fcb, fe_prfd_write_cb = fc_write pcb,
      fe_fd_err_cb = fc_err fcb, fe_prfd_err_cb = fc_err pcb, fe_user_data = ud\<rparr>"

definition pr_poll_loop_add_fd_int ::
    "allocator \<Rightarrow> (int \<Rightarrow> bool) \<Rightarrow> ('c, 'u) pr_poll_loop \<Rightarrow> int \<Rightarrow> prfd option \<Rightarrow> poll_flags \<Rightarrow>
     'c fd_callbacks \<Rightarrow> 'c fd_callbacks \<Rightarrow> 'u \<Rightarrow> fault + (int \<times> ('c, 'u) pr_poll_loop)" where
  "pr_poll_loop_add_fd_int al mkfd pl fd prfd events fcb pcb ud =
     (if \<not> one_handle fd prfd then Inl Assert_Failure
      else if bad_events events then Inr (-1, pl)
      else bindE (pr_poll_loop_find_by_fd pl fd prfd) (\<lambda>found.
        if found \<noteq> None then Inr (-1, pl)
        else if \<not> al Malloc_Poll_Loop_Entry then Inr (-1, pl)
        else case (if fd \<noteq> -1 then (if mkfd fd then Some (Poll_Prfd fd) else None) else prfd) of
               None \<Rightarrow> Inr (-1, pl)
             | Some p \<Rightarrow>
                 Inr (0, pl\<lparr>pl_fd_list := pl_fd_list pl @ [(pl_next_ref pl, new_fd_entry fd p events fcb pcb ud)],
                        pl_next_ref := pl_next_ref pl + 1\<rparr>)))"

definition pr_poll_loop_add_fd ::
    "allocator \<Rightarrow> (int \<Rightarrow> bool) \<Rightarrow> ('c, 'u) pr_poll_loop \<Rightarrow> int \<Rightarrow> poll_flags \<Rightarrow> 'c fd_callbacks \<Rightarrow> 'u \<Rightarrow>
     fault + (int \<times> ('c, 'u) pr_poll_loop)" where
  "pr_poll_loop_add_fd al mkfd pl fd events cbs ud =
     pr_poll_loop_add_fd_int al mkfd pl fd None events cbs no_callbacks ud"

definition pr_poll_loop_add_prfd ::
    "allocator \<Rightarrow> (int \<Rightarrow> bool) \<Rightarrow> ('c, 'u) pr_poll_loop \<Rightarrow> prfd \<Rightarrow> poll_flags \<Rightarrow> 'c fd_callbacks \<Rightarrow> 'u \<Rightarrow>
     fault + (int \<times> ('c, 'u) pr_poll_loop)" where
  "pr_poll_loop_add_prfd al mkfd pl prfd events cbs ud =
     pr_poll_loop_add_fd_int al mkfd pl (-1) (Some prfd) events no_callbacks cbs ud"

definition pr_poll_loop_del_fd_int ::
    "('c, 'u) pr_poll_loop \<Rightarrow> int \<Rightarrow> prfd option \<Rightarrow> fault + (int \<times> ('c, 'u) pr_poll_loop)" where
  "pr_poll_loop_del_fd_int pl fd prfd =
     bindE (pr_poll_loop_find_by_fd pl fd prfd) (\<lambda>found.
       case found of
         None \<Rightarrow> Inr (-1, pl)
       | Some (r, e) \<Rightarrow> Inr (0, pl\<lparr>pl_fd_list := filter (\<lambda>x. fst x \<noteq> r) (pl_fd_list pl)\<rparr>))"

definition pr_poll_loop_del_fd :: "('c, 'u) pr_poll_loop \<Rightarrow> int \<Rightarrow> fault + (int \<times> ('c, 'u) pr_poll_loop)" where
  "pr_poll_loop_del_fd pl fd = pr_poll_loop_del_fd_int pl fd None"

definition pr_poll_loop_del_prfd :: "('c, 'u) pr_poll_loop \<Rightarrow> prfd \<Rightarrow> fault + (int \<times> ('c, 'u) pr_poll_loop)" where
  "pr_poll_loop_del_prfd pl prfd = pr_poll_loop_del_fd_int pl (-1) (Some prfd)"

definition pr_poll_loop_add_pre_poll_cb ::
    "allocator \<Rightarrow> ('c, 'u) pr_poll_loop \<Rightarrow> 'c option \<Rightarrow> 'u \<Rightarrow> int \<times> ('c, 'u) pr_poll_loop" where
  "pr_poll_loop_add_pre_poll_cb al pl cb ud =
     (if pr_poll_loop_find_pre_poll_cb pl cb \<noteq> None then (-1, pl)
      else if \<not> al Malloc_Poll_Loop_Entry then (-1, pl)
      else (0, pl\<lparr>pl_pre_poll_cb_list := pl_pre_poll_cb_list pl @
                    [(pl_next_ref pl, \<lparr>pe_pre_poll_cb = cb, pe_user_data = ud\<rparr>)],
                  pl_next_ref := pl_next_ref pl + 1\<rparr>))"

definition pr_poll_loop_del_pre_poll_cb ::
    "('c, 'u) pr_poll_loop \<Rightarrow> 'c option \<Rightarrow> int \<times> ('c, 'u) pr_poll_loop" where
  "pr_poll_loop_del_pre_poll_cb pl cb =
     (case pr_poll_loop_find_pre_poll_cb pl cb of
        None \<Rightarrow> (-1, pl)
      | Some (r, e) \<Rightarrow> (0, pl\<lparr>pl_pre_poll_cb_list := filter (\<lambda>x. fst x \<noteq> r) (pl_pre_poll_cb_list pl)\<rparr>))"

definition pr_poll_loop_destroy :: "('c, 'u) pr_poll_loop \<Rightarrow> int \<times> ('c, 'u) pr_poll_loop" where
  "pr_poll_loop_destroy pl =
     (0, pl\<lparr>pl_fd_list := [], pl_pre_poll_cb_list := [],
            pl_poll_array := pr_poll_array_destroy (pl_poll_array pl),
            pl_tlist := timer_list_free (pl_tlist pl)\<rparr>)"

section \<open>One turn\<close>

text \<open>
  A callback works on the loop and on the state \<open>'w\<close> of the program. Its own faults are told apart from those
  of the loop.
\<close>

datatype loop_fault =
    In_Loop fault
  | In_Callback fault
  | In_Timers fault

type_synonym ('c, 'u, 'w) poll_state = "('c, 'u) pr_poll_loop \<times> 'w"

datatype poll_handle =
    Fd int
  | Prfd prfd

text \<open>
  The callbacks and what the loop learns from outside: \<open>pv_poll\<close> is \<open>PR_Poll\<close>, which returns a number and the
  \<open>out_flags\<close> of the descriptors, \<open>pv_now\<close> the clock, \<open>pv_ms\<close> the conversion from milliseconds. The
  callbacks for plain descriptors do not get the flags.
\<close>

record ('c, 'u, 'w) poll_env =
  pv_alloc :: allocator
  pv_pre_poll :: "'c \<Rightarrow> 'u \<Rightarrow> ('c, 'u, 'w) poll_state \<Rightarrow> fault + (int \<times> ('c, 'u, 'w) poll_state)"
  pv_set_events :: "'c \<Rightarrow> poll_handle \<Rightarrow> poll_flags \<Rightarrow> 'u \<Rightarrow> ('c, 'u, 'w) poll_state \<Rightarrow>
    fault + (int \<times> poll_flags \<times> ('c, 'u, 'w) poll_state)"
  pv_read :: "'c \<Rightarrow> poll_handle \<Rightarrow> 'u \<Rightarrow> ('c, 'u, 'w) poll_state \<Rightarrow> fault + (int \<times> ('c, 'u, 'w) poll_state)"
  pv_write :: "'c \<Rightarrow> poll_handle \<Rightarrow> 'u \<Rightarrow> ('c, 'u, 'w) poll_state \<Rightarrow> fault + (int \<times> ('c, 'u, 'w) poll_state)"
  pv_err :: "'c \<Rightarrow> poll_handle \<Rightarrow> poll_flags \<Rightarrow> 'u \<Rightarrow> ('c, 'u, 'w) poll_state \<Rightarrow>
    fault + (int \<times> ('c, 'u, 'w) poll_state)"
  pv_timer :: "timer_ref \<Rightarrow> ('c, 'u, 'w) poll_state \<Rightarrow> fault + (int \<times> ('c, 'u, 'w) poll_state)"
  pv_poll :: "poll_desc list \<Rightarrow> u32 \<Rightarrow> 'w \<Rightarrow> int \<times> poll_flags list"
  pv_ms :: "u32 \<Rightarrow> u32"
  pv_now :: u32

definition in_callback :: "fault + 'a \<Rightarrow> loop_fault + 'a" where
  "in_callback m = (case m of Inl f \<Rightarrow> Inl (In_Callback f) | Inr x \<Rightarrow> Inr x)"

text \<open>The element behind an entry, \<open>TAILQ_NEXT\<close>.\<close>

fun tailq_next :: "'k \<Rightarrow> ('k \<times> 'v) list \<Rightarrow> 'k option" where
  "tailq_next r [] = None"
| "tailq_next r ((k, v) # xs) = (if k = r then map_option fst (case xs of [] \<Rightarrow> None | x # _ \<Rightarrow> Some x) else tailq_next r xs)"

definition tailq_first :: "('k \<times> 'v) list \<Rightarrow> 'k option" where
  "tailq_first xs = (case xs of [] \<Rightarrow> None | x # _ \<Rightarrow> Some (fst x))"

definition call_pre_poll ::
    "('c, 'u, 'w) poll_env \<Rightarrow> ('c, 'u) poll_loop_pre_poll_cb_entry \<Rightarrow> ('c, 'u, 'w) poll_state \<Rightarrow>
     loop_fault + (int \<times> ('c, 'u, 'w) poll_state)" where
  "call_pre_poll env e st =
     (case pe_pre_poll_cb e of
        Some c \<Rightarrow> in_callback (pv_pre_poll env c (pe_user_data e) st)
      | None \<Rightarrow> Inr (0, st))"

partial_function (option) pre_poll_walk ::
    "('c, 'u, 'w) poll_env \<Rightarrow> entry_ref option \<Rightarrow> ('c, 'u, 'w) poll_state \<Rightarrow>
     (loop_fault + (int \<times> ('c, 'u, 'w) poll_state)) option" where
  "pre_poll_walk env entry st =
     (case entry of
        None \<Rightarrow> Some (Inr (0, st))
      | Some r \<Rightarrow>
          (case map_of (pl_pre_poll_cb_list (fst st)) r of
             None \<Rightarrow> Some (Inl (In_Loop Use_After_Free))
           | Some e \<Rightarrow>
               let entry_next = tailq_next r (pl_pre_poll_cb_list (fst st))
               in (case call_pre_poll env e st of
                     Inl f \<Rightarrow> Some (Inl f)
                   | Inr (res, st') \<Rightarrow>
                       if res = 0 then pre_poll_walk env entry_next st'
                       else if res = -1 then Some (Inr (-1, st')) else Some (Inr (-2, st')))))"

definition call_set_events ::
    "('c, 'u, 'w) poll_env \<Rightarrow> ('c, 'u) poll_loop_fd_entry \<Rightarrow> ('c, 'u, 'w) poll_state \<Rightarrow>
     loop_fault + (int \<times> poll_flags \<times> ('c, 'u, 'w) poll_state)" where
  "call_set_events env e st =
     (case fe_fd_set_events_cb e of
        Some c \<Rightarrow> in_callback (pv_set_events env c (Fd (fe_fd e)) (fe_events e) (fe_user_data e) st)
      | None \<Rightarrow>
          (case fe_prfd_set_events_cb e of
             Some c \<Rightarrow> in_callback (pv_set_events env c (Prfd (fe_prfd e)) (fe_events e) (fe_user_data e) st)
           | None \<Rightarrow> Inr (0, fe_events e, st)))"

definition with_array ::
    "(entry_ref pr_poll_array \<Rightarrow> entry_ref pr_poll_array) \<Rightarrow> ('c, 'u, 'w) poll_state \<Rightarrow> ('c, 'u, 'w) poll_state" where
  "with_array f st = ((fst st)\<lparr>pl_poll_array := f (pl_poll_array (fst st))\<rparr>, snd st)"

text \<open>Adding the descriptor of an entry; the entry is read again, after its callback.\<close>

definition add_to_array ::
    "('c, 'u, 'w) poll_env \<Rightarrow> entry_ref \<Rightarrow> poll_flags \<Rightarrow> ('c, 'u, 'w) poll_state \<Rightarrow>
     loop_fault + (int \<times> ('c, 'u, 'w) poll_state)" where
  "add_to_array env r events st =
     (case pr_poll_array_add (pv_alloc env) (pl_poll_array (fst st)) of
        Inl f \<Rightarrow> Inl (In_Loop f)
      | Inr (k, pa) \<Rightarrow>
          if k < 0 then Inr (-1, with_array (\<lambda>_. pa) st)
          else (case map_of (pl_fd_list (fst st)) r of
                  None \<Rightarrow> Inl (In_Loop Use_After_Free)
                | Some e \<Rightarrow>
                    Inr (0, with_array (\<lambda>_. poll_array_set
                              \<lparr>pd_fd = Some (fe_prfd e), pd_in_flags = poll_events_to_pr_events events\<rparr> r pa) st)))"

partial_function (option) fill_walk ::
    "('c, 'u, 'w) poll_env \<Rightarrow> entry_ref option \<Rightarrow> ('c, 'u, 'w) poll_state \<Rightarrow>
     (loop_fault + (int \<times> ('c, 'u, 'w) poll_state)) option" where
  "fill_walk env entry st =
     (case entry of
        None \<Rightarrow> Some (Inr (0, st))
      | Some r \<Rightarrow>
          (case map_of (pl_fd_list (fst st)) r of
             None \<Rightarrow> Some (Inl (In_Loop Use_After_Free))
           | Some e \<Rightarrow>
               let fd_entry_next = tailq_next r (pl_fd_list (fst st))
               in (case call_set_events env e st of
                     Inl f \<Rightarrow> Some (Inl f)
                   | Inr (res0, events, st1) \<Rightarrow>
                       if bad_events events then Some (Inr (-2, st1))
                       else let res = (if res0 = 0 \<and> events = 0 then -1 else res0)
                       in if res = 0
                          then (case add_to_array env r events st1 of
                                  Inl f \<Rightarrow> Some (Inl f)
                                | Inr (k, st2) \<Rightarrow>
                                    if k < 0 then Some (Inr (-1, st2)) else fill_walk env fd_entry_next st2)
                          else if res = -1 then fill_walk env fd_entry_next st1
                          else if res = -2 then Some (Inr (-1, st1)) else Some (Inr (-2, st1)))))"

definition prepare_poll_array ::
    "('c, 'u, 'w) poll_env \<Rightarrow> ('c, 'u, 'w) poll_state \<Rightarrow> (loop_fault + (int \<times> ('c, 'u, 'w) poll_state)) option" where
  "prepare_poll_array env st =
     (let st0 = with_array pr_poll_array_clean st
      in case pre_poll_walk env (tailq_first (pl_pre_poll_cb_list (fst st0))) st0 of
           None \<Rightarrow> None
         | Some (Inl f) \<Rightarrow> Some (Inl f)
         | Some (Inr (res, st1)) \<Rightarrow>
             if res \<noteq> 0 then Some (Inr (res, st1))
             else (case fill_walk env (tailq_first (pl_fd_list (fst st1))) st1 of
                     None \<Rightarrow> None
                   | Some (Inl f) \<Rightarrow> Some (Inl f)
                   | Some (Inr (res2, st2)) \<Rightarrow>
                       if res2 \<noteq> 0 then Some (Inr (res2, st2))
                       else Some (Inr (0, with_array (pr_poll_array_gc (pv_alloc env)) st2))))"

text \<open>
  The callbacks of a ready descriptor: read, then write, and the error callback only when neither of the
  two flags is set. The entry is looked at again for each of them.
\<close>

definition call_fd_or_prfd ::
    "'c option \<Rightarrow> 'c option \<Rightarrow> ('c, 'u) poll_loop_fd_entry \<Rightarrow>
     ('c \<Rightarrow> poll_handle \<Rightarrow> 'u \<Rightarrow> ('c, 'u, 'w) poll_state \<Rightarrow> fault + (int \<times> ('c, 'u, 'w) poll_state)) \<Rightarrow>
     ('c, 'u, 'w) poll_state \<Rightarrow> loop_fault + (int \<times> ('c, 'u, 'w) poll_state)" where
  "call_fd_or_prfd fd_cb prfd_cb e run st =
     (case fd_cb of
        Some c \<Rightarrow> in_callback (run c (Fd (fe_fd e)) (fe_user_data e) st)
      | None \<Rightarrow>
          (case prfd_cb of
             Some c \<Rightarrow> in_callback (run c (Prfd (fe_prfd e)) (fe_user_data e) st)
           | None \<Rightarrow> Inr (0, st)))"

definition when_ready ::
    "bool \<Rightarrow> entry_ref \<Rightarrow>
     (('c, 'u) poll_loop_fd_entry \<Rightarrow> ('c, 'u, 'w) poll_state \<Rightarrow> loop_fault + (int \<times> ('c, 'u, 'w) poll_state)) \<Rightarrow>
     ('c, 'u, 'w) poll_state \<Rightarrow> loop_fault + (int \<times> ('c, 'u, 'w) poll_state)" where
  "when_ready b r call st =
     (if \<not> b then Inr (0, st)
      else case map_of (pl_fd_list (fst st)) r of
             None \<Rightarrow> Inl (In_Loop Use_After_Free)
           | Some e \<Rightarrow> call e st)"

definition then_call ::
    "loop_fault + (int \<times> 's) \<Rightarrow> ('s \<Rightarrow> loop_fault + (int \<times> 's)) \<Rightarrow> loop_fault + (int \<times> 's)" where
  "then_call m k = bindE m (\<lambda>(res, st). if res \<noteq> 0 then Inr (-1, st) else k st)"

definition out_err :: "poll_flags \<Rightarrow> bool" where
  "out_err out \<longleftrightarrow> has_flag out (pr_poll_err OR pr_poll_nval OR pr_poll_hup OR pr_poll_except) \<and>
     \<not> has_flag out (pr_poll_read OR pr_poll_write)"

definition dispatch_entry ::
    "('c, 'u, 'w) poll_env \<Rightarrow> entry_ref \<Rightarrow> poll_flags \<Rightarrow> ('c, 'u, 'w) poll_state \<Rightarrow>
     loop_fault + (int \<times> ('c, 'u, 'w) poll_state)" where
  "dispatch_entry env r out st =
     then_call (when_ready (has_flag out pr_poll_read) r
       (\<lambda>e. call_fd_or_prfd (fe_fd_read_cb e) (fe_prfd_read_cb e) e (pv_read env)) st) (\<lambda>st1.
     then_call (when_ready (has_flag out pr_poll_write) r
       (\<lambda>e. call_fd_or_prfd (fe_fd_write_cb e) (fe_prfd_write_cb e) e (pv_write env)) st1) (\<lambda>st2.
     then_call (when_ready (out_err out) r
       (\<lambda>e. call_fd_or_prfd (fe_fd_err_cb e) (fe_prfd_err_cb e) e
              (\<lambda>c h. pv_err env c h (pr_events_to_poll_events out))) st2) (\<lambda>st3.
     Inr (0, st3))))"

text \<open>The poll array does not change after \<open>prepare_poll_array\<close>; its size is read before every step.\<close>

fun dispatch_loop ::
    "('c, 'u, 'w) poll_env \<Rightarrow> nat \<Rightarrow> poll_flags list \<Rightarrow> ('c, 'u, 'w) poll_state \<Rightarrow>
     loop_fault + (int \<times> ('c, 'u, 'w) poll_state)" where
  "dispatch_loop env i [] st = Inr (0, st)"
| "dispatch_loop env i (out # outs) st =
     (case pr_poll_array_get_user_data (pl_poll_array (fst st)) i of
        None \<Rightarrow> Inr (0, st)
      | Some None \<Rightarrow> Inl (In_Loop Null_Deref)
      | Some (Some r) \<Rightarrow> then_call (dispatch_entry env r out st) (dispatch_loop env (i + 1) outs))"

definition run_timers ::
    "('c, 'u, 'w) poll_env \<Rightarrow> ('c, 'u, 'w) poll_state \<Rightarrow> (loop_fault + ('c, 'u, 'w) poll_state) option" where
  "run_timers env st =
     (case timer_list_expire (pv_alloc env) (pv_ms env) (pv_now env)
             (\<lambda>r (pl, w) tlist. bindE (pv_timer env r (pl\<lparr>pl_tlist := tlist\<rparr>, w)) (\<lambda>(res, pl', w').
                Inr (res, (pl', w'), pl_tlist pl'))) st (pl_tlist (fst st)) of
        None \<Rightarrow> None
      | Some (Inl f) \<Rightarrow> Some (Inl (In_Timers f))
      | Some (Inr ((pl, w), tlist)) \<Rightarrow> Some (Inr (pl\<lparr>pl_tlist := tlist\<rparr>, w)))"

definition pr_poll_loop_exec ::
    "('c, 'u, 'w) poll_env \<Rightarrow> ('c, 'u, 'w) poll_state \<Rightarrow> (loop_fault + (int \<times> ('c, 'u, 'w) poll_state)) option" where
  "pr_poll_loop_exec env st =
     (case prepare_poll_array env st of
        None \<Rightarrow> None
      | Some (Inl f) \<Rightarrow> Some (Inl f)
      | Some (Inr (res, st1)) \<Rightarrow>
          if res \<noteq> 0 then Some (Inr (res, st1))
          else (case pv_poll env (pa_array (pl_poll_array (fst st1)))
                       (timer_list_time_to_expire (pv_now env) (pl_tlist (fst st1))) (snd st1) of
                  (poll_res, outs) \<Rightarrow>
                    (case (if poll_res > 0 then dispatch_loop env 0 outs st1 else Inr (0, st1)) of
                       Inl f \<Rightarrow> Some (Inl f)
                     | Inr (cb_res, st2) \<Rightarrow>
                         if cb_res \<noteq> 0 then Some (Inr (-1, st2))
                         else if poll_res = -1 then Some (Inr (-3, st2))
                         else (case run_timers env st2 of
                                 None \<Rightarrow> None
                               | Some (Inl f) \<Rightarrow> Some (Inl f)
                               | Some (Inr st3) \<Rightarrow> Some (Inr (0, st3))))))"

end
