(* ===== verification/Poll_Safe.thy ===== *)
theory Poll_Safe
  imports Poll_Loop
begin

text \<open>
  The contract between the poll loop and its callbacks, and what the loop guarantees under it. A callback
  that runs before the poll leaves the list of such callbacks alone; a callback that is asked for events
  deletes at most its own descriptor, and then does not ask to be polled; a callback of a ready descriptor
  deletes no descriptor. Then every turn ends, no freed list entry is used and no array is overrun.
\<close>

section \<open>Walks over a list\<close>

lemma tailq_first_simps [simp]:
  "tailq_first [] = None"
  "tailq_first (x # xs) = Some (fst x)"
  by (simp_all add: tailq_first_def)

lemma tailq_next_split:
  "distinct (map fst (xs @ (r, e) # ys)) \<Longrightarrow> tailq_next r (xs @ (r, e) # ys) = tailq_first ys"
  by (induction xs) (auto simp: tailq_first_def split: list.split)

lemma map_of_split: "distinct (map fst (xs @ (r, e) # ys)) \<Longrightarrow> map_of (xs @ (r, e) # ys) r = Some e"
  by (rule map_of_is_SomeI) auto

lemma filter_split:
  assumes "distinct (map fst (xs @ (r, e) # ys))"
  shows "filter (\<lambda>x. fst x \<noteq> r) (xs @ (r, e) # ys) = xs @ ys"
proof -
  have "\<forall>x \<in> set xs \<union> set ys. fst x \<noteq> r"
    using assms by (auto simp: image_iff)
  then have "filter (\<lambda>x. fst x \<noteq> r) xs = xs" "filter (\<lambda>x. fst x \<noteq> r) ys = ys"
    by (simp_all add: filter_id_conv)
  then show ?thesis
    by simp
qed

lemma map_of_mem_fst: "r \<in> fst ` set xs \<Longrightarrow> \<exists>e. map_of xs r = Some e \<and> (r, e) \<in> set xs"
  by (metis map_of_SomeD map_of_eq_None_iff not_None_eq)

section \<open>The array and the list\<close>

text \<open>Every slot of the array belongs to one of the given entries.\<close>

definition array_refs :: "entry_ref set \<Rightarrow> ('c, 'u, 'w) poll_state \<Rightarrow> bool" where
  "array_refs R st \<longleftrightarrow>
     poll_array_inv (pl_poll_array (fst st)) \<and> set (pa_user_data (pl_poll_array (fst st))) \<subseteq> Some ` R"

abbreviation refs_of :: "('c, 'u, 'w) poll_state \<Rightarrow> entry_ref set" where
  "refs_of st \<equiv> fst ` set (pl_fd_list (fst st))"

definition same_array :: "('c, 'u, 'w) poll_state \<Rightarrow> ('c, 'u, 'w) poll_state \<Rightarrow> bool" where
  "same_array st st' \<longleftrightarrow> pl_poll_array (fst st') = pl_poll_array (fst st)"

lemma array_refs_same: "same_array st st' \<Longrightarrow> array_refs R st' \<longleftrightarrow> array_refs R st"
  by (simp add: array_refs_def same_array_def)

lemma array_refs_mono: "array_refs R st \<Longrightarrow> R \<subseteq> S \<Longrightarrow> array_refs S st"
  unfolding array_refs_def by blast

lemma with_array_simps [simp]:
  "snd (with_array f st) = snd st"
  "pl_fd_list (fst (with_array f st)) = pl_fd_list (fst st)"
  "pl_pre_poll_cb_list (fst (with_array f st)) = pl_pre_poll_cb_list (fst st)"
  "pl_poll_array (fst (with_array f st)) = f (pl_poll_array (fst st))"
  by (simp_all add: with_array_def)

definition slot :: "entry_ref \<Rightarrow> poll_desc \<Rightarrow> ('c, 'u, 'w) poll_state \<Rightarrow> bool" where
  "slot r d st \<longleftrightarrow> (d, Some r) \<in> set (zip (pa_array (pl_poll_array (fst st))) (pa_user_data (pl_poll_array (fst st))))"

lemma slot_same: "same_array st st' \<Longrightarrow> slot r d st' \<longleftrightarrow> slot r d st"
  by (simp add: slot_def same_array_def)

lemma add_to_array_ok:
  assumes arr: "array_refs R st" and e: "map_of (pl_fd_list (fst st)) r = Some e"
  shows "\<exists>k a. add_to_array env r events st = Inr (k, with_array (\<lambda>_. a) st) \<and>
    (k \<ge> 0 \<longrightarrow> array_refs (insert r R) (with_array (\<lambda>_. a) st) \<and>
       slot r \<lparr>pd_fd = Some (fe_prfd e), pd_in_flags = poll_events_to_pr_events events\<rparr> (with_array (\<lambda>_. a) st) \<and>
       (\<forall>r' d. slot r' d st \<longrightarrow> slot r' d (with_array (\<lambda>_. a) st)))"
proof -
  let ?pa = "pl_poll_array (fst st)"
  let ?d = "\<lparr>pd_fd = Some (fe_prfd e), pd_in_flags = poll_events_to_pr_events events\<rparr>"
  have inv: "poll_array_inv ?pa" using arr by (simp add: array_refs_def)
  then have len: "length (pa_user_data ?pa) = length (pa_array ?pa)" by (simp add: poll_array_inv_def)
  obtain k pa where add: "pr_poll_array_add (pv_alloc env) ?pa = Inr (k, pa)" and
    cases: "k = -1 \<or> k \<ge> 0 \<and> poll_array_inv pa \<and> pa_array pa = pa_array ?pa @ [\<lparr>pd_fd = None, pd_in_flags = 0\<rparr>] \<and>
      pa_user_data pa = pa_user_data ?pa @ [None]"
    using poll_array_add_safe [OF inv, of "pv_alloc env"] by auto
  show ?thesis
  proof (cases "k < 0")
    case True
    then show ?thesis using add by (auto simp: add_to_array_def)
  next
    case False
    then have ok: "poll_array_inv pa" "pa_array pa = pa_array ?pa @ [\<lparr>pd_fd = None, pd_in_flags = 0\<rparr>]"
      "pa_user_data pa = pa_user_data ?pa @ [None]" using cases by auto
    let ?a = "poll_array_set ?d r pa"
    have inv': "poll_array_inv ?a" by (rule poll_array_inv_set [OF ok(1)]) (simp add: ok(2))
    have fields: "pa_array ?a = pa_array ?pa @ [?d]" "pa_user_data ?a = pa_user_data ?pa @ [Some r]"
      by (simp_all add: poll_array_set_def ok)
    have "add_to_array env r events st = Inr (0, with_array (\<lambda>_. ?a) st)"
      using add e False by (simp add: add_to_array_def)
    moreover have "array_refs (insert r R) (with_array (\<lambda>_. ?a) st)"
      using arr inv' fields by (auto simp: array_refs_def)
    ultimately show ?thesis
      using fields len by (auto simp: slot_def)
  qed
qed

section \<open>The contract\<close>

text \<open>A fault, if there is one, is not the loop's, and otherwise the result is as given.\<close>

definition loop_safe :: "('a \<Rightarrow> bool) \<Rightarrow> loop_fault + 'a \<Rightarrow> bool" where
  "loop_safe P m = (case m of Inl f \<Rightarrow> (\<exists>g. f = In_Callback g \<or> f = In_Timers g) | Inr x \<Rightarrow> P x)"

lemma loop_safe_simps [simp]:
  "loop_safe P (Inr x) \<longleftrightarrow> P x"
  "loop_safe P (Inl (In_Callback g))"
  "loop_safe P (Inl (In_Timers g))"
  "\<not> loop_safe P (Inl (In_Loop g))"
  by (simp_all add: loop_safe_def)

lemma loop_safe_in_callback: "(\<And>x. m = Inr x \<Longrightarrow> P x) \<Longrightarrow> loop_safe P (in_callback m)"
  by (cases m) (simp_all add: in_callback_def)

lemma loop_safe_mono: "loop_safe P m \<Longrightarrow> (\<And>x. P x \<Longrightarrow> Q x) \<Longrightarrow> loop_safe Q m"
  by (cases m) (auto simp: loop_safe_def)

lemma loop_safe_then_call:
  assumes "loop_safe (\<lambda>(res, st). P st) m" and "\<And>st. P st \<Longrightarrow> loop_safe (\<lambda>(res, st). P st) (k st)"
  shows "loop_safe (\<lambda>(res, st). P st) (then_call m k)"
  using assms by (cases m) (auto simp: then_call_def loop_safe_def split: if_splits)

text \<open>The three callbacks of a ready descriptor.\<close>

definition ready_call ::
    "('c, 'u, 'w) poll_env \<Rightarrow> ('c, 'u) poll_loop_fd_entry \<Rightarrow> ('c, 'u, 'w) poll_state \<Rightarrow>
     loop_fault + (int \<times> ('c, 'u, 'w) poll_state) \<Rightarrow> bool" where
  "ready_call env e st m \<longleftrightarrow>
     m = call_fd_or_prfd (fe_fd_read_cb e) (fe_prfd_read_cb e) e (pv_read env) st \<or>
     m = call_fd_or_prfd (fe_fd_write_cb e) (fe_prfd_write_cb e) e (pv_write env) st \<or>
     (\<exists>ev. m = call_fd_or_prfd (fe_fd_err_cb e) (fe_prfd_err_cb e) e (\<lambda>c h. pv_err env c h ev) st)"

lemma call_fd_or_prfd_faults: "call_fd_or_prfd a b e run st = Inl f \<Longrightarrow> \<exists>g. f = In_Callback g"
  by (auto simp: call_fd_or_prfd_def in_callback_def split: option.splits sum.splits)

lemma ready_call_faults: "ready_call env e st (Inl f) \<Longrightarrow> \<exists>g. f = In_Callback g"
  unfolding ready_call_def using call_fd_or_prfd_faults by metis

lemma call_set_events_faults: "call_set_events env e st = Inl f \<Longrightarrow> \<exists>g. f = In_Callback g"
  by (auto simp: call_set_events_def in_callback_def split: option.splits sum.splits)

lemma call_pre_poll_faults: "call_pre_poll env e st = Inl f \<Longrightarrow> \<exists>g. f = In_Callback g"
  by (auto simp: call_pre_poll_def in_callback_def split: option.splits sum.splits)

text \<open>Entries may be added behind the others, but none disappears.\<close>

locale poll_contract =
  fixes env :: "('c, 'u, 'w) poll_env" and inv :: "('c, 'u, 'w) poll_state \<Rightarrow> bool"
  assumes inv_distinct: "inv st \<Longrightarrow>
      distinct (map fst (pl_fd_list (fst st))) \<and> distinct (map fst (pl_pre_poll_cb_list (fst st)))"
    and inv_with_array: "inv st \<Longrightarrow> inv (with_array f st)"
    and pre_poll_law: "inv st \<Longrightarrow> (r, p) \<in> set (pl_pre_poll_cb_list (fst st)) \<Longrightarrow>
      call_pre_poll env p st = Inr (res, st') \<Longrightarrow>
      inv st' \<and> same_array st st' \<and> pl_pre_poll_cb_list (fst st') = pl_pre_poll_cb_list (fst st)"
    and set_events_law: "inv st \<Longrightarrow> (r, e) \<in> set (pl_fd_list (fst st)) \<Longrightarrow>
      call_set_events env e st = Inr (res, events, st') \<Longrightarrow>
      inv st' \<and> same_array st st' \<and>
      (pl_fd_list (fst st') = pl_fd_list (fst st) \<or>
       res \<noteq> 0 \<and> pl_fd_list (fst st') = filter (\<lambda>x. fst x \<noteq> r) (pl_fd_list (fst st)))"
    and ready_law: "inv st \<Longrightarrow> (r, e) \<in> set (pl_fd_list (fst st)) \<Longrightarrow> ready_call env e st (Inr (res, st')) \<Longrightarrow>
      inv st' \<and> same_array st st' \<and> refs_of st \<subseteq> refs_of st'"
    and timer_law: "inv st \<Longrightarrow> poll_array_inv (pl_poll_array (fst st)) \<Longrightarrow>
      \<exists>m. run_timers env st = Some m \<and>
        (\<forall>st'. m = Inr st' \<longrightarrow> inv st' \<and> poll_array_inv (pl_poll_array (fst st')))"
begin

lemma pre_poll_walk_safe:
  assumes "inv st" and "pl_pre_poll_cb_list (fst st) = xs @ ys" and "array_refs {} st"
  shows "\<exists>m. pre_poll_walk env (tailq_first ys) st = Some m \<and>
    loop_safe (\<lambda>(res, st'). inv st' \<and> array_refs {} st') m"
  using assms
proof (induction ys arbitrary: xs st)
  case Nil
  then show ?case by (subst pre_poll_walk.simps) simp
next
  case (Cons y ys)
  obtain r p where y: "y = (r, p)" by fastforce
  have dist: "distinct (map fst (xs @ (r, p) # ys))"
    using inv_distinct [OF Cons.prems(1)] Cons.prems(2) y by simp
  note at = map_of_split [OF dist] tailq_next_split [OF dist]
  have list: "pl_pre_poll_cb_list (fst st) = xs @ (r, p) # ys" using Cons.prems(2) y by simp
  show ?case
  proof (cases "call_pre_poll env p st")
    case (Inl f)
    then have "pre_poll_walk env (tailq_first (y # ys)) st = Some (Inl f)"
      using at by (subst pre_poll_walk.simps) (simp add: y list)
    then show ?thesis using call_pre_poll_faults [OF Inl] by auto
  next
    case (Inr q)
    obtain res st' where q: "q = (res, st')" by (cases q)
    have law: "inv st'" "same_array st st'" "pl_pre_poll_cb_list (fst st') = (xs @ [y]) @ ys"
      using pre_poll_law [of st r p res st'] Cons.prems(1) list Inr q y by simp_all
    have arr: "array_refs {} st'" using array_refs_same [OF law(2)] Cons.prems(3) by blast
    have step: "pre_poll_walk env (tailq_first (y # ys)) st =
        (if res = 0 then pre_poll_walk env (tailq_first ys) st'
         else if res = -1 then Some (Inr (-1, st')) else Some (Inr (-2, st')))"
      using at Inr q by (subst pre_poll_walk.simps) (simp add: y list)
    show ?thesis
      using Cons.IH [OF law(1) law(3) arr] law(1) arr
      by (simp add: step [unfolded tailq_first_simps])
  qed
qed

text \<open>One step of the second walk: it stops with an error, or goes on behind the entry.\<close>

lemma fill_walk_step:
  assumes st: "inv st" and list: "pl_fd_list (fst st) = xs @ (r, e) # ys" and arr: "array_refs (fst ` set xs) st"
    and call: "call_set_events env e st = Inr (res0, events, st1)"
  shows "(\<exists>res st2. fill_walk env (Some r) st = Some (Inr (res, st2)) \<and> res \<noteq> 0 \<and> inv st2 \<and>
      (res = -1 \<or> bad_events events \<or> res0 \<notin> {0, -1, -2}) \<and> (\<exists>f. st2 = with_array f st1)) \<or>
    (\<exists>xs' f. let st2 = with_array f st1 in
       fill_walk env (Some r) st = fill_walk env (tailq_first ys) st2 \<and> inv st2 \<and>
       pl_fd_list (fst st2) = xs' @ ys \<and> array_refs (fst ` set xs') st2 \<and>
       (\<forall>r' d. slot r' d st \<longrightarrow> slot r' d st2) \<and> res0 \<in> {0, -1} \<and>
       (res0 = 0 \<and> events \<noteq> 0 \<longrightarrow>
          slot r \<lparr>pd_fd = Some (fe_prfd e), pd_in_flags = poll_events_to_pr_events events\<rparr> st2))"
proof -
  have dist: "distinct (map fst (xs @ (r, e) # ys))" using inv_distinct [OF st] list by simp
  note at = map_of_split [OF dist] tailq_next_split [OF dist]
  define res where "res = (if res0 = 0 \<and> events = 0 then -1 else res0)"
  have law: "inv st1" "same_array st st1" "pl_fd_list (fst st1) = xs @ (r, e) # ys \<or>
      res0 \<noteq> 0 \<and> pl_fd_list (fst st1) = xs @ ys"
    using set_events_law [of st r e res0 events st1] st list call filter_split [OF dist] by auto
  have arr1: "array_refs (fst ` set xs) st1" using array_refs_same [OF law(2)] arr by blast
  have step: "fill_walk env (Some r) st =
      (if bad_events events then Some (Inr (-2, st1))
       else if res = 0
       then (case add_to_array env r events st1 of
               Inl f \<Rightarrow> Some (Inl f)
             | Inr (k, st2) \<Rightarrow> if k < 0 then Some (Inr (-1, st2)) else fill_walk env (tailq_first ys) st2)
       else if res = -1 then fill_walk env (tailq_first ys) st1
       else if res = -2 then Some (Inr (-1, st1)) else Some (Inr (-2, st1)))"
    using at call by (simp add: fill_walk.simps [of env "Some r" st] list res_def Let_def)
  have id: "with_array (\<lambda>a. a) st1 = st1" by (simp add: with_array_def)
  consider (stop) "bad_events events \<or> res \<noteq> 0 \<and> res \<noteq> -1" | (skip) "\<not> bad_events events" "res = -1"
    | (add) "\<not> bad_events events" "res = 0" by blast
  then show ?thesis
  proof cases
    case stop
    then have "fill_walk env (Some r) st = Some (Inr (if \<not> bad_events events \<and> res = -2 then -1 else -2, st1))"
      using step by auto
    moreover have "(if \<not> bad_events events \<and> res = -2 then -1 else -2 :: int) \<noteq> 0" by simp
    moreover have "(if \<not> bad_events events \<and> res = -2 then -1 else -2 :: int) = -1 \<or> bad_events events \<or>
        res0 \<notin> {0, -1, -2}" using stop by (auto simp: res_def split: if_splits)
    moreover have "\<exists>f. st1 = with_array f st1" using id [symmetric] by blast
    ultimately show ?thesis using law(1) by blast
  next
    case skip
    obtain xs' where xs': "pl_fd_list (fst st1) = xs' @ ys" "fst ` set xs \<subseteq> fst ` set xs'"
      using law(3) by (metis append.assoc append_Cons append_Nil image_mono set_append subset_refl sup_ge1)
    have "array_refs (fst ` set xs') st1" using arr1 xs'(2) by (rule array_refs_mono)
    moreover have "\<not> (res0 = 0 \<and> events \<noteq> 0)" "res0 \<in> {0, -1}" using skip(2) by (auto simp: res_def split: if_splits)
    moreover have "fill_walk env (Some r) st = fill_walk env (tailq_first ys) st1" using skip step by simp
    ultimately show ?thesis
      unfolding Let_def
      by (intro disjI2 exI [of _ xs'] exI [of _ "\<lambda>a. a"], unfold id) (use law(1) xs'(1) slot_same [OF law(2)] in blast)
  next
    case add
    then have res0: "res0 = 0" by (simp add: res_def split: if_splits)
    then have l: "pl_fd_list (fst st1) = xs @ (r, e) # ys" using law(3) by simp
    then have "map_of (pl_fd_list (fst st1)) r = Some e" using at by simp
    from add_to_array_ok [OF arr1 this, of env events] obtain k a where
      k: "add_to_array env r events st1 = Inr (k, with_array (\<lambda>_. a) st1)"
      "k \<ge> 0 \<Longrightarrow> array_refs (insert r (fst ` set xs)) (with_array (\<lambda>_. a) st1)"
      "k \<ge> 0 \<Longrightarrow> slot r \<lparr>pd_fd = Some (fe_prfd e), pd_in_flags = poll_events_to_pr_events events\<rparr> (with_array (\<lambda>_. a) st1)"
      "\<And>r' d. k \<ge> 0 \<Longrightarrow> slot r' d st1 \<Longrightarrow> slot r' d (with_array (\<lambda>_. a) st1)" by blast
    have i2: "inv (with_array (\<lambda>_. a) st1)" by (rule inv_with_array [OF law(1)])
    show ?thesis
    proof (cases "k < 0")
      case True
      then have "fill_walk env (Some r) st = Some (Inr (-1, with_array (\<lambda>_. a) st1))" using add step k(1) by simp
      moreover have "(-1 :: int) \<noteq> 0" by simp
      ultimately show ?thesis using i2 by blast
    next
      case False
      have "pl_fd_list (fst (with_array (\<lambda>_. a) st1)) = (xs @ [(r, e)]) @ ys"
        "array_refs (fst ` set (xs @ [(r, e)])) (with_array (\<lambda>_. a) st1)"
        using l k(2) False by simp_all
      moreover have "fill_walk env (Some r) st = fill_walk env (tailq_first ys) (with_array (\<lambda>_. a) st1)"
        using add step k(1) False by simp
      moreover have "k \<ge> 0" using False by simp
      ultimately show ?thesis
        unfolding Let_def
        by (intro disjI2 exI [of _ "xs @ [(r, e)]"] exI [of _ "\<lambda>_. a"])
           (use i2 k(3,4) slot_same [OF law(2)] res0 in blast)
    qed
  qed
qed

lemma fill_walk_safe:
  assumes "inv st" and "pl_fd_list (fst st) = xs @ ys" and "array_refs (fst ` set xs) st"
  shows "\<exists>m. fill_walk env (tailq_first ys) st = Some m \<and>
    loop_safe (\<lambda>(res, st'). inv st' \<and> (res = 0 \<longrightarrow> array_refs (refs_of st') st')) m"
  using assms
proof (induction ys arbitrary: xs st)
  case Nil
  then show ?case by (subst fill_walk.simps) simp
next
  case (Cons y ys)
  obtain r e where y: "y = (r, e)" by fastforce
  have list: "pl_fd_list (fst st) = xs @ (r, e) # ys" using Cons.prems(2) y by simp
  show ?case
  proof (cases "call_set_events env e st")
    case (Inl f)
    have dist: "distinct (map fst (xs @ (r, e) # ys))" using inv_distinct [OF Cons.prems(1)] list by simp
    have "fill_walk env (tailq_first (y # ys)) st = Some (Inl f)"
      using Inl map_of_split [OF dist] by (simp add: fill_walk.simps [of env "Some r" st] y list)
    then show ?thesis using call_set_events_faults [OF Inl] by auto
  next
    case (Inr q)
    obtain res0 events st1 where "q = (res0, events, st1)" by (cases q)
    then have call: "call_set_events env e st = Inr (res0, events, st1)" using Inr by simp
    from fill_walk_step [OF Cons.prems(1) list Cons.prems(3) call] show ?thesis
    proof
      assume "\<exists>res st2. fill_walk env (Some r) st = Some (Inr (res, st2)) \<and> res \<noteq> 0 \<and> inv st2 \<and>
        (res = -1 \<or> bad_events events \<or> res0 \<notin> {0, -1, -2}) \<and> (\<exists>f. st2 = with_array f st1)"
      then obtain res st2 where "fill_walk env (Some r) st = Some (Inr (res, st2))" "res \<noteq> 0" "inv st2" by blast
      then show ?thesis using y by simp
    next
      assume "\<exists>xs' f. let st2 = with_array f st1 in
        fill_walk env (Some r) st = fill_walk env (tailq_first ys) st2 \<and> inv st2 \<and>
        pl_fd_list (fst st2) = xs' @ ys \<and> array_refs (fst ` set xs') st2 \<and>
        (\<forall>r' d. slot r' d st \<longrightarrow> slot r' d st2) \<and> res0 \<in> {0, -1} \<and>
        (res0 = 0 \<and> events \<noteq> 0 \<longrightarrow>
           slot r \<lparr>pd_fd = Some (fe_prfd e), pd_in_flags = poll_events_to_pr_events events\<rparr> st2)"
      then obtain st2 xs' where "fill_walk env (Some r) st = fill_walk env (tailq_first ys) st2" "inv st2"
        "pl_fd_list (fst st2) = xs' @ ys" "array_refs (fst ` set xs') st2" unfolding Let_def by blast
      then show ?thesis using Cons.IH [of st2 xs'] y by simp
    qed
  qed
qed

text \<open>
  An entry that asks to stop, whenever \<open>P\<close> holds, ends the second walk with -1; \<open>P\<close> is a property that the callbacks
  for events keep, and all of them return one of the three values that the loop knows.
\<close>

lemma fill_walk_stops:
  assumes keep: "\<And>st r e res events st'. inv st \<Longrightarrow> P st \<Longrightarrow> (r, e) \<in> set (pl_fd_list (fst st)) \<Longrightarrow>
      call_set_events env e st = Inr (res, events, st') \<Longrightarrow>
      (\<forall>f. P (with_array f st')) \<and> \<not> bad_events events \<and> res \<in> {0, -1, -2} \<and> (stop e \<longrightarrow> res = -2)"
    and "inv st" "P st" "pl_fd_list (fst st) = xs @ ys" "array_refs (fst ` set xs) st"
    and "\<exists>x \<in> set ys. stop (snd x)"
    and "fill_walk env (tailq_first ys) st = Some (Inr (res, st'))"
  shows "res = -1 \<and> P st'"
  using assms(2-)
proof (induction ys arbitrary: xs st)
  case (Cons y ys)
  obtain r e where y: "y = (r, e)" by fastforce
  have list: "pl_fd_list (fst st) = xs @ (r, e) # ys" using Cons.prems(3) y by simp
  have walk: "fill_walk env (Some r) st = Some (Inr (res, st'))" using Cons.prems(6) y by simp
  have dist: "distinct (map fst (xs @ (r, e) # ys))" using inv_distinct [OF Cons.prems(1)] list by simp
  obtain res0 events st1 where call: "call_set_events env e st = Inr (res0, events, st1)"
  proof (cases "call_set_events env e st")
    case (Inl f)
    then show ?thesis
      using walk map_of_split [OF dist] by (simp add: fill_walk.simps [of env "Some r" st] list)
  next
    case (Inr q)
    then show ?thesis using that by (cases q) auto
  qed
  have k: "\<forall>f. P (with_array f st1)" "\<not> bad_events events" "res0 \<in> {0, -1, -2}" "stop e \<Longrightarrow> res0 = -2"
    using keep [OF Cons.prems(1,2) _ call, of r] list by simp_all
  from fill_walk_step [OF Cons.prems(1) list Cons.prems(4) call] show ?case
  proof
    assume "\<exists>res st2. fill_walk env (Some r) st = Some (Inr (res, st2)) \<and> res \<noteq> 0 \<and> inv st2 \<and>
      (res = -1 \<or> bad_events events \<or> res0 \<notin> {0, -1, -2}) \<and> (\<exists>f. st2 = with_array f st1)"
    then show ?thesis using walk k(1-3) by auto
  next
    assume "\<exists>xs' f. let st2 = with_array f st1 in
      fill_walk env (Some r) st = fill_walk env (tailq_first ys) st2 \<and> inv st2 \<and>
      pl_fd_list (fst st2) = xs' @ ys \<and> array_refs (fst ` set xs') st2 \<and>
      (\<forall>r' d. slot r' d st \<longrightarrow> slot r' d st2) \<and> res0 \<in> {0, -1} \<and>
      (res0 = 0 \<and> events \<noteq> 0 \<longrightarrow>
         slot r \<lparr>pd_fd = Some (fe_prfd e), pd_in_flags = poll_events_to_pr_events events\<rparr> st2)"
    then obtain xs' f where st2: "fill_walk env (Some r) st = fill_walk env (tailq_first ys) (with_array f st1)"
      "inv (with_array f st1)" "pl_fd_list (fst (with_array f st1)) = xs' @ ys"
      "array_refs (fst ` set xs') (with_array f st1)" "res0 \<in> {0, -1}" unfolding Let_def by blast
    have "\<not> stop e" using k(4) st2(5) by auto
    then have "\<exists>x \<in> set ys. stop (snd x)" using Cons.prems(5) y by auto
    moreover have "P (with_array f st1)" using k(1) by blast
    ultimately show ?thesis
      using Cons.IH [OF st2(2) _ st2(3,4)] walk st2(1) by simp
  qed
qed simp

lemma prepare_safe:
  assumes "inv st" and "poll_array_inv (pl_poll_array (fst st))"
  shows "\<exists>m. prepare_poll_array env st = Some m \<and>
    loop_safe (\<lambda>(res, st'). inv st' \<and> (res = 0 \<longrightarrow> array_refs (refs_of st') st')) m"
proof -
  let ?st0 = "with_array pr_poll_array_clean st"
  have st0: "inv ?st0" "array_refs {} ?st0"
    using assms inv_with_array poll_array_inv_clean by (auto simp: array_refs_def pr_poll_array_clean_def)
  obtain m where m: "pre_poll_walk env (tailq_first (pl_pre_poll_cb_list (fst ?st0))) ?st0 = Some m"
    "loop_safe (\<lambda>(res, st'). inv st' \<and> array_refs {} st') m"
    using pre_poll_walk_safe [OF st0(1), of "[]"] st0(2) by auto
  show ?thesis
  proof (cases m)
    case (Inl f)
    then show ?thesis using m by (auto simp: prepare_poll_array_def loop_safe_def)
  next
    case (Inr q)
    obtain res st1 where q: "q = (res, st1)" by (cases q)
    have st1: "inv st1" "array_refs {} st1" using m(2) Inr q by simp_all
    obtain m2 where m2: "fill_walk env (tailq_first (pl_fd_list (fst st1))) st1 = Some m2"
      "loop_safe (\<lambda>(res, st'). inv st' \<and> (res = 0 \<longrightarrow> array_refs (refs_of st') st')) m2"
      using fill_walk_safe [OF st1(1), of "[]"] st1(2) by auto
    have gc: "array_refs R (with_array (pr_poll_array_gc al) st2)" if "array_refs R st2" for R st2 al
      using that poll_array_inv_gc
      by (fastforce simp: array_refs_def pr_poll_array_gc_def pr_poll_array_realloc_def Let_def split: if_splits)
    show ?thesis
      using m(1) Inr q st1(1) m2 inv_with_array gc
      by (cases m2) (auto simp: prepare_poll_array_def loop_safe_def split: if_splits)
  qed
qed

text \<open>When the callbacks before the poll always succeed and keep \<open>P\<close>, so does the first walk.\<close>

lemma pre_poll_walk_keeps:
  assumes keep: "\<And>st r p res st'. inv st \<Longrightarrow> P st \<Longrightarrow> (r, p) \<in> set (pl_pre_poll_cb_list (fst st)) \<Longrightarrow>
      call_pre_poll env p st = Inr (res, st') \<Longrightarrow> res = 0 \<and> P st'"
    and "inv st" "P st" "pl_pre_poll_cb_list (fst st) = xs @ ys"
    and "pre_poll_walk env (tailq_first ys) st = Some (Inr (res, st'))"
  shows "res = 0 \<and> P st'"
  using assms(2-)
proof (induction ys arbitrary: xs st)
  case Nil
  then show ?case by (simp add: pre_poll_walk.simps)
next
  case (Cons y ys)
  obtain r p where y: "y = (r, p)" by fastforce
  have list: "pl_pre_poll_cb_list (fst st) = xs @ (r, p) # ys" using Cons.prems(3) y by simp
  have dist: "distinct (map fst (xs @ (r, p) # ys))" using inv_distinct [OF Cons.prems(1)] list by simp
  note at = map_of_split [OF dist] tailq_next_split [OF dist]
  have walk: "pre_poll_walk env (Some r) st = Some (Inr (res, st'))" using Cons.prems(4) y by simp
  obtain res1 st1 where call: "call_pre_poll env p st = Inr (res1, st1)"
  proof (cases "call_pre_poll env p st")
    case (Inl f)
    then show ?thesis using walk at by (simp add: pre_poll_walk.simps [of env "Some r" st] list)
  next
    case (Inr q)
    then show ?thesis using that by (cases q) auto
  qed
  have k: "res1 = 0" "P st1" using keep [OF Cons.prems(1,2) _ call, of r] list by simp_all
  have law: "inv st1" "pl_pre_poll_cb_list (fst st1) = (xs @ [y]) @ ys"
    using pre_poll_law [OF Cons.prems(1) _ call, of r] list y by simp_all
  have "pre_poll_walk env (tailq_first ys) st1 = Some (Inr (res, st'))"
    using walk at call k(1) by (simp add: pre_poll_walk.simps [of env "Some r" st] list)
  then show ?case using Cons.IH [OF law(1) k(2) law(2)] by simp
qed

lemma prepare_stops:
  assumes st: "inv st" "poll_array_inv (pl_poll_array (fst st))" "\<And>f. P (with_array f st)"
    and pre: "\<And>st r p res st'. inv st \<Longrightarrow> P st \<Longrightarrow> (r, p) \<in> set (pl_pre_poll_cb_list (fst st)) \<Longrightarrow>
      call_pre_poll env p st = Inr (res, st') \<Longrightarrow> res = 0 \<and> P st'"
    and keep: "\<And>st r e res events st'. inv st \<Longrightarrow> P st \<Longrightarrow> (r, e) \<in> set (pl_fd_list (fst st)) \<Longrightarrow>
      call_set_events env e st = Inr (res, events, st') \<Longrightarrow>
      (\<forall>f. P (with_array f st')) \<and> \<not> bad_events events \<and> res \<in> {0, -1, -2} \<and> (stop e \<longrightarrow> res = -2)"
    and ex: "\<And>st. inv st \<Longrightarrow> \<exists>x \<in> set (pl_fd_list (fst st)). stop (snd x)"
    and prep: "prepare_poll_array env st = Some (Inr (res, st'))"
  shows "res = -1 \<and> P st'"
proof -
  let ?st0 = "with_array pr_poll_array_clean st"
  have st0: "inv ?st0" "array_refs {} ?st0"
    using st inv_with_array poll_array_inv_clean by (auto simp: array_refs_def pr_poll_array_clean_def)
  obtain m where m: "pre_poll_walk env (tailq_first (pl_pre_poll_cb_list (fst ?st0))) ?st0 = Some m"
    "loop_safe (\<lambda>(res, st'). inv st' \<and> array_refs {} st') m"
    using pre_poll_walk_safe [OF st0(1), of "[]"] st0(2) by auto
  obtain res1 st1 where m1: "m = Inr (res1, st1)"
    using prep m(1) by (cases m) (auto simp: prepare_poll_array_def)
  then have st1: "inv st1" "array_refs {} st1" using m(2) by simp_all
  have pre1: "res1 = 0" "P st1"
    using pre_poll_walk_keeps [of P ?st0 "[]"] pre st0(1) st(3) m(1) m1 by auto
  obtain res2 st2 where f: "fill_walk env (tailq_first (pl_fd_list (fst st1))) st1 = Some (Inr (res2, st2))"
    using prep m(1) m1 pre1(1) by (auto simp: prepare_poll_array_def split: option.splits sum.splits)
  have "res2 = -1 \<and> P st2"
    by (rule fill_walk_stops [of P stop st1 "[]"]) (use keep ex st1 pre1 f in auto)
  then show ?thesis
    using prep m(1) m1 pre1(1) f by (simp add: prepare_poll_array_def)
qed

lemma when_ready_safe:
  assumes st: "inv st" "array_refs (refs_of st) st" and r: "r \<in> refs_of st"
    and call: "\<And>e. ready_call env e st (call e st)"
  shows "loop_safe (\<lambda>(res, st'). inv st' \<and> array_refs (refs_of st') st' \<and> r \<in> refs_of st') (when_ready b r call st)"
proof (cases b)
  case False
  then show ?thesis using st r by (simp add: when_ready_def)
next
  case True
  obtain e where e: "map_of (pl_fd_list (fst st)) r = Some e" "(r, e) \<in> set (pl_fd_list (fst st))"
    using map_of_mem_fst [OF r] by blast
  have run: "when_ready b r call st = call e st" using True e by (simp add: when_ready_def)
  show ?thesis
  proof (cases "call e st")
    case (Inl f)
    then show ?thesis using ready_call_faults [of env e st f] call [of e] run by auto
  next
    case (Inr q)
    obtain res st' where q: "q = (res, st')" by (cases q)
    have law: "inv st'" "same_array st st'" "refs_of st \<subseteq> refs_of st'"
      using ready_law [OF st(1) e(2), of res st'] call [of e] Inr q by simp_all
    have "array_refs (refs_of st) st'" using array_refs_same [OF law(2)] st(2) by blast
    then have "array_refs (refs_of st') st'" using law(3) by (rule array_refs_mono)
    moreover have "r \<in> refs_of st'" using r law(3) by blast
    ultimately show ?thesis
      using law(1) by (simp add: run Inr q)
  qed
qed

lemma dispatch_entry_safe:
  assumes "inv st" "array_refs (refs_of st) st" "r \<in> refs_of st"
  shows "loop_safe (\<lambda>(res, st'). inv st' \<and> array_refs (refs_of st') st') (dispatch_entry env r out st)"
proof -
  let ?P = "\<lambda>st'. inv st' \<and> array_refs (refs_of st') st' \<and> r \<in> refs_of st'"
  have "loop_safe (\<lambda>(res, st'). ?P st') (dispatch_entry env r out st)"
    unfolding dispatch_entry_def
    by (intro loop_safe_then_call [where P = ?P] when_ready_safe conjI)
       (use assms in \<open>auto simp: ready_call_def\<close>)
  then show ?thesis by (rule loop_safe_mono) auto
qed

lemma dispatch_loop_safe:
  assumes "inv st" "array_refs (refs_of st) st"
  shows "loop_safe (\<lambda>(res, st'). inv st' \<and> array_refs (refs_of st') st') (dispatch_loop env i outs st)"
  using assms
proof (induction outs arbitrary: i st)
  case (Cons out outs)
  show ?case
  proof (cases "i < pr_poll_array_size (pl_poll_array (fst st))")
    case True
    have "pa_user_data (pl_poll_array (fst st)) ! i \<in> set (pa_user_data (pl_poll_array (fst st)))"
      using True Cons.prems(2) by (auto simp: array_refs_def poll_array_inv_def pr_poll_array_size_def)
    then obtain r where r: "pa_user_data (pl_poll_array (fst st)) ! i = Some r" "r \<in> refs_of st"
      using Cons.prems(2) unfolding array_refs_def by blast
    have "dispatch_loop env i (out # outs) st = then_call (dispatch_entry env r out st) (dispatch_loop env (i + 1) outs)"
      using True r by (simp add: pr_poll_array_get_user_data_def)
    moreover have "loop_safe (\<lambda>(res, st'). inv st' \<and> array_refs (refs_of st') st')
        (then_call (dispatch_entry env r out st) (dispatch_loop env (i + 1) outs))"
      by (rule loop_safe_then_call [OF dispatch_entry_safe [OF Cons.prems r(2)]]) (use Cons.IH in blast)
    ultimately show ?thesis by simp
  qed (use Cons.prems in \<open>simp add: pr_poll_array_get_user_data_def\<close>)
qed simp

theorem exec_safe:
  assumes "inv st" and "poll_array_inv (pl_poll_array (fst st))"
  shows "\<exists>m. pr_poll_loop_exec env st = Some m \<and>
    loop_safe (\<lambda>(res, st'). inv st' \<and> (res = 0 \<longrightarrow> poll_array_inv (pl_poll_array (fst st')))) m"
proof -
  obtain m where m: "prepare_poll_array env st = Some m"
    "loop_safe (\<lambda>(res, st'). inv st' \<and> (res = 0 \<longrightarrow> array_refs (refs_of st') st')) m"
    using prepare_safe [OF assms] by blast
  show ?thesis
  proof (cases m)
    case (Inl f)
    then show ?thesis using m by (auto simp: pr_poll_loop_exec_def loop_safe_def)
  next
    case (Inr q)
    obtain res st1 where q: "q = (res, st1)" by (cases q)
    show ?thesis
    proof (cases "res = 0")
      case False
      then show ?thesis using m Inr q by (simp add: pr_poll_loop_exec_def)
    next
      case True
      then have st1: "inv st1" "array_refs (refs_of st1) st1" using m(2) Inr q by simp_all
      obtain poll_res outs where poll: "pv_poll env (pa_array (pl_poll_array (fst st1)))
          (timer_list_time_to_expire (pv_now env) (pl_tlist (fst st1))) (snd st1) = (poll_res, outs)" by fastforce
      define d where "d = (if poll_res > 0 then dispatch_loop env 0 outs st1 else Inr (0, st1))"
      have d: "loop_safe (\<lambda>(res, st'). inv st' \<and> array_refs (refs_of st') st') d"
        using dispatch_loop_safe [OF st1] st1 by (simp add: d_def)
      have exec: "pr_poll_loop_exec env st = (case d of Inl f \<Rightarrow> Some (Inl f)
          | Inr (cb_res, st2) \<Rightarrow> if cb_res \<noteq> 0 then Some (Inr (-1, st2))
              else if poll_res = -1 then Some (Inr (-3, st2))
              else (case run_timers env st2 of None \<Rightarrow> None | Some (Inl f) \<Rightarrow> Some (Inl f)
                    | Some (Inr st3) \<Rightarrow> Some (Inr (0, st3))))"
        using m(1) Inr q True poll by (simp add: pr_poll_loop_exec_def d_def)
      show ?thesis
      proof (cases d)
        case (Inl f)
        then show ?thesis using d exec by (auto simp: loop_safe_def)
      next
        case (Inr q2)
        obtain cb_res st2 where q2: "q2 = (cb_res, st2)" by (cases q2)
        have st2: "inv st2" "poll_array_inv (pl_poll_array (fst st2))" using d Inr q2 by (simp_all add: array_refs_def)
        obtain t where t: "run_timers env st2 = Some t"
          "\<And>st'. t = Inr st' \<Longrightarrow> inv st' \<and> poll_array_inv (pl_poll_array (fst st'))"
          using timer_law [OF st2] by blast
        have "\<exists>g. f = In_Timers g" if "t = Inl f" for f
          using t(1) that by (auto simp: run_timers_def split: option.splits sum.splits)
        then show ?thesis
          using exec Inr q2 st2 t by (cases t) (auto simp: loop_safe_def split: if_splits)
      qed
    qed
  qed
qed

end

text \<open>
  Completeness of the array. Some entries, \<open>mine\<close>, only look at a part of the state, the \<open>view\<close>, that no
  callback for events changes, and ask for events that depend on nothing else. Such an entry is polled for
  exactly the events that it wants in the view that the callbacks before the poll have left behind.
\<close>

locale poll_view = poll_contract +
  fixes view :: "('a, 'b, 'c) poll_state \<Rightarrow> 'v" and mine :: "('a, 'b) poll_loop_fd_entry \<Rightarrow> bool"
    and wanted :: "'v \<Rightarrow> ('a, 'b) poll_loop_fd_entry \<Rightarrow> poll_flags option"
  assumes view_with_array: "view (with_array f st) = view st"
    and view_kept: "inv st \<Longrightarrow> (r, e) \<in> set (pl_fd_list (fst st)) \<Longrightarrow>
      call_set_events env e st = Inr (res, events, st') \<Longrightarrow> view st' = view st"
    and wanted_law: "inv st \<Longrightarrow> (r, e) \<in> set (pl_fd_list (fst st)) \<Longrightarrow> mine e \<Longrightarrow>
      wanted (view st) e = Some events \<Longrightarrow> call_set_events env e st = Inr (0, events, st) \<and> events \<noteq> 0"
begin

lemma fill_walk_slots:
  assumes "inv st" and "pl_fd_list (fst st) = xs @ ys" and "array_refs (fst ` set xs) st"
    and "fill_walk env (tailq_first ys) st = Some (Inr (0, st'))"
  shows "view st' = view st \<and> (\<forall>r d. slot r d st \<longrightarrow> slot r d st') \<and>
    (\<forall>r e events. (r, e) \<in> set ys \<longrightarrow> mine e \<longrightarrow> wanted (view st) e = Some events \<longrightarrow>
       slot r \<lparr>pd_fd = Some (fe_prfd e), pd_in_flags = poll_events_to_pr_events events\<rparr> st')"
  using assms
proof (induction ys arbitrary: xs st)
  case Nil
  then show ?case by (simp add: fill_walk.simps)
next
  case (Cons y ys)
  obtain r e where y: "y = (r, e)" by fastforce
  have list: "pl_fd_list (fst st) = xs @ (r, e) # ys" using Cons.prems(2) y by simp
  have walk: "fill_walk env (Some r) st = Some (Inr (0, st'))" using Cons.prems(4) y by simp
  have dist: "distinct (map fst (xs @ (r, e) # ys))" using inv_distinct [OF Cons.prems(1)] list by simp
  obtain res0 events st1 where call: "call_set_events env e st = Inr (res0, events, st1)"
  proof (cases "call_set_events env e st")
    case (Inl f)
    then show ?thesis
      using walk map_of_split [OF dist] by (simp add: fill_walk.simps [of env "Some r" st] list)
  next
    case (Inr q)
    then show ?thesis using that by (cases q) auto
  qed
  have no_stop: "\<not> (\<exists>res st2. fill_walk env (Some r) st = Some (Inr (res, st2)) \<and> res \<noteq> 0 \<and> inv st2 \<and>
      (res = -1 \<or> bad_events events \<or> res0 \<notin> {0, -1, -2}) \<and> (\<exists>f. st2 = with_array f st1))"
    using walk by simp
  obtain xs' f where st2: "fill_walk env (Some r) st = fill_walk env (tailq_first ys) (with_array f st1)"
    "inv (with_array f st1)" "pl_fd_list (fst (with_array f st1)) = xs' @ ys"
    "array_refs (fst ` set xs') (with_array f st1)"
    "\<And>r' d. slot r' d st \<Longrightarrow> slot r' d (with_array f st1)"
    "res0 = 0 \<Longrightarrow> events \<noteq> 0 \<Longrightarrow>
       slot r \<lparr>pd_fd = Some (fe_prfd e), pd_in_flags = poll_events_to_pr_events events\<rparr> (with_array f st1)"
    using fill_walk_step [OF Cons.prems(1) list Cons.prems(3) call] no_stop unfolding Let_def by blast
  have in_list: "(r, e) \<in> set (pl_fd_list (fst st))" using list by simp
  have view: "view (with_array f st1) = view st"
    using view_kept [OF Cons.prems(1) in_list call] view_with_array by simp
  have IH: "view st' = view st" "\<And>r d. slot r d (with_array f st1) \<Longrightarrow> slot r d st'"
    "\<And>r e events. (r, e) \<in> set ys \<Longrightarrow> mine e \<Longrightarrow> wanted (view st) e = Some events \<Longrightarrow>
       slot r \<lparr>pd_fd = Some (fe_prfd e), pd_in_flags = poll_events_to_pr_events events\<rparr> st'"
    using Cons.IH [OF st2(2-4)] walk st2(1) view by simp_all
  have "slot r \<lparr>pd_fd = Some (fe_prfd e), pd_in_flags = poll_events_to_pr_events ev\<rparr> st'"
    if "mine e" "wanted (view st) e = Some ev" for ev
    using wanted_law [OF Cons.prems(1) in_list that] call st2(6) IH(2) by simp
  then show ?case
    using IH st2(5) y by auto
qed

lemma prepare_slots:
  assumes st: "inv st" "poll_array_inv (pl_poll_array (fst st))"
    and prep: "prepare_poll_array env st = Some (Inr (0, st'))"
  shows "\<exists>st1. pre_poll_walk env (tailq_first (pl_pre_poll_cb_list (fst st))) (with_array pr_poll_array_clean st) =
      Some (Inr (0, st1)) \<and> inv st1 \<and> view st' = view st1 \<and>
    (\<forall>r e events. (r, e) \<in> set (pl_fd_list (fst st1)) \<longrightarrow> mine e \<longrightarrow> wanted (view st1) e = Some events \<longrightarrow>
       slot r \<lparr>pd_fd = Some (fe_prfd e), pd_in_flags = poll_events_to_pr_events events\<rparr> st')"
proof -
  let ?st0 = "with_array pr_poll_array_clean st"
  have st0: "inv ?st0" "array_refs {} ?st0"
    using st inv_with_array poll_array_inv_clean by (auto simp: array_refs_def pr_poll_array_clean_def)
  obtain m where m: "pre_poll_walk env (tailq_first (pl_pre_poll_cb_list (fst ?st0))) ?st0 = Some m"
    "loop_safe (\<lambda>(res, st'). inv st' \<and> array_refs {} st') m"
    using pre_poll_walk_safe [OF st0(1), of "[]"] st0(2) by auto
  obtain st1 where m1: "m = Inr (0, st1)"
    using prep m(1) by (auto simp: prepare_poll_array_def split: sum.splits if_splits)
  then have st1: "inv st1" "array_refs {} st1" using m(2) by simp_all
  obtain st2 where st2: "fill_walk env (tailq_first (pl_fd_list (fst st1))) st1 = Some (Inr (0, st2))"
    "st' = with_array (pr_poll_array_gc (pv_alloc env)) st2"
    using prep m(1) m1 by (auto simp: prepare_poll_array_def split: option.splits sum.splits if_splits)
  have gc: "slot r d st' \<longleftrightarrow> slot r d st2" for r d
    unfolding st2(2)
    by (auto simp: slot_def pr_poll_array_gc_def pr_poll_array_realloc_def Let_def)
  show ?thesis
    using fill_walk_slots [OF st1(1), of "[]"] st1 st2(1) m(1) m1 gc view_with_array
    unfolding st2(2) by simp
qed

end

end
