(* ===== verification/Qnetd_Ipc.thy ===== *)
theory Qnetd_Ipc
  imports Qnetd_Ipc_Cmd Lexers Poll_Safe
begin

text \<open>
  The local interface of the server, \<open>qnetd-ipc.c\<close>: callbacks of the listening socket and of the sockets of its
  clients, and the commands \<open>status\<close>, \<open>list\<close> and \<open>shutdown\<close>. The callbacks work on the poll loop and on the state
  of the daemon. A callback gets a pointer to its client; when the client is no longer in the list, the
  access is a \<open>Use_After_Free\<close>.
\<close>

section \<open>The state of the daemon\<close>

datatype qnetd_cb =
    Cb_Pre_Poll
  | Cb_Server_Read
  | Cb_Server_Err
  | Cb_Client_Set_Events
  | Cb_Client_Read
  | Cb_Client_Write
  | Cb_Client_Err
  | Cb_Ipc_Set_Events
  | Cb_Ipc_Read
  | Cb_Ipc_Err
  | Cb_Ipc_Client_Set_Events
  | Cb_Ipc_Client_Read
  | Cb_Ipc_Client_Write
  | Cb_Ipc_Client_Err

text \<open>The user data of an entry: the instance alone, or the instance and a client.\<close>

datatype qnetd_ud =
    Ud_Instance
  | Ud_Client client_ref
  | Ud_Ipc_Client ipc_client_ref

text \<open>
  The parts of \<open>struct qnetd_instance\<close> that \<open>qnetd_instance\<close> leaves out, and the two fields of \<open>struct
  qnetd_client\<close> that only matter here, its socket and its printed address.
\<close>

record qnetd_world =
  qw_instance :: qnetd_instance
  qw_client_socket :: "client_ref \<Rightarrow> prfd"
  qw_client_addr_str :: "client_ref \<Rightarrow> byte list"
  qw_local_ipc :: unix_socket_ipc
  qw_host_addr :: "byte list option"
  qw_host_port :: u16

type_synonym qnetd_loop = "(qnetd_cb, qnetd_ud) pr_poll_loop"
type_synonym qnetd_state = "(qnetd_cb, qnetd_ud, qnetd_world) poll_state"

definition upd_ipc :: "(unix_socket_ipc \<Rightarrow> unix_socket_ipc) \<Rightarrow> qnetd_world \<Rightarrow> qnetd_world" where
  "upd_ipc f w = w\<lparr>qw_local_ipc := f (qw_local_ipc w)\<rparr>"

section \<open>Commands of a client\<close>

definition ipc_client_callbacks :: "qnetd_cb fd_callbacks" where
  "ipc_client_callbacks =
     \<lparr>fc_set_events = Some Cb_Ipc_Client_Set_Events, fc_read = Some Cb_Ipc_Client_Read,
      fc_write = Some Cb_Ipc_Client_Write, fc_err = Some Cb_Ipc_Client_Err\<rparr>"

definition ipc_socket_callbacks :: "qnetd_cb fd_callbacks" where
  "ipc_socket_callbacks =
     \<lparr>fc_set_events = Some Cb_Ipc_Set_Events, fc_read = Some Cb_Ipc_Read, fc_write = None, fc_err = Some Cb_Ipc_Err\<rparr>"

text \<open>
  The arguments of \<open>list\<close>. Any other word ends them, and so does a failure of the scanner there, whereas a
  failure behind \<open>cluster\<close>, or of \<open>strdup\<close>, is an error (\<open>None\<close>). Every pass consumes input; the fuel is the
  length of the line.
\<close>

fun list_args_loop ::
    "allocator \<Rightarrow> nat \<Rightarrow> dynar_simple_lex \<Rightarrow> bool \<Rightarrow> byte list option \<Rightarrow> (bool \<times> byte list option) option" where
  "list_args_loop al 0 lx verbose cluster_name = Some (verbose, cluster_name)"
| "list_args_loop al (Suc n) lx verbose cluster_name =
     (case dynar_simple_lex_token_next al lx of
        (ok, lx1) \<Rightarrow>
          let str = c_str (dyn_data (sl_token lx1))
          in if \<not> ok \<or> str = [] then Some (verbose, cluster_name)
             else if strcasecmp_eq str ''verbose'' then list_args_loop al n lx1 True cluster_name
             else if strcasecmp_eq str ''cluster''
             then (case dynar_simple_lex_token_next al lx1 of
                     (ok2, lx2) \<Rightarrow>
                       let name = c_str (dyn_data (sl_token lx2))
                       in if \<not> ok2 then None
                          else if \<not> al (Malloc_Bytes (length name + 1)) then None
                          else list_args_loop al n lx2 verbose (Some name))
             else Some (verbose, cluster_name))"

definition cmd_answer ::
    "allocator \<Rightarrow> adder \<Rightarrow> string \<Rightarrow> unix_socket_client \<Rightarrow> unix_socket_client" where
  "cmd_answer al cmd error_text client =
     (case cmd (uc_send_buffer client) of
        (r, b) \<Rightarrow>
          let client1 = client\<lparr>uc_send_buffer := b\<rparr>
          in if r \<noteq> 0 then or_disconnect (ipc_send_error al (str_bytes error_text) client1)
             else or_disconnect (ipc_send_buffer al client1))"

definition qnetd_ipc_parse_line :: "allocator \<Rightarrow> qnetd_world \<Rightarrow> unix_socket_client \<Rightarrow> fault + unix_socket_client" where
  "qnetd_ipc_parse_line al w client =
     (let low_mem = or_disconnect (ipc_send_error al (str_bytes ''Command too long'') client)
      in case dynar_simple_lex_token_next al
                (dynar_simple_lex_init (uc_receive_buffer client) DYNAR_SIMPLE_LEX_TYPE_QUOTE) of
           (ok, lx) \<Rightarrow>
             let str = c_str (dyn_data (sl_token lx))
             in if \<not> ok then Inr low_mem
                else if strcasecmp_eq str ''''
                then Inr (or_disconnect (ipc_send_error al (str_bytes ''No command specified'') client))
                else if strcasecmp_eq str ''shutdown''
                then (if uc_user_data client = None then Inl Null_Deref
                      else Inr (or_disconnect (ipc_send_buffer al (client\<lparr>uc_user_data := Some True\<rparr>))))
                else if strcasecmp_eq str ''status''
                then (case dynar_simple_lex_token_next al lx of
                        (ok2, lx2) \<Rightarrow>
                          if \<not> ok2 then Inr low_mem
                          else let verbose = strcasecmp_eq (c_str (dyn_data (sl_token lx2))) ''verbose''
                               in Inr (cmd_answer al
                                    (qnetd_ipc_cmd_status al (qw_host_addr w) (qw_host_port w) (qw_instance w) verbose)
                                    ''Can't get QNetd status'' client))
                else if strcasecmp_eq str ''list''
                then (case list_args_loop al (dynar_size (uc_receive_buffer client)) lx False None of
                        None \<Rightarrow> Inr low_mem
                      | Some (verbose, cluster_name) \<Rightarrow>
                          Inr (cmd_answer al
                            (qnetd_ipc_cmd_list al (qw_client_addr_str w) (qw_instance w) verbose cluster_name)
                            ''Can't get QNetd cluster list'' client))
                else Inr (or_disconnect (ipc_send_error al
                       (str_bytes ''Unknown command '' @ [39] @ str @ [39]) client)))"

definition qnetd_ipc_close :: "unix_sys \<Rightarrow> qnetd_world \<Rightarrow> int \<times> qnetd_world" where
  "qnetd_ipc_close sys w =
     (case unix_socket_ipc_close sys (qw_local_ipc w) of (r, ipc) \<Rightarrow> (r, w\<lparr>qw_local_ipc := ipc\<rparr>))"

definition qnetd_ipc_is_closed :: "qnetd_world \<Rightarrow> bool" where
  "qnetd_ipc_is_closed w \<longleftrightarrow> unix_socket_ipc_is_closed (qw_local_ipc w)"

text \<open>The user data is freed first; a listening socket that cannot be closed keeps the list of clients.\<close>

definition qnetd_ipc_destroy :: "unix_sys \<Rightarrow> qnetd_world \<Rightarrow> int \<times> qnetd_world" where
  "qnetd_ipc_destroy sys w =
     (let ipc = qw_local_ipc w;
          ipc1 = ipc\<lparr>ui_clients := map (\<lambda>(u, client). (u, client\<lparr>uc_user_data := None\<rparr>)) (ui_clients ipc)\<rparr>
      in case unix_socket_ipc_destroy sys ipc1 of (r, ipc2) \<Rightarrow> (r, w\<lparr>qw_local_ipc := ipc2\<rparr>))"

definition qnetd_ipc_client_disconnect :: "ipc_client_ref \<Rightarrow> qnetd_world \<Rightarrow> qnetd_world" where
  "qnetd_ipc_client_disconnect u = upd_ipc (\<lambda>ipc. unix_socket_ipc_client_disconnect ipc u)"

definition qnetd_ipc_init ::
    "allocator \<Rightarrow> unix_sys \<Rightarrow> (int \<Rightarrow> bool) \<Rightarrow> qnetd_state \<Rightarrow> fault + (int \<times> qnetd_state)" where
  "qnetd_ipc_init al sys mkfd st =
     (let as = qi_advanced_settings (qw_instance (snd st))
      in case as_local_socket_file as of
           None \<Rightarrow> Inl Null_Deref
         | Some file \<Rightarrow>
             (case unix_socket_ipc_init al sys file (as_local_socket_gid as) (as_local_socket_backlog as)
                     (as_ipc_max_clients as) (as_ipc_max_receive_size as) (as_ipc_max_send_size as) of
                (r, ipc) \<Rightarrow>
                  let w = (snd st)\<lparr>qw_local_ipc := ipc\<rparr>
                  in if r \<noteq> 0 then Inr (-1, (fst st, w))
                     else bindE (pr_poll_loop_add_fd al mkfd (fst st) (ui_socket ipc) pollin ipc_socket_callbacks
                                   Ud_Instance) (\<lambda>(r2, pl).
                            Inr (if r2 = -1 then -1 else 0, (pl, w)))))"

definition qnetd_ipc_accept ::
    "allocator \<Rightarrow> unix_sys \<Rightarrow> (int \<Rightarrow> bool) \<Rightarrow> qnetd_state \<Rightarrow> fault + (int \<times> qnetd_state)" where
  "qnetd_ipc_accept al sys mkfd st =
     (case unix_socket_ipc_accept al sys (qw_local_ipc (snd st)) of
        (accept_res, None, ipc) \<Rightarrow> Inr (-1, (fst st, (snd st)\<lparr>qw_local_ipc := ipc\<rparr>))
      | (accept_res, Some u, ipc) \<Rightarrow>
          let w1 = (snd st)\<lparr>qw_local_ipc := upd_ipc_client u (unix_socket_client_read_line True) ipc\<rparr>
          in if \<not> al Malloc_Ipc_User_Data then Inr (-1, (fst st, qnetd_ipc_client_disconnect u w1))
             else let w2 = upd_ipc (upd_ipc_client u (\<lambda>c. c\<lparr>uc_user_data := Some False\<rparr>)) w1
                  in bindE (pr_poll_loop_add_fd al mkfd (fst st) (unix_socket_server_accept sys True) 0
                              ipc_client_callbacks (Ud_Ipc_Client u)) (\<lambda>(r, pl).
                       if r = -1 then Inr (-1, (pl, qnetd_ipc_client_disconnect u w2))
                       else Inr (0, (pl, w2))))"

definition qnetd_ipc_io_read ::
    "allocator \<Rightarrow> (nat \<Rightarrow> recv_result) \<Rightarrow> qnetd_world \<Rightarrow> unix_socket_client \<Rightarrow> fault + unix_socket_client" where
  "qnetd_ipc_io_read al recv w client =
     (case unix_socket_client_io_read al recv client of
        (res, client1) \<Rightarrow>
          if res = -1 \<or> res = -2 \<or> res = -3 then Inr (client1\<lparr>uc_schedule_disconnect := True\<rparr>)
          else if res = 1 then qnetd_ipc_parse_line al w (unix_socket_client_read_line False client1)
          else Inr client1)"

text \<open>The second result says whether the answer to a \<open>shutdown\<close> has been sent.\<close>

definition qnetd_ipc_io_write ::
    "(byte list \<Rightarrow> send_result) \<Rightarrow> unix_socket_client \<Rightarrow> fault + (unix_socket_client \<times> bool)" where
  "qnetd_ipc_io_write send client =
     (case unix_socket_client_io_write send client of
        (res, client1) \<Rightarrow>
          if res = -1 \<or> res = -2 then Inr (client1\<lparr>uc_schedule_disconnect := True\<rparr>, False)
          else if res = 1
          then let client2 = (unix_socket_client_write_buffer False client1)\<lparr>uc_schedule_disconnect := True\<rparr>
               in (case uc_user_data client2 of
                     None \<Rightarrow> Inl Null_Deref
                   | Some shutdown_requested \<Rightarrow> Inr (client2, shutdown_requested))
          else Inr (client1, False))"

section \<open>Callbacks\<close>

text \<open>The client that a callback works on.\<close>

definition with_ipc_client ::
    "ipc_client_ref \<Rightarrow> qnetd_state \<Rightarrow> (unix_socket_client \<Rightarrow> fault + 'a) \<Rightarrow> fault + 'a" where
  "with_ipc_client u st k =
     (case ipc_client (qw_local_ipc (snd st)) u of None \<Rightarrow> Inl Use_After_Free | Some client \<Rightarrow> k client)"

definition put_ipc_client :: "ipc_client_ref \<Rightarrow> unix_socket_client \<Rightarrow> qnetd_state \<Rightarrow> qnetd_state" where
  "put_ipc_client u client st = (fst st, upd_ipc (upd_ipc_client u (\<lambda>_. client)) (snd st))"

definition ipc_socket_poll_loop_set_events_cb :: "poll_flags \<Rightarrow> qnetd_state \<Rightarrow> int \<times> poll_flags \<times> qnetd_state" where
  "ipc_socket_poll_loop_set_events_cb events st = (if qnetd_ipc_is_closed (snd st) then -2 else 0, events, st)"

definition ipc_socket_poll_loop_read_cb ::
    "allocator \<Rightarrow> unix_sys \<Rightarrow> (int \<Rightarrow> bool) \<Rightarrow> qnetd_state \<Rightarrow> fault + (int \<times> qnetd_state)" where
  "ipc_socket_poll_loop_read_cb al sys mkfd st =
     bindE (qnetd_ipc_accept al sys mkfd st) (\<lambda>(r, st'). Inr (0, st'))"

definition ipc_socket_poll_loop_err_cb :: "qnetd_state \<Rightarrow> int \<times> qnetd_state" where
  "ipc_socket_poll_loop_err_cb st = (-1, st)"

definition ipc_client_socket_poll_loop_set_events_cb ::
    "int \<Rightarrow> poll_flags \<Rightarrow> ipc_client_ref \<Rightarrow> qnetd_state \<Rightarrow> fault + (int \<times> poll_flags \<times> qnetd_state)" where
  "ipc_client_socket_poll_loop_set_events_cb fd events u st =
     with_ipc_client u st (\<lambda>client.
       if uc_schedule_disconnect client
       then let w = qnetd_ipc_client_disconnect u (snd st)
            in bindE (pr_poll_loop_del_fd (fst st) fd) (\<lambda>(r, pl).
                 Inr (if r = -1 then -2 else -1, events, (pl, w)))
       else if \<not> uc_reading_line client \<and> \<not> uc_writing_buffer client then Inr (-1, events, st)
       else Inr (0, events OR flag_if (uc_reading_line client) pollin OR flag_if (uc_writing_buffer client) pollout,
                 st))"

definition ipc_client_socket_poll_loop_read_cb ::
    "allocator \<Rightarrow> (nat \<Rightarrow> recv_result) \<Rightarrow> ipc_client_ref \<Rightarrow> qnetd_state \<Rightarrow> fault + (int \<times> qnetd_state)" where
  "ipc_client_socket_poll_loop_read_cb al recv u st =
     with_ipc_client u st (\<lambda>client.
       if \<not> uc_schedule_disconnect client
       then bindE (qnetd_ipc_io_read al recv (snd st) client) (\<lambda>client'. Inr (0, put_ipc_client u client' st))
       else Inr (0, st))"

definition ipc_client_socket_poll_loop_write_cb ::
    "unix_sys \<Rightarrow> (byte list \<Rightarrow> send_result) \<Rightarrow> ipc_client_ref \<Rightarrow> qnetd_state \<Rightarrow> fault + (int \<times> qnetd_state)" where
  "ipc_client_socket_poll_loop_write_cb sys send u st =
     with_ipc_client u st (\<lambda>client.
       if \<not> uc_schedule_disconnect client
       then bindE (qnetd_ipc_io_write send client) (\<lambda>(client', shutdown).
              let st' = put_ipc_client u client' st
              in Inr (0, if shutdown then (fst st', snd (qnetd_ipc_close sys (snd st'))) else st'))
       else Inr (0, st))"

definition ipc_client_socket_poll_loop_err_cb ::
    "ipc_client_ref \<Rightarrow> qnetd_state \<Rightarrow> fault + (int \<times> qnetd_state)" where
  "ipc_client_socket_poll_loop_err_cb u st =
     with_ipc_client u st (\<lambda>client.
       Inr (0, if \<not> uc_schedule_disconnect client
               then put_ipc_client u (client\<lparr>uc_schedule_disconnect := True\<rparr>) st else st))"

section \<open>The arguments of a command\<close>

text \<open>A word takes at least its own length from the input, so the fuel of \<open>list_args_loop\<close> is enough.\<close>

lemma token_takes_input:
  assumes "dynar_simple_lex_token_next al lx = (True, lx')" and "sl_pos lx \<le> dynar_size (sl_input lx)"
  shows "sl_input lx' = sl_input lx \<and> sl_pos lx' \<le> dynar_size (sl_input lx) \<and>
    dynar_size (sl_input lx) - sl_pos lx' + length (c_str (dyn_data (sl_token lx'))) \<le> dynar_size (sl_input lx) - sl_pos lx"
proof -
  let ?s = "drop (sl_pos lx) (dyn_data (sl_input lx))"
  note t = simple_lex_token_next [OF assms]
  have "length (c_str (dyn_data (sl_token lx'))) \<le> length (fst (lex_token (sl_lex_type lx) ?s))"
    using t by (auto simp: c_str_def takeWhile_append length_takeWhile_le)
  moreover have "length (snd (lex_token (sl_lex_type lx) ?s)) = dynar_size (sl_input lx) - sl_pos lx'"
    using t by (metis dynar_size_def length_drop)
  moreover have "length (fst (lex_token (sl_lex_type lx) ?s)) + length (snd (lex_token (sl_lex_type lx) ?s)) \<le>
      dynar_size (sl_input lx) - sl_pos lx"
    using lex_token_length [of "sl_lex_type lx" ?s] by (simp add: dynar_size_def)
  ultimately have "dynar_size (sl_input lx) - sl_pos lx' + length (c_str (dyn_data (sl_token lx'))) \<le>
      dynar_size (sl_input lx) - sl_pos lx" by linarith
  with t show ?thesis by blast
qed

lemma list_args_fuel:
  assumes "sl_pos lx \<le> dynar_size (sl_input lx)" and "dynar_size (sl_input lx) - sl_pos lx \<le> n"
  shows "list_args_loop al (n + k) lx verbose cluster_name = list_args_loop al n lx verbose cluster_name"
  using assms
proof (induction n arbitrary: lx verbose cluster_name)
  case 0
  show ?case
  proof (cases k)
    case (Suc j)
    obtain ok lx1 where t: "dynar_simple_lex_token_next al lx = (ok, lx1)" by fastforce
    have "c_str (dyn_data (sl_token lx1)) = []" if ok
      using token_takes_input [of al lx lx1] t that 0 by simp
    then show ?thesis using Suc t by simp
  qed simp
next
  case (Suc n)
  obtain ok lx1 where t: "dynar_simple_lex_token_next al lx = (ok, lx1)" by fastforce
  show ?case
  proof (cases "\<not> ok \<or> c_str (dyn_data (sl_token lx1)) = []")
    case True
    then show ?thesis using t by simp
  next
    case False
    then have word: "length (c_str (dyn_data (sl_token lx1))) > 0" by simp
    have "sl_input lx1 = sl_input lx \<and> sl_pos lx1 \<le> dynar_size (sl_input lx) \<and>
        dynar_size (sl_input lx) - sl_pos lx1 + length (c_str (dyn_data (sl_token lx1))) \<le>
        dynar_size (sl_input lx) - sl_pos lx"
      by (rule token_takes_input [of al, OF _ Suc.prems(1)]) (use t False in simp)
    note adv = this
    have "dynar_size (sl_input lx) - sl_pos lx1 \<le> n"
      using conjunct2 [OF conjunct2 [OF adv]] word Suc.prems(2) by linarith
    then have p1: "sl_pos lx1 \<le> dynar_size (sl_input lx1)" "dynar_size (sl_input lx1) - sl_pos lx1 \<le> n"
      using adv by simp_all
    obtain ok2 lx2 where t2: "dynar_simple_lex_token_next al lx1 = (ok2, lx2)" by fastforce
    have p2: "sl_pos lx2 \<le> dynar_size (sl_input lx2)" "dynar_size (sl_input lx2) - sl_pos lx2 \<le> n" if ok2
      using token_takes_input [of al lx1 lx2] t2 that p1 by simp_all
    show ?thesis using t t2 False Suc.IH [OF p1] Suc.IH [OF p2] by (simp add: Let_def)
  qed
qed

end
