(* ===== verification/Qnetd_Main_Loop.thy ===== *)
theory Qnetd_Main_Loop
  imports Qnetd_Client_Net Qnetd_Ipc
begin

text \<open>
  The server as a whole: the main loop of \<open>corosync-qnetd.c\<close> runs the poll loop with the callbacks of the
  listening socket, of the network clients (\<open>qnetd-client-net.c\<close>), of the local interface (\<open>qnetd-ipc.c\<close>) and
  with the callback of \<open>qnetd-instance.c\<close> that disconnects clients before each poll. The timers of the clients
  are fields of the clients (\<open>Qnetd_State\<close>); they run between two turns.

  The invariant ties the three lists together: every client of the network and every local client has one
  entry in the list of the poll loop, with its socket and its callbacks, and no entry belongs to a client that is gone.
\<close>

section \<open>Callbacks\<close>

text \<open>What the world outside does during one turn.\<close>

record qnetd_turn =
  qt_alloc :: allocator
  qt_mem :: memtail
  qt_nss :: nss_env
  qt_recv :: "client_ref \<Rightarrow> nat \<Rightarrow> recv_result"
  qt_send :: "client_ref \<Rightarrow> byte list \<Rightarrow> send_result"
  qt_accept :: accept_env
  qt_accept_socket :: nat
  qt_accept_addr :: "byte list"
  qt_ipc_sys :: unix_sys
  qt_ipc_recv :: "ipc_client_ref \<Rightarrow> nat \<Rightarrow> recv_result"
  qt_ipc_send :: "ipc_client_ref \<Rightarrow> byte list \<Rightarrow> send_result"
  qt_mkfd :: "int \<Rightarrow> bool"
  qt_poll :: "poll_desc list \<Rightarrow> u32 \<Rightarrow> int \<times> poll_flags list"

text \<open>The algorithms, as \<open>main\<close> registers them.\<close>

definition qnetd_algorithms :: algorithm_array where
  "qnetd_algorithms = snd (qnetd_algorithm_register_all (\<lambda>n. None))"

definition client_callbacks :: "qnetd_cb fd_callbacks" where
  "client_callbacks =
     \<lparr>fc_set_events = Some Cb_Client_Set_Events, fc_read = Some Cb_Client_Read, fc_write = Some Cb_Client_Write,
      fc_err = Some Cb_Client_Err\<rparr>"

definition server_callbacks :: "qnetd_cb fd_callbacks" where
  "server_callbacks = \<lparr>fc_set_events = None, fc_read = Some Cb_Server_Read, fc_write = None, fc_err = Some Cb_Server_Err\<rparr>"

definition put_instance :: "qnetd_instance \<Rightarrow> qnetd_state \<Rightarrow> qnetd_state" where
  "put_instance qi st = (fst st, (snd st)\<lparr>qw_instance := qi\<rparr>)"

definition with_client :: "client_ref \<Rightarrow> qnetd_state \<Rightarrow> (qnetd_instance \<Rightarrow> fault + 'a) \<Rightarrow> fault + 'a" where
  "with_client c st k =
     (if c \<in> set (qi_clients (qw_instance (snd st))) then k (qw_instance (snd st)) else Inl Use_After_Free)"

text \<open>
  \<open>server_socket_poll_loop_read_cb\<close> accepts one connection. \<open>qnetd_client_net_accept\<close> registers the new client
  with the poll loop and takes that back when the timer of the client cannot be started.
\<close>

definition server_socket_poll_loop_read_cb :: "qnetd_turn \<Rightarrow> qnetd_state \<Rightarrow> fault + (int \<times> qnetd_state)" where
  "server_socket_poll_loop_read_cb t st =
     (let qi = qw_instance (snd st); c = fresh_ref (qi_clients qi); sock = Socket_Prfd (qt_accept_socket t)
      in bindE (pr_poll_loop_add_prfd (qt_alloc t) (qt_mkfd t) (fst st) sock pollin client_callbacks (Ud_Client c))
           (\<lambda>(added, pl).
              case qnetd_client_net_accept (qt_alloc t) ((qt_accept t)\<lparr>ae_add_prfd := added = 0\<rparr>) qi of
                (r, qi') \<Rightarrow>
                  if r = 0
                  then Inr (0, (pl, (snd st)\<lparr>qw_instance := qi',
                         qw_client_socket := (qw_client_socket (snd st))(c := sock),
                         qw_client_addr_str := (qw_client_addr_str (snd st))(c := qt_accept_addr t)\<rparr>))
                  else Inr (0, put_instance qi' st)))"

definition server_socket_poll_loop_err_cb :: "qnetd_state \<Rightarrow> int \<times> qnetd_state" where
  "server_socket_poll_loop_err_cb st = (-1, st)"

definition net_set_events :: "poll_flags \<Rightarrow> client_ref \<Rightarrow> qnetd_state \<Rightarrow> fault + (int \<times> poll_flags \<times> qnetd_state)" where
  "net_set_events events c st =
     with_client c st (\<lambda>qi.
       case qnetd_client_net_socket_poll_loop_set_events_cb (qi_client qi c) of
         (r, out) \<Rightarrow> Inr (r, events OR flag_if out pollout, st))"

definition net_read :: "qnetd_turn \<Rightarrow> client_ref \<Rightarrow> qnetd_state \<Rightarrow> fault + (int \<times> qnetd_state)" where
  "net_read t c st =
     with_client c st (\<lambda>qi.
       bindE (qnetd_client_net_socket_poll_loop_read_cb (qt_alloc t) (qt_mem t) (qt_nss t) qnetd_algorithms
                (qt_recv t c) c qi) (\<lambda>qi'. Inr (0, put_instance qi' st)))"

definition net_write :: "qnetd_turn \<Rightarrow> client_ref \<Rightarrow> qnetd_state \<Rightarrow> fault + (int \<times> qnetd_state)" where
  "net_write t c st =
     with_client c st (\<lambda>qi.
       Inr (0, put_instance (qnetd_client_net_socket_poll_loop_write_cb (qt_send t c) c qi) st))"

definition net_err :: "client_ref \<Rightarrow> qnetd_state \<Rightarrow> fault + (int \<times> qnetd_state)" where
  "net_err c st =
     with_client c st (\<lambda>qi. Inr (0, put_instance (qnetd_client_net_socket_poll_loop_err_cb c qi) st))"

text \<open>\<open>qnetd_instance_poll_loop_pre_poll_cb\<close> with the poll loop that it takes the sockets from.\<close>

fun disconnect_walk :: "qnetd_turn \<Rightarrow> client_ref list \<Rightarrow> qnetd_state \<Rightarrow> fault + (int \<times> qnetd_state)" where
  "disconnect_walk t [] st = Inr (0, st)"
| "disconnect_walk t (c # cs) st =
     (if cl_schedule_disconnect (qi_client (qw_instance (snd st)) c)
      then bindE (pr_poll_loop_del_prfd (fst st) (qw_client_socket (snd st) c)) (\<lambda>(r, pl).
             if r = -1 then Inr (-1, (pl, snd st))
             else bindE (qnetd_instance_client_disconnect (qt_alloc t) qnetd_algorithms c False
                           (qw_instance (snd st))) (\<lambda>qi. disconnect_walk t cs (put_instance qi (pl, snd st))))
      else disconnect_walk t cs st)"

definition pre_poll_cb :: "qnetd_turn \<Rightarrow> qnetd_state \<Rightarrow> fault + (int \<times> qnetd_state)" where
  "pre_poll_cb t st = disconnect_walk t (qi_clients (qw_instance (snd st))) st"

text \<open>
  Which callback a name stands for. A callback that is called with the user data of another one would misuse
  a pointer.
\<close>

definition qnetd_set_events ::
    "qnetd_cb \<Rightarrow> poll_handle \<Rightarrow> poll_flags \<Rightarrow> qnetd_ud \<Rightarrow> qnetd_state \<Rightarrow> fault + (int \<times> poll_flags \<times> qnetd_state)" where
  "qnetd_set_events cb h events ud st =
     (case (cb, h, ud) of
        (Cb_Client_Set_Events, Prfd p, Ud_Client c) \<Rightarrow> net_set_events events c st
      | (Cb_Ipc_Set_Events, Fd fd, Ud_Instance) \<Rightarrow> Inr (ipc_socket_poll_loop_set_events_cb events st)
      | (Cb_Ipc_Client_Set_Events, Fd fd, Ud_Ipc_Client u) \<Rightarrow> ipc_client_socket_poll_loop_set_events_cb fd events u st
      | _ \<Rightarrow> Inl Type_Confusion)"

definition qnetd_read ::
    "qnetd_turn \<Rightarrow> qnetd_cb \<Rightarrow> poll_handle \<Rightarrow> qnetd_ud \<Rightarrow> qnetd_state \<Rightarrow> fault + (int \<times> qnetd_state)" where
  "qnetd_read t cb h ud st =
     (case (cb, ud) of
        (Cb_Server_Read, Ud_Instance) \<Rightarrow> server_socket_poll_loop_read_cb t st
      | (Cb_Client_Read, Ud_Client c) \<Rightarrow> net_read t c st
      | (Cb_Ipc_Read, Ud_Instance) \<Rightarrow> ipc_socket_poll_loop_read_cb (qt_alloc t) (qt_ipc_sys t) (qt_mkfd t) st
      | (Cb_Ipc_Client_Read, Ud_Ipc_Client u) \<Rightarrow> ipc_client_socket_poll_loop_read_cb (qt_alloc t) (qt_ipc_recv t u) u st
      | _ \<Rightarrow> Inl Type_Confusion)"

definition qnetd_write ::
    "qnetd_turn \<Rightarrow> qnetd_cb \<Rightarrow> poll_handle \<Rightarrow> qnetd_ud \<Rightarrow> qnetd_state \<Rightarrow> fault + (int \<times> qnetd_state)" where
  "qnetd_write t cb h ud st =
     (case (cb, ud) of
        (Cb_Client_Write, Ud_Client c) \<Rightarrow> net_write t c st
      | (Cb_Ipc_Client_Write, Ud_Ipc_Client u) \<Rightarrow> ipc_client_socket_poll_loop_write_cb (qt_ipc_sys t) (qt_ipc_send t u) u st
      | _ \<Rightarrow> Inl Type_Confusion)"

definition qnetd_err ::
    "qnetd_cb \<Rightarrow> poll_handle \<Rightarrow> poll_flags \<Rightarrow> qnetd_ud \<Rightarrow> qnetd_state \<Rightarrow> fault + (int \<times> qnetd_state)" where
  "qnetd_err cb h revents ud st =
     (case (cb, ud) of
        (Cb_Server_Err, Ud_Instance) \<Rightarrow> Inr (server_socket_poll_loop_err_cb st)
      | (Cb_Client_Err, Ud_Client c) \<Rightarrow> net_err c st
      | (Cb_Ipc_Err, Ud_Instance) \<Rightarrow> Inr (ipc_socket_poll_loop_err_cb st)
      | (Cb_Ipc_Client_Err, Ud_Ipc_Client u) \<Rightarrow> ipc_client_socket_poll_loop_err_cb u st
      | _ \<Rightarrow> Inl Type_Confusion)"

definition qnetd_env :: "qnetd_turn \<Rightarrow> (qnetd_cb, qnetd_ud, qnetd_world) poll_env" where
  "qnetd_env t =
     \<lparr>pv_alloc = qt_alloc t,
      pv_pre_poll = (\<lambda>cb ud st. if cb = Cb_Pre_Poll \<and> ud = Ud_Instance then pre_poll_cb t st else Inl Type_Confusion),
      pv_set_events = qnetd_set_events, pv_read = qnetd_read t, pv_write = qnetd_write t, pv_err = qnetd_err,
      pv_timer = (\<lambda>r st. Inl Type_Confusion), pv_poll = (\<lambda>descs timeout w. qt_poll t descs timeout),
      pv_ms = (\<lambda>x. x), pv_now = 0\<rparr>"

text \<open>\<open>qnetd_run_main_loop\<close>, for the turns in the list; \<open>None\<close> says that the list ended first.\<close>

fun qnetd_run_main_loop :: "qnetd_turn list \<Rightarrow> qnetd_state \<Rightarrow> (loop_fault + (int \<times> qnetd_state)) option" where
  "qnetd_run_main_loop [] st = None"
| "qnetd_run_main_loop (t # ts) st =
     (case pr_poll_loop_exec (qnetd_env t) st of
        None \<Rightarrow> None
      | Some (Inl f) \<Rightarrow> Some (Inl f)
      | Some (Inr (poll_res, st')) \<Rightarrow>
          if poll_res = 0 then qnetd_run_main_loop ts st'
          else if poll_res = -2 \<or> poll_res = -3 then Some (Inr (-1, st'))
          else Some (Inr (if qnetd_ipc_is_closed (snd st') then 0 else -1, st')))"

section \<open>Start\<close>

text \<open>
  The steps of \<open>main\<close> that set up the loop: the instance with its callback, the local socket and the listening
  socket, whose NSPR descriptor is \<open>sock\<close>. \<open>None\<close> is an early exit.
\<close>

definition qnetd_world_init ::
    "tlv_tls_supported \<Rightarrow> bool \<Rightarrow> nat \<Rightarrow> qnetd_advanced_settings \<Rightarrow> byte list option \<Rightarrow> u16 \<Rightarrow> qnetd_world" where
  "qnetd_world_init tls_supported client_cert_required max_clients as host_addr host_port =
     \<lparr>qw_instance = qnetd_instance_init tls_supported client_cert_required max_clients as,
      qw_client_socket = (\<lambda>c. Socket_Prfd 0), qw_client_addr_str = (\<lambda>c. []),
      qw_local_ipc = \<lparr>ui_socket = 0, ui_backlog = 0, ui_socket_file_name = None, ui_clients = [], ui_max_clients = 0,
        ui_max_receive_size = 0, ui_max_send_size = 0, ui_next_ref = 0\<rparr>,
      qw_host_addr = host_addr, qw_host_port = host_port\<rparr>"

definition qnetd_start ::
    "allocator \<Rightarrow> unix_sys \<Rightarrow> (int \<Rightarrow> bool) \<Rightarrow> nat \<Rightarrow> qnetd_world \<Rightarrow> fault + qnetd_state option" where
  "qnetd_start al sys mkfd sock w =
     (case pr_poll_loop_add_pre_poll_cb al pr_poll_loop_init (Some Cb_Pre_Poll) Ud_Instance of
        (r, pl) \<Rightarrow>
          if r = -1 then Inr None
          else bindE (qnetd_ipc_init al sys mkfd (pl, w)) (\<lambda>(r2, st).
                 if r2 \<noteq> 0 then Inr None
                 else bindE (pr_poll_loop_add_prfd al mkfd (fst st) (Socket_Prfd sock) pollin server_callbacks Ud_Instance)
                        (\<lambda>(r3, pl3). if r3 \<noteq> 0 then Inr None else Inr (Some (pl3, snd st)))))"

text \<open>
  The states between two turns. The signal handlers close the local socket; the timers of the clients run
  their callbacks (\<open>qnetd_step\<close> lists them among the events of the daemon).
\<close>

inductive qnetd_loop_reachable :: "qnetd_state \<Rightarrow> bool" where
  start: "qnetd_start al sys mkfd sock (qnetd_world_init tls cert max_clients as host port) = Inr (Some st) \<Longrightarrow>
    qnetd_loop_reachable st"
| turn: "qnetd_loop_reachable st \<Longrightarrow> pr_poll_loop_exec (qnetd_env t) st = Some (Inr (0, st')) \<Longrightarrow>
    qnetd_loop_reachable st'"
| signal_handler: "qnetd_loop_reachable st \<Longrightarrow> qnetd_loop_reachable (fst st, snd (qnetd_ipc_close sys (snd st)))"
| algo_timer: "qnetd_loop_reachable st \<Longrightarrow> c \<in> set (qi_clients (qw_instance (snd st))) \<Longrightarrow>
    qnetd_client_algo_timer_callback al qnetd_algorithms c (qw_instance (snd st)) = Inr (r, qi) \<Longrightarrow>
    qnetd_loop_reachable (put_instance qi st)"
| dpd_timer: "qnetd_loop_reachable st \<Longrightarrow> c \<in> set (qi_clients (qw_instance (snd st))) \<Longrightarrow>
    qnetd_dpd_timer_cb (qi_client (qw_instance (snd st)) c) = Inr (r, client) \<Longrightarrow>
    qnetd_loop_reachable (put_instance (upd_client c (\<lambda>cl. client) (qw_instance (snd st))) st)"

end
