(* ===== verification/Qnetd_Loop_Inv.thy ===== *)
theory Qnetd_Loop_Inv
  imports Qnetd_Main_Loop
begin

text \<open>
  The callbacks of the server keep the contract of the poll loop. The invariant \<open>qnetd_loop_inv\<close> ties the list
  of the loop to the clients: every entry belongs to a client that exists and every client has an entry. It
  also says that every local client waits for input, has an answer to send or is about to be disconnected.
\<close>

section \<open>Registering and deleting descriptors\<close>

lemma add_fd_int_cases:
  assumes "pr_poll_loop_add_fd_int al mkfd pl fd prfd events fcb pcb ud = Inr (r, pl')"
  shows "r = -1 \<and> pl' = pl \<or>
    r = 0 \<and> (\<forall>x \<in> set (pl_fd_list pl). \<not> entry_is fd prfd (snd x)) \<and>
    pl' = pl\<lparr>pl_fd_list := pl_fd_list pl @ [(pl_next_ref pl,
        new_fd_entry fd (if fd = -1 then the prfd else Poll_Prfd fd) events fcb pcb ud)],
      pl_next_ref := pl_next_ref pl + 1\<rparr>"
proof (cases "find (\<lambda>(r, e). entry_is fd prfd e) (pl_fd_list pl)")
  case None
  then have "\<forall>x \<in> set (pl_fd_list pl). \<not> entry_is fd prfd (snd x)"
    by (auto simp: find_None_iff)
  with None show ?thesis
    using assms
    by (auto simp: pr_poll_loop_add_fd_int_def pr_poll_loop_find_by_fd_def one_handle_def
        split: if_splits option.splits)
next
  case (Some y)
  then show ?thesis
    using assms by (simp add: pr_poll_loop_add_fd_int_def pr_poll_loop_find_by_fd_def split: if_splits)
qed

lemma find_unique:
  assumes "y \<in> set xs" and "P y" and "\<And>x. x \<in> set xs \<Longrightarrow> P x \<Longrightarrow> x = y"
  shows "find P xs = Some y"
proof (cases "find P xs")
  case None
  then show ?thesis using assms(1,2) by (auto simp: find_None_iff)
next
  case (Some x)
  then have "x \<in> set xs" "P x" by (auto simp: find_Some_iff)
  then show ?thesis using assms(3) Some by blast
qed

lemma del_fd_int_entry:
  assumes "(r, e) \<in> set (pl_fd_list pl)" and "one_handle fd prfd"
    and "entry_is fd prfd e" and "\<And>x. x \<in> set (pl_fd_list pl) \<Longrightarrow> entry_is fd prfd (snd x) \<Longrightarrow> x = (r, e)"
  shows "pr_poll_loop_del_fd_int pl fd prfd =
    Inr (0, pl\<lparr>pl_fd_list := filter (\<lambda>x. fst x \<noteq> r) (pl_fd_list pl)\<rparr>)"
proof -
  have "find (\<lambda>(r, e). entry_is fd prfd e) (pl_fd_list pl) = Some (r, e)"
    by (rule find_unique [OF assms(1)]) (use assms(3,4) in auto)
  then show ?thesis
    using assms(2) by (simp add: pr_poll_loop_del_fd_int_def pr_poll_loop_find_by_fd_def)
qed

section \<open>The invariant\<close>

definition ipc_client_ok :: "unix_socket_client \<Rightarrow> bool" where
  "ipc_client_ok client \<longleftrightarrow>
     uc_user_data client \<noteq> None \<and>
     (uc_reading_line client \<or> uc_writing_buffer client \<or> uc_schedule_disconnect client)"

abbreviation net_clients :: "qnetd_world \<Rightarrow> client_ref list" where
  "net_clients w \<equiv> qi_clients (qw_instance w)"

abbreviation ipc_clients :: "qnetd_world \<Rightarrow> (ipc_client_ref \<times> unix_socket_client) list" where
  "ipc_clients w \<equiv> ui_clients (qw_local_ipc w)"

definition net_entry :: "prfd \<Rightarrow> client_ref \<Rightarrow> (qnetd_cb, qnetd_ud) poll_loop_fd_entry" where
  "net_entry p c = new_fd_entry (-1) p pollin no_callbacks client_callbacks (Ud_Client c)"

definition ipc_entry :: "int \<Rightarrow> ipc_client_ref \<Rightarrow> (qnetd_cb, qnetd_ud) poll_loop_fd_entry" where
  "ipc_entry fd u = new_fd_entry fd (Poll_Prfd fd) 0 ipc_client_callbacks no_callbacks (Ud_Ipc_Client u)"

definition server_entry :: "nat \<Rightarrow> (qnetd_cb, qnetd_ud) poll_loop_fd_entry" where
  "server_entry n = new_fd_entry (-1) (Socket_Prfd n) pollin no_callbacks server_callbacks Ud_Instance"

definition ipc_socket_entry :: "int \<Rightarrow> (qnetd_cb, qnetd_ud) poll_loop_fd_entry" where
  "ipc_socket_entry fd = new_fd_entry fd (Poll_Prfd fd) pollin ipc_socket_callbacks no_callbacks Ud_Instance"

inductive entry_ok :: "qnetd_world \<Rightarrow> (qnetd_cb, qnetd_ud) poll_loop_fd_entry \<Rightarrow> bool" for w where
  server: "entry_ok w (server_entry n)"
| ipc_socket: "fd \<ge> 0 \<Longrightarrow> entry_ok w (ipc_socket_entry fd)"
| net: "c \<in> set (net_clients w) \<Longrightarrow> qw_client_socket w c = Socket_Prfd n \<Longrightarrow> entry_ok w (net_entry (Socket_Prfd n) c)"
| ipc: "(u, client) \<in> set (ipc_clients w) \<Longrightarrow> uc_socket client = fd \<Longrightarrow> fd \<ge> 0 \<Longrightarrow> entry_ok w (ipc_entry fd u)"

definition loop_part :: "qnetd_loop \<Rightarrow> bool" where
  "loop_part pl \<longleftrightarrow>
     distinct (map fst (pl_fd_list pl)) \<and> (\<forall>x \<in> set (pl_fd_list pl). fst x < pl_next_ref pl) \<and>
     distinct (map (\<lambda>x. fe_prfd (snd x)) (pl_fd_list pl)) \<and>
     pl_pre_poll_cb_list pl = [(0, \<lparr>pe_pre_poll_cb = Some Cb_Pre_Poll, pe_user_data = Ud_Instance\<rparr>)] \<and>
     tl_entries (pl_tlist pl) = []"

definition world_part :: "qnetd_world \<Rightarrow> bool" where
  "world_part w \<longleftrightarrow>
     distinct (net_clients w) \<and> distinct (map fst (ipc_clients w)) \<and>
     (\<forall>x \<in> set (ipc_clients w). fst x < ui_next_ref (qw_local_ipc w) \<and> ipc_client_ok (snd x))"

definition registered_part :: "qnetd_state \<Rightarrow> bool" where
  "registered_part st \<longleftrightarrow>
     (\<forall>x \<in> set (pl_fd_list (fst st)). entry_ok (snd st) (snd x)) \<and>
     (\<exists>x \<in> set (pl_fd_list (fst st)). \<exists>fd. snd x = ipc_socket_entry fd) \<and>
     (\<forall>c \<in> set (net_clients (snd st)). Ud_Client c \<in> (\<lambda>x. fe_user_data (snd x)) ` set (pl_fd_list (fst st))) \<and>
     (\<forall>u \<in> fst ` set (ipc_clients (snd st)). Ud_Ipc_Client u \<in> (\<lambda>x. fe_user_data (snd x)) ` set (pl_fd_list (fst st)))"

definition qnetd_loop_inv :: "qnetd_state \<Rightarrow> bool" where
  "qnetd_loop_inv st \<longleftrightarrow> loop_part (fst st) \<and> world_part (snd st) \<and> registered_part st"

lemmas entry_defs = net_entry_def ipc_entry_def server_entry_def ipc_socket_entry_def new_fd_entry_def
  client_callbacks_def ipc_client_callbacks_def server_callbacks_def ipc_socket_callbacks_def no_callbacks_def

text \<open>Changes of the world that keep the clients and their sockets.\<close>

definition same_clients :: "qnetd_world \<Rightarrow> qnetd_world \<Rightarrow> bool" where
  "same_clients w w' \<longleftrightarrow>
     net_clients w' = net_clients w \<and> qw_client_socket w' = qw_client_socket w \<and>
     map (\<lambda>x. (fst x, uc_socket (snd x))) (ipc_clients w') = map (\<lambda>x. (fst x, uc_socket (snd x))) (ipc_clients w)"

lemma same_clients_ipc:
  assumes "same_clients w w'" and "(u, client) \<in> set (ipc_clients w)"
  shows "\<exists>client'. (u, client') \<in> set (ipc_clients w') \<and> uc_socket client' = uc_socket client"
proof -
  have "(u, uc_socket client) \<in> (\<lambda>x. (fst x, uc_socket (snd x))) ` set (ipc_clients w)"
    using assms(2) by force
  also have "\<dots> = (\<lambda>x. (fst x, uc_socket (snd x))) ` set (ipc_clients w')"
    using assms(1) unfolding same_clients_def by (metis list.set_map)
  finally show ?thesis by auto
qed

lemma same_clients_refs: "same_clients w w' \<Longrightarrow> map fst (ipc_clients w') = map fst (ipc_clients w)"
  unfolding same_clients_def by (metis (mono_tags, lifting) fst_conv list.map_comp comp_def map_eq_conv)

lemma entry_ok_same: "entry_ok w e \<Longrightarrow> same_clients w w' \<Longrightarrow> entry_ok w' e"
proof (induction rule: entry_ok.induct)
  case (ipc u client fd)
  then show ?case using same_clients_ipc [of w w' u client] by (auto intro: entry_ok.ipc)
qed (auto intro: entry_ok.intros simp: same_clients_def)

lemma inv_same_clients:
  assumes inv: "qnetd_loop_inv (pl, w)" and same: "same_clients w w'"
    and next_ref: "ui_next_ref (qw_local_ipc w') = ui_next_ref (qw_local_ipc w)"
    and ok: "\<And>x. x \<in> set (ipc_clients w') \<Longrightarrow> ipc_client_ok (snd x)"
  shows "qnetd_loop_inv (pl, w')"
proof -
  note refs = same_clients_refs [OF same]
  have sets: "fst ` set (ipc_clients w') = fst ` set (ipc_clients w)"
    using arg_cong [OF refs, of set] by simp
  have bound: "\<forall>u \<in> fst ` set (ipc_clients w). u < ui_next_ref (qw_local_ipc w)"
    using inv by (auto simp: qnetd_loop_inv_def world_part_def)
  have "\<forall>x \<in> set (ipc_clients w'). fst x < ui_next_ref (qw_local_ipc w')"
    using bound next_ref sets by (metis image_eqI)
  then have "world_part w'"
    using inv same refs ok by (simp add: qnetd_loop_inv_def world_part_def same_clients_def)
  moreover have "registered_part (pl, w')"
    using inv same sets entry_ok_same [OF _ same]
    by (simp add: qnetd_loop_inv_def registered_part_def same_clients_def)
  ultimately show ?thesis
    using inv by (simp add: qnetd_loop_inv_def)
qed

lemma inv_put_instance:
  assumes "qnetd_loop_inv st" and "qi_clients qi = net_clients (snd st)"
  shows "qnetd_loop_inv (put_instance qi st)"
proof -
  obtain pl w where st: "st = (pl, w)" by (cases st)
  have "qnetd_loop_inv (pl, w\<lparr>qw_instance := qi\<rparr>)"
  proof (rule inv_same_clients)
    show "qnetd_loop_inv (pl, w)" using assms(1) st by simp
    show "same_clients w (w\<lparr>qw_instance := qi\<rparr>)" using assms(2) st by (simp add: same_clients_def)
    show "ipc_client_ok (snd x)" if "x \<in> set (ipc_clients (w\<lparr>qw_instance := qi\<rparr>))" for x
      using that assms(1) st by (simp add: qnetd_loop_inv_def world_part_def)
  qed simp
  then show ?thesis by (simp add: put_instance_def st)
qed

lemma inv_put_ipc_client:
  assumes inv: "qnetd_loop_inv st" and u: "ipc_client (qw_local_ipc (snd st)) u = Some client"
    and new: "ipc_client_ok client'" "uc_socket client' = uc_socket client"
  shows "qnetd_loop_inv (put_ipc_client u client' st)"
proof -
  obtain pl w where st: "st = (pl, w)" by (cases st)
  have dist: "distinct (map fst (ipc_clients w))" using inv st by (simp add: qnetd_loop_inv_def world_part_def)
  have at: "c = client" if "(u, c) \<in> set (ipc_clients w)" for c
    using that u st dist map_of_is_SomeI [OF dist that] by (simp add: ipc_client_def)
  let ?w = "upd_ipc (upd_ipc_client u (\<lambda>_. client')) w"
  have list: "ipc_clients ?w = map (\<lambda>(k, c). (k, if k = u then client' else c)) (ipc_clients w)"
    by (simp add: upd_ipc_def upd_ipc_client_def)
  have "qnetd_loop_inv (pl, ?w)"
  proof (rule inv_same_clients)
    show "qnetd_loop_inv (pl, w)" using inv st by simp
    have "map (\<lambda>x. (fst x, uc_socket (snd x))) (ipc_clients ?w) = map (\<lambda>x. (fst x, uc_socket (snd x))) (ipc_clients w)"
      using at new(2) by (auto simp: list)
    then show "same_clients w ?w" by (simp add: same_clients_def upd_ipc_def)
    show "ui_next_ref (qw_local_ipc ?w) = ui_next_ref (qw_local_ipc w)" by (simp add: upd_ipc_def upd_ipc_client_def)
    show "ipc_client_ok (snd x)" if "x \<in> set (ipc_clients ?w)" for x
      using that inv st new(1) by (auto simp: list qnetd_loop_inv_def world_part_def)
  qed
  then show ?thesis by (simp add: put_ipc_client_def st)
qed

lemma ipc_close_simps [simp]:
  "qw_instance (snd (qnetd_ipc_close sys w)) = qw_instance w"
  "qw_client_socket (snd (qnetd_ipc_close sys w)) = qw_client_socket w"
  "ipc_clients (snd (qnetd_ipc_close sys w)) = ipc_clients w"
  "ui_next_ref (qw_local_ipc (snd (qnetd_ipc_close sys w))) = ui_next_ref (qw_local_ipc w)"
  by (simp_all add: qnetd_ipc_close_def unix_socket_ipc_close_def)

lemma inv_ipc_close: "qnetd_loop_inv (pl, w) \<Longrightarrow> qnetd_loop_inv (pl, snd (qnetd_ipc_close sys w))"
  by (rule inv_same_clients [where w = w]) (auto simp: same_clients_def qnetd_loop_inv_def world_part_def)

section \<open>Entries of clients\<close>

lemma entry_prfd_unique:
  assumes "qnetd_loop_inv st" and "x \<in> set (pl_fd_list (fst st))" and "y \<in> set (pl_fd_list (fst st))"
    and "fe_prfd (snd x) = fe_prfd (snd y)"
  shows "x = y"
  using assms by (auto simp: qnetd_loop_inv_def loop_part_def distinct_map dest: inj_onD)

lemma inv_entry_ok: "qnetd_loop_inv st \<Longrightarrow> x \<in> set (pl_fd_list (fst st)) \<Longrightarrow> entry_ok (snd st) (snd x)"
  by (simp add: qnetd_loop_inv_def registered_part_def)

inductive_cases entry_okE: "entry_ok w e"

lemma entry_ok_client:
  "entry_ok w e \<Longrightarrow> fe_user_data e = Ud_Client c \<Longrightarrow>
     c \<in> set (net_clients w) \<and> (\<exists>n. qw_client_socket w c = Socket_Prfd n) \<and> e = net_entry (qw_client_socket w c) c"
  by (erule entry_okE) (auto simp: entry_defs)

lemma entry_ok_ipc:
  "entry_ok w e \<Longrightarrow> fe_user_data e = Ud_Ipc_Client u \<Longrightarrow>
     \<exists>client. (u, client) \<in> set (ipc_clients w) \<and> uc_socket client \<ge> 0 \<and> e = ipc_entry (uc_socket client) u"
  by (erule entry_okE) (auto simp: entry_defs)

lemma entry_ok_fd: "entry_ok w e \<Longrightarrow> fe_fd e \<noteq> -1 \<Longrightarrow> fe_prfd e = Poll_Prfd (fe_fd e)"
  by (erule entry_okE) (auto simp: entry_defs)

lemma ipc_client_lookup:
  assumes "qnetd_loop_inv st" and "(u, client) \<in> set (ipc_clients (snd st))"
  shows "ipc_client (qw_local_ipc (snd st)) u = Some client"
  using assms by (simp add: qnetd_loop_inv_def world_part_def ipc_client_def)

lemma client_entry_unique:
  assumes inv: "qnetd_loop_inv st" and x: "x \<in> set (pl_fd_list (fst st))" and y: "y \<in> set (pl_fd_list (fst st))"
    and ud: "fe_user_data (snd x) = fe_user_data (snd y)" "fe_user_data (snd x) \<noteq> Ud_Instance"
  shows "x = y"
proof (rule entry_prfd_unique [OF inv x y])
  note ok = inv_entry_ok [OF inv x] inv_entry_ok [OF inv y]
  show "fe_prfd (snd x) = fe_prfd (snd y)"
  proof (cases "fe_user_data (snd x)")
    case (Ud_Client c)
    then show ?thesis using entry_ok_client [OF ok(1), of c] entry_ok_client [OF ok(2), of c] ud by simp
  next
    case (Ud_Ipc_Client u)
    then obtain a b where "(u, a) \<in> set (ipc_clients (snd st))" "snd x = ipc_entry (uc_socket a) u"
      "(u, b) \<in> set (ipc_clients (snd st))" "snd y = ipc_entry (uc_socket b) u"
      using entry_ok_ipc [OF ok(1), of u] entry_ok_ipc [OF ok(2), of u] ud(1) by auto
    moreover have "a = b" using calculation(1,3) ipc_client_lookup [OF inv] by (metis option.inject)
    ultimately show ?thesis by simp
  qed (use ud in simp)
qed

text \<open>Deleting the entry of a client together with the client.\<close>

lemma inv_delete:
  assumes inv: "qnetd_loop_inv (pl, w)" and x: "(r, e) \<in> set (pl_fd_list pl)" and ud: "fe_user_data e \<noteq> Ud_Instance"
    and w': "world_part w'" "qw_client_socket w' = qw_client_socket w"
    and net: "set (net_clients w') = {c \<in> set (net_clients w). Ud_Client c \<noteq> fe_user_data e}"
    and ipc: "set (ipc_clients w') = {x \<in> set (ipc_clients w). Ud_Ipc_Client (fst x) \<noteq> fe_user_data e}"
  shows "qnetd_loop_inv (pl\<lparr>pl_fd_list := filter (\<lambda>x. fst x \<noteq> r) (pl_fd_list pl)\<rparr>, w')"
proof -
  let ?fds = "filter (\<lambda>x. fst x \<noteq> r) (pl_fd_list pl)"
  have dist: "distinct (map fst (pl_fd_list pl))" using inv by (simp add: qnetd_loop_inv_def loop_part_def)
  have keep: "x \<in> set ?fds \<longleftrightarrow> x \<in> set (pl_fd_list pl) \<and> fe_user_data (snd x) \<noteq> fe_user_data e"
    if "fe_user_data (snd x) \<noteq> Ud_Instance" for x
    using that client_entry_unique [OF inv, of x "(r, e)"] x ud eq_key_imp_eq_value [OF dist, of r e "snd x"]
    by (cases x) auto
  have dist': "distinct (map fst ?fds)" "distinct (map (\<lambda>x. fe_prfd (snd x)) ?fds)"
    using inv distinct_map_filter by (auto simp: qnetd_loop_inv_def loop_part_def)
  then have "loop_part (pl\<lparr>pl_fd_list := ?fds\<rparr>)"
    using inv by (simp add: qnetd_loop_inv_def loop_part_def)
  moreover have "entry_ok w' (snd y)" if y: "y \<in> set ?fds" for y
  proof -
    have "entry_ok w (snd y)" using inv_entry_ok [OF inv, of y] y by simp
    then show ?thesis
    proof (cases rule: entry_ok.cases)
      case (net c n)
      then have "Ud_Client c \<noteq> fe_user_data e" using keep [of y] y by (simp add: entry_defs)
      then show ?thesis using net w'(2) assms(6) by (auto intro: entry_ok.net)
    next
      case (ipc u client fd)
      then have "Ud_Ipc_Client u \<noteq> fe_user_data e" using keep [of y] y by (simp add: entry_defs)
      then show ?thesis using ipc assms(7) by (auto intro: entry_ok.ipc)
    qed (auto intro: entry_ok.intros)
  qed
  moreover have "v \<in> (\<lambda>x. fe_user_data (snd x)) ` set ?fds"
    if v: "v \<in> (\<lambda>x. fe_user_data (snd x)) ` set (pl_fd_list pl)" "v \<noteq> Ud_Instance" "v \<noteq> fe_user_data e" for v
    using v keep by auto
  moreover have "\<exists>x \<in> set ?fds. \<exists>fd. snd x = ipc_socket_entry fd"
  proof -
    obtain y fd where y: "y \<in> set (pl_fd_list pl)" "snd y = ipc_socket_entry fd"
      using inv by (auto simp: qnetd_loop_inv_def registered_part_def)
    have "fst y \<noteq> r"
      using eq_key_imp_eq_value [OF dist, of r e "snd y"] x y ud by (cases y) (auto simp: entry_defs)
    then have "y \<in> set ?fds" using y(1) by simp
    then show ?thesis using y(2) by blast
  qed
  ultimately show ?thesis
    using inv w'(1) net ipc by (auto simp: qnetd_loop_inv_def registered_part_def)
qed

lemma net_delete:
  assumes inv: "qnetd_loop_inv (pl, w)" and c: "c \<in> set (net_clients w)"
    and qi: "qi_clients qi = remove1 c (net_clients w)"
  shows "\<exists>r. pr_poll_loop_del_prfd pl (qw_client_socket w c) =
      Inr (0, pl\<lparr>pl_fd_list := filter (\<lambda>x. fst x \<noteq> r) (pl_fd_list pl)\<rparr>) \<and>
    qnetd_loop_inv (pl\<lparr>pl_fd_list := filter (\<lambda>x. fst x \<noteq> r) (pl_fd_list pl)\<rparr>, w\<lparr>qw_instance := qi\<rparr>)"
proof -
  obtain r e where e: "(r, e) \<in> set (pl_fd_list pl)" "fe_user_data e = Ud_Client c"
    using inv c by (auto simp: qnetd_loop_inv_def registered_part_def)
  have p: "fe_prfd e = qw_client_socket w c"
    using entry_ok_client [OF inv_entry_ok [OF inv, of "(r, e)"]] e by (simp add: entry_defs)
  have "pr_poll_loop_del_prfd pl (qw_client_socket w c) =
      Inr (0, pl\<lparr>pl_fd_list := filter (\<lambda>x. fst x \<noteq> r) (pl_fd_list pl)\<rparr>)"
    unfolding pr_poll_loop_del_prfd_def
  proof (rule del_fd_int_entry [OF e(1)])
    show "x = (r, e)" if "x \<in> set (pl_fd_list pl)" "entry_is (-1) (Some (qw_client_socket w c)) (snd x)" for x
      using entry_prfd_unique [OF inv, of x "(r, e)"] that e(1) p by (simp add: entry_is_def)
  qed (use p in \<open>simp_all add: one_handle_def entry_is_def\<close>)
  moreover have "qnetd_loop_inv (pl\<lparr>pl_fd_list := filter (\<lambda>x. fst x \<noteq> r) (pl_fd_list pl)\<rparr>, w\<lparr>qw_instance := qi\<rparr>)"
  proof (rule inv_delete [OF inv e(1)])
    have "distinct (net_clients w)" using inv by (simp add: qnetd_loop_inv_def world_part_def)
    then show "set (net_clients (w\<lparr>qw_instance := qi\<rparr>)) = {x \<in> set (net_clients w). Ud_Client x \<noteq> fe_user_data e}"
      using e(2) qi by auto
    show "world_part (w\<lparr>qw_instance := qi\<rparr>)"
      using inv qi by (simp add: qnetd_loop_inv_def world_part_def)
  qed (use e(2) in simp_all)
  ultimately show ?thesis by blast
qed

lemma ipc_delete:
  assumes inv: "qnetd_loop_inv (pl, w)" and u: "ipc_client (qw_local_ipc w) u = Some client"
    and e: "(r, e) \<in> set (pl_fd_list pl)" "fe_user_data e = Ud_Ipc_Client u"
  shows "pr_poll_loop_del_fd pl (fe_fd e) = Inr (0, pl\<lparr>pl_fd_list := filter (\<lambda>x. fst x \<noteq> r) (pl_fd_list pl)\<rparr>) \<and>
    qnetd_loop_inv (pl\<lparr>pl_fd_list := filter (\<lambda>x. fst x \<noteq> r) (pl_fd_list pl)\<rparr>, qnetd_ipc_client_disconnect u w)"
proof
  have ok: "entry_ok w e" using inv_entry_ok [OF inv, of "(r, e)"] e by simp
  from entry_ok_ipc [OF ok e(2)] have fd: "fe_fd e \<ge> 0" by (auto simp: entry_defs)
  have "x = (r, e)" if "x \<in> set (pl_fd_list pl)" "fe_fd (snd x) = fe_fd e" for x
    using entry_prfd_unique [OF inv, of x "(r, e)"] that e(1) fd entry_ok_fd [OF ok]
      entry_ok_fd [OF inv_entry_ok [OF inv, of x]] by simp
  then show "pr_poll_loop_del_fd pl (fe_fd e) = Inr (0, pl\<lparr>pl_fd_list := filter (\<lambda>x. fst x \<noteq> r) (pl_fd_list pl)\<rparr>)"
    unfolding pr_poll_loop_del_fd_def
    by (intro del_fd_int_entry [OF e(1)]) (use fd in \<open>auto simp: one_handle_def entry_is_def\<close>)
  have list: "ipc_clients (qnetd_ipc_client_disconnect u w) = filter (\<lambda>x. fst x \<noteq> u) (ipc_clients w)"
    by (simp add: qnetd_ipc_client_disconnect_def upd_ipc_def unix_socket_ipc_client_disconnect_def
        unix_socket_client_list_del_def)
  have rest: "net_clients (qnetd_ipc_client_disconnect u w) = net_clients w"
    "qw_client_socket (qnetd_ipc_client_disconnect u w) = qw_client_socket w"
    "ui_next_ref (qw_local_ipc (qnetd_ipc_client_disconnect u w)) = ui_next_ref (qw_local_ipc w)"
    by (simp_all add: qnetd_ipc_client_disconnect_def upd_ipc_def unix_socket_ipc_client_disconnect_def
        unix_socket_client_list_del_def)
  show "qnetd_loop_inv (pl\<lparr>pl_fd_list := filter (\<lambda>x. fst x \<noteq> r) (pl_fd_list pl)\<rparr>, qnetd_ipc_client_disconnect u w)"
  proof (rule inv_delete [OF inv e(1)])
    show "world_part (qnetd_ipc_client_disconnect u w)"
      using inv distinct_map_filter by (auto simp: qnetd_loop_inv_def world_part_def list rest)
  qed (use e(2) in \<open>auto simp: list rest\<close>)
qed

text \<open>Adding the entry of a new client.\<close>

lemma inv_add:
  assumes inv: "qnetd_loop_inv (pl, w)" and w': "world_part w'"
    and old: "\<And>x. entry_ok w x \<Longrightarrow> entry_ok w' x" and new: "entry_ok w' e"
    and prfd: "fe_prfd e \<notin> (\<lambda>x. fe_prfd (snd x)) ` set (pl_fd_list pl)"
    and net: "\<And>c. c \<in> set (net_clients w') \<Longrightarrow> c \<in> set (net_clients w) \<or> fe_user_data e = Ud_Client c"
    and ipc: "\<And>u. u \<in> fst ` set (ipc_clients w') \<Longrightarrow> u \<in> fst ` set (ipc_clients w) \<or> fe_user_data e = Ud_Ipc_Client u"
  shows "qnetd_loop_inv (pl\<lparr>pl_fd_list := pl_fd_list pl @ [(pl_next_ref pl, e)], pl_next_ref := pl_next_ref pl + 1\<rparr>, w')"
proof -
  have L: "loop_part pl" and R: "registered_part (pl, w)" using inv by (simp_all add: qnetd_loop_inv_def)
  have "pl_next_ref pl \<notin> fst ` set (pl_fd_list pl)" using L by (auto simp: loop_part_def)
  then have "loop_part (pl\<lparr>pl_fd_list := pl_fd_list pl @ [(pl_next_ref pl, e)], pl_next_ref := pl_next_ref pl + 1\<rparr>)"
    using L prfd by (auto simp: loop_part_def)
  moreover have "registered_part (pl\<lparr>pl_fd_list := pl_fd_list pl @ [(pl_next_ref pl, e)],
      pl_next_ref := pl_next_ref pl + 1\<rparr>, w')"
    unfolding registered_part_def fst_conv snd_conv
  proof (intro conjI ballI)
    show "entry_ok w' (snd x)" if "x \<in> set (pl_fd_list (pl\<lparr>pl_fd_list := pl_fd_list pl @ [(pl_next_ref pl, e)],
        pl_next_ref := pl_next_ref pl + 1\<rparr>))" for x
      using that R old new by (auto simp: registered_part_def)
    show "Ud_Client c \<in> (\<lambda>x. fe_user_data (snd x)) ` set (pl_fd_list (pl\<lparr>pl_fd_list := pl_fd_list pl @
        [(pl_next_ref pl, e)], pl_next_ref := pl_next_ref pl + 1\<rparr>))" if "c \<in> set (net_clients w')" for c
      using net [OF that] R by (auto simp: registered_part_def)
    show "Ud_Ipc_Client u \<in> (\<lambda>x. fe_user_data (snd x)) ` set (pl_fd_list (pl\<lparr>pl_fd_list := pl_fd_list pl @
        [(pl_next_ref pl, e)], pl_next_ref := pl_next_ref pl + 1\<rparr>))" if "u \<in> fst ` set (ipc_clients w')" for u
      using ipc [OF that] R by (auto simp: registered_part_def)
    show "\<exists>x \<in> set (pl_fd_list (pl\<lparr>pl_fd_list := pl_fd_list pl @ [(pl_next_ref pl, e)],
        pl_next_ref := pl_next_ref pl + 1\<rparr>)). \<exists>fd. snd x = ipc_socket_entry fd"
      using R by (auto simp: registered_part_def)
  qed
  ultimately show ?thesis using w' by (simp add: qnetd_loop_inv_def)
qed

lemma accept_clients:
  assumes "qnetd_client_net_accept al env qi = (r, qi')"
  shows "if r = 0 then ae_add_prfd env \<and> qi_clients qi' = qi_clients qi @ [fresh_ref (qi_clients qi)]
    else qi_clients qi' = qi_clients qi"
proof -
  let ?c = "fresh_ref (qi_clients qi)" and ?as = "qi_advanced_settings qi"
  obtain o1 q1 where add: "qnetd_client_list_add al qi (as_max_client_receive_size ?as)
      (as_max_client_send_buffers ?as) (as_max_client_send_size ?as) = (o1, q1)" by fastforce
  have q1: "o1 = None \<and> q1 = qi \<or> o1 = Some ?c \<and> qi_clients q1 = qi_clients qi @ [?c]"
    using add by (auto simp: qnetd_client_list_add_def Let_def split: if_splits)
  obtain r2 q2 where timer: "on_client ?c (qnetd_client_dpd_timer_init al ?as) q1 = (r2, q2)" by fastforce
  then have q2: "qi_clients q2 = qi_clients q1" by (auto simp: on_client_def split: prod.splits)
  have "r \<noteq> 0 \<and> qi' = qi \<or> o1 = Some ?c \<and>
      (r \<noteq> 0 \<and> (qi' = qnetd_client_list_del q1 ?c \<or> qi' = qnetd_client_list_del q2 ?c) \<or>
       r = 0 \<and> ae_add_prfd env \<and> qi' = q2)"
    using assms q1 timer by (auto simp: qnetd_client_net_accept_def Let_def add split: if_splits)
  moreover have "remove1 ?c (qi_clients qi @ [?c]) = qi_clients qi"
    using fresh_ref_notin [of "qi_clients qi"] by (simp add: remove1_append)
  ultimately show ?thesis
    using q1 q2 by (auto simp: client_list_del_result)
qed

lemma server_read_law:
  assumes inv: "qnetd_loop_inv st" and run: "server_socket_poll_loop_read_cb t st = Inr (res, st')"
  shows "qnetd_loop_inv st' \<and> same_array st st' \<and> refs_of st \<subseteq> refs_of st'"
proof -
  obtain pl w where st: "st = (pl, w)" by (cases st)
  let ?qi = "qw_instance w" and ?s = "Socket_Prfd (qt_accept_socket t)"
  let ?c = "fresh_ref (qi_clients ?qi)"
  obtain added pl1 where add: "pr_poll_loop_add_prfd (qt_alloc t) (qt_mkfd t) pl ?s pollin client_callbacks (Ud_Client ?c) =
      Inr (added, pl1)"
    using run unfolding server_socket_poll_loop_read_cb_def st Let_def by (auto simp: bindE_Inr_iff)
  obtain r qi' where acc: "qnetd_client_net_accept (qt_alloc t) ((qt_accept t)\<lparr>ae_add_prfd := added = 0\<rparr>) ?qi = (r, qi')"
    by fastforce
  note clients = accept_clients [OF acc]
  show ?thesis
  proof (cases "r = 0")
    case False
    then have "st' = put_instance qi' st"
      using run add acc unfolding server_socket_poll_loop_read_cb_def st Let_def by simp
    moreover have "qi_clients qi' = net_clients (snd st)" using clients False st by simp
    ultimately show ?thesis
      using inv_put_instance [OF inv, of qi'] by (auto simp: same_array_def put_instance_def)
  next
    case True
    then have added: "added = 0" and qi': "qi_clients qi' = net_clients w @ [?c]" using clients by simp_all
    let ?w = "w\<lparr>qw_instance := qi', qw_client_socket := (qw_client_socket w)(?c := ?s),
      qw_client_addr_str := (qw_client_addr_str w)(?c := qt_accept_addr t)\<rparr>"
    have st': "st' = (pl1, ?w)"
      using run add acc True unfolding server_socket_poll_loop_read_cb_def st Let_def by simp
    have pl1: "pl1 = pl\<lparr>pl_fd_list := pl_fd_list pl @ [(pl_next_ref pl, net_entry ?s ?c)], pl_next_ref := pl_next_ref pl + 1\<rparr>"
      and free: "\<forall>x \<in> set (pl_fd_list pl). fe_prfd (snd x) \<noteq> ?s"
      using add_fd_int_cases [OF add [unfolded pr_poll_loop_add_prfd_def]] added
      by (auto simp: net_entry_def entry_is_def)
    have fresh: "?c \<notin> set (net_clients w)" by (rule fresh_ref_notin)
    have inv': "qnetd_loop_inv (pl, w)" using inv st by simp
    have "qnetd_loop_inv (pl1, ?w)"
      unfolding pl1
    proof (rule inv_add [OF inv'])
      show "world_part ?w" using inv' qi' fresh by (simp add: qnetd_loop_inv_def world_part_def)
      show "entry_ok ?w x" if "entry_ok w x" for x
        using that fresh qi' by (cases rule: entry_ok.cases) (auto intro: entry_ok.intros)
      show "entry_ok ?w (net_entry ?s ?c)" by (rule entry_ok.net) (simp_all add: qi')
      show "fe_prfd (net_entry ?s ?c) \<notin> (\<lambda>x. fe_prfd (snd x)) ` set (pl_fd_list pl)"
        using free by (auto simp: entry_defs)
    qed (use qi' in \<open>auto simp: entry_defs\<close>)
    then show ?thesis by (auto simp: st' st same_array_def pl1)
  qed
qed

lemma entry_ok_poll: "entry_ok w e \<Longrightarrow> fe_prfd e = Poll_Prfd fd \<Longrightarrow> fe_fd e = fd"
  by (erule entry_okE) (auto simp: entry_defs)

lemma ipc_accept_law:
  assumes inv: "qnetd_loop_inv st" and run: "qnetd_ipc_accept al sys mkfd st = Inr (res, st')"
  shows "qnetd_loop_inv st' \<and> same_array st st' \<and> refs_of st \<subseteq> refs_of st'"
proof -
  obtain pl w where st: "st = (pl, w)" by (cases st)
  have inv': "qnetd_loop_inv (pl, w)" using inv st by simp
  let ?ipc = "qw_local_ipc w" and ?sock = "unix_socket_server_accept sys True"
  let ?u = "ui_next_ref ?ipc"
  obtain a o1 ipc where acc: "unix_socket_ipc_accept al sys ?ipc = (a, o1, ipc)" by (metis prod.exhaust)
  have new_u: "?u \<notin> fst ` set (ui_clients ?ipc)"
    using inv' by (auto simp: qnetd_loop_inv_def world_part_def)
  show ?thesis
  proof (cases o1)
    case None
    then have "ipc = ?ipc" using acc
      by (auto simp: unix_socket_ipc_accept_def unix_socket_client_list_add_def Let_def split: if_splits)
    then show ?thesis using run acc None inv st by (auto simp: qnetd_ipc_accept_def same_array_def)
  next
    case (Some u)
    define cl where "cl = unix_socket_client_init ?sock (ui_max_receive_size ?ipc) (ui_max_send_size ?ipc) None"
    have sock: "?sock \<ge> 0" and u: "u = ?u" and
      ipc: "ipc = ?ipc\<lparr>ui_clients := ui_clients ?ipc @ [(?u, cl)], ui_next_ref := ?u + 1\<rparr>"
      using acc Some
      by (auto simp: unix_socket_ipc_accept_def unix_socket_client_list_add_def Let_def cl_def split: if_splits)
    define cl' where "cl' = cl\<lparr>uc_reading_line := True, uc_user_data := Some False\<rparr>"
    let ?gone = "w\<lparr>qw_local_ipc := ?ipc\<lparr>ui_next_ref := ?u + 1\<rparr>\<rparr>"
    let ?w = "w\<lparr>qw_local_ipc := ?ipc\<lparr>ui_clients := ui_clients ?ipc @ [(?u, cl')], ui_next_ref := ?u + 1\<rparr>\<rparr>"
    have upd: "map (\<lambda>(k, c). (k, if k = ?u then f c else c)) (ui_clients ?ipc) = ui_clients ?ipc" for f
      using new_u by (intro map_idI) force
    have keep: "filter (\<lambda>x. fst x \<noteq> ?u) (ui_clients ?ipc) = ui_clients ?ipc"
      using new_u by (force simp: filter_id_conv)
    define w1 where "w1 = w\<lparr>qw_local_ipc := upd_ipc_client u (unix_socket_client_read_line True) ipc\<rparr>"
    define w2 where "w2 = upd_ipc (upd_ipc_client u (\<lambda>c. c\<lparr>uc_user_data := Some False\<rparr>)) w1"
    have w1: "w1 = w\<lparr>qw_local_ipc := ?ipc\<lparr>ui_clients := ui_clients ?ipc @ [(?u, cl\<lparr>uc_reading_line := True\<rparr>)],
        ui_next_ref := ?u + 1\<rparr>\<rparr>"
      by (simp add: w1_def u ipc upd_ipc_client_def upd unix_socket_client_read_line_def)
    have w2: "w2 = ?w" by (simp add: w2_def w1 u upd_ipc_def upd_ipc_client_def upd cl'_def)
    have gone: "qnetd_ipc_client_disconnect u w1 = ?gone" "qnetd_ipc_client_disconnect u w2 = ?gone"
      by (simp_all add: w1 w2 u qnetd_ipc_client_disconnect_def upd_ipc_def unix_socket_ipc_client_disconnect_def
          unix_socket_client_list_del_def keep)
    have inv_gone: "qnetd_loop_inv (pl, ?gone)"
      using inv' entry_ok_same [of w _ ?gone]
      by (auto simp: qnetd_loop_inv_def world_part_def registered_part_def same_clients_def intro: less_SucI)
    have body: "(if \<not> al Malloc_Ipc_User_Data then Inr (-1, (pl, ?gone))
        else bindE (pr_poll_loop_add_fd al mkfd pl ?sock 0 ipc_client_callbacks (Ud_Ipc_Client u)) (\<lambda>(r, pl').
          if r = -1 then Inr (-1, (pl', ?gone)) else Inr (0, (pl', ?w)))) = Inr (res, st')"
      using run
      unfolding qnetd_ipc_accept_def st fst_conv snd_conv acc Some prod.case option.case Let_def
        w1_def [symmetric] w2_def [symmetric]
      unfolding gone unfolding w2 .
    show ?thesis
    proof (cases "st' = (pl, ?gone)")
      case True
      then show ?thesis using inv_gone st by (simp add: same_array_def)
    next
      case False
      then obtain r pl' where add: "pr_poll_loop_add_fd al mkfd pl ?sock 0 ipc_client_callbacks (Ud_Ipc_Client u) = Inr (r, pl')"
        and st': "st' = (if r = -1 then (pl', ?gone) else (pl', ?w))"
        using body by (auto simp: bindE_Inr_iff split: if_splits)
      from add_fd_int_cases [OF add [unfolded pr_poll_loop_add_fd_def]] False st'
      have r: "r = 0" and free: "\<forall>x \<in> set (pl_fd_list pl). fe_fd (snd x) \<noteq> ?sock" and
        pl': "pl' = pl\<lparr>pl_fd_list := pl_fd_list pl @ [(pl_next_ref pl, ipc_entry ?sock ?u)], pl_next_ref := pl_next_ref pl + 1\<rparr>"
        using sock u by (auto simp: ipc_entry_def entry_is_def)
      have cl': "ipc_client_ok cl'" "uc_socket cl' = ?sock"
        by (simp_all add: cl'_def cl_def ipc_client_ok_def unix_socket_client_init_def)
      have "qnetd_loop_inv (pl', ?w)"
        unfolding pl'
      proof (rule inv_add [OF inv'])
        show "world_part ?w" using inv' new_u cl'(1) by (auto simp: qnetd_loop_inv_def world_part_def)
        show "entry_ok ?w x" if "entry_ok w x" for x
          using that by (cases rule: entry_ok.cases) (auto intro: entry_ok.intros)
        show "entry_ok ?w (ipc_entry ?sock ?u)" by (rule entry_ok.ipc [of _ cl']) (use cl' sock in simp_all)
        show "fe_prfd (ipc_entry ?sock ?u) \<notin> (\<lambda>x. fe_prfd (snd x)) ` set (pl_fd_list pl)"
        proof
          assume "fe_prfd (ipc_entry ?sock ?u) \<in> (\<lambda>x. fe_prfd (snd x)) ` set (pl_fd_list pl)"
          then obtain x where "x \<in> set (pl_fd_list pl)" "fe_prfd (snd x) = Poll_Prfd ?sock" by (auto simp: entry_defs)
          then show False using entry_ok_poll [OF inv_entry_ok [OF inv', of x]] free by simp
        qed
      qed (auto simp: entry_defs)
      then show ?thesis by (auto simp: st' r st same_array_def pl')
    qed
  qed
qed

section \<open>The callbacks keep the contract\<close>

text \<open>Handling a message neither adds nor removes a client.\<close>

lemma same_links_clients: "same_links a b \<Longrightarrow> qi_clients b = qi_clients a"
  by (simp add: same_links_def)

lemma add_client_clients:
  "qnetd_cluster_list_add_client al c name qi = (r, qi') \<Longrightarrow> qi_clients qi' = qi_clients qi"
  by (auto simp: qnetd_cluster_list_add_client_def cluster_add_member_def upd_cluster_def Let_def
      split: option.splits if_splits)

lemma init_join_clients:
  assumes reg: "registered aa" and run: "init_join al aa c qi = Inr (e, qi')"
  shows "qi_clients qi' = qi_clients qi"
proof -
  from run obtain name where name: "cl_cluster_name (qi_client qi c) = Some name"
    unfolding init_join_def by (auto split: option.splits)
  obtain r q1 where add: "qnetd_cluster_list_add_client al c name qi = (r, q1)" by fastforce
  have algo: "qi_clients q2 = qi_clients q" if "qnetd_algorithm_client_init al aa c q = Inr (e', q2)" for q q2 e'
    using dispatch_core(1) [OF reg that] same_coreD(1) by metis
  show ?thesis
  proof (cases "qnetd_client_msg_received_init_check_new_client c name qi = TLV_REPLY_ERROR_CODE_NO_ERROR")
    case False
    with run name show ?thesis unfolding init_join_def by simp
  next
    case True
    show ?thesis
    proof (cases r)
      case None
      with run name True add add_client_clients [OF add] show ?thesis unfolding init_join_def by auto
    next
      case (Some k)
      with run name True add obtain q2 where
        q2: "qnetd_algorithm_client_init al aa c (set_cluster c k q1) = Inr (e, q2)" and
        qi': "qi' = (if e = TLV_REPLY_ERROR_CODE_NO_ERROR
          then upd_client c (\<lambda>cl. cl\<lparr>cl_init_received := True\<rparr>) q2 else q2)"
        unfolding init_join_def by (auto simp: bindE_Inr_iff)
      show ?thesis
        using algo [OF q2] add_client_clients [OF add] qi' by (simp add: set_cluster_def upd_client_def)
    qed
  qed
qed

lemma init_clients:
  assumes reg: "registered aa" and run: "qnetd_client_msg_received_init al nss aa c msg qi = Inr (r, qi')"
  shows "qi_clients qi' = qi_clients qi"
proof -
  obtain res q where tls: "qnetd_client_msg_received_check_tls al nss c msg qi = (res, q)" by fastforce
  then have L: "qi_clients q = qi_clients qi"
    using check_tls_links [of qi al nss c msg] same_links_clients by simp
  show ?thesis
  proof (cases "res = 0")
    case False
    with run tls L show ?thesis
      unfolding qnetd_client_msg_received_init_def with_tls_def by simp
  next
    case True
    obtain e cl where opt: "init_options (qi_advanced_settings q) msg (qi_client q c) = (e, cl)" by fastforce
    obtain e' q2 f where
      join: "(if e \<noteq> TLV_REPLY_ERROR_CODE_NO_ERROR then Inr (e, upd_client c (\<lambda>_. cl) q)
          else init_join al aa c (upd_client c (\<lambda>_. cl) q)) = Inr (e', q2)" and
      reply: "reply_msg al c f q2 = (r, qi')"
      using run tls True opt unfolding qnetd_client_msg_received_init_def with_tls_def
      by (auto simp: Let_def bindE_Inr_iff split del: if_split)
    have "qi_clients q2 = qi_clients q"
      using join init_join_clients [OF reg] by (auto simp: upd_client_def split: if_splits)
    moreover have "qi_clients qi' = qi_clients q2"
      using reply_links(2) [OF same_links_refl, of q2 al c f] reply same_links_clients by simp
    ultimately show ?thesis using L by simp
  qed
qed

lemma msg_received_clients:
  assumes reg: "registered aa" and run: "qnetd_client_msg_received al junk nss aa c qi = Inr (r, qi')"
  shows "qi_clients qi' = qi_clients qi"
proof -
  from run obtain res msg where
    dec: "msg_decode al junk (cl_receive_buffer (qi_client qi c)) msg_decoded_init = Inr (res, msg)"
    unfolding qnetd_client_msg_received_def by (auto simp: bindE_Inr_iff Let_def)
  show ?thesis
  proof (cases "res = 0")
    case False
    with run dec have "reply_err al c msg TLV_REPLY_ERROR_CODE_ERROR_DECODING_MSG qi = (r, qi')"
      unfolding qnetd_client_msg_received_def by (simp add: Let_def)
    with reply_links(1) [OF same_links_refl, of qi al c msg TLV_REPLY_ERROR_CODE_ERROR_DECODING_MSG]
    show ?thesis using same_links_clients by simp
  next
    case True
    with run dec have "msg_received_dispatch al nss aa c msg (cl_receive_buffer (qi_client qi c)) qi = Inr (r, qi')"
      unfolding qnetd_client_msg_received_def by (auto simp: Let_def bindE_Inr_iff)
    note run' = this
    show ?thesis
    proof (cases "md_type msg = MSG_TYPE_INIT")
      case True
      with run' have "qnetd_client_msg_received_init al nss aa c msg qi = Inr (r, qi')"
        by (simp add: msg_received_dispatch_def)
      then show ?thesis by (rule init_clients [OF reg])
    next
      case False
      from dispatch_links [OF reg False, of qi al nss c "cl_receive_buffer (qi_client qi c)"] run'
      have "same_links qi qi'" by (simp add: links_ok_def)
      then show ?thesis by (rule same_links_clients)
    qed
  qed
qed

lemma net_read_clients:
  assumes reg: "registered aa" and run: "qnetd_client_net_read al junk nss aa recv c qi = Inr (r, qi')"
  shows "qi_clients qi' = qi_clients qi"
proof -
  have upd [simp]: "qi_clients (upd_client c f q) = qi_clients q" for f q by (simp add: upd_client_def)
  have err: "qi_clients (snd (on_client c f q)) = qi_clients q" for f q
    by (simp add: on_client_def split: prod.split)
  obtain res buf already skip where
    io: "msgio_read al junk recv (cl_receive_buffer (qi_client qi c))
      (cl_msg_already_received_bytes (qi_client qi c)) (cl_skipping_msg (qi_client qi c)) =
      (res, buf, already, skip)" by (metis prod_cases4)
  define q where "q = upd_client c (\<lambda>cl. cl\<lparr>cl_receive_buffer := buf, cl_msg_already_received_bytes := already,
      cl_skipping_msg := skip\<rparr>) qi"
  have q: "qi_clients q = qi_clients qi" by (simp add: q_def)
  note run' = run [unfolded qnetd_client_net_read_def Let_def io prod.case, folded q_def]
  show ?thesis
  proof (cases "res = 1")
    case False
    then show ?thesis using run' q by (simp split: if_splits) (auto simp: q [symmetric])
  next
    case True
    then obtain r2 q2 where q2: "(if \<not> skip then qnetd_client_msg_received al junk nss aa c q
        else Inr (on_client c (qnetd_client_send_err al False 0 (cl_skipping_msg_reason (qi_client q c))) q)) = Inr (r2, q2)"
      and qi': "qi' = upd_client c net_read_reset q2"
      using run' by (auto simp: bindE_Inr_iff split del: if_split)
    have "qi_clients q2 = qi_clients q"
    proof (cases skip)
      case True
      then show ?thesis
        using q2 err [of "qnetd_client_send_err al False 0 (cl_skipping_msg_reason (qi_client q c))" q] by simp
    next
      case False
      then show ?thesis using q2 msg_received_clients [OF reg] by simp
    qed
    then show ?thesis using qi' q by simp
  qed
qed

lemma read_cb_clients:
  assumes "registered aa" and "qnetd_client_net_socket_poll_loop_read_cb al junk nss aa recv c qi = Inr qi'"
  shows "qi_clients qi' = qi_clients qi"
  using assms net_read_clients [OF assms(1)]
  by (auto simp: qnetd_client_net_socket_poll_loop_read_cb_def bindE_Inr_iff mark_disconnect_def upd_client_def
      split: if_splits)

lemma registered_algorithms: "registered qnetd_algorithms"
  unfolding qnetd_algorithms_def by (rule registered_all)

text \<open>
  The callback before the poll. It finds the socket of every client that it disconnects, so it never fails;
  the entries that go are those of clients.
\<close>

lemma disconnect_walk_inv:
  assumes "qnetd_loop_inv st" and "distinct cs" and "set cs \<subseteq> set (net_clients (snd st))"
    and "disconnect_walk t cs st = Inr (res, st')"
  shows "qnetd_loop_inv st' \<and> same_array st st' \<and> res = 0 \<and>
    pl_pre_poll_cb_list (fst st') = pl_pre_poll_cb_list (fst st)"
  using assms
proof (induction cs arbitrary: st)
  case Nil
  then show ?case by (simp add: same_array_def)
next
  case (Cons c cs)
  obtain pl w where st: "st = (pl, w)" by (cases st)
  show ?case
  proof (cases "cl_schedule_disconnect (qi_client (qw_instance w) c)")
    case False
    then show ?thesis using Cons.IH [of st] Cons.prems st by simp
  next
    case True
    have c: "c \<in> set (net_clients w)" "c \<notin> set cs" using Cons.prems st by auto
    from Cons.prems(4) True st net_delete [of pl w c "(qw_instance w)\<lparr>qi_clients := remove1 c (net_clients w)\<rparr>"]
      Cons.prems(1) c
    obtain qi where d: "qnetd_instance_client_disconnect (qt_alloc t) qnetd_algorithms c False (qw_instance w) = Inr qi"
      by (auto simp: bindE_Inr_iff)
    note qi = disconnect_clients [OF registered_algorithms d]
    from net_delete [OF Cons.prems(1) [unfolded st] c(1) qi] obtain r where
      del: "pr_poll_loop_del_prfd pl (qw_client_socket w c) =
        Inr (0, pl\<lparr>pl_fd_list := filter (\<lambda>x. fst x \<noteq> r) (pl_fd_list pl)\<rparr>)" and
      inv: "qnetd_loop_inv (pl\<lparr>pl_fd_list := filter (\<lambda>x. fst x \<noteq> r) (pl_fd_list pl)\<rparr>, w\<lparr>qw_instance := qi\<rparr>)" by blast
    let ?st = "(pl\<lparr>pl_fd_list := filter (\<lambda>x. fst x \<noteq> r) (pl_fd_list pl)\<rparr>, w\<lparr>qw_instance := qi\<rparr>)"
    have "disconnect_walk t cs ?st = Inr (res, st')"
      using Cons.prems(4) True st del d by (simp add: put_instance_def)
    moreover have "set cs \<subseteq> set (net_clients (snd ?st))" using Cons.prems(3) st c qi
      by (simp, metis in_set_remove1 subset_code(1))
    ultimately show ?thesis
      using Cons.IH [OF inv] Cons.prems(2) st by (simp add: same_array_def)
  qed
qed

lemma qnetd_pre_poll_law:
  assumes inv: "qnetd_loop_inv st" and p: "(r, p) \<in> set (pl_pre_poll_cb_list (fst st))"
    and run: "call_pre_poll (qnetd_env t) p st = Inr (res, st')"
  shows "qnetd_loop_inv st' \<and> same_array st st' \<and> pl_pre_poll_cb_list (fst st') = pl_pre_poll_cb_list (fst st)"
proof -
  have "p = \<lparr>pe_pre_poll_cb = Some Cb_Pre_Poll, pe_user_data = Ud_Instance\<rparr>"
    using inv p by (auto simp: qnetd_loop_inv_def loop_part_def)
  then have "disconnect_walk t (net_clients (snd st)) st = Inr (res, st')"
    using run by (auto simp: call_pre_poll_def qnetd_env_def in_callback_def pre_poll_cb_def split: sum.splits)
  moreover have "distinct (net_clients (snd st))" using inv by (simp add: qnetd_loop_inv_def world_part_def)
  ultimately show ?thesis using disconnect_walk_inv [OF inv] by blast
qed

text \<open>The callbacks for the four kinds of entries.\<close>

lemma set_events_entries:
  "call_set_events (qnetd_env t) (net_entry p c) st = in_callback (net_set_events pollin c st)"
  "call_set_events (qnetd_env t) (ipc_entry fd u) st =
     in_callback (ipc_client_socket_poll_loop_set_events_cb fd 0 u st)"
  "call_set_events (qnetd_env t) (server_entry n) st = Inr (0, pollin, st)"
  "call_set_events (qnetd_env t) (ipc_socket_entry fd) st = Inr (ipc_socket_poll_loop_set_events_cb pollin st)"
  by (simp_all add: call_set_events_def entry_defs qnetd_env_def qnetd_set_events_def in_callback_def)

lemma ready_entries:
  "ready_call (qnetd_env t) (net_entry p c) st m \<Longrightarrow>
     m = in_callback (net_read t c st) \<or> m = in_callback (net_write t c st) \<or> m = in_callback (net_err c st)"
  "ready_call (qnetd_env t) (ipc_entry fd u) st m \<Longrightarrow>
     m = in_callback (ipc_client_socket_poll_loop_read_cb (qt_alloc t) (qt_ipc_recv t u) u st) \<or>
     m = in_callback (ipc_client_socket_poll_loop_write_cb (qt_ipc_sys t) (qt_ipc_send t u) u st) \<or>
     m = in_callback (ipc_client_socket_poll_loop_err_cb u st)"
  "ready_call (qnetd_env t) (server_entry n) st m \<Longrightarrow>
     m = in_callback (server_socket_poll_loop_read_cb t st) \<or> m = Inr (0, st) \<or> m = Inr (-1, st)"
  "ready_call (qnetd_env t) (ipc_socket_entry fd) st m \<Longrightarrow>
     m = in_callback (ipc_socket_poll_loop_read_cb (qt_alloc t) (qt_ipc_sys t) (qt_mkfd t) st) \<or>
     m = Inr (0, st) \<or> m = Inr (-1, st)"
  by (auto simp: ready_call_def call_fd_or_prfd_def entry_defs qnetd_env_def qnetd_read_def qnetd_write_def
      qnetd_err_def in_callback_def server_socket_poll_loop_err_cb_def ipc_socket_poll_loop_err_cb_def)

lemma in_callback_Inr [simp]: "in_callback m = Inr x \<longleftrightarrow> m = Inr x" "Inr x = in_callback m \<longleftrightarrow> m = Inr x"
  by (cases m; auto simp: in_callback_def)+

lemma qnetd_set_events_law:
  assumes inv: "qnetd_loop_inv st" and e: "(r, e) \<in> set (pl_fd_list (fst st))"
    and run: "call_set_events (qnetd_env t) e st = Inr (res, events, st')"
  shows "qnetd_loop_inv st' \<and> same_array st st' \<and>
    (pl_fd_list (fst st') = pl_fd_list (fst st) \<or>
     res \<noteq> 0 \<and> pl_fd_list (fst st') = filter (\<lambda>x. fst x \<noteq> r) (pl_fd_list (fst st)))"
proof -
  have ok: "entry_ok (snd st) e" using inv_entry_ok [OF inv e] by simp
  show ?thesis
  proof (cases "st' = st")
    case True
    then show ?thesis using inv by (simp add: same_array_def)
  next
    case False
    from ok show ?thesis
    proof (cases rule: entry_ok.cases)
      case (ipc u client fd)
      note u = ipc_client_lookup [OF inv ipc(2)]
      obtain pl w where st: "st = (pl, w)" by (cases st)
      have ud: "fe_user_data e = Ud_Ipc_Client u" "fe_fd e = fd" by (simp_all add: ipc entry_defs)
      note del = ipc_delete [OF inv [unfolded st] u [unfolded st snd_conv] e [unfolded st fst_conv] ud(1)]
      have "ipc_client_socket_poll_loop_set_events_cb fd 0 u st = Inr (res, events, st')"
        using run ipc(1) set_events_entries(2) [of t fd u st] by simp
      with False del ud(2) u st have "res \<noteq> 0" and
        st': "st' = (pl\<lparr>pl_fd_list := filter (\<lambda>x. fst x \<noteq> r) (pl_fd_list pl)\<rparr>, qnetd_ipc_client_disconnect u w)"
        by (auto simp: ipc_client_socket_poll_loop_set_events_cb_def with_ipc_client_def split: if_splits)
      then show ?thesis using del st by (simp add: same_array_def)
    next
      case (net c n)
      then show ?thesis using run False set_events_entries(1) [of t _ c st]
        by (auto simp: net_set_events_def with_client_def split: if_splits prod.splits)
    qed (use run False set_events_entries in \<open>auto simp: ipc_socket_poll_loop_set_events_cb_def\<close>)
  qed
qed

text \<open>A full line is answered, or the client is disconnected.\<close>

definition answered :: "unix_socket_client \<Rightarrow> unix_socket_client \<Rightarrow> bool" where
  "answered client client' \<longleftrightarrow>
     uc_socket client' = uc_socket client \<and> (uc_user_data client \<noteq> None \<longrightarrow> uc_user_data client' \<noteq> None) \<and>
     (uc_writing_buffer client' \<or> uc_schedule_disconnect client')"

lemma ipc_send_error_fields:
  "ipc_send_error al etext client = (r, client') \<Longrightarrow>
     uc_socket client' = uc_socket client \<and> uc_user_data client' = uc_user_data client \<and>
     (r = 0 \<longrightarrow> uc_writing_buffer client')"
  by (auto simp: ipc_send_error_def unix_socket_client_write_buffer_def split: prod.splits if_splits)

lemma ipc_send_buffer_fields:
  "ipc_send_buffer al client = (r, client') \<Longrightarrow>
     uc_socket client' = uc_socket client \<and> uc_user_data client' = uc_user_data client \<and>
     (r = 0 \<longrightarrow> uc_writing_buffer client')"
  by (auto simp: ipc_send_buffer_def unix_socket_client_write_buffer_def Let_def split: prod.splits if_splits
      dest!: ipc_send_error_fields)

lemma answered_error: "answered client (or_disconnect (ipc_send_error al etext client))"
  by (cases "ipc_send_error al etext client")
     (auto simp: answered_def or_disconnect_def dest!: ipc_send_error_fields)

lemma answered_buffer: "answered client (or_disconnect (ipc_send_buffer al client))"
  by (cases "ipc_send_buffer al client") (auto simp: answered_def or_disconnect_def dest!: ipc_send_buffer_fields)

lemma answered_cmd: "answered client (cmd_answer al cmd etext client)"
proof -
  obtain r b where cmd: "cmd (uc_send_buffer client) = (r, b)" by fastforce
  have "answered (client\<lparr>uc_send_buffer := b\<rparr>) (cmd_answer al cmd etext client)"
    by (simp add: cmd_answer_def cmd Let_def answered_error answered_buffer)
  then show ?thesis by (simp add: answered_def)
qed

lemma parse_line_answered:
  assumes "qnetd_ipc_parse_line al w client = Inr client'"
  shows "answered client client'"
proof -
  obtain ok lx where lex: "dynar_simple_lex_token_next al
      (dynar_simple_lex_init (uc_receive_buffer client) DYNAR_SIMPLE_LEX_TYPE_QUOTE) = (ok, lx)" by fastforce
  obtain ok2 lx2 where lex2: "dynar_simple_lex_token_next al lx = (ok2, lx2)" by fastforce
  let ?sd = "client\<lparr>uc_user_data := Some True\<rparr>"
  have down: "answered client (or_disconnect (ipc_send_buffer al ?sd))"
    using answered_buffer [of ?sd al] by (simp add: answered_def)
  show ?thesis
    using assms down answered_error answered_cmd
    unfolding qnetd_ipc_parse_line_def Let_def lex lex2 prod.case
    by (simp split: if_splits option.splits prod.splits) (metis sum.inject(2))+
qed

lemma io_read_ok:
  assumes "ipc_client_ok client" and "qnetd_ipc_io_read al recv w client = Inr client'"
  shows "ipc_client_ok client' \<and> uc_socket client' = uc_socket client"
proof -
  obtain res c1 where io: "unix_socket_client_io_read al recv client = (res, c1)" by fastforce
  then have c1: "ipc_client_ok c1" "uc_socket c1 = uc_socket client"
    using assms(1)
    by (auto simp: unix_socket_client_io_read_def ipc_client_ok_def Let_def split: recv_result.splits prod.splits if_splits)
  show ?thesis
  proof (cases "res = 1")
    case True
    with assms(2) io have "qnetd_ipc_parse_line al w (unix_socket_client_read_line False c1) = Inr client'"
      by (simp add: qnetd_ipc_io_read_def)
    from parse_line_answered [OF this] c1 show ?thesis
      by (auto simp: answered_def ipc_client_ok_def unix_socket_client_read_line_def)
  next
    case False
    with assms(2) io c1 show ?thesis by (auto simp: qnetd_ipc_io_read_def ipc_client_ok_def split: if_splits)
  qed
qed

lemma io_write_ok:
  assumes "ipc_client_ok client" and "qnetd_ipc_io_write send client = Inr (client', b)"
  shows "ipc_client_ok client' \<and> uc_socket client' = uc_socket client"
proof -
  obtain res c1 where io: "unix_socket_client_io_write send client = (res, c1)" by fastforce
  then have "ipc_client_ok c1" "uc_socket c1 = uc_socket client"
    using assms(1)
    by (auto simp: unix_socket_client_io_write_def ipc_client_ok_def Let_def split: send_result.splits if_splits)
  with assms(2) io show ?thesis
    by (auto simp: qnetd_ipc_io_write_def ipc_client_ok_def unix_socket_client_write_buffer_def Let_def
        split: if_splits option.splits)
qed

lemma ipc_ready_law:
  assumes inv: "qnetd_loop_inv st"
    and run: "ipc_client_socket_poll_loop_read_cb al recv u st = Inr (res, st') \<or>
      ipc_client_socket_poll_loop_write_cb sys send u st = Inr (res, st') \<or>
      ipc_client_socket_poll_loop_err_cb u st = Inr (res, st')"
  shows "qnetd_loop_inv st' \<and> fst st' = fst st"
proof -
  obtain client where u: "ipc_client (qw_local_ipc (snd st)) u = Some client"
    using run by (auto simp: ipc_client_socket_poll_loop_read_cb_def ipc_client_socket_poll_loop_write_cb_def
        ipc_client_socket_poll_loop_err_cb_def with_ipc_client_def split: option.splits)
  have "(u, client) \<in> set (ipc_clients (snd st))" using u by (simp add: ipc_client_def map_of_SomeD)
  then have ok: "ipc_client_ok client" using inv by (auto simp: qnetd_loop_inv_def world_part_def)
  note put = inv_put_ipc_client [OF inv u]
  have close: "qnetd_loop_inv (fst s, snd (qnetd_ipc_close sys (snd s)))" if "qnetd_loop_inv s" for s
    using inv_ipc_close [of "fst s" "snd s"] that by simp
  have [simp]: "fst (put_ipc_client u c st) = fst st" for c by (simp add: put_ipc_client_def)
  consider (read) "ipc_client_socket_poll_loop_read_cb al recv u st = Inr (res, st')"
    | (write_cb) "ipc_client_socket_poll_loop_write_cb sys send u st = Inr (res, st')"
    | (err) "ipc_client_socket_poll_loop_err_cb u st = Inr (res, st')" using run by blast
  then show ?thesis
  proof cases
    case read
    then show ?thesis using inv u put io_read_ok [OF ok]
      by (auto simp: ipc_client_socket_poll_loop_read_cb_def with_ipc_client_def bindE_Inr_iff split: if_splits)
  next
    case write_cb
    show ?thesis
    proof (cases "uc_schedule_disconnect client")
      case True
      then show ?thesis using write_cb inv u by (simp add: ipc_client_socket_poll_loop_write_cb_def with_ipc_client_def)
    next
      case False
      with write_cb u obtain client' b where w: "qnetd_ipc_io_write send client = Inr (client', b)" and
        st': "st' = (let s = put_ipc_client u client' st in if b then (fst s, snd (qnetd_ipc_close sys (snd s))) else s)"
        by (auto simp: ipc_client_socket_poll_loop_write_cb_def with_ipc_client_def bindE_Inr_iff Let_def)
      have "qnetd_loop_inv (put_ipc_client u client' st)" using put io_write_ok [OF ok w] by blast
      then show ?thesis using close [of "put_ipc_client u client' st"] by (simp add: st' Let_def)
    qed
  next
    case err
    then show ?thesis using inv u put [of "client\<lparr>uc_schedule_disconnect := True\<rparr>"] ok
      by (auto simp: ipc_client_socket_poll_loop_err_cb_def with_ipc_client_def ipc_client_ok_def split: if_splits)
  qed
qed

lemma net_ready_law:
  assumes inv: "qnetd_loop_inv st"
    and run: "net_read t c st = Inr (res, st') \<or> net_write t c st = Inr (res, st') \<or> net_err c st = Inr (res, st')"
  shows "qnetd_loop_inv st' \<and> fst st' = fst st"
proof -
  let ?qi = "qw_instance (snd st)"
  have "\<exists>qi. st' = put_instance qi st \<and> qi_clients qi = qi_clients ?qi"
    using run read_cb_clients [OF registered_algorithms] same_links_clients [OF write_cb_links]
      same_links_clients [OF err_cb_links]
    by (auto simp: net_read_def net_write_def net_err_def with_client_def bindE_Inr_iff split: if_splits)
  then show ?thesis using inv_put_instance [OF inv] by (auto simp: put_instance_def)
qed

lemma qnetd_ready_law:
  assumes inv: "qnetd_loop_inv st" and e: "(r, e) \<in> set (pl_fd_list (fst st))"
    and run: "ready_call (qnetd_env t) e st (Inr (res, st'))"
  shows "qnetd_loop_inv st' \<and> same_array st st' \<and> refs_of st \<subseteq> refs_of st'"
proof -
  have ok: "entry_ok (snd st) e" using inv_entry_ok [OF inv e] by simp
  then show ?thesis
  proof (cases rule: entry_ok.cases)
    case (net c n)
    have "qnetd_loop_inv st' \<and> fst st' = fst st"
      using ready_entries(1) [OF run [unfolded net(1)], unfolded in_callback_Inr] by (rule net_ready_law [OF inv])
    then show ?thesis by (simp add: same_array_def)
  next
    case (ipc u client fd)
    have "qnetd_loop_inv st' \<and> fst st' = fst st"
      using ready_entries(2) [OF run [unfolded ipc(1)], unfolded in_callback_Inr] by (rule ipc_ready_law [OF inv])
    then show ?thesis by (simp add: same_array_def)
  next
    case (server n)
    from ready_entries(3) [OF run [unfolded server]] server_read_law [OF inv, of t res st'] inv show ?thesis
      by (auto simp: same_array_def)
  next
    case (ipc_socket fd)
    from ready_entries(4) [OF run [unfolded ipc_socket(1)]]
    consider "st' = st" | "ipc_socket_poll_loop_read_cb (qt_alloc t) (qt_ipc_sys t) (qt_mkfd t) st = Inr (res, st')"
      by fastforce
    then show ?thesis
    proof cases
      case 1
      then show ?thesis using inv by (simp add: same_array_def)
    next
      case 2
      then obtain r' where "qnetd_ipc_accept (qt_alloc t) (qt_ipc_sys t) (qt_mkfd t) st = Inr (r', st')"
        by (auto simp: ipc_socket_poll_loop_read_cb_def bindE_Inr_iff)
      then show ?thesis by (rule ipc_accept_law [OF inv])
    qed
  qed
qed

interpretation qnetd_loop: poll_contract "qnetd_env t" qnetd_loop_inv for t
proof
  show "distinct (map fst (pl_fd_list (fst st))) \<and> distinct (map fst (pl_pre_poll_cb_list (fst st)))"
    if "qnetd_loop_inv st" for st
    using that by (simp add: qnetd_loop_inv_def loop_part_def)
  show "qnetd_loop_inv (with_array f st)" if "qnetd_loop_inv st" for f st
    using that by (simp add: qnetd_loop_inv_def loop_part_def registered_part_def with_array_def)
  show "\<exists>m. run_timers (qnetd_env t) st = Some m \<and>
      (\<forall>st'. m = Inr st' \<longrightarrow> qnetd_loop_inv st' \<and> poll_array_inv (pl_poll_array (fst st')))"
    if "qnetd_loop_inv st" "poll_array_inv (pl_poll_array (fst st))" for st
  proof -
    have "tl_entries (pl_tlist (fst st)) = []" using that(1) by (simp add: qnetd_loop_inv_def loop_part_def)
    then have "run_timers (qnetd_env t) st = Some (Inr st)"
      by (cases st) (simp add: run_timers_def timer_list_expire.simps)
    then show ?thesis using that by blast
  qed
qed (fact qnetd_pre_poll_law qnetd_set_events_law qnetd_ready_law)+

end
