(* ===== verification/Qnetd_Loop_Props.thy ===== *)
theory Qnetd_Loop_Props
  imports Qnetd_Loop_Inv
begin

text \<open>
  What the main loop of the server guarantees in every state that it reaches: it uses no freed list entry, every
  descriptor belongs to a living client and every client is registered; a client with pending output is
  polled for writing in the same turn; and the loop ends with success after the local socket was closed.
\<close>

section \<open>What the loop polls\<close>

definition client_of :: "(qnetd_cb, qnetd_ud) poll_loop_fd_entry \<Rightarrow> client_ref option" where
  "client_of e = (case fe_user_data e of Ud_Client c \<Rightarrow> Some c | _ \<Rightarrow> None)"

definition client_wants :: "qnetd_instance \<Rightarrow> (qnetd_cb, qnetd_ud) poll_loop_fd_entry \<Rightarrow> poll_flags option" where
  "client_wants qi e =
     (case client_of e of
        None \<Rightarrow> None
      | Some c \<Rightarrow>
          if cl_schedule_disconnect (qi_client qi c) then None
          else Some (pollin OR flag_if (\<not> send_buffer_list_empty (cl_send_buffer_list (qi_client qi c))) pollout))"

lemma in_out_flags: "pollin OR flag_if b pollout \<noteq> 0" "\<not> bad_events (pollin OR flag_if b pollout)" "\<not> bad_events 0"
  "\<not> bad_events pollin" "\<not> bad_events (flag_if a pollin OR flag_if b pollout)"
  by (cases a; cases b; simp add: flag_if_def poll_flag_defs bad_events_def)+

lemma set_events_instance:
  assumes "entry_ok (snd st) e" and "call_set_events (qnetd_env t) e st = Inr (res, events, st')"
  shows "qw_instance (snd st') = qw_instance (snd st) \<and> qw_client_socket (snd st') = qw_client_socket (snd st) \<and>
    ui_socket (qw_local_ipc (snd st')) = ui_socket (qw_local_ipc (snd st)) \<and>
    \<not> bad_events events \<and> res \<in> {0, -1, -2}"
  using assms
proof (cases rule: entry_ok.cases)
  case (ipc u client fd)
  with assms(2) set_events_entries(2) [of t fd u st]
  have "ipc_client_socket_poll_loop_set_events_cb fd 0 u st = Inr (res, events, st')" by simp
  then show ?thesis
    by (auto simp: ipc_client_socket_poll_loop_set_events_cb_def with_ipc_client_def bindE_Inr_iff in_out_flags
        qnetd_ipc_client_disconnect_def upd_ipc_def unix_socket_ipc_client_disconnect_def unix_socket_client_list_del_def
        split: option.splits if_splits)
next
  case (net c n)
  with assms(2) set_events_entries(1) [of t _ c st]
  show ?thesis
    by (auto simp: net_set_events_def with_client_def in_out_flags qnetd_client_net_socket_poll_loop_set_events_cb_def
        split: if_splits)
next
  case (ipc_socket fd)
  with assms(2) set_events_entries(4) [of t fd st] show ?thesis
    by (auto simp: ipc_socket_poll_loop_set_events_cb_def in_out_flags split: if_splits)
next
  case (server n)
  with assms(2) set_events_entries(3) [of t n st] show ?thesis by (auto simp: in_out_flags)
qed

interpretation qnetd_view: poll_view "qnetd_env t" qnetd_loop_inv "\<lambda>st. (qw_instance (snd st), qw_client_socket (snd st))"
  "\<lambda>e. client_of e \<noteq> None" "\<lambda>v. client_wants (fst v)" for t
proof
  show "(qw_instance (snd (with_array f st)), qw_client_socket (snd (with_array f st))) =
    (qw_instance (snd st), qw_client_socket (snd st))" for f and st :: qnetd_state by simp
  show "(qw_instance (snd st'), qw_client_socket (snd st')) = (qw_instance (snd st), qw_client_socket (snd st))"
    if "qnetd_loop_inv st" "(r, e) \<in> set (pl_fd_list (fst st))"
      "call_set_events (qnetd_env t) e st = Inr (res, events, st')" for st r e res events st'
  proof -
    have "entry_ok (snd st) e" using inv_entry_ok [OF that(1,2)] by simp
    from set_events_instance [OF this that(3)] show ?thesis by blast
  qed
  show "call_set_events (qnetd_env t) e st = Inr (0, events, st) \<and> events \<noteq> 0"
    if "qnetd_loop_inv st" "(r, e) \<in> set (pl_fd_list (fst st))" "client_of e \<noteq> None"
      "client_wants (fst (qw_instance (snd st), qw_client_socket (snd st))) e = Some events" for st r e events
  proof -
    from that(3) obtain c where c: "fe_user_data e = Ud_Client c" by (auto simp: client_of_def split: qnetd_ud.splits)
    have "entry_ok (snd st) e" using inv_entry_ok [OF that(1,2)] by simp
    from entry_ok_client [OF this c]
    have e: "c \<in> set (net_clients (snd st))" "e = net_entry (qw_client_socket (snd st) c) c" by simp_all
    have ev: "\<not> cl_schedule_disconnect (qi_client (qw_instance (snd st)) c)" "events = pollin OR
        flag_if (\<not> send_buffer_list_empty (cl_send_buffer_list (qi_client (qw_instance (snd st)) c))) pollout"
      using that(4) c by (auto simp: client_wants_def client_of_def split: if_splits)
    have "call_set_events (qnetd_env t) e st = in_callback (net_set_events pollin c st)"
      unfolding e(2) by (rule set_events_entries(1))
    also have "net_set_events pollin c st = Inr (0, events, st)"
      using e(1) ev by (simp add: net_set_events_def with_client_def qnetd_client_net_socket_poll_loop_set_events_cb_def)
    finally show ?thesis using ev(2) in_out_flags(1) by (simp add: in_callback_def)
  qed
qed

section \<open>Reachable states\<close>

lemma inv_start:
  assumes "qnetd_start al sys mkfd sock (qnetd_world_init tls cert max_clients as host port) = Inr (Some st)"
  shows "qnetd_loop_inv st \<and> poll_array_inv (pl_poll_array (fst st))"
proof -
  let ?w = "qnetd_world_init tls cert max_clients as host port"
  define pl0 :: qnetd_loop where "pl0 = pr_poll_loop_init\<lparr>pl_pre_poll_cb_list :=
    [(0, \<lparr>pe_pre_poll_cb = Some Cb_Pre_Poll, pe_user_data = Ud_Instance\<rparr>)], pl_next_ref := 1\<rparr>"
  obtain r pl where "pr_poll_loop_add_pre_poll_cb al pr_poll_loop_init (Some Cb_Pre_Poll) Ud_Instance = (r, pl)"
    by (cases "pr_poll_loop_add_pre_poll_cb al pr_poll_loop_init (Some Cb_Pre_Poll) Ud_Instance")
  note pre = this
  with assms have pl: "pl = pl0"
    by (auto simp: qnetd_start_def pr_poll_loop_add_pre_poll_cb_def pr_poll_loop_find_pre_poll_cb_def
        pr_poll_loop_init_def pl0_def split: if_splits)
  from assms pre obtain st1 pl3 where ipc: "qnetd_ipc_init al sys mkfd (pl0, ?w) = Inr (0, st1)" and
    add: "pr_poll_loop_add_prfd al mkfd (fst st1) (Socket_Prfd sock) pollin server_callbacks Ud_Instance = Inr (0, pl3)" and
    st: "st = (pl3, snd st1)"
    by (auto simp: qnetd_start_def pl bindE_Inr_iff split: if_splits)
  from ipc obtain sfile ipc1 rf where
    init: "unix_socket_ipc_init al sys sfile (as_local_socket_gid as) (as_local_socket_backlog as)
      (as_ipc_max_clients as) (as_ipc_max_receive_size as) (as_ipc_max_send_size as) = (0, ipc1)" and
    fd: "pr_poll_loop_add_fd al mkfd pl0 (ui_socket ipc1) pollin ipc_socket_callbacks Ud_Instance = Inr (rf, fst st1)" "rf \<noteq> -1" and
    w: "snd st1 = ?w\<lparr>qw_local_ipc := ipc1\<rparr>"
    by (auto simp: qnetd_ipc_init_def Let_def qnetd_world_init_def qnetd_instance_init_def bindE_Inr_iff
        split: option.splits prod.splits if_splits)
  have ipc1: "ui_socket ipc1 \<ge> 0" "ui_clients ipc1 = []"
    using init by (auto simp: unix_socket_ipc_init_def Let_def split: if_splits)
  have pl1: "fst st1 = pl0\<lparr>pl_fd_list := [(1, ipc_socket_entry (ui_socket ipc1))], pl_next_ref := 2\<rparr>"
    using add_fd_int_cases [OF fd(1) [unfolded pr_poll_loop_add_fd_def]] fd(2) ipc1(1)
    by (auto simp: pl0_def pr_poll_loop_init_def ipc_socket_entry_def)
  have pl3: "pl3 = pl0\<lparr>pl_fd_list := [(1, ipc_socket_entry (ui_socket ipc1)), (2, server_entry sock)], pl_next_ref := 3\<rparr>"
    using add_fd_int_cases [OF add [unfolded pr_poll_loop_add_prfd_def]] pl1 by (auto simp: server_entry_def)
  have "qnetd_loop_inv st"
    using ipc1 entry_ok.ipc_socket [OF ipc1(1)] entry_ok.server
    by (auto simp: st pl3 w qnetd_loop_inv_def loop_part_def world_part_def registered_part_def pl0_def
        pr_poll_loop_init_def qnetd_world_init_def qnetd_instance_init_def timer_list_init_def)
       (simp add: entry_defs)
  then show ?thesis
    by (auto simp: st pl3 pl0_def pr_poll_loop_init_def)
qed

lemma algo_timer_put:
  assumes "qnetd_client_algo_timer_callback al qnetd_algorithms c qi = Inr (r, qi')"
  shows "qi_clients qi' = qi_clients qi"
  using algo_timer_links [OF registered_algorithms assms] by (rule same_links_clients)

lemma reachable_inv:
  assumes "qnetd_loop_reachable st"
  shows "qnetd_loop_inv st \<and> poll_array_inv (pl_poll_array (fst st))"
  using assms
proof (induction rule: qnetd_loop_reachable.induct)
  case (start al sys mkfd sock tls cert max_clients as host port st)
  then show ?case using inv_start by blast
next
  case (turn st t st')
  then show ?case using qnetd_loop.exec_safe [of st t] by auto
next
  case (signal_handler st sys)
  then show ?case using inv_ipc_close [of "fst st" "snd st" sys] by simp
next
  case (algo_timer st c al r qi)
  then show ?case
    using inv_put_instance [of st qi] algo_timer_put by (auto simp: put_instance_def)
next
  case (dpd_timer st c r client)
  then show ?case
    using inv_put_instance [of st "upd_client c (\<lambda>cl. client) (qw_instance (snd st))"]
    by (auto simp: put_instance_def upd_client_def)
qed

lemma disconnect_walk_ipc:
  "disconnect_walk t cs st = Inr (res, st') \<Longrightarrow> qw_local_ipc (snd st') = qw_local_ipc (snd st)"
proof (induction cs arbitrary: st)
  case (Cons c cs)
  show ?case
  proof (cases "cl_schedule_disconnect (qi_client (qw_instance (snd st)) c)")
    case False
    then show ?thesis using Cons by simp
  next
    case True
    with Cons.prems obtain r pl where del: "pr_poll_loop_del_prfd (fst st) (qw_client_socket (snd st) c) = Inr (r, pl)"
      by (auto simp: bindE_Inr_iff)
    show ?thesis
    proof (cases "r = -1")
      case True
      then show ?thesis using Cons.prems \<open>cl_schedule_disconnect _\<close> del by auto
    next
      case False
      with Cons.prems True del obtain qi where "disconnect_walk t cs (put_instance qi (pl, snd st)) = Inr (res, st')"
        by (auto simp: bindE_Inr_iff)
      from Cons.IH [OF this] show ?thesis by (simp add: put_instance_def)
    qed
  qed
qed simp

text \<open>A closed local socket ends the turn.\<close>

lemma closed_stops:
  assumes inv: "qnetd_loop_inv st" "poll_array_inv (pl_poll_array (fst st))" and closed: "qnetd_ipc_is_closed (snd st)"
    and prep: "prepare_poll_array (qnetd_env t) st = Some (Inr (res, st'))"
  shows "res = -1 \<and> qnetd_ipc_is_closed (snd st')"
proof (rule qnetd_loop.prepare_stops [where P = "\<lambda>st. qnetd_ipc_is_closed (snd st)" and
      stop = "\<lambda>e. \<exists>fd. e = ipc_socket_entry fd", OF inv _ _ _ _ prep])
  show "qnetd_ipc_is_closed (snd (with_array f st))" for f using closed by simp
  show "res = 0 \<and> qnetd_ipc_is_closed (snd st')"
    if "qnetd_loop_inv st" "qnetd_ipc_is_closed (snd st)" "(r, p) \<in> set (pl_pre_poll_cb_list (fst st))"
      "call_pre_poll (qnetd_env t) p st = Inr (res, st')" for st r p res st'
  proof -
    have "p = \<lparr>pe_pre_poll_cb = Some Cb_Pre_Poll, pe_user_data = Ud_Instance\<rparr>"
      using that(1,3) by (auto simp: qnetd_loop_inv_def loop_part_def)
    then have walk: "disconnect_walk t (net_clients (snd st)) st = Inr (res, st')"
      using that(4) by (auto simp: call_pre_poll_def qnetd_env_def in_callback_def pre_poll_cb_def split: sum.splits)
    have "distinct (net_clients (snd st))" using that(1) by (simp add: qnetd_loop_inv_def world_part_def)
    then have "res = 0" using disconnect_walk_inv [OF that(1) _ _ walk] by simp
    then show ?thesis
      using that(2) disconnect_walk_ipc [OF walk] by (simp add: qnetd_ipc_is_closed_def)
  qed
  show "(\<forall>f. qnetd_ipc_is_closed (snd (with_array f st'))) \<and> \<not> bad_events events \<and> res \<in> {0, -1, -2} \<and>
      ((\<exists>fd. e = ipc_socket_entry fd) \<longrightarrow> res = -2)"
    if "qnetd_loop_inv st" "qnetd_ipc_is_closed (snd st)" "(r, e) \<in> set (pl_fd_list (fst st))"
      "call_set_events (qnetd_env t) e st = Inr (res, events, st')" for st r e res events st'
  proof -
    have "entry_ok (snd st) e" using inv_entry_ok [OF that(1,3)] by simp
    note s = set_events_instance [OF this that(4)]
    have "res = -2" if "e = ipc_socket_entry fd" for fd
      using \<open>call_set_events (qnetd_env t) e st = Inr (res, events, st')\<close> \<open>qnetd_ipc_is_closed (snd st)\<close>
        set_events_entries(4) [of t fd st] that by (simp add: ipc_socket_poll_loop_set_events_cb_def)
    then show ?thesis
      using s that(2) by (auto simp: qnetd_ipc_is_closed_def unix_socket_ipc_is_closed_def)
  qed
  show "\<exists>x \<in> set (pl_fd_list (fst st)). \<exists>fd. snd x = ipc_socket_entry fd" if "qnetd_loop_inv st" for st
    using that by (simp add: qnetd_loop_inv_def registered_part_def)
qed

lemma to_pr_events: "poll_events_to_pr_events (pollin OR flag_if b pollout) = pr_poll_read OR flag_if b pr_poll_write"
  by (cases b) (simp_all add: poll_events_to_pr_events_def has_flag_def flag_if_def poll_flag_defs)

section \<open>An example run\<close>

text \<open>When no callback for events faults, the second walk returns a result.\<close>

context poll_contract begin

lemma fill_walk_total:
  assumes total: "\<And>st r e. inv st \<Longrightarrow> (r, e) \<in> set (pl_fd_list (fst st)) \<Longrightarrow> \<exists>q. call_set_events env e st = Inr q"
    and "inv st" "pl_fd_list (fst st) = xs @ ys" "array_refs (fst ` set xs) st"
  shows "\<exists>q. fill_walk env (tailq_first ys) st = Some (Inr q)"
  using assms(2-)
proof (induction ys arbitrary: xs st)
  case Nil
  then show ?case by (subst fill_walk.simps) simp
next
  case (Cons y ys)
  obtain r e where y: "y = (r, e)" by fastforce
  have list: "pl_fd_list (fst st) = xs @ (r, e) # ys" using Cons.prems(2) y by simp
  obtain res0 events st1 where call: "call_set_events env e st = Inr (res0, events, st1)"
    using total [OF Cons.prems(1), of r e] list by auto
  from fill_walk_step [OF Cons.prems(1) list Cons.prems(3) call] consider
      q where "fill_walk env (Some r) st = Some (Inr q)"
    | st2 xs' where "fill_walk env (Some r) st = fill_walk env (tailq_first ys) st2" "inv st2"
        "pl_fd_list (fst st2) = xs' @ ys" "array_refs (fst ` set xs') st2"
    unfolding Let_def by blast
  then show ?case
  proof cases
    case 2
    from Cons.IH [OF 2(2-4)] show ?thesis using 2(1) y by simp
  qed (use y in auto)
qed

lemma prepare_total:
  assumes "\<And>st r e. inv st \<Longrightarrow> (r, e) \<in> set (pl_fd_list (fst st)) \<Longrightarrow> \<exists>q. call_set_events env e st = Inr q"
    and "inv st" "poll_array_inv (pl_poll_array (fst st))"
    and walk: "pre_poll_walk env (tailq_first (pl_pre_poll_cb_list (fst st))) (with_array pr_poll_array_clean st) =
      Some (Inr (res, st1))"
  shows "\<exists>q. prepare_poll_array env st = Some (Inr q)"
proof -
  let ?st0 = "with_array pr_poll_array_clean st"
  have st0: "inv ?st0" "array_refs {} ?st0"
    using assms(2,3) inv_with_array poll_array_inv_clean by (auto simp: array_refs_def pr_poll_array_clean_def)
  have "inv st1" "array_refs {} st1"
    using pre_poll_walk_safe [OF st0(1), of "[]"] st0(2) walk by auto
  then have "\<exists>q. fill_walk env (tailq_first (pl_fd_list (fst st1))) st1 = Some (Inr q)"
    by (intro fill_walk_total [where xs = "[]"]) (rule assms(1); assumption | simp)+
  then obtain q where "fill_walk env (tailq_first (pl_fd_list (fst st1))) st1 = Some (Inr q)" by blast
  then show ?thesis using walk by (cases q) (auto simp: prepare_poll_array_def)
qed

end

text \<open>The callbacks for events do not fault, and what the first walk does is the disconnection of clients.\<close>

lemma set_events_total:
  assumes inv: "qnetd_loop_inv st" and e: "(r, e) \<in> set (pl_fd_list (fst st))"
  shows "\<exists>q. call_set_events (qnetd_env t) e st = Inr q"
proof -
  have ok: "entry_ok (snd st) e" using inv_entry_ok [OF inv e] by simp
  from ok show ?thesis
  proof (cases rule: entry_ok.cases)
    case (ipc u client fd)
    note u = ipc_client_lookup [OF inv ipc(2)]
    obtain pl w where st: "st = (pl, w)" by (cases st)
    have ud: "fe_user_data e = Ud_Ipc_Client u" "fe_fd e = fd" by (simp_all add: ipc entry_defs)
    note del = ipc_delete [OF inv [unfolded st] u [unfolded st snd_conv] e [unfolded st fst_conv] ud(1)]
    have "\<exists>q. ipc_client_socket_poll_loop_set_events_cb fd 0 u st = Inr q"
      using del ud(2) u st by (simp add: ipc_client_socket_poll_loop_set_events_cb_def with_ipc_client_def)
    then show ?thesis using set_events_entries(2) [of t fd u st] ipc(1) by (auto simp: in_callback_def)
  next
    case (net c n)
    then show ?thesis using set_events_entries(1) [of t _ c st]
      by (simp add: net_set_events_def with_client_def in_callback_def split: prod.split)
  next
    case (ipc_socket fd)
    show ?thesis unfolding ipc_socket(1) set_events_entries(4) by blast
  next
    case (server n)
    show ?thesis unfolding server set_events_entries(3) by blast
  qed
qed

lemma pre_poll_single:
  assumes "qnetd_loop_inv st"
  shows "pre_poll_walk (qnetd_env t) (tailq_first (pl_pre_poll_cb_list (fst st))) st =
    (case pre_poll_cb t st of
       Inl f \<Rightarrow> Some (Inl (In_Callback f))
     | Inr (res, st') \<Rightarrow> Some (Inr (if res = 0 then 0 else if res = -1 then -1 else -2, st')))"
proof -
  have l: "pl_pre_poll_cb_list (fst st) = [(0, \<lparr>pe_pre_poll_cb = Some Cb_Pre_Poll, pe_user_data = Ud_Instance\<rparr>)]"
    using assms by (simp add: qnetd_loop_inv_def loop_part_def)
  have end_walk: "pre_poll_walk env None st = Some (Inr (0, st))" for env and st :: qnetd_state
    by (simp add: pre_poll_walk.simps)
  show ?thesis
    unfolding l
    by (simp add: pre_poll_walk.simps [of _ "Some 0"] l call_pre_poll_def qnetd_env_def in_callback_def end_walk
        split: sum.split)
qed

lemma disconnect_walk_none:
  "\<forall>c \<in> set cs. \<not> cl_schedule_disconnect (qi_client (qw_instance (snd st)) c) \<Longrightarrow> disconnect_walk t cs st = Inr (0, st)"
  by (induction cs) simp_all

text \<open>A daemon that has accepted one client in its first turn.\<close>

definition loop_sys :: unix_sys where
  "loop_sys = \<lparr>us_socket = 3, us_bind = True, us_chown = True, us_set_non_blocking = True, us_listen = True,
     us_close = True, us_unlink = True, us_accept = 9\<rparr>"

definition loop_turn :: "poll_flags list \<Rightarrow> qnetd_turn" where
  "loop_turn outs = \<lparr>qt_alloc = (\<lambda>r. True), qt_mem = undefined, qt_nss = undefined,
     qt_recv = (\<lambda>c n. Recv_Would_Block), qt_send = (\<lambda>c bs. Send_Would_Block),
     qt_accept = \<lparr>ae_accept = True, ae_set_non_blocking = True, ae_addr_to_string = True, ae_port_fits = True,
       ae_add_prfd = True\<rparr>,
     qt_accept_socket = 8, qt_accept_addr = [], qt_ipc_sys = loop_sys, qt_ipc_recv = (\<lambda>u n. Recv_Would_Block),
     qt_ipc_send = (\<lambda>u bs. Send_Would_Block), qt_mkfd = (\<lambda>fd. True), qt_poll = (\<lambda>descs timeout. (1, outs))\<rparr>"

definition loop_world :: qnetd_world where
  "loop_world = qnetd_world_init TLV_TLS_UNSUPPORTED False 0 (ex_settings\<lparr>as_local_socket_file := Some [47], as_dpd_enabled := False\<rparr>) None 5403"

definition loop_state0 :: qnetd_state where
  "loop_state0 =
     (\<lparr>pl_fd_list = [(1, ipc_socket_entry 3), (2, server_entry 7)],
       pl_pre_poll_cb_list = [(0, \<lparr>pe_pre_poll_cb = Some Cb_Pre_Poll, pe_user_data = Ud_Instance\<rparr>)],
       pl_poll_array = pr_poll_array_init, pl_tlist = timer_list_init, pl_next_ref = 3\<rparr>,
      loop_world\<lparr>qw_local_ipc := \<lparr>ui_socket = 3, ui_backlog = 10, ui_socket_file_name = Some [47], ui_clients = [],
        ui_max_clients = as_ipc_max_clients ex_settings, ui_max_receive_size = as_ipc_max_receive_size ex_settings, ui_max_send_size = as_ipc_max_send_size ex_settings, ui_next_ref = 0\<rparr>\<rparr>)"

lemma loop_start: "qnetd_start (\<lambda>r. True) loop_sys (\<lambda>fd. True) 7 loop_world = Inr (Some loop_state0)"
  by (simp add: qnetd_start_def loop_state0_def loop_sys_def loop_world_def qnetd_world_init_def qnetd_instance_init_def
      ex_settings_def qnetd_ipc_init_def pr_poll_loop_add_pre_poll_cb_def pr_poll_loop_find_pre_poll_cb_def
      pr_poll_loop_init_def unix_socket_ipc_init_def unix_socket_server_create_def sun_path_size_def
      pr_poll_loop_add_fd_def pr_poll_loop_add_prfd_def pr_poll_loop_add_fd_int_def pr_poll_loop_find_by_fd_def
      one_handle_def in_out_flags entry_is_def server_entry_def ipc_socket_entry_def new_fd_entry_def Let_def)

lemma has_flags [simp]: "has_flag 0 f = False" "has_flag pr_poll_read pr_poll_read" "\<not> has_flag pr_poll_read pr_poll_write"
  "\<not> out_err 0" "\<not> out_err pr_poll_read"
  by (simp_all add: has_flag_def poll_flag_defs out_err_def)

lemma walk_simps:
  "pre_poll_walk env None st = Some (Inr (0, st))" "fill_walk env None st = Some (Inr (0, st))"
  by (simp_all add: pre_poll_walk.simps fill_walk.simps)

lemmas walk_Some = pre_poll_walk.simps [of _ "Some r" for r] fill_walk.simps [of _ "Some r" for r]

lemmas turn_simps = prepare_poll_array_def walk_simps walk_Some with_array_def Let_def
    call_pre_poll_def pre_poll_cb_def in_callback_def set_events_entries
    ipc_socket_poll_loop_set_events_cb_def qnetd_ipc_is_closed_def unix_socket_ipc_is_closed_def in_out_flags
    add_to_array_def pr_poll_array_add_def pr_poll_array_realloc_def pr_poll_array_size_def pr_poll_array_clean_def
    pr_poll_array_gc_def poll_array_set_def pr_poll_array_init_def

lemma env_simps [simp]: "pv_alloc (qnetd_env t) = qt_alloc t"
  "pv_pre_poll (qnetd_env t) Cb_Pre_Poll Ud_Instance st = pre_poll_cb t st"
  "pv_poll (qnetd_env t) descs timeout w = qt_poll t descs timeout"
  by (simp_all add: qnetd_env_def)

lemma turn_alloc [simp]: "qt_alloc (loop_turn outs) = (\<lambda>r. True)" by (simp add: loop_turn_def)

lemma turn_poll [simp]: "qt_poll (loop_turn outs) descs timeout = (1, outs)" by (simp add: loop_turn_def)

lemma pollin_nz [simp]: "pollin \<noteq> 0" by (simp add: pollin_def)

lemma world_simps [simp]: "qi_clients (qw_instance loop_world) = []"
  by (simp add: loop_world_def qnetd_world_init_def qnetd_instance_init_def)

definition loop_array :: "entry_ref pr_poll_array" where
  "loop_array = \<lparr>pa_array = [\<lparr>pd_fd = Some (Poll_Prfd 3), pd_in_flags = pr_poll_read\<rparr>,
      \<lparr>pd_fd = Some (Socket_Prfd 7), pd_in_flags = pr_poll_read\<rparr>],
     pa_user_data = [Some 1, Some 2], pa_allocated = 3, pa_user_allocated = 3\<rparr>"

lemma loop_prfds [simp]: "fe_prfd (ipc_socket_entry n) = Poll_Prfd n" "fe_prfd (server_entry k) = Socket_Prfd k"
  "fe_prfd (net_entry p c) = p"
  by (simp_all add: entry_defs)

lemma pollin_pr [simp]: "poll_events_to_pr_events pollin = pr_poll_read"
  using to_pr_events [of False] by (simp add: flag_if_def)

lemma loop_prepare0: "prepare_poll_array (qnetd_env (loop_turn outs)) loop_state0 =
    Some (Inr (0, ((fst loop_state0)\<lparr>pl_poll_array := loop_array\<rparr>, snd loop_state0)))"
  by (simp add: turn_simps loop_state0_def loop_array_def)

definition loop_state1 :: qnetd_state where
  "loop_state1 =
     ((fst loop_state0)\<lparr>pl_fd_list := [(1, ipc_socket_entry 3), (2, server_entry 7), (3, net_entry (Socket_Prfd 8) 1)],
        pl_poll_array := loop_array, pl_next_ref := 4\<rparr>,
      (snd loop_state0)\<lparr>qw_instance := (qw_instance loop_world)\<lparr>qi_client := (qi_client (qw_instance loop_world))
          (1 := qnetd_client_init (as_max_client_receive_size ex_settings) (as_max_client_send_buffers ex_settings)
             (as_max_client_send_size ex_settings)), qi_clients := [1]\<rparr>,
        qw_client_socket := (qw_client_socket loop_world)(1 := Socket_Prfd 8)\<rparr>)"

lemma loop_accept:
  "server_socket_poll_loop_read_cb (loop_turn outs)
     ((fst loop_state0)\<lparr>pl_poll_array := loop_array\<rparr>, snd loop_state0) = Inr (0, loop_state1)"
  by (simp add: server_socket_poll_loop_read_cb_def loop_turn_def Let_def pr_poll_loop_add_prfd_def pr_poll_loop_add_fd_int_def
      pr_poll_loop_find_by_fd_def one_handle_def in_out_flags entry_is_def
      qnetd_client_net_accept_def qnetd_client_list_add_def loop_world_def qnetd_world_init_def qnetd_instance_init_def
      on_client_def qnetd_client_dpd_timer_init_def fresh_ref_def loop_state0_def loop_state1_def)
     (simp add: entry_defs fun_upd_idem)

lemma loop_turn1: "pr_poll_loop_exec (qnetd_env (loop_turn [0, pr_poll_read])) loop_state0 = Some (Inr (0, loop_state1))"
proof -
  let ?st = "((fst loop_state0)\<lparr>pl_poll_array := loop_array\<rparr>, snd loop_state0)"
  have cb: "call_fd_or_prfd (fe_fd_read_cb (server_entry 7)) (fe_prfd_read_cb (server_entry 7)) (server_entry 7)
      (pv_read (qnetd_env (loop_turn outs))) ?st = Inr (0, loop_state1)" for outs
    by (simp add: call_fd_or_prfd_def entry_defs qnetd_env_def qnetd_read_def loop_accept in_callback_def)
  have "dispatch_loop (qnetd_env (loop_turn [0, pr_poll_read])) 0 [0, pr_poll_read] ?st = Inr (0, loop_state1)"
    using cb
    by (simp add: pr_poll_array_get_user_data_def pr_poll_array_size_def loop_array_def dispatch_entry_def then_call_def
        when_ready_def) (simp add: loop_state0_def)
  moreover have "run_timers env loop_state1 = Some (Inr loop_state1)" for env
    by (simp add: run_timers_def timer_list_expire.simps loop_state1_def loop_state0_def timer_list_init_def)
  ultimately show ?thesis
    by (simp add: pr_poll_loop_exec_def loop_prepare0 del: dispatch_loop.simps)
qed

lemma loop_reachable1: "qnetd_loop_reachable loop_state1"
  using qnetd_loop_reachable.turn [OF qnetd_loop_reachable.start [OF loop_start [unfolded loop_world_def]] loop_turn1] .

definition loop_array1 :: "entry_ref pr_poll_array" where
  "loop_array1 = loop_array\<lparr>pa_array := pa_array loop_array @ [\<lparr>pd_fd = Some (Socket_Prfd 8), pd_in_flags = pr_poll_read\<rparr>],
     pa_user_data := [Some 1, Some 2, Some 3]\<rparr>"

lemma loop_prepare1: "prepare_poll_array (qnetd_env (loop_turn outs)) loop_state1 =
    Some (Inr (0, ((fst loop_state1)\<lparr>pl_poll_array := loop_array1\<rparr>, snd loop_state1)))"
  by (simp add: turn_simps loop_state1_def loop_state0_def loop_array_def loop_array1_def net_set_events_def
      with_client_def qnetd_client_net_socket_poll_loop_set_events_cb_def qnetd_client_init_def
      send_buffer_list_empty_def send_buffer_list_init_def flag_if_def)

section \<open>Properties\<close>



text \<open>
  C6. Votes do not wait for another event. When the server has prepared the array for a poll, every client
  that is connected and not about to be disconnected is polled for input, and it is polled for output exactly
  when messages wait for it, those included that the disconnection of other clients in the same turn has produced.
\<close>

theorem qnetd_output_polled:
  assumes "qnetd_loop_reachable st" and "prepare_poll_array (qnetd_env t) st = Some (Inr (0, st'))"
    and "c \<in> set (net_clients (snd st'))" and "\<not> cl_schedule_disconnect (qi_client (qw_instance (snd st')) c)"
  shows "\<exists>r. slot r \<lparr>pd_fd = Some (qw_client_socket (snd st') c), pd_in_flags = pr_poll_read OR
    flag_if (\<not> send_buffer_list_empty (cl_send_buffer_list (qi_client (qw_instance (snd st')) c))) pr_poll_write\<rparr> st'"
proof -
  note inv = conjunct1 [OF reachable_inv [OF assms(1)]] conjunct2 [OF reachable_inv [OF assms(1)]]
  obtain st1 where st1: "qnetd_loop_inv st1" "qw_instance (snd st') = qw_instance (snd st1)"
    "qw_client_socket (snd st') = qw_client_socket (snd st1)" and
    slots: "\<And>r e events. (r, e) \<in> set (pl_fd_list (fst st1)) \<Longrightarrow> client_of e \<noteq> None \<Longrightarrow>
      client_wants (qw_instance (snd st1)) e = Some events \<Longrightarrow>
      slot r \<lparr>pd_fd = Some (fe_prfd e), pd_in_flags = poll_events_to_pr_events events\<rparr> st'"
    using qnetd_view.prepare_slots [OF inv assms(2)] by auto
  have "Ud_Client c \<in> (\<lambda>x. fe_user_data (snd x)) ` set (pl_fd_list (fst st1))"
    using st1(1,2) assms(3) by (simp add: qnetd_loop_inv_def registered_part_def)
  then obtain r e where e: "(r, e) \<in> set (pl_fd_list (fst st1))" "fe_user_data e = Ud_Client c" by auto
  have "entry_ok (snd st1) e" using inv_entry_ok [OF st1(1) e(1)] by simp
  from entry_ok_client [OF this e(2)] have p: "fe_prfd e = qw_client_socket (snd st1) c" by (simp add: entry_defs)
  show ?thesis
    using slots [OF e(1)] e(2) p assms(4) to_pr_events
    by (auto simp: client_of_def client_wants_def st1(2,3) intro!: exI [of _ r])
qed

theorem qnetd_output_polled_witness:
  "\<exists>st' r. prepare_poll_array (qnetd_env (loop_turn [])) loop_state1 = Some (Inr (0, st')) \<and>
     slot r \<lparr>pd_fd = Some (Socket_Prfd 8), pd_in_flags = pr_poll_read\<rparr> st'"
proof -
  let ?st = "((fst loop_state1)\<lparr>pl_poll_array := loop_array1\<rparr>, snd loop_state1)"
  have "1 \<in> set (net_clients (snd ?st))" "\<not> cl_schedule_disconnect (qi_client (qw_instance (snd ?st)) 1)"
    "send_buffer_list_empty (cl_send_buffer_list (qi_client (qw_instance (snd ?st)) 1))"
    "qw_client_socket (snd ?st) 1 = Socket_Prfd 8"
    by (simp_all add: loop_state1_def qnetd_client_init_def send_buffer_list_empty_def send_buffer_list_init_def)
  with qnetd_output_polled [OF loop_reachable1 loop_prepare1 this(1,2)] show ?thesis
    using loop_prepare1 [of "[]"] by (auto simp: flag_if_def)
qed

text \<open>
  C7. Shutting down works: once the local socket is closed, by a signal handler or after the answer to the
  command \<open>shutdown\<close> was sent, the main loop ends in its next turn, without another poll. It returns 0 unless the
  disconnection of a client that was marked for it before ends in a fault of the code (see C36); then the program stops with
  this fault. When no client is marked, it always returns 0.
\<close>

theorem qnetd_shutdown:
  assumes "qnetd_loop_reachable st" and "qnetd_ipc_is_closed (snd st)"
  shows "(case pre_poll_cb t (with_array pr_poll_array_clean st) of
      Inl f \<Rightarrow> qnetd_run_main_loop (t # ts) st = Some (Inl (In_Callback f))
    | Inr r \<Rightarrow> \<exists>st'. qnetd_run_main_loop (t # ts) st = Some (Inr (0, st')) \<and> qnetd_ipc_is_closed (snd st')) \<and>
    ((\<forall>c \<in> set (net_clients (snd st)). \<not> cl_schedule_disconnect (qi_client (qw_instance (snd st)) c)) \<longrightarrow>
      (\<exists>st'. qnetd_run_main_loop (t # ts) st = Some (Inr (0, st'))))"
proof -
  note inv = conjunct1 [OF reachable_inv [OF assms(1)]] conjunct2 [OF reachable_inv [OF assms(1)]]
  let ?st0 = "with_array pr_poll_array_clean st"
  have inv0: "qnetd_loop_inv ?st0" using inv(1) by (rule qnetd_loop.inv_with_array)
  note walk = pre_poll_single [OF inv0, of t, unfolded with_array_simps(3)]
  have fault: "qnetd_run_main_loop (t # ts) st = Some (Inl (In_Callback f))" if "pre_poll_cb t ?st0 = Inl f" for f
    using walk that by (simp add: prepare_poll_array_def pr_poll_loop_exec_def)
  have success: "\<exists>st'. qnetd_run_main_loop (t # ts) st = Some (Inr (0, st')) \<and> qnetd_ipc_is_closed (snd st')"
    if "pre_poll_cb t ?st0 = Inr r" for r
  proof -
    from walk that obtain res st1 where "pre_poll_walk (qnetd_env t) (tailq_first (pl_pre_poll_cb_list (fst st))) ?st0 =
        Some (Inr (res, st1))" by (cases r) auto
    from qnetd_loop.prepare_total [OF set_events_total inv this] obtain res2 st2 where
      p: "prepare_poll_array (qnetd_env t) st = Some (Inr (res2, st2))" by fast
    from closed_stops [OF inv assms(2) p] show ?thesis using p by (simp add: pr_poll_loop_exec_def)
  qed
  have calm: "pre_poll_cb t ?st0 = Inr (0, ?st0)"
    if "\<forall>c \<in> set (net_clients (snd st)). \<not> cl_schedule_disconnect (qi_client (qw_instance (snd st)) c)"
    unfolding pre_poll_cb_def using that by (intro disconnect_walk_none) simp
  show ?thesis
  proof (cases "pre_poll_cb t ?st0")
    case (Inl f)
    then show ?thesis using fault [OF Inl] calm by (auto simp del: qnetd_run_main_loop.simps)
  next
    case (Inr r)
    then show ?thesis using success [OF Inr] by (auto simp del: qnetd_run_main_loop.simps)
  qed
qed

text \<open>The daemon with one client ends with success after a signal.\<close>

theorem qnetd_shutdown_witness:
  "\<exists>st'. qnetd_run_main_loop [loop_turn []] (fst loop_state1, snd (qnetd_ipc_close loop_sys (snd loop_state1))) =
     Some (Inr (0, st'))"
proof -
  let ?st = "(fst loop_state1, snd (qnetd_ipc_close loop_sys (snd loop_state1)))"
  have "qnetd_ipc_is_closed (snd ?st)"
    by (simp add: qnetd_ipc_close_def unix_socket_ipc_close_def qnetd_ipc_is_closed_def unix_socket_ipc_is_closed_def)
  moreover have "\<forall>c \<in> set (net_clients (snd ?st)). \<not> cl_schedule_disconnect (qi_client (qw_instance (snd ?st)) c)"
  proof -
    have "qw_instance (snd ?st) = qw_instance (snd loop_state1)"
      by (simp add: qnetd_ipc_close_def split: prod.split)
    then show ?thesis by (simp add: loop_state1_def qnetd_client_init_def)
  qed
  ultimately show ?thesis
    using qnetd_shutdown [OF qnetd_loop_reachable.signal_handler [OF loop_reachable1], of loop_sys "loop_turn []" "[]"]
    by blast
qed

end
