(* ===== verification/Qdevice_Ipc_Cmd.thy ===== *)
theory Qdevice_Ipc_Cmd
  imports Config Qnetd_Ipc_Cmd
begin

text \<open>
  The text that the client prints for the command \<open>status\<close>: \<open>qdevice-ipc-cmd.c\<close>, \<open>qdevice-net-ipc-cmd.c\<close>, and the
  functions of \<open>qdevice-model.c\<close> and \<open>qdevice-model-net.c\<close> between them. The C functions return 1 for success and 0
  for an error; here they are 0 and -1, as in \<open>Qnetd_Ipc_Cmd\<close>. \<open>localtime_r\<close> is an argument.
\<close>

section \<open>Formatted text\<close>

record tm =
  tm_year :: int
  tm_mon :: int
  tm_mday :: int
  tm_hour :: int
  tm_min :: int
  tm_sec :: int

text \<open>\<open>%0nd\<close>.\<close>

definition fmt_pad :: "nat \<Rightarrow> int \<Rightarrow> byte list" where
  "fmt_pad n i =
     (let sign = (if i < 0 then str_bytes ''-'' else []);
          digits = dec_digits (nat \<bar>i\<bar>)
      in sign @ replicate (n - length sign - length digits) 48 @ digits)"

definition fmt_time :: "tm \<Rightarrow> byte list" where
  "fmt_time t =
     fmt_pad 4 (tm_year t + 1900) @ str_bytes ''-'' @ fmt_pad 2 (tm_mon t + 1) @ str_bytes ''-'' @
     fmt_pad 2 (tm_mday t) @ str_bytes ''T'' @ fmt_pad 2 (tm_hour t) @ str_bytes '':'' @
     fmt_pad 2 (tm_min t) @ str_bytes '':'' @ fmt_pad 2 (tm_sec t)"

text \<open>Appending may call \<open>exit\<close>; a chain of calls stops at the first error.\<close>

type_synonym fadder = "dynar \<Rightarrow> fault + (int \<times> dynar)"

definition total_add :: "adder \<Rightarrow> fadder" where
  "total_add f d = Inr (f d)"

fun run_fadds :: "fadder list \<Rightarrow> fadder" where
  "run_fadds [] d = Inr (0, d)"
| "run_fadds (f # fs) d = bindE (f d) (\<lambda>(r, d'). if r = -1 then Inr (-1, d') else run_fadds fs d')"

section \<open>The model net\<close>

definition qdevice_net_ipc_cmd_status_add_header :: "allocator \<Rightarrow> adder" where
  "qdevice_net_ipc_cmd_status_add_header al =
     run_adds [catf al (str_bytes ''Qdevice-net information'' @ nl), catf al (str_bytes ''----------------------'' @ nl)]"

definition qdevice_net_ipc_cmd_status_add_tie_breaker :: "allocator \<Rightarrow> qdevice_net_instance \<Rightarrow> adder" where
  "qdevice_net_ipc_cmd_status_add_tie_breaker al n =
     run_adds
       [catf al (str_bytes ''Tie-breaker:'' @ tabs 2),
        (case tb_mode (qn_tie_breaker n) of
           TLV_TIE_BREAKER_MODE_LOWEST \<Rightarrow> catf al (str_bytes ''Node with lowest node ID'')
         | TLV_TIE_BREAKER_MODE_HIGHEST \<Rightarrow> catf al (str_bytes ''Node with highest node ID'')
         | TLV_TIE_BREAKER_MODE_NODE_ID \<Rightarrow>
             catf al (str_bytes ''Node with node ID '' @ fmt_u (tb_node_id (qn_tie_breaker n)))
         | TLV_TIE_BREAKER_MODE_OTHER w \<Rightarrow> skip_add),
        catf al nl]"

definition kap_tb_str :: "qdevice_net_instance \<Rightarrow> string" where
  "kap_tb_str n =
     (case qn_decision_algorithm n of
        TLV_DECISION_ALGORITHM_TYPE_TEST \<Rightarrow> ''Unsupported by algorithm''
      | TLV_DECISION_ALGORITHM_TYPE_2NODELMS \<Rightarrow> ''Algorithm hard-coded''
      | TLV_DECISION_ALGORITHM_TYPE_LMS \<Rightarrow> ''Algorithm hard-coded''
      | TLV_DECISION_ALGORITHM_TYPE_FFSPLIT \<Rightarrow>
          if qn_kap_tb n = TLV_KEEP_ACTIVE_PARTITION_TIE_BREAKER_ENABLED
          then (if qn_state n \<noteq> QDEVICE_NET_INSTANCE_STATE_WAITING_VOTEQUORUM_CMAP_EVENTS \<or>
                   qn_server_supports_kap_tb n
                then ''Enabled'' else ''Unsupported by QNetd'')
          else ''Disabled''
      | TLV_DECISION_ALGORITHM_TYPE_OTHER w \<Rightarrow> '''')"

definition qdevice_net_ipc_cmd_status_add_kap_tb_info :: "allocator \<Rightarrow> qdevice_net_instance \<Rightarrow> bool \<Rightarrow> adder" where
  "qdevice_net_ipc_cmd_status_add_kap_tb_info al n verbose =
     add_if verbose (catf al (str_bytes ''KAP Tie-breaker:'' @ tabs 1 @ str_bytes (kap_tb_str n) @ nl))"

definition qdevice_net_ipc_cmd_status_add_basic_info ::
    "allocator \<Rightarrow> net_host \<Rightarrow> qdevice_net_instance \<Rightarrow> bool \<Rightarrow> adder" where
  "qdevice_net_ipc_cmd_status_add_basic_info al nh n verbose =
     run_adds
       [catf al (str_bytes ''Cluster name:'' @ tabs 2 @ c_str (qn_cluster_name n) @ nl),
        catf al (str_bytes ''QNetd host:'' @ tabs 2 @ c_str (nh_host_addr nh) @ str_bytes '':'' @
          dec_digits (nat (nh_host_port nh)) @ nl),
        add_if (verbose \<and> nh_force_ip_version nh \<noteq> 0)
          (catf al (str_bytes ''Force IP version:'' @ tabs 1 @ dec_digits (nat (nh_force_ip_version nh)) @ nl)),
        add_if verbose
          (run_adds
             [catf al (str_bytes ''Connect timeout:'' @ tabs 1 @ fmt_u (qn_connect_timeout n) @ str_bytes ''ms'' @ nl),
              catf al (str_bytes ''HB interval:'' @ tabs 2 @ fmt_u (qn_heartbeat_interval n) @ str_bytes ''ms'' @ nl),
              catf al (str_bytes ''VQ vote timer interval:'' @ tabs 1 @ fmt_u (qn_cast_vote_timer_interval n) @
                str_bytes ''ms'' @ nl),
              catf al (str_bytes ''TLS:'' @ tabs 3 @ str_bytes (tlv_tls_supported_to_str (qn_tls_supported n)) @ nl)]),
        catf al (str_bytes ''Algorithm:'' @ tabs 2 @
          str_bytes (tlv_decision_algorithm_type_to_str (qn_decision_algorithm n)) @ nl)]"

definition qdevice_net_ipc_cmd_status_add_poll_timer_status ::
    "allocator \<Rightarrow> qdevice_net_instance \<Rightarrow> bool \<Rightarrow> adder" where
  "qdevice_net_ipc_cmd_status_add_poll_timer_status al n verbose =
     add_if verbose
       (run_adds
          [catf al (str_bytes ''Poll timer running:'' @ tabs 1 @
             str_bytes (if qn_cast_vote_timer n \<noteq> None then ''Yes'' else ''No'')),
           add_if (qn_cast_vote_timer n \<noteq> None \<and> qn_cast_vote_timer_vote n = TLV_VOTE_ACK)
             (catf al (str_bytes '' (cast vote)'')),
           catf al nl])"

definition net_state_str :: "qdevice_net_instance \<Rightarrow> string" where
  "net_state_str n =
     (if qn_schedule_disconnect n then ''Disconnected''
      else if qn_state n = QDEVICE_NET_INSTANCE_STATE_WAITING_VOTEQUORUM_CMAP_EVENTS then ''Connected''
      else if qn_state n \<noteq> QDEVICE_NET_INSTANCE_STATE_WAITING_CONNECT \<or> \<not> qn_non_blocking_client_destroyed n
      then ''Connecting'' else ''Connect failed'')"

definition qdevice_net_ipc_cmd_status_add_state :: "allocator \<Rightarrow> qdevice_net_instance \<Rightarrow> adder" where
  "qdevice_net_ipc_cmd_status_add_state al n =
     catf al (str_bytes ''State:'' @ tabs 3 @ str_bytes (net_state_str n) @ nl)"

definition qdevice_net_ipc_cmd_status_add_heuristics ::
    "allocator \<Rightarrow> qdevice_heuristics_mode \<Rightarrow> qdevice_net_instance \<Rightarrow> bool \<Rightarrow> adder" where
  "qdevice_net_ipc_cmd_status_add_heuristics al active_heuristics_mode n verbose =
     add_if (active_heuristics_mode = QDEVICE_HEURISTICS_MODE_ENABLED \<or>
             active_heuristics_mode = QDEVICE_HEURISTICS_MODE_SYNC)
       (run_adds
          [catf al (str_bytes ''Heuristics result:'' @ tabs 1 @
             str_bytes (tlv_heuristics_to_str (qn_latest_heuristics_result n))),
           add_if verbose
             (catf al (str_bytes '' (regular: '' @ str_bytes (tlv_heuristics_to_str (qn_latest_regular_heuristics_result n)) @
                str_bytes '', membership: '' @ str_bytes (tlv_heuristics_to_str (qn_latest_vq_heuristics_result n)) @
                str_bytes '', connect: '' @ str_bytes (tlv_heuristics_to_str (qn_latest_connect_heuristics_result n)) @
                str_bytes '')'')),
           catf al nl])"

definition qdevice_net_ipc_cmd_status_add_tls_state :: "allocator \<Rightarrow> qdevice_net_instance \<Rightarrow> bool \<Rightarrow> adder" where
  "qdevice_net_ipc_cmd_status_add_tls_state al n verbose =
     add_if (verbose \<and> qn_state n = QDEVICE_NET_INSTANCE_STATE_WAITING_VOTEQUORUM_CMAP_EVENTS)
       (run_adds
          [catf al (str_bytes ''TLS active:'' @ tabs 2 @ str_bytes (if qn_using_tls n then ''Yes'' else ''No'')),
           add_if (qn_using_tls n \<and> qn_tls_client_cert_sent n) (catf al (str_bytes '' (client certificate sent)'')),
           catf al nl])"

definition qdevice_net_ipc_cmd_status_add_times ::
    "allocator \<Rightarrow> (int \<Rightarrow> tm) \<Rightarrow> qdevice_net_instance \<Rightarrow> bool \<Rightarrow> adder" where
  "qdevice_net_ipc_cmd_status_add_times al localtime n verbose =
     add_if (verbose \<and> qn_state n = QDEVICE_NET_INSTANCE_STATE_WAITING_VOTEQUORUM_CMAP_EVENTS)
       (run_adds
          [add_if (qn_connected_since_time n \<noteq> -1)
             (catf al (str_bytes ''Connected since:'' @ tabs 1 @ fmt_time (localtime (qn_connected_since_time n)) @ nl)),
           add_if (qn_last_echo_reply_received_time n \<noteq> -1)
             (catf al (str_bytes ''Echo reply received:'' @ tabs 1 @
                fmt_time (localtime (qn_last_echo_reply_received_time n)) @ nl))])"

definition qdevice_net_ipc_cmd_status ::
    "allocator \<Rightarrow> (int \<Rightarrow> tm) \<Rightarrow> qdevice_heuristics_mode \<Rightarrow> net_host \<Rightarrow> qdevice_net_instance \<Rightarrow> bool \<Rightarrow> adder" where
  "qdevice_net_ipc_cmd_status al localtime active_heuristics_mode nh n verbose =
     run_adds
       [qdevice_net_ipc_cmd_status_add_header al,
        qdevice_net_ipc_cmd_status_add_basic_info al nh n verbose,
        qdevice_net_ipc_cmd_status_add_tie_breaker al n,
        qdevice_net_ipc_cmd_status_add_kap_tb_info al n verbose,
        qdevice_net_ipc_cmd_status_add_poll_timer_status al n verbose,
        qdevice_net_ipc_cmd_status_add_state al n,
        qdevice_net_ipc_cmd_status_add_heuristics al active_heuristics_mode n verbose,
        qdevice_net_ipc_cmd_status_add_tls_state al n verbose,
        qdevice_net_ipc_cmd_status_add_times al localtime n verbose]"

definition qdevice_model_net_ipc_cmd_status ::
    "allocator \<Rightarrow> (int \<Rightarrow> tm) \<Rightarrow> net_host \<Rightarrow> qdevice_instance \<Rightarrow> bool \<Rightarrow> adder" where
  "qdevice_model_net_ipc_cmd_status al localtime nh qd verbose =
     qdevice_net_ipc_cmd_status al localtime (qh_mode (qd_heuristics_instance qd)) nh (qd_net qd) verbose"

text \<open>The one model is registered, so that the check of \<open>qdevice_model_ipc_cmd_status\<close> passes.\<close>

definition qdevice_model_ipc_cmd_status ::
    "allocator \<Rightarrow> (int \<Rightarrow> tm) \<Rightarrow> qdevice_config \<Rightarrow> net_host \<Rightarrow> qdevice_instance \<Rightarrow> bool \<Rightarrow> adder" where
  "qdevice_model_ipc_cmd_status al localtime qc nh qd verbose =
     (case qc_model_type qc of QDEVICE_MODEL_TYPE_NET \<Rightarrow> qdevice_model_net_ipc_cmd_status al localtime nh qd verbose)"

section \<open>The instance\<close>

definition qdevice_model_type_to_str :: "qdevice_model_type \<Rightarrow> string" where
  "qdevice_model_type_to_str model_type = (case model_type of QDEVICE_MODEL_TYPE_NET \<Rightarrow> ''Net'')"

definition qdevice_heuristics_mode_to_str :: "qdevice_heuristics_mode \<Rightarrow> string" where
  "qdevice_heuristics_mode_to_str mode =
     (case mode of
        QDEVICE_HEURISTICS_MODE_DISABLED \<Rightarrow> ''Disabled''
      | QDEVICE_HEURISTICS_MODE_ENABLED \<Rightarrow> ''Enabled''
      | QDEVICE_HEURISTICS_MODE_SYNC \<Rightarrow> ''Enabled only on sync'')"

definition qdevice_ipc_cmd_status_add_header :: "allocator \<Rightarrow> adder" where
  "qdevice_ipc_cmd_status_add_header al =
     run_adds [catf al (str_bytes ''Qdevice information'' @ nl), catf al (str_bytes ''-------------------'' @ nl)]"

definition qdevice_ipc_cmd_status_add_model :: "allocator \<Rightarrow> qdevice_config \<Rightarrow> adder" where
  "qdevice_ipc_cmd_status_add_model al qc =
     catf al (str_bytes ''Model:'' @ tabs 3 @ str_bytes (qdevice_model_type_to_str (qc_model_type qc)) @ nl)"

definition qdevice_ipc_cmd_status_add_nodeid :: "allocator \<Rightarrow> qdevice_instance \<Rightarrow> adder" where
  "qdevice_ipc_cmd_status_add_nodeid al qd = catf al (str_bytes ''Node ID:'' @ tabs 2 @ fmt_u (qd_node_id qd) @ nl)"

definition qdevice_ipc_cmd_status_add_intervals :: "allocator \<Rightarrow> qdevice_config \<Rightarrow> bool \<Rightarrow> adder" where
  "qdevice_ipc_cmd_status_add_intervals al qc verbose =
     add_if verbose
       (run_adds
          [catf al (str_bytes ''HB interval:'' @ tabs 2 @ fmt_u (qc_heartbeat_interval qc) @ str_bytes ''ms'' @ nl),
           catf al (str_bytes ''Sync HB interval:'' @ tabs 1 @ fmt_u (qc_sync_heartbeat_interval qc) @
             str_bytes ''ms'' @ nl)])"

fun config_node_list_loop :: "allocator \<Rightarrow> nat \<Rightarrow> node_list \<Rightarrow> adder list" where
  "config_node_list_loop al zi [] = []"
| "config_node_list_loop al zi (node_info # nlist) =
     [catf al (str_bytes ''    '' @ dec_digits zi @ tabs 1 @ str_bytes ''Node ID = '' @ fmt_u (nl_node_id node_info)),
      add_if (nl_data_center_id node_info \<noteq> 0)
        (catf al (str_bytes '', Data center ID = '' @ fmt_u (nl_data_center_id node_info))),
      catf al nl] @
     config_node_list_loop al (zi + 1) nlist"

definition qdevice_ipc_cmd_status_add_config_node_list :: "allocator \<Rightarrow> qdevice_instance \<Rightarrow> adder" where
  "qdevice_ipc_cmd_status_add_config_node_list al qd =
     run_adds
       ([add_if (qd_config_node_list_version_set qd)
           (catf al (str_bytes ''Configuration version:'' @ tabs 1 @ fmt_u (qd_config_node_list_version qd) @ nl)),
         catf al (str_bytes ''Configured node list:'' @ nl)] @
        config_node_list_loop al 0 (qd_config_node_list qd))"

fun membership_loop :: "allocator \<Rightarrow> nat \<Rightarrow> u32 list \<Rightarrow> adder list" where
  "membership_loop al i [] = []"
| "membership_loop al i (node_id # nodes) =
     [add_if (i \<noteq> 0) (catf al (str_bytes '', '')), catf al (fmt_u node_id)] @ membership_loop al (i + 1) nodes"

definition qdevice_ipc_cmd_status_add_membership_node_list :: "allocator \<Rightarrow> qdevice_instance \<Rightarrow> bool \<Rightarrow> adder" where
  "qdevice_ipc_cmd_status_add_membership_node_list al qd verbose =
     run_adds
       ([add_if verbose
           (catf al (str_bytes ''Ring ID:'' @ tabs 2 @ hex_digits (unat (vrid_nodeid (qd_vq_node_list_ring_id qd))) @
              str_bytes ''.'' @ hex_digits (unat (vrid_seq (qd_vq_node_list_ring_id qd))) @ nl)),
         catf al (str_bytes ''Membership node list:'' @ tabs 1)] @
        membership_loop al 0 (qd_vq_node_list qd) @ [catf al nl])"

definition qdevice_ipc_cmd_vq_nodestate_to_str :: "votequorum_nodestate \<Rightarrow> fault + string" where
  "qdevice_ipc_cmd_vq_nodestate_to_str state =
     (case state of
        VOTEQUORUM_NODESTATE_MEMBER \<Rightarrow> Inr ''member''
      | VOTEQUORUM_NODESTATE_DEAD \<Rightarrow> Inr ''dead''
      | VOTEQUORUM_NODESTATE_LEAVING \<Rightarrow> Inr ''leaving''
      | VOTEQUORUM_NODESTATE_OTHER w \<Rightarrow> Inl Exit_Failure)"

definition add_quorum_node :: "allocator \<Rightarrow> nat \<Rightarrow> votequorum_node \<Rightarrow> fadder" where
  "add_quorum_node al i node d =
     (if vn_nodeid node = 0 then Inr (0, d)
      else bindE (qdevice_ipc_cmd_vq_nodestate_to_str (vn_state node)) (\<lambda>state.
             Inr (catf al (str_bytes ''    '' @ dec_digits i @ tabs 1 @ str_bytes ''Node ID = '' @
               fmt_u (vn_nodeid node) @ str_bytes '', State = '' @ str_bytes state @ nl) d)))"

fun quorum_node_loop :: "allocator \<Rightarrow> nat \<Rightarrow> votequorum_node list \<Rightarrow> fadder list" where
  "quorum_node_loop al i [] = []"
| "quorum_node_loop al i (node # nodes) = add_quorum_node al i node # quorum_node_loop al (i + 1) nodes"

definition qdevice_ipc_cmd_status_add_quorum_node_list :: "allocator \<Rightarrow> qdevice_instance \<Rightarrow> bool \<Rightarrow> fadder" where
  "qdevice_ipc_cmd_status_add_quorum_node_list al qd verbose =
     (if \<not> verbose then total_add skip_add
      else run_fadds
             ([total_add (catf al (str_bytes ''Quorate:'' @ tabs 2 @
                 str_bytes (if qd_vq_quorum_quorate qd \<noteq> 0 then ''Yes'' else ''No'') @ nl)),
               total_add (catf al (str_bytes ''Quorum node list:'' @ nl))] @
              quorum_node_loop al 0 (qd_vq_quorum_node_list qd)))"

definition qdevice_ipc_cmd_status_add_expected_votes :: "allocator \<Rightarrow> qdevice_instance \<Rightarrow> bool \<Rightarrow> adder" where
  "qdevice_ipc_cmd_status_add_expected_votes al qd verbose =
     add_if verbose (catf al (str_bytes ''Expected votes:'' @ tabs 2 @ fmt_u (qd_vq_expected_votes qd) @ nl))"

definition qdevice_ipc_cmd_status_add_last_poll ::
    "allocator \<Rightarrow> (int \<Rightarrow> tm) \<Rightarrow> qdevice_instance \<Rightarrow> bool \<Rightarrow> adder" where
  "qdevice_ipc_cmd_status_add_last_poll al localtime qd verbose =
     add_if verbose
       (if qd_vq_last_poll qd = -1 then catf al (str_bytes ''Last poll call:'' @ tabs 2 @ str_bytes ''Never'' @ nl)
        else catf al (str_bytes ''Last poll call:'' @ tabs 2 @ fmt_time (localtime (qd_vq_last_poll qd)) @
               str_bytes (if qd_vq_last_poll_cast_vote qd then '' (cast vote)'' else '''') @ nl))"

text \<open>The result of \<open>dynar_str_catf\<close> is compared with 0, not with -1.\<close>

definition qdevice_ipc_cmd_status_add_heuristics :: "allocator \<Rightarrow> qdevice_instance \<Rightarrow> bool \<Rightarrow> adder" where
  "qdevice_ipc_cmd_status_add_heuristics al qd verbose d =
     (if \<not> verbose then (0, d)
      else case dynar_str_vcatf al d (Some (str_bytes ''Heuristics:'' @ tabs 2 @
                  str_bytes (qdevice_heuristics_mode_to_str (qh_mode (qd_heuristics_instance qd))) @ nl)) of
             (r, d') \<Rightarrow> (if r \<noteq> 0 then 0 else -1, d'))"

definition qdevice_ipc_cmd_status ::
    "allocator \<Rightarrow> (int \<Rightarrow> tm) \<Rightarrow> qdevice_config \<Rightarrow> net_host \<Rightarrow> qdevice_instance \<Rightarrow> bool \<Rightarrow> fadder" where
  "qdevice_ipc_cmd_status al localtime qc nh qd verbose =
     run_fadds
       [total_add (qdevice_ipc_cmd_status_add_header al),
        total_add (qdevice_ipc_cmd_status_add_model al qc),
        total_add (qdevice_ipc_cmd_status_add_nodeid al qd),
        total_add (qdevice_ipc_cmd_status_add_intervals al qc verbose),
        total_add (qdevice_ipc_cmd_status_add_config_node_list al qd),
        total_add (qdevice_ipc_cmd_status_add_heuristics al qd verbose),
        total_add (qdevice_ipc_cmd_status_add_membership_node_list al qd verbose),
        qdevice_ipc_cmd_status_add_quorum_node_list al qd verbose,
        total_add (qdevice_ipc_cmd_status_add_expected_votes al qd verbose),
        total_add (qdevice_ipc_cmd_status_add_last_poll al localtime qd verbose),
        total_add (catf al nl),
        total_add (qdevice_model_ipc_cmd_status al localtime qc nh qd verbose)]"

end
