(* ===== verification/Qdevice_Ipc.thy ===== *)
theory Qdevice_Ipc
  imports Qdevice_Ipc_Cmd Qnetd_Ipc
begin

text \<open>
  The local interface of the client, \<open>qdevice-ipc.c\<close>, with the commands \<open>status\<close> and \<open>shutdown\<close>. It is built like the
  one of the server (\<open>Qnetd_Ipc\<close>); the callbacks have the same names in C and get the prefix \<open>qdevice_\<close> here.
  The last part is about both: what a client gets that has sent a line.
\<close>

section \<open>State\<close>

datatype qdevice_ipc_cb =
    Qdevice_Ipc_Set_Events
  | Qdevice_Ipc_Read
  | Qdevice_Ipc_Err
  | Qdevice_Ipc_Client_Set_Events
  | Qdevice_Ipc_Client_Read
  | Qdevice_Ipc_Client_Write
  | Qdevice_Ipc_Client_Err

text \<open>The parts of the instance, and the local interface with its clients.\<close>

record qdevice_world =
  dw_instance :: qdevice_instance
  dw_config :: qdevice_config
  dw_host :: net_host
  dw_local_ipc :: unix_socket_ipc

type_synonym qdevice_state = "(qdevice_ipc_cb, ipc_client_ref option, qdevice_world) poll_state"

definition qdevice_upd_ipc :: "(unix_socket_ipc \<Rightarrow> unix_socket_ipc) \<Rightarrow> qdevice_world \<Rightarrow> qdevice_world" where
  "qdevice_upd_ipc f w = w\<lparr>dw_local_ipc := f (dw_local_ipc w)\<rparr>"

definition qdevice_ipc_client_callbacks :: "qdevice_ipc_cb fd_callbacks" where
  "qdevice_ipc_client_callbacks =
     \<lparr>fc_set_events = Some Qdevice_Ipc_Client_Set_Events, fc_read = Some Qdevice_Ipc_Client_Read,
      fc_write = Some Qdevice_Ipc_Client_Write, fc_err = Some Qdevice_Ipc_Client_Err\<rparr>"

definition qdevice_ipc_socket_callbacks :: "qdevice_ipc_cb fd_callbacks" where
  "qdevice_ipc_socket_callbacks =
     \<lparr>fc_set_events = Some Qdevice_Ipc_Set_Events, fc_read = Some Qdevice_Ipc_Read, fc_write = None,
      fc_err = Some Qdevice_Ipc_Err\<rparr>"

section \<open>Operations\<close>

text \<open>\<open>qdevice_ipc_send_error\<close> and \<open>qdevice_ipc_send_buffer\<close> are the functions of \<open>Unix_Ipc\<close>.\<close>

definition qdevice_ipc_send_error :: "allocator \<Rightarrow> byte list \<Rightarrow> unix_socket_client \<Rightarrow> int \<times> unix_socket_client" where
  "qdevice_ipc_send_error al error_text client = ipc_send_error al error_text client"

definition qdevice_ipc_send_buffer :: "allocator \<Rightarrow> unix_socket_client \<Rightarrow> int \<times> unix_socket_client" where
  "qdevice_ipc_send_buffer al client = ipc_send_buffer al client"

definition qdevice_status_answer ::
    "allocator \<Rightarrow> (int \<Rightarrow> tm) \<Rightarrow> qdevice_world \<Rightarrow> bool \<Rightarrow> unix_socket_client \<Rightarrow> fault + unix_socket_client" where
  "qdevice_status_answer al localtime w verbose client =
     bindE (qdevice_ipc_cmd_status al localtime (dw_config w) (dw_host w) (dw_instance w) verbose (uc_send_buffer client))
       (\<lambda>(r, b).
          let client1 = client\<lparr>uc_send_buffer := b\<rparr>
          in Inr (if r \<noteq> 0
                  then or_disconnect (qdevice_ipc_send_error al (str_bytes ''Can't get QDevice status'') client1)
                  else or_disconnect (qdevice_ipc_send_buffer al client1)))"

text \<open>A failure of the scanner behind \<open>status\<close> counts as a missing argument.\<close>

definition qdevice_ipc_parse_line ::
    "allocator \<Rightarrow> (int \<Rightarrow> tm) \<Rightarrow> qdevice_world \<Rightarrow> unix_socket_client \<Rightarrow> fault + unix_socket_client" where
  "qdevice_ipc_parse_line al localtime w client =
     (case dynar_simple_lex_token_next al
             (dynar_simple_lex_init (uc_receive_buffer client) DYNAR_SIMPLE_LEX_TYPE_PLAIN) of
        (ok, lx) \<Rightarrow>
          let str = c_str (dyn_data (sl_token lx))
          in if \<not> ok then Inr (or_disconnect (qdevice_ipc_send_error al (str_bytes ''Command too long'') client))
             else if strcasecmp_eq str ''''
             then Inr (or_disconnect (qdevice_ipc_send_error al (str_bytes ''No command specified'') client))
             else if strcasecmp_eq str ''shutdown''
             then (if uc_user_data client = None then Inl Null_Deref
                   else Inr (or_disconnect (qdevice_ipc_send_buffer al (client\<lparr>uc_user_data := Some True\<rparr>))))
             else if strcasecmp_eq str ''status''
             then (case dynar_simple_lex_token_next al lx of
                     (ok2, lx2) \<Rightarrow>
                       qdevice_status_answer al localtime w
                         (ok2 \<and> strcasecmp_eq (c_str (dyn_data (sl_token lx2))) ''verbose'') client)
             else Inr (or_disconnect (qdevice_ipc_send_error al
                    (str_bytes ''Unknown command '' @ [39] @ str @ [39]) client)))"

definition qdevice_ipc_close :: "unix_sys \<Rightarrow> qdevice_world \<Rightarrow> int \<times> qdevice_world" where
  "qdevice_ipc_close sys w =
     (case unix_socket_ipc_close sys (dw_local_ipc w) of (r, ipc) \<Rightarrow> (r, w\<lparr>dw_local_ipc := ipc\<rparr>))"

definition qdevice_ipc_is_closed :: "qdevice_world \<Rightarrow> bool" where
  "qdevice_ipc_is_closed w \<longleftrightarrow> unix_socket_ipc_is_closed (dw_local_ipc w)"

definition qdevice_ipc_destroy :: "unix_sys \<Rightarrow> qdevice_world \<Rightarrow> int \<times> qdevice_world" where
  "qdevice_ipc_destroy sys w =
     (let ipc = dw_local_ipc w;
          ipc1 = ipc\<lparr>ui_clients := map (\<lambda>(u, client). (u, client\<lparr>uc_user_data := None\<rparr>)) (ui_clients ipc)\<rparr>
      in case unix_socket_ipc_destroy sys ipc1 of (r, ipc2) \<Rightarrow> (r, w\<lparr>dw_local_ipc := ipc2\<rparr>))"

definition qdevice_ipc_client_disconnect :: "ipc_client_ref \<Rightarrow> qdevice_world \<Rightarrow> qdevice_world" where
  "qdevice_ipc_client_disconnect u = qdevice_upd_ipc (\<lambda>ipc. unix_socket_ipc_client_disconnect ipc u)"

definition qdevice_ipc_init ::
    "allocator \<Rightarrow> unix_sys \<Rightarrow> (int \<Rightarrow> bool) \<Rightarrow> qdevice_state \<Rightarrow> fault + (int \<times> qdevice_state)" where
  "qdevice_ipc_init al sys mkfd st =
     (let as = qd_advanced_settings (dw_instance (snd st))
      in case qs_local_socket_file as of
           None \<Rightarrow> Inl Null_Deref
         | Some file \<Rightarrow>
             (case unix_socket_ipc_init al sys file (qs_local_socket_gid as) (qs_local_socket_backlog as)
                     (qs_ipc_max_clients as) (qs_ipc_max_receive_size as) (qs_ipc_max_send_size as) of
                (r, ipc) \<Rightarrow>
                  let w = (snd st)\<lparr>dw_local_ipc := ipc\<rparr>
                  in if r \<noteq> 0 then Inr (-1, (fst st, w))
                     else bindE (pr_poll_loop_add_fd al mkfd (fst st) (ui_socket ipc) pollin
                                   qdevice_ipc_socket_callbacks None) (\<lambda>(r2, pl).
                            Inr (if r2 = -1 then -1 else 0, (pl, w)))))"

definition qdevice_ipc_accept ::
    "allocator \<Rightarrow> unix_sys \<Rightarrow> (int \<Rightarrow> bool) \<Rightarrow> qdevice_state \<Rightarrow> fault + (int \<times> qdevice_state)" where
  "qdevice_ipc_accept al sys mkfd st =
     (case unix_socket_ipc_accept al sys (dw_local_ipc (snd st)) of
        (accept_res, None, ipc) \<Rightarrow> Inr (-1, (fst st, (snd st)\<lparr>dw_local_ipc := ipc\<rparr>))
      | (accept_res, Some u, ipc) \<Rightarrow>
          let w1 = (snd st)\<lparr>dw_local_ipc := upd_ipc_client u (unix_socket_client_read_line True) ipc\<rparr>
          in if \<not> al Malloc_Ipc_User_Data then Inr (-1, (fst st, qdevice_ipc_client_disconnect u w1))
             else let w2 = qdevice_upd_ipc (upd_ipc_client u (\<lambda>c. c\<lparr>uc_user_data := Some False\<rparr>)) w1
                  in bindE (pr_poll_loop_add_fd al mkfd (fst st) (unix_socket_server_accept sys True) 0
                              qdevice_ipc_client_callbacks (Some u)) (\<lambda>(r, pl).
                       if r = -1 then Inr (-1, (pl, qdevice_ipc_client_disconnect u w2))
                       else Inr (0, (pl, w2))))"

definition qdevice_ipc_io_read ::
    "allocator \<Rightarrow> (int \<Rightarrow> tm) \<Rightarrow> (nat \<Rightarrow> recv_result) \<Rightarrow> qdevice_world \<Rightarrow> unix_socket_client \<Rightarrow>
     fault + unix_socket_client" where
  "qdevice_ipc_io_read al localtime recv w client =
     (case unix_socket_client_io_read al recv client of
        (res, client1) \<Rightarrow>
          if res = -1 \<or> res = -2 \<or> res = -3 then Inr (client1\<lparr>uc_schedule_disconnect := True\<rparr>)
          else if res = 1 then qdevice_ipc_parse_line al localtime w (unix_socket_client_read_line False client1)
          else Inr client1)"

definition qdevice_ipc_io_write ::
    "(byte list \<Rightarrow> send_result) \<Rightarrow> unix_socket_client \<Rightarrow> fault + (unix_socket_client \<times> bool)" where
  "qdevice_ipc_io_write send client =
     (case unix_socket_client_io_write send client of
        (res, client1) \<Rightarrow>
          if res = -1 \<or> res = -2 then Inr (client1\<lparr>uc_schedule_disconnect := True\<rparr>, False)
          else if res = 1
          then let client2 = (unix_socket_client_write_buffer False client1)\<lparr>uc_schedule_disconnect := True\<rparr>
               in (case uc_user_data client2 of
                     None \<Rightarrow> Inl Null_Deref
                   | Some shutdown_requested \<Rightarrow> Inr (client2, shutdown_requested))
          else Inr (client1, False))"

section \<open>Callbacks\<close>

definition qdevice_with_ipc_client ::
    "ipc_client_ref \<Rightarrow> qdevice_state \<Rightarrow> (unix_socket_client \<Rightarrow> fault + 'a) \<Rightarrow> fault + 'a" where
  "qdevice_with_ipc_client u st k =
     (case ipc_client (dw_local_ipc (snd st)) u of None \<Rightarrow> Inl Use_After_Free | Some client \<Rightarrow> k client)"

definition qdevice_put_ipc_client :: "ipc_client_ref \<Rightarrow> unix_socket_client \<Rightarrow> qdevice_state \<Rightarrow> qdevice_state" where
  "qdevice_put_ipc_client u client st = (fst st, qdevice_upd_ipc (upd_ipc_client u (\<lambda>_. client)) (snd st))"

definition qdevice_ipc_socket_poll_loop_set_events_cb ::
    "poll_flags \<Rightarrow> qdevice_state \<Rightarrow> int \<times> poll_flags \<times> qdevice_state" where
  "qdevice_ipc_socket_poll_loop_set_events_cb events st =
     (if qdevice_ipc_is_closed (snd st) then -2 else 0, events, st)"

definition qdevice_ipc_socket_poll_loop_read_cb ::
    "allocator \<Rightarrow> unix_sys \<Rightarrow> (int \<Rightarrow> bool) \<Rightarrow> qdevice_state \<Rightarrow> fault + (int \<times> qdevice_state)" where
  "qdevice_ipc_socket_poll_loop_read_cb al sys mkfd st =
     bindE (qdevice_ipc_accept al sys mkfd st) (\<lambda>(r, st'). Inr (0, st'))"

definition qdevice_ipc_socket_poll_loop_err_cb :: "qdevice_state \<Rightarrow> int \<times> qdevice_state" where
  "qdevice_ipc_socket_poll_loop_err_cb st = (-1, st)"

definition qdevice_ipc_client_socket_poll_loop_set_events_cb ::
    "int \<Rightarrow> poll_flags \<Rightarrow> ipc_client_ref \<Rightarrow> qdevice_state \<Rightarrow> fault + (int \<times> poll_flags \<times> qdevice_state)" where
  "qdevice_ipc_client_socket_poll_loop_set_events_cb fd events u st =
     qdevice_with_ipc_client u st (\<lambda>client.
       if uc_schedule_disconnect client
       then let w = qdevice_ipc_client_disconnect u (snd st)
            in bindE (pr_poll_loop_del_fd (fst st) fd) (\<lambda>(r, pl).
                 Inr (if r = -1 then -2 else -1, events, (pl, w)))
       else if \<not> uc_reading_line client \<and> \<not> uc_writing_buffer client then Inr (-1, events, st)
       else Inr (0, events OR flag_if (uc_reading_line client) pollin OR flag_if (uc_writing_buffer client) pollout,
                 st))"

definition qdevice_ipc_client_socket_poll_loop_read_cb ::
    "allocator \<Rightarrow> (int \<Rightarrow> tm) \<Rightarrow> (nat \<Rightarrow> recv_result) \<Rightarrow> ipc_client_ref \<Rightarrow> qdevice_state \<Rightarrow>
     fault + (int \<times> qdevice_state)" where
  "qdevice_ipc_client_socket_poll_loop_read_cb al localtime recv u st =
     qdevice_with_ipc_client u st (\<lambda>client.
       if \<not> uc_schedule_disconnect client
       then bindE (qdevice_ipc_io_read al localtime recv (snd st) client)
              (\<lambda>client'. Inr (0, qdevice_put_ipc_client u client' st))
       else Inr (0, st))"

definition qdevice_ipc_client_socket_poll_loop_write_cb ::
    "unix_sys \<Rightarrow> (byte list \<Rightarrow> send_result) \<Rightarrow> ipc_client_ref \<Rightarrow> qdevice_state \<Rightarrow> fault + (int \<times> qdevice_state)" where
  "qdevice_ipc_client_socket_poll_loop_write_cb sys send u st =
     qdevice_with_ipc_client u st (\<lambda>client.
       if \<not> uc_schedule_disconnect client
       then bindE (qdevice_ipc_io_write send client) (\<lambda>(client', shutdown).
              let st' = qdevice_put_ipc_client u client' st
              in Inr (0, if shutdown then (fst st', snd (qdevice_ipc_close sys (snd st'))) else st'))
       else Inr (0, st))"

definition qdevice_ipc_client_socket_poll_loop_err_cb ::
    "ipc_client_ref \<Rightarrow> qdevice_state \<Rightarrow> fault + (int \<times> qdevice_state)" where
  "qdevice_ipc_client_socket_poll_loop_err_cb u st =
     qdevice_with_ipc_client u st (\<lambda>client.
       Inr (0, if \<not> uc_schedule_disconnect client
               then qdevice_put_ipc_client u (client\<lparr>uc_schedule_disconnect := True\<rparr>) st else st))"

end
