(* ===== verification/Ipc_Props.thy ===== *)
theory Ipc_Props
  imports Qdevice_Ipc Qdevice_Props
begin

text \<open>
  What a client of the local interfaces gets: an answer to every line, with the whole status or an error.
  \<open>prints\<close> is the contract of everything that appends text to the answer; \<open>printable\<close> says that the text does
  not depend on the memory.
\<close>

section \<open>Printing\<close>

definition prints :: "allocator \<Rightarrow> fadder \<Rightarrow> byte list \<Rightarrow> bool" where
  "prints al f bs \<longleftrightarrow>
     (\<forall>d. alloc_ideal al \<longrightarrow> dynar_inv d \<longrightarrow>
        (\<exists>r d'. f d = Inr (r, d') \<and> dynar_inv d' \<and> dyn_maximum_size d' = dyn_maximum_size d \<and>
           (if bs = [] \<or> dynar_size d + length bs + 1 \<le> dyn_maximum_size d
            then r = 0 \<and> dyn_data d' = dyn_data d @ bs else r = -1)))"

definition printable :: "(allocator \<Rightarrow> fadder) \<Rightarrow> bool" where
  "printable f \<longleftrightarrow> (\<exists>bs. \<forall>al. prints al (f al) bs)"

lemma vcatf_ideal:
  assumes "alloc_ideal al" and "dynar_inv d" and "bs \<noteq> []"
  shows "\<exists>r d'. dynar_str_vcatf al d (Some bs) = (r, d') \<and> dynar_inv d' \<and> dyn_maximum_size d' = dyn_maximum_size d \<and>
    (if dynar_size d + length bs + 1 \<le> dyn_maximum_size d
     then r = int (length bs) \<and> dyn_data d' = dyn_data d @ bs else r = -1 \<and> d' = d)"
proof -
  obtain r d1 where p: "dynar_prealloc al d (length bs + 1) = (r, d1)" by fastforce
  show ?thesis
  proof (cases "dynar_size d + length bs + 1 \<le> dyn_maximum_size d")
    case True
    have "r = 0" using dynar_prealloc_total [OF assms(1), of d "length bs + 1"] True p by simp
    with p have "dynar_prealloc al d (length bs + 1) = (0, d1)" by simp
    from dynar_prealloc_ok [OF this assms(2)] True \<open>r = 0\<close> p assms(3) show ?thesis
      by (auto simp: dynar_str_vcatf_def dynar_inv_def dynar_size_def Suc_le_eq)
  next
    case False
    then have "dynar_prealloc al d (length bs + 1) = (-1, d)" by (simp add: dynar_prealloc_def)
    then show ?thesis using False assms by (simp add: dynar_str_vcatf_def Suc_le_eq)
  qed
qed

lemma prints_catf: "prints al (total_add (catf al bs)) bs"
proof (cases "bs = []")
  case True
  then show ?thesis by (simp add: prints_def total_add_def catf_def dynar_str_vcatf_def)
next
  case False
  show ?thesis
    unfolding prints_def total_add_def catf_def
  proof (intro allI impI)
    fix d
    assume "alloc_ideal al" "dynar_inv d"
    from vcatf_ideal [OF this False] obtain r d' where
      "dynar_str_vcatf al d (Some bs) = (r, d')" "dynar_inv d'" "dyn_maximum_size d' = dyn_maximum_size d"
      "if dynar_size d + length bs + 1 \<le> dyn_maximum_size d
       then r = int (length bs) \<and> dyn_data d' = dyn_data d @ bs else r = -1 \<and> d' = d" by blast
    then show "\<exists>r d'. (Inr (case dynar_str_vcatf al d (Some bs) of (r, outbuf') \<Rightarrow> (if r = -1 then -1 else 0, outbuf')) ::
        fault + (int \<times> dynar)) = Inr (r, d') \<and> dynar_inv d' \<and> dyn_maximum_size d' = dyn_maximum_size d \<and>
        (if bs = [] \<or> dynar_size d + length bs + 1 \<le> dyn_maximum_size d
         then r = 0 \<and> dyn_data d' = dyn_data d @ bs else r = -1)"
      using False by (auto split: if_splits)
  qed
qed

lemma prints_skip: "prints al (total_add skip_add) []"
  by (simp add: prints_def total_add_def skip_add_def)

lemma prints_Nil: "prints al (run_fadds []) []"
  by (simp add: prints_def)

lemma prints_Cons:
  assumes "prints al f bs" and "prints al (run_fadds fs) cs"
  shows "prints al (run_fadds (f # fs)) (bs @ cs)"
  unfolding prints_def
proof (intro allI impI)
  fix d
  assume a: "alloc_ideal al" "dynar_inv d"
  from assms(1) a obtain r d1 where f: "f d = Inr (r, d1)" "dynar_inv d1" "dyn_maximum_size d1 = dyn_maximum_size d"
    "if bs = [] \<or> dynar_size d + length bs + 1 \<le> dyn_maximum_size d
     then r = 0 \<and> dyn_data d1 = dyn_data d @ bs else r = -1"
    unfolding prints_def by blast
  from assms(2) a(1) f(2) obtain s d2 where g: "run_fadds fs d1 = Inr (s, d2)" "dynar_inv d2"
    "dyn_maximum_size d2 = dyn_maximum_size d1"
    "if cs = [] \<or> dynar_size d1 + length cs + 1 \<le> dyn_maximum_size d1
     then s = 0 \<and> dyn_data d2 = dyn_data d1 @ cs else s = -1"
    unfolding prints_def by blast
  show "\<exists>r d'. run_fadds (f # fs) d = Inr (r, d') \<and> dynar_inv d' \<and> dyn_maximum_size d' = dyn_maximum_size d \<and>
    (if bs @ cs = [] \<or> dynar_size d + length (bs @ cs) + 1 \<le> dyn_maximum_size d
     then r = 0 \<and> dyn_data d' = dyn_data d @ bs @ cs else r = -1)"
  proof (cases "bs = [] \<or> dynar_size d + length bs + 1 \<le> dyn_maximum_size d")
    case True
    then have r: "r = 0" "dyn_data d1 = dyn_data d @ bs" using f(4) by (simp_all split: if_splits)
    then have "dynar_size d1 = dynar_size d + length bs" by (simp add: dynar_size_def)
    then show ?thesis using f g r True by (auto split: if_splits)
  next
    case False
    then show ?thesis using f by (auto split: if_splits)
  qed
qed

lemma run_fadds_append:
  "run_fadds (fs @ gs) d = bindE (run_fadds fs d) (\<lambda>(r, d'). if r = -1 then Inr (-1, d') else run_fadds gs d')"
  by (induction fs arbitrary: d) (auto simp: bindE_def split: sum.splits)

lemma run_fadds_group: "run_fadds (fs @ gs) = run_fadds [run_fadds fs, run_fadds gs]"
proof
  fix d
  show "run_fadds (fs @ gs) d = run_fadds [run_fadds fs, run_fadds gs] d"
  proof -
    have "bindE (run_fadds gs d') (\<lambda>(r, d''). if r = -1 then Inr (-1, d'') else Inr (0, d'')) = run_fadds gs d'" for d'
    proof (induction gs arbitrary: d')
      case (Cons g gs)
      show ?case by (cases "g d'") (auto simp: Cons.IH)
    qed simp
    then have "run_fadds [run_fadds gs] = run_fadds gs" by (simp add: fun_eq_iff cong: if_cong)
    then show ?thesis by (simp add: run_fadds_append cong: if_cong)
  qed
qed

lemma prints_append:
  "prints al (run_fadds fs) bs \<Longrightarrow> prints al (run_fadds gs) cs \<Longrightarrow> prints al (run_fadds (fs @ gs)) (bs @ cs)"
  unfolding run_fadds_group using prints_Cons [OF _ prints_Cons [OF _ prints_Nil]] by fastforce

text \<open>Chains of operations that cannot fail otherwise are chains of the more general kind.\<close>

lemma total_run_adds: "total_add (run_adds fs) = run_fadds (map total_add fs)"
proof
  fix d
  show "total_add (run_adds fs) d = run_fadds (map total_add fs) d"
    by (induction fs arbitrary: d) (auto simp: total_add_def split: prod.splits)
qed

section \<open>Printable text\<close>

named_theorems printable_intros

lemma printable_prints: "(\<And>al. prints al (f al) bs) \<Longrightarrow> printable f"
  by (auto simp: printable_def)

lemma printable_catf [printable_intros]: "printable (\<lambda>al. total_add (catf al bs))"
  using printable_prints prints_catf .

lemma printable_skip [printable_intros]: "printable (\<lambda>al. total_add skip_add)"
  using printable_prints prints_skip .

lemma printable_if [printable_intros]:
  "printable (\<lambda>al. total_add (f al)) \<Longrightarrow> printable (\<lambda>al. total_add (add_if c (f al)))"
  by (cases c) (simp_all add: add_if_def printable_skip)

lemma printable_if_else [printable_intros]:
  "printable (\<lambda>al. total_add (f al)) \<Longrightarrow> printable (\<lambda>al. total_add (g al)) \<Longrightarrow>
    printable (\<lambda>al. total_add (if c then f al else g al))"
  by (cases c) simp_all

lemma printable_Nil [printable_intros]: "printable (\<lambda>al. run_fadds [])"
  using printable_prints prints_Nil .

lemma printable_Cons [printable_intros]:
  assumes "printable f" and "printable (\<lambda>al. run_fadds (fs al))"
  shows "printable (\<lambda>al. run_fadds (f al # fs al))"
  using assms prints_Cons unfolding printable_def by metis

lemma printable_append [printable_intros]:
  assumes "printable (\<lambda>al. run_fadds (fs al))" and "printable (\<lambda>al. run_fadds (gs al))"
  shows "printable (\<lambda>al. run_fadds (fs al @ gs al))"
  using assms prints_append unfolding printable_def by metis

lemma printable_run_adds [printable_intros]:
  "printable (\<lambda>al. run_fadds (map total_add (fs al))) \<Longrightarrow> printable (\<lambda>al. total_add (run_adds (fs al)))"
  by (simp add: total_run_adds)

lemma printable_config_node_list: "printable (\<lambda>al. run_fadds (map total_add (config_node_list_loop al i nl')))"
  by (induction nl' arbitrary: i) (auto intro!: printable_intros)

lemma printable_membership: "printable (\<lambda>al. run_fadds (map total_add (membership_loop al i nodes)))"
  by (induction nodes arbitrary: i) (auto intro!: printable_intros)

definition known_states :: "qdevice_instance \<Rightarrow> bool" where
  "known_states qd \<longleftrightarrow>
     (\<forall>node \<in> set (qd_vq_quorum_node_list qd). vn_nodeid node = 0 \<or>
        vn_state node \<in> {VOTEQUORUM_NODESTATE_MEMBER, VOTEQUORUM_NODESTATE_DEAD, VOTEQUORUM_NODESTATE_LEAVING})"

lemma printable_quorum_node:
  assumes "vn_nodeid node = 0 \<or>
    vn_state node \<in> {VOTEQUORUM_NODESTATE_MEMBER, VOTEQUORUM_NODESTATE_DEAD, VOTEQUORUM_NODESTATE_LEAVING}"
  shows "printable (\<lambda>al. add_quorum_node al i node)"
proof (cases "vn_nodeid node = 0")
  case True
  then have "add_quorum_node al i node = total_add skip_add" for al
    by (auto simp: add_quorum_node_def total_add_def skip_add_def)
  then show ?thesis by (simp add: printable_skip)
next
  case False
  with assms obtain s where "qdevice_ipc_cmd_vq_nodestate_to_str (vn_state node) = Inr s"
    by (auto simp: qdevice_ipc_cmd_vq_nodestate_to_str_def)
  with False have "add_quorum_node al i node = total_add (catf al (str_bytes ''    '' @ dec_digits i @ tabs 1 @
      str_bytes ''Node ID = '' @ fmt_u (vn_nodeid node) @ str_bytes '', State = '' @ str_bytes s @ nl))" for al
    by (auto simp: add_quorum_node_def total_add_def)
  then show ?thesis by (simp add: printable_catf)
qed

lemma printable_quorum_nodes:
  assumes "\<forall>node \<in> set nodes. vn_nodeid node = 0 \<or>
    vn_state node \<in> {VOTEQUORUM_NODESTATE_MEMBER, VOTEQUORUM_NODESTATE_DEAD, VOTEQUORUM_NODESTATE_LEAVING}"
  shows "printable (\<lambda>al. run_fadds (quorum_node_loop al i nodes))"
  using assms by (induction nodes arbitrary: i) (auto intro!: printable_intros printable_quorum_node)

section \<open>The status of the client\<close>

lemmas net_status_defs = qdevice_net_ipc_cmd_status_add_header_def qdevice_net_ipc_cmd_status_add_basic_info_def
  qdevice_net_ipc_cmd_status_add_kap_tb_info_def qdevice_net_ipc_cmd_status_add_poll_timer_status_def
  qdevice_net_ipc_cmd_status_add_state_def qdevice_net_ipc_cmd_status_add_heuristics_def
  qdevice_net_ipc_cmd_status_add_tls_state_def qdevice_net_ipc_cmd_status_add_times_def

lemma printable_tie_breaker: "printable (\<lambda>al. total_add (qdevice_net_ipc_cmd_status_add_tie_breaker al n))"
  unfolding qdevice_net_ipc_cmd_status_add_tie_breaker_def
  by (cases "tb_mode (qn_tie_breaker n)") (auto intro!: printable_intros)

lemma printable_model: "printable (\<lambda>al. total_add (qdevice_model_ipc_cmd_status al localtime qc nh qd verbose))"
  unfolding qdevice_model_ipc_cmd_status_def qdevice_model_net_ipc_cmd_status_def qdevice_net_ipc_cmd_status_def
  by (cases "qc_model_type qc") (auto intro!: printable_intros printable_tie_breaker simp: net_status_defs)

lemma printable_config: "printable (\<lambda>al. total_add (qdevice_ipc_cmd_status_add_config_node_list al qd))"
  unfolding qdevice_ipc_cmd_status_add_config_node_list_def
  by (auto intro!: printable_intros printable_config_node_list)

lemma printable_quorum:
  assumes "known_states qd"
  shows "printable (\<lambda>al. qdevice_ipc_cmd_status_add_quorum_node_list al qd verbose)"
proof -
  have "printable (\<lambda>al. run_fadds (quorum_node_loop al 0 (qd_vq_quorum_node_list qd)))"
    using assms by (intro printable_quorum_nodes) (simp add: known_states_def)
  then show ?thesis
    unfolding qdevice_ipc_cmd_status_add_quorum_node_list_def
    by (cases verbose) (auto intro!: printable_intros)
qed

text \<open>
  A line of the heuristics that does not fit is left out without an error, but the lines behind it are longer: they do not fit either.
\<close>

lemma prints_lossy:
  assumes f: "\<And>d. alloc_ideal al \<Longrightarrow> dynar_inv d \<Longrightarrow>
      \<exists>d'. f d = Inr (0, d') \<and> dynar_inv d' \<and> dyn_maximum_size d' = dyn_maximum_size d \<and>
        (if dynar_size d + length bs + 1 \<le> dyn_maximum_size d then dyn_data d' = dyn_data d @ bs else d' = d)"
    and g: "prints al g cs" and len: "length bs \<le> length cs" and ne: "cs \<noteq> []"
  shows "prints al (run_fadds [f, g]) (bs @ cs)"
  unfolding prints_def
proof (intro allI impI)
  fix d
  assume a: "alloc_ideal al" "dynar_inv d"
  from f [OF a] obtain d1 where d1: "f d = Inr (0, d1)" "dynar_inv d1" "dyn_maximum_size d1 = dyn_maximum_size d"
    "if dynar_size d + length bs + 1 \<le> dyn_maximum_size d then dyn_data d1 = dyn_data d @ bs else d1 = d" by blast
  from g a(1) d1(2) obtain s d2 where d2: "g d1 = Inr (s, d2)" "dynar_inv d2" "dyn_maximum_size d2 = dyn_maximum_size d1"
    "if cs = [] \<or> dynar_size d1 + length cs + 1 \<le> dyn_maximum_size d1
     then s = 0 \<and> dyn_data d2 = dyn_data d1 @ cs else s = -1"
    unfolding prints_def by blast
  show "\<exists>r d'. run_fadds [f, g] d = Inr (r, d') \<and> dynar_inv d' \<and> dyn_maximum_size d' = dyn_maximum_size d \<and>
    (if bs @ cs = [] \<or> dynar_size d + length (bs @ cs) + 1 \<le> dyn_maximum_size d
     then r = 0 \<and> dyn_data d' = dyn_data d @ bs @ cs else r = -1)"
  proof (cases "dynar_size d + length bs + 1 \<le> dyn_maximum_size d")
    case True
    then have "dyn_data d1 = dyn_data d @ bs" "dynar_size d1 = dynar_size d + length bs"
      using d1(4) by (simp_all add: dynar_size_def)
    then show ?thesis using d1 d2 ne by (auto split: if_splits)
  next
    case False
    then have "d1 = d" using d1(4) by simp
    then show ?thesis using d1 d2 ne len False by (auto split: if_splits)
  qed
qed

lemma hex_digits_length: "1 \<le> length (hex_digits n)"
  by (subst hex_digits.simps) simp

lemma printable_heuristics_membership:
  "printable (\<lambda>al. run_fadds [total_add (qdevice_ipc_cmd_status_add_heuristics al qd verbose),
     total_add (qdevice_ipc_cmd_status_add_membership_node_list al qd verbose)])"
proof -
  define ring where "ring = (if verbose then str_bytes ''Ring ID:'' @ tabs 2 @
     hex_digits (unat (vrid_nodeid (qd_vq_node_list_ring_id qd))) @ str_bytes ''.'' @
     hex_digits (unat (vrid_seq (qd_vq_node_list_ring_id qd))) @ nl else [])"
  define head where "head = str_bytes ''Membership node list:'' @ tabs 1"
  define hline where "hline = str_bytes ''Heuristics:'' @ tabs 2 @
     str_bytes (qdevice_heuristics_mode_to_str (qh_mode (qd_heuristics_instance qd))) @ nl"
  have "printable (\<lambda>al. run_fadds (map total_add (membership_loop al 0 (qd_vq_node_list qd) @ [catf al nl])))"
    by (auto intro!: printable_intros printable_membership)
  then obtain tail where tail: "prints al (run_fadds (map total_add
      (membership_loop al 0 (qd_vq_node_list qd) @ [catf al nl]))) tail" for al
    unfolding printable_def by blast
  have ring_prints: "prints al (total_add (add_if verbose (catf al (str_bytes ''Ring ID:'' @ tabs 2 @
     hex_digits (unat (vrid_nodeid (qd_vq_node_list_ring_id qd))) @ str_bytes ''.'' @
     hex_digits (unat (vrid_seq (qd_vq_node_list_ring_id qd))) @ nl)))) ring" for al
    unfolding ring_def add_if_def by (auto intro: prints_catf prints_skip)
  have membership: "prints al (total_add (qdevice_ipc_cmd_status_add_membership_node_list al qd verbose))
      (ring @ head @ tail)" for al
    unfolding qdevice_ipc_cmd_status_add_membership_node_list_def total_run_adds append_Cons append_Nil list.map head_def
    by (rule prints_Cons [OF ring_prints prints_Cons [OF prints_catf tail]])
  show ?thesis
  proof (cases verbose)
    case False
    then have "total_add (qdevice_ipc_cmd_status_add_heuristics al qd verbose) = total_add skip_add" for al
      by (auto simp: total_add_def skip_add_def qdevice_ipc_cmd_status_add_heuristics_def)
    then show ?thesis
      using printable_Cons [OF printable_skip printable_Cons [OF printable_prints [OF membership] printable_Nil]] by simp
  next
    case True
    have len: "length hline \<le> length (ring @ head @ tail)"
      using hex_digits_length [of "unat (vrid_nodeid (qd_vq_node_list_ring_id qd))"]
        hex_digits_length [of "unat (vrid_seq (qd_vq_node_list_ring_id qd))"] True
      by (cases "qh_mode (qd_heuristics_instance qd)")
        (simp_all add: hline_def ring_def head_def str_bytes_def tabs_def qdevice_heuristics_mode_to_str_def)
    have "prints al (run_fadds [total_add (qdevice_ipc_cmd_status_add_heuristics al qd verbose),
       total_add (qdevice_ipc_cmd_status_add_membership_node_list al qd verbose)]) (hline @ ring @ head @ tail)" for al
    proof (rule prints_lossy [OF _ membership len])
      show "ring @ head @ tail \<noteq> []" by (simp add: head_def tabs_def)
      fix d
      assume a: "alloc_ideal al" "dynar_inv d"
      have ne: "hline \<noteq> []" by (simp add: hline_def)
      from vcatf_ideal [OF a ne] show "\<exists>d'. total_add (qdevice_ipc_cmd_status_add_heuristics al qd verbose) d = Inr (0, d') \<and>
        dynar_inv d' \<and> dyn_maximum_size d' = dyn_maximum_size d \<and>
        (if dynar_size d + length hline + 1 \<le> dyn_maximum_size d then dyn_data d' = dyn_data d @ hline else d' = d)"
        using True ne by (auto simp: total_add_def qdevice_ipc_cmd_status_add_heuristics_def hline_def [symmetric]
            split: if_splits)
    qed
    then show ?thesis by (rule printable_prints)
  qed
qed

lemma status_printable:
  assumes "known_states qd"
  shows "printable (\<lambda>al. qdevice_ipc_cmd_status al localtime qc nh qd verbose)"
proof -
  let ?pre = "\<lambda>al. [total_add (qdevice_ipc_cmd_status_add_header al), total_add (qdevice_ipc_cmd_status_add_model al qc),
    total_add (qdevice_ipc_cmd_status_add_nodeid al qd), total_add (qdevice_ipc_cmd_status_add_intervals al qc verbose),
    total_add (qdevice_ipc_cmd_status_add_config_node_list al qd)]"
  let ?mid = "\<lambda>al. [total_add (qdevice_ipc_cmd_status_add_heuristics al qd verbose),
    total_add (qdevice_ipc_cmd_status_add_membership_node_list al qd verbose)]"
  let ?post = "\<lambda>al. [qdevice_ipc_cmd_status_add_quorum_node_list al qd verbose,
    total_add (qdevice_ipc_cmd_status_add_expected_votes al qd verbose),
    total_add (qdevice_ipc_cmd_status_add_last_poll al localtime qd verbose), total_add (catf al nl),
    total_add (qdevice_model_ipc_cmd_status al localtime qc nh qd verbose)]"
  have "printable (\<lambda>al. run_fadds (?pre al))"
    by (auto intro!: printable_intros printable_config simp: qdevice_ipc_cmd_status_add_header_def
        qdevice_ipc_cmd_status_add_model_def qdevice_ipc_cmd_status_add_nodeid_def
        qdevice_ipc_cmd_status_add_intervals_def)
  moreover have "printable (\<lambda>al. run_fadds (?post al))"
    by (auto intro!: printable_intros printable_model printable_quorum [OF assms]
        simp: qdevice_ipc_cmd_status_add_expected_votes_def qdevice_ipc_cmd_status_add_last_poll_def)
  ultimately have "printable (\<lambda>al. run_fadds (?pre al @ ?mid al @ ?post al))"
    by (intro printable_append printable_heuristics_membership)
  then show ?thesis unfolding qdevice_ipc_cmd_status_def by simp
qed

section \<open>Answers\<close>

definition ok_text :: "byte list" where "ok_text = str_bytes ''OK'' @ [chr_nl]"
definition error_text_head :: "byte list" where "error_text_head = str_bytes ''Error'' @ [chr_nl]"

definition error_answer :: "unix_socket_client \<Rightarrow> bool" where
  "error_answer c \<longleftrightarrow> uc_schedule_disconnect c \<or>
     uc_writing_buffer c \<and> (\<exists>e. dyn_data (uc_send_buffer c) = error_text_head @ e @ [chr_nl])"

definition gets_answer :: "unix_socket_client \<Rightarrow> bool" where
  "gets_answer c \<longleftrightarrow> error_answer c \<or>
     uc_writing_buffer c \<and> (\<exists>body. dyn_data (uc_send_buffer c) = ok_text @ body)"

lemma send_error_answer:
  "error_answer (or_disconnect (ipc_send_error al e c)) \<and>
   uc_reading_line (or_disconnect (ipc_send_error al e c)) = uc_reading_line c"
proof -
  obtain r1 b1 where c1: "dynar_str_cpy al (uc_send_buffer c) error_text_head = (r1, b1)" by fastforce
  obtain r2 b2 where c2: "dynar_str_vcatf al b1 (Some e) = (r2, b2)" by fastforce
  obtain r3 b3 where c3: "dynar_str_cat al b2 [chr_nl] = (r3, b3)" by fastforce
  show ?thesis
  proof (cases "r1 = 0 \<and> r2 > 0 \<and> r3 = 0")
    case True
    have b1: "dyn_data b1 = error_text_head" "dynar_inv b1"
      using c1 True dynar_cat_ok [of al "dynar_clean (uc_send_buffer c)" error_text_head b1]
      by (auto simp: dynar_str_cpy_def dynar_str_cat_def split: if_splits)
    have b2: "dyn_data b2 = error_text_head @ e" "dynar_inv b2"
      using c2 True b1 dynar_prealloc_ok [of al b1 "length e + 1"]
      by (auto simp: dynar_str_vcatf_def dynar_inv_def dynar_size_def split: if_splits prod.splits)
    have "dyn_data b3 = error_text_head @ e @ [chr_nl]"
      using c3 True b2 dynar_cat_ok [of al b2 "[chr_nl]" b3] by (simp add: dynar_str_cat_def)
    then show ?thesis
      using c1 c2 c3 True by (simp add: ipc_send_error_def or_disconnect_def error_answer_def error_text_head_def
          unix_socket_client_write_buffer_def)
  next
    case False
    then show ?thesis
      using c1 c2 c3 by (auto simp: ipc_send_error_def or_disconnect_def error_answer_def error_text_head_def
          split: prod.splits)
  qed
qed

lemma send_buffer_answer:
  "gets_answer (or_disconnect (ipc_send_buffer al c)) \<and>
   uc_reading_line (or_disconnect (ipc_send_buffer al c)) = uc_reading_line c"
proof -
  obtain r b where p: "dynar_str_prepend al (uc_send_buffer c) ok_text = (r, b)" by fastforce
  show ?thesis
  proof (cases "r = 0")
    case True
    then have "\<exists>body. dyn_data b = ok_text @ body"
      using p by (auto simp: dynar_str_prepend_def dynar_prepend_def split: prod.splits if_splits)
    then show ?thesis
      using p True by (auto simp: ipc_send_buffer_def or_disconnect_def gets_answer_def ok_text_def
          unix_socket_client_write_buffer_def)
  next
    case False
    let ?e = "ipc_send_error al (str_bytes ''Internal IPC buffer too small'') (c\<lparr>uc_send_buffer := b\<rparr>)"
    have "or_disconnect (ipc_send_buffer al c) = or_disconnect ?e"
      using p False by (auto simp: ipc_send_buffer_def or_disconnect_def ok_text_def split: prod.splits)
    then show ?thesis using send_error_answer [of al _ "c\<lparr>uc_send_buffer := b\<rparr>"] by (simp add: gets_answer_def)
  qed
qed

lemma send_buffer_exact:
  assumes "alloc_ideal al" and "dynar_inv (uc_send_buffer c)"
  shows "if dynar_size (uc_send_buffer c) + 3 \<le> dyn_maximum_size (uc_send_buffer c)
    then uc_writing_buffer (or_disconnect (ipc_send_buffer al c)) \<and>
      dyn_data (uc_send_buffer (or_disconnect (ipc_send_buffer al c))) =
        str_bytes ''OK'' @ [chr_nl] @ dyn_data (uc_send_buffer c)
    else error_answer (or_disconnect (ipc_send_buffer al c))"
proof -
  obtain r b where p: "dynar_prealloc al (uc_send_buffer c) (length ok_text) = (r, b)" by fastforce
  have len: "length ok_text = 3" by (simp add: ok_text_def str_bytes_def)
  show ?thesis
  proof (cases "dynar_size (uc_send_buffer c) + 3 \<le> dyn_maximum_size (uc_send_buffer c)")
    case True
    have "r = 0" using dynar_prealloc_total [OF assms(1), of _ 3] True p len by (metis fst_conv)
    with dynar_prealloc_ok(1) [OF _ assms(2)] p True show ?thesis
      by (simp add: ipc_send_buffer_def or_disconnect_def dynar_str_prepend_def dynar_prepend_def
          ok_text_def [symmetric] unix_socket_client_write_buffer_def Let_def)
  next
    case False
    then have "r = -1" "b = uc_send_buffer c" using p len by (auto simp: dynar_prealloc_def)
    then have "or_disconnect (ipc_send_buffer al c) =
        or_disconnect (ipc_send_error al (str_bytes ''Internal IPC buffer too small'') (c\<lparr>uc_send_buffer := b\<rparr>))"
      using p by (auto simp: ipc_send_buffer_def or_disconnect_def dynar_str_prepend_def dynar_prepend_def
          ok_text_def split: prod.splits)
    then show ?thesis using False send_error_answer by simp
  qed
qed

lemma cmd_answer_answer:
  "gets_answer (cmd_answer al cmd e c) \<and> uc_reading_line (cmd_answer al cmd e c) = uc_reading_line c"
proof -
  obtain r b where "cmd (uc_send_buffer c) = (r, b)" by fastforce
  then show ?thesis
    using send_error_answer [of al "str_bytes e" "c\<lparr>uc_send_buffer := b\<rparr>"] send_buffer_answer [of al "c\<lparr>uc_send_buffer := b\<rparr>"]
    by (simp add: cmd_answer_def gets_answer_def Let_def)
qed

text \<open>What a line is answered with; the status of the client is a fault when it exits.\<close>

definition line_answer :: "unix_socket_client \<Rightarrow> fault + unix_socket_client \<Rightarrow> bool" where
  "line_answer c m \<longleftrightarrow> (\<exists>c'. m = Inr c' \<and> gets_answer c' \<and> uc_reading_line c' = uc_reading_line c)"

lemma line_answer_error: "line_answer c (Inr (or_disconnect (ipc_send_error al e c)))"
  using send_error_answer by (simp add: line_answer_def gets_answer_def)

lemma line_answer_buffer: "line_answer c (Inr (or_disconnect (ipc_send_buffer al (c\<lparr>uc_user_data := u\<rparr>))))"
  using send_buffer_answer [of al "c\<lparr>uc_user_data := u\<rparr>"] by (simp add: line_answer_def)

lemma line_answer_cmd: "line_answer c (Inr (cmd_answer al cmd e c))"
  using cmd_answer_answer by (simp add: line_answer_def)

lemma run_fadds_no_fault:
  assumes "\<forall>f \<in> set fs. \<forall>d. \<not> isl (f d)"
  shows "\<not> isl (run_fadds fs d)"
  using assms
proof (induction fs arbitrary: d)
  case (Cons f fs)
  from Cons.prems have "\<not> isl (f d)" by simp
  then obtain r d' where "f d = Inr (r, d')" by (cases "f d") auto
  then show ?case using Cons.IH [of d'] Cons.prems by simp
qed simp

lemma total_no_fault [simp]: "\<not> isl (total_add f d)"
  by (simp add: total_add_def)

lemma quorum_nodes_no_fault:
  assumes "\<forall>node \<in> set nodes. vn_nodeid node = 0 \<or>
    vn_state node \<in> {VOTEQUORUM_NODESTATE_MEMBER, VOTEQUORUM_NODESTATE_DEAD, VOTEQUORUM_NODESTATE_LEAVING}"
  shows "\<forall>f \<in> set (quorum_node_loop al i nodes). \<forall>d. \<not> isl (f d)"
  using assms
  by (induction nodes arbitrary: i) (auto simp: add_quorum_node_def qdevice_ipc_cmd_vq_nodestate_to_str_def)

lemma status_no_fault:
  assumes "known_states qd"
  shows "\<not> isl (qdevice_ipc_cmd_status al localtime qc nh qd verbose d)"
proof -
  have "\<forall>f \<in> set (quorum_node_loop al 0 (qd_vq_quorum_node_list qd)). \<forall>d. \<not> isl (f d)"
    using assms quorum_nodes_no_fault by (simp add: known_states_def)
  then have "\<not> isl (qdevice_ipc_cmd_status_add_quorum_node_list al qd verbose d')" for d'
    unfolding qdevice_ipc_cmd_status_add_quorum_node_list_def
    by (cases verbose) (auto simp del: run_fadds.simps intro!: run_fadds_no_fault)
  then show ?thesis
    unfolding qdevice_ipc_cmd_status_def by (intro run_fadds_no_fault) simp
qed

lemma qdevice_status_answered:
  assumes "known_states (dw_instance w)"
  shows "line_answer c (qdevice_status_answer al localtime w verbose c)"
proof -
  let ?s = "qdevice_ipc_cmd_status al localtime (dw_config w) (dw_host w) (dw_instance w) verbose (uc_send_buffer c)"
  have "\<not> isl ?s" by (rule status_no_fault [OF assms])
  then obtain r b where s: "?s = Inr (r, b)" by (cases ?s) auto
  show ?thesis
    using s send_error_answer [of al _ "c\<lparr>uc_send_buffer := b\<rparr>"] send_buffer_answer [of al "c\<lparr>uc_send_buffer := b\<rparr>"]
    by (simp add: qdevice_status_answer_def line_answer_def gets_answer_def qdevice_ipc_send_error_def
        qdevice_ipc_send_buffer_def Let_def)
qed

lemmas line_answers = line_answer_error line_answer_buffer line_answer_cmd

lemma qnetd_line_answer:
  assumes "uc_user_data c \<noteq> None"
  shows "line_answer c (qnetd_ipc_parse_line al w c)"
  using assms unfolding qnetd_ipc_parse_line_def Let_def
  by (auto split: prod.split option.split intro!: line_answers)

lemma qdevice_line_answer:
  assumes "uc_user_data c \<noteq> None" and "known_states (dw_instance w)"
  shows "line_answer c (qdevice_ipc_parse_line al localtime w c)"
  using assms unfolding qdevice_ipc_parse_line_def Let_def qdevice_ipc_send_error_def qdevice_ipc_send_buffer_def
  by (auto split: prod.split intro!: line_answers qdevice_status_answered)

lemma io_read_frame:
  "unix_socket_client_io_read al recv c = (res, c1) \<Longrightarrow> uc_user_data c1 = uc_user_data c \<and>
     uc_send_buffer c1 = uc_send_buffer c"
  by (auto simp: unix_socket_client_io_read_def Let_def split: recv_result.splits if_splits prod.splits)

section \<open>Properties\<close>

text \<open>
  C31. Whoever sends a line to one of the daemons gets an answer. Whatever the line holds and whatever memory is
  available, both daemons stop to read and send an answer that starts with OK, or one that
  starts with Error and ends with a newline, or they close the connection; they do not fail, provided that
  the client knows all node states that votequorum has reported.
\<close>

theorem ipc_line_answered:
  assumes "unix_socket_client_io_read al recv client = (1, client1)" and "uc_user_data client \<noteq> None"
    and "known_states (dw_instance v)"
  shows "\<exists>c d. qnetd_ipc_io_read al recv w client = Inr c \<and> gets_answer c \<and> \<not> uc_reading_line c \<and>
    qdevice_ipc_io_read al localtime recv v client = Inr d \<and> gets_answer d \<and> \<not> uc_reading_line d"
proof -
  let ?c = "unix_socket_client_read_line False client1"
  have u: "uc_user_data ?c \<noteq> None"
    using io_read_frame [OF assms(1)] assms(2) by (simp add: unix_socket_client_read_line_def)
  have "\<not> uc_reading_line ?c" by (simp add: unix_socket_client_read_line_def)
  then show ?thesis
    using qnetd_line_answer [OF u, of al w] qdevice_line_answer [OF u assms(3), of al localtime] assms(1)
    by (auto simp: qnetd_ipc_io_read_def qdevice_ipc_io_read_def line_answer_def)
qed

definition ex_local_client :: unix_socket_client where
  "ex_local_client = unix_socket_client_read_line True (unix_socket_client_init 5 4096 4096 (Some False))"

definition ex_tm :: tm where
  "ex_tm = \<lparr>tm_year = 125, tm_mon = 0, tm_mday = 2, tm_hour = 3, tm_min = 4, tm_sec = 5\<rparr>"

definition ex_qdevice_world :: qdevice_world where
  "ex_qdevice_world =
     \<lparr>dw_instance = ex_qdev (ex_net TLV_DECISION_ALGORITHM_TYPE_FFSPLIT),
      dw_config = \<lparr>qc_model_type = QDEVICE_MODEL_TYPE_NET, qc_heartbeat_interval = 10000, qc_sync_heartbeat_interval = 30000\<rparr>,
      dw_host = \<lparr>nh_host_addr = str_bytes ''qnetd'', nh_host_port = 5403, nh_force_ip_version = 0\<rparr>,
      dw_local_ipc = \<lparr>ui_socket = 4, ui_backlog = 10, ui_socket_file_name = None, ui_clients = [(0, ex_local_client)],
        ui_max_clients = 10, ui_max_receive_size = 4096, ui_max_send_size = 4096, ui_next_ref = 1\<rparr>\<rparr>"

lemma ex_known_states: "known_states (dw_instance ex_qdevice_world)"
  by (simp add: known_states_def ex_qdevice_world_def ex_qdev_def)

theorem ipc_line_answered_witness:
  "\<exists>c. qdevice_ipc_io_read (\<lambda>r. True) (\<lambda>t. ex_tm) (\<lambda>n. Recv_Data (str_bytes ''status'' @ [chr_nl])) ex_qdevice_world
     ex_local_client = Inr c \<and> gets_answer c \<and> \<not> uc_reading_line c"
proof -
  have "\<exists>c1. unix_socket_client_io_read (\<lambda>r. True) (\<lambda>n. Recv_Data (str_bytes ''status'' @ [chr_nl])) ex_local_client = (1, c1)"
    by (simp add: unix_socket_client_io_read_def ex_local_client_def unix_socket_client_read_line_def
        unix_socket_client_init_def dynar_cat_def dynar_prealloc_def dynar_realloc_def dynar_init_def dynar_size_def
        str_bytes_def Let_def)
  then obtain c1 where
    "unix_socket_client_io_read (\<lambda>r. True) (\<lambda>n. Recv_Data (str_bytes ''status'' @ [chr_nl])) ex_local_client = (1, c1)"
    by blast
  from ipc_line_answered [OF this _ ex_known_states] show ?thesis
    by (auto simp: ex_local_client_def unix_socket_client_read_line_def unix_socket_client_init_def)
qed

text \<open>
  C32. The status of the client arrives as a whole or not at all. For every state of the client there is one text
  such that, with enough memory, the answer to the command is OK and the text whenever both fit into the
  buffer, and an error otherwise: the line whose failure the code does not notice never goes missing from an answer.
\<close>

theorem qdevice_status_complete:
  assumes "known_states (dw_instance w)"
  shows "\<exists>status_text. \<forall>al client n. alloc_ideal al \<and> uc_send_buffer client = dynar_init n \<longrightarrow>
    (\<exists>c. qdevice_status_answer al localtime w verbose client = Inr c \<and>
       (if length status_text + 3 \<le> n
        then uc_writing_buffer c \<and> dyn_data (uc_send_buffer c) = str_bytes ''OK'' @ [chr_nl] @ status_text
        else error_answer c))"
proof -
  from status_printable [OF assms] obtain status_text where
    T: "prints al (qdevice_ipc_cmd_status al localtime (dw_config w) (dw_host w) (dw_instance w) verbose) status_text" for al
    unfolding printable_def by blast
  show ?thesis
  proof (intro exI [of _ status_text] allI impI)
    fix al n and client :: unix_socket_client
    assume a: "alloc_ideal al \<and> uc_send_buffer client = dynar_init n"
    let ?s = "qdevice_ipc_cmd_status al localtime (dw_config w) (dw_host w) (dw_instance w) verbose (uc_send_buffer client)"
    have i: "dynar_inv (uc_send_buffer client)" "dyn_maximum_size (uc_send_buffer client) = n"
      "dyn_data (uc_send_buffer client) = []" using a by (simp_all add: dynar_init_def dynar_inv_def dynar_size_def)
    with T [of al] a obtain r d where s: "?s = Inr (r, d)" and d: "dynar_inv d" "dyn_maximum_size d = n"
        "if status_text = [] \<or> length status_text + 1 \<le> n then r = 0 \<and> dyn_data d = status_text else r = -1"
      unfolding prints_def dynar_size_def by (metis append_Nil list.size(3) plus_nat.add_0)
    let ?c = "client\<lparr>uc_send_buffer := d\<rparr>"
    have answer: "qdevice_status_answer al localtime w verbose client =
        Inr (if r \<noteq> 0 then or_disconnect (ipc_send_error al (str_bytes ''Can't get QDevice status'') ?c)
             else or_disconnect (ipc_send_buffer al ?c))"
      using s by (simp add: qdevice_status_answer_def qdevice_ipc_send_error_def qdevice_ipc_send_buffer_def Let_def)
    show "\<exists>c. qdevice_status_answer al localtime w verbose client = Inr c \<and>
       (if length status_text + 3 \<le> n
        then uc_writing_buffer c \<and> dyn_data (uc_send_buffer c) = str_bytes ''OK'' @ [chr_nl] @ status_text
        else error_answer c)"
    proof (cases "r = 0")
      case False
      then have "\<not> length status_text + 3 \<le> n" using d(3) by (auto split: if_splits)
      then show ?thesis using answer False send_error_answer by simp
    next
      case True
      then have "dyn_data d = status_text" using d(3) by (auto split: if_splits)
      with answer True send_buffer_exact [of al ?c] a d show ?thesis by (simp add: dynar_size_def)
    qed
  qed
qed

theorem qdevice_status_complete_witness:
  "\<exists>status_text. \<forall>n. \<exists>c. qdevice_status_answer (\<lambda>r. True) (\<lambda>t. ex_tm) ex_qdevice_world True
     (unix_socket_client_init 5 4096 n (Some False)) = Inr c \<and>
       (if length status_text + 3 \<le> n
        then uc_writing_buffer c \<and> dyn_data (uc_send_buffer c) = str_bytes ''OK'' @ [chr_nl] @ status_text
        else error_answer c)"
proof -
  have "alloc_ideal (\<lambda>r. True) \<and> uc_send_buffer (unix_socket_client_init 5 4096 n (Some False)) = dynar_init n" for n
    by (simp add: alloc_ideal_def unix_socket_client_init_def)
  with qdevice_status_complete [OF ex_known_states, of "\<lambda>t. ex_tm" True] show ?thesis by metis
qed

end
