(* ===== verification/Ipc_Tools.thy ===== *)
theory Ipc_Tools
  imports Ipc_Props Cli Example_State
begin

text \<open>
  The command line tools \<open>corosync-qnetd-tool.c\<close> and \<open>corosync-qdevice-tool.c\<close>: they connect to the local
  socket of a daemon, send one command and print the answer. \<open>getopt\<close> is a parameter as in \<open>Cli\<close>; what the tools print
  of an answer is part of their result, the messages of \<open>err\<close> and \<open>errx\<close> are not. The properties put the tools and the daemons together.
\<close>

section \<open>Shared parts\<close>

definition unix_socket_client_create :: "unix_sys \<Rightarrow> bool \<Rightarrow> byte list \<Rightarrow> bool \<Rightarrow> int" where
  "unix_socket_client_create sys connected path non_blocking =
     (if length path \<ge> sun_path_size \<or> length path = 0 then -1
      else if us_socket sys < 0 then -1
      else if non_blocking \<and> \<not> us_set_non_blocking sys then -1
      else if \<not> connected then -1
      else us_socket sys)"

definition ipc_read_buf_size :: nat where "ipc_read_buf_size = 512"

record tool_output =
  to_stdout :: "byte list"
  to_stderr :: "byte list"

text \<open>\<open>read_ipc_reply\<close> is the same function in both tools; the argument is what \<open>fgetc\<close> returns up to the end of the stream.\<close>

fun reply_loop ::
    "allocator \<Rightarrow> byte list \<Rightarrow> bool \<Rightarrow> bool \<Rightarrow> int \<Rightarrow> dynar \<Rightarrow> tool_output \<Rightarrow> int \<times> tool_output" where
  "reply_loop al [] status_readed err_set res read_str out = (res, out)"
| "reply_loop al (ch # chs) status_readed err_set res read_str out =
     (if status_readed
      then reply_loop al chs status_readed err_set res read_str
             (if err_set then out\<lparr>to_stderr := to_stderr out @ [ch]\<rparr> else out\<lparr>to_stdout := to_stdout out @ [ch]\<rparr>)
      else if ch = chr_cr then reply_loop al chs status_readed err_set res read_str out
      else if ch = chr_nl
      then (case dynar_cat al read_str [0] of
              (r, read_str1) \<Rightarrow>
                if r \<noteq> 0 then (-1, out)
                else if strcasecmp_eq (c_str (dyn_data read_str1)) ''OK''
                then reply_loop al chs True err_set res read_str1 out
                else if strcasecmp_eq (c_str (dyn_data read_str1)) ''Error''
                then reply_loop al chs True True 1 read_str1 (out\<lparr>to_stderr := to_stderr out @ str_bytes ''Error: ''\<rparr>)
                else (2, out))
      else (case dynar_cat al read_str [ch] of
              (r, read_str1) \<Rightarrow>
                if r \<noteq> 0 then (-1, out) else reply_loop al chs status_readed err_set res read_str1 out))"

definition read_ipc_reply :: "allocator \<Rightarrow> byte list \<Rightarrow> int \<times> tool_output" where
  "read_ipc_reply al f = reply_loop al f False False 0 (dynar_init ipc_read_buf_size) \<lparr>to_stdout = [], to_stderr = []\<rparr>"

text \<open>The exit codes have the same values in both tools.\<close>

datatype tool_exit_code =
    TOOL_EXIT_CODE_NO_ERROR
  | TOOL_EXIT_CODE_USAGE
  | TOOL_EXIT_CODE_INTERNAL_ERROR
  | TOOL_EXIT_CODE_SOCKET_CONNECT
  | TOOL_EXIT_CODE_RETURNED_ERROR

text \<open>
  The second half of both \<open>main\<close> functions: the command has been stored; \<open>server\<close> is the answer to what is sent.
\<close>

definition tool_talk ::
    "allocator \<Rightarrow> bool \<Rightarrow> (byte list \<Rightarrow> byte list) \<Rightarrow> dynar \<Rightarrow> tool_exit_code \<times> tool_output" where
  "tool_talk al sent server send_str =
     (let none = \<lparr>to_stdout = [], to_stderr = []\<rparr>
      in if \<not> sent then (TOOL_EXIT_CODE_INTERNAL_ERROR, none)
         else case read_ipc_reply al (server (c_str (dyn_data send_str))) of
                (res, out) \<Rightarrow>
                  (if res = -1 then TOOL_EXIT_CODE_INTERNAL_ERROR
                   else if res = 1 then TOOL_EXIT_CODE_RETURNED_ERROR
                   else if res = 2 then TOOL_EXIT_CODE_SOCKET_CONNECT
                   else TOOL_EXIT_CODE_NO_ERROR, out))"

record tool_env =
  te_sys :: unix_sys
  te_connected :: bool
  te_fdopen :: bool
  te_sent :: bool
  te_server :: "byte list \<Rightarrow> byte list"

text \<open>
  The first half: a command that cannot be stored, or a stored one. \<open>None\<close> as a command is the
  operation \<open>NONE\<close>, which ends the program.
\<close>

definition tool_run ::
    "allocator \<Rightarrow> tool_env \<Rightarrow> byte list \<Rightarrow> adder option \<Rightarrow> nat \<Rightarrow> tool_exit_code \<times> tool_output" where
  "tool_run al te socket_path store max_size =
     (let none = \<lparr>to_stdout = [], to_stderr = []\<rparr>
      in if unix_socket_client_create (te_sys te) (te_connected te) socket_path False = -1
         then (TOOL_EXIT_CODE_SOCKET_CONNECT, none)
         else if \<not> te_fdopen te then (TOOL_EXIT_CODE_INTERNAL_ERROR, none)
         else case store of
                None \<Rightarrow> (TOOL_EXIT_CODE_INTERNAL_ERROR, none)
              | Some f \<Rightarrow>
                  (case f (dynar_init max_size) of
                     (r, send_str) \<Rightarrow>
                       if r \<noteq> 0 then (TOOL_EXIT_CODE_INTERNAL_ERROR, none)
                       else tool_talk al (te_sent te) (te_server te) send_str))"

definition str_cat :: "allocator \<Rightarrow> byte list \<Rightarrow> adder" where
  "str_cat al s d = dynar_str_cat al d s"

section \<open>The tool of the server\<close>

datatype qnetd_tool_operation =
    QNETD_TOOL_OPERATION_NONE
  | QNETD_TOOL_OPERATION_SHUTDOWN
  | QNETD_TOOL_OPERATION_STATUS
  | QNETD_TOOL_OPERATION_LIST

record qnetd_tool_options =
  qto_operation :: qnetd_tool_operation
  qto_verbose :: bool
  qto_cluster_name :: "byte list option"
  qto_socket_path :: "byte list"

definition qnetd_tool_option ::
    "allocator \<Rightarrow> char \<times> byte list \<Rightarrow> qnetd_tool_options \<Rightarrow> cli_exit + qnetd_tool_options" where
  "qnetd_tool_option al arg opts =
     (case arg of
        (ch, optarg) \<Rightarrow>
          if ch = CHR ''H'' then Inr (opts\<lparr>qto_operation := QNETD_TOOL_OPERATION_SHUTDOWN\<rparr>)
          else if ch = CHR ''l'' then Inr (opts\<lparr>qto_operation := QNETD_TOOL_OPERATION_LIST\<rparr>)
          else if ch = CHR ''s'' then Inr (opts\<lparr>qto_operation := QNETD_TOOL_OPERATION_STATUS\<rparr>)
          else if ch = CHR ''v'' then Inr (opts\<lparr>qto_verbose := True\<rparr>)
          else if ch = CHR ''c''
          then (case strdup al optarg of
                  None \<Rightarrow> Inl Cli_No_Memory | Some s \<Rightarrow> Inr (opts\<lparr>qto_cluster_name := Some s\<rparr>))
          else if ch = CHR ''p''
          then (case strdup al optarg of
                  None \<Rightarrow> Inl Cli_No_Memory | Some s \<Rightarrow> Inr (opts\<lparr>qto_socket_path := s\<rparr>))
          else if ch = CHR ''h'' \<or> ch = CHR ''?'' then Inl Cli_Usage
          else Inr opts)"

definition qnetd_tool_cli_parse ::
    "allocator \<Rightarrow> build_config \<Rightarrow> (char \<times> byte list) list \<Rightarrow> cli_exit + qnetd_tool_options" where
  "qnetd_tool_cli_parse al bc args =
     (case strdup al (str_bytes (bc_localstatedir bc @ ''/run/corosync-qnetd/corosync-qnetd.sock'')) of
        None \<Rightarrow> Inl Cli_No_Memory
      | Some socket_path \<Rightarrow>
          bindE (cli_loop (qnetd_tool_option al) args
                   \<lparr>qto_operation = QNETD_TOOL_OPERATION_NONE, qto_verbose = False, qto_cluster_name = None,
                    qto_socket_path = socket_path\<rparr>)
            (\<lambda>opts. if qto_operation opts = QNETD_TOOL_OPERATION_NONE then Inl Cli_Usage else Inr opts))"

definition qnetd_tool_store_command ::
    "allocator \<Rightarrow> qnetd_tool_operation \<Rightarrow> bool \<Rightarrow> byte list option \<Rightarrow> adder option" where
  "qnetd_tool_store_command al operation verbose cluster_name =
     (let rest = [add_if verbose (str_cat al (str_bytes ''verbose '')),
                  (case cluster_name of
                     None \<Rightarrow> skip_add
                   | Some name \<Rightarrow> run_adds [str_cat al (str_bytes ''cluster ''),
                       (\<lambda>d. dynar_str_quote_cat al d name), str_cat al (str_bytes '' '')]),
                  (\<lambda>d. dynar_cat al d [chr_nl, 0])]
      in case operation of
           QNETD_TOOL_OPERATION_NONE \<Rightarrow> None
         | QNETD_TOOL_OPERATION_SHUTDOWN \<Rightarrow> Some (run_adds (str_cat al (str_bytes ''shutdown '') # rest))
         | QNETD_TOOL_OPERATION_STATUS \<Rightarrow> Some (run_adds (str_cat al (str_bytes ''status '') # rest))
         | QNETD_TOOL_OPERATION_LIST \<Rightarrow> Some (run_adds (str_cat al (str_bytes ''list '') # rest)))"

definition cli_exit_code :: "cli_exit \<Rightarrow> tool_exit_code" where
  "cli_exit_code e = (if e = Cli_No_Memory then TOOL_EXIT_CODE_INTERNAL_ERROR else TOOL_EXIT_CODE_USAGE)"

definition qnetd_tool_main ::
    "allocator \<Rightarrow> build_config \<Rightarrow> tool_env \<Rightarrow> (char \<times> byte list) list \<Rightarrow> tool_exit_code \<times> tool_output" where
  "qnetd_tool_main al bc te args =
     (case qnetd_tool_cli_parse al bc args of
        Inl e \<Rightarrow> (cli_exit_code e, \<lparr>to_stdout = [], to_stderr = []\<rparr>)
      | Inr opts \<Rightarrow>
          tool_run al te (qto_socket_path opts)
            (qnetd_tool_store_command al (qto_operation opts) (qto_verbose opts) (qto_cluster_name opts)) 4096)"

section \<open>The tool of the client\<close>

datatype qdevice_tool_operation =
    QDEVICE_TOOL_OPERATION_NONE
  | QDEVICE_TOOL_OPERATION_SHUTDOWN
  | QDEVICE_TOOL_OPERATION_STATUS

record qdevice_tool_options =
  dto_operation :: qdevice_tool_operation
  dto_verbose :: bool
  dto_socket_path :: "byte list"

definition qdevice_tool_option ::
    "allocator \<Rightarrow> char \<times> byte list \<Rightarrow> qdevice_tool_options \<Rightarrow> cli_exit + qdevice_tool_options" where
  "qdevice_tool_option al arg opts =
     (case arg of
        (ch, optarg) \<Rightarrow>
          if ch = CHR ''H'' then Inr (opts\<lparr>dto_operation := QDEVICE_TOOL_OPERATION_SHUTDOWN\<rparr>)
          else if ch = CHR ''s'' then Inr (opts\<lparr>dto_operation := QDEVICE_TOOL_OPERATION_STATUS\<rparr>)
          else if ch = CHR ''v'' then Inr (opts\<lparr>dto_verbose := True\<rparr>)
          else if ch = CHR ''p''
          then (case strdup al optarg of
                  None \<Rightarrow> Inl Cli_No_Memory | Some s \<Rightarrow> Inr (opts\<lparr>dto_socket_path := s\<rparr>))
          else if ch = CHR ''h'' \<or> ch = CHR ''?'' then Inl Cli_Usage
          else Inr opts)"

definition qdevice_tool_cli_parse ::
    "allocator \<Rightarrow> build_config \<Rightarrow> (char \<times> byte list) list \<Rightarrow> cli_exit + qdevice_tool_options" where
  "qdevice_tool_cli_parse al bc args =
     (case strdup al (str_bytes (bc_localstatedir bc @ ''/run/corosync-qdevice/corosync-qdevice.sock'')) of
        None \<Rightarrow> Inl Cli_No_Memory
      | Some socket_path \<Rightarrow>
          bindE (cli_loop (qdevice_tool_option al) args
                   \<lparr>dto_operation = QDEVICE_TOOL_OPERATION_NONE, dto_verbose = False, dto_socket_path = socket_path\<rparr>)
            (\<lambda>opts. if dto_operation opts = QDEVICE_TOOL_OPERATION_NONE then Inl Cli_Usage else Inr opts))"

definition qdevice_tool_store_command :: "allocator \<Rightarrow> qdevice_tool_operation \<Rightarrow> bool \<Rightarrow> adder option" where
  "qdevice_tool_store_command al operation verbose =
     (let rest = [add_if verbose (str_cat al (str_bytes ''verbose '')), (\<lambda>d. dynar_cat al d [chr_nl, 0])]
      in case operation of
           QDEVICE_TOOL_OPERATION_NONE \<Rightarrow> None
         | QDEVICE_TOOL_OPERATION_SHUTDOWN \<Rightarrow> Some (run_adds (str_cat al (str_bytes ''shutdown '') # rest))
         | QDEVICE_TOOL_OPERATION_STATUS \<Rightarrow> Some (run_adds (str_cat al (str_bytes ''status '') # rest)))"

definition qdevice_tool_main ::
    "allocator \<Rightarrow> build_config \<Rightarrow> tool_env \<Rightarrow> (char \<times> byte list) list \<Rightarrow> tool_exit_code \<times> tool_output" where
  "qdevice_tool_main al bc te args =
     (case qdevice_tool_cli_parse al bc args of
        Inl e \<Rightarrow> (cli_exit_code e, \<lparr>to_stdout = [], to_stderr = []\<rparr>)
      | Inr opts \<Rightarrow>
          tool_run al te (dto_socket_path opts)
            (qdevice_tool_store_command al (dto_operation opts) (dto_verbose opts)) 4096)"

section \<open>Words of a command\<close>

definition lex_at :: "dynar_simple_lex_type \<Rightarrow> dynar_simple_lex \<Rightarrow> byte list \<Rightarrow> bool" where
  "lex_at ty lx s \<longleftrightarrow> sl_lex_type lx = ty \<and> sl_pos lx \<le> dynar_size (sl_input lx) \<and>
     drop (sl_pos lx) (dyn_data (sl_input lx)) = s \<and> dynar_size (sl_input lx) < dyn_maximum_size (sl_token lx)"

lemma lex_at_init: "dynar_size d < dyn_maximum_size d \<Longrightarrow> lex_at ty (dynar_simple_lex_init d ty) (dyn_data d)"
  by (simp add: lex_at_def dynar_simple_lex_init_def dynar_max_size_def dynar_init_def)

lemma lex_at_next:
  assumes "lex_at ty lx s" and "alloc_ideal al"
  obtains lx' where "dynar_simple_lex_token_next al lx = (True, lx')" "lex_at ty lx' (snd (lex_token ty s))"
    "dyn_data (sl_token lx') = fst (lex_token ty s) @ [0]"
proof -
  obtain ok lx' where n: "dynar_simple_lex_token_next al lx = (ok, lx')" by fastforce
  from simple_lex_token_next [OF n] assms have "ok" "lex_at ty lx' (snd (lex_token ty s))"
    "dyn_data (sl_token lx') = fst (lex_token ty s) @ [0]"
    by (auto simp: lex_at_def)
  with n that show thesis by simp
qed

definition plain_char :: "byte \<Rightarrow> bool" where
  "plain_char c \<longleftrightarrow> c \<noteq> 0 \<and> c \<noteq> chr_quote \<and> c \<noteq> chr_backslash \<and> \<not> dynar_simple_lex_is_space c"

lemma lex_plain_word:
  assumes "list_all plain_char w" and "w \<noteq> []"
  shows "lex_token ty (w @ chr_space # rest) = (w, chr_space # rest)"
proof -
  have "lex_word ty (w @ chr_space # rest) = (w, chr_space # rest)"
    using assms(1)
    by (induction w) (auto simp: plain_char_def chr_space_def chr_quote_def chr_backslash_def
        dynar_simple_lex_is_space_def)
  then show ?thesis
    using assms by (cases w) (simp_all add: lex_token_Cons plain_char_def line_end_def dynar_simple_lex_is_space_def
        del: lex_word.simps)
qed

lemma lex_space: "lex_token ty (chr_space # s) = lex_token ty s"
  by (simp add: lex_token_Cons chr_space_def line_end_def dynar_simple_lex_is_space_def)

lemma lex_newline: "lex_token ty (chr_nl # s) = ([], chr_nl # s)"
  by (simp add: lex_token_Cons chr_nl_def line_end_def)

section \<open>Commands\<close>

definition tool_word :: "qnetd_tool_operation \<Rightarrow> byte list" where
  "tool_word operation =
     (case operation of
        QNETD_TOOL_OPERATION_NONE \<Rightarrow> []
      | QNETD_TOOL_OPERATION_SHUTDOWN \<Rightarrow> str_bytes ''shutdown''
      | QNETD_TOOL_OPERATION_STATUS \<Rightarrow> str_bytes ''status''
      | QNETD_TOOL_OPERATION_LIST \<Rightarrow> str_bytes ''list'')"

definition cluster_words :: "byte list option \<Rightarrow> byte list" where
  "cluster_words cluster_name =
     (case cluster_name of
        None \<Rightarrow> []
      | Some name \<Rightarrow> str_bytes ''cluster'' @ [chr_space, chr_quote] @ quote_chars name @ [chr_quote, chr_space])"

definition verbose_word :: "bool \<Rightarrow> byte list" where
  "verbose_word verbose = (if verbose then str_bytes ''verbose'' @ [chr_space] else [])"

definition tool_line :: "qnetd_tool_operation \<Rightarrow> bool \<Rightarrow> byte list option \<Rightarrow> byte list" where
  "tool_line operation verbose cluster_name =
     tool_word operation @ [chr_space] @ verbose_word verbose @ cluster_words cluster_name @ [chr_nl]"

lemma writes_str_cat: "writes al (str_cat al s) s"
  using writes_cat [of al s] by (simp add: str_cat_def [abs_def] dynar_str_cat_def)

lemma writes_quote_cat: "writes al (\<lambda>d. dynar_str_quote_cat al d name) (chr_quote # quote_chars name @ [chr_quote])"
  unfolding quote_cat_adds by (rule writes_lex_add)

lemma writes_verbose: "writes al (add_if verbose (str_cat al (str_bytes ''verbose ''))) (verbose_word verbose)"
  using writes_if [OF writes_str_cat [of al "str_bytes ''verbose ''"], of verbose]
  by (cases verbose) (simp_all add: verbose_word_def str_bytes_def chr_space_def)

lemma writes_cluster:
  "writes al (case cluster_name of
      None \<Rightarrow> skip_add
    | Some name \<Rightarrow> run_adds [str_cat al (str_bytes ''cluster ''), (\<lambda>d. dynar_str_quote_cat al d name),
        str_cat al (str_bytes '' '')]) (cluster_words cluster_name)"
proof (cases cluster_name)
  case None
  then show ?thesis by (simp add: cluster_words_def writes_skip)
next
  case (Some name)
  have "writes al (run_adds [str_cat al (str_bytes ''cluster ''), (\<lambda>d. dynar_str_quote_cat al d name), str_cat al (str_bytes '' '')])
      (str_bytes ''cluster '' @ (chr_quote # quote_chars name @ [chr_quote]) @ str_bytes '' '' @ [])"
    by (intro writes_Cons writes_Nil writes_str_cat writes_quote_cat)
  then show ?thesis using Some by (simp add: cluster_words_def str_bytes_def chr_space_def)
qed

lemma store_command_writes:
  assumes "operation \<noteq> QNETD_TOOL_OPERATION_NONE"
  obtains f where "qnetd_tool_store_command al operation verbose cluster_name = Some f"
    "writes al f (tool_line operation verbose cluster_name @ [0])"
proof -
  have w: "writes al (run_adds (str_cat al (word @ [chr_space]) # [add_if verbose (str_cat al (str_bytes ''verbose '')),
      (case cluster_name of None \<Rightarrow> skip_add
       | Some name \<Rightarrow> run_adds [str_cat al (str_bytes ''cluster ''), (\<lambda>d. dynar_str_quote_cat al d name), str_cat al (str_bytes '' '')]),
      (\<lambda>d. dynar_cat al d [chr_nl, 0])]))
      ((word @ [chr_space]) @ verbose_word verbose @ cluster_words cluster_name @ [chr_nl, 0] @ [])" for word
    by (intro writes_Cons writes_Nil writes_str_cat writes_verbose writes_cluster writes_cat)
  have sp: "str_bytes ''shutdown '' = str_bytes ''shutdown'' @ [chr_space]"
    "str_bytes ''status '' = str_bytes ''status'' @ [chr_space]" "str_bytes ''list '' = str_bytes ''list'' @ [chr_space]"
    by (simp_all add: str_bytes_def chr_space_def)
  from assms w [of "tool_word operation"] show thesis
    by (cases operation) (rule that; simp add: qnetd_tool_store_command_def Let_def sp tool_line_def tool_word_def
        del: run_adds.simps)+
qed

section \<open>The server reads commands\<close>

text \<open>
  A word ends at a line end, also within quotes, and the rest of the line is not read. What the server has received of a
  line when it parses it reaches at least to the first line feed; the name may hold one.
\<close>

definition cut_name :: "byte list \<Rightarrow> byte list" where
  "cut_name name = takeWhile (\<lambda>c. \<not> line_end c) name"

definition c_string :: "byte list option \<Rightarrow> bool" where
  "c_string str \<longleftrightarrow> (case str of None \<Rightarrow> True | Some s \<Rightarrow> 0 \<notin> set s)"

definition received :: "byte list \<Rightarrow> byte list \<Rightarrow> bool" where
  "received line rtext \<longleftrightarrow> (\<exists>k. rtext = take k line) \<and> chr_nl \<in> set rtext"

definition cluster_text :: "byte list option \<Rightarrow> byte list \<Rightarrow> bool" where
  "cluster_text cluster_name rtext \<longleftrightarrow>
     (case cluster_name of
        None \<Rightarrow> rtext = [chr_nl]
      | Some name \<Rightarrow> (\<exists>post e rest.
          rtext = str_bytes ''cluster'' @ [chr_space, chr_quote] @ quote_chars (cut_name name) @ post @ e # rest \<and>
          line_end e \<and> (post = [chr_quote, chr_space] \<or> post = [])))"

definition requested_answer ::
    "allocator \<Rightarrow> qnetd_world \<Rightarrow> qnetd_tool_operation \<Rightarrow> bool \<Rightarrow> byte list option \<Rightarrow> unix_socket_client \<Rightarrow>
     unix_socket_client" where
  "requested_answer al w operation verbose cluster_name client =
     (case operation of
        QNETD_TOOL_OPERATION_NONE \<Rightarrow> client
      | QNETD_TOOL_OPERATION_SHUTDOWN \<Rightarrow> or_disconnect (ipc_send_buffer al (client\<lparr>uc_user_data := Some True\<rparr>))
      | QNETD_TOOL_OPERATION_STATUS \<Rightarrow>
          cmd_answer al (qnetd_ipc_cmd_status al (qw_host_addr w) (qw_host_port w) (qw_instance w) verbose)
            ''Can't get QNetd status'' client
      | QNETD_TOOL_OPERATION_LIST \<Rightarrow>
          cmd_answer al (qnetd_ipc_cmd_list al (qw_client_addr_str w) (qw_instance w) verbose cluster_name)
            ''Can't get QNetd cluster list'' client)"

lemma c_str_word: "0 \<notin> set w \<Longrightarrow> c_str (w @ [0]) = w"
  by (simp add: c_str_def takeWhile_append)

lemmas word_simps = str_bytes_def strcasecmp_eq_def tolower_def c_str_def

lemma plain_words:
  "list_all plain_char (str_bytes ''shutdown'')" "list_all plain_char (str_bytes ''status'')"
  "list_all plain_char (str_bytes ''list'')" "list_all plain_char (str_bytes ''verbose'')"
  "list_all plain_char (str_bytes ''cluster'')"
  by (simp_all add: plain_char_def str_bytes_def chr_quote_def chr_backslash_def dynar_simple_lex_is_space_def)

lemma words_neq: "str_bytes ''verbose'' \<noteq> []" "str_bytes ''cluster'' \<noteq> []"
  by (simp_all add: str_bytes_def)

lemma lex_quoted_cut:
  assumes "list_all (\<lambda>c. \<not> line_end c) s" and "line_end e"
  shows "lex_quoted ty (quote_chars s @ e # rest) = (s, e # rest)"
  using assms
  by (induction s) (auto simp: quote_chars_def chr_quote_def chr_backslash_def line_end_def apfst_def map_prod_def
      split_beta)

lemma lex_line_end: "line_end e \<Longrightarrow> lex_token ty (e # s) = ([], e # s)"
  by (simp add: lex_token_Cons)

lemma lex_quoted_name:
  assumes "line_end e" and "post = [chr_quote, chr_space] \<or> post = []"
  shows "lex_token DYNAR_SIMPLE_LEX_TYPE_QUOTE (chr_quote # quote_chars (cut_name name) @ post @ e # rest) =
    (cut_name name, tl post @ e # rest)"
proof -
  have ok: "list_all (\<lambda>c. \<not> line_end c) (cut_name name)"
    by (auto simp: cut_name_def list_all_iff dest: set_takeWhileD)
  have start: "lex_token DYNAR_SIMPLE_LEX_TYPE_QUOTE (chr_quote # t) = lex_quoted DYNAR_SIMPLE_LEX_TYPE_QUOTE t" for t
    by (simp add: lex_token_Cons) (simp add: chr_quote_def chr_backslash_def line_end_def dynar_simple_lex_is_space_def)
  from assms(2) show ?thesis
  proof
    assume post: "post = [chr_quote, chr_space]"
    have sp: "lex_word DYNAR_SIMPLE_LEX_TYPE_QUOTE (chr_space # e # rest) = ([], chr_space # e # rest)"
      by (simp add: chr_space_def chr_quote_def chr_backslash_def dynar_simple_lex_is_space_def)
    show ?thesis
      using lex_quoted_chars [OF ok, of DYNAR_SIMPLE_LEX_TYPE_QUOTE "chr_space # e # rest"]
      by (simp only: start post sp append_Cons append_Nil list.sel apfst_conv append_Nil2)
  next
    assume "post = []"
    then show ?thesis using lex_quoted_cut [OF ok assms(1)] by (simp add: start)
  qed
qed

text \<open>The words at the place of the scanner, one after the other.\<close>

lemma token_word:
  assumes "lex_at ty lx (w @ chr_space # rest)" and "list_all plain_char w" and "w \<noteq> []" and "alloc_ideal al"
  obtains lx' where "dynar_simple_lex_token_next al lx = (True, lx')" "lex_at ty lx' (chr_space # rest)"
    "c_str (dyn_data (sl_token lx')) = w"
proof -
  have "0 \<notin> set w" using assms(2) by (auto simp: plain_char_def list_all_iff)
  then show thesis
    using lex_at_next [OF assms(1,4)] that lex_plain_word [OF assms(2,3), of ty rest] c_str_word by (metis fst_conv snd_conv)
qed

lemma token_space_word:
  assumes "lex_at ty lx (chr_space # w @ chr_space # rest)" and "list_all plain_char w" and "w \<noteq> []" and "alloc_ideal al"
  obtains lx' where "dynar_simple_lex_token_next al lx = (True, lx')" "lex_at ty lx' (chr_space # rest)"
    "c_str (dyn_data (sl_token lx')) = w"
proof -
  have "0 \<notin> set w" using assms(2) by (auto simp: plain_char_def list_all_iff)
  then show thesis
    using lex_at_next [OF assms(1,4)] that lex_plain_word [OF assms(2,3), of ty rest] c_str_word lex_space
    by (metis fst_conv snd_conv)
qed

lemma token_space_end:
  assumes "lex_at ty lx (chr_space # chr_nl # rest)" and "alloc_ideal al"
  obtains lx' where "dynar_simple_lex_token_next al lx = (True, lx')" "c_str (dyn_data (sl_token lx')) = []"
proof -
  obtain lx' where "dynar_simple_lex_token_next al lx = (True, lx')"
    "dyn_data (sl_token lx') = fst (lex_token ty (chr_space # chr_nl # rest)) @ [0]"
    using lex_at_next [OF assms] .
  then show thesis using that by (simp add: lex_space lex_newline c_str_def)
qed

lemma token_line_end:
  assumes "lex_at ty lx (post @ e # rest)" and "line_end e" and "post = [chr_space] \<or> post = []" and "alloc_ideal al"
  obtains lx' where "dynar_simple_lex_token_next al lx = (True, lx')" "c_str (dyn_data (sl_token lx')) = []"
proof -
  have "lex_token ty (post @ e # rest) = ([], e # rest)"
    using assms(3) lex_line_end [OF assms(2)] lex_space [of ty "e # rest"] by auto
  then show thesis using lex_at_next [OF assms(1,4)] that by (fastforce simp: c_str_def)
qed

lemma token_space_name:
  assumes "lex_at DYNAR_SIMPLE_LEX_TYPE_QUOTE lx (chr_space # chr_quote # quote_chars (cut_name name) @ post @ e # rest)"
    and "line_end e" and "post = [chr_quote, chr_space] \<or> post = []" and "0 \<notin> set name" and "alloc_ideal al"
  obtains lx' where "dynar_simple_lex_token_next al lx = (True, lx')"
    "lex_at DYNAR_SIMPLE_LEX_TYPE_QUOTE lx' (tl post @ e # rest)" "c_str (dyn_data (sl_token lx')) = cut_name name"
proof -
  have n: "0 \<notin> set (cut_name name)" using assms(4) by (auto simp: cut_name_def dest: set_takeWhileD)
  show thesis
    using lex_at_next [OF assms(1,5)] that lex_quoted_name [OF assms(2,3), of name rest] c_str_word [OF n] lex_space
    by (metis fst_conv snd_conv)
qed

text \<open>The arguments of \<open>list\<close>.\<close>

lemma list_args_cluster:
  assumes "lex_at DYNAR_SIMPLE_LEX_TYPE_QUOTE lx (chr_space # rtext)"
    and "alloc_ideal al" and "c_string cluster_name" and "cluster_text cluster_name rtext" and "2 \<le> n"
  shows "list_args_loop al n lx verbose None = Some (verbose, map_option cut_name cluster_name)"
proof -
  obtain m where n: "n = Suc (Suc m)" using assms(5) by (cases n; cases "n - 1") auto
  show ?thesis
  proof (cases cluster_name)
    case None
    then have at: "lex_at DYNAR_SIMPLE_LEX_TYPE_QUOTE lx [chr_space, chr_nl]" using assms(1,4) by (simp add: cluster_text_def)
    obtain lx1 where "dynar_simple_lex_token_next al lx = (True, lx1)" "c_str (dyn_data (sl_token lx1)) = []"
      using token_space_end [OF at assms(2)] .
    then show ?thesis using None n by simp
  next
    case (Some name)
    with assms(4) obtain post e rest where
      rtext: "rtext = str_bytes ''cluster'' @ [chr_space, chr_quote] @ quote_chars (cut_name name) @ post @ e # rest"
      and e: "line_end e" and post: "post = [chr_quote, chr_space] \<or> post = []" by (auto simp: cluster_text_def)
    let ?rest = "chr_quote # quote_chars (cut_name name) @ post @ e # rest"
    have name: "0 \<notin> set name" using assms(3) Some by (simp add: c_string_def)
    have at: "lex_at DYNAR_SIMPLE_LEX_TYPE_QUOTE lx (chr_space # str_bytes ''cluster'' @ chr_space # ?rest)"
      using assms(1) rtext by simp
    obtain lx1 where 1: "dynar_simple_lex_token_next al lx = (True, lx1)"
      "lex_at DYNAR_SIMPLE_LEX_TYPE_QUOTE lx1 (chr_space # ?rest)" "c_str (dyn_data (sl_token lx1)) = str_bytes ''cluster''"
      using token_space_word [OF at plain_words(5) words_neq(2) assms(2)] .
    obtain lx2 where 2: "dynar_simple_lex_token_next al lx1 = (True, lx2)"
      "lex_at DYNAR_SIMPLE_LEX_TYPE_QUOTE lx2 (tl post @ e # rest)" "c_str (dyn_data (sl_token lx2)) = cut_name name"
      using token_space_name [OF 1(2) e post name assms(2)] .
    have "tl post = [chr_space] \<or> tl post = []" using post by auto
    then obtain lx3 where 3: "dynar_simple_lex_token_next al lx2 = (True, lx3)" "c_str (dyn_data (sl_token lx3)) = []"
      using token_line_end [OF 2(2) e _ assms(2)] by blast
    show ?thesis
      using 1(1,3) 2(1,3) 3 n Some assms(2) by (simp add: str_bytes_def strcasecmp_eq_def tolower_def alloc_ideal_def)
  qed
qed

lemma list_args_line:
  assumes "lex_at DYNAR_SIMPLE_LEX_TYPE_QUOTE lx (chr_space # verbose_word verbose @ rtext)"
    and "alloc_ideal al" and "c_string cluster_name" and "cluster_text cluster_name rtext" and "3 \<le> n"
  shows "list_args_loop al n lx False None = Some (verbose, map_option cut_name cluster_name)"
proof (cases verbose)
  case False
  then show ?thesis using list_args_cluster assms by (simp add: verbose_word_def)
next
  case True
  obtain m where n: "n = Suc m" "2 \<le> m" using assms(5) by (cases n) auto
  have at: "lex_at DYNAR_SIMPLE_LEX_TYPE_QUOTE lx (chr_space # str_bytes ''verbose'' @ chr_space # rtext)"
    using assms(1) True by (simp add: verbose_word_def)
  obtain lx1 where 1: "dynar_simple_lex_token_next al lx = (True, lx1)"
    "lex_at DYNAR_SIMPLE_LEX_TYPE_QUOTE lx1 (chr_space # rtext)"
    "c_str (dyn_data (sl_token lx1)) = str_bytes ''verbose''"
    using token_space_word [OF at plain_words(4) words_neq(1) assms(2)] .
  show ?thesis
    using 1(1,3) list_args_cluster [OF 1(2) assms(2,3,4) n(2)] n True by (simp add: str_bytes_def strcasecmp_eq_def)
qed

text \<open>The argument of \<open>status\<close>: any word but \<open>verbose\<close> is ignored.\<close>

lemma status_argument:
  assumes "lex_at DYNAR_SIMPLE_LEX_TYPE_QUOTE lx (chr_space # verbose_word verbose @ rtext)"
    and "alloc_ideal al" and "cluster_text cluster_name rtext"
  obtains lx' where "dynar_simple_lex_token_next al lx = (True, lx')"
    "strcasecmp_eq (c_str (dyn_data (sl_token lx'))) ''verbose'' = verbose"
proof (cases verbose)
  case True
  have at: "lex_at DYNAR_SIMPLE_LEX_TYPE_QUOTE lx (chr_space # str_bytes ''verbose'' @ chr_space # rtext)"
    using assms(1) True by (simp add: verbose_word_def)
  obtain lx1 where "dynar_simple_lex_token_next al lx = (True, lx1)" "c_str (dyn_data (sl_token lx1)) = str_bytes ''verbose''"
    using token_space_word [OF at plain_words(4) words_neq(1) assms(2)] .
  then show ?thesis using that True by (simp add: strcasecmp_eq_def)
next
  case False
  show ?thesis
  proof (cases cluster_name)
    case None
    then have at: "lex_at DYNAR_SIMPLE_LEX_TYPE_QUOTE lx [chr_space, chr_nl]"
      using assms(1,3) False by (simp add: verbose_word_def cluster_text_def)
    obtain lx1 where "dynar_simple_lex_token_next al lx = (True, lx1)" "c_str (dyn_data (sl_token lx1)) = []"
      using token_space_end [OF at assms(2)] .
    then show ?thesis using that False by (simp add: strcasecmp_eq_def str_bytes_def)
  next
    case (Some name)
    with assms(3) obtain rest where "rtext = str_bytes ''cluster'' @ chr_space # rest" by (auto simp: cluster_text_def)
    then have at: "lex_at DYNAR_SIMPLE_LEX_TYPE_QUOTE lx (chr_space # str_bytes ''cluster'' @ chr_space # rest)"
      using assms(1) False by (simp add: verbose_word_def)
    obtain lx1 where "dynar_simple_lex_token_next al lx = (True, lx1)" "c_str (dyn_data (sl_token lx1)) = str_bytes ''cluster''"
      using token_space_word [OF at plain_words(5) words_neq(2) assms(2)] .
    then show ?thesis using that False by (simp add: str_bytes_def strcasecmp_eq_def tolower_def)
  qed
qed

lemma parse_tool_line:
  assumes "dyn_data (uc_receive_buffer client) =
      tool_word operation @ [chr_space] @ verbose_word verbose @ rtext"
    and "dynar_size (uc_receive_buffer client) < dyn_maximum_size (uc_receive_buffer client)"
    and "operation \<noteq> QNETD_TOOL_OPERATION_NONE" and "alloc_ideal al" and "c_string cluster_name" and "cluster_text cluster_name rtext"
    and "uc_user_data client \<noteq> None"
  shows "qnetd_ipc_parse_line al w client = Inr (requested_answer al w operation verbose (map_option cut_name cluster_name) client)"
proof -
  let ?args = "verbose_word verbose @ rtext"
  have word: "list_all plain_char (tool_word operation)" "tool_word operation \<noteq> []"
    using assms(3) plain_words by (cases operation; simp add: tool_word_def str_bytes_def)+
  have "lex_at DYNAR_SIMPLE_LEX_TYPE_QUOTE
      (dynar_simple_lex_init (uc_receive_buffer client) DYNAR_SIMPLE_LEX_TYPE_QUOTE) (tool_word operation @ chr_space # ?args)"
    using lex_at_init [OF assms(2), of DYNAR_SIMPLE_LEX_TYPE_QUOTE] assms(1) by simp
  from token_word [OF this word assms(4)] obtain lx where
    lx: "dynar_simple_lex_token_next al (dynar_simple_lex_init (uc_receive_buffer client) DYNAR_SIMPLE_LEX_TYPE_QUOTE) = (True, lx)"
      "lex_at DYNAR_SIMPLE_LEX_TYPE_QUOTE lx (chr_space # ?args)" "c_str (dyn_data (sl_token lx)) = tool_word operation"
    by blast
  have size: "3 \<le> dynar_size (uc_receive_buffer client)" if "operation = QNETD_TOOL_OPERATION_LIST"
    using assms(1) that by (simp add: dynar_size_def tool_word_def str_bytes_def)
  obtain lx2 where lx2: "dynar_simple_lex_token_next al lx = (True, lx2)"
    "strcasecmp_eq (c_str (dyn_data (sl_token lx2))) ''verbose'' = verbose"
    using status_argument [OF lx(2) assms(4,6)] .
  note args = list_args_line [OF lx(2) assms(4,5,6) size]
  show ?thesis
    using assms(3,7) lx(1,3) lx2 args
    by (cases operation) (simp_all add: qnetd_ipc_parse_line_def requested_answer_def tool_word_def Let_def
        str_bytes_def strcasecmp_eq_def tolower_def)
qed

text \<open>What the server has of the line when it parses it.\<close>

lemma quote_chars_append: "quote_chars (xs @ ys) = quote_chars xs @ quote_chars ys"
  by (simp add: quote_chars_def)

lemma quote_chars_nl: "chr_nl \<in> set (quote_chars xs) \<longleftrightarrow> chr_nl \<in> set xs"
  by (auto simp: quote_chars_def chr_nl_def chr_backslash_def)

lemma take_past_first:
  assumes "x \<in> set (take k (xs @ ys))" and "x \<notin> set xs"
  shows "\<exists>m. take k (xs @ ys) = xs @ take m ys \<and> x \<in> set (take m ys)"
proof -
  have m: "x \<in> set (take (k - length xs) ys)" using assms by (auto dest: in_set_takeD)
  then have "length xs \<le> k" by (cases "k - length xs") auto
  with m show ?thesis by (intro exI [of _ "k - length xs"]) simp
qed

lemma received_line:
  assumes "received (tool_line operation verbose cluster_name) line"
  obtains rtext where "line = tool_word operation @ [chr_space] @ verbose_word verbose @ rtext"
    "cluster_text cluster_name rtext"
proof -
  let ?start = "tool_word operation @ [chr_space] @ verbose_word verbose"
  let ?fin = "cluster_words cluster_name @ [chr_nl]"
  have "chr_nl \<notin> set ?start"
    by (cases operation) (auto simp: tool_word_def verbose_word_def str_bytes_def chr_nl_def chr_space_def)
  moreover obtain k where k: "line = take k (?start @ ?fin)" "chr_nl \<in> set line"
    using assms by (auto simp: received_def tool_line_def)
  ultimately obtain m where m: "line = ?start @ take m ?fin" "chr_nl \<in> set (take m ?fin)"
    using take_past_first [of chr_nl k ?start ?fin] by auto
  have "cluster_text cluster_name (take m ?fin)"
  proof (cases cluster_name)
    case None
    then show ?thesis using m(2) by (cases m) (auto simp: cluster_text_def cluster_words_def)
  next
    case (Some name)
    let ?pre = "str_bytes ''cluster'' @ [chr_space, chr_quote] @ quote_chars (cut_name name)"
    have pre: "chr_nl \<notin> set ?pre"
    proof -
      have "chr_nl \<notin> set (cut_name name)"
        by (auto simp: cut_name_def line_end_def chr_nl_def dest: set_takeWhileD)
      then have "chr_nl \<notin> set (quote_chars (cut_name name))" by (simp add: quote_chars_nl)
      then show ?thesis by (simp add: str_bytes_def) (simp add: chr_nl_def chr_space_def chr_quote_def)
    qed
    have "\<exists>post e rest. ?fin = ?pre @ post @ e # rest \<and> line_end e \<and> chr_nl \<notin> set post \<and>
        (post = [chr_quote, chr_space] \<or> post = [])"
    proof (cases "dropWhile (\<lambda>c. \<not> line_end c) name")
      case Nil
      then have "cut_name name = name"
        using takeWhile_dropWhile_id [of "\<lambda>c. \<not> line_end c" name] by (simp add: cut_name_def)
      then have "?fin = ?pre @ [chr_quote, chr_space] @ chr_nl # []" by (simp add: Some cluster_words_def)
      moreover have "line_end chr_nl" "chr_nl \<notin> set [chr_quote, chr_space]"
        by (simp_all add: line_end_def chr_nl_def chr_quote_def chr_space_def)
      ultimately show ?thesis by blast
    next
      case (Cons e suf)
      then have "line_end e" by (metis hd_dropWhile list.sel(1) list.distinct(1))
      moreover have "name = cut_name name @ e # suf"
        using takeWhile_dropWhile_id [of "\<lambda>c. \<not> line_end c" name] Cons by (simp add: cut_name_def)
      then have "quote_chars name = quote_chars (cut_name name) @ quote_chars (e # suf)"
        by (metis quote_chars_append)
      moreover have "quote_chars (e # suf) = e # quote_chars suf"
        using \<open>line_end e\<close> by (auto simp: quote_chars_def line_end_def chr_quote_def chr_backslash_def)
      ultimately have "?fin = ?pre @ [] @ e # (quote_chars suf @ [chr_quote, chr_space, chr_nl])"
        by (simp add: Some cluster_words_def)
      then show ?thesis using \<open>line_end e\<close> by (metis empty_iff empty_set)
    qed
    then obtain post e rest where fin: "?fin = (?pre @ post) @ e # rest" and e: "line_end e"
      and post: "chr_nl \<notin> set post" "post = [chr_quote, chr_space] \<or> post = []" by auto
    obtain j where j: "take m ?fin = (?pre @ post) @ take j (e # rest)" "chr_nl \<in> set (take j (e # rest))"
      using take_past_first [of chr_nl m "?pre @ post" "e # rest"] m(2) pre post(1) unfolding fin by auto
    then have "take j (e # rest) = e # take (j - 1) rest" by (cases j) auto
    with j(1) have "take m ?fin = str_bytes ''cluster'' @ [chr_space, chr_quote] @ quote_chars (cut_name name) @ post @
        e # take (j - 1) rest"
      by (simp only: append_assoc)
    with e post(2) show ?thesis unfolding cluster_text_def Some option.case by blast
  qed
  then show thesis using m(1) that by simp
qed

text \<open>The commands of the other tool have no cluster; the client reads plain words.\<close>

definition qdevice_tool_word :: "qdevice_tool_operation \<Rightarrow> byte list" where
  "qdevice_tool_word operation =
     (case operation of
        QDEVICE_TOOL_OPERATION_NONE \<Rightarrow> []
      | QDEVICE_TOOL_OPERATION_SHUTDOWN \<Rightarrow> str_bytes ''shutdown''
      | QDEVICE_TOOL_OPERATION_STATUS \<Rightarrow> str_bytes ''status'')"

definition qdevice_tool_line :: "qdevice_tool_operation \<Rightarrow> bool \<Rightarrow> byte list" where
  "qdevice_tool_line operation verbose = qdevice_tool_word operation @ [chr_space] @ verbose_word verbose @ [chr_nl]"

definition qdevice_requested_answer ::
    "allocator \<Rightarrow> (int \<Rightarrow> tm) \<Rightarrow> qdevice_world \<Rightarrow> qdevice_tool_operation \<Rightarrow> bool \<Rightarrow> unix_socket_client \<Rightarrow>
     fault + unix_socket_client" where
  "qdevice_requested_answer al localtime w operation verbose client =
     (case operation of
        QDEVICE_TOOL_OPERATION_NONE \<Rightarrow> Inr client
      | QDEVICE_TOOL_OPERATION_SHUTDOWN \<Rightarrow>
          Inr (or_disconnect (qdevice_ipc_send_buffer al (client\<lparr>uc_user_data := Some True\<rparr>)))
      | QDEVICE_TOOL_OPERATION_STATUS \<Rightarrow> qdevice_status_answer al localtime w verbose client)"

lemma qdevice_store_command_writes:
  assumes "operation \<noteq> QDEVICE_TOOL_OPERATION_NONE"
  obtains f where "qdevice_tool_store_command al operation verbose = Some f"
    "writes al f (qdevice_tool_line operation verbose @ [0])"
proof -
  have w: "writes al (run_adds (str_cat al (word @ [chr_space]) # [add_if verbose (str_cat al (str_bytes ''verbose '')),
      (\<lambda>d. dynar_cat al d [chr_nl, 0])])) ((word @ [chr_space]) @ verbose_word verbose @ [chr_nl, 0] @ [])" for word
    by (intro writes_Cons writes_Nil writes_str_cat writes_verbose writes_cat)
  have sp: "str_bytes ''shutdown '' = str_bytes ''shutdown'' @ [chr_space]"
    "str_bytes ''status '' = str_bytes ''status'' @ [chr_space]"
    by (simp_all add: str_bytes_def chr_space_def)
  from assms w [of "qdevice_tool_word operation"] show thesis
    by (cases operation) (rule that; simp add: qdevice_tool_store_command_def Let_def sp qdevice_tool_line_def
        qdevice_tool_word_def del: run_adds.simps)+
qed

lemma qdevice_status_argument:
  assumes "lex_at DYNAR_SIMPLE_LEX_TYPE_PLAIN lx (chr_space # verbose_word verbose @ [chr_nl])" and "alloc_ideal al"
  obtains lx' where "dynar_simple_lex_token_next al lx = (True, lx')"
    "strcasecmp_eq (c_str (dyn_data (sl_token lx'))) ''verbose'' = verbose"
proof (cases verbose)
  case True
  then have at: "lex_at DYNAR_SIMPLE_LEX_TYPE_PLAIN lx (chr_space # str_bytes ''verbose'' @ chr_space # [chr_nl])"
    using assms(1) by (simp add: verbose_word_def)
  obtain lx1 where "dynar_simple_lex_token_next al lx = (True, lx1)" "c_str (dyn_data (sl_token lx1)) = str_bytes ''verbose''"
    using token_space_word [OF at plain_words(4) words_neq(1) assms(2)] .
  then show ?thesis using that True by (simp add: strcasecmp_eq_def)
next
  case False
  then have at: "lex_at DYNAR_SIMPLE_LEX_TYPE_PLAIN lx [chr_space, chr_nl]"
    using assms(1) by (simp add: verbose_word_def)
  obtain lx1 where "dynar_simple_lex_token_next al lx = (True, lx1)" "c_str (dyn_data (sl_token lx1)) = []"
    using token_space_end [OF at assms(2)] .
  then show ?thesis using that False by (simp add: strcasecmp_eq_def str_bytes_def)
qed

lemma qdevice_parse_tool_line:
  assumes "dyn_data (uc_receive_buffer client) = qdevice_tool_line operation verbose"
    and "dynar_size (uc_receive_buffer client) < dyn_maximum_size (uc_receive_buffer client)"
    and "operation \<noteq> QDEVICE_TOOL_OPERATION_NONE" and "alloc_ideal al" and "uc_user_data client \<noteq> None"
  shows "qdevice_ipc_parse_line al localtime w client = qdevice_requested_answer al localtime w operation verbose client"
proof -
  have word: "list_all plain_char (qdevice_tool_word operation)" "qdevice_tool_word operation \<noteq> []"
    using assms(3) plain_words by (cases operation; simp add: qdevice_tool_word_def str_bytes_def)+
  let ?lx = "dynar_simple_lex_init (uc_receive_buffer client) DYNAR_SIMPLE_LEX_TYPE_PLAIN"
  have at: "lex_at DYNAR_SIMPLE_LEX_TYPE_PLAIN ?lx (qdevice_tool_word operation @ chr_space # verbose_word verbose @ [chr_nl])"
    using lex_at_init [OF assms(2), of DYNAR_SIMPLE_LEX_TYPE_PLAIN] assms(1) by (simp add: qdevice_tool_line_def)
  obtain lx where lx: "dynar_simple_lex_token_next al ?lx = (True, lx)"
    "lex_at DYNAR_SIMPLE_LEX_TYPE_PLAIN lx (chr_space # verbose_word verbose @ [chr_nl])"
    "c_str (dyn_data (sl_token lx)) = qdevice_tool_word operation"
    using token_word [OF at word assms(4)] .
  obtain lx2 where lx2: "dynar_simple_lex_token_next al lx = (True, lx2)"
    "strcasecmp_eq (c_str (dyn_data (sl_token lx2))) ''verbose'' = verbose"
    using qdevice_status_argument [OF lx(2) assms(4)] .
  show ?thesis
    using assms(3,5) lx(1,3) lx2
    by (cases operation) (simp_all add: qdevice_ipc_parse_line_def qdevice_requested_answer_def qdevice_tool_word_def
        Let_def str_bytes_def strcasecmp_eq_def tolower_def)
qed

section \<open>Answers\<close>

lemma reply_rest:
  "reply_loop al chs True err_set res d out =
     (res, if err_set then out\<lparr>to_stderr := to_stderr out @ chs\<rparr> else out\<lparr>to_stdout := to_stdout out @ chs\<rparr>)"
  by (induction chs arbitrary: out) simp_all

lemma cat_ideal:
  assumes "alloc_ideal al" and "dynar_inv d" and "dynar_size d + length src \<le> dyn_maximum_size d"
  shows "\<exists>d'. dynar_cat al d src = (0, d') \<and> dyn_data d' = dyn_data d @ src \<and> dyn_maximum_size d' = dyn_maximum_size d \<and>
    dynar_inv d'"
proof -
  obtain r d' where c: "dynar_cat al d src = (r, d')" by fastforce
  with dynar_cat_total [OF assms(1,3)] have "r = 0" by simp
  with dynar_cat_ok [of al d src d'] c assms(2) show ?thesis by auto
qed

text \<open>The status line is collected and then compared.\<close>

lemma reply_status_line:
  assumes "alloc_ideal al" and "dynar_inv d" and "dynar_size d + length w + 1 \<le> dyn_maximum_size d"
    and "list_all (\<lambda>c. c \<noteq> chr_cr \<and> c \<noteq> chr_nl) w"
  shows "\<exists>d'. reply_loop al (w @ chr_nl # chs) False err_set res d out =
    reply_loop al (chr_nl # chs) False err_set res d' out \<and> dyn_data d' = dyn_data d @ w \<and> dynar_inv d' \<and>
    dynar_size d' + 1 \<le> dyn_maximum_size d'"
  using assms
proof (induction w arbitrary: d)
  case (Cons c w)
  have room: "dynar_size d + length [c] \<le> dyn_maximum_size d" using Cons.prems(3) by simp
  from cat_ideal [OF Cons.prems(1,2) room] obtain d1 where
    d1: "dynar_cat al d [c] = (0, d1)" "dyn_data d1 = dyn_data d @ [c]" "dyn_maximum_size d1 = dyn_maximum_size d" "dynar_inv d1"
    by blast
  have "dynar_size d1 + length w + 1 \<le> dyn_maximum_size d1" using Cons.prems(3) d1(2,3) by (simp add: dynar_size_def)
  from Cons.IH [OF Cons.prems(1) d1(4) this] Cons.prems(4) obtain d' where
    "reply_loop al (w @ chr_nl # chs) False err_set res d1 out = reply_loop al (chr_nl # chs) False err_set res d' out"
    "dyn_data d' = dyn_data d1 @ w" "dynar_inv d'" "dynar_size d' + 1 \<le> dyn_maximum_size d'" by auto
  then show ?case using d1(1,2) Cons.prems(4) by (intro exI [of _ d']) simp
qed auto

lemma read_status:
  assumes "alloc_ideal al" and "length w + 1 \<le> ipc_read_buf_size"
    and "list_all (\<lambda>c. c \<noteq> chr_cr \<and> c \<noteq> chr_nl \<and> c \<noteq> 0) w"
  shows "read_ipc_reply al (w @ chr_nl # chs) =
    (if strcasecmp_eq w ''OK'' then (0, \<lparr>to_stdout = chs, to_stderr = []\<rparr>)
     else if strcasecmp_eq w ''Error'' then (1, \<lparr>to_stdout = [], to_stderr = str_bytes ''Error: '' @ chs\<rparr>)
     else (2, \<lparr>to_stdout = [], to_stderr = []\<rparr>))"
proof -
  let ?out = "\<lparr>to_stdout = [], to_stderr = []\<rparr>"
  have w: "list_all (\<lambda>c. c \<noteq> chr_cr \<and> c \<noteq> chr_nl) w" "0 \<notin> set w" using assms(3) by (auto simp: list_all_iff)
  have room: "dynar_size (dynar_init ipc_read_buf_size) + length w + 1 \<le> dyn_maximum_size (dynar_init ipc_read_buf_size)"
    using assms(2) by (simp add: dynar_init_def dynar_size_def)
  from reply_status_line [OF assms(1) dynar_inv_init room w(1)] obtain d where
    d: "read_ipc_reply al (w @ chr_nl # chs) = reply_loop al (chr_nl # chs) False False 0 d ?out" "dyn_data d = w"
      "dynar_inv d" "dynar_size d + length [0 :: byte] \<le> dyn_maximum_size d"
    unfolding read_ipc_reply_def by (force simp: dynar_init_def)
  from cat_ideal [OF assms(1) d(3,4)] d(2) obtain d1 where d1: "dynar_cat al d [0] = (0, d1)" "dyn_data d1 = w @ [0]" by auto
  show ?thesis
    unfolding d(1) using d1 c_str_word [OF w(2)] by (simp add: reply_rest chr_nl_def chr_cr_def)
qed

text \<open>What the stream of the tool holds when the server has sent its answer and closed the connection.\<close>

definition sent_back :: "fault + unix_socket_client \<Rightarrow> byte list" where
  "sent_back m =
     (case m of Inl f \<Rightarrow> [] | Inr c \<Rightarrow> if uc_schedule_disconnect c then [] else dyn_data (uc_send_buffer c))"

definition with_line :: "nat \<Rightarrow> unix_socket_client \<Rightarrow> byte list \<Rightarrow> unix_socket_client" where
  "with_line n client line =
     client\<lparr>uc_receive_buffer := \<lparr>dyn_data = line, dyn_allocated = length line, dyn_maximum_size = n\<rparr>\<rparr>"

definition tool_connects :: "tool_env \<Rightarrow> byte list \<Rightarrow> bool" where
  "tool_connects te path \<longleftrightarrow>
     unix_socket_client_create (te_sys te) (te_connected te) path False \<noteq> -1 \<and> te_fdopen te \<and> te_sent te"

lemma quote_chars_no_zero: "0 \<notin> set name \<Longrightarrow> 0 \<notin> set (quote_chars name)"
  by (auto simp: quote_chars_def chr_backslash_def split: if_splits)

lemma tool_line_c_str:
  assumes "c_string cluster_name"
  shows "c_str (tool_line operation verbose cluster_name @ [0]) = tool_line operation verbose cluster_name"
proof (rule c_str_word)
  have "0 \<notin> set (cluster_words cluster_name)"
    using assms quote_chars_no_zero
    by (auto simp: cluster_words_def c_string_def str_bytes_def chr_space_def chr_quote_def list_all_iff split: option.splits)
  moreover have "0 \<notin> set (tool_word operation)" by (cases operation) (simp_all add: tool_word_def str_bytes_def)
  ultimately show "0 \<notin> set (tool_line operation verbose cluster_name)"
    by (simp add: tool_line_def verbose_word_def str_bytes_def chr_space_def chr_nl_def)
qed

lemma tool_sends_line:
  assumes "alloc_ideal al" and "qnetd_tool_cli_parse al bc args = Inr opts"
    and "tool_connects te (qto_socket_path opts)"
    and "line = tool_line (qto_operation opts) (qto_verbose opts) (qto_cluster_name opts)"
  shows "qto_operation opts \<noteq> QNETD_TOOL_OPERATION_NONE \<and>
    qnetd_tool_main al bc te args =
      (if 4096 \<le> length line then (TOOL_EXIT_CODE_INTERNAL_ERROR, \<lparr>to_stdout = [], to_stderr = []\<rparr>)
       else tool_talk al True (te_server te) (dynar_init 0\<lparr>dyn_data := line @ [0]\<rparr>))"
proof -
  have op: "qto_operation opts \<noteq> QNETD_TOOL_OPERATION_NONE"
    using assms(2) by (auto simp: qnetd_tool_cli_parse_def bindE_Inr_iff split: option.splits if_splits)
  obtain f where f: "qnetd_tool_store_command al (qto_operation opts) (qto_verbose opts) (qto_cluster_name opts) = Some f"
    "writes al f (line @ [0])"
    using store_command_writes [OF op] unfolding assms(4) .
  obtain r d where d: "f (dynar_init 4096) = (r, d)" by fastforce
  note w = writesD [OF f(2) dynar_inv_init d]
  have r: "r = 0 \<longleftrightarrow> length line < 4096"
  proof
    assume "r = 0"
    with w(2,4,5) show "length line < 4096" by (simp add: dynar_init_def dynar_size_def)
  next
    assume "length line < 4096"
    then show "r = 0" using w(6) assms(1) by (simp add: dynar_init_def dynar_size_def)
  qed
  moreover have "dyn_data d = line @ [0]" if "r = 0"
    using w(4) that by (simp add: dynar_init_def)
  ultimately show ?thesis
    using assms(2,3) f(1) d op
    by (auto simp: qnetd_tool_main_def tool_run_def tool_connects_def tool_talk_def Let_def not_less)
qed

lemma requested_line_answer:
  assumes "operation \<noteq> QNETD_TOOL_OPERATION_NONE"
  shows "gets_answer (requested_answer al w operation verbose cluster_name client)"
  using assms line_answer_buffer [of client al "Some True"] cmd_answer_answer
  by (cases operation) (auto simp: requested_answer_def line_answer_def)

lemma tool_talk_answer:
  assumes "alloc_ideal al" and "gets_answer c" and "server (c_str (dyn_data d)) = sent_back (Inr c)"
  shows "if uc_schedule_disconnect c then tool_talk al True server d = (TOOL_EXIT_CODE_NO_ERROR, \<lparr>to_stdout = [], to_stderr = []\<rparr>)
    else (\<exists>body. dyn_data (uc_send_buffer c) = str_bytes ''OK'' @ [chr_nl] @ body \<and>
            tool_talk al True server d = (TOOL_EXIT_CODE_NO_ERROR, \<lparr>to_stdout = body, to_stderr = []\<rparr>)) \<or>
         (\<exists>e. dyn_data (uc_send_buffer c) = str_bytes ''Error'' @ [chr_nl] @ e \<and>
            tool_talk al True server d = (TOOL_EXIT_CODE_RETURNED_ERROR, \<lparr>to_stdout = [], to_stderr = str_bytes ''Error: '' @ e\<rparr>))"
proof (cases "uc_schedule_disconnect c")
  case True
  then show ?thesis using assms(3) by (simp add: tool_talk_def sent_back_def read_ipc_reply_def)
next
  case False
  have ok: "read_ipc_reply al (str_bytes ''OK'' @ chr_nl # body) = (0, \<lparr>to_stdout = body, to_stderr = []\<rparr>)" for body
    by (subst read_status [OF assms(1)])
      (simp_all add: str_bytes_def ipc_read_buf_size_def chr_cr_def chr_nl_def strcasecmp_eq_def)
  have error: "read_ipc_reply al (str_bytes ''Error'' @ chr_nl # e) = (1, \<lparr>to_stdout = [], to_stderr = str_bytes ''Error: '' @ e\<rparr>)" for e
    by (subst read_status [OF assms(1)])
      (simp_all add: str_bytes_def ipc_read_buf_size_def chr_cr_def chr_nl_def strcasecmp_eq_def tolower_def)
  from assms(2) False consider body where "dyn_data (uc_send_buffer c) = str_bytes ''OK'' @ [chr_nl] @ body"
    | e where "dyn_data (uc_send_buffer c) = str_bytes ''Error'' @ [chr_nl] @ e"
    by (auto simp: gets_answer_def error_answer_def ok_text_def error_text_head_def)
  then show ?thesis
  proof cases
    case 1
    then have "tool_talk al True server d = (TOOL_EXIT_CODE_NO_ERROR, \<lparr>to_stdout = body, to_stderr = []\<rparr>)"
      using False assms(3) ok [of body] by (simp add: tool_talk_def sent_back_def)
    then show ?thesis unfolding if_not_P [OF False] using 1 by blast
  next
    case 2
    then have "tool_talk al True server d =
        (TOOL_EXIT_CODE_RETURNED_ERROR, \<lparr>to_stdout = [], to_stderr = str_bytes ''Error: '' @ e\<rparr>)"
      using False assms(3) error [of e] by (simp add: tool_talk_def sent_back_def)
    then show ?thesis unfolding if_not_P [OF False] using 2 by blast
  qed
qed

section \<open>Properties\<close>

text \<open>
  C33. Asking the server with its tool works from one command line to the other. Take any operation, verbosity and
  cluster name that the arguments of the tool hold, quotes, backslashes and line ends in the name included (the name is a C string, it has no zero
  byte). Memory does not run out, the tool reaches the server, and the server accepts lines of at least 4096 bytes, which is its default; it parses what it
  has received when the text holds a line feed. When the line with the command does not fit into 4096 bytes with its final zero byte, the tool prints nothing and
  ends with an internal error. Otherwise the server carries out this
  operation with these arguments, except that it takes the name only up to its first line end; the tool prints exactly the text that the server has prepared and ends without an error, or
  it prints the error text and says so with its exit code. When the server closes the connection without
  an answer, the tool prints nothing and ends as if there was no error.
\<close>

theorem qnetd_tool_roundtrip:
  assumes "alloc_ideal al" and "alloc_ideal al'" and "qnetd_tool_cli_parse al bc args = Inr opts"
    and "tool_connects te (qto_socket_path opts)" and "c_string (qto_cluster_name opts)"
    and "4096 \<le> n" and "uc_user_data client \<noteq> None"
    and "te_server te = (\<lambda>line. sent_back (qnetd_ipc_parse_line al' w (with_line n client (reads line))))"
    and "line = tool_line (qto_operation opts) (qto_verbose opts) (qto_cluster_name opts)"
    and "received line (reads line)"
    and "c = requested_answer al' w (qto_operation opts) (qto_verbose opts)
        (map_option cut_name (qto_cluster_name opts)) (with_line n client (reads line))"
  shows "if 4096 \<le> length line
    then qnetd_tool_main al bc te args = (TOOL_EXIT_CODE_INTERNAL_ERROR, \<lparr>to_stdout = [], to_stderr = []\<rparr>)
    else if uc_schedule_disconnect c
    then qnetd_tool_main al bc te args = (TOOL_EXIT_CODE_NO_ERROR, \<lparr>to_stdout = [], to_stderr = []\<rparr>)
    else (\<exists>body. dyn_data (uc_send_buffer c) = str_bytes ''OK'' @ [chr_nl] @ body \<and>
            qnetd_tool_main al bc te args = (TOOL_EXIT_CODE_NO_ERROR, \<lparr>to_stdout = body, to_stderr = []\<rparr>)) \<or>
         (\<exists>e. dyn_data (uc_send_buffer c) = str_bytes ''Error'' @ [chr_nl] @ e \<and>
            qnetd_tool_main al bc te args =
              (TOOL_EXIT_CODE_RETURNED_ERROR, \<lparr>to_stdout = [], to_stderr = str_bytes ''Error: '' @ e\<rparr>))"
proof (cases "4096 \<le> length line")
  case True
  then show ?thesis using tool_sends_line [OF assms(1,3,4,9)] by simp
next
  case False
  let ?d = "dynar_init 0\<lparr>dyn_data := line @ [0]\<rparr>"
  have main: "qnetd_tool_main al bc te args = tool_talk al True (te_server te) ?d"
    "qto_operation opts \<noteq> QNETD_TOOL_OPERATION_NONE"
    using tool_sends_line [OF assms(1,3,4,9)] False by simp_all
  obtain rtext where rtext: "reads line = tool_word (qto_operation opts) @ [chr_space] @ verbose_word (qto_verbose opts) @ rtext"
    "cluster_text (qto_cluster_name opts) rtext"
    using received_line assms(10) unfolding assms(9) .
  have "length (reads line) \<le> length line" using assms(10) by (auto simp: received_def)
  then have "qnetd_ipc_parse_line al' w (with_line n client (reads line)) = Inr c"
    unfolding assms(11) using False assms(6)
    by (intro parse_tool_line [OF _ _ main(2) assms(2,5) rtext(2)])
      (simp_all add: with_line_def dynar_size_def rtext(1) assms(7))
  then have "te_server te (c_str (dyn_data ?d)) = sent_back (Inr c)"
    using assms(8) tool_line_c_str [OF assms(5)] by (simp add: assms(9))
  moreover have "gets_answer c" unfolding assms(11) by (rule requested_line_answer [OF main(2)])
  ultimately show ?thesis unfolding main(1) if_not_P [OF False] by (intro tool_talk_answer [OF assms(1)])
qed

text \<open>
  The command \<open>corosync-qnetd-tool -l -v -c\<close> with a name that holds a quote and a line feed, for a server
  with two clients that has received the whole line; it answers for the name in front of the line feed.
\<close>

definition ex_cluster :: "byte list" where
  "ex_cluster = str_bytes ''a'' @ [chr_quote] @ str_bytes '' b'' @ [chr_nl] @ str_bytes ''c''"

definition ex_tool_world :: qnetd_world where
  "ex_tool_world =
     (let cl = ex_client 1 No_Client_Data (ex_ring 8) [1, 2] [1, 2]
      in \<lparr>qw_instance = ex_instance No_Cluster_Data cl cl, qw_client_socket = (\<lambda>c. Socket_Prfd c),
          qw_client_addr_str = (\<lambda>c. str_bytes ''::1''), qw_local_ipc = dw_local_ipc ex_qdevice_world,
          qw_host_addr = None, qw_host_port = 5403\<rparr>)"

definition ex_tool_args :: "(char \<times> byte list) list" where
  "ex_tool_args = [(CHR ''l'', []), (CHR ''v'', []), (CHR ''c'', ex_cluster)]"

definition ex_tool_line :: "byte list" where
  "ex_tool_line = tool_line QNETD_TOOL_OPERATION_LIST True (Some ex_cluster)"

definition ex_tool_env :: tool_env where
  "ex_tool_env =
     \<lparr>te_sys = \<lparr>us_socket = 3, us_bind = True, us_chown = True, us_set_non_blocking = True, us_listen = True,
        us_close = True, us_unlink = True, us_accept = 5\<rparr>, te_connected = True, te_fdopen = True, te_sent = True,
      te_server = (\<lambda>line. sent_back (qnetd_ipc_parse_line (\<lambda>r. True) ex_tool_world (with_line 4096 ex_local_client line)))\<rparr>"

definition ex_build_config :: build_config where
  "ex_build_config = \<lparr>bc_corosysconfdir = ''/etc/corosync'', bc_localstatedir = ''/var'', bc_debug = False\<rparr>"

definition ex_tool_opts :: qnetd_tool_options where
  "ex_tool_opts =
     \<lparr>qto_operation = QNETD_TOOL_OPERATION_LIST, qto_verbose = True, qto_cluster_name = Some ex_cluster,
      qto_socket_path = str_bytes ''/var/run/corosync-qnetd/corosync-qnetd.sock''\<rparr>"

definition ex_tool_answer :: unix_socket_client where
  "ex_tool_answer =
     requested_answer (\<lambda>r. True) ex_tool_world QNETD_TOOL_OPERATION_LIST True
       (Some (str_bytes ''a'' @ [chr_quote] @ str_bytes '' b''))
       (with_line 4096 ex_local_client ex_tool_line)"

lemma ex_tool_parse: "qnetd_tool_cli_parse (\<lambda>r. True) ex_build_config ex_tool_args = Inr ex_tool_opts"
  by (simp add: qnetd_tool_cli_parse_def ex_build_config_def ex_tool_args_def ex_tool_opts_def strdup_def
      qnetd_tool_option_def)

lemma ex_tool_facts:
  "tool_connects ex_tool_env (qto_socket_path ex_tool_opts)" "c_string (qto_cluster_name ex_tool_opts)"
  "length ex_tool_line < 4096" "received ex_tool_line ex_tool_line"
  "cut_name ex_cluster = str_bytes ''a'' @ [chr_quote] @ str_bytes '' b''"
  "uc_user_data ex_local_client \<noteq> None"
proof -
  show "received ex_tool_line ex_tool_line"
    unfolding received_def
    by (intro conjI exI [of _ "length ex_tool_line"]) (simp_all add: ex_tool_line_def tool_line_def)
qed (simp_all add: tool_connects_def ex_tool_env_def ex_tool_opts_def unix_socket_client_create_def sun_path_size_def
      c_string_def ex_cluster_def str_bytes_def line_end_def chr_quote_def chr_backslash_def chr_nl_def tool_line_def tool_word_def
      verbose_word_def cluster_words_def quote_chars_def ex_local_client_def unix_socket_client_read_line_def
      unix_socket_client_init_def ex_tool_line_def cut_name_def)

theorem qnetd_tool_roundtrip_witness:
  "if uc_schedule_disconnect ex_tool_answer
   then qnetd_tool_main (\<lambda>r. True) ex_build_config ex_tool_env ex_tool_args =
     (TOOL_EXIT_CODE_NO_ERROR, \<lparr>to_stdout = [], to_stderr = []\<rparr>)
   else (\<exists>body. dyn_data (uc_send_buffer ex_tool_answer) = str_bytes ''OK'' @ [chr_nl] @ body \<and>
           qnetd_tool_main (\<lambda>r. True) ex_build_config ex_tool_env ex_tool_args =
             (TOOL_EXIT_CODE_NO_ERROR, \<lparr>to_stdout = body, to_stderr = []\<rparr>)) \<or>
        (\<exists>e. dyn_data (uc_send_buffer ex_tool_answer) = str_bytes ''Error'' @ [chr_nl] @ e \<and>
           qnetd_tool_main (\<lambda>r. True) ex_build_config ex_tool_env ex_tool_args =
             (TOOL_EXIT_CODE_RETURNED_ERROR, \<lparr>to_stdout = [], to_stderr = str_bytes ''Error: '' @ e\<rparr>))"
proof -
  have al: "alloc_ideal (\<lambda>r. True)" by (simp add: alloc_ideal_def)
  have server: "te_server ex_tool_env =
      (\<lambda>line. sent_back (qnetd_ipc_parse_line (\<lambda>r. True) ex_tool_world (with_line 4096 ex_local_client line)))"
    by (simp add: ex_tool_env_def)
  have line: "ex_tool_line = tool_line (qto_operation ex_tool_opts) (qto_verbose ex_tool_opts) (qto_cluster_name ex_tool_opts)"
    by (simp add: ex_tool_line_def ex_tool_opts_def)
  have answer: "ex_tool_answer = requested_answer (\<lambda>r. True) ex_tool_world (qto_operation ex_tool_opts)
      (qto_verbose ex_tool_opts) (map_option cut_name (qto_cluster_name ex_tool_opts))
      (with_line 4096 ex_local_client ex_tool_line)"
    by (simp add: ex_tool_answer_def ex_tool_opts_def ex_tool_facts(5))
  have short: "\<not> 4096 \<le> length ex_tool_line" using ex_tool_facts(3) by simp
  from qnetd_tool_roundtrip [where reads = "\<lambda>l. l", OF al al ex_tool_parse ex_tool_facts(1,2) order_refl ex_tool_facts(6)
      server line ex_tool_facts(4) answer]
  show ?thesis unfolding if_not_P [OF short] .
qed

end
