(* ===== verification/Send_Buffer_Heap.thy ===== *)
theory Send_Buffer_Heap
  imports Send_Buffer_List
begin

text \<open>
  The same queue, \<open>send-buffer-list.c\<close>, as it lies in memory: the entries are blocks at addresses,
  linked into the waiting list and the list of free entries by the intrusive \<open>TAILQ\<close> of
  \<open>sys/queue.h\<close>. \<open>tqe_prev\<close> and \<open>tqh_last\<close> hold the address of the pointer variable that leads to an
  entry, a \<open>tailq_cell\<close> here. The lemmas show that every sequence of calls in which a caller only
  uses entries it owns leaves both lists well-linked and implements a specification over lists of
  addresses, from which the lists of values of \<open>Send_Buffer_List\<close> are read off. An access to a
  block that is not allocated is a fault of the model.
\<close>

section \<open>The structures and the \<open>TAILQ\<close> macros\<close>

type_synonym addr = nat

datatype tailq_head = Queue_Head | Free_Head
datatype tailq_cell = First tailq_head | Next_Of addr

record heap_entry =
  he_buffer :: dynar
  he_msg_already_sent_bytes :: nat
  he_tqe_next :: "addr option"
  he_tqe_prev :: tailq_cell

text \<open>The struct \<open>send_buffer_list\<close> with its two list heads and the allocated entries.\<close>

record heap_list =
  hl_max_list_entries :: nat
  hl_allocated_list_entries :: nat
  hl_max_buffer_size :: nat
  hl_tqh_first :: "tailq_head \<Rightarrow> addr option"
  hl_tqh_last :: "tailq_head \<Rightarrow> tailq_cell"
  hl_entry :: "addr \<Rightarrow> heap_entry option"

definition upd_entry :: "addr \<Rightarrow> (heap_entry \<Rightarrow> heap_entry) \<Rightarrow> heap_list \<Rightarrow> fault + heap_list" where
  "upd_entry a f h =
     (case hl_entry h a of
        None \<Rightarrow> Inl Use_After_Free
      | Some e \<Rightarrow> Inr (h\<lparr>hl_entry := (hl_entry h)(a \<mapsto> f e)\<rparr>))"

text \<open>The assignment \<open>*c = v\<close> through the address of a pointer variable.\<close>

definition store_cell :: "tailq_cell \<Rightarrow> addr option \<Rightarrow> heap_list \<Rightarrow> fault + heap_list" where
  "store_cell c v h =
     (case c of
        First q \<Rightarrow> Inr (h\<lparr>hl_tqh_first := (hl_tqh_first h)(q := v)\<rparr>)
      | Next_Of a \<Rightarrow> upd_entry a (\<lambda>e. e\<lparr>he_tqe_next := v\<rparr>) h)"

definition set_first :: "tailq_head \<Rightarrow> addr option \<Rightarrow> heap_list \<Rightarrow> heap_list" where
  "set_first q v h = h\<lparr>hl_tqh_first := (hl_tqh_first h)(q := v)\<rparr>"

definition set_last :: "tailq_head \<Rightarrow> tailq_cell \<Rightarrow> heap_list \<Rightarrow> heap_list" where
  "set_last q c h = h\<lparr>hl_tqh_last := (hl_tqh_last h)(q := c)\<rparr>"

definition tailq_init :: "tailq_head \<Rightarrow> heap_list \<Rightarrow> heap_list" where
  "tailq_init q h = set_last q (First q) (set_first q None h)"

definition tailq_insert_head :: "tailq_head \<Rightarrow> addr \<Rightarrow> heap_list \<Rightarrow> fault + heap_list" where
  "tailq_insert_head q a h =
     bindE (upd_entry a (\<lambda>e. e\<lparr>he_tqe_next := hl_tqh_first h q\<rparr>) h) (\<lambda>h1.
     bindE (case hl_tqh_first h q of
              Some b \<Rightarrow> upd_entry b (\<lambda>e. e\<lparr>he_tqe_prev := Next_Of a\<rparr>) h1
            | None \<Rightarrow> Inr (set_last q (Next_Of a) h1)) (\<lambda>h2.
     upd_entry a (\<lambda>e. e\<lparr>he_tqe_prev := First q\<rparr>) (set_first q (Some a) h2)))"

definition tailq_insert_tail :: "tailq_head \<Rightarrow> addr \<Rightarrow> heap_list \<Rightarrow> fault + heap_list" where
  "tailq_insert_tail q a h =
     bindE (upd_entry a (\<lambda>e. e\<lparr>he_tqe_next := None\<rparr>) h) (\<lambda>h1.
     bindE (upd_entry a (\<lambda>e. e\<lparr>he_tqe_prev := hl_tqh_last h q\<rparr>) h1) (\<lambda>h2.
     bindE (store_cell (hl_tqh_last h2 q) (Some a) h2) (\<lambda>h3.
     Inr (set_last q (Next_Of a) h3))))"

definition tailq_remove :: "tailq_head \<Rightarrow> addr \<Rightarrow> heap_list \<Rightarrow> fault + heap_list" where
  "tailq_remove q a h =
     (case hl_entry h a of
        None \<Rightarrow> Inl Use_After_Free
      | Some e \<Rightarrow>
          bindE (case he_tqe_next e of
                   Some b \<Rightarrow> upd_entry b (\<lambda>n. n\<lparr>he_tqe_prev := he_tqe_prev e\<rparr>) h
                 | None \<Rightarrow> Inr (set_last q (he_tqe_prev e) h))
            (store_cell (he_tqe_prev e) (he_tqe_next e)))"

section \<open>The operations of \<open>send-buffer-list.c\<close>\<close>

definition heap_list_init :: "nat \<Rightarrow> nat \<Rightarrow> heap_list" where
  "heap_list_init max_list_entries max_buffer_size =
     tailq_init Free_Head (tailq_init Queue_Head
       \<lparr>hl_max_list_entries = max_list_entries, hl_allocated_list_entries = 0,
        hl_max_buffer_size = max_buffer_size, hl_tqh_first = (\<lambda>_. None), hl_tqh_last = First,
        hl_entry = (\<lambda>_. None)\<rparr>)"

text \<open>
  \<open>m\<close> is what \<open>malloc\<close> returns where it is called: \<open>NULL\<close>, or a block with whatever bytes are in it.
\<close>

definition heap_list_get_new ::
    "(addr \<times> heap_entry) option \<Rightarrow> heap_list \<Rightarrow> fault + (addr option \<times> heap_list)" where
  "heap_list_get_new m h =
     (case hl_tqh_first h Free_Head of
        Some a \<Rightarrow>
          bindE (tailq_remove Free_Head a h) (\<lambda>h1.
          bindE (upd_entry a (\<lambda>e. e\<lparr>he_buffer := dynar_set_max_size (dynar_clean (he_buffer e))
                                                 (hl_max_buffer_size h1)\<rparr>) h1) (\<lambda>h2.
          bindE (upd_entry a (\<lambda>e. e\<lparr>he_msg_already_sent_bytes := 0\<rparr>) h2) (\<lambda>h3.
          Inr (Some a, h3))))
      | None \<Rightarrow>
          if hl_allocated_list_entries h + 1 > hl_max_list_entries h then Inr (None, h)
          else let h1 = h\<lparr>hl_allocated_list_entries := hl_allocated_list_entries h + 1\<rparr>
               in case m of
                    None \<Rightarrow> Inr (None, h1)
                  | Some (a, raw) \<Rightarrow>
                      bindE (upd_entry a (\<lambda>e. e\<lparr>he_buffer := dynar_init (hl_max_buffer_size h1)\<rparr>)
                        (h1\<lparr>hl_entry := (hl_entry h1)(a \<mapsto> raw)\<rparr>)) (\<lambda>h2.
                      bindE (upd_entry a (\<lambda>e. e\<lparr>he_msg_already_sent_bytes := 0\<rparr>) h2) (\<lambda>h3.
                      Inr (Some a, h3))))"

definition heap_list_put :: "addr \<Rightarrow> heap_list \<Rightarrow> fault + heap_list" where
  "heap_list_put a h = tailq_insert_tail Queue_Head a h"

definition heap_list_discard_new :: "addr \<Rightarrow> heap_list \<Rightarrow> fault + heap_list" where
  "heap_list_discard_new a h = tailq_insert_head Free_Head a h"

definition heap_list_get_active :: "heap_list \<Rightarrow> addr option" where
  "heap_list_get_active h = hl_tqh_first h Queue_Head"

definition heap_list_delete :: "addr \<Rightarrow> heap_list \<Rightarrow> fault + heap_list" where
  "heap_list_delete a h = bindE (tailq_remove Queue_Head a h) (tailq_insert_head Free_Head a)"

definition heap_list_empty :: "heap_list \<Rightarrow> bool" where
  "heap_list_empty h \<longleftrightarrow> hl_tqh_first h Queue_Head = None"

text \<open>The loop that frees the entries of one list; it reads the next pointer before \<open>free\<close>.\<close>

partial_function (option) free_entries ::
    "addr option \<Rightarrow> heap_list \<Rightarrow> (fault + heap_list) option" where
  "free_entries entry h =
     (case entry of
        None \<Rightarrow> Some (Inr h)
      | Some a \<Rightarrow>
          (case hl_entry h a of
             None \<Rightarrow> Some (Inl Use_After_Free)
           | Some e \<Rightarrow> free_entries (he_tqe_next e) (h\<lparr>hl_entry := (hl_entry h)(a := None)\<rparr>)))"

definition heap_list_free :: "heap_list \<Rightarrow> (fault + heap_list) option" where
  "heap_list_free h =
     (case free_entries (hl_tqh_first h Queue_Head) h of
        None \<Rightarrow> None
      | Some (Inl f) \<Rightarrow> Some (Inl f)
      | Some (Inr h1) \<Rightarrow>
          (case free_entries (hl_tqh_first h1 Free_Head) h1 of
             None \<Rightarrow> None
           | Some (Inl f) \<Rightarrow> Some (Inl f)
           | Some (Inr h2) \<Rightarrow>
               Some (Inr (tailq_init Free_Head (tailq_init Queue_Head
                 (h2\<lparr>hl_allocated_list_entries := 0\<rparr>))))))"

definition heap_list_set_max_buffer_size :: "nat \<Rightarrow> heap_list \<Rightarrow> heap_list" where
  "heap_list_set_max_buffer_size n h = h\<lparr>hl_max_buffer_size := n\<rparr>"

definition heap_list_set_max_list_entries :: "nat \<Rightarrow> heap_list \<Rightarrow> heap_list" where
  "heap_list_set_max_list_entries n h = h\<lparr>hl_max_list_entries := n\<rparr>"

text \<open>
  A call of the interface with the value it returns, \<open>None\<close> for \<open>NULL\<close> and for \<open>void\<close>. With
  \<open>Write\<close> a caller fills the buffer and sets the count of sent bytes of an entry.
\<close>

datatype queue_call =
    Get_New "(addr \<times> heap_entry) option"
  | Write addr send_buffer_list_entry
  | Put addr
  | Discard_New addr
  | Get_Active
  | Delete addr
  | Free
  | Set_Max_Buffer_Size nat
  | Set_Max_List_Entries nat

definition void :: "fault + heap_list \<Rightarrow> (fault + (addr option \<times> heap_list)) option" where
  "void r = Some (bindE r (\<lambda>h. Inr (None, h)))"

fun heap_step :: "queue_call \<Rightarrow> heap_list \<Rightarrow> (fault + (addr option \<times> heap_list)) option" where
  "heap_step (Get_New m) h = Some (heap_list_get_new m h)"
| "heap_step (Write a v) h =
     void (upd_entry a (\<lambda>e. e\<lparr>he_buffer := sb_buffer v,
       he_msg_already_sent_bytes := sb_msg_already_sent_bytes v\<rparr>) h)"
| "heap_step (Put a) h = void (heap_list_put a h)"
| "heap_step (Discard_New a) h = void (heap_list_discard_new a h)"
| "heap_step Get_Active h = Some (Inr (heap_list_get_active h, h))"
| "heap_step (Delete a) h = void (heap_list_delete a h)"
| "heap_step Free h = (case heap_list_free h of None \<Rightarrow> None | Some r \<Rightarrow> void r)"
| "heap_step (Set_Max_Buffer_Size n) h = void (Inr (heap_list_set_max_buffer_size n h))"
| "heap_step (Set_Max_List_Entries n) h = void (Inr (heap_list_set_max_list_entries n h))"

fun heap_run :: "queue_call list \<Rightarrow> heap_list \<Rightarrow> (fault + (addr option list \<times> heap_list)) option" where
  "heap_run [] h = Some (Inr ([], h))"
| "heap_run (c # cs) h =
     (case heap_step c h of
        None \<Rightarrow> None
      | Some (Inl f) \<Rightarrow> Some (Inl f)
      | Some (Inr (p, h1)) \<Rightarrow>
          (case heap_run cs h1 of
             None \<Rightarrow> None
           | Some (Inl f) \<Rightarrow> Some (Inl f)
           | Some (Inr (ps, h2)) \<Rightarrow> Some (Inr (p # ps, h2))))"

section \<open>The specification\<close>

text \<open>
  What the interface promises: a queue and a stack of free entries, given by their addresses, the
  entries in the hands of the callers, and the value of each entry. A call that a caller may not
  make (of an entry it does not own, or \<open>Free\<close> while it still holds one) has no result.
\<close>

record queue_spec =
  qs_max_list_entries :: nat
  qs_allocated_list_entries :: nat
  qs_max_buffer_size :: nat
  qs_queue :: "addr list"
  qs_free :: "addr list"
  qs_held :: "addr list"
  qs_value :: "addr \<Rightarrow> send_buffer_list_entry option"

definition spec_init :: "nat \<Rightarrow> nat \<Rightarrow> queue_spec" where
  "spec_init max_list_entries max_buffer_size =
     \<lparr>qs_max_list_entries = max_list_entries, qs_allocated_list_entries = 0,
      qs_max_buffer_size = max_buffer_size, qs_queue = [], qs_free = [], qs_held = [],
      qs_value = (\<lambda>_. None)\<rparr>"

definition value_of :: "queue_spec \<Rightarrow> addr \<Rightarrow> send_buffer_list_entry" where
  "value_of s a = the (qs_value s a)"

definition spec_get_new :: "(addr \<times> heap_entry) option \<Rightarrow> queue_spec \<Rightarrow> addr option \<times> queue_spec" where
  "spec_get_new m s =
     (case qs_free s of
        a # rest \<Rightarrow>
          (Some a, s\<lparr>qs_free := rest, qs_held := a # qs_held s,
             qs_value := (qs_value s)(a \<mapsto>
               \<lparr>sb_buffer = dynar_set_max_size (dynar_clean (sb_buffer (value_of s a)))
                  (qs_max_buffer_size s), sb_msg_already_sent_bytes = 0\<rparr>)\<rparr>)
      | [] \<Rightarrow>
          if qs_max_list_entries s \<le> qs_allocated_list_entries s then (None, s)
          else let s1 = s\<lparr>qs_allocated_list_entries := qs_allocated_list_entries s + 1\<rparr>
               in case m of
                    None \<Rightarrow> (None, s1)
                  | Some (a, raw) \<Rightarrow>
                      (Some a, s1\<lparr>qs_held := a # qs_held s,
                         qs_value := (qs_value s)(a \<mapsto>
                           \<lparr>sb_buffer = dynar_init (qs_max_buffer_size s),
                            sb_msg_already_sent_bytes = 0\<rparr>)\<rparr>))"

fun spec_step :: "queue_call \<Rightarrow> queue_spec \<Rightarrow> (addr option \<times> queue_spec) option" where
  "spec_step (Get_New m) s =
     (if \<exists>x\<in>set_option m. qs_value s (fst x) \<noteq> None then None else Some (spec_get_new m s))"
| "spec_step (Write a v) s =
     (if a \<in> set (qs_held s) \<or> a \<in> set (qs_queue s)
      then Some (None, s\<lparr>qs_value := (qs_value s)(a \<mapsto> v)\<rparr>) else None)"
| "spec_step (Put a) s =
     (if a \<in> set (qs_held s)
      then Some (None, s\<lparr>qs_queue := qs_queue s @ [a], qs_held := remove1 a (qs_held s)\<rparr>) else None)"
| "spec_step (Discard_New a) s =
     (if a \<in> set (qs_held s)
      then Some (None, s\<lparr>qs_free := a # qs_free s, qs_held := remove1 a (qs_held s)\<rparr>) else None)"
| "spec_step Get_Active s = Some (case qs_queue s of [] \<Rightarrow> None | a # rest \<Rightarrow> Some a, s)"
| "spec_step (Delete a) s =
     (if a \<in> set (qs_queue s)
      then Some (None, s\<lparr>qs_queue := remove1 a (qs_queue s), qs_free := a # qs_free s\<rparr>) else None)"
| "spec_step Free s =
     (if qs_held s = []
      then Some (None, s\<lparr>qs_allocated_list_entries := 0, qs_queue := [], qs_free := [],
             qs_value := (\<lambda>_. None)\<rparr>) else None)"
| "spec_step (Set_Max_Buffer_Size n) s = Some (None, s\<lparr>qs_max_buffer_size := n\<rparr>)"
| "spec_step (Set_Max_List_Entries n) s = Some (None, s\<lparr>qs_max_list_entries := n\<rparr>)"

fun spec_run :: "queue_call list \<Rightarrow> queue_spec \<Rightarrow> (addr option list \<times> queue_spec) option" where
  "spec_run [] s = Some ([], s)"
| "spec_run (c # cs) s =
     (case spec_step c s of
        None \<Rightarrow> None
      | Some (p, s1) \<Rightarrow>
          (case spec_run cs s1 of None \<Rightarrow> None | Some (ps, s2) \<Rightarrow> Some (p # ps, s2)))"

section \<open>Well-linked lists\<close>

definition cell_val :: "heap_list \<Rightarrow> tailq_cell \<Rightarrow> addr option option" where
  "cell_val h c =
     (case c of First q \<Rightarrow> Some (hl_tqh_first h q)
      | Next_Of a \<Rightarrow> map_option he_tqe_next (hl_entry h a))"

definition prev_val :: "heap_list \<Rightarrow> addr \<Rightarrow> tailq_cell option" where
  "prev_val h a = map_option he_tqe_prev (hl_entry h a)"

definition entry_val :: "heap_list \<Rightarrow> addr \<Rightarrow> send_buffer_list_entry option" where
  "entry_val h a = map_option (\<lambda>e. \<lparr>sb_buffer = he_buffer e,
     sb_msg_already_sent_bytes = he_msg_already_sent_bytes e\<rparr>) (hl_entry h a)"

text \<open>From the cell \<open>c\<close> the next pointers lead over \<open>as\<close> to the cell \<open>d\<close>, and each entry points back.\<close>

fun links :: "heap_list \<Rightarrow> tailq_cell \<Rightarrow> addr list \<Rightarrow> tailq_cell \<Rightarrow> bool" where
  "links h c [] d \<longleftrightarrow> c = d"
| "links h c (a # as) d \<longleftrightarrow>
     cell_val h c = Some (Some a) \<and> prev_val h a = Some c \<and> links h (Next_Of a) as d"

definition tailq :: "heap_list \<Rightarrow> tailq_head \<Rightarrow> addr list \<Rightarrow> bool" where
  "tailq h q as \<longleftrightarrow>
     links h (First q) as (hl_tqh_last h q) \<and> cell_val h (hl_tqh_last h q) = Some None"

definition refines :: "heap_list \<Rightarrow> queue_spec \<Rightarrow> bool" where
  "refines h s \<longleftrightarrow>
     tailq h Queue_Head (qs_queue s) \<and> tailq h Free_Head (qs_free s) \<and>
     distinct (qs_queue s @ qs_free s @ qs_held s) \<and>
     set (qs_queue s @ qs_free s @ qs_held s) = dom (qs_value s) \<and>
     entry_val h = qs_value s \<and>
     hl_max_list_entries h = qs_max_list_entries s \<and>
     hl_allocated_list_entries h = qs_allocated_list_entries s \<and>
     hl_max_buffer_size h = qs_max_buffer_size s"

text \<open>What an operation on the links leaves alone.\<close>

definition same_contents :: "heap_list \<Rightarrow> heap_list \<Rightarrow> bool" where
  "same_contents h h' \<longleftrightarrow> entry_val h' = entry_val h \<and>
     hl_max_list_entries h' = hl_max_list_entries h \<and>
     hl_allocated_list_entries h' = hl_allocated_list_entries h \<and>
     hl_max_buffer_size h' = hl_max_buffer_size h"

lemma same_contents_trans:
  "same_contents h h1 \<Longrightarrow> same_contents h1 h2 \<Longrightarrow> same_contents h h2"
  by (simp add: same_contents_def)

lemma views_upd:
  "cell_val (h\<lparr>hl_entry := (hl_entry h)(a \<mapsto> e)\<rparr>) = (cell_val h)(Next_Of a \<mapsto> he_tqe_next e)"
  "prev_val (h\<lparr>hl_entry := (hl_entry h)(a \<mapsto> e)\<rparr>) = (prev_val h)(a \<mapsto> he_tqe_prev e)"
  "entry_val (h\<lparr>hl_entry := (hl_entry h)(a \<mapsto> e)\<rparr>) = (entry_val h)
     (a \<mapsto> \<lparr>sb_buffer = he_buffer e, sb_msg_already_sent_bytes = he_msg_already_sent_bytes e\<rparr>)"
  by (auto simp: cell_val_def prev_val_def entry_val_def fun_eq_iff split: tailq_cell.splits)

lemma views_set:
  "cell_val (set_first q v h) = (cell_val h)(First q \<mapsto> v)"
  "prev_val (set_first q v h) = prev_val h" "entry_val (set_first q v h) = entry_val h"
  "hl_tqh_last (set_first q v h) = hl_tqh_last h" "hl_entry (set_first q v h) = hl_entry h"
  "cell_val (set_last q c h) = cell_val h" "prev_val (set_last q c h) = prev_val h"
  "entry_val (set_last q c h) = entry_val h" "hl_entry (set_last q c h) = hl_entry h"
  "hl_tqh_last (set_last q c h) = (hl_tqh_last h)(q := c)"
  "same_contents h (set_first q v h)" "same_contents h (set_last q c h)"
  by (auto simp: cell_val_def prev_val_def entry_val_def fun_eq_iff set_first_def set_last_def
      same_contents_def split: tailq_cell.splits)

lemma allocated_views:
  assumes "entry_val h a \<noteq> None"
  obtains e where "hl_entry h a = Some e" "cell_val h (Next_Of a) = Some (he_tqe_next e)"
    "prev_val h a = Some (he_tqe_prev e)" "entry_val h a = Some \<lparr>sb_buffer = he_buffer e,
       sb_msg_already_sent_bytes = he_msg_already_sent_bytes e\<rparr>"
  using assms by (cases "hl_entry h a") (auto simp: cell_val_def prev_val_def entry_val_def)

lemma cell_First: "cell_val h (First q) = Some (hl_tqh_first h q)"
  by (simp add: cell_val_def)

lemma store_prev:
  assumes "entry_val h a \<noteq> None"
  obtains h' where "upd_entry a (\<lambda>e. e\<lparr>he_tqe_prev := c\<rparr>) h = Inr h'"
    "cell_val h' = cell_val h" "prev_val h' = (prev_val h)(a \<mapsto> c)" "hl_tqh_last h' = hl_tqh_last h"
    "same_contents h h'"
proof -
  from assms obtain e where e: "hl_entry h a = Some e" "cell_val h (Next_Of a) = Some (he_tqe_next e)"
    "entry_val h a = Some \<lparr>sb_buffer = he_buffer e,
       sb_msg_already_sent_bytes = he_msg_already_sent_bytes e\<rparr>" by (rule allocated_views)
  show thesis
    by (rule that [of "h\<lparr>hl_entry := (hl_entry h)(a \<mapsto> e\<lparr>he_tqe_prev := c\<rparr>)\<rparr>"])
      (use e in \<open>simp_all add: upd_entry_def views_upd same_contents_def fun_upd_idem\<close>)
qed

lemma store_cell_views:
  assumes "cell_val h c \<noteq> None"
  obtains h' where "store_cell c v h = Inr h'"
    "cell_val h' = (cell_val h)(c \<mapsto> v)" "prev_val h' = prev_val h" "hl_tqh_last h' = hl_tqh_last h"
    "same_contents h h'"
proof (cases c)
  case (First q)
  have "store_cell c v h = Inr (set_first q v h)"
    by (simp add: First store_cell_def set_first_def)
  then show thesis by (rule that) (simp_all add: First views_set)
next
  case (Next_Of a)
  with assms have "entry_val h a \<noteq> None" by (simp add: cell_val_def entry_val_def)
  then obtain e where e: "hl_entry h a = Some e" "prev_val h a = Some (he_tqe_prev e)"
    "entry_val h a = Some \<lparr>sb_buffer = he_buffer e,
       sb_msg_already_sent_bytes = he_msg_already_sent_bytes e\<rparr>" by (rule allocated_views)
  show thesis
    by (rule that [of "h\<lparr>hl_entry := (hl_entry h)(a \<mapsto> e\<lparr>he_tqe_next := v\<rparr>)\<rparr>"])
      (use e in \<open>simp_all add: Next_Of store_cell_def upd_entry_def views_upd same_contents_def fun_upd_idem\<close>)
qed

lemma links_append: "links h c (xs @ ys) d \<longleftrightarrow> (\<exists>m. links h c xs m \<and> links h m ys d)"
  by (induction xs arbitrary: c) auto

lemma links_end: "links h c xs d \<Longrightarrow> d = last (c # map Next_Of xs)"
  by (induction xs arbitrary: c) auto

text \<open>A chain depends on the cells before its end and on the back pointers of its entries.\<close>

lemma links_frame:
  assumes "links h c xs d"
    and "\<And>x. x \<in> set (butlast (c # map Next_Of xs)) \<Longrightarrow> cell_val h' x = cell_val h x"
    and "\<And>a. a \<in> set xs \<Longrightarrow> prev_val h' a = prev_val h a"
  shows "links h' c xs d"
  using assms
proof (induction xs arbitrary: c)
  case (Cons a xs)
  from Cons.prems(1) have l: "links h (Next_Of a) xs d" by simp
  have "links h' (Next_Of a) xs d"
    by (rule Cons.IH [OF l]) (use Cons.prems(2,3) in auto)
  then show ?case using Cons.prems by simp
qed simp

lemma links_allocated: "links h c xs d \<Longrightarrow> a \<in> set xs \<Longrightarrow> entry_val h a \<noteq> None"
  by (induction xs arbitrary: c) (auto simp: prev_val_def entry_val_def)

lemma cells_distinct: "distinct xs \<Longrightarrow> distinct (First q # map Next_Of xs)"
  by (auto simp: distinct_map inj_on_def)

lemma end_not_before:
  assumes "links h (First q) xs d" and "distinct xs"
  shows "d \<notin> set (butlast (First q # map Next_Of xs))"
proof -
  have "distinct (butlast (First q # map Next_Of xs) @ [d])"
    using links_end [OF assms(1)] cells_distinct [OF assms(2), of q]
    by (metis append_butlast_last_id list.distinct(1))
  then show ?thesis by simp
qed

lemma in_cells: "x \<in> set (butlast (c # map Next_Of xs)) \<Longrightarrow> x = c \<or> x \<in> Next_Of ` set xs"
  by (drule in_set_butlastD) auto

lemma end_in_cells: "links h c xs d \<Longrightarrow> d = c \<or> d \<in> Next_Of ` set xs"
  by (induction xs arbitrary: c) auto

lemma links_entry:
  assumes "links h c (ys @ a # zs) d"
  obtains m where "links h c ys m" "cell_val h m = Some (Some a)" "prev_val h a = Some m"
    "links h (Next_Of a) zs d"
  using assms by (auto simp: links_append)

lemma tailq_frame:
  assumes "tailq h q xs" and "hl_tqh_last h' q = hl_tqh_last h q"
    and "\<And>x. x = First q \<or> x \<in> Next_Of ` set xs \<Longrightarrow> cell_val h' x = cell_val h x"
    and "\<And>a. a \<in> set xs \<Longrightarrow> prev_val h' a = prev_val h a"
  shows "tailq h' q xs"
proof -
  have l: "links h (First q) xs (hl_tqh_last h q)" and n: "cell_val h (hl_tqh_last h q) = Some None"
    using assms(1) by (simp_all add: tailq_def)
  have "links h' (First q) xs (hl_tqh_last h q)"
    by (rule links_frame [OF l]) (use assms(3,4) in_cells in blast)+
  moreover have "cell_val h' (hl_tqh_last h q) = Some None"
    using n end_in_cells [OF l] assms(3) by auto
  ultimately show ?thesis by (simp add: tailq_def assms(2))
qed

lemma tailq_first:
  assumes "tailq h q xs"
  shows "hl_tqh_first h q = (case xs of [] \<Rightarrow> None | a # _ \<Rightarrow> Some a)"
proof (cases xs)
  case Nil
  then have "cell_val h (First q) = Some None" using assms by (auto simp: tailq_def)
  then show ?thesis using Nil by (simp add: cell_First)
next
  case (Cons a ys)
  then show ?thesis using assms by (simp add: tailq_def cell_First)
qed

text \<open>
  The three macros on a well-linked list, and that they leave another list alone: \<open>others\<close> says
  that every list that shares no entry with \<open>as\<close> stays as it is.
\<close>

definition others :: "tailq_head \<Rightarrow> addr set \<Rightarrow> heap_list \<Rightarrow> heap_list \<Rightarrow> bool" where
  "others q as h h' \<longleftrightarrow> (\<forall>q' ys. q' \<noteq> q \<and> tailq h q' ys \<and> set ys \<inter> as = {} \<longrightarrow> tailq h' q' ys)"

lemma others_I:
  assumes "\<And>q'. q' \<noteq> q \<Longrightarrow> hl_tqh_last h' q' = hl_tqh_last h q'"
    and "\<And>x. x \<noteq> First q \<Longrightarrow> x \<notin> Next_Of ` as \<Longrightarrow> cell_val h' x = cell_val h x"
    and "\<And>a. a \<notin> as \<Longrightarrow> prev_val h' a = prev_val h a"
  shows "others q as h h'"
  unfolding others_def
proof (intro allI impI, elim conjE)
  fix q' ys assume q: "q' \<noteq> q" and t: "tailq h q' ys" and d: "set ys \<inter> as = {}"
  show "tailq h' q' ys"
  proof (rule tailq_frame [OF t])
    fix x assume "x = First q' \<or> x \<in> Next_Of ` set ys"
    then show "cell_val h' x = cell_val h x" using q d by (intro assms(2)) auto
  next
    fix a assume "a \<in> set ys"
    then show "prev_val h' a = prev_val h a" using d by (intro assms(3)) auto
  qed (rule assms(1) [OF q])
qed

lemma others_trans: "others q as h h1 \<Longrightarrow> others q as h1 h2 \<Longrightarrow> others q as h h2"
  by (simp add: others_def)

lemma insert_tail_ok:
  assumes t: "tailq h q xs" and dist: "distinct xs" and a: "entry_val h a \<noteq> None" "a \<notin> set xs"
  obtains h' where "tailq_insert_tail q a h = Inr h'" "tailq h' q (xs @ [a])" "same_contents h h'"
    "others q (insert a (set xs)) h h'"
proof -
  let ?l = "hl_tqh_last h q"
  have l: "links h (First q) xs ?l" and n: "cell_val h ?l = Some None"
    using t by (simp_all add: tailq_def)
  have la: "?l \<noteq> Next_Of a" using end_in_cells [OF l] a(2) by auto
  have "cell_val h (Next_Of a) \<noteq> None" using a(1) by (auto simp: cell_val_def entry_val_def)
  then obtain h1 where h1: "upd_entry a (\<lambda>e. e\<lparr>he_tqe_next := None\<rparr>) h = Inr h1"
    "cell_val h1 = (cell_val h)(Next_Of a \<mapsto> None)" "prev_val h1 = prev_val h"
    "hl_tqh_last h1 = hl_tqh_last h" "same_contents h h1"
    by (rule store_cell_views [of h "Next_Of a" None]) (simp add: store_cell_def)
  have "entry_val h1 a \<noteq> None" using a(1) h1(5) by (simp add: same_contents_def)
  then obtain h2 where h2: "upd_entry a (\<lambda>e. e\<lparr>he_tqe_prev := ?l\<rparr>) h1 = Inr h2"
    "cell_val h2 = cell_val h1" "prev_val h2 = (prev_val h1)(a \<mapsto> ?l)"
    "hl_tqh_last h2 = hl_tqh_last h1" "same_contents h1 h2" by (rule store_prev)
  have "cell_val h2 ?l \<noteq> None" using n h1(2) h2(2) by simp
  then obtain h3 where h3: "store_cell ?l (Some a) h2 = Inr h3"
    "cell_val h3 = (cell_val h2)(?l \<mapsto> Some a)" "prev_val h3 = prev_val h2"
    "hl_tqh_last h3 = hl_tqh_last h2" "same_contents h2 h3" by (rule store_cell_views)
  let ?h' = "set_last q (Next_Of a) h3"
  have cells: "cell_val ?h' = (cell_val h)(Next_Of a \<mapsto> None, ?l \<mapsto> Some a)"
    and prevs: "prev_val ?h' = (prev_val h)(a \<mapsto> ?l)"
    using h1 h2 h3 by (simp_all add: views_set)
  show thesis
  proof (rule that [of ?h'])
    show "tailq_insert_tail q a h = Inr ?h'"
      using h1(1,4) h2(1,4) h3(1) by (simp add: tailq_insert_tail_def)
    have "links ?h' (First q) xs ?l"
    proof (rule links_frame [OF l])
      fix x assume x: "x \<in> set (butlast (First q # map Next_Of xs))"
      with end_not_before [OF l dist] in_cells [OF x] a(2) have "x \<noteq> ?l" "x \<noteq> Next_Of a" by auto
      then show "cell_val ?h' x = cell_val h x" by (simp add: cells)
    qed (use a(2) in \<open>auto simp: prevs\<close>)
    then show "tailq ?h' q (xs @ [a])"
      using la by (simp add: tailq_def links_append cells prevs views_set(10))
    show "same_contents h ?h'"
      by (rule same_contents_trans [OF same_contents_trans
        [OF same_contents_trans [OF h1(5) h2(5)] h3(5)] views_set(12)])
    show "others q (insert a (set xs)) h ?h'"
    proof (rule others_I)
      fix x assume x: "x \<noteq> First q" "x \<notin> Next_Of ` insert a (set xs)"
      with end_in_cells [OF l] have "x \<noteq> ?l" "x \<noteq> Next_Of a" by auto
      then show "cell_val ?h' x = cell_val h x" by (simp add: cells)
    next
      fix q' assume "q' \<noteq> q"
      then show "hl_tqh_last ?h' q' = hl_tqh_last h q'" using h1(4) h2(4) h3(4) by (simp add: views_set)
    next
      fix b assume "b \<notin> insert a (set xs)"
      then show "prev_val ?h' b = prev_val h b" by (simp add: prevs)
    qed
  qed
qed

lemma insert_head_ok:
  assumes t: "tailq h q xs" and dist: "distinct xs" and a: "entry_val h a \<noteq> None" "a \<notin> set xs"
  obtains h' where "tailq_insert_head q a h = Inr h'" "tailq h' q (a # xs)" "same_contents h h'"
    "others q (insert a (set xs)) h h'"
proof -
  let ?f = "hl_tqh_first h q"
  have l: "links h (First q) xs (hl_tqh_last h q)" and n: "cell_val h (hl_tqh_last h q) = Some None"
    using t by (simp_all add: tailq_def)
  have "cell_val h (Next_Of a) \<noteq> None" using a(1) by (auto simp: cell_val_def entry_val_def)
  then obtain h1 where h1: "upd_entry a (\<lambda>e. e\<lparr>he_tqe_next := ?f\<rparr>) h = Inr h1"
    "cell_val h1 = (cell_val h)(Next_Of a \<mapsto> ?f)" "prev_val h1 = prev_val h"
    "hl_tqh_last h1 = hl_tqh_last h" "same_contents h h1"
    by (rule store_cell_views [of h "Next_Of a" ?f]) (simp add: store_cell_def)
  obtain h2 where h2: "(case ?f of Some b \<Rightarrow> upd_entry b (\<lambda>e. e\<lparr>he_tqe_prev := Next_Of a\<rparr>) h1
      | None \<Rightarrow> Inr (set_last q (Next_Of a) h1)) = Inr h2"
    "cell_val h2 = cell_val h1"
    "prev_val h2 = (case xs of [] \<Rightarrow> prev_val h1 | b # ys \<Rightarrow> (prev_val h1)(b \<mapsto> Next_Of a))"
    "hl_tqh_last h2 = (case xs of [] \<Rightarrow> (hl_tqh_last h1)(q := Next_Of a) | b # ys \<Rightarrow> hl_tqh_last h1)"
    "same_contents h1 h2"
  proof (cases xs)
    case Nil
    then have "?f = None" using tailq_first [OF t] by simp
    then show thesis using that [of "set_last q (Next_Of a) h1"] Nil by (simp add: views_set)
  next
    case (Cons b ys)
    then have f: "?f = Some b" and "entry_val h b \<noteq> None"
      using l links_allocated [OF l, of b] by (simp_all add: cell_First)
    then have "entry_val h1 b \<noteq> None" using h1(5) by (simp add: same_contents_def)
    then obtain h2 where "upd_entry b (\<lambda>e. e\<lparr>he_tqe_prev := Next_Of a\<rparr>) h1 = Inr h2"
      "cell_val h2 = cell_val h1" "prev_val h2 = (prev_val h1)(b \<mapsto> Next_Of a)"
      "hl_tqh_last h2 = hl_tqh_last h1" "same_contents h1 h2" by (rule store_prev)
    then show thesis using that [of h2] f Cons by simp
  qed
  have "entry_val (set_first q (Some a) h2) a \<noteq> None"
    using a(1) h1(5) h2(5) by (simp add: same_contents_def views_set)
  then obtain h' where h3: "upd_entry a (\<lambda>e. e\<lparr>he_tqe_prev := First q\<rparr>) (set_first q (Some a) h2) = Inr h'"
    "cell_val h' = (cell_val h2)(First q \<mapsto> Some a)" "prev_val h' = (prev_val h2)(a \<mapsto> First q)"
    "hl_tqh_last h' = hl_tqh_last h2" "same_contents (set_first q (Some a) h2) h'"
    by (rule store_prev) (simp_all add: views_set)
  have cells: "cell_val h' = (cell_val h)(Next_Of a \<mapsto> ?f, First q \<mapsto> Some a)"
    using h1 h2 h3 by simp
  show thesis
  proof (rule that [of h'])
    show "tailq_insert_head q a h = Inr h'"
      using h1(1) h2(1) h3(1) by (simp add: tailq_insert_head_def)
    show "tailq h' q (a # xs)"
    proof (cases xs)
      case Nil
      then have "?f = None" using tailq_first [OF t] by simp
      then show ?thesis using Nil h1 h2 h3 by (simp add: tailq_def)
    next
      case (Cons b ys)
      have l': "links h (Next_Of b) ys (hl_tqh_last h q)" using l Cons by simp
      have "links h' (Next_Of b) ys (hl_tqh_last h q)"
        by (rule links_frame [OF l'])
          (use a(2) dist Cons h1 h2 h3 in_cells [of _ "Next_Of b" ys] in \<open>auto simp: cells\<close>)
      moreover have "cell_val h' (hl_tqh_last h q) = Some None"
        using n end_in_cells [OF l'] a(2) Cons by (auto simp: cells)
      ultimately show ?thesis
        using Cons l a(2) dist h1 h2 h3 by (auto simp: tailq_def cells cell_First)
    qed
    show "same_contents h h'"
      by (rule same_contents_trans [OF same_contents_trans
        [OF same_contents_trans [OF h1(5) h2(5)] views_set(11)] h3(5)])
    show "others q (insert a (set xs)) h h'"
      by (rule others_I) (use h1 h2 h3 in \<open>auto simp: cells split: list.splits\<close>)
  qed
qed

lemma remove_ok:
  assumes t: "tailq h q (ys @ a # zs)" and dist: "distinct (ys @ a # zs)"
  obtains h' where "tailq_remove q a h = Inr h'" "tailq h' q (ys @ zs)" "same_contents h h'"
    "others q (set (ys @ a # zs)) h h'"
proof -
  let ?l = "hl_tqh_last h q"
  have l: "links h (First q) (ys @ a # zs) ?l" and n: "cell_val h ?l = Some None"
    using t by (simp_all add: tailq_def)
  from l obtain m where m: "links h (First q) ys m" "cell_val h m = Some (Some a)"
    "prev_val h a = Some m" "links h (Next_Of a) zs ?l" by (rule links_entry)
  have "entry_val h a \<noteq> None" by (rule links_allocated [OF l]) simp
  then obtain e where e: "hl_entry h a = Some e" "cell_val h (Next_Of a) = Some (he_tqe_next e)"
    "prev_val h a = Some (he_tqe_prev e)" by (rule allocated_views)
  have prev: "he_tqe_prev e = m" using e(3) m(3) by simp
  obtain h1 where h1: "(case he_tqe_next e of Some b \<Rightarrow> upd_entry b (\<lambda>n. n\<lparr>he_tqe_prev := m\<rparr>) h
      | None \<Rightarrow> Inr (set_last q m h)) = Inr h1"
    "cell_val h1 = cell_val h"
    "prev_val h1 = (case zs of [] \<Rightarrow> prev_val h | b # _ \<Rightarrow> (prev_val h)(b \<mapsto> m))"
    "hl_tqh_last h1 = (case zs of [] \<Rightarrow> (hl_tqh_last h)(q := m) | b # _ \<Rightarrow> hl_tqh_last h)"
    "same_contents h h1"
  proof (cases zs)
    case Nil
    then have "he_tqe_next e = None" using m(4) n e(2) by simp
    then show thesis using that [of "set_last q m h"] Nil by (simp add: views_set)
  next
    case (Cons b us)
    then have f: "he_tqe_next e = Some b" and "entry_val h b \<noteq> None"
      using m(4) e(2) links_allocated [OF l, of b] by simp_all
    from this(2) obtain h1 where "upd_entry b (\<lambda>n. n\<lparr>he_tqe_prev := m\<rparr>) h = Inr h1"
      "cell_val h1 = cell_val h" "prev_val h1 = (prev_val h)(b \<mapsto> m)"
      "hl_tqh_last h1 = hl_tqh_last h" "same_contents h h1" by (rule store_prev)
    then show thesis using that [of h1] f Cons by simp
  qed
  have "cell_val h1 m \<noteq> None" using h1(2) m(2) by simp
  then obtain h' where h2: "store_cell m (he_tqe_next e) h1 = Inr h'"
    "cell_val h' = (cell_val h)(m \<mapsto> he_tqe_next e)" "prev_val h' = prev_val h1"
    "hl_tqh_last h' = hl_tqh_last h1" "same_contents h1 h'"
    by (rule store_cell_views) (use h1(2) in simp)
  have my: "m = First q \<or> m \<in> Next_Of ` set ys" by (rule end_in_cells [OF m(1)])
  have pre: "links h' (First q) ys m"
  proof (rule links_frame [OF m(1)])
    fix x assume "x \<in> set (butlast (First q # map Next_Of ys))"
    with end_not_before [OF m(1)] dist have "x \<noteq> m" by auto
    then show "cell_val h' x = cell_val h x" by (simp add: h2(2))
  qed (use dist in \<open>auto simp: h2(3) h1(3) split: list.splits\<close>)
  show thesis
  proof (rule that [of h'])
    show "tailq_remove q a h = Inr h'"
      unfolding tailq_remove_def e(1) option.case prev h1(1) by (simp add: h2(1))
    show "tailq h' q (ys @ zs)"
    proof (cases zs)
      case Nil
      then show ?thesis using pre m(4) n e(2) h1 h2 by (simp add: tailq_def)
    next
      case (Cons b us)
      then have l': "links h (Next_Of b) us ?l" and b: "he_tqe_next e = Some b"
        using m(4) e(2) by simp_all
      have apart: "m \<noteq> x" if "x = Next_Of b \<or> x \<in> Next_Of ` set us" for x
        using that my dist Cons by auto
      have "links h' (Next_Of b) us ?l"
      proof (rule links_frame [OF l'])
        fix x assume "x \<in> set (butlast (Next_Of b # map Next_Of us))"
        then show "cell_val h' x = cell_val h x" using apart in_cells h2(2) by (metis fun_upd_other)
      qed (use dist Cons in \<open>auto simp: h2(3) h1(3)\<close>)
      moreover have "cell_val h' ?l = Some None"
        using apart end_in_cells [OF l'] n h2(2) by (metis fun_upd_other)
      ultimately show ?thesis
        using pre b Cons h1 h2 by (auto simp: tailq_def links_append)
    qed
    show "same_contents h h'" by (rule same_contents_trans [OF h1(5) h2(5)])
    show "others q (set (ys @ a # zs)) h h'"
      by (rule others_I) (use my h1 h2 in \<open>auto split: list.splits\<close>)
  qed
qed

section \<open>Each call implements its specification\<close>

text \<open>\<open>implements\<close> relates the outcome of a call with the outcome that the specification gives.\<close>

definition implements ::
    "(fault + (addr option \<times> heap_list)) option \<Rightarrow> addr option \<times> queue_spec \<Rightarrow> bool" where
  "implements r ps \<longleftrightarrow> (\<exists>h. r = Some (Inr (fst ps, h)) \<and> refines h (snd ps))"

lemma implements_void:
  "r = Inr h \<Longrightarrow> refines h s \<Longrightarrow> implements (void r) (None, s)"
  by (simp add: implements_def void_def)

lemma refines_D:
  assumes "refines h s"
  shows "tailq h Queue_Head (qs_queue s)" "tailq h Free_Head (qs_free s)"
    "distinct (qs_queue s)" "distinct (qs_free s)" "distinct (qs_held s)"
    "set (qs_queue s) \<inter> set (qs_free s) = {}" "set (qs_queue s) \<inter> set (qs_held s) = {}"
    "set (qs_free s) \<inter> set (qs_held s) = {}"
    "dom (qs_value s) = set (qs_queue s) \<union> set (qs_free s) \<union> set (qs_held s)"
    "entry_val h = qs_value s" "hl_max_list_entries h = qs_max_list_entries s"
    "hl_allocated_list_entries h = qs_allocated_list_entries s"
    "hl_max_buffer_size h = qs_max_buffer_size s"
  using assms by (auto simp: refines_def)

text \<open>Writing to the fields that are not links.\<close>

lemma write_views:
  assumes "hl_entry h a = Some e" and "he_tqe_next (f e) = he_tqe_next e"
    and "he_tqe_prev (f e) = he_tqe_prev e"
    and "h' = h\<lparr>hl_entry := (hl_entry h)(a \<mapsto> f e)\<rparr>"
  shows "tailq h q xs \<Longrightarrow> tailq h' q xs"
proof (erule tailq_frame)
  have "cell_val h' = cell_val h"
    using assms by (simp add: views_upd(1) fun_upd_idem cell_val_def)
  then show "cell_val h' x = cell_val h x" for x by simp
  have "prev_val h' = prev_val h"
    using assms by (simp add: views_upd(2) fun_upd_idem prev_val_def)
  then show "prev_val h' b = prev_val h b" for b by simp
qed (simp add: assms(4))

lemma put_implements:
  assumes r: "refines h s" and a: "a \<in> set (qs_held s)"
  shows "implements (void (heap_list_put a h))
    (None, s\<lparr>qs_queue := qs_queue s @ [a], qs_held := remove1 a (qs_held s)\<rparr>)"
proof -
  note D = refines_D [OF r]
  have "entry_val h a \<noteq> None" "a \<notin> set (qs_queue s)" using D(7,9,10) a by auto
  with D(1,3) obtain h' where h': "tailq_insert_tail Queue_Head a h = Inr h'"
    "tailq h' Queue_Head (qs_queue s @ [a])" "same_contents h h'"
    "others Queue_Head (insert a (set (qs_queue s))) h h'" by (rule insert_tail_ok)
  have "tailq h' Free_Head (qs_free s)"
    using h'(4) D(2,6,8) a by (auto simp: others_def)
  then have "refines h' (s\<lparr>qs_queue := qs_queue s @ [a], qs_held := remove1 a (qs_held s)\<rparr>)"
    using h'(2,3) D a by (auto simp: refines_def same_contents_def distinct_remove1)
  with h'(1) show ?thesis by (intro implements_void) (simp_all add: heap_list_put_def)
qed

lemma discard_implements:
  assumes r: "refines h s" and a: "a \<in> set (qs_held s)"
  shows "implements (void (heap_list_discard_new a h))
    (None, s\<lparr>qs_free := a # qs_free s, qs_held := remove1 a (qs_held s)\<rparr>)"
proof -
  note D = refines_D [OF r]
  have "entry_val h a \<noteq> None" "a \<notin> set (qs_free s)" using D(8,9,10) a by auto
  with D(2,4) obtain h' where h': "tailq_insert_head Free_Head a h = Inr h'"
    "tailq h' Free_Head (a # qs_free s)" "same_contents h h'"
    "others Free_Head (insert a (set (qs_free s))) h h'" by (rule insert_head_ok)
  have "tailq h' Queue_Head (qs_queue s)"
    using h'(4) D(1,6,7) a by (auto simp: others_def)
  then have "refines h' (s\<lparr>qs_free := a # qs_free s, qs_held := remove1 a (qs_held s)\<rparr>)"
    using h'(2,3) D a by (auto simp: refines_def same_contents_def distinct_remove1)
  with h'(1) show ?thesis by (intro implements_void) (simp_all add: heap_list_discard_new_def)
qed

lemma delete_implements:
  assumes r: "refines h s" and a: "a \<in> set (qs_queue s)"
  shows "implements (void (heap_list_delete a h))
    (None, s\<lparr>qs_queue := remove1 a (qs_queue s), qs_free := a # qs_free s\<rparr>)"
proof -
  note D = refines_D [OF r]
  from a obtain ys zs where q: "qs_queue s = ys @ a # zs" by (meson split_list)
  have new: "remove1 a (qs_queue s) = ys @ zs"
    using D(3) by (simp add: q remove1_append)
  have t: "tailq h Queue_Head (ys @ a # zs)" "distinct (ys @ a # zs)" using D(1,3) by (simp_all add: q)
  from t obtain h1 where h1: "tailq_remove Queue_Head a h = Inr h1" "tailq h1 Queue_Head (ys @ zs)"
    "same_contents h h1" "others Queue_Head (set (ys @ a # zs)) h h1" by (rule remove_ok)
  have t1: "tailq h1 Free_Head (qs_free s)"
    using h1(4) D(2,6) by (auto simp: others_def q)
  have "entry_val h1 a \<noteq> None" "a \<notin> set (qs_free s)"
    using h1(3) D(6,9,10) a by (auto simp: same_contents_def)
  with t1 D(4) obtain h2 where h2: "tailq_insert_head Free_Head a h1 = Inr h2"
    "tailq h2 Free_Head (a # qs_free s)" "same_contents h1 h2"
    "others Free_Head (insert a (set (qs_free s))) h1 h2" by (rule insert_head_ok)
  have t2: "tailq h2 Queue_Head (ys @ zs)"
    using h2(4) h1(2) D(6) t(2) by (auto simp: others_def q)
  have "refines h2 (s\<lparr>qs_queue := ys @ zs, qs_free := a # qs_free s\<rparr>)"
    using t2 h2(2) h1(3) h2(3) D t(2) by (auto simp: refines_def same_contents_def q)
  with h1(1) h2(1) show ?thesis
    unfolding new by (intro implements_void) (simp_all add: heap_list_delete_def)
qed

lemma write_implements:
  assumes r: "refines h s" and a: "a \<in> set (qs_held s) \<or> a \<in> set (qs_queue s)"
  shows "implements (heap_step (Write a v) h) (None, s\<lparr>qs_value := (qs_value s)(a \<mapsto> v)\<rparr>)"
proof -
  note D = refines_D [OF r]
  have al: "entry_val h a \<noteq> None" using D(9,10) a by auto
  then obtain e where e: "hl_entry h a = Some e" by (auto simp: entry_val_def)
  let ?f = "\<lambda>e. e\<lparr>he_buffer := sb_buffer v, he_msg_already_sent_bytes := sb_msg_already_sent_bytes v\<rparr>"
  let ?h = "h\<lparr>hl_entry := (hl_entry h)(a \<mapsto> ?f e)\<rparr>"
  have up: "upd_entry a ?f h = Inr ?h" using e by (simp add: upd_entry_def)
  have t: "tailq ?h q xs" if "tailq h q xs" for q xs
    by (rule write_views [OF e _ _ refl that]) simp_all
  have v: "entry_val ?h = (qs_value s)(a \<mapsto> v)" by (cases v) (simp add: views_upd(3) D(10))
  have dm: "dom ((qs_value s)(a \<mapsto> v)) = dom (qs_value s)" using al D(10) by auto
  have "refines ?h (s\<lparr>qs_value := (qs_value s)(a \<mapsto> v)\<rparr>)"
    using t D(1,2) v dm D(3-9) D(11-13) by (auto simp: refines_def simp del: fun_upd_apply)
  with up show ?thesis
    unfolding heap_step.simps by (rule implements_void)
qed

lemma get_new_free_implements:
  assumes r: "refines h s" and f: "qs_free s = a # rest"
  shows "implements (Some (heap_list_get_new m h)) (spec_get_new m s)"
proof -
  note D = refines_D [OF r]
  have first: "hl_tqh_first h Free_Head = Some a" using tailq_first [OF D(2)] f by simp
  have t: "tailq h Free_Head ([] @ a # rest)" "distinct ([] @ a # rest)" using D(2,4) f by simp_all
  from t obtain h1 where h1: "tailq_remove Free_Head a h = Inr h1" "tailq h1 Free_Head ([] @ rest)"
    "same_contents h h1" "others Free_Head (set ([] @ a # rest)) h h1" by (rule remove_ok)
  have t1: "tailq h1 Queue_Head (qs_queue s)" "tailq h1 Free_Head rest"
    using h1(2,4) D(1,6) f by (auto simp: others_def)
  have ev: "entry_val h1 = qs_value s" using h1(3) D(10) by (simp add: same_contents_def)
  have "entry_val h1 a \<noteq> None" using ev D(9) f by auto
  then obtain e where e: "hl_entry h1 a = Some e" by (auto simp: entry_val_def)
  have val: "sb_buffer (value_of s a) = he_buffer e"
    using e by (simp add: value_of_def flip: ev) (simp add: entry_val_def)
  let ?f = "\<lambda>e. e\<lparr>he_buffer := dynar_set_max_size (dynar_clean (he_buffer e)) (hl_max_buffer_size h1),
    he_msg_already_sent_bytes := 0\<rparr>"
  let ?h = "h1\<lparr>hl_entry := (hl_entry h1)(a \<mapsto> ?f e)\<rparr>"
  have get: "heap_list_get_new m h = Inr (Some a, ?h)"
    using e by (simp add: heap_list_get_new_def first h1(1) upd_entry_def)
  have "tailq ?h q xs" if "tailq h1 q xs" for q xs
    by (rule write_views [OF e _ _ refl that]) simp_all
  note t2 = t1 [THEN this]
  have sp: "fst (spec_get_new m s) = Some a"
    by (simp add: spec_get_new_def f)
  have v: "entry_val ?h = qs_value (snd (spec_get_new m s))"
    using h1(3) D(13) by (simp add: views_upd(3) ev spec_get_new_def f val same_contents_def)
  have dm: "dom (qs_value (snd (spec_get_new m s))) = dom (qs_value s)"
    using D(9) f by (auto simp: spec_get_new_def)
  have "refines ?h (snd (spec_get_new m s))"
    unfolding refines_def dm v using t2 D(3-9) D(11-13) h1(3) f
    by (auto simp: spec_get_new_def same_contents_def)
  then show ?thesis using get sp by (auto simp: implements_def)
qed

lemma get_new_alloc_implements:
  assumes r: "refines h s" and f: "qs_free s = []"
    and fresh: "\<forall>x\<in>set_option m. qs_value s (fst x) = None"
  shows "implements (Some (heap_list_get_new m h)) (spec_get_new m s)"
proof -
  note D = refines_D [OF r]
  have first: "hl_tqh_first h Free_Head = None" using tailq_first [OF D(2)] f by simp
  let ?h1 = "h\<lparr>hl_allocated_list_entries := Suc (hl_allocated_list_entries h)\<rparr>"
  let ?s1 = "s\<lparr>qs_allocated_list_entries := Suc (qs_allocated_list_entries s)\<rparr>"
  have views: "cell_val ?h1 = cell_val h" "prev_val ?h1 = prev_val h" "entry_val ?h1 = entry_val h"
    by (auto simp: fun_eq_iff cell_val_def prev_val_def entry_val_def split: tailq_cell.splits)
  have t1: "tailq ?h1 q xs" if "tailq h q xs" for q xs
    by (rule tailq_frame [OF that]) (simp_all add: views)
  have r1: "refines ?h1 ?s1"
    unfolding refines_def
    using t1 [OF D(1)] t1 [OF D(2)] views(3) D(3-13) by auto
  show ?thesis
  proof (cases "qs_max_list_entries s \<le> qs_allocated_list_entries s")
    case True
    then show ?thesis
      using D(11,12) r by (simp add: implements_def heap_list_get_new_def spec_get_new_def first f)
  next
    case room: False
    show ?thesis
    proof (cases m)
      case None
      then show ?thesis
        using D(11,12) r1 room by (simp add: implements_def heap_list_get_new_def spec_get_new_def first f Let_def)
    next
      case (Some ar)
      then obtain a raw where m: "m = Some (a, raw)" by (cases ar) auto
      have na: "qs_value s a = None" using fresh m by simp
      let ?e = "raw\<lparr>he_buffer := dynar_init (hl_max_buffer_size h), he_msg_already_sent_bytes := 0\<rparr>"
      let ?h = "?h1\<lparr>hl_entry := (hl_entry h)(a \<mapsto> ?e)\<rparr>"
      have get: "heap_list_get_new m h = Inr (Some a, ?h)"
        using D(11,12) room by (simp add: heap_list_get_new_def first m upd_entry_def Let_def)
      have nd: "a \<notin> dom (qs_value s)" using na by (simp add: domIff)
      have out: "a \<notin> set (qs_queue s)" "a \<notin> set (qs_free s)" "a \<notin> set (qs_held s)"
        using nd D(9) by auto
      have cells: "cell_val ?h = (cell_val h)(Next_Of a \<mapsto> he_tqe_next ?e)"
        and prevs: "prev_val ?h = (prev_val h)(a \<mapsto> he_tqe_prev ?e)"
        and vals: "entry_val ?h = (entry_val h)(a \<mapsto> \<lparr>sb_buffer = dynar_init (hl_max_buffer_size h),
          sb_msg_already_sent_bytes = 0\<rparr>)"
        using views_upd [of ?h1 a ?e] by (simp_all add: views)
      have t2: "tailq ?h q xs" if "tailq h q xs" "a \<notin> set xs" for q xs
        by (rule tailq_frame [OF that(1)]) (use that(2) in \<open>auto simp: cells prevs\<close>)
      have sp: "spec_get_new m s = (Some a, ?s1\<lparr>qs_held := a # qs_held s, qs_value := entry_val ?h\<rparr>)"
        unfolding vals using room by (simp add: spec_get_new_def f m D(10,13) Let_def)
      have dm: "dom (entry_val ?h) = insert a (dom (qs_value s))" by (auto simp: vals D(10))
      have "refines ?h (snd (spec_get_new m s))"
        unfolding refines_def sp using t2 [OF D(1) out(1)] t2 [OF D(2) out(2)] D(3-9) D(11-13) out dm
        by auto
      then show ?thesis using get sp by (auto simp: implements_def)
    qed
  qed
qed

text \<open>The entries of a list in the order of the next pointers, for the loops that free them.\<close>

fun next_path :: "(addr \<Rightarrow> heap_entry option) \<Rightarrow> addr option \<Rightarrow> addr list \<Rightarrow> bool" where
  "next_path en p [] \<longleftrightarrow> p = None"
| "next_path en p (a # as) \<longleftrightarrow>
     p = Some a \<and> (case en a of None \<Rightarrow> False | Some e \<Rightarrow> next_path en (he_tqe_next e) as)"

lemma next_path_cong:
  "(\<And>a. a \<in> set as \<Longrightarrow> en' a = en a) \<Longrightarrow> next_path en p as \<Longrightarrow> next_path en' p as"
  by (induction as arbitrary: p) (auto split: option.splits)

lemma links_next_path:
  "links h c xs d \<Longrightarrow> cell_val h d = Some None \<Longrightarrow> cell_val h c = Some p \<Longrightarrow>
   next_path (hl_entry h) p xs"
proof (induction xs arbitrary: c p)
  case (Cons a xs)
  from Cons.prems(1) obtain e where e: "hl_entry h a = Some e"
    by (auto simp: prev_val_def)
  then have "cell_val h (Next_Of a) = Some (he_tqe_next e)" by (simp add: cell_val_def)
  from Cons.IH [OF _ Cons.prems(2) this] Cons.prems e show ?case by simp
qed simp

lemma tailq_next_path: "tailq h q xs \<Longrightarrow> next_path (hl_entry h) (hl_tqh_first h q) xs"
  by (rule links_next_path [of h "First q" _ "hl_tqh_last h q"]) (simp_all add: tailq_def cell_First)

text \<open>The loop ends, frees exactly the entries of the list and touches none after its \<open>free\<close>.\<close>

lemma free_entries_path:
  "next_path (hl_entry h) p xs \<Longrightarrow> distinct xs \<Longrightarrow>
   free_entries p h = Some (Inr (h\<lparr>hl_entry := hl_entry h |` (- set xs)\<rparr>))"
proof (induction xs arbitrary: p h)
  case Nil
  then show ?case by (simp add: free_entries.simps)
next
  case (Cons a xs)
  then obtain e where e: "p = Some a" "hl_entry h a = Some e" "next_path (hl_entry h) (he_tqe_next e) xs"
    by (auto split: option.splits)
  let ?h = "h\<lparr>hl_entry := (hl_entry h)(a := None)\<rparr>"
  have "next_path (hl_entry ?h) (he_tqe_next e) xs"
    by (rule next_path_cong [OF _ e(3)]) (use Cons.prems(2) in auto)
  then have "free_entries (he_tqe_next e) ?h = Some (Inr (?h\<lparr>hl_entry := hl_entry ?h |` (- set xs)\<rparr>))"
    by (rule Cons.IH) (use Cons.prems(2) in simp)
  moreover have "?h\<lparr>hl_entry := hl_entry ?h |` (- set xs)\<rparr> = h\<lparr>hl_entry := hl_entry h |` (- set (a # xs))\<rparr>"
    by (cases h) (auto simp: restrict_map_def)
  moreover have "free_entries p h = free_entries (he_tqe_next e) ?h"
    unfolding e(1) by (simp add: free_entries.simps [of "Some a"] e(2))
  ultimately show ?case by (simp only:)
qed

lemma free_implements:
  assumes r: "refines h s" and held: "qs_held s = []"
  shows "implements (heap_step Free h) (None, s\<lparr>qs_allocated_list_entries := 0, qs_queue := [],
    qs_free := [], qs_value := (\<lambda>_. None)\<rparr>)"
proof -
  note D = refines_D [OF r]
  let ?h1 = "h\<lparr>hl_entry := hl_entry h |` (- set (qs_queue s))\<rparr>"
  let ?h2 = "?h1\<lparr>hl_entry := hl_entry ?h1 |` (- set (qs_free s))\<rparr>"
  let ?h3 = "tailq_init Free_Head (tailq_init Queue_Head (?h2\<lparr>hl_allocated_list_entries := 0\<rparr>))"
  have f1: "free_entries (hl_tqh_first h Queue_Head) h = Some (Inr ?h1)"
    by (rule free_entries_path [OF tailq_next_path [OF D(1)] D(3)])
  have "next_path (hl_entry ?h1) (hl_tqh_first h Free_Head) (qs_free s)"
    by (rule next_path_cong [OF _ tailq_next_path [OF D(2)]]) (use D(6) in \<open>auto simp: restrict_map_def\<close>)
  then have f2: "free_entries (hl_tqh_first ?h1 Free_Head) ?h1 = Some (Inr ?h2)"
    using free_entries_path [of ?h1 _ "qs_free s"] D(4) by simp
  have "hl_entry h a = None" if "a \<notin> set (qs_queue s)" "a \<notin> set (qs_free s)" for a
  proof -
    have "entry_val h a = None" using D(9,10) held that by (auto simp: dom_def)
    then show ?thesis by (simp add: entry_val_def)
  qed
  then have none: "hl_entry ?h2 = (\<lambda>_. None)"
    by (auto simp: restrict_map_def fun_eq_iff)
  have "refines ?h3 (s\<lparr>qs_allocated_list_entries := 0, qs_queue := [], qs_free := [],
      qs_value := (\<lambda>_. None)\<rparr>)"
    using none D(11,13) held
    by (auto simp: refines_def tailq_def tailq_init_def set_first_def set_last_def cell_val_def
        entry_val_def fun_eq_iff)
  moreover have "heap_list_free h = Some (Inr ?h3)"
    unfolding heap_list_free_def f1 option.case sum.case f2 by simp
  ultimately show ?thesis by (simp add: implements_void)
qed

lemma step_implements:
  assumes r: "refines h s" and st: "spec_step c s = Some ps"
  shows "implements (heap_step c h) ps"
proof (cases c)
  case (Get_New m)
  with st have fresh: "\<forall>x\<in>set_option m. qs_value s (fst x) = None" and ps: "ps = spec_get_new m s"
    by (auto split: if_splits)
  show ?thesis
  proof (cases "qs_free s")
    case Nil
    from get_new_alloc_implements [OF r this fresh] show ?thesis by (simp add: Get_New ps)
  next
    case (Cons a rest)
    from get_new_free_implements [OF r this] show ?thesis by (simp add: Get_New ps)
  qed
next
  case (Write a v)
  with st have own: "a \<in> set (qs_held s) \<or> a \<in> set (qs_queue s)" by (auto split: if_splits)
  with st have "ps = (None, s\<lparr>qs_value := (qs_value s)(a \<mapsto> v)\<rparr>)" by (simp add: Write)
  with write_implements [OF r own] show ?thesis by (simp only: Write)
next
  case (Put a)
  with put_implements [OF r] st show ?thesis by (auto split: if_splits)
next
  case (Discard_New a)
  with discard_implements [OF r] st show ?thesis by (auto split: if_splits)
next
  case Get_Active
  with st r tailq_first [OF refines_D(1) [OF r]] show ?thesis
    by (auto simp: implements_def heap_list_get_active_def)
next
  case (Delete a)
  with delete_implements [OF r] st show ?thesis by (auto split: if_splits)
next
  case Free
  with free_implements [OF r] st show ?thesis by (auto split: if_splits simp del: heap_step.simps)
next
  case (Set_Max_Buffer_Size n)
  have "refines (heap_list_set_max_buffer_size n h) (s\<lparr>qs_max_buffer_size := n\<rparr>)"
    using refines_D [OF r]
    by (auto simp: refines_def heap_list_set_max_buffer_size_def entry_val_def fun_eq_iff
        intro!: tailq_frame [of h _ _ "h\<lparr>hl_max_buffer_size := n\<rparr>"] simp: cell_val_def prev_val_def
        split: tailq_cell.splits)
  with st show ?thesis by (auto simp: Set_Max_Buffer_Size implements_void)
next
  case (Set_Max_List_Entries n)
  have "refines (heap_list_set_max_list_entries n h) (s\<lparr>qs_max_list_entries := n\<rparr>)"
    using refines_D [OF r]
    by (auto simp: refines_def heap_list_set_max_list_entries_def entry_val_def fun_eq_iff
        intro!: tailq_frame [of h _ _ "h\<lparr>hl_max_list_entries := n\<rparr>"] simp: cell_val_def prev_val_def
        split: tailq_cell.splits)
  with st show ?thesis by (auto simp: Set_Max_List_Entries implements_void)
qed

lemma run_implements:
  assumes "refines h s" and "spec_run cs s = Some (ps, s')"
  shows "\<exists>h'. heap_run cs h = Some (Inr (ps, h')) \<and> refines h' s'"
  using assms
proof (induction cs arbitrary: h s ps)
  case (Cons c cs)
  from Cons.prems(2) obtain p s1 qs where st: "spec_step c s = Some (p, s1)"
    and rest: "spec_run cs s1 = Some (qs, s')" and ps: "ps = p # qs"
    by (auto split: option.splits prod.splits)
  from step_implements [OF Cons.prems(1) st] obtain h1
    where h1: "heap_step c h = Some (Inr (p, h1))" "refines h1 s1" by (auto simp: implements_def)
  from Cons.IH [OF h1(2) rest] show ?case using h1(1) ps by auto
qed simp

lemma refines_init: "refines (heap_list_init n m) (spec_init n m)"
  by (auto simp: refines_def heap_list_init_def spec_init_def tailq_init_def tailq_def set_first_def
      set_last_def cell_val_def entry_val_def fun_eq_iff)

section \<open>The lists of values\<close>

text \<open>
  The state of \<open>Send_Buffer_List\<close> that a state of the specification stands for, and what the same
  call is there. Its \<open>send_buffer_list_delete\<close> takes the entry by its value, which is the same for
  the entry that \<open>send_buffer_list_get_active\<close> returns; the callers delete no other.
\<close>

definition as_values :: "queue_spec \<Rightarrow> send_buffer_list" where
  "as_values s = \<lparr>sbl_max_list_entries = qs_max_list_entries s,
     sbl_allocated_list_entries = qs_allocated_list_entries s,
     sbl_max_buffer_size = qs_max_buffer_size s,
     sbl_list = map (value_of s) (qs_queue s), sbl_free_list = map (value_of s) (qs_free s)\<rparr>"

definition active :: "queue_spec \<Rightarrow> addr \<Rightarrow> bool" where
  "active q a \<longleftrightarrow> qs_queue q \<noteq> [] \<and> a = hd (qs_queue q)"

fun value_step :: "queue_call \<Rightarrow> queue_spec \<Rightarrow> send_buffer_list \<Rightarrow> send_buffer_list" where
  "value_step (Get_New m) q s = snd (send_buffer_list_get_new (\<lambda>_. m \<noteq> None) s)"
| "value_step (Write a v) q s =
     (if active q a then s\<lparr>sbl_list := v # tl (sbl_list s)\<rparr> else s)"
| "value_step (Put a) q s = send_buffer_list_put s (value_of q a)"
| "value_step (Discard_New a) q s = send_buffer_list_discard_new s (value_of q a)"
| "value_step Get_Active q s = s"
| "value_step (Delete a) q s = send_buffer_list_delete s (value_of q a)"
| "value_step Free q s = send_buffer_list_free s"
| "value_step (Set_Max_Buffer_Size n) q s = send_buffer_list_set_max_buffer_size s n"
| "value_step (Set_Max_List_Entries n) q s = send_buffer_list_set_max_list_entries s n"

text \<open>A caller writes to an entry it holds or to the active entry, and deletes the active entry.\<close>

fun usual_call :: "queue_call \<Rightarrow> queue_spec \<Rightarrow> bool" where
  "usual_call (Write a v) s \<longleftrightarrow> a \<in> set (qs_held s) \<or> active s a"
| "usual_call (Delete a) s \<longleftrightarrow> active s a"
| "usual_call c s \<longleftrightarrow> True"

lemma spec_step_values:
  assumes r: "refines h s" and st: "spec_step c s = Some (p, s')" and us: "usual_call c s"
  shows "as_values s' = value_step c s (as_values s)"
proof (cases c)
  case (Get_New m)
  note D = refines_D [OF r]
  have new: "a \<notin> set (qs_queue s) \<and> a \<notin> set (qs_free s)" if "qs_value s a = None" for a
  proof -
    have "a \<notin> dom (qs_value s)" using that by (simp add: domIff)
    then show ?thesis using D(9) by auto
  qed
  have free: "a \<notin> set (qs_queue s) \<and> a \<notin> set rest" if "qs_free s = a # rest" for a rest
    using that D(4,6) by auto
  have "qs_value s (fst x) = None" if "m = Some x" for x using st that Get_New by (auto split: if_splits)
  then show ?thesis using st Get_New new free
    by (cases m)
      (auto simp: as_values_def send_buffer_list_get_new_def spec_get_new_def value_of_def Let_def
        split: if_splits list.splits)
next
  case (Write a v)
  note D = refines_D [OF r]
  show ?thesis
  proof (cases "active s a")
    case True
    then obtain rest where q: "qs_queue s = a # rest" by (cases "qs_queue s") (auto simp: active_def)
    then have "a \<notin> set rest" "a \<notin> set (qs_free s)" using D(3,6) by auto
    with st Write True q show ?thesis by (auto simp: as_values_def value_of_def)
  next
    case False
    with us Write have "a \<in> set (qs_held s)" by simp
    with D(7,8) have "a \<notin> set (qs_queue s)" "a \<notin> set (qs_free s)" by auto
    with st Write False show ?thesis by (auto simp: as_values_def value_of_def split: if_splits)
  qed
next
  case (Delete a)
  with us obtain rest where "qs_queue s = a # rest" by (cases "qs_queue s") (auto simp: active_def)
  with st Delete show ?thesis
    by (auto simp: as_values_def value_of_def send_buffer_list_delete_def)
qed (use st in \<open>auto simp: as_values_def value_of_def sbl_defs send_buffer_list_set_max_buffer_size_def
    send_buffer_list_set_max_list_entries_def split: if_splits\<close>)

section \<open>Property\<close>

text \<open>
  C34. The intrusive lists of the send buffer implement the queue. Take any sequence of calls in
  which the callers use only what they own: they put and discard entries that \<open>get_new\<close> handed to
  them, write to such entries and to waiting ones, delete any waiting entry, wherever it stands in
  the queue, and free the list when they hold none. \<open>malloc\<close> may fail at any call, and hands out
  blocks that are not in use, with arbitrary contents. Then no call touches memory that is not allocated,
  every loop ends, the calls return the entries that the specification names (an entry is handed out once
  until it is given back, the active entry is the oldest waiting one), both lists are well-linked
  forwards and backwards and hold the entries of the specification with their contents, no entry is in two
  places, and the empty test is right. For the next call of a caller that writes only to the entries it
  holds and to the active one, and deletes only the active one, as all callers in the program do, the
  values change exactly as in the operations of \<open>Send_Buffer_List\<close>, over which the rest of the
  development is stated.
\<close>

theorem send_buffer_heap_refines:
  assumes "spec_run cs (spec_init n m) = Some (ps, s)"
  shows "\<exists>h. heap_run cs (heap_list_init n m) = Some (Inr (ps, h)) \<and> refines h s \<and>
    heap_list_get_active h = (case qs_queue s of [] \<Rightarrow> None | a # _ \<Rightarrow> Some a) \<and>
    heap_list_empty h = send_buffer_list_empty (as_values s) \<and>
    (\<forall>c p s'. spec_step c s = Some (p, s') \<and> usual_call c s \<longrightarrow>
       as_values s' = value_step c s (as_values s))"
proof -
  from run_implements [OF refines_init assms] obtain h where
    h: "heap_run cs (heap_list_init n m) = Some (Inr (ps, h))" and r: "refines h s" by blast
  have "heap_list_get_active h = (case qs_queue s of [] \<Rightarrow> None | a # _ \<Rightarrow> Some a)"
    using tailq_first [OF refines_D(1) [OF r]] by (simp add: heap_list_get_active_def)
  moreover from this have "heap_list_empty h = send_buffer_list_empty (as_values s)"
    by (auto simp: heap_list_empty_def heap_list_get_active_def send_buffer_list_empty_def as_values_def
        split: list.splits)
  ultimately show ?thesis using h r spec_step_values [OF r] by blast
qed

text \<open>Three messages are queued, the middle one is deleted, then the oldest; a free entry is reused.\<close>

lemma send_buffer_heap_refines_witness:
  "\<exists>h. heap_run [Get_New (Some (7, \<lparr>he_buffer = dynar_init 0, he_msg_already_sent_bytes = 5,
           he_tqe_next = Some 99, he_tqe_prev = Next_Of 99\<rparr>)), Put 7,
         Get_New (Some (8, \<lparr>he_buffer = dynar_init 0, he_msg_already_sent_bytes = 5,
           he_tqe_next = None, he_tqe_prev = First Free_Head\<rparr>)), Put 8,
         Get_New (Some (9, \<lparr>he_buffer = dynar_init 0, he_msg_already_sent_bytes = 5,
           he_tqe_next = None, he_tqe_prev = First Free_Head\<rparr>)), Put 9,
         Get_New None, Delete 8, Get_Active, Delete 7, Get_New None, Get_Active]
       (heap_list_init 3 100) =
     Some (Inr ([Some 7, None, Some 8, None, Some 9, None, None, None, Some 7, None, Some 7, Some 9], h)) \<and>
     tailq h Queue_Head [9] \<and> tailq h Free_Head [8]"
proof -
  let ?raw = "\<lparr>he_buffer = dynar_init 0, he_msg_already_sent_bytes = 5,
    he_tqe_next = None, he_tqe_prev = First Free_Head\<rparr>"
  let ?cs = "[Get_New (Some (7, \<lparr>he_buffer = dynar_init 0, he_msg_already_sent_bytes = 5,
           he_tqe_next = Some 99, he_tqe_prev = Next_Of 99\<rparr>)), Put 7,
         Get_New (Some (8, ?raw)), Put 8, Get_New (Some (9, ?raw)), Put 9,
         Get_New None, Delete 8, Get_Active, Delete 7, Get_New None, Get_Active]"
  obtain s where s: "spec_run ?cs (spec_init 3 100) =
      Some ([Some 7, None, Some 8, None, Some 9, None, None, None, Some 7, None, Some 7, Some 9], s)"
    "qs_queue s = [9]" "qs_free s = [8]"
    by (simp add: spec_init_def spec_get_new_def)
  from send_buffer_heap_refines [OF s(1)] s(2,3) show ?thesis by (auto simp: refines_def)
qed

end
