(* ===== verification/Spec2Isabelle.thy ===== *)
theory Spec2Isabelle
  imports Msg_Roundtrip Ffsplit_Props Lms_Props Qnetd_Client_Net Timer_Props
    Heuristics_Props Vote_Delivery Worker_Props Config_Props Qnetd_Loop_Props Ipc_Tools
    Send_Buffer_Heap
begin

text \<open>
  A verification development for corosync-qdevice: the network daemon \<open>corosync-qnetd\<close> (the server), which
  gives clusters an additional vote, the daemon \<open>corosync-qdevice\<close> (the client), which runs on the nodes of a
  cluster, asks the server and votes in corosync, the protocol library that both share, and their command line
  tools. All file names are relative to \<open>src/qdevices\<close>.

  \<^bold>\<open>The program.\<close> Nodes of a cluster connect to the server. They send their configuration and
  membership node lists as messages of type-length-value options; a decision algorithm, chosen per
  cluster, answers with a vote (ACK, NACK, wait, ask later, no change) or sends votes on its own. The client
  casts the vote with \<open>votequorum_qdevice_poll\<close>, repeats it by a timer, and may run commands (heuristics) in a
  forked worker whose result goes into the decision.
  The layers, each of which calls the ones before:

  \<^item> byte buffers (\<open>dynar.c\<close>, \<open>dynar-str.c\<close>), node lists (\<open>node-list.c\<close>), output queues
    (\<open>send-buffer-list.c\<close>), timers (\<open>timer-list.c\<close>), lexers (\<open>dynar-simple-lex.c\<close>, \<open>dynar-getopt-lex.c\<close>);
  \<^item> options (\<open>tlv.c\<close>) and messages (\<open>msg.c\<close>), their transfer over sockets (\<open>msgio.c\<close>);
  \<^item> the poll loop (\<open>pr-poll-loop.c\<close>, \<open>pr-poll-array.c\<close>) and local sockets (\<open>unix-socket*.c\<close>);
  \<^item> settings and command lines (\<open>*-advanced-settings.c\<close>, \<open>utils.c\<close>, \<open>corosync-*.c\<close>);
  \<^item> the state of the server (\<open>qnetd-client*.c\<close>, \<open>qnetd-cluster*.c\<close>, \<open>qnetd-instance.c\<close>), the decision
    algorithms (\<open>qnetd-algo-*.c\<close>) behind one interface (\<open>qnetd-algorithm.c\<close>), the handlers of the messages
    (\<open>qnetd-client-msg-received.c\<close>), the connections (\<open>qnetd-client-net.c\<close>), the local interface (\<open>qnetd-ipc*.c\<close>) and
    the main loop (\<open>corosync-qnetd.c\<close>);
  \<^item> the configuration of the client (\<open>qdevice-cmap.c\<close>, \<open>qdevice-instance.c\<close>, \<open>qdevice-net-instance.c\<close>), its net model
    (\<open>qdevice-model-net.c\<close>, \<open>qdevice-net-*.c\<close>), its callbacks (\<open>qdevice-votequorum.c\<close>, \<open>qdevice-cmap.c\<close>,
    \<open>qdevice-pr-poll-loop-cb.c\<close>), the heuristics with worker and process list (\<open>qdevice-heuristics*.c\<close>,
    \<open>process-list.c\<close>), and its local interface (\<open>qdevice-ipc*.c\<close>, \<open>qdevice-net-ipc-cmd.c\<close>).

  \<^bold>\<open>How the model follows the code.\<close> A C struct is a \<open>record\<close>, an enumeration a \<open>datatype\<close> (with a
  constructor for values outside of the enumeration where the code casts unchecked integers), a
  \<open>uint32_t\<close> a 32-bit word. A function keeps its name; two static functions of one name get the name of their
  program as a prefix. It takes the state it reads and returns its
  C result with the new state; \<open>size_t\<close> quantities are \<open>nat\<close> except where the code relies on
  wrap-around (\<open>ff_score\<close>). Objects that lists of other structures point to (clients and clusters of the server, entries of
  the poll loop, local clients) live behind references, so that use of a freed object shows. Everything outside is an argument:
  the allocator (\<open>allocator\<close>, which requests for memory succeed: a function of the
  request, so that equal requests of one run succeed or fail alike), the bytes behind a buffer
  (\<open>memtail\<close>, for reads that run over its end), the sockets (\<open>recv_result\<close>, \<open>send_result\<close>,
  \<open>accept_env\<close>, \<open>unix_sys\<close>), the TLS library (\<open>nss_env\<close>), corosync (\<open>qdev_env\<close>, \<open>cmap_env\<close>), processes (\<open>os_env\<close>), \<open>PR_Poll\<close>
  (\<open>pv_poll\<close>). What ends the process or leaves defined behaviour is a
  value of \<open>fault\<close>. Loops over lists are structural recursions; the loops of the option iterator, of the lexers and of the
  settings have termination proofs by the input that is left. The two walks of the poll loop over lists that
  callbacks change and the loop of \<open>send_buffer_list_free\<close> are partial functions with a proof that they return. \<open>list_args_loop\<close> has the length
  of the line as fuel (\<open>list_args_fuel\<close> says that it is enough);
  the reading and writing loops of \<open>Msgio\<close> run over a list of chunk sizes, and the properties say
  how many chunks are enough; \<open>qnetd_run_main_loop\<close> runs over a list of turns.

  \<^bold>\<open>Theories: shared parts.\<close>

  \<^item> \<open>Prelude\<close>: machine integers, network byte order as a codec (locale \<open>fixed_codec\<close>), reads from
    memory, allocation, faults. \<open>C_Strings\<close>: characters, numbers as text, \<open>strtoll\<close>.
  \<^item> \<open>Dynar\<close>: the dynamic array; the contract \<open>writes\<close> of everything that extends a message.
  \<^item> \<open>Tlv_Types\<close>, \<open>Tlv\<close>, \<open>Tlv_Iter\<close>: the enumerations with their codes (a locale for casts), one adder
    and one decoder per option, the iterator; the loop over the iterator equals a fold over the
    reference parser \<open>tlv_split\<close>.
  \<^item> \<open>Node_List\<close>: node lists; \<open>node_list_eq\<close> decides equality of multisets.
  \<^item> \<open>Msg\<close>, \<open>Msg_Decode\<close>, \<open>Msg_Roundtrip\<close>: creators, the decoder with its owned pointers, and what the
    decoder makes of created messages. \<open>Msgio\<close>: framing of messages on a byte stream.
  \<^item> \<open>Send_Buffer_List\<close>: the output queue (locale \<open>fifo\<close>) and its limits. \<open>Send_Buffer_Heap\<close>: the same functions over
    linked entries in memory that are freed and reused; every run of calls refines a queue, and the loop of
    \<open>send_buffer_list_free\<close> returns.
  \<^item> \<open>Timer_List\<close>, \<open>Timer_Heap\<close>, \<open>Timer_Props\<close>: the heap of timers over a clock that wraps around; the
    heap property, the absence of failing assertions, and the loop that runs the due timers (locale
    \<open>min_queue\<close> for what the poll loop relies on).
  \<^item> \<open>Lexers\<close>: both lexers equal reference scanners; quoted words are read back.
  \<^item> \<open>Settings\<close>, \<open>Cli\<close>, \<open>Cli_Props\<close>: settings, setters and command lines of both daemons (locale
    \<open>settings_contract\<close>): a daemon runs only with settings within their limits.
  \<^item> \<open>Poll_Array\<close>, \<open>Poll_Loop\<close>, \<open>Poll_Safe\<close>: the poll loop over callbacks that may change its list. The locale
    \<open>poll_contract\<close> states what callbacks have to keep; a turn then returns and uses no freed entry. The locale \<open>poll_view\<close>
    says what the prepared array holds.
  \<^item> \<open>Unix_Ipc\<close>: listening sockets, their clients and the buffers of limited size.
  \<^item> \<open>Ipc_Props\<close>, \<open>Ipc_Tools\<close>: answers of both daemons to local clients, the command line tools, and both together.

  \<^bold>\<open>Theories: the server.\<close>

  \<^item> \<open>Qnetd_State\<close>, \<open>Qnetd_Clusters\<close>: records and operations of the daemon; the invariant
    \<open>cluster_list_wf\<close> of the linked lists and the frame \<open>same_core\<close>.
  \<^item> \<open>Algo_Interface\<close>, \<open>Algo_Test\<close>, \<open>Algo_2nodelms\<close>, \<open>Algo_Lms\<close>, \<open>Algo_Ffsplit\<close>, \<open>Qnetd_Algorithm\<close>: the
    interface of the algorithms (locale \<open>decision_algorithm\<close>, interpreted by each of them) and the
    dispatch.
  \<^item> \<open>Lms_Props\<close>, \<open>Ffsplit_Props\<close>: what the votes guarantee: at most one partition of a split is
    acknowledged, NACKs are confirmed before ACKs go out, the last confirmation queues the ACK messages, ties are broken the same way for all.
  \<^item> \<open>Client_Msg_Received\<close>, \<open>Handler_Props\<close>: the handlers; guards for TLS and initialisation, the
    invariant under every message.
  \<^item> \<open>Qnetd_Client_Net\<close>: connections, and the events of the daemon as a step relation; the invariant
    holds in all reachable states.
  \<^item> \<open>Qnetd_Ipc_Cmd\<close>, \<open>Qnetd_Ipc\<close>: the local interface with its commands.
  \<^item> \<open>Qnetd_Main_Loop\<close>, \<open>Qnetd_Loop_Inv\<close>, \<open>Qnetd_Loop_Props\<close>: the callbacks of the server in the poll loop. They are an
    interpretation of \<open>poll_contract\<close> and \<open>poll_view\<close>: the loop is safe, queued output is polled, shutting down ends it.
  \<^item> \<open>Example_State\<close>: a small concrete daemon state for the witnesses.

  \<^bold>\<open>Theories: the client.\<close>

  \<^item> \<open>Config\<close>, \<open>Config_Props\<close>: the configuration read from cmap and what holds after it was read.
  \<^item> \<open>Qdevice_State\<close>, \<open>Qdevice_Send\<close>, \<open>Qdevice_Algo\<close>, \<open>Qdevice_Heuristics\<close>, \<open>Qdevice_Msg_Received\<close>,
    \<open>Qdevice_Net_Socket\<close>, \<open>Qdevice_Model_Net\<close>, \<open>Qdevice_Callbacks\<close>: the net model, from the state to the callbacks of corosync,
    timers and pipes.
  \<^item> \<open>Qdevice_Votes\<close>, \<open>Qdevice_Props\<close>, \<open>Vote_Delivery\<close>: how the vote changes (locale \<open>vote_relation\<close>): no ACK without the
    server, consistent timers, votes of the server that are cast.
  \<^item> \<open>Heuristics\<close>, \<open>Heuristics_Props\<close>: the commands, the pipes and the text protocol between the processes.
  \<^item> \<open>Process_List\<close>, \<open>Process_Props\<close>, \<open>Heuristics_Worker\<close>, \<open>Worker_Props\<close>: child processes and the worker: PASS is
    sound, every request is answered once.
  \<^item> \<open>Qdevice_Ipc_Cmd\<close>, \<open>Qdevice_Ipc\<close>: the local interface with the printed status.

  \<^bold>\<open>Not modelled.\<close> The deadlines of the timers of the daemons (in their state a running timer is represented by its
  interval; the timer list is verified on its own, and the poll loop runs it), the callbacks of the client inside the poll
  loop (they are the events of \<open>qdevice_step\<close>), the remaining steps of the two \<open>main\<close> functions (daemonizing, lock file,
  set-up and clean-up of libraries), the wrappers of NSS sockets, certificates and corosync libraries, which only pass on results of
  system libraries, the umask around \<open>bind\<close> of a local socket, the socket object that TLS puts in place of the plain one
  after STARTTLS, log output, and the unit tests.
\<close>

end
